(* ===== verification/Prelude.thy ===== *)
theory Prelude
  imports Main "HOL-Library.AList" "HOL-Library.Char_ord" "HOL-Library.List_Lexorder"
    "HOL-Library.Product_Lexorder" "HOL-Library.Multiset"
begin

text \<open>
  What the components share: the Python values the program computes with (insertion-ordered
  dictionaries, optional strings and their truthiness, \<open>str.strip\<close> and \<open>str.lower\<close>,
  timestamps in microseconds, JSON payloads), the collections of automation rules, and the
  generic lemmas on dictionaries and counting that the component proofs use.

  A Python string is a \<open>string\<close> whose characters are the code points below 256;
  \<open>py_strip\<close> and \<open>py_lower\<close> agree with \<open>str.strip\<close> and \<open>str.lower\<close> on those.
\<close>

named_theorems lease_updates \<open>the operations on leased records, unfolded in the proofs about them\<close>

section \<open>Dictionaries\<close>

text \<open>
  A Python dictionary keeps its keys in insertion order; overwriting a key keeps its position
  and deleting it forgets it. An association list with \<open>AList.update\<close> and \<open>AList.delete\<close>
  does exactly this, and \<open>map_of\<close> reads it.
\<close>

type_synonym ('k, 'v) dict = "('k \<times> 'v) list"

abbreviation dict_get :: "('k, 'v) dict \<Rightarrow> 'k \<Rightarrow> 'v option" where
  "dict_get d k \<equiv> map_of d k"

abbreviation dict_set :: "'k \<Rightarrow> 'v \<Rightarrow> ('k, 'v) dict \<Rightarrow> ('k, 'v) dict" where
  "dict_set k v d \<equiv> AList.update k v d"

abbreviation dict_pop :: "'k \<Rightarrow> ('k, 'v) dict \<Rightarrow> ('k, 'v) dict" where
  "dict_pop k d \<equiv> AList.delete k d"

abbreviation dict_values :: "('k, 'v) dict \<Rightarrow> 'v list" where
  "dict_values d \<equiv> map snd d"

abbreviation dict_ok :: "('k, 'v) dict \<Rightarrow> bool" where
  "dict_ok d \<equiv> distinct (map fst d)"

text \<open>Every value is stored under its own key, and no key occurs twice.\<close>

definition keyed_dict :: "('v \<Rightarrow> 'k) \<Rightarrow> ('k, 'v) dict \<Rightarrow> bool" where
  "keyed_dict key d \<longleftrightarrow> dict_ok d \<and> (\<forall>(k, v) \<in> set d. key v = k)"

lemma dict_get_set [simp]: "dict_get (dict_set k v d) = (dict_get d)(k \<mapsto> v)"
  by (simp add: AList.update_conv' fun_upd_def)

lemma dict_get_pop [simp]: "dict_get (dict_pop k d) = (dict_get d)(k := None)"
  by (simp add: AList.delete_conv' fun_upd_def)

lemma dict_ok_set [intro]: "dict_ok d \<Longrightarrow> dict_ok (dict_set k v d)"
  by (rule AList.distinct_update)

lemma dict_ok_pop [intro]: "dict_ok d \<Longrightarrow> dict_ok (dict_pop k d)"
  by (rule AList.distinct_delete)

lemma dict_mem_iff: "dict_ok d \<Longrightarrow> (k, v) \<in> set d \<longleftrightarrow> dict_get d k = Some v"
  by auto

lemma keyed_dict_empty [simp]: "keyed_dict key []"
  by (simp add: keyed_dict_def)

lemma keyed_dict_ok: "keyed_dict key d \<Longrightarrow> dict_ok d"
  by (simp add: keyed_dict_def)

lemma keyed_dict_key: "keyed_dict key d \<Longrightarrow> dict_get d k = Some v \<Longrightarrow> key v = k"
  by (auto simp: keyed_dict_def dest: map_of_SomeD)

lemma keyed_dict_values:
  assumes "keyed_dict key d"
  shows "v \<in> set (dict_values d) \<longleftrightarrow> dict_get d (key v) = Some v"
proof
  assume "v \<in> set (dict_values d)"
  then obtain k where "(k, v) \<in> set d" by auto
  with assms show "dict_get d (key v) = Some v" by (auto simp: keyed_dict_def)
next
  assume "dict_get d (key v) = Some v"
  then show "v \<in> set (dict_values d)" by (force dest: map_of_SomeD)
qed

lemma set_dict_set: "set (dict_set k v d) \<subseteq> insert (k, v) (set d)"
  by (induction d) auto

lemma keyed_dict_set [intro]:
  assumes "keyed_dict key d" and "key v = k"
  shows "keyed_dict key (dict_set k v d)"
  using assms set_dict_set [of k v d] by (fastforce simp: keyed_dict_def)

lemma set_dict_set_iff:
  "dict_ok d \<Longrightarrow> set (dict_set k v d) = insert (k, v) {(k', v') \<in> set d. k' \<noteq> k}"
  by (induction d) (auto simp: image_iff)

lemma keyed_dict_map_key: "keyed_dict key d \<Longrightarrow> map key (dict_values d) = map fst d"
  by (auto simp: keyed_dict_def)

lemma keyed_dict_distinct: "keyed_dict key d \<Longrightarrow> distinct (map key (dict_values d))"
  by (simp only: keyed_dict_map_key keyed_dict_ok)

lemma keyed_dict_filter_values:
  assumes "keyed_dict key d"
  shows "map snd (filter (\<lambda>p. Q (fst p)) d) = filter (\<lambda>v. Q (key v)) (dict_values d)"
proof -
  have "filter (\<lambda>v. Q (key v)) (dict_values d) = map snd (filter (\<lambda>p. Q (key (snd p))) d)"
    by (simp add: filter_map o_def)
  also have "filter (\<lambda>p. Q (key (snd p))) d = filter (\<lambda>p. Q (fst p)) d"
    using assms by (intro filter_cong) (auto simp: keyed_dict_def)
  finally show ?thesis by simp
qed

lemma keyed_dict_filter:
  "keyed_dict key d \<Longrightarrow> keyed_dict key (filter P d)"
  by (auto simp: keyed_dict_def distinct_map_filter)

lemma dict_get_filter_key:
  "dict_get (filter (\<lambda>p. P (fst p)) d) k = (if P k then dict_get d k else None)"
  by (induction d) auto

lemma length_filter_dict_set:
  assumes "dict_ok d"
  shows "length (filter P (dict_set k v d)) =
    length (filter (\<lambda>(k', v'). k' \<noteq> k \<and> P (k', v')) d) + (if P (k, v) then 1 else 0)"
  using assms
proof (induction d)
  case Nil
  then show ?case by simp
next
  case (Cons p d)
  obtain k' v' where p: "p = (k', v')" by fastforce
  show ?case
  proof (cases "k' = k")
    case True
    with Cons.prems p have "filter (\<lambda>(k', v'). k' \<noteq> k \<and> P (k', v')) d = filter P d"
      by (intro filter_cong) (auto simp: image_iff)
    with True p show ?thesis by simp
  next
    case False
    with Cons p show ?thesis by auto
  qed
qed

section \<open>Grouping and counting\<close>

text \<open>
  \<open>counts[key] = counts.get(key, 0) + 1\<close>, the idiom of every \<open>summarize\<close> and
  \<open>count_by_status\<close> of the repositories, as a fold over the records.
\<close>

definition dict_bump :: "'k \<Rightarrow> ('k, nat) dict \<Rightarrow> ('k, nat) dict" where
  "dict_bump k d = dict_set k ((case dict_get d k of None \<Rightarrow> 0 | Some n \<Rightarrow> n) + 1) d"

definition count_keys :: "'k list \<Rightarrow> ('k, nat) dict" where
  "count_keys ks = fold dict_bump ks []"

lemma dict_ok_bump: "dict_ok d \<Longrightarrow> dict_ok (dict_bump k d)"
  unfolding dict_bump_def by (rule dict_ok_set)

lemma dict_get_fold_bump:
  "dict_get (fold dict_bump ks d) k =
    (if k \<in> set ks \<or> dict_get d k \<noteq> None
     then Some ((case dict_get d k of None \<Rightarrow> 0 | Some n \<Rightarrow> n) + count_list ks k) else None)"
  by (induction ks arbitrary: d) (auto simp: dict_bump_def split: option.splits)

lemma dict_ok_fold_bump: "dict_ok d \<Longrightarrow> dict_ok (fold dict_bump ks d)"
  by (induction ks arbitrary: d) (auto simp: dict_ok_bump)

lemma dict_ok_count_keys [simp]: "dict_ok (count_keys ks)"
  by (simp add: count_keys_def dict_ok_fold_bump)

lemma dict_get_count_keys:
  "dict_get (count_keys ks) k = (if k \<in> set ks then Some (count_list ks k) else None)"
  by (simp add: count_keys_def dict_get_fold_bump)

lemma count_keys_mem: "(k, n) \<in> set (count_keys ks) \<longleftrightarrow> k \<in> set ks \<and> n = count_list ks k"
  by (auto simp: dict_mem_iff dict_get_count_keys split: if_splits)

lemma count_list_map_filter:
  "count_list (map f xs) y = length (filter (\<lambda>x. f x = y) xs)"
  by (induction xs) auto

text \<open>Summing one selected count: the entry itself, or zero where the key is absent.\<close>

lemma sum_list_selected:
  assumes "dict_ok d"
  shows "sum_list (map snd (filter (\<lambda>p. fst p = k) d)) =
    (case dict_get d k of None \<Rightarrow> 0 | Some (n :: nat) \<Rightarrow> n)"
  using assms
proof (induction d)
  case Nil
  then show ?case by simp
next
  case (Cons p d)
  show ?case
  proof (cases "fst p = k")
    case True
    with Cons.prems have "filter (\<lambda>q. fst q = k) d = []"
      by (cases p) (force simp: filter_empty_conv)
    with True show ?thesis by (cases p) simp
  next
    case False
    with Cons show ?thesis by (cases p) simp
  qed
qed

lemma sum_list_selected_count_keys:
  "sum_list (map snd (filter (\<lambda>p. fst p = k) (count_keys ks))) = count_list ks k"
  by (auto simp: sum_list_selected dict_get_count_keys)

lemma sum_list_filter_sort_key:
  "sum_list (map g (filter P (sort_key f xs))) = sum_list (map (g :: 'a \<Rightarrow> nat) (filter P xs))"
proof -
  have "mset (filter P (sort_key f xs)) = mset (filter P xs)" by simp
  then show ?thesis by (metis mset_map sum_mset_sum_list)
qed

lemma sum_list_zero_iff: "sum_list (map (f :: 'a \<Rightarrow> nat) xs) = 0 \<longleftrightarrow> (\<forall>x \<in> set xs. f x = 0)"
  by (simp add: sum_list_eq_0_iff)

section \<open>Sorting and taking the first\<close>

lemma hd_sort_key_le:
  assumes "sort_key f xs = x # ys" and "y \<in> set xs"
  shows "f x \<le> f y"
proof -
  have "sorted (map f (x # ys))" using sorted_sort_key [of f xs] assms(1) by simp
  moreover have "y \<in> set (x # ys)" using assms by (metis set_sort)
  ultimately show ?thesis by auto
qed

lemma hd_sort_key_mem: "sort_key f xs = x # ys \<Longrightarrow> x \<in> set xs"
  by (metis list.set_intros(1) set_sort)

lemma sort_key_Nil_iff [simp]: "sort_key f xs = [] \<longleftrightarrow> xs = []"
  by (metis length_0_conv length_sort)

lemma take_sort_key_le:
  assumes "x \<in> set (take n (sort_key f xs))" and "y \<in> set xs"
    and "y \<notin> set (take n (sort_key f xs))"
  shows "f x \<le> f y"
proof -
  let ?s = "sort_key f xs"
  have "sorted (map f (take n ?s @ drop n ?s))" by simp
  moreover have "y \<in> set (drop n ?s)"
    using assms(2,3) by (metis Un_iff append_take_drop_id set_append set_sort)
  ultimately show ?thesis using assms(1) by (auto simp: sorted_append simp del: append_take_drop_id)
qed

text \<open>The slice \<open>xs[:n]\<close>; a negative bound counts from the end.\<close>

definition slice_to :: "int \<Rightarrow> 'a list \<Rightarrow> 'a list" where
  "slice_to n xs = (if 0 \<le> n then take (nat n) xs else take (length xs - nat (- n)) xs)"

lemma set_slice_to: "set (slice_to n xs) \<subseteq> set xs"
  by (auto simp: slice_to_def dest: in_set_takeD)

lemma distinct_map_slice_to: "distinct (map f xs) \<Longrightarrow> distinct (map f (slice_to n xs))"
  by (simp add: slice_to_def take_map [symmetric])

section \<open>Optional strings\<close>

text \<open>\<open>a or b\<close> on optional strings: the empty string is as false as \<open>None\<close>.\<close>

fun py_or :: "string option \<Rightarrow> string option \<Rightarrow> string option" where
  "py_or (Some (c # s)) b = Some (c # s)"
| "py_or a b = b"

definition truthy :: "string option \<Rightarrow> bool" where
  "truthy a \<longleftrightarrow> a \<noteq> None \<and> a \<noteq> Some []"

lemma py_or_truthy: "py_or a b = (if truthy a then a else b)"
  by (cases "(a, b)" rule: py_or.cases) (auto simp: truthy_def)

lemma truthy_Some [simp]: "truthy (Some s) \<longleftrightarrow> s \<noteq> []"
  by (simp add: truthy_def)

lemma truthy_None [simp]: "\<not> truthy None"
  by (simp add: truthy_def)

section \<open>String methods\<close>

definition is_space :: "char \<Rightarrow> bool" where
  "is_space c \<longleftrightarrow> (let n = (of_char c :: nat) in
     (9 \<le> n \<and> n \<le> 13) \<or> (28 \<le> n \<and> n \<le> 32) \<or> n = 133 \<or> n = 160)"

definition lower_char :: "char \<Rightarrow> char" where
  "lower_char c = (let n = (of_char c :: nat) in
     if (65 \<le> n \<and> n \<le> 90) \<or> (192 \<le> n \<and> n \<le> 222 \<and> n \<noteq> 215) then char_of (n + 32) else c)"

definition py_lstrip :: "(char \<Rightarrow> bool) \<Rightarrow> string \<Rightarrow> string" where
  "py_lstrip p s = dropWhile p s"

definition py_rstrip :: "(char \<Rightarrow> bool) \<Rightarrow> string \<Rightarrow> string" where
  "py_rstrip p s = rev (dropWhile p (rev s))"

definition py_strip :: "string \<Rightarrow> string" where
  "py_strip s = py_rstrip is_space (py_lstrip is_space s)"

definition py_lower :: "string \<Rightarrow> string" where
  "py_lower s = map lower_char s"

lemma py_lower_Nil [simp]: "py_lower s = [] \<longleftrightarrow> s = []"
  by (simp add: py_lower_def)

lemma length_py_lower [simp]: "length (py_lower s) = length s"
  by (simp add: py_lower_def)

lemma dropWhile_twice [simp]: "dropWhile p (dropWhile p s) = dropWhile p s"
  by (induction s) auto

lemma py_rstrip_lstripped:
  assumes "s = [] \<or> \<not> p (hd s)"
  shows "py_rstrip p s = [] \<or> \<not> p (hd (py_rstrip p s))"
proof (cases s)
  case Nil
  then show ?thesis by (simp add: py_rstrip_def)
next
  case (Cons c cs)
  with assms have "\<not> p c" by simp
  then have "dropWhile p (xs @ [c]) = dropWhile p xs @ [c]" for xs
    by (induction xs) auto
  with Cons \<open>\<not> p c\<close> show ?thesis by (simp add: py_rstrip_def)
qed

lemma py_strip_idem [simp]: "py_strip (py_strip s) = py_strip s"
proof -
  let ?l = "py_lstrip is_space s"
  have "?l = [] \<or> \<not> is_space (hd ?l)"
    unfolding py_lstrip_def using hd_dropWhile by blast
  then have "py_rstrip is_space ?l = [] \<or> \<not> is_space (hd (py_rstrip is_space ?l))"
    by (rule py_rstrip_lstripped)
  then have "py_lstrip is_space (py_rstrip is_space ?l) = py_rstrip is_space ?l"
    by (cases "py_rstrip is_space ?l") (auto simp: py_lstrip_def)
  then show ?thesis by (simp add: py_strip_def py_rstrip_def)
qed

text \<open>
  \<open>repr\<close> of a string: single quotes unless the text has a single and no double quote, with
  the quote and the backslash escaped, the control characters written \<open>\n\<close>, \<open>\r\<close>, \<open>\t\<close> or
  \<open>\xhh\<close>.
\<close>

definition hex_digit :: "nat \<Rightarrow> char" where
  "hex_digit n = (if n < 10 then char_of (48 + n) else char_of (87 + n))"

definition repr_char :: "char \<Rightarrow> char \<Rightarrow> string" where
  "repr_char q c = (let n = (of_char c :: nat) in
     if c = q \<or> n = 92 then [char_of (92 :: nat), c]
     else if n = 10 then [char_of (92 :: nat), CHR ''n'']
     else if n = 13 then [char_of (92 :: nat), CHR ''r'']
     else if n = 9 then [char_of (92 :: nat), CHR ''t'']
     else if n < 32 \<or> (127 \<le> n \<and> n \<le> 160) \<or> n = 173
     then [char_of (92 :: nat), CHR ''x'', hex_digit (n div 16), hex_digit (n mod 16)]
     else [c])"

definition py_repr :: "string \<Rightarrow> string" where
  "py_repr s =
    (let sq = char_of (39 :: nat); dq = char_of (34 :: nat);
         q = (if sq \<in> set s \<and> dq \<notin> set s then dq else sq)
     in q # concat (map (repr_char q) s) @ [q])"

section \<open>Time\<close>

text \<open>
  A \<open>datetime\<close> is a number of microseconds on the UTC axis, a \<open>timedelta\<close> a number of
  microseconds; \<open>now.replace(microsecond=0)\<close> drops the part below the second.
\<close>

type_synonym datetime = int
type_synonym timedelta = int

definition one_second :: timedelta where
  "one_second = 1000000"

definition drop_microseconds :: "datetime \<Rightarrow> datetime" where
  "drop_microseconds t = t - t mod one_second"

lemma drop_microseconds_bounds:
  "drop_microseconds t \<le> t" "t - one_second < drop_microseconds t"
  by (simp_all add: drop_microseconds_def one_second_def)

section \<open>JSON payloads\<close>

datatype json = JNull | JBool bool | JInt int | JStr string | JList "json list"
  | JObj "(string \<times> json) list"

definition json_opt_str :: "string option \<Rightarrow> json" where
  "json_opt_str s = (case s of None \<Rightarrow> JNull | Some t \<Rightarrow> JStr t)"

text \<open>Result of an operation that may raise.\<close>

type_synonym ('e, 'a) outcome = "'e + 'a"

end
