(* ===== verification/Models.thy ===== *)
theory Models
  imports Prelude
begin

text \<open>
  The data model every component shares: the enumerations and frozen dataclasses of
  \<open>extg_shared/contracts/models.py\<close>, the error classes of \<open>contracts/errors.py\<close> and the
  manifest of \<open>contracts/manifest.py\<close>. A dataclass is a record whose field names carry a short
  prefix of the class (\<open>mm_\<close> for \<open>MessageMappingRecord\<close>, \<open>job_\<close> for \<open>MigrationJobRecord\<close>),
  an enumeration is a datatype together with its \<open>.value\<close>; the order of two enumerations is the
  order of their values, which the repositories sort by.
\<close>

section \<open>Enumerations\<close>

datatype message_import_status = MsgProcessing | MsgImported | MsgFailed | MsgAmbiguous

fun message_status_value :: "message_import_status \<Rightarrow> string" where
  "message_status_value MsgProcessing = ''processing''"
| "message_status_value MsgImported = ''imported''"
| "message_status_value MsgFailed = ''failed''"
| "message_status_value MsgAmbiguous = ''ambiguous''"

datatype attachment_import_status = AttProcessing | AttImported | AttFailed | AttAmbiguous | AttSkipped

fun attachment_status_value :: "attachment_import_status \<Rightarrow> string" where
  "attachment_status_value AttProcessing = ''processing''"
| "attachment_status_value AttImported = ''imported''"
| "attachment_status_value AttFailed = ''failed''"
| "attachment_status_value AttAmbiguous = ''ambiguous''"
| "attachment_status_value AttSkipped = ''skipped''"

datatype attachment_stage_status = StageProcessing | StageUploaded | StageAttached | StageFailed

datatype lifecycle_status = Active | Paused | NeedsManualReconcile | Completed

fun lifecycle_value :: "lifecycle_status \<Rightarrow> string" where
  "lifecycle_value Active = ''active''"
| "lifecycle_value Paused = ''paused''"
| "lifecycle_value NeedsManualReconcile = ''needs_manual_reconcile''"
| "lifecycle_value Completed = ''completed''"

datatype job_status = JobQueued | JobRunning | JobCompleted | JobFailed

fun job_status_value :: "job_status \<Rightarrow> string" where
  "job_status_value JobQueued = ''queued''"
| "job_status_value JobRunning = ''running''"
| "job_status_value JobCompleted = ''completed''"
| "job_status_value JobFailed = ''failed''"

datatype outbox_status = OutPending | OutLeased | OutPublished | OutFailed

fun outbox_status_value :: "outbox_status \<Rightarrow> string" where
  "outbox_status_value OutPending = ''pending''"
| "outbox_status_value OutLeased = ''leased''"
| "outbox_status_value OutPublished = ''published''"
| "outbox_status_value OutFailed = ''failed''"

datatype claim_state = Claimed | ClaimImported | ClaimFailed | ClaimAmbiguous

datatype audit_severity = SevInfo | SevWarning | SevError

definition cancel_requested_code :: string where
  "cancel_requested_code = ''cancel_requested_by_operator''"

definition cancelled_code :: string where
  "cancelled_code = ''cancelled_by_operator''"

text \<open>The set \<open>{CANCELLED, CANCEL_REQUESTED}\<close> that the claims test the last error code against.\<close>

definition is_cancel_code :: "string option \<Rightarrow> bool" where
  "is_cancel_code c \<longleftrightarrow> c = Some cancelled_code \<or> c = Some cancel_requested_code"

lemma is_cancel_code_None [simp]: "\<not> is_cancel_code None"
  by (simp add: is_cancel_code_def)

lemma cancel_codes_differ [simp]: "cancelled_code \<noteq> cancel_requested_code"
  by (simp add: cancelled_code_def cancel_requested_code_def)

text \<open>Statuses compare by their values, as the sort keys of the summaries do.\<close>

lemma message_status_value_inject [simp]:
  "message_status_value a = message_status_value b \<longleftrightarrow> a = b"
  by (cases a; cases b) simp_all

lemma attachment_status_value_inject [simp]:
  "attachment_status_value a = attachment_status_value b \<longleftrightarrow> a = b"
  by (cases a; cases b) simp_all

instantiation message_import_status :: linorder
begin

definition less_eq_message_import_status :: "message_import_status \<Rightarrow> message_import_status \<Rightarrow> bool" where
  "less_eq_message_import_status a b \<longleftrightarrow> message_status_value a \<le> message_status_value b"

definition less_message_import_status :: "message_import_status \<Rightarrow> message_import_status \<Rightarrow> bool" where
  "less_message_import_status a b \<longleftrightarrow> message_status_value a < message_status_value b"

instance
  by standard (auto simp: less_eq_message_import_status_def less_message_import_status_def
    intro: le_neq_trans)

end

instantiation attachment_import_status :: linorder
begin

definition less_eq_attachment_import_status ::
    "attachment_import_status \<Rightarrow> attachment_import_status \<Rightarrow> bool" where
  "less_eq_attachment_import_status a b \<longleftrightarrow> attachment_status_value a \<le> attachment_status_value b"

definition less_attachment_import_status ::
    "attachment_import_status \<Rightarrow> attachment_import_status \<Rightarrow> bool" where
  "less_attachment_import_status a b \<longleftrightarrow> attachment_status_value a < attachment_status_value b"

instance
  by standard (auto simp: less_eq_attachment_import_status_def less_attachment_import_status_def
    intro: le_neq_trans)

end

section \<open>Errors\<close>

text \<open>
  The exceptions the modelled code raises, with \<open>str(error)\<close> as their payload, and the
  \<open>KeyError\<close> of a dictionary lookup; \<open>asyncio.CancelledError\<close>, which \<open>except Exception\<close> does not
  take; and any other exception, by the name of its type and its text.
\<close>

datatype error = ConfigurationError string | RecoverableItemError string | FatalItemError string
  | AmbiguousDeliveryError string | TwoFactorPasswordRequiredError string | ValueError string
  | KeyError | CancelledError | OtherError string string

fun error_name :: "error \<Rightarrow> string" where
  "error_name (ConfigurationError _) = ''ConfigurationError''"
| "error_name (RecoverableItemError _) = ''RecoverableItemError''"
| "error_name (FatalItemError _) = ''FatalItemError''"
| "error_name (AmbiguousDeliveryError _) = ''AmbiguousDeliveryError''"
| "error_name (TwoFactorPasswordRequiredError _) = ''TwoFactorPasswordRequiredError''"
| "error_name (ValueError _) = ''ValueError''"
| "error_name KeyError = ''KeyError''"
| "error_name CancelledError = ''CancelledError''"
| "error_name (OtherError name _) = name"

fun error_text :: "error \<Rightarrow> string" where
  "error_text (ConfigurationError s) = s"
| "error_text (RecoverableItemError s) = s"
| "error_text (FatalItemError s) = s"
| "error_text (AmbiguousDeliveryError s) = s"
| "error_text (TwoFactorPasswordRequiredError s) = s"
| "error_text (ValueError s) = s"
| "error_text KeyError = []"
| "error_text CancelledError = []"
| "error_text (OtherError _ s) = s"

section \<open>Records of the mapping repositories\<close>

record canonical_attachment =
  att_source_file_id :: "string option"
  att_filename :: "string option"
  att_mime_type :: "string option"
  att_size_bytes :: "int option"
  att_media_kind :: string
  att_duration_seconds :: "int option"
  att_download_url :: "string option"
  att_temp_local_path :: "string option"
  att_sha256 :: "string option"

record chat_mapping_record =
  cm_migration_id :: string
  cm_source_chat_id :: string
  cm_source_chat_type :: string
  cm_source_chat_title :: string
  cm_target_chat_id :: string
  cm_target_chat_title :: string
  cm_status :: string
  cm_created_at :: datetime
  cm_updated_at :: datetime
  cm_anchor_cts_host :: "string option"
  cm_anchor_bot_id :: "string option"

record message_mapping_record =
  mm_migration_id :: string
  mm_source_chat_id :: string
  mm_source_message_id :: string
  mm_source_sent_at :: datetime
  mm_target_chat_id :: string
  mm_checksum :: string
  mm_import_status :: message_import_status
  mm_imported_at :: "datetime option"
  mm_target_sync_id :: "string option"
  mm_rendered_body :: "string option"
  mm_last_error_code :: "string option"
  mm_last_error_payload :: "json option"

record attachment_mapping_record =
  am_migration_id :: string
  am_source_chat_id :: string
  am_source_message_id :: string
  am_attachment_index :: int
  am_source_file_id :: "string option"
  am_source_filename :: "string option"
  am_media_kind :: string
  am_checksum :: "string option"
  am_size_bytes :: "int option"
  am_target_chat_id :: string
  am_import_status :: attachment_import_status
  am_imported_at :: "datetime option"
  am_target_sync_id :: "string option"
  am_last_error_code :: "string option"
  am_last_error_payload :: "json option"

record attachment_stage_record =
  st_migration_id :: string
  st_source_chat_id :: string
  st_source_message_id :: string
  st_attachment_index :: int
  st_target_chat_id :: string
  st_source_locator :: "string option"
  st_media_kind :: string
  st_checksum :: "string option"
  st_size_bytes :: "int option"
  st_status :: attachment_stage_status
  st_express_file_id :: "string option"
  st_express_file_payload :: "json option"
  st_target_sync_id :: "string option"
  st_last_error_code :: "string option"
  st_last_error_payload :: "json option"
  st_created_at :: "datetime option"
  st_updated_at :: "datetime option"

record express_staged_file =
  sf_attachment_type :: string
  sf_file_id :: string
  sf_file_url :: string
  sf_filename :: string
  sf_size_bytes :: int
  sf_mime_type :: string
  sf_file_hash :: string
  sf_duration_seconds :: "int option"
  sf_preview_url :: "string option"
  sf_preview_height :: "int option"
  sf_preview_width :: "int option"
  sf_encryption_algo :: "string option"
  sf_chunk_size :: "int option"
  sf_caption :: "string option"

section \<open>Records of the other repositories\<close>

record identity_mapping_record =
  im_telegram_user_id :: "string option"
  im_telegram_username :: "string option"
  im_telegram_display_name :: "string option"
  im_corporate_email :: "string option"
  im_target_huid :: "string option"
  im_express_host :: "string option"
  im_created_at :: "datetime option"
  im_updated_at :: "datetime option"
  im_last_resolved_at :: "datetime option"

record user_cts_binding_record =
  ub_cts_host :: string
  ub_target_huid :: "string option"
  ub_corporate_email :: "string option"
  ub_created_at :: "datetime option"
  ub_updated_at :: "datetime option"
  ub_last_verified_at :: "datetime option"

record bot_huid_binding_record =
  bb_bot_id :: string
  bb_cts_host :: string
  bb_bot_huid :: string
  bb_created_at :: "datetime option"
  bb_updated_at :: "datetime option"
  bb_last_learned_at :: "datetime option"

record operator_session_record =
  os_operator_huid :: string
  os_phone_number :: string
  os_session_path :: string
  os_telegram_user_id :: string
  os_telegram_username :: "string option"
  os_telegram_display_name :: string
  os_created_at :: datetime
  os_updated_at :: datetime
  os_last_used_at :: "datetime option"

record history_cursor =
  hc_last_source_message_id :: "string option"
  hc_last_source_sent_at :: "datetime option"

record migration_checkpoint =
  cp_migration_id :: string
  cp_source_chat_id :: string
  cp_mode :: string
  cp_cursor :: history_cursor
  cp_updated_at :: datetime

record inventory_snapshot_record =
  inv_migration_id :: string
  inv_source_chat_id :: string
  inv_source_chat_type :: string
  inv_source_chat_title :: string
  inv_message_count :: int
  inv_media_count :: int
  inv_approximate_bytes :: int
  inv_captured_at :: datetime

record export_snapshot_record =
  ex_source_chat_id :: string
  ex_source_chat_title :: string
  ex_source_chat_type :: string
  ex_original_filename :: "string option"
  ex_export_chat_id :: "string option"
  ex_archive_locator :: string
  ex_payload_sha256 :: string
  ex_message_count :: int
  ex_media_count :: int
  ex_approximate_bytes :: int
  ex_uploaded_by_huid :: string
  ex_created_at :: datetime
  ex_updated_at :: datetime

record audit_event =
  ae_migration_id :: string
  ae_event_type :: string
  ae_severity :: audit_severity
  ae_created_at :: datetime
  ae_source_chat_id :: "string option"
  ae_source_message_id :: "string option"
  ae_payload_json :: "(string \<times> json) list"

record migration_state_record =
  ms_migration_id :: string
  ms_status :: lifecycle_status
  ms_updated_at :: datetime
  ms_created_at :: datetime
  ms_freeze_started_at :: "datetime option"
  ms_finalized_at :: "datetime option"
  ms_last_reconcile_at :: "datetime option"
  ms_last_blockers :: "string list"

record migration_job_record =
  job_key :: string
  job_migration_id :: string
  job_operation :: string
  job_operator_huid :: string
  job_source_chat_ids :: "string list"
  job_batch_size :: int
  job_status :: job_status
  job_requested_at :: datetime
  job_anchor_cts_host :: "string option"
  job_anchor_bot_id :: "string option"
  job_started_at :: "datetime option"
  job_finished_at :: "datetime option"
  job_heartbeat_at :: "datetime option"
  job_lease_expires_at :: "datetime option"
  job_worker_id :: "string option"
  job_attempts :: int
  job_last_error_code :: "string option"
  job_last_error_payload :: "json option"

record outbox_event_record =
  ob_event_id :: string
  ob_aggregate_type :: string
  ob_aggregate_id :: string
  ob_event_type :: string
  ob_payload_json :: json
  ob_created_at :: datetime
  ob_headers_json :: json
  ob_status :: outbox_status
  ob_leased_by :: "string option"
  ob_leased_at :: "datetime option"
  ob_lease_expires_at :: "datetime option"
  ob_published_at :: "datetime option"
  ob_broker_topic :: "string option"
  ob_broker_partition :: "int option"
  ob_broker_offset :: "int option"
  ob_attempts :: int
  ob_last_error_code :: "string option"
  ob_last_error_payload :: "json option"

record published_event =
  pe_broker_topic :: string
  pe_published_at :: datetime
  pe_broker_partition :: "int option"
  pe_broker_offset :: "int option"

record consumer_inbox_record =
  ib_consumer_name :: string
  ib_message_id :: string
  ib_processed_at :: datetime
  ib_result_code :: string
  ib_result_payload :: "(string \<times> json) list"

record service_watermark_record =
  wm_consumer_name :: string
  wm_logical_stream_key :: string
  wm_watermark_value :: string
  wm_updated_at :: datetime

record source_dialog =
  sd_dialog_id :: string
  sd_chat_type :: string
  sd_title :: string
  sd_message_count :: int
  sd_media_count :: int
  sd_approximate_bytes :: int
  sd_has_topics :: bool

section \<open>Chat configuration\<close>

record chat_config_record =
  cc_migration_id :: string
  cc_source_chat_id :: string
  cc_source_chat_type :: string
  cc_source_chat_title :: string
  cc_target_strategy :: string
  cc_target_title :: "string option"
  cc_target_chat_id :: "string option"
  cc_include_from :: "datetime option"
  cc_include_to :: "datetime option"
  cc_migrate_media :: bool
  cc_reply_mode :: string
  cc_identity_policy :: string
  cc_updated_by_huid :: string
  cc_created_at :: datetime
  cc_updated_at :: datetime
  cc_anchor_cts_host :: "string option"
  cc_anchor_bot_id :: "string option"
  cc_topic_strategy :: string
  cc_source_backend :: string
  cc_access_strategy :: string
  cc_telegram_chat_id :: "string option"
  cc_source_topic_id :: "string option"
  cc_source_thread_id :: "string option"
  cc_source_thread_title :: "string option"
  cc_skip_in_all :: bool

text \<open>\<open>ChatMigrationConfigRecord.__post_init__\<close>: an inverted date window cannot be constructed.\<close>

definition make_chat_config :: "chat_config_record \<Rightarrow> (error, chat_config_record) outcome" where
  "make_chat_config c =
    (case (cc_include_from c, cc_include_to c) of
       (Some f, Some t) \<Rightarrow>
         if f > t then Inl (ValueError ''include_from must be less than or equal to include_to'')
         else Inr c
     | _ \<Rightarrow> Inr c)"

section \<open>The manifest\<close>

record manifest_defaults =
  md_migrate_media :: bool
  md_propagate_edits :: bool
  md_propagate_deletes :: bool
  md_reply_mode :: string
  md_identity_policy :: string
  md_access_strategy :: string

record manifest_dialog =
  dlg_source_chat_id :: string
  dlg_source_chat_type :: string
  dlg_source_backend :: string
  dlg_target_strategy :: string
  dlg_target_title :: "string option"
  dlg_target_chat_id :: "string option"
  dlg_initiator_huid :: "string option"
  dlg_anchor_cts_host :: "string option"
  dlg_anchor_bot_id :: "string option"
  dlg_include_from :: "string option"
  dlg_include_to :: "string option"
  dlg_migrate_media :: "bool option"
  dlg_reply_mode :: "string option"
  dlg_identity_policy :: "string option"
  dlg_access_strategy :: "string option"
  dlg_topic_strategy :: string
  dlg_skip_in_all :: bool
  dlg_telegram_chat_id :: "string option"
  dlg_source_topic_id :: "string option"
  dlg_source_thread_id :: "string option"
  dlg_source_thread_title :: "string option"

record migration_manifest =
  mf_migration_id :: string
  mf_mode :: string
  mf_defaults :: manifest_defaults
  mf_dialogs :: "manifest_dialog list"

text \<open>The model validators: a construction that fails them raises.\<close>

definition validate_target :: "manifest_dialog \<Rightarrow> (error, manifest_dialog) outcome" where
  "validate_target d =
    (if dlg_target_strategy d = ''create'' \<and> \<not> truthy (dlg_target_title d)
     then Inl (ValueError ''target_title is required when target_strategy=create'')
     else if dlg_target_strategy d = ''bind'' \<and> \<not> truthy (dlg_target_chat_id d)
     then Inl (ValueError ''target_chat_id is required when target_strategy=bind'')
     else if dlg_source_thread_id d \<noteq> None \<and> \<not> truthy (dlg_telegram_chat_id d)
     then Inl (ValueError ''telegram_chat_id is required when source_thread_id is set'')
     else Inr d)"

definition ensure_unique_dialogs :: "migration_manifest \<Rightarrow> (error, migration_manifest) outcome" where
  "ensure_unique_dialogs m =
    (let ids = map dlg_source_chat_id (mf_dialogs m) in
     if length ids \<noteq> length (remdups ids)
     then Inl (ValueError ''dialog source_chat_id values must be unique'') else Inr m)"

lemma ensure_unique_dialogs_Inr:
  "ensure_unique_dialogs m = Inr m' \<longleftrightarrow> m' = m \<and> distinct (map dlg_source_chat_id (mf_dialogs m))"
proof -
  have "length xs = length (remdups xs) \<longleftrightarrow> distinct xs" for xs :: "string list"
    by (metis length_remdups_eq remdups_id_iff_distinct)
  then show ?thesis by (auto simp: ensure_unique_dialogs_def Let_def simp del: length_map)
qed

definition physical_source_chat_id :: "manifest_dialog \<Rightarrow> string" where
  "physical_source_chat_id d =
    (case py_or (dlg_telegram_chat_id d) (Some (dlg_source_chat_id d)) of
       Some s \<Rightarrow> s | None \<Rightarrow> dlg_source_chat_id d)"

definition matches_source_message :: "manifest_dialog \<Rightarrow> string \<Rightarrow> string option \<Rightarrow> bool" where
  "matches_source_message d message_id thread_id =
    (case dlg_source_thread_id d of
       None \<Rightarrow> True
     | Some t \<Rightarrow> thread_id = Some t \<or> message_id = t)"

definition dialog_for :: "migration_manifest \<Rightarrow> string \<Rightarrow> (error, manifest_dialog) outcome" where
  "dialog_for m chat =
    (case List.find (\<lambda>d. dlg_source_chat_id d = chat) (mf_dialogs m) of
       Some d \<Rightarrow> Inr d
     | None \<Rightarrow> Inl (ConfigurationError (''source_chat_id='' @ py_repr chat @ '' is absent in the manifest'')))"

lemma dialog_for_Inr:
  "dialog_for m c = Inr d \<Longrightarrow> d \<in> set (mf_dialogs m) \<and> dlg_source_chat_id d = c"
  by (auto simp: dialog_for_def find_Some_iff split: option.splits)

lemma dialog_for_Inl:
  "dialog_for m c = Inl e \<Longrightarrow> c \<notin> dlg_source_chat_id ` set (mf_dialogs m)"
  by (auto simp: dialog_for_def find_None_iff split: option.splits)

end
