(* ===== verification/Record_Stores.thy ===== *)
theory Record_Stores
  imports Models
begin

text \<open>
  The repositories of \<open>infrastructure/persistence/in_memory.py\<close> that keep one record per key:
  chat mappings, chat configurations, export snapshots, the consumer inbox, service watermarks,
  checkpoints, inventory snapshots and migration states, and the append-only audit log. Each
  holds its \<open>_items\<close> dictionary behind a lock, so an operation is one atomic function of it.
  The locales state what the use cases rely on: the last write wins (\<open>record_store\<close>), a
  record can be deleted (\<open>deletable_store\<close>), the first write wins (\<open>once_store\<close>); they are
  interpreted on the repositories' own operations.
\<close>

section \<open>Interfaces\<close>

locale record_store =
  fixes get :: "'s \<Rightarrow> 'k \<Rightarrow> 'v option"
    and save :: "'v \<Rightarrow> 's \<Rightarrow> 's"
    and key :: "'v \<Rightarrow> 'k"
  assumes get_save: "get (save v s) = (get s)(key v \<mapsto> v)"
begin

lemma get_save_same: "get (save v s) (key v) = Some v"
  by (simp add: get_save)

lemma get_save_other: "k \<noteq> key v \<Longrightarrow> get (save v s) k = get s k"
  by (simp add: get_save)

lemma get_fold_save:
  "get (fold save vs s) k =
    (case List.find (\<lambda>v. key v = k) (rev vs) of Some v \<Rightarrow> Some v | None \<Rightarrow> get s k)"
proof (induction vs rule: rev_induct)
  case Nil
  then show ?case by simp
next
  case (snoc v vs)
  then show ?case by (auto simp: get_save)
qed

lemma get_save_commute:
  "key v \<noteq> key w \<Longrightarrow> get (save v (save w s)) = get (save w (save v s))"
  by (simp add: get_save fun_upd_twist)

end

locale deletable_store = record_store +
  fixes delete :: "'k \<Rightarrow> 's \<Rightarrow> bool \<times> 's"
  assumes delete_result: "fst (delete k s) \<longleftrightarrow> get s k \<noteq> None"
    and get_delete: "get (snd (delete k s)) = (get s)(k := None)"
begin

lemma delete_twice: "\<not> fst (delete k (snd (delete k s)))"
  by (simp add: delete_result get_delete)

lemma delete_after_save: "fst (delete (key v) (save v s))"
  by (simp add: delete_result get_save)

end

locale once_store =
  fixes has :: "'k \<Rightarrow> 's \<Rightarrow> bool"
    and put :: "'v \<Rightarrow> 's \<Rightarrow> bool \<times> 's"
    and key :: "'v \<Rightarrow> 'k"
  assumes put_result: "fst (put v s) \<longleftrightarrow> \<not> has (key v) s"
    and put_keeps: "has (key v) s \<Longrightarrow> snd (put v s) = s"
    and put_has: "has k (snd (put v s)) \<longleftrightarrow> k = key v \<or> has k s"
begin

lemma put_twice: "key w = key v \<Longrightarrow> put w (snd (put v s)) = (False, snd (put v s))"
  by (metis put_has put_keeps put_result prod.collapse)

lemma has_fold_put:
  "has k (fold (\<lambda>v s. snd (put v s)) vs s) \<longleftrightarrow> k \<in> key ` set vs \<or> has k s"
  by (induction vs arbitrary: s) (auto simp: put_has)

end

section \<open>Chat mappings\<close>

type_synonym chat_mapping_repo = "(string \<times> string, chat_mapping_record) dict"

definition chat_mapping_key :: "chat_mapping_record \<Rightarrow> string \<times> string" where
  "chat_mapping_key r = (cm_migration_id r, cm_source_chat_id r)"

definition chat_mapping_get :: "chat_mapping_repo \<Rightarrow> string \<times> string \<Rightarrow> chat_mapping_record option" where
  "chat_mapping_get repo k = dict_get repo k"

definition chat_mapping_save :: "chat_mapping_record \<Rightarrow> chat_mapping_repo \<Rightarrow> chat_mapping_repo" where
  "chat_mapping_save r repo = dict_set (chat_mapping_key r) r repo"

interpretation chat_mappings: record_store chat_mapping_get chat_mapping_save chat_mapping_key
  by unfold_locales (auto simp: chat_mapping_get_def chat_mapping_save_def fun_eq_iff)

section \<open>Chat configurations\<close>

type_synonym chat_config_repo = "(string \<times> string, chat_config_record) dict"

definition chat_config_key :: "chat_config_record \<Rightarrow> string \<times> string" where
  "chat_config_key r = (cc_migration_id r, cc_source_chat_id r)"

definition chat_config_get :: "chat_config_repo \<Rightarrow> string \<times> string \<Rightarrow> chat_config_record option" where
  "chat_config_get repo k = dict_get repo k"

definition chat_config_list :: "string \<Rightarrow> chat_config_repo \<Rightarrow> chat_config_record list" where
  "chat_config_list migration repo =
    sort_key cc_source_chat_id (map snd (filter (\<lambda>p. fst (fst p) = migration) repo))"

text \<open>
  An existing configuration of another operator is returned unchanged; otherwise every field
  is taken from the record, except the creation time of an existing configuration.
\<close>

definition chat_config_save ::
    "chat_config_record \<Rightarrow> chat_config_repo \<Rightarrow> chat_config_record \<times> chat_config_repo" where
  "chat_config_save r repo =
    (let k = chat_config_key r in
     case dict_get repo k of
       None \<Rightarrow> (r, dict_set k r repo)
     | Some existing \<Rightarrow>
         if cc_updated_by_huid existing \<noteq> cc_updated_by_huid r then (existing, repo)
         else let updated = r\<lparr>cc_created_at := cc_created_at existing\<rparr>
              in (updated, dict_set k updated repo))"

definition chat_config_delete :: "string \<times> string \<Rightarrow> chat_config_repo \<Rightarrow> bool \<times> chat_config_repo" where
  "chat_config_delete k repo = (dict_get repo k \<noteq> None, dict_pop k repo)"

lemma chat_config_save_get:
  "chat_config_get (snd (chat_config_save r repo)) (chat_config_key r) = Some (fst (chat_config_save r repo))"
  by (auto simp: chat_config_save_def chat_config_get_def Let_def split: option.splits)

lemma chat_config_save_other:
  "k \<noteq> chat_config_key r \<Longrightarrow> chat_config_get (snd (chat_config_save r repo)) k = chat_config_get repo k"
  by (auto simp: chat_config_save_def chat_config_get_def Let_def split: option.splits)

lemma chat_config_save_owner:
  assumes "chat_config_get repo k = Some old"
  shows "\<exists>new. chat_config_get (snd (chat_config_save r repo)) k = Some new
    \<and> cc_updated_by_huid new = cc_updated_by_huid old \<and> cc_created_at new = cc_created_at old
    \<and> (cc_updated_by_huid r \<noteq> cc_updated_by_huid old \<longrightarrow> new = old)"
proof (cases "k = chat_config_key r")
  case True
  with assms show ?thesis
    by (auto simp: chat_config_save_def chat_config_get_def Let_def)
next
  case False
  with assms show ?thesis by (auto simp: chat_config_save_other)
qed

section \<open>Export snapshots\<close>

type_synonym export_snapshot_repo = "(string, export_snapshot_record) dict"

definition export_snapshot_get :: "export_snapshot_repo \<Rightarrow> string \<Rightarrow> export_snapshot_record option" where
  "export_snapshot_get repo chat = dict_get repo chat"

definition export_snapshot_save :: "export_snapshot_record \<Rightarrow> export_snapshot_repo \<Rightarrow> export_snapshot_repo" where
  "export_snapshot_save r repo = dict_set (ex_source_chat_id r) r repo"

definition export_snapshot_delete :: "string \<Rightarrow> export_snapshot_repo \<Rightarrow> bool \<times> export_snapshot_repo" where
  "export_snapshot_delete chat repo = (dict_get repo chat \<noteq> None, dict_pop chat repo)"

interpretation export_snapshots:
  deletable_store export_snapshot_get export_snapshot_save ex_source_chat_id export_snapshot_delete
  by unfold_locales
    (auto simp: export_snapshot_get_def export_snapshot_save_def export_snapshot_delete_def fun_eq_iff)

section \<open>The consumer inbox\<close>

type_synonym inbox_repo = "(string \<times> string, consumer_inbox_record) dict"

definition inbox_key :: "consumer_inbox_record \<Rightarrow> string \<times> string" where
  "inbox_key r = (ib_consumer_name r, ib_message_id r)"

definition inbox_is_processed :: "string \<times> string \<Rightarrow> inbox_repo \<Rightarrow> bool" where
  "inbox_is_processed k repo \<longleftrightarrow> dict_get repo k \<noteq> None"

definition inbox_mark_processed :: "consumer_inbox_record \<Rightarrow> inbox_repo \<Rightarrow> bool \<times> inbox_repo" where
  "inbox_mark_processed r repo =
    (if dict_get repo (inbox_key r) \<noteq> None then (False, repo)
     else (True, dict_set (inbox_key r) r repo))"

interpretation inbox: once_store inbox_is_processed inbox_mark_processed inbox_key
  by unfold_locales (auto simp: inbox_is_processed_def inbox_mark_processed_def)

section \<open>Watermarks, checkpoints, migration states\<close>

type_synonym watermark_repo = "(string \<times> string, service_watermark_record) dict"

definition watermark_key :: "service_watermark_record \<Rightarrow> string \<times> string" where
  "watermark_key r = (wm_consumer_name r, wm_logical_stream_key r)"

definition watermark_get :: "watermark_repo \<Rightarrow> string \<times> string \<Rightarrow> service_watermark_record option" where
  "watermark_get repo k = dict_get repo k"

definition watermark_upsert :: "service_watermark_record \<Rightarrow> watermark_repo \<Rightarrow> watermark_repo" where
  "watermark_upsert r repo = dict_set (watermark_key r) r repo"

definition watermark_list_all :: "watermark_repo \<Rightarrow> service_watermark_record list" where
  "watermark_list_all repo = sort_key watermark_key (dict_values repo)"

interpretation watermarks: record_store watermark_get watermark_upsert watermark_key
  by unfold_locales (auto simp: watermark_get_def watermark_upsert_def fun_eq_iff)

type_synonym checkpoint_repo = "(string \<times> string \<times> string, migration_checkpoint) dict"

definition checkpoint_key :: "migration_checkpoint \<Rightarrow> string \<times> string \<times> string" where
  "checkpoint_key c = (cp_migration_id c, cp_source_chat_id c, cp_mode c)"

definition checkpoint_get ::
    "checkpoint_repo \<Rightarrow> string \<times> string \<times> string \<Rightarrow> migration_checkpoint option" where
  "checkpoint_get repo k = dict_get repo k"

definition checkpoint_save :: "migration_checkpoint \<Rightarrow> checkpoint_repo \<Rightarrow> checkpoint_repo" where
  "checkpoint_save c repo = dict_set (checkpoint_key c) c repo"

interpretation checkpoints: record_store checkpoint_get checkpoint_save checkpoint_key
  by unfold_locales (auto simp: checkpoint_get_def checkpoint_save_def fun_eq_iff)

type_synonym state_repo = "(string, migration_state_record) dict"

definition state_get :: "state_repo \<Rightarrow> string \<Rightarrow> migration_state_record option" where
  "state_get repo m = dict_get repo m"

definition state_save :: "migration_state_record \<Rightarrow> state_repo \<Rightarrow> state_repo" where
  "state_save r repo = dict_set (ms_migration_id r) r repo"

interpretation states: record_store state_get state_save ms_migration_id
  by unfold_locales (auto simp: state_get_def state_save_def fun_eq_iff)

section \<open>Inventory snapshots\<close>

type_synonym inventory_repo = "(string \<times> string, inventory_snapshot_record) dict"

definition inventory_key :: "inventory_snapshot_record \<Rightarrow> string \<times> string" where
  "inventory_key r = (inv_migration_id r, inv_source_chat_id r)"

definition inventory_get :: "inventory_repo \<Rightarrow> string \<times> string \<Rightarrow> inventory_snapshot_record option" where
  "inventory_get repo k = dict_get repo k"

text \<open>\<open>record.captured_at or now\<close> is the record's own time: a datetime is never false.\<close>

definition inventory_save :: "inventory_snapshot_record \<Rightarrow> inventory_repo \<Rightarrow> inventory_repo" where
  "inventory_save r repo = dict_set (inventory_key r) r repo"

definition inventory_replace_for_migration ::
    "string \<Rightarrow> inventory_snapshot_record list \<Rightarrow> inventory_repo \<Rightarrow> inventory_repo" where
  "inventory_replace_for_migration migration snapshots repo =
    (let retained = filter (\<lambda>p. fst (fst p) \<noteq> migration) repo
     in fold (\<lambda>s d. dict_set (inventory_key s) s d) snapshots retained)"

definition inventory_list :: "string \<Rightarrow> inventory_repo \<Rightarrow> inventory_snapshot_record list" where
  "inventory_list migration repo =
    sort_key inv_source_chat_id (map snd (filter (\<lambda>p. fst (fst p) = migration) repo))"

interpretation inventory: record_store inventory_get inventory_save inventory_key
  by unfold_locales (auto simp: inventory_get_def inventory_save_def fun_eq_iff)

lemma inventory_replace_fold:
  "inventory_replace_for_migration m ss repo =
    fold inventory_save ss (filter (\<lambda>p. fst (fst p) \<noteq> m) repo)"
  by (simp add: inventory_replace_for_migration_def inventory_save_def [abs_def])

lemma inventory_replace_get:
  "inventory_get (inventory_replace_for_migration m ss repo) k =
    (case List.find (\<lambda>s. inventory_key s = k) (rev ss) of
       Some s \<Rightarrow> Some s
     | None \<Rightarrow> if fst k = m then None else inventory_get repo k)"
proof -
  have "inventory_get (filter (\<lambda>p. fst (fst p) \<noteq> m) repo) k =
      (if fst k = m then None else inventory_get repo k)"
    by (simp add: inventory_get_def dict_get_filter_key [of "\<lambda>k. fst k \<noteq> m"])
  then show ?thesis
    by (simp add: inventory_replace_fold inventory.get_fold_save split: option.split)
qed

lemma keyed_inventory_fold:
  "keyed_dict inventory_key repo \<Longrightarrow> keyed_dict inventory_key (fold inventory_save ss repo)"
  by (induction ss arbitrary: repo) (auto simp: inventory_save_def)

lemma keyed_inventory_replace:
  "keyed_dict inventory_key repo \<Longrightarrow> keyed_dict inventory_key (inventory_replace_for_migration m ss repo)"
  by (simp add: inventory_replace_fold keyed_inventory_fold keyed_dict_filter)

lemma inventory_list_alt:
  assumes "keyed_dict inventory_key repo"
  shows "inventory_list m repo =
    sort_key inv_source_chat_id (filter (\<lambda>s. inv_migration_id s = m) (dict_values repo))"
  using keyed_dict_filter_values [OF assms, of "\<lambda>k. fst k = m"]
  by (simp add: inventory_list_def inventory_key_def)

lemma inventory_list_mem:
  assumes "keyed_dict inventory_key repo"
  shows "s \<in> set (inventory_list m repo) \<longleftrightarrow>
    inv_migration_id s = m \<and> inventory_get repo (m, inv_source_chat_id s) = Some s"
  using keyed_dict_values [OF assms, of s]
  by (auto simp: inventory_list_alt [OF assms] inventory_get_def inventory_key_def
      simp del: set_map)

lemma distinct_inventory_list:
  assumes "keyed_dict inventory_key repo"
  shows "distinct (map inv_source_chat_id (inventory_list m repo))"
proof -
  let ?vs = "filter (\<lambda>s. inv_migration_id s = m) (dict_values repo)"
  have "distinct (map inventory_key ?vs)"
    using keyed_dict_distinct [OF assms] by (rule distinct_map_filter)
  then have "distinct (map inv_source_chat_id ?vs)"
    by (auto simp: distinct_map inj_on_def inventory_key_def simp del: set_map)
  then show ?thesis
    by (simp add: inventory_list_alt [OF assms] distinct_map del: set_map)
qed

section \<open>The audit log\<close>

type_synonym audit_log = "audit_event list"

definition audit_add :: "audit_event \<Rightarrow> audit_log \<Rightarrow> audit_log" where
  "audit_add e log = log @ [e]"

end
