(* ===== verification/Rendering.thy ===== *)
theory Rendering
  imports Prelude
begin

text \<open>
  How the program writes numbers and timestamps into text and JSON: \<open>str\<close> of an integer, zero
  padded fields and \<open>datetime.isoformat\<close> of a UTC time.
\<close>

section \<open>Integers\<close>

definition digit_char :: "nat \<Rightarrow> char" where
  "digit_char d = char_of (48 + d)"

fun str_of_nat :: "nat \<Rightarrow> string" where
  "str_of_nat n = (if n < 10 then [digit_char n] else str_of_nat (n div 10) @ [digit_char (n mod 10)])"

declare str_of_nat.simps [simp del]

definition str_of_int :: "int \<Rightarrow> string" where
  "str_of_int i = (if i < 0 then CHR ''-'' # str_of_nat (nat (- i)) else str_of_nat (nat i))"

text \<open>\<open>f"{n:0wd}"\<close>\<close>

definition zero_padded :: "nat \<Rightarrow> nat \<Rightarrow> string" where
  "zero_padded w n = (let s = str_of_nat n in replicate (w - length s) CHR ''0'' @ s)"

definition is_digit :: "char \<Rightarrow> bool" where
  "is_digit c \<longleftrightarrow> (let n = (of_char c :: nat) in 48 \<le> n \<and> n \<le> 57)"

definition digit_value :: "char \<Rightarrow> nat" where
  "digit_value c = of_char c - 48"

definition nat_of_digits :: "string \<Rightarrow> nat" where
  "nat_of_digits s = fold (\<lambda>c n. 10 * n + digit_value c) s 0"

lemma of_digit_char: "d < 10 \<Longrightarrow> (of_char (digit_char d) :: nat) = 48 + d"
  by (simp add: digit_char_def)

lemma is_digit_char [simp]: "d < 10 \<Longrightarrow> is_digit (digit_char d)"
  by (simp add: is_digit_def of_digit_char)

lemma digit_value_char [simp]: "d < 10 \<Longrightarrow> digit_value (digit_char d) = d"
  by (simp add: digit_value_def of_digit_char)

lemma str_of_nat_digits: "\<forall>c \<in> set (str_of_nat n). is_digit c"
proof (induction n rule: str_of_nat.induct)
  case (1 n)
  then show ?case by (subst str_of_nat.simps) auto
qed

lemma str_of_nat_Nil [simp]: "str_of_nat n \<noteq> []"
  by (subst str_of_nat.simps) simp

lemma nat_of_str_of_nat [simp]: "nat_of_digits (str_of_nat n) = n"
proof (induction n rule: str_of_nat.induct)
  case (1 n)
  then show ?case
    by (subst str_of_nat.simps) (auto simp: nat_of_digits_def)
qed

lemma str_of_nat_inject [simp]: "str_of_nat m = str_of_nat n \<longleftrightarrow> m = n"
  by (metis nat_of_str_of_nat)

section \<open>Timestamps\<close>

text \<open>
  The proleptic Gregorian date of a day number counted from 1970-01-01, by eras of 400 years
  whose years begin in March.
\<close>

definition civil_date :: "int \<Rightarrow> int \<times> int \<times> int" where
  "civil_date day =
    (let z = day + 719468;
         era = z div 146097;
         doe = z mod 146097;
         yoe = (doe - doe div 1460 + doe div 36524 - doe div 146096) div 365;
         doy = doe - (365 * yoe + yoe div 4 - yoe div 100);
         mp = (5 * doy + 2) div 153;
         d = doy - (153 * mp + 2) div 5 + 1;
         m = (if mp < 10 then mp + 3 else mp - 9)
     in (yoe + era * 400 + (if m \<le> 2 then 1 else 0), m, d))"

definition padded_int :: "nat \<Rightarrow> int \<Rightarrow> string" where
  "padded_int w n = zero_padded w (nat n)"

definition isoformat :: "datetime \<Rightarrow> string" where
  "isoformat t =
    (let us = t mod one_second; secs = t div one_second;
         day = secs div 86400; s = secs mod 86400
     in case civil_date day of (y, m, d) \<Rightarrow>
       padded_int 4 y @ ''-'' @ padded_int 2 m @ ''-'' @ padded_int 2 d @ ''T''
       @ padded_int 2 (s div 3600) @ '':'' @ padded_int 2 (s div 60 mod 60)
       @ '':'' @ padded_int 2 (s mod 60)
       @ (if us = 0 then [] else ''.'' @ padded_int 6 us) @ ''+00:00'')"

definition json_opt_time :: "datetime option \<Rightarrow> json" where
  "json_opt_time t = (case t of None \<Rightarrow> JNull | Some x \<Rightarrow> JStr (isoformat x))"

text \<open>2024-02-29 13:05:09.000042 UTC\<close>

lemma isoformat_leap_day: "isoformat 1709211909000042 = ''2024-02-29T13:05:09.000042+00:00''"
  by code_simp

lemma isoformat_epoch: "isoformat 0 = ''1970-01-01T00:00:00+00:00''"
  by code_simp

lemma isoformat_year_end: "isoformat (946684799 * 1000000) = ''1999-12-31T23:59:59+00:00''"
  by code_simp

section \<open>Searching and joining strings\<close>

text \<open>\<open>needle in text\<close>\<close>

fun contains :: "string \<Rightarrow> string \<Rightarrow> bool" where
  "contains needle [] \<longleftrightarrow> needle = []"
| "contains needle (c # cs) \<longleftrightarrow> take (length needle) (c # cs) = needle \<or> contains needle cs"

text \<open>\<open>sep.join(parts)\<close>\<close>

fun join_with :: "string \<Rightarrow> string list \<Rightarrow> string" where
  "join_with sep [] = []"
| "join_with sep [s] = s"
| "join_with sep (s # ss) = s @ sep @ join_with sep ss"

definition newline :: string where
  "newline = [char_of (10 :: nat)]"

text \<open>\<open>value or ""\<close>\<close>

definition or_empty :: "string option \<Rightarrow> string" where
  "or_empty v = (case v of None \<Rightarrow> [] | Some s \<Rightarrow> s)"

end
