(* ===== verification/Lifecycle.thy ===== *)
theory Lifecycle
  imports Record_Stores Rendering
begin

text \<open>
  The life cycle of a migration: \<open>ManageMigrationStateUseCase\<close>
  (\<open>use_cases/manage_migration_state.py\<close>) and the three commands over it
  (\<open>migration_state_control.py\<close>): pause the delta, resume it, freeze for cutover. The state is
  the state repository and the audit log; \<open>now\<close> is the one clock reading.
\<close>

record manage_result =
  mg_migration_id :: string
  mg_action :: string
  mg_previous_state :: lifecycle_status
  mg_current_state :: lifecycle_status
  mg_changed :: bool
  mg_updated_at :: datetime
  mg_freeze_started_at :: "datetime option"
  mg_finalized_at :: "datetime option"
  mg_last_reconcile_at :: "datetime option"
  mg_last_blockers :: "string list"

definition transition ::
    "migration_state_record \<Rightarrow> string \<Rightarrow> datetime \<Rightarrow> migration_state_record" where
  "transition existing action now =
    (if action = ''pause_delta'' then
       existing\<lparr>ms_status := Paused, ms_updated_at := now\<rparr>
     else if action = ''resume_delta'' then
       existing\<lparr>ms_status := Active, ms_updated_at := now, ms_freeze_started_at := None,
         ms_finalized_at := None, ms_last_blockers := []\<rparr>
     else
       existing\<lparr>ms_status := Paused, ms_updated_at := now, ms_freeze_started_at := Some now,
         ms_finalized_at := None\<rparr>)"

definition lifecycle_event_type :: "string \<Rightarrow> string" where
  "lifecycle_event_type action =
    (if action = ''pause_delta'' then ''migration_delta_paused''
     else if action = ''resume_delta'' then ''migration_delta_resumed''
     else ''migration_cutover_frozen'')"

definition has_changed :: "migration_state_record \<Rightarrow> migration_state_record \<Rightarrow> bool" where
  "has_changed previous current \<longleftrightarrow> ms_status previous \<noteq> ms_status current
    \<or> ms_freeze_started_at previous \<noteq> ms_freeze_started_at current
    \<or> ms_finalized_at previous \<noteq> ms_finalized_at current
    \<or> ms_last_blockers previous \<noteq> ms_last_blockers current"

definition new_migration_state :: "string \<Rightarrow> datetime \<Rightarrow> migration_state_record" where
  "new_migration_state migration now = \<lparr>ms_migration_id = migration, ms_status = Active,
     ms_updated_at = now, ms_created_at = now, ms_freeze_started_at = None, ms_finalized_at = None,
     ms_last_reconcile_at = None, ms_last_blockers = []\<rparr>"

definition lifecycle_actions :: "string list" where
  "lifecycle_actions = [''pause_delta'', ''resume_delta'', ''freeze_cutover'']"

definition manage_migration_state ::
    "migration_manifest \<Rightarrow> string \<Rightarrow> datetime \<Rightarrow> state_repo \<times> audit_log
      \<Rightarrow> (error, manage_result \<times> state_repo \<times> audit_log) outcome" where
  "manage_migration_state manifest action now s =
    (if action \<notin> set lifecycle_actions
     then Inl (FatalItemError (''unsupported migration state action='' @ py_repr action))
     else
       let (repo, log) = s; migration = mf_migration_id manifest;
           existing = (case state_get repo migration of
             None \<Rightarrow> new_migration_state migration now | Some r \<Rightarrow> r)
       in if ms_status existing = Completed
          then Inl (FatalItemError (''migration_id='' @ migration
                 @ '' is already completed and cannot be changed''))
          else
            let saved = transition existing action now;
                changed = has_changed existing saved;
                event = \<lparr>ae_migration_id = migration, ae_event_type = lifecycle_event_type action,
                  ae_severity = SevInfo, ae_created_at = now, ae_source_chat_id = None,
                  ae_source_message_id = None,
                  ae_payload_json = [
                    (''action'', JStr action),
                    (''previous_state'', JStr (lifecycle_value (ms_status existing))),
                    (''current_state'', JStr (lifecycle_value (ms_status saved))),
                    (''changed'', JBool changed),
                    (''freeze_started_at'', json_opt_time (ms_freeze_started_at saved)),
                    (''finalized_at'', json_opt_time (ms_finalized_at saved)),
                    (''last_blockers'', JList (map JStr (ms_last_blockers saved)))]\<rparr>
            in Inr (\<lparr>mg_migration_id = migration, mg_action = action,
                 mg_previous_state = ms_status existing, mg_current_state = ms_status saved,
                 mg_changed = changed, mg_updated_at = ms_updated_at saved,
                 mg_freeze_started_at = ms_freeze_started_at saved,
                 mg_finalized_at = ms_finalized_at saved,
                 mg_last_reconcile_at = ms_last_reconcile_at saved,
                 mg_last_blockers = ms_last_blockers saved\<rparr>,
               state_save saved repo, audit_add event log))"

section \<open>The three commands\<close>

record state_control_result =
  sc_migration_id :: string
  sc_status :: string
  sc_migration_state :: lifecycle_status
  sc_previous_migration_state :: lifecycle_status
  sc_updated_at :: datetime
  sc_freeze_started_at :: "datetime option"
  sc_finalized_at :: "datetime option"
  sc_last_reconcile_at :: "datetime option"
  sc_changed :: bool
  sc_blockers :: "string list"

definition to_control_result :: "manage_result \<Rightarrow> state_control_result" where
  "to_control_result r = \<lparr>sc_migration_id = mg_migration_id r,
     sc_status = (if mg_changed r then ''changed'' else ''no_change''),
     sc_migration_state = mg_current_state r, sc_previous_migration_state = mg_previous_state r,
     sc_updated_at = mg_updated_at r, sc_freeze_started_at = mg_freeze_started_at r,
     sc_finalized_at = mg_finalized_at r, sc_last_reconcile_at = mg_last_reconcile_at r,
     sc_changed = mg_changed r, sc_blockers = mg_last_blockers r\<rparr>"

definition control_with ::
    "string \<Rightarrow> migration_manifest \<Rightarrow> datetime \<Rightarrow> state_repo \<times> audit_log
      \<Rightarrow> (error, state_control_result \<times> state_repo \<times> audit_log) outcome" where
  "control_with action manifest now s =
    (case manage_migration_state manifest action now s of
       Inl e \<Rightarrow> Inl e | Inr (r, s') \<Rightarrow> Inr (to_control_result r, s'))"

definition pause_delta where "pause_delta = control_with ''pause_delta''"

definition resume_delta where "resume_delta = control_with ''resume_delta''"

definition freeze_cutover where "freeze_cutover = control_with ''freeze_cutover''"

section \<open>Effects\<close>

lemma manage_state_Inr:
  assumes "manage_migration_state manifest action now (repo, log) = Inr (r, repo', log')"
  obtains existing where
    "existing = (case state_get repo (mf_migration_id manifest) of
       None \<Rightarrow> new_migration_state (mf_migration_id manifest) now | Some x \<Rightarrow> x)"
    "action \<in> set lifecycle_actions" "ms_status existing \<noteq> Completed"
    "repo' = state_save (transition existing action now) repo"
    "mg_current_state r = ms_status (transition existing action now)"
    "mg_changed r = has_changed existing (transition existing action now)"
    "\<exists>e. log' = audit_add e log \<and> ae_event_type e = lifecycle_event_type action"
  using assms
  by (force simp: manage_migration_state_def Let_def split: if_splits)

lemma transition_simps [simp]:
  "ms_migration_id (transition e a now) = ms_migration_id e"
  "ms_created_at (transition e a now) = ms_created_at e"
  "ms_updated_at (transition e a now) = now"
  by (simp_all add: transition_def)

lemma transition_never_completed: "ms_status (transition e a now) \<in> {Active, Paused}"
  by (simp add: transition_def)

text \<open>
  What a stored state says: a finalisation time only for a completed migration; the state is
  keyed by its migration.
\<close>

definition state_wf :: "migration_state_record \<Rightarrow> bool" where
  "state_wf r \<longleftrightarrow> (ms_finalized_at r \<noteq> None \<longleftrightarrow> ms_status r = Completed)
    \<and> (ms_status r = Completed \<longrightarrow> ms_last_blockers r = [] \<and> ms_freeze_started_at r \<noteq> None)
    \<and> ms_created_at r \<le> ms_updated_at r"

definition states_inv :: "state_repo \<Rightarrow> bool" where
  "states_inv repo \<longleftrightarrow> keyed_dict ms_migration_id repo
    \<and> (\<forall>m r. state_get repo m = Some r \<longrightarrow> state_wf r)"

lemma states_inv_save:
  assumes "states_inv repo" and "state_wf r"
  shows "states_inv (state_save r repo)"
  using assms by (auto simp: states_inv_def states.get_save) (simp add: state_save_def keyed_dict_set)

lemma states_inv_wf: "states_inv repo \<Longrightarrow> state_get repo m = Some r \<Longrightarrow> state_wf r \<and> ms_migration_id r = m"
  by (auto simp: states_inv_def state_get_def dest: keyed_dict_key)

lemma state_wf_new: "state_wf (new_migration_state m now)"
  by (simp add: state_wf_def new_migration_state_def)

lemma state_wf_transition:
  assumes "state_wf e" and "ms_status e \<noteq> Completed" and "ms_created_at e \<le> now"
  shows "state_wf (transition e a now)"
  using assms by (auto simp: state_wf_def transition_def)

end
