(* ===== verification/Claims.thy ===== *)
theory Claims
  imports Models
begin

text \<open>
  The contract of the three repositories that guard a delivery: before a message, an attachment
  or an upload is worked on it is \<open>claimed\<close>. A claim that is held by a fresh worker is refused
  as ambiguous, a delivered item is reported as imported, and only a granted claim changes the
  repository. \<open>fresh s c t\<close> says that a claim stamped at \<open>c\<close> still counts at time \<open>t\<close>.
\<close>

text \<open>A sequence of claims, each with its retry flag, record and clock readings.\<close>

fun run_claims :: "('a \<Rightarrow> 'r \<Rightarrow> datetime \<Rightarrow> datetime \<Rightarrow> 's \<Rightarrow> (claim_state \<times> 'r) \<times> 's)
    \<Rightarrow> ('a \<times> 'r \<times> datetime \<times> datetime) list \<Rightarrow> 's \<Rightarrow> 's" where
  "run_claims claim [] s = s"
| "run_claims claim ((a, r, t, c) # ops) s = run_claims claim ops (snd (claim a r t c s))"

locale claim_protocol =
  fixes get :: "'s \<Rightarrow> 'k \<Rightarrow> 'r option"
    and key :: "'r \<Rightarrow> 'k"
    and inv :: "'s \<Rightarrow> bool"
    and valid :: "'r \<Rightarrow> bool"
    and delivered :: "'r \<Rightarrow> bool"
    and held :: "datetime \<Rightarrow> 's \<Rightarrow> 'k \<Rightarrow> bool"
    and fresh :: "'s \<Rightarrow> datetime \<Rightarrow> datetime \<Rightarrow> bool"
    and claim :: "'a \<Rightarrow> 'r \<Rightarrow> datetime \<Rightarrow> datetime \<Rightarrow> 's \<Rightarrow> (claim_state \<times> 'r) \<times> 's"
  assumes inv_claim: "inv s \<Longrightarrow> valid r \<Longrightarrow> inv (snd (claim a r t c s))"
    and claim_granted: "inv s \<Longrightarrow> valid r \<Longrightarrow> fst (fst (claim a r t c s)) = Claimed \<Longrightarrow>
      get (snd (claim a r t c s)) (key r) = Some (snd (fst (claim a r t c s)))
      \<and> (\<forall>t'. fresh s c t' \<longrightarrow> held t' (snd (claim a r t c s)) (key r))"
    and claim_refused: "fst (fst (claim a r t c s)) \<noteq> Claimed \<Longrightarrow>
      snd (claim a r t c s) = s \<and> get s (key r) = Some (snd (fst (claim a r t c s)))"
    and claim_held: "inv s \<Longrightarrow> held t s (key r) \<Longrightarrow> fst (fst (claim a r t c s)) = ClaimAmbiguous"
    and claim_delivered: "inv s \<Longrightarrow> get s (key r) = Some e \<Longrightarrow> delivered e \<Longrightarrow>
      fst (fst (claim a r t c s)) = ClaimImported"
    and claim_other: "k \<noteq> key r \<Longrightarrow> get (snd (claim a r t c s)) k = get s k
      \<and> held t' (snd (claim a r t c s)) k = held t' s k"
    and claim_fresh: "fresh (snd (claim a r t c s)) = fresh s"
begin

lemma claim_exclusive:
  assumes "inv s" and "valid r" and "fst (fst (claim a r t c s)) = Claimed"
    and "key r' = key r" and "fresh s c t'"
  shows "fst (fst (claim a' r' t' c' (snd (claim a r t c s)))) = ClaimAmbiguous"
    and "snd (claim a' r' t' c' (snd (claim a r t c s))) = snd (claim a r t c s)"
proof -
  have "held t' (snd (claim a r t c s)) (key r')"
    using claim_granted [OF assms(1-3)] assms(4,5) by simp
  then show *: "fst (fst (claim a' r' t' c' (snd (claim a r t c s)))) = ClaimAmbiguous"
    by (rule claim_held [OF inv_claim [OF assms(1,2)]])
  then show "snd (claim a' r' t' c' (snd (claim a r t c s))) = snd (claim a r t c s)"
    by (simp add: claim_refused)
qed

text \<open>
  While the claim of \<open>k\<close> is held, any sequence of claims, of this item or of others, leaves it
  as it is: no second worker is ever granted it.
\<close>

lemma held_claims_keep:
  assumes "inv s" and "\<forall>(a, r, t, c) \<in> set ops. valid r \<and> held t s k" and "get s k = Some e"
  shows "get (run_claims claim ops s) k = Some e"
  using assms
proof (induction ops arbitrary: s)
  case Nil
  then show ?case by simp
next
  case (Cons op ops)
  obtain a r t c where op: "op = (a, r, t, c)" by (metis surj_pair)
  let ?s = "snd (claim a r t c s)"
  have same: "get ?s k = get s k" "\<And>t'. held t' ?s k = held t' s k"
  proof -
    have "get ?s k = get s k \<and> (\<forall>t'. held t' ?s k = held t' s k)"
    proof (cases "k = key r")
      case True
      with Cons.prems op have "fst (fst (claim a r t c s)) = ClaimAmbiguous"
        by (auto intro: claim_held)
      then have "?s = s" by (simp add: claim_refused)
      then show ?thesis by simp
    next
      case False
      then show ?thesis using claim_other by blast
    qed
    then show "get ?s k = get s k" "\<And>t'. held t' ?s k = held t' s k" by simp_all
  qed
  have "inv ?s" using Cons.prems op by (auto intro: inv_claim)
  moreover have "\<forall>(a, r, t, c) \<in> set ops. valid r \<and> held t ?s k"
    using Cons.prems(2) same(2) by auto
  ultimately have "get (run_claims claim ops ?s) k = Some e"
    using Cons.prems(3) same(1) by (intro Cons.IH) simp_all
  with op show ?case by simp
qed

lemma delivered_claims_keep:
  assumes "inv s" and "\<forall>(a, r, t, c) \<in> set ops. valid r" and "get s k = Some e" and "delivered e"
  shows "get (run_claims claim ops s) k = Some e"
  using assms
proof (induction ops arbitrary: s)
  case Nil
  then show ?case by simp
next
  case (Cons op ops)
  obtain a r t c where op: "op = (a, r, t, c)" by (metis surj_pair)
  have "get (snd (claim a r t c s)) k = Some e"
  proof (cases "k = key r")
    case True
    with Cons.prems have "fst (fst (claim a r t c s)) = ClaimImported"
      by (auto intro: claim_delivered)
    with Cons.prems show ?thesis by (simp add: claim_refused)
  next
    case False
    with Cons.prems show ?thesis by (simp add: claim_other)
  qed
  with Cons op show ?case by (auto simp: inv_claim)
qed

end

end
