(* ===== verification/Message_Repo.thy ===== *)
theory Message_Repo
  imports Claims
begin

text \<open>
  \<open>InMemoryMessageMappingRepository\<close>: one record per message of a chat, with the set of keys
  whose delivery is ambiguous and the time each running claim started. \<open>claim\<close> reads the clock
  once to judge a running claim (\<open>now\<close>) and once to stamp a granted one (\<open>stamp\<close>).
\<close>

type_synonym message_key = "string \<times> string \<times> string"

record message_repo =
  mr_items :: "(message_key, message_mapping_record) dict"
  mr_ambiguous :: "message_key set"
  mr_started :: "message_key \<rightharpoonup> datetime"
  mr_stale_after :: timedelta

definition message_key :: "message_mapping_record \<Rightarrow> message_key" where
  "message_key r = (mm_migration_id r, mm_source_chat_id r, mm_source_message_id r)"

text \<open>The constructor takes the window in seconds and clamps it to at least one.\<close>

definition message_repo_init :: "timedelta \<Rightarrow> message_repo" where
  "message_repo_init stale_after = \<lparr>mr_items = [], mr_ambiguous = {}, mr_started = Map.empty,
     mr_stale_after = max stale_after one_second\<rparr>"

section \<open>Claiming\<close>

definition message_stale :: "datetime \<Rightarrow> message_repo \<Rightarrow> message_key \<Rightarrow> bool" where
  "message_stale now repo k \<longleftrightarrow>
    (case mr_started repo k of None \<Rightarrow> False | Some c \<Rightarrow> c \<le> now - mr_stale_after repo)"

text \<open>The record a re-claim stores: the old one with the new submission's content, processing.\<close>

definition message_reclaimed ::
    "message_mapping_record \<Rightarrow> message_mapping_record \<Rightarrow> message_mapping_record" where
  "message_reclaimed r existing = existing\<lparr>mm_source_sent_at := mm_source_sent_at r,
     mm_target_chat_id := mm_target_chat_id r, mm_checksum := mm_checksum r,
     mm_import_status := MsgProcessing, mm_imported_at := None, mm_target_sync_id := None,
     mm_rendered_body := mm_rendered_body r, mm_last_error_code := None,
     mm_last_error_payload := None\<rparr>"

definition message_put ::
    "message_key \<Rightarrow> message_mapping_record \<Rightarrow> datetime \<Rightarrow> message_repo \<Rightarrow> message_repo" where
  "message_put k r stamp repo = repo\<lparr>mr_items := dict_set k r (mr_items repo),
     mr_started := (mr_started repo)(k \<mapsto> stamp)\<rparr>"

definition message_claim ::
    "message_mapping_record \<Rightarrow> datetime \<Rightarrow> datetime \<Rightarrow> message_repo
      \<Rightarrow> (claim_state \<times> message_mapping_record) \<times> message_repo" where
  "message_claim r now stamp repo =
    (let k = message_key r in
     case dict_get (mr_items repo) k of
       None \<Rightarrow> ((Claimed, r), message_put k r stamp repo)
     | Some existing \<Rightarrow>
         if k \<in> mr_ambiguous repo then
           if mm_last_error_code existing = Some ''AmbiguousDeliveryError''
             \<and> mm_target_sync_id existing = None \<and> message_stale now repo k
           then let updated = message_reclaimed r existing
                in ((Claimed, updated),
                    (message_put k updated stamp repo)\<lparr>mr_ambiguous := mr_ambiguous repo - {k}\<rparr>)
           else ((ClaimAmbiguous, existing), repo)
         else if mm_import_status existing = MsgImported then ((ClaimImported, existing), repo)
         else if mm_import_status existing = MsgFailed \<and> is_cancel_code (mm_last_error_code existing)
         then let updated = message_reclaimed r existing
              in ((Claimed, updated), message_put k updated stamp repo)
         else if mm_import_status existing = MsgFailed then ((ClaimFailed, existing), repo)
         else if mm_import_status existing = MsgProcessing
           \<and> (is_cancel_code (mm_last_error_code existing) \<or> message_stale now repo k)
         then ((Claimed, r), message_put k r stamp repo)
         else ((ClaimAmbiguous, existing), repo))"

definition message_get :: "message_repo \<Rightarrow> message_key \<Rightarrow> message_mapping_record option" where
  "message_get repo k = dict_get (mr_items repo) k"

section \<open>Outcomes\<close>

text \<open>\<open>self._items[key]\<close> raises \<open>KeyError\<close> for a message that was never claimed.\<close>

definition message_mark_imported ::
    "message_key \<Rightarrow> string \<Rightarrow> string \<Rightarrow> datetime \<Rightarrow> message_repo
      \<Rightarrow> (error, message_mapping_record \<times> message_repo) outcome" where
  "message_mark_imported k target_sync_id rendered_body now repo =
    (case dict_get (mr_items repo) k of
       None \<Rightarrow> Inl KeyError
     | Some r \<Rightarrow>
         let updated = r\<lparr>mm_import_status := MsgImported, mm_imported_at := Some now,
               mm_target_sync_id := Some target_sync_id, mm_rendered_body := Some rendered_body,
               mm_last_error_code := None, mm_last_error_payload := None\<rparr>
         in Inr (updated, repo\<lparr>mr_items := dict_set k updated (mr_items repo),
                           mr_ambiguous := mr_ambiguous repo - {k},
                           mr_started := (mr_started repo)(k := None)\<rparr>))"

definition message_mark_failed ::
    "message_key \<Rightarrow> string \<Rightarrow> json \<Rightarrow> message_repo
      \<Rightarrow> (error, message_mapping_record \<times> message_repo) outcome" where
  "message_mark_failed k error_code error_payload repo =
    (case dict_get (mr_items repo) k of
       None \<Rightarrow> Inl KeyError
     | Some r \<Rightarrow>
         let updated = r\<lparr>mm_import_status := MsgFailed, mm_last_error_code := Some error_code,
               mm_last_error_payload := Some error_payload\<rparr>
         in Inr (updated, repo\<lparr>mr_items := dict_set k updated (mr_items repo),
                           mr_ambiguous := mr_ambiguous repo - {k},
                           mr_started := (mr_started repo)(k := None)\<rparr>))"

definition message_mark_ambiguous ::
    "message_key \<Rightarrow> string \<Rightarrow> json \<Rightarrow> datetime \<Rightarrow> message_repo
      \<Rightarrow> (error, message_mapping_record \<times> message_repo) outcome" where
  "message_mark_ambiguous k error_code error_payload now repo =
    (case dict_get (mr_items repo) k of
       None \<Rightarrow> Inl KeyError
     | Some r \<Rightarrow>
         let updated = r\<lparr>mm_import_status := MsgAmbiguous, mm_last_error_code := Some error_code,
               mm_last_error_payload := Some error_payload\<rparr>
         in Inr (updated, repo\<lparr>mr_items := dict_set k updated (mr_items repo),
                           mr_ambiguous := insert k (mr_ambiguous repo),
                           mr_started := (mr_started repo)(k \<mapsto> now)\<rparr>))"

section \<open>Failed messages and summaries\<close>

definition message_list_failed ::
    "string \<Rightarrow> string option \<Rightarrow> int \<Rightarrow> message_repo \<Rightarrow> message_mapping_record list" where
  "message_list_failed migration chat limit repo =
    slice_to limit (sort_key (\<lambda>r. (mm_source_sent_at r, mm_source_message_id r))
      (map snd (filter (\<lambda>p. fst (fst p) = migration \<and> mm_import_status (snd p) = MsgFailed
          \<and> (chat = None \<or> chat = Some (fst (snd (fst p))))) (mr_items repo))))"

definition message_requeue_one :: "(message_key \<Rightarrow> datetime) \<Rightarrow> message_key \<times> message_mapping_record
    \<Rightarrow> message_repo \<Rightarrow> message_repo" where
  "message_requeue_one stamp p repo =
    (case p of (k, r) \<Rightarrow>
       let updated = r\<lparr>mm_import_status := MsgProcessing, mm_imported_at := None,
             mm_last_error_code := None, mm_last_error_payload := None\<rparr>
       in (message_put k updated (stamp k) repo)\<lparr>mr_ambiguous := mr_ambiguous repo - {k}\<rparr>)"

definition message_requeue_failed ::
    "string \<Rightarrow> string option \<Rightarrow> int \<Rightarrow> (message_key \<Rightarrow> datetime) \<Rightarrow> message_repo
      \<Rightarrow> message_mapping_record list \<times> message_repo" where
  "message_requeue_failed migration chat limit stamp repo =
    (let selected = slice_to limit
           (sort_key (\<lambda>p. (mm_source_sent_at (snd p), mm_source_message_id (snd p)))
             (filter (\<lambda>p. fst (fst p) = migration \<and> mm_import_status (snd p) = MsgFailed
                \<and> (chat = None \<or> chat = Some (fst (snd (fst p))))) (mr_items repo)));
         updated = map (\<lambda>(k, r). r\<lparr>mm_import_status := MsgProcessing, mm_imported_at := None,
                     mm_last_error_code := None, mm_last_error_payload := None\<rparr>) selected
     in (updated, fold (message_requeue_one stamp) selected repo))"

record message_status_summary =
  mss_migration_id :: string
  mss_source_chat_id :: string
  mss_import_status :: message_import_status
  mss_count :: nat

definition message_summarize :: "string \<Rightarrow> message_repo \<Rightarrow> message_status_summary list" where
  "message_summarize migration repo =
    (let counts = count_keys (map (\<lambda>p. (fst (snd (fst p)), mm_import_status (snd p)))
           (filter (\<lambda>p. fst (fst p) = migration) (mr_items repo)))
     in sort_key (\<lambda>s. (mss_source_chat_id s, mss_import_status s))
          (map (\<lambda>((chat, status), n). \<lparr>mss_migration_id = migration, mss_source_chat_id = chat,
             mss_import_status = status, mss_count = n\<rparr>) counts))"

section \<open>The repository invariant\<close>

text \<open>
  The ambiguous set holds exactly the keys of ambiguous records, and a start time is kept for
  exactly the processing and the ambiguous ones. A submitted record is a new claim: processing,
  without an error, as the use cases build it.
\<close>

definition message_submission :: "message_mapping_record \<Rightarrow> bool" where
  "message_submission r \<longleftrightarrow> mm_import_status r = MsgProcessing \<and> mm_last_error_code r = None"

definition message_inv :: "message_repo \<Rightarrow> bool" where
  "message_inv repo \<longleftrightarrow> keyed_dict message_key (mr_items repo)
    \<and> (\<forall>k. k \<in> mr_ambiguous repo \<longleftrightarrow>
          (\<exists>r. message_get repo k = Some r \<and> mm_import_status r = MsgAmbiguous))
    \<and> (\<forall>k. mr_started repo k \<noteq> None \<longleftrightarrow>
          (\<exists>r. message_get repo k = Some r \<and> mm_import_status r \<in> {MsgProcessing, MsgAmbiguous}))
    \<and> 0 < mr_stale_after repo"

lemma message_invD:
  assumes "message_inv repo"
  shows "keyed_dict message_key (mr_items repo)"
    and "k \<in> mr_ambiguous repo \<longleftrightarrow>
      (\<exists>r. message_get repo k = Some r \<and> mm_import_status r = MsgAmbiguous)"
    and "mr_started repo k \<noteq> None \<longleftrightarrow>
      (\<exists>r. message_get repo k = Some r \<and> mm_import_status r \<in> {MsgProcessing, MsgAmbiguous})"
    and "0 < mr_stale_after repo"
  using assms unfolding message_inv_def by blast+

lemma message_inv_init: "message_inv (message_repo_init w)"
  by (simp add: message_inv_def message_repo_init_def message_get_def one_second_def)

text \<open>
  All operations that write do so in one way: one record is stored, and the ambiguous set and
  the start time follow its status.
\<close>

definition message_write ::
    "message_key \<Rightarrow> message_mapping_record \<Rightarrow> datetime \<Rightarrow> message_repo \<Rightarrow> message_repo" where
  "message_write k r stamp repo = repo\<lparr>mr_items := dict_set k r (mr_items repo),
     mr_ambiguous := (if mm_import_status r = MsgAmbiguous then insert k (mr_ambiguous repo)
                      else mr_ambiguous repo - {k}),
     mr_started := (mr_started repo)(k :=
        if mm_import_status r \<in> {MsgProcessing, MsgAmbiguous} then Some stamp else None)\<rparr>"

lemma message_get_write [simp]:
  "message_get (message_write k r c repo) k' = (if k' = k then Some r else message_get repo k')"
  by (simp add: message_get_def message_write_def)

lemma message_inv_write:
  assumes "message_inv repo" and "message_key r = k"
  shows "message_inv (message_write k r c repo)"
  unfolding message_inv_def
proof (intro conjI allI)
  show "keyed_dict message_key (mr_items (message_write k r c repo))"
    using assms message_invD(1) by (auto simp: message_write_def)
  fix k'
  show "k' \<in> mr_ambiguous (message_write k r c repo) \<longleftrightarrow>
      (\<exists>r'. message_get (message_write k r c repo) k' = Some r' \<and> mm_import_status r' = MsgAmbiguous)"
    using message_invD(2) [OF assms(1), of k'] by (auto simp: message_write_def message_get_def)
  show "mr_started (message_write k r c repo) k' \<noteq> None \<longleftrightarrow>
      (\<exists>r'. message_get (message_write k r c repo) k' = Some r'
        \<and> mm_import_status r' \<in> {MsgProcessing, MsgAmbiguous})"
    using message_invD(3) [OF assms(1), of k'] by (simp add: message_write_def message_get_def)
  show "0 < mr_stale_after (message_write k r c repo)"
    using message_invD(4) [OF assms(1)] by (simp add: message_write_def)
qed

lemma message_key_reclaimed: "message_key (message_reclaimed r e) = message_key e"
  by (simp add: message_key_def message_reclaimed_def)

lemma message_submission_reclaimed: "message_submission (message_reclaimed r e)"
  by (simp add: message_submission_def message_reclaimed_def)

lemma message_claim_refused:
  assumes "fst (fst (message_claim r now c repo)) \<noteq> Claimed"
  shows "snd (message_claim r now c repo) = repo
    \<and> message_get repo (message_key r) = Some (snd (fst (message_claim r now c repo)))"
  using assms by (auto simp: message_claim_def message_get_def Let_def split: option.splits if_splits)

text \<open>A claim either refuses and changes nothing, or stores one submission.\<close>

lemma message_claim_cases:
  assumes "message_inv repo" and "message_submission r"
  obtains (refuse) st e where "st \<noteq> Claimed" "message_claim r now c repo = ((st, e), repo)"
      "message_get repo (message_key r) = Some e"
  | (grant) r' where "message_key r' = message_key r" "message_submission r'"
      "message_claim r now c repo = ((Claimed, r'), message_write (message_key r) r' c repo)"
proof (cases "dict_get (mr_items repo) (message_key r)")
  case None
  then have "message_key r \<notin> mr_ambiguous repo"
    using message_invD(2) [OF assms(1)] by (simp add: message_get_def)
  with None grant [of r] assms(2) show ?thesis
    by (auto simp: message_claim_def message_put_def message_write_def message_submission_def Let_def)
next
  case (Some e)
  then have key: "message_key e = message_key r"
    using message_invD(1) [OF assms(1)] by (auto dest: keyed_dict_key)
  let ?k = "message_key r" and ?u = "message_reclaimed r e"
  have u: "message_key ?u = ?k" "message_submission ?u"
    by (simp_all add: message_key_reclaimed key message_submission_reclaimed)
  have put: "message_put ?k r' c repo = message_write ?k r' c repo"
    if "message_submission r'" "?k \<notin> mr_ambiguous repo" for r'
    using that by (simp add: message_put_def message_write_def message_submission_def)
  have put': "(message_put ?k r' c repo)\<lparr>mr_ambiguous := mr_ambiguous repo - {?k}\<rparr>
      = message_write ?k r' c repo" if "message_submission r'" for r'
    using that by (simp add: message_put_def message_write_def message_submission_def)
  show ?thesis
  proof (cases "fst (fst (message_claim r now c repo)) = Claimed")
    case False
    with message_claim_refused [OF this] refuse show ?thesis
      by (cases "message_claim r now c repo") auto
  next
    case True
    then have "\<exists>r'. (r' = ?u \<or> r' = r) \<and>
        message_claim r now c repo = ((Claimed, r'), message_write ?k r' c repo)"
      using Some u(2) assms(2)
      by (auto simp: message_claim_def Let_def put put' split: if_splits)
    with grant [OF u] grant [OF refl assms(2)] show ?thesis by auto
  qed
qed

lemma message_inv_claim:
  assumes "message_inv repo" and "message_submission r"
  shows "message_inv (snd (message_claim r now c repo))"
  by (cases rule: message_claim_cases [OF assms, of now c])
    (simp_all add: message_inv_write assms(1))

section \<open>The claim contract\<close>

text \<open>A claim is held while its record is processing, not cancelled and not yet stale.\<close>

definition message_held :: "datetime \<Rightarrow> message_repo \<Rightarrow> message_key \<Rightarrow> bool" where
  "message_held now repo k \<longleftrightarrow>
    (\<exists>e. message_get repo k = Some e \<and> mm_import_status e = MsgProcessing
       \<and> \<not> is_cancel_code (mm_last_error_code e)) \<and> \<not> message_stale now repo k"

definition message_fresh :: "message_repo \<Rightarrow> datetime \<Rightarrow> datetime \<Rightarrow> bool" where
  "message_fresh repo c t \<longleftrightarrow> t < c + mr_stale_after repo"

lemma message_stale_write [simp]:
  "mr_stale_after (message_write k r c repo) = mr_stale_after repo"
  "message_stale t (message_write k r c repo) k' =
    (if k' = k then mm_import_status r \<in> {MsgProcessing, MsgAmbiguous} \<and> \<not> message_fresh repo c t
     else message_stale t repo k')"
  by (simp add: message_write_def)
    (auto simp: message_write_def message_stale_def message_fresh_def split: option.split)

lemma message_claim_shape:
  obtains (refuse) "snd (message_claim r t c repo) = repo"
  | (grant) r' A where "snd (message_claim r t c repo) =
      (message_put (message_key r) r' c repo)\<lparr>mr_ambiguous := A\<rparr>"
proof -
  have "snd (message_claim r t c repo) = repo \<or>
      (\<exists>r'. snd (message_claim r t c repo) = message_put (message_key r) r' c repo) \<or>
      (\<exists>r' A. snd (message_claim r t c repo) = (message_put (message_key r) r' c repo)\<lparr>mr_ambiguous := A\<rparr>)"
    by (simp add: message_claim_def Let_def split: option.split) blast
  moreover have "message_put k r' c repo = (message_put k r' c repo)\<lparr>mr_ambiguous := mr_ambiguous repo\<rparr>"
    for k r' by (simp add: message_put_def)
  ultimately show ?thesis using refuse grant by metis
qed

lemma message_claim_other:
  assumes "k \<noteq> message_key r"
  shows "message_get (snd (message_claim r t c repo)) k = message_get repo k"
    and "message_held t' (snd (message_claim r t c repo)) k = message_held t' repo k"
proof -
  have "mr_items (snd (message_claim r t c repo)) = mr_items repo
      \<and> mr_started (snd (message_claim r t c repo)) = mr_started repo \<or>
    (\<exists>r'. mr_items (snd (message_claim r t c repo)) = dict_set (message_key r) r' (mr_items repo)
      \<and> mr_started (snd (message_claim r t c repo)) = (mr_started repo)(message_key r \<mapsto> c))"
    by (cases rule: message_claim_shape [of r t c repo]) (auto simp: message_put_def)
  moreover have "mr_stale_after (snd (message_claim r t c repo)) = mr_stale_after repo"
    by (cases rule: message_claim_shape [of r t c repo]) (auto simp: message_put_def)
  ultimately show "message_get (snd (message_claim r t c repo)) k = message_get repo k"
    "message_held t' (snd (message_claim r t c repo)) k = message_held t' repo k"
    using assms
    by (auto simp: message_get_def message_held_def message_stale_def split: option.splits)
qed

lemma message_claim_stale_after [simp]:
  "mr_stale_after (snd (message_claim r t c repo)) = mr_stale_after repo"
  by (simp add: message_claim_def message_put_def Let_def split: option.split)

interpretation messages: claim_protocol message_get message_key message_inv message_submission
  "\<lambda>e. mm_import_status e = MsgImported" message_held message_fresh "\<lambda>_ :: unit. message_claim"
proof unfold_locales
  fix a :: unit and repo r t c
  show "message_inv (snd (message_claim r t c repo))"
    if "message_inv repo" "message_submission r"
    using that by (rule message_inv_claim)
  show "message_get (snd (message_claim r t c repo)) (message_key r) =
        Some (snd (fst (message_claim r t c repo)))
      \<and> (\<forall>t'. message_fresh repo c t' \<longrightarrow>
            message_held t' (snd (message_claim r t c repo)) (message_key r))"
    if "message_inv repo" "message_submission r" "fst (fst (message_claim r t c repo)) = Claimed"
    using that(3) by (cases rule: message_claim_cases [OF that(1,2), of t c])
      (auto simp: message_held_def message_submission_def)
  show "snd (message_claim r t c repo) = repo
      \<and> message_get repo (message_key r) = Some (snd (fst (message_claim r t c repo)))"
    if "fst (fst (message_claim r t c repo)) \<noteq> Claimed"
    using that by (rule message_claim_refused)
  show "fst (fst (message_claim r t c repo)) = ClaimAmbiguous"
    if "message_inv repo" "message_held t repo (message_key r)"
    using that(2) message_invD(2) [OF that(1), of "message_key r"]
    by (auto simp: message_held_def message_claim_def message_get_def Let_def)
  show "fst (fst (message_claim r t c repo)) = ClaimImported"
    if "message_inv repo" "message_get repo (message_key r) = Some e" "mm_import_status e = MsgImported" for e
    using that message_invD(2) [OF that(1), of "message_key r"]
    by (auto simp: message_claim_def message_get_def Let_def)
  show "message_get (snd (message_claim r t c repo)) k = message_get repo k
      \<and> message_held t' (snd (message_claim r t c repo)) k = message_held t' repo k"
    if "k \<noteq> message_key r" for k t'
    using that by (simp add: message_claim_other)
  show "message_fresh (snd (message_claim r t c repo)) = message_fresh repo"
    by (simp add: message_fresh_def fun_eq_iff)
qed

section \<open>Runs of the repository\<close>

lemma message_mark_imported_Inr:
  assumes "message_inv repo" and "message_mark_imported k sid body now repo = Inr (r, repo')"
  shows "message_key r = k" and "repo' = message_write k r now repo"
    and "mm_import_status r = MsgImported" and "mm_target_sync_id r = Some sid"
  using assms(2) message_invD(1) [OF assms(1)]
  by (auto simp: message_mark_imported_def message_write_def message_key_def Let_def
      split: option.splits dest!: keyed_dict_key)

lemma message_mark_failed_Inr:
  assumes "message_inv repo" and "message_mark_failed k code payload repo = Inr (r, repo')"
  shows "message_key r = k" and "repo' = message_write k r now repo"
    and "mm_import_status r = MsgFailed" and "mm_last_error_code r = Some code"
  using assms(2) message_invD(1) [OF assms(1)]
  by (auto simp: message_mark_failed_def message_write_def message_key_def Let_def
      split: option.splits dest!: keyed_dict_key)

lemma message_mark_ambiguous_Inr:
  assumes "message_inv repo" and "message_mark_ambiguous k code payload now repo = Inr (r, repo')"
  shows "message_key r = k" and "repo' = message_write k r now repo"
    and "mm_import_status r = MsgAmbiguous" and "mm_last_error_code r = Some code"
  using assms(2) message_invD(1) [OF assms(1)]
  by (auto simp: message_mark_ambiguous_def message_write_def message_key_def Let_def
      split: option.splits dest!: keyed_dict_key)

text \<open>A requeue writes one processing record per selected entry.\<close>

definition message_requeued :: "message_mapping_record \<Rightarrow> message_mapping_record" where
  "message_requeued r = r\<lparr>mm_import_status := MsgProcessing, mm_imported_at := None,
     mm_last_error_code := None, mm_last_error_payload := None\<rparr>"

lemma message_requeue_one_write:
  "message_requeue_one stamp (k, r) repo = message_write k (message_requeued r) (stamp k) repo"
  by (simp add: message_requeue_one_def message_requeued_def message_put_def message_write_def Let_def)

lemma message_key_requeued [simp]: "message_key (message_requeued r) = message_key r"
  by (simp add: message_key_def message_requeued_def)

lemma message_inv_requeue_fold:
  "message_inv repo \<Longrightarrow> \<forall>(k, r) \<in> set ps. message_key r = k \<Longrightarrow>
    message_inv (fold (message_requeue_one stamp) ps repo)"
proof (induction ps arbitrary: repo)
  case Nil
  then show ?case by simp
next
  case (Cons p ps)
  then have "message_inv (message_requeue_one stamp p repo)"
    by (cases p) (simp add: message_requeue_one_write message_inv_write)
  with Cons show ?case by simp
qed

lemma message_get_requeue_fold:
  "distinct (map fst ps) \<Longrightarrow> message_get (fold (message_requeue_one stamp) ps repo) k =
    (case map_of ps k of Some r \<Rightarrow> Some (message_requeued r) | None \<Rightarrow> message_get repo k)"
proof (induction ps arbitrary: repo)
  case Nil
  then show ?case by simp
next
  case (Cons p ps)
  moreover have "map_of ps (fst p) = None"
    using Cons.prems by (simp add: map_of_eq_None_iff)
  ultimately show ?case
    by (cases p) (auto simp: message_requeue_one_write split: option.split)
qed

definition message_failed_entries ::
    "string \<Rightarrow> string option \<Rightarrow> int \<Rightarrow> message_repo \<Rightarrow> (message_key \<times> message_mapping_record) list" where
  "message_failed_entries migration chat limit repo = slice_to limit
     (sort_key (\<lambda>p. (mm_source_sent_at (snd p), mm_source_message_id (snd p)))
       (filter (\<lambda>p. fst (fst p) = migration \<and> mm_import_status (snd p) = MsgFailed
          \<and> (chat = None \<or> chat = Some (fst (snd (fst p))))) (mr_items repo)))"

lemma message_requeue_failed_alt:
  "message_requeue_failed m c n stamp repo =
    (map (\<lambda>p. message_requeued (snd p)) (message_failed_entries m c n repo),
     fold (message_requeue_one stamp) (message_failed_entries m c n repo) repo)"
  by (simp add: message_requeue_failed_def message_failed_entries_def message_requeued_def Let_def
      case_prod_beta')

lemma message_failed_entries_mem:
  assumes "message_inv repo" and "(k, r) \<in> set (message_failed_entries m c n repo)"
  shows "message_get repo k = Some r" and "message_key r = k" and "mm_import_status r = MsgFailed"
    and "fst k = m"
proof -
  have "(k, r) \<in> set (mr_items repo) \<and> mm_import_status r = MsgFailed \<and> fst k = m"
    using assms(2) set_slice_to by (fastforce simp: message_failed_entries_def)
  with message_invD(1) [OF assms(1)] show "message_get repo k = Some r" "message_key r = k"
    "mm_import_status r = MsgFailed" "fst k = m"
    by (auto simp: message_get_def keyed_dict_def)
qed

lemma distinct_message_failed_entries:
  assumes "message_inv repo"
  shows "distinct (map fst (message_failed_entries m c n repo))"
  unfolding message_failed_entries_def
proof (rule distinct_map_slice_to)
  have "distinct (map fst (mr_items repo))"
    using message_invD(1) [OF assms] by (rule keyed_dict_ok)
  then show "distinct (map fst (sort_key f (filter P (mr_items repo))))"
    for f :: "_ \<Rightarrow> datetime \<times> string" and P
    by (auto simp: distinct_map intro: inj_on_subset)
qed

lemma message_requeue_get:
  assumes "message_inv repo"
  shows "message_get (snd (message_requeue_failed m c n stamp repo)) k =
    (case map_of (message_failed_entries m c n repo) k of
       Some r \<Rightarrow> Some (message_requeued r) | None \<Rightarrow> message_get repo k)"
  by (simp add: message_requeue_failed_alt message_get_requeue_fold
      distinct_message_failed_entries [OF assms])

lemma message_inv_requeue:
  assumes "message_inv repo"
  shows "message_inv (snd (message_requeue_failed m c n stamp repo))"
  using message_failed_entries_mem(2) [OF assms]
  by (auto simp: message_requeue_failed_alt intro!: message_inv_requeue_fold assms)

text \<open>The steps of the repository: claims of fresh submissions, outcomes, replays.\<close>

inductive message_step :: "message_repo \<Rightarrow> message_repo \<Rightarrow> bool" where
  claim: "message_submission r \<Longrightarrow> message_step repo (snd (message_claim r now stamp repo))"
| imported: "message_mark_imported k sid body now repo = Inr (r, repo') \<Longrightarrow> message_step repo repo'"
| failed: "message_mark_failed k code payload repo = Inr (r, repo') \<Longrightarrow> message_step repo repo'"
| ambiguous: "message_mark_ambiguous k code payload now repo = Inr (r, repo') \<Longrightarrow>
    message_step repo repo'"
| requeue: "message_step repo (snd (message_requeue_failed m c n stamps repo))"

inductive messages_reachable :: "timedelta \<Rightarrow> message_repo \<Rightarrow> bool" for w where
  init: "messages_reachable w (message_repo_init w)"
| step: "messages_reachable w repo \<Longrightarrow> message_step repo repo' \<Longrightarrow> messages_reachable w repo'"

lemma message_step_inv: "message_step repo repo' \<Longrightarrow> message_inv repo \<Longrightarrow> message_inv repo'"
proof (induction rule: message_step.induct)
  case (claim r repo now stamp)
  then show ?case by (simp add: message_inv_claim)
next
  case (imported k sid body now repo r repo')
  then show ?case
    using message_mark_imported_Inr(1,2) [OF imported(2,1)] message_inv_write by metis
next
  case (failed k code payload repo r repo')
  then show ?case
    using message_mark_failed_Inr(1,2) [OF failed(2,1)] message_inv_write by metis
next
  case (ambiguous k code payload now repo r repo')
  then show ?case
    using message_mark_ambiguous_Inr(1,2) [OF ambiguous(2,1)] message_inv_write by metis
next
  case (requeue repo m c n stamps)
  then show ?case by (rule message_inv_requeue)
qed

lemma messages_reachable_inv: "messages_reachable w repo \<Longrightarrow> message_inv repo"
  by (induction rule: messages_reachable.induct) (auto intro: message_inv_init message_step_inv)

section \<open>Stuck claims\<close>

text \<open>
  Once its window has passed a claim that never reported back can be taken over: a processing one
  always, an ambiguous one when the delivery failed before a sync id was known.
\<close>

lemma message_stale_reclaimed:
  assumes "message_inv repo" and "message_get repo (message_key r) = Some e"
    and "mr_started repo (message_key r) = Some c0" and "c0 + mr_stale_after repo \<le> now"
    and "mm_import_status e = MsgProcessing \<or> mm_import_status e = MsgAmbiguous
      \<and> mm_last_error_code e = Some ''AmbiguousDeliveryError'' \<and> mm_target_sync_id e = None"
  shows "fst (fst (message_claim r now stamp repo)) = Claimed"
  using assms(2-5) message_invD(2) [OF assms(1), of "message_key r"]
  by (auto simp: message_claim_def message_get_def message_stale_def Let_def)

section \<open>Summaries\<close>

lemma message_summary_count:
  "sum_list (map mss_count (filter (\<lambda>s. mss_source_chat_id s = chat \<and> mss_import_status s = status)
      (message_summarize m repo))) =
    length (filter (\<lambda>(k, r). fst k = m \<and> fst (snd k) = chat \<and> mm_import_status r = status)
      (mr_items repo))"
proof -
  let ?ks = "map (\<lambda>p. (fst (snd (fst p)), mm_import_status (snd p)))
    (filter (\<lambda>p. fst (fst p) = m) (mr_items repo))"
  let ?mk = "\<lambda>((c, st), n). \<lparr>mss_migration_id = m, mss_source_chat_id = c,
    mss_import_status = st, mss_count = n\<rparr>"
  have f: "filter (\<lambda>s. mss_source_chat_id s = chat \<and> mss_import_status s = status) (map ?mk d)
      = map ?mk (filter (\<lambda>p. fst p = (chat, status)) d)" for d
    by (induction d) auto
  have c: "map mss_count (map ?mk d) = map snd d" for d
    by (induction d) auto
  have "sum_list (map mss_count (filter (\<lambda>s. mss_source_chat_id s = chat \<and> mss_import_status s = status)
      (message_summarize m repo))) = count_list ?ks (chat, status)"
    by (simp only: message_summarize_def Let_def sum_list_filter_sort_key f c
        sum_list_selected_count_keys)
  also have "\<dots> = length (filter (\<lambda>(k, r). fst k = m \<and> fst (snd k) = chat \<and> mm_import_status r = status)
      (mr_items repo))"
    by (simp add: count_list_map_filter case_prod_beta')
  finally show ?thesis .
qed

lemma message_summary_migration:
  "s \<in> set (message_summarize m repo) \<Longrightarrow> mss_migration_id s = m"
  by (auto simp: message_summarize_def Let_def)

end
