(* ===== verification/Attachment_Repo.thy ===== *)
theory Attachment_Repo
  imports Claims
begin

text \<open>
  \<open>InMemoryAttachmentMappingRepository\<close>: one record per attachment of a message. Unlike a message
  claim, the claim of an attachment has no window: until its worker reports back it is held.
\<close>

type_synonym attachment_key = "string \<times> string \<times> string \<times> int"

type_synonym attachment_repo = "(attachment_key, attachment_mapping_record) dict"

definition attachment_key :: "attachment_mapping_record \<Rightarrow> attachment_key" where
  "attachment_key r =
    (am_migration_id r, am_source_chat_id r, am_source_message_id r, am_attachment_index r)"

abbreviation attachments_ok :: "attachment_repo \<Rightarrow> bool" where
  "attachments_ok repo \<equiv> keyed_dict attachment_key repo"

section \<open>Operations\<close>

definition attachment_claim ::
    "bool \<Rightarrow> attachment_mapping_record \<Rightarrow> attachment_repo
      \<Rightarrow> (claim_state \<times> attachment_mapping_record) \<times> attachment_repo" where
  "attachment_claim retry_failed r repo =
    (let k = attachment_key r in
     case dict_get repo k of
       Some existing \<Rightarrow>
         if am_import_status existing = AttFailed
           \<and> (retry_failed \<or> is_cancel_code (am_last_error_code existing))
         then let updated = existing\<lparr>am_import_status := AttProcessing, am_imported_at := None,
                am_last_error_code := None, am_last_error_payload := None\<rparr>
              in ((Claimed, updated), dict_set k updated repo)
         else if am_import_status existing = AttImported then ((ClaimImported, existing), repo)
         else if am_import_status existing = AttFailed then ((ClaimFailed, existing), repo)
         else ((ClaimAmbiguous, existing), repo)
     | None \<Rightarrow> ((Claimed, r), dict_set k r repo))"

definition attachment_get :: "attachment_repo \<Rightarrow> attachment_key \<Rightarrow> attachment_mapping_record option" where
  "attachment_get repo k = dict_get repo k"

definition attachment_list_by_message ::
    "string \<Rightarrow> string \<Rightarrow> string \<Rightarrow> attachment_repo \<Rightarrow> attachment_mapping_record list" where
  "attachment_list_by_message migration chat message repo =
    sort_key am_attachment_index
      (map snd (filter (\<lambda>((m, c, s, _), _). m = migration \<and> c = chat \<and> s = message) repo))"

text \<open>The fields a mark takes over from the attachment, when it is given one.\<close>

definition attachment_describe ::
    "canonical_attachment option \<Rightarrow> attachment_mapping_record \<Rightarrow> attachment_mapping_record" where
  "attachment_describe att r =
    (case att of
       None \<Rightarrow> r
     | Some a \<Rightarrow> r\<lparr>am_source_file_id := att_source_file_id a, am_source_filename := att_filename a,
         am_media_kind := att_media_kind a, am_checksum := att_sha256 a,
         am_size_bytes := att_size_bytes a\<rparr>)"

definition attachment_update ::
    "attachment_key \<Rightarrow> (attachment_mapping_record \<Rightarrow> attachment_mapping_record) \<Rightarrow> attachment_repo
      \<Rightarrow> (error, attachment_mapping_record \<times> attachment_repo) outcome" where
  "attachment_update k f repo =
    (case dict_get repo k of None \<Rightarrow> Inl KeyError | Some r \<Rightarrow> Inr (f r, dict_set k (f r) repo))"

definition attachment_mark_imported ::
    "attachment_key \<Rightarrow> canonical_attachment \<Rightarrow> string \<Rightarrow> datetime \<Rightarrow> attachment_repo
      \<Rightarrow> (error, attachment_mapping_record \<times> attachment_repo) outcome" where
  "attachment_mark_imported k a target_sync_id now =
    attachment_update k (\<lambda>r. (attachment_describe (Some a) r)\<lparr>am_import_status := AttImported,
      am_imported_at := Some now, am_target_sync_id := Some target_sync_id,
      am_last_error_code := None, am_last_error_payload := None\<rparr>)"

definition attachment_mark_failed ::
    "attachment_key \<Rightarrow> canonical_attachment option \<Rightarrow> string \<Rightarrow> json \<Rightarrow> attachment_repo
      \<Rightarrow> (error, attachment_mapping_record \<times> attachment_repo) outcome" where
  "attachment_mark_failed k att error_code error_payload =
    attachment_update k (\<lambda>r. (attachment_describe att r)\<lparr>am_import_status := AttFailed,
      am_imported_at := None, am_last_error_code := Some error_code,
      am_last_error_payload := Some error_payload\<rparr>)"

definition attachment_mark_ambiguous ::
    "attachment_key \<Rightarrow> canonical_attachment option \<Rightarrow> string \<Rightarrow> json \<Rightarrow> attachment_repo
      \<Rightarrow> (error, attachment_mapping_record \<times> attachment_repo) outcome" where
  "attachment_mark_ambiguous k att error_code error_payload =
    attachment_update k (\<lambda>r. (attachment_describe att r)\<lparr>am_import_status := AttAmbiguous,
      am_imported_at := None, am_last_error_code := Some error_code,
      am_last_error_payload := Some error_payload\<rparr>)"

definition attachment_mark_skipped ::
    "attachment_key \<Rightarrow> canonical_attachment \<Rightarrow> string \<Rightarrow> attachment_repo
      \<Rightarrow> (error, attachment_mapping_record \<times> attachment_repo) outcome" where
  "attachment_mark_skipped k a reason =
    attachment_update k (\<lambda>r. (attachment_describe (Some a) r)\<lparr>am_import_status := AttSkipped,
      am_imported_at := None, am_last_error_code := Some ''skipped'',
      am_last_error_payload := Some (JObj [(''reason'', JStr reason)])\<rparr>)"

record attachment_status_summary =
  ass_migration_id :: string
  ass_source_chat_id :: string
  ass_import_status :: attachment_import_status
  ass_count :: nat

definition attachment_summarize :: "string \<Rightarrow> attachment_repo \<Rightarrow> attachment_status_summary list" where
  "attachment_summarize migration repo =
    (let counts = count_keys (map (\<lambda>p. (fst (snd (fst p)), am_import_status (snd p)))
           (filter (\<lambda>p. fst (fst p) = migration) repo))
     in sort_key (\<lambda>s. (ass_source_chat_id s, ass_import_status s))
          (map (\<lambda>((chat, status), n). \<lparr>ass_migration_id = migration, ass_source_chat_id = chat,
             ass_import_status = status, ass_count = n\<rparr>) counts))"

section \<open>The claim contract\<close>

definition attachment_submission :: "attachment_mapping_record \<Rightarrow> bool" where
  "attachment_submission r \<longleftrightarrow> am_import_status r = AttProcessing"

definition attachment_held :: "attachment_repo \<Rightarrow> attachment_key \<Rightarrow> bool" where
  "attachment_held repo k \<longleftrightarrow>
    (\<exists>e. attachment_get repo k = Some e \<and> am_import_status e \<in> {AttProcessing, AttAmbiguous, AttSkipped})"

lemma attachment_claim_refused:
  assumes "fst (fst (attachment_claim a r repo)) \<noteq> Claimed"
  shows "snd (attachment_claim a r repo) = repo
    \<and> attachment_get repo (attachment_key r) = Some (snd (fst (attachment_claim a r repo)))"
proof (cases "dict_get repo (attachment_key r)")
  case None
  with assms show ?thesis by (simp add: attachment_claim_def Let_def)
next
  case (Some e)
  from assms show ?thesis
    by (cases "am_import_status e = AttFailed \<and> (a \<or> is_cancel_code (am_last_error_code e))")
      (simp_all add: attachment_claim_def attachment_get_def Some Let_def)
qed

lemma attachment_claim_granted:
  assumes "fst (fst (attachment_claim a r repo)) = Claimed"
  shows "\<exists>r'. attachment_claim a r repo = ((Claimed, r'), dict_set (attachment_key r) r' repo)
    \<and> (r' = r \<or> (\<exists>e. attachment_get repo (attachment_key r) = Some e
        \<and> r' = e\<lparr>am_import_status := AttProcessing, am_imported_at := None,
              am_last_error_code := None, am_last_error_payload := None\<rparr>))"
proof (cases "dict_get repo (attachment_key r)")
  case None
  then show ?thesis by (simp add: attachment_claim_def Let_def)
next
  case (Some e)
  with assms show ?thesis
    by (simp add: attachment_claim_def attachment_get_def Let_def split: if_split_asm)
qed

lemma attachment_claim_effect:
  assumes "attachments_ok repo"
  obtains (refuse) st e where "st \<noteq> Claimed" "attachment_claim a r repo = ((st, e), repo)"
      "attachment_get repo (attachment_key r) = Some e"
  | (grant) r' where "attachment_key r' = attachment_key r"
      "attachment_submission r \<Longrightarrow> attachment_submission r'"
      "attachment_claim a r repo = ((Claimed, r'), dict_set (attachment_key r) r' repo)"
proof (cases "fst (fst (attachment_claim a r repo)) = Claimed")
  case False
  with attachment_claim_refused [OF this] refuse show ?thesis
    by (cases "attachment_claim a r repo") auto
next
  case True
  then obtain r' where r': "attachment_claim a r repo = ((Claimed, r'), dict_set (attachment_key r) r' repo)"
    "r' = r \<or> (\<exists>e. attachment_get repo (attachment_key r) = Some e
        \<and> r' = e\<lparr>am_import_status := AttProcessing, am_imported_at := None,
              am_last_error_code := None, am_last_error_payload := None\<rparr>)"
    using attachment_claim_granted by blast
  have "attachment_key e = attachment_key r" if "attachment_get repo (attachment_key r) = Some e" for e
    using that assms unfolding attachment_get_def by (rule keyed_dict_key [rotated])
  moreover have "attachment_key (e\<lparr>am_import_status := AttProcessing, am_imported_at := None,
      am_last_error_code := None, am_last_error_payload := None\<rparr>) = attachment_key e" for e
    by (simp add: attachment_key_def)
  ultimately have "attachment_key r' = attachment_key r"
    "attachment_submission r \<Longrightarrow> attachment_submission r'"
    using r'(2) by (auto simp: attachment_submission_def)
  with r'(1) show ?thesis by (intro grant)
qed

lemma attachment_claim_other:
  assumes "k \<noteq> attachment_key r"
  shows "attachment_get (snd (attachment_claim a r repo)) k = attachment_get repo k"
  using assms by (simp add: attachment_claim_def attachment_get_def Let_def split: option.split)

interpretation attachments: claim_protocol attachment_get attachment_key attachments_ok
  attachment_submission "\<lambda>e. am_import_status e = AttImported" "\<lambda>_. attachment_held"
  "\<lambda>_ _ _. True" "\<lambda>a r _ _. attachment_claim a r"
proof unfold_locales
  fix a r and repo :: attachment_repo
  show "attachments_ok (snd (attachment_claim a r repo))" if "attachments_ok repo"
    using that by (cases rule: attachment_claim_effect [OF that, of a r]) auto
  show "attachment_get (snd (attachment_claim a r repo)) (attachment_key r) =
        Some (snd (fst (attachment_claim a r repo)))
      \<and> (\<forall>t' :: datetime. True \<longrightarrow> attachment_held (snd (attachment_claim a r repo)) (attachment_key r))"
    if "attachments_ok repo" "attachment_submission r" "fst (fst (attachment_claim a r repo)) = Claimed"
    using that(2,3) by (cases rule: attachment_claim_effect [OF that(1), of a r])
      (auto simp: attachment_held_def attachment_get_def attachment_submission_def)
  show "snd (attachment_claim a r repo) = repo
      \<and> attachment_get repo (attachment_key r) = Some (snd (fst (attachment_claim a r repo)))"
    if "fst (fst (attachment_claim a r repo)) \<noteq> Claimed"
    using that by (rule attachment_claim_refused)
  show "fst (fst (attachment_claim a r repo)) = ClaimAmbiguous"
    if "attachments_ok repo" "attachment_held repo (attachment_key r)"
    using that(2) by (auto simp: attachment_held_def attachment_claim_def attachment_get_def Let_def)
  show "fst (fst (attachment_claim a r repo)) = ClaimImported"
    if "attachments_ok repo" "attachment_get repo (attachment_key r) = Some e"
      "am_import_status e = AttImported" for e
    using that by (auto simp: attachment_claim_def attachment_get_def Let_def)
  show "attachment_get (snd (attachment_claim a r repo)) k = attachment_get repo k
      \<and> attachment_held (snd (attachment_claim a r repo)) k = attachment_held repo k"
    if "k \<noteq> attachment_key r" for k
    using that by (simp add: attachment_claim_other attachment_held_def)
qed simp

section \<open>Marks, listings and summaries\<close>

lemma attachment_key_describe [simp]: "attachment_key (attachment_describe att r) = attachment_key r"
  by (simp add: attachment_describe_def attachment_key_def split: option.split)

lemma attachments_ok_update:
  assumes "attachments_ok repo" and "attachment_update k f repo = Inr (r, repo')"
    and "\<And>r. attachment_key (f r) = attachment_key r"
  shows "attachments_ok repo'" and "attachment_key r = k"
    and "attachment_get repo' = (attachment_get repo)(k \<mapsto> r)"
proof -
  from assms(2) obtain r0 where r0: "dict_get repo k = Some r0" "r = f r0" "repo' = dict_set k r repo"
    by (auto simp: attachment_update_def split: option.splits)
  show k: "attachment_key r = k"
    using keyed_dict_key [OF assms(1) r0(1)] by (simp add: r0(2) assms(3))
  with assms(1) show "attachments_ok repo'" unfolding r0(3) by (rule keyed_dict_set)
  show "attachment_get repo' = (attachment_get repo)(k \<mapsto> r)"
    by (simp add: r0(3) attachment_get_def fun_eq_iff)
qed

text \<open>The four reports of a worker on its attachment.\<close>

datatype attachment_report = AttachmentDone canonical_attachment string datetime
  | AttachmentBroken "canonical_attachment option" string json
  | AttachmentUnsure "canonical_attachment option" string json
  | AttachmentSkip canonical_attachment string

fun attachment_apply :: "attachment_report \<Rightarrow> attachment_key \<Rightarrow> attachment_repo
    \<Rightarrow> (error, attachment_mapping_record \<times> attachment_repo) outcome" where
  "attachment_apply (AttachmentDone a sid now) k = attachment_mark_imported k a sid now"
| "attachment_apply (AttachmentBroken a c p) k = attachment_mark_failed k a c p"
| "attachment_apply (AttachmentUnsure a c p) k = attachment_mark_ambiguous k a c p"
| "attachment_apply (AttachmentSkip a reason) k = attachment_mark_skipped k a reason"

fun report_status :: "attachment_report \<Rightarrow> attachment_import_status" where
  "report_status (AttachmentDone _ _ _) = AttImported"
| "report_status (AttachmentBroken _ _ _) = AttFailed"
| "report_status (AttachmentUnsure _ _ _) = AttAmbiguous"
| "report_status (AttachmentSkip _ _) = AttSkipped"

lemma attachment_apply_effect:
  assumes "attachments_ok repo" and "attachment_apply rep k repo = Inr (r, repo')"
  shows "attachments_ok repo' \<and> attachment_get repo' = (attachment_get repo)(k \<mapsto> r)
    \<and> attachment_key r = k \<and> am_import_status r = report_status rep"
proof -
  have key: "attachment_key (attachment_describe att r\<lparr>am_import_status := st, am_imported_at := at,
      am_last_error_code := c, am_last_error_payload := p\<rparr>) = attachment_key r"
    "attachment_key (attachment_describe att r\<lparr>am_import_status := st, am_imported_at := at,
      am_target_sync_id := sid, am_last_error_code := c, am_last_error_payload := p\<rparr>) = attachment_key r"
    for att r st at sid c p
    by (simp_all add: attachment_describe_def attachment_key_def split: option.split)
  from assms(2) show ?thesis
  proof (cases rep)
    case (AttachmentDone a sid now)
    with assms(2) have u: "attachment_mark_imported k a sid now repo = Inr (r, repo')" by simp
    from attachments_ok_update [OF assms(1) u [unfolded attachment_mark_imported_def]] key AttachmentDone u
    show ?thesis by (auto simp: attachment_mark_imported_def attachment_update_def split: option.splits)
  next
    case (AttachmentBroken a c p)
    with assms(2) have u: "attachment_mark_failed k a c p repo = Inr (r, repo')" by simp
    from attachments_ok_update [OF assms(1) u [unfolded attachment_mark_failed_def]] key AttachmentBroken u
    show ?thesis by (auto simp: attachment_mark_failed_def attachment_update_def split: option.splits)
  next
    case (AttachmentUnsure a c p)
    with assms(2) have u: "attachment_mark_ambiguous k a c p repo = Inr (r, repo')" by simp
    from attachments_ok_update [OF assms(1) u [unfolded attachment_mark_ambiguous_def]] key AttachmentUnsure u
    show ?thesis by (auto simp: attachment_mark_ambiguous_def attachment_update_def split: option.splits)
  next
    case (AttachmentSkip a reason)
    with assms(2) have u: "attachment_mark_skipped k a reason repo = Inr (r, repo')" by simp
    from attachments_ok_update [OF assms(1) u [unfolded attachment_mark_skipped_def]] key AttachmentSkip u
    show ?thesis by (auto simp: attachment_mark_skipped_def attachment_update_def split: option.splits)
  qed
qed

lemma attachment_list_mem:
  assumes "attachments_ok repo"
  shows "r \<in> set (attachment_list_by_message m c s repo) \<longleftrightarrow>
    attachment_get repo (m, c, s, am_attachment_index r) = Some r"
proof -
  have "r \<in> set (attachment_list_by_message m c s repo) \<longleftrightarrow> (\<exists>i. ((m, c, s, i), r) \<in> set repo)"
    by (force simp: attachment_list_by_message_def)
  also have "\<dots> \<longleftrightarrow> (\<exists>i. attachment_get repo (m, c, s, i) = Some r)"
    by (simp add: dict_mem_iff [OF keyed_dict_ok [OF assms]] attachment_get_def)
  also have "\<dots> \<longleftrightarrow> attachment_get repo (m, c, s, am_attachment_index r) = Some r"
    using keyed_dict_key [OF assms] by (auto simp: attachment_get_def attachment_key_def)
  finally show ?thesis .
qed

lemma sorted_attachment_list:
  "sorted (map am_attachment_index (attachment_list_by_message m c s repo))"
  by (simp add: attachment_list_by_message_def)

lemma attachment_summary_count:
  "sum_list (map ass_count (filter (\<lambda>s. ass_source_chat_id s = chat \<and> ass_import_status s = status)
      (attachment_summarize m repo))) =
    length (filter (\<lambda>(k, r). fst k = m \<and> fst (snd k) = chat \<and> am_import_status r = status) repo)"
proof -
  let ?ks = "map (\<lambda>p. (fst (snd (fst p)), am_import_status (snd p))) (filter (\<lambda>p. fst (fst p) = m) repo)"
  let ?mk = "\<lambda>((c, st), n). \<lparr>ass_migration_id = m, ass_source_chat_id = c,
    ass_import_status = st, ass_count = n\<rparr>"
  have f: "filter (\<lambda>s. ass_source_chat_id s = chat \<and> ass_import_status s = status) (map ?mk d)
      = map ?mk (filter (\<lambda>p. fst p = (chat, status)) d)" for d
    by (induction d) auto
  have c: "map ass_count (map ?mk d) = map snd d" for d
    by (induction d) auto
  have "sum_list (map ass_count (filter (\<lambda>s. ass_source_chat_id s = chat \<and> ass_import_status s = status)
      (attachment_summarize m repo))) = count_list ?ks (chat, status)"
    by (simp only: attachment_summarize_def Let_def sum_list_filter_sort_key f c
        sum_list_selected_count_keys)
  also have "\<dots> = length (filter (\<lambda>(k, r). fst k = m \<and> fst (snd k) = chat \<and> am_import_status r = status) repo)"
    by (simp add: count_list_map_filter case_prod_beta')
  finally show ?thesis .
qed

lemma attachment_summary_migration:
  "s \<in> set (attachment_summarize m repo) \<Longrightarrow> ass_migration_id s = m"
  by (auto simp: attachment_summarize_def Let_def)

end
