(* ===== verification/Reconcile.thy ===== *)
theory Reconcile
  imports Record_Stores Message_Repo Attachment_Repo
begin

text \<open>
  \<open>ReconcileMigrationUseCase\<close> (\<open>use_cases/reconcile_migration.py\<close>): compare the inventory of a
  migration with the message and attachment records of each chat. The report is a function of
  three repositories and the manifest; the audit log is the only state it changes.
\<close>

section \<open>Grouping\<close>

text \<open>\<open>grouped.setdefault(key, []).append(item)\<close> over a list.\<close>

definition group_add :: "('a \<Rightarrow> 'k) \<Rightarrow> 'a \<Rightarrow> ('k, 'a list) dict \<Rightarrow> ('k, 'a list) dict" where
  "group_add f x d = dict_set (f x) ((case dict_get d (f x) of None \<Rightarrow> [] | Some ys \<Rightarrow> ys) @ [x]) d"

definition group_by :: "('a \<Rightarrow> 'k) \<Rightarrow> 'a list \<Rightarrow> ('k, 'a list) dict" where
  "group_by f xs = fold (group_add f) xs []"

text \<open>\<open>{key(item): item for item in items}\<close>\<close>

definition index_by :: "('a \<Rightarrow> 'k) \<Rightarrow> 'a list \<Rightarrow> ('k, 'a) dict" where
  "index_by f xs = fold (\<lambda>x d. dict_set (f x) x d) xs []"

lemma dict_get_group_fold:
  "dict_get (fold (group_add f) xs d) k =
    (if (\<exists>x \<in> set xs. f x = k) \<or> dict_get d k \<noteq> None
     then Some ((case dict_get d k of None \<Rightarrow> [] | Some ys \<Rightarrow> ys) @ filter (\<lambda>x. f x = k) xs) else None)"
  by (induction xs arbitrary: d) (auto simp: group_add_def split: option.splits)

lemma dict_get_group_by:
  "dict_get (group_by f xs) k =
    (if k \<in> f ` set xs then Some (filter (\<lambda>x. f x = k) xs) else None)"
  by (auto simp: group_by_def dict_get_group_fold)

lemma group_by_default:
  "(case dict_get (group_by f xs) k of None \<Rightarrow> [] | Some ys \<Rightarrow> ys) = filter (\<lambda>x. f x = k) xs"
  by (cases "k \<in> f ` set xs") (auto simp: dict_get_group_by intro: filter_False [symmetric])

lemma dict_get_index_fold:
  "dict_get (fold (\<lambda>x d. dict_set (f x) x d) xs d) k =
    (case List.find (\<lambda>x. f x = k) (rev xs) of Some x \<Rightarrow> Some x | None \<Rightarrow> dict_get d k)"
  by (induction xs rule: rev_induct) auto

lemma dict_get_index_by: "dict_get (index_by f xs) k = List.find (\<lambda>x. f x = k) (rev xs)"
  by (simp add: index_by_def dict_get_index_fold split: option.split)

lemma dict_keys: "set (map fst d) = {k. dict_get d k \<noteq> None}"
  by (auto simp: map_of_eq_None_iff)

lemma index_by_keys: "set (map fst (index_by f xs)) = f ` set xs"
  by (auto simp: dict_keys dict_get_index_by find_None_iff simp del: set_map)

lemma group_by_keys: "set (map fst (group_by f xs)) = f ` set xs"
  by (auto simp: dict_keys dict_get_group_by simp del: set_map)

section \<open>The report\<close>

record reconcile_chat_result =
  rc_source_chat_id :: string
  rc_source_chat_type :: string
  rc_source_chat_title :: string
  rc_inventory_present :: bool
  rc_source_message_count :: "int option"
  rc_imported_count :: nat
  rc_failed_count :: nat
  rc_ambiguous_count :: nat
  rc_processing_count :: nat
  rc_mapped_total :: nat
  rc_source_media_count :: "int option"
  rc_attachment_imported_count :: nat
  rc_attachment_failed_count :: nat
  rc_attachment_ambiguous_count :: nat
  rc_attachment_processing_count :: nat
  rc_attachment_skipped_count :: nat
  rc_attachment_mapped_total :: nat
  rc_gap_count :: "int option"
  rc_requires_attention :: bool

record reconcile_result =
  rr_migration_id :: string
  rr_chats_total :: nat
  rr_attention_chats :: nat
  rr_inventory_missing_chats :: nat
  rr_source_messages_total_known :: int
  rr_imported_count :: nat
  rr_failed_count :: nat
  rr_ambiguous_count :: nat
  rr_processing_count :: nat
  rr_mapped_total :: nat
  rr_gap_total_known :: int
  rr_source_media_total_known :: int
  rr_attachment_imported_count :: nat
  rr_attachment_failed_count :: nat
  rr_attachment_ambiguous_count :: nat
  rr_attachment_processing_count :: nat
  rr_attachment_skipped_count :: nat
  rr_attachment_mapped_total :: nat
  rr_chats :: "reconcile_chat_result list"

definition count_for_status :: "message_status_summary list \<Rightarrow> message_import_status \<Rightarrow> nat" where
  "count_for_status ss status = sum_list (map mss_count (filter (\<lambda>s. mss_import_status s = status) ss))"

definition count_attachment_for_status ::
    "attachment_status_summary list \<Rightarrow> attachment_import_status \<Rightarrow> nat" where
  "count_attachment_for_status ss status =
    sum_list (map ass_count (filter (\<lambda>s. ass_import_status s = status) ss))"

definition int_or_zero :: "int option \<Rightarrow> int" where
  "int_or_zero n = (case n of None \<Rightarrow> 0 | Some i \<Rightarrow> i)"

definition build_chat_result ::
    "string \<Rightarrow> manifest_dialog option \<Rightarrow> inventory_snapshot_record option
      \<Rightarrow> message_status_summary list \<Rightarrow> attachment_status_summary list \<Rightarrow> reconcile_chat_result" where
  "build_chat_result chat dialog snapshot summaries attachment_summaries =
    (let imported = count_for_status summaries MsgImported;
         failed = count_for_status summaries MsgFailed;
         ambiguous = count_for_status summaries MsgAmbiguous;
         processing = count_for_status summaries MsgProcessing;
         a_imported = count_attachment_for_status attachment_summaries AttImported;
         a_failed = count_attachment_for_status attachment_summaries AttFailed;
         a_ambiguous = count_attachment_for_status attachment_summaries AttAmbiguous;
         a_processing = count_attachment_for_status attachment_summaries AttProcessing;
         a_skipped = count_attachment_for_status attachment_summaries AttSkipped;
         source_count = map_option inv_message_count snapshot;
         gap = map_option (\<lambda>n. \<bar>n - int imported\<bar>) source_count
     in \<lparr>rc_source_chat_id = chat,
         rc_source_chat_type = (case snapshot of
             Some s \<Rightarrow> inv_source_chat_type s
           | None \<Rightarrow> (case dialog of Some d \<Rightarrow> dlg_source_chat_type d | None \<Rightarrow> ''unknown'')),
         rc_source_chat_title = (case snapshot of Some s \<Rightarrow> inv_source_chat_title s | None \<Rightarrow> chat),
         rc_inventory_present = (snapshot \<noteq> None),
         rc_source_message_count = source_count,
         rc_imported_count = imported, rc_failed_count = failed,
         rc_ambiguous_count = ambiguous, rc_processing_count = processing,
         rc_mapped_total = sum_list (map mss_count summaries),
         rc_source_media_count = map_option inv_media_count snapshot,
         rc_attachment_imported_count = a_imported, rc_attachment_failed_count = a_failed,
         rc_attachment_ambiguous_count = a_ambiguous,
         rc_attachment_processing_count = a_processing, rc_attachment_skipped_count = a_skipped,
         rc_attachment_mapped_total = sum_list (map ass_count attachment_summaries),
         rc_gap_count = gap,
         rc_requires_attention = (snapshot = None \<or> failed > 0 \<or> ambiguous > 0 \<or> processing > 0
           \<or> a_failed > 0 \<or> a_ambiguous > 0 \<or> a_processing > 0 \<or> int_or_zero gap > 0)\<rparr>)"

lemma rc_id_build [simp]: "rc_source_chat_id (build_chat_result c d s ss as) = c"
  by (simp add: build_chat_result_def Let_def)

definition selected :: "string option \<Rightarrow> string \<Rightarrow> bool" where
  "selected only chat \<longleftrightarrow> only = None \<or> only = Some chat"

record reconcile_repos =
  rs_inventory :: inventory_repo
  rs_messages :: message_repo
  rs_attachments :: attachment_repo

definition reconcile_chats ::
    "migration_manifest \<Rightarrow> string option \<Rightarrow> reconcile_repos \<Rightarrow> reconcile_chat_result list" where
  "reconcile_chats manifest only repos =
    (let m = mf_migration_id manifest;
         snapshots = filter (\<lambda>s. selected only (inv_source_chat_id s))
           (inventory_list m (rs_inventory repos));
         summaries = filter (\<lambda>s. selected only (mss_source_chat_id s))
           (message_summarize m (rs_messages repos));
         attachment_summaries = filter (\<lambda>s. selected only (ass_source_chat_id s))
           (attachment_summarize m (rs_attachments repos));
         dialogs = index_by dlg_source_chat_id
           (filter (\<lambda>d. selected only (dlg_source_chat_id d)) (mf_dialogs manifest));
         snapshots_by_chat = index_by inv_source_chat_id snapshots;
         summaries_by_chat = group_by mss_source_chat_id summaries;
         attachments_by_chat = group_by ass_source_chat_id attachment_summaries;
         chat_ids = sort (remdups (map fst dialogs @ map fst snapshots_by_chat
           @ map fst summaries_by_chat @ map fst attachments_by_chat))
     in map (\<lambda>c. build_chat_result c (dict_get dialogs c) (dict_get snapshots_by_chat c)
          (case dict_get summaries_by_chat c of None \<Rightarrow> [] | Some ss \<Rightarrow> ss)
          (case dict_get attachments_by_chat c of None \<Rightarrow> [] | Some ss \<Rightarrow> ss)) chat_ids)"

definition reconcile_totals :: "string \<Rightarrow> reconcile_chat_result list \<Rightarrow> reconcile_result" where
  "reconcile_totals migration chats = \<lparr>rr_migration_id = migration,
     rr_chats_total = length chats,
     rr_attention_chats = length (filter rc_requires_attention chats),
     rr_inventory_missing_chats = length (filter (\<lambda>c. \<not> rc_inventory_present c) chats),
     rr_source_messages_total_known = sum_list (map (\<lambda>c. int_or_zero (rc_source_message_count c)) chats),
     rr_imported_count = sum_list (map rc_imported_count chats),
     rr_failed_count = sum_list (map rc_failed_count chats),
     rr_ambiguous_count = sum_list (map rc_ambiguous_count chats),
     rr_processing_count = sum_list (map rc_processing_count chats),
     rr_mapped_total = sum_list (map rc_mapped_total chats),
     rr_gap_total_known = sum_list (map (\<lambda>c. int_or_zero (rc_gap_count c)) chats),
     rr_source_media_total_known = sum_list (map (\<lambda>c. int_or_zero (rc_source_media_count c)) chats),
     rr_attachment_imported_count = sum_list (map rc_attachment_imported_count chats),
     rr_attachment_failed_count = sum_list (map rc_attachment_failed_count chats),
     rr_attachment_ambiguous_count = sum_list (map rc_attachment_ambiguous_count chats),
     rr_attachment_processing_count = sum_list (map rc_attachment_processing_count chats),
     rr_attachment_skipped_count = sum_list (map rc_attachment_skipped_count chats),
     rr_attachment_mapped_total = sum_list (map rc_attachment_mapped_total chats),
     rr_chats = chats\<rparr>"

definition reconcile_payload :: "reconcile_result \<Rightarrow> (string \<times> json) list" where
  "reconcile_payload r = [
     (''chats_total'', JInt (int (rr_chats_total r))),
     (''attention_chats'', JInt (int (rr_attention_chats r))),
     (''inventory_missing_chats'', JInt (int (rr_inventory_missing_chats r))),
     (''source_messages_total_known'', JInt (rr_source_messages_total_known r)),
     (''imported_count'', JInt (int (rr_imported_count r))),
     (''failed_count'', JInt (int (rr_failed_count r))),
     (''ambiguous_count'', JInt (int (rr_ambiguous_count r))),
     (''processing_count'', JInt (int (rr_processing_count r))),
     (''mapped_total'', JInt (int (rr_mapped_total r))),
     (''gap_total_known'', JInt (rr_gap_total_known r)),
     (''source_media_total_known'', JInt (rr_source_media_total_known r)),
     (''attachment_imported_count'', JInt (int (rr_attachment_imported_count r))),
     (''attachment_failed_count'', JInt (int (rr_attachment_failed_count r))),
     (''attachment_ambiguous_count'', JInt (int (rr_attachment_ambiguous_count r))),
     (''attachment_processing_count'', JInt (int (rr_attachment_processing_count r))),
     (''attachment_skipped_count'', JInt (int (rr_attachment_skipped_count r))),
     (''attachment_mapped_total'', JInt (int (rr_attachment_mapped_total r)))]"

definition reconcile_execute ::
    "migration_manifest \<Rightarrow> string option \<Rightarrow> datetime \<Rightarrow> reconcile_repos \<Rightarrow> audit_log
      \<Rightarrow> reconcile_result \<times> audit_log" where
  "reconcile_execute manifest only now repos evs =
    (let res = reconcile_totals (mf_migration_id manifest) (reconcile_chats manifest only repos)
     in (res, audit_add \<lparr>ae_migration_id = mf_migration_id manifest,
           ae_event_type = ''reconcile_report_generated'', ae_severity = SevInfo,
           ae_created_at = now, ae_source_chat_id = None, ae_source_message_id = None,
           ae_payload_json = reconcile_payload res\<rparr> evs))"

section \<open>What the counts count\<close>

definition messages_with ::
    "message_repo \<Rightarrow> string \<Rightarrow> string \<Rightarrow> message_import_status \<Rightarrow> (message_key \<times> message_mapping_record) list" where
  "messages_with repo m chat status =
    filter (\<lambda>(k, r). fst k = m \<and> fst (snd k) = chat \<and> mm_import_status r = status) (mr_items repo)"

definition attachments_with ::
    "attachment_repo \<Rightarrow> string \<Rightarrow> string \<Rightarrow> attachment_import_status
      \<Rightarrow> (attachment_key \<times> attachment_mapping_record) list" where
  "attachments_with repo m chat status =
    filter (\<lambda>(k, r). fst k = m \<and> fst (snd k) = chat \<and> am_import_status r = status) repo"

lemma message_count_selected:
  assumes "selected only c"
  shows "count_for_status (filter (\<lambda>s. mss_source_chat_id s = c)
      (filter (\<lambda>s. selected only (mss_source_chat_id s)) (message_summarize m repo))) status =
    length (messages_with repo m c status)"
proof -
  have "filter (\<lambda>s. mss_import_status s = status) (filter (\<lambda>s. mss_source_chat_id s = c)
      (filter (\<lambda>s. selected only (mss_source_chat_id s)) xs)) =
    filter (\<lambda>s. mss_source_chat_id s = c \<and> mss_import_status s = status) xs" for xs
    unfolding filter_filter by (rule filter_cong) (use assms in auto)
  from this [of "message_summarize m repo"] show ?thesis
    by (simp add: count_for_status_def message_summary_count messages_with_def del: filter_filter)
qed

lemma attachment_count_selected:
  assumes "selected only c"
  shows "count_attachment_for_status (filter (\<lambda>s. ass_source_chat_id s = c)
      (filter (\<lambda>s. selected only (ass_source_chat_id s)) (attachment_summarize m repo))) status =
    length (attachments_with repo m c status)"
proof -
  have "filter (\<lambda>s. ass_import_status s = status) (filter (\<lambda>s. ass_source_chat_id s = c)
      (filter (\<lambda>s. selected only (ass_source_chat_id s)) xs)) =
    filter (\<lambda>s. ass_source_chat_id s = c \<and> ass_import_status s = status) xs" for xs
    unfolding filter_filter by (rule filter_cong) (use assms in auto)
  from this [of "attachment_summarize m repo"] show ?thesis
    by (simp add: count_attachment_for_status_def attachment_summary_count attachments_with_def
        del: filter_filter)
qed

text \<open>The chats of a report: everything known of the migration under the selected ids.\<close>

definition known_chats :: "migration_manifest \<Rightarrow> string option \<Rightarrow> reconcile_repos \<Rightarrow> string set" where
  "known_chats manifest only repos = {c. selected only c \<and>
    (c \<in> dlg_source_chat_id ` set (mf_dialogs manifest)
     \<or> c \<in> inv_source_chat_id ` set (inventory_list (mf_migration_id manifest) (rs_inventory repos))
     \<or> c \<in> mss_source_chat_id ` set (message_summarize (mf_migration_id manifest) (rs_messages repos))
     \<or> c \<in> ass_source_chat_id ` set (attachment_summarize (mf_migration_id manifest) (rs_attachments repos)))}"

definition chat_snapshot :: "migration_manifest \<Rightarrow> reconcile_repos \<Rightarrow> string \<Rightarrow> inventory_snapshot_record option" where
  "chat_snapshot manifest repos c = inventory_get (rs_inventory repos) (mf_migration_id manifest, c)"

lemma find_SomeD: "List.find P xs = Some x \<Longrightarrow> x \<in> set xs \<and> P x"
  by (auto simp: find_Some_iff)

lemma find_distinct_snapshot:
  assumes "keyed_dict inventory_key repo" and "selected only c"
  shows "List.find (\<lambda>s. inv_source_chat_id s = c)
      (rev (filter (\<lambda>s. selected only (inv_source_chat_id s)) (inventory_list m repo))) =
    inventory_get repo (m, c)"
proof (cases "inventory_get repo (m, c)")
  case None
  have "inv_source_chat_id s \<noteq> c" if "s \<in> set (inventory_list m repo)" for s
    using that None inventory_list_mem [OF assms(1)] by auto
  with None show ?thesis by (auto simp: find_None_iff)
next
  case (Some s)
  with assms(1) have key: "inventory_key s = (m, c)"
    by (auto simp: inventory_get_def dest: keyed_dict_key)
  with Some have mem: "s \<in> set (inventory_list m repo)"
    by (simp add: inventory_list_mem [OF assms(1)] inventory_key_def)
  have unique: "s' = s" if "s' \<in> set (inventory_list m repo)" "inv_source_chat_id s' = c" for s'
    using that Some by (simp add: inventory_list_mem [OF assms(1)])
  let ?xs = "rev (filter (\<lambda>s. selected only (inv_source_chat_id s)) (inventory_list m repo))"
  have "s \<in> set ?xs" using mem key assms(2) by (simp add: inventory_key_def)
  then obtain s' where s': "List.find (\<lambda>s. inv_source_chat_id s = c) ?xs = Some s'"
    using key by (cases "List.find (\<lambda>s. inv_source_chat_id s = c) ?xs")
      (auto simp: find_None_iff inventory_key_def)
  then have "s' \<in> set ?xs" "inv_source_chat_id s' = c" by (auto dest: find_SomeD)
  with unique have "s' = s" by simp
  with s' Some show ?thesis by simp
qed

lemma reconcile_chats_ids:
  "map rc_source_chat_id (reconcile_chats manifest only repos) =
    sorted_list_of_set (known_chats manifest only repos)"
proof -
  let ?m = "mf_migration_id manifest"
  let ?ids = "map fst (index_by dlg_source_chat_id
           (filter (\<lambda>d. selected only (dlg_source_chat_id d)) (mf_dialogs manifest)))
    @ map fst (index_by inv_source_chat_id (filter (\<lambda>s. selected only (inv_source_chat_id s))
           (inventory_list ?m (rs_inventory repos))))
    @ map fst (group_by mss_source_chat_id (filter (\<lambda>s. selected only (mss_source_chat_id s))
           (message_summarize ?m (rs_messages repos))))
    @ map fst (group_by ass_source_chat_id (filter (\<lambda>s. selected only (ass_source_chat_id s))
           (attachment_summarize ?m (rs_attachments repos))))"
  have "set ?ids = known_chats manifest only repos"
    unfolding set_append index_by_keys group_by_keys known_chats_def by auto
  then have "sort (remdups ?ids) = sorted_list_of_set (known_chats manifest only repos)"
    by (metis sorted_list_of_set_sort_remdups)
  then show ?thesis
    by (simp add: reconcile_chats_def Let_def o_def)
qed

text \<open>Each line of the report, in terms of the repositories.\<close>

lemma reconcile_chat_line:
  assumes "keyed_dict inventory_key (rs_inventory repos)"
    and "x \<in> set (reconcile_chats manifest only repos)"
  defines "m \<equiv> mf_migration_id manifest" and "c \<equiv> rc_source_chat_id x"
  shows "selected only c"
    and "rc_inventory_present x \<longleftrightarrow> chat_snapshot manifest repos c \<noteq> None"
    and "rc_source_message_count x = map_option inv_message_count (chat_snapshot manifest repos c)"
    and "rc_imported_count x = length (messages_with (rs_messages repos) m c MsgImported)"
    and "rc_failed_count x = length (messages_with (rs_messages repos) m c MsgFailed)"
    and "rc_ambiguous_count x = length (messages_with (rs_messages repos) m c MsgAmbiguous)"
    and "rc_processing_count x = length (messages_with (rs_messages repos) m c MsgProcessing)"
    and "rc_attachment_imported_count x = length (attachments_with (rs_attachments repos) m c AttImported)"
    and "rc_attachment_failed_count x = length (attachments_with (rs_attachments repos) m c AttFailed)"
    and "rc_attachment_ambiguous_count x = length (attachments_with (rs_attachments repos) m c AttAmbiguous)"
    and "rc_attachment_processing_count x = length (attachments_with (rs_attachments repos) m c AttProcessing)"
    and "rc_attachment_skipped_count x = length (attachments_with (rs_attachments repos) m c AttSkipped)"
    and "rc_gap_count x = map_option (\<lambda>s. \<bar>inv_message_count s
           - int (length (messages_with (rs_messages repos) m c MsgImported))\<bar>)
         (chat_snapshot manifest repos c)"
    and "rc_requires_attention x \<longleftrightarrow> \<not> rc_inventory_present x \<or> rc_failed_count x > 0
      \<or> rc_ambiguous_count x > 0 \<or> rc_processing_count x > 0 \<or> rc_attachment_failed_count x > 0
      \<or> rc_attachment_ambiguous_count x > 0 \<or> rc_attachment_processing_count x > 0
      \<or> int_or_zero (rc_gap_count x) > 0"
proof -
  have "c \<in> set (map rc_source_chat_id (reconcile_chats manifest only repos))"
    using assms(2) by (simp add: c_def)
  moreover have "finite (known_chats manifest only repos)" by (simp add: known_chats_def)
  ultimately show sel: "selected only c"
    by (simp only: reconcile_chats_ids set_sorted_list_of_set) (simp add: known_chats_def)
  let ?ss = "filter (\<lambda>s. mss_source_chat_id s = c)
      (filter (\<lambda>s. selected only (mss_source_chat_id s)) (message_summarize m (rs_messages repos)))"
  let ?as = "filter (\<lambda>s. ass_source_chat_id s = c)
      (filter (\<lambda>s. selected only (ass_source_chat_id s)) (attachment_summarize m (rs_attachments repos)))"
  have "\<exists>d. x = build_chat_result c d
      (List.find (\<lambda>s. inv_source_chat_id s = c)
        (rev (filter (\<lambda>s. selected only (inv_source_chat_id s)) (inventory_list m (rs_inventory repos)))))
      ?ss ?as"
    using assms(2) unfolding reconcile_chats_def Let_def group_by_default dict_get_index_by
    by (auto simp: c_def m_def simp del: filter_filter)
  then obtain d where x0: "x = build_chat_result c d (chat_snapshot manifest repos c) ?ss ?as"
    by (simp only: find_distinct_snapshot [OF assms(1) sel] chat_snapshot_def m_def) blast
  have ms: "count_for_status ?ss st = length (messages_with (rs_messages repos) m c st)" for st
    by (rule message_count_selected [OF sel])
  have as: "count_attachment_for_status ?as st = length (attachments_with (rs_attachments repos) m c st)" for st
    by (rule attachment_count_selected [OF sel])
  obtain ss as where x: "x = build_chat_result c d (chat_snapshot manifest repos c) ss as"
    and mc: "\<And>st. count_for_status ss st = length (messages_with (rs_messages repos) m c st)"
    and ac: "\<And>st. count_attachment_for_status as st = length (attachments_with (rs_attachments repos) m c st)"
    by (rule that [OF x0 ms as])
  note line = x build_chat_result_def [unfolded Let_def]
  show "rc_inventory_present x \<longleftrightarrow> chat_snapshot manifest repos c \<noteq> None"
    "rc_source_message_count x = map_option inv_message_count (chat_snapshot manifest repos c)"
    by (simp_all add: line)
  show "rc_imported_count x = length (messages_with (rs_messages repos) m c MsgImported)"
    "rc_failed_count x = length (messages_with (rs_messages repos) m c MsgFailed)"
    "rc_ambiguous_count x = length (messages_with (rs_messages repos) m c MsgAmbiguous)"
    "rc_processing_count x = length (messages_with (rs_messages repos) m c MsgProcessing)"
    by (simp_all add: line mc)
  show "rc_attachment_imported_count x = length (attachments_with (rs_attachments repos) m c AttImported)"
    "rc_attachment_failed_count x = length (attachments_with (rs_attachments repos) m c AttFailed)"
    "rc_attachment_ambiguous_count x = length (attachments_with (rs_attachments repos) m c AttAmbiguous)"
    "rc_attachment_processing_count x = length (attachments_with (rs_attachments repos) m c AttProcessing)"
    "rc_attachment_skipped_count x = length (attachments_with (rs_attachments repos) m c AttSkipped)"
    by (simp_all add: line ac)
  show "rc_gap_count x = map_option (\<lambda>s. \<bar>inv_message_count s
           - int (length (messages_with (rs_messages repos) m c MsgImported))\<bar>)
         (chat_snapshot manifest repos c)"
    by (simp add: line mc option.map_comp o_def)
  show "rc_requires_attention x \<longleftrightarrow> \<not> rc_inventory_present x \<or> rc_failed_count x > 0
      \<or> rc_ambiguous_count x > 0 \<or> rc_processing_count x > 0 \<or> rc_attachment_failed_count x > 0
      \<or> rc_attachment_ambiguous_count x > 0 \<or> rc_attachment_processing_count x > 0
      \<or> int_or_zero (rc_gap_count x) > 0"
    by (simp add: line)
qed

section \<open>Totals\<close>

lemma rc_mapped_total_split:
  assumes "x \<in> set (reconcile_chats manifest only repos)"
  shows "rc_mapped_total x = rc_imported_count x + rc_failed_count x + rc_ambiguous_count x
      + rc_processing_count x"
    and "rc_attachment_mapped_total x = rc_attachment_imported_count x + rc_attachment_failed_count x
      + rc_attachment_ambiguous_count x + rc_attachment_processing_count x + rc_attachment_skipped_count x"
proof -
  have m: "sum_list (map mss_count ss) = count_for_status ss MsgImported
      + count_for_status ss MsgFailed + count_for_status ss MsgAmbiguous
      + count_for_status ss MsgProcessing" for ss
  proof (induction ss)
    case Nil
    then show ?case by (simp add: count_for_status_def)
  next
    case (Cons s ss)
    then show ?case by (cases "mss_import_status s") (simp_all add: count_for_status_def)
  qed
  have a: "sum_list (map ass_count ss) = count_attachment_for_status ss AttImported
      + count_attachment_for_status ss AttFailed + count_attachment_for_status ss AttAmbiguous
      + count_attachment_for_status ss AttProcessing + count_attachment_for_status ss AttSkipped" for ss
  proof (induction ss)
    case Nil
    then show ?case by (simp add: count_attachment_for_status_def)
  next
    case (Cons s ss)
    then show ?case by (cases "ass_import_status s") (simp_all add: count_attachment_for_status_def)
  qed
  obtain c d s ss as where "x = build_chat_result c d s ss as"
    using assms unfolding reconcile_chats_def Let_def by auto
  with m [of ss] a [of as]
  show "rc_mapped_total x = rc_imported_count x + rc_failed_count x + rc_ambiguous_count x
      + rc_processing_count x"
    "rc_attachment_mapped_total x = rc_attachment_imported_count x + rc_attachment_failed_count x
      + rc_attachment_ambiguous_count x + rc_attachment_processing_count x + rc_attachment_skipped_count x"
    by (simp_all add: build_chat_result_def Let_def)
qed

lemma rc_gap_nonneg:
  assumes "x \<in> set (reconcile_chats manifest only repos)"
  shows "0 \<le> int_or_zero (rc_gap_count x)"
proof -
  obtain c d s ss as where "x = build_chat_result c d s ss as"
    using assms unfolding reconcile_chats_def Let_def by auto
  then show ?thesis by (simp add: build_chat_result_def Let_def int_or_zero_def split: option.split)
qed

lemma sum_list_int_zero_iff:
  "\<forall>x \<in> set xs. 0 \<le> f x \<Longrightarrow> sum_list (map (f :: 'a \<Rightarrow> int) xs) = 0 \<longleftrightarrow> (\<forall>x \<in> set xs. f x = 0)"
proof (induction xs)
  case Nil
  then show ?case by simp
next
  case (Cons x xs)
  have "0 \<le> sum_list (map f xs)" using Cons.prems by (intro sum_list_nonneg) auto
  with Cons show ?case by (simp add: add_nonneg_eq_0_iff)
qed

text \<open>No chat needs attention exactly when every guarded total is zero.\<close>

lemma reconcile_attention_zero:
  assumes "keyed_dict inventory_key (rs_inventory repos)"
  and r_def: "r = reconcile_totals (mf_migration_id manifest) (reconcile_chats manifest only repos)"
  shows "rr_attention_chats r = 0 \<longleftrightarrow> rr_inventory_missing_chats r = 0 \<and> rr_failed_count r = 0
    \<and> rr_ambiguous_count r = 0 \<and> rr_processing_count r = 0 \<and> rr_attachment_failed_count r = 0
    \<and> rr_attachment_ambiguous_count r = 0 \<and> rr_attachment_processing_count r = 0
    \<and> rr_gap_total_known r = 0"
proof -
  let ?cs = "reconcile_chats manifest only repos"
  have gap: "rr_gap_total_known r = 0 \<longleftrightarrow> (\<forall>x \<in> set ?cs. int_or_zero (rc_gap_count x) = 0)"
    using sum_list_int_zero_iff [of ?cs "\<lambda>c. int_or_zero (rc_gap_count c)"] rc_gap_nonneg
    by (fastforce simp: r_def reconcile_totals_def)
  have att: "rr_attention_chats r = 0 \<longleftrightarrow> (\<forall>x \<in> set ?cs. \<not> rc_requires_attention x)"
    by (simp add: r_def reconcile_totals_def filter_empty_conv)
  have line: "\<not> rc_requires_attention x \<longleftrightarrow> rc_inventory_present x \<and> rc_failed_count x = 0
      \<and> rc_ambiguous_count x = 0 \<and> rc_processing_count x = 0 \<and> rc_attachment_failed_count x = 0
      \<and> rc_attachment_ambiguous_count x = 0 \<and> rc_attachment_processing_count x = 0
      \<and> int_or_zero (rc_gap_count x) = 0" if "x \<in> set ?cs" for x
    using reconcile_chat_line(14) [OF assms(1) that] rc_gap_nonneg [OF that] by auto
  have "rr_attention_chats r = 0 \<longleftrightarrow> (\<forall>x \<in> set ?cs. rc_inventory_present x \<and> rc_failed_count x = 0
      \<and> rc_ambiguous_count x = 0 \<and> rc_processing_count x = 0 \<and> rc_attachment_failed_count x = 0
      \<and> rc_attachment_ambiguous_count x = 0 \<and> rc_attachment_processing_count x = 0
      \<and> int_or_zero (rc_gap_count x) = 0)"
    unfolding att by (rule ball_cong [OF refl line])
  also have "\<dots> \<longleftrightarrow> rr_inventory_missing_chats r = 0 \<and> rr_failed_count r = 0
    \<and> rr_ambiguous_count r = 0 \<and> rr_processing_count r = 0 \<and> rr_attachment_failed_count r = 0
    \<and> rr_attachment_ambiguous_count r = 0 \<and> rr_attachment_processing_count r = 0
    \<and> rr_gap_total_known r = 0"
    unfolding gap
    by (simp add: r_def reconcile_totals_def filter_empty_conv ball_conj_distrib conj_ac
        del: sum_list_eq_0_iff add: sum_list_zero_iff)
  finally show ?thesis .
qed

end
