(* ===== verification/Cutover.thy ===== *)
theory Cutover
  imports Lifecycle Reconcile
begin

text \<open>
  \<open>FinalizeCutoverUseCase\<close> (\<open>use_cases/finalize_cutover.py\<close>): reconcile the migration, check
  eleven conditions, and either complete it or send it to manual reconciliation with the list of
  what failed. \<open>now\<close> is the use case's clock reading, \<open>reconciled\<close> the one of the report.
\<close>

record finalize_result =
  fr_migration_id :: string
  fr_status :: string
  fr_migration_state :: lifecycle_status
  fr_finalized_at :: "datetime option"
  fr_freeze_started_at :: "datetime option"
  fr_blockers :: "string list"
  fr_checklist :: "(string \<times> bool) list"
  fr_reconcile_result :: reconcile_result

definition build_checklist ::
    "reconcile_result \<Rightarrow> migration_state_record option \<Rightarrow> bool \<Rightarrow> (string \<times> bool) list" where
  "build_checklist r existing acknowledged = [
     (''inventory_present_for_all_chats'', rr_inventory_missing_chats r = 0),
     (''message_counts_match'', rr_gap_total_known r = 0),
     (''no_message_failures'', rr_failed_count r = 0),
     (''no_message_ambiguity'', rr_ambiguous_count r = 0),
     (''no_message_processing_backlog'', rr_processing_count r = 0),
     (''no_attachment_failures'', rr_attachment_failed_count r = 0),
     (''no_attachment_ambiguity'', rr_attachment_ambiguous_count r = 0),
     (''no_attachment_processing_backlog'', rr_attachment_processing_count r = 0),
     (''freeze_window_started'',
        case existing of None \<Rightarrow> False | Some s \<Rightarrow> ms_freeze_started_at s \<noteq> None),
     (''migration_paused_for_cutover'',
        case existing of None \<Rightarrow> False | Some s \<Rightarrow> ms_status s = Paused),
     (''at_least_once_policy_acknowledged'', acknowledged)]"

definition checklist_messages :: "(string \<times> string) list" where
  "checklist_messages = [
     (''inventory_present_for_all_chats'', ''inventory snapshot is missing for one or more chats''),
     (''message_counts_match'', ''message counts do not match inventory''),
     (''no_message_failures'', ''there are failed message imports''),
     (''no_message_ambiguity'', ''there are ambiguous message imports''),
     (''no_message_processing_backlog'', ''there are message items still in processing state''),
     (''no_attachment_failures'', ''there are failed attachment imports''),
     (''no_attachment_ambiguity'', ''there are ambiguous attachment imports''),
     (''no_attachment_processing_backlog'', ''there are attachment items still in processing state''),
     (''freeze_window_started'', ''freeze window was not started before finalize-cutover''),
     (''migration_paused_for_cutover'', ''migration is not paused for cutover''),
     (''at_least_once_policy_acknowledged'', ''at-least-once delivery policy was not explicitly acknowledged ''
        @ ''for cutover on a BotX target without exactly-once visible effect'')]"

text \<open>\<open>messages[item]\<close>: every item of the checklist has one, so no \<open>KeyError\<close> is possible.\<close>

definition checklist_blocker_message :: "string \<Rightarrow> string option" where
  "checklist_blocker_message item = map_of checklist_messages item"

definition checklist_blockers :: "(string \<times> bool) list \<Rightarrow> string list" where
  "checklist_blockers checklist =
    List.map_filter (\<lambda>(item, passed). if passed then None else checklist_blocker_message item) checklist"

definition reconcile_summary_payload :: "reconcile_result \<Rightarrow> json" where
  "reconcile_summary_payload r = JObj [
     (''chats_total'', JInt (int (rr_chats_total r))),
     (''attention_chats'', JInt (int (rr_attention_chats r))),
     (''inventory_missing_chats'', JInt (int (rr_inventory_missing_chats r))),
     (''imported_count'', JInt (int (rr_imported_count r))),
     (''failed_count'', JInt (int (rr_failed_count r))),
     (''ambiguous_count'', JInt (int (rr_ambiguous_count r))),
     (''processing_count'', JInt (int (rr_processing_count r))),
     (''gap_total_known'', JInt (rr_gap_total_known r)),
     (''attachment_imported_count'', JInt (int (rr_attachment_imported_count r))),
     (''attachment_failed_count'', JInt (int (rr_attachment_failed_count r))),
     (''attachment_ambiguous_count'', JInt (int (rr_attachment_ambiguous_count r))),
     (''attachment_processing_count'', JInt (int (rr_attachment_processing_count r))),
     (''attachment_skipped_count'', JInt (int (rr_attachment_skipped_count r)))]"

definition cutover_state ::
    "migration_state_record option \<Rightarrow> string \<Rightarrow> lifecycle_status \<Rightarrow> datetime \<Rightarrow> datetime option
      \<Rightarrow> datetime option \<Rightarrow> string list \<Rightarrow> migration_state_record" where
  "cutover_state existing migration status now freeze_started finalized blockers =
    \<lparr>ms_migration_id = migration, ms_status = status, ms_updated_at = now,
     ms_created_at = (case existing of None \<Rightarrow> now | Some s \<Rightarrow> ms_created_at s),
     ms_freeze_started_at = freeze_started, ms_finalized_at = finalized,
     ms_last_reconcile_at = Some now, ms_last_blockers = blockers\<rparr>"

definition json_checklist :: "(string \<times> bool) list \<Rightarrow> json" where
  "json_checklist checklist = JObj (map (\<lambda>(item, passed). (item, JBool passed)) checklist)"

definition finalize_cutover ::
    "migration_manifest \<Rightarrow> bool \<Rightarrow> datetime \<Rightarrow> datetime \<Rightarrow> reconcile_repos \<Rightarrow> state_repo \<times> audit_log
      \<Rightarrow> finalize_result \<times> state_repo \<times> audit_log" where
  "finalize_cutover manifest acknowledged now reconciled repos s =
    (let m = mf_migration_id manifest;
         existing = state_get (fst s) m;
         (res, evs) = reconcile_execute manifest None reconciled repos (snd s);
         checklist = build_checklist res existing acknowledged;
         blockers = checklist_blockers checklist;
         freeze_started = (case existing of None \<Rightarrow> None | Some x \<Rightarrow> ms_freeze_started_at x)
     in if blockers \<noteq> [] then
          let saved = cutover_state existing m NeedsManualReconcile now freeze_started None blockers;
              event = \<lparr>ae_migration_id = m, ae_event_type = ''cutover_finalize_blocked'',
                ae_severity = SevWarning, ae_created_at = now, ae_source_chat_id = None,
                ae_source_message_id = None,
                ae_payload_json = [(''blockers'', JList (map JStr blockers)),
                  (''checklist'', json_checklist checklist),
                  (''reconcile_summary'', reconcile_summary_payload res)]\<rparr>
          in (\<lparr>fr_migration_id = m, fr_status = ''blocked'', fr_migration_state = ms_status saved,
                fr_finalized_at = ms_finalized_at saved,
                fr_freeze_started_at = ms_freeze_started_at saved, fr_blockers = blockers,
                fr_checklist = checklist, fr_reconcile_result = res\<rparr>,
              state_save saved (fst s), audit_add event evs)
        else
          let saved = cutover_state existing m Completed now freeze_started (Some now) [];
              event = \<lparr>ae_migration_id = m, ae_event_type = ''cutover_finalized'',
                ae_severity = SevInfo, ae_created_at = now, ae_source_chat_id = None,
                ae_source_message_id = None,
                ae_payload_json = [(''checklist'', json_checklist checklist),
                  (''reconcile_summary'', reconcile_summary_payload res),
                  (''finalized_at'', JStr (isoformat now))]\<rparr>
          in (\<lparr>fr_migration_id = m, fr_status = ''completed'', fr_migration_state = ms_status saved,
                fr_finalized_at = ms_finalized_at saved,
                fr_freeze_started_at = ms_freeze_started_at saved, fr_blockers = [],
                fr_checklist = checklist, fr_reconcile_result = res\<rparr>,
              state_save saved (fst s), audit_add event evs))"

section \<open>The decision\<close>

text \<open>Every item has a message, so there is a blocker per failed item.\<close>

lemma checklist_items_have_messages:
  "\<forall>(item, passed) \<in> set (build_checklist r e a). checklist_blocker_message item \<noteq> None"
  by (simp add: build_checklist_def checklist_blocker_message_def checklist_messages_def)

lemma map_filter_Nil: "List.map_filter f xs = [] \<longleftrightarrow> (\<forall>x \<in> set xs. f x = None)"
  by (induction xs) (auto simp: List.map_filter_simps split: option.split)

lemma checklist_blockers_Nil:
  "checklist_blockers (build_checklist r e a) = [] \<longleftrightarrow> (\<forall>(item, passed) \<in> set (build_checklist r e a). passed)"
  using checklist_items_have_messages [of r e a]
  by (fastforce simp: checklist_blockers_def map_filter_Nil split: if_splits)

definition cutover_report :: "migration_manifest \<Rightarrow> reconcile_repos \<Rightarrow> reconcile_result" where
  "cutover_report manifest repos =
    reconcile_totals (mf_migration_id manifest) (reconcile_chats manifest None repos)"

definition cutover_ready ::
    "migration_manifest \<Rightarrow> bool \<Rightarrow> reconcile_repos \<Rightarrow> migration_state_record option \<Rightarrow> bool" where
  "cutover_ready manifest acknowledged repos existing \<longleftrightarrow>
    rr_attention_chats (cutover_report manifest repos) = 0 \<and> acknowledged
    \<and> (\<exists>s. existing = Some s \<and> ms_freeze_started_at s \<noteq> None \<and> ms_status s = Paused)"

lemma checklist_passed:
  assumes "keyed_dict inventory_key (rs_inventory repos)"
  shows "checklist_blockers (build_checklist (cutover_report manifest repos) existing acknowledged) = []
    \<longleftrightarrow> cutover_ready manifest acknowledged repos existing"
  using reconcile_attention_zero [OF assms, of "cutover_report manifest repos" manifest None]
  unfolding checklist_blockers_Nil cutover_ready_def
  by (auto simp: build_checklist_def cutover_report_def split: option.splits)

lemma finalize_cutover_cases:
  assumes "keyed_dict inventory_key (rs_inventory repos)"
    and "finalize_cutover manifest acknowledged now reconciled repos s = (res, repo', evs')"
  obtains (completed) "cutover_ready manifest acknowledged repos (state_get (fst s) (mf_migration_id manifest))"
      "fr_status res = ''completed''" "fr_migration_state res = Completed" "fr_blockers res = []"
      "\<exists>f. ms_freeze_started_at f \<noteq> None \<and> state_get (fst s) (mf_migration_id manifest) = Some f
        \<and> repo' = state_save (cutover_state (Some f) (mf_migration_id manifest) Completed now
            (ms_freeze_started_at f) (Some now) []) (fst s)"
  | (blocked) "\<not> cutover_ready manifest acknowledged repos (state_get (fst s) (mf_migration_id manifest))"
      "fr_status res = ''blocked''" "fr_migration_state res = NeedsManualReconcile" "fr_blockers res \<noteq> []"
      "repo' = state_save (cutover_state (state_get (fst s) (mf_migration_id manifest))
          (mf_migration_id manifest) NeedsManualReconcile now
          (case state_get (fst s) (mf_migration_id manifest) of None \<Rightarrow> None
            | Some x \<Rightarrow> ms_freeze_started_at x) None (fr_blockers res)) (fst s)"
proof (cases "cutover_ready manifest acknowledged repos (state_get (fst s) (mf_migration_id manifest))")
  case True
  then obtain f where f: "state_get (fst s) (mf_migration_id manifest) = Some f"
    "ms_freeze_started_at f \<noteq> None" by (auto simp: cutover_ready_def)
  have none: "checklist_blockers (build_checklist (cutover_report manifest repos)
      (state_get (fst s) (mf_migration_id manifest)) acknowledged) = []"
    using checklist_passed [OF assms(1)] True by blast
  show ?thesis
    by (rule completed)
      (use assms(2) True none f in \<open>auto simp: finalize_cutover_def reconcile_execute_def
         cutover_report_def cutover_state_def Let_def\<close>)
next
  case False
  have some: "checklist_blockers (build_checklist (cutover_report manifest repos)
      (state_get (fst s) (mf_migration_id manifest)) acknowledged) \<noteq> []"
    using checklist_passed [OF assms(1)] False by blast
  show ?thesis
    by (rule blocked)
      (use assms(2) False some in \<open>auto simp: finalize_cutover_def reconcile_execute_def
         cutover_report_def cutover_state_def Let_def\<close>)
qed

text \<open>
  What \<open>completed\<close> says of the data: every chat known of the migration has an inventory snapshot,
  every counted message was imported, and nothing failed, is ambiguous or is in progress.
\<close>

lemma cutover_ready_chats:
  assumes keyed: "keyed_dict inventory_key (rs_inventory repos)"
    and ready: "cutover_ready manifest acknowledged repos existing"
    and c: "c \<in> known_chats manifest None repos"
  shows "\<exists>s. chat_snapshot manifest repos c = Some s
      \<and> inv_message_count s = int (length (messages_with (rs_messages repos) (mf_migration_id manifest) c MsgImported))"
    and "messages_with (rs_messages repos) (mf_migration_id manifest) c st = [] \<or> st = MsgImported"
    and "attachments_with (rs_attachments repos) (mf_migration_id manifest) c ast = []
      \<or> ast = AttImported \<or> ast = AttSkipped"
proof -
  let ?m = "mf_migration_id manifest" and ?cs = "reconcile_chats manifest None repos"
  have "finite (known_chats manifest None repos)" by (simp add: known_chats_def)
  with c have "c \<in> set (map rc_source_chat_id ?cs)" by (simp only: reconcile_chats_ids set_sorted_list_of_set)
  then obtain x where x: "x \<in> set ?cs" "rc_source_chat_id x = c" by auto
  note line = reconcile_chat_line [OF keyed x(1), unfolded x(2)]
  have "\<not> rc_requires_attention x"
    using ready x(1) by (simp add: cutover_ready_def cutover_report_def reconcile_totals_def filter_empty_conv)
  with line(14) have ok: "rc_inventory_present x" "rc_failed_count x = 0" "rc_ambiguous_count x = 0"
    "rc_processing_count x = 0" "rc_attachment_failed_count x = 0" "rc_attachment_ambiguous_count x = 0"
    "rc_attachment_processing_count x = 0" "int_or_zero (rc_gap_count x) \<le> 0"
    by auto
  from ok(1) line(2) obtain s where s: "chat_snapshot manifest repos c = Some s" by auto
  with ok(8) line(13) have "inv_message_count s =
      int (length (messages_with (rs_messages repos) ?m c MsgImported))"
    by (simp add: int_or_zero_def)
  with s show "\<exists>s. chat_snapshot manifest repos c = Some s \<and> inv_message_count s =
      int (length (messages_with (rs_messages repos) ?m c MsgImported))" by simp
  show "messages_with (rs_messages repos) ?m c st = [] \<or> st = MsgImported"
    using ok(2-4) line(5-7) by (cases st) auto
  show "attachments_with (rs_attachments repos) ?m c ast = [] \<or> ast = AttImported \<or> ast = AttSkipped"
    using ok(5-7) line(9-11) by (cases ast) auto
qed

section \<open>The life cycle as a whole\<close>

text \<open>The steps that change the state of a migration, at clock readings that do not go back.\<close>

inductive lifecycle_step :: "datetime \<Rightarrow> state_repo \<Rightarrow> state_repo \<Rightarrow> bool" where
  manage: "manage_migration_state manifest action now (repo, evs) = Inr (r, repo', evs') \<Longrightarrow>
    lifecycle_step now repo repo'"
| finalize: "keyed_dict inventory_key (rs_inventory repos) \<Longrightarrow>
    finalize_cutover manifest ack now reconciled repos (repo, evs) = (r, repo', evs') \<Longrightarrow>
    lifecycle_step now repo repo'"

inductive lifecycle_run :: "datetime \<Rightarrow> state_repo \<Rightarrow> bool" where
  init: "lifecycle_run t []"
| step: "lifecycle_run t repo \<Longrightarrow> t \<le> now \<Longrightarrow> lifecycle_step now repo repo' \<Longrightarrow>
    lifecycle_run now repo'"

lemma lifecycle_step_inv:
  assumes "lifecycle_step now repo repo'" and inv: "states_inv repo"
    and old: "\<And>m r. state_get repo m = Some r \<Longrightarrow> ms_updated_at r \<le> now"
  shows "states_inv repo' \<and> (\<forall>m r. state_get repo' m = Some r \<longrightarrow> ms_updated_at r \<le> now)"
  using assms(1)
proof cases
  case (manage manifest action evs r evs')
  then obtain e where e: "e = (case state_get repo (mf_migration_id manifest) of
       None \<Rightarrow> new_migration_state (mf_migration_id manifest) now | Some x \<Rightarrow> x)"
    "ms_status e \<noteq> Completed" "repo' = state_save (transition e action now) repo"
    by (rule manage_state_Inr)
  have "state_wf e" "ms_created_at e \<le> now"
    using e(1) states_inv_wf [OF inv] old
    by (fastforce simp: state_wf_new new_migration_state_def state_wf_def split: option.splits)+
  then have "state_wf (transition e action now)" by (rule state_wf_transition [OF _ e(2)])
  then show ?thesis using old by (simp add: e(3) states_inv_save [OF inv] states.get_save)
next
  case (finalize repos manifest ack reconciled evs r evs')
  have created: "ms_created_at f \<le> now" if "state_get repo (mf_migration_id manifest) = Some f" for f
    using that states_inv_wf [OF inv that] old [OF that] by (simp add: state_wf_def)
  from finalize show ?thesis
  proof (cases rule: finalize_cutover_cases)
    case completed
    then obtain f where f: "ms_freeze_started_at f \<noteq> None" "state_get repo (mf_migration_id manifest) = Some f"
      "repo' = state_save (cutover_state (Some f) (mf_migration_id manifest) Completed now
            (ms_freeze_started_at f) (Some now) []) repo" by auto
    have "state_wf (cutover_state (Some f) (mf_migration_id manifest) Completed now
            (ms_freeze_started_at f) (Some now) [])"
      using f(1) created [OF f(2)] by (simp add: state_wf_def cutover_state_def)
    then show ?thesis
      using old by (simp add: f(3) states_inv_save [OF inv] states.get_save) (simp add: cutover_state_def)
  next
    case blocked
    have "state_wf (cutover_state (state_get repo (mf_migration_id manifest))
          (mf_migration_id manifest) NeedsManualReconcile now
          (case state_get repo (mf_migration_id manifest) of None \<Rightarrow> None
            | Some x \<Rightarrow> ms_freeze_started_at x) None (fr_blockers r))"
      using created by (simp add: state_wf_def cutover_state_def split: option.split)
    then show ?thesis
      using old blocked(5) by (simp add: states_inv_save [OF inv] states.get_save) (simp add: cutover_state_def)
  qed
qed

lemma lifecycle_run_inv:
  "lifecycle_run t repo \<Longrightarrow> states_inv repo \<and> (\<forall>m r. state_get repo m = Some r \<longrightarrow> ms_updated_at r \<le> t)"
proof (induction rule: lifecycle_run.induct)
  case (init t)
  then show ?case by (simp add: states_inv_def state_get_def)
next
  case (step t repo now repo')
  from step.IH step.hyps(2) show ?case
    by (intro lifecycle_step_inv [OF step.hyps(3)]) fastforce+
qed

text \<open>A command never completes a migration; only finalising does, from the frozen and paused state.\<close>

lemma lifecycle_completed_by_finalize:
  assumes "lifecycle_step now repo repo'" and "state_get repo' m = Some r" and "ms_status r = Completed"
    and "state_get repo m \<noteq> Some r"
  shows "\<exists>f. state_get repo m = Some f \<and> ms_status f = Paused \<and> ms_freeze_started_at f \<noteq> None
    \<and> ms_finalized_at r = Some now"
  using assms(1)
proof cases
  case (manage manifest action evs res evs')
  then obtain e where "repo' = state_save (transition e action now) repo"
    by (rule manage_state_Inr)
  with assms(2-4) show ?thesis
    using transition_never_completed [of e action now]
    by (auto simp: states.get_save split: if_splits)
next
  case (finalize repos manifest ack reconciled evs res evs')
  from finalize show ?thesis
  proof (cases rule: finalize_cutover_cases)
    case completed
    with assms(2-4) show ?thesis
      by (auto simp: states.get_save cutover_state_def cutover_ready_def split: if_splits)
  next
    case blocked
    with assms(2-4) show ?thesis
      by (auto simp: states.get_save cutover_state_def split: if_splits)
  qed
qed

end
