(* ===== verification/Retry.thy ===== *)
theory Retry
  imports Models Complex_Main
begin

text \<open>
  \<open>AsyncRetryPolicy\<close> of \<open>extg_shared/utils/retry.py\<close>. The operation is a parameter: what its
  n-th call does, on the state the calls share. \<open>randomizer\<close> gives the n-th random number. A
  delay is a rational number of seconds; \<open>sleep\<close> is recorded as the list of delays slept.
  The loop has no bound of its own: it ends because \<open>attempt\<close> reaches \<open>max_attempts\<close>.
\<close>

record retry_policy =
  rp_max_attempts :: int
  rp_base_delay :: rat
  rp_max_delay :: rat
  rp_jitter :: rat
  rp_retries :: "error \<Rightarrow> bool"

fun is_recoverable :: "error \<Rightarrow> bool" where
  "is_recoverable (RecoverableItemError _) \<longleftrightarrow> True"
| "is_recoverable _ \<longleftrightarrow> False"

definition default_retry_policy :: retry_policy where
  "default_retry_policy = \<lparr>rp_max_attempts = 3, rp_base_delay = 1/5, rp_max_delay = 3,
     rp_jitter = 1/5, rp_retries = is_recoverable\<rparr>"

definition retry_delay :: "retry_policy \<Rightarrow> (nat \<Rightarrow> rat) \<Rightarrow> int \<Rightarrow> rat" where
  "retry_delay p randomizer attempt =
    min (rp_max_delay p) (rp_base_delay p * 2 ^ nat (attempt - 1))
      + randomizer (nat attempt) * rp_jitter p"

function retry_from ::
    "retry_policy \<Rightarrow> (nat \<Rightarrow> rat) \<Rightarrow> ('s \<Rightarrow> (error, 'a) outcome \<times> 's) \<Rightarrow> int \<Rightarrow> 's \<Rightarrow> rat list
      \<Rightarrow> (error, 'a) outcome \<times> 's \<times> rat list" where
  "retry_from p randomizer operation attempt s slept =
    (case operation s of
       (Inr a, s') \<Rightarrow> (Inr a, s', slept)
     | (Inl e, s') \<Rightarrow>
         if \<not> rp_retries p e \<or> attempt \<ge> rp_max_attempts p then (Inl e, s', slept)
         else retry_from p randomizer operation (attempt + 1) s'
                (slept @ [retry_delay p randomizer attempt]))"
  by pat_completeness auto

termination
  by (relation "measure (\<lambda>(p, _, _, attempt, _, _). nat (rp_max_attempts p - attempt))") auto

declare retry_from.simps [simp del]

definition retry_run ::
    "retry_policy \<Rightarrow> (nat \<Rightarrow> rat) \<Rightarrow> ('s \<Rightarrow> (error, 'a) outcome \<times> 's) \<Rightarrow> 's
      \<Rightarrow> (error, 'a) outcome \<times> 's \<times> rat list" where
  "retry_run p randomizer operation s = retry_from p randomizer operation 1 s []"

section \<open>How often it calls and how long it sleeps\<close>

text \<open>The states after n calls of the operation, and the result of the next one.\<close>

fun after_calls :: "('s \<Rightarrow> (error, 'a) outcome \<times> 's) \<Rightarrow> nat \<Rightarrow> 's \<Rightarrow> 's" where
  "after_calls operation 0 s = s"
| "after_calls operation (Suc n) s = after_calls operation n (snd (operation s))"

definition nth_result :: "('s \<Rightarrow> (error, 'a) outcome \<times> 's) \<Rightarrow> nat \<Rightarrow> 's \<Rightarrow> (error, 'a) outcome" where
  "nth_result operation n s = fst (operation (after_calls operation n s))"

definition retryable :: "retry_policy \<Rightarrow> (error, 'a) outcome \<Rightarrow> bool" where
  "retryable p x \<longleftrightarrow> (case x of Inl e \<Rightarrow> rp_retries p e | Inr _ \<Rightarrow> False)"

text \<open>
  The result is that of the first call that is not to be retried, or of the last one allowed:
  n retries, so n + 1 calls, and one sleep per retry.
\<close>

lemma retry_from_spec:
  assumes "retry_from p rnd operation attempt s slept = (x, s', slept')"
  shows "\<exists>n. x = nth_result operation n s \<and> s' = after_calls operation (Suc n) s
    \<and> (\<forall>i < n. retryable p (nth_result operation i s))
    \<and> slept' = slept @ map (\<lambda>i. retry_delay p rnd (attempt + int i)) [0..<n]
    \<and> (n = 0 \<or> attempt + int n \<le> rp_max_attempts p)
    \<and> (retryable p x \<longrightarrow> rp_max_attempts p \<le> attempt + int n)"
  using assms
proof (induction p rnd operation attempt s slept rule: retry_from.induct)
  case (1 p rnd operation attempt s slept)
  obtain y s1 where op: "operation s = (y, s1)" by fastforce
  show ?case
  proof (cases "retryable p y \<and> attempt < rp_max_attempts p")
    case True
    then obtain e where e: "y = Inl e" "rp_retries p e"
      by (cases y) (auto simp: retryable_def)
    from "1.prems" have rec: "retry_from p rnd operation (attempt + 1) s1
        (slept @ [retry_delay p rnd attempt]) = (x, s', slept')"
      using True e op by (subst (asm) retry_from.simps) simp
    from op e(1) have op': "(Inl e, s1) = operation s" by simp
    have "\<not> (\<not> rp_retries p e \<or> attempt \<ge> rp_max_attempts p)" using True e by simp
    from "1.IH" [OF op' refl this rec] obtain n where n:
      "x = nth_result operation n s1" "s' = after_calls operation (Suc n) s1"
      "\<forall>i < n. retryable p (nth_result operation i s1)"
      "slept' = (slept @ [retry_delay p rnd attempt])
         @ map (\<lambda>i. retry_delay p rnd (attempt + 1 + int i)) [0..<n]"
      "n = 0 \<or> attempt + 1 + int n \<le> rp_max_attempts p"
      "retryable p x \<longrightarrow> rp_max_attempts p \<le> attempt + 1 + int n" by blast
    have shift: "nth_result operation (Suc i) s = nth_result operation i s1" for i
      using op by (simp add: nth_result_def)
    have "map (\<lambda>i. retry_delay p rnd (attempt + int i)) [0..<Suc n] =
        retry_delay p rnd attempt # map (\<lambda>i. retry_delay p rnd (attempt + 1 + int i)) [0..<n]"
      by (simp only: upt_conv_Cons [of 0 "Suc n"] map_Suc_upt [symmetric])
        (simp add: o_def algebra_simps)
    moreover have "\<forall>i < Suc n. retryable p (nth_result operation i s)"
    proof (intro allI impI)
      fix i
      assume "i < Suc n"
      with n(3) op True show "retryable p (nth_result operation i s)"
        by (cases i) (simp_all add: shift, simp add: nth_result_def)
    qed
    moreover have "attempt + int (Suc n) \<le> rp_max_attempts p" using n(5) True by auto
    ultimately show ?thesis
      using n op by (intro exI [of _ "Suc n"]) (simp add: shift algebra_simps)
  next
    case False
    then have "retry_from p rnd operation attempt s slept = (y, s1, slept)"
      using op by (subst retry_from.simps) (auto simp: retryable_def split: sum.split)
    with "1.prems" op False show ?thesis
      by (intro exI [of _ 0]) (auto simp: nth_result_def)
  qed
qed

lemma retry_delay_bounds:
  assumes "\<And>n. 0 \<le> rnd n \<and> rnd n < 1" and "0 \<le> rp_base_delay p" and "0 \<le> rp_max_delay p"
    and "0 \<le> rp_jitter p"
  shows "0 \<le> retry_delay p rnd a" and "retry_delay p rnd a \<le> rp_max_delay p + rp_jitter p"
proof -
  have "0 \<le> rnd (nat a) * rp_jitter p" using assms by simp
  moreover have "rnd (nat a) * rp_jitter p \<le> rp_jitter p"
    using assms(1) [of "nat a"] assms(4) by (simp add: mult_left_le_one_le)
  moreover have "0 \<le> rp_base_delay p * 2 ^ nat (a - 1)" using assms(2) by simp
  ultimately show "0 \<le> retry_delay p rnd a" "retry_delay p rnd a \<le> rp_max_delay p + rp_jitter p"
    using assms(3) by (auto simp: retry_delay_def min_def)
qed

end
