(* ===== verification/Inventory.thy ===== *)
theory Inventory
  imports Record_Stores Retry
begin

text \<open>
  \<open>InventoryUseCase\<close> (\<open>use_cases/inventory.py\<close>): list the dialogs of the source, through the
  retry policy, and replace the migration's inventory by a snapshot of each. The gateway's
  \<open>list_dialogs\<close> is a parameter: what its n-th call answers.
\<close>

record inventory_dialog_result =
  id_source_chat_id :: string
  id_source_chat_type :: string
  id_title :: string
  id_message_count :: int
  id_media_count :: int
  id_approximate_bytes :: int

definition from_source_dialog :: "source_dialog \<Rightarrow> inventory_dialog_result" where
  "from_source_dialog d = \<lparr>id_source_chat_id = sd_dialog_id d, id_source_chat_type = sd_chat_type d,
     id_title = sd_title d, id_message_count = sd_message_count d,
     id_media_count = sd_media_count d, id_approximate_bytes = sd_approximate_bytes d\<rparr>"

record inventory_result =
  ir_migration_id :: string
  ir_dialogs_total :: int
  ir_messages_total :: int
  ir_media_total :: int
  ir_approximate_bytes_total :: int
  ir_dialogs :: "inventory_dialog_result list"

definition inventory_result_of :: "string \<Rightarrow> inventory_dialog_result list \<Rightarrow> inventory_result" where
  "inventory_result_of migration results = \<lparr>ir_migration_id = migration,
     ir_dialogs_total = int (length results),
     ir_messages_total = sum_list (map id_message_count results),
     ir_media_total = sum_list (map id_media_count results),
     ir_approximate_bytes_total = sum_list (map id_approximate_bytes results),
     ir_dialogs = results\<rparr>"

definition snapshot_of :: "string \<Rightarrow> datetime \<Rightarrow> inventory_dialog_result \<Rightarrow> inventory_snapshot_record" where
  "snapshot_of migration captured_at d = \<lparr>inv_migration_id = migration,
     inv_source_chat_id = id_source_chat_id d, inv_source_chat_type = id_source_chat_type d,
     inv_source_chat_title = id_title d, inv_message_count = id_message_count d,
     inv_media_count = id_media_count d, inv_approximate_bytes = id_approximate_bytes d,
     inv_captured_at = captured_at\<rparr>"

definition inventory_persist ::
    "string \<Rightarrow> source_dialog list \<Rightarrow> datetime \<Rightarrow> inventory_repo \<times> audit_log
      \<Rightarrow> inventory_result \<times> inventory_repo \<times> audit_log" where
  "inventory_persist migration dialogs captured_at s =
    (let results = map from_source_dialog dialogs;
         res = inventory_result_of migration results;
         event = \<lparr>ae_migration_id = migration, ae_event_type = ''inventory_snapshot_persisted'',
           ae_severity = SevInfo, ae_created_at = captured_at, ae_source_chat_id = None,
           ae_source_message_id = None,
           ae_payload_json = [
             (''dialogs_total'', JInt (ir_dialogs_total res)),
             (''messages_total'', JInt (ir_messages_total res)),
             (''media_total'', JInt (ir_media_total res)),
             (''approximate_bytes_total'', JInt (ir_approximate_bytes_total res))]\<rparr>
     in (res, inventory_replace_for_migration migration
           (map (snapshot_of migration captured_at) results) (fst s), audit_add event (snd s)))"

definition inventory_execute ::
    "retry_policy \<Rightarrow> (nat \<Rightarrow> rat) \<Rightarrow> ('g \<Rightarrow> (error, source_dialog list) outcome \<times> 'g)
      \<Rightarrow> migration_manifest \<Rightarrow> datetime \<Rightarrow> 'g \<Rightarrow> inventory_repo \<times> audit_log
      \<Rightarrow> (error, inventory_result) outcome \<times> 'g \<times> inventory_repo \<times> audit_log" where
  "inventory_execute policy randomizer list_dialogs manifest captured_at g s =
    (case retry_run policy randomizer list_dialogs g of
       (Inl e, g', _) \<Rightarrow> (Inl e, g', s)
     | (Inr dialogs, g', _) \<Rightarrow>
         let (res, s') = inventory_persist (mf_migration_id manifest) dialogs captured_at s
         in (Inr res, g', s'))"

section \<open>What an inventory leaves behind\<close>

lemma find_rev_map_snapshot:
  "List.find (\<lambda>s. inventory_key s = k) (rev (map (snapshot_of m c) ds)) =
    (if fst k = m then map_option (snapshot_of m c)
       (List.find (\<lambda>d. id_source_chat_id d = snd k) (rev ds)) else None)"
proof (induction ds rule: rev_induct)
  case Nil
  then show ?case by simp
next
  case (snoc d ds)
  moreover have "inventory_key (snapshot_of m c d) = (m, id_source_chat_id d)"
    by (simp add: inventory_key_def snapshot_of_def)
  ultimately show ?case by (cases k) auto
qed

lemma find_rev_map_dialog:
  "List.find (\<lambda>d. id_source_chat_id d = c) (rev (map from_source_dialog ds)) =
    map_option from_source_dialog (List.find (\<lambda>d. sd_dialog_id d = c) (rev ds))"
  by (induction ds rule: rev_induct) (auto simp: from_source_dialog_def)

text \<open>The new inventory of the migration holds the last dialog of each id, and nothing else.\<close>

lemma inventory_persist_get:
  assumes "inventory_persist m dialogs c (repo, evs) = (res, repo', evs')"
  shows "inventory_get repo' k =
    (if fst k \<noteq> m then inventory_get repo k
     else map_option (\<lambda>d. snapshot_of m c (from_source_dialog d))
       (List.find (\<lambda>d. sd_dialog_id d = snd k) (rev dialogs)))"
proof -
  have "repo' = inventory_replace_for_migration m (map (snapshot_of m c) (map from_source_dialog dialogs)) repo"
    using assms by (simp add: inventory_persist_def Let_def)
  then show ?thesis
    by (simp only: inventory_replace_get find_rev_map_snapshot find_rev_map_dialog)
      (simp add: option.map_comp o_def split: option.split)
qed

lemma keyed_inventory_persist:
  assumes "keyed_dict inventory_key repo" and "inventory_persist m dialogs c (repo, evs) = (res, repo', evs')"
  shows "keyed_dict inventory_key repo'"
  using assms by (auto simp: inventory_persist_def Let_def intro: keyed_inventory_replace)

end
