(* ===== verification/Leases.thy ===== *)
theory Leases
  imports Models
begin

text \<open>
  The contract of a repository that hands records out on a lease: \<open>take\<close> gives a holder some
  records, each live, owned by the holder and leased until a deadline; a live record whose
  deadline has not passed is not handed out again; an owner's update of a record it no longer
  holds changes nothing. The job repository and the outbox repository interpret it, in memory and on
  tables. In memory a deadline is computed on the clock reading with its microseconds dropped, as the
  code does, so a lease is up to one second shorter than its duration; on tables it is exact.
\<close>

definition lease_deadline :: "datetime \<Rightarrow> timedelta \<Rightarrow> datetime" where
  "lease_deadline now lease = drop_microseconds now + lease"

lemma lease_deadline_bounds:
  "lease_deadline now lease \<le> now + lease" "now + lease - one_second < lease_deadline now lease"
  using drop_microseconds_bounds [of now] by (simp_all add: lease_deadline_def)

locale lease_store =
  fixes get :: "'s \<Rightarrow> 'k \<Rightarrow> 'r option"
    and key :: "'r \<Rightarrow> 'k"
    and inv :: "'s \<Rightarrow> bool"
    and live :: "'r \<Rightarrow> bool"
    and owner :: "'r \<Rightarrow> string option"
    and deadline :: "'r \<Rightarrow> datetime option"
    and take :: "'q \<Rightarrow> string \<Rightarrow> timedelta \<Rightarrow> datetime \<Rightarrow> 's \<Rightarrow> 'r list \<times> 's"
    and until :: "datetime \<Rightarrow> timedelta \<Rightarrow> datetime"
  assumes inv_take: "inv s \<Longrightarrow> inv (snd (take q w l t s))"
    and take_taken: "inv s \<Longrightarrow> r \<in> set (fst (take q w l t s)) \<Longrightarrow>
      get (snd (take q w l t s)) (key r) = Some r \<and> live r \<and> owner r = Some w
      \<and> deadline r = Some (until t l)"
    and take_other: "inv s \<Longrightarrow> k \<notin> key ` set (fst (take q w l t s)) \<Longrightarrow>
      get (snd (take q w l t s)) k = get s k"
    and take_expired: "inv s \<Longrightarrow> r \<in> set (fst (take q w l t s)) \<Longrightarrow>
      get s (key r) = Some r0 \<Longrightarrow> live r0 \<Longrightarrow> deadline r0 = Some d \<Longrightarrow> d < t"
begin

lemma held_not_taken:
  assumes "inv s" and "get s k = Some r0" and "live r0" and "deadline r0 = Some d" and "t \<le> d"
  shows "k \<notin> key ` set (fst (take q w l t s))" and "get (snd (take q w l t s)) k = Some r0"
proof -
  show no: "k \<notin> key ` set (fst (take q w l t s))"
    using take_expired [OF assms(1)] assms(2-5) by fastforce
  show "get (snd (take q w l t s)) k = Some r0"
    using take_other [OF assms(1) no] assms(2) by simp
qed

lemma take_exclusive:
  assumes "inv s" and "r \<in> set (fst (take q w l t s))" and "t' \<le> until t l"
  shows "key r \<notin> key ` set (fst (take q' w' l' t' (snd (take q w l t s))))"
    and "get (snd (take q' w' l' t' (snd (take q w l t s)))) (key r) = Some r"
  using held_not_taken [OF inv_take [OF assms(1)], of q w l t "key r" r] take_taken [OF assms(1,2)]
    assms(3) by simp_all

text \<open>Any number of later takes, by anyone, before the deadline leave the record as it is.\<close>

lemma takes_exclusive:
  assumes "inv s" and "get s k = Some r" and "live r" and "deadline r = Some d"
    and "\<forall>(q, w, l, t) \<in> set ops. t \<le> d"
  shows "get (fold (\<lambda>(q, w, l, t) s. snd (take q w l t s)) ops s) k = Some r"
  using assms
proof (induction ops arbitrary: s)
  case Nil
  then show ?case by simp
next
  case (Cons op ops)
  obtain q w l t where op: "op = (q, w, l, t)" by (metis surj_pair)
  with Cons.prems have "get (snd (take q w l t s)) k = Some r"
    using held_not_taken(2) [of s k r d t q w l] by simp
  with Cons op show ?case by (simp add: inv_take)
qed

end

locale fenced_lease_store = lease_store +
  fixes update :: "'u \<Rightarrow> string \<Rightarrow> 'k \<Rightarrow> 's \<Rightarrow> bool \<times> 's"
  assumes update_fenced: "inv s \<Longrightarrow> get s k = Some r \<Longrightarrow> owner r \<noteq> Some w \<or> \<not> live r \<Longrightarrow>
      update u w k s = (False, s)"
begin

lemma stale_owner_fenced:
  assumes "inv s" and "r \<in> set (fst (take q w l t s))" and "w' \<noteq> w"
  shows "update u w' (key r) (snd (take q w l t s)) = (False, snd (take q w l t s))"
  using take_taken [OF assms(1,2)] assms(3) by (intro update_fenced) (auto simp: inv_take assms(1))

end

end
