(* ===== verification/Outbox_Repo.thy ===== *)
theory Outbox_Repo
  imports Leases
begin

text \<open>
  \<open>InMemoryOutboxRepository\<close>: the transactional outbox whose events a publisher leases in
  batches, oldest first, and then marks published or failed. It interprets the lease contract
  with the batch limit as the request.
\<close>

type_synonym outbox_repo = "(string, outbox_event_record) dict"

abbreviation outbox_ok :: "outbox_repo \<Rightarrow> bool" where
  "outbox_ok repo \<equiv> keyed_dict ob_event_id repo"

definition outbox_append_many :: "outbox_event_record list \<Rightarrow> outbox_repo \<Rightarrow> outbox_repo" where
  "outbox_append_many events repo = fold (\<lambda>e d. dict_set (ob_event_id e) e d) events repo"

definition outbox_get :: "outbox_repo \<Rightarrow> string \<Rightarrow> outbox_event_record option" where
  "outbox_get repo k = dict_get repo k"

definition outbox_leasable :: "datetime \<Rightarrow> outbox_event_record \<Rightarrow> bool" where
  "outbox_leasable now e \<longleftrightarrow> ob_status e = OutPending
    \<or> (ob_status e = OutLeased
       \<and> (case ob_lease_expires_at e of None \<Rightarrow> True | Some d \<Rightarrow> d < now))"

definition outbox_lease :: "string \<Rightarrow> timedelta \<Rightarrow> datetime \<Rightarrow> outbox_event_record \<Rightarrow> outbox_event_record" where
  "outbox_lease publisher lease now e = e\<lparr>ob_status := OutLeased, ob_leased_by := Some publisher,
     ob_leased_at := Some now, ob_lease_expires_at := Some (lease_deadline now lease),
     ob_attempts := ob_attempts e + 1\<rparr>"

text \<open>
  The publisher passes a positive limit (\<open>max(1, batch_size)\<close>); a Python slice with it is
  \<open>take\<close>.
\<close>

definition outbox_lease_batch ::
    "nat \<Rightarrow> string \<Rightarrow> timedelta \<Rightarrow> datetime \<Rightarrow> outbox_repo \<Rightarrow> outbox_event_record list \<times> outbox_repo" where
  "outbox_lease_batch limit publisher lease now repo =
    (let candidates = sort_key ob_created_at (filter (outbox_leasable now) (dict_values repo));
         leased = map (outbox_lease publisher lease now) (take limit candidates)
     in (leased, fold (\<lambda>e d. dict_set (ob_event_id e) e d) leased repo))"

definition outbox_held :: "string \<Rightarrow> string \<Rightarrow> outbox_repo \<Rightarrow> outbox_event_record option" where
  "outbox_held publisher k repo =
    (case dict_get repo k of
       None \<Rightarrow> None
     | Some e \<Rightarrow> if ob_leased_by e \<noteq> Some publisher \<or> ob_status e \<noteq> OutLeased then None else Some e)"

definition outbox_mark_published ::
    "published_event \<Rightarrow> string \<Rightarrow> string \<Rightarrow> outbox_repo \<Rightarrow> outbox_event_record option \<times> outbox_repo" where
  "outbox_mark_published result publisher k repo =
    (case outbox_held publisher k repo of
       None \<Rightarrow> (None, repo)
     | Some e \<Rightarrow>
         let updated = e\<lparr>ob_status := OutPublished, ob_published_at := Some (pe_published_at result),
               ob_broker_topic := Some (pe_broker_topic result),
               ob_broker_partition := pe_broker_partition result,
               ob_broker_offset := pe_broker_offset result,
               ob_leased_by := None, ob_leased_at := None, ob_lease_expires_at := None\<rparr>
         in (Some updated, dict_set k updated repo))"

definition outbox_mark_failed ::
    "string \<Rightarrow> json \<Rightarrow> string \<Rightarrow> string \<Rightarrow> outbox_repo \<Rightarrow> outbox_event_record option \<times> outbox_repo" where
  "outbox_mark_failed code payload publisher k repo =
    (case outbox_held publisher k repo of
       None \<Rightarrow> (None, repo)
     | Some e \<Rightarrow>
         let updated = e\<lparr>ob_status := OutFailed, ob_leased_by := None, ob_leased_at := None,
               ob_lease_expires_at := None, ob_last_error_code := Some code,
               ob_last_error_payload := Some payload\<rparr>
         in (Some updated, dict_set k updated repo))"

definition outbox_count_by_status :: "outbox_repo \<Rightarrow> (outbox_status, nat) dict" where
  "outbox_count_by_status repo = count_keys (map ob_status (dict_values repo))"

lemmas outbox_defs [lease_updates] = outbox_get_def outbox_held_def outbox_mark_published_def outbox_mark_failed_def
  outbox_lease_batch_def Let_def

section \<open>Leasing a batch\<close>

lemma outbox_lease_simps [simp]:
  "ob_event_id (outbox_lease w l t e) = ob_event_id e"
  "ob_status (outbox_lease w l t e) = OutLeased"
  "ob_leased_by (outbox_lease w l t e) = Some w"
  "ob_lease_expires_at (outbox_lease w l t e) = Some (lease_deadline t l)"
  "ob_attempts (outbox_lease w l t e) = ob_attempts e + 1"
  by (simp_all add: outbox_lease_def)

lemma outbox_fold_keyed:
  "outbox_ok d \<Longrightarrow> outbox_ok (fold (\<lambda>e d. dict_set (ob_event_id e) e d) es d)"
  by (induction es arbitrary: d) auto

lemma outbox_fold_get:
  "distinct (map ob_event_id es) \<Longrightarrow>
    dict_get (fold (\<lambda>e d. dict_set (ob_event_id e) e d) es d) k =
      (case List.find (\<lambda>e. ob_event_id e = k) es of Some e \<Rightarrow> Some e | None \<Rightarrow> dict_get d k)"
proof (induction es arbitrary: d)
  case Nil
  then show ?case by simp
next
  case (Cons e es)
  have "List.find (\<lambda>e'. ob_event_id e' = ob_event_id e) es = None"
    unfolding find_None_iff using Cons.prems by (metis distinct.simps(2) image_eqI list.set_map list.simps(9))
  with Cons show ?case by (auto split: option.split)
qed

lemma outbox_batch_candidates:
  assumes "e \<in> set (fst (outbox_lease_batch n w l t repo))"
  obtains e0 where "e = outbox_lease w l t e0" "e0 \<in> set (dict_values repo)" "outbox_leasable t e0"
  using assms by (fastforce simp: outbox_lease_batch_def Let_def dest!: in_set_takeD)

lemma outbox_batch_distinct:
  assumes "outbox_ok repo"
  shows "distinct (map ob_event_id (fst (outbox_lease_batch n w l t repo)))"
proof -
  let ?c = "filter (outbox_leasable t) (dict_values repo)"
  have "distinct (map ob_event_id ?c)"
    using keyed_dict_distinct [OF assms] by (rule distinct_map_filter)
  then have "distinct (map ob_event_id (sort_key ob_created_at ?c))"
    by (simp add: distinct_map del: set_map)
  then have "distinct (take n (map ob_event_id (sort_key ob_created_at ?c)))"
    by (rule distinct_take)
  then show ?thesis by (simp add: outbox_lease_batch_def Let_def o_def take_map)
qed

lemma outbox_batch_get:
  assumes "outbox_ok repo"
  shows "outbox_get (snd (outbox_lease_batch n w l t repo)) k =
    (case List.find (\<lambda>e. ob_event_id e = k) (fst (outbox_lease_batch n w l t repo)) of
       Some e \<Rightarrow> Some e | None \<Rightarrow> outbox_get repo k)"
  using outbox_fold_get [OF outbox_batch_distinct [OF assms, of n w l t], of repo k]
  by (simp add: outbox_get_def [abs_def] outbox_lease_batch_def Let_def cong: option.case_cong)

lemma find_distinct_key:
  assumes "distinct (map f xs)" and "x \<in> set xs"
  shows "List.find (\<lambda>y. f y = f x) xs = Some x"
proof -
  obtain y where y: "List.find (\<lambda>y. f y = f x) xs = Some y"
    using assms(2) by (cases "List.find (\<lambda>y. f y = f x) xs") (auto simp: find_None_iff)
  then have "y \<in> set xs" "f y = f x" by (auto simp: find_Some_iff)
  with assms have "y = x" by (metis distinct_map inj_onD)
  with y show ?thesis by simp
qed

interpretation outbox: lease_store outbox_get ob_event_id outbox_ok
  "\<lambda>e. ob_status e = OutLeased" ob_leased_by ob_lease_expires_at outbox_lease_batch lease_deadline
proof unfold_locales
  fix repo :: outbox_repo and n w l t
  assume ok: "outbox_ok repo"
  show "outbox_ok (snd (outbox_lease_batch n w l t repo))"
    using ok by (simp add: outbox_lease_batch_def Let_def outbox_fold_keyed)
  show "outbox_get (snd (outbox_lease_batch n w l t repo)) k = outbox_get repo k"
    if "k \<notin> ob_event_id ` set (fst (outbox_lease_batch n w l t repo))" for k
    using that by (auto simp: outbox_batch_get [OF ok] find_Some_iff split: option.split)
  fix e
  assume e: "e \<in> set (fst (outbox_lease_batch n w l t repo))"
  then obtain e0 where e0: "e = outbox_lease w l t e0" "e0 \<in> set (dict_values repo)"
    "outbox_leasable t e0" by (rule outbox_batch_candidates)
  show "outbox_get (snd (outbox_lease_batch n w l t repo)) (ob_event_id e) = Some e
      \<and> ob_status e = OutLeased \<and> ob_leased_by e = Some w
      \<and> ob_lease_expires_at e = Some (lease_deadline t l)"
    using find_distinct_key [OF outbox_batch_distinct [OF ok] e]
    by (simp add: outbox_batch_get [OF ok] e0(1))
  show "d < t" if "outbox_get repo (ob_event_id e) = Some r" "ob_status r = OutLeased"
    "ob_lease_expires_at r = Some d" for r d
  proof -
    have "outbox_get repo (ob_event_id e0) = Some e0"
      using e0(2) keyed_dict_values [OF ok] by (simp add: outbox_get_def del: set_map)
    with that(1) e0(1) have "r = e0" by simp
    with e0(3) that(2,3) show ?thesis by (simp add: outbox_leasable_def)
  qed
qed

datatype outbox_update = Publish published_event | Fail string json

fun outbox_owner_update :: "outbox_update \<Rightarrow> string \<Rightarrow> string \<Rightarrow> outbox_repo \<Rightarrow> bool \<times> outbox_repo" where
  "outbox_owner_update (Publish result) w k repo =
    (let (r, repo') = outbox_mark_published result w k repo in (r \<noteq> None, repo'))"
| "outbox_owner_update (Fail code payload) w k repo =
    (let (r, repo') = outbox_mark_failed code payload w k repo in (r \<noteq> None, repo'))"

interpretation outbox: fenced_lease_store outbox_get ob_event_id outbox_ok
  "\<lambda>e. ob_status e = OutLeased" ob_leased_by ob_lease_expires_at outbox_lease_batch lease_deadline outbox_owner_update
proof unfold_locales
  fix repo :: outbox_repo and k r w u
  assume "outbox_get repo k = Some r" and "ob_leased_by r \<noteq> Some w \<or> ob_status r \<noteq> OutLeased"
  then show "outbox_owner_update u w k repo = (False, repo)"
    by (cases u) (auto simp: lease_updates)
qed

section \<open>Runs of the outbox\<close>

text \<open>
  Any interleaving of appends with fresh identifiers, batch leases and owner updates. A terminal
  event is never touched again.
\<close>

inductive outbox_step :: "outbox_repo \<Rightarrow> outbox_repo \<Rightarrow> bool" where
  append: "\<forall>e \<in> set es. outbox_get repo (ob_event_id e) = None \<Longrightarrow>
    outbox_step repo (outbox_append_many es repo)"
| lease: "outbox_step repo (snd (outbox_lease_batch n w l t repo))"
| update: "outbox_step repo (snd (outbox_owner_update u w k repo))"

inductive_cases outbox_stepE: "outbox_step repo repo'"

definition outbox_terminal :: "outbox_event_record \<Rightarrow> bool" where
  "outbox_terminal e \<longleftrightarrow> ob_status e = OutPublished \<or> ob_status e = OutFailed"

lemma outbox_append_other:
  "\<forall>e \<in> set es. ob_event_id e \<noteq> k \<Longrightarrow> outbox_get (outbox_append_many es repo) k = outbox_get repo k"
  unfolding outbox_append_many_def outbox_get_def by (induction es arbitrary: repo) auto

lemma outbox_held_key: "outbox_held w k repo = Some e \<Longrightarrow> outbox_ok repo \<Longrightarrow> ob_event_id e = k"
  by (auto simp: outbox_held_def dest: keyed_dict_key split: option.splits if_splits)

lemma outbox_step_ok: "outbox_step repo repo' \<Longrightarrow> outbox_ok repo \<Longrightarrow> outbox_ok repo'"
proof (induction rule: outbox_step.induct)
  case (append es repo)
  then show ?case by (simp add: outbox_append_many_def outbox_fold_keyed)
next
  case (lease repo n w l t)
  then show ?case by (rule outbox.inv_take)
next
  case (update repo u w k)
  then show ?case
    by (cases u)
      (auto simp: outbox_mark_published_def outbox_mark_failed_def Let_def
        dest: outbox_held_key intro!: keyed_dict_set split: option.splits)
qed

lemma outbox_step_terminal:
  assumes "outbox_step repo repo'" and "outbox_ok repo"
    and "outbox_get repo k = Some e" and "outbox_terminal e"
  shows "outbox_get repo' k = Some e"
  using assms
proof (induction rule: outbox_step.induct)
  case (append es repo)
  then have "\<forall>e' \<in> set es. ob_event_id e' \<noteq> k" by auto
  with append show ?case by (simp add: outbox_append_other)
next
  case (lease repo n w l t)
  have "k \<notin> ob_event_id ` set (fst (outbox_lease_batch n w l t repo))"
  proof
    assume "k \<in> ob_event_id ` set (fst (outbox_lease_batch n w l t repo))"
    then obtain e0 where "k = ob_event_id e0" "e0 \<in> set (dict_values repo)" "outbox_leasable t e0"
      by (metis image_iff outbox_batch_candidates outbox_lease_simps(1))
    with lease keyed_dict_values [of ob_event_id repo e0] have "e0 = e" "outbox_leasable t e"
      by (simp_all add: outbox_get_def del: set_map)
    with lease.prems(3) show False by (auto simp: outbox_leasable_def outbox_terminal_def)
  qed
  with lease show ?case by (simp add: outbox.take_other)
next
  case (update repo u w k')
  then show ?case
    by (cases u) (auto simp: lease_updates outbox_terminal_def split: option.splits)
qed

lemma outbox_run_terminal:
  assumes "outbox_step\<^sup>*\<^sup>* repo repo'" and "outbox_ok repo"
    and "outbox_get repo k = Some e" and "outbox_terminal e"
  shows "outbox_get repo' k = Some e \<and> outbox_ok repo'"
  using assms
  by (induction rule: rtranclp_induct) (auto intro: outbox_step_ok outbox_step_terminal)

end
