(* ===== verification/Job_Repo.thy ===== *)
theory Job_Repo
  imports Outbox_Repo
begin

text \<open>
  \<open>InMemoryMigrationJobRepository\<close>: the durable queue of migration jobs. A job is enqueued
  once per key, claimed by a worker on a lease (by key or as the oldest claimable one), kept
  alive by heartbeats and finished by its owner, or cancelled by its operator. The repository
  interprets the lease contract with the key or "the next one" as the request.
\<close>

type_synonym job_repo = "(string, migration_job_record) dict"

abbreviation jobs_ok :: "job_repo \<Rightarrow> bool" where
  "jobs_ok repo \<equiv> keyed_dict job_key repo"

section \<open>Operations\<close>

text \<open>
  \<open>enqueue\<close> appends the outbox events outside the job lock, and only when the key was new and
  an outbox repository is configured.
\<close>

definition job_enqueue ::
    "migration_job_record \<Rightarrow> outbox_event_record list \<Rightarrow> job_repo \<Rightarrow> outbox_repo option
      \<Rightarrow> bool \<times> job_repo \<times> outbox_repo option" where
  "job_enqueue r events repo outbox =
    (if dict_get repo (job_key r) \<noteq> None then (False, repo, outbox)
     else (True, dict_set (job_key r) r repo,
           (case outbox of
              Some out \<Rightarrow> if events \<noteq> [] then Some (outbox_append_many events out) else Some out
            | None \<Rightarrow> None)))"

definition job_get :: "job_repo \<Rightarrow> string \<Rightarrow> migration_job_record option" where
  "job_get repo k = dict_get repo k"

definition job_list_active :: "string \<Rightarrow> job_repo \<Rightarrow> migration_job_record list" where
  "job_list_active migration repo =
    sort_key job_requested_at
      (filter (\<lambda>r. job_migration_id r = migration \<and> job_status r \<in> {JobQueued, JobRunning})
        (dict_values repo))"

definition job_claimable :: "datetime \<Rightarrow> migration_job_record \<Rightarrow> bool" where
  "job_claimable now r \<longleftrightarrow> job_status r = JobQueued
    \<or> (job_status r = JobRunning \<and> job_last_error_code r \<noteq> Some cancel_requested_code
       \<and> (case job_lease_expires_at r of None \<Rightarrow> True | Some d \<Rightarrow> d < now))"

text \<open>The record a successful claim stores.\<close>

definition job_start :: "string \<Rightarrow> timedelta \<Rightarrow> datetime \<Rightarrow> migration_job_record \<Rightarrow> migration_job_record" where
  "job_start worker lease now r = r\<lparr>job_status := JobRunning, job_worker_id := Some worker,
     job_started_at := Some (case job_started_at r of Some t \<Rightarrow> t | None \<Rightarrow> now),
     job_heartbeat_at := Some now, job_lease_expires_at := Some (lease_deadline now lease),
     job_attempts := job_attempts r + 1, job_last_error_code := None, job_last_error_payload := None\<rparr>"

definition job_claim ::
    "string \<Rightarrow> string \<Rightarrow> timedelta \<Rightarrow> datetime \<Rightarrow> job_repo \<Rightarrow> migration_job_record option \<times> job_repo" where
  "job_claim k worker lease now repo =
    (case dict_get repo k of
       None \<Rightarrow> (None, repo)
     | Some r \<Rightarrow>
         if \<not> job_claimable now r then (None, repo)
         else let updated = job_start worker lease now r
              in (Some updated, dict_set k updated repo))"

definition job_acquire_next ::
    "string \<Rightarrow> timedelta \<Rightarrow> datetime \<Rightarrow> job_repo \<Rightarrow> migration_job_record option \<times> job_repo" where
  "job_acquire_next worker lease now repo =
    (case sort_key job_requested_at (filter (job_claimable now) (dict_values repo)) of
       [] \<Rightarrow> (None, repo)
     | r # _ \<Rightarrow>
         let updated = job_start worker lease now r
         in (Some updated, dict_set (job_key r) updated repo))"

text \<open>The guard the three owner operations share: a running job of this worker.\<close>

definition job_owned :: "string \<Rightarrow> string \<Rightarrow> job_repo \<Rightarrow> migration_job_record option" where
  "job_owned worker k repo =
    (case dict_get repo k of
       None \<Rightarrow> None
     | Some r \<Rightarrow> if job_worker_id r \<noteq> Some worker \<or> job_status r \<noteq> JobRunning then None else Some r)"

definition job_heartbeat :: "timedelta \<Rightarrow> datetime \<Rightarrow> string \<Rightarrow> string \<Rightarrow> job_repo \<Rightarrow> bool \<times> job_repo" where
  "job_heartbeat lease now worker k repo =
    (case job_owned worker k repo of
       None \<Rightarrow> (False, repo)
     | Some r \<Rightarrow> (True, dict_set k (r\<lparr>job_heartbeat_at := Some now,
                    job_lease_expires_at := Some (lease_deadline now lease)\<rparr>) repo))"

definition job_mark_completed ::
    "datetime \<Rightarrow> string \<Rightarrow> string \<Rightarrow> job_repo \<Rightarrow> migration_job_record option \<times> job_repo" where
  "job_mark_completed now worker k repo =
    (case job_owned worker k repo of
       None \<Rightarrow> (None, repo)
     | Some r \<Rightarrow>
         let updated = r\<lparr>job_status := JobCompleted, job_finished_at := Some now,
               job_heartbeat_at := Some now, job_lease_expires_at := None\<rparr>
         in (Some updated, dict_set k updated repo))"

definition job_mark_failed ::
    "string \<Rightarrow> json \<Rightarrow> datetime \<Rightarrow> string \<Rightarrow> string \<Rightarrow> job_repo \<Rightarrow> migration_job_record option \<times> job_repo" where
  "job_mark_failed code payload now worker k repo =
    (case job_owned worker k repo of
       None \<Rightarrow> (None, repo)
     | Some r \<Rightarrow>
         let updated = r\<lparr>job_status := JobFailed, job_finished_at := Some now,
               job_heartbeat_at := Some now, job_lease_expires_at := None,
               job_last_error_code := Some code, job_last_error_payload := Some payload\<rparr>
         in (Some updated, dict_set k updated repo))"

definition job_request_cancel ::
    "datetime \<Rightarrow> string \<Rightarrow> string \<Rightarrow> job_repo \<Rightarrow> migration_job_record option \<times> job_repo" where
  "job_request_cancel now operator k repo =
    (case dict_get repo k of
       None \<Rightarrow> (None, repo)
     | Some r \<Rightarrow>
         if job_operator_huid r \<noteq> operator then (None, repo)
         else let payload = JObj [(''requested_by'', JStr operator)] in
           (case job_status r of
              JobQueued \<Rightarrow>
                let updated = r\<lparr>job_status := JobFailed, job_finished_at := Some now,
                      job_heartbeat_at := Some now, job_lease_expires_at := None,
                      job_last_error_code := Some cancelled_code,
                      job_last_error_payload := Some payload\<rparr>
                in (Some updated, dict_set k updated repo)
            | JobRunning \<Rightarrow>
                let updated = r\<lparr>job_last_error_code := Some cancel_requested_code,
                      job_last_error_payload := Some payload\<rparr>
                in (Some updated, dict_set k updated repo)
            | _ \<Rightarrow> (None, repo)))"

definition job_count_by_status :: "job_repo \<Rightarrow> (job_status, nat) dict" where
  "job_count_by_status repo = count_keys (map job_status (dict_values repo))"

lemmas job_update_defs [lease_updates] = job_heartbeat_def job_mark_completed_def job_mark_failed_def
  job_request_cancel_def Let_def

section \<open>The lease contract\<close>

lemma job_start_simps [simp]:
  "job_key (job_start w l t r) = job_key r"
  "job_status (job_start w l t r) = JobRunning"
  "job_worker_id (job_start w l t r) = Some w"
  "job_lease_expires_at (job_start w l t r) = Some (lease_deadline t l)"
  "job_heartbeat_at (job_start w l t r) = Some t"
  "job_finished_at (job_start w l t r) = job_finished_at r"
  "job_attempts (job_start w l t r) = job_attempts r + 1"
  "job_last_error_code (job_start w l t r) = None"
  "job_started_at (job_start w l t r) \<noteq> None"
  "job_operator_huid (job_start w l t r) = job_operator_huid r"
  by (simp_all add: job_start_def)

lemma job_owned_Some:
  "job_owned w k repo = Some r \<longleftrightarrow>
    job_get repo k = Some r \<and> job_worker_id r = Some w \<and> job_status r = JobRunning"
  by (auto simp: job_owned_def job_get_def split: option.splits if_splits)

datatype job_request = ByKey string | NextJob

fun job_take :: "job_request \<Rightarrow> string \<Rightarrow> timedelta \<Rightarrow> datetime \<Rightarrow> job_repo
    \<Rightarrow> migration_job_record list \<times> job_repo" where
  "job_take (ByKey k) w l t repo =
    (case job_claim k w l t repo of (None, repo') \<Rightarrow> ([], repo') | (Some r, repo') \<Rightarrow> ([r], repo'))"
| "job_take NextJob w l t repo =
    (case job_acquire_next w l t repo of (None, repo') \<Rightarrow> ([], repo') | (Some r, repo') \<Rightarrow> ([r], repo'))"

text \<open>Both requests amount to starting one claimable record of the repository, or none.\<close>

lemma job_take_cases:
  assumes "jobs_ok repo"
  obtains (none) "job_take q w l t repo = ([], repo)"
  | (some) r where "job_get repo (job_key r) = Some r" "job_claimable t r"
      "job_take q w l t repo = ([job_start w l t r], dict_set (job_key r) (job_start w l t r) repo)"
proof (cases q)
  case (ByKey k)
  show ?thesis
  proof (cases "dict_get repo k")
    case None
    with ByKey none show ?thesis by (simp add: job_claim_def)
  next
    case (Some r)
    with assms have "job_key r = k" by (rule keyed_dict_key)
    with Some ByKey none some show ?thesis
      by (cases "job_claimable t r") (auto simp: job_claim_def job_get_def Let_def)
  qed
next
  case NextJob
  let ?c = "filter (job_claimable t) (dict_values repo)"
  show ?thesis
  proof (cases "sort_key job_requested_at ?c")
    case Nil
    with NextJob none show ?thesis by (simp add: job_acquire_next_def)
  next
    case (Cons r rs)
    then have "r \<in> set ?c" by (rule hd_sort_key_mem)
    then have "job_claimable t r" "job_get repo (job_key r) = Some r"
      using keyed_dict_values [OF assms, of r] by (auto simp: job_get_def simp del: set_map)
    with Cons NextJob some show ?thesis by (simp add: job_acquire_next_def Let_def)
  qed
qed

interpretation jobs: lease_store job_get job_key jobs_ok
  "\<lambda>r. job_status r = JobRunning" job_worker_id job_lease_expires_at job_take lease_deadline
proof unfold_locales
  fix repo :: job_repo and q w l t
  assume ok: "jobs_ok repo"
  show "jobs_ok (snd (job_take q w l t repo))"
    using ok by (cases rule: job_take_cases [OF ok, of q w l t]) auto
  show "job_get (snd (job_take q w l t repo)) k = job_get repo k"
    if "k \<notin> job_key ` set (fst (job_take q w l t repo))" for k
    using that by (cases rule: job_take_cases [OF ok, of q w l t]) (auto simp: job_get_def)
  fix r
  assume r: "r \<in> set (fst (job_take q w l t repo))"
  show "job_get (snd (job_take q w l t repo)) (job_key r) = Some r \<and> job_status r = JobRunning
      \<and> job_worker_id r = Some w \<and> job_lease_expires_at r = Some (lease_deadline t l)"
    using r by (cases rule: job_take_cases [OF ok, of q w l t]) (auto simp: job_get_def)
  show "d < t" if "job_get repo (job_key r) = Some r0" "job_status r0 = JobRunning"
    "job_lease_expires_at r0 = Some d" for r0 d
    using r that
    by (cases rule: job_take_cases [OF ok, of q w l t]) (auto simp: job_claimable_def)
qed

datatype job_update = Heartbeat timedelta datetime | Complete datetime | FailJob string json datetime

fun job_owner_update :: "job_update \<Rightarrow> string \<Rightarrow> string \<Rightarrow> job_repo \<Rightarrow> bool \<times> job_repo" where
  "job_owner_update (Heartbeat l t) w k repo = job_heartbeat l t w k repo"
| "job_owner_update (Complete t) w k repo =
    (let (r, repo') = job_mark_completed t w k repo in (r \<noteq> None, repo'))"
| "job_owner_update (FailJob c p t) w k repo =
    (let (r, repo') = job_mark_failed c p t w k repo in (r \<noteq> None, repo'))"

interpretation jobs: fenced_lease_store job_get job_key jobs_ok
  "\<lambda>r. job_status r = JobRunning" job_worker_id job_lease_expires_at job_take lease_deadline job_owner_update
proof unfold_locales
  fix repo :: job_repo and k r w u
  assume "job_get repo k = Some r" and "job_worker_id r \<noteq> Some w \<or> job_status r \<noteq> JobRunning"
  then have "job_owned w k repo = None" by (auto simp: job_owned_def job_get_def)
  then show "job_owner_update u w k repo = (False, repo)"
    by (cases u) (simp_all add: lease_updates)
qed

section \<open>The job state machine\<close>

text \<open>
  The steps of the repository: enqueueing a fresh record (as the bot builds it: queued, never
  started), claims by anyone at any time, updates by anyone claiming to be the owner, and
  cancellation requests.
\<close>

definition job_fresh :: "migration_job_record \<Rightarrow> bool" where
  "job_fresh r \<longleftrightarrow> job_status r = JobQueued \<and> job_started_at r = None \<and> job_finished_at r = None
    \<and> job_heartbeat_at r = None \<and> job_lease_expires_at r = None \<and> job_worker_id r = None
    \<and> job_attempts r = 0 \<and> job_last_error_code r = None \<and> job_last_error_payload r = None"

inductive job_step :: "job_repo \<Rightarrow> job_repo \<Rightarrow> bool" where
  enqueue: "job_fresh r \<Longrightarrow> job_step repo (fst (snd (job_enqueue r events repo outbox)))"
| take: "job_step repo (snd (job_take q w l t repo))"
| update: "job_step repo (snd (job_owner_update u w k repo))"
| cancel: "job_step repo (snd (job_request_cancel t operator k repo))"

inductive jobs_reachable :: "job_repo \<Rightarrow> bool" where
  init: "jobs_reachable []"
| step: "jobs_reachable repo \<Longrightarrow> job_step repo repo' \<Longrightarrow> jobs_reachable repo'"

text \<open>What each status says of the other fields.\<close>

definition job_wf :: "migration_job_record \<Rightarrow> bool" where
  "job_wf r \<longleftrightarrow> (case job_status r of
     JobQueued \<Rightarrow> job_fresh r
   | JobRunning \<Rightarrow> job_worker_id r \<noteq> None \<and> job_lease_expires_at r \<noteq> None \<and> job_started_at r \<noteq> None
       \<and> job_heartbeat_at r \<noteq> None \<and> job_finished_at r = None \<and> job_attempts r \<ge> 1
       \<and> job_last_error_code r \<in> {None, Some cancel_requested_code}
   | JobCompleted \<Rightarrow> job_finished_at r \<noteq> None \<and> job_heartbeat_at r = job_finished_at r
       \<and> job_lease_expires_at r = None \<and> job_worker_id r \<noteq> None \<and> job_attempts r \<ge> 1
   | JobFailed \<Rightarrow> job_finished_at r \<noteq> None \<and> job_heartbeat_at r = job_finished_at r
       \<and> job_lease_expires_at r = None \<and> job_last_error_code r \<noteq> None
       \<and> (job_worker_id r = None \<longrightarrow> job_last_error_code r = Some cancelled_code))"

definition job_terminal :: "migration_job_record \<Rightarrow> bool" where
  "job_terminal r \<longleftrightarrow> job_status r = JobCompleted \<or> job_status r = JobFailed"

text \<open>
  Every step leaves a record alone or replaces one: what replaced it, per operation. The
  invariants are read off this case rule.
\<close>

lemma job_step_cases:
  assumes "job_step repo repo'" and ok: "jobs_ok repo"
  obtains (same) "repo' = repo"
  | (fresh) r where "job_fresh r" "job_get repo (job_key r) = None" "repo' = dict_set (job_key r) r repo"
  | (start) r w l t where "job_get repo (job_key r) = Some r" "job_claimable t r"
      "repo' = dict_set (job_key r) (job_start w l t r) repo"
  | (beat) r w l t where "job_get repo (job_key r) = Some r" "job_worker_id r = Some w"
      "job_status r = JobRunning"
      "repo' = dict_set (job_key r) (r\<lparr>job_heartbeat_at := Some t,
         job_lease_expires_at := Some (lease_deadline t l)\<rparr>) repo"
  | (finish) r w s c p t where "job_get repo (job_key r) = Some r" "job_worker_id r = Some w"
      "job_status r = JobRunning" "s = JobCompleted \<or> s = JobFailed \<and> c \<noteq> None"
      "repo' = dict_set (job_key r) (r\<lparr>job_status := s, job_finished_at := Some t,
         job_heartbeat_at := Some t, job_lease_expires_at := None, job_last_error_code := c,
         job_last_error_payload := p\<rparr>) repo"
  | (drop) r p t where "job_get repo (job_key r) = Some r" "job_status r = JobQueued"
      "repo' = dict_set (job_key r) (r\<lparr>job_status := JobFailed, job_finished_at := Some t,
         job_heartbeat_at := Some t, job_lease_expires_at := None,
         job_last_error_code := Some cancelled_code, job_last_error_payload := Some p\<rparr>) repo"
  | (mark) r p where "job_get repo (job_key r) = Some r" "job_status r = JobRunning"
      "repo' = dict_set (job_key r) (r\<lparr>job_last_error_code := Some cancel_requested_code,
         job_last_error_payload := Some p\<rparr>) repo"
  using assms(1)
proof cases
  case (enqueue r events outbox)
  with same fresh show ?thesis
    by (auto simp: job_enqueue_def job_get_def split: if_splits)
next
  case (take q w l t)
  then show ?thesis
    by (cases rule: job_take_cases [OF ok, of q w l t]) (auto intro: same start)
next
  case (update u w k)
  show ?thesis
  proof (cases "job_owned w k repo")
    case None
    with update same show ?thesis by (cases u) (simp_all add: lease_updates)
  next
    case (Some r)
    then have r: "job_get repo k = Some r" "job_worker_id r = Some w" "job_status r = JobRunning"
      by (simp_all add: job_owned_Some)
    with ok have k: "job_key r = k" by (auto simp: job_get_def dest: keyed_dict_key)
    note r' = r(1) [folded k] r(2,3)
    show ?thesis
    proof (cases u)
      case (Heartbeat l t)
      with update Some k beat [OF r', where t = t and l = l] show ?thesis by (simp add: lease_updates)
    next
      case (Complete t)
      with update Some k finish [OF r', where s = JobCompleted and c = "job_last_error_code r"
            and t = t and p = "job_last_error_payload r"]
      show ?thesis by (simp add: lease_updates)
    next
      case (FailJob c p t)
      with update Some k finish [OF r', where s = JobFailed and c = "Some c"
            and t = t and p = "Some p"]
      show ?thesis by (simp add: lease_updates)
    qed
  qed
next
  case (cancel t operator k)
  show ?thesis
  proof (cases "dict_get repo k")
    case None
    with cancel same show ?thesis by (simp add: job_request_cancel_def)
  next
    case (Some r)
    with ok have k: "job_key r = k" by (rule keyed_dict_key)
    with Some have r: "job_get repo (job_key r) = Some r" by (simp add: job_get_def)
    from cancel Some k same drop [OF r] mark [OF r] show ?thesis
      by (cases "job_status r") (auto simp: job_request_cancel_def Let_def split: if_splits)
  qed
qed

lemma job_step_ok: "job_step repo repo' \<Longrightarrow> jobs_ok repo \<Longrightarrow> jobs_ok repo'"
  by (erule (1) job_step_cases) auto

lemma jobs_reachable_ok: "jobs_reachable repo \<Longrightarrow> jobs_ok repo"
  by (induction rule: jobs_reachable.induct) (auto intro: job_step_ok)

lemma job_step_wf:
  assumes "job_step repo repo'" and "jobs_ok repo"
    and "\<And>k r. job_get repo k = Some r \<Longrightarrow> job_wf r" and "job_get repo' k = Some r"
  shows "job_wf r"
proof -
  note wf = assms(3) and get = assms(4)
  from assms(1,2) show ?thesis
  proof (cases rule: job_step_cases)
    case same
    with wf get show ?thesis by simp
  next
    case (fresh r')
    with wf get show ?thesis
      by (auto simp: job_get_def job_wf_def job_fresh_def split: if_splits)
  next
    case (start r' w l t)
    with wf [OF start(1)] have "job_wf (job_start w l t r')"
      by (auto simp: job_wf_def job_claimable_def job_fresh_def)
    with start wf get show ?thesis by (auto simp: job_get_def split: if_splits)
  next
    case (beat r' w l t)
    with wf [OF beat(1)] get wf show ?thesis
      by (auto simp: job_get_def job_wf_def split: if_splits)
  next
    case (finish r' w s c p t)
    with wf [OF finish(1)] get wf show ?thesis
      by (auto simp: job_get_def job_wf_def split: if_splits)
  next
    case (drop r' p t)
    with wf [OF drop(1)] get wf show ?thesis
      by (auto simp: job_get_def job_wf_def split: if_splits)
  next
    case (mark r' p)
    with wf [OF mark(1)] get wf show ?thesis
      by (auto simp: job_get_def job_wf_def split: if_splits)
  qed
qed

lemma jobs_reachable_wf: "jobs_reachable repo \<Longrightarrow> job_get repo k = Some r \<Longrightarrow> job_wf r"
proof (induction arbitrary: k r rule: jobs_reachable.induct)
  case init
  then show ?case by (simp add: job_get_def)
next
  case (step repo repo')
  then show ?case by (metis job_step_wf jobs_reachable_ok)
qed

lemma job_step_terminal:
  assumes "job_step repo repo'" and "jobs_ok repo"
    and "job_get repo k = Some r" and "job_terminal r"
  shows "job_get repo' k = Some r"
  using assms(1,2)
  by (cases rule: job_step_cases)
    (use assms(3,4) in \<open>auto simp: job_get_def job_terminal_def job_claimable_def\<close>)

lemma job_steps_ok: "job_step\<^sup>*\<^sup>* repo repo' \<Longrightarrow> jobs_ok repo \<Longrightarrow> jobs_ok repo'"
  by (induction rule: rtranclp_induct) (auto intro: job_step_ok)

lemma job_steps_terminal:
  assumes "job_step\<^sup>*\<^sup>* repo repo'" and "jobs_ok repo"
    and "job_get repo k = Some r" and "job_terminal r"
  shows "job_get repo' k = Some r"
  using assms
  by (induction rule: rtranclp_induct) (auto intro: job_step_terminal job_steps_ok)

section \<open>Cancellation\<close>

text \<open>
  A running job whose cancellation was requested is out of reach of every claim, even after its
  lease has run out: until its owner reports back it stays as it is.
\<close>

definition job_cancelling :: "migration_job_record \<Rightarrow> bool" where
  "job_cancelling r \<longleftrightarrow> job_status r = JobRunning \<and> job_last_error_code r = Some cancel_requested_code"

lemma job_take_cancelling:
  assumes "jobs_ok repo" and "job_get repo k = Some r" and "job_cancelling r"
  shows "job_get (snd (job_take q w l t repo)) k = Some r"
  using assms
  by (cases rule: job_take_cases [OF assms(1), of q w l t])
    (auto simp: job_get_def job_cancelling_def job_claimable_def)

lemma job_request_cancel_running:
  assumes "job_get repo k = Some r" and "job_status r = JobRunning" and "job_operator_huid r = op"
  shows "\<exists>r'. job_request_cancel t op k repo = (Some r', dict_set k r' repo) \<and> job_cancelling r'
    \<and> job_worker_id r' = job_worker_id r"
  using assms by (simp add: job_request_cancel_def job_get_def Let_def job_cancelling_def)

section \<open>Order of acquisition\<close>

lemma job_acquire_next_oldest:
  assumes "jobs_ok repo" and "job_acquire_next w l t repo = (Some r, repo')"
    and "job_get repo k = Some r'" and "job_claimable t r'"
  shows "job_requested_at r \<le> job_requested_at r'"
proof -
  let ?c = "filter (job_claimable t) (dict_values repo)"
  from assms(2) obtain r0 rs where s: "sort_key job_requested_at ?c = r0 # rs"
    and r: "r = job_start w l t r0"
    by (auto simp: job_acquire_next_def Let_def split: list.splits)
  have "r' \<in> set ?c"
    using assms(3,4) by (force simp: job_get_def dest: map_of_SomeD)
  with s have "job_requested_at r0 \<le> job_requested_at r'" by (rule hd_sort_key_le)
  then show ?thesis by (simp add: r job_start_def)
qed

lemma job_acquire_next_None:
  assumes "jobs_ok repo"
  shows "fst (job_acquire_next w l t repo) = None \<longleftrightarrow>
    (\<forall>k r. job_get repo k = Some r \<longrightarrow> \<not> job_claimable t r)"
proof -
  let ?c = "filter (job_claimable t) (dict_values repo)"
  have "fst (job_acquire_next w l t repo) = None \<longleftrightarrow> ?c = []"
    by (auto simp: job_acquire_next_def Let_def simp del: sort_key_Nil_iff split: list.splits)
      (metis sort_key_Nil_iff)+
  also have "\<dots> \<longleftrightarrow> (\<forall>r \<in> set (dict_values repo). \<not> job_claimable t r)"
    by (simp only: filter_empty_conv)
  also have "\<dots> \<longleftrightarrow> (\<forall>k r. job_get repo k = Some r \<longrightarrow> \<not> job_claimable t r)"
    using keyed_dict_values [OF assms] keyed_dict_key [OF assms]
    unfolding job_get_def by blast
  finally show ?thesis .
qed

end
