(* ===== verification/Job_Worker.thy ===== *)
theory Job_Worker
  imports Job_Repo Record_Stores
begin

text \<open>
  \<open>MigrationJobWorker\<close> (\<open>application/migration_job_worker.py\<close>) and \<open>MigrationCommandHandler\<close>
  (\<open>migration_command_handler.py\<close>). A job runs as two concurrent tasks: the bot control service,
  which is a parameter given by its outcome, and a heartbeat loop. Between them anything may
  happen to the job repository, so an execution is given by the sequence of events it meets:
  heartbeat ticks, claims and updates by other workers, cancellation requests.
\<close>

section \<open>Configuration\<close>

record worker_config =
  wk_enabled :: bool
  wk_concurrency :: int
  wk_poll_interval :: timedelta
  wk_lease_duration :: timedelta
  wk_heartbeat_interval :: timedelta

text \<open>The constructor's clamps; durations are in microseconds here.\<close>

definition make_worker_config :: "bool \<Rightarrow> int \<Rightarrow> timedelta \<Rightarrow> timedelta \<Rightarrow> timedelta \<Rightarrow> worker_config" where
  "make_worker_config enabled concurrency poll lease heartbeat = \<lparr>wk_enabled = enabled,
     wk_concurrency = max 1 concurrency, wk_poll_interval = max 100000 poll,
     wk_lease_duration = max (5 * one_second) lease,
     wk_heartbeat_interval = max one_second heartbeat\<rparr>"

section \<open>Acquiring jobs\<close>

text \<open>
  The inner loop of \<open>_run\<close>: while there is a free slot, acquire the next job; stop at the first
  answer without one. \<open>ts\<close> are the clock readings of the acquisitions; the stop event ends the
  list early.
\<close>

fun acquire_burst ::
    "nat \<Rightarrow> string \<Rightarrow> timedelta \<Rightarrow> datetime list \<Rightarrow> job_repo \<Rightarrow> migration_job_record list \<times> job_repo" where
  "acquire_burst 0 w lease ts repo = ([], repo)"
| "acquire_burst (Suc slots) w lease [] repo = ([], repo)"
| "acquire_burst (Suc slots) w lease (t # ts) repo =
    (case job_acquire_next w lease t repo of
       (None, repo') \<Rightarrow> ([], repo')
     | (Some j, repo') \<Rightarrow>
         let (js, repo'') = acquire_burst slots w lease ts repo' in (j # js, repo''))"

lemma acquire_burst_length: "length (fst (acquire_burst slots w lease ts repo)) \<le> slots"
  by (induction slots w lease ts repo rule: acquire_burst.induct)
    (auto split: option.split prod.split)

lemma acquire_next_take:
  "job_acquire_next w l t repo = (x, repo') \<Longrightarrow>
    job_take NextJob w l t repo = ((case x of None \<Rightarrow> [] | Some j \<Rightarrow> [j]), repo')"
  by (simp split: option.split)

text \<open>
  Readings that stay within the lease of the first acquisition never give the same job twice,
  and every job acquired is still this worker's when the burst is over.
\<close>

lemma acquire_burst_owned:
  assumes "jobs_ok repo" and "\<forall>t \<in> set ts. \<forall>t' \<in> set ts. t \<le> lease_deadline t' lease"
    and "acquire_burst slots w lease ts repo = (js, repo')"
  shows "jobs_ok repo' \<and> distinct (map job_key js)
    \<and> (\<forall>j \<in> set js. job_get repo' (job_key j) = Some j \<and> job_status j = JobRunning \<and> job_worker_id j = Some w)
    \<and> (\<forall>k r d. job_get repo k = Some r \<longrightarrow> job_status r = JobRunning \<longrightarrow> job_lease_expires_at r = Some d \<longrightarrow>
         (\<forall>t \<in> set ts. t \<le> d) \<longrightarrow> job_get repo' k = Some r \<and> k \<notin> job_key ` set js)"
  using assms
proof (induction slots w lease ts repo arbitrary: js repo' rule: acquire_burst.induct)
  case (3 slots w lease t ts repo)
  obtain x repo1 where a: "job_acquire_next w lease t repo = (x, repo1)" by fastforce
  note take = acquire_next_take [OF a]
  have ok1: "jobs_ok repo1"
    using jobs.inv_take [OF "3.prems"(1), of NextJob w lease t] take by simp
  show ?case
  proof (cases x)
    case None
    with "3.prems" a have "repo' = repo1" "js = []" by auto
    moreover have "job_get repo1 = job_get repo"
      using jobs.take_other [OF "3.prems"(1), of _ NextJob w lease t] take None by fastforce
    ultimately show ?thesis using ok1 by simp
  next
    case (Some j)
    obtain js' where js: "acquire_burst slots w lease ts repo1 = (js', repo')" "js = j # js'"
      using "3.prems"(3) a Some by (auto split: prod.splits)
    have j: "job_get repo1 (job_key j) = Some j" "job_status j = JobRunning" "job_worker_id j = Some w"
      "job_lease_expires_at j = Some (lease_deadline t lease)"
      using jobs.take_taken [OF "3.prems"(1), of j NextJob w lease t] take Some by simp_all
    have IH: "jobs_ok repo' \<and> distinct (map job_key js')
      \<and> (\<forall>i \<in> set js'. job_get repo' (job_key i) = Some i \<and> job_status i = JobRunning \<and> job_worker_id i = Some w)
      \<and> (\<forall>k r d. job_get repo1 k = Some r \<longrightarrow> job_status r = JobRunning \<longrightarrow> job_lease_expires_at r = Some d \<longrightarrow>
           (\<forall>t \<in> set ts. t \<le> d) \<longrightarrow> job_get repo' k = Some r \<and> k \<notin> job_key ` set js')"
      using "3.IH" [OF a [symmetric] Some ok1 _ js(1)] "3.prems"(2) by simp
    then have jk: "job_get repo' (job_key j) = Some j \<and> job_key j \<notin> job_key ` set js'"
      using j "3.prems"(2) by auto
    have keep: "job_get repo' k = Some r \<and> k \<notin> job_key ` set js"
      if "job_get repo k = Some r" "job_status r = JobRunning" "job_lease_expires_at r = Some d"
        "\<forall>s \<in> set (t # ts). s \<le> d" for k r d
    proof -
      have "k \<notin> job_key ` set (fst (job_take NextJob w lease t repo))"
        and "job_get (snd (job_take NextJob w lease t repo)) k = Some r"
        using jobs.held_not_taken [OF "3.prems"(1) that(1,2,3), of t NextJob w lease] that(4) by auto
      with take Some have "k \<noteq> job_key j" "job_get repo1 k = Some r" by simp_all
      with IH that(2-4) js(2) show ?thesis by auto
    qed
    show ?thesis using IH jk j(2,3) js(2) keep by auto
  qed
qed simp_all

section \<open>The heartbeat loop\<close>

record exec_state =
  es_cancel_requested :: bool
  es_heartbeat_alive :: bool

text \<open>One iteration after its sleep.\<close>

definition heartbeat_tick ::
    "timedelta \<Rightarrow> datetime \<Rightarrow> string \<Rightarrow> string \<Rightarrow> exec_state \<times> job_repo \<Rightarrow> exec_state \<times> job_repo" where
  "heartbeat_tick lease now owner k s =
    (let (st, repo) = s in
     if \<not> es_heartbeat_alive st then s
     else case job_get repo k of
       None \<Rightarrow> (st\<lparr>es_heartbeat_alive := False\<rparr>, repo)
     | Some current \<Rightarrow>
         if job_last_error_code current = Some cancel_requested_code
         then (st\<lparr>es_cancel_requested := True, es_heartbeat_alive := False\<rparr>, repo)
         else case job_heartbeat lease now owner k repo of
           (updated, repo') \<Rightarrow> (if updated then st else st\<lparr>es_heartbeat_alive := False\<rparr>, repo'))"

datatype exec_event = Tick datetime | OtherTake job_request string timedelta datetime
  | OtherUpdate job_update string string | CancelRequest datetime string string

fun exec_event_step ::
    "timedelta \<Rightarrow> string \<Rightarrow> string \<Rightarrow> exec_event \<Rightarrow> exec_state \<times> job_repo \<Rightarrow> exec_state \<times> job_repo" where
  "exec_event_step lease owner k (Tick now) s = heartbeat_tick lease now owner k s"
| "exec_event_step lease owner k (OtherTake q w l t) (st, repo) = (st, snd (job_take q w l t repo))"
| "exec_event_step lease owner k (OtherUpdate u w k') (st, repo) = (st, snd (job_owner_update u w k' repo))"
| "exec_event_step lease owner k (CancelRequest t operator k') (st, repo) =
    (st, snd (job_request_cancel t operator k' repo))"

section \<open>Executing a claimed job\<close>

text \<open>
  How the service call ends: it returns, it is cancelled (by the heartbeat loop or because the
  worker stops), or it raises, with the exception's class name and text.
\<close>

datatype service_outcome = ServiceReturned | ServiceCancelled | ServiceRaised string string

definition job_event ::
    "migration_job_record \<Rightarrow> string \<Rightarrow> audit_severity \<Rightarrow> (string \<times> json) list \<Rightarrow> datetime \<Rightarrow> audit_event" where
  "job_event job event_type severity extra now = \<lparr>ae_migration_id = job_migration_id job,
     ae_event_type = event_type, ae_severity = severity, ae_created_at = now,
     ae_source_chat_id = None, ae_source_message_id = None,
     ae_payload_json = [(''job_key'', JStr (job_key job)), (''operation'', JStr (job_operation job)),
       (''source_chat_ids'', JList (map JStr (job_source_chat_ids job)))] @ extra\<rparr>"

definition finish_claimed_job ::
    "migration_job_record \<Rightarrow> string \<Rightarrow> service_outcome \<Rightarrow> bool \<Rightarrow> datetime \<Rightarrow> datetime
      \<Rightarrow> job_repo \<times> audit_log \<Rightarrow> bool \<times> job_repo \<times> audit_log" where
  "finish_claimed_job job owner outc cancel_requested now stamp s =
    (let (repo, evs) = s in
     case outc of
       ServiceCancelled \<Rightarrow>
         if cancel_requested then
           let (_, repo') = job_mark_failed cancelled_code
                 (JObj [(''requested_by'', JStr (job_operator_huid job))]) now owner (job_key job) repo
           in (False, repo', audit_add (job_event job ''bot_migration_job_cancelled'' SevWarning
                 [(''requested_by'', JStr (job_operator_huid job))] stamp) evs)
         else (True, repo, evs)
     | ServiceRaised name text \<Rightarrow>
         let (_, repo') = job_mark_failed name (JObj [(''error'', JStr text)]) now owner (job_key job) repo
         in (False, repo', audit_add (job_event job ''bot_migration_job_failed'' SevError
               [(''error'', JStr text)] stamp) evs)
     | ServiceReturned \<Rightarrow>
         let (_, repo') = job_mark_completed now owner (job_key job) repo
         in (False, repo', audit_add (job_event job ''bot_migration_job_completed'' SevInfo [] stamp) evs))"

text \<open>\<open>job.worker_id or self._worker_id\<close>\<close>

definition lease_owner :: "string \<Rightarrow> migration_job_record \<Rightarrow> string" where
  "lease_owner self job = (case py_or (job_worker_id job) (Some self) of Some w \<Rightarrow> w | None \<Rightarrow> self)"

text \<open>The result is whether the cancellation is raised again, to the task's owner.\<close>

definition execute_claimed_job ::
    "worker_config \<Rightarrow> string \<Rightarrow> migration_job_record \<Rightarrow> exec_event list \<Rightarrow> service_outcome
      \<Rightarrow> datetime \<Rightarrow> datetime \<Rightarrow> job_repo \<times> audit_log \<Rightarrow> bool \<times> job_repo \<times> audit_log" where
  "execute_claimed_job cfg self job events outc now stamp s =
    (let owner = lease_owner self job;
         (st, repo) = fold (exec_event_step (wk_lease_duration cfg) owner (job_key job)) events
           (\<lparr>es_cancel_requested = False, es_heartbeat_alive = True\<rparr>, fst s)
     in finish_claimed_job job owner outc (es_cancel_requested st) now stamp (repo, snd s))"

section \<open>Properties of an execution\<close>

lemma exec_event_ok:
  assumes "jobs_ok (snd s)"
  shows "jobs_ok (snd (exec_event_step lease owner k e s))"
proof (cases e)
  case (Tick now)
  obtain st repo where s: "s = (st, repo)" by fastforce
  have "jobs_ok (snd (job_heartbeat lease now owner k repo))"
    using job_step_ok [OF job_step.update [of repo "Heartbeat lease now" owner k]] assms s by simp
  with Tick s assms show ?thesis
    by (auto simp: heartbeat_tick_def Let_def split: option.split prod.split)
next
  case (OtherTake q w l t)
  with assms show ?thesis using job_step_ok [OF job_step.take] by (cases s) simp
next
  case (OtherUpdate u w k')
  with assms show ?thesis using job_step_ok [OF job_step.update] by (cases s) simp
next
  case (CancelRequest t operator k')
  with assms show ?thesis using job_step_ok [OF job_step.cancel] by (cases s) simp
qed

lemma exec_events_ok:
  "jobs_ok (snd s) \<Longrightarrow> jobs_ok (snd (fold (exec_event_step lease owner k) es s))"
  by (induction es arbitrary: s) (simp_all del: exec_event_step.simps add: exec_event_ok)

text \<open>A tick is a repository step, so executions stay within the reachable repositories.\<close>

lemma exec_event_reachable:
  assumes "jobs_reachable (snd s)"
  shows "jobs_reachable (snd (exec_event_step lease owner k e s))"
proof (cases e)
  case (Tick now)
  obtain st repo where s: "s = (st, repo)" by fastforce
  have "jobs_reachable (snd (job_heartbeat lease now owner k repo))"
    using jobs_reachable.step [OF _ job_step.update [of repo "Heartbeat lease now" owner k]] assms s
    by simp
  with Tick s assms show ?thesis
    by (auto simp: heartbeat_tick_def Let_def split: option.split prod.split)
next
  case (OtherTake q w l t)
  with assms show ?thesis using jobs_reachable.step [OF _ job_step.take] by (cases s) simp
next
  case (OtherUpdate u w k')
  with assms show ?thesis using jobs_reachable.step [OF _ job_step.update] by (cases s) simp
next
  case (CancelRequest t operator k')
  with assms show ?thesis using jobs_reachable.step [OF _ job_step.cancel] by (cases s) simp
qed

lemma exec_events_reachable:
  "jobs_reachable (snd s) \<Longrightarrow> jobs_reachable (snd (fold (exec_event_step lease owner k) es s))"
  by (induction es arbitrary: s) (simp_all del: exec_event_step.simps add: exec_event_reachable)

lemma finish_reachable:
  assumes "jobs_reachable (fst s)"
  shows "jobs_reachable (fst (snd (finish_claimed_job job owner outc c now stamp s)))"
proof -
  obtain repo evs where s: "s = (repo, evs)" by fastforce
  have u: "jobs_reachable (snd (job_owner_update u owner (job_key job) repo))" for u
    using jobs_reachable.step [OF _ job_step.update] assms s by simp
  have "jobs_reachable (snd (job_mark_completed now owner (job_key job) repo))"
    using u [of "Complete now"] by (simp add: case_prod_beta' Let_def)
  moreover have "jobs_reachable (snd (job_mark_failed c' p now owner (job_key job) repo))" for c' p
    using u [of "FailJob c' p now"] by (simp add: case_prod_beta' Let_def)
  ultimately show ?thesis
    using assms s by (simp add: finish_claimed_job_def Let_def case_prod_beta' split: service_outcome.split)
qed

text \<open>
  A cancellation is only acted on when the repository holds the request: the flag is set by a
  tick that read it.
\<close>

lemma tick_cancel:
  assumes "\<not> es_cancel_requested st" and "es_cancel_requested (fst (heartbeat_tick lease now owner k (st, repo)))"
  shows "\<exists>r. job_get repo k = Some r \<and> job_last_error_code r = Some cancel_requested_code"
  using assms by (auto simp: heartbeat_tick_def Let_def split: option.splits prod.splits if_splits)

lemma tick_beat:
  assumes "es_heartbeat_alive st" and "job_get repo k = Some r" and "job_worker_id r = Some owner"
    and "job_status r = JobRunning" and "job_last_error_code r \<noteq> Some cancel_requested_code"
  shows "heartbeat_tick lease now owner k (st, repo) =
    (st, dict_set k (r\<lparr>job_heartbeat_at := Some now,
       job_lease_expires_at := Some (lease_deadline now lease)\<rparr>) repo)"
proof -
  have "job_owned owner k repo = Some r" using assms by (simp add: job_owned_Some)
  with assms show ?thesis by (simp add: heartbeat_tick_def job_heartbeat_def)
qed

text \<open>What the end of an execution writes, when its worker still owns the job and when not.\<close>

lemma finish_owned:
  assumes "job_get repo (job_key job) = Some r" and "job_worker_id r = Some owner"
    and "job_status r = JobRunning"
    and "finish_claimed_job job owner outc c now stamp (repo, evs) = (raised, repo', evs')"
  shows "raised \<longleftrightarrow> outc = ServiceCancelled \<and> \<not> c"
    and "raised \<Longrightarrow> repo' = repo \<and> evs' = evs"
    and "\<not> raised \<Longrightarrow> \<exists>r'. job_get repo' (job_key job) = Some r' \<and> job_finished_at r' = Some now
      \<and> job_status r' = (if outc = ServiceReturned then JobCompleted else JobFailed)
      \<and> (outc = ServiceCancelled \<longrightarrow> job_last_error_code r' = Some cancelled_code)"
proof -
  have own: "job_owned owner (job_key job) repo = Some r" using assms(1-3) by (simp add: job_owned_Some)
  note defs = finish_claimed_job_def job_mark_completed_def job_mark_failed_def Let_def job_get_def
  show "raised \<longleftrightarrow> outc = ServiceCancelled \<and> \<not> c" "raised \<Longrightarrow> repo' = repo \<and> evs' = evs"
    using assms(4) own by (auto simp: defs split: service_outcome.splits if_splits)
  show "\<exists>r'. job_get repo' (job_key job) = Some r' \<and> job_finished_at r' = Some now
      \<and> job_status r' = (if outc = ServiceReturned then JobCompleted else JobFailed)
      \<and> (outc = ServiceCancelled \<longrightarrow> job_last_error_code r' = Some cancelled_code)" if "\<not> raised"
    using assms(4) own that by (auto simp: defs split: service_outcome.splits if_splits)
qed

lemma finish_fenced:
  assumes "job_owned owner (job_key job) repo = None"
  shows "fst (snd (finish_claimed_job job owner outc c now stamp (repo, evs))) = repo"
  using assms
  by (simp add: finish_claimed_job_def job_mark_completed_def job_mark_failed_def Let_def
      split: service_outcome.split)

section \<open>The command handler\<close>

record integration_envelope =
  en_message_id :: string
  en_message_type :: string
  en_schema_version :: int
  en_occurred_at :: datetime
  en_aggregate_type :: string
  en_aggregate_id :: string
  en_payload_json :: "(string \<times> json) list"
  en_headers_json :: "(string \<times> json) list"
  en_migration_id :: "string option"
  en_logical_chat_key :: "string option"

record handler_state =
  hs_inbox :: inbox_repo
  hs_jobs :: job_repo
  hs_audit :: audit_log

record handler_config =
  hc_consumer_name :: string
  hc_worker_id :: string
  hc_lease_duration :: timedelta

text \<open>
  What happens around one handled message: the clock reading of the claim, the events and the
  outcome of the execution, the readings at its end, and the time written to the inbox.
\<close>

record handler_schedule =
  sch_claimed :: datetime
  sch_events :: "exec_event list"
  sch_outcome :: service_outcome
  sch_finished :: datetime
  sch_stamp :: datetime
  sch_processed :: datetime

definition mark_processed ::
    "handler_config \<Rightarrow> string \<Rightarrow> string \<Rightarrow> (string \<times> json) list \<Rightarrow> datetime \<Rightarrow> handler_state \<Rightarrow> handler_state" where
  "mark_processed cfg message_id code payload now s = s\<lparr>hs_inbox := snd (inbox_mark_processed
     \<lparr>ib_consumer_name = hc_consumer_name cfg, ib_message_id = message_id, ib_processed_at = now,
      ib_result_code = code, ib_result_payload = payload\<rparr> (hs_inbox s))\<rparr>"

definition payload_job_key :: "integration_envelope \<Rightarrow> string option" where
  "payload_job_key e = (case map_of (en_payload_json e) ''job_key'' of
     Some (JStr s) \<Rightarrow> if s = [] then None else Some s | _ \<Rightarrow> None)"

text \<open>The result is the code, or \<open>None\<close> when the execution raised its cancellation again.\<close>

definition handle ::
    "handler_config \<Rightarrow> worker_config \<Rightarrow> string \<Rightarrow> handler_schedule \<Rightarrow> integration_envelope
      \<Rightarrow> handler_state \<Rightarrow> string option \<times> handler_state" where
  "handle cfg wcfg worker sch envelope s =
    (let mid = en_message_id envelope; now = sch_processed sch in
     if inbox_is_processed (hc_consumer_name cfg, mid) (hs_inbox s) then (Some ''duplicate'', s)
     else if en_message_type envelope \<noteq> ''migration.job.requested'' then
       (Some ''ignored_message_type'', mark_processed cfg mid ''ignored_message_type''
          [(''message_type'', JStr (en_message_type envelope))] now s)
     else case payload_job_key envelope of
       None \<Rightarrow> (Some ''invalid_payload'', mark_processed cfg mid ''invalid_payload''
          [(''reason'', JStr ''job_key is required'')] now s)
     | Some k \<Rightarrow>
         (case job_claim k (hc_worker_id cfg) (hc_lease_duration cfg) (sch_claimed sch) (hs_jobs s) of
            (None, jobs) \<Rightarrow> (Some ''not_claimed'', mark_processed cfg mid ''not_claimed''
               [(''job_key'', JStr k)] now (s\<lparr>hs_jobs := jobs\<rparr>))
          | (Some job, jobs) \<Rightarrow>
              let (raised, jobs', audit') = execute_claimed_job wcfg worker job (sch_events sch)
                    (sch_outcome sch) (sch_finished sch) (sch_stamp sch) (jobs, hs_audit s);
                  s' = s\<lparr>hs_jobs := jobs', hs_audit := audit'\<rparr>
              in if raised then (None, s')
                 else
                   let current = job_get jobs' (job_key job);
                       code = (case current of
                           None \<Rightarrow> ''processed''
                         | Some r \<Rightarrow> if job_status r = JobFailed then ''job_failed''
                                   else if job_status r = JobCompleted then ''job_completed''
                                   else ''processed'')
                   in (Some code, mark_processed cfg mid code
                        [(''job_key'', JStr (job_key job)), (''status'', case current of
                            None \<Rightarrow> JNull | Some r \<Rightarrow> JStr (job_status_value (job_status r)))] now s')))"

lemma mark_processed_simps [simp]:
  "hs_jobs (mark_processed cfg m c p t s) = hs_jobs s"
  "hs_audit (mark_processed cfg m c p t s) = hs_audit s"
  "inbox_is_processed k (hs_inbox (mark_processed cfg m c p t s)) \<longleftrightarrow>
    k = (hc_consumer_name cfg, m) \<or> inbox_is_processed k (hs_inbox s)"
  by (simp_all add: mark_processed_def inbox.put_has) (simp add: inbox_key_def)

text \<open>A message is processed exactly when the handler answered with a code.\<close>

lemma handle_processed:
  assumes "handle cfg wcfg worker sch e s = (code, s')"
  shows "code \<noteq> None \<Longrightarrow> inbox_is_processed (hc_consumer_name cfg, en_message_id e) (hs_inbox s')"
    and "code = None \<Longrightarrow> hs_inbox s' = hs_inbox s"
  using assms
  by (auto simp: handle_def Let_def split: if_splits option.splits prod.splits)

lemma handle_duplicate:
  assumes "inbox_is_processed (hc_consumer_name cfg, en_message_id e) (hs_inbox s)"
  shows "handle cfg wcfg worker sch e s = (Some ''duplicate'', s)"
  using assms by (simp add: handle_def Let_def)

lemma handle_reachable:
  assumes "jobs_reachable (hs_jobs s)"
  shows "jobs_reachable (hs_jobs (snd (handle cfg wcfg worker sch e s)))"
proof -
  have claim: "jobs_reachable (snd (job_claim k w l t (hs_jobs s)))" for k w l t
    using jobs_reachable.step [OF assms job_step.take, of "ByKey k" w l t]
    by (simp split: prod.splits option.splits)
  have exec: "jobs_reachable (fst (snd (execute_claimed_job wcfg worker job events outc now stamp (jobs, audit))))"
    if "jobs_reachable jobs" for job events outc now stamp jobs audit
    using finish_reachable exec_events_reachable that
    by (simp add: execute_claimed_job_def Let_def split: prod.split) (metis snd_conv fst_conv)
  show ?thesis
  proof (cases "payload_job_key e")
    case None
    with assms show ?thesis by (simp add: handle_def Let_def)
  next
    case (Some k)
    obtain x jobs where c: "job_claim k (hc_worker_id cfg) (hc_lease_duration cfg) (sch_claimed sch) (hs_jobs s)
        = (x, jobs)" by fastforce
    with claim have r: "jobs_reachable jobs" by (metis snd_conv)
    show ?thesis
    proof (cases x)
      case None
      with r c assms Some show ?thesis by (simp add: handle_def Let_def)
    next
      case (Some job)
      obtain raised jobs' audit' where ex: "execute_claimed_job wcfg worker job (sch_events sch)
          (sch_outcome sch) (sch_finished sch) (sch_stamp sch) (jobs, hs_audit s) = (raised, jobs', audit')"
        by (metis surj_pair)
      with exec [OF r] have "jobs_reachable jobs'" by (metis fst_conv snd_conv)
      with c assms Some \<open>payload_job_key e = Some k\<close> ex show ?thesis
        by (simp add: handle_def Let_def)
    qed
  qed
qed

end
