(* ===== verification/Outbox_Publisher.thy ===== *)
theory Outbox_Publisher
  imports Outbox_Repo Job_Repo Record_Stores Rendering
begin

text \<open>
  \<open>IntegrationOutboxPublisher\<close> (\<open>application/integration_outbox_publisher.py\<close>), which drains the
  outbox to a broker, and the snapshot of \<open>WorkerRuntimeMetricsReporter\<close>
  (\<open>worker_runtime_metrics.py\<close>). The broker is a parameter with its own state: publishing an
  event returns its position or raises, given by the exception's class name and text.
\<close>

section \<open>Publishing\<close>

type_synonym 'p broker =
  "outbox_event_record \<Rightarrow> 'p \<Rightarrow> (string \<times> string, published_event) outcome \<times> 'p"

record 'p publisher_state =
  ps_outbox :: outbox_repo
  ps_watermarks :: "watermark_repo option"
  ps_broker :: 'p

definition update_watermark ::
    "string \<Rightarrow> published_event \<Rightarrow> watermark_repo option \<Rightarrow> watermark_repo option" where
  "update_watermark publisher_name result repo =
    (case (repo, pe_broker_partition result, pe_broker_offset result) of
       (Some w, Some part, Some pos) \<Rightarrow> Some (watermark_upsert
         \<lparr>wm_consumer_name = publisher_name,
          wm_logical_stream_key = pe_broker_topic result @ '':'' @ str_of_int part,
          wm_watermark_value = str_of_int pos, wm_updated_at = pe_published_at result\<rparr> w)
     | _ \<Rightarrow> repo)"

definition publish_one ::
    "'p broker \<Rightarrow> string \<Rightarrow> string \<Rightarrow> outbox_event_record \<Rightarrow> 'p publisher_state \<Rightarrow> 'p publisher_state" where
  "publish_one broker publisher_name publisher e s =
    (case broker e (ps_broker s) of
       (Inl (name, text), p) \<Rightarrow> s\<lparr>ps_outbox := snd (outbox_mark_failed name
           (JObj [(''error'', JStr text)]) publisher (ob_event_id e) (ps_outbox s)), ps_broker := p\<rparr>
     | (Inr result, p) \<Rightarrow> s\<lparr>ps_outbox := snd (outbox_mark_published result publisher
           (ob_event_id e) (ps_outbox s)),
         ps_watermarks := update_watermark publisher_name result (ps_watermarks s), ps_broker := p\<rparr>)"

text \<open>
  One round of \<open>_run\<close>: lease a batch and publish its events in order; the stop event is seen
  between two events, after \<open>done\<close> of them.
\<close>

definition publisher_round ::
    "'p broker \<Rightarrow> string \<Rightarrow> string \<Rightarrow> int \<Rightarrow> timedelta \<Rightarrow> datetime \<Rightarrow> nat \<Rightarrow> 'p publisher_state
      \<Rightarrow> outbox_event_record list \<times> 'p publisher_state" where
  "publisher_round broker publisher_name publisher batch_size lease now stopped s =
    (let (events, repo) = outbox_lease_batch (nat (max 1 batch_size)) publisher
           (max (5 * one_second) lease) now (ps_outbox s)
     in (events, fold (publish_one broker publisher_name publisher) (take stopped events)
          (s\<lparr>ps_outbox := repo\<rparr>)))"

section \<open>What a round does to its events\<close>

lemma publish_one_outbox:
  "ps_outbox (publish_one b n w e s) =
    (case fst (b e (ps_broker s)) of
       Inl (name, text) \<Rightarrow> snd (outbox_mark_failed name (JObj [(''error'', JStr text)]) w (ob_event_id e) (ps_outbox s))
     | Inr result \<Rightarrow> snd (outbox_mark_published result w (ob_event_id e) (ps_outbox s)))"
  by (simp add: publish_one_def split: prod.split sum.split)

lemma publish_one_other:
  "k \<noteq> ob_event_id e \<Longrightarrow> outbox_get (ps_outbox (publish_one b n w e s)) k = outbox_get (ps_outbox s) k"
  by (simp add: publish_one_outbox lease_updates split: sum.split option.split prod.split)

lemma publish_one_held:
  assumes "outbox_get (ps_outbox s) (ob_event_id e) = Some e" and "ob_status e = OutLeased"
    and "ob_leased_by e = Some w"
  shows "\<exists>e'. outbox_get (ps_outbox (publish_one b n w e s)) (ob_event_id e) = Some e'
    \<and> outbox_terminal e' \<and> ob_leased_by e' = None
    \<and> (ob_status e' = OutPublished \<longleftrightarrow> (\<exists>result. fst (b e (ps_broker s)) = Inr result
          \<and> ob_broker_topic e' = Some (pe_broker_topic result)
          \<and> ob_broker_offset e' = pe_broker_offset result))"
  using assms
  by (auto simp: publish_one_outbox lease_updates outbox_terminal_def split: sum.split prod.split)

lemma publish_fold_other:
  "k \<notin> ob_event_id ` set es \<Longrightarrow>
    outbox_get (ps_outbox (fold (publish_one b n w) es s)) k = outbox_get (ps_outbox s) k"
  by (induction es arbitrary: s) (simp_all add: publish_one_other)

lemma publish_fold_terminal:
  assumes "distinct (map ob_event_id es)"
    and "\<forall>e \<in> set es. outbox_get (ps_outbox s) (ob_event_id e) = Some e \<and> ob_status e = OutLeased
      \<and> ob_leased_by e = Some w"
    and "e \<in> set es"
  shows "\<exists>e'. outbox_get (ps_outbox (fold (publish_one b n w) es s)) (ob_event_id e) = Some e'
    \<and> outbox_terminal e'"
  using assms
proof (induction es arbitrary: s)
  case Nil
  then show ?case by simp
next
  case (Cons x es)
  let ?s = "publish_one b n w x s"
  have x: "ob_event_id x \<notin> ob_event_id ` set es" "distinct (map ob_event_id es)"
    using Cons.prems(1) by auto
  show ?case
  proof (cases "e = x")
    case True
    with Cons.prems(2) obtain e' where
      "outbox_get (ps_outbox ?s) (ob_event_id x) = Some e'" "outbox_terminal e'"
      using publish_one_held [of s x w b n] by auto
    with publish_fold_other [OF x(1), of b n w ?s] True show ?thesis by simp
  next
    case False
    have "outbox_get (ps_outbox ?s) (ob_event_id e') = outbox_get (ps_outbox s) (ob_event_id e')"
      if "e' \<in> set es" for e'
      using x(1) that by (metis image_eqI publish_one_other)
    with Cons.prems(2) have "\<forall>e' \<in> set es. outbox_get (ps_outbox ?s) (ob_event_id e') = Some e'
        \<and> ob_status e' = OutLeased \<and> ob_leased_by e' = Some w" by simp
    from Cons.IH [OF x(2) this] False Cons.prems(3) show ?thesis by simp
  qed
qed

text \<open>
  A round that is not stopped ends every event it leased, and changes no other; a stopped round
  leaves the rest of its batch leased.
\<close>

lemma publisher_round_events:
  assumes ok: "outbox_ok (ps_outbox s)"
    and run: "publisher_round b n w bsize lease now stopped s = (events, s')"
  shows "\<forall>e \<in> set (take stopped events). \<exists>e'. outbox_get (ps_outbox s') (ob_event_id e) = Some e' \<and> outbox_terminal e'"
    and "\<forall>e \<in> set (drop stopped events). outbox_get (ps_outbox s') (ob_event_id e) = Some e \<and> ob_status e = OutLeased"
    and "\<forall>k. k \<notin> ob_event_id ` set events \<longrightarrow> outbox_get (ps_outbox s') k = outbox_get (ps_outbox s) k"
    and "length events \<le> nat (max 1 bsize)"
proof -
  let ?l = "max (5 * one_second) lease" and ?n = "nat (max 1 bsize)"
  let ?batch = "outbox_lease_batch ?n w ?l now (ps_outbox s)"
  have ev: "events = fst ?batch" and s': "s' = fold (publish_one b n w) (take stopped events)
      (s\<lparr>ps_outbox := snd ?batch\<rparr>)"
    using run by (auto simp: publisher_round_def Let_def split: prod.splits)
  have dist: "distinct (map ob_event_id events)"
    using outbox_batch_distinct [OF ok] by (simp add: ev)
  have leased: "\<forall>e \<in> set events. outbox_get (snd ?batch) (ob_event_id e) = Some e \<and> ob_status e = OutLeased
      \<and> ob_leased_by e = Some w"
    using outbox.take_taken [OF ok] by (auto simp: ev)
  have dt: "distinct (map ob_event_id (take stopped events))"
    using dist by (simp add: take_map [symmetric])
  have lt: "\<forall>e \<in> set (take stopped events).
      outbox_get (ps_outbox (s\<lparr>ps_outbox := snd ?batch\<rparr>)) (ob_event_id e) = Some e \<and> ob_status e = OutLeased
      \<and> ob_leased_by e = Some w"
    using leased by (auto dest: in_set_takeD)
  show "\<forall>e \<in> set (take stopped events). \<exists>e'. outbox_get (ps_outbox s') (ob_event_id e) = Some e' \<and> outbox_terminal e'"
    using publish_fold_terminal [OF dt lt] by (simp add: s')
  show "\<forall>e \<in> set (drop stopped events). outbox_get (ps_outbox s') (ob_event_id e) = Some e \<and> ob_status e = OutLeased"
  proof
    fix e
    assume e: "e \<in> set (drop stopped events)"
    have "distinct (map ob_event_id (take stopped events @ drop stopped events))" using dist by simp
    with e have "ob_event_id e \<notin> ob_event_id ` set (take stopped events)"
      unfolding map_append distinct_append by auto
    then have "outbox_get (ps_outbox s') (ob_event_id e) = outbox_get (snd ?batch) (ob_event_id e)"
      unfolding s' by (intro trans [OF publish_fold_other]) simp_all
    with leased in_set_dropD [OF e] show
      "outbox_get (ps_outbox s') (ob_event_id e) = Some e \<and> ob_status e = OutLeased" by simp
  qed
  show "\<forall>k. k \<notin> ob_event_id ` set events \<longrightarrow> outbox_get (ps_outbox s') k = outbox_get (ps_outbox s) k"
  proof (intro allI impI)
    fix k
    assume k: "k \<notin> ob_event_id ` set events"
    then have "k \<notin> ob_event_id ` set (take stopped events)" by (auto dest: in_set_takeD)
    then have "outbox_get (ps_outbox s') k = outbox_get (snd ?batch) k"
      unfolding s' by (intro trans [OF publish_fold_other]) simp_all
    with outbox.take_other [OF ok, of k ?n w ?l now] k show
      "outbox_get (ps_outbox s') k = outbox_get (ps_outbox s) k"
      by (simp add: ev)
  qed
  show "length events \<le> ?n" by (simp add: ev outbox_lease_batch_def Let_def)
qed

section \<open>Metrics\<close>

record metrics_snapshot =
  mx_job_counts :: "(string \<times> nat) list"
  mx_outbox_counts :: "(string \<times> nat) list"
  mx_watermark_consumer_count :: nat
  mx_watermark_stream_count :: nat
  mx_watermark_max_updated_at :: "string option"

definition count_or_zero :: "('k, nat) dict \<Rightarrow> 'k \<Rightarrow> nat" where
  "count_or_zero d k = (case dict_get d k of None \<Rightarrow> 0 | Some n \<Rightarrow> n)"

text \<open>\<open>isoformat().replace("+00:00", "Z")\<close>: the offset is the last six characters.\<close>

definition isoformat_z :: "datetime \<Rightarrow> string" where
  "isoformat_z t = (let s = isoformat t in take (length s - 6) s @ ''Z'')"

definition take_metrics_snapshot :: "job_repo \<Rightarrow> outbox_repo \<Rightarrow> watermark_repo \<Rightarrow> metrics_snapshot" where
  "take_metrics_snapshot jobs outbox watermarks =
    (let marks = watermark_list_all watermarks in
     \<lparr>mx_job_counts = map (\<lambda>st. (job_status_value st, count_or_zero (job_count_by_status jobs) st))
        [JobQueued, JobRunning, JobCompleted, JobFailed],
      mx_outbox_counts = map (\<lambda>st. (outbox_status_value st, count_or_zero (outbox_count_by_status outbox) st))
        [OutPending, OutLeased, OutPublished, OutFailed],
      mx_watermark_consumer_count = length (remdups (map wm_consumer_name marks)),
      mx_watermark_stream_count = length marks,
      mx_watermark_max_updated_at =
        (if marks = [] then None else Some (isoformat_z (Max (set (map wm_updated_at marks)))))\<rparr>)"

lemma count_or_zero_count_keys: "count_or_zero (count_keys ks) k = count_list ks k"
  by (auto simp: count_or_zero_def dict_get_count_keys split: option.split)

text \<open>The counts of a snapshot partition the repositories.\<close>

lemma metrics_totals:
  "sum_list (map snd (mx_job_counts (take_metrics_snapshot jobs outbox watermarks))) = length jobs"
  "sum_list (map snd (mx_outbox_counts (take_metrics_snapshot jobs outbox watermarks))) = length outbox"
  "mx_watermark_consumer_count (take_metrics_snapshot jobs outbox watermarks)
    \<le> mx_watermark_stream_count (take_metrics_snapshot jobs outbox watermarks)"
proof -
  have "count_list xs JobQueued + count_list xs JobRunning + count_list xs JobCompleted
      + count_list xs JobFailed = length xs" for xs
    by (induction xs) (auto split: if_splits elim: job_status.exhaust, metis job_status.exhaust)
  from this [of "map job_status (dict_values jobs)"]
  show "sum_list (map snd (mx_job_counts (take_metrics_snapshot jobs outbox watermarks))) = length jobs"
    by (simp add: take_metrics_snapshot_def Let_def job_count_by_status_def count_or_zero_count_keys add.assoc)
  have "count_list xs OutPending + count_list xs OutLeased + count_list xs OutPublished
      + count_list xs OutFailed = length xs" for xs
    by (induction xs) (auto split: if_splits elim: outbox_status.exhaust, metis outbox_status.exhaust)
  from this [of "map ob_status (dict_values outbox)"]
  show "sum_list (map snd (mx_outbox_counts (take_metrics_snapshot jobs outbox watermarks))) = length outbox"
    by (simp add: take_metrics_snapshot_def Let_def outbox_count_by_status_def count_or_zero_count_keys add.assoc)
  show "mx_watermark_consumer_count (take_metrics_snapshot jobs outbox watermarks)
    \<le> mx_watermark_stream_count (take_metrics_snapshot jobs outbox watermarks)"
    using length_remdups_leq [of "map wm_consumer_name (watermark_list_all watermarks)"]
    by (simp add: take_metrics_snapshot_def Let_def)
qed

end
