(* ===== verification/Stage_Repo.thy ===== *)
theory Stage_Repo
  imports Claims
begin

text \<open>
  \<open>InMemoryAttachmentStageRepository\<close>: the upload of an attachment to one target chat, claimed
  like a message with a window after which a silent worker loses it. \<open>claim\<close> reads the clock to
  judge a running claim (\<open>now\<close>), to stamp a granted one (\<open>stamp\<close>), and for the record's own
  \<open>created_at\<close> and \<open>updated_at\<close>.
\<close>

type_synonym stage_key = "string \<times> string \<times> string \<times> int \<times> string"

record stage_repo =
  sr_items :: "(stage_key, attachment_stage_record) dict"
  sr_started :: "stage_key \<rightharpoonup> datetime"
  sr_stale_after :: timedelta

definition stage_key :: "attachment_stage_record \<Rightarrow> stage_key" where
  "stage_key r = (st_migration_id r, st_source_chat_id r, st_source_message_id r,
     st_attachment_index r, st_target_chat_id r)"

definition stage_repo_init :: "timedelta \<Rightarrow> stage_repo" where
  "stage_repo_init stale_after = \<lparr>sr_items = [], sr_started = Map.empty,
     sr_stale_after = max stale_after one_second\<rparr>"

definition stage_stale :: "datetime \<Rightarrow> stage_repo \<Rightarrow> stage_key \<Rightarrow> bool" where
  "stage_stale now repo k \<longleftrightarrow>
    (case sr_started repo k of None \<Rightarrow> False | Some c \<Rightarrow> c \<le> now - sr_stale_after repo)"

definition stage_put :: "stage_key \<Rightarrow> attachment_stage_record \<Rightarrow> datetime \<Rightarrow> stage_repo \<Rightarrow> stage_repo" where
  "stage_put k r stamp repo = repo\<lparr>sr_items := dict_set k r (sr_items repo),
     sr_started := (sr_started repo)(k \<mapsto> stamp)\<rparr>"

text \<open>The arguments of a claim beside the record: the retry flag and the two field stamps.\<close>

record stage_claim_args =
  sa_retry_failed :: bool
  sa_created :: datetime
  sa_updated :: datetime

definition stage_claim ::
    "stage_claim_args \<Rightarrow> attachment_stage_record \<Rightarrow> datetime \<Rightarrow> datetime \<Rightarrow> stage_repo
      \<Rightarrow> (claim_state \<times> attachment_stage_record) \<times> stage_repo" where
  "stage_claim a r now stamp repo =
    (let k = stage_key r in
     case dict_get (sr_items repo) k of
       None \<Rightarrow>
         let inserted = r\<lparr>st_created_at := (case st_created_at r of
                 None \<Rightarrow> Some (sa_created a) | Some c \<Rightarrow> Some c),
               st_updated_at := Some (sa_updated a)\<rparr>
         in ((Claimed, inserted), stage_put k inserted stamp repo)
     | Some existing \<Rightarrow>
         if st_status existing = StageProcessing
           \<and> (is_cancel_code (st_last_error_code existing) \<or> stage_stale now repo k)
         then let updated = existing\<lparr>st_source_locator := st_source_locator r,
                st_media_kind := st_media_kind r, st_checksum := st_checksum r,
                st_size_bytes := st_size_bytes r, st_status := StageProcessing,
                st_express_file_id := None, st_express_file_payload := None,
                st_target_sync_id := None, st_last_error_code := None,
                st_last_error_payload := None, st_updated_at := Some (sa_updated a)\<rparr>
              in ((Claimed, updated), stage_put k updated stamp repo)
         else if st_status existing = StageFailed
           \<and> (sa_retry_failed a \<or> is_cancel_code (st_last_error_code existing))
         then let updated = existing\<lparr>st_status := StageProcessing, st_last_error_code := None,
                st_last_error_payload := None, st_updated_at := Some (sa_updated a)\<rparr>
              in ((Claimed, updated), stage_put k updated stamp repo)
         else if st_status existing = StageUploaded \<or> st_status existing = StageAttached
         then ((ClaimImported, existing), repo)
         else if st_status existing = StageFailed then ((ClaimFailed, existing), repo)
         else ((ClaimAmbiguous, existing), repo))"

definition stage_get :: "stage_repo \<Rightarrow> stage_key \<Rightarrow> attachment_stage_record option" where
  "stage_get repo k = dict_get (sr_items repo) k"

definition json_opt_int :: "int option \<Rightarrow> json" where
  "json_opt_int n = (case n of None \<Rightarrow> JNull | Some i \<Rightarrow> JInt i)"

definition express_staged_file_to_payload :: "express_staged_file \<Rightarrow> json" where
  "express_staged_file_to_payload f = JObj [
     (''attachment_type'', JStr (sf_attachment_type f)),
     (''file_id'', JStr (sf_file_id f)),
     (''file_url'', JStr (sf_file_url f)),
     (''filename'', JStr (sf_filename f)),
     (''size_bytes'', JInt (sf_size_bytes f)),
     (''mime_type'', JStr (sf_mime_type f)),
     (''file_hash'', JStr (sf_file_hash f)),
     (''duration_seconds'', json_opt_int (sf_duration_seconds f)),
     (''preview_url'', json_opt_str (sf_preview_url f)),
     (''preview_height'', json_opt_int (sf_preview_height f)),
     (''preview_width'', json_opt_int (sf_preview_width f)),
     (''encryption_algo'', json_opt_str (sf_encryption_algo f)),
     (''chunk_size'', json_opt_int (sf_chunk_size f)),
     (''caption'', json_opt_str (sf_caption f))]"

text \<open>Every mark replaces the record and forgets the start of its claim.\<close>

definition stage_update ::
    "stage_key \<Rightarrow> (attachment_stage_record \<Rightarrow> attachment_stage_record) \<Rightarrow> stage_repo
      \<Rightarrow> (error, attachment_stage_record \<times> stage_repo) outcome" where
  "stage_update k f repo =
    (case dict_get (sr_items repo) k of
       None \<Rightarrow> Inl KeyError
     | Some r \<Rightarrow> Inr (f r, repo\<lparr>sr_items := dict_set k (f r) (sr_items repo),
         sr_started := (sr_started repo)(k := None)\<rparr>))"

definition stage_mark_uploaded ::
    "stage_key \<Rightarrow> express_staged_file \<Rightarrow> datetime \<Rightarrow> stage_repo
      \<Rightarrow> (error, attachment_stage_record \<times> stage_repo) outcome" where
  "stage_mark_uploaded k staged_file now =
    stage_update k (\<lambda>r. r\<lparr>st_status := StageUploaded,
      st_express_file_id := Some (sf_file_id staged_file),
      st_express_file_payload := Some (express_staged_file_to_payload staged_file),
      st_last_error_code := None, st_last_error_payload := None, st_updated_at := Some now\<rparr>)"

definition stage_mark_attached ::
    "stage_key \<Rightarrow> string \<Rightarrow> datetime \<Rightarrow> stage_repo
      \<Rightarrow> (error, attachment_stage_record \<times> stage_repo) outcome" where
  "stage_mark_attached k target_sync_id now =
    stage_update k (\<lambda>r. r\<lparr>st_status := StageAttached, st_target_sync_id := Some target_sync_id,
      st_last_error_code := None, st_last_error_payload := None, st_updated_at := Some now\<rparr>)"

definition stage_mark_failed ::
    "stage_key \<Rightarrow> string \<Rightarrow> json \<Rightarrow> datetime \<Rightarrow> stage_repo
      \<Rightarrow> (error, attachment_stage_record \<times> stage_repo) outcome" where
  "stage_mark_failed k error_code error_payload now =
    stage_update k (\<lambda>r. r\<lparr>st_status := StageFailed, st_last_error_code := Some error_code,
      st_last_error_payload := Some error_payload, st_updated_at := Some now\<rparr>)"

section \<open>The repository invariant\<close>

text \<open>A start time is kept for exactly the uploads in progress.\<close>

definition stage_inv :: "stage_repo \<Rightarrow> bool" where
  "stage_inv repo \<longleftrightarrow> keyed_dict stage_key (sr_items repo)
    \<and> (\<forall>k. sr_started repo k \<noteq> None \<longleftrightarrow>
          (\<exists>r. stage_get repo k = Some r \<and> st_status r = StageProcessing))
    \<and> 0 < sr_stale_after repo"

lemma stage_invD:
  assumes "stage_inv repo"
  shows "keyed_dict stage_key (sr_items repo)"
    and "sr_started repo k \<noteq> None \<longleftrightarrow>
      (\<exists>r. stage_get repo k = Some r \<and> st_status r = StageProcessing)"
    and "0 < sr_stale_after repo"
  using assms unfolding stage_inv_def by blast+

lemma stage_inv_init: "stage_inv (stage_repo_init w)"
  by (simp add: stage_inv_def stage_repo_init_def stage_get_def one_second_def)

definition stage_submission :: "attachment_stage_record \<Rightarrow> bool" where
  "stage_submission r \<longleftrightarrow> st_status r = StageProcessing \<and> st_last_error_code r = None"

lemma stage_get_put [simp]:
  "stage_get (stage_put k r c repo) k' = (if k' = k then Some r else stage_get repo k')"
  by (simp add: stage_get_def stage_put_def)

lemma stage_inv_put:
  assumes "stage_inv repo" and "stage_key r = k" and "st_status r = StageProcessing"
  shows "stage_inv (stage_put k r c repo)"
  unfolding stage_inv_def
proof (intro conjI allI)
  show "keyed_dict stage_key (sr_items (stage_put k r c repo))"
    using assms stage_invD(1) by (auto simp: stage_put_def)
  fix k'
  show "sr_started (stage_put k r c repo) k' \<noteq> None \<longleftrightarrow>
      (\<exists>r'. stage_get (stage_put k r c repo) k' = Some r' \<and> st_status r' = StageProcessing)"
    using assms(3) stage_invD(2) [OF assms(1), of k'] by (simp add: stage_put_def stage_get_def)
  show "0 < sr_stale_after (stage_put k r c repo)"
    using stage_invD(3) [OF assms(1)] by (simp add: stage_put_def)
qed

lemma stage_update_effect:
  assumes "stage_inv repo" and "stage_update k f repo = Inr (r, repo')"
    and "\<And>r. stage_key (f r) = stage_key r" and "\<And>r. st_status (f r) \<noteq> StageProcessing"
  shows "stage_inv repo'" and "stage_get repo' = (stage_get repo)(k \<mapsto> r)" and "stage_key r = k"
proof -
  from assms(2) obtain r0 where r0: "dict_get (sr_items repo) k = Some r0" "r = f r0"
    "repo' = repo\<lparr>sr_items := dict_set k (f r0) (sr_items repo), sr_started := (sr_started repo)(k := None)\<rparr>"
    by (auto simp: stage_update_def split: option.splits)
  have key: "stage_key r0 = k"
    using r0(1) stage_invD(1) [OF assms(1)] by (auto dest: keyed_dict_key)
  then show "stage_key r = k" by (simp add: r0(2) assms(3))
  show "stage_get repo' = (stage_get repo)(k \<mapsto> r)"
    by (simp add: r0 stage_get_def fun_eq_iff)
  show "stage_inv repo'" unfolding stage_inv_def
  proof (intro conjI allI)
    show "keyed_dict stage_key (sr_items repo')"
      using key stage_invD(1) [OF assms(1)] assms(3) by (auto simp: r0(3))
    fix k'
    show "sr_started repo' k' \<noteq> None \<longleftrightarrow>
        (\<exists>r'. stage_get repo' k' = Some r' \<and> st_status r' = StageProcessing)"
      using stage_invD(2) [OF assms(1), of k'] assms(4) by (simp add: r0(3) stage_get_def)
    show "0 < sr_stale_after repo'"
      using stage_invD(3) [OF assms(1)] by (simp add: r0(3))
  qed
qed

section \<open>The claim contract\<close>

lemma stage_claim_refused:
  assumes "fst (fst (stage_claim a r now c repo)) \<noteq> Claimed"
  shows "snd (stage_claim a r now c repo) = repo
    \<and> stage_get repo (stage_key r) = Some (snd (fst (stage_claim a r now c repo)))"
proof (cases "dict_get (sr_items repo) (stage_key r)")
  case None
  with assms show ?thesis by (simp add: stage_claim_def Let_def)
next
  case (Some e)
  let ?p = "st_status e = StageProcessing
      \<and> (is_cancel_code (st_last_error_code e) \<or> stage_stale now repo (stage_key r))"
  let ?f = "st_status e = StageFailed \<and> (sa_retry_failed a \<or> is_cancel_code (st_last_error_code e))"
  note claim = stage_claim_def [of a r now c repo, unfolded Let_def Some option.case]
  have "\<not> ?p" using assms unfolding claim by (cases ?p) simp_all
  then have np: "?p \<longleftrightarrow> False" by simp
  have "\<not> ?f" using assms unfolding claim np by (cases ?f) simp_all
  then have nf: "?f \<longleftrightarrow> False" by simp
  show ?thesis unfolding claim np nf if_False
    by (simp add: Some stage_get_def)
qed

text \<open>A granted claim stores the submission with its stamps, or a processing record of the key.\<close>

lemma stage_claim_granted:
  assumes "fst (fst (stage_claim a r now c repo)) = Claimed"
  obtains r' where "stage_claim a r now c repo = ((Claimed, r'), stage_put (stage_key r) r' c repo)"
    "stage_key r' = stage_key r \<and> st_status r' = st_status r \<and> st_last_error_code r' = st_last_error_code r
      \<or> (\<exists>e. stage_get repo (stage_key r) = Some e \<and> stage_key r' = stage_key e)
        \<and> st_status r' = StageProcessing \<and> st_last_error_code r' = None"
proof (cases "dict_get (sr_items repo) (stage_key r)")
  case None
  with that show ?thesis by (simp add: stage_claim_def stage_key_def Let_def)
next
  case (Some e)
  with assms that show ?thesis
    by (simp add: stage_claim_def stage_key_def stage_get_def Let_def split: if_split_asm)
qed

lemma stage_claim_cases:
  assumes "stage_inv repo"
  obtains (refuse) st e where "st \<noteq> Claimed" "stage_claim a r now c repo = ((st, e), repo)"
      "stage_get repo (stage_key r) = Some e"
  | (grant) r' where "stage_key r' = stage_key r"
      "stage_submission r \<Longrightarrow> stage_submission r'"
      "stage_claim a r now c repo = ((Claimed, r'), stage_put (stage_key r) r' c repo)"
proof (cases "fst (fst (stage_claim a r now c repo)) = Claimed")
  case False
  with stage_claim_refused [OF this] refuse show ?thesis
    by (cases "stage_claim a r now c repo") auto
next
  case True
  have key: "stage_key e = stage_key r" if "stage_get repo (stage_key r) = Some e" for e
    using that stage_invD(1) [OF assms] unfolding stage_get_def by (rule keyed_dict_key [rotated])
  from True show ?thesis
  proof (rule stage_claim_granted)
    fix r'
    assume "stage_claim a r now c repo = ((Claimed, r'), stage_put (stage_key r) r' c repo)"
      and "stage_key r' = stage_key r \<and> st_status r' = st_status r \<and> st_last_error_code r' = st_last_error_code r
      \<or> (\<exists>e. stage_get repo (stage_key r) = Some e \<and> stage_key r' = stage_key e)
        \<and> st_status r' = StageProcessing \<and> st_last_error_code r' = None"
    then show ?thesis by (intro grant) (auto simp: stage_submission_def key)
  qed
qed

definition stage_held :: "datetime \<Rightarrow> stage_repo \<Rightarrow> stage_key \<Rightarrow> bool" where
  "stage_held now repo k \<longleftrightarrow>
    (\<exists>e. stage_get repo k = Some e \<and> st_status e = StageProcessing
       \<and> \<not> is_cancel_code (st_last_error_code e)) \<and> \<not> stage_stale now repo k"

definition stage_fresh :: "stage_repo \<Rightarrow> datetime \<Rightarrow> datetime \<Rightarrow> bool" where
  "stage_fresh repo c t \<longleftrightarrow> t < c + sr_stale_after repo"

lemma stage_stale_put [simp]:
  "sr_stale_after (stage_put k r c repo) = sr_stale_after repo"
  "stage_stale t (stage_put k r c repo) k' =
    (if k' = k then \<not> stage_fresh repo c t else stage_stale t repo k')"
  by (simp add: stage_put_def)
    (auto simp: stage_put_def stage_stale_def stage_fresh_def split: option.split)

lemma stage_claim_shape:
  "snd (stage_claim a r t c repo) = repo
    \<or> (\<exists>r'. snd (stage_claim a r t c repo) = stage_put (stage_key r) r' c repo)"
  by (simp add: stage_claim_def Let_def split: option.split) blast

interpretation stages: claim_protocol stage_get stage_key stage_inv stage_submission
  "\<lambda>e. st_status e = StageUploaded \<or> st_status e = StageAttached" stage_held stage_fresh stage_claim
proof unfold_locales
  fix a r t c repo
  show "stage_inv (snd (stage_claim a r t c repo))" if "stage_inv repo" "stage_submission r"
    using that(2) by (cases rule: stage_claim_cases [OF that(1), of a r t c])
      (auto simp: stage_submission_def intro!: stage_inv_put that)
  show "stage_get (snd (stage_claim a r t c repo)) (stage_key r) =
        Some (snd (fst (stage_claim a r t c repo)))
      \<and> (\<forall>t'. stage_fresh repo c t' \<longrightarrow> stage_held t' (snd (stage_claim a r t c repo)) (stage_key r))"
    if "stage_inv repo" "stage_submission r" "fst (fst (stage_claim a r t c repo)) = Claimed"
    using that(2,3) by (cases rule: stage_claim_cases [OF that(1), of a r t c])
      (auto simp: stage_held_def stage_submission_def)
  show "snd (stage_claim a r t c repo) = repo
      \<and> stage_get repo (stage_key r) = Some (snd (fst (stage_claim a r t c repo)))"
    if "fst (fst (stage_claim a r t c repo)) \<noteq> Claimed"
    using that by (rule stage_claim_refused)
  show "fst (fst (stage_claim a r t c repo)) = ClaimAmbiguous"
    if "stage_inv repo" "stage_held t repo (stage_key r)"
    using that(2) by (auto simp: stage_held_def stage_claim_def stage_get_def Let_def)
  show "fst (fst (stage_claim a r t c repo)) = ClaimImported"
    if "stage_inv repo" "stage_get repo (stage_key r) = Some e"
      "st_status e = StageUploaded \<or> st_status e = StageAttached" for e
    using that by (auto simp: stage_claim_def stage_get_def Let_def)
  show "stage_get (snd (stage_claim a r t c repo)) k = stage_get repo k
      \<and> stage_held t' (snd (stage_claim a r t c repo)) k = stage_held t' repo k"
    if "k \<noteq> stage_key r" for k t'
    using stage_claim_shape [of a r t c repo] that by (auto simp: stage_held_def)
  show "stage_fresh (snd (stage_claim a r t c repo)) = stage_fresh repo"
    using stage_claim_shape [of a r t c repo] by (auto simp: stage_fresh_def fun_eq_iff)
qed

section \<open>Runs of the repository\<close>

inductive stage_step :: "stage_repo \<Rightarrow> stage_repo \<Rightarrow> bool" where
  claim: "stage_submission r \<Longrightarrow> stage_step repo (snd (stage_claim a r now stamp repo))"
| uploaded: "stage_mark_uploaded k f now repo = Inr (r, repo') \<Longrightarrow> stage_step repo repo'"
| attached: "stage_mark_attached k sid now repo = Inr (r, repo') \<Longrightarrow> stage_step repo repo'"
| failed: "stage_mark_failed k code payload now repo = Inr (r, repo') \<Longrightarrow> stage_step repo repo'"

inductive stages_reachable :: "timedelta \<Rightarrow> stage_repo \<Rightarrow> bool" for w where
  init: "stages_reachable w (stage_repo_init w)"
| step: "stages_reachable w repo \<Longrightarrow> stage_step repo repo' \<Longrightarrow> stages_reachable w repo'"

lemma stage_step_inv: "stage_step repo repo' \<Longrightarrow> stage_inv repo \<Longrightarrow> stage_inv repo'"
proof (induction rule: stage_step.induct)
  case (claim r repo a now stamp)
  then show ?case by (simp add: stages.inv_claim)
next
  case (uploaded k f now repo r repo')
  then show ?case
    by (intro stage_update_effect(1) [OF uploaded(2) uploaded(1) [unfolded stage_mark_uploaded_def]])
      (simp_all add: stage_key_def)
next
  case (attached k sid now repo r repo')
  then show ?case
    by (intro stage_update_effect(1) [OF attached(2) attached(1) [unfolded stage_mark_attached_def]])
      (simp_all add: stage_key_def)
next
  case (failed k code payload now repo r repo')
  then show ?case
    by (intro stage_update_effect(1) [OF failed(2) failed(1) [unfolded stage_mark_failed_def]])
      (simp_all add: stage_key_def)
qed

lemma stages_reachable_inv: "stages_reachable w repo \<Longrightarrow> stage_inv repo"
  by (induction rule: stages_reachable.induct) (auto intro: stage_inv_init stage_step_inv)

text \<open>An upload whose worker went silent can be claimed again once the window has passed.\<close>

lemma stage_stale_reclaimed:
  assumes "stage_inv repo" and "stage_get repo (stage_key r) = Some e" and "st_status e = StageProcessing"
    and "sr_started repo (stage_key r) = Some c0" and "c0 + sr_stale_after repo \<le> now"
  shows "fst (fst (stage_claim a r now stamp repo)) = Claimed"
  using assms(2-5) by (auto simp: stage_claim_def stage_get_def stage_stale_def Let_def)

end
