(* ===== verification/Identity_Repo.thy ===== *)
theory Identity_Repo
  imports Models
begin

text \<open>
  The repositories that tie people and bots together: identity mappings (found by Telegram user
  id and by username, per express host), CTS bindings of eXpress users (found by HUID and by
  email) and HUID bindings of bots. The first two keep the same records in two dictionaries;
  what a caller relies on is that both always show the same record. \<open>save\<close> reads the clock
  once, \<open>now\<close>.
\<close>

section \<open>Records under two keys\<close>

text \<open>A sequence of saves; one that raises leaves the store as it is.\<close>

fun run_saves :: "('q \<Rightarrow> 's \<Rightarrow> ('e, 'r \<times> 's) outcome) \<Rightarrow> 'q list \<Rightarrow> 's \<Rightarrow> 's" where
  "run_saves save [] s = s"
| "run_saves save (q # qs) s = run_saves save qs (case save q s of Inl _ \<Rightarrow> s | Inr (r, s') \<Rightarrow> s')"

locale paired_store =
  fixes getA :: "'s \<Rightarrow> 'a \<Rightarrow> 'r option"
    and getB :: "'s \<Rightarrow> 'b \<Rightarrow> 'r option"
    and keyA :: "'r \<Rightarrow> 'a option"
    and keyB :: "'r \<Rightarrow> 'b option"
    and inv :: "'s \<Rightarrow> bool"
    and valid :: "'q \<Rightarrow> bool"
    and save :: "'q \<Rightarrow> 's \<Rightarrow> ('e, 'r \<times> 's) outcome"
  assumes inv_save: "inv s \<Longrightarrow> valid q \<Longrightarrow> save q s = Inr (r, s') \<Longrightarrow> inv s'"
    and save_A: "inv s \<Longrightarrow> save q s = Inr (r, s') \<Longrightarrow> keyA r = Some a \<Longrightarrow> getA s' a = Some r"
    and save_B: "inv s \<Longrightarrow> save q s = Inr (r, s') \<Longrightarrow> keyB r = Some b \<Longrightarrow> getB s' b = Some r"
    and linked_A: "inv s \<Longrightarrow> getA s a = Some r \<Longrightarrow>
      keyA r = Some a \<and> (\<forall>b. keyB r = Some b \<longrightarrow> getB s b = Some r)"
    and linked_B: "inv s \<Longrightarrow> getB s b = Some r \<Longrightarrow>
      keyB r = Some b \<and> (\<forall>a. keyA r = Some a \<longrightarrow> getA s a = Some r)"
begin

lemma inv_run_saves: "inv s \<Longrightarrow> \<forall>q \<in> set qs. valid q \<Longrightarrow> inv (run_saves save qs s)"
proof (induction qs arbitrary: s)
  case Nil
  then show ?case by simp
next
  case (Cons q qs)
  then have "inv (case save q s of Inl _ \<Rightarrow> s | Inr (r, s') \<Rightarrow> s')"
    by (auto intro: inv_save split: sum.split)
  with Cons show ?case by simp
qed

lemma indexes_agree:
  assumes "inv s" and "getA s a = Some r" and "keyB r = Some b"
  shows "getB s b = Some r"
  using linked_A [OF assms(1,2)] assms(3) by blast

lemma one_A_per_B:
  assumes "inv s" and "getA s a = Some r" and "getA s a' = Some r'"
    and "keyB r = Some b" and "keyB r' = Some b"
  shows "a = a' \<and> r = r'"
proof -
  have "getB s b = Some r" "getB s b = Some r'" using indexes_agree assms by blast+
  then have "r = r'" by simp
  moreover have "keyA r = Some a" "keyA r' = Some a'" using linked_A assms(1-3) by blast+
  ultimately show ?thesis by simp
qed

end

text \<open>
  The common last part of both \<open>save\<close> methods: forget the other key of each record found, then
  store the new record under the keys it has.
\<close>

definition pair_store ::
    "'b option \<Rightarrow> 'a option \<Rightarrow> 'a option \<Rightarrow> 'b option \<Rightarrow> 'r
      \<Rightarrow> ('a, 'r) dict \<times> ('b, 'r) dict \<Rightarrow> ('a, 'r) dict \<times> ('b, 'r) dict" where
  "pair_store drop_b drop_a put_a put_b r s =
    (let B = (case drop_b of None \<Rightarrow> snd s | Some b \<Rightarrow> dict_pop b (snd s));
         A = (case drop_a of None \<Rightarrow> fst s | Some a \<Rightarrow> dict_pop a (fst s))
     in (case put_a of None \<Rightarrow> A | Some a \<Rightarrow> dict_set a r A,
         case put_b of None \<Rightarrow> B | Some b \<Rightarrow> dict_set b r B))"

definition paired_ok ::
    "('r \<Rightarrow> bool) \<Rightarrow> ('r \<Rightarrow> 'a option) \<Rightarrow> ('r \<Rightarrow> 'b option) \<Rightarrow> ('a, 'r) dict \<times> ('b, 'r) dict \<Rightarrow> bool" where
  "paired_ok good kA kB s \<longleftrightarrow>
    (\<forall>a r. dict_get (fst s) a = Some r \<longrightarrow>
       good r \<and> kA r = Some a \<and> (\<forall>b. kB r = Some b \<longrightarrow> dict_get (snd s) b = Some r))
    \<and> (\<forall>b r. dict_get (snd s) b = Some r \<longrightarrow>
       good r \<and> kB r = Some b \<and> (\<forall>a. kA r = Some a \<longrightarrow> dict_get (fst s) a = Some r))"

lemma paired_okA:
  assumes "paired_ok good kA kB s" and "dict_get (fst s) a = Some r"
  shows "good r" and "kA r = Some a" and "\<And>b. kB r = Some b \<Longrightarrow> dict_get (snd s) b = Some r"
  using assms unfolding paired_ok_def by blast+

lemma paired_okB:
  assumes "paired_ok good kA kB s" and "dict_get (snd s) b = Some r"
  shows "good r" and "kB r = Some b" and "\<And>a. kA r = Some a \<Longrightarrow> dict_get (fst s) a = Some r"
  using assms unfolding paired_ok_def by blast+

lemma pair_store_get:
  "dict_get (fst (pair_store db da pa pb r s)) a =
    (if pa = Some a then Some r else if da = Some a then None else dict_get (fst s) a)"
  "dict_get (snd (pair_store db da pa pb r s)) b =
    (if pb = Some b then Some r else if db = Some b then None else dict_get (snd s) b)"
  by (auto simp: pair_store_def Let_def split: option.split)

text \<open>
  Both indexes still agree when exactly the stale other keys of the records found under the new
  keys were forgotten.
\<close>

lemma paired_ok_store:
  assumes ok: "paired_ok good kA kB s" and "good r"
    and pb_stale: "\<And>a e b. kA r = Some a \<Longrightarrow> dict_get (fst s) a = Some e \<Longrightarrow> kB e = Some b \<Longrightarrow>
      db = Some b \<or> kB r = Some b"
    and pa_stale: "\<And>b e a. kB r = Some b \<Longrightarrow> dict_get (snd s) b = Some e \<Longrightarrow> kA e = Some a \<Longrightarrow>
      da = Some a \<or> kA r = Some a"
    and db: "\<And>b. db = Some b \<Longrightarrow> \<exists>a e. kA r = Some a \<and> dict_get (fst s) a = Some e \<and> kB e = Some b"
    and da: "\<And>a. da = Some a \<Longrightarrow> \<exists>b e. kB r = Some b \<and> dict_get (snd s) b = Some e \<and> kA e = Some a"
  shows "paired_ok good kA kB (pair_store db da (kA r) (kB r) r s)"
  unfolding paired_ok_def
proof (intro conjI allI impI)
  fix a r'
  assume get: "dict_get (fst (pair_store db da (kA r) (kB r) r s)) a = Some r'"
  show "good r'"
    using get assms(2) paired_okA(1) [OF ok] by (auto simp: pair_store_get split: if_splits)
  show "kA r' = Some a"
    using get paired_okA(2) [OF ok] by (auto simp: pair_store_get split: if_splits)
  fix b
  assume b: "kB r' = Some b"
  show "dict_get (snd (pair_store db da (kA r) (kB r) r s)) b = Some r'"
  proof (cases "kA r = Some a")
    case True
    with get b show ?thesis by (simp add: pair_store_get)
  next
    case False
    with get have old: "dict_get (fst s) a = Some r'" "da \<noteq> Some a"
      by (auto simp: pair_store_get split: if_splits)
    then have B: "dict_get (snd s) b = Some r'" "kA r' = Some a"
      using paired_okA [OF ok] b by blast+
    have "kB r \<noteq> Some b" using pa_stale [OF _ B] old(2) False by blast
    moreover have "db \<noteq> Some b"
    proof
      assume "db = Some b"
      then obtain a' e where "kA r = Some a'" "dict_get (fst s) a' = Some e" "kB e = Some b"
        using db by blast
      then have "dict_get (snd s) b = Some e" "kA e = Some a'" using paired_okA [OF ok] by blast+
      with B False \<open>kA r = Some a'\<close> show False by simp
    qed
    ultimately show ?thesis using B by (simp add: pair_store_get)
  qed
next
  fix b r'
  assume get: "dict_get (snd (pair_store db da (kA r) (kB r) r s)) b = Some r'"
  show "good r'"
    using get assms(2) paired_okB(1) [OF ok] by (auto simp: pair_store_get split: if_splits)
  show "kB r' = Some b"
    using get paired_okB(2) [OF ok] by (auto simp: pair_store_get split: if_splits)
  fix a
  assume a: "kA r' = Some a"
  show "dict_get (fst (pair_store db da (kA r) (kB r) r s)) a = Some r'"
  proof (cases "kB r = Some b")
    case True
    with get a show ?thesis by (simp add: pair_store_get)
  next
    case False
    with get have old: "dict_get (snd s) b = Some r'" "db \<noteq> Some b"
      by (auto simp: pair_store_get split: if_splits)
    then have A: "dict_get (fst s) a = Some r'" "kB r' = Some b"
      using paired_okB [OF ok] a by blast+
    have "kA r \<noteq> Some a" using pb_stale [OF _ A] old(2) False by blast
    moreover have "da \<noteq> Some a"
    proof
      assume "da = Some a"
      then obtain b' e where "kB r = Some b'" "dict_get (snd s) b' = Some e" "kA e = Some a"
        using da by blast
      then have "dict_get (fst s) a = Some e" "kB e = Some b'" using paired_okB [OF ok] by blast+
      with A False \<open>kB r = Some b'\<close> show False by simp
    qed
    ultimately show ?thesis using A by (simp add: pair_store_get)
  qed
qed

text \<open>
  A save looks the record up under the keys it was given, takes a missing key from the record
  found, and forgets the other keys of the records found: then the indexes still agree.
\<close>

lemma paired_ok_save:
  assumes ok: "paired_ok good kA kB s" and "good r"
    and x: "x = Option.bind ka (dict_get (fst s))" and y: "y = Option.bind kb (dict_get (snd s))"
    and A: "kA r = (case ka of Some a \<Rightarrow> Some a | None \<Rightarrow> Option.bind y kA)"
    and B: "kB r = (case kb of Some b \<Rightarrow> Some b | None \<Rightarrow> Option.bind x kB)"
  shows "paired_ok good kA kB (pair_store (Option.bind x kB) (Option.bind y kA) (kA r) (kB r) r s)"
proof (rule paired_ok_store [OF ok assms(2)])
  note okA = paired_okA [OF ok] and okB = paired_okB [OF ok]
  show "Option.bind x kB = Some b \<or> kB r = Some b"
    if "kA r = Some a" "dict_get (fst s) a = Some e" "kB e = Some b" for a e b
  proof (cases ka)
    case None
    with A that(1) obtain e' where e': "y = Some e'" "kA e' = Some a" by (cases y) auto
    with y obtain b' where b': "kb = Some b'" "dict_get (snd s) b' = Some e'" by (cases kb) auto
    with okB(3) e'(2) that(2) have "e' = e" by fastforce
    with okB(2) [OF b'(2)] b'(1) that(3) show ?thesis by (simp add: B)
  next
    case (Some a')
    with A x that show ?thesis by simp
  qed
  show "Option.bind y kA = Some a \<or> kA r = Some a"
    if "kB r = Some b" "dict_get (snd s) b = Some e" "kA e = Some a" for b e a
  proof (cases kb)
    case None
    with B that(1) obtain e' where e': "x = Some e'" "kB e' = Some b" by (cases x) auto
    with x obtain a' where a': "ka = Some a'" "dict_get (fst s) a' = Some e'" by (cases ka) auto
    with okA(3) e'(2) that(2) have "e' = e" by fastforce
    with okA(2) [OF a'(2)] a'(1) that(3) show ?thesis by (simp add: A)
  next
    case (Some b')
    with B y that show ?thesis by simp
  qed
  show "\<exists>a e. kA r = Some a \<and> dict_get (fst s) a = Some e \<and> kB e = Some b"
    if "Option.bind x kB = Some b" for b
  proof -
    from that obtain e where e: "x = Some e" "kB e = Some b" by (cases x) auto
    with x obtain a where "ka = Some a" "dict_get (fst s) a = Some e" by (cases ka) auto
    with A e show ?thesis by simp
  qed
  show "\<exists>b e. kB r = Some b \<and> dict_get (snd s) b = Some e \<and> kA e = Some a"
    if "Option.bind y kA = Some a" for a
  proof -
    from that obtain e where e: "y = Some e" "kA e = Some a" by (cases y) auto
    with y obtain b where "kb = Some b" "dict_get (snd s) b = Some e" by (cases kb) auto
    with B e show ?thesis by simp
  qed
qed

text \<open>The first record found, under either key: \<open>existing_by_a or existing_by_b\<close>.\<close>

definition first_found :: "'r option \<Rightarrow> 'r option \<Rightarrow> 'r option" where
  "first_found x y = (case x of None \<Rightarrow> y | Some r \<Rightarrow> Some r)"

definition field_of :: "('r \<Rightarrow> 'f option) \<Rightarrow> 'r option \<Rightarrow> 'f option" where
  "field_of f x = (case x of None \<Rightarrow> None | Some r \<Rightarrow> f r)"

lemma field_of_simps [simp]: "field_of f None = None" "field_of f (Some r) = f r"
  by (simp_all add: field_of_def)

lemma first_found_simps [simp]:
  "first_found None y = y" "first_found (Some r) y = Some r"
  by (simp_all add: first_found_def)

text \<open>\<open>if x: ...\<close> on an optional string selects the non-empty ones.\<close>

definition only_truthy :: "string option \<Rightarrow> string option" where
  "only_truthy x = (if truthy x then x else None)"

definition stamped :: "('r \<Rightarrow> datetime option) \<Rightarrow> 'r option \<Rightarrow> datetime option \<Rightarrow> datetime \<Rightarrow> datetime option" where
  "stamped f existing given now =
    (case existing of
       Some e \<Rightarrow> f e
     | None \<Rightarrow> (case given of None \<Rightarrow> Some now | Some t \<Rightarrow> Some t))"

section \<open>CTS bindings of eXpress users\<close>

type_synonym cts_binding_repo =
  "(string, user_cts_binding_record) dict \<times> (string, user_cts_binding_record) dict"

definition cts_get_by_target_huid :: "cts_binding_repo \<Rightarrow> string \<Rightarrow> user_cts_binding_record option" where
  "cts_get_by_target_huid repo huid = dict_get (fst repo) (py_strip huid)"

definition cts_get_by_email :: "cts_binding_repo \<Rightarrow> string \<Rightarrow> user_cts_binding_record option" where
  "cts_get_by_email repo email = dict_get (snd repo) (py_lower (py_strip email))"

definition normalized :: "(string \<Rightarrow> string) \<Rightarrow> string option \<Rightarrow> string option" where
  "normalized f x = (if truthy x then map_option f x else None)"

definition cts_updated ::
    "user_cts_binding_record \<Rightarrow> datetime \<Rightarrow> string option \<Rightarrow> string option
      \<Rightarrow> user_cts_binding_record option \<Rightarrow> user_cts_binding_record" where
  "cts_updated r now huid email existing =
    \<lparr>ub_cts_host = py_lower (py_strip (ub_cts_host r)),
     ub_target_huid = py_or huid (field_of ub_target_huid existing),
     ub_corporate_email = py_or email (field_of ub_corporate_email existing),
     ub_created_at = stamped ub_created_at existing (ub_created_at r) now,
     ub_updated_at = (case ub_updated_at r of None \<Rightarrow> Some now | Some t \<Rightarrow> Some t),
     ub_last_verified_at = ub_last_verified_at r\<rparr>"

definition cts_save ::
    "user_cts_binding_record \<times> datetime \<Rightarrow> cts_binding_repo
      \<Rightarrow> (error, user_cts_binding_record \<times> cts_binding_repo) outcome" where
  "cts_save q repo =
    (let r = fst q; now = snd q;
         huid = normalized py_strip (ub_target_huid r);
         email = normalized (\<lambda>s. py_lower (py_strip s)) (ub_corporate_email r)
     in if py_lower (py_strip (ub_cts_host r)) = [] then Inl (ValueError ''cts_host is required'')
        else if huid = None \<and> email = None
        then Inl (ValueError ''target_huid or corporate_email is required'')
        else
          let by_huid = Option.bind huid (dict_get (fst repo));
              by_email = Option.bind email (dict_get (snd repo));
              updated = cts_updated r now huid email (first_found by_huid by_email)
          in Inr (updated, pair_store (only_truthy (field_of ub_corporate_email by_huid))
               (only_truthy (field_of ub_target_huid by_email))
               (ub_target_huid updated) (ub_corporate_email updated) updated repo))"

definition cts_good :: "user_cts_binding_record \<Rightarrow> bool" where
  "cts_good r \<longleftrightarrow> ub_target_huid r \<noteq> Some [] \<and> ub_corporate_email r \<noteq> Some []"

abbreviation cts_inv :: "cts_binding_repo \<Rightarrow> bool" where
  "cts_inv repo \<equiv> paired_ok cts_good ub_target_huid ub_corporate_email repo"

lemma py_or_Some_Nil: "py_or a b = Some [] \<longleftrightarrow> \<not> truthy a \<and> b = Some []"
  by (auto simp: py_or_truthy truthy_def)

lemma only_truthy_Some: "only_truthy x = Some s \<longleftrightarrow> x = Some s \<and> s \<noteq> []"
  by (auto simp: only_truthy_def)

lemma cts_save_Inr:
  assumes "cts_save q repo = Inr (r, repo')"
  obtains huid email by_huid by_email where
    "by_huid = Option.bind huid (dict_get (fst repo))"
    "by_email = Option.bind email (dict_get (snd repo))"
    "r = cts_updated (fst q) (snd q) huid email (first_found by_huid by_email)"
    "repo' = pair_store (only_truthy (field_of ub_corporate_email by_huid))
       (only_truthy (field_of ub_target_huid by_email)) (ub_target_huid r) (ub_corporate_email r) r repo"
  using assms by (auto simp: cts_save_def Let_def split: if_splits)

lemma cts_inv_save:
  assumes inv: "cts_inv repo" and save: "cts_save q repo = Inr (r, repo')"
  shows "cts_inv repo'"
proof -
  obtain huid email by_huid by_email where
    H: "by_huid = Option.bind huid (dict_get (fst repo))" and
    E: "by_email = Option.bind email (dict_get (snd repo))" and
    r: "r = cts_updated (fst q) (snd q) huid email (first_found by_huid by_email)" and
    repo': "repo' = pair_store (only_truthy (field_of ub_corporate_email by_huid))
       (only_truthy (field_of ub_target_huid by_email)) (ub_target_huid r) (ub_corporate_email r) r repo"
    using save by (rule cts_save_Inr)
  have fA: "cts_good e \<and> truthy huid \<and> ub_target_huid e = huid" if "by_huid = Some e" for e
  proof -
    from that H obtain h where "huid = Some h" "dict_get (fst repo) h = Some e" by (cases huid) auto
    with paired_okA(1,2) [OF inv this(2)] show ?thesis by (auto simp: cts_good_def)
  qed
  have fB: "cts_good e \<and> truthy email \<and> ub_corporate_email e = email" if "by_email = Some e" for e
  proof -
    from that E obtain h where "email = Some h" "dict_get (snd repo) h = Some e" by (cases email) auto
    with paired_okB(1,2) [OF inv this(2)] show ?thesis by (auto simp: cts_good_def)
  qed
  have H': "by_huid = Option.bind (only_truthy huid) (dict_get (fst repo))"
  proof (cases "truthy huid")
    case True
    then show ?thesis by (simp add: H only_truthy_def)
  next
    case False
    then have "by_huid = None" using fA by (cases by_huid) auto
    with False show ?thesis by (simp add: only_truthy_def)
  qed
  have E': "by_email = Option.bind (only_truthy email) (dict_get (snd repo))"
  proof (cases "truthy email")
    case True
    then show ?thesis by (simp add: E only_truthy_def)
  next
    case False
    then have "by_email = None" using fB by (cases by_email) auto
    with False show ?thesis by (simp add: only_truthy_def)
  qed
  have drop: "only_truthy (field_of ub_corporate_email by_huid) = Option.bind by_huid ub_corporate_email"
    "only_truthy (field_of ub_target_huid by_email) = Option.bind by_email ub_target_huid"
    using fA fB by (cases by_huid; cases by_email; fastforce simp: cts_good_def only_truthy_def truthy_def)+
  have "cts_good r"
    using fA fB by (cases by_huid; cases by_email)
      (auto simp: cts_good_def r cts_updated_def py_or_Some_Nil)
  moreover have "ub_target_huid r = (case only_truthy huid of
      Some a \<Rightarrow> Some a | None \<Rightarrow> Option.bind by_email ub_target_huid)"
    using fA by (cases by_huid; cases by_email)
      (auto simp: r cts_updated_def py_or_truthy only_truthy_def truthy_def split: option.split)
  moreover have "ub_corporate_email r = (case only_truthy email of
      Some a \<Rightarrow> Some a | None \<Rightarrow> Option.bind by_huid ub_corporate_email)"
    using fB by (cases by_huid; cases by_email)
      (auto simp: r cts_updated_def py_or_truthy only_truthy_def truthy_def split: option.split)
  ultimately show ?thesis unfolding repo' drop by (intro paired_ok_save [OF inv _ H' E'])
qed

interpretation cts_bindings: paired_store "\<lambda>s. dict_get (fst s)" "\<lambda>s. dict_get (snd s)"
  ub_target_huid ub_corporate_email cts_inv "\<lambda>_. True" cts_save
proof unfold_locales
  fix s q r s'
  assume inv: "cts_inv s"
  show "cts_inv s'" if "cts_save q s = Inr (r, s')" using inv that by (rule cts_inv_save)
  show "dict_get (fst s') a = Some r" if "cts_save q s = Inr (r, s')" "ub_target_huid r = Some a" for a
    using that by (auto elim!: cts_save_Inr simp: pair_store_get)
  show "dict_get (snd s') b = Some r" if "cts_save q s = Inr (r, s')" "ub_corporate_email r = Some b" for b
    using that by (auto elim!: cts_save_Inr simp: pair_store_get)
  show "ub_target_huid e = Some a \<and> (\<forall>b. ub_corporate_email e = Some b \<longrightarrow> dict_get (snd s) b = Some e)"
    if "dict_get (fst s) a = Some e" for a e
    using paired_okA [OF inv that] by blast
  show "ub_corporate_email e = Some b \<and> (\<forall>a. ub_target_huid e = Some a \<longrightarrow> dict_get (fst s) a = Some e)"
    if "dict_get (snd s) b = Some e" for b e
    using paired_okB [OF inv that] by blast
qed

lemma cts_inv_init: "cts_inv ([], [])"
  by (simp add: paired_ok_def)

section \<open>Identity mappings\<close>

text \<open>Both dictionaries are keyed by the express host, \<open>None\<close> for all hosts, and a name.\<close>

type_synonym identity_key = "string option \<times> string"

type_synonym identity_repo =
  "(identity_key, identity_mapping_record) dict \<times> (identity_key, identity_mapping_record) dict"

definition normalize_username :: "string \<Rightarrow> string" where
  "normalize_username s = py_lower (py_lstrip (\<lambda>c. c = CHR ''@'') (py_strip s))"

definition identity_get_by_user_id ::
    "identity_repo \<Rightarrow> string \<Rightarrow> string option \<Rightarrow> identity_mapping_record option" where
  "identity_get_by_user_id repo user host = dict_get (fst repo) (host, py_strip user)"

definition identity_get_by_username ::
    "identity_repo \<Rightarrow> string \<Rightarrow> string option \<Rightarrow> identity_mapping_record option" where
  "identity_get_by_username repo name host = dict_get (snd repo) (host, normalize_username name)"

definition identity_updated ::
    "identity_mapping_record \<Rightarrow> datetime \<Rightarrow> string option \<Rightarrow> string option \<Rightarrow> string option
      \<Rightarrow> identity_mapping_record option \<Rightarrow> identity_mapping_record" where
  "identity_updated r now host user name existing =
    \<lparr>im_telegram_user_id = py_or user (field_of im_telegram_user_id existing),
     im_telegram_username = py_or name (field_of im_telegram_username existing),
     im_telegram_display_name =
       py_or (im_telegram_display_name r) (field_of im_telegram_display_name existing),
     im_corporate_email = im_corporate_email r,
     im_target_huid = im_target_huid r,
     im_express_host = py_or host (field_of im_express_host existing),
     im_created_at = stamped im_created_at existing (im_created_at r) now,
     im_updated_at = (case im_updated_at r of None \<Rightarrow> Some now | Some t \<Rightarrow> Some t),
     im_last_resolved_at = im_last_resolved_at r\<rparr>"

definition host_key :: "string option \<Rightarrow> string option \<Rightarrow> identity_key option" where
  "host_key host name = map_option (Pair host) name"

definition identity_user_key :: "identity_mapping_record \<Rightarrow> identity_key option" where
  "identity_user_key r = host_key (im_express_host r) (im_telegram_user_id r)"

definition identity_name_key :: "identity_mapping_record \<Rightarrow> identity_key option" where
  "identity_name_key r = host_key (im_express_host r) (im_telegram_username r)"

definition identity_save ::
    "identity_mapping_record \<times> datetime \<Rightarrow> identity_repo
      \<Rightarrow> (error, identity_mapping_record \<times> identity_repo) outcome" where
  "identity_save q repo =
    (let r = fst q; now = snd q;
         user = map_option py_strip (im_telegram_user_id r);
         host = normalized (\<lambda>s. py_lower (py_strip s)) (im_express_host r);
         name = map_option normalize_username (im_telegram_username r);
         by_user = Option.bind (host_key host user) (dict_get (fst repo));
         by_name = Option.bind (host_key host name) (dict_get (snd repo));
         updated = identity_updated r now host user name (first_found by_user by_name)
     in Inr (updated, pair_store
          (Option.bind by_user (\<lambda>e. host_key (im_express_host e) (only_truthy (im_telegram_username e))))
          (Option.bind by_name (\<lambda>e. host_key (im_express_host e) (only_truthy (im_telegram_user_id e))))
          (identity_user_key updated) (identity_name_key updated) updated repo))"

definition identity_good :: "identity_mapping_record \<Rightarrow> bool" where
  "identity_good r \<longleftrightarrow> im_telegram_user_id r \<noteq> Some [] \<and> im_telegram_username r \<noteq> Some []"

abbreviation identity_inv :: "identity_repo \<Rightarrow> bool" where
  "identity_inv repo \<equiv> paired_ok identity_good identity_user_key identity_name_key repo"

text \<open>
  The host of a record to save is absent or has a visible character: a blank one is looked up
  under the empty host but stored under the host of the record found, or none.
\<close>

definition identity_valid :: "identity_mapping_record \<times> datetime \<Rightarrow> bool" where
  "identity_valid q \<longleftrightarrow> normalized (\<lambda>s. py_lower (py_strip s)) (im_express_host (fst q)) \<noteq> Some []"

lemma host_key_Some: "host_key h n = Some k \<longleftrightarrow> n = Some (snd k) \<and> fst k = h"
  by (cases k) (auto simp: host_key_def)

lemma identity_inv_save:
  assumes inv: "identity_inv repo" and valid: "identity_valid q"
    and save: "identity_save q repo = Inr (r, repo')"
  shows "identity_inv repo'"
proof -
  define host where "host = normalized (\<lambda>s. py_lower (py_strip s)) (im_express_host (fst q))"
  define user where "user = map_option py_strip (im_telegram_user_id (fst q))"
  define name where "name = map_option normalize_username (im_telegram_username (fst q))"
  define x where "x = Option.bind (host_key host user) (dict_get (fst repo))"
  define y where "y = Option.bind (host_key host name) (dict_get (snd repo))"
  have r: "r = identity_updated (fst q) (snd q) host user name (first_found x y)"
    and repo': "repo' = pair_store
          (Option.bind x (\<lambda>e. host_key (im_express_host e) (only_truthy (im_telegram_username e))))
          (Option.bind y (\<lambda>e. host_key (im_express_host e) (only_truthy (im_telegram_user_id e))))
          (identity_user_key r) (identity_name_key r) r repo"
    using save unfolding identity_save_def Let_def host_def [symmetric] user_def [symmetric]
      name_def [symmetric] x_def [symmetric] y_def [symmetric]
    by (auto simp only: sum.inject prod.inject)
  have fx: "identity_good e \<and> truthy user \<and> im_express_host e = host \<and> im_telegram_user_id e = user"
    if "x = Some e" for e
  proof -
    from that obtain k where "host_key host user = Some k" "dict_get (fst repo) k = Some e"
      unfolding x_def by (cases "host_key host user") auto
    with paired_okA(1,2) [OF inv this(2)] show ?thesis
      by (auto simp: identity_good_def identity_user_key_def host_key_Some truthy_def)
  qed
  have fy: "identity_good e \<and> truthy name \<and> im_express_host e = host \<and> im_telegram_username e = name"
    if "y = Some e" for e
  proof -
    from that obtain k where "host_key host name = Some k" "dict_get (snd repo) k = Some e"
      unfolding y_def by (cases "host_key host name") auto
    with paired_okB(1,2) [OF inv this(2)] show ?thesis
      by (auto simp: identity_good_def identity_name_key_def host_key_Some truthy_def)
  qed
  have ot: "only_truthy (im_telegram_username e) = im_telegram_username e"
    "only_truthy (im_telegram_user_id e) = im_telegram_user_id e" if "identity_good e" for e
    using that by (auto simp: identity_good_def only_truthy_def truthy_def)
  have drop: "Option.bind x (\<lambda>e. host_key (im_express_host e) (only_truthy (im_telegram_username e)))
      = Option.bind x identity_name_key"
    using fx ot by (cases x) (simp_all add: identity_name_key_def)
  have drop': "Option.bind y (\<lambda>e. host_key (im_express_host e) (only_truthy (im_telegram_user_id e)))
      = Option.bind y identity_user_key"
    using fy ot by (cases y) (simp_all add: identity_user_key_def)
  have x': "x = Option.bind (host_key host (only_truthy user)) (dict_get (fst repo))"
  proof (cases "truthy user")
    case True
    then show ?thesis by (simp add: x_def only_truthy_def)
  next
    case False
    then have "x = None" using fx by (cases x) auto
    with False show ?thesis by (simp add: only_truthy_def host_key_def)
  qed
  have y': "y = Option.bind (host_key host (only_truthy name)) (dict_get (snd repo))"
  proof (cases "truthy name")
    case True
    then show ?thesis by (simp add: y_def only_truthy_def)
  next
    case False
    then have "y = None" using fy by (cases y) auto
    with False show ?thesis by (simp add: only_truthy_def host_key_def)
  qed
  have host: "im_express_host r = host"
    using fx fy valid by (cases x; cases y)
      (auto simp: r identity_updated_def py_or_truthy truthy_def identity_valid_def host_def [symmetric])
  have "identity_good r"
    using fx fy by (cases x; cases y)
      (auto simp: identity_good_def r identity_updated_def py_or_Some_Nil)
  moreover have "identity_user_key r = (case host_key host (only_truthy user) of
      Some k \<Rightarrow> Some k | None \<Rightarrow> Option.bind y identity_user_key)"
  proof (cases "truthy user")
    case True
    then have "im_telegram_user_id r = user" by (simp add: r identity_updated_def py_or_truthy)
    with True show ?thesis
      by (auto simp: identity_user_key_def host only_truthy_def host_key_def truthy_def)
  next
    case False
    then have "x = None" using fx by (cases x) auto
    with False fy have "im_telegram_user_id r = field_of im_telegram_user_id y"
      by (simp add: r identity_updated_def py_or_truthy)
    with False fy show ?thesis
      by (cases y) (simp_all add: identity_user_key_def host only_truthy_def host_key_def)
  qed
  moreover have "identity_name_key r = (case host_key host (only_truthy name) of
      Some k \<Rightarrow> Some k | None \<Rightarrow> Option.bind x identity_name_key)"
  proof (cases "truthy name")
    case True
    then have "im_telegram_username r = name" by (simp add: r identity_updated_def py_or_truthy)
    with True show ?thesis
      by (auto simp: identity_name_key_def host only_truthy_def host_key_def truthy_def)
  next
    case False
    then have "y = None" using fy by (cases y) auto
    with False have "im_telegram_username r = field_of im_telegram_username x"
      by (cases x) (simp_all add: r identity_updated_def py_or_truthy)
    with False fx show ?thesis
      by (cases x) (simp_all add: identity_name_key_def host only_truthy_def host_key_def)
  qed
  ultimately show ?thesis unfolding repo' drop drop' by (intro paired_ok_save [OF inv _ x' y'])
qed

interpretation identities: paired_store "\<lambda>s. dict_get (fst s)" "\<lambda>s. dict_get (snd s)"
  identity_user_key identity_name_key identity_inv identity_valid identity_save
proof unfold_locales
  fix s q r s'
  assume inv: "identity_inv s"
  show "identity_inv s'" if "identity_valid q" "identity_save q s = Inr (r, s')"
    using inv that by (rule identity_inv_save)
  show "dict_get (fst s') a = Some r" if "identity_save q s = Inr (r, s')" "identity_user_key r = Some a" for a
    using that by (auto simp: identity_save_def Let_def pair_store_get)
  show "dict_get (snd s') b = Some r" if "identity_save q s = Inr (r, s')" "identity_name_key r = Some b" for b
    using that by (auto simp: identity_save_def Let_def pair_store_get)
  show "identity_user_key e = Some a \<and> (\<forall>b. identity_name_key e = Some b \<longrightarrow> dict_get (snd s) b = Some e)"
    if "dict_get (fst s) a = Some e" for a e
    using paired_okA [OF inv that] by blast
  show "identity_name_key e = Some b \<and> (\<forall>a. identity_user_key e = Some a \<longrightarrow> dict_get (fst s) a = Some e)"
    if "dict_get (snd s) b = Some e" for b e
    using paired_okB [OF inv that] by blast
qed

text \<open>
  Saving a record whose two keys lead to two others merges these: both keys lead to what is stored
  now, and nothing leads to the two any more.
\<close>

lemma identity_save_merges:
  assumes inv: "identity_inv s" and valid: "identity_valid q" and save: "identity_save q s = Inr (x, s')"
    and found: "dict_get (fst s) a = Some p" "dict_get (snd s) b = Some p'" "p \<noteq> p'"
    and keys: "identity_user_key x = Some a" "identity_name_key x = Some b"
  shows "identity_inv s' \<and> dict_get (fst s') a = Some x \<and> dict_get (snd s') b = Some x
    \<and> (\<forall>k. dict_get (fst s') k \<notin> {Some p, Some p'}) \<and> (\<forall>k. dict_get (snd s') k \<notin> {Some p, Some p'})"
proof -
  have inv': "identity_inv s'" by (rule identity_inv_save [OF inv valid save])
  have get: "dict_get (fst s') a = Some x" "dict_get (snd s') b = Some x"
    using save keys by (auto simp: identity_save_def Let_def pair_store_get)
  note old = paired_okA [OF inv found(1)] paired_okB [OF inv found(2)]
  have "x \<noteq> p" using paired_okA(3) [OF inv found(1)] keys(2) found(2,3) by (metis option.inject)
  have "x \<noteq> p'" using paired_okB(3) [OF inv found(2)] keys(1) found(1,3) by (metis option.inject)
  have "dict_get (fst s') k \<noteq> Some p" for k
    using paired_okA(2) [OF inv', of k p] old(2) get(1) \<open>x \<noteq> p\<close> by auto
  moreover have "dict_get (fst s') k \<noteq> Some p'" for k
    using paired_okA(3) [OF inv'] paired_okB(2) [OF inv found(2)] get(2) \<open>x \<noteq> p'\<close> by (metis option.inject)
  moreover have "dict_get (snd s') k \<noteq> Some p'" for k
    using paired_okB(2) [OF inv', of k p'] old(5) get(2) \<open>x \<noteq> p'\<close> by auto
  moreover have "dict_get (snd s') k \<noteq> Some p" for k
    using paired_okB(3) [OF inv'] paired_okA(2) [OF inv found(1)] get(1) \<open>x \<noteq> p\<close> by (metis option.inject)
  ultimately show ?thesis using inv' get by simp
qed

text \<open>The keys under which a record is saved are those it was given, normalised.\<close>

lemma identity_saved_keys:
  assumes "identity_save (r, now) s = Inr (x, s')"
    and "normalized (\<lambda>s. py_lower (py_strip s)) (im_express_host r) = Some host" "host \<noteq> []"
    and "normalized py_strip (im_telegram_user_id r) = Some user" "user \<noteq> []"
    and "normalized normalize_username (im_telegram_username r) = Some name" "name \<noteq> []"
  shows "identity_user_key x = Some (Some host, user)" and "identity_name_key x = Some (Some host, name)"
  using assms
  by (auto simp: identity_save_def identity_updated_def identity_user_key_def identity_name_key_def host_key_def Let_def
      normalized_def py_or_truthy split: if_splits)

lemma identity_inv_init: "identity_inv ([], [])"
  by (simp add: paired_ok_def)

section \<open>HUID bindings of bots\<close>

type_synonym bot_huid_repo = "(string, bot_huid_binding_record) dict"

definition bot_huid_get :: "bot_huid_repo \<Rightarrow> string \<Rightarrow> bot_huid_binding_record option" where
  "bot_huid_get repo bot_id = dict_get repo (py_strip bot_id)"

definition bot_huid_save ::
    "bot_huid_binding_record \<Rightarrow> datetime \<Rightarrow> bot_huid_repo
      \<Rightarrow> (error, bot_huid_binding_record \<times> bot_huid_repo) outcome" where
  "bot_huid_save r now repo =
    (let bot_id = py_strip (bb_bot_id r);
         host = py_lower (py_strip (bb_cts_host r));
         huid = py_strip (bb_bot_huid r)
     in if bot_id = [] then Inl (ValueError ''bot_id is required'')
        else if host = [] then Inl (ValueError ''cts_host is required'')
        else if huid = [] then Inl (ValueError ''bot_huid is required'')
        else
          let updated = \<lparr>bb_bot_id = bot_id, bb_cts_host = host, bb_bot_huid = huid,
                bb_created_at = stamped bb_created_at (dict_get repo bot_id) (bb_created_at r) now,
                bb_updated_at = (case bb_updated_at r of None \<Rightarrow> Some now | Some t \<Rightarrow> Some t),
                bb_last_learned_at = (case bb_last_learned_at r of None \<Rightarrow> Some now | Some t \<Rightarrow> Some t)\<rparr>
          in Inr (updated, dict_set bot_id updated repo))"

lemma bot_huid_save_get:
  assumes "bot_huid_save r now repo = Inr (b, repo')"
  shows "bot_huid_get repo' (bb_bot_id r) = Some b" and "bb_bot_id b = py_strip (bb_bot_id r)"
    and "bb_created_at b = stamped bb_created_at (bot_huid_get repo (bb_bot_id r)) (bb_created_at r) now"
    and "py_strip bot_id \<noteq> py_strip (bb_bot_id r) \<Longrightarrow> bot_huid_get repo' bot_id = bot_huid_get repo bot_id"
  using assms by (auto simp: bot_huid_save_def bot_huid_get_def Let_def split: if_splits)

end
