(* ===== verification/Telegram_Login.thy ===== *)
theory Telegram_Login
  imports Record_Stores
begin

text \<open>
  Connecting an operator's Telegram account, from \<open>extg_telethon_service\<close>: the session cipher
  (\<open>application/telegram_session_cipher.py\<close>), the store of pending login challenges
  (\<open>telegram_login_challenge_store.py\<close>), the operator session repository
  (\<open>infrastructure/persistence/in_memory.py\<close>) and \<open>TelegramSessionService\<close>
  (\<open>telegram_session_service.py\<close>). AES-GCM with its base64 envelope and the three Telegram
  login calls are parameters.
\<close>

section \<open>The session cipher\<close>

datatype open_error = NotBase64 | TooShort | Rejected

text \<open>
  \<open>cy_seal nonce text version\<close> is the url-safe base64 text of the nonce and the ciphertext;
  \<open>cy_open\<close> decodes and decrypts it, or says what failed.
\<close>

record session_cipher =
  cy_key_version :: string
  cy_seal :: "string \<Rightarrow> string \<Rightarrow> string \<Rightarrow> string"
  cy_open :: "string \<Rightarrow> string \<Rightarrow> open_error + string"

definition make_session_cipher ::
    "string \<Rightarrow> string \<Rightarrow> (string \<Rightarrow> string \<Rightarrow> string \<Rightarrow> string \<Rightarrow> string)
      \<Rightarrow> (string \<Rightarrow> string \<Rightarrow> string \<Rightarrow> open_error + string) \<Rightarrow> (error, session_cipher) outcome" where
  "make_session_cipher master_key key_version seal opn =
    (if py_strip master_key = []
     then Inl (ConfigurationError ''telegram session master key must not be empty'')
     else if py_strip key_version = []
     then Inl (ConfigurationError ''telegram session key version must not be empty'')
     else Inr \<lparr>cy_key_version = py_strip key_version, cy_seal = seal (py_strip master_key),
       cy_open = opn (py_strip master_key)\<rparr>)"

definition cipher_encrypt :: "session_cipher \<Rightarrow> string \<Rightarrow> string \<Rightarrow> (error, string) outcome" where
  "cipher_encrypt c nonce session =
    (if py_strip session = []
     then Inl (ConfigurationError ''telegram session string must not be empty'')
     else Inr (cy_key_version c @ '':'' @ cy_seal c nonce (py_strip session) (cy_key_version c)))"

definition split_payload :: "string \<Rightarrow> (error, string \<times> string) outcome" where
  "split_payload encrypted =
    (let s = py_strip encrypted in
     if CHR '':'' \<notin> set s then Inl (FatalItemError ''telegram session payload format is invalid'')
     else Inr (takeWhile (\<lambda>c. c \<noteq> CHR '':'') s, tl (dropWhile (\<lambda>c. c \<noteq> CHR '':'') s)))"

definition cipher_decrypt :: "session_cipher \<Rightarrow> string \<Rightarrow> (error, string) outcome" where
  "cipher_decrypt c encrypted =
    (case split_payload encrypted of
       Inl e \<Rightarrow> Inl e
     | Inr (version, encoded) \<Rightarrow>
         if version \<noteq> cy_key_version c
         then Inl (FatalItemError (''unsupported telegram session key version: '' @ version))
         else case cy_open c encoded version of
           Inl NotBase64 \<Rightarrow> Inl (FatalItemError ''telegram session payload is not valid base64'')
         | Inl TooShort \<Rightarrow> Inl (FatalItemError ''telegram session payload is too short'')
         | Inl Rejected \<Rightarrow> Inl (FatalItemError ''telegram session payload decryption failed'')
         | Inr plain \<Rightarrow>
             if py_strip plain = []
             then Inl (FatalItemError ''telegram session payload decrypted to an empty value'')
             else Inr (py_strip plain))"

lemma cipher_decrypt_fatal: "cipher_decrypt c x = Inl e \<Longrightarrow> \<exists>m. e = FatalItemError m"
  by (auto simp: cipher_decrypt_def split_payload_def Let_def
      split: sum.splits open_error.splits if_splits prod.splits)

text \<open>
  What the cryptography library promises: an envelope opens to what was sealed, under the same
  version, and its base64 text is not empty and has no blank at its end.
\<close>

definition cipher_lawful :: "session_cipher \<Rightarrow> bool" where
  "cipher_lawful c \<longleftrightarrow> (\<forall>n p. cy_open c (cy_seal c n p (cy_key_version c)) (cy_key_version c) = Inr p
    \<and> cy_seal c n p (cy_key_version c) \<noteq> []
    \<and> \<not> is_space (last (cy_seal c n p (cy_key_version c))))"

lemma py_strip_same:
  assumes "s \<noteq> []" and "\<not> is_space (hd s)" and "\<not> is_space (last s)"
  shows "py_strip s = s"
proof -
  have "dropWhile is_space s = s" using assms(1,2) by (simp add: dropWhile_eq_self_iff)
  moreover have "dropWhile is_space (rev s) = rev s"
    using assms(1,3) by (simp add: dropWhile_eq_self_iff hd_rev)
  ultimately show ?thesis by (simp add: py_strip_def py_lstrip_def py_rstrip_def)
qed

lemma py_strip_hd: "py_strip s \<noteq> [] \<Longrightarrow> \<not> is_space (hd (py_strip s))"
proof -
  assume "py_strip s \<noteq> []"
  moreover have "dropWhile is_space s = [] \<or> \<not> is_space (hd (dropWhile is_space s))"
    using hd_dropWhile by blast
  ultimately show "\<not> is_space (hd (py_strip s))"
    using py_rstrip_lstripped [of "dropWhile is_space s" is_space]
    by (auto simp: py_strip_def py_lstrip_def)
qed

lemma cipher_round_trip_aux:
  assumes "cipher_lawful c" and "cy_key_version c = py_strip v" and "py_strip v \<noteq> []"
    and "CHR '':'' \<notin> set (cy_key_version c)" and "cipher_encrypt c nonce s = Inr x"
  shows "cipher_decrypt c x = Inr (py_strip s) \<and> CHR '':'' \<in> set x"
proof -
  let ?v = "cy_key_version c" and ?e = "cy_seal c nonce (py_strip s) (cy_key_version c)"
  have x: "x = ?v @ '':'' @ ?e" and ns: "py_strip s \<noteq> []"
    using assms(5) by (auto simp: cipher_encrypt_def split: if_splits)
  have e: "cy_open c ?e ?v = Inr (py_strip s)" "?e \<noteq> []" "\<not> is_space (last ?e)"
    using assms(1) unfolding cipher_lawful_def by blast+
  have "\<not> is_space (hd ?v)" "?v \<noteq> []" using py_strip_hd assms(2,3) by simp_all
  with e have strip: "py_strip x = x" by (intro py_strip_same) (simp_all add: x)
  have ne: "c' \<noteq> CHR '':''" if "c' \<in> set ?v" for c' using assms(4) that by auto
  have "takeWhile (\<lambda>c. c \<noteq> CHR '':'') (?v @ '':'' @ ?e) = ?v"
    "dropWhile (\<lambda>c. c \<noteq> CHR '':'') (?v @ '':'' @ ?e) = '':'' @ ?e"
    using ne by (simp_all add: takeWhile_append2 dropWhile_append2)
  then have "split_payload x = Inr (?v, ?e)"
    by (simp add: split_payload_def strip Let_def) (simp add: x)
  with e(1) ns show ?thesis by (simp add: cipher_decrypt_def x)
qed

section \<open>Login challenges\<close>

record login_challenge =
  ch_challenge_id :: string
  ch_operator_huid :: string
  ch_phone_number :: string
  ch_session_string :: string
  ch_phone_code_hash :: string
  ch_expires_at :: datetime
  ch_requires_password :: bool

type_synonym challenge_store = "(string, login_challenge) dict"

definition challenge_ttl :: "int \<Rightarrow> timedelta" where
  "challenge_ttl ttl_seconds = max ttl_seconds 60 * one_second"

definition challenge_cleanup :: "datetime \<Rightarrow> challenge_store \<Rightarrow> challenge_store" where
  "challenge_cleanup now store =
    fold dict_pop (map fst (filter (\<lambda>(k, c). ch_expires_at c \<le> now) store)) store"

definition challenge_create ::
    "int \<Rightarrow> string \<Rightarrow> string \<Rightarrow> string \<Rightarrow> string \<Rightarrow> string \<Rightarrow> datetime \<Rightarrow> datetime
      \<Rightarrow> challenge_store \<Rightarrow> login_challenge \<times> challenge_store" where
  "challenge_create ttl uuid operator phone session code_hash stamp now store =
    (let c = \<lparr>ch_challenge_id = uuid, ch_operator_huid = operator, ch_phone_number = phone,
           ch_session_string = session, ch_phone_code_hash = code_hash,
           ch_expires_at = stamp + challenge_ttl ttl, ch_requires_password = False\<rparr>
     in (c, dict_set uuid c (challenge_cleanup now store)))"

definition challenge_get :: "string \<Rightarrow> datetime \<Rightarrow> challenge_store \<Rightarrow> login_challenge option \<times> challenge_store" where
  "challenge_get k now store = (let s = challenge_cleanup now store in (dict_get s k, s))"

definition challenge_mark_password_required ::
    "string \<Rightarrow> datetime \<Rightarrow> challenge_store \<Rightarrow> login_challenge option \<times> challenge_store" where
  "challenge_mark_password_required k now store =
    (let s = challenge_cleanup now store in
     case dict_get s k of
       None \<Rightarrow> (None, s)
     | Some c \<Rightarrow> let u = c\<lparr>ch_requires_password := True\<rparr> in (Some u, dict_set k u s))"

definition challenge_update_session_string ::
    "string \<Rightarrow> string \<Rightarrow> datetime \<Rightarrow> challenge_store \<Rightarrow> login_challenge option \<times> challenge_store" where
  "challenge_update_session_string k session now store =
    (let s = challenge_cleanup now store in
     case dict_get s k of
       None \<Rightarrow> (None, s)
     | Some c \<Rightarrow> let u = c\<lparr>ch_session_string := session\<rparr> in (Some u, dict_set k u s))"

definition challenge_delete :: "string \<Rightarrow> challenge_store \<Rightarrow> bool \<times> challenge_store" where
  "challenge_delete k store = (dict_get store k \<noteq> None, dict_pop k store)"

lemma dict_get_fold_pop: "dict_get (fold dict_pop ks d) k = (if k \<in> set ks then None else dict_get d k)"
  by (induction ks arbitrary: d) auto

lemma challenge_cleanup_get:
  assumes "dict_ok store"
  shows "dict_get (challenge_cleanup now store) k =
    (case dict_get store k of None \<Rightarrow> None | Some c \<Rightarrow> if ch_expires_at c \<le> now then None else Some c)"
proof (cases "dict_get store k")
  case None
  then show ?thesis by (simp add: challenge_cleanup_def dict_get_fold_pop)
next
  case (Some c)
  have "k \<in> set (map fst (filter (\<lambda>(k, c). ch_expires_at c \<le> now) store)) \<longleftrightarrow> ch_expires_at c \<le> now"
    using Some dict_mem_iff [OF assms, of k] by force
  with Some show ?thesis by (simp add: challenge_cleanup_def dict_get_fold_pop del: set_map)
qed

lemma dict_ok_cleanup [intro]: "dict_ok store \<Longrightarrow> dict_ok (challenge_cleanup now store)"
proof -
  have "dict_ok d \<Longrightarrow> dict_ok (fold dict_pop ks d)" for ks and d :: challenge_store
    by (induction ks arbitrary: d) (simp_all add: dict_ok_pop)
  then show "dict_ok store \<Longrightarrow> dict_ok (challenge_cleanup now store)"
    by (simp add: challenge_cleanup_def)
qed

section \<open>Operator sessions\<close>

type_synonym session_repo = "(string, operator_session_record) dict"

definition session_get :: "session_repo \<Rightarrow> string \<Rightarrow> operator_session_record option" where
  "session_get repo operator = dict_get repo operator"

definition session_save ::
    "operator_session_record \<Rightarrow> session_repo \<Rightarrow> operator_session_record \<times> session_repo" where
  "session_save r repo =
    (let updated = (case dict_get repo (os_operator_huid r) of
           None \<Rightarrow> r | Some existing \<Rightarrow> r\<lparr>os_created_at := os_created_at existing\<rparr>)
     in (updated, dict_set (os_operator_huid r) updated repo))"

definition session_delete :: "string \<Rightarrow> session_repo \<Rightarrow> bool \<times> session_repo" where
  "session_delete operator repo = (dict_get repo operator \<noteq> None, dict_pop operator repo)"

lemma session_save_get:
  "session_get (snd (session_save r repo)) k =
    (if k = os_operator_huid r then Some (fst (session_save r repo)) else session_get repo k)"
  by (simp add: session_save_def session_get_def Let_def)

lemma session_save_fields:
  "os_session_path (fst (session_save r repo)) = os_session_path r"
  "os_phone_number (fst (session_save r repo)) = os_phone_number r"
  "os_operator_huid (fst (session_save r repo)) = os_operator_huid r"
  by (simp_all add: session_save_def Let_def split: option.split)

section \<open>The session service\<close>

record service_config =
  sv_bot_settings :: "(string option \<times> string list) option"
  sv_cipher :: session_cipher
  sv_challenge_ttl :: int

record service_state =
  ss_challenges :: challenge_store
  ss_sessions :: session_repo
  ss_audit :: audit_log
  ss_closed :: "string list"

text \<open>The clock readings and random values of one call.\<close>

record service_env =
  ev_check :: datetime
  ev_recheck :: datetime
  ev_stamp :: datetime
  ev_persist :: datetime
  ev_audit :: datetime
  ev_uuid :: string
  ev_nonce :: string

text \<open>What the Telegram login calls answer.\<close>

record code_request_result =
  lr_phone_number :: string
  lr_session_string :: string
  lr_code_sent :: bool
  lr_phone_code_hash :: "string option"
  lr_already_authorized :: bool
  lr_user_id :: "string option"
  lr_username :: "string option"
  lr_display_name :: "string option"

record bootstrap_result =
  bo_phone_number :: string
  bo_session_string :: string
  bo_already_authorized :: bool
  bo_user_id :: string
  bo_username :: "string option"
  bo_display_name :: string

datatype request_failure = PhoneTypeError | RequestRaised error

record session_status =
  su_operator_huid :: string
  su_connected :: bool
  su_source :: string
  su_phone_number :: "string option"
  su_telegram_user_id :: "string option"
  su_telegram_username :: "string option"
  su_telegram_display_name :: "string option"
  su_session_bound :: bool
  su_updated_at :: "datetime option"
  su_last_used_at :: "datetime option"

text \<open>\<open>TelegramConnectionChallengeResult\<close> and \<open>TelegramPasswordChallengeResult\<close>, or a status.\<close>

datatype login_answer = CodeChallenge string string string | PasswordChallenge string string string
  | Status session_status

definition mask_phone_number :: "string \<Rightarrow> string" where
  "mask_phone_number phone =
    (let s = py_strip phone in
     if length s \<le> 4 then replicate (length s) CHR ''*''
     else take 2 s @ ''***'' @ drop (length s - 2) s)"

definition has_bound_session :: "operator_session_record \<Rightarrow> bool" where
  "has_bound_session r \<longleftrightarrow> os_session_path r \<noteq> [] \<and> CHR '':'' \<in> set (os_session_path r)"

definition decrypt_session :: "session_cipher \<Rightarrow> operator_session_record \<Rightarrow> string option" where
  "decrypt_session c r =
    (if \<not> has_bound_session r then None
     else case cipher_decrypt c (os_session_path r) of Inl _ \<Rightarrow> None | Inr s \<Rightarrow> Some s)"

definition status_from_record :: "session_cipher \<Rightarrow> operator_session_record \<Rightarrow> session_status" where
  "status_from_record c r = \<lparr>su_operator_huid = os_operator_huid r, su_connected = True,
     su_source = ''operator_binding'', su_phone_number = Some (os_phone_number r),
     su_telegram_user_id = Some (os_telegram_user_id r),
     su_telegram_username = os_telegram_username r,
     su_telegram_display_name = Some (os_telegram_display_name r),
     su_session_bound = (decrypt_session c r \<noteq> None),
     su_updated_at = Some (os_updated_at r), su_last_used_at = os_last_used_at r\<rparr>"

definition service_authorize :: "service_config \<Rightarrow> string \<Rightarrow> error option" where
  "service_authorize cfg operator =
    (let allowed = (case sv_bot_settings cfg of None \<Rightarrow> [] | Some (_, hs) \<Rightarrow> hs) in
     if allowed = [] \<or> operator \<in> set allowed then None
     else Some (FatalItemError (''user huid='' @ operator @ '' is not allowed to manage migrations'')))"

definition migration_id_for_tracking :: "service_config \<Rightarrow> string" where
  "migration_id_for_tracking cfg =
    (case sv_bot_settings cfg of
       Some (Some (c # cs), _) \<Rightarrow> c # cs | _ \<Rightarrow> ''bot_telegram_session'')"

definition service_audit ::
    "service_config \<Rightarrow> string \<Rightarrow> string \<Rightarrow> (string \<times> json) list \<Rightarrow> datetime \<Rightarrow> service_state \<Rightarrow> service_state" where
  "service_audit cfg event_type operator payload now s = s\<lparr>ss_audit := audit_add
     \<lparr>ae_migration_id = migration_id_for_tracking cfg, ae_event_type = event_type,
      ae_severity = SevInfo, ae_created_at = now, ae_source_chat_id = None,
      ae_source_message_id = None,
      ae_payload_json = (''operator_huid'', JStr operator) # payload\<rparr> (ss_audit s)\<rparr>"

definition persist_session ::
    "service_config \<Rightarrow> string \<Rightarrow> bootstrap_result \<Rightarrow> service_env \<Rightarrow> service_state
      \<Rightarrow> (error, operator_session_record) outcome \<times> service_state" where
  "persist_session cfg operator b env s =
    (case cipher_encrypt (sv_cipher cfg) (ev_nonce env) (bo_session_string b) of
       Inl e \<Rightarrow> (Inl e, s)
     | Inr path \<Rightarrow>
         let now = ev_persist env;
             (r, repo) = session_save \<lparr>os_operator_huid = operator,
               os_phone_number = mask_phone_number (bo_phone_number b), os_session_path = path,
               os_telegram_user_id = bo_user_id b, os_telegram_username = bo_username b,
               os_telegram_display_name = bo_display_name b,
               os_created_at = (case session_get (ss_sessions s) operator of
                   None \<Rightarrow> now | Some x \<Rightarrow> os_created_at x),
               os_updated_at = now, os_last_used_at = Some now\<rparr> (ss_sessions s)
         in (Inr r, s\<lparr>ss_sessions := repo\<rparr>))"

text \<open>The common end of every successful login: persist, audit, report.\<close>

definition connect_session ::
    "service_config \<Rightarrow> string \<Rightarrow> string \<Rightarrow> bootstrap_result \<Rightarrow> service_env \<Rightarrow> service_state
      \<Rightarrow> (error, login_answer) outcome \<times> service_state" where
  "connect_session cfg operator source b env s =
    (case persist_session cfg operator b env s of
       (Inl e, s') \<Rightarrow> (Inl e, s')
     | (Inr r, s') \<Rightarrow> (Inr (Status (status_from_record (sv_cipher cfg) r)),
         service_audit cfg ''telegram_session_connected'' operator [(''source'', JStr source)]
           (ev_audit env) s'))"

definition start_connection ::
    "service_config \<Rightarrow> (string \<Rightarrow> bool \<Rightarrow> request_failure + code_request_result) \<Rightarrow> string \<Rightarrow> string
      \<Rightarrow> bool \<Rightarrow> service_env \<Rightarrow> service_state \<Rightarrow> (error, login_answer) outcome \<times> service_state" where
  "start_connection cfg request operator phone force_sms env s =
    (case service_authorize cfg operator of
       Some e \<Rightarrow> (Inl e, s)
     | None \<Rightarrow>
     if py_strip phone = [] then (Inl (ConfigurationError ''telegram phone number is required''), s)
     else if (case session_get (ss_sessions s) operator of
           None \<Rightarrow> False | Some r \<Rightarrow> decrypt_session (sv_cipher cfg) r \<noteq> None)
     then (Inl (ConfigurationError (''telegram session is already connected for this user; ''
             @ ''use /disconnect before reconnecting'')), s)
     else
       let s1 = (if session_get (ss_sessions s) operator = None then s
                 else s\<lparr>ss_sessions := snd (session_delete operator (ss_sessions s))\<rparr>)
       in case request (py_strip phone) force_sms of
            Inl PhoneTypeError \<Rightarrow> (Inl (ConfigurationError (''telegram phone number is invalid; ''
               @ ''send it in format +79990001122'')), s1)
          | Inl (RequestRaised e) \<Rightarrow> (Inl e, s1)
          | Inr r \<Rightarrow>
              if lr_already_authorized r then
                connect_session cfg operator ''existing_authorized_session''
                  \<lparr>bo_phone_number = lr_phone_number r, bo_session_string = lr_session_string r,
                   bo_already_authorized = True,
                   bo_user_id = (case py_or (lr_user_id r) (Some []) of Some u \<Rightarrow> u | None \<Rightarrow> []),
                   bo_username = lr_username r,
                   bo_display_name = (case py_or (lr_display_name r) (py_or (lr_username r)
                       (py_or (lr_user_id r) (Some ''telegram_user''))) of Some d \<Rightarrow> d | None \<Rightarrow> [])\<rparr>
                  env s1
              else if \<not> truthy (lr_phone_code_hash r) then
                (Inl (FatalItemError ''telegram did not return phone_code_hash for login challenge''), s1)
              else
                let (c, store) = challenge_create (sv_challenge_ttl cfg) (ev_uuid env) operator
                      (lr_phone_number r) (lr_session_string r) (the (lr_phone_code_hash r))
                      (ev_stamp env) (ev_check env) (ss_challenges s1);
                    masked = mask_phone_number (lr_phone_number r)
                in (Inr (CodeChallenge operator masked (ch_challenge_id c)),
                    service_audit cfg ''telegram_session_code_requested'' operator
                      [(''phone_number'', JStr masked)] (ev_audit env)
                      (s1\<lparr>ss_challenges := store\<rparr>)))"

text \<open>\<open>_get_challenge\<close>: only the operator who opened a challenge can use it.\<close>

definition service_challenge ::
    "string \<Rightarrow> string \<Rightarrow> service_env \<Rightarrow> service_state \<Rightarrow> (error, login_challenge) outcome \<times> service_state" where
  "service_challenge operator k env s =
    (let (c, store) = challenge_get k (ev_check env) (ss_challenges s);
         s' = s\<lparr>ss_challenges := store\<rparr>;
         expired = Inl (ConfigurationError ''telegram login challenge expired; run /connect again'')
     in case c of
          None \<Rightarrow> (expired, s')
        | Some x \<Rightarrow> if ch_operator_huid x \<noteq> operator then (expired, s') else (Inr x, s'))"

definition complete_code ::
    "service_config \<Rightarrow> (login_challenge \<Rightarrow> string \<Rightarrow> (error, bootstrap_result) outcome) \<Rightarrow> string
      \<Rightarrow> string \<Rightarrow> string \<Rightarrow> service_env \<Rightarrow> service_state
      \<Rightarrow> (error, login_answer) outcome \<times> service_state" where
  "complete_code cfg login operator k code env s =
    (case service_authorize cfg operator of
       Some e \<Rightarrow> (Inl e, s)
     | None \<Rightarrow>
     (case service_challenge operator k env s of
        (Inl e, s') \<Rightarrow> (Inl e, s')
      | (Inr c, s') \<Rightarrow>
          (case login c code of
             Inl (TwoFactorPasswordRequiredError m) \<Rightarrow>
               let masked = mask_phone_number (ch_phone_number c);
                   s'' = s'\<lparr>ss_challenges :=
                     snd (challenge_mark_password_required k (ev_recheck env) (ss_challenges s'))\<rparr>
               in (Inr (PasswordChallenge operator masked k),
                   service_audit cfg ''telegram_session_password_required'' operator
                     [(''phone_number'', JStr masked)] (ev_audit env) s'')
           | Inl e \<Rightarrow> (Inl e, s')
           | Inr b \<Rightarrow> connect_session cfg operator ''code_confirmation'' b env
               (s'\<lparr>ss_challenges := snd (challenge_delete k (ss_challenges s'))\<rparr>))))"

definition complete_password ::
    "service_config \<Rightarrow> (login_challenge \<Rightarrow> string \<Rightarrow> (error, bootstrap_result) outcome) \<Rightarrow> string
      \<Rightarrow> string \<Rightarrow> string \<Rightarrow> service_env \<Rightarrow> service_state
      \<Rightarrow> (error, login_answer) outcome \<times> service_state" where
  "complete_password cfg login operator k password env s =
    (case service_authorize cfg operator of
       Some e \<Rightarrow> (Inl e, s)
     | None \<Rightarrow>
     (case service_challenge operator k env s of
        (Inl e, s') \<Rightarrow> (Inl e, s')
      | (Inr c, s') \<Rightarrow>
          if \<not> ch_requires_password c then
            (Inl (ConfigurationError (''telegram password challenge is not active; ''
               @ ''request a new login code'')), s')
          else (case login c password of
             Inl e \<Rightarrow> (Inl e, s')
           | Inr b \<Rightarrow> connect_session cfg operator ''password_confirmation'' b env
               (s'\<lparr>ss_challenges := snd (challenge_delete k (ss_challenges s'))\<rparr>))))"

definition service_status :: "service_config \<Rightarrow> string \<Rightarrow> service_state \<Rightarrow> (error, session_status) outcome" where
  "service_status cfg operator s =
    (case service_authorize cfg operator of
       Some e \<Rightarrow> Inl e
     | None \<Rightarrow>
     (case session_get (ss_sessions s) operator of
        None \<Rightarrow> Inr \<lparr>su_operator_huid = operator, su_connected = False, su_source = ''not_connected'',
          su_phone_number = None, su_telegram_user_id = None, su_telegram_username = None,
          su_telegram_display_name = None, su_session_bound = False, su_updated_at = None,
          su_last_used_at = None\<rparr>
      | Some r \<Rightarrow>
          if decrypt_session (sv_cipher cfg) r = None then
            Inr \<lparr>su_operator_huid = operator, su_connected = False,
              su_source = ''legacy_session_reconnect_required'',
              su_phone_number = Some (os_phone_number r),
              su_telegram_user_id = Some (os_telegram_user_id r),
              su_telegram_username = os_telegram_username r,
              su_telegram_display_name = Some (os_telegram_display_name r),
              su_session_bound = False, su_updated_at = Some (os_updated_at r),
              su_last_used_at = os_last_used_at r\<rparr>
          else Inr (status_from_record (sv_cipher cfg) r)))"

text \<open>Closing the gateway's connection is an outside call; the sessions it was asked for are kept.\<close>

definition disconnect_session ::
    "service_config \<Rightarrow> string \<Rightarrow> service_env \<Rightarrow> service_state \<Rightarrow> (error, bool) outcome \<times> service_state" where
  "disconnect_session cfg operator env s =
    (case service_authorize cfg operator of
       Some e \<Rightarrow> (Inl e, s)
     | None \<Rightarrow>
     (case session_get (ss_sessions s) operator of
        None \<Rightarrow> (Inr False, s)
      | Some r \<Rightarrow>
          let s1 = (case decrypt_session (sv_cipher cfg) r of
                None \<Rightarrow> s | Some x \<Rightarrow> s\<lparr>ss_closed := ss_closed s @ [x]\<rparr>);
              (deleted, repo) = session_delete operator (ss_sessions s1);
              s2 = s1\<lparr>ss_sessions := repo\<rparr>
          in (Inr deleted, if deleted then service_audit cfg ''telegram_session_disconnected'' operator
                [(''scope'', JStr ''operator_binding'')] (ev_audit env) s2 else s2)))"

definition resolve_session_string ::
    "service_config \<Rightarrow> string \<Rightarrow> bool \<Rightarrow> service_env \<Rightarrow> service_state \<Rightarrow> (error, string) outcome \<times> service_state" where
  "resolve_session_string cfg operator mark_used env s =
    (case service_authorize cfg operator of
       Some e \<Rightarrow> (Inl e, s)
     | None \<Rightarrow>
     (case session_get (ss_sessions s) operator of
        None \<Rightarrow> (Inl (ConfigurationError (''telegram session is not connected for this user; ''
            @ ''use /connect first'')), s)
      | Some r \<Rightarrow>
          if \<not> has_bound_session r then
            (Inl (ConfigurationError (''telegram session is not connected for this user; ''
               @ ''use /connect first'')), s)
          else (case decrypt_session (sv_cipher cfg) r of
             None \<Rightarrow> (Inl (ConfigurationError (''telegram session cannot be decrypted; ''
                 @ ''reconnect via /connect'')),
               s\<lparr>ss_sessions := snd (session_delete operator (ss_sessions s))\<rparr>)
           | Some x \<Rightarrow>
               (Inr x, if mark_used then s\<lparr>ss_sessions := snd (session_save
                  (r\<lparr>os_updated_at := ev_persist env, os_last_used_at := Some (ev_persist env)\<rparr>)
                  (ss_sessions s))\<rparr> else s))))"

section \<open>Effects\<close>

lemma service_authorize_allowed:
  "service_authorize cfg operator = None \<longleftrightarrow>
    (case sv_bot_settings cfg of None \<Rightarrow> True | Some (_, hs) \<Rightarrow> hs = [] \<or> operator \<in> set hs)"
  by (auto simp: service_authorize_def Let_def split: option.splits)

lemma service_challenge_Inr:
  assumes "dict_ok (ss_challenges s)" and "service_challenge operator k env s = (Inr c, s')"
  shows "dict_get (ss_challenges s) k = Some c \<and> ch_operator_huid c = operator \<and> ev_check env < ch_expires_at c
    \<and> s' = s\<lparr>ss_challenges := challenge_cleanup (ev_check env) (ss_challenges s)\<rparr>"
  using assms
  by (auto simp: service_challenge_def challenge_get_def Let_def challenge_cleanup_get
      split: option.splits if_splits)

lemma connect_session_state:
  "ss_challenges (snd (connect_session cfg operator source b env s)) = ss_challenges s"
  by (simp add: connect_session_def persist_session_def service_audit_def Let_def
      split: sum.split prod.split)

lemma connect_session_other:
  assumes "h \<noteq> operator"
  shows "session_get (ss_sessions (snd (connect_session cfg operator source b env s))) h =
    session_get (ss_sessions s) h"
  using assms
  by (simp add: connect_session_def persist_session_def service_audit_def session_save_def
      session_get_def Let_def split: sum.split prod.split)

lemma connect_session_Inr:
  assumes "connect_session cfg operator source b env s = (Inr a, s')"
  shows "\<exists>r. session_get (ss_sessions s') operator = Some r
    \<and> cipher_encrypt (sv_cipher cfg) (ev_nonce env) (bo_session_string b) = Inr (os_session_path r)
    \<and> os_phone_number r = mask_phone_number (bo_phone_number b)
    \<and> os_operator_huid r = operator \<and> a = Status (status_from_record (sv_cipher cfg) r)"
  using assms
  by (auto simp: connect_session_def persist_session_def service_audit_def session_save_get
      session_save_fields Let_def split: sum.splits prod.splits)
    (metis fst_conv session_save_fields session_save_get snd_conv operator_session_record.select_convs)+

lemma complete_code_Inr:
  assumes "complete_code cfg login operator k code env s = (Inr a, s')"
  obtains (connected) c s1 b where "service_challenge operator k env s = (Inr c, s1)"
      "login c code = Inr b"
      "connect_session cfg operator ''code_confirmation'' b env
        (s1\<lparr>ss_challenges := dict_pop k (ss_challenges s1)\<rparr>) = (Inr a, s')"
  | (password) c s1 m where "service_challenge operator k env s = (Inr c, s1)"
      "login c code = Inl (TwoFactorPasswordRequiredError m)"
      "a = PasswordChallenge operator (mask_phone_number (ch_phone_number c)) k"
proof -
  have auth: "service_authorize cfg operator = None"
    using assms by (cases "service_authorize cfg operator") (simp_all add: complete_code_def)
  obtain x s1 where ch: "service_challenge operator k env s = (x, s1)" by fastforce
  with assms auth obtain c where c: "x = Inr c" by (cases x) (simp_all add: complete_code_def)
  show thesis
  proof (cases "login c code")
    case (Inr b)
    with assms auth ch c have "connect_session cfg operator ''code_confirmation'' b env
        (s1\<lparr>ss_challenges := dict_pop k (ss_challenges s1)\<rparr>) = (Inr a, s')"
      by (simp add: complete_code_def challenge_delete_def)
    with ch c Inr show thesis by (intro connected) simp_all
  next
    case (Inl e)
    with assms auth ch c obtain m where "e = TwoFactorPasswordRequiredError m"
      by (cases e) (simp_all add: complete_code_def)
    with assms auth ch c Inl show thesis
      by (intro password) (auto simp: complete_code_def Let_def)
  qed
qed

lemma complete_code_connected:
  assumes "complete_code cfg login operator k code env s = (Inr (Status st), s')"
  obtains c s1 b where "service_challenge operator k env s = (Inr c, s1)" "login c code = Inr b"
    "connect_session cfg operator ''code_confirmation'' b env
      (s1\<lparr>ss_challenges := dict_pop k (ss_challenges s1)\<rparr>) = (Inr (Status st), s')"
  using assms by (rule complete_code_Inr) auto

lemma connect_session_challenges:
  "connect_session cfg operator source b env s = (x, s') \<Longrightarrow> ss_challenges s' = ss_challenges s"
  using connect_session_state [of cfg operator source b env s] by simp

text \<open>
  The store invariants of the service: distinct challenge ids, each challenge under its own id;
  each session under its operator, with the phone number masked.
\<close>

definition masked :: "string \<Rightarrow> bool" where
  "masked m \<longleftrightarrow> (\<exists>phone. m = mask_phone_number phone)"

definition service_inv :: "service_state \<Rightarrow> bool" where
  "service_inv s \<longleftrightarrow> keyed_dict ch_challenge_id (ss_challenges s)
    \<and> keyed_dict os_operator_huid (ss_sessions s)
    \<and> (\<forall>h r. session_get (ss_sessions s) h = Some r \<longrightarrow> masked (os_phone_number r))"

lemma keyed_cleanup: "keyed_dict ch_challenge_id store \<Longrightarrow> keyed_dict ch_challenge_id (challenge_cleanup now store)"
proof -
  assume k: "keyed_dict ch_challenge_id store"
  have "set (dict_pop k d) \<subseteq> set d" for k and d :: challenge_store
    by (induction d) auto
  then have "set (fold dict_pop ks d) \<subseteq> set d" for ks and d :: challenge_store
    by (induction ks arbitrary: d) (simp, fastforce)
  then have "set (challenge_cleanup now store) \<subseteq> set store" by (simp add: challenge_cleanup_def)
  moreover have "dict_ok (challenge_cleanup now store)" using k by (intro dict_ok_cleanup keyed_dict_ok)
  ultimately show ?thesis using k by (auto simp: keyed_dict_def)
qed

end
