(* ===== verification/Command_Parser.thy ===== *)
theory Command_Parser
  imports Rendering
begin

text \<open>
  The arguments of the bot's commands, from \<open>presentation/bot/command_parser.py\<close>:
  \<open>shlex.split\<close> into words (its POSIX state machine, written out), options and positionals, and
  the parser of each command. A \<open>CommandArgumentError\<close> is its message.
\<close>

type_synonym 'a parsed = "(string, 'a) outcome"

section \<open>Splitting words\<close>

datatype lex_state = Blank | Word | Quoted char | Escaped "char option"

definition lex_space :: "char \<Rightarrow> bool" where
  "lex_space c \<longleftrightarrow> c \<in> {CHR '' '', CHR 0x09, CHR 0x0D, CHR 0x0A}"

definition squote :: char where "squote = CHR 0x27"

definition dquote :: char where "dquote = CHR 0x22"

definition backslash :: char where "backslash = CHR 0x5C"

text \<open>
  \<open>shlex.read_token\<close> with \<open>whitespace_split\<close>, over the whole input: state, token so far, and
  whether a quote was seen. An escape remembers the quote it occurred in.
\<close>

fun shlex_words :: "lex_state \<Rightarrow> string \<Rightarrow> bool \<Rightarrow> string \<Rightarrow> string list parsed" where
  "shlex_words Blank tok q [] = Inr []"
| "shlex_words Word tok q [] = Inr (if tok = [] \<and> \<not> q then [] else [tok])"
| "shlex_words (Quoted k) tok q [] = Inl ''No closing quotation''"
| "shlex_words (Escaped e) tok q [] = Inl ''No escaped character''"
| "shlex_words Blank tok q (c # cs) =
    (if lex_space c then shlex_words Blank tok q cs
     else if c = backslash then shlex_words (Escaped None) tok q cs
     else if c = squote \<or> c = dquote then shlex_words (Quoted c) tok q cs
     else shlex_words Word [c] q cs)"
| "shlex_words Word tok q (c # cs) =
    (if lex_space c then
       (if tok \<noteq> [] \<or> q then
          (case shlex_words Blank [] False cs of Inl e \<Rightarrow> Inl e | Inr ws \<Rightarrow> Inr (tok # ws))
        else shlex_words Blank tok q cs)
     else if c = squote \<or> c = dquote then shlex_words (Quoted c) tok q cs
     else if c = backslash then shlex_words (Escaped None) tok q cs
     else shlex_words Word (tok @ [c]) q cs)"
| "shlex_words (Quoted k) tok q (c # cs) =
    (if c = k then shlex_words Word tok True cs
     else if c = backslash \<and> k = dquote then shlex_words (Escaped (Some k)) tok True cs
     else shlex_words (Quoted k) (tok @ [c]) True cs)"
| "shlex_words (Escaped e) tok q (c # cs) =
    (let tok' = (case e of
           Some k \<Rightarrow> if c \<noteq> backslash \<and> c \<noteq> k then tok @ [backslash] else tok | None \<Rightarrow> tok)
     in shlex_words (case e of Some k \<Rightarrow> Quoted k | None \<Rightarrow> Word) (tok' @ [c]) q cs)"

definition shlex_split :: "string \<Rightarrow> string list parsed" where
  "shlex_split s = shlex_words Blank [] False s"

section \<open>Options and positionals\<close>

type_synonym options = "(string, string) dict"

record parsed_arguments =
  pa_positionals :: "string list"
  pa_options :: options

definition option_key :: "string \<Rightarrow> string" where
  "option_key s = map (\<lambda>c. if c = CHR ''-'' then CHR ''_'' else c) (py_lower (py_strip s))"

fun parse_tokens :: "string list \<Rightarrow> string list \<Rightarrow> options \<Rightarrow> parsed_arguments parsed" where
  "parse_tokens [] positionals options = Inr \<lparr>pa_positionals = positionals, pa_options = options\<rparr>"
| "parse_tokens (tok # toks) positionals options =
    (if CHR ''='' \<notin> set tok then parse_tokens toks (positionals @ [tok]) options
     else
       let key = option_key (takeWhile (\<lambda>c. c \<noteq> CHR ''='') tok);
           val = py_strip (tl (dropWhile (\<lambda>c. c \<noteq> CHR ''='') tok))
       in if key = [] then Inl (''invalid option token: '' @ py_repr tok)
          else parse_tokens toks positionals (dict_set key val options))"

definition parse_arguments :: "string \<Rightarrow> parsed_arguments parsed" where
  "parse_arguments argument =
    (case shlex_split argument of Inl e \<Rightarrow> Inl e | Inr toks \<Rightarrow> parse_tokens toks [] [])"

text \<open>\<open>options.pop(key, None)\<close>\<close>

definition pop_option :: "string \<Rightarrow> options \<Rightarrow> string option \<times> options" where
  "pop_option k options = (dict_get options k, dict_pop k options)"

text \<open>\<open>options.pop(k1, None) or options.pop(k2, None) or ...\<close>: later keys are popped only if needed.\<close>

fun pop_first :: "string list \<Rightarrow> options \<Rightarrow> string option \<times> options" where
  "pop_first [] options = (None, options)"
| "pop_first [k] options = pop_option k options"
| "pop_first (k # ks) options =
    (let (v, options') = pop_option k options in
     if truthy v then (v, options') else pop_first ks options')"

fun join_comma :: "string list \<Rightarrow> string" where
  "join_comma [] = []"
| "join_comma [s] = s"
| "join_comma (s # ss) = s @ '', '' @ join_comma ss"

definition reject_unknown :: "options \<Rightarrow> unit parsed" where
  "reject_unknown options =
    (if options \<noteq> [] then Inl (''unsupported options: '' @ join_comma (sort (map fst options)))
     else Inr ())"

abbreviation bind_parsed :: "'a parsed \<Rightarrow> ('a \<Rightarrow> 'b parsed) \<Rightarrow> 'b parsed" where
  "bind_parsed x f \<equiv> (case x of Inl e \<Rightarrow> Inl e | Inr a \<Rightarrow> f a)"

section \<open>Values\<close>

definition parse_optional_bool :: "string option \<Rightarrow> string \<Rightarrow> bool option parsed" where
  "parse_optional_bool value name =
    (case value of
       None \<Rightarrow> Inr None
     | Some v \<Rightarrow>
         let n = py_lower (py_strip v) in
         if n \<in> {''on'', ''true'', ''1'', ''yes''} then Inr (Some True)
         else if n \<in> {''off'', ''false'', ''0'', ''no''} then Inr (Some False)
         else Inl (name @ '' must be one of: on, off''))"

definition parse_choice :: "(string \<times> string) list \<Rightarrow> string \<Rightarrow> string option \<Rightarrow> string option parsed" where
  "parse_choice mapping message value =
    (case value of
       None \<Rightarrow> Inr None
     | Some v \<Rightarrow>
         (case map_of mapping (py_lower (py_strip v)) of
            None \<Rightarrow> Inl message | Some r \<Rightarrow> Inr (Some r)))"

definition parse_reply_mode :: "string option \<Rightarrow> string option parsed" where
  "parse_reply_mode = parse_choice [(''quote'', ''inline_quote''), (''inline_quote'', ''inline_quote''),
     (''source_id'', ''source_id''), (''none'', ''none'')]
     ''format must be one of: quote, source_id, none''"

definition parse_access_strategy :: "string option \<Rightarrow> string option parsed" where
  "parse_access_strategy = parse_choice [(''invite'', ''direct_add''), (''direct_add'', ''direct_add''),
     (''add'', ''direct_add''), (''direct'', ''direct_add''), (''invite_link'', ''invite_link''),
     (''link'', ''invite_link'')]
     ''access must be one of: invite, link''"

definition parse_target_strategy :: "string option \<Rightarrow> string option parsed" where
  "parse_target_strategy = parse_choice [(''create'', ''create''), (''bind'', ''bind''),
     (''manual_review_required'', ''manual_review_required'')]
     ''target must be one of: create, bind, manual_review_required''"

definition parse_topic_strategy :: "string option \<Rightarrow> string option parsed" where
  "parse_topic_strategy = parse_choice [(''single_chat'', ''single_chat''), (''one_chat'', ''single_chat''),
     (''single'', ''single_chat''), (''split_by_topic'', ''split_by_topic''),
     (''split'', ''split_by_topic'')]
     ''topics must be one of: single_chat, split_by_topic''"

text \<open>
  \<open>int(text)\<close>: blanks around it, one sign, and decimal digits with single underscores between
  them; more than 4300 digits raise as well.
\<close>

fun digit_groups :: "bool \<Rightarrow> string \<Rightarrow> string option" where
  "digit_groups after_digit [] = (if after_digit then Some [] else None)"
| "digit_groups after_digit (c # cs) =
    (if is_digit c then map_option ((#) c) (digit_groups True cs)
     else if c = CHR ''_'' \<and> after_digit then digit_groups False cs
     else None)"

definition int_of_string :: "string \<Rightarrow> int option" where
  "int_of_string text =
    (let s = py_strip text;
         (negative, body) = (case s of
            c # cs \<Rightarrow> if c = CHR ''-'' then (True, cs) else if c = CHR ''+'' then (False, cs) else (False, s)
          | [] \<Rightarrow> (False, []))
     in case digit_groups False body of
          None \<Rightarrow> None
        | Some ds \<Rightarrow> if length ds > 4300 then None
            else Some (if negative then - int (nat_of_digits ds) else int (nat_of_digits ds)))"

definition parse_int :: "string \<Rightarrow> string \<Rightarrow> int parsed" where
  "parse_int value name =
    (case int_of_string value of
       None \<Rightarrow> Inl (name @ '' must be a positive integer'')
     | Some n \<Rightarrow> if n \<le> 0 then Inl (name @ '' must be a positive integer'') else Inr n)"

definition parse_positive_int :: "string option \<Rightarrow> int \<Rightarrow> string \<Rightarrow> int parsed" where
  "parse_positive_int value dflt name =
    (case value of None \<Rightarrow> Inr dflt | Some v \<Rightarrow> parse_int v name)"

definition parse_optional_positive_int :: "string option \<Rightarrow> string \<Rightarrow> int option parsed" where
  "parse_optional_positive_int value name =
    (case value of
       None \<Rightarrow> Inr None
     | Some v \<Rightarrow> (case parse_int v name of Inl e \<Rightarrow> Inl e | Inr n \<Rightarrow> Inr (Some n)))"

section \<open>Run options\<close>

record migration_run_options =
  ro_include_from :: "string option"
  ro_include_to :: "string option"
  ro_migrate_media :: "bool option"
  ro_reply_mode :: "string option"
  ro_source_backend :: "string option"
  ro_target_strategy :: "string option"
  ro_target_title :: "string option"
  ro_target_chat_id :: "string option"
  ro_identity_policy :: "string option"
  ro_access_strategy :: "string option"
  ro_topic_strategy :: "string option"
  ro_skip_in_all :: "bool option"
  ro_progress_policy :: string
  ro_batch_size :: "int option"

definition default_run_options :: migration_run_options where
  "default_run_options = \<lparr>ro_include_from = None, ro_include_to = None, ro_migrate_media = None,
     ro_reply_mode = None, ro_source_backend = None, ro_target_strategy = None,
     ro_target_title = None, ro_target_chat_id = None, ro_identity_policy = None,
     ro_access_strategy = None, ro_topic_strategy = None, ro_skip_in_all = None,
     ro_progress_policy = ''resume'', ro_batch_size = None\<rparr>"

definition to_run_options :: "parsed_arguments \<Rightarrow> migration_run_options parsed" where
  "to_run_options p =
    (if pa_positionals p \<noteq> [] then Inl ''unsupported positional arguments''
     else
       let (include_from, o1) = pop_option ''from'' (pa_options p);
           (include_to, o2) = pop_option ''to'' o1;
           (media, o3) = pop_option ''media'' o2 in
       bind_parsed (parse_optional_bool media ''media'') (\<lambda>migrate_media.
       let (reply, o4) = pop_first [''format'', ''reply''] o3 in
       bind_parsed (parse_reply_mode reply) (\<lambda>reply_mode.
       let (target, o5) = pop_option ''target'' o4 in
       bind_parsed (parse_target_strategy target) (\<lambda>target_strategy.
       let (target_title, o6) = pop_option ''target_title'' o5;
           (target_chat_id, o7) = pop_option ''target_chat_id'' o6;
           (identity, o8) = pop_option ''identity'' o7;
           (access, o9) = pop_first [''access'', ''users'', ''members'', ''channel_access''] o8 in
       bind_parsed (parse_access_strategy access) (\<lambda>access_strategy.
       let (topics, o10) = pop_option ''topics'' o9 in
       bind_parsed (parse_topic_strategy topics) (\<lambda>topic_strategy.
       let (skip, o11) = pop_first [''skip'', ''skip_in_all''] o10 in
       bind_parsed (parse_optional_bool skip ''skip'') (\<lambda>skip_in_all.
       let (progress, o12) = pop_option ''progress'' o11;
           progress_policy = py_lower (py_strip (case progress of None \<Rightarrow> ''resume'' | Some v \<Rightarrow> v)) in
       if progress_policy \<notin> {''resume'', ''ask''} then Inl ''progress must be one of: resume, ask''
       else
         let (batch, o13) = pop_option ''batch'' o12 in
         bind_parsed (parse_optional_positive_int batch ''batch'') (\<lambda>batch_size.
         bind_parsed (reject_unknown o13) (\<lambda>_.
         Inr \<lparr>ro_include_from = include_from, ro_include_to = include_to,
           ro_migrate_media = migrate_media, ro_reply_mode = reply_mode, ro_source_backend = None,
           ro_target_strategy = target_strategy, ro_target_title = target_title,
           ro_target_chat_id = target_chat_id, ro_identity_policy = identity,
           ro_access_strategy = access_strategy, ro_topic_strategy = topic_strategy,
           ro_skip_in_all = skip_in_all, ro_progress_policy = progress_policy,
           ro_batch_size = batch_size\<rparr>)))))))))"

section \<open>The commands\<close>

definition parse_migrate_all_options :: "string \<Rightarrow> migration_run_options parsed" where
  "parse_migrate_all_options argument = bind_parsed (parse_arguments argument) (\<lambda>p.
     if pa_positionals p \<noteq> [] then Inl ''command does not accept positional arguments''
     else to_run_options p)"

definition parse_migrate_chat_options :: "string \<Rightarrow> (string \<times> migration_run_options) parsed" where
  "parse_migrate_chat_options argument = bind_parsed (parse_arguments argument) (\<lambda>p.
     let (chat, options) = pop_option ''chat'' (pa_options p) in
     case chat of
       None \<Rightarrow>
         (case pa_positionals p of
            [] \<Rightarrow> Inl ''source chat id is required''
          | [c] \<Rightarrow> bind_parsed (to_run_options \<lparr>pa_positionals = [], pa_options = options\<rparr>) (\<lambda>r. Inr (c, r))
          | _ \<Rightarrow> Inl ''too many positional arguments'')
     | Some c \<Rightarrow>
         if pa_positionals p \<noteq> [] then Inl ''use either positional source_chat_id or chat=<id>''
         else bind_parsed (to_run_options (p\<lparr>pa_options := options\<rparr>)) (\<lambda>r. Inr (c, r)))"

definition parse_optional_migrate_chat_options ::
    "string \<Rightarrow> (string option \<times> migration_run_options) parsed" where
  "parse_optional_migrate_chat_options argument = bind_parsed (parse_arguments argument) (\<lambda>p.
     let (chat, options) = pop_option ''chat'' (pa_options p) in
     case chat of
       None \<Rightarrow>
         (case pa_positionals p of
            [] \<Rightarrow> if options \<noteq> [] then Inl ''source chat id is required when options are provided''
                  else Inr (None, default_run_options)
          | [c] \<Rightarrow> bind_parsed (to_run_options \<lparr>pa_positionals = [], pa_options = options\<rparr>)
                    (\<lambda>r. Inr (Some c, r))
          | _ \<Rightarrow> Inl ''too many positional arguments'')
     | Some c \<Rightarrow>
         if pa_positionals p \<noteq> [] then Inl ''use either positional source_chat_id or chat=<id>''
         else bind_parsed (to_run_options (p\<lparr>pa_options := options\<rparr>)) (\<lambda>r. Inr (Some c, r)))"

definition parse_optional_source_chat_id :: "string \<Rightarrow> string option parsed" where
  "parse_optional_source_chat_id argument = bind_parsed (parse_arguments argument) (\<lambda>p.
     let (chat, options) = pop_option ''chat'' (pa_options p) in
     case chat of
       Some c \<Rightarrow>
         if pa_positionals p \<noteq> [] \<or> options \<noteq> [] then Inl ''unsupported extra arguments''
         else Inr (Some c)
     | None \<Rightarrow>
         if length (pa_positionals p) > 1 then Inl ''too many positional arguments''
         else if pa_options p \<noteq> [] then Inl ''unsupported extra arguments''
         else Inr (case pa_positionals p of [] \<Rightarrow> None | c # _ \<Rightarrow> Some c))"

definition parse_required_source_chat_id :: "string \<Rightarrow> string parsed" where
  "parse_required_source_chat_id argument = bind_parsed (parse_optional_source_chat_id argument) (\<lambda>c.
     case c of None \<Rightarrow> Inl ''source chat id is required'' | Some s \<Rightarrow> Inr s)"

record identity_mapping_arguments =
  ia_telegram_user_id :: "string option"
  ia_telegram_username :: "string option"
  ia_corporate_email :: string
  ia_telegram_display_name :: "string option"

text \<open>\<open>if x is None and positionals: x = positionals.pop(0)\<close>\<close>

definition fill_from :: "bool \<Rightarrow> string option \<Rightarrow> string list \<Rightarrow> string option \<times> string list" where
  "fill_from missing x positionals =
    (case positionals of
       [] \<Rightarrow> (x, [])
     | c # cs \<Rightarrow> if missing then (Some c, cs) else (x, positionals))"

definition parse_map_identity_arguments :: "string \<Rightarrow> identity_mapping_arguments parsed" where
  "parse_map_identity_arguments argument = bind_parsed (parse_arguments argument) (\<lambda>p.
     let (username, o1) = pop_option ''username'' (pa_options p);
         (user_id, o2) = pop_first [''tg_id'', ''telegram_user_id'', ''user_id''] o1;
         (email, o3) = pop_option ''email'' o2;
         (display_name, o4) = pop_first [''display_name'', ''name''] o3;
         (username, rest) = fill_from (user_id = None \<and> username = None) username (pa_positionals p);
         (email, rest) = fill_from (email = None) email rest
     in if rest \<noteq> [] then Inl ''too many positional arguments''
        else bind_parsed (reject_unknown o4) (\<lambda>_.
          if \<not> truthy username \<and> \<not> truthy user_id \<or> \<not> truthy email
          then Inl ''telegram user id or username and corporate email are required''
          else Inr \<lparr>ia_telegram_user_id = user_id, ia_telegram_username = username,
            ia_corporate_email = the email, ia_telegram_display_name = display_name\<rparr>))"

definition parse_list_chats_options :: "string \<Rightarrow> (int \<times> string option) parsed" where
  "parse_list_chats_options argument = bind_parsed (parse_arguments argument) (\<lambda>p.
     if pa_positionals p \<noteq> [] then Inl ''command does not accept positional arguments''
     else
       let (limit, o1) = pop_option ''limit'' (pa_options p) in
       bind_parsed (parse_positive_int limit 20 ''limit'') (\<lambda>n.
       let (query, o2) = pop_option ''query'' o1 in
       bind_parsed (reject_unknown o2) (\<lambda>_. Inr (n, query))))"

definition parse_list_chat_users_options :: "string \<Rightarrow> string parsed" where
  "parse_list_chat_users_options argument = bind_parsed (parse_arguments argument) (\<lambda>p.
     let (chat, options) = pop_option ''chat'' (pa_options p) in
     case chat of
       Some c \<Rightarrow>
         if pa_positionals p \<noteq> [] then Inl ''use either positional source_chat_id or chat=<id>''
         else bind_parsed (reject_unknown options) (\<lambda>_. Inr c)
     | None \<Rightarrow>
         (case pa_positionals p of
            [] \<Rightarrow> Inl ''source chat id is required''
          | [c] \<Rightarrow> bind_parsed (reject_unknown (pa_options p)) (\<lambda>_. Inr c)
          | _ \<Rightarrow> Inl ''too many positional arguments''))"

definition parse_replay_failed_options ::
    "string \<Rightarrow> int \<Rightarrow> int \<Rightarrow> (string option \<times> int \<times> int) parsed" where
  "parse_replay_failed_options argument default_limit default_batch_size =
   bind_parsed (parse_arguments argument) (\<lambda>p.
     let (chat, o1) = pop_option ''chat'' (pa_options p);
         source = (case (chat, pa_positionals p) of
             (None, []) \<Rightarrow> Inr None
           | (None, [c]) \<Rightarrow> Inr (Some c)
           | (None, _) \<Rightarrow> Inl ''too many positional arguments''
           | (Some c, []) \<Rightarrow> Inr (Some c)
           | (Some c, _) \<Rightarrow> Inl ''use either positional source_chat_id or chat=<id>'')
     in bind_parsed source (\<lambda>source_chat_id.
        let (limit, o2) = pop_option ''limit'' o1 in
        bind_parsed (parse_positive_int limit default_limit ''limit'') (\<lambda>n.
        let (batch, o3) = pop_option ''batch'' o2 in
        bind_parsed (parse_positive_int batch default_batch_size ''batch'') (\<lambda>b.
        bind_parsed (reject_unknown o3) (\<lambda>_. Inr (source_chat_id, n, b))))))"

section \<open>Words survive quoting\<close>

definition quote_word :: "string \<Rightarrow> string" where
  "quote_word w = squote # w @ [squote]"

fun join_words :: "string list \<Rightarrow> string" where
  "join_words [] = []"
| "join_words [w] = quote_word w"
| "join_words (w # ws) = quote_word w @ CHR '' '' # join_words ws"

lemma quote_not_special [simp]:
  "\<not> lex_space squote" "squote \<noteq> backslash" "squote \<noteq> dquote" "lex_space (CHR '' '')"
  by (simp_all add: lex_space_def squote_def dquote_def backslash_def)

lemma shlex_quoted:
  assumes "squote \<notin> set w"
  shows "shlex_words (Quoted squote) tok q (w @ squote # rest) = shlex_words Word (tok @ w) True rest"
  using assms by (induction w arbitrary: tok q) auto

lemma shlex_join_words:
  "\<forall>w \<in> set ws. squote \<notin> set w \<Longrightarrow> shlex_words Blank [] False (join_words ws) = Inr ws"
proof (induction ws rule: join_words.induct)
  case 1
  then show ?case by simp
next
  case (2 w)
  then show ?case using shlex_quoted [of w "[]" False "[]"] by (simp add: quote_word_def)
next
  case (3 w v vs)
  then show ?case
    using shlex_quoted [of w "[]" False "CHR '' '' # join_words (v # vs)"]
    by (simp add: quote_word_def)
qed

text \<open>What \<open>parse_arguments\<close> makes of positional words followed by options.\<close>

definition option_word :: "string \<times> string \<Rightarrow> string" where
  "option_word kv = fst kv @ CHR ''='' # snd kv"

lemma parse_tokens_positionals:
  "\<forall>w \<in> set ps. CHR ''='' \<notin> set w \<Longrightarrow>
    parse_tokens (ps @ toks) pos opts = parse_tokens toks (pos @ ps) opts"
  by (induction ps arbitrary: pos) simp_all

lemma parse_tokens_options:
  "\<forall>kv \<in> set kvs. CHR ''='' \<notin> set (fst kv) \<and> option_key (fst kv) \<noteq> [] \<Longrightarrow>
    parse_tokens (map option_word kvs) pos opts =
      Inr \<lparr>pa_positionals = pos,
        pa_options = fold (\<lambda>kv. dict_set (option_key (fst kv)) (py_strip (snd kv))) kvs opts\<rparr>"
proof (induction kvs arbitrary: opts)
  case Nil
  then show ?case by simp
next
  case (Cons kv kvs)
  have "\<forall>c \<in> set (fst kv). c \<noteq> CHR ''=''" using Cons.prems by auto
  then have "takeWhile (\<lambda>c. c \<noteq> CHR ''='') (option_word kv) = fst kv"
    "dropWhile (\<lambda>c. c \<noteq> CHR ''='') (option_word kv) = CHR ''='' # snd kv"
    by (simp_all add: option_word_def takeWhile_append2 dropWhile_append2)
  moreover have "CHR ''='' \<in> set (option_word kv)" by (simp add: option_word_def)
  ultimately show ?case using Cons by (simp add: Let_def)
qed

text \<open>A number the program writes is read back.\<close>

lemma digit_groups_digits:
  "\<forall>c \<in> set s. is_digit c \<Longrightarrow> s \<noteq> [] \<or> a \<Longrightarrow> digit_groups a s = Some s"
  by (induction s arbitrary: a) auto

lemma is_digit_bounds: "is_digit c \<Longrightarrow> \<not> is_space c \<and> c \<noteq> CHR ''-'' \<and> c \<noteq> CHR ''+''"
  by (auto simp: is_digit_def is_space_def Let_def)

lemma int_of_str_of_nat:
  assumes "length (str_of_nat n) \<le> 4300"
  shows "int_of_string (str_of_nat n) = Some (int n)"
proof -
  have digits: "\<forall>c \<in> set (str_of_nat n). is_digit c" by (rule str_of_nat_digits)
  obtain c cs where s: "str_of_nat n = c # cs" by (cases "str_of_nat n") auto
  have ends: "is_digit c" "is_digit (last (str_of_nat n))"
    using digits s by (simp_all add: last_in_set)
  have "dropWhile is_space (str_of_nat n) = str_of_nat n"
    using ends(1) is_digit_bounds s by simp
  moreover have "dropWhile is_space (rev (str_of_nat n)) = rev (str_of_nat n)"
    using ends(2) is_digit_bounds by (simp add: dropWhile_eq_self_iff hd_rev)
  ultimately have "py_strip (str_of_nat n) = str_of_nat n"
    by (simp add: py_strip_def py_lstrip_def py_rstrip_def)
  moreover have "digit_groups False (str_of_nat n) = Some (str_of_nat n)"
    using digits by (intro digit_groups_digits) simp_all
  moreover have "c \<noteq> CHR ''-''" "c \<noteq> CHR ''+''" using ends(1) is_digit_bounds by simp_all
  ultimately show ?thesis using assms s
    by (simp add: int_of_string_def Let_def) (metis nat_of_str_of_nat)
qed

lemma parse_int_positive: "parse_int v name = Inr n \<Longrightarrow> 0 < n"
  by (auto simp: parse_int_def split: option.splits if_splits)

text \<open>An option nobody asks for is still there at the end, and rejected.\<close>

lemma pop_option_other: "k \<noteq> j \<Longrightarrow> dict_get (snd (pop_option j options)) k = dict_get options k"
  by (simp add: pop_option_def)

lemma pop_first_other:
  "k \<notin> set ks \<Longrightarrow> dict_get (snd (pop_first ks options)) k = dict_get options k"
proof (induction ks options rule: pop_first.induct)
  case (3 j j' js options)
  then show ?case
    by (cases "truthy (dict_get options j)") (simp_all add: pop_option_def Let_def)
qed (simp_all add: pop_option_other)

lemma pop_option_keeps: "pop_option j opts = (v, opts') \<Longrightarrow> k \<noteq> j \<Longrightarrow> dict_get opts' k = dict_get opts k"
  using pop_option_other [of k j opts] by simp

lemma pop_first_keeps:
  "pop_first ks opts = (v, opts') \<Longrightarrow> k \<notin> set ks \<Longrightarrow> dict_get opts' k = dict_get opts k"
  using pop_first_other [of k ks opts] by simp

lemma reject_unknown_get: "dict_get options k \<noteq> None \<Longrightarrow> \<exists>e. reject_unknown options = Inl e"
  by (auto simp: reject_unknown_def)

definition run_option_keys :: "string list" where
  "run_option_keys = [''from'', ''to'', ''media'', ''format'', ''reply'', ''target'', ''target_title'',
     ''target_chat_id'', ''identity'', ''access'', ''users'', ''members'', ''channel_access'',
     ''topics'', ''skip'', ''skip_in_all'', ''progress'', ''batch'']"

lemma to_run_options_Inr:
  assumes "to_run_options p = Inr r"
  shows "pa_positionals p = []"
    and "dict_get (pa_options p) k \<noteq> None \<Longrightarrow> k \<in> set run_option_keys"
    and "ro_progress_policy r \<in> {''resume'', ''ask''}"
    and "ro_batch_size r = Some n \<Longrightarrow> 0 < n"
proof -
  obtain x1 o1 x2 o2 x3 o3 x4 o4 x5 o5 x6 o6 x7 o7 x8 o8 x9 o9 x10 o10 x11 o11 x12 o12 x13 o13 where
    pops: "pop_option ''from'' (pa_options p) = (x1, o1)" "pop_option ''to'' o1 = (x2, o2)"
      "pop_option ''media'' o2 = (x3, o3)" "pop_first [''format'', ''reply''] o3 = (x4, o4)"
      "pop_option ''target'' o4 = (x5, o5)" "pop_option ''target_title'' o5 = (x6, o6)"
      "pop_option ''target_chat_id'' o6 = (x7, o7)" "pop_option ''identity'' o7 = (x8, o8)"
      "pop_first [''access'', ''users'', ''members'', ''channel_access''] o8 = (x9, o9)"
      "pop_option ''topics'' o9 = (x10, o10)" "pop_first [''skip'', ''skip_in_all''] o10 = (x11, o11)"
      "pop_option ''progress'' o11 = (x12, o12)" "pop_option ''batch'' o12 = (x13, o13)"
    by (metis surj_pair)
  note run = assms [unfolded to_run_options_def pops prod.case Let_def]
  show "pa_positionals p = []" using run by (simp split: if_splits)
  from run have last: "reject_unknown o13 = Inr ()" and progress: "ro_progress_policy r \<in> {''resume'', ''ask''}"
    and batch: "parse_optional_positive_int x13 ''batch'' = Inr (ro_batch_size r)"
    by (auto split: if_splits sum.splits)
  from progress show "ro_progress_policy r \<in> {''resume'', ''ask''}" .
  show "0 < n" if "ro_batch_size r = Some n"
    using batch that parse_int_positive
    by (auto simp: parse_optional_positive_int_def split: option.splits sum.splits)
  show "k \<in> set run_option_keys" if "dict_get (pa_options p) k \<noteq> None"
  proof (rule ccontr)
    assume k: "k \<notin> set run_option_keys"
    note keeps = pops(1-3,5-8,10,12,13) [THEN pop_option_keeps] pops(4,9,11) [THEN pop_first_keeps]
    have "dict_get o13 k = dict_get (pa_options p) k"
      using k by (simp add: keeps run_option_keys_def)
    with that last reject_unknown_get [of o13 k] show False by auto
  qed
qed

end
