(* ===== verification/Effects.thy ===== *)
theory Effects
  imports Models
begin

text \<open>
  Code that both raises and changes state: an action takes the state and gives a value or a raised
  error, with the state as it is then. \<open>bind\<close> is sequencing, \<open>catch_error\<close> an \<open>except\<close> clause
  (its handler says which errors it takes), \<open>ensure\<close> a \<open>finally\<close>. The rules on postconditions
  with an exceptional case carry the proofs about actions.
\<close>

type_synonym ('s, 'a) action = "'s \<Rightarrow> (error, 'a) outcome \<times> 's"

definition ret :: "'a \<Rightarrow> ('s, 'a) action" where
  "ret a s = (Inr a, s)"

definition throw :: "error \<Rightarrow> ('s, 'a) action" where
  "throw e s = (Inl e, s)"

definition bind :: "('s, 'a) action \<Rightarrow> ('a \<Rightarrow> ('s, 'b) action) \<Rightarrow> ('s, 'b) action" where
  "bind m f s = (case m s of (Inl e, s') \<Rightarrow> (Inl e, s') | (Inr a, s') \<Rightarrow> f a s')"

definition get_state :: "('s \<Rightarrow> 'a) \<Rightarrow> ('s, 'a) action" where
  "get_state f s = (Inr (f s), s)"

definition modify :: "('s \<Rightarrow> 's) \<Rightarrow> ('s, unit) action" where
  "modify f s = (Inr (), f s)"

text \<open>An \<open>except\<close> clause: \<open>handler e\<close> is None when the clause does not take \<open>e\<close>.\<close>

definition catch_error ::
    "('s, 'a) action \<Rightarrow> (error \<Rightarrow> ('s, 'a) action option) \<Rightarrow> ('s, 'a) action" where
  "catch_error m handler s =
    (case m s of
       (Inr a, s') \<Rightarrow> (Inr a, s')
     | (Inl e, s') \<Rightarrow> (case handler e of None \<Rightarrow> (Inl e, s') | Some h \<Rightarrow> h s'))"

text \<open>A \<open>finally\<close> clause that cannot raise.\<close>

definition ensure :: "('s \<Rightarrow> 's) \<Rightarrow> ('s, 'a) action \<Rightarrow> ('s, 'a) action" where
  "ensure cleanup m s = (case m s of (r, s') \<Rightarrow> (r, cleanup s'))"

text \<open>An operation of a part of the state, such as a repository kept in a field.\<close>

definition on_part ::
    "('s \<Rightarrow> 'p) \<Rightarrow> ('p \<Rightarrow> 's \<Rightarrow> 's) \<Rightarrow> ('p, 'a) action \<Rightarrow> ('s, 'a) action" where
  "on_part part put m s = (case m (part s) of (r, p) \<Rightarrow> (r, put p s))"

text \<open>Repository operations as actions: total ones, and ones that give no new state when they raise.\<close>

definition total_op :: "('p \<Rightarrow> 'a \<times> 'p) \<Rightarrow> ('p, 'a) action" where
  "total_op f p = (case f p of (a, p') \<Rightarrow> (Inr a, p'))"

definition fallible_op :: "('p \<Rightarrow> (error, 'a \<times> 'p) outcome) \<Rightarrow> ('p, 'a) action" where
  "fallible_op f p = (case f p of Inl e \<Rightarrow> (Inl e, p) | Inr (a, p') \<Rightarrow> (Inr a, p'))"

text \<open>A pure step that may raise, inside an action.\<close>

definition lift_outcome :: "(error, 'a) outcome \<Rightarrow> ('s, 'a) action" where
  "lift_outcome r s = (r, s)"

fun for_each :: "('x \<Rightarrow> ('s, unit) action) \<Rightarrow> 'x list \<Rightarrow> ('s, unit) action" where
  "for_each f [] = ret ()"
| "for_each f (x # xs) = bind (f x) (\<lambda>_. for_each f xs)"

fun collect :: "('x \<Rightarrow> ('s, 'y) action) \<Rightarrow> 'x list \<Rightarrow> ('s, 'y list) action" where
  "collect f [] = ret []"
| "collect f (x # xs) = bind (f x) (\<lambda>y. bind (collect f xs) (\<lambda>ys. ret (y # ys)))"

lemmas action_defs = ret_def throw_def bind_def get_state_def modify_def catch_error_def ensure_def
  on_part_def total_op_def fallible_op_def lift_outcome_def

lemma bind_ret [simp]: "bind (ret a) f = f a"
  by (rule ext) (simp add: bind_def ret_def)

lemma bind_throw [simp]: "bind (throw e) f = throw e"
  by (rule ext) (simp add: bind_def throw_def)

lemma bind_assoc: "bind (bind m f) g = bind m (\<lambda>a. bind (f a) g)"
  by (rule ext) (auto simp: bind_def split: prod.splits sum.splits)

lemma bind_Inr:
  "bind m f s = (Inr b, s') \<longleftrightarrow> (\<exists>a s1. m s = (Inr a, s1) \<and> f a s1 = (Inr b, s'))"
  by (auto simp: bind_def split: prod.splits sum.splits)

lemma bind_Inl:
  "bind m f s = (Inl e, s') \<longleftrightarrow> m s = (Inl e, s') \<or> (\<exists>a s1. m s = (Inr a, s1) \<and> f a s1 = (Inl e, s'))"
  by (auto simp: bind_def split: prod.splits sum.splits)

section \<open>Postconditions\<close>

text \<open>\<open>meets P m Q E\<close>: from a state in \<open>P\<close>, a result meets \<open>Q\<close> and a raised error meets \<open>E\<close>.\<close>

definition meets ::
    "('s \<Rightarrow> bool) \<Rightarrow> ('s, 'a) action \<Rightarrow> ('a \<Rightarrow> 's \<Rightarrow> bool) \<Rightarrow> (error \<Rightarrow> 's \<Rightarrow> bool) \<Rightarrow> bool" where
  "meets P m Q E \<longleftrightarrow> (\<forall>s. P s \<longrightarrow> (case m s of (Inr a, s') \<Rightarrow> Q a s' | (Inl e, s') \<Rightarrow> E e s'))"

lemma meetsI:
  assumes "\<And>s a s'. P s \<Longrightarrow> m s = (Inr a, s') \<Longrightarrow> Q a s'"
    and "\<And>s e s'. P s \<Longrightarrow> m s = (Inl e, s') \<Longrightarrow> E e s'"
  shows "meets P m Q E"
  using assms by (fastforce simp: meets_def split: prod.splits sum.splits)

lemma meets_result: "meets P m Q E \<Longrightarrow> P s \<Longrightarrow> m s = (Inr a, s') \<Longrightarrow> Q a s'"
  by (fastforce simp: meets_def)

lemma meets_error: "meets P m Q E \<Longrightarrow> P s \<Longrightarrow> m s = (Inl e, s') \<Longrightarrow> E e s'"
  by (fastforce simp: meets_def)

lemma meets_pre: "meets P m Q E \<Longrightarrow> (\<And>s. P' s \<Longrightarrow> P s) \<Longrightarrow> meets P' m Q E"
  by (auto simp: meets_def)

lemma meets_post:
  assumes "meets P m Q E" and "\<And>a s. Q a s \<Longrightarrow> Q' a s" and "\<And>e s. E e s \<Longrightarrow> E' e s"
  shows "meets P m Q' E'"
proof (rule meetsI)
  show "Q' a s'" if "P s" "m s = (Inr a, s')" for s a s'
    using assms(2) meets_result [OF assms(1) that] .
  show "E' e s'" if "P s" "m s = (Inl e, s')" for s e s'
    using assms(3) meets_error [OF assms(1) that] .
qed

lemma meets_ret [intro]: "(\<And>s. P s \<Longrightarrow> Q a s) \<Longrightarrow> meets P (ret a) Q E"
  by (simp add: meets_def ret_def)

lemma meets_throw [intro]: "(\<And>s. P s \<Longrightarrow> E e s) \<Longrightarrow> meets P (throw e) Q E"
  by (simp add: meets_def throw_def)

lemma meets_bind:
  assumes "meets P m R E" and "\<And>a. meets (R a) (f a) Q E"
  shows "meets P (bind m f) Q E"
  unfolding meets_def
proof (intro allI impI)
  fix s
  assume P: "P s"
  show "case bind m f s of (Inr a, s') \<Rightarrow> Q a s' | (Inl e, s') \<Rightarrow> E e s'"
  proof (cases "m s")
    case (Pair r s')
    then show ?thesis
      using meets_error [OF assms(1) P] meets_result [OF assms(1) P] assms(2)
      by (cases r) (auto simp: bind_def meets_def)
  qed
qed

lemma meets_get [intro]: "(\<And>s. P s \<Longrightarrow> Q (f s) s) \<Longrightarrow> meets P (get_state f) Q E"
  by (simp add: meets_def get_state_def)

lemma meets_modify [intro]: "(\<And>s. P s \<Longrightarrow> Q () (f s)) \<Longrightarrow> meets P (modify f) Q E"
  by (simp add: meets_def modify_def)

lemma meets_ensure:
  assumes "meets P m Q' E'" and "\<And>a s. Q' a s \<Longrightarrow> Q a (c s)" and "\<And>e s. E' e s \<Longrightarrow> E e (c s)"
  shows "meets P (ensure c m) Q E"
  using assms by (fastforce simp: meets_def ensure_def split: prod.splits sum.splits)

lemma meets_catch:
  assumes "meets P m Q E'"
    and "\<And>e h. handler e = Some h \<Longrightarrow> meets (E' e) h Q E"
    and "\<And>e s. handler e = None \<Longrightarrow> E' e s \<Longrightarrow> E e s"
  shows "meets P (catch_error m handler) Q E"
  unfolding meets_def
proof (intro allI impI)
  fix s
  assume P: "P s"
  show "case catch_error m handler s of (Inr a, s') \<Rightarrow> Q a s' | (Inl e, s') \<Rightarrow> E e s'"
  proof (cases "m s")
    case (Pair r s')
    show ?thesis
    proof (cases r)
      case (Inl e)
      with Pair have "E' e s'" using meets_error [OF assms(1) P] by simp
      then show ?thesis
        using assms(2,3) Pair Inl
        by (cases "handler e") (fastforce simp: catch_error_def meets_def)+
    next
      case (Inr a)
      with Pair show ?thesis
        using meets_result [OF assms(1) P] by (simp add: catch_error_def)
    qed
  qed
qed

lemma meets_for_each:
  assumes "\<And>x. x \<in> set xs \<Longrightarrow> meets I (f x) (\<lambda>_. I) E"
  shows "meets I (for_each f xs) (\<lambda>_. I) E"
  using assms
  by (induction xs) (auto intro!: meets_bind)

section \<open>Loops that may not end\<close>

text \<open>
  A \<open>while\<close> loop: a round says whether there is another one. The loop's result is None when it
  never ends.
\<close>

partial_function (option) repeat_rounds ::
    "('a \<Rightarrow> ('s, bool \<times> 'a) action) \<Rightarrow> 'a \<Rightarrow> 's \<Rightarrow> ((error, 'a) outcome \<times> 's) option" where
  [code]: "repeat_rounds step a s =
    (case step a s of
       (Inl e, s') \<Rightarrow> Some (Inl e, s')
     | (Inr p, s') \<Rightarrow> if fst p then repeat_rounds step (snd p) s' else Some (Inr (snd p), s'))"

lemma repeat_rounds_meets:
  fixes step :: "'a \<Rightarrow> ('s, bool \<times> 'a) action"
  assumes "repeat_rounds step a s = Some (r, s')" and "I a s"
    and step: "\<And>a. meets (I a) (step a) (\<lambda>p s. if fst p then I (snd p) s else Q (snd p) s) E"
  shows "case r of Inl e \<Rightarrow> E e s' | Inr a' \<Rightarrow> Q a' s'"
proof -
  let ?P = "\<lambda>a s res. I a s \<longrightarrow> (case fst res of Inl e \<Rightarrow> E e (snd res) | Inr a' \<Rightarrow> Q a' (snd res))"
  have "step = step \<longrightarrow> ?P a s (r, s')"
  proof (rule repeat_rounds.raw_induct [where P = "\<lambda>step' a s res. step' = step \<longrightarrow> ?P a s res", OF _ assms(1)])
    fix loop and step' :: "'a \<Rightarrow> ('s, bool \<times> 'a) action" and a s res
    assume IH: "\<And>step' a s res. loop step' a s = Some res \<Longrightarrow> step' = step \<longrightarrow> ?P a s res"
      and run: "(case step' a s of (Inl e, s') \<Rightarrow> Some (Inl e, s')
        | (Inr p, s') \<Rightarrow> if fst p then loop step' (snd p) s' else Some (Inr (snd p), s')) = Some res"
    show "step' = step \<longrightarrow> ?P a s res"
    proof (intro impI)
      assume st: "step' = step" and I: "I a s"
      obtain q s1 where q: "step a s = (q, s1)" by fastforce
      show "case fst res of Inl e \<Rightarrow> E e (snd res) | Inr a' \<Rightarrow> Q a' (snd res)"
      proof (cases q)
        case (Inl e)
        with run q st have "res = (Inl e, s1)" by simp
        with meets_error [OF step I q [unfolded Inl]] show ?thesis by simp
      next
        case (Inr p)
        note post = meets_result [OF step I q [unfolded Inr]]
        show ?thesis
        proof (cases "fst p")
          case True
          with run q st Inr have "loop step (snd p) s1 = Some res" by simp
          from IH [OF this] post True show ?thesis by simp
        next
          case False
          with run q st Inr have "res = (Inr (snd p), s1)" by simp
          with post False show ?thesis by simp
        qed
      qed
    qed
  qed
  with assms(2) show ?thesis by (simp split: sum.splits)
qed

text \<open>It ends when a measure goes down with every round that asks for another one.\<close>

lemma repeat_rounds_ends:
  fixes size' :: "'a \<Rightarrow> 's \<Rightarrow> nat"
  assumes "I a s"
    and "\<And>a s a' s'. I a s \<Longrightarrow> step a s = (Inr (True, a'), s') \<Longrightarrow> I a' s' \<and> size' a' s' < size' a s"
  shows "\<exists>r s'. repeat_rounds step a s = Some (r, s')"
  using assms(1)
proof (induction "size' a s" arbitrary: a s rule: less_induct)
  case less
  obtain q s1 where q: "step a s = (q, s1)" by fastforce
  show ?case
  proof (cases q)
    case (Inl e)
    with q show ?thesis by (simp add: repeat_rounds.simps [of step a])
  next
    case (Inr p)
    show ?thesis
    proof (cases "fst p")
      case True
      with q Inr have "step a s = (Inr (True, snd p), s1)" by (cases p) simp
      from assms(2) [OF less.prems this] less.hyps have "\<exists>r s'. repeat_rounds step (snd p) s1 = Some (r, s')" by blast
      with q Inr True show ?thesis by (simp add: repeat_rounds.simps [of step a])
    next
      case False
      with q Inr show ?thesis by (simp add: repeat_rounds.simps [of step a])
    qed
  qed
qed

section \<open>Values of actions\<close>

text \<open>Rules on the values that actions return, whatever the states are.\<close>

named_theorems yield \<open>rules on the values of steps\<close>

text \<open>Every value that \<open>m\<close> returns, from any state, meets \<open>Q\<close>.\<close>

definition yields :: "('s, 'a) action \<Rightarrow> ('a \<Rightarrow> bool) \<Rightarrow> bool" where
  "yields m Q \<longleftrightarrow> meets (\<lambda>_. True) m (\<lambda>a _. Q a) (\<lambda>_ _. True)"

lemma yieldsD: "yields m Q \<Longrightarrow> m s = (Inr a, s') \<Longrightarrow> Q a"
  unfolding yields_def using meets_result [of "\<lambda>_. True" m "\<lambda>a _. Q a"] by blast

lemma yieldsI: "(\<And>s a s'. m s = (Inr a, s') \<Longrightarrow> Q a) \<Longrightarrow> yields m Q"
  unfolding yields_def by (rule meetsI) blast+

lemma yields_bind [yield]: "(\<And>a. yields (f a) Q) \<Longrightarrow> yields (bind m f) Q"
  by (rule yieldsI) (auto simp: bind_Inr dest: yieldsD)

lemma yields_from: "yields m R \<Longrightarrow> (\<And>a. R a \<Longrightarrow> yields (f a) Q) \<Longrightarrow> yields (bind m f) Q"
  by (rule yieldsI) (auto simp: bind_Inr dest: yieldsD)

lemma yields_ret [yield]: "Q a \<Longrightarrow> yields (ret a) Q"
  by (rule yieldsI) (simp add: ret_def)

lemma yields_throw [yield]: "yields (throw e) Q"
  by (rule yieldsI) (simp add: throw_def)

lemma yields_post: "yields m R \<Longrightarrow> (\<And>a. R a \<Longrightarrow> Q a) \<Longrightarrow> yields m Q"
  by (rule yieldsI) (auto dest: yieldsD)

end
