(* ===== verification/Express_Routing.thy ===== *)
theory Express_Routing
  imports Effects Rendering
begin

text \<open>
  The host names of the messenger's servers (\<open>extg_shared/utils/express_routing.py\<close>).
  \<open>urllib.parse.urlparse\<close> is an argument that gives netloc and path, or raises.
\<close>

type_synonym url_parser = "string \<Rightarrow> (error, string \<times> string) outcome"

definition normalize_express_cts_host ::
    "url_parser \<Rightarrow> string option \<Rightarrow> (error, string option) outcome" where
  "normalize_express_cts_host urlparse value =
    (case value of
       None \<Rightarrow> Inr None
     | Some v \<Rightarrow>
         let raw = py_strip v in
         if raw = [] then Inr None
         else case urlparse (if contains ''://'' raw then raw else ''https://'' @ raw) of
           Inl e \<Rightarrow> Inl e
         | Inr (netloc, path) \<Rightarrow>
             let host = py_lower (py_strip (if netloc \<noteq> [] then netloc else path))
             in Inr (if host = [] then None else Some host))"

end
