(* ===== verification/Job_Admission.thy ===== *)
theory Job_Admission
  imports Job_Repo Reconcile Command_Parser Express_Routing
begin

text \<open>
  How the bot admits background jobs, from \<open>extg_bot_ui/application/bot_control.py\<close>: authorization,
  conflicts with active jobs, backpressure, progress hints, the enqueued job with its outbox event,
  the fan-out of one command to a job per chat, and cancellation. \<open>urllib.parse.urlparse\<close>, SHA-1
  and the optional methods of the eXpress gateway are arguments.
\<close>

section \<open>Settings, operators and results\<close>

record bot_operator_context =
  op_huid :: string
  op_chat_id :: string
  op_username :: "string option"
  op_ad_login :: "string option"
  op_ad_domain :: "string option"
  op_display_name :: "string option"
  op_current_cts_host :: "string option"
  op_current_bot_id :: "string option"

record bot_progress_hint =
  ph_source_chat_id :: string
  ph_mapped_total :: nat
  ph_imported_count :: nat
  ph_last_source_message_id :: "string option"

record bot_active_job =
  aj_job_key :: string
  aj_operation :: string
  aj_migration_id :: string
  aj_source_chat_ids :: "string list"
  aj_started_at :: datetime

record bot_topic_target =
  tt_source_chat_id :: string
  tt_topic_id :: "string option"
  tt_topic_title :: string
  tt_target_chat_id :: string
  tt_target_chat_title :: string
  tt_target_chat_link :: "string option"

record bot_operation_accepted_result =
  ar_status :: string
  ar_operation :: string
  ar_migration_id :: string
  ar_source_chat_ids :: "string list"
  ar_job_key :: "string option"
  ar_job_keys :: "string list"
  ar_reason :: "string option"
  ar_active_jobs :: "bot_active_job list"
  ar_progress_hints :: "bot_progress_hint list"
  ar_accepted_source_chat_ids :: "string list"
  ar_blocked_source_chat_ids :: "string list"
  ar_already_running_source_chat_ids :: "string list"
  ar_target_chat_id :: "string option"
  ar_target_chat_title :: "string option"
  ar_target_chat_link :: "string option"
  ar_topic_targets :: "bot_topic_target list"

definition make_result :: "string \<Rightarrow> string \<Rightarrow> string \<Rightarrow> string list \<Rightarrow> bot_operation_accepted_result" where
  "make_result status operation migration ids = \<lparr>ar_status = status, ar_operation = operation,
     ar_migration_id = migration, ar_source_chat_ids = ids, ar_job_key = None, ar_job_keys = [],
     ar_reason = None, ar_active_jobs = [], ar_progress_hints = [],
     ar_accepted_source_chat_ids = [], ar_blocked_source_chat_ids = [],
     ar_already_running_source_chat_ids = [], ar_target_chat_id = None,
     ar_target_chat_title = None, ar_target_chat_link = None, ar_topic_targets = []\<rparr>"

text \<open>
  The settings read here, and the outside functions: \<open>bc_urlparse\<close> gives netloc and path or raises,
  \<open>bc_sha1\<close> is the hexadecimal digest, \<open>bc_primary_cts_host\<close> and \<open>bc_bot_id_for\<close> are the gateway's
  attribute and method, when it has them.
\<close>

record bot_control_config =
  bc_operator_huids :: "string list"
  bc_batch_size :: int
  bc_max_queued_jobs :: int
  bc_max_running_jobs :: int
  bc_urlparse :: "string \<Rightarrow> (error, string \<times> string) outcome"
  bc_sha1 :: "string \<Rightarrow> string"
  bc_primary_cts_host :: "string option"
  bc_bot_id_for :: "(string option \<Rightarrow> string option) option"

record bot_control_state =
  bs_jobs :: job_repo
  bs_outbox :: "outbox_repo option"
  bs_messages :: message_repo
  bs_checkpoints :: checkpoint_repo
  bs_audit :: audit_log

text \<open>
  The clock readings and random identifiers of one start. \<open>be_active\<close> is the reading at which a
  job's lease is judged, one for each job; \<open>be_context_host\<close> the host of the current context.
\<close>

record bot_control_env =
  be_active :: "string \<Rightarrow> datetime"
  be_started :: datetime
  be_event :: datetime
  be_audit :: datetime
  be_job_uuid :: string
  be_event_uuid :: string
  be_context_host :: "string option"

definition bot_authorize :: "bot_control_config \<Rightarrow> bot_operator_context \<Rightarrow> error option" where
  "bot_authorize cfg operator =
    (if bc_operator_huids cfg = [] then None
     else if op_huid operator \<notin> set (bc_operator_huids cfg)
     then Some (FatalItemError (''user huid='' @ op_huid operator @ '' is not allowed to manage migrations''))
     else None)"

definition audit_operator_event ::
    "string \<Rightarrow> bot_operator_context \<Rightarrow> string \<Rightarrow> (string \<times> json) list \<Rightarrow> datetime \<Rightarrow> audit_log \<Rightarrow> audit_log" where
  "audit_operator_event migration operator event_type payload now evs =
    audit_add \<lparr>ae_migration_id = migration, ae_event_type = event_type, ae_severity = SevInfo,
      ae_created_at = now, ae_source_chat_id = None, ae_source_message_id = None,
      ae_payload_json = (''operator'', JObj [(''huid'', JStr (op_huid operator)),
          (''chat_id'', JStr (op_chat_id operator)), (''username'', json_opt_str (op_username operator)),
          (''display_name'', json_opt_str (op_display_name operator)),
          (''current_cts_host'', json_opt_str (op_current_cts_host operator)),
          (''current_bot_id'', json_opt_str (op_current_bot_id operator))]) # payload\<rparr> evs"

section \<open>Hosts and bots\<close>

text \<open>A comprehension whose element may raise: the first error ends it.\<close>

fun all_ok :: "('e, 'a) outcome list \<Rightarrow> ('e, 'a list) outcome" where
  "all_ok [] = Inr []"
| "all_ok (Inl e # xs) = Inl e"
| "all_ok (Inr a # xs) = (case all_ok xs of Inl e \<Rightarrow> Inl e | Inr as \<Rightarrow> Inr (a # as))"

text \<open>The only element of a set built from a list.\<close>

definition only_element :: "'a list \<Rightarrow> 'a option" where
  "only_element xs = (case remdups xs of [x] \<Rightarrow> Some x | _ \<Rightarrow> None)"

definition selected_dialogs :: "migration_manifest \<Rightarrow> string list \<Rightarrow> manifest_dialog list" where
  "selected_dialogs manifest ids =
    filter (\<lambda>d. ids = [] \<or> dlg_source_chat_id d \<in> set ids) (mf_dialogs manifest)"

definition resolve_manifest_anchor_cts_host ::
    "bot_control_config \<Rightarrow> migration_manifest \<Rightarrow> string list \<Rightarrow> (error, string option) outcome" where
  "resolve_manifest_anchor_cts_host cfg manifest ids =
    (case all_ok (map (\<lambda>d. normalize_express_cts_host (bc_urlparse cfg) (dlg_anchor_cts_host d))
        (filter (\<lambda>d. truthy (dlg_anchor_cts_host d)) (selected_dialogs manifest ids))) of
       Inl e \<Rightarrow> Inl e
     | Inr hosts \<Rightarrow> Inr (only_element (List.map_filter id hosts)))"

definition resolve_manifest_anchor_bot_id :: "migration_manifest \<Rightarrow> string list \<Rightarrow> string option" where
  "resolve_manifest_anchor_bot_id manifest ids =
    only_element (List.map_filter (\<lambda>d. if truthy (dlg_anchor_bot_id d) then dlg_anchor_bot_id d else None)
      (selected_dialogs manifest ids))"

definition default_anchor_cts_host ::
    "bot_control_config \<Rightarrow> bot_operator_context \<Rightarrow> string option \<Rightarrow> (error, string option) outcome" where
  "default_anchor_cts_host cfg operator context_host =
    (case normalize_express_cts_host (bc_urlparse cfg) (bc_primary_cts_host cfg) of
       Inl e \<Rightarrow> Inl e
     | Inr (Some host) \<Rightarrow> Inr (Some host)
     | Inr None \<Rightarrow> normalize_express_cts_host (bc_urlparse cfg) (py_or (op_current_cts_host operator) context_host))"

definition configured_bot_id_for_cts_host ::
    "bot_control_config \<Rightarrow> string option \<Rightarrow> (error, string option) outcome" where
  "configured_bot_id_for_cts_host cfg cts_host =
    (case bc_bot_id_for cfg of
       None \<Rightarrow> Inr None
     | Some getter \<Rightarrow>
         (case normalize_express_cts_host (bc_urlparse cfg) cts_host of
            Inl e \<Rightarrow> Inl e
          | Inr host \<Rightarrow> Inr (case getter host of
                None \<Rightarrow> None | Some v \<Rightarrow> if py_strip v = [] then None else Some (py_strip v))))"

text \<open>The anchors of a job: those of its dialogs when they agree, else the defaults.\<close>

definition job_anchors ::
    "bot_control_config \<Rightarrow> bot_operator_context \<Rightarrow> string option \<Rightarrow> migration_manifest \<Rightarrow> string list
      \<Rightarrow> (error, string option \<times> string option) outcome" where
  "job_anchors cfg operator context_host manifest ids =
    (case (case resolve_manifest_anchor_cts_host cfg manifest ids of
             Inl e \<Rightarrow> Inl e
           | Inr (Some host) \<Rightarrow> Inr (Some host)
           | Inr None \<Rightarrow> default_anchor_cts_host cfg operator context_host) of
       Inl e \<Rightarrow> Inl e
     | Inr host \<Rightarrow>
         (case resolve_manifest_anchor_bot_id manifest ids of
            Some b \<Rightarrow> Inr (host, Some b)
          | None \<Rightarrow>
              (case configured_bot_id_for_cts_host cfg host of
                 Inl e \<Rightarrow> Inl e
               | Inr (Some b) \<Rightarrow> Inr (host, Some b)
               | Inr None \<Rightarrow> Inr (host, case op_current_bot_id operator of
                     None \<Rightarrow> None | Some b \<Rightarrow> if py_strip b = [] then None else Some (py_strip b)))))"

section \<open>Active jobs and conflicts\<close>

definition is_effectively_active_job :: "datetime \<Rightarrow> migration_job_record \<Rightarrow> bool" where
  "is_effectively_active_job now j \<longleftrightarrow>
    job_status j = JobQueued
    \<or> job_status j = JobRunning
      \<and> (case job_lease_expires_at j of None \<Rightarrow> True | Some d \<Rightarrow> now \<le> d)"

definition bot_active_job_from_record :: "migration_job_record \<Rightarrow> bot_active_job" where
  "bot_active_job_from_record j = \<lparr>aj_job_key = job_key j, aj_operation = job_operation j,
     aj_migration_id = job_migration_id j, aj_source_chat_ids = job_source_chat_ids j,
     aj_started_at = (case job_started_at j of Some t \<Rightarrow> t | None \<Rightarrow> job_requested_at j)\<rparr>"

definition list_active_jobs ::
    "(string \<Rightarrow> datetime) \<Rightarrow> string \<Rightarrow> string option \<Rightarrow> job_repo \<Rightarrow> bot_active_job list" where
  "list_active_jobs readings migration operator_huid repo =
    map bot_active_job_from_record
      (filter (\<lambda>j. is_effectively_active_job (readings (job_key j)) j
          \<and> (operator_huid = None \<or> Some (job_operator_huid j) = operator_huid))
        (job_list_active migration repo))"

definition jobs_conflict :: "string list \<Rightarrow> string list \<Rightarrow> bool" where
  "jobs_conflict active requested \<longleftrightarrow>
    active = [] \<or> requested = [] \<or> set active \<inter> set requested \<noteq> {}"

definition backpressure_reason :: "bot_control_config \<Rightarrow> job_repo \<Rightarrow> string option" where
  "backpressure_reason cfg repo =
    (let counts = job_count_by_status repo;
         queued = int (case dict_get counts JobQueued of None \<Rightarrow> 0 | Some n \<Rightarrow> n);
         running = int (case dict_get counts JobRunning of None \<Rightarrow> 0 | Some n \<Rightarrow> n);
         max_queued = max 0 (bc_max_queued_jobs cfg);
         max_running = max 0 (bc_max_running_jobs cfg)
     in if max_queued \<noteq> 0 \<and> queued \<ge> max_queued
        then Some (''runtime backpressure is active: queued migration jobs reached ''
               @ str_of_int queued @ '', threshold='' @ str_of_int max_queued)
        else if max_running \<noteq> 0 \<and> running \<ge> max_running
        then Some (''runtime backpressure is active: running migration jobs reached ''
               @ str_of_int running @ '', threshold='' @ str_of_int max_running)
        else None)"

section \<open>Progress\<close>

definition progress_hints ::
    "string \<Rightarrow> string list \<Rightarrow> message_repo \<Rightarrow> checkpoint_repo \<Rightarrow> bot_progress_hint list" where
  "progress_hints migration ids messages checkpoints =
    (let by_chat = group_by mss_source_chat_id
           (filter (\<lambda>s. mss_source_chat_id s \<in> set ids) (message_summarize migration messages))
     in List.map_filter (\<lambda>c.
          let checkpoint = checkpoint_get checkpoints (migration, c, ''backfill'');
              summaries = (case dict_get by_chat c of None \<Rightarrow> [] | Some ss \<Rightarrow> ss);
              mapped = sum_list (map mss_count summaries)
          in if checkpoint = None \<and> mapped = 0 then None
             else Some \<lparr>ph_source_chat_id = c, ph_mapped_total = mapped,
               ph_imported_count = sum_list (map mss_count
                 (filter (\<lambda>s. mss_import_status s = MsgImported) summaries)),
               ph_last_source_message_id = (case checkpoint of
                   None \<Rightarrow> None | Some cp \<Rightarrow> hc_last_source_message_id (cp_cursor cp))\<rparr>) ids)"

definition detect_inconsistent_progress :: "bot_progress_hint list \<Rightarrow> string option" where
  "detect_inconsistent_progress hints =
    (let bad = filter (\<lambda>h. ph_last_source_message_id h \<noteq> None \<and> ph_mapped_total h = 0) hints
     in if bad = [] then None
        else Some (''inconsistent migration progress detected: backfill checkpoint exists, ''
          @ ''but message registry rows are missing for ''
          @ join_comma (map (\<lambda>h. ph_source_chat_id h @ ''(last_source_message_id=''
              @ the (ph_last_source_message_id h) @ '')'') bad)
          @ ''. Automatic resume is blocked because it can create a fresh ''
          @ ''target chat with no historical messages or duplicate an already migrated chat. ''
          @ ''Re-bind the original target chat or explicitly reset checkpoint/chat mapping ''
          @ ''before rerunning /migrate.''))"

definition hints_payload :: "bot_progress_hint list \<Rightarrow> json" where
  "hints_payload hints = JList (map (\<lambda>h. JObj [(''source_chat_id'', JStr (ph_source_chat_id h)),
     (''mapped_total'', JInt (int (ph_mapped_total h))),
     (''imported_count'', JInt (int (ph_imported_count h))),
     (''last_source_message_id'', json_opt_str (ph_last_source_message_id h))]) hints)"

section \<open>Starting a job\<close>

definition job_key_for :: "bot_control_config \<Rightarrow> string \<Rightarrow> string \<Rightarrow> string list \<Rightarrow> string \<Rightarrow> string" where
  "job_key_for cfg operation migration ids uuid =
    operation @ '':'' @ migration @ '':''
      @ (case ids of
           [] \<Rightarrow> ''all''
         | [c] \<Rightarrow> c
         | c # cs \<Rightarrow> c @ ''+'' @ str_of_nat (length cs) @ '':''
             @ take 12 (bc_sha1 cfg (concat (c # map (\<lambda>d. '','' @ d) cs))))
      @ '':'' @ take 12 uuid"

definition json_opt_bool :: "bool option \<Rightarrow> json" where
  "json_opt_bool b = (case b of None \<Rightarrow> JNull | Some x \<Rightarrow> JBool x)"

definition options_payload :: "migration_run_options \<Rightarrow> json" where
  "options_payload o' = JObj [(''include_from'', json_opt_str (ro_include_from o')),
     (''include_to'', json_opt_str (ro_include_to o')),
     (''migrate_media'', json_opt_bool (ro_migrate_media o')),
     (''reply_mode'', json_opt_str (ro_reply_mode o')),
     (''progress_policy'', JStr (ro_progress_policy o')),
     (''batch_size'', case ro_batch_size o' of None \<Rightarrow> JNull | Some n \<Rightarrow> JInt n)]"

abbreviation json_ids :: "string list \<Rightarrow> json" where
  "json_ids ids \<equiv> JList (map JStr ids)"

definition job_requested_event ::
    "bot_active_job \<Rightarrow> bot_operator_context \<Rightarrow> migration_run_options \<Rightarrow> string option \<Rightarrow> string option
      \<Rightarrow> string \<Rightarrow> datetime \<Rightarrow> outbox_event_record" where
  "job_requested_event j operator options cts_host bot_id uuid now =
    \<lparr>ob_event_id = uuid, ob_aggregate_type = ''migration_job'', ob_aggregate_id = aj_job_key j,
     ob_event_type = ''migration.job.requested'',
     ob_payload_json = JObj [(''job_key'', JStr (aj_job_key j)),
       (''migration_id'', JStr (aj_migration_id j)), (''operation'', JStr (aj_operation j)),
       (''operator_huid'', JStr (op_huid operator)),
       (''source_chat_ids'', json_ids (aj_source_chat_ids j)),
       (''anchor_cts_host'', json_opt_str cts_host), (''anchor_bot_id'', json_opt_str bot_id),
       (''options'', options_payload options)],
     ob_created_at = now,
     ob_headers_json = JObj [(''schema_version'', JInt 1), (''source'', JStr ''bot_control''),
       (''shadow_topic'', JStr ''migration.commands'')],
     ob_status = OutPending, ob_leased_by = None, ob_leased_at = None, ob_lease_expires_at = None,
     ob_published_at = None, ob_broker_topic = None, ob_broker_partition = None,
     ob_broker_offset = None, ob_attempts = 0, ob_last_error_code = None,
     ob_last_error_payload = None\<rparr>"

definition queued_job ::
    "bot_control_config \<Rightarrow> bot_active_job \<Rightarrow> bot_operator_context \<Rightarrow> migration_run_options
      \<Rightarrow> string option \<Rightarrow> string option \<Rightarrow> migration_job_record" where
  "queued_job cfg j operator options cts_host bot_id =
    \<lparr>job_key = aj_job_key j, job_migration_id = aj_migration_id j, job_operation = aj_operation j,
     job_operator_huid = op_huid operator, job_source_chat_ids = aj_source_chat_ids j,
     job_batch_size = (case ro_batch_size options of
         None \<Rightarrow> bc_batch_size cfg | Some n \<Rightarrow> if n = 0 then bc_batch_size cfg else n),
     job_status = JobQueued, job_requested_at = aj_started_at j, job_anchor_cts_host = cts_host,
     job_anchor_bot_id = bot_id, job_started_at = None, job_finished_at = None,
     job_heartbeat_at = None, job_lease_expires_at = None, job_worker_id = None, job_attempts = 0,
     job_last_error_code = None, job_last_error_payload = None\<rparr>"

text \<open>
  The first half of \<open>_start_background_operation\<close> decides without storing a job; a refusal comes
  with the audit event to append, if any.
\<close>

definition admission_check ::
    "bot_control_config \<Rightarrow> bot_control_env \<Rightarrow> string \<Rightarrow> string \<Rightarrow> string list \<Rightarrow> migration_run_options
      \<Rightarrow> bot_control_state \<Rightarrow> (bot_operation_accepted_result \<times> (string \<times> (string \<times> json) list) option) option" where
  "admission_check cfg env operation m ids options s =
    (let active = filter (\<lambda>j. jobs_conflict (aj_source_chat_ids j) ids)
           (list_active_jobs (be_active env) m None (bs_jobs s))
     in if active \<noteq> [] then
          Some ((make_result ''already_running'' operation m ids)\<lparr>
            ar_reason := Some ''another bot-managed migration job is already running'',
            ar_active_jobs := active, ar_already_running_source_chat_ids := ids\<rparr>, None)
     else case backpressure_reason cfg (bs_jobs s) of
       Some reason \<Rightarrow>
         Some ((make_result ''blocked'' operation m ids)\<lparr>ar_blocked_source_chat_ids := ids,
             ar_reason := Some reason\<rparr>,
           Some (''bot_migration_backpressure_blocked'', [(''operation'', JStr operation),
             (''source_chat_ids'', json_ids ids), (''reason'', JStr reason)]))
     | None \<Rightarrow>
         let hints = progress_hints m ids (bs_messages s) (bs_checkpoints s)
         in case detect_inconsistent_progress hints of
           Some reason \<Rightarrow>
             Some ((make_result ''blocked'' operation m ids)\<lparr>ar_blocked_source_chat_ids := ids,
                 ar_reason := Some reason\<rparr>,
               Some (''bot_migration_inconsistent_progress_blocked'', [(''operation'', JStr operation),
                 (''source_chat_ids'', json_ids ids), (''progress_hints'', hints_payload hints),
                 (''reason'', JStr reason)]))
         | None \<Rightarrow>
             if ro_progress_policy options = ''ask'' \<and> hints \<noteq> [] then
               Some ((make_result ''blocked'' operation m ids)\<lparr>ar_blocked_source_chat_ids := ids,
                   ar_reason := Some (''existing progress detected; explicit resume ''
                     @ ''confirmation required''),
                   ar_progress_hints := hints\<rparr>,
                 Some (''bot_migration_progress_confirmation_required'',
                   [(''operation'', JStr operation), (''source_chat_ids'', json_ids ids),
                    (''progress_hints'', hints_payload hints)]))
             else None)"

text \<open>The second half stores the job with its outbox event, unless its key is taken.\<close>

definition admission_commit ::
    "bot_control_config \<Rightarrow> bot_control_env \<Rightarrow> bot_operator_context \<Rightarrow> string \<Rightarrow> migration_manifest
      \<Rightarrow> string list \<Rightarrow> migration_run_options \<Rightarrow> bot_control_state
      \<Rightarrow> (error, bot_operation_accepted_result) outcome \<times> bot_control_state" where
  "admission_commit cfg env operator operation manifest ids options s =
    (let m = mf_migration_id manifest;
         key = job_key_for cfg operation m ids (be_job_uuid env);
         j = \<lparr>aj_job_key = key, aj_operation = operation, aj_migration_id = m,
              aj_source_chat_ids = ids, aj_started_at = be_started env\<rparr>
     in case job_anchors cfg operator (be_context_host env) manifest ids of
       Inl e \<Rightarrow> (Inl e, s)
     | Inr (cts_host, bot_id) \<Rightarrow>
         (case job_enqueue (queued_job cfg j operator options cts_host bot_id)
             [job_requested_event j operator options cts_host bot_id (be_event_uuid env) (be_event env)]
             (bs_jobs s) (bs_outbox s) of
            (registered, jobs, outbox) \<Rightarrow>
              if \<not> registered then
                (Inr ((make_result ''already_running'' operation m ids)\<lparr>
                   ar_already_running_source_chat_ids := ids,
                   ar_reason := Some ''job with the same key is already running''\<rparr>),
                 s\<lparr>bs_jobs := jobs, bs_outbox := outbox\<rparr>)
              else
                (Inr ((make_result ''accepted'' operation m ids)\<lparr>ar_job_key := Some key,
                   ar_job_keys := [key], ar_accepted_source_chat_ids := ids\<rparr>),
                 s\<lparr>bs_jobs := jobs, bs_outbox := outbox,
                   bs_audit := audit_operator_event m operator ''bot_migration_job_accepted''
                     [(''operation'', JStr operation), (''job_key'', JStr key),
                      (''source_chat_ids'', json_ids ids), (''options'', options_payload options)]
                     (be_audit env) (bs_audit s)\<rparr>)))"

definition start_background_operation ::
    "bot_control_config \<Rightarrow> bot_control_env \<Rightarrow> bot_operator_context \<Rightarrow> string \<Rightarrow> migration_manifest
      \<Rightarrow> string list \<Rightarrow> migration_run_options \<Rightarrow> bot_control_state
      \<Rightarrow> (error, bot_operation_accepted_result) outcome \<times> bot_control_state" where
  "start_background_operation cfg env operator operation manifest ids options s =
    (case admission_check cfg env operation (mf_migration_id manifest) ids options s of
       None \<Rightarrow> admission_commit cfg env operator operation manifest ids options s
     | Some (res, None) \<Rightarrow> (Inr res, s)
     | Some (res, Some (event_type, payload)) \<Rightarrow>
         (Inr res, s\<lparr>bs_audit := audit_operator_event (mf_migration_id manifest) operator event_type
            payload (be_audit env) (bs_audit s)\<rparr>))"

section \<open>One command, a job per chat\<close>

record fan_out =
  fo_accepted :: "string list"
  fo_job_keys :: "string list"
  fo_blocked :: "string list"
  fo_running :: "string list"
  fo_hints :: "(string, bot_progress_hint) dict"
  fo_active :: "(string, bot_active_job) dict"

definition empty_fan_out :: fan_out where
  "empty_fan_out = \<lparr>fo_accepted = [], fo_job_keys = [], fo_blocked = [], fo_running = [],
     fo_hints = [], fo_active = []\<rparr>"

definition or_ids :: "string list \<Rightarrow> string list \<Rightarrow> string list" where
  "or_ids xs ys = (if xs \<noteq> [] then xs else ys)"

definition fan_out_add :: "bot_operation_accepted_result \<Rightarrow> fan_out \<Rightarrow> fan_out" where
  "fan_out_add r f =
    (if ar_status r = ''accepted'' then
       f\<lparr>fo_accepted := fo_accepted f @ or_ids (ar_accepted_source_chat_ids r) (ar_source_chat_ids r),
         fo_job_keys := fo_job_keys f @ (case ar_job_key r of None \<Rightarrow> [] | Some k \<Rightarrow> [k])\<rparr>
     else if ar_status r = ''already_running'' then
       f\<lparr>fo_running := fo_running f @ or_ids (ar_already_running_source_chat_ids r) (ar_source_chat_ids r),
         fo_active := fold (\<lambda>j. dict_set (aj_job_key j) j) (ar_active_jobs r) (fo_active f)\<rparr>
     else
       f\<lparr>fo_blocked := fo_blocked f @ or_ids (ar_blocked_source_chat_ids r) (ar_source_chat_ids r),
         fo_hints := fold (\<lambda>h. dict_set (ph_source_chat_id h) h) (ar_progress_hints r) (fo_hints f)\<rparr>)"

text \<open>Every start has its own clock readings and identifiers: \<open>envs 0\<close> are those of the first.\<close>

fun fan_out_loop ::
    "bot_control_config \<Rightarrow> (nat \<Rightarrow> bot_control_env) \<Rightarrow> bot_operator_context \<Rightarrow> string
      \<Rightarrow> migration_manifest \<Rightarrow> migration_run_options \<Rightarrow> string list \<Rightarrow> fan_out \<Rightarrow> bot_control_state
      \<Rightarrow> (error, fan_out) outcome \<times> bot_control_state" where
  "fan_out_loop cfg envs operator operation manifest options [] f s = (Inr f, s)"
| "fan_out_loop cfg envs operator operation manifest options (c # cs) f s =
    (case start_background_operation cfg (envs 0) operator operation manifest [c] options s of
       (Inl e, s') \<Rightarrow> (Inl e, s')
     | (Inr r, s') \<Rightarrow> fan_out_loop cfg (\<lambda>n. envs (Suc n)) operator operation manifest options cs (fan_out_add r f) s')"

definition fan_out_result ::
    "string \<Rightarrow> string \<Rightarrow> string list \<Rightarrow> fan_out \<Rightarrow> bot_operation_accepted_result" where
  "fan_out_result operation m ids f =
    (if fo_job_keys f \<noteq> [] then
       (make_result ''accepted'' operation m ids)\<lparr>
         ar_job_key := (case fo_job_keys f of [k] \<Rightarrow> Some k | _ \<Rightarrow> None),
         ar_job_keys := fo_job_keys f, ar_active_jobs := dict_values (fo_active f),
         ar_progress_hints := dict_values (fo_hints f),
         ar_accepted_source_chat_ids := fo_accepted f, ar_blocked_source_chat_ids := fo_blocked f,
         ar_already_running_source_chat_ids := fo_running f,
         ar_reason := (if fo_blocked f \<noteq> [] \<or> fo_running f \<noteq> []
           then Some ''some chats were not enqueued'' else None)\<rparr>
     else if fo_running f \<noteq> [] then
       (make_result ''already_running'' operation m ids)\<lparr>
         ar_active_jobs := dict_values (fo_active f), ar_progress_hints := dict_values (fo_hints f),
         ar_blocked_source_chat_ids := fo_blocked f,
         ar_already_running_source_chat_ids := fo_running f,
         ar_reason := Some ''all selected chats already have active bot-managed jobs''\<rparr>
     else
       (make_result ''blocked'' operation m ids)\<lparr>ar_progress_hints := dict_values (fo_hints f),
         ar_blocked_source_chat_ids := fo_blocked f,
         ar_reason := Some ''all selected chats are blocked''\<rparr>)"

definition start_fan_out ::
    "bot_control_config \<Rightarrow> (nat \<Rightarrow> bot_control_env) \<Rightarrow> bot_operator_context \<Rightarrow> string \<Rightarrow> string
      \<Rightarrow> migration_manifest \<Rightarrow> string list \<Rightarrow> migration_run_options \<Rightarrow> bot_control_state
      \<Rightarrow> (error, bot_operation_accepted_result) outcome \<times> bot_control_state" where
  "start_fan_out cfg envs operator aggregate operation manifest ids options s =
    (case fan_out_loop cfg envs operator operation manifest options ids empty_fan_out s of
       (Inl e, s') \<Rightarrow> (Inl e, s')
     | (Inr f, s') \<Rightarrow> (Inr (fan_out_result aggregate (mf_migration_id manifest) ids f), s'))"

section \<open>Cancelling\<close>

record bot_cancel_result =
  cr_migration_id :: string
  cr_source_chat_id :: "string option"
  cr_cancelled_queued_jobs :: "bot_active_job list"
  cr_cancellation_requested_jobs :: "bot_active_job list"

text \<open>The requests, one after another; \<open>t\<close> gives the clock reading of each.\<close>

fun cancel_loop ::
    "string \<Rightarrow> (string \<Rightarrow> datetime) \<Rightarrow> migration_job_record list \<Rightarrow> job_repo
      \<Rightarrow> bot_active_job list \<times> bot_active_job list \<times> job_repo" where
  "cancel_loop huid t [] repo = ([], [], repo)"
| "cancel_loop huid t (j # js) repo =
    (case job_request_cancel (t (job_key j)) huid (job_key j) repo of
       (None, repo') \<Rightarrow> cancel_loop huid t js repo'
     | (Some updated, repo') \<Rightarrow>
         (let (queued, running, repo'') = cancel_loop huid t js repo' in
          if job_status j = JobQueued then (bot_active_job_from_record updated # queued, running, repo'')
          else (queued, bot_active_job_from_record updated # running, repo'')))"

text \<open>\<open>m\<close> is the configured migration id; without one the code raises before anything is read.\<close>

definition cancel_active_jobs ::
    "bot_control_config \<Rightarrow> bot_operator_context \<Rightarrow> string \<Rightarrow> string option \<Rightarrow> (string \<Rightarrow> datetime)
      \<Rightarrow> (string \<Rightarrow> datetime) \<Rightarrow> datetime \<Rightarrow> bot_control_state
      \<Rightarrow> (error, bot_cancel_result) outcome \<times> bot_control_state" where
  "cancel_active_jobs cfg operator m source_chat_id readings t now s =
    (case bot_authorize cfg operator of
       Some e \<Rightarrow> (Inl e, s)
     | None \<Rightarrow>
         let chat = (case source_chat_id of
               None \<Rightarrow> None | Some c \<Rightarrow> if py_strip c = [] then None else Some (py_strip c));
             active = filter (\<lambda>j. job_operator_huid j = op_huid operator
                 \<and> is_effectively_active_job (readings (job_key j)) j
                 \<and> (case chat of None \<Rightarrow> True | Some c \<Rightarrow> c \<in> set (job_source_chat_ids j)))
               (job_list_active m (bs_jobs s));
             (queued, running, jobs) = cancel_loop (op_huid operator) t active (bs_jobs s)
         in (Inr \<lparr>cr_migration_id = m, cr_source_chat_id = chat, cr_cancelled_queued_jobs = queued,
               cr_cancellation_requested_jobs = running\<rparr>,
             s\<lparr>bs_jobs := jobs,
               bs_audit := audit_operator_event m operator ''bot_migration_jobs_cancel_requested''
                 [(''source_chat_id'', json_opt_str chat),
                  (''cancelled_queued_job_keys'', json_ids (map aj_job_key queued)),
                  (''running_job_keys'', json_ids (map aj_job_key running))] now (bs_audit s)\<rparr>))"

section \<open>What is admitted\<close>

lemma make_result_simps [simp]:
  "ar_status (make_result st o' m ids) = st" "ar_source_chat_ids (make_result st o' m ids) = ids"
  "ar_job_key (make_result st o' m ids) = None" "ar_job_keys (make_result st o' m ids) = []"
  "ar_accepted_source_chat_ids (make_result st o' m ids) = []"
  "ar_blocked_source_chat_ids (make_result st o' m ids) = []"
  "ar_already_running_source_chat_ids (make_result st o' m ids) = []"
  "ar_active_jobs (make_result st o' m ids) = []"
  by (simp_all add: make_result_def)

lemma list_active_jobs_mem:
  "a \<in> set (list_active_jobs readings m None repo) \<longleftrightarrow>
    (\<exists>j. j \<in> set (dict_values repo) \<and> job_migration_id j = m
      \<and> is_effectively_active_job (readings (job_key j)) j \<and> a = bot_active_job_from_record j)"
  unfolding list_active_jobs_def job_list_active_def set_map set_filter set_sort
  by (auto simp: is_effectively_active_job_def)

text \<open>Below a threshold: either there is none, or fewer jobs have the status.\<close>

definition below_threshold :: "int \<Rightarrow> job_status \<Rightarrow> job_repo \<Rightarrow> bool" where
  "below_threshold limit status repo \<longleftrightarrow>
    limit \<le> 0 \<or> int (length (filter (\<lambda>j. job_status j = status) (dict_values repo))) < limit"

text \<open>A refusal never has the status of an acceptance and carries all the requested chats.\<close>

lemma admission_check_refusal:
  assumes "admission_check cfg env operation m ids options s = Some (r, a)"
  shows "ar_status r = ''already_running'' \<and> ar_already_running_source_chat_ids r = ids
    \<or> ar_status r = ''blocked'' \<and> ar_blocked_source_chat_ids r = ids"
  using assms by (auto simp: admission_check_def Let_def split: if_splits option.splits)

lemma admission_check_None:
  assumes "admission_check cfg env operation m ids options s = None"
  shows "\<And>j. j \<in> set (dict_values (bs_jobs s)) \<Longrightarrow> job_migration_id j = m
      \<Longrightarrow> is_effectively_active_job (be_active env (job_key j)) j
      \<Longrightarrow> \<not> jobs_conflict (job_source_chat_ids j) ids"
    and "backpressure_reason cfg (bs_jobs s) = None"
proof -
  show "backpressure_reason cfg (bs_jobs s) = None"
    using assms by (auto simp: admission_check_def Let_def split: if_splits option.splits)
  fix j
  assume j: "j \<in> set (dict_values (bs_jobs s))" "job_migration_id j = m"
    "is_effectively_active_job (be_active env (job_key j)) j"
  have "filter (\<lambda>a. jobs_conflict (aj_source_chat_ids a) ids)
      (list_active_jobs (be_active env) m None (bs_jobs s)) = []"
    using assms by (auto simp: admission_check_def Let_def split: if_splits option.splits)
  then have "\<forall>a \<in> set (list_active_jobs (be_active env) m None (bs_jobs s)).
      \<not> jobs_conflict (aj_source_chat_ids a) ids"
    by (simp add: filter_empty_conv)
  moreover have "bot_active_job_from_record j \<in> set (list_active_jobs (be_active env) m None (bs_jobs s))"
    unfolding list_active_jobs_mem using j by blast
  ultimately show "\<not> jobs_conflict (job_source_chat_ids j) ids"
    by (auto simp: bot_active_job_from_record_def)
qed

lemma backpressure_None:
  assumes "backpressure_reason cfg repo = None"
  shows "below_threshold (bc_max_queued_jobs cfg) JobQueued repo"
    and "below_threshold (bc_max_running_jobs cfg) JobRunning repo"
proof -
  have count: "int (case dict_get (job_count_by_status repo) st of None \<Rightarrow> 0 | Some n \<Rightarrow> n) =
      int (length (filter (\<lambda>j. job_status j = st) (dict_values repo)))" for st
  proof (cases "st \<in> set (map job_status (dict_values repo))")
    case True
    then show ?thesis
      by (simp only: job_count_by_status_def dict_get_count_keys if_True option.case count_list_map_filter)
  next
    case False
    then have "filter (\<lambda>j. job_status j = st) (dict_values repo) = []"
      by (auto simp: filter_empty_conv image_iff)
    with False show ?thesis by (simp only: job_count_by_status_def dict_get_count_keys) simp
  qed
  show "below_threshold (bc_max_queued_jobs cfg) JobQueued repo"
    using assms unfolding backpressure_reason_def Let_def count below_threshold_def
    by (auto split: if_splits)
  show "below_threshold (bc_max_running_jobs cfg) JobRunning repo"
    using assms unfolding backpressure_reason_def Let_def count below_threshold_def
    by (auto split: if_splits)
qed

lemma queued_job_simps [simp]:
  "job_key (queued_job cfg a operator options h b) = aj_job_key a"
  "job_migration_id (queued_job cfg a operator options h b) = aj_migration_id a"
  "job_operation (queued_job cfg a operator options h b) = aj_operation a"
  "job_operator_huid (queued_job cfg a operator options h b) = op_huid operator"
  "job_source_chat_ids (queued_job cfg a operator options h b) = aj_source_chat_ids a"
  "job_status (queued_job cfg a operator options h b) = JobQueued"
  "job_fresh (queued_job cfg a operator options h b)"
  by (simp_all add: queued_job_def job_fresh_def)

lemma job_requested_event_simps [simp]:
  "ob_event_id (job_requested_event a operator options h b uuid t) = uuid"
  "ob_aggregate_id (job_requested_event a operator options h b uuid t) = aj_job_key a"
  "ob_status (job_requested_event a operator options h b uuid t) = OutPending"
  by (simp_all add: job_requested_event_def)

text \<open>The second half raises, finds its key taken, or stores the job, its event and an audit event.\<close>

lemma admission_commit_cases:
  obtains (raised) e where
      "admission_commit cfg env operator operation manifest ids options s = (Inl e, s)"
  | (taken) r where
      "admission_commit cfg env operator operation manifest ids options s = (Inr r, s)"
      "ar_status r = ''already_running''" "ar_already_running_source_chat_ids r = ids"
  | (stored) r j ev evs where
      "admission_commit cfg env operator operation manifest ids options s =
        (Inr r, s\<lparr>bs_jobs := dict_set (job_key j) j (bs_jobs s),
          bs_outbox := map_option (outbox_append_many [ev]) (bs_outbox s), bs_audit := evs\<rparr>)"
      "ar_status r = ''accepted''" "ar_accepted_source_chat_ids r = ids" "ar_job_key r = Some (job_key j)"
      "job_get (bs_jobs s) (job_key j) = None" "job_fresh j" "job_source_chat_ids j = ids"
      "job_migration_id j = mf_migration_id manifest" "job_operator_huid j = op_huid operator"
      "ob_event_id ev = be_event_uuid env" "ob_aggregate_id ev = job_key j" "ob_status ev = OutPending"
proof (cases "job_anchors cfg operator (be_context_host env) manifest ids")
  case (Inl e)
  then show ?thesis by (intro raised) (simp add: admission_commit_def Let_def)
next
  case (Inr anchors)
  obtain host b where anchors: "anchors = (host, b)" by fastforce
  let ?key = "job_key_for cfg operation (mf_migration_id manifest) ids (be_job_uuid env)"
  show ?thesis
  proof (cases "dict_get (bs_jobs s) ?key")
    case None
    let ?a = "\<lparr>aj_job_key = ?key, aj_operation = operation, aj_migration_id = mf_migration_id manifest,
      aj_source_chat_ids = ids, aj_started_at = be_started env\<rparr>"
    let ?j = "queued_job cfg ?a operator options host b"
    let ?ev = "job_requested_event ?a operator options host b (be_event_uuid env) (be_event env)"
    have "job_enqueue ?j [?ev] (bs_jobs s) (bs_outbox s) = (True, dict_set (job_key ?j) ?j (bs_jobs s),
        map_option (outbox_append_many [?ev]) (bs_outbox s))"
      using None by (cases "bs_outbox s") (simp_all add: job_enqueue_def)
    then have "admission_commit cfg env operator operation manifest ids options s =
      (Inr ((make_result ''accepted'' operation (mf_migration_id manifest) ids)\<lparr>ar_job_key := Some ?key,
         ar_job_keys := [?key], ar_accepted_source_chat_ids := ids\<rparr>),
       s\<lparr>bs_jobs := dict_set (job_key ?j) ?j (bs_jobs s),
         bs_outbox := map_option (outbox_append_many [?ev]) (bs_outbox s),
         bs_audit := audit_operator_event (mf_migration_id manifest) operator ''bot_migration_job_accepted''
           [(''operation'', JStr operation), (''job_key'', JStr ?key),
            (''source_chat_ids'', json_ids ids), (''options'', options_payload options)]
           (be_audit env) (bs_audit s)\<rparr>)"
      by (simp add: admission_commit_def Inr anchors Let_def)
    then show ?thesis by (rule stored) (simp_all add: None job_get_def)
  next
    case (Some j)
    then have "admission_commit cfg env operator operation manifest ids options s =
      (Inr ((make_result ''already_running'' operation (mf_migration_id manifest) ids)\<lparr>
         ar_already_running_source_chat_ids := ids,
         ar_reason := Some ''job with the same key is already running''\<rparr>), s)"
      by (simp add: admission_commit_def Inr anchors Let_def job_enqueue_def)
    then show ?thesis by (rule taken) simp_all
  qed
qed


text \<open>
  One start raises, refuses all its chats without touching jobs or outbox, or accepts them all and
  queues one new job.
\<close>

lemma start_background_operation_cases:
  assumes "start_background_operation cfg env operator operation manifest ids options s = (res, s')"
  obtains (raised) e where "res = Inl e" "bs_jobs s' = bs_jobs s" "bs_outbox s' = bs_outbox s"
  | (refused) r where "res = Inr r" "bs_jobs s' = bs_jobs s" "bs_outbox s' = bs_outbox s"
      "ar_status r = ''already_running'' \<and> ar_already_running_source_chat_ids r = ids
       \<or> ar_status r = ''blocked'' \<and> ar_blocked_source_chat_ids r = ids"
  | (accepted) r j ev where "res = Inr r" "ar_status r = ''accepted''"
      "ar_accepted_source_chat_ids r = ids" "ar_job_key r = Some (job_key j)"
      "admission_check cfg env operation (mf_migration_id manifest) ids options s = None"
      "job_get (bs_jobs s) (job_key j) = None" "job_fresh j" "job_source_chat_ids j = ids"
      "job_migration_id j = mf_migration_id manifest" "job_operator_huid j = op_huid operator"
      "bs_jobs s' = dict_set (job_key j) j (bs_jobs s)"
      "ob_event_id ev = be_event_uuid env" "ob_aggregate_id ev = job_key j" "ob_status ev = OutPending"
      "bs_outbox s' = map_option (outbox_append_many [ev]) (bs_outbox s)"
proof (cases "admission_check cfg env operation (mf_migration_id manifest) ids options s")
  case None
  with assms have eq: "admission_commit cfg env operator operation manifest ids options s = (res, s')"
    by (simp add: start_background_operation_def)
  show ?thesis
    using eq
    by (cases rule: admission_commit_cases [of cfg env operator operation manifest ids options s])
      (auto intro: raised refused accepted [OF _ _ _ _ None])
next
  case (Some p)
  obtain r a where p: "p = (r, a)" by fastforce
  with Some assms have "res = Inr r" "bs_jobs s' = bs_jobs s" "bs_outbox s' = bs_outbox s"
    by (auto simp: start_background_operation_def split: option.splits prod.splits)
  then show ?thesis using admission_check_refusal [OF Some [unfolded p]] by (rule refused)
qed

text \<open>
  The lists of a fan-out hold each requested chat once, and every accepted chat has its queued job.
\<close>

definition fan_out_ok :: "string list \<Rightarrow> fan_out \<Rightarrow> job_repo \<Rightarrow> bool" where
  "fan_out_ok done_ids f jobs \<longleftrightarrow>
    mset (fo_accepted f) + mset (fo_blocked f) + mset (fo_running f) = mset done_ids
    \<and> list_all2 (\<lambda>k c. \<exists>j. job_get jobs k = Some j \<and> job_status j = JobQueued
        \<and> job_source_chat_ids j = [c]) (fo_job_keys f) (fo_accepted f)"

lemma fan_out_ok_empty: "fan_out_ok [] empty_fan_out jobs"
  by (simp add: fan_out_ok_def empty_fan_out_def)

lemma fan_out_ok_step:
  assumes "start_background_operation cfg env operator operation manifest [c] options s = (Inr r, s')"
    and "fan_out_ok ids f (bs_jobs s)"
  shows "fan_out_ok (ids @ [c]) (fan_out_add r f) (bs_jobs s')"
  using assms(1)
proof (cases rule: start_background_operation_cases)
  case raised
  then show ?thesis by simp
next
  case (refused r')
  then show ?thesis using assms(2)
    by (auto simp: fan_out_ok_def fan_out_add_def or_ids_def)
next
  case (accepted r' j ev)
  have "list_all2 (\<lambda>k c. \<exists>j. job_get (bs_jobs s') k = Some j \<and> job_status j = JobQueued
        \<and> job_source_chat_ids j = [c]) (fo_job_keys f) (fo_accepted f)"
    using assms(2) accepted unfolding fan_out_ok_def
    by (elim conjE list.rel_mono_strong) (auto simp: job_get_def)
  moreover have "job_status j = JobQueued" using accepted by (simp add: job_fresh_def)
  ultimately show ?thesis using assms(2) accepted
    by (auto simp: fan_out_ok_def fan_out_add_def or_ids_def job_get_def list_all2_appendI)
qed

lemma fan_out_loop_ok:
  "fan_out_loop cfg envs operator operation manifest options cs f s = (Inr f', s')
    \<Longrightarrow> fan_out_ok ids f (bs_jobs s) \<Longrightarrow> fan_out_ok (ids @ cs) f' (bs_jobs s')"
proof (induction cs arbitrary: envs ids f s)
  case Nil
  then show ?case by simp
next
  case (Cons c cs)
  obtain res s1 where start:
    "start_background_operation cfg (envs 0) operator operation manifest [c] options s = (res, s1)"
    by fastforce
  with Cons.prems obtain r where res: "res = Inr r" by (cases res) auto
  have "fan_out_ok (ids @ [c]) (fan_out_add r f) (bs_jobs s1)"
    using start [unfolded res] Cons.prems(2) by (rule fan_out_ok_step)
  moreover have "fan_out_loop cfg (\<lambda>n. envs (Suc n)) operator operation manifest options cs
      (fan_out_add r f) s1 = (Inr f', s')"
    using Cons.prems(1) start res by simp
  ultimately have "fan_out_ok ((ids @ [c]) @ cs) f' (bs_jobs s')" by (intro Cons.IH)
  then show ?case by simp
qed

lemma start_fan_out_ok:
  assumes "start_fan_out cfg envs operator aggregate operation manifest ids options s = (Inr r, s')"
  obtains f where "fan_out_ok ids f (bs_jobs s')" "r = fan_out_result aggregate (mf_migration_id manifest) ids f"
proof -
  from assms obtain f where
    "fan_out_loop cfg envs operator operation manifest options ids empty_fan_out s = (Inr f, s')"
    "r = fan_out_result aggregate (mf_migration_id manifest) ids f"
    by (auto simp: start_fan_out_def split: prod.splits sum.splits)
  with that fan_out_loop_ok [OF _ fan_out_ok_empty] show thesis by fastforce
qed

text \<open>What the report says, from the collected lists.\<close>

lemma fan_out_result_lists:
  assumes "fan_out_ok ids f jobs"
  shows "ar_accepted_source_chat_ids (fan_out_result aggregate m ids f) = fo_accepted f"
    "ar_blocked_source_chat_ids (fan_out_result aggregate m ids f) = fo_blocked f"
    "ar_already_running_source_chat_ids (fan_out_result aggregate m ids f) = fo_running f"
    "ar_job_keys (fan_out_result aggregate m ids f) = fo_job_keys f"
proof -
  have "fo_job_keys f = [] \<longleftrightarrow> fo_accepted f = []"
    using assms by (auto simp: fan_out_ok_def dest: list_all2_lengthD)
  then show "ar_accepted_source_chat_ids (fan_out_result aggregate m ids f) = fo_accepted f"
    by (simp add: fan_out_result_def)
qed (simp_all add: fan_out_result_def)

section \<open>What is cancelled\<close>

lemma job_request_cancel_other:
  assumes "k' \<noteq> k \<or> (\<exists>j. job_get repo k = Some j \<and> job_operator_huid j \<noteq> huid)"
  shows "job_get (snd (job_request_cancel t huid k repo)) k' = job_get repo k'"
  using assms by (auto simp: job_request_cancel_def job_get_def Let_def split: option.splits job_status.splits)

text \<open>The jobs of the loop are all the operator's, and no other job changes.\<close>

lemma cancel_loop_other:
  "job_get repo k = Some j \<Longrightarrow> k \<notin> job_key ` set js \<Longrightarrow>
    job_get (snd (snd (cancel_loop huid t js repo))) k = Some j"
proof (induction js arbitrary: repo)
  case Nil
  then show ?case by simp
next
  case (Cons a js)
  then have "job_get (snd (job_request_cancel (t (job_key a)) huid (job_key a) repo)) k = Some j"
    by (subst job_request_cancel_other) auto
  with Cons show ?case
    by (auto split: prod.splits option.splits) (metis snd_conv)+
qed

end
