(* ===== verification/Examples.thy ===== *)
theory Examples
  imports Cutover Inventory Job_Worker Outbox_Publisher Stage_Repo Identity_Repo Telegram_Login
    Job_Admission
begin

text \<open>
  Concrete records, repositories and parameters on which the properties of the root theory are
  applied: a migration \<open>m\<close> with one chat \<open>c\<close>, its job, messages and attachments, and small
  stand-ins for the outside calls.
\<close>

section \<open>Jobs\<close>

definition ex_job :: migration_job_record where
  "ex_job = \<lparr>job_key = ''j1'', job_migration_id = ''m'', job_operation = ''migrate_all'',
     job_operator_huid = ''op'', job_source_chat_ids = [''c''], job_batch_size = 100,
     job_status = JobQueued, job_requested_at = 5, job_anchor_cts_host = None,
     job_anchor_bot_id = None, job_started_at = None, job_finished_at = None,
     job_heartbeat_at = None, job_lease_expires_at = None, job_worker_id = None, job_attempts = 0,
     job_last_error_code = None, job_last_error_payload = None\<rparr>"

definition ex_jobs :: job_repo where
  "ex_jobs = [(''j1'', ex_job)]"

definition ex_job2 :: migration_job_record where
  "ex_job2 = ex_job\<lparr>job_key := ''j2'', job_requested_at := 3\<rparr>"

text \<open>The repository after worker \<open>w\<close> claimed the job at time 0 for 30 seconds.\<close>

definition ex_running_job :: migration_job_record where
  "ex_running_job = job_start ''w'' 30000000 0 ex_job"

definition ex_running :: job_repo where
  "ex_running = [(''j1'', ex_running_job)]"

lemma job_fresh_ex_job: "job_fresh ex_job"
  by (simp add: job_fresh_def ex_job_def)

lemma jobs_reachable_ex_jobs: "jobs_reachable ex_jobs"
proof -
  have "job_step [] (fst (snd (job_enqueue ex_job [] [] None)))"
    using job_fresh_ex_job by (rule job_step.enqueue)
  moreover have "fst (snd (job_enqueue ex_job [] [] None)) = ex_jobs"
    by (simp add: job_enqueue_def ex_jobs_def ex_job_def)
  ultimately show ?thesis using jobs_reachable.init jobs_reachable.step by metis
qed

lemma ex_take: "job_take (ByKey ''j1'') ''w'' 30000000 0 ex_jobs = ([ex_running_job], ex_running)"
  by (simp add: job_claim_def ex_jobs_def ex_running_def ex_running_job_def job_claimable_def ex_job_def
      Let_def)

lemma jobs_reachable_ex_running: "jobs_reachable ex_running"
  using jobs_reachable.step [OF jobs_reachable_ex_jobs job_step.take] ex_take by (metis snd_conv)

lemma ex_running_get: "job_get ex_running ''j1'' = Some ex_running_job"
  by (simp add: job_get_def ex_running_def)

lemma ex_running_job_simps:
  "job_status ex_running_job = JobRunning" "job_worker_id ex_running_job = Some ''w''"
  "job_key ex_running_job = ''j1''" "job_operator_huid ex_running_job = ''op''"
  "job_lease_expires_at ex_running_job = Some 30000000" "job_last_error_code ex_running_job = None"
  by (simp_all add: ex_running_job_def ex_job_def lease_deadline_def drop_microseconds_def)

definition ex_done :: job_repo where
  "ex_done = snd (job_owner_update (Complete 9) ''w'' ''j1'' ex_running)"

text \<open>A message asking for the job, and the schedule of an undisturbed run.\<close>

definition ex_envelope :: integration_envelope where
  "ex_envelope = \<lparr>en_message_id = ''msg1'', en_message_type = ''migration.job.requested'',
     en_schema_version = 1, en_occurred_at = 0, en_aggregate_type = ''migration_job'',
     en_aggregate_id = ''j1'', en_payload_json = [(''job_key'', JStr ''j1'')], en_headers_json = [],
     en_migration_id = Some ''m'', en_logical_chat_key = None\<rparr>"

definition ex_handler_config :: handler_config where
  "ex_handler_config = \<lparr>hc_consumer_name = ''migration-command-consumer'', hc_worker_id = ''w'',
     hc_lease_duration = 30000000\<rparr>"

definition ex_worker_config :: worker_config where
  "ex_worker_config = make_worker_config True 2 1000000 30000000 10000000"

definition ex_schedule :: handler_schedule where
  "ex_schedule = \<lparr>sch_claimed = 0, sch_events = [Tick 10000000], sch_outcome = ServiceReturned,
     sch_finished = 15000000, sch_stamp = 15000001, sch_processed = 15000002\<rparr>"

definition ex_handler_state :: handler_state where
  "ex_handler_state = \<lparr>hs_inbox = [], hs_jobs = ex_jobs, hs_audit = []\<rparr>"

section \<open>The outbox\<close>

definition ex_event :: outbox_event_record where
  "ex_event = \<lparr>ob_event_id = ''e1'', ob_aggregate_type = ''migration_job'', ob_aggregate_id = ''j1'',
     ob_event_type = ''migration.job.requested'', ob_payload_json = JNull, ob_created_at = 0,
     ob_headers_json = JNull, ob_status = OutPending, ob_leased_by = None, ob_leased_at = None,
     ob_lease_expires_at = None, ob_published_at = None, ob_broker_topic = None,
     ob_broker_partition = None, ob_broker_offset = None, ob_attempts = 0,
     ob_last_error_code = None, ob_last_error_payload = None\<rparr>"

definition ex_outbox :: outbox_repo where
  "ex_outbox = [(''e1'', ex_event)]"

definition ex_published :: published_event where
  "ex_published = \<lparr>pe_broker_topic = ''jobs'', pe_published_at = 7, pe_broker_partition = Some 0,
     pe_broker_offset = Some 41\<rparr>"

definition ex_broker :: "nat broker" where
  "ex_broker e n = (Inr ex_published, Suc n)"

definition ex_publisher_state :: "nat publisher_state" where
  "ex_publisher_state = \<lparr>ps_outbox = ex_outbox, ps_watermarks = Some [], ps_broker = 0\<rparr>"

section \<open>Messages, attachments and uploads\<close>

definition ex_message :: message_mapping_record where
  "ex_message = \<lparr>mm_migration_id = ''m'', mm_source_chat_id = ''c'', mm_source_message_id = ''1'',
     mm_source_sent_at = 0, mm_target_chat_id = ''t'', mm_checksum = ''x'',
     mm_import_status = MsgProcessing, mm_imported_at = None, mm_target_sync_id = None,
     mm_rendered_body = None, mm_last_error_code = None, mm_last_error_payload = None\<rparr>"

definition ex_imported :: message_mapping_record where
  "ex_imported = ex_message\<lparr>mm_import_status := MsgImported, mm_imported_at := Some 3,
     mm_target_sync_id := Some ''s'', mm_rendered_body := Some ''b''\<rparr>"

definition ex_attachment :: attachment_mapping_record where
  "ex_attachment = \<lparr>am_migration_id = ''m'', am_source_chat_id = ''c'', am_source_message_id = ''1'',
     am_attachment_index = 0, am_source_file_id = None, am_source_filename = None,
     am_media_kind = ''photo'', am_checksum = None, am_size_bytes = None, am_target_chat_id = ''t'',
     am_import_status = AttProcessing, am_imported_at = None, am_target_sync_id = None,
     am_last_error_code = None, am_last_error_payload = None\<rparr>"

definition ex_stage :: attachment_stage_record where
  "ex_stage = \<lparr>st_migration_id = ''m'', st_source_chat_id = ''c'', st_source_message_id = ''1'',
     st_attachment_index = 0, st_target_chat_id = ''t'', st_source_locator = None,
     st_media_kind = ''photo'', st_checksum = None, st_size_bytes = None, st_status = StageProcessing,
     st_express_file_id = None, st_express_file_payload = None, st_target_sync_id = None,
     st_last_error_code = None, st_last_error_payload = None, st_created_at = None,
     st_updated_at = None\<rparr>"

definition ex_stage_args :: stage_claim_args where
  "ex_stage_args = \<lparr>sa_retry_failed = False, sa_created = 0, sa_updated = 0\<rparr>"

definition ex_messages :: message_repo where
  "ex_messages = message_repo_init 30000000"

text \<open>The repository after one claim at time 0, and after the message was imported.\<close>

definition ex_claimed :: message_repo where
  "ex_claimed = message_write (''m'', ''c'', ''1'') ex_message 0 ex_messages"

definition ex_delivered :: message_repo where
  "ex_delivered = message_write (''m'', ''c'', ''1'') ex_imported 3 ex_claimed"

definition ex_failed :: message_repo where
  "ex_failed = message_write (''m'', ''c'', ''1'') (ex_message\<lparr>mm_import_status := MsgFailed,
     mm_last_error_code := Some ''X'', mm_last_error_payload := Some JNull\<rparr>) 0 ex_claimed"

lemma ex_message_simps:
  "message_key ex_message = (''m'', ''c'', ''1'')" "message_key ex_imported = (''m'', ''c'', ''1'')"
  "message_submission ex_message" "mm_import_status ex_message = MsgProcessing"
  "mm_import_status ex_imported = MsgImported"
  by (simp_all add: message_key_def message_submission_def ex_message_def ex_imported_def)

lemma messages_reachable_init: "messages_reachable 30000000 ex_messages"
  unfolding ex_messages_def by (rule messages_reachable.init)

lemma ex_messages_claim: "message_claim ex_message t 0 ex_messages = ((Claimed, ex_message), ex_claimed)"
  by (simp add: message_claim_def ex_messages_def message_repo_init_def ex_claimed_def message_put_def
      message_write_def ex_message_simps Let_def)

lemma messages_reachable_claimed: "messages_reachable 30000000 ex_claimed"
  using messages_reachable.step [OF messages_reachable_init message_step.claim [OF ex_message_simps(3)], of 0 0]
  by (simp add: ex_messages_claim)

lemma ex_claimed_mark:
  "message_mark_imported (''m'', ''c'', ''1'') ''s'' ''b'' 3 ex_claimed = Inr (ex_imported, ex_delivered)"
  by (simp add: message_mark_imported_def ex_delivered_def ex_claimed_def ex_messages_def
      message_repo_init_def message_write_def ex_imported_def ex_message_def Let_def)

lemma messages_reachable_delivered: "messages_reachable 30000000 ex_delivered"
  using messages_reachable.step [OF messages_reachable_claimed message_step.imported [OF ex_claimed_mark]] .

lemma ex_claimed_get: "message_get ex_claimed (''m'', ''c'', ''1'') = Some ex_message"
  by (simp add: ex_claimed_def)

lemma ex_delivered_get: "message_get ex_delivered (''m'', ''c'', ''1'') = Some ex_imported"
  by (simp add: ex_delivered_def)

lemma ex_claimed_started: "mr_started ex_claimed (''m'', ''c'', ''1'') = Some 0"
  "mr_stale_after ex_claimed = 30000000"
  by (simp_all add: ex_claimed_def message_write_def ex_message_simps ex_messages_def
      message_repo_init_def one_second_def)

section \<open>A migration ready for cutover\<close>

definition ex_dialog :: manifest_dialog where
  "ex_dialog = \<lparr>dlg_source_chat_id = ''c'', dlg_source_chat_type = ''group'',
     dlg_source_backend = ''telethon'', dlg_target_strategy = ''create'', dlg_target_title = Some ''T'',
     dlg_target_chat_id = None, dlg_initiator_huid = None, dlg_anchor_cts_host = None,
     dlg_anchor_bot_id = None, dlg_include_from = None, dlg_include_to = None,
     dlg_migrate_media = None, dlg_reply_mode = None, dlg_identity_policy = None,
     dlg_access_strategy = None, dlg_topic_strategy = ''single_chat'', dlg_skip_in_all = False,
     dlg_telegram_chat_id = None, dlg_source_topic_id = None, dlg_source_thread_id = None,
     dlg_source_thread_title = None\<rparr>"

definition ex_manifest :: migration_manifest where
  "ex_manifest = \<lparr>mf_migration_id = ''m'', mf_mode = ''backfill_plus_delta'',
     mf_defaults = \<lparr>md_migrate_media = True, md_propagate_edits = False, md_propagate_deletes = False,
       md_reply_mode = ''inline_quote'', md_identity_policy = ''strict'',
       md_access_strategy = ''direct_add''\<rparr>, mf_dialogs = [ex_dialog]\<rparr>"

definition ex_snapshot :: inventory_snapshot_record where
  "ex_snapshot = \<lparr>inv_migration_id = ''m'', inv_source_chat_id = ''c'',
     inv_source_chat_type = ''group'', inv_source_chat_title = ''C'', inv_message_count = 1,
     inv_media_count = 0, inv_approximate_bytes = 10, inv_captured_at = 1\<rparr>"

definition ex_repos :: reconcile_repos where
  "ex_repos = \<lparr>rs_inventory = [((''m'', ''c''), ex_snapshot)], rs_messages = ex_delivered,
     rs_attachments = []\<rparr>"

definition ex_frozen :: migration_state_record where
  "ex_frozen = \<lparr>ms_migration_id = ''m'', ms_status = Paused, ms_updated_at = 4, ms_created_at = 0,
     ms_freeze_started_at = Some 4, ms_finalized_at = None, ms_last_reconcile_at = None,
     ms_last_blockers = []\<rparr>"

definition ex_states :: state_repo where
  "ex_states = [(''m'', ex_frozen)]"

lemma keyed_ex_repos: "keyed_dict inventory_key (rs_inventory ex_repos)"
  by (simp add: keyed_dict_def ex_repos_def inventory_key_def ex_snapshot_def)

definition ex_completed :: migration_state_record where
  "ex_completed = cutover_state (Some ex_frozen) ''m'' Completed 9 (Some 4) (Some 9) []"

text \<open>A source that lists one dialog; its state counts the calls.\<close>

definition ex_source_dialog :: source_dialog where
  "ex_source_dialog = \<lparr>sd_dialog_id = ''c'', sd_chat_type = ''group'', sd_title = ''C'',
     sd_message_count = 1, sd_media_count = 0, sd_approximate_bytes = 10, sd_has_topics = False\<rparr>"

definition ex_list_dialogs :: "nat \<Rightarrow> (error, source_dialog list) outcome \<times> nat" where
  "ex_list_dialogs n = (Inr [ex_source_dialog], Suc n)"

section \<open>Bindings\<close>

definition ex_binding :: user_cts_binding_record where
  "ex_binding = \<lparr>ub_cts_host = '' CTS.example '', ub_target_huid = Some ''h'',
     ub_corporate_email = Some ''A@b.c'', ub_created_at = None, ub_updated_at = None,
     ub_last_verified_at = None\<rparr>"

definition ex_config :: chat_config_record where
  "ex_config = \<lparr>cc_migration_id = ''m'', cc_source_chat_id = ''c'', cc_source_chat_type = ''group'',
     cc_source_chat_title = ''C'', cc_target_strategy = ''create'', cc_target_title = None,
     cc_target_chat_id = None, cc_include_from = None, cc_include_to = None, cc_migrate_media = True,
     cc_reply_mode = ''inline_quote'', cc_identity_policy = ''strict'', cc_updated_by_huid = ''op'',
     cc_created_at = 1, cc_updated_at = 1, cc_anchor_cts_host = None, cc_anchor_bot_id = None,
     cc_topic_strategy = ''single_chat'', cc_source_backend = ''telethon'',
     cc_access_strategy = ''direct_add'', cc_telegram_chat_id = None, cc_source_topic_id = None,
     cc_source_thread_id = None, cc_source_thread_title = None, cc_skip_in_all = False\<rparr>"

definition ex_identity :: identity_mapping_record where
  "ex_identity = \<lparr>im_telegram_user_id = Some ''7'', im_telegram_username = Some ''@Bob'',
     im_telegram_display_name = Some ''Bob'', im_corporate_email = Some ''b@b.c'',
     im_target_huid = None, im_express_host = None, im_created_at = None, im_updated_at = None,
     im_last_resolved_at = None\<rparr>"

section \<open>Telegram logins\<close>

text \<open>A cipher that only brackets the text: it opens what it sealed.\<close>

definition ex_cipher :: session_cipher where
  "ex_cipher = \<lparr>cy_key_version = ''v1'', cy_seal = (\<lambda>n p v. ''['' @ p @ '']''),
     cy_open = (\<lambda>e v. if e = [] then Inl TooShort else Inr (butlast (tl e)))\<rparr>"

lemma cipher_lawful_ex: "cipher_lawful ex_cipher"
proof -
  have "\<not> is_space (CHR '']'')" by code_simp
  then show ?thesis by (simp add: cipher_lawful_def ex_cipher_def)
qed

definition ex_service :: service_config where
  "ex_service = \<lparr>sv_bot_settings = Some (Some ''m'', [''op'']), sv_cipher = ex_cipher,
     sv_challenge_ttl = 900\<rparr>"

definition ex_env :: service_env where
  "ex_env = \<lparr>ev_check = 10, ev_recheck = 11, ev_stamp = 12, ev_persist = 13, ev_audit = 14,
     ev_uuid = ''u'', ev_nonce = ''n''\<rparr>"

definition ex_challenge :: login_challenge where
  "ex_challenge = \<lparr>ch_challenge_id = ''u'', ch_operator_huid = ''op'', ch_phone_number = ''+79990001122'',
     ch_session_string = ''s0'', ch_phone_code_hash = ''h'', ch_expires_at = 900000000,
     ch_requires_password = False\<rparr>"

definition ex_service_state :: service_state where
  "ex_service_state = \<lparr>ss_challenges = [(''u'', ex_challenge)], ss_sessions = [], ss_audit = [],
     ss_closed = []\<rparr>"

definition ex_bootstrap :: bootstrap_result where
  "ex_bootstrap = \<lparr>bo_phone_number = ''+79990001122'', bo_session_string = ''sess'',
     bo_already_authorized = False, bo_user_id = ''7'',
     bo_username = Some ''bob'', bo_display_name = ''Bob''\<rparr>"

definition ex_login :: "login_challenge \<Rightarrow> string \<Rightarrow> (error, bootstrap_result) outcome" where
  "ex_login c code = Inr ex_bootstrap"

section \<open>The bot\<close>

definition ex_operator :: bot_operator_context where
  "ex_operator = \<lparr>op_huid = ''op'', op_chat_id = ''r'', op_username = None, op_ad_login = None,
     op_ad_domain = None, op_display_name = None, op_current_cts_host = None,
     op_current_bot_id = None\<rparr>"

definition ex_bot_config :: bot_control_config where
  "ex_bot_config = \<lparr>bc_operator_huids = [''op''], bc_batch_size = 100, bc_max_queued_jobs = 5,
     bc_max_running_jobs = 2, bc_urlparse = (\<lambda>u. Inr (u, [])), bc_sha1 = id,
     bc_primary_cts_host = None, bc_bot_id_for = None\<rparr>"

definition ex_bot_env :: bot_control_env where
  "ex_bot_env = \<lparr>be_active = (\<lambda>_. 10), be_started = 11, be_event = 12, be_audit = 13,
     be_job_uuid = ''0123456789abcdef'', be_event_uuid = ''e9'', be_context_host = None\<rparr>"

definition ex_bot_state :: bot_control_state where
  "ex_bot_state = \<lparr>bs_jobs = [], bs_outbox = Some [], bs_messages = message_repo_init 0,
     bs_checkpoints = [], bs_audit = []\<rparr>"

definition ex_busy_state :: bot_control_state where
  "ex_busy_state = ex_bot_state\<lparr>bs_jobs := ex_jobs\<rparr>"

definition ex_start :: "(error, bot_operation_accepted_result) outcome \<times> bot_control_state" where
  "ex_start = start_background_operation ex_bot_config ex_bot_env ex_operator ''migrate_chat'' ex_manifest
     [''c''] default_run_options ex_bot_state"

definition ex_fan_out :: "(error, bot_operation_accepted_result) outcome \<times> bot_control_state" where
  "ex_fan_out = start_fan_out ex_bot_config (\<lambda>_. ex_bot_env) ex_operator ''migrate_all'' ''migrate_chat''
     ex_manifest [''c'', ''d''] default_run_options ex_busy_state"

end
