(* ===== verification/Messages.thy ===== *)
theory Messages
  imports Effects Rendering
begin

text \<open>
  The messages of a migration on their way: what Telegram gives (\<open>TelegramSourceMessage\<close>), the
  canonical form (\<open>application/normalizer.py\<close>), the text that is sent (\<open>application/renderer.py\<close>)
  and the checksum a message is claimed with (\<open>application/message_checksum.py\<close>).
\<close>

section \<open>Message records\<close>

datatype content_type = TextContent | Photo | Document | Video | Audio | Voice | Sticker | Service
  | Poll | Unsupported

fun content_type_value :: "content_type \<Rightarrow> string" where
  "content_type_value TextContent = ''text''"
| "content_type_value Photo = ''photo''"
| "content_type_value Document = ''document''"
| "content_type_value Video = ''video''"
| "content_type_value Audio = ''audio''"
| "content_type_value Voice = ''voice''"
| "content_type_value Sticker = ''sticker''"
| "content_type_value Service = ''service''"
| "content_type_value Poll = ''poll''"
| "content_type_value Unsupported = ''unsupported''"

record canonical_entity =
  ce_kind :: string
  ce_offset :: int
  ce_length :: int
  ce_text :: "string option"
  ce_telegram_user_id :: "string option"
  ce_telegram_username :: "string option"
  ce_target_huid :: "string option"
  ce_corporate_email :: "string option"
  ce_resolution_source :: string
  ce_reason :: "string option"

record canonical_message =
  cmsg_source_platform :: string
  cmsg_source_chat_id :: string
  cmsg_source_message_id :: string
  cmsg_source_thread_id :: "string option"
  cmsg_source_reply_to_message_id :: "string option"
  cmsg_sender_external_id :: "string option"
  cmsg_sender_display_name :: string
  cmsg_sender_username :: "string option"
  cmsg_sent_at_utc :: datetime
  cmsg_edited_at_utc :: "datetime option"
  cmsg_deleted_in_source :: bool
  cmsg_content_type :: content_type
  cmsg_body_plain :: "string option"
  cmsg_body_rendered :: "string option"
  cmsg_attachments :: "canonical_attachment list"
  cmsg_entities :: "canonical_entity list"
  cmsg_service_payload :: "(string \<times> json) list option"
  cmsg_raw_snapshot :: "(string \<times> json) list"
  cmsg_resolved_target_huid :: "string option"
  cmsg_identity_resolution_source :: string
  cmsg_attachment_failures :: "string list"

definition idempotency_key :: "canonical_message \<Rightarrow> string" where
  "idempotency_key m = join_with '':'' [cmsg_source_platform m, cmsg_source_chat_id m, cmsg_source_message_id m]"

record telegram_author =
  ta_external_id :: "string option"
  ta_display_name :: string
  ta_username :: "string option"

record telegram_source_message =
  tm_chat_id :: string
  tm_message_id :: string
  tm_sent_at_utc :: datetime
  tm_author :: telegram_author
  tm_body :: "string option"
  tm_chat_title :: "string option"
  tm_thread_id :: "string option"
  tm_reply_to_message_id :: "string option"
  tm_edited_at_utc :: "datetime option"
  tm_deleted_in_source :: bool
  tm_content_type :: content_type
  tm_attachments :: "canonical_attachment list"
  tm_entities :: "canonical_entity list"
  tm_raw_payload :: "(string \<times> json) list"
  tm_service_payload :: "(string \<times> json) list option"
  tm_attachment_failures :: "string list"

record reply_preview =
  rp_sent_at_utc :: "datetime option"
  rp_author_display_name :: string
  rp_excerpt :: "string option"

record rendered_attachment =
  ra_filename :: "string option"
  ra_media_kind :: string

record rendered_message =
  rm_display_header :: string
  rm_display_body :: string
  rm_footer :: "string option"
  rm_attachments :: "rendered_attachment list"

definition render_text :: "rendered_message \<Rightarrow> string" where
  "render_text r = join_with newline (filter (\<lambda>part. part \<noteq> [])
     ([rm_display_header r, rm_display_body r] @ (if truthy (rm_footer r) then [or_empty (rm_footer r)] else [])))"

record sent_message_ref =
  sm_target_chat_id :: string
  sm_target_sync_id :: string
  sm_deduplicated :: bool

record file_payload =
  fp_filename :: string
  fp_content :: "string option"
  fp_local_path :: "string option"
  fp_mime_type :: "string option"
  fp_media_kind :: "string option"
  fp_duration_seconds :: "int option"

record downloaded_attachment =
  da_attachment :: canonical_attachment
  da_local_path :: "string option"
  da_content :: "string option"
  da_size_bytes :: "int option"

section \<open>Rendering\<close>

text \<open>
  \<open>rd_offset\<close> is the offset from UTC in seconds that the configured time zone has at a time, and
  \<open>rd_mention\<close> the markup of a mention by the messenger's library, None when the HUID is not a
  UUID. The sign U+21AA that opens a quoted reply is not a code point below 256; \<open>reply_arrow\<close>
  is its UTF-8 encoding.
\<close>

record renderer =
  rd_offset :: "datetime \<Rightarrow> int"
  rd_mention :: "string \<Rightarrow> string \<Rightarrow> string option"

definition reply_arrow :: string where
  "reply_arrow = map char_of [226 :: nat, 134, 170]"

definition format_timestamp :: "renderer \<Rightarrow> datetime \<Rightarrow> string" where
  "format_timestamp rd t =
    (let offset = rd_offset rd t;
         localized = t + offset * one_second;
         secs = localized div one_second; s = secs mod 86400;
         hours = offset div 3600; minutes = (\<bar>offset\<bar> mod 3600) div 60
     in case civil_date (secs div 86400) of (y, m, d) \<Rightarrow>
       padded_int 4 y @ ''-'' @ padded_int 2 m @ ''-'' @ padded_int 2 d @ '' ''
       @ padded_int 2 (s div 3600) @ '':'' @ padded_int 2 (s div 60 mod 60)
       @ '':'' @ padded_int 2 (s mod 60)
       @ '' UTC'' @ (if offset \<ge> 0 then ''+'' else ''-'')
       @ padded_int 2 \<bar>hours\<bar> @ '':'' @ padded_int 2 minutes)"

definition build_user_mention :: "renderer \<Rightarrow> string \<Rightarrow> string \<Rightarrow> string" where
  "build_user_mention rd huid fallback =
    (case rd_mention rd huid fallback of None \<Rightarrow> fallback | Some mention \<Rightarrow> mention)"

definition render_author :: "renderer \<Rightarrow> canonical_message \<Rightarrow> string" where
  "render_author rd m =
    (if \<not> truthy (cmsg_resolved_target_huid m) then cmsg_sender_display_name m
     else build_user_mention rd (or_empty (cmsg_resolved_target_huid m)) (cmsg_sender_display_name m))"

definition render_entity :: "renderer \<Rightarrow> canonical_entity \<Rightarrow> string \<Rightarrow> string" where
  "render_entity rd e fallback =
    (case ce_target_huid e of
       None \<Rightarrow> fallback
     | Some huid \<Rightarrow> build_user_mention rd huid (or_empty (py_or (ce_text e) (Some fallback))))"

definition slice :: "int \<Rightarrow> int \<Rightarrow> 'a list \<Rightarrow> 'a list" where
  "slice a b s = take (nat (b - a)) (drop (nat a) s)"

text \<open>The loop over the entities by offset; an entity that is no mention, overlaps or is out of range is skipped.\<close>

fun render_entities :: "(canonical_entity \<Rightarrow> string \<Rightarrow> string) \<Rightarrow> string \<Rightarrow> canonical_entity list \<Rightarrow> int \<Rightarrow> string" where
  "render_entities f source [] cursor = drop (nat cursor) source"
| "render_entities f source (e # es) cursor =
    (let entity_end = ce_offset e + ce_length e in
     if ce_kind e \<noteq> ''mention'' then render_entities f source es cursor
     else if ce_offset e < cursor then render_entities f source es cursor
     else if ce_offset e < 0 \<or> ce_length e \<le> 0 \<or> entity_end > int (length source)
     then render_entities f source es cursor
     else slice cursor (ce_offset e) source @ f e (slice (ce_offset e) entity_end source)
       @ render_entities f source es entity_end)"

definition render_body_content :: "renderer \<Rightarrow> canonical_message \<Rightarrow> string" where
  "render_body_content rd m =
    (if cmsg_entities m = [] then or_empty (py_or (cmsg_body_rendered m) (cmsg_body_plain m))
     else let source = or_empty (py_or (cmsg_body_plain m) (cmsg_body_rendered m))
       in if source = [] then source
          else render_entities (render_entity rd) source (sort_key ce_offset (cmsg_entities m)) 0)"

definition render_reply_block :: "renderer \<Rightarrow> reply_preview \<Rightarrow> string \<Rightarrow> string" where
  "render_reply_block rd preview body =
    (let header = (case rp_sent_at_utc preview of
           Some t \<Rightarrow> reply_arrow @ '' Reply to ['' @ format_timestamp rd t @ ''] ''
             @ rp_author_display_name preview @ '':''
         | None \<Rightarrow> reply_arrow @ '' Reply to '' @ rp_author_display_name preview @ '':'');
         quote = or_empty (py_or (rp_excerpt preview) (Some ''[source message unavailable]''));
         mark = [char_of (34 :: nat)]
     in py_strip (header @ newline @ mark @ quote @ mark @ newline @ newline @ body))"

definition render_attachment_failure_line :: "string \<Rightarrow> string" where
  "render_attachment_failure_line reason =
    (let normalized = py_strip reason in
     if take 8 (py_lower normalized) = ''skipped:''
     then ''[attachment skipped: '' @ py_strip (drop 8 normalized) @ '']''
     else ''[attachment import failed: '' @ reason @ '']'')"

definition render_header :: "renderer \<Rightarrow> canonical_message \<Rightarrow> string option \<Rightarrow> string" where
  "render_header rd m source_chat_title =
    (let author = render_author rd m
           @ (if truthy (cmsg_sender_username m) then '' (@'' @ or_empty (cmsg_sender_username m) @ '')'' else []);
         stamp = ''['' @ format_timestamp rd (cmsg_sent_at_utc m) @ ''] '' @ author
     in if truthy source_chat_title then stamp @ '' | Source: '' @ or_empty source_chat_title else stamp)"

definition reply_by_id :: "string \<Rightarrow> string \<Rightarrow> string" where
  "reply_by_id source_id body = reply_arrow @ '' Reply to source message #'' @ source_id @ newline @ newline @ body"

definition render :: "renderer \<Rightarrow> canonical_message \<Rightarrow> string option \<Rightarrow> reply_preview option \<Rightarrow> string \<Rightarrow> rendered_message" where
  "render rd m source_chat_title preview reply_mode =
    (let content = render_body_content rd m;
         reply_id = cmsg_source_reply_to_message_id m;
         replied =
           (if reply_mode = ''none'' then content
            else if reply_mode = ''source_id'' then
              (if truthy reply_id then reply_by_id (or_empty reply_id) content else content)
            else case preview of
              Some p \<Rightarrow> render_reply_block rd p content
            | None \<Rightarrow> if truthy reply_id then reply_by_id (or_empty reply_id) content else content);
         body =
           (if cmsg_attachment_failures m \<noteq> [] then
              py_strip (join_with newline (replied # map render_attachment_failure_line (cmsg_attachment_failures m)))
            else replied)
     in \<lparr>rm_display_header = render_header rd m source_chat_title, rm_display_body = body,
         rm_footer = (case cmsg_edited_at_utc m of
             None \<Rightarrow> None | Some t \<Rightarrow> Some (''[edited in source at '' @ format_timestamp rd t @ '']'')),
         rm_attachments = map (\<lambda>a. \<lparr>ra_filename = att_filename a, ra_media_kind = att_media_kind a\<rparr>)
           (cmsg_attachments m)\<rparr>)"

section \<open>Normalizing\<close>

record resolved_identity =
  ri_display_name :: string
  ri_username :: "string option"
  ri_target_huid :: "string option"
  ri_resolution_source :: string

definition display_only_resolve :: "canonical_message \<Rightarrow> ('w, resolved_identity) action" where
  "display_only_resolve m = ret \<lparr>ri_display_name = cmsg_sender_display_name m,
     ri_username = cmsg_sender_username m, ri_target_huid = None,
     ri_resolution_source = ''display_only''\<rparr>"

definition drop_type_prefix :: "string \<Rightarrow> string" where
  "drop_type_prefix s =
    (let l = py_lower s; starts = (\<lambda>p. take (length p) l = p) in
     if starts ''messagemedia'' then drop 12 s
     else if starts ''messageaction'' then drop 13 s
     else if starts ''message'' then drop 7 s
     else if starts ''inputmedia'' then drop 10 s
     else if starts ''decryptedmessageaction'' then drop 22 s
     else s)"

definition is_upper_ascii :: "char \<Rightarrow> bool" where
  "is_upper_ascii c \<longleftrightarrow> (let n = (of_char c :: nat) in 65 \<le> n \<and> n \<le> 90)"

definition is_lower_or_digit_ascii :: "char \<Rightarrow> bool" where
  "is_lower_or_digit_ascii c \<longleftrightarrow> (let n = (of_char c :: nat) in (97 \<le> n \<and> n \<le> 122) \<or> (48 \<le> n \<and> n \<le> 57))"

fun split_camel :: "string \<Rightarrow> string" where
  "split_camel (a # b # cs) =
    (if is_lower_or_digit_ascii a \<and> is_upper_ascii b then a # CHR ''_'' # split_camel (b # cs)
     else a # split_camel (b # cs))"
| "split_camel cs = cs"

fun squeeze_underscores :: "string \<Rightarrow> string" where
  "squeeze_underscores (a # b # cs) =
    (if a = CHR ''_'' \<and> b = CHR ''_'' then squeeze_underscores (b # cs)
     else a # squeeze_underscores (b # cs))"
| "squeeze_underscores cs = cs"

definition strip_chars :: "string \<Rightarrow> string \<Rightarrow> string" where
  "strip_chars cs s = py_rstrip (\<lambda>c. c \<in> set cs) (py_lstrip (\<lambda>c. c \<in> set cs) s)"

definition normalize_telegram_type_name :: "string \<Rightarrow> string option" where
  "normalize_telegram_type_name raw =
    (let stripped = py_strip raw in
     if stripped = [] then None
     else let core = strip_chars ''_ '' (drop_type_prefix stripped) in
       if core = [] then None
       else let snake = strip_chars ''_'' (squeeze_underscores (py_lower
              (map (\<lambda>c. if c = CHR ''-'' \<or> c = CHR '' '' then CHR ''_'' else c) (split_camel core))))
         in if snake = [] then None else Some snake)"

definition nonempty_str :: "json option \<Rightarrow> string list" where
  "nonempty_str v = (case v of Some (JStr s) \<Rightarrow> if s = [] then [] else [s] | _ \<Rightarrow> [])"

definition unsupported_content_kind :: "(string \<times> json) list \<Rightarrow> string option" where
  "unsupported_content_kind raw =
    (let nested = concat (map (\<lambda>k. case dict_get raw k of
             Some (JObj o') \<Rightarrow> nonempty_str (dict_get o' ''_'') | _ \<Rightarrow> []) [''media'', ''action'']);
         direct = concat (map (\<lambda>k. nonempty_str (dict_get raw k)) [''media_type'', ''type'', ''_''])
     in List.find (\<lambda>n. n \<notin> {''message'', ''service''})
          (List.map_filter normalize_telegram_type_name (nested @ direct)))"

definition normalize_body :: "telegram_source_message \<Rightarrow> string" where
  "normalize_body m =
    (if truthy (tm_body m) then or_empty (tm_body m)
     else if tm_content_type m = Service \<and> tm_service_payload m \<noteq> None \<and> tm_service_payload m \<noteq> Some []
     then ''[service event]''
     else case (if tm_content_type m = Unsupported then unsupported_content_kind (tm_raw_payload m) else None) of
       Some kind \<Rightarrow> ''[unsupported: '' @ kind @ '']''
     | None \<Rightarrow> ''['' @ content_type_value (tm_content_type m) @ '']'')"

definition canonical_of :: "telegram_source_message \<Rightarrow> canonical_message" where
  "canonical_of m = \<lparr>cmsg_source_platform = ''telegram'', cmsg_source_chat_id = tm_chat_id m,
     cmsg_source_message_id = tm_message_id m, cmsg_source_thread_id = tm_thread_id m,
     cmsg_source_reply_to_message_id = tm_reply_to_message_id m,
     cmsg_sender_external_id = ta_external_id (tm_author m),
     cmsg_sender_display_name = ta_display_name (tm_author m),
     cmsg_sender_username = ta_username (tm_author m), cmsg_sent_at_utc = tm_sent_at_utc m,
     cmsg_edited_at_utc = tm_edited_at_utc m, cmsg_deleted_in_source = tm_deleted_in_source m,
     cmsg_content_type = tm_content_type m, cmsg_body_plain = Some (normalize_body m),
     cmsg_body_rendered = Some (normalize_body m), cmsg_attachments = tm_attachments m,
     cmsg_entities = tm_entities m, cmsg_service_payload = tm_service_payload m,
     cmsg_raw_snapshot = tm_raw_payload m, cmsg_resolved_target_huid = None,
     cmsg_identity_resolution_source = ''display_only'',
     cmsg_attachment_failures = tm_attachment_failures m\<rparr>"

text \<open>
  What a lookup in the identity directory returns; the directory is an argument here and modelled
  in Identity_Directory.
\<close>

record identity_lookup_result =
  il_telegram_user_id :: "string option"
  il_telegram_username :: "string option"
  il_corporate_email :: "string option"
  il_target_huid :: "string option"
  il_resolution_source :: string
  il_cts_host :: "string option"
  il_telegram_display_name :: "string option"
  il_reason :: "string option"

type_synonym 'w identity_lookup =
  "string option \<Rightarrow> string option \<Rightarrow> string option \<Rightarrow> ('w, identity_lookup_result) action"

definition directory_resolve :: "'w identity_lookup \<Rightarrow> canonical_message \<Rightarrow> ('w, resolved_identity) action" where
  "directory_resolve lookup m =
    bind (lookup (cmsg_sender_external_id m) (cmsg_sender_username m) (Some (cmsg_sender_display_name m)))
      (\<lambda>l. ret \<lparr>ri_display_name = cmsg_sender_display_name m,
         ri_username = py_or (il_telegram_username l) (cmsg_sender_username m),
         ri_target_huid = il_target_huid l, ri_resolution_source = il_resolution_source l\<rparr>)"

definition resolve_entity :: "'w identity_lookup \<Rightarrow> canonical_entity \<Rightarrow> ('w, canonical_entity) action" where
  "resolve_entity lookup e =
    (if ce_kind e \<noteq> ''mention'' then ret e
     else bind (lookup (ce_telegram_user_id e) (ce_telegram_username e) None)
       (\<lambda>l. ret (e\<lparr>ce_telegram_user_id := py_or (il_telegram_user_id l) (ce_telegram_user_id e),
          ce_telegram_username := py_or (il_telegram_username l) (ce_telegram_username e),
          ce_corporate_email := il_corporate_email l, ce_target_huid := il_target_huid l,
          ce_resolution_source := il_resolution_source l, ce_reason := il_reason l\<rparr>)))"

definition resolve_entities ::
    "'w identity_lookup option \<Rightarrow> canonical_message \<Rightarrow> ('w, canonical_entity list) action" where
  "resolve_entities directory m =
    (case directory of
       None \<Rightarrow> ret (cmsg_entities m)
     | Some lookup \<Rightarrow> collect (resolve_entity lookup) (cmsg_entities m))"

definition normalize ::
    "(canonical_message \<Rightarrow> ('w, resolved_identity) action) \<Rightarrow> 'w identity_lookup option
      \<Rightarrow> telegram_source_message \<Rightarrow> ('w, canonical_message) action" where
  "normalize resolve directory m =
    bind (resolve (canonical_of m)) (\<lambda>r.
    bind (resolve_entities directory (canonical_of m)) (\<lambda>entities.
    ret ((canonical_of m)\<lparr>cmsg_sender_display_name := ri_display_name r,
      cmsg_sender_username := ri_username r, cmsg_resolved_target_huid := ri_target_huid r,
      cmsg_identity_resolution_source := ri_resolution_source r, cmsg_entities := entities\<rparr>)))"

section \<open>Checksums\<close>

text \<open>\<open>hmac\<close> is HMAC-SHA-256 of a UTF-8 text under the secret, in hexadecimal.\<close>

record checksum_service =
  ck_secret :: string
  ck_hmac :: "string \<Rightarrow> string \<Rightarrow> string"

definition make_checksum_service ::
    "(string \<Rightarrow> string \<Rightarrow> string) \<Rightarrow> string \<Rightarrow> (error, checksum_service) outcome" where
  "make_checksum_service hmac secret =
    (if py_strip secret = [] then Inl (ConfigurationError ''message checksum secret must not be empty'')
     else Inr \<lparr>ck_secret = py_strip secret, ck_hmac = hmac\<rparr>)"

definition checksum :: "checksum_service \<Rightarrow> canonical_message \<Rightarrow> string" where
  "checksum ck m = ck_hmac ck (ck_secret ck) (join_with ''|'' [idempotency_key m,
     isoformat (cmsg_sent_at_utc m), or_empty (cmsg_body_rendered m),
     str_of_nat (length (cmsg_attachments m))])"

end
