(* ===== verification/Delivery.thy ===== *)
theory Delivery
  imports Messages Retry Record_Stores Attachment_Repo Stage_Repo
begin

text \<open>
  \<open>application/message_delivery.py\<close>: the delivery of one message with its attachments. Attachments
  are downloaded and checked (\<open>_prepare_message\<close>), a single one travels with the message, several
  follow it one by one (\<open>_deliver_attachment\<close>), each uploaded first when the files service takes it
  (\<open>_ensure_uploaded_attachment\<close>). Every step is claimed and reported in the mapping repositories.
  The outside world \<open>'w\<close> holds the clock, the gateways and the file system. Logging and the transfer
  semaphore have no effect on results and are left out.
\<close>

section \<open>State, services and results\<close>

record send_request =
  sq_target_chat_id :: string
  sq_body :: string
  sq_idempotency_key :: string
  sq_file :: "file_payload option"
  sq_staged_file :: "express_staged_file option"
  sq_fallback_file :: "file_payload option"

text \<open>
  \<open>sv_file_size\<close> is \<open>stat().st_size\<close>, None for an \<open>OSError\<close>; \<open>sv_unlink\<close> removes a file if it can;
  \<open>sv_path\<close> and \<open>sv_base_name\<close> are \<open>str(Path(p))\<close> and \<open>Path(p).name\<close>; \<open>sv_guess_extension\<close> is
  \<open>mimetypes.guess_extension\<close>.
\<close>

record 'w delivery_services =
  sv_renderer :: renderer
  sv_retry :: retry_policy
  sv_random :: "nat \<Rightarrow> rat"
  sv_max_upload :: int
  sv_now :: "'w \<Rightarrow> datetime \<times> 'w"
  sv_download :: "string \<Rightarrow> canonical_attachment \<Rightarrow> ('w, downloaded_attachment) action"
  sv_upload :: "string \<Rightarrow> file_payload \<Rightarrow> ('w, express_staged_file) action"
  sv_send :: "send_request \<Rightarrow> ('w, sent_message_ref) action"
  sv_exists :: "string \<Rightarrow> 'w \<Rightarrow> bool"
  sv_file_size :: "string \<Rightarrow> 'w \<Rightarrow> int option"
  sv_unlink :: "string \<Rightarrow> 'w \<Rightarrow> 'w"
  sv_path :: "string \<Rightarrow> string"
  sv_base_name :: "string \<Rightarrow> string"
  sv_guess_extension :: "string \<Rightarrow> string option"

record 'w delivery_state =
  dl_world :: 'w
  dl_attachments :: attachment_repo
  dl_stages :: stage_repo
  dl_audit :: audit_log

type_synonym ('w, 'a) delivery = "('w delivery_state, 'a) action"

text \<open>The arguments that every step of one delivery shares.\<close>

record delivery_context =
  dx_migration_id :: string
  dx_canonical :: canonical_message
  dx_target_chat_id :: string

record prepared_attachment =
  pr_attachment_index :: int
  pr_attachment :: canonical_attachment
  pr_file_payload :: file_payload

record prefetched_attachment =
  pf_attachment_index :: int
  pf_attachment :: canonical_attachment
  pf_downloaded :: "downloaded_attachment option"
  pf_error :: "error option"
  pf_skipped_reason :: "string option"

record attachment_outcome =
  ao_attachment_index :: int
  ao_attachment :: canonical_attachment
  ao_import_status :: attachment_import_status
  ao_phase :: string
  ao_blocks :: bool
  ao_target_sync_id :: "string option"
  ao_reason :: "string option"

record upload_resolution =
  ur_staged_file :: "express_staged_file option"
  ur_outcome :: "attachment_outcome option"
  ur_direct_file :: bool

record delivery_result =
  dr_canonical :: canonical_message
  dr_rendered_body :: string
  dr_sent_message :: sent_message_ref
  dr_outcomes :: "attachment_outcome list"
  dr_primary_reused :: bool

definition blocking_failures :: "delivery_result \<Rightarrow> attachment_outcome list" where
  "blocking_failures r = filter ao_blocks (dr_outcomes r)"

definition has_blocking_failures :: "delivery_result \<Rightarrow> bool" where
  "has_blocking_failures r \<longleftrightarrow> blocking_failures r \<noteq> []"

definition has_ambiguous_failures :: "delivery_result \<Rightarrow> bool" where
  "has_ambiguous_failures r \<longleftrightarrow> (\<exists>o' \<in> set (blocking_failures r). ao_import_status o' = AttAmbiguous)"

section \<open>Steps\<close>

definition in_world :: "('w, 'a) action \<Rightarrow> ('w, 'a) delivery" where
  "in_world = on_part dl_world (\<lambda>w s. s\<lparr>dl_world := w\<rparr>)"

definition in_attachments :: "(attachment_repo, 'a) action \<Rightarrow> ('w, 'a) delivery" where
  "in_attachments = on_part dl_attachments (\<lambda>r s. s\<lparr>dl_attachments := r\<rparr>)"

definition in_stages :: "(stage_repo, 'a) action \<Rightarrow> ('w, 'a) delivery" where
  "in_stages = on_part dl_stages (\<lambda>r s. s\<lparr>dl_stages := r\<rparr>)"

definition now_at :: "'w delivery_services \<Rightarrow> ('w, datetime) delivery" where
  "now_at sv = in_world (total_op (sv_now sv))"

text \<open>A call of the outside world under the retry policy.\<close>

definition retried :: "'w delivery_services \<Rightarrow> ('w, 'a) action \<Rightarrow> ('w, 'a) delivery" where
  "retried sv m = in_world (\<lambda>w. case retry_run (sv_retry sv) (sv_random sv) m w of (r, w', _) \<Rightarrow> (r, w'))"

fun is_item_error :: "error \<Rightarrow> bool" where
  "is_item_error (RecoverableItemError _) \<longleftrightarrow> True"
| "is_item_error (FatalItemError _) \<longleftrightarrow> True"
| "is_item_error _ \<longleftrightarrow> False"

fun is_ambiguous_error :: "error \<Rightarrow> bool" where
  "is_ambiguous_error (AmbiguousDeliveryError _) \<longleftrightarrow> True"
| "is_ambiguous_error _ \<longleftrightarrow> False"

text \<open>The errors an \<open>except\<close> clause takes, as a value for the code that follows it.\<close>

definition attempt :: "(error \<Rightarrow> bool) \<Rightarrow> ('s, 'a) action \<Rightarrow> ('s, (error, 'a) outcome) action" where
  "attempt takes m s =
    (case m s of
       (Inl e, s') \<Rightarrow> if takes e then (Inr (Inl e), s') else (Inl e, s')
     | (Inr a, s') \<Rightarrow> (Inr (Inr a), s'))"

definition attachment_key_of :: "delivery_context \<Rightarrow> int \<Rightarrow> attachment_key" where
  "attachment_key_of x i = (dx_migration_id x, cmsg_source_chat_id (dx_canonical x),
     cmsg_source_message_id (dx_canonical x), i)"

definition stage_key_of :: "delivery_context \<Rightarrow> int \<Rightarrow> stage_key" where
  "stage_key_of x i = (dx_migration_id x, cmsg_source_chat_id (dx_canonical x),
     cmsg_source_message_id (dx_canonical x), i, dx_target_chat_id x)"

definition audit_attachment ::
    "'w delivery_services \<Rightarrow> delivery_context \<Rightarrow> string \<Rightarrow> audit_severity \<Rightarrow> (string \<times> json) list
      \<Rightarrow> ('w, unit) delivery" where
  "audit_attachment sv x event_type severity payload =
    bind (now_at sv) (\<lambda>now. modify (\<lambda>s. s\<lparr>dl_audit := audit_add
      \<lparr>ae_migration_id = dx_migration_id x, ae_event_type = event_type, ae_severity = severity,
       ae_created_at = now, ae_source_chat_id = Some (cmsg_source_chat_id (dx_canonical x)),
       ae_source_message_id = Some (cmsg_source_message_id (dx_canonical x)),
       ae_payload_json = payload\<rparr> (dl_audit s)\<rparr>))"

definition attachment_payload :: "canonical_attachment \<Rightarrow> string \<Rightarrow> (string \<times> json) list" where
  "attachment_payload a reason = [(''reason'', JStr reason),
     (''source_file_id'', json_opt_str (att_source_file_id a)),
     (''filename'', json_opt_str (att_filename a)), (''media_kind'', JStr (att_media_kind a)),
     (''size_bytes'', json_opt_int (att_size_bytes a)), (''sha256'', json_opt_str (att_sha256 a)),
     (''download_url'', json_opt_str (att_download_url a))]"

section \<open>Outcomes\<close>

definition payload_text :: "string \<Rightarrow> json option \<Rightarrow> string option" where
  "payload_text k payload = (case payload of
     Some (JObj o') \<Rightarrow> (case dict_get o' k of Some (JStr s) \<Rightarrow> Some s | _ \<Rightarrow> None)
   | _ \<Rightarrow> None)"

definition attachment_phase :: "json option \<Rightarrow> string" where
  "attachment_phase payload = (case payload_text ''phase'' payload of Some s \<Rightarrow> s | None \<Rightarrow> ''unknown'')"

definition attachment_reason :: "json option \<Rightarrow> string option" where
  "attachment_reason payload = (case payload_text ''message'' payload of
     Some s \<Rightarrow> Some s | None \<Rightarrow> payload_text ''reason'' payload)"

definition outcome_from_record :: "canonical_attachment \<Rightarrow> attachment_mapping_record \<Rightarrow> attachment_outcome" where
  "outcome_from_record a r =
    (let phase = attachment_phase (am_last_error_payload r) in
     \<lparr>ao_attachment_index = am_attachment_index r, ao_attachment = a,
      ao_import_status = am_import_status r, ao_phase = phase,
      ao_blocks = (am_import_status r \<in> {AttFailed, AttAmbiguous} \<and> phase = ''send''),
      ao_target_sync_id = am_target_sync_id r,
      ao_reason = attachment_reason (am_last_error_payload r)\<rparr>)"

definition phase_payload :: "string \<Rightarrow> string \<Rightarrow> json" where
  "phase_payload message phase = JObj [(''message'', JStr message), (''phase'', JStr phase)]"

section \<open>Names and sizes\<close>

definition dict_or :: "(string, string) dict \<Rightarrow> string \<Rightarrow> string \<Rightarrow> string" where
  "dict_or d k fallback = (case dict_get d k of None \<Rightarrow> fallback | Some v \<Rightarrow> v)"

definition explicit_extensions :: "(string, string) dict" where
  "explicit_extensions = [(''image/jpeg'', ''.jpg''), (''image/jpg'', ''.jpg''), (''image/png'', ''.png''),
     (''image/gif'', ''.gif''), (''image/webp'', ''.webp''), (''video/mp4'', ''.mp4''),
     (''video/quicktime'', ''.mov''), (''audio/ogg'', ''.ogg''), (''audio/mpeg'', ''.mp3''),
     (''application/pdf'', ''.pdf'')]"

definition kind_extensions :: "(string, string) dict" where
  "kind_extensions = [(''photo'', ''.jpg''), (''video'', ''.mp4''), (''voice'', ''.ogg''),
     (''audio'', ''.mp3''), (''sticker'', ''.webp'')]"

definition attachment_extension :: "'w delivery_services \<Rightarrow> canonical_attachment \<Rightarrow> string" where
  "attachment_extension sv a =
    (let by_kind = dict_or kind_extensions (att_media_kind a) ''.bin'' in
     if truthy (att_mime_type a) then
       let n = py_lower (or_empty (att_mime_type a)) in
       case dict_get explicit_extensions n of
         Some e \<Rightarrow> e
       | None \<Rightarrow> (case sv_guess_extension sv n of
            Some g \<Rightarrow> if g = ''.jpe'' then ''.jpg'' else if g \<noteq> [] then g else by_kind
          | None \<Rightarrow> by_kind)
     else by_kind)"

definition effective_attachment_filename :: "'w delivery_services \<Rightarrow> canonical_attachment \<Rightarrow> string" where
  "effective_attachment_filename sv a =
    (if truthy (att_filename a) then or_empty (att_filename a)
     else map (\<lambda>c. if c = CHR ''/'' \<or> c = CHR '' '' then CHR ''_'' else c)
         (if att_media_kind a = [] then ''attachment'' else att_media_kind a)
       @ attachment_extension sv a)"

definition render_attachment_body :: "'w delivery_services \<Rightarrow> canonical_attachment \<Rightarrow> string" where
  "render_attachment_body sv a = ''['' @ att_media_kind a @ ''] '' @
    (if truthy (att_filename a) then or_empty (att_filename a) else effective_attachment_filename sv a)"

definition attachment_idempotency_key :: "canonical_message \<Rightarrow> int \<Rightarrow> string" where
  "attachment_idempotency_key m i = idempotency_key m @ '':attachment:'' @ str_of_int i"

text \<open>\<open>f"{value / unit:.1f}"\<close>, rounding half to even; exact for values below 2 to the power 53.\<close>

definition tenths :: "int \<Rightarrow> int \<Rightarrow> string" where
  "tenths value unit =
    (let q = value * 10 div unit; r = value * 10 mod unit;
         n = (if 2 * r > unit \<or> (2 * r = unit \<and> odd q) then q + 1 else q)
     in str_of_int (n div 10) @ ''.'' @ str_of_int (n mod 10))"

definition format_size_bytes :: "int \<Rightarrow> string" where
  "format_size_bytes value =
    (if value \<ge> 1048576 then tenths value 1048576 @ '' MiB''
     else if value \<ge> 1024 then tenths value 1024 @ '' KiB''
     else str_of_int value @ '' B'')"

definition size_limit_reason :: "'w delivery_services \<Rightarrow> int option \<Rightarrow> string option" where
  "size_limit_reason sv size_bytes = (case size_bytes of
     None \<Rightarrow> None
   | Some n \<Rightarrow> if n \<le> sv_max_upload sv then None
       else Some (''skipped: file exceeds eXpress BotX upload limit ('' @ format_size_bytes n @ '' > ''
         @ format_size_bytes (sv_max_upload sv) @ '')''))"

definition downloaded_size_bytes :: "'w delivery_services \<Rightarrow> downloaded_attachment \<Rightarrow> 'w \<Rightarrow> int option" where
  "downloaded_size_bytes sv d w =
    (case da_size_bytes d of
       Some n \<Rightarrow> Some n
     | None \<Rightarrow> (case da_content d of
         Some c \<Rightarrow> Some (int (length c))
       | None \<Rightarrow>
           if truthy (da_local_path d) then
             (case sv_file_size sv (or_empty (da_local_path d)) w of
                Some n \<Rightarrow> Some n | None \<Rightarrow> att_size_bytes (da_attachment d))
           else att_size_bytes (da_attachment d)))"

definition file_payload_size_bytes :: "'w delivery_services \<Rightarrow> file_payload \<Rightarrow> 'w \<Rightarrow> int option" where
  "file_payload_size_bytes sv f w =
    (case fp_content f of
       Some c \<Rightarrow> Some (int (length c))
     | None \<Rightarrow> if truthy (fp_local_path f) then sv_file_size sv (or_empty (fp_local_path f)) w else None)"

definition unlink_path :: "'w delivery_services \<Rightarrow> string option \<Rightarrow> 'w delivery_state \<Rightarrow> 'w delivery_state" where
  "unlink_path sv path s =
    (if truthy path then s\<lparr>dl_world := sv_unlink sv (or_empty path) (dl_world s)\<rparr> else s)"

definition cleanup_downloaded ::
    "'w delivery_services \<Rightarrow> downloaded_attachment \<Rightarrow> 'w delivery_state \<Rightarrow> 'w delivery_state" where
  "cleanup_downloaded sv d = unlink_path sv (da_local_path d)"

definition cleanup_file_payload ::
    "'w delivery_services \<Rightarrow> file_payload \<Rightarrow> 'w delivery_state \<Rightarrow> 'w delivery_state" where
  "cleanup_file_payload sv f = unlink_path sv (fp_local_path f)"

definition to_file_payload ::
    "'w delivery_services \<Rightarrow> downloaded_attachment \<Rightarrow> ('w, file_payload \<times> canonical_attachment) delivery" where
  "to_file_payload sv d =
    (let name = effective_attachment_filename sv (da_attachment d);
         a = (da_attachment d)\<lparr>att_filename := Some name\<rparr>;
         payload = \<lparr>fp_filename = name, fp_content = None, fp_local_path = None,
           fp_mime_type = att_mime_type a, fp_media_kind = Some (att_media_kind a),
           fp_duration_seconds = att_duration_seconds a\<rparr>
     in case da_content d of
          Some c \<Rightarrow> bind (modify (cleanup_downloaded sv d)) (\<lambda>_.
            ret (payload\<lparr>fp_filename := or_empty (py_or (Some name) (Some ''attachment.bin'')),
              fp_content := Some c\<rparr>, a))
        | None \<Rightarrow>
            if \<not> truthy (da_local_path d)
            then throw (FatalItemError ''attachment download did not provide content or local_path'')
            else let path = or_empty (da_local_path d) in
              bind (get_state (\<lambda>s. sv_exists sv path (dl_world s))) (\<lambda>present.
              if \<not> present then throw (FatalItemError ''attachment temp file is missing'')
              else ret (payload\<lparr>fp_filename := or_empty (py_or (Some name)
                    (py_or (Some (sv_base_name sv path)) (Some ''attachment.bin''))),
                  fp_local_path := Some (sv_path sv path)\<rparr>, a)))"

text \<open>A stored upload as a value again; \<open>isinstance(x, int)\<close> also takes booleans.\<close>

definition str_field :: "(string \<times> json) list \<Rightarrow> string \<Rightarrow> string option" where
  "str_field o' k = (case dict_get o' k of Some (JStr s) \<Rightarrow> Some s | _ \<Rightarrow> None)"

definition int_field :: "(string \<times> json) list \<Rightarrow> string \<Rightarrow> int option" where
  "int_field o' k = (case dict_get o' k of Some (JInt n) \<Rightarrow> Some n | Some (JBool b) \<Rightarrow> Some (if b then 1 else 0) | _ \<Rightarrow> None)"

definition staged_file_from_payload :: "json option \<Rightarrow> express_staged_file option" where
  "staged_file_from_payload payload =
    (case payload of
       Some (JObj o') \<Rightarrow>
         if \<not> list_all (\<lambda>k. truthy (str_field o' k))
             [''attachment_type'', ''file_id'', ''file_url'', ''filename'', ''mime_type'', ''file_hash'']
         then None
         else (case int_field o' ''size_bytes'' of
             None \<Rightarrow> None
           | Some n \<Rightarrow> Some \<lparr>sf_attachment_type = or_empty (str_field o' ''attachment_type''),
               sf_file_id = or_empty (str_field o' ''file_id''), sf_file_url = or_empty (str_field o' ''file_url''),
               sf_filename = or_empty (str_field o' ''filename''), sf_size_bytes = n,
               sf_mime_type = or_empty (str_field o' ''mime_type''),
               sf_file_hash = or_empty (str_field o' ''file_hash''),
               sf_duration_seconds = int_field o' ''duration_seconds'',
               sf_preview_url = str_field o' ''preview_url'', sf_preview_height = int_field o' ''preview_height'',
               sf_preview_width = int_field o' ''preview_width'',
               sf_encryption_algo = str_field o' ''encryption_algo'', sf_chunk_size = int_field o' ''chunk_size'',
               sf_caption = str_field o' ''caption''\<rparr>)
     | _ \<Rightarrow> None)"

definition fallback_to_direct_file :: "error \<Rightarrow> bool" where
  "fallback_to_direct_file e \<longleftrightarrow> \<not> is_ambiguous_error e
    \<and> list_ex (\<lambda>marker. contains marker (py_lower (error_text e)))
        [''get preview failed'', ''flow_processing_error'', ''file_preview'', ''preview generation'']"

section \<open>Claims of attachments and uploads\<close>

definition build_attachment_record ::
    "delivery_context \<Rightarrow> int \<Rightarrow> canonical_attachment \<Rightarrow> attachment_mapping_record" where
  "build_attachment_record x i a = \<lparr>am_migration_id = dx_migration_id x,
     am_source_chat_id = cmsg_source_chat_id (dx_canonical x),
     am_source_message_id = cmsg_source_message_id (dx_canonical x), am_attachment_index = i,
     am_source_file_id = att_source_file_id a, am_source_filename = att_filename a,
     am_media_kind = att_media_kind a, am_checksum = att_sha256 a, am_size_bytes = att_size_bytes a,
     am_target_chat_id = dx_target_chat_id x, am_import_status = AttProcessing, am_imported_at = None,
     am_target_sync_id = None, am_last_error_code = None, am_last_error_payload = None\<rparr>"

definition build_attachment_stage_record ::
    "delivery_context \<Rightarrow> int \<Rightarrow> canonical_attachment \<Rightarrow> attachment_stage_record" where
  "build_attachment_stage_record x i a = \<lparr>st_migration_id = dx_migration_id x,
     st_source_chat_id = cmsg_source_chat_id (dx_canonical x),
     st_source_message_id = cmsg_source_message_id (dx_canonical x), st_attachment_index = i,
     st_target_chat_id = dx_target_chat_id x,
     st_source_locator = py_or (att_download_url a) (att_source_file_id a),
     st_media_kind = att_media_kind a, st_checksum = att_sha256 a, st_size_bytes = att_size_bytes a,
     st_status = StageProcessing, st_express_file_id = None, st_express_file_payload = None,
     st_target_sync_id = None, st_last_error_code = None, st_last_error_payload = None,
     st_created_at = None, st_updated_at = None\<rparr>"

definition get_attachment_record ::
    "delivery_context \<Rightarrow> int \<Rightarrow> ('w, attachment_mapping_record option) delivery" where
  "get_attachment_record x i = get_state (\<lambda>s. attachment_get (dl_attachments s) (attachment_key_of x i))"

definition claim_attachment ::
    "delivery_context \<Rightarrow> int \<Rightarrow> canonical_attachment \<Rightarrow> bool
      \<Rightarrow> ('w, claim_state \<times> attachment_mapping_record) delivery" where
  "claim_attachment x i a retry_failed =
    in_attachments (total_op (attachment_claim retry_failed (build_attachment_record x i a)))"

definition attachment_busy :: error where
  "attachment_busy = AmbiguousDeliveryError ''attachment is already being processed or is ambiguous''"

definition claim_terminal_attachment ::
    "delivery_context \<Rightarrow> int \<Rightarrow> canonical_attachment \<Rightarrow> bool \<Rightarrow> ('w, attachment_mapping_record) delivery" where
  "claim_terminal_attachment x i a retry_failed =
    bind (claim_attachment x i a retry_failed) (\<lambda>(state, r).
      if state = ClaimAmbiguous then
        if am_import_status r = AttSkipped then ret r else throw attachment_busy
      else ret r)"

definition fail_attachment ::
    "delivery_context \<Rightarrow> int \<Rightarrow> canonical_attachment \<Rightarrow> string \<Rightarrow> json \<Rightarrow> ('w, attachment_mapping_record) delivery" where
  "fail_attachment x i a code payload =
    in_attachments (fallible_op (attachment_mark_failed (attachment_key_of x i) (Some a) code payload))"

definition mark_attachment_ambiguous ::
    "delivery_context \<Rightarrow> int \<Rightarrow> canonical_attachment \<Rightarrow> string \<Rightarrow> json \<Rightarrow> ('w, attachment_mapping_record) delivery" where
  "mark_attachment_ambiguous x i a code payload =
    in_attachments (fallible_op (attachment_mark_ambiguous (attachment_key_of x i) (Some a) code payload))"

definition import_attachment ::
    "'w delivery_services \<Rightarrow> delivery_context \<Rightarrow> int \<Rightarrow> canonical_attachment \<Rightarrow> string
      \<Rightarrow> ('w, attachment_mapping_record) delivery" where
  "import_attachment sv x i a sync_id = bind (now_at sv) (\<lambda>now.
    in_attachments (fallible_op (attachment_mark_imported (attachment_key_of x i) a sync_id now)))"

definition skip_attachment ::
    "delivery_context \<Rightarrow> int \<Rightarrow> canonical_attachment \<Rightarrow> string \<Rightarrow> ('w, attachment_mapping_record) delivery" where
  "skip_attachment x i a reason =
    in_attachments (fallible_op (attachment_mark_skipped (attachment_key_of x i) a reason))"

text \<open>
  A claim of a stage reads the clock up to four times; readings its branch does not use are
  discarded.
\<close>

definition claim_stage ::
    "'w delivery_services \<Rightarrow> delivery_context \<Rightarrow> int \<Rightarrow> canonical_attachment \<Rightarrow> bool
      \<Rightarrow> ('w, claim_state \<times> attachment_stage_record) delivery" where
  "claim_stage sv x i a retry_failed =
    bind (now_at sv) (\<lambda>now. bind (now_at sv) (\<lambda>created. bind (now_at sv) (\<lambda>updated. bind (now_at sv) (\<lambda>stamp.
    in_stages (total_op (stage_claim \<lparr>sa_retry_failed = retry_failed, sa_created = created, sa_updated = updated\<rparr>
      (build_attachment_stage_record x i a) now stamp))))))"

definition fail_stage ::
    "'w delivery_services \<Rightarrow> delivery_context \<Rightarrow> int \<Rightarrow> string \<Rightarrow> json \<Rightarrow> ('w, attachment_stage_record) delivery" where
  "fail_stage sv x i code payload = bind (now_at sv) (\<lambda>now.
    in_stages (fallible_op (stage_mark_failed (stage_key_of x i) code payload now)))"

definition upload_stage ::
    "'w delivery_services \<Rightarrow> delivery_context \<Rightarrow> int \<Rightarrow> express_staged_file \<Rightarrow> ('w, attachment_stage_record) delivery" where
  "upload_stage sv x i f = bind (now_at sv) (\<lambda>now.
    in_stages (fallible_op (stage_mark_uploaded (stage_key_of x i) f now)))"

definition attach_stage ::
    "'w delivery_services \<Rightarrow> delivery_context \<Rightarrow> int \<Rightarrow> string \<Rightarrow> ('w, attachment_stage_record) delivery" where
  "attach_stage sv x i sync_id = bind (now_at sv) (\<lambda>now.
    in_stages (fallible_op (stage_mark_attached (stage_key_of x i) sync_id now)))"

definition mark_attachment_skipped ::
    "'w delivery_services \<Rightarrow> delivery_context \<Rightarrow> int \<Rightarrow> canonical_attachment \<Rightarrow> string
      \<Rightarrow> ('w, attachment_mapping_record) delivery" where
  "mark_attachment_skipped sv x i a reason =
    bind (claim_terminal_attachment x i a False) (\<lambda>r.
    bind (if am_import_status r \<noteq> AttSkipped then skip_attachment x i a reason else ret r) (\<lambda>r.
    bind (audit_attachment sv x ''attachment_skipped_by_policy'' SevInfo
      (attachment_payload a reason @ [(''policy'', JStr ''express_botx_max_upload_size''),
        (''size_limit_bytes'', JInt (sv_max_upload sv))])) (\<lambda>_. ret r)))"

section \<open>Uploading\<close>

definition no_resolution :: upload_resolution where
  "no_resolution = \<lparr>ur_staged_file = None, ur_outcome = None, ur_direct_file = False\<rparr>"

text \<open>What follows a failed upload: sending the file directly, or a failed attachment.\<close>

definition upload_failed ::
    "'w delivery_services \<Rightarrow> delivery_context \<Rightarrow> prepared_attachment \<Rightarrow> bool \<Rightarrow> error \<Rightarrow> ('w, upload_resolution) delivery" where
  "upload_failed sv x p retry_failed e =
    (let i = pr_attachment_index p; a = pr_attachment p in
     bind (fail_stage sv x i (error_name e) (phase_payload (error_text e) ''upload'')) (\<lambda>_.
     if fallback_to_direct_file e then
       bind (audit_attachment sv x ''attachment_upload_fallback_to_direct_send'' SevWarning
           (attachment_payload a (error_text e)))
         (\<lambda>_. ret (no_resolution\<lparr>ur_direct_file := True\<rparr>))
     else
       bind (claim_terminal_attachment x i a retry_failed) (\<lambda>r.
       bind (if am_import_status r \<noteq> AttFailed
           then fail_attachment x i a (error_name e) (phase_payload (error_text e) ''upload'') else ret r) (\<lambda>r.
       bind (audit_attachment sv x ''attachment_upload_failed'' SevWarning (attachment_payload a (error_text e)))
         (\<lambda>_. ret (no_resolution\<lparr>ur_outcome := Some (outcome_from_record a r)\<rparr>))))))"

definition upload_attachment ::
    "'w delivery_services \<Rightarrow> delivery_context \<Rightarrow> prepared_attachment \<Rightarrow> bool \<Rightarrow> ('w, upload_resolution) delivery" where
  "upload_attachment sv x p retry_failed =
    (let i = pr_attachment_index p; a = pr_attachment p in
     bind (attempt (\<lambda>e. e = CancelledError \<or> is_item_error e \<or> is_ambiguous_error e)
       (retried sv (sv_upload sv (dx_target_chat_id x) (pr_file_payload p)))) (\<lambda>result.
     case result of
       Inl e \<Rightarrow>
         if e = CancelledError then
           bind (fail_stage sv x i cancelled_code (phase_payload ''attachment upload cancelled'' ''upload''))
             (\<lambda>_. throw CancelledError)
         else upload_failed sv x p retry_failed e
     | Inr f \<Rightarrow>
         bind (upload_stage sv x i f) (\<lambda>_.
         bind (audit_attachment sv x ''attachment_uploaded_to_files_api'' SevInfo
           [(''target_chat_id'', JStr (dx_target_chat_id x)), (''attachment_index'', JInt i),
            (''express_file_id'', JStr (sf_file_id f)), (''filename'', JStr (sf_filename f)),
            (''media_kind'', JStr (att_media_kind a)), (''size_bytes'', JInt (sf_size_bytes f))]) (\<lambda>_.
         ret (no_resolution\<lparr>ur_staged_file := Some f\<rparr>)))))"

definition ensure_uploaded_attachment ::
    "'w delivery_services \<Rightarrow> delivery_context \<Rightarrow> prepared_attachment \<Rightarrow> bool \<Rightarrow> ('w, upload_resolution) delivery" where
  "ensure_uploaded_attachment sv x p retry_failed =
    bind (claim_stage sv x (pr_attachment_index p) (pr_attachment p) retry_failed) (\<lambda>(state, r).
      case state of
        ClaimImported \<Rightarrow>
          (case staged_file_from_payload (st_express_file_payload r) of
             Some f \<Rightarrow> ret (no_resolution\<lparr>ur_staged_file := Some f\<rparr>)
           | None \<Rightarrow> upload_attachment sv x p retry_failed)
      | ClaimFailed \<Rightarrow>
          if \<not> retry_failed then
            bind (get_attachment_record x (pr_attachment_index p)) (\<lambda>record. case record of
                Some m \<Rightarrow> ret (no_resolution\<lparr>ur_outcome := Some (outcome_from_record (pr_attachment p) m)\<rparr>)
              | None \<Rightarrow> upload_attachment sv x p retry_failed)
          else upload_attachment sv x p retry_failed
      | ClaimAmbiguous \<Rightarrow>
          throw (AmbiguousDeliveryError ''attachment upload stage is already being processed or is ambiguous'')
      | Claimed \<Rightarrow> upload_attachment sv x p retry_failed)"

end
