(* ===== verification/Message_Delivery.thy ===== *)
theory Message_Delivery
  imports Delivery
begin

text \<open>
  The operations of \<open>MessageDeliveryService\<close> over the steps of Delivery: prefetching and preparing the
  attachments of a message, delivering one attachment on its own, and \<open>deliver\<close> itself.
\<close>

section \<open>Prefetching\<close>

definition no_prefetch :: "int \<Rightarrow> canonical_attachment \<Rightarrow> prefetched_attachment" where
  "no_prefetch i a = \<lparr>pf_attachment_index = i, pf_attachment = a, pf_downloaded = None, pf_error = None,
     pf_skipped_reason = None\<rparr>"

definition indexed :: "'a list \<Rightarrow> (int \<times> 'a) list" where
  "indexed xs = map (\<lambda>(i, x). (int i, x)) (List.enumerate 0 xs)"

definition prefetch_one ::
    "'w delivery_services \<Rightarrow> string \<Rightarrow> int \<times> canonical_attachment \<Rightarrow> ('w, prefetched_attachment) delivery" where
  "prefetch_one sv backend ia =
    (let (i, a) = ia in
     case size_limit_reason sv (att_size_bytes a) of
       Some reason \<Rightarrow> ret ((no_prefetch i a)\<lparr>pf_skipped_reason := Some reason\<rparr>)
     | None \<Rightarrow>
         bind (attempt is_item_error (retried sv (sv_download sv backend a))) (\<lambda>result. case result of
           Inl e \<Rightarrow> ret ((no_prefetch i a)\<lparr>pf_error := Some e\<rparr>)
         | Inr d \<Rightarrow>
             bind (get_state (\<lambda>s. downloaded_size_bytes sv d (dl_world s))) (\<lambda>downloaded_size.
             case size_limit_reason sv downloaded_size of
               Some reason \<Rightarrow> bind (modify (cleanup_downloaded sv d)) (\<lambda>_.
                 ret ((no_prefetch i ((da_attachment d)\<lparr>att_size_bytes := downloaded_size\<rparr>))\<lparr>
                   pf_skipped_reason := Some reason\<rparr>))
             | None \<Rightarrow> ret ((no_prefetch i (da_attachment d))\<lparr>pf_downloaded := Some d\<rparr>))))"

definition prefetch_attachments ::
    "'w delivery_services \<Rightarrow> canonical_message \<Rightarrow> string \<Rightarrow> bool \<Rightarrow> ('w, prefetched_attachment list) delivery" where
  "prefetch_attachments sv m backend migrate_media =
    (if \<not> migrate_media \<or> cmsg_attachments m = [] then ret []
     else collect (prefetch_one sv backend) (indexed (cmsg_attachments m)))"

definition cleanup_prefetched ::
    "'w delivery_services \<Rightarrow> prefetched_attachment list \<Rightarrow> 'w delivery_state \<Rightarrow> 'w delivery_state" where
  "cleanup_prefetched sv ps = fold (\<lambda>p s. case pf_downloaded p of
     None \<Rightarrow> s | Some d \<Rightarrow> cleanup_downloaded sv d s) ps"

section \<open>Preparing\<close>

text \<open>What the loop over the attachments has gathered.\<close>

record preparation =
  pa_prepared :: "prepared_attachment list"
  pa_outcomes :: "(int, attachment_outcome) dict"
  pa_failures :: "string list"

definition record_outcome ::
    "int \<Rightarrow> canonical_attachment \<Rightarrow> attachment_mapping_record \<Rightarrow> preparation \<Rightarrow> preparation" where
  "record_outcome i a r acc = acc\<lparr>pa_outcomes := dict_set i (outcome_from_record a r) (pa_outcomes acc)\<rparr>"

definition add_failure :: "string \<Rightarrow> preparation \<Rightarrow> preparation" where
  "add_failure reason acc = acc\<lparr>pa_failures := pa_failures acc @ [reason]\<rparr>"

text \<open>The attachment exceeds the limit: \<open>described\<close> is stored, the outcome keeps the source's.\<close>

definition prepare_skipped ::
    "'w delivery_services \<Rightarrow> delivery_context \<Rightarrow> int \<Rightarrow> canonical_attachment \<Rightarrow> canonical_attachment \<Rightarrow> string
      \<Rightarrow> preparation \<Rightarrow> ('w, preparation) delivery" where
  "prepare_skipped sv x i a described reason acc =
    bind (mark_attachment_skipped sv x i described reason) (\<lambda>r.
    ret (record_outcome i a r (add_failure reason acc)))"

text \<open>A failed download or preparation: claimed, marked and audited under its phase.\<close>

definition prepare_failed ::
    "'w delivery_services \<Rightarrow> delivery_context \<Rightarrow> int \<Rightarrow> canonical_attachment \<Rightarrow> canonical_attachment \<Rightarrow> bool
      \<Rightarrow> string \<Rightarrow> string \<Rightarrow> error \<Rightarrow> preparation \<Rightarrow> ('w, preparation) delivery" where
  "prepare_failed sv x i a described reuse phase event_type e acc =
    bind (claim_terminal_attachment x i a (\<not> reuse)) (\<lambda>r.
    bind (if am_import_status r \<noteq> AttFailed
        then fail_attachment x i described (error_name e) (phase_payload (error_text e) phase) else ret r) (\<lambda>r.
    bind (audit_attachment sv x event_type SevWarning (attachment_payload described (error_text e))) (\<lambda>_.
    ret (record_outcome i a r (add_failure (error_text e) acc)))))"

definition prepare_downloaded ::
    "'w delivery_services \<Rightarrow> delivery_context \<Rightarrow> bool \<Rightarrow> int \<Rightarrow> canonical_attachment \<Rightarrow> downloaded_attachment
      \<Rightarrow> preparation \<Rightarrow> ('w, preparation) delivery" where
  "prepare_downloaded sv x reuse i a d acc =
    bind (get_state (\<lambda>s. downloaded_size_bytes sv d (dl_world s))) (\<lambda>downloaded_size.
    case size_limit_reason sv downloaded_size of
      Some reason \<Rightarrow> bind (modify (cleanup_downloaded sv d)) (\<lambda>_.
        prepare_skipped sv x i a ((da_attachment d)\<lparr>att_size_bytes := downloaded_size\<rparr>) reason acc)
    | None \<Rightarrow>
        bind (attempt is_item_error (to_file_payload sv d)) (\<lambda>result. case result of
          Inl e \<Rightarrow> prepare_failed sv x i a (da_attachment d) reuse ''prepare'' ''attachment_prepare_failed'' e acc
        | Inr (payload, prepared) \<Rightarrow>
            bind (get_state (\<lambda>s. file_payload_size_bytes sv payload (dl_world s))) (\<lambda>payload_size.
            case size_limit_reason sv payload_size of
              Some reason \<Rightarrow> prepare_skipped sv x i a (prepared\<lparr>att_size_bytes := payload_size\<rparr>) reason acc
            | None \<Rightarrow> ret (acc\<lparr>pa_prepared := pa_prepared acc @ [\<lparr>pr_attachment_index = i,
                pr_attachment = prepared, pr_file_payload = payload\<rparr>]\<rparr>))))"

text \<open>The download itself, or what prefetching found: an error, or a file if there is one.\<close>

definition obtain_attachment ::
    "'w delivery_services \<Rightarrow> string \<Rightarrow> prefetched_attachment option \<Rightarrow> canonical_attachment
      \<Rightarrow> ('w, (error, downloaded_attachment option) outcome) delivery" where
  "obtain_attachment sv backend prefetched a =
    (case prefetched of
       Some p \<Rightarrow> ret (case pf_error p of Some e \<Rightarrow> Inl e | None \<Rightarrow> Inr (pf_downloaded p))
     | None \<Rightarrow> bind (attempt is_item_error (retried sv (sv_download sv backend a)))
         (\<lambda>result. ret (case result of Inl e \<Rightarrow> Inl e | Inr d \<Rightarrow> Inr (Some d))))"

definition prepare_one ::
    "'w delivery_services \<Rightarrow> delivery_context \<Rightarrow> string \<Rightarrow> bool \<Rightarrow> (int, prefetched_attachment) dict
      \<Rightarrow> int \<Rightarrow> canonical_attachment \<Rightarrow> preparation \<Rightarrow> ('w, preparation) delivery" where
  "prepare_one sv x backend reuse prefetched_by_index i a acc =
    bind (get_attachment_record x i) (\<lambda>existing.
    case (case existing of
        Some r \<Rightarrow> if reuse \<and> \<not> ao_blocks (outcome_from_record a r) then Some r else None
      | None \<Rightarrow> None) of
      Some r \<Rightarrow> ret (record_outcome i a r acc)
    | None \<Rightarrow>
        let prefetched = dict_get prefetched_by_index i in
        case (case Option.bind prefetched pf_skipped_reason of
            Some reason \<Rightarrow> Some reason | None \<Rightarrow> size_limit_reason sv (att_size_bytes a)) of
          Some reason \<Rightarrow> prepare_skipped sv x i a a reason acc
        | None \<Rightarrow>
            bind (obtain_attachment sv backend prefetched a) (\<lambda>result. case result of
              Inl e \<Rightarrow> prepare_failed sv x i a a reuse ''download'' ''attachment_download_failed'' e acc
            | Inr None \<Rightarrow> throw (FatalItemError ''attachment preparation has no downloaded payload'')
            | Inr (Some d) \<Rightarrow> prepare_downloaded sv x reuse i a d acc))"

fun prepare_loop ::
    "(int \<Rightarrow> canonical_attachment \<Rightarrow> preparation \<Rightarrow> ('w, preparation) delivery)
      \<Rightarrow> (int \<times> canonical_attachment) list \<Rightarrow> preparation \<Rightarrow> ('w, preparation) delivery" where
  "prepare_loop step [] acc = ret acc"
| "prepare_loop step ((i, a) # ias) acc = bind (step i a acc) (prepare_loop step ias)"

definition media_disabled :: string where
  "media_disabled = ''media migration disabled by manifest''"

definition skip_by_policy ::
    "'w delivery_services \<Rightarrow> delivery_context \<Rightarrow> int \<Rightarrow> canonical_attachment \<Rightarrow> preparation
      \<Rightarrow> ('w, preparation) delivery" where
  "skip_by_policy sv x i a acc =
    bind (claim_terminal_attachment x i a False) (\<lambda>r.
    if am_import_status r = AttSkipped then ret (record_outcome i a r acc)
    else bind (skip_attachment x i a media_disabled) (\<lambda>r.
      bind (audit_attachment sv x ''attachment_skipped_by_policy'' SevInfo (attachment_payload a media_disabled))
        (\<lambda>_. ret (record_outcome i a r acc))))"

definition index_prefetched :: "prefetched_attachment list \<Rightarrow> (int, prefetched_attachment) dict" where
  "index_prefetched ps = fold (\<lambda>p d. dict_set (pf_attachment_index p) p d) ps []"

definition prepare_message ::
    "'w delivery_services \<Rightarrow> delivery_context \<Rightarrow> string \<Rightarrow> bool \<Rightarrow> bool \<Rightarrow> prefetched_attachment list
      \<Rightarrow> ('w, canonical_message \<times> prepared_attachment list \<times> (int, attachment_outcome) dict) delivery" where
  "prepare_message sv x backend migrate_media reuse prefetched =
    (let m = dx_canonical x;
         acc = \<lparr>pa_prepared = [], pa_outcomes = [], pa_failures = cmsg_attachment_failures m\<rparr>
     in if cmsg_attachments m = [] then ret (m, [], [])
        else if \<not> migrate_media then
          bind (prepare_loop (skip_by_policy sv x) (indexed (cmsg_attachments m)) acc)
            (\<lambda>acc. ret (m\<lparr>cmsg_attachments := []\<rparr>, [], pa_outcomes acc))
        else
          bind (prepare_loop (prepare_one sv x backend reuse (index_prefetched prefetched))
              (indexed (cmsg_attachments m)) acc)
            (\<lambda>acc. ret (m\<lparr>cmsg_attachments := [], cmsg_attachment_failures := pa_failures acc\<rparr>,
               pa_prepared acc, pa_outcomes acc)))"

section \<open>One attachment on its own\<close>

definition import_payload ::
    "delivery_context \<Rightarrow> prepared_attachment \<Rightarrow> string \<Rightarrow> string \<Rightarrow> (string \<times> json) list" where
  "import_payload x p sync_id mode = [(''target_chat_id'', JStr (dx_target_chat_id x)),
     (''target_sync_id'', JStr sync_id), (''attachment_index'', JInt (pr_attachment_index p)),
     (''filename'', json_opt_str (att_filename (pr_attachment p))),
     (''media_kind'', JStr (att_media_kind (pr_attachment p))),
     (''size_bytes'', json_opt_int (att_size_bytes (pr_attachment p))),
     (''sha256'', json_opt_str (att_sha256 (pr_attachment p))), (''delivery_mode'', JStr mode)]"

definition attachment_request ::
    "'w delivery_services \<Rightarrow> delivery_context \<Rightarrow> prepared_attachment \<Rightarrow> upload_resolution \<Rightarrow> send_request" where
  "attachment_request sv x p u = \<lparr>sq_target_chat_id = dx_target_chat_id x,
     sq_body = render_attachment_body sv (pr_attachment p),
     sq_idempotency_key = attachment_idempotency_key (dx_canonical x) (pr_attachment_index p),
     sq_file = (if ur_direct_file u then Some (pr_file_payload p) else None),
     sq_staged_file = ur_staged_file u,
     sq_fallback_file = (if ur_staged_file u \<noteq> None then Some (pr_file_payload p) else None)\<rparr>"

text \<open>Sending a claimed attachment and reporting what came of it.\<close>

definition send_attachment ::
    "'w delivery_services \<Rightarrow> delivery_context \<Rightarrow> prepared_attachment \<Rightarrow> upload_resolution
      \<Rightarrow> ('w, attachment_outcome) delivery" where
  "send_attachment sv x p u =
    (let i = pr_attachment_index p; a = pr_attachment p
     in bind (attempt (\<lambda>e. is_ambiguous_error e \<or> is_item_error e) (retried sv (sv_send sv (attachment_request sv x p u)))) (\<lambda>result.
        case result of
          Inl e \<Rightarrow>
            if is_ambiguous_error e then
              bind (mark_attachment_ambiguous x i a (error_name e) (phase_payload (error_text e) ''send'')) (\<lambda>r.
              bind (audit_attachment sv x ''attachment_send_ambiguous'' SevError
                (attachment_payload a (error_text e))) (\<lambda>_. ret (outcome_from_record a r)))
            else
              bind (fail_attachment x i a (error_name e) (phase_payload (error_text e) ''send'')) (\<lambda>r.
              bind (audit_attachment sv x ''attachment_send_failed'' SevError
                (attachment_payload a (error_text e))) (\<lambda>_. ret (outcome_from_record a r)))
        | Inr sent \<Rightarrow>
            bind (import_attachment sv x i a (sm_target_sync_id sent)) (\<lambda>r.
            bind (if ur_staged_file u \<noteq> None
                then bind (attach_stage sv x i (sm_target_sync_id sent)) (\<lambda>_. ret ()) else ret ()) (\<lambda>_.
            bind (audit_attachment sv x ''attachment_imported'' SevInfo
              (import_payload x p (sm_target_sync_id sent)
                (if ur_staged_file u \<noteq> None then ''staged_file'' else ''direct_file_fallback''))) (\<lambda>_.
            ret (outcome_from_record a r))))))"

text \<open>An existing record that already settles the attachment.\<close>

definition settled :: "bool \<Rightarrow> canonical_attachment \<Rightarrow> attachment_mapping_record \<Rightarrow> bool" where
  "settled retry_failed a r \<longleftrightarrow> am_import_status r \<in> {AttImported, AttSkipped}
    \<or> (am_import_status r = AttFailed \<and> \<not> retry_failed \<and> \<not> is_cancel_code (am_last_error_code r))
    \<or> (am_import_status r = AttFailed \<and> retry_failed
       \<and> ao_phase (outcome_from_record a r) \<notin> {''send'', ''upload''})"

definition deliver_claimed ::
    "'w delivery_services \<Rightarrow> delivery_context \<Rightarrow> prepared_attachment \<Rightarrow> bool \<Rightarrow> ('w, attachment_outcome) delivery" where
  "deliver_claimed sv x p retry_failed =
    (let a = pr_attachment p in
     bind (claim_attachment x (pr_attachment_index p) a retry_failed) (\<lambda>(state, r).
     case state of
       ClaimImported \<Rightarrow> ret (outcome_from_record a r)
     | ClaimFailed \<Rightarrow> ret (outcome_from_record a r)
     | ClaimAmbiguous \<Rightarrow>
         if am_import_status r = AttSkipped then ret (outcome_from_record a r) else throw attachment_busy
     | Claimed \<Rightarrow>
         bind (ensure_uploaded_attachment sv x p retry_failed) (\<lambda>u.
         case ur_outcome u of
           Some outcome \<Rightarrow> ret outcome
         | None \<Rightarrow>
             if ur_staged_file u = None \<and> \<not> ur_direct_file u then ret (outcome_from_record a r)
             else send_attachment sv x p u)))"

text \<open>A cancelled delivery is reported before the cancellation goes on.\<close>

definition report_cancelled ::
    "'w delivery_services \<Rightarrow> delivery_context \<Rightarrow> prepared_attachment \<Rightarrow> ('w, attachment_outcome) delivery" where
  "report_cancelled sv x p =
    (let i = pr_attachment_index p in
     bind (fail_attachment x i (pr_attachment p) cancelled_code
       (phase_payload ''attachment delivery cancelled'' ''delivery'')) (\<lambda>_.
     bind (get_state (\<lambda>s. stage_get (dl_stages s) (stage_key_of x i))) (\<lambda>stage.
     bind (case stage of
         Some r \<Rightarrow> if st_status r = StageProcessing
           then bind (fail_stage sv x i cancelled_code (phase_payload ''attachment upload cancelled'' ''upload'')) (\<lambda>_. ret ())
           else ret ()
       | None \<Rightarrow> ret ()) (\<lambda>_. throw CancelledError))))"

definition deliver_attachment ::
    "'w delivery_services \<Rightarrow> delivery_context \<Rightarrow> bool \<Rightarrow> prepared_attachment \<Rightarrow> ('w, attachment_outcome) delivery" where
  "deliver_attachment sv x retry_failed p =
    bind (get_attachment_record x (pr_attachment_index p)) (\<lambda>existing.
    ensure (cleanup_file_payload sv (pr_file_payload p))
      (catch_error
        (case existing of
           Some r \<Rightarrow>
             if settled retry_failed (pr_attachment p) r then ret (outcome_from_record (pr_attachment p) r)
             else if am_import_status r = AttAmbiguous
             then throw (AmbiguousDeliveryError ''attachment is in ambiguous state; manual reconciliation required'')
             else deliver_claimed sv x p retry_failed
         | None \<Rightarrow> deliver_claimed sv x p retry_failed)
        (\<lambda>e. if e = CancelledError then Some (report_cancelled sv x p) else None)))"

definition mark_inline_attachment_imported ::
    "'w delivery_services \<Rightarrow> delivery_context \<Rightarrow> prepared_attachment \<Rightarrow> string \<Rightarrow> bool \<Rightarrow> string
      \<Rightarrow> ('w, attachment_outcome) delivery" where
  "mark_inline_attachment_imported sv x p sync_id staged mode =
    (let i = pr_attachment_index p; a = pr_attachment p in
     bind (claim_attachment x i a True) (\<lambda>(state, r).
     if state = ClaimAmbiguous then
       if am_import_status r = AttSkipped then ret (outcome_from_record a r) else throw attachment_busy
     else if state = ClaimImported then ret (outcome_from_record a r)
     else
       catch_error
         (bind (import_attachment sv x i a sync_id) (\<lambda>r.
          bind (if staged then bind (attach_stage sv x i sync_id) (\<lambda>_. ret ()) else ret ()) (\<lambda>_.
          bind (audit_attachment sv x ''attachment_imported'' SevInfo (import_payload x p sync_id mode)) (\<lambda>_.
          ret (outcome_from_record a r)))))
         (\<lambda>e. if e = CancelledError
           then Some (bind (fail_attachment x i a cancelled_code
               (phase_payload ''inline attachment delivery cancelled'' ''inline_attach'')) (\<lambda>_. throw CancelledError))
           else None)))"

section \<open>A message\<close>

fun deliver_followups ::
    "(prepared_attachment \<Rightarrow> ('w, attachment_outcome) delivery) \<Rightarrow> prepared_attachment list
      \<Rightarrow> (int, attachment_outcome) dict \<Rightarrow> ('w, (int, attachment_outcome) dict) delivery" where
  "deliver_followups step [] outcomes = ret outcomes"
| "deliver_followups step (p # ps) outcomes =
    bind (step p) (\<lambda>outcome. deliver_followups step ps (dict_set (pr_attachment_index p) outcome outcomes))"

definition rendered_body_of ::
    "'w delivery_services \<Rightarrow> canonical_message \<Rightarrow> string option \<Rightarrow> reply_preview option \<Rightarrow> string \<Rightarrow> string" where
  "rendered_body_of sv m title preview reply_mode = render_text (render (sv_renderer sv) m title preview reply_mode)"

text \<open>
  The message itself with its inline attachment, if any: the resolution of its upload, the text and
  the message sent, and the outcome of the inline attachment when there is one.
\<close>

definition send_primary ::
    "'w delivery_services \<Rightarrow> delivery_context \<Rightarrow> prepared_attachment option \<Rightarrow> upload_resolution \<Rightarrow> string
      \<Rightarrow> ('w, sent_message_ref) delivery" where
  "send_primary sv x inline u body =
    retried sv (sv_send sv \<lparr>sq_target_chat_id = dx_target_chat_id x, sq_body = body,
      sq_idempotency_key = idempotency_key (dx_canonical x),
      sq_file = (case inline of Some p \<Rightarrow> if ur_direct_file u then Some (pr_file_payload p) else None | None \<Rightarrow> None),
      sq_staged_file = ur_staged_file u,
      sq_fallback_file = (case inline of
          Some p \<Rightarrow> if ur_staged_file u \<noteq> None then Some (pr_file_payload p) else None | None \<Rightarrow> None)\<rparr>)"

definition deliver_primary ::
    "'w delivery_services \<Rightarrow> delivery_context \<Rightarrow> string option \<Rightarrow> reply_preview option \<Rightarrow> string
      \<Rightarrow> sent_message_ref option \<Rightarrow> string option \<Rightarrow> bool \<Rightarrow> canonical_message \<Rightarrow> prepared_attachment option
      \<Rightarrow> (int, attachment_outcome) dict
      \<Rightarrow> ('w, string \<times> sent_message_ref \<times> (int, attachment_outcome) dict) delivery" where
  "deliver_primary sv x title preview reply_mode existing existing_body retry_failed prepared inline outcomes =
    bind (case inline of None \<Rightarrow> ret no_resolution
        | Some p \<Rightarrow> ensure_uploaded_attachment sv x p retry_failed) (\<lambda>u.
    let outcomes = (case inline of None \<Rightarrow> outcomes
          | Some p \<Rightarrow> (case ur_outcome u of None \<Rightarrow> outcomes
              | Some o' \<Rightarrow> dict_set (pr_attachment_index p) o' outcomes));
        body = rendered_body_of sv prepared title preview reply_mode
    in bind (case existing of
          None \<Rightarrow> bind (send_primary sv x inline u body) (\<lambda>sent. ret (body, sent))
        | Some sent \<Rightarrow> ret (or_empty (py_or existing_body (Some body)), sent)) (\<lambda>(text, sent).
      case inline of
        None \<Rightarrow> ret (text, sent, outcomes)
      | Some p \<Rightarrow>
          if ur_staged_file u \<noteq> None \<or> ur_direct_file u then
            bind (mark_inline_attachment_imported sv x p (sm_target_sync_id sent) (ur_staged_file u \<noteq> None)
                (if ur_staged_file u \<noteq> None then ''inline_primary_staged'' else ''inline_primary_direct_file''))
              (\<lambda>o'. ret (text, sent, dict_set (pr_attachment_index p) o' outcomes))
          else ret (text, sent, outcomes)))"

definition deliver ::
    "'w delivery_services \<Rightarrow> delivery_context \<Rightarrow> string \<Rightarrow> string option \<Rightarrow> reply_preview option \<Rightarrow> bool
      \<Rightarrow> string \<Rightarrow> sent_message_ref option \<Rightarrow> string option \<Rightarrow> bool \<Rightarrow> prefetched_attachment list
      \<Rightarrow> ('w, delivery_result) delivery" where
  "deliver sv x backend title preview migrate_media reply_mode existing existing_body retry_failed prefetched =
    bind (prepare_message sv x backend migrate_media (existing \<noteq> None) prefetched) (\<lambda>(prepared, ps, outcomes).
    let inline = (case ps of [p] \<Rightarrow> if existing = None then Some p else None | _ \<Rightarrow> None);
        followups = (if inline \<noteq> None then [] else ps)
    in bind (ensure (case inline of None \<Rightarrow> (\<lambda>s. s) | Some p \<Rightarrow> cleanup_file_payload sv (pr_file_payload p))
         (deliver_primary sv x title preview reply_mode existing existing_body retry_failed prepared inline outcomes))
       (\<lambda>(text, sent, outcomes).
       bind (deliver_followups (deliver_attachment sv x retry_failed) followups outcomes) (\<lambda>outcomes.
       ret \<lparr>dr_canonical = prepared, dr_rendered_body = text, dr_sent_message = sent,
         dr_outcomes = map snd (sort_key fst outcomes), dr_primary_reused = (existing \<noteq> None)\<rparr>)))"

end
