(* ===== verification/Delivery_Facts.thy ===== *)
theory Delivery_Facts
  imports Message_Delivery
begin

text \<open>
  What the steps of a delivery do to the attachment records: the predicate \<open>tracks\<close> follows the
  repository through an action, with one rule per combinator and one per step; the facts about whole
  operations are read off it.
\<close>

named_theorems track \<open>rules that follow the attachment records through an action\<close>

section \<open>Following the records\<close>

definition tracks ::
    "(attachment_repo \<Rightarrow> bool) \<Rightarrow> ('w, 'a) delivery \<Rightarrow> ('a \<Rightarrow> attachment_repo \<Rightarrow> bool) \<Rightarrow> bool" where
  "tracks P m R \<longleftrightarrow>
    meets (\<lambda>s. attachments_ok (dl_attachments s) \<and> P (dl_attachments s)) m
      (\<lambda>r s. attachments_ok (dl_attachments s) \<and> R r (dl_attachments s))
      (\<lambda>_ s. attachments_ok (dl_attachments s))"

lemma tracks_result:
  assumes "tracks P m R" and "attachments_ok (dl_attachments s)" and "P (dl_attachments s)"
    and "m s = (Inr a, s')"
  shows "attachments_ok (dl_attachments s')" and "R a (dl_attachments s')"
  using meets_result [OF assms(1) [unfolded tracks_def] _ assms(4)] assms(2,3) by auto

lemma tracks_error:
  assumes "tracks P m R" and "attachments_ok (dl_attachments s)" and "P (dl_attachments s)"
    and "m s = (Inl e, s')"
  shows "attachments_ok (dl_attachments s')"
  using meets_error [OF assms(1) [unfolded tracks_def] _ assms(4)] assms(2,3) by auto

lemma tracksI:
  assumes "\<And>s a s'. attachments_ok (dl_attachments s) \<Longrightarrow> P (dl_attachments s) \<Longrightarrow> m s = (Inr a, s')
      \<Longrightarrow> attachments_ok (dl_attachments s') \<and> R a (dl_attachments s')"
    and "\<And>s e s'. attachments_ok (dl_attachments s) \<Longrightarrow> P (dl_attachments s) \<Longrightarrow> m s = (Inl e, s')
      \<Longrightarrow> attachments_ok (dl_attachments s')"
  shows "tracks P m R"
  unfolding tracks_def using assms by (intro meetsI) blast+

lemma tracks_pre: "tracks P m R \<Longrightarrow> (\<And>A. P' A \<Longrightarrow> P A) \<Longrightarrow> tracks P' m R"
  unfolding tracks_def by (auto intro: meets_pre)

lemma tracks_post: "tracks P m R \<Longrightarrow> (\<And>r A. R r A \<Longrightarrow> R' r A) \<Longrightarrow> tracks P m R'"
  unfolding tracks_def by (erule meets_post) auto

text \<open>A precondition that does not depend on the state.\<close>

lemma tracks_assume: "(Q \<Longrightarrow> tracks (\<lambda>_. True) m R) \<Longrightarrow> tracks (\<lambda>_. Q) m R"
  by (cases Q) (auto simp: tracks_def meets_def)

lemma tracks_ret [track]: "(\<And>A. P A \<Longrightarrow> R a A) \<Longrightarrow> tracks P (ret a) R"
  by (auto simp: tracks_def)

lemma tracks_throw [track]: "tracks P (throw e) R"
  by (auto simp: tracks_def)

lemma tracks_bind:
  assumes "tracks P m R" and "\<And>a. tracks (R a) (f a) Q"
  shows "tracks P (bind m f) Q"
  using assms unfolding tracks_def by (rule meets_bind)

lemma tracks_if:
  "(b \<Longrightarrow> tracks P m R) \<Longrightarrow> (\<not> b \<Longrightarrow> tracks P m' R) \<Longrightarrow> tracks P (if b then m else m') R"
  by simp

lemma tracks_attempt:
  assumes "tracks P m R" and "\<And>a A. R a A \<Longrightarrow> Q (Inr a) A" and "\<And>e A. takes e \<Longrightarrow> attachments_ok A \<Longrightarrow> Q (Inl e) A"
  shows "tracks P (attempt takes m) Q"
proof (rule tracksI)
  fix s a s'
  assume s: "attachments_ok (dl_attachments s)" "P (dl_attachments s)" "attempt takes m s = (Inr a, s')"
  show "attachments_ok (dl_attachments s') \<and> Q a (dl_attachments s')"
  proof (cases "fst (m s)")
    case (Inl e)
    with s(3) have "m s = (Inl e, s')" "a = Inl e" "takes e"
      by (auto simp: attempt_def split: prod.splits if_splits)
    with tracks_error [OF assms(1) s(1,2)] assms(3) show ?thesis by blast
  next
    case (Inr b)
    with s(3) have "m s = (Inr b, s')" "a = Inr b"
      by (auto simp: attempt_def split: prod.splits)
    with tracks_result [OF assms(1) s(1,2)] assms(2) show ?thesis by blast
  qed
next
  fix s e s'
  assume s: "attachments_ok (dl_attachments s)" "P (dl_attachments s)" "attempt takes m s = (Inl e, s')"
  then have "m s = (Inl e, s')" by (auto simp: attempt_def split: prod.splits sum.splits if_splits)
  with tracks_error [OF assms(1) s(1,2)] show "attachments_ok (dl_attachments s')" .
qed

lemma tracks_catch:
  assumes "tracks P m R" and "\<And>e h. handler e = Some h \<Longrightarrow> tracks (\<lambda>_. True) h R"
  shows "tracks P (catch_error m handler) R"
  using assms unfolding tracks_def by (intro meets_catch) auto

lemma tracks_ensure:
  assumes "tracks P m R" and "\<And>s. dl_attachments (c s) = dl_attachments s"
  shows "tracks P (ensure c m) R"
  unfolding tracks_def using assms(1) [unfolded tracks_def]
  by (rule meets_ensure) (simp_all add: assms(2))

text \<open>Steps of the outside world, the stages, the audit log and reads leave the records alone.\<close>

lemma tracks_world [track]: "(\<And>a A. P A \<Longrightarrow> R a A) \<Longrightarrow> tracks P (in_world m) R"
  by (rule tracksI) (auto simp: in_world_def on_part_def split: prod.splits)

lemma tracks_stages [track]: "(\<And>a A. P A \<Longrightarrow> R a A) \<Longrightarrow> tracks P (in_stages m) R"
  by (rule tracksI) (auto simp: in_stages_def on_part_def split: prod.splits)

lemma tracks_now [track]: "(\<And>a A. P A \<Longrightarrow> R a A) \<Longrightarrow> tracks P (now_at sv) R"
  unfolding now_at_def by (rule tracks_world)

lemma tracks_retried [track]: "(\<And>a A. P A \<Longrightarrow> R a A) \<Longrightarrow> tracks P (retried sv m) R"
  unfolding retried_def by (rule tracks_world)

lemma tracks_get [track]: "(\<And>a A. P A \<Longrightarrow> R a A) \<Longrightarrow> tracks P (get_state f) R"
  by (rule tracksI) (auto simp: get_state_def)

lemma tracks_modify:
  "(\<And>s. dl_attachments (f s) = dl_attachments s) \<Longrightarrow> (\<And>A. P A \<Longrightarrow> R () A) \<Longrightarrow> tracks P (modify f) R"
  by (rule tracksI) (auto simp: modify_def)

lemma tracks_audit [track]:
  assumes "\<And>A. P A \<Longrightarrow> R () A"
  shows "tracks P (audit_attachment sv x t v p) R"
  unfolding audit_attachment_def
  by (rule tracks_bind [where R = "\<lambda>_. P"]) (auto intro!: track tracks_modify simp: assms)

lemma unlink_path_attachments [simp]:
  "dl_attachments (unlink_path sv path s) = dl_attachments s"
  "dl_attachments (cleanup_downloaded sv d s) = dl_attachments s"
  "dl_attachments (cleanup_file_payload sv f s) = dl_attachments s"
  by (simp_all add: unlink_path_def cleanup_downloaded_def cleanup_file_payload_def)

section \<open>Records under their key\<close>

definition filed :: "delivery_context \<Rightarrow> int \<Rightarrow> attachment_mapping_record \<Rightarrow> attachment_repo \<Rightarrow> bool" where
  "filed x i r A \<longleftrightarrow> attachment_get A (attachment_key_of x i) = Some r \<and> am_attachment_index r = i"

lemma attachment_key_index: "attachment_key r = attachment_key_of x i \<Longrightarrow> am_attachment_index r = i"
  by (simp add: attachment_key_def attachment_key_of_def)

lemma attachment_key_build [simp]: "attachment_key (build_attachment_record x i a) = attachment_key_of x i"
  by (simp add: attachment_key_def attachment_key_of_def build_attachment_record_def)

lemma outcome_index [simp]: "ao_attachment_index (outcome_from_record a r) = am_attachment_index r"
  by (simp add: outcome_from_record_def Let_def)

lemma outcome_status [simp]: "ao_import_status (outcome_from_record a r) = am_import_status r"
  by (simp add: outcome_from_record_def Let_def)

lemma filed_index: "filed x i r A \<Longrightarrow> am_attachment_index r = i"
  by (simp add: filed_def)

text \<open>What a claim answers, by its state.\<close>

fun claim_answer :: "claim_state \<Rightarrow> attachment_mapping_record \<Rightarrow> bool" where
  "claim_answer Claimed r \<longleftrightarrow> am_import_status r = AttProcessing"
| "claim_answer ClaimImported r \<longleftrightarrow> am_import_status r = AttImported"
| "claim_answer ClaimFailed r \<longleftrightarrow> am_import_status r = AttFailed"
| "claim_answer ClaimAmbiguous r \<longleftrightarrow> am_import_status r \<in> {AttProcessing, AttAmbiguous, AttSkipped}"

lemma attachment_claim_answer:
  assumes "attachment_claim retry r A = ((st, r'), A')" and "am_import_status r = AttProcessing"
  shows "claim_answer st r'"
  using assms
  by (cases "am_import_status r'"; cases "dict_get A (attachment_key r)")
    (auto simp: attachment_claim_def Let_def split: if_splits)

lemma tracks_claim:
  "tracks P (claim_attachment x i a retry) (\<lambda>(st, r) A. filed x i r A \<and> claim_answer st r)"
proof (rule tracksI)
  fix s p s'
  assume ok: "attachments_ok (dl_attachments s)" and run: "claim_attachment x i a retry s = (Inr p, s')"
  obtain st r where p: "p = (st, r)" by fastforce
  with run have claim: "attachment_claim retry (build_attachment_record x i a) (dl_attachments s)
      = ((st, r), dl_attachments s')"
    by (auto simp: claim_attachment_def in_attachments_def on_part_def total_op_def split: prod.splits)
  have "claim_answer st r"
    using attachment_claim_answer [OF claim] by (simp add: build_attachment_record_def)
  moreover have "attachments_ok (dl_attachments s') \<and> filed x i r (dl_attachments s')"
    using ok
  proof (cases rule: attachment_claim_effect [where a = retry and r = "build_attachment_record x i a"])
    case (refuse st' e)
    then have "attachment_key e = attachment_key_of x i"
      using keyed_dict_key [OF ok] by (simp add: attachment_get_def)
    with refuse claim ok show ?thesis by (auto simp: filed_def attachment_key_index)
  next
    case (grant r')
    with claim have "dl_attachments s' = dict_set (attachment_key_of x i) r (dl_attachments s)"
      "attachment_key r = attachment_key_of x i" by auto
    with ok show ?thesis by (auto simp: filed_def attachment_get_def attachment_key_index)
  qed
  ultimately show "attachments_ok (dl_attachments s') \<and> (case p of (st, r) \<Rightarrow> \<lambda>A. filed x i r A \<and> claim_answer st r) (dl_attachments s')"
    by (simp add: p)
next
  fix s e s'
  assume "claim_attachment x i a retry s = (Inl e, s')"
  then show "attachments_ok (dl_attachments s')"
    by (simp add: claim_attachment_def in_attachments_def on_part_def total_op_def split: prod.splits)
qed

lemma tracks_apply:
  "tracks P (in_attachments (fallible_op (attachment_apply rep (attachment_key_of x i))))
    (\<lambda>r A. filed x i r A \<and> am_import_status r = report_status rep)"
proof (rule tracksI)
  fix s r s'
  assume ok: "attachments_ok (dl_attachments s)"
    and run: "in_attachments (fallible_op (attachment_apply rep (attachment_key_of x i))) s = (Inr r, s')"
  then have "attachment_apply rep (attachment_key_of x i) (dl_attachments s) = Inr (r, dl_attachments s')"
    by (auto simp: in_attachments_def on_part_def fallible_op_def split: prod.splits sum.splits)
  from attachment_apply_effect [OF ok this]
  show "attachments_ok (dl_attachments s') \<and> filed x i r (dl_attachments s') \<and> am_import_status r = report_status rep"
    by (simp add: filed_def attachment_key_index)
next
  fix s e s'
  assume "attachments_ok (dl_attachments s)"
    "in_attachments (fallible_op (attachment_apply rep (attachment_key_of x i))) s = (Inl e, s')"
  then show "attachments_ok (dl_attachments s')"
    by (auto simp: in_attachments_def on_part_def fallible_op_def split: prod.splits sum.splits)
qed

lemma tracks_fail: "tracks P (fail_attachment x i a c p) (\<lambda>r A. filed x i r A \<and> am_import_status r = AttFailed)"
  using tracks_apply [where rep = "AttachmentBroken (Some a) c p"] by (simp add: fail_attachment_def)

lemma tracks_ambiguous:
  "tracks P (mark_attachment_ambiguous x i a c p) (\<lambda>r A. filed x i r A \<and> am_import_status r = AttAmbiguous)"
  using tracks_apply [where rep = "AttachmentUnsure (Some a) c p"] by (simp add: mark_attachment_ambiguous_def)

lemma tracks_skip: "tracks P (skip_attachment x i a c) (\<lambda>r A. filed x i r A \<and> am_import_status r = AttSkipped)"
  using tracks_apply [where rep = "AttachmentSkip a c"] by (simp add: skip_attachment_def)

lemma tracks_import:
  "tracks P (import_attachment sv x i a c) (\<lambda>r A. filed x i r A \<and> am_import_status r = AttImported)"
  unfolding import_attachment_def
proof (rule tracks_bind)
  show "tracks P (now_at sv) (\<lambda>_. P)" by (rule tracks_now)
  show "tracks P (in_attachments (fallible_op (attachment_mark_imported (attachment_key_of x i) a c now)))
      (\<lambda>r A. filed x i r A \<and> am_import_status r = AttImported)" for now
    using tracks_apply [where rep = "AttachmentDone a c now"] by simp
qed

lemma tracks_get_record:
  "tracks P (get_attachment_record x i) (\<lambda>r A. P A \<and> (\<forall>m. r = Some m \<longrightarrow> filed x i m A))"
  unfolding get_attachment_record_def
proof (rule tracksI)
  fix s r s'
  assume ok: "attachments_ok (dl_attachments s)" "P (dl_attachments s)"
    and run: "get_state (\<lambda>s. attachment_get (dl_attachments s) (attachment_key_of x i)) s = (Inr r, s')"
  have "s' = s" "r = attachment_get (dl_attachments s) (attachment_key_of x i)"
    using run by (auto simp: get_state_def)
  with ok keyed_dict_key [OF ok(1)]
  show "attachments_ok (dl_attachments s') \<and> P (dl_attachments s')
      \<and> (\<forall>m. r = Some m \<longrightarrow> filed x i m (dl_attachments s'))"
    by (auto simp: filed_def attachment_get_def attachment_key_index)
qed (simp add: get_state_def)

lemma tracks_claim_terminal:
  "tracks P (claim_terminal_attachment x i a retry) (filed x i)"
  unfolding claim_terminal_attachment_def
  by (rule tracks_bind [OF tracks_claim]) (auto intro!: track)

section \<open>Uploads\<close>

text \<open>The outcome is that of the stored record, whose status meets \<open>S\<close>.\<close>

definition reported ::
    "delivery_context \<Rightarrow> prepared_attachment \<Rightarrow> (attachment_import_status \<Rightarrow> bool) \<Rightarrow> attachment_outcome
      \<Rightarrow> attachment_repo \<Rightarrow> bool" where
  "reported x p S o' A \<longleftrightarrow> (\<exists>r. filed x (pr_attachment_index p) r A
    \<and> o' = outcome_from_record (pr_attachment p) r \<and> S (am_import_status r))"

definition resolved ::
    "delivery_context \<Rightarrow> prepared_attachment \<Rightarrow> (attachment_import_status \<Rightarrow> bool) \<Rightarrow> upload_resolution
      \<Rightarrow> attachment_repo \<Rightarrow> bool" where
  "resolved x p S u A \<longleftrightarrow> (case ur_outcome u of
      Some o' \<Rightarrow> reported x p S o' A \<and> ur_staged_file u = None \<and> \<not> ur_direct_file u
    | None \<Rightarrow> ur_staged_file u \<noteq> None \<or> ur_direct_file u)"

lemma reported_mono: "reported x p S o' A \<Longrightarrow> (\<And>s. S s \<Longrightarrow> S' s) \<Longrightarrow> reported x p S' o' A"
  by (auto simp: reported_def)

lemma resolved_simps [simp]:
  "resolved x p S (no_resolution\<lparr>ur_staged_file := Some f\<rparr>) A"
  "resolved x p S (no_resolution\<lparr>ur_direct_file := True\<rparr>) A"
  "resolved x p S (no_resolution\<lparr>ur_outcome := Some o'\<rparr>) A \<longleftrightarrow> reported x p S o' A"
  by (simp_all add: resolved_def no_resolution_def)

lemma tracks_fail_stage [track]: "(\<And>a A. P A \<Longrightarrow> R a A) \<Longrightarrow> tracks P (fail_stage sv x i c p) R"
  unfolding fail_stage_def by (rule tracks_bind [where R = "\<lambda>_. P"]) (auto intro!: track)

lemma tracks_upload_stage [track]: "(\<And>a A. P A \<Longrightarrow> R a A) \<Longrightarrow> tracks P (upload_stage sv x i f) R"
  unfolding upload_stage_def by (rule tracks_bind [where R = "\<lambda>_. P"]) (auto intro!: track)

lemma tracks_attach_stage [track]: "(\<And>a A. P A \<Longrightarrow> R a A) \<Longrightarrow> tracks P (attach_stage sv x i f) R"
  unfolding attach_stage_def by (rule tracks_bind [where R = "\<lambda>_. P"]) (auto intro!: track)

lemma tracks_claim_stage [track]:
  assumes "\<And>a A. P A \<Longrightarrow> R a A"
  shows "tracks P (claim_stage sv x i a retry) R"
  unfolding claim_stage_def
  by (rule tracks_bind [where R = "\<lambda>_. P"], (auto intro!: track)[1])+ (auto intro!: track assms)

lemma reportedI: "filed x (pr_attachment_index p) r A \<Longrightarrow> S (am_import_status r)
    \<Longrightarrow> reported x p S (outcome_from_record (pr_attachment p) r) A"
  by (auto simp: reported_def)

text \<open>A failure is stored unless it already is, and reported.\<close>

lemma tracks_ensure_failed:
  "tracks (filed x i r) (if am_import_status r \<noteq> AttFailed then fail_attachment x i a c q else ret r)
    (\<lambda>r A. filed x i r A \<and> am_import_status r = AttFailed)"
  by (cases "am_import_status r = AttFailed") (auto intro!: track tracks_fail)

lemma tracks_upload_failed:
  "tracks P (upload_failed sv x p retry e) (resolved x p (\<lambda>s. s = AttFailed))"
proof -
  let ?i = "pr_attachment_index p" and ?a = "pr_attachment p"
  have report: "tracks (\<lambda>A. filed x ?i r A \<and> am_import_status r = AttFailed)
      (bind (audit_attachment sv x t v q) (\<lambda>_. ret (no_resolution\<lparr>ur_outcome := Some (outcome_from_record ?a r)\<rparr>)))
      (resolved x p (\<lambda>s. s = AttFailed))" for r t v q
    by (rule tracks_bind [where R = "\<lambda>_ A. filed x ?i r A \<and> am_import_status r = AttFailed"])
      (auto intro!: track reportedI)
  have direct: "tracks (\<lambda>_. True) (bind (audit_attachment sv x t v q) (\<lambda>_. ret (no_resolution\<lparr>ur_direct_file := True\<rparr>)))
      (resolved x p (\<lambda>s. s = AttFailed))" for t v q
    by (rule tracks_bind [where R = "\<lambda>_ _. True"]) (auto intro!: track)
  show ?thesis
    unfolding upload_failed_def Let_def
    by (rule tracks_bind [where R = "\<lambda>_ _. True"])
      (auto intro!: track direct report tracks_bind [OF tracks_claim_terminal] tracks_bind [OF tracks_ensure_failed])
qed

lemma tracks_upload:
  "tracks P (upload_attachment sv x p retry) (resolved x p (\<lambda>s. s = AttFailed))"
proof -
  have uploaded: "tracks (\<lambda>_. True) (bind (upload_stage sv x i f) (\<lambda>_. bind (audit_attachment sv x t v q)
      (\<lambda>_. ret (no_resolution\<lparr>ur_staged_file := Some f\<rparr>)))) (resolved x p (\<lambda>s. s = AttFailed))" for i f t v q
    by (rule tracks_bind [where R = "\<lambda>_ _. True"], (auto intro!: track)[1])
      (rule tracks_bind [where R = "\<lambda>_ _. True"], auto intro!: track)
  have cancelled: "tracks (\<lambda>_. True) (bind (fail_stage sv x i c q) (\<lambda>_. throw CancelledError))
      (resolved x p (\<lambda>s. s = AttFailed))" for i c q
    by (rule tracks_bind [where R = "\<lambda>_ _. True"]) (auto intro!: track)
  show ?thesis
    unfolding upload_attachment_def Let_def
    by (rule tracks_bind [where R = "\<lambda>_ _. True"])
      (auto intro!: tracks_attempt [where R = "\<lambda>_ _. True"] track uploaded cancelled tracks_upload_failed
        split: sum.split)
qed

lemma tracks_ensure_uploaded:
  assumes "\<And>s. \<not> retry \<Longrightarrow> S s" and "S AttFailed"
  shows "tracks P (ensure_uploaded_attachment sv x p retry) (resolved x p S)"
proof -
  have upload: "tracks P (upload_attachment sv x p b) (resolved x p S)" for P b
    by (rule tracks_post [OF tracks_upload])
      (use assms(2) in \<open>auto simp: resolved_def reported_def split: option.splits\<close>)
  have known: "tracks P (bind (get_attachment_record x (pr_attachment_index p)) (\<lambda>record. case record of
        Some m \<Rightarrow> ret (no_resolution\<lparr>ur_outcome := Some (outcome_from_record (pr_attachment p) m)\<rparr>)
      | None \<Rightarrow> upload_attachment sv x p b)) (resolved x p S)"
    if "\<not> retry" for P b
    by (rule tracks_bind [OF tracks_get_record])
      (auto intro!: track reportedI upload assms(1) that split: option.split)
  show ?thesis
    unfolding ensure_uploaded_attachment_def
    by (rule tracks_bind [where R = "\<lambda>_ _. True"])
      (auto intro!: track upload known split: claim_state.split option.split)
qed

section \<open>One attachment\<close>

lemma tracks_send_attachment:
  "tracks P (send_attachment sv x p u) (reported x p (\<lambda>s. s = AttImported \<or> s = AttFailed \<or> s = AttAmbiguous))"
proof -
  let ?i = "pr_attachment_index p" and ?a = "pr_attachment p"
  let ?R = "reported x p (\<lambda>s. s = AttImported \<or> s = AttFailed \<or> s = AttAmbiguous)"
  have report: "tracks (\<lambda>A. filed x ?i r A \<and> am_import_status r = st)
      (bind (audit_attachment sv x t v q) (\<lambda>_. ret (outcome_from_record ?a r))) ?R"
    if "st = AttImported \<or> st = AttFailed \<or> st = AttAmbiguous" for r st t v q
    by (rule tracks_bind [where R = "\<lambda>_ A. filed x ?i r A \<and> am_import_status r = st"])
      (use that in \<open>auto intro!: track reportedI\<close>)
  have attached: "tracks P (bind (attach_stage sv x i c) (\<lambda>_. ret ())) (\<lambda>_. P)" for P i c
    by (rule tracks_bind [where R = "\<lambda>_. P"]) (auto intro!: track)
  have direct: "tracks P (ret ()) (\<lambda>_. P)" for P by (rule tracks_ret)
  show ?thesis
    unfolding send_attachment_def Let_def
    by (rule tracks_bind [where R = "\<lambda>_ _. True"])
      (auto intro!: tracks_attempt [where R = "\<lambda>_ _. True"] track report
        tracks_bind [OF tracks_ambiguous] tracks_bind [OF tracks_fail] tracks_bind [OF tracks_import]
        tracks_bind [OF attached] tracks_bind [OF direct] split: sum.split)
qed

lemma tracks_deliver_claimed:
  assumes "\<And>s. \<not> retry \<Longrightarrow> S s" and "\<And>s. s \<noteq> AttProcessing \<Longrightarrow> S s"
  shows "tracks P (deliver_claimed sv x p retry) (reported x p S)"
proof -
  have send: "tracks P (send_attachment sv x p u) (reported x p S)" for P u
    by (rule tracks_post [OF tracks_send_attachment]) (erule reported_mono, auto intro: assms(2))
  show ?thesis
    unfolding deliver_claimed_def Let_def
    by (rule tracks_bind [OF tracks_claim])
      (auto intro!: track reportedI assms(2) send tracks_bind [OF tracks_ensure_uploaded [where S = S, OF assms(1)]]
        simp: resolved_def split: claim_state.split option.split)
qed

lemma tracks_report_cancelled: "tracks P (report_cancelled sv x p) R"
proof -
  let ?i = "pr_attachment_index p"
  have stage: "tracks P (bind (case stage of Some r \<Rightarrow> if st_status r = StageProcessing
        then bind (fail_stage sv x ?i c q) (\<lambda>_. ret ()) else ret () | None \<Rightarrow> ret ()) (\<lambda>_. throw CancelledError)) R"
    for stage c q P
    by (rule tracks_bind [where R = "\<lambda>_ _. True"])
      (auto intro!: track tracks_bind [where R = "\<lambda>_ _. True" and m = "fail_stage sv x ?i c q"] split: option.split)
  show ?thesis
    unfolding report_cancelled_def Let_def
    by (rule tracks_bind [where R = "\<lambda>_ _. True"])
      (auto intro!: tracks_post [OF tracks_fail] tracks_bind [where R = "\<lambda>_ _. True" and m = "get_state f" for f]
        track stage)
qed

lemma tracks_deliver_attachment:
  assumes "\<And>s. \<not> retry \<Longrightarrow> S s" and "\<And>s. s \<noteq> AttProcessing \<Longrightarrow> S s"
  shows "tracks P (deliver_attachment sv x retry p) (reported x p S)"
proof -
  note claimed = tracks_deliver_claimed [where S = S, OF assms]
  have status: "S (am_import_status r)" if "settled retry (pr_attachment p) r" for r
    using that assms(2) by (auto simp: settled_def)
  have known: "tracks (\<lambda>A. filed x (pr_attachment_index p) r A)
      (if settled retry (pr_attachment p) r then ret (outcome_from_record (pr_attachment p) r)
       else if am_import_status r = AttAmbiguous then throw e else deliver_claimed sv x p retry)
      (reported x p S)" for r e
    by (auto intro!: track reportedI claimed status)
  have body: "tracks (\<lambda>A. \<forall>m. existing = Some m \<longrightarrow> filed x (pr_attachment_index p) m A)
      (case existing of
         Some r \<Rightarrow> if settled retry (pr_attachment p) r then ret (outcome_from_record (pr_attachment p) r)
           else if am_import_status r = AttAmbiguous then throw e else deliver_claimed sv x p retry
       | None \<Rightarrow> deliver_claimed sv x p retry) (reported x p S)" for existing e
    by (cases existing) (simp_all add: known claimed)
  show ?thesis
    unfolding deliver_attachment_def
    by (rule tracks_bind [where R = "\<lambda>r A. \<forall>m. r = Some m \<longrightarrow> filed x (pr_attachment_index p) m A"],
        rule tracks_post [OF tracks_get_record])
      (auto intro!: tracks_ensure tracks_catch body tracks_report_cancelled split: if_splits)
qed

lemma tracks_mark_inline:
  "tracks P (mark_inline_attachment_imported sv x p sync_id staged mode) (reported x p (\<lambda>s. s \<noteq> AttProcessing))"
proof -
  let ?i = "pr_attachment_index p" and ?a = "pr_attachment p"
  let ?R = "reported x p (\<lambda>s. s \<noteq> AttProcessing)"
  have report: "tracks (\<lambda>A. filed x ?i r A \<and> am_import_status r = AttImported)
      (bind (audit_attachment sv x t v q) (\<lambda>_. ret (outcome_from_record ?a r))) ?R" for r t v q
    by (rule tracks_bind [where R = "\<lambda>_ A. filed x ?i r A \<and> am_import_status r = AttImported"])
      (auto intro!: track reportedI)
  have attached: "tracks P (bind (attach_stage sv x i c) (\<lambda>_. ret ())) (\<lambda>_. P)" for P i c
    by (rule tracks_bind [where R = "\<lambda>_. P"]) (auto intro!: track)
  have direct: "tracks P (ret ()) (\<lambda>_. P)" for P by (rule tracks_ret)
  have cancelled: "tracks P (bind (fail_attachment x ?i ?a c q) (\<lambda>_. throw CancelledError)) ?R" for P c q
    by (rule tracks_bind [OF tracks_fail]) (rule track)
  show ?thesis
    unfolding mark_inline_attachment_imported_def Let_def
    by (rule tracks_bind [OF tracks_claim])
      (auto intro!: track reportedI tracks_catch tracks_bind [OF tracks_import] tracks_bind [OF attached]
        tracks_bind [OF direct] report cancelled split: if_splits elim: claim_answer.elims)
qed

end
