(* ===== verification/Delivery_Outcomes.thy ===== *)
theory Delivery_Outcomes
  imports Delivery_Facts
begin

text \<open>
  What a whole delivery reports: exactly one outcome for every attachment, in order, each the one of
  the record that is stored when the delivery returns; what failures and cancellations leave behind;
  and that a delivery repeated after a successful one has nothing left to do.
\<close>

section \<open>Only one record is touched\<close>

named_theorems leave \<open>rules for steps that touch at most the record of one attachment\<close>

definition leaves :: "delivery_context \<Rightarrow> int \<Rightarrow> ('w, 'a) delivery \<Rightarrow> bool" where
  "leaves x i m \<longleftrightarrow> (\<forall>s k. k \<noteq> attachment_key_of x i \<longrightarrow>
     attachment_get (dl_attachments (snd (m s))) k = attachment_get (dl_attachments s) k)"

lemma leavesD: "leaves x i m \<Longrightarrow> k \<noteq> attachment_key_of x i
    \<Longrightarrow> attachment_get (dl_attachments (snd (m s))) k = attachment_get (dl_attachments s) k"
  unfolding leaves_def by blast

lemma leaves_same: "(\<And>s. dl_attachments (snd (m s)) = dl_attachments s) \<Longrightarrow> leaves x i m"
  by (simp add: leaves_def)

lemma leaves_ret [leave]: "leaves x i (ret a)"
  by (simp add: leaves_def ret_def)

lemma leaves_throw [leave]: "leaves x i (throw e)"
  by (simp add: leaves_def throw_def)

lemma leaves_get [leave]: "leaves x i (get_state f)"
  by (simp add: leaves_def get_state_def)

lemma leaves_modify: "(\<And>s. dl_attachments (f s) = dl_attachments s) \<Longrightarrow> leaves x i (modify f)"
  by (simp add: leaves_def modify_def)

lemma leaves_bind [leave]:
  assumes "leaves x i m" and "\<And>a. leaves x i (f a)"
  shows "leaves x i (bind m f)"
  unfolding leaves_def
proof (intro allI impI)
  fix s and k :: attachment_key
  assume k: "k \<noteq> attachment_key_of x i"
  obtain r s1 where m: "m s = (r, s1)" by fastforce
  have "attachment_get (dl_attachments s1) k = attachment_get (dl_attachments s) k"
    using leavesD [OF assms(1) k, of s] m by simp
  moreover have "attachment_get (dl_attachments (snd (f a s1))) k = attachment_get (dl_attachments s1) k" for a
    by (rule leavesD [OF assms(2) k])
  ultimately show "attachment_get (dl_attachments (snd (bind m f s))) k = attachment_get (dl_attachments s) k"
    by (cases r) (simp_all add: bind_def m)
qed

lemma leaves_attempt [leave]: "leaves x i m \<Longrightarrow> leaves x i (attempt takes m)"
  by (auto simp: leaves_def attempt_def split: prod.splits sum.splits) (metis snd_conv)+

lemma leaves_catch [leave]:
  assumes "leaves x i m" and "\<And>e h. handler e = Some h \<Longrightarrow> leaves x i h"
  shows "leaves x i (catch_error m handler)"
  unfolding leaves_def
proof (intro allI impI)
  fix s and k :: attachment_key
  assume k: "k \<noteq> attachment_key_of x i"
  obtain r s1 where m: "m s = (r, s1)" by fastforce
  have "attachment_get (dl_attachments s1) k = attachment_get (dl_attachments s) k"
    using leavesD [OF assms(1) k, of s] m by simp
  moreover have "attachment_get (dl_attachments (snd (h s1))) k = attachment_get (dl_attachments s1) k"
    if "handler e = Some h" for e h by (rule leavesD [OF assms(2) [OF that] k])
  ultimately show "attachment_get (dl_attachments (snd (catch_error m handler s))) k
      = attachment_get (dl_attachments s) k"
    by (auto simp: catch_error_def m split: sum.split option.split)
qed

lemma leaves_ensure:
  "leaves x i m \<Longrightarrow> (\<And>s. dl_attachments (c s) = dl_attachments s) \<Longrightarrow> leaves x i (ensure c m)"
  by (auto simp: leaves_def ensure_def split: prod.splits) (metis snd_conv)

lemma leaves_world [leave]: "leaves x i (in_world m)"
  by (rule leaves_same) (simp add: in_world_def on_part_def split: prod.split)

lemma leaves_stages [leave]: "leaves x i (in_stages m)"
  by (rule leaves_same) (simp add: in_stages_def on_part_def split: prod.split)

lemma leaves_now [leave]: "leaves x i (now_at sv)"
  unfolding now_at_def by (rule leaves_world)

lemma leaves_steps [leave]:
  "leaves x i (retried sv op')" "leaves x i (get_attachment_record y j)"
  "leaves x i (audit_attachment sv y t v p)" "leaves x i (claim_stage sv y j a b)"
  "leaves x i (fail_stage sv y j c q)" "leaves x i (upload_stage sv y j f)" "leaves x i (attach_stage sv y j d)"
  unfolding retried_def get_attachment_record_def audit_attachment_def claim_stage_def
    fail_stage_def upload_stage_def attach_stage_def
  by (auto intro!: leave leaves_modify)

lemma leaves_claim [leave]: "leaves x i (claim_attachment x i a retry)"
  unfolding leaves_def
proof (intro allI impI)
  fix s :: "'w delivery_state" and k :: attachment_key
  assume k: "k \<noteq> attachment_key_of x i"
  show "attachment_get (dl_attachments (snd (claim_attachment x i a retry s))) k = attachment_get (dl_attachments s) k"
    using k
    by (auto simp: claim_attachment_def in_attachments_def on_part_def total_op_def attachment_claim_def Let_def
        attachment_get_def split: prod.splits option.splits if_splits)
qed

lemma leaves_update [leave]:
  "leaves x i (in_attachments (fallible_op (attachment_update (attachment_key_of x i) f)))"
  by (auto simp: leaves_def in_attachments_def on_part_def fallible_op_def attachment_update_def attachment_get_def
      split: prod.splits option.splits sum.splits)

lemma leaves_reports [leave]:
  "leaves x i (fail_attachment x i a c p)" "leaves x i (mark_attachment_ambiguous x i a c p)"
  "leaves x i (skip_attachment x i a r)" "leaves x i (import_attachment sv x i a d)"
  unfolding fail_attachment_def mark_attachment_ambiguous_def skip_attachment_def import_attachment_def
    attachment_mark_failed_def attachment_mark_ambiguous_def attachment_mark_skipped_def attachment_mark_imported_def
  by (auto intro!: leave)

lemma leaves_composed [leave]:
  "leaves x i (claim_terminal_attachment x i a retry)" "leaves x i (mark_attachment_skipped sv x i a r)"
  unfolding mark_attachment_skipped_def claim_terminal_attachment_def
  by (auto intro!: leave)

lemma leaves_files [leave]:
  "leaves x i (to_file_payload sv d)" "leaves x i (obtain_attachment sv backend prefetched a)"
  unfolding to_file_payload_def obtain_attachment_def Let_def
  by (auto intro!: leave leaves_modify split: option.split)

lemma leaves_prepare_failed [leave]:
  "leaves x i (prepare_skipped sv x i a d reason acc)" "leaves x i (prepare_failed sv x i a d reuse phase t e acc)"
  "leaves x i (skip_by_policy sv x i a acc)"
  unfolding prepare_skipped_def prepare_failed_def skip_by_policy_def
  by (auto intro!: leave)

lemma leaves_prepare_downloaded [leave]: "leaves x i (prepare_downloaded sv x reuse i a d acc)"
  unfolding prepare_downloaded_def
  by (auto intro!: leave leaves_modify split: option.split sum.split)

lemma leaves_prepare_one [leave]: "leaves x i (prepare_one sv x backend reuse pre i a acc)"
  unfolding prepare_one_def Let_def
  by (auto intro!: leave split: option.split sum.split)

lemma leaves_upload_failed [leave]: "leaves x (pr_attachment_index p) (upload_failed sv x p retry e)"
  unfolding upload_failed_def Let_def by (auto intro!: leave)

lemma leaves_upload [leave]: "leaves x (pr_attachment_index p) (upload_attachment sv x p retry)"
  unfolding upload_attachment_def Let_def by (auto intro!: leave split: sum.split)

lemma leaves_ensure_uploaded [leave]: "leaves x (pr_attachment_index p) (ensure_uploaded_attachment sv x p retry)"
  unfolding ensure_uploaded_attachment_def by (auto intro!: leave split: claim_state.split option.split)

lemma leaves_send [leave]: "leaves x (pr_attachment_index p) (send_attachment sv x p u)"
  unfolding send_attachment_def Let_def by (auto intro!: leave split: sum.split)

lemma leaves_deliver_claimed [leave]: "leaves x (pr_attachment_index p) (deliver_claimed sv x p retry)"
  unfolding deliver_claimed_def Let_def by (auto intro!: leave split: claim_state.split option.split)

lemma leaves_report_cancelled [leave]: "leaves x (pr_attachment_index p) (report_cancelled sv x p)"
  unfolding report_cancelled_def Let_def by (auto intro!: leave split: option.split)

lemma leaves_deliver_attachment [leave]: "leaves x (pr_attachment_index p) (deliver_attachment sv x retry p)"
  unfolding deliver_attachment_def
  by (auto intro!: leave leaves_ensure split: option.split if_splits)

lemma leaves_mark_inline [leave]:
  "leaves x (pr_attachment_index p) (mark_inline_attachment_imported sv x p c staged mode)"
  unfolding mark_inline_attachment_imported_def Let_def
  by (auto intro!: leave split: if_splits)

text \<open>What holds of the other records still holds after such a step.\<close>

lemma tracks_frame:
  assumes "tracks P m R" and "leaves x i m"
    and "\<And>A A'. F A \<Longrightarrow> (\<And>k. k \<noteq> attachment_key_of x i \<Longrightarrow> attachment_get A' k = attachment_get A k) \<Longrightarrow> F A'"
  shows "tracks (\<lambda>A. P A \<and> F A) m (\<lambda>r A. R r A \<and> F A)"
proof (rule tracksI)
  fix s a s'
  assume s: "attachments_ok (dl_attachments s)" "P (dl_attachments s) \<and> F (dl_attachments s)" "m s = (Inr a, s')"
  have same: "attachment_get (dl_attachments s') k = attachment_get (dl_attachments s) k"
    if "k \<noteq> attachment_key_of x i" for k
    using leavesD [OF assms(2) that, of s] s(3) by simp
  from s(2) have "F (dl_attachments s)" by blast
  from assms(3) [OF this same] have "F (dl_attachments s')" by blast
  with tracks_result [OF assms(1) s(1) _ s(3)] s(2)
  show "attachments_ok (dl_attachments s') \<and> R a (dl_attachments s') \<and> F (dl_attachments s')" by blast
next
  fix s e s'
  assume s: "attachments_ok (dl_attachments s)" "P (dl_attachments s) \<and> F (dl_attachments s)" "m s = (Inl e, s')"
  then show "attachments_ok (dl_attachments s')" using tracks_error [OF assms(1) s(1) _ s(3)] by blast
qed

section \<open>Every attachment has its outcome\<close>

definition stored :: "delivery_context \<Rightarrow> (int, attachment_outcome) dict \<Rightarrow> attachment_repo \<Rightarrow> bool" where
  "stored x outcomes A \<longleftrightarrow> (\<forall>k o'. dict_get outcomes k = Some o' \<longrightarrow>
     (\<exists>a r. filed x k r A \<and> o' = outcome_from_record a r))"

text \<open>The first \<open>n\<close> attachments are either prepared or have the outcome of their stored record, never both.\<close>

definition covers ::
    "delivery_context \<Rightarrow> nat \<Rightarrow> prepared_attachment list \<Rightarrow> (int, attachment_outcome) dict \<Rightarrow> attachment_repo \<Rightarrow> bool" where
  "covers x n ps outcomes A \<longleftrightarrow> dict_ok outcomes \<and> stored x outcomes A
    \<and> distinct (map pr_attachment_index ps)
    \<and> dom (dict_get outcomes) \<inter> pr_attachment_index ` set ps = {}
    \<and> dom (dict_get outcomes) \<union> pr_attachment_index ` set ps = {0..<int n}"

lemma less_Suc_int: "{0..<int (Suc n)} = insert (int n) {0..<int n}"
  by auto

lemma attachment_key_of_inject [simp]: "attachment_key_of x i = attachment_key_of x j \<longleftrightarrow> i = j"
  by (simp add: attachment_key_of_def)

lemma stored_other:
  assumes "stored x outcomes A" and "dict_get outcomes i = None"
    and "\<And>k. k \<noteq> attachment_key_of x i \<Longrightarrow> attachment_get A' k = attachment_get A k"
  shows "stored x outcomes A'"
  unfolding stored_def
proof (intro allI impI)
  fix k o'
  assume k: "dict_get outcomes k = Some o'"
  with assms(2) have "attachment_key_of x k \<noteq> attachment_key_of x i" by auto
  with assms(1) k show "\<exists>a r. filed x k r A' \<and> o' = outcome_from_record a r"
    by (auto simp: stored_def filed_def assms(3))
qed

lemma stored_set:
  assumes "stored x outcomes A" and "filed x i r A"
  shows "stored x (dict_set i (outcome_from_record a r) outcomes) A"
  using assms by (auto simp: stored_def)

lemma covers_other:
  assumes "covers x n ps outcomes A" and "dict_get outcomes i = None"
    and "\<And>k. k \<noteq> attachment_key_of x i \<Longrightarrow> attachment_get A' k = attachment_get A k"
  shows "covers x n ps outcomes A'"
  using assms(1) stored_other [OF _ assms(2,3)] by (auto simp: covers_def)

text \<open>A step at the attachment \<open>i\<close>, which has no outcome yet, keeps what is known.\<close>

lemma tracks_covers:
  assumes "tracks (\<lambda>_. True) m R" and "leaves x i m" and "dict_get outcomes i = None"
  shows "tracks (covers x n ps outcomes) m (\<lambda>r A. R r A \<and> covers x n ps outcomes A)"
  using tracks_frame [OF assms(1,2), where F = "covers x n ps outcomes"] covers_other [OF _ assms(3)]
  by simp

lemma tracks_absurd: "(\<And>A. \<not> P A) \<Longrightarrow> tracks P m R"
  by (simp add: tracks_def meets_def)

text \<open>How preparing one attachment may end.\<close>

definition settles :: "delivery_context \<Rightarrow> int \<Rightarrow> preparation \<Rightarrow> preparation \<Rightarrow> attachment_repo \<Rightarrow> bool" where
  "settles x i acc acc' A \<longleftrightarrow>
    (\<exists>a r. filed x i r A \<and> pa_prepared acc' = pa_prepared acc
      \<and> pa_outcomes acc' = dict_set i (outcome_from_record a r) (pa_outcomes acc))
    \<or> (\<exists>p. pr_attachment_index p = i \<and> pa_prepared acc' = pa_prepared acc @ [p]
      \<and> pa_outcomes acc' = pa_outcomes acc)"

lemma settles_outcome: "filed x i r A \<Longrightarrow> settles x i acc (record_outcome i a r acc) A"
  by (auto simp: settles_def record_outcome_def)

lemma settles_failure: "filed x i r A \<Longrightarrow> settles x i acc (record_outcome i a r (add_failure reason acc)) A"
  by (auto simp: settles_def record_outcome_def add_failure_def)

lemma covers_settles:
  assumes "covers x n (pa_prepared acc) (pa_outcomes acc) A" and "settles x (int n) acc acc' A"
  shows "covers x (Suc n) (pa_prepared acc') (pa_outcomes acc') A"
proof -
  have "int n \<notin> {0..<int n}" by simp
  then have free: "int n \<notin> dom (dict_get (pa_outcomes acc))" "int n \<notin> pr_attachment_index ` set (pa_prepared acc)"
    using assms(1) unfolding covers_def by blast+
  from assms(2) show ?thesis
    unfolding settles_def
  proof (elim disjE exE conjE)
    fix a r
    assume r: "filed x (int n) r A" "pa_prepared acc' = pa_prepared acc"
      "pa_outcomes acc' = dict_set (int n) (outcome_from_record a r) (pa_outcomes acc)"
    have "stored x (pa_outcomes acc') A"
      using assms(1) r by (auto simp: covers_def intro: stored_set)
    then show ?thesis
      using assms(1) free r unfolding covers_def less_Suc_int by auto
  next
    fix p
    assume "pr_attachment_index p = int n" "pa_prepared acc' = pa_prepared acc @ [p]"
      "pa_outcomes acc' = pa_outcomes acc"
    then show ?thesis
      using assms(1) free unfolding covers_def less_Suc_int by auto
  qed
qed

lemma tracks_settle:
  assumes "tracks (\<lambda>_. True) m (settles x (int n) acc)" and "leaves x (int n) m"
  shows "tracks (covers x n (pa_prepared acc) (pa_outcomes acc)) m
    (\<lambda>acc'. covers x (Suc n) (pa_prepared acc') (pa_outcomes acc'))"
proof (cases "dict_get (pa_outcomes acc) (int n) = None")
  case True
  show ?thesis
    by (rule tracks_post [OF tracks_covers [OF assms True]]) (blast intro: covers_settles)
next
  case False
  then have "\<not> covers x n (pa_prepared acc) (pa_outcomes acc) A" for A
    by (auto simp: covers_def)
  then show ?thesis by (rule tracks_absurd)
qed

lemma tracks_mark_skipped: "tracks P (mark_attachment_skipped sv x i a reason) (filed x i)"
proof -
  have skip: "tracks (filed x i r) (if am_import_status r \<noteq> AttSkipped then skip_attachment x i a reason else ret r)
      (filed x i)" for r
    by (cases "am_import_status r = AttSkipped") (auto intro!: track tracks_post [OF tracks_skip])
  have audit: "tracks (filed x i r) (bind (audit_attachment sv x t v q) (\<lambda>_. ret r)) (filed x i)" for r t v q
    by (rule tracks_bind [where R = "\<lambda>_. filed x i r"]) (auto intro!: track)
  show ?thesis
    unfolding mark_attachment_skipped_def
    by (intro tracks_bind [OF tracks_claim_terminal] tracks_bind [OF skip] audit)
qed

lemma tracks_prepare_skipped: "tracks P (prepare_skipped sv x i a d reason acc) (settles x i acc)"
  unfolding prepare_skipped_def
  by (rule tracks_bind [OF tracks_mark_skipped]) (auto intro!: track settles_failure)

lemma tracks_prepare_failed: "tracks P (prepare_failed sv x i a d reuse phase t e acc) (settles x i acc)"
proof -
  have report: "tracks (\<lambda>A. filed x i r A \<and> am_import_status r = AttFailed)
      (bind (audit_attachment sv x t v q) (\<lambda>_. ret (record_outcome i a r (add_failure reason acc))))
      (settles x i acc)" for r v q reason
    by (rule tracks_bind [where R = "\<lambda>_. filed x i r"]) (auto intro!: track settles_failure)
  show ?thesis
    unfolding prepare_failed_def
    by (intro tracks_bind [OF tracks_claim_terminal] tracks_bind [OF tracks_ensure_failed] report)
qed

lemma tracks_obtain: "tracks P (obtain_attachment sv backend prefetched a) (\<lambda>_ _. True)"
  unfolding obtain_attachment_def
  by (cases prefetched)
    (auto intro!: track tracks_bind [where R = "\<lambda>_ _. True"] tracks_attempt [where R = "\<lambda>_ _. True"])

lemma tracks_to_file_payload: "tracks P (to_file_payload sv d) (\<lambda>_ _. True)"
  unfolding to_file_payload_def Let_def
  by (auto intro!: track tracks_modify tracks_bind [where R = "\<lambda>_ _. True"] split: option.split)

lemma tracks_prepare_downloaded: "tracks P (prepare_downloaded sv x reuse i a d acc) (settles x i acc)"
  unfolding prepare_downloaded_def
  by (rule tracks_bind [where R = "\<lambda>_ _. True"])
    (auto intro!: track tracks_modify tracks_bind [where R = "\<lambda>_ _. True"]
      tracks_attempt [where R = "\<lambda>_ _. True"] tracks_to_file_payload
      tracks_prepare_skipped tracks_prepare_failed simp: settles_def split: option.split sum.split)

lemma tracks_prepare_one: "tracks P (prepare_one sv x backend reuse pre i a acc) (settles x i acc)"
proof -
  have obtained: "tracks P (bind (obtain_attachment sv backend q a) (\<lambda>result. case result of
          Inl e \<Rightarrow> prepare_failed sv x i a a b ph t e acc
        | Inr None \<Rightarrow> throw e' | Inr (Some d) \<Rightarrow> prepare_downloaded sv x b i a d acc))
      (settles x i acc)" for P q b ph t e'
    by (auto intro!: track tracks_bind [OF tracks_obtain] tracks_prepare_failed
        tracks_prepare_downloaded split: option.split sum.split)
  show ?thesis
    unfolding prepare_one_def Let_def
    by (rule tracks_bind [where R = "\<lambda>r A. \<forall>m. r = Some m \<longrightarrow> filed x i m A"],
        rule tracks_post [OF tracks_get_record])
      (auto intro!: track settles_outcome tracks_prepare_skipped obtained split: option.split)
qed

text \<open>Without media nothing is prepared.\<close>

definition decides :: "delivery_context \<Rightarrow> int \<Rightarrow> preparation \<Rightarrow> preparation \<Rightarrow> attachment_repo \<Rightarrow> bool" where
  "decides x i acc acc' A \<longleftrightarrow> settles x i acc acc' A \<and> pa_prepared acc' = pa_prepared acc"

lemma decides_outcome: "filed x i r A \<Longrightarrow> decides x i acc (record_outcome i a r acc) A"
  by (auto simp: decides_def settles_outcome) (simp add: record_outcome_def)

lemma tracks_skip_by_policy: "tracks P (skip_by_policy sv x i a acc) (decides x i acc)"
proof -
  have report: "tracks (\<lambda>A. filed x i r A \<and> am_import_status r = AttSkipped)
      (bind (audit_attachment sv x t v q) (\<lambda>_. ret (record_outcome i a r acc))) (decides x i acc)" for r t v q
    by (rule tracks_bind [where R = "\<lambda>_. filed x i r"]) (auto intro!: track decides_outcome)
  show ?thesis
    unfolding skip_by_policy_def
    by (rule tracks_bind [OF tracks_claim_terminal])
      (auto intro!: track decides_outcome report tracks_bind [OF tracks_skip])
qed

lemma tracks_prepare_loop:
  assumes "\<And>n a acc. tracks (J n acc) (step (int n) a acc) (J (Suc n))"
  shows "tracks (J n acc) (prepare_loop step (map (\<lambda>(i, a). (int i, a)) (List.enumerate n as)) acc)
    (J (n + length as))"
proof (induction as arbitrary: n acc)
  case Nil
  then show ?case by (auto intro!: track)
next
  case (Cons a as)
  have "tracks (J (Suc n) acc') (prepare_loop step (map (\<lambda>(i, a). (int i, a)) (List.enumerate (Suc n) as)) acc')
      (J (n + length (a # as)))" for acc'
    using Cons.IH [of "Suc n" acc'] by simp
  then show ?case by (simp add: tracks_bind [OF assms])
qed

lemma tracks_prepare_message:
  "tracks (\<lambda>_. True) (prepare_message sv x backend media reuse pre)
    (\<lambda>(_, ps, outcomes). covers x (length (cmsg_attachments (dx_canonical x))) ps outcomes)"
proof -
  let ?as = "cmsg_attachments (dx_canonical x)"
  let ?acc = "\<lparr>pa_prepared = [], pa_outcomes = [], pa_failures = cmsg_attachment_failures (dx_canonical x)\<rparr>"
  let ?J = "\<lambda>n acc. covers x n (pa_prepared acc) (pa_outcomes acc)"
  have init: "covers x 0 [] [] A" for A by (simp add: covers_def stored_def)
  have one: "tracks (?J n acc) (prepare_one sv x backend reuse (index_prefetched pre) (int n) a acc) (?J (Suc n))" for n a acc
    by (rule tracks_settle [OF tracks_prepare_one leaves_prepare_one])
  have all: "tracks (\<lambda>_. True) (prepare_loop (prepare_one sv x backend reuse (index_prefetched pre)) (indexed ?as) ?acc)
      (?J (length ?as))"
    by (rule tracks_pre [OF tracks_prepare_loop [where J = ?J and n = 0 and as = ?as and acc = ?acc,
          OF one, folded indexed_def, simplified add_0]]) (simp add: init)
  let ?K = "\<lambda>n acc A. pa_prepared acc = [] \<and> ?J n acc A"
  have step: "tracks (?K n acc) (skip_by_policy sv x (int n) a acc) (?K (Suc n))" for n a acc
  proof (cases "pa_prepared acc = [] \<and> dict_get (pa_outcomes acc) (int n) = None")
    case True
    have "tracks (?J n acc) (skip_by_policy sv x (int n) a acc)
        (\<lambda>acc' A. decides x (int n) acc acc' A \<and> covers x n (pa_prepared acc) (pa_outcomes acc) A)"
      by (rule tracks_covers [OF tracks_skip_by_policy leaves_prepare_failed(3)]) (use True in simp)
    moreover have "?K (Suc n) acc' A"
      if "decides x (int n) acc acc' A \<and> covers x n (pa_prepared acc) (pa_outcomes acc) A" for acc' A
      using that True covers_settles [of x n acc A acc'] by (simp add: decides_def)
    ultimately have "tracks (?J n acc) (skip_by_policy sv x (int n) a acc) (?K (Suc n))"
      by (rule tracks_post)
    then show ?thesis by (rule tracks_pre) (erule conjunct2)
  next
    case False
    then have "\<not> ?K n acc A" for A by (auto simp: covers_def)
    then show ?thesis by (rule tracks_absurd)
  qed
  have none: "tracks (\<lambda>_. True) (prepare_loop (skip_by_policy sv x) (indexed ?as) ?acc) (?K (length ?as))"
    by (rule tracks_pre [OF tracks_prepare_loop [where J = ?K and n = 0 and as = ?as and acc = ?acc,
          OF step, folded indexed_def, simplified add_0]]) (simp add: init)
  show ?thesis
    unfolding prepare_message_def Let_def
    by (auto intro!: track tracks_bind [OF all] tracks_bind [OF none] simp: init)
qed

section \<open>Delivering what was prepared\<close>

text \<open>The outcome reported for a prepared attachment, once it is entered.\<close>

lemma covers_report:
  assumes "covers x n (p # ps) outcomes A" and "reported x p S o' A"
  shows "covers x n ps (dict_set (pr_attachment_index p) o' outcomes) A"
proof -
  have "stored x (dict_set (pr_attachment_index p) o' outcomes) A"
    using assms by (auto simp: covers_def reported_def intro: stored_set)
  then show ?thesis using assms(1) unfolding covers_def by auto
qed

lemma tracks_reported:
  assumes "tracks (\<lambda>_. True) m (reported x p S)" and "leaves x (pr_attachment_index p) m"
  shows "tracks (covers x n (p # ps) outcomes) m
    (\<lambda>o'. covers x n ps (dict_set (pr_attachment_index p) o' outcomes))"
proof (cases "dict_get outcomes (pr_attachment_index p) = None")
  case True
  show ?thesis
    by (rule tracks_post [OF tracks_covers [OF assms True]]) (blast intro: covers_report)
next
  case False
  then have "\<not> covers x n (p # ps) outcomes A" for A by (auto simp: covers_def)
  then show ?thesis by (rule tracks_absurd)
qed

lemma tracks_followups:
  "tracks (covers x n ps outcomes) (deliver_followups (deliver_attachment sv x retry) ps outcomes) (covers x n [])"
proof (induction ps arbitrary: outcomes)
  case Nil
  then show ?case by (auto intro!: track)
next
  case (Cons p ps)
  have "tracks (covers x n (p # ps) outcomes) (deliver_attachment sv x retry p)
      (\<lambda>o'. covers x n ps (dict_set (pr_attachment_index p) o' outcomes))"
    by (rule tracks_reported [OF tracks_deliver_attachment [where S = "\<lambda>_. True"] leaves_deliver_attachment]) simp_all
  then show ?case by (simp add: tracks_bind Cons.IH)
qed

lemma tracks_send_primary [track]: "(\<And>a A. P A \<Longrightarrow> R a A) \<Longrightarrow> tracks P (send_primary sv x inline u body) R"
  unfolding send_primary_def by (rule tracks_retried)

lemma tracks_primary_alone:
  "tracks (covers x n ps outcomes) (deliver_primary sv x title preview mode existing text retry m None outcomes)
    (\<lambda>(_, _, o'). covers x n ps o')"
  unfolding deliver_primary_def Let_def
  by (cases existing)
    (auto intro!: track tracks_bind [where R = "\<lambda>_. covers x n ps outcomes"] simp: bind_assoc)

lemma tracks_primary_inline:
  "tracks (covers x n [p] outcomes) (deliver_primary sv x title preview mode existing text retry m (Some p) outcomes)
    (\<lambda>(_, _, o'). covers x n [] o')"
proof -
  let ?i = "pr_attachment_index p"
  let ?after = "\<lambda>u. case ur_outcome u of None \<Rightarrow> outcomes | Some o' \<Rightarrow> dict_set ?i o' outcomes"
  let ?open = "\<lambda>u. ur_staged_file u \<noteq> None \<or> ur_direct_file u"
  let ?C = "\<lambda>u. covers x n (if ?open u then [p] else []) (?after u)"
  have upload: "tracks (covers x n [p] outcomes) (ensure_uploaded_attachment sv x p retry) ?C"
  proof (cases "dict_get outcomes ?i = None")
    case True
    have "tracks (covers x n [p] outcomes) (ensure_uploaded_attachment sv x p retry)
        (\<lambda>u A. resolved x p (\<lambda>_. True) u A \<and> covers x n [p] outcomes A)"
      by (rule tracks_covers [OF _ leaves_ensure_uploaded True]) (rule tracks_ensure_uploaded, simp_all)
    moreover have "?C u A" if "resolved x p (\<lambda>_. True) u A \<and> covers x n [p] outcomes A" for u A
      using that by (auto simp: resolved_def intro: covers_report split: option.splits)
    ultimately show ?thesis by (rule tracks_post)
  next
    case False
    then have "\<not> covers x n [p] outcomes A" for A by (auto simp: covers_def)
    then show ?thesis by (rule tracks_absurd)
  qed
  have marked: "tracks (covers x n [p] d) (bind (mark_inline_attachment_imported sv x p c b t)
        (\<lambda>o'. ret (tx, sent, dict_set ?i o' d))) (\<lambda>(_, _, o'). covers x n [] o')" for c b t tx sent d
    by (rule tracks_bind [OF tracks_reported [OF tracks_mark_inline leaves_mark_inline]]) (auto intro!: track)
  have rest: "tracks (?C u)
      (bind (case existing of None \<Rightarrow> bind (send_primary sv x (Some p) u body) (\<lambda>sent. ret (body, sent))
          | Some sent \<Rightarrow> ret (or_empty (py_or text (Some body)), sent)) (\<lambda>(text, sent).
        if ?open u
        then bind (mark_inline_attachment_imported sv x p (sm_target_sync_id sent) b t)
          (\<lambda>o'. ret (text, sent, dict_set ?i o' (?after u)))
        else ret (text, sent, ?after u))) (\<lambda>(_, _, o'). covers x n [] o')" for u body b t
  proof (rule tracks_bind [where R = "\<lambda>_. ?C u"])
    show "tracks (?C u) (case existing of None \<Rightarrow> bind (send_primary sv x (Some p) u body) (\<lambda>sent. ret (body, sent))
        | Some sent \<Rightarrow> ret (or_empty (py_or text (Some body)), sent)) (\<lambda>_. ?C u)"
      by (cases existing) (auto intro!: track tracks_bind [where R = "\<lambda>_. ?C u"])
    show "tracks (?C u) (case q of (text, sent) \<Rightarrow> if ?open u
        then bind (mark_inline_attachment_imported sv x p (sm_target_sync_id sent) b t)
          (\<lambda>o'. ret (text, sent, dict_set ?i o' (?after u)))
        else ret (text, sent, ?after u)) (\<lambda>(_, _, o'). covers x n [] o')" for q
    proof (cases "?open u")
      case True
      show ?thesis by (simp only: True if_True marked split: prod.split) simp
    next
      case False
      show ?thesis by (simp only: False if_False split: prod.split) (auto intro!: track)
    qed
  qed
  show ?thesis
    unfolding deliver_primary_def Let_def
    by (simp only: option.case) (rule tracks_bind [OF upload rest])
qed

text \<open>The outcomes of a delivery are those of the stored records, one per attachment, in order.\<close>

definition reports_all :: "delivery_context \<Rightarrow> delivery_result \<Rightarrow> attachment_repo \<Rightarrow> bool" where
  "reports_all x r A \<longleftrightarrow> length (dr_outcomes r) = length (cmsg_attachments (dx_canonical x))
    \<and> (\<forall>i < length (dr_outcomes r). \<exists>a m. dr_outcomes r ! i = outcome_from_record a m
        \<and> attachment_get A (attachment_key_of x (int i)) = Some m \<and> am_attachment_index m = int i)"

lemma covers_reports:
  assumes "covers x n [] outcomes A" and "n = length (cmsg_attachments (dx_canonical x))"
    and "dr_outcomes r = map snd (sort_key fst outcomes)"
  shows "reports_all x r A"
proof -
  let ?ks = "map fst (sort_key fst outcomes)"
  have ok: "dict_ok outcomes" and keys: "dom (dict_get outcomes) = {0..<int n}"
    and st: "stored x outcomes A" using assms(1) by (auto simp: covers_def)
  have "distinct ?ks" "set ?ks = {0..<int n}"
    using ok keys by (simp_all add: distinct_map dom_map_of_conv_image_fst)
  moreover have "sorted ?ks" by (rule sorted_sort_key)
  moreover have "sorted (map int [0..<n])" "distinct (map int [0..<n])" "set (map int [0..<n]) = {0..<int n}"
    by (auto simp: sorted_map distinct_map image_int_atLeastLessThan)
  ultimately have ks: "?ks = map int [0..<n]" by (metis sorted_distinct_set_unique)
  have "length ?ks = length (map int [0..<n])" by (simp only: ks)
  then have len: "length (sort_key fst outcomes) = n" by simp
  have "\<exists>a m. dr_outcomes r ! i = outcome_from_record a m
      \<and> attachment_get A (attachment_key_of x (int i)) = Some m \<and> am_attachment_index m = int i" if "i < n" for i
  proof -
    obtain k o' where ko: "sort_key fst outcomes ! i = (k, o')" by fastforce
    have "k = int i"
      using arg_cong [OF ks, of "\<lambda>ks. ks ! i"] that len ko by simp
    moreover have "(k, o') \<in> set outcomes" using nth_mem [of i "sort_key fst outcomes"] that len ko by simp
    then have "dict_get outcomes k = Some o'" by (simp add: dict_mem_iff [OF ok])
    moreover obtain a m where "filed x k m A" "o' = outcome_from_record a m"
      using st [unfolded stored_def, rule_format, OF \<open>dict_get outcomes k = Some o'\<close>] by blast
    ultimately show ?thesis
      using that len ko by (auto simp: filed_def assms(3))
  qed
  moreover have "length (dr_outcomes r) = n" using len by (simp add: assms(3))
  ultimately show ?thesis using assms(2) by (simp add: reports_all_def)
qed

lemma tracks_deliver:
  "tracks (\<lambda>_. True) (deliver sv x backend title preview media mode existing text retry pre) (reports_all x)"
proof -
  let ?n = "length (cmsg_attachments (dx_canonical x))"
  have finish: "tracks P (bind m (\<lambda>(text, sent, d).
      bind (deliver_followups (deliver_attachment sv x retry) ps d) (\<lambda>outcomes.
      ret \<lparr>dr_canonical = c, dr_rendered_body = text, dr_sent_message = sent,
        dr_outcomes = map snd (sort_key fst outcomes), dr_primary_reused = b\<rparr>))) (reports_all x)"
    if "tracks P m (\<lambda>(_, _, d). covers x ?n ps d)" for P m ps c b
  proof (rule tracks_bind [OF that])
    show "tracks ((case q of (_, _, d) \<Rightarrow> covers x ?n ps d)) (case q of (text, sent, d) \<Rightarrow>
      bind (deliver_followups (deliver_attachment sv x retry) ps d) (\<lambda>outcomes.
      ret \<lparr>dr_canonical = c, dr_rendered_body = text, dr_sent_message = sent,
        dr_outcomes = map snd (sort_key fst outcomes), dr_primary_reused = b\<rparr>)) (reports_all x)" for q
      by (cases q) (auto intro!: tracks_bind [OF tracks_followups] track covers_reports)
  qed
  have each: "tracks (covers x ?n ps d) (let inline = (case ps of [p] \<Rightarrow> if existing = None then Some p else None | _ \<Rightarrow> None);
        followups = (if inline \<noteq> None then [] else ps)
    in bind (ensure (case inline of None \<Rightarrow> (\<lambda>s. s) | Some p \<Rightarrow> cleanup_file_payload sv (pr_file_payload p))
         (deliver_primary sv x title preview mode existing text retry m inline d))
       (\<lambda>(text, sent, outcomes).
       bind (deliver_followups (deliver_attachment sv x retry) followups outcomes) (\<lambda>outcomes.
       ret \<lparr>dr_canonical = m, dr_rendered_body = text, dr_sent_message = sent,
         dr_outcomes = map snd (sort_key fst outcomes), dr_primary_reused = (existing \<noteq> None)\<rparr>))) (reports_all x)" for m ps d
  proof (cases "\<exists>p. ps = [p] \<and> existing = None")
    case True
    then obtain p where p: "ps = [p]" "existing = None" by blast
    have inline: "(case ps of [p] \<Rightarrow> if existing = None then Some p else None | _ \<Rightarrow> None) = Some p"
      by (simp add: p)
    show ?thesis
      unfolding inline Let_def option.case
      by (simp only: p simp_thms if_True option.distinct not_False_eq_True)
        (intro finish tracks_ensure tracks_primary_inline, simp_all)
  next
    case False
    then have inline: "(case ps of [p] \<Rightarrow> if existing = None then Some p else None | _ \<Rightarrow> None) = None"
      by (auto split: list.split)
    show ?thesis
      unfolding inline Let_def option.case
      by (simp only: simp_thms if_False)
        (intro finish tracks_ensure tracks_primary_alone, simp_all)
  qed
  show ?thesis
    unfolding deliver_def
    by (rule tracks_bind [OF tracks_prepare_message]) (simp only: split_paired_all prod.case each)
qed

section \<open>Failures, cancellations and repetitions\<close>

lemma phase_payload_fields [simp]:
  "attachment_phase (Some (phase_payload m ph)) = ph"
  "attachment_reason (Some (phase_payload m ph)) = Some m"
  by (simp_all add: attachment_phase_def attachment_reason_def payload_text_def phase_payload_def)

lemma audit_attachment_ok:
  obtains s' where "audit_attachment sv x t v q s = (Inr (), s')"
    "dl_attachments s' = dl_attachments s" "dl_stages s' = dl_stages s"
  by (cases "sv_now sv (dl_world s)")
    (simp add: audit_attachment_def bind_def now_at_def in_world_def on_part_def total_op_def modify_def)

text \<open>A send that fails for good is reported: the record says how, and the outcome blocks the message.\<close>

lemma send_failure:
  assumes send: "retried sv (sv_send sv (attachment_request sv x p u)) s = (Inl e, s1)"
    and e: "is_ambiguous_error e \<or> is_item_error e"
    and r: "attachment_get (dl_attachments s1) (attachment_key_of x (pr_attachment_index p)) = Some r"
  obtains s' r' where "send_attachment sv x p u s = (Inr (outcome_from_record (pr_attachment p) r'), s')"
    "attachment_get (dl_attachments s') (attachment_key_of x (pr_attachment_index p)) = Some r'"
    "am_import_status r' = (if is_ambiguous_error e then AttAmbiguous else AttFailed)"
    "am_last_error_code r' = Some (error_name e)"
    "am_last_error_payload r' = Some (phase_payload (error_text e) ''send'')"
proof -
  let ?k = "attachment_key_of x (pr_attachment_index p)" and ?a = "pr_attachment p"
  let ?r' = "(attachment_describe (Some ?a) r)\<lparr>
      am_import_status := (if is_ambiguous_error e then AttAmbiguous else AttFailed), am_imported_at := None,
      am_last_error_code := Some (error_name e),
      am_last_error_payload := Some (phase_payload (error_text e) ''send'')\<rparr>"
  let ?s2 = "s1\<lparr>dl_attachments := dict_set ?k ?r' (dl_attachments s1)\<rparr>"
  obtain s3 where audit: "audit_attachment sv x
      (if is_ambiguous_error e then ''attachment_send_ambiguous'' else ''attachment_send_failed'') SevError
      (attachment_payload ?a (error_text e)) ?s2 = (Inr (), s3)" "dl_attachments s3 = dl_attachments ?s2"
    by (rule audit_attachment_ok)
  have "send_attachment sv x p u s = (Inr (outcome_from_record ?a ?r'), s3)"
    using send e r audit(1)
    by (simp add: send_attachment_def Let_def bind_def attempt_def ret_def fail_attachment_def
        mark_attachment_ambiguous_def in_attachments_def on_part_def fallible_op_def attachment_mark_failed_def
        attachment_mark_ambiguous_def attachment_update_def attachment_get_def split: if_splits)
  then show thesis by (rule that) (simp_all add: audit(2) attachment_get_def)
qed

text \<open>What a cancelled delivery leaves behind.\<close>

lemma report_cancelled_error:
  assumes "report_cancelled sv x p s = (Inl CancelledError, s')"
  obtains r where "attachment_get (dl_attachments s') (attachment_key_of x (pr_attachment_index p)) = Some r"
    "am_import_status r = AttFailed" "am_last_error_code r = Some cancelled_code"
    "\<And>st. stage_get (dl_stages s') (stage_key_of x (pr_attachment_index p)) = Some st \<Longrightarrow> st_status st \<noteq> StageProcessing"
proof -
  let ?i = "pr_attachment_index p"
  let ?m = "fail_attachment x ?i (pr_attachment p) cancelled_code (phase_payload ''attachment delivery cancelled'' ''delivery'')"
  obtain r s1 where fail: "?m s = (Inr r, s1)"
    and rest: "bind (case stage_get (dl_stages s1) (stage_key_of x ?i) of
         Some r \<Rightarrow> if st_status r = StageProcessing
           then bind (fail_stage sv x ?i cancelled_code (phase_payload ''attachment upload cancelled'' ''upload'')) (\<lambda>_. ret ())
           else ret ()
       | None \<Rightarrow> ret ()) (\<lambda>_. throw CancelledError) s1 =
       ((Inl CancelledError, s') :: (error, attachment_outcome) outcome \<times> _)"
  proof (cases "?m s")
    case (Pair res s1)
    then show ?thesis
    proof (cases res)
      case (Inl e)
      with Pair have "e = KeyError"
        by (auto simp: fail_attachment_def in_attachments_def on_part_def fallible_op_def attachment_mark_failed_def
            attachment_update_def split: option.splits prod.splits)
      with Pair Inl assms show ?thesis by (simp add: report_cancelled_def Let_def bind_def)
    next
      case (Inr r)
      with Pair assms show ?thesis
        by (intro that [of r s1]) (simp_all add: report_cancelled_def Let_def bind_def get_state_def)
    qed
  qed
  have r: "attachment_get (dl_attachments s1) (attachment_key_of x ?i) = Some r" "am_import_status r = AttFailed"
    "am_last_error_code r = Some cancelled_code"
    using fail
    by (auto simp: fail_attachment_def in_attachments_def on_part_def fallible_op_def attachment_mark_failed_def
        attachment_update_def attachment_get_def split: prod.splits sum.splits option.splits)
  have "dl_attachments s' = dl_attachments s1
    \<and> (\<forall>st. stage_get (dl_stages s') (stage_key_of x ?i) = Some st \<longrightarrow> st_status st \<noteq> StageProcessing)"
    using rest
    by (auto simp: bind_def throw_def ret_def fail_stage_def now_at_def in_world_def in_stages_def on_part_def total_op_def
        fallible_op_def stage_mark_failed_def stage_update_def stage_get_def split: option.splits if_splits prod.splits sum.splits)
  with r show thesis by (intro that) auto
qed

lemma deliver_attachment_cancelled:
  assumes "deliver_attachment sv x retry p s = (Inl CancelledError, s')"
  obtains s1 s2 where "report_cancelled sv x p s1 = (Inl CancelledError, s2)"
    "s' = cleanup_file_payload sv (pr_file_payload p) s2"
  using assms
  by (auto simp: deliver_attachment_def bind_Inl get_attachment_record_def get_state_def ensure_def catch_error_def
      split: prod.splits sum.splits if_splits)

lemma cleanup_stages [simp]: "dl_stages (cleanup_file_payload sv f s) = dl_stages s"
  by (simp add: cleanup_file_payload_def unlink_path_def)

section \<open>Nothing is done twice\<close>

text \<open>The record of an attachment that a repeated delivery need not touch.\<close>

definition needs_nothing :: "delivery_context \<Rightarrow> attachment_repo \<Rightarrow> int \<Rightarrow> canonical_attachment \<Rightarrow> bool" where
  "needs_nothing x A i a \<longleftrightarrow> (case attachment_get A (attachment_key_of x i) of
     None \<Rightarrow> False | Some r \<Rightarrow> \<not> ao_blocks (outcome_from_record a r))"

lemma prepare_loop_settled:
  assumes "\<forall>(i, a) \<in> set ias. needs_nothing x (dl_attachments s) i a"
    and "\<forall>o' \<in> snd ` set (pa_outcomes acc). \<not> ao_blocks o'"
  shows "\<exists>acc'. prepare_loop (prepare_one sv x backend True pre) ias acc s = (Inr acc', s)
    \<and> pa_prepared acc' = pa_prepared acc \<and> (\<forall>o' \<in> snd ` set (pa_outcomes acc'). \<not> ao_blocks o')"
  using assms
proof (induction ias arbitrary: acc)
  case Nil
  then show ?case by (simp add: ret_def)
next
  case (Cons ia ias)
  obtain i a where ia: "ia = (i, a)" by fastforce
  with Cons.prems obtain r where r: "attachment_get (dl_attachments s) (attachment_key_of x i) = Some r"
    "\<not> ao_blocks (outcome_from_record a r)"
    by (auto simp: needs_nothing_def split: option.splits)
  let ?acc = "record_outcome i a r acc"
  have open_: "\<forall>o' \<in> snd ` set (pa_outcomes ?acc). \<not> ao_blocks o'"
    using Cons.prems(2) r(2) set_dict_set [of i "outcome_from_record a r" "pa_outcomes acc"]
    by (force simp: record_outcome_def)
  have rest: "\<forall>(i, a) \<in> set ias. needs_nothing x (dl_attachments s) i a" using Cons.prems(1) by simp
  have step: "prepare_one sv x backend True pre i a acc s = (Inr ?acc, s)"
    using r by (simp add: prepare_one_def get_attachment_record_def bind_def get_state_def ret_def)
  have loop: "prepare_loop (prepare_one sv x backend True pre) (ia # ias) acc s
      = prepare_loop (prepare_one sv x backend True pre) ias ?acc s"
    by (simp add: ia bind_def step)
  have same: "pa_prepared ?acc = pa_prepared acc" by (simp add: record_outcome_def)
  show ?case unfolding loop same [symmetric] by (rule Cons.IH [OF rest open_])
qed

lemma deliver_settled:
  assumes "\<forall>(i, a) \<in> set (indexed (cmsg_attachments (dx_canonical x))). needs_nothing x (dl_attachments s) i a"
  obtains r where "deliver sv x backend title preview True mode (Some sent) body retry pre s = (Inr r, s)"
    "dr_sent_message r = sent" "\<not> has_blocking_failures r" "dr_primary_reused r"
proof -
  let ?m = "dx_canonical x"
  obtain m outcomes where prep: "prepare_message sv x backend True True pre s = (Inr (m, [], outcomes), s)"
    "\<forall>o' \<in> snd ` set outcomes. \<not> ao_blocks o'"
  proof (cases "cmsg_attachments ?m = []")
    case True
    then show ?thesis by (intro that [of ?m "[]"]) (simp_all add: prepare_message_def ret_def)
  next
    case False
    let ?acc = "\<lparr>pa_prepared = [], pa_outcomes = [], pa_failures = cmsg_attachment_failures ?m\<rparr>"
    obtain acc where "prepare_loop (prepare_one sv x backend True (index_prefetched pre)) (indexed (cmsg_attachments ?m)) ?acc s
        = (Inr acc, s)" "pa_prepared acc = []" "\<forall>o' \<in> snd ` set (pa_outcomes acc). \<not> ao_blocks o'"
      using prepare_loop_settled [OF assms, of ?acc sv backend "index_prefetched pre"] by force
    with False show ?thesis
      by (intro that [of "?m\<lparr>cmsg_attachments := [], cmsg_attachment_failures := pa_failures acc\<rparr>" "pa_outcomes acc"])
        (simp_all add: prepare_message_def Let_def bind_def ret_def)
  qed
  let ?r = "\<lparr>dr_canonical = m,
      dr_rendered_body = or_empty (py_or body (Some (rendered_body_of sv m title preview mode))),
      dr_sent_message = sent, dr_outcomes = map snd (sort_key fst outcomes), dr_primary_reused = True\<rparr>"
  have "deliver sv x backend title preview True mode (Some sent) body retry pre s = (Inr ?r, s)"
    using prep(1) by (simp add: deliver_def bind_def ensure_def deliver_primary_def ret_def Let_def)
  moreover have "\<not> has_blocking_failures ?r"
    using prep(2) by (auto simp: has_blocking_failures_def blocking_failures_def filter_empty_conv)
  ultimately show thesis by (intro that [of ?r]) simp_all
qed

lemma reports_all_needs_nothing:
  assumes "reports_all x r A" and "\<not> has_blocking_failures r"
  shows "\<forall>(i, a) \<in> set (indexed (cmsg_attachments (dx_canonical x))). needs_nothing x A i a"
proof clarify
  fix i a
  assume "(i, a) \<in> set (indexed (cmsg_attachments (dx_canonical x)))"
  then obtain n where n: "i = int n" "n < length (cmsg_attachments (dx_canonical x))"
    by (auto simp: indexed_def in_set_enumerate_eq)
  with assms(1) obtain b m where m: "dr_outcomes r ! n = outcome_from_record b m"
    "attachment_get A (attachment_key_of x i) = Some m" "n < length (dr_outcomes r)"
    by (auto simp: reports_all_def)
  from assms(2) nth_mem [OF m(3)] have "\<not> ao_blocks (dr_outcomes r ! n)"
    by (auto simp: has_blocking_failures_def blocking_failures_def filter_empty_conv)
  with m show "needs_nothing x A i a" by (simp add: needs_nothing_def outcome_from_record_def Let_def)
qed

section \<open>Stored uploads\<close>

definition complete_upload :: "express_staged_file \<Rightarrow> bool" where
  "complete_upload f \<longleftrightarrow> sf_attachment_type f \<noteq> [] \<and> sf_file_id f \<noteq> [] \<and> sf_file_url f \<noteq> []
    \<and> sf_filename f \<noteq> [] \<and> sf_mime_type f \<noteq> [] \<and> sf_file_hash f \<noteq> []"

lemma staged_file_round_trip:
  assumes "complete_upload f"
  shows "staged_file_from_payload (Some (express_staged_file_to_payload f)) = Some f"
proof -
  have opt_str: "(case json_opt_str v of JStr s \<Rightarrow> Some s | _ \<Rightarrow> None) = v" for v
    by (simp add: json_opt_str_def split: option.split)
  have opt_int: "(case json_opt_int v of JInt n \<Rightarrow> Some n | JBool b \<Rightarrow> Some (if b then 1 else 0) | _ \<Rightarrow> None) = v" for v
    by (simp add: json_opt_int_def split: option.split)
  show ?thesis
    using assms
    by (simp add: staged_file_from_payload_def express_staged_file_to_payload_def complete_upload_def
        str_field_def int_field_def opt_str opt_int or_empty_def)
qed

text \<open>The upload of an attachment is known: its stage holds the file.\<close>

definition uploaded_as :: "delivery_context \<Rightarrow> int \<Rightarrow> express_staged_file \<Rightarrow> stage_repo \<Rightarrow> bool" where
  "uploaded_as x i f S \<longleftrightarrow> (\<exists>st. stage_get S (stage_key_of x i) = Some st
    \<and> (st_status st = StageUploaded \<or> st_status st = StageAttached)
    \<and> staged_file_from_payload (st_express_file_payload st) = Some f)"

text \<open>Only the clock of the outside world is read, four times.\<close>

lemma upload_known_reused:
  assumes "uploaded_as x (pr_attachment_index p) f (dl_stages s)"
  shows "ensure_uploaded_attachment sv x p retry s =
    (Inr (no_resolution\<lparr>ur_staged_file := Some f\<rparr>),
     s\<lparr>dl_world := ((\<lambda>w. snd (sv_now sv w)) ^^ 4) (dl_world s)\<rparr>)"
proof -
  let ?i = "pr_attachment_index p"
  obtain st where st: "stage_get (dl_stages s) (stage_key_of x ?i) = Some st"
    "st_status st = StageUploaded \<or> st_status st = StageAttached"
    "staged_file_from_payload (st_express_file_payload st) = Some f"
    using assms by (auto simp: uploaded_as_def)
  have claim: "stage_claim a (build_attachment_stage_record x ?i b) now stamp (dl_stages s)
      = ((ClaimImported, st), dl_stages s)" for a b now stamp
    using st(1,2)
    by (auto simp: stage_claim_def stage_get_def stage_key_def stage_key_of_def build_attachment_stage_record_def Let_def)
  have now: "now_at sv s = (Inr (fst (sv_now sv (dl_world s))), s\<lparr>dl_world := snd (sv_now sv (dl_world s))\<rparr>)" for s
    by (simp add: now_at_def in_world_def on_part_def total_op_def split: prod.split)
  have "claim_stage sv x ?i (pr_attachment p) retry s = (Inr (ClaimImported, st),
      s\<lparr>dl_world := ((\<lambda>w. snd (sv_now sv w)) ^^ 4) (dl_world s)\<rparr>)"
    by (simp add: claim_stage_def bind_def now in_stages_def on_part_def total_op_def claim eval_nat_numeral)
  with st(3) show ?thesis by (simp add: ensure_uploaded_attachment_def bind_def ret_def)
qed

lemma stage_mark_uploaded_get:
  "stage_mark_uploaded k f now S = Inr (r, S') \<Longrightarrow> stage_get S' k = Some r \<and> st_status r = StageUploaded
    \<and> st_express_file_payload r = Some (express_staged_file_to_payload f)"
  by (auto simp: stage_mark_uploaded_def stage_update_def stage_get_def split: option.splits)

lemma upload_remembered:
  assumes "upload_attachment sv x p retry s = (Inr u, s')" and "ur_staged_file u = Some f" and "complete_upload f"
  shows "uploaded_as x (pr_attachment_index p) f (dl_stages s')"
proof -
  let ?i = "pr_attachment_index p"
  have no_file: "ur_staged_file u = None" if "upload_failed sv x p retry e s1 = (Inr u, s')" for e s1
    using that by (auto simp: upload_failed_def Let_def bind_Inr ret_def no_resolution_def split: if_splits)
  obtain res s1 where attempt: "attempt (\<lambda>e. e = CancelledError \<or> is_item_error e \<or> is_ambiguous_error e)
      (retried sv (sv_upload sv (dx_target_chat_id x) (pr_file_payload p))) s = (Inr res, s1)"
    using assms(1) by (auto simp: upload_attachment_def Let_def bind_Inr)
  obtain g where res: "res = Inr g"
  proof (cases res)
    case (Inl e)
    with attempt assms(1,2) no_file show ?thesis
      by (auto simp: upload_attachment_def Let_def bind_def throw_def split: if_splits prod.splits sum.splits)
  qed
  obtain r s2 q where up: "upload_stage sv x ?i g s1 = (Inr r, s2)"
    and audit: "audit_attachment sv x ''attachment_uploaded_to_files_api'' SevInfo q s2 = (Inr (), s')"
    and "u = no_resolution\<lparr>ur_staged_file := Some g\<rparr>"
    using assms(1) attempt res
    by (auto simp: upload_attachment_def Let_def bind_Inr ret_def)
  with assms(2) have g: "g = f" by (simp add: no_resolution_def)
  from audit have same: "dl_stages s' = dl_stages s2"
    by (metis audit_attachment_ok prod.inject)
  from up [unfolded g] obtain now S0 where "stage_mark_uploaded (stage_key_of x ?i) f now S0 = Inr (r, dl_stages s2)"
    by (auto simp: upload_stage_def bind_Inr in_stages_def on_part_def fallible_op_def split: prod.splits sum.splits)
  note stage_mark_uploaded_get [OF this]
  with staged_file_round_trip [OF assms(3)] same show ?thesis by (auto simp: uploaded_as_def)
qed

end
