(* ===== verification/Identity_Directory.thy ===== *)
theory Identity_Directory
  imports Express_Routing Identity_Repo Messages
begin

text \<open>
  Who a Telegram user is in eXpress: \<open>application/cts_resolution.py\<close> finds the server that knows a
  user, asking the registered servers in turn and remembering the answer in the CTS bindings, and
  \<open>application/identity.py\<close> keeps the identity mappings on top of it. The searches of the
  messenger and the clock belong to the outside world \<open>'w\<close>.
\<close>

section \<open>State and outside calls\<close>

text \<open>
  \<open>xd_registered\<close> is None for a gateway that does not route by host; \<open>xd_context\<close> is the host of
  the current context. A search gets the host it runs under as its first argument.
  \<open>xd_hostname\<close> gives \<open>hostname\<close> and \<open>netloc\<close> of a parsed URL.
\<close>

record 'w express_directory =
  xd_urlparse :: url_parser
  xd_hostname :: "string \<Rightarrow> (error, string option \<times> string) outcome"
  xd_registered :: "string list option"
  xd_context :: "string option"
  xd_now :: "'w \<Rightarrow> datetime \<times> 'w"
  xd_search_huid :: "string option \<Rightarrow> string \<Rightarrow> ('w, string option) action"
  xd_search_email :: "string option \<Rightarrow> string \<Rightarrow> ('w, string option) action"
  xd_search_ad_login :: "string option \<Rightarrow> string \<Rightarrow> string option \<Rightarrow> ('w, string option) action"
  xd_search_other_id :: "string option \<Rightarrow> string \<Rightarrow> ('w, string option) action"

record 'w directory_state =
  ds_world :: 'w
  ds_bindings :: cts_binding_repo
  ds_identities :: identity_repo

definition in_world :: "('w, 'a) action \<Rightarrow> ('w directory_state, 'a) action" where
  "in_world = on_part ds_world (\<lambda>w s. s\<lparr>ds_world := w\<rparr>)"

definition in_bindings :: "(cts_binding_repo, 'a) action \<Rightarrow> ('w directory_state, 'a) action" where
  "in_bindings = on_part ds_bindings (\<lambda>b s. s\<lparr>ds_bindings := b\<rparr>)"

definition in_identities :: "(identity_repo, 'a) action \<Rightarrow> ('w directory_state, 'a) action" where
  "in_identities = on_part ds_identities (\<lambda>i s. s\<lparr>ds_identities := i\<rparr>)"

definition now_of :: "'w express_directory \<Rightarrow> ('w directory_state, datetime) action" where
  "now_of xd = in_world (total_op (xd_now xd))"

section \<open>Finding the server of a user\<close>

record cts_resolution_result =
  cr_cts_host :: "string option"
  cr_resolution_source :: string
  cr_target_huid :: "string option"
  cr_corporate_email :: "string option"

definition stripped :: "string option \<Rightarrow> string option" where
  "stripped v = (case v of None \<Rightarrow> None | Some s \<Rightarrow> if py_strip s = [] then None else Some (py_strip s))"

definition cts_normalize_email :: "string option \<Rightarrow> string option" where
  "cts_normalize_email v = map_option py_lower (stripped v)"

definition binding_to_result ::
    "'w express_directory \<Rightarrow> string \<Rightarrow> user_cts_binding_record \<Rightarrow> (error, cts_resolution_result) outcome" where
  "binding_to_result xd source b =
    (case normalize_express_cts_host (xd_urlparse xd) (Some (ub_cts_host b)) of
       Inl e \<Rightarrow> Inl e
     | Inr host \<Rightarrow> Inr \<lparr>cr_cts_host = host, cr_resolution_source = source,
         cr_target_huid = ub_target_huid b, cr_corporate_email = ub_corporate_email b\<rparr>)"

definition cached_result ::
    "'w express_directory \<Rightarrow> user_cts_binding_record option \<Rightarrow> (error, cts_resolution_result option) outcome" where
  "cached_result xd b = (case b of
     None \<Rightarrow> Inr None
   | Some r \<Rightarrow> (case binding_to_result xd ''cts_binding_cache'' r of Inl e \<Rightarrow> Inl e | Inr x \<Rightarrow> Inr (Some x)))"

definition get_cached_by_target_huid ::
    "'w express_directory \<Rightarrow> string \<Rightarrow> ('w directory_state, cts_resolution_result option) action" where
  "get_cached_by_target_huid xd huid =
    (case stripped (Some huid) of
       None \<Rightarrow> ret None
     | Some h \<Rightarrow> bind (get_state (\<lambda>s. cts_get_by_target_huid (ds_bindings s) h))
         (\<lambda>b. lift_outcome (cached_result xd b)))"

definition get_cached_by_email ::
    "'w express_directory \<Rightarrow> string \<Rightarrow> ('w directory_state, cts_resolution_result option) action" where
  "get_cached_by_email xd email =
    (case cts_normalize_email (Some email) of
       None \<Rightarrow> ret None
     | Some m \<Rightarrow> bind (get_state (\<lambda>s. cts_get_by_email (ds_bindings s) m))
         (\<lambda>b. lift_outcome (cached_result xd b)))"

text \<open>The registered hosts not seen before, in order.\<close>

fun add_hosts ::
    "url_parser \<Rightarrow> string list \<Rightarrow> string option list \<Rightarrow> (error, string option list) outcome" where
  "add_hosts urlparse [] ordered = Inr ordered"
| "add_hosts urlparse (h # hs) ordered =
    (case normalize_express_cts_host urlparse (Some h) of
       Inl e \<Rightarrow> Inl e
     | Inr n \<Rightarrow> add_hosts urlparse hs (if n \<in> set ordered then ordered else ordered @ [n]))"

definition candidate_cts_hosts :: "'w express_directory \<Rightarrow> (error, string option list) outcome" where
  "candidate_cts_hosts xd =
    (case normalize_express_cts_host (xd_urlparse xd) (xd_context xd) of
       Inl e \<Rightarrow> Inl e
     | Inr current \<Rightarrow>
         (case add_hosts (xd_urlparse xd) (case xd_registered xd of None \<Rightarrow> [] | Some hs \<Rightarrow> hs)
             (if current \<noteq> None then [current] else []) of
            Inl e \<Rightarrow> Inl e
          | Inr ordered \<Rightarrow> Inr (if ordered = [] then [None] else ordered)))"

definition current_or_default_cts_host :: "'w express_directory \<Rightarrow> (error, string) outcome" where
  "current_or_default_cts_host xd =
    (case normalize_express_cts_host (xd_urlparse xd) (xd_context xd) of
       Inl e \<Rightarrow> Inl e
     | Inr (Some current) \<Rightarrow> Inr current
     | Inr None \<Rightarrow>
         (case xd_registered xd of
            Some (h # _) \<Rightarrow>
              (case normalize_express_cts_host (xd_urlparse xd) (Some h) of
                 Inl e \<Rightarrow> Inl e | Inr n \<Rightarrow> Inr (or_empty n))
          | _ \<Rightarrow> Inr []))"

text \<open>The host a search runs under: the candidate's, or the context's without routing.\<close>

definition search_host :: "'w express_directory \<Rightarrow> string option \<Rightarrow> string option" where
  "search_host xd candidate = (if xd_registered xd = None then xd_context xd else candidate)"

definition save_binding ::
    "'w express_directory \<Rightarrow> string \<Rightarrow> string option \<Rightarrow> string
      \<Rightarrow> ('w directory_state, user_cts_binding_record) action" where
  "save_binding xd huid email host =
    bind (now_of xd) (\<lambda>created. bind (now_of xd) (\<lambda>updated. bind (now_of xd) (\<lambda>verified.
    bind (now_of xd) (\<lambda>now.
    in_bindings (fallible_op (cts_save (\<lparr>ub_cts_host = host, ub_target_huid = Some huid,
      ub_corporate_email = email, ub_created_at = Some created, ub_updated_at = Some updated,
      ub_last_verified_at = Some verified\<rparr>, now)))))))"

text \<open>The loop over the candidates that the four resolutions share.\<close>

fun probe_hosts ::
    "'w express_directory \<Rightarrow> (string option \<Rightarrow> ('w, string option) action) \<Rightarrow> string option
      \<Rightarrow> string option list \<Rightarrow> ('w directory_state, cts_resolution_result) action" where
  "probe_hosts xd search email [] =
    ret \<lparr>cr_cts_host = None, cr_resolution_source = ''cts_binding_probe_miss'',
      cr_target_huid = None, cr_corporate_email = email\<rparr>"
| "probe_hosts xd search email (h # hs) =
    bind (in_world (search (search_host xd h))) (\<lambda>found.
      case found of
        None \<Rightarrow> probe_hosts xd search email hs
      | Some huid \<Rightarrow>
          bind (if truthy h then ret (or_empty h) else lift_outcome (current_or_default_cts_host xd)) (\<lambda>host.
            if host = [] then ret \<lparr>cr_cts_host = None, cr_resolution_source = ''cts_binding_probe'',
                cr_target_huid = Some huid, cr_corporate_email = email\<rparr>
            else bind (save_binding xd huid email host)
              (\<lambda>saved. lift_outcome (binding_to_result xd ''cts_binding_probe'' saved))))"

definition cts_missing :: cts_resolution_result where
  "cts_missing = \<lparr>cr_cts_host = None, cr_resolution_source = ''cts_binding_missing'',
     cr_target_huid = None, cr_corporate_email = None\<rparr>"

definition probe ::
    "'w express_directory \<Rightarrow> (string option \<Rightarrow> ('w, string option) action) \<Rightarrow> string option
      \<Rightarrow> ('w directory_state, cts_resolution_result) action" where
  "probe xd search email = bind (lift_outcome (candidate_cts_hosts xd)) (probe_hosts xd search email)"

definition resolve_target_huid ::
    "'w express_directory \<Rightarrow> string \<Rightarrow> ('w directory_state, cts_resolution_result) action" where
  "resolve_target_huid xd huid =
    (case stripped (Some huid) of
       None \<Rightarrow> ret cts_missing
     | Some h \<Rightarrow> bind (get_state (\<lambda>s. cts_get_by_target_huid (ds_bindings s) h)) (\<lambda>cached.
         case cached of
           Some b \<Rightarrow> lift_outcome (binding_to_result xd ''cts_binding_cache'' b)
         | None \<Rightarrow> probe xd (\<lambda>host. xd_search_huid xd host h) None))"

definition resolve_email ::
    "'w express_directory \<Rightarrow> string \<Rightarrow> ('w directory_state, cts_resolution_result) action" where
  "resolve_email xd email =
    (case cts_normalize_email (Some email) of
       None \<Rightarrow> ret cts_missing
     | Some m \<Rightarrow> bind (get_state (\<lambda>s. cts_get_by_email (ds_bindings s) m)) (\<lambda>cached.
         case cached of
           Some b \<Rightarrow> lift_outcome (binding_to_result xd ''cts_binding_cache'' b)
         | None \<Rightarrow> probe xd (\<lambda>host. xd_search_email xd host m) (Some m)))"

definition resolve_ad_login ::
    "'w express_directory \<Rightarrow> string \<Rightarrow> string option \<Rightarrow> ('w directory_state, cts_resolution_result) action" where
  "resolve_ad_login xd ad_login ad_domain =
    (case stripped (Some ad_login) of
       None \<Rightarrow> ret cts_missing
     | Some login \<Rightarrow> probe xd (\<lambda>host. xd_search_ad_login xd host login (stripped ad_domain)) None)"

definition resolve_other_id ::
    "'w express_directory \<Rightarrow> string \<Rightarrow> ('w directory_state, cts_resolution_result) action" where
  "resolve_other_id xd other_id =
    (case stripped (Some other_id) of
       None \<Rightarrow> ret cts_missing
     | Some i \<Rightarrow> probe xd (\<lambda>host. xd_search_other_id xd host i) None)"

section \<open>The directory\<close>

text \<open>
  \<open>dc_resolution\<close> says whether a resolution service is configured; without one the gateway is asked
  directly, under the host of the context.
\<close>

record 'w directory_config =
  dc_express :: "'w express_directory"
  dc_resolution :: bool
  dc_express_host :: "string option"

definition normalize_express_host ::
    "(string \<Rightarrow> (error, string option \<times> string) outcome) \<Rightarrow> string option \<Rightarrow> (error, string option) outcome" where
  "normalize_express_host hostname express_host =
    (case express_host of
       None \<Rightarrow> Inr None
     | Some v \<Rightarrow>
         let n = py_lower (py_strip v) in
         if n = [] then Inr None
         else case hostname (if contains ''://'' n then n else ''https://'' @ n) of
           Inl e \<Rightarrow> Inl e
         | Inr (host, netloc) \<Rightarrow>
             let h = py_lower (or_empty (py_or host (py_or (Some netloc) (Some n))))
             in Inr (if h = [] then None else Some h))"

definition make_directory ::
    "'w express_directory \<Rightarrow> bool \<Rightarrow> string option \<Rightarrow> (error, 'w directory_config) outcome" where
  "make_directory xd resolution express_host =
    (case normalize_express_host (xd_hostname xd) express_host of
       Inl e \<Rightarrow> Inl e
     | Inr host \<Rightarrow> Inr \<lparr>dc_express = xd, dc_resolution = resolution, dc_express_host = host\<rparr>)"

definition dir_normalize_username :: "string option \<Rightarrow> string option" where
  "dir_normalize_username v = (case v of
     None \<Rightarrow> None | Some s \<Rightarrow> if normalize_username s = [] then None else Some (normalize_username s))"

definition normalize_email :: "string \<Rightarrow> (error, string) outcome" where
  "normalize_email email =
    (let n = py_lower (py_strip email) in
     if n = [] \<or> CHR ''@'' \<notin> set n then Inl (ConfigurationError ''corporate email must be a valid email address'')
     else Inr n)"

definition direct_result :: "string option \<Rightarrow> string option \<Rightarrow> cts_resolution_result" where
  "direct_result huid email = \<lparr>cr_cts_host = None, cr_resolution_source = ''express_gateway_direct'',
     cr_target_huid = huid, cr_corporate_email = email\<rparr>"

definition get_cached_target_huid_cts ::
    "'w directory_config \<Rightarrow> string \<Rightarrow> ('w directory_state, cts_resolution_result option) action" where
  "get_cached_target_huid_cts dc huid =
    (if \<not> dc_resolution dc then ret None else get_cached_by_target_huid (dc_express dc) huid)"

definition resolve_target_huid_cts ::
    "'w directory_config \<Rightarrow> string \<Rightarrow> ('w directory_state, cts_resolution_result) action" where
  "resolve_target_huid_cts dc huid =
    (if \<not> dc_resolution dc
     then bind (in_world (xd_search_huid (dc_express dc) (xd_context (dc_express dc)) huid))
       (\<lambda>found. ret (direct_result found None))
     else resolve_target_huid (dc_express dc) huid)"

definition resolve_email_cts ::
    "'w directory_config \<Rightarrow> string \<Rightarrow> ('w directory_state, cts_resolution_result) action" where
  "resolve_email_cts dc email =
    (if \<not> dc_resolution dc
     then bind (in_world (xd_search_email (dc_express dc) (xd_context (dc_express dc)) email))
       (\<lambda>found. ret (direct_result found (Some email)))
     else resolve_email (dc_express dc) email)"

definition resolve_ad_login_cts ::
    "'w directory_config \<Rightarrow> string \<Rightarrow> string option \<Rightarrow> ('w directory_state, cts_resolution_result) action" where
  "resolve_ad_login_cts dc login domain =
    (if \<not> dc_resolution dc
     then bind (in_world (xd_search_ad_login (dc_express dc) (xd_context (dc_express dc)) login domain))
       (\<lambda>found. ret (direct_result found None))
     else resolve_ad_login (dc_express dc) login domain)"

definition resolve_other_id_cts ::
    "'w directory_config \<Rightarrow> string \<Rightarrow> ('w directory_state, cts_resolution_result) action" where
  "resolve_other_id_cts dc other_id =
    (if \<not> dc_resolution dc
     then bind (in_world (xd_search_other_id (dc_express dc) (xd_context (dc_express dc)) other_id))
       (\<lambda>found. ret (direct_result found None))
     else resolve_other_id (dc_express dc) other_id)"

definition earliest :: "datetime option \<Rightarrow> datetime option \<Rightarrow> datetime option" where
  "earliest a b = (case (a, b) of (None, _) \<Rightarrow> b | (_, None) \<Rightarrow> a
     | (Some x, Some y) \<Rightarrow> if x \<le> y then Some x else Some y)"

definition latest :: "datetime option \<Rightarrow> datetime option \<Rightarrow> datetime option" where
  "latest a b = (case (a, b) of (None, _) \<Rightarrow> b | (_, None) \<Rightarrow> a
     | (Some x, Some y) \<Rightarrow> if x \<ge> y then Some x else Some y)"

definition merge_records ::
    "identity_mapping_record \<Rightarrow> identity_mapping_record \<Rightarrow> (error, identity_mapping_record) outcome" where
  "merge_records p q =
    (if truthy (im_corporate_email p) \<and> truthy (im_corporate_email q)
        \<and> im_corporate_email p \<noteq> im_corporate_email q
     then Inl (ConfigurationError (''conflicting identity mappings found for the same Telegram identity; ''
       @ ''resolve duplicate corporate emails in identity_mapping''))
     else Inr \<lparr>im_telegram_user_id = py_or (im_telegram_user_id p) (im_telegram_user_id q),
       im_telegram_username = py_or (im_telegram_username p) (im_telegram_username q),
       im_telegram_display_name = py_or (im_telegram_display_name p) (im_telegram_display_name q),
       im_corporate_email = py_or (im_corporate_email p) (im_corporate_email q),
       im_target_huid = py_or (im_target_huid p) (im_target_huid q),
       im_express_host = py_or (im_express_host p) (im_express_host q),
       im_created_at = earliest (im_created_at p) (im_created_at q),
       im_updated_at = latest (im_updated_at p) (im_updated_at q),
       im_last_resolved_at = latest (im_last_resolved_at p) (im_last_resolved_at q)\<rparr>)"

definition find_mapping ::
    "'w directory_config \<Rightarrow> string option \<Rightarrow> string option
      \<Rightarrow> ('w directory_state, identity_mapping_record option) action" where
  "find_mapping dc user name =
    bind (get_state (\<lambda>s. Option.bind user (\<lambda>u. identity_get_by_user_id (ds_identities s) u (dc_express_host dc)))) (\<lambda>by_user.
    bind (get_state (\<lambda>s. Option.bind name (\<lambda>n. identity_get_by_username (ds_identities s) n (dc_express_host dc)))) (\<lambda>by_name.
    case (by_user, by_name) of
      (None, _) \<Rightarrow> ret by_name
    | (Some u, None) \<Rightarrow> ret (Some u)
    | (Some u, Some n) \<Rightarrow>
        if n = u then ret (Some u)
        else lift_outcome (case merge_records u n of Inl e \<Rightarrow> Inl e | Inr r \<Rightarrow> Inr (Some r))))"

definition missing_mapping_result ::
    "string option \<Rightarrow> string option \<Rightarrow> string option \<Rightarrow> identity_lookup_result" where
  "missing_mapping_result user name display = \<lparr>il_telegram_user_id = user, il_telegram_username = name,
     il_corporate_email = None, il_target_huid = None, il_resolution_source = ''display_only'',
     il_cts_host = None, il_telegram_display_name = display,
     il_reason = Some (if user = None \<and> name = None then ''missing_identity''
       else if user \<noteq> None \<and> name \<noteq> None then ''identity_not_mapped''
       else if user \<noteq> None then ''user_id_not_mapped'' else ''username_not_mapped'')\<rparr>"

definition apply_identity_hints ::
    "'w directory_config \<Rightarrow> identity_mapping_record \<Rightarrow> string option \<Rightarrow> string option \<Rightarrow> string option
      \<Rightarrow> datetime \<Rightarrow> identity_mapping_record" where
  "apply_identity_hints dc m user name display now = m\<lparr>
     im_express_host := py_or (dc_express_host dc) (im_express_host m),
     im_telegram_user_id := py_or user (im_telegram_user_id m),
     im_telegram_username := py_or name (im_telegram_username m),
     im_telegram_display_name := py_or display (im_telegram_display_name m),
     im_updated_at := Some now\<rparr>"

definition save_identity ::
    "'w directory_config \<Rightarrow> identity_mapping_record \<Rightarrow> ('w directory_state, identity_mapping_record) action" where
  "save_identity dc r = bind (now_of (dc_express dc)) (\<lambda>now. in_identities (fallible_op (identity_save (r, now))))"

text \<open>The result of a lookup that carries over what the mapping says.\<close>

definition mapping_result ::
    "identity_mapping_record \<Rightarrow> string option \<Rightarrow> string option \<Rightarrow> string \<Rightarrow> string option \<Rightarrow> identity_lookup_result" where
  "mapping_result m huid host source reason = \<lparr>il_telegram_user_id = im_telegram_user_id m,
     il_telegram_username = im_telegram_username m, il_corporate_email = im_corporate_email m,
     il_target_huid = huid, il_resolution_source = source, il_cts_host = host,
     il_telegram_display_name = im_telegram_display_name m, il_reason = reason\<rparr>"

definition resolve_mapping ::
    "'w directory_config \<Rightarrow> identity_mapping_record \<Rightarrow> ('w directory_state, identity_lookup_result) action" where
  "resolve_mapping dc m =
    (if truthy (im_target_huid m) then
       bind (get_cached_target_huid_cts dc (or_empty (im_target_huid m))) (\<lambda>cached.
         ret (mapping_result m (im_target_huid m) (Option.bind cached cr_cts_host) ''identity_map_cache'' None))
     else case im_corporate_email m of
       None \<Rightarrow> ret (mapping_result m None None ''display_only'' (Some ''identity_not_mapped''))
     | Some email \<Rightarrow>
         bind (resolve_email_cts dc email) (\<lambda>resolved.
         case cr_target_huid resolved of
           None \<Rightarrow> ret (mapping_result m None (cr_cts_host resolved) ''identity_map_email''
             (Some ''email_not_found_in_express''))
         | Some huid \<Rightarrow>
             bind (now_of (dc_express dc)) (\<lambda>updated. bind (now_of (dc_express dc)) (\<lambda>verified.
             bind (save_identity dc (m\<lparr>im_target_huid := Some huid, im_updated_at := Some updated,
                im_last_resolved_at := Some verified\<rparr>)) (\<lambda>saved.
             ret (mapping_result saved (Some huid) (cr_cts_host resolved) ''identity_map_email'' None))))))"

definition resolve_telegram_identity ::
    "'w directory_config \<Rightarrow> string option \<Rightarrow> string option \<Rightarrow> string option
      \<Rightarrow> ('w directory_state, identity_lookup_result) action" where
  "resolve_telegram_identity dc user_id username display =
    bind (find_mapping dc (stripped user_id) (dir_normalize_username username)) (\<lambda>mapping.
      case mapping of
        None \<Rightarrow> ret (missing_mapping_result (stripped user_id) (dir_normalize_username username) display)
      | Some m \<Rightarrow>
          bind (now_of (dc_express dc)) (\<lambda>now.
          let hydrated = apply_identity_hints dc m (stripped user_id) (dir_normalize_username username) display now
          in bind (if hydrated \<noteq> m then save_identity dc hydrated else ret hydrated) (resolve_mapping dc)))"

definition resolve_username ::
    "'w directory_config \<Rightarrow> string option \<Rightarrow> ('w directory_state, identity_lookup_result) action" where
  "resolve_username dc username = resolve_telegram_identity dc None username None"

text \<open>The record both upserts store, from the record found.\<close>

definition upserted ::
    "'w directory_config \<Rightarrow> identity_mapping_record option \<Rightarrow> string option \<Rightarrow> string option \<Rightarrow> string option
      \<Rightarrow> string option \<Rightarrow> string option \<Rightarrow> datetime \<Rightarrow> datetime option \<Rightarrow> identity_mapping_record" where
  "upserted dc existing user name display email huid now resolved_at =
    \<lparr>im_telegram_user_id = py_or user (field_of im_telegram_user_id existing),
     im_telegram_username = py_or name (field_of im_telegram_username existing),
     im_telegram_display_name = py_or display (field_of im_telegram_display_name existing),
     im_corporate_email = email, im_target_huid = huid,
     im_express_host = py_or (dc_express_host dc) (field_of im_express_host existing),
     im_created_at = (case existing of None \<Rightarrow> Some now | Some e \<Rightarrow> im_created_at e),
     im_updated_at = Some now, im_last_resolved_at = resolved_at\<rparr>"

definition identity_required :: error where
  "identity_required = ConfigurationError ''telegram_user_id or telegram_username is required''"

definition upsert_mapping ::
    "'w directory_config \<Rightarrow> string option \<Rightarrow> string option \<Rightarrow> string option \<Rightarrow> string
      \<Rightarrow> ('w directory_state, identity_lookup_result) action" where
  "upsert_mapping dc user_id username display email =
    bind (lift_outcome (normalize_email email)) (\<lambda>n_email.
    if stripped user_id = None \<and> dir_normalize_username username = None then throw identity_required
    else bind (find_mapping dc (stripped user_id) (dir_normalize_username username)) (\<lambda>existing.
      bind (now_of (dc_express dc)) (\<lambda>now.
      bind (save_identity dc (upserted dc existing (stripped user_id) (dir_normalize_username username)
          display (Some n_email) (field_of im_target_huid existing) now (field_of im_last_resolved_at existing)))
        (resolve_mapping dc))))"

definition upsert_direct_mapping ::
    "'w directory_config \<Rightarrow> string option \<Rightarrow> string option \<Rightarrow> string option \<Rightarrow> string \<Rightarrow> string option
      \<Rightarrow> ('w directory_state, identity_lookup_result) action" where
  "upsert_direct_mapping dc user_id username display huid email =
    bind (case stripped email of None \<Rightarrow> ret None
        | Some _ \<Rightarrow> bind (lift_outcome (normalize_email (or_empty email))) (\<lambda>m. ret (Some m))) (\<lambda>n_email.
    if stripped user_id = None \<and> dir_normalize_username username = None then throw identity_required
    else if py_strip huid = [] then throw (ConfigurationError ''target_huid is required'')
    else bind (resolve_target_huid_cts dc (py_strip huid)) (\<lambda>resolved.
      case cr_target_huid resolved of
        None \<Rightarrow> throw (ConfigurationError ''target_huid was not found in eXpress'')
      | Some validated \<Rightarrow>
          bind (find_mapping dc (stripped user_id) (dir_normalize_username username)) (\<lambda>existing.
          bind (now_of (dc_express dc)) (\<lambda>now.
          bind (save_identity dc (upserted dc existing (stripped user_id) (dir_normalize_username username)
              display (py_or n_email (field_of im_corporate_email existing)) (Some validated) now (Some now)))
            (\<lambda>saved. bind (resolve_mapping dc saved) (\<lambda>result.
              ret (result\<lparr>il_cts_host := py_or (cr_cts_host resolved) (il_cts_host result)\<rparr>)))))))"

section \<open>Selecting a user by hand\<close>

definition split_once :: "char \<Rightarrow> string \<Rightarrow> string \<times> string" where
  "split_once sep s = (takeWhile (\<lambda>c. c \<noteq> sep) s, drop 1 (dropWhile (\<lambda>c. c \<noteq> sep) s))"

definition normalize_ad_login_input ::
    "string \<Rightarrow> string option \<Rightarrow> (error, string \<times> string) outcome" where
  "normalize_ad_login_input ad_login default_domain =
    (let n = py_strip ad_login; backslash = char_of (92 :: nat);
         (d1, l1) = split_once backslash n; (l2, d2) = split_once (CHR ''@'') n
     in if n = [] then Inl (ConfigurationError ''ad_login must not be empty'')
        else if backslash \<in> set n \<and> py_strip d1 \<noteq> [] \<and> py_strip l1 \<noteq> [] then Inr (py_strip l1, py_strip d1)
        else if CHR ''@'' \<in> set n \<and> py_strip l2 \<noteq> [] \<and> py_strip d2 \<noteq> [] then Inr (py_strip l2, py_strip d2)
        else let d = py_strip (or_empty default_domain) in
          if d = [] then Inl (ConfigurationError (''ad_login without domain requires operator ad_domain; ''
            @ ''use login@domain or DOMAIN'' @ [backslash] @ ''login''))
          else Inr (n, d))"

definition selector_result :: "string \<Rightarrow> string \<Rightarrow> string option \<Rightarrow> cts_resolution_result \<Rightarrow> identity_lookup_result" where
  "selector_result source reason email resolved = \<lparr>il_telegram_user_id = None, il_telegram_username = None,
     il_corporate_email = email, il_target_huid = cr_target_huid resolved, il_resolution_source = source,
     il_cts_host = cr_cts_host resolved, il_telegram_display_name = None,
     il_reason = (if truthy (cr_target_huid resolved) then None else Some reason)\<rparr>"

definition resolve_corporate_selector ::
    "'w directory_config \<Rightarrow> string option \<Rightarrow> string option \<Rightarrow> string option \<Rightarrow> string option \<Rightarrow> string option
      \<Rightarrow> ('w directory_state, identity_lookup_result) action" where
  "resolve_corporate_selector dc email huid ad_login other_id default_domain =
    (if length (filter (\<lambda>v. stripped v \<noteq> None) [email, huid, ad_login, other_id]) \<noteq> 1
     then throw (ConfigurationError
       ''exactly one of corporate_email, target_huid, ad_login or other_id is required'')
     else if stripped email \<noteq> None then
       bind (lift_outcome (normalize_email (or_empty email))) (\<lambda>m.
       bind (resolve_email_cts dc m) (\<lambda>r.
       ret (selector_result ''manual_selector_email'' ''email_not_found_in_express'' (Some m) r)))
     else if stripped huid \<noteq> None then
       bind (resolve_target_huid_cts dc (py_strip (or_empty huid))) (\<lambda>r.
       ret (selector_result ''manual_selector_huid'' ''huid_not_found_in_express'' None r))
     else if stripped ad_login \<noteq> None then
       bind (lift_outcome (normalize_ad_login_input (or_empty ad_login) default_domain)) (\<lambda>(login, domain).
       bind (resolve_ad_login_cts dc login (Some domain)) (\<lambda>r.
       ret (selector_result ''manual_selector_ad_login'' ''ad_login_not_found_in_express'' None r)))
     else
       bind (resolve_other_id_cts dc (py_strip (or_empty other_id))) (\<lambda>r.
       ret (selector_result ''manual_selector_other_id'' ''other_id_not_found_in_express'' None r)))"

text \<open>The directory as the normalizer uses it.\<close>

definition directory_lookup :: "'w directory_config \<Rightarrow> 'w directory_state identity_lookup" where
  "directory_lookup dc user_id username display = resolve_telegram_identity dc user_id username display"

end
