(* ===== verification/Import_Steps.thy ===== *)
theory Import_Steps
  imports Message_Delivery Identity_Directory Message_Repo
begin

text \<open>
  What the use cases that copy messages share (\<open>use_cases/backfill_chat.py\<close>, \<open>delta_sync.py\<close>,
  \<open>replay_failed.py\<close>): their state, the services outside, normalising a message, prefetching the
  attachments of the next one, quoting what a message replies to, and delivering a claimed message
  and storing what came of it. The three files repeat this code with other audit event names; the
  names are an argument here.

  A prefetching task touches the outside world only; its steps are taken together at the point where
  its result is awaited.
\<close>

section \<open>State and services\<close>

record history_batch =
  hb_messages :: "telegram_source_message list"
  hb_next_cursor :: "history_cursor option"
  hb_has_more :: bool
  hb_dialog_title :: "string option"

record 'w import_state =
  im_delivery :: "'w delivery_state"
  im_messages :: message_repo
  im_checkpoints :: checkpoint_repo
  im_chats :: chat_mapping_repo
  im_states :: state_repo
  im_bindings :: cts_binding_repo
  im_identities :: identity_repo

type_synonym ('w, 'a) import = "('w import_state, 'a) action"

text \<open>
  \<open>is_fromisoformat\<close> is \<open>datetime.fromisoformat\<close>: the time as written, in microseconds, and the
  UTC offset in seconds if the text has one. \<open>is_provision\<close> is the provisioning of the target chat.
\<close>

record 'w import_services =
  is_delivery :: "'w delivery_services"
  is_directory :: "'w directory_config"
  is_checksum :: checksum_service
  is_fromisoformat :: "string \<Rightarrow> (error, datetime \<times> int option) outcome"
  is_fetch_history :: "string \<Rightarrow> history_cursor option \<Rightarrow> int \<Rightarrow> string \<Rightarrow> string option \<Rightarrow> ('w, history_batch) action"
  is_provision :: "string \<Rightarrow> manifest_dialog \<Rightarrow> ('w import_state, chat_mapping_record) action"

definition in_delivery :: "('w, 'a) delivery \<Rightarrow> ('w, 'a) import" where
  "in_delivery = on_part im_delivery (\<lambda>d s. s\<lparr>im_delivery := d\<rparr>)"

definition in_messages :: "(message_repo, 'a) action \<Rightarrow> ('w, 'a) import" where
  "in_messages = on_part im_messages (\<lambda>m s. s\<lparr>im_messages := m\<rparr>)"

text \<open>The identity directory works on the same outside world.\<close>

definition in_directory :: "('w directory_state, 'a) action \<Rightarrow> ('w, 'a) import" where
  "in_directory = on_part
    (\<lambda>s. \<lparr>ds_world = dl_world (im_delivery s), ds_bindings = im_bindings s, ds_identities = im_identities s\<rparr>)
    (\<lambda>d s. s\<lparr>im_delivery := (im_delivery s)\<lparr>dl_world := ds_world d\<rparr>, im_bindings := ds_bindings d,
       im_identities := ds_identities d\<rparr>)"

definition clock :: "'w import_services \<Rightarrow> ('w, datetime) import" where
  "clock svc = in_delivery (now_at (is_delivery svc))"

definition audit_import ::
    "'w import_services \<Rightarrow> string \<Rightarrow> string option \<Rightarrow> string option \<Rightarrow> string \<Rightarrow> audit_severity
      \<Rightarrow> (string \<times> json) list \<Rightarrow> ('w, unit) import" where
  "audit_import svc migration chat message event_type severity payload =
    bind (clock svc) (\<lambda>now. modify (\<lambda>s. s\<lparr>im_delivery := (im_delivery s)\<lparr>dl_audit := audit_add
      \<lparr>ae_migration_id = migration, ae_event_type = event_type, ae_severity = severity,
       ae_created_at = now, ae_source_chat_id = chat, ae_source_message_id = message,
       ae_payload_json = payload\<rparr> (dl_audit (im_delivery s))\<rparr>\<rparr>))"

section \<open>Settings of a dialog\<close>

text \<open>\<open>value.replace("Z", "+00:00")\<close>.\<close>

definition replace_zulu :: "string \<Rightarrow> string" where
  "replace_zulu s = concat (map (\<lambda>c. if c = CHR ''Z'' then ''+00:00'' else [c]) s)"

definition parse_optional_datetime :: "'w import_services \<Rightarrow> string option \<Rightarrow> (error, datetime option) outcome" where
  "parse_optional_datetime svc v =
    (case v of
       None \<Rightarrow> Inr None
     | Some text' \<Rightarrow> (case is_fromisoformat svc (replace_zulu text') of
         Inl e \<Rightarrow> Inl e
       | Inr (t, None) \<Rightarrow> Inr (Some t)
       | Inr (t, Some offset) \<Rightarrow> Inr (Some (t - offset * one_second))))"

definition resolve_migrate_media :: "migration_manifest \<Rightarrow> manifest_dialog \<Rightarrow> bool" where
  "resolve_migrate_media m d =
    (case dlg_migrate_media d of Some b \<Rightarrow> b | None \<Rightarrow> md_migrate_media (mf_defaults m))"

definition resolve_reply_mode :: "migration_manifest \<Rightarrow> manifest_dialog \<Rightarrow> string" where
  "resolve_reply_mode m d =
    (case dlg_reply_mode d of Some r \<Rightarrow> r | None \<Rightarrow> md_reply_mode (mf_defaults m))"

section \<open>Steps\<close>

definition normalize_message :: "'w import_services \<Rightarrow> telegram_source_message \<Rightarrow> ('w, canonical_message) import" where
  "normalize_message svc raw =
    (let lookup = directory_lookup (is_directory svc)
     in in_directory (normalize (directory_resolve lookup) (Some lookup) raw))"

text \<open>A message of a topic is filed under the chat of the topic's dialog.\<close>

definition rehome :: "string \<Rightarrow> canonical_message \<Rightarrow> canonical_message" where
  "rehome chat m = (if cmsg_source_chat_id m \<noteq> chat then m\<lparr>cmsg_source_chat_id := chat\<rparr> else m)"

definition fetch_history ::
    "'w import_services \<Rightarrow> manifest_dialog \<Rightarrow> history_cursor option \<Rightarrow> int \<Rightarrow> ('w, history_batch) import" where
  "fetch_history svc d cursor batch_size =
    in_delivery (retried (is_delivery svc) (is_fetch_history svc (physical_source_chat_id d) cursor batch_size
      (dlg_source_backend d) (dlg_source_thread_id d)))"

definition advance_checkpoint ::
    "'w import_services \<Rightarrow> string \<Rightarrow> string \<Rightarrow> string \<Rightarrow> canonical_message \<Rightarrow> ('w, history_cursor) import" where
  "advance_checkpoint svc migration chat mode m =
    (let cursor = \<lparr>hc_last_source_message_id = Some (cmsg_source_message_id m),
           hc_last_source_sent_at = Some (cmsg_sent_at_utc m)\<rparr>
     in bind (clock svc) (\<lambda>now. bind (modify (\<lambda>s. s\<lparr>im_checkpoints := checkpoint_save
          \<lparr>cp_migration_id = migration, cp_source_chat_id = chat, cp_mode = mode, cp_cursor = cursor,
           cp_updated_at = now\<rparr> (im_checkpoints s)\<rparr>)) (\<lambda>_. ret cursor)))"

text \<open>A task to prefetch the attachments of a message, if there is one, and its result.\<close>

type_synonym prefetch_task = "canonical_message option"

definition resolve_prefetched ::
    "'w import_services \<Rightarrow> string \<Rightarrow> bool \<Rightarrow> prefetch_task \<Rightarrow> ('w, prefetched_attachment list) import" where
  "resolve_prefetched svc backend migrate_media task =
    (case task of
       None \<Rightarrow> ret []
     | Some m \<Rightarrow> catch_error (in_delivery (prefetch_attachments (is_delivery svc) m backend migrate_media))
         (\<lambda>e. if e = CancelledError then None else Some (ret [])))"

definition discard_prefetched :: "'w import_services \<Rightarrow> prefetched_attachment list \<Rightarrow> 'w import_state \<Rightarrow> 'w import_state" where
  "discard_prefetched svc ps s = s\<lparr>im_delivery := cleanup_prefetched (is_delivery svc) ps (im_delivery s)\<rparr>"

definition cleanup_task :: "'w import_services \<Rightarrow> string \<Rightarrow> bool \<Rightarrow> prefetch_task \<Rightarrow> ('w, unit) import" where
  "cleanup_task svc backend migrate_media task =
    bind (resolve_prefetched svc backend migrate_media task) (\<lambda>ps. modify (discard_prefetched svc ps))"

text \<open>A \<open>finally\<close> clause that awaits: it runs when the steps raise.\<close>

definition on_error :: "('s, unit) action \<Rightarrow> ('s, 'a) action \<Rightarrow> ('s, 'a) action" where
  "on_error cleanup m = catch_error m (\<lambda>e. Some (bind cleanup (\<lambda>_. throw e)))"

definition normalize_for_dialog ::
    "'w import_services \<Rightarrow> manifest_dialog \<Rightarrow> telegram_source_message \<Rightarrow> ('w, canonical_message) import" where
  "normalize_for_dialog svc d raw =
    bind (normalize_message svc raw) (\<lambda>m. ret (rehome (dlg_source_chat_id d) m))"

definition of_dialog :: "manifest_dialog \<Rightarrow> canonical_message \<Rightarrow> bool" where
  "of_dialog d m = matches_source_message d (cmsg_source_message_id m) (cmsg_source_thread_id m)"

text \<open>The next message of the batch whose attachments are worth prefetching.\<close>

fun find_upcoming ::
    "'w import_services \<Rightarrow> manifest_dialog \<Rightarrow> (canonical_message \<Rightarrow> bool) \<Rightarrow> telegram_source_message list
      \<Rightarrow> ('w, prefetch_task) import" where
  "find_upcoming svc d want [] = ret None"
| "find_upcoming svc d want (raw # raws) =
    bind (normalize_for_dialog svc d raw) (\<lambda>m.
    if of_dialog d m \<and> want m then ret (Some m) else find_upcoming svc d want raws)"

definition shorten :: "string \<Rightarrow> string" where
  "shorten s = (if length s > 120 then take 117 s @ ''...'' else s)"

definition spaces_for_newlines :: "string \<Rightarrow> string" where
  "spaces_for_newlines = map (\<lambda>c. if [c] = newline then CHR '' '' else c)"

definition build_reply_preview :: "canonical_message \<Rightarrow> (string, canonical_message) dict \<Rightarrow> reply_preview option" where
  "build_reply_preview m cache =
    (if \<not> truthy (cmsg_source_reply_to_message_id m) then None
     else let target = or_empty (cmsg_source_reply_to_message_id m) in
       case dict_get cache target of
         None \<Rightarrow> Some \<lparr>rp_sent_at_utc = None, rp_author_display_name = ''source message #'' @ target,
           rp_excerpt = None\<rparr>
       | Some reply \<Rightarrow>
           let excerpt = shorten (spaces_for_newlines (py_strip
                 (or_empty (py_or (cmsg_body_plain reply) (cmsg_body_rendered reply)))))
           in Some \<lparr>rp_sent_at_utc = Some (cmsg_sent_at_utc reply),
             rp_author_display_name = cmsg_sender_display_name reply,
             rp_excerpt = (if excerpt = [] then None else Some excerpt)\<rparr>)"

section \<open>Claiming and settling a message\<close>

definition claim_message ::
    "'w import_services \<Rightarrow> string \<Rightarrow> string \<Rightarrow> canonical_message
      \<Rightarrow> ('w, claim_state \<times> message_mapping_record) import" where
  "claim_message svc migration target_chat m =
    bind (clock svc) (\<lambda>now. bind (clock svc) (\<lambda>stamp.
    in_messages (total_op (message_claim
      \<lparr>mm_migration_id = migration, mm_source_chat_id = cmsg_source_chat_id m,
       mm_source_message_id = cmsg_source_message_id m, mm_source_sent_at = cmsg_sent_at_utc m,
       mm_target_chat_id = target_chat, mm_checksum = checksum (is_checksum svc) m,
       mm_import_status = MsgProcessing, mm_imported_at = None, mm_target_sync_id = None,
       mm_rendered_body = None, mm_last_error_code = None, mm_last_error_payload = None\<rparr> now stamp))))"

definition key_of_message :: "string \<Rightarrow> canonical_message \<Rightarrow> message_key" where
  "key_of_message migration m = (migration, cmsg_source_chat_id m, cmsg_source_message_id m)"

definition fail_message :: "message_key \<Rightarrow> string \<Rightarrow> json \<Rightarrow> ('w, message_mapping_record) import" where
  "fail_message k code payload = in_messages (fallible_op (message_mark_failed k code payload))"

definition unsure_message ::
    "'w import_services \<Rightarrow> message_key \<Rightarrow> string \<Rightarrow> json \<Rightarrow> ('w, message_mapping_record) import" where
  "unsure_message svc k code payload = bind (clock svc) (\<lambda>now.
    in_messages (fallible_op (message_mark_ambiguous k code payload now)))"

definition import_message ::
    "'w import_services \<Rightarrow> message_key \<Rightarrow> string \<Rightarrow> string \<Rightarrow> ('w, message_mapping_record) import" where
  "import_message svc k sync_id body = bind (clock svc) (\<lambda>now.
    in_messages (fallible_op (message_mark_imported k sync_id body now)))"

definition attachment_failure_payload :: "delivery_result \<Rightarrow> (string \<times> json) list" where
  "attachment_failure_payload r = [(''reason'', JStr ''one or more attachments require replay''),
     (''attachments'', JList (map (\<lambda>o'. JObj [(''attachment_index'', JInt (ao_attachment_index o')),
        (''status'', JStr (attachment_status_value (ao_import_status o'))), (''phase'', JStr (ao_phase o')),
        (''reason'', json_opt_str (ao_reason o'))]) (blocking_failures r)))]"

text \<open>How a delivery ended, with the error the backfill raises for an ambiguous one.\<close>

datatype delivery_verdict = VerdictImported sent_message_ref | VerdictFailed | VerdictAmbiguous error

record settle_events =
  se_ambiguous :: string
  se_failed :: string
  se_attachment_ambiguous :: string
  se_attachment_failed :: string

definition settle_message ::
    "'w import_services \<Rightarrow> settle_events \<Rightarrow> string \<Rightarrow> canonical_message \<Rightarrow> ('w, delivery_result) delivery
      \<Rightarrow> ('w, delivery_verdict) import" where
  "settle_message svc ev migration m delivery =
    (let k = key_of_message migration m;
         audit = audit_import svc migration (Some (cmsg_source_chat_id m)) (Some (cmsg_source_message_id m))
     in bind (attempt (\<lambda>e. e = CancelledError \<or> is_ambiguous_error e \<or> is_item_error e) (in_delivery delivery)) (\<lambda>result.
     case result of
       Inl e \<Rightarrow>
         if e = CancelledError then
           bind (fail_message k cancelled_code (phase_payload ''message delivery cancelled'' ''delivery''))
             (\<lambda>_. throw CancelledError)
         else if is_ambiguous_error e then
           bind (unsure_message svc k (error_name e) (JObj [(''message'', JStr (error_text e))])) (\<lambda>_.
           bind (audit (se_ambiguous ev) SevError [(''error'', JStr (error_text e))]) (\<lambda>_.
           ret (VerdictAmbiguous e)))
         else
           bind (fail_message k (error_name e) (JObj [(''message'', JStr (error_text e))])) (\<lambda>_.
           bind (audit (se_failed ev) SevError [(''error'', JStr (error_text e))]) (\<lambda>_.
           ret VerdictFailed))
     | Inr d \<Rightarrow>
         bind (import_message svc k (sm_target_sync_id (dr_sent_message d)) (dr_rendered_body d)) (\<lambda>_.
         if has_blocking_failures d then
           let payload = attachment_failure_payload d in
           if has_ambiguous_failures d then
             bind (unsure_message svc k ''AttachmentDeliveryAmbiguous'' (JObj payload)) (\<lambda>_.
             bind (audit (se_attachment_ambiguous ev) SevError payload) (\<lambda>_.
             ret (VerdictAmbiguous (AmbiguousDeliveryError
               ''attachment delivery is ambiguous after primary message import''))))
           else
             bind (fail_message k ''AttachmentDeliveryIncomplete'' (JObj payload)) (\<lambda>_.
             bind (audit (se_attachment_failed ev) SevError payload) (\<lambda>_. ret VerdictFailed))
         else ret (VerdictImported (dr_sent_message d)))))"

definition delivery_context_of :: "string \<Rightarrow> canonical_message \<Rightarrow> string \<Rightarrow> delivery_context" where
  "delivery_context_of migration m target_chat =
    \<lparr>dx_migration_id = migration, dx_canonical = m, dx_target_chat_id = target_chat\<rparr>"

end
