(* ===== verification/Import_Facts.thy ===== *)
theory Import_Facts
  imports Import_Steps
begin

text \<open>
  What the shared steps of the importing use cases do to their ledger: the message records and the
  checkpoints. Most steps are \<open>quiet\<close>, they leave it alone; a claim and the settling of a delivery
  write one message record, passing a message writes one checkpoint. \<open>follows\<close> is the postcondition
  rule over the ledger.
\<close>

named_theorems quiet \<open>steps that leave the ledger alone\<close>
named_theorems follow \<open>rules for steps that follow the ledger\<close>

type_synonym ledger = "message_repo \<times> checkpoint_repo"

definition ledger :: "'w import_state \<Rightarrow> ledger" where
  "ledger s = (im_messages s, im_checkpoints s)"

section \<open>Quiet steps\<close>

definition is_quiet :: "('w, 'a) import \<Rightarrow> bool" where
  "is_quiet m \<longleftrightarrow> (\<forall>s. ledger (snd (m s)) = ledger s \<and> im_chats (snd (m s)) = im_chats s)"

lemma is_quietD: "is_quiet m \<Longrightarrow> m s = (r, s') \<Longrightarrow> ledger s' = ledger s \<and> im_chats s' = im_chats s"
  unfolding is_quiet_def by (metis snd_conv)

lemma quiet_ret [quiet]: "is_quiet (ret a)"
  by (simp add: is_quiet_def ret_def)

lemma quiet_throw [quiet]: "is_quiet (throw e)"
  by (simp add: is_quiet_def throw_def)

lemma quiet_get [quiet]: "is_quiet (get_state f)"
  by (simp add: is_quiet_def get_state_def)

lemma quiet_lift [quiet]: "is_quiet (lift_outcome r)"
  by (simp add: is_quiet_def lift_outcome_def)

lemma quiet_modify:
  "(\<And>s. ledger (f s) = ledger s) \<Longrightarrow> (\<And>s. im_chats (f s) = im_chats s) \<Longrightarrow> is_quiet (modify f)"
  by (simp add: is_quiet_def modify_def)

lemma quiet_bind [quiet]:
  assumes "is_quiet m" and "\<And>a. is_quiet (f a)"
  shows "is_quiet (bind m f)"
  unfolding is_quiet_def
proof
  fix s
  obtain r s1 where m: "m s = (r, s1)" by fastforce
  show "ledger (snd (bind m f s)) = ledger s \<and> im_chats (snd (bind m f s)) = im_chats s"
    using is_quietD [OF assms(1) m] is_quietD [OF assms(2)]
    by (cases r; cases "f (projr r) s1") (simp_all add: bind_def m)
qed

lemma quiet_catch [quiet]:
  assumes "is_quiet m" and "\<And>e h. handler e = Some h \<Longrightarrow> is_quiet h"
  shows "is_quiet (catch_error m handler)"
  unfolding is_quiet_def
proof
  fix s
  obtain r s1 where m: "m s = (r, s1)" by fastforce
  show "ledger (snd (catch_error m handler s)) = ledger s \<and> im_chats (snd (catch_error m handler s)) = im_chats s"
    using is_quietD [OF assms(1) m] assms(2)
    by (auto simp: catch_error_def m is_quiet_def split: sum.split option.split)
qed

lemma quiet_delivery [quiet]: "is_quiet (in_delivery m)"
  by (simp add: is_quiet_def in_delivery_def on_part_def ledger_def split: prod.split)

lemma quiet_directory [quiet]: "is_quiet (in_directory m)"
  by (simp add: is_quiet_def in_directory_def on_part_def ledger_def split: prod.split)

lemma quiet_steps [quiet]:
  "is_quiet (clock svc)" "is_quiet (normalize_message svc raw)" "is_quiet (fetch_history svc d cursor n)"
  "is_quiet (resolve_prefetched svc backend media task)"
  unfolding clock_def normalize_message_def fetch_history_def resolve_prefetched_def Let_def
  by (auto intro!: quiet split: option.split if_splits)

lemma quiet_audit [quiet]: "is_quiet (audit_import svc mig chat msg t sev p)"
  unfolding audit_import_def by (intro quiet quiet_modify) (simp_all add: ledger_def)

lemma quiet_cleanup [quiet]: "is_quiet (cleanup_task svc backend media task)"
  unfolding cleanup_task_def by (intro quiet quiet_modify) (simp_all add: ledger_def discard_prefetched_def)

section \<open>Following the ledger\<close>

definition follows ::
    "(ledger \<Rightarrow> bool) \<Rightarrow> ('w, 'a) import \<Rightarrow> ('a \<Rightarrow> ledger \<Rightarrow> bool) \<Rightarrow> (error \<Rightarrow> ledger \<Rightarrow> bool) \<Rightarrow> bool" where
  "follows P m R E \<longleftrightarrow> meets (\<lambda>s. P (ledger s)) m (\<lambda>r s. R r (ledger s)) (\<lambda>e s. E e (ledger s))"

lemma follows_result: "follows P m R E \<Longrightarrow> P (ledger s) \<Longrightarrow> m s = (Inr a, s') \<Longrightarrow> R a (ledger s')"
  unfolding follows_def by (rule meets_result)

lemma follows_error: "follows P m R E \<Longrightarrow> P (ledger s) \<Longrightarrow> m s = (Inl e, s') \<Longrightarrow> E e (ledger s')"
  unfolding follows_def by (rule meets_error)

lemma followsI:
  assumes "\<And>s a s'. P (ledger s) \<Longrightarrow> m s = (Inr a, s') \<Longrightarrow> R a (ledger s')"
    and "\<And>s e s'. P (ledger s) \<Longrightarrow> m s = (Inl e, s') \<Longrightarrow> E e (ledger s')"
  shows "follows P m R E"
  unfolding follows_def using assms by (intro meetsI) blast+

lemma follows_quiet:
  assumes "is_quiet m" and "\<And>a l. P l \<Longrightarrow> R a l" and "\<And>e l. P l \<Longrightarrow> E e l"
  shows "follows P m R E"
  using assms is_quietD [OF assms(1)] by (intro followsI) metis+

lemma follows_ret: "(\<And>l. P l \<Longrightarrow> R a l) \<Longrightarrow> follows P (ret a) R E"
  unfolding follows_def by (rule meets_ret)

lemma follows_throw: "(\<And>l. P l \<Longrightarrow> E e l) \<Longrightarrow> follows P (throw e) R E"
  unfolding follows_def by (rule meets_throw)

lemma follows_bind:
  assumes "follows P m R E" and "\<And>a. follows (R a) (f a) Q E"
  shows "follows P (bind m f) Q E"
  using assms unfolding follows_def by (rule meets_bind)

text \<open>A quiet step first.\<close>

lemma follows_after:
  assumes "is_quiet m" and "\<And>a. follows P (f a) Q E" and "\<And>e l. P l \<Longrightarrow> E e l"
  shows "follows P (bind m f) Q E"
  by (rule follows_bind [where R = "\<lambda>_. P"]) (auto intro: follows_quiet assms)

lemma follows_pre: "follows P m R E \<Longrightarrow> (\<And>l. P' l \<Longrightarrow> P l) \<Longrightarrow> follows P' m R E"
  unfolding follows_def by (erule meets_pre) blast

lemma follows_post:
  "follows P m R E \<Longrightarrow> (\<And>r l. R r l \<Longrightarrow> R' r l) \<Longrightarrow> (\<And>e l. E e l \<Longrightarrow> E' e l) \<Longrightarrow> follows P m R' E'"
  unfolding follows_def by (erule meets_post) auto

lemma follows_assume: "(B \<Longrightarrow> follows P m R E) \<Longrightarrow> follows (\<lambda>l. B \<and> P l) m R E"
  by (cases B) (auto simp: follows_def meets_def)

lemma follows_on_error:
  assumes "follows P m R E" and "is_quiet c" and "\<And>e l. E e l \<Longrightarrow> E' e l" and "\<And>e e' l. E e l \<Longrightarrow> E' e' l"
  shows "follows P (on_error c m) R E'"
proof -
  have "follows (E e) (bind c (\<lambda>_. throw e)) R E'" for e
    by (rule follows_after [OF assms(2)]) (auto intro: follows_throw assms(3,4))
  then show ?thesis
    using assms(1) unfolding on_error_def follows_def by (intro meets_catch) auto
qed

text \<open>Reading the clock and auditing cannot fail.\<close>

lemma clock_total: "\<exists>t w. clock svc s = (Inr t, s\<lparr>im_delivery := (im_delivery s)\<lparr>dl_world := w\<rparr>\<rparr>)"
  by (cases "sv_now (is_delivery svc) (dl_world (im_delivery s))")
    (auto simp: clock_def in_delivery_def now_at_def Delivery.in_world_def on_part_def total_op_def)

lemma follows_clock [follow]: "(\<And>a l. P l \<Longrightarrow> R a l) \<Longrightarrow> follows P (clock svc) R E"
  by (rule followsI) (metis clock_total is_quietD prod.inject quiet_steps(1) sum.distinct(1) sum.inject(2))+

lemma follows_audit [follow]:
  assumes "\<And>a l. P l \<Longrightarrow> R a l"
  shows "follows P (audit_import svc mig chat msg t sev p) R E"
  unfolding audit_import_def
  by (rule follows_bind [where R = "\<lambda>_. P"])
    (auto intro!: follow followsI simp: modify_def ledger_def assms)

section \<open>Settled messages\<close>

text \<open>A message that is imported, or has failed for a reason other than a cancellation.\<close>

definition settled_record :: "message_mapping_record \<Rightarrow> bool" where
  "settled_record r \<longleftrightarrow> mm_import_status r = MsgImported
    \<or> mm_import_status r = MsgFailed \<and> \<not> is_cancel_code (mm_last_error_code r)"

definition message_settled :: "message_repo \<Rightarrow> message_key \<Rightarrow> bool" where
  "message_settled M k \<longleftrightarrow> (\<exists>r. message_get M k = Some r \<and> settled_record r)"

text \<open>The checkpoints are \<open>C\<close>, the repository is consistent and the messages of \<open>K\<close> are settled.\<close>

definition settled_all :: "checkpoint_repo \<Rightarrow> message_key set \<Rightarrow> ledger \<Rightarrow> bool" where
  "settled_all C K l \<longleftrightarrow> snd l = C \<and> message_inv (fst l) \<and> (\<forall>k \<in> K. message_settled (fst l) k)"

lemma settled_allD: "settled_all C K l \<Longrightarrow> message_inv (fst l)" "settled_all C K l \<Longrightarrow> k \<in> K \<Longrightarrow> message_settled (fst l) k"
  by (simp_all add: settled_all_def)

lemma settled_not_ambiguous:
  assumes "message_inv M" and "message_settled M k"
  shows "k \<notin> mr_ambiguous M"
  using assms(2) message_invD(2) [OF assms(1), of k] by (auto simp: message_settled_def settled_record_def)

text \<open>A settled message is never granted again.\<close>

lemma settled_not_claimed:
  assumes "message_inv M" and "message_settled M (message_key r)"
  shows "fst (fst (message_claim r now stamp M)) \<noteq> Claimed"
  using settled_not_ambiguous [OF assms] assms(2)
  by (auto simp: message_settled_def settled_record_def message_claim_def message_get_def Let_def)

lemma claim_answer_settled:
  assumes "message_inv M" and "fst (fst (message_claim r now stamp M)) = st" and "st = ClaimImported \<or> st = ClaimFailed"
  shows "message_settled M (message_key r)"
  using assms(2,3)
  by (auto simp: message_settled_def settled_record_def message_claim_def message_get_def Let_def
      split: option.splits if_splits)

lemma settled_write:
  assumes "settled_all C K l" and "message_key r = k" and "k \<notin> K"
  shows "settled_all C K (message_write k r c (fst l), snd l)"
  using assms message_inv_write [OF settled_allD(1) [OF assms(1)] assms(2)]
  by (auto simp: settled_all_def message_settled_def)

lemma settled_write_insert:
  assumes "settled_all C K l" and "message_key r = k" and "settled_record r"
  shows "settled_all C (insert k K) (message_write k r c (fst l), snd l)"
  using assms message_inv_write [OF settled_allD(1) [OF assms(1)] assms(2)]
  by (auto simp: settled_all_def message_settled_def)

lemma ledger_messages: "ledger (s\<lparr>im_messages := M\<rparr>) = (M, snd (ledger s))"
  by (simp add: ledger_def)

lemma follows_claim:
  "follows (settled_all C K) (claim_message svc mig target m)
    (\<lambda>(st, r) l. settled_all C K l \<and> message_get (fst l) (key_of_message mig m) = Some r
      \<and> (st = Claimed \<longrightarrow> key_of_message mig m \<notin> K)
      \<and> (st = ClaimImported \<or> st = ClaimFailed \<longrightarrow> message_settled (fst l) (key_of_message mig m))) E"
proof -
  let ?r = "\<lparr>mm_migration_id = mig, mm_source_chat_id = cmsg_source_chat_id m,
       mm_source_message_id = cmsg_source_message_id m, mm_source_sent_at = cmsg_sent_at_utc m,
       mm_target_chat_id = target, mm_checksum = checksum (is_checksum svc) m,
       mm_import_status = MsgProcessing, mm_imported_at = None, mm_target_sync_id = None,
       mm_rendered_body = None, mm_last_error_code = None, mm_last_error_payload = None\<rparr>"
  let ?k = "key_of_message mig m"
  have key: "message_key ?r = ?k" and sub: "message_submission ?r"
    by (simp_all add: message_key_def key_of_message_def message_submission_def)
  let ?Q = "\<lambda>(st, r) l. settled_all C K l \<and> message_get (fst l) ?k = Some r \<and> (st = Claimed \<longrightarrow> ?k \<notin> K)
      \<and> (st = ClaimImported \<or> st = ClaimFailed \<longrightarrow> message_settled (fst l) ?k)"
  have step: "follows (settled_all C K) (in_messages (total_op (message_claim ?r now stamp))) ?Q E" for now stamp
  proof (rule followsI)
    fix s p s'
    assume ok: "settled_all C K (ledger s)"
      and run: "in_messages (total_op (message_claim ?r now stamp)) s = (Inr p, s')"
    then have inv: "message_inv (im_messages s)" by (simp add: settled_all_def ledger_def)
    have eq: "message_claim ?r now stamp (im_messages s) = (p, im_messages s')" "im_checkpoints s' = im_checkpoints s"
      using run by (auto simp: in_messages_def on_part_def total_op_def split: prod.splits)
    note answer = claim_answer_settled [OF inv, of ?r now stamp]
    show "?Q p (ledger s')"
      using inv sub
    proof (cases rule: message_claim_cases [where now = now and c = stamp])
      case (refuse st e)
      with eq ok key answer [of st] show ?thesis by (auto simp: ledger_def)
    next
      case (grant r')
      then have "?k \<notin> K"
        using ok settled_not_claimed [OF inv, of ?r now stamp] key by (auto simp: settled_all_def ledger_def)
      with grant eq ok key settled_write [of C K "ledger s" r' ?k stamp] show ?thesis by (auto simp: ledger_def)
    qed
  next
    fix s e s'
    assume "in_messages (total_op (message_claim ?r now stamp)) s = (Inl e, s')"
    then show "E e (ledger s')" by (simp add: in_messages_def on_part_def total_op_def split: prod.splits)
  qed
  have clocked: "follows (settled_all C K) (clock svc) (\<lambda>_. settled_all C K) E" by (rule follows_clock)
  show ?thesis
    unfolding claim_message_def by (intro follows_bind [OF clocked] step)
qed

text \<open>The marks: each writes the record of one message, which is claimed.\<close>

definition has_record :: "message_key \<Rightarrow> ledger \<Rightarrow> bool" where
  "has_record k l \<longleftrightarrow> message_get (fst l) k \<noteq> None"

text \<open>The message \<open>k\<close> is being worked on, the messages of \<open>K\<close> are settled.\<close>

definition working :: "message_key \<Rightarrow> checkpoint_repo \<Rightarrow> message_key set \<Rightarrow> ledger \<Rightarrow> bool" where
  "working k C K l \<longleftrightarrow> settled_all C K l \<and> k \<notin> K \<and> has_record k l"

definition marked :: "message_key \<Rightarrow> checkpoint_repo \<Rightarrow> message_key set \<Rightarrow> (message_mapping_record \<Rightarrow> bool) \<Rightarrow> ledger \<Rightarrow> bool" where
  "marked k C K W l \<longleftrightarrow> working k C K l \<and> (\<exists>r. message_get (fst l) k = Some r \<and> W r)"

lemma marked_working: "marked k C K W l \<Longrightarrow> working k C K l"
  by (simp add: marked_def)

lemma working_settled_all: "working k C K l \<Longrightarrow> settled_all C K l"
  by (simp add: working_def)

lemma marked_settled: "marked k C K settled_record l \<Longrightarrow> settled_all C (insert k K) l"
  by (auto simp: marked_def working_def settled_all_def message_settled_def)

lemma working_write:
  assumes "working k C K l" and "message_key r = k" and "W r"
  shows "marked k C K W (message_write k r c (fst l), snd l)"
  using assms settled_write [of C K l r k c]
  by (auto simp: marked_def working_def has_record_def)

lemma follows_mark:
  assumes done_: "\<And>M r M'. message_inv M \<Longrightarrow> f M = Inr (r, M') \<Longrightarrow>
      message_key r = k \<and> (\<exists>c. M' = message_write k r c M) \<and> W r"
    and raised: "\<And>M e. f M = Inl e \<Longrightarrow> message_get M k = None"
  shows "follows (working k C K) (in_messages (fallible_op f)) (\<lambda>_. marked k C K W) E"
proof (rule followsI)
  fix s r s'
  assume ok: "working k C K (ledger s)" and run: "in_messages (fallible_op f) s = (Inr r, s')"
  then have eq: "f (im_messages s) = Inr (r, im_messages s')" "im_checkpoints s' = im_checkpoints s"
    by (auto simp: in_messages_def on_part_def fallible_op_def split: prod.splits sum.splits)
  have inv: "message_inv (im_messages s)" using ok by (simp add: working_def settled_all_def ledger_def)
  from done_ [OF inv eq(1)] obtain c where c: "message_key r = k" "im_messages s' = message_write k r c (im_messages s)" "W r"
    by blast
  with eq(2) working_write [where W = W, OF ok c(1,3), of c] show "marked k C K W (ledger s')" by (simp add: ledger_def)
next
  fix s e s'
  assume ok: "working k C K (ledger s)" and run: "in_messages (fallible_op f) s = (Inl e, s')"
  then have "f (im_messages s) = Inl e"
    by (auto simp: in_messages_def on_part_def fallible_op_def split: prod.splits sum.splits)
  with raised ok show "E e (ledger s')" by (auto simp: working_def has_record_def ledger_def)
qed

lemma mark_raises:
  "message_mark_failed k code payload M = Inl e \<Longrightarrow> message_get M k = None"
  "message_mark_ambiguous k code payload now M = Inl e \<Longrightarrow> message_get M k = None"
  "message_mark_imported k sync_id body now M = Inl e \<Longrightarrow> message_get M k = None"
  by (auto simp: message_mark_failed_def message_mark_ambiguous_def message_mark_imported_def message_get_def Let_def
      split: option.splits)

lemma follows_fail_message:
  "follows (working k C K) (fail_message k code payload)
    (\<lambda>_. marked k C K (\<lambda>r. mm_import_status r = MsgFailed \<and> mm_last_error_code r = Some code)) E"
  unfolding fail_message_def
  by (rule follows_mark) (blast dest: message_mark_failed_Inr mark_raises)+

lemma follows_unsure_message:
  "follows (working k C K) (unsure_message svc k code payload)
    (\<lambda>_. marked k C K (\<lambda>r. mm_import_status r = MsgAmbiguous)) E"
  unfolding unsure_message_def
  by (rule follows_bind [OF follows_clock], assumption, rule follows_mark)
    (blast dest: message_mark_ambiguous_Inr mark_raises)+

lemma follows_import_message:
  "follows (working k C K) (import_message svc k sync_id body)
    (\<lambda>_. marked k C K (\<lambda>r. mm_import_status r = MsgImported \<and> mm_target_sync_id r = Some sync_id)) E"
  unfolding import_message_def
  by (rule follows_bind [OF follows_clock], assumption, rule follows_mark)
    (blast dest: message_mark_imported_Inr mark_raises)+

section \<open>Settling a delivery\<close>

text \<open>What a claimed message is after its delivery was settled, and after it raised.\<close>

fun verdict_record :: "delivery_verdict \<Rightarrow> message_mapping_record \<Rightarrow> bool" where
  "verdict_record (VerdictImported sent) r \<longleftrightarrow> mm_import_status r = MsgImported
     \<and> mm_target_sync_id r = Some (sm_target_sync_id sent)"
| "verdict_record VerdictFailed r \<longleftrightarrow> mm_import_status r = MsgFailed \<and> \<not> is_cancel_code (mm_last_error_code r)"
| "verdict_record (VerdictAmbiguous _) r \<longleftrightarrow> mm_import_status r = MsgAmbiguous"

definition raised_record :: "error \<Rightarrow> message_mapping_record \<Rightarrow> bool" where
  "raised_record e r \<longleftrightarrow> (e = CancelledError \<longrightarrow> mm_import_status r = MsgFailed \<and> mm_last_error_code r = Some cancelled_code)"

lemma item_error_code: "is_item_error e \<Longrightarrow> \<not> is_cancel_code (Some (error_name e))"
  by (cases e) (simp_all add: is_cancel_code_def cancelled_code_def cancel_requested_code_def)

lemma incomplete_code: "\<not> is_cancel_code (Some ''AttachmentDeliveryIncomplete'')"
  by (simp add: is_cancel_code_def cancelled_code_def cancel_requested_code_def)

lemma quiet_attempt [quiet]: "is_quiet m \<Longrightarrow> is_quiet (attempt takes m)"
  unfolding is_quiet_def attempt_def
  by (auto split: prod.split sum.split) (metis snd_conv)+

lemma follows_attempt:
  assumes "is_quiet m"
  shows "follows P (attempt takes m) (\<lambda>r l. P l \<and> (\<forall>e. r = Inl e \<longrightarrow> takes e)) (\<lambda>e l. P l \<and> \<not> takes e)"
proof (rule followsI)
  fix s r s'
  assume P: "P (ledger s)" and run: "attempt takes m s = (Inr r, s')"
  from run have "\<forall>e. r = Inl e \<longrightarrow> takes e" by (auto simp: attempt_def split: prod.splits sum.splits if_splits)
  with P is_quietD [OF quiet_attempt [OF assms] run] show "P (ledger s') \<and> (\<forall>e. r = Inl e \<longrightarrow> takes e)" by simp
next
  fix s e s'
  assume P: "P (ledger s)" and run: "attempt takes m s = (Inl e, s')"
  from run have "\<not> takes e" by (auto simp: attempt_def split: prod.splits sum.splits if_splits)
  with P is_quietD [OF quiet_attempt [OF assms] run] show "P (ledger s') \<and> \<not> takes e" by simp
qed

text \<open>What is known when it raised.\<close>

definition interrupted :: "message_key \<Rightarrow> checkpoint_repo \<Rightarrow> message_key set \<Rightarrow> error \<Rightarrow> ledger \<Rightarrow> bool" where
  "interrupted k C K e l \<longleftrightarrow> working k C K l \<and> (\<exists>r. message_get (fst l) k = Some r \<and> raised_record e r)"

lemma interruptedI: "marked k C K W l \<Longrightarrow> (\<And>r. W r \<Longrightarrow> raised_record e r) \<Longrightarrow> interrupted k C K e l"
  by (auto simp: interrupted_def marked_def)

lemma interrupted_other: "working k C K l \<Longrightarrow> e \<noteq> CancelledError \<Longrightarrow> interrupted k C K e l"
  by (auto simp: interrupted_def working_def has_record_def raised_record_def)

lemma marked_mono: "marked k C K W l \<Longrightarrow> (\<And>r. W r \<Longrightarrow> W' r) \<Longrightarrow> marked k C K W' l"
  by (auto simp: marked_def)

lemma follows_settle:
  assumes k: "key_of_message mig m = k"
  shows "follows (working k C K) (settle_message svc ev mig m delivery)
    (\<lambda>v. marked k C K (verdict_record v)) (interrupted k C K)"
proof -
  let ?takes = "\<lambda>e. e = CancelledError \<or> is_ambiguous_error e \<or> is_item_error e"
  have attempted: "follows (working k C K) (attempt ?takes (in_delivery delivery))
      (\<lambda>r l. (\<forall>e. r = Inl e \<longrightarrow> ?takes e) \<and> working k C K l) (interrupted k C K)"
    by (rule follows_post [OF follows_attempt [OF quiet_delivery]]) (auto intro: interrupted_other)
  have report: "follows (marked k C K W) (bind (audit_import svc mig c msg t sev p) (\<lambda>_. ret v))
      (\<lambda>v. marked k C K (verdict_record v)) (interrupted k C K)"
    if "\<And>r. W r \<Longrightarrow> verdict_record v r" for W c msg t sev p v
    by (rule follows_bind [where R = "\<lambda>_. marked k C K W"])
      (auto intro!: follow follows_ret elim: marked_mono that)
  have cancelled: "follows (working k C K) (bind (fail_message k cancelled_code q) (\<lambda>_. throw CancelledError))
      (\<lambda>v. marked k C K (verdict_record v)) (interrupted k C K)" for q
    by (rule follows_bind [OF follows_fail_message], rule follows_throw, erule interruptedI)
      (simp add: raised_record_def)
  have unsure: "follows (working k C K) (bind (unsure_message svc k code q) (\<lambda>_. bind (audit_import svc mig c msg t sev p)
      (\<lambda>_. ret (VerdictAmbiguous e)))) (\<lambda>v. marked k C K (verdict_record v)) (interrupted k C K)" for code q c msg t sev p e
    by (rule follows_bind [OF follows_unsure_message report]) simp
  have failed: "follows (working k C K) (bind (fail_message k code q) (\<lambda>_. bind (audit_import svc mig c msg t sev p)
      (\<lambda>_. ret VerdictFailed))) (\<lambda>v. marked k C K (verdict_record v)) (interrupted k C K)"
    if "\<not> is_cancel_code (Some code)" for code q c msg t sev p
    by (rule follows_bind [OF follows_fail_message report]) (use that in simp)
  have imported: "follows (working k C K) (bind (import_message svc k (sm_target_sync_id (dr_sent_message d)) body)
      (\<lambda>_. ret (VerdictImported (dr_sent_message d))))
      (\<lambda>v. marked k C K (verdict_record v)) (interrupted k C K)" for d body
    by (rule follows_bind [OF follows_import_message], rule follows_ret) (erule marked_mono, simp)
  have imported_then: "follows (working k C K) (bind (import_message svc k c body) (\<lambda>_. f))
      (\<lambda>v. marked k C K (verdict_record v)) (interrupted k C K)"
    if "follows (working k C K) f (\<lambda>v. marked k C K (verdict_record v)) (interrupted k C K)" for c body f
    by (rule follows_bind [OF follows_import_message], rule follows_pre [OF that]) (erule marked_working)
  show ?thesis
    unfolding settle_message_def Let_def k
    by (rule follows_bind [OF attempted], rule follows_assume)
      (auto intro!: cancelled unsure failed imported imported_then incomplete_code item_error_code split: sum.split)
qed

section \<open>Checkpoints\<close>

definition cursor_of :: "canonical_message \<Rightarrow> history_cursor" where
  "cursor_of m = \<lparr>hc_last_source_message_id = Some (cmsg_source_message_id m),
     hc_last_source_sent_at = Some (cmsg_sent_at_utc m)\<rparr>"

definition stored_cursor :: "string \<times> string \<times> string \<Rightarrow> checkpoint_repo \<Rightarrow> history_cursor option" where
  "stored_cursor k C = map_option cp_cursor (checkpoint_get C k)"

lemma follows_advance:
  "follows (settled_all C K) (advance_checkpoint svc mig chat mode m)
    (\<lambda>cursor l. cursor = cursor_of m \<and> (\<exists>C'. settled_all C' K l \<and> stored_cursor (mig, chat, mode) C' = Some cursor)) E"
proof -
  let ?cp = "\<lambda>now. \<lparr>cp_migration_id = mig, cp_source_chat_id = chat, cp_mode = mode, cp_cursor = cursor_of m,
    cp_updated_at = now\<rparr>"
  have saved: "follows (settled_all C K) (bind (modify (\<lambda>s. s\<lparr>im_checkpoints := checkpoint_save (?cp now) (im_checkpoints s)\<rparr>))
      (\<lambda>_. ret (cursor_of m)))
      (\<lambda>cursor l. cursor = cursor_of m \<and> (\<exists>C'. settled_all C' K l \<and> stored_cursor (mig, chat, mode) C' = Some cursor)) E" for now
    by (rule followsI)
      (auto simp: bind_def modify_def ret_def ledger_def settled_all_def stored_cursor_def checkpoint_save_def
        checkpoint_get_def checkpoint_key_def)
  show ?thesis
    unfolding advance_checkpoint_def Let_def cursor_of_def [symmetric]
    by (rule follows_bind [OF follows_clock saved])
qed

end
