(* ===== verification/Backfill.thy ===== *)
theory Backfill
  imports Import_Steps
begin

text \<open>
  \<open>BackfillChatUseCase\<close> of \<open>use_cases/backfill_chat.py\<close>: the history of one chat, batch by batch
  from the stored checkpoint on. Every message of the dialog is claimed, delivered and settled before
  the checkpoint moves past it. The loop over the batches ends when the gateway has no more; it is a
  \<open>repeat_rounds\<close>, whose result is None if it never ends.
\<close>

section \<open>The use case\<close>

record backfill_command =
  bfc_manifest :: migration_manifest
  bfc_source_chat_id :: string
  bfc_batch_size :: int

record backfill_result =
  br_migration_id :: string
  br_source_chat_id :: string
  br_target_chat_id :: string
  br_imported_count :: nat
  br_skipped_count :: nat
  br_failed_count :: nat
  br_last_source_message_id :: "string option"

record batch_entry =
  be_canonical :: canonical_message
  be_source_chat_title :: "string option"
  be_should_deliver :: bool
  be_stop_after :: bool

text \<open>The variables of the loop.\<close>

record backfill_progress =
  bp_cursor :: "history_cursor option"
  bp_last :: "string option"
  bp_imported :: nat
  bp_skipped :: nat
  bp_failed :: nat
  bp_cache :: "(string, canonical_message) dict"

text \<open>A range of the source to copy: the dialog, its target chat and the bounds on the sending time.\<close>

record backfill_plan =
  pl_dialog :: manifest_dialog
  pl_target :: chat_mapping_record
  pl_from :: "datetime option"
  pl_to :: "datetime option"

definition bfc_migration_id :: "backfill_command \<Rightarrow> string" where
  "bfc_migration_id c = mf_migration_id (bfc_manifest c)"

definition belongs :: "manifest_dialog \<Rightarrow> canonical_message \<Rightarrow> bool" where
  "belongs d m = matches_source_message d (cmsg_source_message_id m) (cmsg_source_thread_id m)"

definition build_entry ::
    "backfill_plan \<Rightarrow> string option \<Rightarrow> telegram_source_message \<Rightarrow> canonical_message \<Rightarrow> batch_entry" where
  "build_entry pl dialog_title raw m =
    (let d = pl_dialog pl; sent = cmsg_sent_at_utc m;
         early = (case pl_from pl of None \<Rightarrow> False | Some t \<Rightarrow> sent < t);
         late = (case pl_to pl of None \<Rightarrow> False | Some t \<Rightarrow> sent > t);
         stop = (belongs d m \<and> \<not> early \<and> late)
     in \<lparr>be_canonical = m,
         be_source_chat_title = py_or (dlg_source_thread_title d) (py_or dialog_title (tm_chat_title raw)),
         be_should_deliver = (belongs d m \<and> \<not> early \<and> \<not> late), be_stop_after = stop\<rparr>)"

fun build_batch_entries ::
    "'w import_services \<Rightarrow> backfill_command \<Rightarrow> backfill_plan \<Rightarrow> string option
      \<Rightarrow> telegram_source_message list \<Rightarrow> (string, canonical_message) dict
      \<Rightarrow> ('w, batch_entry list \<times> (string, canonical_message) dict) import" where
  "build_batch_entries svc c pl title [] cache = ret ([], cache)"
| "build_batch_entries svc c pl title (raw # raws) cache =
    bind (normalize_message svc raw) (\<lambda>m0.
    let m = rehome (bfc_source_chat_id c) m0;
        cache' = (if belongs (pl_dialog pl) m then dict_set (cmsg_source_message_id m) m cache else cache);
        e = build_entry pl title raw m
    in if be_stop_after e then ret ([e], cache')
       else bind (build_batch_entries svc c pl title raws cache') (\<lambda>(es, cache''). ret (e # es, cache'')))"

definition backfill_events :: settle_events where
  "backfill_events = \<lparr>se_ambiguous = ''message_delivery_ambiguous'', se_failed = ''message_import_failed'',
     se_attachment_ambiguous = ''message_attachment_delivery_ambiguous'',
     se_attachment_failed = ''message_attachment_delivery_failed''\<rparr>"

definition backfill_media :: "backfill_command \<Rightarrow> backfill_plan \<Rightarrow> bool" where
  "backfill_media c pl = resolve_migrate_media (bfc_manifest c) (pl_dialog pl)"

definition backfill_cleanup :: "'w import_services \<Rightarrow> backfill_command \<Rightarrow> backfill_plan \<Rightarrow> prefetch_task \<Rightarrow> ('w, unit) import" where
  "backfill_cleanup svc c pl = cleanup_task svc (dlg_source_backend (pl_dialog pl)) (backfill_media c pl)"

text \<open>\<open>cursor = await self._advance_checkpoint(...)\<close> and the last message id.\<close>

definition pass_message ::
    "'w import_services \<Rightarrow> backfill_command \<Rightarrow> canonical_message \<Rightarrow> backfill_progress \<Rightarrow> ('w, backfill_progress) import" where
  "pass_message svc c m p =
    bind (advance_checkpoint svc (bfc_migration_id c) (bfc_source_chat_id c) ''backfill'' m) (\<lambda>cursor.
    ret (p\<lparr>bp_cursor := Some cursor, bp_last := Some (cmsg_source_message_id m)\<rparr>))"

definition backfill_deliver ::
    "'w import_services \<Rightarrow> backfill_command \<Rightarrow> backfill_plan \<Rightarrow> batch_entry \<Rightarrow> (string, canonical_message) dict
      \<Rightarrow> prefetched_attachment list \<Rightarrow> ('w, delivery_result) delivery" where
  "backfill_deliver svc c pl e cache prefetched =
    (let m = be_canonical e in
     deliver (is_delivery svc) (delivery_context_of (bfc_migration_id c) m (cm_target_chat_id (pl_target pl)))
       (dlg_source_backend (pl_dialog pl)) (be_source_chat_title e) (build_reply_preview m cache)
       (backfill_media c pl) (resolve_reply_mode (bfc_manifest c) (pl_dialog pl)) None None False prefetched)"

text \<open>One entry of a batch, with the prefetching task for it: whether to stop, and the variables.\<close>

definition backfill_entry ::
    "'w import_services \<Rightarrow> backfill_command \<Rightarrow> backfill_plan \<Rightarrow> batch_entry \<Rightarrow> prefetch_task \<Rightarrow> backfill_progress
      \<Rightarrow> ('w, bool \<times> backfill_progress) import" where
  "backfill_entry svc c pl e task p =
    (let m = be_canonical e in
     if \<not> be_should_deliver e then
       bind (backfill_cleanup svc c pl task) (\<lambda>_. bind (pass_message svc c m p) (\<lambda>p. ret (be_stop_after e, p)))
     else
       bind (claim_message svc (bfc_migration_id c) (cm_target_chat_id (pl_target pl)) m) (\<lambda>(state, _).
       case state of
         ClaimAmbiguous \<Rightarrow>
           bind (backfill_cleanup svc c pl task) (\<lambda>_.
           bind (audit_import svc (bfc_migration_id c) (Some (cmsg_source_chat_id m))
             (Some (cmsg_source_message_id m)) ''ambiguous_delivery_state'' SevError
             [(''reason'', JStr ''message is still marked as processing'')]) (\<lambda>_.
           throw (AmbiguousDeliveryError ''message is stuck in processing state; manual reconciliation required'')))
       | Claimed \<Rightarrow>
           bind (resolve_prefetched svc (dlg_source_backend (pl_dialog pl)) (backfill_media c pl) task) (\<lambda>ps.
           bind (settle_message svc backfill_events (bfc_migration_id c) m
             (backfill_deliver svc c pl e (bp_cache p) ps)) (\<lambda>verdict.
           case verdict of
             VerdictImported _ \<Rightarrow> bind (pass_message svc c m p) (\<lambda>p. ret (False, p\<lparr>bp_imported := bp_imported p + 1\<rparr>))
           | VerdictFailed \<Rightarrow> bind (pass_message svc c m (p\<lparr>bp_failed := bp_failed p + 1\<rparr>)) (\<lambda>p. ret (False, p))
           | VerdictAmbiguous err \<Rightarrow> throw err))
       | _ \<Rightarrow>
           bind (backfill_cleanup svc c pl task) (\<lambda>_.
           bind (pass_message svc c m (p\<lparr>bp_skipped := bp_skipped p + 1\<rparr>)) (\<lambda>p. ret (False, p)))))"

text \<open>The entries of a batch; the attachments of the next one are prefetched meanwhile.\<close>

fun backfill_entries ::
    "'w import_services \<Rightarrow> backfill_command \<Rightarrow> backfill_plan \<Rightarrow> batch_entry list \<Rightarrow> prefetch_task
      \<Rightarrow> backfill_progress \<Rightarrow> ('w, bool \<times> backfill_progress) import" where
  "backfill_entries svc c pl [] task p = ret (False, p)"
| "backfill_entries svc c pl (e # es) task p =
    (let upcoming = (case es of n # _ \<Rightarrow> if be_should_deliver n then Some (be_canonical n) else None | [] \<Rightarrow> None)
     in bind (on_error (backfill_cleanup svc c pl upcoming) (backfill_entry svc c pl e task p)) (\<lambda>(stop, p).
       if stop then bind (backfill_cleanup svc c pl upcoming) (\<lambda>_. ret (True, p))
       else backfill_entries svc c pl es upcoming p))"

definition backfill_round ::
    "'w import_services \<Rightarrow> backfill_command \<Rightarrow> backfill_plan \<Rightarrow> backfill_progress
      \<Rightarrow> ('w, bool \<times> backfill_progress) import" where
  "backfill_round svc c pl p =
    bind (fetch_history svc (pl_dialog pl) (bp_cursor p) (bfc_batch_size c)) (\<lambda>batch.
    if hb_messages batch = [] then ret (False, p)
    else bind (build_batch_entries svc c pl (hb_dialog_title batch) (hb_messages batch) (bp_cache p)) (\<lambda>(es, cache).
      bind (backfill_entries svc c pl es None (p\<lparr>bp_cache := cache\<rparr>)) (\<lambda>(stop, p).
      ret (hb_has_more batch \<and> \<not> stop, p))))"

definition backfill_start ::
    "'w import_services \<Rightarrow> backfill_command \<Rightarrow> ('w, backfill_plan \<times> backfill_progress) import" where
  "backfill_start svc c =
    bind (lift_outcome (dialog_for (bfc_manifest c) (bfc_source_chat_id c))) (\<lambda>d.
    bind (is_provision svc (bfc_migration_id c) d) (\<lambda>target.
    bind (lift_outcome (parse_optional_datetime svc (dlg_include_from d))) (\<lambda>early_bound.
    bind (lift_outcome (parse_optional_datetime svc (dlg_include_to d))) (\<lambda>late_bound.
    bind (get_state (\<lambda>s. checkpoint_get (im_checkpoints s) (bfc_migration_id c, bfc_source_chat_id c, ''backfill'')))
      (\<lambda>checkpoint.
      let cursor = map_option cp_cursor checkpoint in
      ret (\<lparr>pl_dialog = d, pl_target = target, pl_from = early_bound, pl_to = late_bound\<rparr>,
        \<lparr>bp_cursor = cursor, bp_last = Option.bind cursor hc_last_source_message_id, bp_imported = 0,
         bp_skipped = 0, bp_failed = 0, bp_cache = []\<rparr>))))))"

definition backfill_finish ::
    "'w import_services \<Rightarrow> backfill_command \<Rightarrow> backfill_plan \<Rightarrow> backfill_progress \<Rightarrow> ('w, backfill_result) import" where
  "backfill_finish svc c pl p =
    bind (if bp_failed p = 0 \<and> cm_status (pl_target pl) \<noteq> ''completed'' then
        bind (clock svc) (\<lambda>now. modify (\<lambda>s. s\<lparr>im_chats := chat_mapping_save
          ((pl_target pl)\<lparr>cm_status := ''completed'', cm_updated_at := now\<rparr>) (im_chats s)\<rparr>))
      else ret ()) (\<lambda>_.
    ret \<lparr>br_migration_id = bfc_migration_id c, br_source_chat_id = bfc_source_chat_id c,
      br_target_chat_id = cm_target_chat_id (pl_target pl), br_imported_count = bp_imported p,
      br_skipped_count = bp_skipped p, br_failed_count = bp_failed p, br_last_source_message_id = bp_last p\<rparr>)"

definition backfill ::
    "'w import_services \<Rightarrow> backfill_command \<Rightarrow> 'w import_state
      \<Rightarrow> ((error, backfill_result) outcome \<times> 'w import_state) option" where
  "backfill svc c s =
    (case backfill_start svc c s of
       (Inl e, s1) \<Rightarrow> Some (Inl e, s1)
     | (Inr (pl, p), s1) \<Rightarrow> (case repeat_rounds (backfill_round svc c pl) p s1 of
         None \<Rightarrow> None
       | Some (Inl e, s2) \<Rightarrow> Some (Inl e, s2)
       | Some (Inr p', s2) \<Rightarrow> Some (backfill_finish svc c pl p' s2)))"

end
