(* ===== verification/Replay.thy ===== *)
theory Replay
  imports Import_Steps
begin

text \<open>
  \<open>ReplayFailedUseCase\<close> of \<open>use_cases/replay_failed.py\<close>: the failed messages of a migration are
  looked for in the histories of their chats and delivered again, with the message sent before if
  there is one. A message is judged by its record at that moment; nothing is claimed. The set of
  the messages still to be found is a list without duplicates.
\<close>

section \<open>The use case\<close>

record replay_command =
  rfc_manifest :: migration_manifest
  rfc_source_chat_id :: "string option"
  rfc_limit :: int
  rfc_batch_size :: int

record replay_result =
  rr_migration :: string
  rr_requested :: nat
  rr_recovered :: nat
  rr_failed :: nat
  rr_ambiguous :: nat
  rr_missing :: nat
  rr_skipped :: nat
  rr_source_chat_ids :: "string list"

record replay_counts =
  rn_recovered :: nat
  rn_failed :: nat
  rn_ambiguous :: nat
  rn_missing :: nat
  rn_skipped :: nat

definition no_replays :: replay_counts where
  "no_replays = \<lparr>rn_recovered = 0, rn_failed = 0, rn_ambiguous = 0, rn_missing = 0, rn_skipped = 0\<rparr>"

definition add_replays :: "replay_counts \<Rightarrow> replay_counts \<Rightarrow> replay_counts" where
  "add_replays a b = \<lparr>rn_recovered = rn_recovered a + rn_recovered b, rn_failed = rn_failed a + rn_failed b,
     rn_ambiguous = rn_ambiguous a + rn_ambiguous b, rn_missing = rn_missing a + rn_missing b,
     rn_skipped = rn_skipped a + rn_skipped b\<rparr>"

text \<open>The loop over a chat's history.\<close>

record replay_progress =
  rp_cursor :: "history_cursor option"
  rp_remaining :: "string list"
  rp_cache :: "(string, canonical_message) dict"
  rp_counts :: replay_counts

text \<open>What the steps on one chat share.\<close>

record replay_chat_context =
  rx_manifest :: migration_manifest
  rx_dialog :: manifest_dialog
  rx_batch_size :: int

datatype replay_outcome = ReplayRecovered | ReplayFailed | ReplayAmbiguous | ReplayMissing | ReplaySkipped

fun count_replay :: "replay_outcome \<Rightarrow> replay_counts \<Rightarrow> replay_counts" where
  "count_replay ReplayRecovered n = n\<lparr>rn_recovered := rn_recovered n + 1\<rparr>"
| "count_replay ReplayFailed n = n\<lparr>rn_failed := rn_failed n + 1\<rparr>"
| "count_replay ReplayAmbiguous n = n\<lparr>rn_ambiguous := rn_ambiguous n + 1\<rparr>"
| "count_replay ReplayMissing n = n\<lparr>rn_missing := rn_missing n + 1\<rparr>"
| "count_replay ReplaySkipped n = n\<lparr>rn_skipped := rn_skipped n + 1\<rparr>"

definition rx_migration_id :: "replay_chat_context \<Rightarrow> string" where
  "rx_migration_id x = mf_migration_id (rx_manifest x)"

definition rx_media :: "replay_chat_context \<Rightarrow> bool" where
  "rx_media x = resolve_migrate_media (rx_manifest x) (rx_dialog x)"

definition replay_cleanup :: "'w import_services \<Rightarrow> replay_chat_context \<Rightarrow> prefetch_task \<Rightarrow> ('w, unit) import" where
  "replay_cleanup svc x = cleanup_task svc (dlg_source_backend (rx_dialog x)) (rx_media x)"

section \<open>One message\<close>

definition replay_events :: settle_events where
  "replay_events = \<lparr>se_ambiguous = ''failed_message_replay_ambiguous'', se_failed = ''failed_message_replay_failed'',
     se_attachment_ambiguous = ''failed_message_replay_attachment_ambiguous'',
     se_attachment_failed = ''failed_message_replay_attachment_failed''\<rparr>"

definition existing_primary :: "message_mapping_record \<Rightarrow> sent_message_ref option" where
  "existing_primary r = (if truthy (mm_target_sync_id r) then Some \<lparr>sm_target_chat_id = mm_target_chat_id r,
     sm_target_sync_id = or_empty (mm_target_sync_id r), sm_deduplicated = True\<rparr> else None)"

definition replay_message ::
    "'w import_services \<Rightarrow> replay_chat_context \<Rightarrow> canonical_message \<Rightarrow> message_mapping_record \<Rightarrow> string option
      \<Rightarrow> reply_preview option \<Rightarrow> prefetched_attachment list \<Rightarrow> ('w, replay_outcome) import" where
  "replay_message svc x m r title preview prefetched =
    bind (settle_message svc replay_events (rx_migration_id x) m
      (deliver (is_delivery svc) (delivery_context_of (rx_migration_id x) m (mm_target_chat_id r))
        (dlg_source_backend (rx_dialog x)) title preview (rx_media x) (resolve_reply_mode (rx_manifest x) (rx_dialog x))
        (existing_primary r) (mm_rendered_body r) True prefetched)) (\<lambda>verdict.
    case verdict of
      VerdictImported sent \<Rightarrow>
        bind (audit_import svc (rx_migration_id x) (Some (cmsg_source_chat_id m)) (Some (cmsg_source_message_id m))
          ''failed_message_replay_imported'' SevInfo
          [(''target_chat_id'', JStr (mm_target_chat_id r)), (''target_sync_id'', JStr (sm_target_sync_id sent))]) (\<lambda>_.
        ret ReplayRecovered)
    | VerdictFailed \<Rightarrow> ret ReplayFailed
    | VerdictAmbiguous _ \<Rightarrow> ret ReplayAmbiguous)"

text \<open>A message that is looked for: how it came out, from its record as it is now.\<close>

definition replay_found ::
    "'w import_services \<Rightarrow> replay_chat_context \<Rightarrow> string option \<Rightarrow> telegram_source_message \<Rightarrow> canonical_message
      \<Rightarrow> (string, canonical_message) dict \<Rightarrow> prefetch_task \<Rightarrow> ('w, replay_outcome) import" where
  "replay_found svc x batch_title raw m cache task =
    bind (get_state (\<lambda>s. message_get (im_messages s) (key_of_message (rx_migration_id x) m))) (\<lambda>current.
    case current of
      None \<Rightarrow> bind (replay_cleanup svc x task) (\<lambda>_. ret ReplayMissing)
    | Some r \<Rightarrow>
        if mm_import_status r \<noteq> MsgFailed then bind (replay_cleanup svc x task) (\<lambda>_. ret ReplaySkipped)
        else bind (resolve_prefetched svc (dlg_source_backend (rx_dialog x)) (rx_media x) task) (\<lambda>ps.
          replay_message svc x m r
            (py_or (dlg_source_thread_title (rx_dialog x)) (py_or batch_title (tm_chat_title raw)))
            (build_reply_preview m cache) ps))"

section \<open>One chat\<close>

text \<open>The messages of a batch; the task of the next one is cleaned up when a step raises.\<close>

fun replay_batch ::
    "'w import_services \<Rightarrow> replay_chat_context \<Rightarrow> string option \<Rightarrow> telegram_source_message list \<Rightarrow> prefetch_task
      \<Rightarrow> replay_progress \<Rightarrow> ('w, replay_progress) import" where
  "replay_batch svc x title [] task p = ret p"
| "replay_batch svc x title (raw # raws) task p =
    bind (normalize_for_dialog svc (rx_dialog x) raw) (\<lambda>m.
    if \<not> of_dialog (rx_dialog x) m then
      bind (replay_cleanup svc x task) (\<lambda>_. replay_batch svc x title raws None p)
    else let p = p\<lparr>rp_cache := dict_set (cmsg_source_message_id m) m (rp_cache p)\<rparr>
      in if cmsg_source_message_id m \<notin> set (rp_remaining p) then
        bind (replay_cleanup svc x task) (\<lambda>_. replay_batch svc x title raws None p)
      else
        bind (find_upcoming svc (rx_dialog x) (\<lambda>n. cmsg_source_message_id n \<in> set (rp_remaining p)) raws) (\<lambda>upcoming.
        bind (on_error (replay_cleanup svc x upcoming) (replay_found svc x title raw m (rp_cache p) task)) (\<lambda>outcome.
        replay_batch svc x title raws upcoming
          (p\<lparr>rp_counts := count_replay outcome (rp_counts p),
             rp_remaining := removeAll (cmsg_source_message_id m) (rp_remaining p)\<rparr>))))"

definition replay_round ::
    "'w import_services \<Rightarrow> replay_chat_context \<Rightarrow> replay_progress \<Rightarrow> ('w, bool \<times> replay_progress) import" where
  "replay_round svc x p =
    (if rp_remaining p = [] then ret (False, p)
     else bind (fetch_history svc (rx_dialog x) (rp_cursor p) (rx_batch_size x)) (\<lambda>batch.
       if hb_messages batch = [] then ret (False, p)
       else bind (replay_batch svc x (hb_dialog_title batch) (hb_messages batch) None p) (\<lambda>p.
         if \<not> hb_has_more batch then ret (False, p)
         else ret (True, p\<lparr>rp_cursor := hb_next_cursor batch\<rparr>))))"

definition report_missing ::
    "'w import_services \<Rightarrow> replay_chat_context \<Rightarrow> string \<Rightarrow> ('w, unit) import" where
  "report_missing svc x message = audit_import svc (rx_migration_id x) (Some (dlg_source_chat_id (rx_dialog x)))
     (Some message) ''failed_message_replay_missing'' SevError
     [(''reason'', JStr ''source message not found during replay scan'')]"

definition replay_missing :: "'w import_services \<Rightarrow> replay_chat_context \<Rightarrow> replay_progress \<Rightarrow> ('w, replay_counts) import" where
  "replay_missing svc x p =
    bind (for_each (report_missing svc x) (sort (rp_remaining p))) (\<lambda>_.
    ret ((rp_counts p)\<lparr>rn_missing := rn_missing (rp_counts p) + length (rp_remaining p)\<rparr>))"

definition replay_chat_start :: "message_mapping_record list \<Rightarrow> replay_progress" where
  "replay_chat_start records = \<lparr>rp_cursor = None, rp_remaining = remdups (map mm_source_message_id records),
     rp_cache = [], rp_counts = no_replays\<rparr>"

definition replay_chat ::
    "'w import_services \<Rightarrow> replay_chat_context \<Rightarrow> message_mapping_record list \<Rightarrow> 'w import_state
      \<Rightarrow> ((error, replay_counts) outcome \<times> 'w import_state) option" where
  "replay_chat svc x records s =
    (case repeat_rounds (replay_round svc x) (replay_chat_start records) s of
       None \<Rightarrow> None
     | Some (Inl e, s1) \<Rightarrow> Some (Inl e, s1)
     | Some (Inr p, s1) \<Rightarrow> Some (replay_missing svc x p s1))"

definition unfinished_status :: "message_import_status \<Rightarrow> bool" where
  "unfinished_status st \<longleftrightarrow> st \<in> {MsgFailed, MsgAmbiguous, MsgProcessing}"

definition mark_chat_completed_if_clean ::
    "'w import_services \<Rightarrow> string \<Rightarrow> string \<Rightarrow> ('w, unit) import" where
  "mark_chat_completed_if_clean svc migration chat =
    bind (get_state (\<lambda>s. chat_mapping_get (im_chats s) (migration, chat))) (\<lambda>existing.
    case existing of
      None \<Rightarrow> ret ()
    | Some r \<Rightarrow>
        if cm_status r = ''completed'' then ret ()
        else bind (get_state (\<lambda>s. filter (\<lambda>y. mss_source_chat_id y = chat)
                (message_summarize migration (im_messages s)))) (\<lambda>rows.
          if rows = [] \<or> (\<exists>y \<in> set rows. unfinished_status (mss_import_status y)) then ret ()
          else bind (clock svc) (\<lambda>now. modify (\<lambda>s. s\<lparr>im_chats := chat_mapping_save
            (r\<lparr>cm_status := ''completed'', cm_updated_at := now\<rparr>) (im_chats s)\<rparr>))))"

section \<open>All chats\<close>

text \<open>The records by chat, in the order of the chats' first records.\<close>

definition group_by_chat :: "message_mapping_record list \<Rightarrow> (string, message_mapping_record list) dict" where
  "group_by_chat rs = fold (\<lambda>r d. dict_set (mm_source_chat_id r)
     ((case dict_get d (mm_source_chat_id r) of None \<Rightarrow> [] | Some rs' \<Rightarrow> rs') @ [r]) d) rs []"

fun replay_chats ::
    "'w import_services \<Rightarrow> replay_command \<Rightarrow> (string \<times> message_mapping_record list) list \<Rightarrow> replay_counts
      \<Rightarrow> 'w import_state \<Rightarrow> ((error, replay_counts) outcome \<times> 'w import_state) option" where
  "replay_chats svc c [] n s = Some (Inr n, s)"
| "replay_chats svc c ((chat, records) # rest) n s =
    (case dialog_for (rfc_manifest c) chat of
       Inl e \<Rightarrow> Some (Inl e, s)
     | Inr d \<Rightarrow>
       (case replay_chat svc \<lparr>rx_manifest = rfc_manifest c, rx_dialog = d, rx_batch_size = rfc_batch_size c\<rparr>
           (sort_key (\<lambda>r. (mm_source_sent_at r, mm_source_message_id r)) records) s of
          None \<Rightarrow> None
        | Some (Inl e, s1) \<Rightarrow> Some (Inl e, s1)
        | Some (Inr m, s1) \<Rightarrow>
            (case mark_chat_completed_if_clean svc (mf_migration_id (rfc_manifest c)) chat s1 of
               (Inl e, s2) \<Rightarrow> Some (Inl e, s2)
             | (Inr _, s2) \<Rightarrow> replay_chats svc c rest (add_replays n m) s2)))"

definition replay_result_of :: "replay_command \<Rightarrow> message_mapping_record list \<Rightarrow> replay_counts \<Rightarrow> replay_result" where
  "replay_result_of c records n = \<lparr>rr_migration = mf_migration_id (rfc_manifest c), rr_requested = length records,
     rr_recovered = rn_recovered n, rr_failed = rn_failed n, rr_ambiguous = rn_ambiguous n,
     rr_missing = rn_missing n, rr_skipped = rn_skipped n,
     rr_source_chat_ids = sort (map fst (group_by_chat records))\<rparr>"

definition replay_payload :: "replay_result \<Rightarrow> (string \<times> json) list" where
  "replay_payload r = [(''requested_count'', JInt (int (rr_requested r))),
     (''recovered_count'', JInt (int (rr_recovered r))), (''failed_count'', JInt (int (rr_failed r))),
     (''ambiguous_count'', JInt (int (rr_ambiguous r))), (''missing_count'', JInt (int (rr_missing r))),
     (''skipped_count'', JInt (int (rr_skipped r))), (''source_chat_ids'', JList (map JStr (rr_source_chat_ids r)))]"

fun check_dialogs :: "migration_manifest \<Rightarrow> message_mapping_record list \<Rightarrow> (error, unit) outcome" where
  "check_dialogs m [] = Inr ()"
| "check_dialogs m (r # rs) =
    (case dialog_for m (mm_source_chat_id r) of Inl e \<Rightarrow> Inl e | Inr _ \<Rightarrow> check_dialogs m rs)"

definition replay_failed ::
    "'w import_services \<Rightarrow> replay_command \<Rightarrow> 'w import_state
      \<Rightarrow> ((error, replay_result) outcome \<times> 'w import_state) option" where
  "replay_failed svc c s =
    (let migration = mf_migration_id (rfc_manifest c);
         records = message_list_failed migration (rfc_source_chat_id c) (rfc_limit c) (im_messages s)
     in if records = [] then Some (Inr (replay_result_of c [] no_replays), s)
        else case check_dialogs (rfc_manifest c) records of
          Inl e \<Rightarrow> Some (Inl e, s)
        | Inr _ \<Rightarrow> (case replay_chats svc c (group_by_chat records) no_replays s of
            None \<Rightarrow> None
          | Some (Inl e, s1) \<Rightarrow> Some (Inl e, s1)
          | Some (Inr n, s1) \<Rightarrow>
              let result = replay_result_of c records n
              in Some (bind (audit_import svc migration None None ''failed_message_replay_completed'' SevInfo
                   (replay_payload result)) (\<lambda>_. ret result) s1)))"

end
