(* ===== verification/Delta_Sync.thy ===== *)
theory Delta_Sync
  imports Import_Steps
begin

text \<open>
  \<open>DeltaSyncUseCase\<close> of \<open>use_cases/delta_sync.py\<close>: every selected chat first catches up from its
  checkpoint, then the events of the gateway's stream are handled one by one. The migration's state is
  looked at before every chat and every event; a state other than active ends the run.
\<close>

section \<open>The use case\<close>

record delta_command =
  dsc_manifest :: migration_manifest
  dsc_source_chat_ids :: "string list option"
  dsc_batch_size :: int
  dsc_max_events :: "int option"

record delta_counts =
  dn_processed :: nat
  dn_imported :: nat
  dn_skipped :: nat
  dn_failed :: nat
  dn_ambiguous :: nat

record delta_result =
  der_migration_id :: string
  der_source_chat_ids :: "string list"
  der_status :: string
  der_counts :: delta_counts
  der_last_source_message_ids :: "(string, string option) dict"
  der_last_source_message_id :: "string option"
  der_migration_state :: "lifecycle_status option"
  der_reason :: "string option"

record delta_event =
  de_source_chat_id :: string
  de_source_message :: telegram_source_message

text \<open>
  The stream of the gateway: its events, each with the changes that other tasks made to the state
  since the one before, and the error it ends with, if any.
\<close>

record 'w delta_services =
  dsv_import :: "'w import_services"
  dsv_subscribe :: "string list \<Rightarrow> string
    \<Rightarrow> (('w import_state \<Rightarrow> 'w import_state) \<times> delta_event) list \<times> error option"

text \<open>The variables of a run: the messages seen by chat, the counts and the last message ids.\<close>

record delta_progress =
  dp_caches :: "(string, (string, canonical_message) dict) dict"
  dp_counts :: delta_counts
  dp_last :: "(string, string option) dict"

datatype delta_outcome = DeltaIgnored | DeltaImported | DeltaSkipped | DeltaFailed | DeltaAmbiguous

definition no_deltas :: delta_counts where
  "no_deltas = \<lparr>dn_processed = 0, dn_imported = 0, dn_skipped = 0, dn_failed = 0, dn_ambiguous = 0\<rparr>"

text \<open>\<open>counts[outcome] += 1\<close> and \<open>counts["processed"] += 1\<close>; an ignored message is not counted.\<close>

fun count_delta :: "delta_outcome \<Rightarrow> delta_counts \<Rightarrow> delta_counts" where
  "count_delta DeltaIgnored n = n"
| "count_delta DeltaImported n = n\<lparr>dn_imported := dn_imported n + 1, dn_processed := dn_processed n + 1\<rparr>"
| "count_delta DeltaSkipped n = n\<lparr>dn_skipped := dn_skipped n + 1, dn_processed := dn_processed n + 1\<rparr>"
| "count_delta DeltaFailed n = n\<lparr>dn_failed := dn_failed n + 1, dn_processed := dn_processed n + 1\<rparr>"
| "count_delta DeltaAmbiguous n = n\<lparr>dn_ambiguous := dn_ambiguous n + 1, dn_processed := dn_processed n + 1\<rparr>"

definition dsc_migration_id :: "delta_command \<Rightarrow> string" where
  "dsc_migration_id c = mf_migration_id (dsc_manifest c)"

definition reached_limit :: "delta_command \<Rightarrow> delta_progress \<Rightarrow> bool" where
  "reached_limit c p = (case dsc_max_events c of None \<Rightarrow> False | Some n \<Rightarrow> int (dn_processed (dp_counts p)) \<ge> n)"

section \<open>One message\<close>

definition delta_events :: settle_events where
  "delta_events = \<lparr>se_ambiguous = ''delta_message_delivery_ambiguous'', se_failed = ''delta_message_import_failed'',
     se_attachment_ambiguous = ''delta_message_attachment_delivery_ambiguous'',
     se_attachment_failed = ''delta_message_attachment_delivery_failed''\<rparr>"

definition delta_advance ::
    "'w import_services \<Rightarrow> migration_manifest \<Rightarrow> canonical_message \<Rightarrow> delta_outcome \<Rightarrow> ('w, delta_outcome) import" where
  "delta_advance svc mf m outcome =
    bind (advance_checkpoint svc (mf_migration_id mf) (cmsg_source_chat_id m) ''delta'' m) (\<lambda>_. ret outcome)"

definition delta_audit ::
    "'w import_services \<Rightarrow> migration_manifest \<Rightarrow> canonical_message \<Rightarrow> string \<Rightarrow> audit_severity \<Rightarrow> string
      \<Rightarrow> ('w, unit) import" where
  "delta_audit svc mf m event severity reason =
    audit_import svc (mf_migration_id mf) (Some (cmsg_source_chat_id m)) (Some (cmsg_source_message_id m))
      event severity [(''reason'', JStr reason)]"

text \<open>Before the delivery: the outcome if it is decided already, or the message to deliver.\<close>

datatype delta_start = DeltaDecided delta_outcome "(string, canonical_message) dict"
  | DeltaDeliver canonical_message "(string, canonical_message) dict"

definition delta_prepare ::
    "'w import_services \<Rightarrow> migration_manifest \<Rightarrow> manifest_dialog \<Rightarrow> telegram_source_message \<Rightarrow> chat_mapping_record
      \<Rightarrow> (string, canonical_message) dict \<Rightarrow> ('w, delta_start) import" where
  "delta_prepare svc mf d raw target cache =
    bind (normalize_for_dialog svc d raw) (\<lambda>m.
    let decided = (\<lambda>cache outcome. bind (delta_advance svc mf m outcome) (\<lambda>outcome. ret (DeltaDecided outcome cache)))
    in if \<not> of_dialog d m then decided cache DeltaIgnored
    else let cache = dict_set (cmsg_source_message_id m) m cache in
      bind (lift_outcome (parse_optional_datetime svc (dlg_include_from d))) (\<lambda>early_bound.
      bind (lift_outcome (parse_optional_datetime svc (dlg_include_to d))) (\<lambda>late_bound.
      if (case early_bound of None \<Rightarrow> False | Some t \<Rightarrow> cmsg_sent_at_utc m < t) then decided cache DeltaSkipped
      else if (case late_bound of None \<Rightarrow> False | Some t \<Rightarrow> cmsg_sent_at_utc m > t) then decided cache DeltaSkipped
      else bind (claim_message svc (mf_migration_id mf) (cm_target_chat_id target) m) (\<lambda>(state, _).
        case state of
          ClaimImported \<Rightarrow> decided cache DeltaSkipped
        | ClaimFailed \<Rightarrow>
            bind (delta_audit svc mf m ''delta_existing_failed_message_skipped'' SevWarning
              ''message is failed and requires replay-failed'') (\<lambda>_. decided cache DeltaSkipped)
        | ClaimAmbiguous \<Rightarrow>
            bind (delta_audit svc mf m ''delta_existing_ambiguous_message_skipped'' SevError
              ''message is ambiguous and requires manual reconciliation'') (\<lambda>_. decided cache DeltaAmbiguous)
        | Claimed \<Rightarrow> ret (DeltaDeliver m cache)))))"

text \<open>A message; the prefetched files are removed here unless the delivery was started.\<close>

definition delta_process ::
    "'w import_services \<Rightarrow> migration_manifest \<Rightarrow> manifest_dialog \<Rightarrow> telegram_source_message \<Rightarrow> string option
      \<Rightarrow> chat_mapping_record \<Rightarrow> (string, canonical_message) dict \<Rightarrow> prefetched_attachment list
      \<Rightarrow> ('w, delta_outcome \<times> (string, canonical_message) dict) import" where
  "delta_process svc mf d raw title target cache prefetched =
    bind (on_error (modify (discard_prefetched svc prefetched)) (delta_prepare svc mf d raw target cache)) (\<lambda>start.
    case start of
      DeltaDecided outcome cache \<Rightarrow>
        bind (modify (discard_prefetched svc prefetched)) (\<lambda>_. ret (outcome, cache))
    | DeltaDeliver m cache \<Rightarrow>
        bind (settle_message svc delta_events (mf_migration_id mf) m
          (deliver (is_delivery svc) (delivery_context_of (mf_migration_id mf) m (cm_target_chat_id target))
            (dlg_source_backend d) title (build_reply_preview m cache) (resolve_migrate_media mf d)
            (resolve_reply_mode mf d) None None False prefetched)) (\<lambda>verdict.
        bind (delta_advance svc mf m (case verdict of
            VerdictImported _ \<Rightarrow> DeltaImported | VerdictFailed \<Rightarrow> DeltaFailed | VerdictAmbiguous _ \<Rightarrow> DeltaAmbiguous))
          (\<lambda>outcome. ret (outcome, cache))))"

definition chat_cache :: "string \<Rightarrow> delta_progress \<Rightarrow> (string, canonical_message) dict" where
  "chat_cache chat p = (case dict_get (dp_caches p) chat of None \<Rightarrow> [] | Some cache \<Rightarrow> cache)"

definition note_outcome ::
    "string \<Rightarrow> string \<Rightarrow> delta_outcome \<Rightarrow> (string, canonical_message) dict \<Rightarrow> delta_progress \<Rightarrow> delta_progress" where
  "note_outcome chat message outcome cache p = p\<lparr>dp_caches := dict_set chat cache (dp_caches p),
     dp_counts := count_delta outcome (dp_counts p), dp_last := dict_set chat (Some message) (dp_last p)\<rparr>"

section \<open>Catching up\<close>

definition seed_delta_cursor :: "string \<Rightarrow> string \<Rightarrow> ('w, history_cursor) import" where
  "seed_delta_cursor migration chat =
    bind (get_state (\<lambda>s. checkpoint_get (im_checkpoints s) (migration, chat, ''delta''))) (\<lambda>delta.
    case delta of
      Some cp \<Rightarrow> ret (cp_cursor cp)
    | None \<Rightarrow>
        bind (get_state (\<lambda>s. checkpoint_get (im_checkpoints s) (migration, chat, ''backfill''))) (\<lambda>backfilled.
        case backfilled of
          Some cp \<Rightarrow> ret (cp_cursor cp)
        | None \<Rightarrow> throw (FatalItemError (''delta sync requires an existing backfill or delta checkpoint for ''
            @ ''source_chat_id='' @ chat))))"

definition delta_cleanup :: "'w import_services \<Rightarrow> migration_manifest \<Rightarrow> manifest_dialog \<Rightarrow> prefetch_task \<Rightarrow> ('w, unit) import" where
  "delta_cleanup svc mf d = cleanup_task svc (dlg_source_backend d) (resolve_migrate_media mf d)"

text \<open>The messages of a batch: whether the limit is reached, and the variables.\<close>

fun catch_up_batch ::
    "'w import_services \<Rightarrow> delta_command \<Rightarrow> string \<Rightarrow> manifest_dialog \<Rightarrow> chat_mapping_record \<Rightarrow> string option
      \<Rightarrow> telegram_source_message list \<Rightarrow> prefetch_task \<Rightarrow> delta_progress \<Rightarrow> ('w, bool \<times> delta_progress) import" where
  "catch_up_batch svc c chat d target title [] task p = ret (False, p)"
| "catch_up_batch svc c chat d target title (raw # raws) task p =
    bind (find_upcoming svc d (\<lambda>_. True) raws) (\<lambda>upcoming.
    bind (on_error (delta_cleanup svc (dsc_manifest c) d upcoming)
        (bind (resolve_prefetched svc (dlg_source_backend d) (resolve_migrate_media (dsc_manifest c) d) task) (\<lambda>ps.
         delta_process svc (dsc_manifest c) d raw
           (py_or (dlg_source_thread_title d) (py_or title (tm_chat_title raw))) target (chat_cache chat p) ps)))
      (\<lambda>(outcome, cache).
      let p = note_outcome chat (tm_message_id raw) outcome cache p
      in if outcome \<noteq> DeltaIgnored \<and> reached_limit c p
         then bind (delta_cleanup svc (dsc_manifest c) d upcoming) (\<lambda>_. ret (True, p))
         else catch_up_batch svc c chat d target title raws upcoming p))"

definition catch_up_round ::
    "'w import_services \<Rightarrow> delta_command \<Rightarrow> string \<Rightarrow> manifest_dialog \<Rightarrow> chat_mapping_record
      \<Rightarrow> history_cursor option \<times> bool \<times> delta_progress
      \<Rightarrow> ('w, bool \<times> history_cursor option \<times> bool \<times> delta_progress) import" where
  "catch_up_round svc c chat d target q =
    (case q of (cursor, _, p) \<Rightarrow>
     bind (fetch_history svc d cursor (dsc_batch_size c)) (\<lambda>batch.
     if hb_messages batch = [] then ret (False, cursor, False, p)
     else bind (catch_up_batch svc c chat d target (hb_dialog_title batch) (hb_messages batch) None p) (\<lambda>(limit, p).
       if limit then ret (False, cursor, True, p)
       else if \<not> hb_has_more batch then ret (False, cursor, False, p)
       else ret (True, hb_next_cursor batch, False, p))))"

definition catch_up_chat ::
    "'w import_services \<Rightarrow> delta_command \<Rightarrow> string \<Rightarrow> manifest_dialog \<Rightarrow> chat_mapping_record \<Rightarrow> delta_progress
      \<Rightarrow> 'w import_state \<Rightarrow> ((error, bool \<times> delta_progress) outcome \<times> 'w import_state) option" where
  "catch_up_chat svc c chat d target p s =
    (case seed_delta_cursor (dsc_migration_id c) chat s of
       (Inl e, s1) \<Rightarrow> Some (Inl e, s1)
     | (Inr cursor, s1) \<Rightarrow> (case repeat_rounds (catch_up_round svc c chat d target) (Some cursor, False, p) s1 of
         None \<Rightarrow> None
       | Some (Inl e, s2) \<Rightarrow> Some (Inl e, s2)
       | Some (Inr (_, limit, p), s2) \<Rightarrow> Some (Inr (limit, p), s2)))"

section \<open>Ending and blocking\<close>

definition delta_payload :: "delta_result \<Rightarrow> (string \<times> json) list" where
  "delta_payload r = [(''source_chat_ids'', JList (map JStr (der_source_chat_ids r))), (''status'', JStr (der_status r)),
     (''processed_count'', JInt (int (dn_processed (der_counts r)))),
     (''imported_count'', JInt (int (dn_imported (der_counts r)))),
     (''skipped_count'', JInt (int (dn_skipped (der_counts r)))),
     (''failed_count'', JInt (int (dn_failed (der_counts r)))),
     (''ambiguous_count'', JInt (int (dn_ambiguous (der_counts r)))),
     (''last_source_message_ids'', JObj (map (\<lambda>(k, v). (k, json_opt_str v)) (der_last_source_message_ids r))),
     (''migration_state'', json_opt_str (map_option lifecycle_value (der_migration_state r))),
     (''reason'', json_opt_str (der_reason r))]"

definition delta_complete ::
    "'w import_services \<Rightarrow> delta_command \<Rightarrow> string list \<Rightarrow> delta_progress \<Rightarrow> string \<Rightarrow> lifecycle_status option
      \<Rightarrow> string option \<Rightarrow> ('w, delta_result) import" where
  "delta_complete svc c chats p status state reason =
    (let r = \<lparr>der_migration_id = dsc_migration_id c, der_source_chat_ids = chats, der_status = status,
          der_counts = dp_counts p, der_last_source_message_ids = dp_last p,
          der_last_source_message_id = (case chats of [chat] \<Rightarrow> Option.bind (dict_get (dp_last p) chat) id | _ \<Rightarrow> None),
          der_migration_state = state, der_reason = reason\<rparr>
     in bind (audit_import svc (dsc_migration_id c) None None ''delta_sync_completed'' SevInfo (delta_payload r))
       (\<lambda>_. ret r))"

definition load_or_initialize_state :: "'w import_services \<Rightarrow> string \<Rightarrow> ('w, migration_state_record) import" where
  "load_or_initialize_state svc migration =
    bind (get_state (\<lambda>s. state_get (im_states s) migration)) (\<lambda>existing.
    case existing of
      Some r \<Rightarrow> ret r
    | None \<Rightarrow> bind (clock svc) (\<lambda>now.
        let r = \<lparr>ms_migration_id = migration, ms_status = Active, ms_updated_at = now, ms_created_at = now,
              ms_freeze_started_at = None, ms_finalized_at = None, ms_last_reconcile_at = None,
              ms_last_blockers = []\<rparr>
        in bind (modify (\<lambda>s. s\<lparr>im_states := state_save r (im_states s)\<rparr>)) (\<lambda>_. ret r)))"

text \<open>\<open>status_map\<close>; active has no entry and is not looked up.\<close>

fun blocked_status :: "lifecycle_status \<Rightarrow> string \<times> string" where
  "blocked_status Paused = (''paused'', ''migration is paused'')"
| "blocked_status NeedsManualReconcile = (''blocked_needs_manual_reconcile'',
     ''migration requires manual reconciliation before delta sync can continue'')"
| "blocked_status Completed = (''blocked_completed'', ''migration is already finalized'')"
| "blocked_status Active = ([], [])"

definition blocked_result_if_needed ::
    "'w import_services \<Rightarrow> delta_command \<Rightarrow> string list \<Rightarrow> delta_progress \<Rightarrow> ('w, delta_result option) import" where
  "blocked_result_if_needed svc c chats p =
    bind (load_or_initialize_state svc (dsc_migration_id c)) (\<lambda>st.
    if ms_status st = Active then ret None
    else case blocked_status (ms_status st) of (status, reason) \<Rightarrow>
      bind (audit_import svc (dsc_migration_id c) None None ''delta_sync_blocked_by_state'' SevWarning
        [(''migration_state'', JStr (lifecycle_value (ms_status st))), (''reason'', JStr reason),
         (''source_chat_ids'', JList (map JStr chats))]) (\<lambda>_.
      bind (delta_complete svc c chats p status (Some (ms_status st)) (Some reason)) (\<lambda>r. ret (Some r))))"

section \<open>The run\<close>

text \<open>\<open>list(dict.fromkeys(...))\<close>: the first occurrence of each stays.\<close>

definition remdups_first :: "string list \<Rightarrow> string list" where
  "remdups_first xs = rev (remdups (rev xs))"

definition resolve_source_chat_ids :: "delta_command \<Rightarrow> string list" where
  "resolve_source_chat_ids c = remdups_first
    (case dsc_source_chat_ids c of Some (x # xs) \<Rightarrow> x # xs | _ \<Rightarrow> map dlg_source_chat_id (mf_dialogs (dsc_manifest c)))"

fun ensure_target_chats ::
    "'w import_services \<Rightarrow> delta_command \<Rightarrow> string list
      \<Rightarrow> ('w, (string \<times> manifest_dialog \<times> chat_mapping_record) list) import" where
  "ensure_target_chats svc c [] = ret []"
| "ensure_target_chats svc c (chat # chats) =
    bind (lift_outcome (dialog_for (dsc_manifest c) chat)) (\<lambda>d.
    bind (is_provision svc (dsc_migration_id c) d) (\<lambda>target.
    bind (ensure_target_chats svc c chats) (\<lambda>rest. ret ((chat, d, target) # rest))))"

text \<open>Where a run that ended early ended, or the variables to go on with.\<close>

datatype delta_stage = DeltaEnded delta_result | DeltaContinues delta_progress

fun catch_up_all ::
    "'w import_services \<Rightarrow> delta_command \<Rightarrow> string list \<Rightarrow> (string \<times> manifest_dialog \<times> chat_mapping_record) list
      \<Rightarrow> delta_progress \<Rightarrow> 'w import_state \<Rightarrow> ((error, delta_stage) outcome \<times> 'w import_state) option" where
  "catch_up_all svc c chats [] p s = Some (Inr (DeltaContinues p), s)"
| "catch_up_all svc c chats ((chat, d, target) # rest) p s =
    (case blocked_result_if_needed svc c chats p s of
       (Inl e, s1) \<Rightarrow> Some (Inl e, s1)
     | (Inr (Some r), s1) \<Rightarrow> Some (Inr (DeltaEnded r), s1)
     | (Inr None, s1) \<Rightarrow>
         (case catch_up_chat svc c chat d target p s1 of
            None \<Rightarrow> None
          | Some (Inl e, s2) \<Rightarrow> Some (Inl e, s2)
          | Some (Inr (True, p), s2) \<Rightarrow>
              Some (bind (delta_complete svc c chats p ''max_events_reached'' None None)
                (\<lambda>r. ret (DeltaEnded r)) s2)
          | Some (Inr (False, p), s2) \<Rightarrow> catch_up_all svc c chats rest p s2))"

text \<open>The dialogs an event's chat stands for; the topics of a chat share its physical id.\<close>

definition candidate_dialogs ::
    "(string \<times> manifest_dialog \<times> chat_mapping_record) list \<Rightarrow> string
      \<Rightarrow> (string \<times> manifest_dialog \<times> chat_mapping_record) list" where
  "candidate_dialogs targets physical = filter (\<lambda>(_, d, _). physical_source_chat_id d = physical) targets"

fun handle_event ::
    "'w import_services \<Rightarrow> delta_command \<Rightarrow> string list \<Rightarrow> delta_event
      \<Rightarrow> (string \<times> manifest_dialog \<times> chat_mapping_record) list \<Rightarrow> delta_progress \<Rightarrow> ('w, delta_stage) import" where
  "handle_event svc c chats ev [] p = ret (DeltaContinues p)"
| "handle_event svc c chats ev ((chat, d, target) # rest) p =
    (let raw = de_source_message ev in
     bind (delta_process svc (dsc_manifest c) d raw (py_or (dlg_source_thread_title d) (tm_chat_title raw)) target
       (chat_cache chat p) []) (\<lambda>(outcome, cache).
     if outcome = DeltaIgnored
     then handle_event svc c chats ev rest (p\<lparr>dp_caches := dict_set chat cache (dp_caches p)\<rparr>)
     else let p = note_outcome chat (tm_message_id raw) outcome cache p
       in if reached_limit c p
          then bind (delta_complete svc c chats p ''max_events_reached'' None None) (\<lambda>r. ret (DeltaEnded r))
          else handle_event svc c chats ev rest p))"

fun handle_events ::
    "'w import_services \<Rightarrow> delta_command \<Rightarrow> string list \<Rightarrow> (string \<times> manifest_dialog \<times> chat_mapping_record) list
      \<Rightarrow> (('w import_state \<Rightarrow> 'w import_state) \<times> delta_event) list \<Rightarrow> error option \<Rightarrow> delta_progress
      \<Rightarrow> ('w, delta_result) import" where
  "handle_events svc c chats targets [] ending p =
    (case ending of Some e \<Rightarrow> throw e | None \<Rightarrow> delta_complete svc c chats p ''completed'' None None)"
| "handle_events svc c chats targets ((change, ev) # evs) ending p =
    bind (modify change) (\<lambda>_.
    bind (blocked_result_if_needed svc c chats p) (\<lambda>blocked.
    case blocked of
      Some r \<Rightarrow> ret r
    | None \<Rightarrow>
        bind (handle_event svc c chats ev (candidate_dialogs targets (de_source_chat_id ev)) p) (\<lambda>stage.
        case stage of
          DeltaEnded r \<Rightarrow> ret r
        | DeltaContinues p \<Rightarrow> handle_events svc c chats targets evs ending p)))"

definition delta_start_progress :: "string list \<Rightarrow> delta_progress" where
  "delta_start_progress chats = \<lparr>dp_caches = [], dp_counts = no_deltas, dp_last = map (\<lambda>chat. (chat, None)) chats\<rparr>"

text \<open>Up to the subscription: the result if the run ends before, or the target chats.\<close>

definition delta_begin ::
    "'w import_services \<Rightarrow> delta_command \<Rightarrow> string list
      \<Rightarrow> ('w, delta_result + (string \<times> manifest_dialog \<times> chat_mapping_record) list) import" where
  "delta_begin svc c chats =
    bind (blocked_result_if_needed svc c chats (delta_start_progress chats)) (\<lambda>blocked.
    case blocked of
      Some r \<Rightarrow> ret (Inl r)
    | None \<Rightarrow>
        bind (ensure_target_chats svc c chats) (\<lambda>targets.
        bind (audit_import svc (dsc_migration_id c) None None ''delta_sync_started'' SevInfo
          [(''source_chat_ids'', JList (map JStr chats)), (''batch_size'', JInt (dsc_batch_size c)),
           (''max_events'', json_opt_int (dsc_max_events c))]) (\<lambda>_.
        if (case dsc_max_events c of None \<Rightarrow> False | Some n \<Rightarrow> n \<le> 0) then
          bind (delta_complete svc c chats (delta_start_progress chats) ''max_events_reached'' None None)
            (\<lambda>r. ret (Inl r))
        else ret (Inr targets))))"

definition mixed_backends :: error where
  "mixed_backends = ConfigurationError
     ''delta-sync currently requires all selected chats to use the same source_backend''"

definition delta_stream ::
    "'w delta_services \<Rightarrow> delta_command \<Rightarrow> string list \<Rightarrow> (string \<times> manifest_dialog \<times> chat_mapping_record) list
      \<Rightarrow> delta_progress \<Rightarrow> ('w, delta_result) import" where
  "delta_stream dsv c chats targets p =
    (let backends = remdups (map (\<lambda>(_, d, _). dlg_source_backend d) targets);
         physical = remdups (map (\<lambda>(_, d, _). physical_source_chat_id d) targets)
     in case backends of
       [backend] \<Rightarrow> (case dsv_subscribe dsv (sort physical) backend of
         (evs, ending) \<Rightarrow> handle_events (dsv_import dsv) c chats targets evs ending p)
     | _ \<Rightarrow> throw mixed_backends)"

definition delta_sync ::
    "'w delta_services \<Rightarrow> delta_command \<Rightarrow> 'w import_state
      \<Rightarrow> ((error, delta_result) outcome \<times> 'w import_state) option" where
  "delta_sync dsv c s =
    (let svc = dsv_import dsv; chats = resolve_source_chat_ids c in
     case delta_begin svc c chats s of
       (Inl e, s1) \<Rightarrow> Some (Inl e, s1)
     | (Inr (Inl r), s1) \<Rightarrow> Some (Inr r, s1)
     | (Inr (Inr targets), s1) \<Rightarrow>
         (case catch_up_all svc c chats targets (delta_start_progress chats) s1 of
            None \<Rightarrow> None
          | Some (Inl e, s2) \<Rightarrow> Some (Inl e, s2)
          | Some (Inr (DeltaEnded r), s2) \<Rightarrow> Some (Inr r, s2)
          | Some (Inr (DeltaContinues p), s2) \<Rightarrow> Some (delta_stream dsv c chats targets p s2)))"

end
