(* ===== verification/Import_Guards.thy ===== *)
theory Import_Guards
  imports Import_Facts Backfill Replay Delta_Sync
begin

text \<open>
  What every importing use case keeps. A predicate on the ledger is a guard when the writes an import
  may make respect it: \<open>W\<close> are the messages it lets be written, and a message that is granted to a
  claim, or that a replay finds failed, is one of them. Backfill, replay and delta synchronisation
  then keep it, however they end. The guard proved here is that an imported message keeps its record.
\<close>

named_theorems guard \<open>steps that keep the guard\<close>

definition keeps :: "(ledger \<Rightarrow> bool) \<Rightarrow> ('w, 'a) import \<Rightarrow> bool" where
  "keeps P m \<longleftrightarrow> follows P m (\<lambda>_. P) (\<lambda>_. P)"

lemma keepsD: "keeps P m \<Longrightarrow> P (ledger s) \<Longrightarrow> m s = (r, s') \<Longrightarrow> P (ledger s')"
  unfolding keeps_def by (cases r) (auto dest: follows_result follows_error)

lemma keepsI: "(\<And>s r s'. P (ledger s) \<Longrightarrow> m s = (r, s') \<Longrightarrow> P (ledger s')) \<Longrightarrow> keeps P m"
  unfolding keeps_def by (rule followsI) blast+

lemma keeps_bind [guard]: "keeps P m \<Longrightarrow> (\<And>a. keeps P (f a)) \<Longrightarrow> keeps P (bind m f)"
  unfolding keeps_def by (rule follows_bind)

lemma keeps_quiet: "is_quiet m \<Longrightarrow> keeps P m"
  unfolding keeps_def by (rule follows_quiet)

lemma keeps_basic [guard]:
  "keeps P (ret a)" "keeps P (throw e)" "keeps P (get_state f)" "keeps P (lift_outcome r)" "keeps P (clock svc)"
  "keeps P (audit_import svc mig chat msg t sev p)" "keeps P (cleanup_task svc backend media task)"
  "keeps P (resolve_prefetched svc backend media task)" "keeps P (normalize_message svc raw)"
  "keeps P (fetch_history svc d cursor n)" "keeps P (in_delivery deliv)"
  by (intro keeps_quiet quiet)+

lemma keeps_on_error [guard]: "keeps P c \<Longrightarrow> keeps P m \<Longrightarrow> keeps P (on_error c m)"
  unfolding keeps_def on_error_def follows_def
  by (rule meets_catch [where E' = "\<lambda>_ s. P (ledger s)"])
    (auto simp: follows_def intro!: keeps_bind [unfolded keeps_def follows_def] meets_throw)

lemma keeps_attempt [guard]: "keeps P m \<Longrightarrow> keeps P (attempt takes m)"
  by (rule keepsI) (auto simp: attempt_def dest: keepsD split: prod.splits sum.splits if_splits)

lemma keeps_modify: "(\<And>s. P (ledger s) \<Longrightarrow> P (ledger (f s))) \<Longrightarrow> keeps P (modify f)"
  by (rule keepsI) (auto simp: modify_def)

lemma keeps_discard [guard]: "keeps P (modify (discard_prefetched svc ps))"
  by (rule keeps_modify) (simp add: discard_prefetched_def ledger_def)

lemma keeps_for_each [guard]: "(\<And>x. keeps P (f x)) \<Longrightarrow> keeps P (for_each f xs)"
  by (induction xs) (auto intro: guard)

lemma keeps_rounds:
  assumes "repeat_rounds step a s = Some (r, s')" and "P (ledger s)" and "\<And>a. keeps P (step a)"
  shows "P (ledger s')"
proof -
  have "meets (\<lambda>s. P (ledger s)) (step a) (\<lambda>p s. if fst p then P (ledger s) else P (ledger s)) (\<lambda>_ s. P (ledger s))" for a
    using assms(3) [of a] by (simp add: keeps_def follows_def)
  from repeat_rounds_meets [where I = "\<lambda>_ s. P (ledger s)" and Q = "\<lambda>_ s. P (ledger s)"
      and E = "\<lambda>_ s. P (ledger s)", OF assms(1,2) this]
  show ?thesis by (simp split: sum.splits)
qed

section \<open>Guards\<close>

text \<open>A guard of the backfill, for runs that write the checkpoints in \<open>K\<close> only.\<close>

locale backfill_guard =
  fixes P :: "ledger \<Rightarrow> bool" and W :: "message_key \<Rightarrow> bool" and K :: "(string \<times> string \<times> string) \<Rightarrow> bool"
  assumes guard_inv: "P l \<Longrightarrow> message_inv (fst l)"
    and guard_checkpoint: "P l \<Longrightarrow> (\<And>k. \<not> K k \<Longrightarrow> checkpoint_get C k = checkpoint_get (snd l) k) \<Longrightarrow> P (fst l, C)"
    and guard_write: "P l \<Longrightarrow> W k \<Longrightarrow> message_key r = k \<Longrightarrow> P (message_write k r c (fst l), snd l)"
    and guard_claimed: "P l \<Longrightarrow> fst (fst (message_claim r now stamp (fst l))) = Claimed \<Longrightarrow> W (message_key r)"
begin

lemma keeps_claim:
  "follows P (claim_message svc mig target m)
    (\<lambda>(st, r) l. P l \<and> (st = Claimed \<longrightarrow> W (key_of_message mig m))) (\<lambda>_. P)"
proof -
  let ?r = "\<lparr>mm_migration_id = mig, mm_source_chat_id = cmsg_source_chat_id m,
       mm_source_message_id = cmsg_source_message_id m, mm_source_sent_at = cmsg_sent_at_utc m,
       mm_target_chat_id = target, mm_checksum = checksum (is_checksum svc) m,
       mm_import_status = MsgProcessing, mm_imported_at = None, mm_target_sync_id = None,
       mm_rendered_body = None, mm_last_error_code = None, mm_last_error_payload = None\<rparr>"
  have key: "message_key ?r = key_of_message mig m" and sub: "message_submission ?r"
    by (simp_all add: message_key_def key_of_message_def message_submission_def)
  have step: "follows P (in_messages (total_op (message_claim ?r now stamp)))
      (\<lambda>(st, r) l. P l \<and> (st = Claimed \<longrightarrow> W (key_of_message mig m))) (\<lambda>_. P)" for now stamp
  proof (rule followsI)
    fix s p s'
    assume P: "P (ledger s)" and run: "in_messages (total_op (message_claim ?r now stamp)) s = (Inr p, s')"
    then have eq: "message_claim ?r now stamp (im_messages s) = (p, im_messages s')" "im_checkpoints s' = im_checkpoints s"
      by (auto simp: in_messages_def on_part_def total_op_def split: prod.splits)
    have inv: "message_inv (im_messages s)" using guard_inv [OF P] by (simp add: ledger_def)
    show "(case p of (st, r) \<Rightarrow> \<lambda>l. P l \<and> (st = Claimed \<longrightarrow> W (key_of_message mig m))) (ledger s')"
      using inv sub
    proof (cases rule: message_claim_cases [where now = now and c = stamp])
      case (refuse st e)
      with eq P show ?thesis by (auto simp: ledger_def)
    next
      case (grant r')
      then have "W (key_of_message mig m)" using guard_claimed [OF P, of ?r now stamp] key by (simp add: ledger_def)
      with grant eq key guard_write [OF P this, of r' stamp] show ?thesis by (auto simp: ledger_def)
    qed
  next
    fix s e s'
    assume "in_messages (total_op (message_claim ?r now stamp)) s = (Inl e, s')"
    then show "P (ledger s')" by (simp add: in_messages_def on_part_def total_op_def split: prod.splits)
  qed
  show ?thesis
    unfolding claim_message_def by (intro follows_bind [OF keeps_basic(5) [unfolded keeps_def]] step)
qed

lemma keeps_mark:
  assumes "W k" and written: "\<And>M r M'. message_inv M \<Longrightarrow> f M = Inr (r, M') \<Longrightarrow>
      message_key r = k \<and> (\<exists>c. M' = message_write k r c M)"
  shows "keeps P (in_messages (fallible_op f))"
proof (rule keepsI)
  fix s r s'
  assume P: "P (ledger s)" and run: "in_messages (fallible_op f) s = (r, s')"
  show "P (ledger s')"
  proof (cases r)
    case (Inl e)
    with run P show ?thesis by (auto simp: in_messages_def on_part_def fallible_op_def ledger_def split: prod.splits sum.splits)
  next
    case (Inr q)
    with run have eq: "f (im_messages s) = Inr (q, im_messages s')" "im_checkpoints s' = im_checkpoints s"
      by (auto simp: in_messages_def on_part_def fallible_op_def split: prod.splits sum.splits)
    have "message_inv (im_messages s)" using guard_inv [OF P] by (simp add: ledger_def)
    from written [OF this eq(1)] eq(2) guard_write [OF P assms(1), of q] show ?thesis by (auto simp: ledger_def)
  qed
qed

lemma keeps_marks:
  assumes "W k"
  shows "keeps P (fail_message k code payload)" "keeps P (unsure_message svc k code payload)"
    "keeps P (import_message svc k sync_id body)"
  unfolding fail_message_def unsure_message_def import_message_def
  by (intro keeps_bind keeps_basic keeps_mark [OF assms];
      blast dest: message_mark_failed_Inr message_mark_ambiguous_Inr message_mark_imported_Inr)+

lemma keeps_settle:
  assumes "W (key_of_message mig m)"
  shows "keeps P (settle_message svc ev mig m delivery)"
  unfolding settle_message_def Let_def
  by (intro keeps_bind keeps_attempt keeps_basic)
    (auto intro!: guard keeps_marks [OF assms] split: sum.split)

lemma keeps_advance:
  assumes "K (mig, chat, mode)"
  shows "keeps P (advance_checkpoint svc mig chat mode m)"
proof -
  have "P (M, checkpoint_save cp C)" if "P (M, C)" and "checkpoint_key cp = (mig, chat, mode)" for M C cp
    using guard_checkpoint [OF that(1)] that(2) assms
    by (fastforce simp: checkpoint_save_def checkpoint_get_def)
  then show ?thesis
    unfolding advance_checkpoint_def Let_def
    by (intro guard keeps_modify) (simp add: ledger_def checkpoint_key_def)
qed

text \<open>A step that is taken only when the claim was granted.\<close>

lemma keeps_after_claim:
  assumes "\<And>st r. (st = Claimed \<Longrightarrow> W (key_of_message mig m)) \<Longrightarrow> keeps P (f (st, r))"
  shows "keeps P (bind (claim_message svc mig target m) f)"
  unfolding keeps_def
proof (rule follows_bind [OF keeps_claim])
  show "follows (case q of (st, r) \<Rightarrow> \<lambda>l. P l \<and> (st = Claimed \<longrightarrow> W (key_of_message mig m))) (f q) (\<lambda>_. P) (\<lambda>_. P)" for q
    using assms [of "fst q" "snd q"] by (cases q) (auto simp: keeps_def follows_def meets_def)
qed

section \<open>Backfill\<close>

lemma keeps_backfill_round:
  assumes "K (bfc_migration_id c, bfc_source_chat_id c, ''backfill'')"
  shows "keeps P (backfill_round svc c pl p)"
proof -
  have pass: "keeps P (pass_message svc c m p)" for m p
    unfolding pass_message_def by (intro guard keeps_advance assms)
  have entry: "keeps P (backfill_entry svc c pl e task p)" for e task p
    unfolding backfill_entry_def backfill_cleanup_def Let_def
    by (auto intro!: guard keeps_after_claim pass keeps_settle
        split: if_split claim_state.split delivery_verdict.split)
  have entries: "keeps P (backfill_entries svc c pl es task p)" for es task p
    by (induction es arbitrary: task p)
      (auto intro!: guard entry simp: backfill_cleanup_def Let_def split: prod.split)
  have built: "keeps P (build_batch_entries svc c pl title raws cache)" for title raws cache
    by (induction raws arbitrary: cache) (auto intro!: guard simp: Let_def split: prod.split)
  show ?thesis
    unfolding backfill_round_def by (auto intro!: guard entries built split: prod.split)
qed

lemma keeps_backfill:
  assumes own: "K (bfc_migration_id c, bfc_source_chat_id c, ''backfill'')"
    and provision: "\<And>mig d. keeps P (is_provision svc mig d)"
    and "P (ledger s)" and run: "backfill svc c s = Some (r, s')"
  shows "P (ledger s')"
proof -
  have start: "keeps P (backfill_start svc c)"
    unfolding backfill_start_def Let_def by (intro guard provision)
  have finish: "keeps P (backfill_finish svc c pl p)" for pl p
    unfolding backfill_finish_def by (auto intro!: guard keeps_modify simp: ledger_def)
  have rounds: "P (ledger s2)" if "repeat_rounds (backfill_round svc c pl) p s1 = Some (r1, s2)" "P (ledger s1)"
      for pl p s1 r1 s2
    using that by (rule keeps_rounds) (rule keeps_backfill_round [OF own])
  obtain q s1 where q: "backfill_start svc c s = (q, s1)" by fastforce
  note P1 = keepsD [OF start assms(3) q]
  show ?thesis
  proof (cases q)
    case (Inl e)
    with run q P1 show ?thesis by (simp add: backfill_def)
  next
    case (Inr a)
    obtain pl p where a: "a = (pl, p)" by fastforce
    show ?thesis
    proof (cases "repeat_rounds (backfill_round svc c pl) p s1")
      case None
      with run q Inr a show ?thesis by (simp add: backfill_def)
    next
      case (Some t)
      obtain r2 s2 where t: "t = (r2, s2)" by fastforce
      with rounds [OF _ P1, of pl p r2 s2] Some have P2: "P (ledger s2)" by simp
      show ?thesis
      proof (cases r2)
        case (Inl e)
        with run q Inr a Some t P2 show ?thesis by (simp add: backfill_def)
      next
        case r2: (Inr p')
        with run q Inr a Some t have "backfill_finish svc c pl p' s2 = (r, s')" by (simp add: backfill_def)
        from keepsD [OF finish P2 this] show ?thesis .
      qed
    qed
  qed
qed

end

text \<open>A guard of every import: any checkpoint may be written, and any failed message.\<close>

locale import_guard = backfill_guard P W "\<lambda>_. True" for P W +
  assumes guard_failed: "P l \<Longrightarrow> message_get (fst l) k = Some r \<Longrightarrow> mm_import_status r = MsgFailed \<Longrightarrow> W k"
begin

lemmas keeps_any_advance [guard] = keeps_advance [OF TrueI]

section \<open>Replay\<close>

lemma keeps_normalize_for_dialog [guard]: "keeps P (normalize_for_dialog svc d raw)"
  unfolding normalize_for_dialog_def by (intro guard)

lemma keeps_find_upcoming [guard]: "keeps P (find_upcoming svc d want raws)"
  by (induction raws) (auto intro!: guard)

lemma keeps_replay_message:
  assumes "W (key_of_message (rx_migration_id x) m)"
  shows "keeps P (replay_message svc x m r title preview pre)"
  unfolding replay_message_def
  by (auto intro!: guard keeps_settle [OF assms] split: delivery_verdict.split)

text \<open>A replayed message was found failed just before.\<close>

lemma keeps_replay_found: "keeps P (replay_found svc x title raw m cache task)"
proof (rule keepsI)
  fix s r s'
  assume P: "P (ledger s)" and run: "replay_found svc x title raw m cache task s = (r, s')"
  let ?k = "key_of_message (rx_migration_id x) m"
  let ?rest = "\<lambda>current. case current of
      None \<Rightarrow> bind (replay_cleanup svc x task) (\<lambda>_. ret ReplayMissing)
    | Some r \<Rightarrow>
        if mm_import_status r \<noteq> MsgFailed then bind (replay_cleanup svc x task) (\<lambda>_. ret ReplaySkipped)
        else bind (resolve_prefetched svc (dlg_source_backend (rx_dialog x)) (rx_media x) task) (\<lambda>ps.
          replay_message svc x m r
            (py_or (dlg_source_thread_title (rx_dialog x)) (py_or title (tm_chat_title raw)))
            (build_reply_preview m cache) ps)"
  have rest: "?rest (message_get (im_messages s) ?k) s = (r, s')"
    using run by (simp add: replay_found_def bind_def get_state_def)
  have "keeps P (?rest (message_get (im_messages s) ?k))"
  proof (cases "message_get (im_messages s) ?k")
    case (Some q)
    show ?thesis
    proof (cases "mm_import_status q = MsgFailed")
      case True
      with Some P have "W ?k" using guard_failed [of "ledger s" ?k q] by (simp add: ledger_def)
      with Some True show ?thesis by (auto intro!: guard keeps_replay_message)
    qed (use Some in \<open>auto intro!: guard simp: replay_cleanup_def\<close>)
  qed (auto intro!: guard simp: replay_cleanup_def)
  from keepsD [OF this P rest] show "P (ledger s')" .
qed

lemma keeps_replay_round: "keeps P (replay_round svc x p)"
proof -
  have batch: "keeps P (replay_batch svc x title raws task p)" for title raws task p
    by (induction raws arbitrary: task p)
      (auto intro!: guard keeps_replay_found simp: Let_def replay_cleanup_def)
  show ?thesis
    unfolding replay_round_def by (auto intro!: guard batch)
qed

lemma keeps_replay_chat:
  assumes "P (ledger s)" and "replay_chat svc x records s = Some (r, s')"
  shows "P (ledger s')"
proof -
  have missing: "keeps P (replay_missing svc x p)" for p
    unfolding replay_missing_def report_missing_def by (intro guard)
  show ?thesis
  proof (cases "repeat_rounds (replay_round svc x) (replay_chat_start records) s")
    case None
    with assms(2) show ?thesis by (simp add: replay_chat_def)
  next
    case (Some t)
    obtain q s1 where t: "t = (q, s1)" by fastforce
    from Some [unfolded t] assms(1) have P1: "P (ledger s1)" by (rule keeps_rounds) (rule keeps_replay_round)
    show ?thesis
    proof (cases q)
      case (Inl e)
      with assms(2) Some t P1 show ?thesis by (simp add: replay_chat_def)
    next
      case (Inr p)
      with assms(2) Some t have "replay_missing svc x p s1 = (r, s')" by (simp add: replay_chat_def)
      from keepsD [OF missing P1 this] show ?thesis .
    qed
  qed
qed

lemma keeps_mark_chat: "keeps P (mark_chat_completed_if_clean svc mig chat)"
  unfolding mark_chat_completed_if_clean_def
  by (auto intro!: guard keeps_modify simp: ledger_def split: option.split)

lemma keeps_replay_chats:
  assumes "P (ledger s)" and "replay_chats svc c chats n s = Some (r, s')"
  shows "P (ledger s')"
  using assms
proof (induction chats arbitrary: n s)
  case (Cons g chats)
  obtain chat records where g: "g = (chat, records)" by fastforce
  let ?x = "\<lambda>d. \<lparr>rx_manifest = rfc_manifest c, rx_dialog = d, rx_batch_size = rfc_batch_size c\<rparr>"
  let ?records = "sort_key (\<lambda>r. (mm_source_sent_at r, mm_source_message_id r)) records"
  show ?case
  proof (cases "dialog_for (rfc_manifest c) chat")
    case (Inl e)
    with Cons.prems g show ?thesis by simp
  next
    case d: (Inr d)
    show ?thesis
    proof (cases "replay_chat svc (?x d) ?records s")
      case None
      with Cons.prems g d show ?thesis by simp
    next
      case (Some t)
      obtain q s1 where t: "t = (q, s1)" by fastforce
      note P1 = keeps_replay_chat [OF Cons.prems(1) Some [unfolded t]]
      obtain q2 s2 where mark: "mark_chat_completed_if_clean svc (mf_migration_id (rfc_manifest c)) chat s1 = (q2, s2)"
        by fastforce
      note P2 = keepsD [OF keeps_mark_chat P1 mark]
      show ?thesis
        using Cons.prems(2) g d Some t mark P1 P2 Cons.IH [OF P2] by (cases q; cases q2) auto
    qed
  qed
qed simp

lemma keeps_replay:
  assumes "P (ledger s)" and "replay_failed svc c s = Some (r, s')"
  shows "P (ledger s')"
proof -
  let ?mig = "mf_migration_id (rfc_manifest c)"
  let ?records = "message_list_failed ?mig (rfc_source_chat_id c) (rfc_limit c) (im_messages s)"
  show ?thesis
  proof (cases "?records = [] \<or> isl (check_dialogs (rfc_manifest c) ?records)")
    case True
    with assms show ?thesis by (auto simp: replay_failed_def Let_def split: if_splits sum.splits)
  next
    case False
    show ?thesis
    proof (cases "replay_chats svc c (group_by_chat ?records) no_replays s")
      case None
      with False assms show ?thesis by (auto simp: replay_failed_def Let_def split: sum.splits)
    next
      case (Some t)
      obtain q s1 where t: "t = (q, s1)" by fastforce
      note P1 = keeps_replay_chats [OF assms(1) Some [unfolded t]]
      have finish: "keeps P (bind (audit_import svc ?mig None None e sev pay) (\<lambda>_. ret v))" for e sev pay v
        by (intro guard)
      show ?thesis
        using assms(2) False Some t P1 keepsD [OF finish P1]
        by (cases q) (auto simp: replay_failed_def Let_def split: sum.splits)
    qed
  qed
qed

section \<open>Delta synchronisation\<close>

lemma follows_keeps_bind:
  "keeps P m \<Longrightarrow> (\<And>a. follows P (f a) Q (\<lambda>_. P)) \<Longrightarrow> follows P (bind m f) Q (\<lambda>_. P)"
  unfolding keeps_def by (rule follows_bind)

lemma keeps_delta_advance [guard]: "keeps P (delta_advance svc mf m outcome)"
  unfolding delta_advance_def by (intro guard)

text \<open>A message that goes on to its delivery was granted.\<close>

definition delta_granted :: "migration_manifest \<Rightarrow> delta_start \<Rightarrow> ledger \<Rightarrow> bool" where
  "delta_granted mf st l \<longleftrightarrow> P l \<and> (case st of DeltaDecided _ _ \<Rightarrow> True
     | DeltaDeliver m _ \<Rightarrow> W (key_of_message (mf_migration_id mf) m))"

lemma follows_delta_decided:
  "follows P (bind (delta_advance svc mf m outcome) (\<lambda>outcome. ret (DeltaDecided outcome cache))) (delta_granted mf) (\<lambda>_. P)"
  by (intro follows_keeps_bind guard follows_ret) (simp add: delta_granted_def)

lemma follows_delta_prepare:
  "follows P (delta_prepare svc mf d raw target cache) (delta_granted mf) (\<lambda>_. P)"
proof -
  have audited: "follows P (bind (delta_audit svc mf m event sev reason) (\<lambda>_. bind (delta_advance svc mf m outcome)
      (\<lambda>outcome. ret (DeltaDecided outcome cache)))) (delta_granted mf) (\<lambda>_. P)" for m event sev reason outcome cache
    unfolding delta_audit_def by (intro follows_keeps_bind follows_delta_decided guard)
  have answered: "follows (\<lambda>l. P l \<and> (st = Claimed \<longrightarrow> W (key_of_message (mf_migration_id mf) m))) (case st of
          ClaimImported \<Rightarrow> bind (delta_advance svc mf m DeltaSkipped) (\<lambda>outcome. ret (DeltaDecided outcome cache))
        | ClaimFailed \<Rightarrow>
            bind (delta_audit svc mf m ''delta_existing_failed_message_skipped'' SevWarning
              ''message is failed and requires replay-failed'') (\<lambda>_.
              bind (delta_advance svc mf m DeltaSkipped) (\<lambda>outcome. ret (DeltaDecided outcome cache)))
        | ClaimAmbiguous \<Rightarrow>
            bind (delta_audit svc mf m ''delta_existing_ambiguous_message_skipped'' SevError
              ''message is ambiguous and requires manual reconciliation'') (\<lambda>_.
              bind (delta_advance svc mf m DeltaAmbiguous) (\<lambda>outcome. ret (DeltaDecided outcome cache)))
        | Claimed \<Rightarrow> ret (DeltaDeliver m cache)) (delta_granted mf) (\<lambda>_. P)" for st m cache
    by (cases st; simp only: claim_state.case)
      (auto intro: follows_pre [OF follows_delta_decided] follows_pre [OF audited] simp: delta_granted_def intro!: follows_ret)
  show ?thesis
    unfolding delta_prepare_def Let_def
    apply (rule follows_keeps_bind, rule keeps_normalize_for_dialog)
    subgoal for m
      by (auto intro!: follows_delta_decided follows_keeps_bind keeps_basic follows_bind [OF keeps_claim]
          answered [unfolded Let_def] split del: if_split split: if_split prod.split)
    done
qed

lemma keeps_delta_process: "keeps P (delta_process svc mf d raw title target cache pre)"
proof -
  have started: "follows P (on_error (modify (discard_prefetched svc pre)) (delta_prepare svc mf d raw target cache))
      (delta_granted mf) (\<lambda>_. P)"
    unfolding on_error_def follows_def
    by (rule meets_catch [OF follows_delta_prepare [unfolded follows_def]])
      (auto intro!: meets_bind [where R = "\<lambda>_ s. P (ledger s)"] meets_modify meets_throw
        simp: discard_prefetched_def ledger_def)
  have rest: "follows (delta_granted mf st) (case st of
      DeltaDecided outcome cache \<Rightarrow> bind (modify (discard_prefetched svc pre)) (\<lambda>_. ret (outcome, cache))
    | DeltaDeliver m cache \<Rightarrow>
        bind (settle_message svc delta_events (mf_migration_id mf) m (deliv m cache)) (\<lambda>verdict.
        bind (delta_advance svc mf m (case verdict of
            VerdictImported _ \<Rightarrow> DeltaImported | VerdictFailed \<Rightarrow> DeltaFailed | VerdictAmbiguous _ \<Rightarrow> DeltaAmbiguous))
          (\<lambda>outcome. ret (outcome, cache)))) (\<lambda>_. P) (\<lambda>_. P)" for st deliv
  proof (cases st)
    case (DeltaDecided outcome cache)
    have "keeps P (bind (modify (discard_prefetched svc pre)) (\<lambda>_. ret (outcome, cache)))" by (intro guard)
    then show ?thesis
      unfolding keeps_def DeltaDecided delta_start.case by (rule follows_pre) (simp add: delta_granted_def)
  next
    case (DeltaDeliver m cache)
    have "keeps P (bind (settle_message svc delta_events (mf_migration_id mf) m (deliv m cache)) (\<lambda>verdict.
        bind (delta_advance svc mf m (case verdict of
            VerdictImported _ \<Rightarrow> DeltaImported | VerdictFailed \<Rightarrow> DeltaFailed | VerdictAmbiguous _ \<Rightarrow> DeltaAmbiguous))
          (\<lambda>outcome. ret (outcome, cache))))" if "W (key_of_message (mf_migration_id mf) m)"
      by (intro guard keeps_settle [OF that])
    then show ?thesis
      unfolding keeps_def DeltaDeliver delta_start.case
      by (cases "W (key_of_message (mf_migration_id mf) m)")
        (auto simp: delta_granted_def follows_def meets_def)
  qed
  show ?thesis
    unfolding keeps_def delta_process_def by (rule follows_bind [OF started rest])
qed

text \<open>The state is loaded, and stored when it is new; the ledger has no part in it.\<close>

lemma keeps_blocked [guard]: "keeps P (blocked_result_if_needed svc c chats p)"
  unfolding blocked_result_if_needed_def load_or_initialize_state_def delta_complete_def Let_def
  by (auto intro!: guard keeps_modify simp: ledger_def split: option.split prod.split)

lemma keeps_complete [guard]: "keeps P (delta_complete svc c chats p status state reason)"
  unfolding delta_complete_def Let_def by (intro guard)

lemma keeps_catch_up_round: "keeps P (catch_up_round svc c chat d target q)"
proof -
  have batch: "keeps P (catch_up_batch svc c chat d target title raws task p)" for title raws task p
    by (induction raws arbitrary: task p)
      (auto intro!: guard keeps_delta_process simp: Let_def delta_cleanup_def split: prod.split)
  show ?thesis
    unfolding catch_up_round_def by (auto intro!: guard batch split: prod.split)
qed

lemma keeps_catch_up_chat:
  assumes "P (ledger s)" and "catch_up_chat svc c chat d target p s = Some (r, s')"
  shows "P (ledger s')"
proof -
  have seed: "keeps P (seed_delta_cursor mig chat)" for mig
    unfolding seed_delta_cursor_def by (auto intro!: guard split: option.split)
  obtain q s1 where q: "seed_delta_cursor (dsc_migration_id c) chat s = (q, s1)" by fastforce
  note P1 = keepsD [OF seed assms(1) q]
  show ?thesis
  proof (cases q)
    case (Inl e)
    with assms(2) q P1 show ?thesis by (simp add: catch_up_chat_def)
  next
    case (Inr cursor)
    show ?thesis
    proof (cases "repeat_rounds (catch_up_round svc c chat d target) (Some cursor, False, p) s1")
      case None
      with assms(2) q Inr show ?thesis by (simp add: catch_up_chat_def)
    next
      case (Some t)
      obtain q2 s2 where t: "t = (q2, s2)" by fastforce
      from Some [unfolded t] P1 have "P (ledger s2)" by (rule keeps_rounds) (rule keeps_catch_up_round)
      with assms(2) q Inr Some t show ?thesis
        by (cases q2) (auto simp: catch_up_chat_def)
    qed
  qed
qed

lemma keeps_catch_up_all:
  assumes "P (ledger s)" and "catch_up_all svc c chats targets p s = Some (r, s')"
  shows "P (ledger s')"
  using assms
proof (induction targets arbitrary: p s)
  case (Cons g targets)
  obtain chat d target where g: "g = (chat, d, target)" by (cases g) auto
  obtain q s1 where q: "blocked_result_if_needed svc c chats p s = (q, s1)" by fastforce
  note P1 = keepsD [OF keeps_blocked Cons.prems(1) q]
  show ?case
  proof (cases "q = Inr None")
    case False
    with Cons.prems(2) g q P1 show ?thesis by (auto split: sum.splits option.splits)
  next
    case True
    show ?thesis
    proof (cases "catch_up_chat svc c chat d target p s1")
      case None
      with Cons.prems(2) g q True show ?thesis by simp
    next
      case (Some t)
      obtain q2 s2 where t: "t = (q2, s2)" by fastforce
      note P2 = keeps_catch_up_chat [OF P1 Some [unfolded t]]
      have finish: "keeps P (bind (delta_complete svc c chats p' e None None) (\<lambda>r. ret (DeltaEnded r)))" for p' e
        by (intro guard)
      show ?thesis
      proof (cases q2)
        case (Inl e)
        with Cons.prems(2) g q True Some t P2 show ?thesis by simp
      next
        case (Inr a)
        obtain lim p' where a: "a = (lim, p')" by fastforce
        show ?thesis
          using Cons.prems(2) g q True Some t Inr a keepsD [OF finish P2] Cons.IH [OF P2]
          by (cases lim) auto
      qed
    qed
  qed
qed simp

lemma keeps_handle_event: "keeps P (handle_event svc c chats ev targets p)"
  by (induction targets arbitrary: p) (auto intro!: guard keeps_delta_process simp: Let_def split: prod.split)

lemma keeps_handle_events:
  assumes "\<And>change ev s. (change, ev) \<in> set evs \<Longrightarrow> P (ledger s) \<Longrightarrow> P (ledger (change s))"
  shows "keeps P (handle_events svc c chats targets evs ending p)"
  using assms
proof (induction evs arbitrary: p)
  case Nil
  then show ?case by (auto intro!: guard split: option.split)
next
  case (Cons g evs)
  obtain change ev where g: "g = (change, ev)" by fastforce
  have "keeps P (modify change)" using Cons.prems [of change ev] g by (intro keeps_modify) simp
  moreover have "keeps P (handle_events svc c chats targets evs ending p')" for p'
    using Cons.IH Cons.prems by (metis list.set_intros(2))
  ultimately show ?case
    by (auto intro!: guard keeps_handle_event simp: g split: option.split delta_stage.split)
qed

lemma keeps_delta:
  assumes provision: "\<And>mig d. keeps P (is_provision (dsv_import dsv) mig d)"
    and changes: "\<And>ids backend change ev s. (change, ev) \<in> set (fst (dsv_subscribe dsv ids backend))
      \<Longrightarrow> P (ledger s) \<Longrightarrow> P (ledger (change s))"
    and "P (ledger s)" and run: "delta_sync dsv c s = Some (r, s')"
  shows "P (ledger s')"
proof -
  let ?svc = "dsv_import dsv" and ?chats = "resolve_source_chat_ids c"
  have ensured: "keeps P (ensure_target_chats ?svc c chats)" for chats
    by (induction chats) (auto intro!: guard provision)
  have begins: "keeps P (delta_begin ?svc c ?chats)"
    unfolding delta_begin_def by (auto intro!: guard ensured split: option.split)
  have stream: "keeps P (delta_stream dsv c ?chats targets p)" for targets p
    unfolding delta_stream_def Let_def
    by (auto intro!: guard keeps_handle_events split: list.split prod.split) (metis changes fst_conv)
  obtain q s1 where q: "delta_begin ?svc c ?chats s = (q, s1)" by fastforce
  note P1 = keepsD [OF begins assms(3) q]
  show ?thesis
  proof (cases q)
    case (Inl e)
    with run q P1 show ?thesis by (simp add: delta_sync_def Let_def)
  next
    case (Inr a)
    show ?thesis
    proof (cases a)
      case (Inl res)
      with run q Inr P1 show ?thesis by (simp add: delta_sync_def Let_def)
    next
      case targets: (Inr targets)
      show ?thesis
      proof (cases "catch_up_all ?svc c ?chats targets (delta_start_progress ?chats) s1")
        case None
        with run q Inr targets show ?thesis by (simp add: delta_sync_def Let_def)
      next
        case (Some t)
        obtain q2 s2 where t: "t = (q2, s2)" by fastforce
        note P2 = keeps_catch_up_all [OF P1 Some [unfolded t]]
        show ?thesis
          using run q Inr targets Some t P2 keepsD [OF stream P2]
          by (cases q2; cases "projr q2") (auto simp: delta_sync_def Let_def)
      qed
    qed
  qed
qed

end

section \<open>Two guards\<close>

text \<open>An imported message has the record \<open>r\<close>.\<close>

definition imported_as :: "message_key \<Rightarrow> message_mapping_record \<Rightarrow> ledger \<Rightarrow> bool" where
  "imported_as k r l \<longleftrightarrow> message_inv (fst l) \<and> message_get (fst l) k = Some r \<and> mm_import_status r = MsgImported"

lemma imported_as_settled: "imported_as k r l \<Longrightarrow> message_settled (fst l) k"
  by (auto simp: imported_as_def message_settled_def settled_record_def)

interpretation imported: import_guard "imported_as k r" "\<lambda>k'. k' \<noteq> k" for k r
proof
  fix l q now stamp
  assume "imported_as k r l" and "fst (fst (message_claim q now stamp (fst l))) = Claimed"
  then show "message_key q \<noteq> k"
    using imported_as_settled [of k r l] settled_not_claimed [of "fst l" q now stamp] by (auto simp: imported_as_def)
qed (auto simp: imported_as_def intro: message_inv_write)

text \<open>The messages of \<open>K\<close> have records.\<close>

definition recorded :: "message_key set \<Rightarrow> ledger \<Rightarrow> bool" where
  "recorded K l \<longleftrightarrow> message_inv (fst l) \<and> (\<forall>k \<in> K. message_get (fst l) k \<noteq> None)"

interpretation recorded: import_guard "recorded K" "\<lambda>_. True" for K
  by unfold_locales (auto simp: recorded_def intro: message_inv_write)

section \<open>Sequences of runs\<close>

text \<open>One run of an importing use case, with the services it meets.\<close>

datatype 'w import_run =
    RunBackfill "'w import_services" backfill_command
  | RunReplay "'w import_services" replay_command
  | RunDelta "'w delta_services" delta_command

fun run_import :: "'w import_run \<Rightarrow> 'w import_state \<Rightarrow> 'w import_state option" where
  "run_import (RunBackfill svc c) s = map_option snd (backfill svc c s)"
| "run_import (RunReplay svc c) s = map_option snd (replay_failed svc c s)"
| "run_import (RunDelta dsv c) s = map_option snd (delta_sync dsv c s)"

fun run_imports :: "'w import_run list \<Rightarrow> 'w import_state \<Rightarrow> 'w import_state option" where
  "run_imports [] s = Some s"
| "run_imports (x # xs) s = Option.bind (run_import x s) (run_imports xs)"

text \<open>
  Provisioning a chat, and what other tasks do between the events of a stream, leave the message
  records and the checkpoints to the run.
\<close>

definition undisturbed_provision :: "'w import_services \<Rightarrow> bool" where
  "undisturbed_provision svc \<longleftrightarrow> (\<forall>mig d s. ledger (snd (is_provision svc mig d s)) = ledger s)"

definition undisturbed_stream :: "'w delta_services \<Rightarrow> bool" where
  "undisturbed_stream dsv \<longleftrightarrow> (\<forall>ids backend. list_all (\<lambda>(change, ev). \<forall>s. ledger (change s) = ledger s)
     (fst (dsv_subscribe dsv ids backend)))"

fun undisturbed_run :: "'w import_run \<Rightarrow> bool" where
  "undisturbed_run (RunBackfill svc c) = undisturbed_provision svc"
| "undisturbed_run (RunReplay svc c) = True"
| "undisturbed_run (RunDelta dsv c) = (undisturbed_provision (dsv_import dsv) \<and> undisturbed_stream dsv)"

lemma keeps_provision: "undisturbed_provision svc \<Longrightarrow> keeps P (is_provision svc mig d)"
  by (rule keepsI) (metis undisturbed_provision_def snd_conv)

lemma undisturbed_change:
  "undisturbed_stream dsv \<Longrightarrow> (change, ev) \<in> set (fst (dsv_subscribe dsv ids backend)) \<Longrightarrow> ledger (change s) = ledger s"
  unfolding undisturbed_stream_def list_all_iff by fastforce

context import_guard
begin

lemma keeps_run:
  assumes "undisturbed_run x" and "P (ledger s)" and "run_import x s = Some s'"
  shows "P (ledger s')"
proof (cases x)
  case (RunBackfill svc c)
  with assms obtain r where "backfill svc c s = Some (r, s')" and "undisturbed_provision svc" by auto
  with keeps_backfill [OF TrueI keeps_provision assms(2)] show ?thesis by blast
next
  case (RunReplay svc c)
  with assms show ?thesis by (auto dest: keeps_replay)
next
  case (RunDelta dsv c)
  with assms obtain r where run: "delta_sync dsv c s = Some (r, s')" by auto
  from assms(1) RunDelta have "undisturbed_stream dsv" "undisturbed_provision (dsv_import dsv)" by simp_all
  from keeps_delta [OF keeps_provision [OF this(2)] _ assms(2) run] undisturbed_change [OF this(1)]
  show ?thesis by metis
qed

lemma keeps_runs:
  "list_all undisturbed_run xs \<Longrightarrow> P (ledger s) \<Longrightarrow> run_imports xs s = Some s' \<Longrightarrow> P (ledger s')"
  by (induction xs arbitrary: s) (auto simp: bind_eq_Some_conv dest: keeps_run)

end

end
