(* ===== verification/Backfill_Facts.thy ===== *)
theory Backfill_Facts
  imports Backfill Import_Facts
begin

text \<open>
  The backfill over a gateway that serves a history: every round moves the checkpoint, the checkpoint
  only moves past messages that are settled, and the loop ends with every due message settled.
\<close>

section \<open>One entry\<close>

definition backfill_checkpoint :: "backfill_command \<Rightarrow> string \<times> string \<times> string" where
  "backfill_checkpoint c = (bfc_migration_id c, bfc_source_chat_id c, ''backfill'')"

text \<open>The messages of \<open>K\<close> are settled and the stored checkpoint is the loop's cursor.\<close>

definition passed :: "backfill_command \<Rightarrow> message_key set \<Rightarrow> backfill_progress \<Rightarrow> ledger \<Rightarrow> bool" where
  "passed c K p l \<longleftrightarrow> (\<exists>C. stored_cursor (backfill_checkpoint c) C = bp_cursor p \<and> settled_all C K l)"

definition handled_count :: "backfill_progress \<Rightarrow> nat" where
  "handled_count p = bp_imported p + bp_skipped p + bp_failed p"

definition entry_keys :: "backfill_command \<Rightarrow> batch_entry list \<Rightarrow> message_key set" where
  "entry_keys c es = (\<lambda>e. key_of_message (bfc_migration_id c) (be_canonical e)) ` set (filter be_should_deliver es)"

definition halting :: "batch_entry \<Rightarrow> bool" where
  "halting e \<longleftrightarrow> \<not> be_should_deliver e \<and> be_stop_after e"

text \<open>The cursor after some entries.\<close>

definition cursor_after :: "batch_entry list \<Rightarrow> history_cursor option \<Rightarrow> history_cursor option" where
  "cursor_after es cur = (if es = [] then cur else Some (cursor_of (be_canonical (last es))))"

lemma settled_all_mono: "settled_all C K l \<Longrightarrow> K' \<subseteq> K \<Longrightarrow> settled_all C K' l"
  by (auto simp: settled_all_def)

lemma passed_mono: "passed c K p l \<Longrightarrow> K' \<subseteq> K \<Longrightarrow> passed c K' p l"
  unfolding passed_def by (blast intro: settled_all_mono)

lemma entry_keys_simps [simp]:
  "entry_keys c [] = {}"
  "entry_keys c (e # es) = (if be_should_deliver e
     then insert (key_of_message (bfc_migration_id c) (be_canonical e)) (entry_keys c es) else entry_keys c es)"
  by (simp_all add: entry_keys_def)

lemma marked_settled_all:
  "marked k C K W l \<Longrightarrow> (\<And>r. W r \<Longrightarrow> settled_record r) \<Longrightarrow> settled_all C (insert k K) l"
  by (rule marked_settled [OF marked_mono])

lemma follows_ex: "(\<And>x. follows (P x) m R E) \<Longrightarrow> follows (\<lambda>l. \<exists>x. P x l) m R E"
  by (fastforce simp: follows_def meets_def)

lemma follows_pass_message:
  "follows (settled_all C K) (pass_message svc c m q)
    (\<lambda>p l. p = q\<lparr>bp_cursor := Some (cursor_of m), bp_last := Some (cmsg_source_message_id m)\<rparr> \<and> passed c K p l) E"
  unfolding pass_message_def
  by (rule follows_bind [OF follows_advance], rule follows_ret) (auto simp: passed_def backfill_checkpoint_def)

lemma quiet_backfill_cleanup [quiet]: "is_quiet (backfill_cleanup svc c pl task)"
  unfolding backfill_cleanup_def by (rule quiet)

lemma follows_entry:
  "follows (passed c K p) (backfill_entry svc c pl e task p)
    (\<lambda>(stop, p') l. passed c (entry_keys c [e] \<union> K) p' l \<and> bp_cursor p' = Some (cursor_of (be_canonical e))
       \<and> stop = halting e \<and> handled_count p' = handled_count p + length (filter be_should_deliver [e]))
    (\<lambda>_. passed c K p)"
proof -
  let ?m = "be_canonical e"
  let ?k = "key_of_message (bfc_migration_id c) ?m"
  let ?R = "\<lambda>(stop, p') l. passed c (entry_keys c [e] \<union> K) p' l \<and> bp_cursor p' = Some (cursor_of ?m)
       \<and> stop = halting e \<and> handled_count p' = handled_count p + length (filter be_should_deliver [e])"
  have skip: "follows (settled_all C K) (bind (pass_message svc c ?m p) (\<lambda>p. ret (be_stop_after e, p))) ?R E"
    if "\<not> be_should_deliver e" for C E
    by (rule follows_bind [OF follows_pass_message], rule follows_ret)
      (use that in \<open>auto simp: halting_def handled_count_def\<close>)
  have seen: "follows (settled_all C (insert ?k K)) (bind (pass_message svc c ?m q) (\<lambda>p. ret (False, g p))) ?R E"
    if "be_should_deliver e" and "\<And>p'. handled_count (g (p'\<lparr>bp_imported := bp_imported q, bp_skipped := bp_skipped q,
          bp_failed := bp_failed q\<rparr>)) = handled_count p + 1"
      and "\<And>p'. bp_cursor (g p') = bp_cursor p'" for C q g E
    by (rule follows_bind [OF follows_pass_message], rule follows_ret)
      (use that(1,3) that(2) [of "q\<lparr>bp_cursor := Some (cursor_of ?m), bp_last := Some (cmsg_source_message_id ?m)\<rparr>"]
        in \<open>auto simp: halting_def passed_def\<close>)
  show ?thesis
    unfolding passed_def [of c K p]
  proof (rule follows_ex, rule follows_assume)
    fix C
    assume C: "stored_cursor (backfill_checkpoint c) C = bp_cursor p"
    let ?E = "\<lambda>_ :: error. \<lambda>l. \<exists>C. stored_cursor (backfill_checkpoint c) C = bp_cursor p \<and> settled_all C K l"
    let ?claimed = "\<lambda>(st, r) l. settled_all C K l \<and> message_get (fst l) ?k = Some r \<and> (st = Claimed \<longrightarrow> ?k \<notin> K)
      \<and> (st = ClaimImported \<or> st = ClaimFailed \<longrightarrow> message_settled (fst l) ?k)"
    have known: "follows (?claimed (st, r)) (bind (backfill_cleanup svc c pl task) (\<lambda>_.
        bind (pass_message svc c ?m (p\<lparr>bp_skipped := bp_skipped p + 1\<rparr>)) (\<lambda>p. ret (False, p)))) ?R ?E"
      if "be_should_deliver e" "st = ClaimImported \<or> st = ClaimFailed" for st r
      by (rule follows_pre [OF follows_after [OF quiet_backfill_cleanup seen [where g = "\<lambda>p. p"]]])
        (use that C in \<open>auto simp: handled_count_def settled_all_def\<close>)
    have delivered: "follows (marked ?k C K (verdict_record v)) (case v of
          VerdictImported _ \<Rightarrow> bind (pass_message svc c ?m p) (\<lambda>p. ret (False, p\<lparr>bp_imported := bp_imported p + 1\<rparr>))
        | VerdictFailed \<Rightarrow> bind (pass_message svc c ?m (p\<lparr>bp_failed := bp_failed p + 1\<rparr>)) (\<lambda>p. ret (False, p))
        | VerdictAmbiguous err \<Rightarrow> throw err) ?R ?E" if "be_should_deliver e" for v
    proof (cases v)
      case (VerdictImported sent)
      show ?thesis
        unfolding VerdictImported delivery_verdict.case
        by (rule follows_pre [OF seen [where C = C]])
          (auto simp: handled_count_def that settled_record_def elim!: marked_settled_all)
    next
      case VerdictFailed
      show ?thesis
        unfolding VerdictFailed delivery_verdict.case
        by (rule follows_pre [OF seen [where C = C and g = "\<lambda>p. p"]])
          (auto simp: handled_count_def that settled_record_def elim!: marked_settled_all)
    next
      case (VerdictAmbiguous err)
      show ?thesis
        unfolding VerdictAmbiguous delivery_verdict.case
        by (rule follows_throw) (use C in \<open>blast dest: marked_working working_settled_all\<close>)
    qed
    have granted: "follows (?claimed (Claimed, r)) (bind (resolve_prefetched svc (dlg_source_backend (pl_dialog pl))
          (backfill_media c pl) task) (\<lambda>ps. bind (settle_message svc backfill_events (bfc_migration_id c) ?m
            (backfill_deliver svc c pl e (bp_cache p) ps)) (\<lambda>v. case v of
          VerdictImported _ \<Rightarrow> bind (pass_message svc c ?m p) (\<lambda>p. ret (False, p\<lparr>bp_imported := bp_imported p + 1\<rparr>))
        | VerdictFailed \<Rightarrow> bind (pass_message svc c ?m (p\<lparr>bp_failed := bp_failed p + 1\<rparr>)) (\<lambda>p. ret (False, p))
        | VerdictAmbiguous err \<Rightarrow> throw err))) ?R ?E" if "be_should_deliver e" for r
    proof -
      have settle: "follows (working ?k C K) (settle_message svc ev (bfc_migration_id c) ?m d)
          (\<lambda>v. marked ?k C K (verdict_record v)) ?E" for ev d
        by (rule follows_post [OF follows_settle [OF refl]])
          (use C in \<open>auto simp: interrupted_def dest: working_settled_all\<close>)
      show ?thesis
        by (rule follows_pre [OF follows_after [OF quiet_steps(4) follows_bind [OF settle delivered]], where P' = "?claimed (Claimed, r)"])
          (use that C in \<open>auto simp: working_def has_record_def\<close>)
    qed
    have stuck: "follows (?claimed (ClaimAmbiguous, r)) (bind (backfill_cleanup svc c pl task) (\<lambda>_.
        bind (audit_import svc mig chat msg t sev pay) (\<lambda>_. throw err))) ?R ?E" for r mig chat msg t sev pay err
      by (rule follows_after [OF quiet_backfill_cleanup follows_after [OF quiet_audit follows_throw]]) (use C in auto)
    have claim: "follows (settled_all C K) (claim_message svc (bfc_migration_id c) target ?m) ?claimed ?E" for target
      by (rule follows_claim)
    show "follows (settled_all C K) (backfill_entry svc c pl e task p) ?R ?E"
    proof (cases "be_should_deliver e")
      case False
      then show ?thesis
        unfolding backfill_entry_def Let_def
        by (simp only: if_True not_False_eq_True) (rule follows_after [OF quiet_backfill_cleanup skip], use C in auto)
    next
      case True
      have answered: "follows (?claimed (st, r)) (case st of
            ClaimAmbiguous \<Rightarrow> bind (backfill_cleanup svc c pl task) (\<lambda>_.
              bind (audit_import svc (bfc_migration_id c) (Some (cmsg_source_chat_id ?m))
                (Some (cmsg_source_message_id ?m)) ''ambiguous_delivery_state'' SevError
                [(''reason'', JStr ''message is still marked as processing'')]) (\<lambda>_.
              throw (AmbiguousDeliveryError ''message is stuck in processing state; manual reconciliation required'')))
          | Claimed \<Rightarrow> bind (resolve_prefetched svc (dlg_source_backend (pl_dialog pl)) (backfill_media c pl) task) (\<lambda>ps.
              bind (settle_message svc backfill_events (bfc_migration_id c) ?m
                (backfill_deliver svc c pl e (bp_cache p) ps)) (\<lambda>v. case v of
                VerdictImported _ \<Rightarrow> bind (pass_message svc c ?m p) (\<lambda>p. ret (False, p\<lparr>bp_imported := bp_imported p + 1\<rparr>))
              | VerdictFailed \<Rightarrow> bind (pass_message svc c ?m (p\<lparr>bp_failed := bp_failed p + 1\<rparr>)) (\<lambda>p. ret (False, p))
              | VerdictAmbiguous err \<Rightarrow> throw err))
          | _ \<Rightarrow> bind (backfill_cleanup svc c pl task) (\<lambda>_.
              bind (pass_message svc c ?m (p\<lparr>bp_skipped := bp_skipped p + 1\<rparr>)) (\<lambda>p. ret (False, p)))) ?R ?E" for st r
      proof (cases st)
        case Claimed
        show ?thesis unfolding Claimed claim_state.case by (rule granted [OF True])
      next
        case ClaimImported
        show ?thesis unfolding ClaimImported claim_state.case by (rule known [OF True]) simp
      next
        case ClaimFailed
        show ?thesis unfolding ClaimFailed claim_state.case by (rule known [OF True]) simp
      next
        case ClaimAmbiguous
        show ?thesis unfolding ClaimAmbiguous claim_state.case by (rule stuck)
      qed
      with True show ?thesis
        unfolding backfill_entry_def Let_def by (simp only: not_not simp_thms if_False)
          (rule follows_bind [OF claim], unfold split_paired_all prod.case, rule answered [unfolded prod.case])
    qed
  qed
qed

section \<open>The entries of a batch\<close>

text \<open>The entries the loop gets to: up to the first one that stops it.\<close>

fun handled_entries :: "batch_entry list \<Rightarrow> batch_entry list" where
  "handled_entries [] = []"
| "handled_entries (e # es) = (if halting e then [e] else e # handled_entries es)"

lemma handled_entries_Nil [simp]: "handled_entries es = [] \<longleftrightarrow> es = []"
  by (cases es) auto

lemma cursor_after_Cons: "cursor_after (e # es) cur = cursor_after es (Some (cursor_of (be_canonical e)))"
  by (simp add: cursor_after_def)

text \<open>How far the loop got when it raised: the entries of a prefix are done.\<close>

definition stopped_after :: "backfill_command \<Rightarrow> message_key set \<Rightarrow> backfill_progress \<Rightarrow> batch_entry list \<Rightarrow> ledger \<Rightarrow> bool" where
  "stopped_after c K p es l \<longleftrightarrow> (\<exists>es1 es2 p'. handled_entries es = es1 @ es2
    \<and> passed c (entry_keys c es1 \<union> K) p' l \<and> bp_cursor p' = cursor_after es1 (bp_cursor p))"

lemma stopped_now: "passed c K p l \<Longrightarrow> stopped_after c K p es l"
  unfolding stopped_after_def by (intro exI [of _ "[]"] exI [of _ "handled_entries es"] exI [of _ p]) (simp add: cursor_after_def)

lemma stopped_here:
  assumes "passed c (entry_keys c [e] \<union> K) p' l" and "bp_cursor p' = Some (cursor_of (be_canonical e))"
  shows "stopped_after c K p (e # es) l"
  unfolding stopped_after_def
  by (intro exI [of _ "[e]"] exI [of _ "if halting e then [] else handled_entries es"] exI [of _ p'])
    (use assms in \<open>simp add: cursor_after_def\<close>)

lemma stopped_later:
  assumes "stopped_after c (entry_keys c [e] \<union> K) p' es l" and "bp_cursor p' = Some (cursor_of (be_canonical e))"
    and "\<not> halting e"
  shows "stopped_after c K p (e # es) l"
proof -
  from assms(1) obtain es1 es2 q where q: "handled_entries es = es1 @ es2"
      "passed c (entry_keys c es1 \<union> (entry_keys c [e] \<union> K)) q l" "bp_cursor q = cursor_after es1 (bp_cursor p')"
    unfolding stopped_after_def by blast
  have "entry_keys c (e # es1) \<union> K = entry_keys c es1 \<union> (entry_keys c [e] \<union> K)" by auto
  with q assms(2,3) show ?thesis
    unfolding stopped_after_def
    by (intro exI [of _ "e # es1"] exI [of _ es2] exI [of _ q]) (simp add: cursor_after_Cons)
qed

lemma follows_entries:
  "follows (passed c K p) (backfill_entries svc c pl es task p)
    (\<lambda>(stop, p') l. passed c (entry_keys c (handled_entries es) \<union> K) p' l
       \<and> bp_cursor p' = cursor_after (handled_entries es) (bp_cursor p) \<and> stop = (\<exists>e \<in> set es. halting e)
       \<and> handled_count p' = handled_count p + length (filter be_should_deliver (handled_entries es)))
    (\<lambda>_. stopped_after c K p es)"
proof (induction es arbitrary: K p task)
  case Nil
  show ?case unfolding backfill_entries.simps by (rule follows_ret) (simp add: cursor_after_def)
next
  case (Cons e es)
  let ?Q = "\<lambda>(stop, p') l. passed c (entry_keys c (handled_entries (e # es)) \<union> K) p' l
       \<and> bp_cursor p' = cursor_after (handled_entries (e # es)) (bp_cursor p) \<and> stop = (\<exists>e \<in> set (e # es). halting e)
       \<and> handled_count p' = handled_count p + length (filter be_should_deliver (handled_entries (e # es)))"
  let ?R = "\<lambda>(stop, p') l. passed c (entry_keys c [e] \<union> K) p' l \<and> bp_cursor p' = Some (cursor_of (be_canonical e))
       \<and> stop = halting e \<and> handled_count p' = handled_count p + length (filter be_should_deliver [e])"
  let ?E = "\<lambda>_ :: error. stopped_after c K p (e # es)"
  let ?up = "case es of n # _ \<Rightarrow> if be_should_deliver n then Some (be_canonical n) else None | [] \<Rightarrow> None"
  have first: "follows (passed c K p) (on_error (backfill_cleanup svc c pl ?up) (backfill_entry svc c pl e task p)) ?R ?E"
    by (rule follows_on_error [OF follows_entry quiet_backfill_cleanup]) (auto intro: stopped_now)
  have rest: "follows (?R (stop, p')) (if stop then bind (backfill_cleanup svc c pl ?up) (\<lambda>_. ret (True, p'))
      else backfill_entries svc c pl es ?up p') ?Q ?E" for stop p'
  proof (cases "stop = halting e")
    case True
    show ?thesis
    proof (cases stop)
      case stops: True
      show ?thesis
        unfolding if_P [OF stops]
        by (rule follows_after [OF quiet_backfill_cleanup follows_ret])
          (use stops True stopped_here [of c e K p'] in \<open>auto simp: cursor_after_def\<close>)
    next
      case False
      let ?B = "bp_cursor p' = Some (cursor_of (be_canonical e))
        \<and> handled_count p' = handled_count p + length (filter be_should_deliver [e])"
      have "follows (\<lambda>l. ?B \<and> passed c (entry_keys c [e] \<union> K) p' l) (backfill_entries svc c pl es ?up p') ?Q ?E"
      proof (rule follows_assume)
        assume B: ?B
        have keys: "entry_keys c (handled_entries (e # es)) \<union> K
            = entry_keys c (handled_entries es) \<union> (entry_keys c [e] \<union> K)"
          using False True by auto
        show "follows (passed c (entry_keys c [e] \<union> K) p') (backfill_entries svc c pl es ?up p') ?Q ?E"
          by (rule follows_post [OF Cons.IH])
            (use B False True in \<open>auto simp only: keys, auto simp: cursor_after_Cons intro: stopped_later\<close>)
      qed
      then show ?thesis
        using False by (simp only: if_False) (erule follows_pre, auto)
    qed
  next
    case False
    then show ?thesis by (auto simp: follows_def meets_def)
  qed
  show ?case
    unfolding backfill_entries.simps Let_def
    by (rule follows_bind [OF first], unfold split_paired_all prod.case, rule rest [unfolded prod.case])
qed

section \<open>From messages to entries\<close>

text \<open>Whether the plan copies a message, and whether it lies beyond the plan's end.\<close>

definition plan_early :: "backfill_plan \<Rightarrow> datetime \<Rightarrow> bool" where
  "plan_early pl t = (case pl_from pl of None \<Rightarrow> False | Some t0 \<Rightarrow> t < t0)"

definition plan_late :: "backfill_plan \<Rightarrow> datetime \<Rightarrow> bool" where
  "plan_late pl t = (case pl_to pl of None \<Rightarrow> False | Some t1 \<Rightarrow> t > t1)"

definition concerns :: "backfill_plan \<Rightarrow> telegram_source_message \<Rightarrow> bool" where
  "concerns pl raw \<longleftrightarrow> matches_source_message (pl_dialog pl) (tm_message_id raw) (tm_thread_id raw)
     \<and> \<not> plan_early pl (tm_sent_at_utc raw)"

definition wanted :: "backfill_plan \<Rightarrow> telegram_source_message \<Rightarrow> bool" where
  "wanted pl raw \<longleftrightarrow> concerns pl raw \<and> \<not> plan_late pl (tm_sent_at_utc raw)"

definition beyond :: "backfill_plan \<Rightarrow> telegram_source_message \<Rightarrow> bool" where
  "beyond pl raw \<longleftrightarrow> concerns pl raw \<and> plan_late pl (tm_sent_at_utc raw)"

definition source_key :: "backfill_command \<Rightarrow> telegram_source_message \<Rightarrow> message_key" where
  "source_key c raw = (bfc_migration_id c, bfc_source_chat_id c, tm_message_id raw)"

definition source_cursor :: "telegram_source_message \<Rightarrow> history_cursor" where
  "source_cursor raw = \<lparr>hc_last_source_message_id = Some (tm_message_id raw),
     hc_last_source_sent_at = Some (tm_sent_at_utc raw)\<rparr>"

definition entry_of :: "backfill_command \<Rightarrow> backfill_plan \<Rightarrow> telegram_source_message \<Rightarrow> batch_entry \<Rightarrow> bool" where
  "entry_of c pl raw e \<longleftrightarrow> key_of_message (bfc_migration_id c) (be_canonical e) = source_key c raw
     \<and> cursor_of (be_canonical e) = source_cursor raw \<and> be_should_deliver e = wanted pl raw
     \<and> be_stop_after e = beyond pl raw"

lemma entry_of_halting: "entry_of c pl raw e \<Longrightarrow> halting e = beyond pl raw"
  by (auto simp: entry_of_def halting_def wanted_def beyond_def)

lemma normalize_keeps:
  assumes "Messages.normalize resolve directory raw s = (Inr m, s')"
  shows "cmsg_source_message_id m = tm_message_id raw" "cmsg_source_thread_id m = tm_thread_id raw"
    "cmsg_sent_at_utc m = tm_sent_at_utc raw"
  by (use assms in \<open>auto simp: Messages.normalize_def bind_Inr ret_def canonical_of_def\<close>)

lemma normalize_message_keeps:
  assumes "normalize_message svc raw s = (Inr m, s')"
  shows "cmsg_source_message_id m = tm_message_id raw" "cmsg_source_thread_id m = tm_thread_id raw"
    "cmsg_sent_at_utc m = tm_sent_at_utc raw"
  by (use assms in \<open>auto simp: normalize_message_def in_directory_def on_part_def Let_def normalize_keeps
    split: prod.splits\<close>)

lemma rehome_simps [simp]:
  "cmsg_source_chat_id (rehome chat m) = chat" "cmsg_source_message_id (rehome chat m) = cmsg_source_message_id m"
  "cmsg_source_thread_id (rehome chat m) = cmsg_source_thread_id m"
  "cmsg_sent_at_utc (rehome chat m) = cmsg_sent_at_utc m"
  by (simp_all add: rehome_def)

lemma build_entry_of:
  assumes "normalize_message svc raw s = (Inr m, s')"
  shows "entry_of c pl raw (build_entry pl title raw (rehome (bfc_source_chat_id c) m))"
  unfolding build_entry_def Let_def plan_early_def [symmetric] plan_late_def [symmetric]
  by (auto simp: entry_of_def key_of_message_def source_key_def cursor_of_def source_cursor_def wanted_def
      beyond_def concerns_def belongs_def normalize_message_keeps [OF assms])

text \<open>
  The entries of a batch stand for its messages, up to the first one beyond the plan.
\<close>

fun until_beyond :: "backfill_plan \<Rightarrow> telegram_source_message list \<Rightarrow> telegram_source_message list" where
  "until_beyond pl [] = []"
| "until_beyond pl (m # ms) = (if beyond pl m then [m] else m # until_beyond pl ms)"

lemma build_batch_entries_of:
  "build_batch_entries svc c pl title raws cache s = (Inr (es, cache'), s')
    \<Longrightarrow> list_all2 (entry_of c pl) (until_beyond pl raws) es"
proof (induction raws arbitrary: cache s es cache' s')
  case Nil
  then show ?case by (simp add: ret_def)
next
  case (Cons raw raws)
  from Cons.prems obtain m s1 where m: "normalize_message svc raw s = (Inr m, s1)"
    by (auto simp: bind_Inr)
  let ?e = "build_entry pl title raw (rehome (bfc_source_chat_id c) m)"
  note e = build_entry_of [OF m, of c pl title]
  then have stop: "be_stop_after ?e = beyond pl raw" by (simp add: entry_of_def)
  show ?case
  proof (cases "beyond pl raw")
    case True
    with Cons.prems m stop e show ?thesis by (auto simp: bind_Inr ret_def Let_def)
  next
    case False
    with Cons.prems m stop obtain cache1 es1 where
        rest: "build_batch_entries svc c pl title raws cache1 s1 = (Inr (es1, cache'), s')" and "es = ?e # es1"
      by (auto simp: bind_Inr ret_def Let_def)
    with Cons.IH [OF rest] e False show ?thesis by simp
  qed
qed

lemma quiet_build [quiet]: "is_quiet (build_batch_entries svc c pl title raws cache)"
  by (induction raws arbitrary: cache) (auto intro!: quiet simp: Let_def split: prod.split)

lemma handled_all:
  "list_all2 (entry_of c pl) (until_beyond pl raws) es \<Longrightarrow> handled_entries es = es"
  by (induction raws arbitrary: es) (auto simp: list_all2_Cons1 entry_of_halting split: if_splits)

lemma entries_halting:
  "list_all2 (entry_of c pl) (until_beyond pl raws) es
    \<Longrightarrow> (\<exists>e \<in> set es. halting e) = (\<exists>m \<in> set raws. beyond pl m)"
proof (induction raws arbitrary: es)
  case (Cons raw raws)
  show ?case
  proof (cases "beyond pl raw")
    case True
    with Cons.prems show ?thesis by (auto simp: list_all2_Cons1 entry_of_halting)
  next
    case False
    with Cons.prems obtain e es' where es: "es = e # es'" "entry_of c pl raw e"
        and rest: "list_all2 (entry_of c pl) (until_beyond pl raws) es'"
      by (auto simp: list_all2_Cons1)
    show ?thesis using Cons.IH [OF rest] False es entry_of_halting [OF es(2)] by simp
  qed
qed simp

lemma entries_keys:
  "list_all2 (entry_of c pl) ms es \<Longrightarrow> entry_keys c es = source_key c ` set (filter (wanted pl) ms)"
  by (induction rule: list_all2_induct) (auto simp: entry_of_def)

lemma entries_wanted:
  "list_all2 (entry_of c pl) ms es \<Longrightarrow> length (filter be_should_deliver es) = length (filter (wanted pl) ms)"
  by (induction rule: list_all2_induct) (auto simp: entry_of_def)

lemma entries_cursor:
  "list_all2 (entry_of c pl) ms es
    \<Longrightarrow> cursor_after es cur = (if ms = [] then cur else Some (source_cursor (last ms)))"
  by (induction ms es arbitrary: cur rule: list_all2_induct) (auto simp: cursor_after_Cons entry_of_def cursor_after_def)

lemma until_beyond_prefix: "\<exists>ms'. ms = until_beyond pl ms @ ms'"
  by (induction ms) auto

section \<open>A gateway that serves a history\<close>

text \<open>
  The source's messages have ids that \<open>num\<close> reads as growing positive numbers. What is newer than a
  cursor are the messages with a greater number.
\<close>

definition min_id :: "(string \<Rightarrow> int) \<Rightarrow> history_cursor option \<Rightarrow> int" where
  "min_id num cur = (case Option.bind cur hc_last_source_message_id of None \<Rightarrow> 0 | Some i \<Rightarrow> num i)"

definition newer :: "(string \<Rightarrow> int) \<Rightarrow> history_cursor option \<Rightarrow> telegram_source_message list
    \<Rightarrow> telegram_source_message list" where
  "newer num cur H = filter (\<lambda>m. min_id num cur < num (tm_message_id m)) H"

definition ordered_history :: "(string \<Rightarrow> int) \<Rightarrow> telegram_source_message list \<Rightarrow> bool" where
  "ordered_history num H \<longleftrightarrow> sorted_wrt (\<lambda>m m'. num (tm_message_id m) < num (tm_message_id m')) H
     \<and> (\<forall>m \<in> set H. 0 < num (tm_message_id m))"

text \<open>
  The gateway answers with messages that follow the cursor without a gap, with at least one unless
  there are none, and only says that there are no more when that is so. It may fail at any time.
\<close>

definition serves :: "'w import_services \<Rightarrow> manifest_dialog \<Rightarrow> int \<Rightarrow> (string \<Rightarrow> int)
    \<Rightarrow> telegram_source_message list \<Rightarrow> bool" where
  "serves svc d n num H \<longleftrightarrow> (\<forall>cur w b w'. is_fetch_history svc (physical_source_chat_id d) cur n
        (dlg_source_backend d) (dlg_source_thread_id d) w = (Inr b, w') \<longrightarrow>
     (\<exists>rest. newer num cur H = hb_messages b @ rest
        \<and> (hb_messages b = [] \<or> \<not> hb_has_more b \<longrightarrow> rest = [])))"

lemma retried_result:
  assumes "retried sv m s = (Inr a, s')"
  shows "\<exists>w w'. m w = (Inr a, w')"
proof -
  obtain w' l where "retry_run (sv_retry sv) (sv_random sv) m (dl_world s) = (Inr a, w', l)"
    using assms by (auto simp: retried_def Delivery.in_world_def on_part_def split: prod.splits)
  from retry_from_spec [OF this [unfolded retry_run_def]] obtain n where
      "Inr a = nth_result m n (dl_world s)" by blast
  then show ?thesis by (metis nth_result_def prod.collapse)
qed

lemma fetch_history_served:
  assumes "serves svc d n num H" and "fetch_history svc d cur n s = (Inr b, s')"
  shows "\<exists>rest. newer num cur H = hb_messages b @ rest \<and> (hb_messages b = [] \<or> \<not> hb_has_more b \<longrightarrow> rest = [])"
proof -
  obtain d' where "retried (is_delivery svc) (is_fetch_history svc (physical_source_chat_id d) cur n
      (dlg_source_backend d) (dlg_source_thread_id d)) (im_delivery s) = (Inr b, d')"
    using assms(2) by (auto simp: fetch_history_def in_delivery_def on_part_def split: prod.splits)
  from retried_result [OF this] show ?thesis using assms(1) unfolding serves_def by blast
qed

text \<open>The messages a plan has to copy from a history, and those a cursor has passed.\<close>

definition due :: "backfill_plan \<Rightarrow> telegram_source_message list \<Rightarrow> telegram_source_message list" where
  "due pl H = filter (wanted pl) (takeWhile (\<lambda>m. \<not> beyond pl m) H)"

definition due_keys :: "backfill_command \<Rightarrow> backfill_plan \<Rightarrow> (string \<Rightarrow> int) \<Rightarrow> telegram_source_message list
    \<Rightarrow> history_cursor option \<Rightarrow> message_key set" where
  "due_keys c pl num H cur = source_key c ` {m \<in> set (due pl H). num (tm_message_id m) \<le> min_id num cur}"

lemma min_id_source_cursor [simp]: "min_id num (Some (source_cursor m)) = num (tm_message_id m)"
  by (simp add: min_id_def source_cursor_def)

lemma newer_advance:
  assumes "ordered_history num H" and "newer num cur H = us @ rest" and "us \<noteq> []"
  shows "newer num (Some (source_cursor (last us))) H = rest"
proof -
  have sorted: "sorted_wrt (\<lambda>m m'. num (tm_message_id m) < num (tm_message_id m')) (us @ rest)"
    using assms(1) unfolding assms(2) [symmetric] newer_def ordered_history_def by (simp add: sorted_wrt_filter)
  obtain front b where us: "us = front @ [b]" using assms(3) by (metis append_butlast_last_id)
  have "b \<in> set (newer num cur H)" using us assms(2) by simp
  then have "min_id num cur < num (tm_message_id b)" by (simp add: newer_def)
  then have "newer num (Some (source_cursor b)) H = filter (\<lambda>m. num (tm_message_id b) < num (tm_message_id m)) (us @ rest)"
    unfolding assms(2) [symmetric] by (auto simp: newer_def intro!: filter_cong)
  also have "\<dots> = rest"
    using sorted us by (auto simp: sorted_wrt_append filter_empty_conv filter_id_conv dest!: bspec)
  finally show ?thesis using us by simp
qed

lemma due_keys_advance:
  assumes "ordered_history num H" and "newer num cur H = us @ rest" and "us \<noteq> []"
  shows "due_keys c pl num H (Some (source_cursor (last us)))
    \<subseteq> source_key c ` set (filter (wanted pl) us) \<union> due_keys c pl num H cur"
proof
  fix k
  assume "k \<in> due_keys c pl num H (Some (source_cursor (last us)))"
  then obtain m where m: "m \<in> set (due pl H)" "num (tm_message_id m) \<le> num (tm_message_id (last us))"
      "k = source_key c m"
    by (auto simp: due_keys_def)
  from m(1) have mH: "m \<in> set H" "wanted pl m" by (auto simp: due_def dest: set_takeWhileD)
  show "k \<in> source_key c ` set (filter (wanted pl) us) \<union> due_keys c pl num H cur"
  proof (cases "num (tm_message_id m) \<le> min_id num cur")
    case True
    with m show ?thesis by (auto simp: due_keys_def)
  next
    case False
    with mH have "m \<in> set (us @ rest)" unfolding assms(2) [symmetric] by (simp add: newer_def)
    moreover have "m \<notin> set rest"
      using m(2) unfolding newer_advance [OF assms, symmetric] by (simp add: newer_def)
    ultimately show ?thesis using m(3) mH(2) by auto
  qed
qed

lemma due_append:
  "due pl (until_beyond pl ms @ r)
    = filter (wanted pl) (until_beyond pl ms) @ (if \<exists>m \<in> set ms. beyond pl m then [] else due pl r)"
  by (induction ms) (auto simp: due_def wanted_def beyond_def)

lemma until_beyond_id: "\<not> (\<exists>m \<in> set ms. beyond pl m) \<Longrightarrow> until_beyond pl ms = ms"
  by (induction ms) auto

lemma until_beyond_last: "\<exists>m \<in> set ms. beyond pl m \<Longrightarrow> until_beyond pl ms \<noteq> [] \<and> beyond pl (last (until_beyond pl ms))"
  by (induction ms) auto

lemma due_before_beyond:
  fixes num :: "string \<Rightarrow> int"
  assumes "sorted_wrt (\<lambda>m m'. num (tm_message_id m) < num (tm_message_id m')) H"
    and "b \<in> set H" and "beyond pl b" and "m \<in> set (due pl H)"
  shows "num (tm_message_id m) \<le> num (tm_message_id b)"
  using assms
proof (induction H)
  case (Cons h H)
  then have "\<not> beyond pl h" by (auto simp: due_def split: if_splits)
  with Cons.prems have b: "b \<in> set H" and m: "m = h \<or> m \<in> set (due pl H)" by (auto simp: due_def split: if_splits)
  with Cons show ?case by (auto dest!: bspec [of "set H" _ b])
qed simp

section \<open>One round\<close>

definition resumable :: "backfill_command \<Rightarrow> backfill_plan \<Rightarrow> (string \<Rightarrow> int) \<Rightarrow> telegram_source_message list
    \<Rightarrow> backfill_progress \<Rightarrow> ledger \<Rightarrow> bool" where
  "resumable c pl num H p = passed c (due_keys c pl num H (bp_cursor p)) p"

definition remaining :: "backfill_plan \<Rightarrow> (string \<Rightarrow> int) \<Rightarrow> telegram_source_message list \<Rightarrow> backfill_progress \<Rightarrow> nat" where
  "remaining pl num H p = length (due pl (newer num (bp_cursor p) H))"

lemma follows_after_run:
  assumes "is_quiet m" and "\<And>a s s'. m s = (Inr a, s') \<Longrightarrow> follows P (f a) Q E" and "\<And>e l. P l \<Longrightarrow> E e l"
  shows "follows P (bind m f) Q E"
proof (rule followsI)
  fix s a s'
  assume P: "P (ledger s)" and run: "bind m f s = (Inr a, s')"
  then obtain b s1 where b: "m s = (Inr b, s1)" "f b s1 = (Inr a, s')" by (auto simp: bind_Inr)
  with P is_quietD [OF assms(1) b(1)] show "Q a (ledger s')" by (metis follows_result assms(2))
next
  fix s e s'
  assume P: "P (ledger s)" and run: "bind m f s = (Inl e, s')"
  then show "E e (ledger s')"
    using is_quietD [OF assms(1)] assms(2,3) unfolding bind_Inl by (metis follows_error)
qed

text \<open>What is known when the entries of the messages \<open>us\<close> that follow the cursor are done.\<close>

lemma resumable_after:
  assumes "ordered_history num H" and "newer num (bp_cursor p) H = us @ rest"
    and "passed c (source_key c ` set (filter (wanted pl) us) \<union> due_keys c pl num H (bp_cursor p)) p' l"
    and "bp_cursor p' = (if us = [] then bp_cursor p else Some (source_cursor (last us)))"
  shows "resumable c pl num H p' l"
proof (cases "us = []")
  case True
  with assms show ?thesis by (simp add: resumable_def)
next
  case False
  from due_keys_advance [OF assms(1,2) False] assms(3,4) False show ?thesis
    unfolding resumable_def by (auto elim!: passed_mono)
qed

lemma stopped_resumable:
  assumes "ordered_history num H" and "newer num (bp_cursor p) H = us @ rest"
    and us: "list_all2 (entry_of c pl) us es" and "handled_entries es = es"
    and "stopped_after c (due_keys c pl num H (bp_cursor p)) p es l"
  shows "\<exists>p'. resumable c pl num H p' l"
proof -
  from assms(4,5) obtain es1 es2 p' where es: "es = es1 @ es2"
      and p': "passed c (entry_keys c es1 \<union> due_keys c pl num H (bp_cursor p)) p' l"
        "bp_cursor p' = cursor_after es1 (bp_cursor p)"
    unfolding stopped_after_def by auto
  from us es obtain us1 us2 where us1: "us = us1 @ us2" "list_all2 (entry_of c pl) us1 es1"
    by (auto simp: list_all2_append2)
  with assms(2) have "newer num (bp_cursor p) H = us1 @ (us2 @ rest)" by simp
  from resumable_after [OF assms(1) this, of c pl p' l] p' us1(2) show ?thesis
    by (intro exI [of _ p']) (simp add: entries_keys entries_cursor)
qed

lemma due_keys_all:
  "(\<And>m. m \<in> set (due pl H) \<Longrightarrow> num (tm_message_id m) \<le> min_id num cur)
    \<Longrightarrow> due_keys c pl num H cur = source_key c ` set (due pl H)"
  by (auto simp: due_keys_def)

lemma due_in: "m \<in> set (due pl H) \<Longrightarrow> m \<in> set H"
  by (auto simp: due_def dest: set_takeWhileD)

lemma round_post:
  fixes b :: history_batch and pl :: backfill_plan
  defines "us \<equiv> until_beyond pl (hb_messages b)" and "stop \<equiv> \<exists>m \<in> set (hb_messages b). beyond pl m"
  assumes ordered: "ordered_history num H" and b: "newer num (bp_cursor p) H = hb_messages b @ rest"
    and ends: "hb_messages b = [] \<or> \<not> hb_has_more b \<longrightarrow> rest = []" and "hb_messages b \<noteq> []"
    and "passed c (source_key c ` set (filter (wanted pl) us) \<union> due_keys c pl num H (bp_cursor p)) p' l"
    and cursor: "bp_cursor p' = Some (source_cursor (last us))"
    and count: "handled_count p' = handled_count p + length (filter (wanted pl) us)"
  shows "resumable c pl num H p' l"
    and "hb_has_more b \<and> \<not> stop \<Longrightarrow> length (newer num (bp_cursor p') H) < length (newer num (bp_cursor p) H)"
    and "hb_has_more b \<and> \<not> stop \<Longrightarrow> handled_count p' + remaining pl num H p' = handled_count p + remaining pl num H p"
    and "\<not> (hb_has_more b \<and> \<not> stop) \<Longrightarrow> due_keys c pl num H (bp_cursor p') = source_key c ` set (due pl H)"
    and "\<not> (hb_has_more b \<and> \<not> stop) \<Longrightarrow> handled_count p' = handled_count p + remaining pl num H p"
proof -
  obtain ms' where ms': "hb_messages b = us @ ms'" using until_beyond_prefix unfolding us_def by blast
  with b have us: "newer num (bp_cursor p) H = us @ (ms' @ rest)" by simp
  have "us \<noteq> []" using assms(6) unfolding us_def by (cases "hb_messages b") auto
  note next' = newer_advance [OF ordered us this]
  show "resumable c pl num H p' l"
    using resumable_after [OF ordered us] assms(7) cursor \<open>us \<noteq> []\<close> by simp
  have rem: "remaining pl num H p = length (filter (wanted pl) us) + (if stop then 0 else remaining pl num H p')"
    using us next' cursor unfolding us_def stop_def remaining_def by (simp add: due_append)
  show "length (newer num (bp_cursor p') H) < length (newer num (bp_cursor p) H)"
    using us next' cursor \<open>us \<noteq> []\<close> by simp
  show "handled_count p' + remaining pl num H p' = handled_count p + remaining pl num H p"
    if "hb_has_more b \<and> \<not> stop"
    using that rem count by simp
  have all: "num (tm_message_id m) \<le> num (tm_message_id (last us))"
    if "\<not> (hb_has_more b \<and> \<not> stop)" "m \<in> set (due pl H)" for m
  proof (cases stop)
    case True
    then have "beyond pl (last us)" "last us \<in> set us"
      using until_beyond_last \<open>us \<noteq> []\<close> unfolding stop_def us_def by auto
    moreover from this(2) have "last us \<in> set H"
      using us unfolding newer_def by (metis Un_iff filter_is_subset set_append subsetD)
    ultimately show ?thesis
      using due_before_beyond [OF _ _ _ that(2)] ordered unfolding ordered_history_def by blast
  next
    case False
    then have "us = hb_messages b" unfolding us_def stop_def by (rule until_beyond_id)
    with ms' ends that(1) False have "newer num (Some (source_cursor (last us))) H = []" unfolding next' by simp
    moreover have "m \<in> set H" using that(2) by (auto simp: due_def dest: set_takeWhileD)
    ultimately show ?thesis by (auto simp: newer_def filter_empty_conv not_less)
  qed
  show "due_keys c pl num H (bp_cursor p') = source_key c ` set (due pl H)" if "\<not> (hb_has_more b \<and> \<not> stop)"
    using all [OF that] unfolding due_keys_def cursor by auto
  show "handled_count p' = handled_count p + remaining pl num H p" if "\<not> (hb_has_more b \<and> \<not> stop)"
  proof (cases stop)
    case False
    with that ends ms' next' cursor until_beyond_id have "remaining pl num H p' = 0"
      unfolding us_def stop_def by (auto simp: remaining_def due_def)
    with rem count False show ?thesis by simp
  qed (use rem count in simp)
qed

lemma follows_round:
  assumes ordered: "ordered_history num H" and serves: "serves svc (pl_dialog pl) (bfc_batch_size c) num H"
  shows "follows (resumable c pl num H p) (backfill_round svc c pl p)
    (\<lambda>(more, p') l. resumable c pl num H p' l
       \<and> (if more then length (newer num (bp_cursor p') H) < length (newer num (bp_cursor p) H)
            \<and> handled_count p' + remaining pl num H p' = handled_count p + remaining pl num H p
          else due_keys c pl num H (bp_cursor p') = source_key c ` set (due pl H)
            \<and> handled_count p' = handled_count p + remaining pl num H p))
    (\<lambda>_ l. \<exists>p'. resumable c pl num H p' l)" (is "follows ?I _ ?Q ?E")
  unfolding backfill_round_def
proof (rule follows_after_run [OF quiet_steps(3)])
  fix b s s'
  assume "fetch_history svc (pl_dialog pl) (bp_cursor p) (bfc_batch_size c) s = (Inr b, s')"
  from fetch_history_served [OF serves this] obtain rest where rest:
      "newer num (bp_cursor p) H = hb_messages b @ rest" "hb_messages b = [] \<or> \<not> hb_has_more b \<longrightarrow> rest = []" by blast
  show "follows ?I (if hb_messages b = [] then ret (False, p)
      else bind (build_batch_entries svc c pl (hb_dialog_title b) (hb_messages b) (bp_cache p)) (\<lambda>(es, cache).
        bind (backfill_entries svc c pl es None (p\<lparr>bp_cache := cache\<rparr>)) (\<lambda>(stop, p).
        ret (hb_has_more b \<and> \<not> stop, p)))) ?Q ?E"
  proof (cases "hb_messages b = []")
    case True
    with rest have none: "newer num (bp_cursor p) H = []" by simp
    then have "remaining pl num H p = 0" by (simp add: remaining_def due_def)
    moreover have "due_keys c pl num H (bp_cursor p) = source_key c ` set (due pl H)"
      using none by (intro due_keys_all) (auto simp: newer_def filter_empty_conv not_less dest: due_in)
    ultimately show ?thesis using True by (auto intro!: follows_ret)
  next
    case False
    let ?ms = "hb_messages b"
    let ?us = "until_beyond pl ?ms"
    let ?K = "due_keys c pl num H (bp_cursor p)"
    let ?stop = "\<exists>m \<in> set ?ms. beyond pl m"
    obtain ms' where ms': "?ms = ?us @ ms'" using until_beyond_prefix by blast
    with rest(1) have us: "newer num (bp_cursor p) H = ?us @ (ms' @ rest)" by simp
    have "?us \<noteq> []" using False by (cases ?ms) auto
    show ?thesis
      unfolding if_not_P [OF False]
    proof (rule follows_after_run [OF quiet_build])
      fix q :: "batch_entry list \<times> (string, canonical_message) dict" and s s'
      assume build: "build_batch_entries svc c pl (hb_dialog_title b) ?ms (bp_cache p) s = (Inr q, s')"
      obtain es cache where q: "q = (es, cache)" by fastforce
      note es = build_batch_entries_of [OF build [unfolded q]]
      note all = handled_all [OF es]
      let ?p = "p\<lparr>bp_cache := cache\<rparr>"
      let ?R = "\<lambda>(stop, p') l. passed c (source_key c ` set (filter (wanted pl) ?us) \<union> ?K) p' l
        \<and> bp_cursor p' = Some (source_cursor (last ?us)) \<and> stop = ?stop
        \<and> handled_count p' = handled_count p + length (filter (wanted pl) ?us)"
      have "follows (passed c ?K ?p) (backfill_entries svc c pl es None ?p) ?R ?E"
        by (rule follows_post [OF follows_entries])
          (use es all \<open>?us \<noteq> []\<close> stopped_resumable [OF ordered, of ?p ?us "ms' @ rest" c pl es] us
            in \<open>auto simp: entries_keys entries_cursor entries_halting entries_wanted handled_count_def\<close>)
      then have first: "follows ?I (backfill_entries svc c pl es None ?p) ?R ?E"
        by (rule follows_pre) (simp add: resumable_def passed_def)
      have last': "follows (?R (stop, p')) (ret (hb_has_more b \<and> \<not> stop, p')) ?Q ?E" for stop p'
      proof (rule follows_ret)
        fix l
        assume R: "?R (stop, p') l"
        then have stop: "stop = ?stop" and ok: "passed c (source_key c ` set (filter (wanted pl) ?us) \<union> ?K) p' l"
            "bp_cursor p' = Some (source_cursor (last ?us))"
            "handled_count p' = handled_count p + length (filter (wanted pl) ?us)"
          by simp_all
        note post = round_post [OF ordered rest False ok, folded stop]
        show "?Q (hb_has_more b \<and> \<not> stop, p') l"
          using post by (cases "hb_has_more b \<and> \<not> stop") (simp_all only: prod.case if_True if_False simp_thms)
      qed
      show "follows ?I (case q of (es, cache) \<Rightarrow> bind (backfill_entries svc c pl es None (p\<lparr>bp_cache := cache\<rparr>)) (\<lambda>(stop, p).
          ret (hb_has_more b \<and> \<not> stop, p))) ?Q ?E"
        unfolding q prod.case
        by (rule follows_bind [OF first], unfold split_paired_all prod.case, rule last' [unfolded prod.case])
    qed auto
  qed
qed auto

section \<open>The whole run\<close>

definition plan_for :: "'w import_services \<Rightarrow> backfill_command \<Rightarrow> backfill_plan \<Rightarrow> bool" where
  "plan_for svc c pl \<longleftrightarrow> dialog_for (bfc_manifest c) (bfc_source_chat_id c) = Inr (pl_dialog pl)
     \<and> parse_optional_datetime svc (dlg_include_from (pl_dialog pl)) = Inr (pl_from pl)
     \<and> parse_optional_datetime svc (dlg_include_to (pl_dialog pl)) = Inr (pl_to pl)"

text \<open>Everything that is due up to the stored checkpoint is settled.\<close>

definition resume_point :: "backfill_command \<Rightarrow> 'w import_state \<Rightarrow> history_cursor option" where
  "resume_point c s = stored_cursor (backfill_checkpoint c) (im_checkpoints s)"

definition up_to_date :: "backfill_command \<Rightarrow> backfill_plan \<Rightarrow> (string \<Rightarrow> int) \<Rightarrow> telegram_source_message list
    \<Rightarrow> 'w import_state \<Rightarrow> bool" where
  "up_to_date c pl num H s \<longleftrightarrow> message_inv (im_messages s)
     \<and> (\<forall>k \<in> due_keys c pl num H (resume_point c s). message_settled (im_messages s) k)"

lemma resumable_up_to_date: "resumable c pl num H p (ledger s) \<Longrightarrow> up_to_date c pl num H s"
  by (auto simp: resumable_def passed_def settled_all_def ledger_def up_to_date_def resume_point_def)

lemma up_to_date_resumable:
  "up_to_date c pl num H s \<Longrightarrow> bp_cursor p = resume_point c s \<Longrightarrow> resumable c pl num H p (ledger s)"
  by (auto simp: resumable_def passed_def settled_all_def ledger_def up_to_date_def resume_point_def)

lemma due_target: "due (pl\<lparr>pl_target := t\<rparr>) H = due pl H"
proof -
  have "beyond (pl\<lparr>pl_target := t\<rparr>) = beyond pl" "wanted (pl\<lparr>pl_target := t\<rparr>) = wanted pl"
    by (auto simp: fun_eq_iff beyond_def wanted_def concerns_def plan_early_def plan_late_def)
  then show ?thesis by (simp add: due_def)
qed

lemma rounds_end:
  assumes "ordered_history num H" and "serves svc (pl_dialog pl) (bfc_batch_size c) num H"
    and "resumable c pl num H p (ledger s)"
  shows "\<exists>r s'. repeat_rounds (backfill_round svc c pl) p s = Some (r, s')"
proof (rule repeat_rounds_ends [where I = "\<lambda>p s. resumable c pl num H p (ledger s)"
      and size' = "\<lambda>p s. length (newer num (bp_cursor p) H)"])
  fix p s p' s'
  assume "resumable c pl num H p (ledger s)" and "backfill_round svc c pl p s = (Inr (True, p'), s')"
  from follows_result [OF follows_round [OF assms(1,2)] this]
  show "resumable c pl num H p' (ledger s') \<and> length (newer num (bp_cursor p') H) < length (newer num (bp_cursor p) H)"
    by simp
qed (rule assms(3))

lemma meets_assume: "(B \<Longrightarrow> meets P m R E) \<Longrightarrow> meets (\<lambda>s. P s \<and> B) m R E"
  by (cases B) (auto simp: meets_def)

lemma rounds_meet:
  assumes "ordered_history num H" and "serves svc (pl_dialog pl) (bfc_batch_size c) num H"
    and "resumable c pl num H p (ledger s)" and "handled_count p = 0"
    and run: "repeat_rounds (backfill_round svc c pl) p s = Some (r, s')"
  shows "case r of Inl e \<Rightarrow> up_to_date c pl num H s' | Inr p' \<Rightarrow> resumable c pl num H p' (ledger s')
     \<and> due_keys c pl num H (bp_cursor p') = source_key c ` set (due pl H) \<and> handled_count p' = remaining pl num H p"
proof (rule repeat_rounds_meets [OF run, where I = "\<lambda>q s. resumable c pl num H q (ledger s)
      \<and> handled_count q + remaining pl num H q = remaining pl num H p"])
  fix q
  show "meets (\<lambda>s. resumable c pl num H q (ledger s) \<and> handled_count q + remaining pl num H q = remaining pl num H p)
      (backfill_round svc c pl q)
      (\<lambda>pa s. if fst pa then resumable c pl num H (snd pa) (ledger s)
           \<and> handled_count (snd pa) + remaining pl num H (snd pa) = remaining pl num H p
         else resumable c pl num H (snd pa) (ledger s)
           \<and> due_keys c pl num H (bp_cursor (snd pa)) = source_key c ` set (due pl H)
           \<and> handled_count (snd pa) = remaining pl num H p)
      (\<lambda>e s. up_to_date c pl num H s)"
  proof (rule meets_assume)
    assume "handled_count q + remaining pl num H q = remaining pl num H p"
    then show "meets (\<lambda>s. resumable c pl num H q (ledger s)) (backfill_round svc c pl q)
      (\<lambda>pa s. if fst pa then resumable c pl num H (snd pa) (ledger s)
           \<and> handled_count (snd pa) + remaining pl num H (snd pa) = remaining pl num H p
         else resumable c pl num H (snd pa) (ledger s)
           \<and> due_keys c pl num H (bp_cursor (snd pa)) = source_key c ` set (due pl H)
           \<and> handled_count (snd pa) = remaining pl num H p)
      (\<lambda>e s. up_to_date c pl num H s)"
      by (intro meets_post [OF follows_round [OF assms(1,2), unfolded follows_def]])
        (auto split: if_splits intro: resumable_up_to_date)
  qed
qed (use assms(3,4) in simp)

lemma plan_target [simp]:
  "\<lparr>pl_dialog = pl_dialog pl, pl_target = t, pl_from = pl_from pl, pl_to = pl_to pl\<rparr> = pl\<lparr>pl_target := t\<rparr>"
  by (cases pl) simp

lemma backfill_finish_result:
  "\<exists>res s'. backfill_finish svc c pl p s = (Inr res, s') \<and> ledger s' = ledger s
    \<and> br_imported_count res + br_skipped_count res + br_failed_count res = handled_count p"
  using clock_total [of svc s]
  by (auto simp: backfill_finish_def bind_def ret_def modify_def ledger_def handled_count_def)

lemma backfill_start_planned:
  assumes plan: "plan_for svc c pl"
    and provision: "\<And>mig d s. ledger (snd (is_provision svc mig d s)) = ledger s"
    and run: "backfill_start svc c s = (r, s1)"
  shows "ledger s1 = ledger s \<and> (\<forall>pl' p. r = Inr (pl', p) \<longrightarrow> (\<exists>t. pl' = pl\<lparr>pl_target := t\<rparr>)
    \<and> bp_cursor p = resume_point c s \<and> handled_count p = 0)"
proof -
  let ?prov = "is_provision svc (bfc_migration_id c) (pl_dialog pl)"
  obtain q s2 where q: "?prov s = (q, s2)" by fastforce
  with provision [of "bfc_migration_id c" "pl_dialog pl" s] have same: "ledger s2 = ledger s" by simp
  show ?thesis
    using run plan q same
    by (cases q) (auto simp: backfill_start_def plan_for_def bind_def lift_outcome_def get_state_def ret_def Let_def
        handled_count_def resume_point_def stored_cursor_def backfill_checkpoint_def ledger_def)
qed

lemma backfill_runs:
  assumes "plan_for svc c pl" and "ordered_history num H" and "serves svc (pl_dialog pl) (bfc_batch_size c) num H"
    and "\<And>mig d s. ledger (snd (is_provision svc mig d s)) = ledger s" and "up_to_date c pl num H s"
  shows "\<exists>r s'. backfill svc c s = Some (r, s') \<and> up_to_date c pl num H s'
    \<and> (\<forall>res. r = Inr res \<longrightarrow> (\<forall>m \<in> set (due pl H). message_settled (im_messages s') (source_key c m))
       \<and> br_imported_count res + br_skipped_count res + br_failed_count res
          = length (due pl (newer num (resume_point c s) H)))"
proof -
  obtain q s1 where start: "backfill_start svc c s = (q, s1)" by fastforce
  note planned = backfill_start_planned [OF assms(1,4) start]
  show ?thesis
  proof (cases q)
    case (Inl e)
    with planned start assms(5) show ?thesis
      by (auto simp: backfill_def up_to_date_def resume_point_def ledger_def)
  next
    case (Inr a)
    then obtain pl' p where a: "q = Inr (pl', p)" by (cases a) auto
    with planned obtain t where t: "pl' = pl\<lparr>pl_target := t\<rparr>" and cursor: "bp_cursor p = resume_point c s"
        and zero: "handled_count p = 0" and same: "ledger s1 = ledger s"
      by auto
    have keys: "due_keys c pl' num H cur = due_keys c pl num H cur" for cur
      unfolding t by (simp add: due_keys_def due_target)
    have serves: "serves svc (pl_dialog pl') (bfc_batch_size c) num H" using assms(3) t by simp
    have "up_to_date c pl' num H s1" "resume_point c s1 = resume_point c s"
      using assms(5) same keys by (simp_all add: up_to_date_def resume_point_def ledger_def)
    with cursor have ok: "resumable c pl' num H p (ledger s1)" by (intro up_to_date_resumable) simp_all
    from rounds_end [OF assms(2) serves ok] obtain r s2 where
        rounds: "repeat_rounds (backfill_round svc c pl') p s1 = Some (r, s2)" by blast
    note post = rounds_meet [OF assms(2) serves ok zero rounds]
    show ?thesis
    proof (cases r)
      case (Inl e)
      with post start a rounds show ?thesis
        by (simp add: backfill_def up_to_date_def keys)
    next
      case (Inr p')
      obtain res s3 where fin: "backfill_finish svc c pl' p' s2 = (Inr res, s3)" and "ledger s3 = ledger s2"
          and counts: "br_imported_count res + br_skipped_count res + br_failed_count res = handled_count p'"
        using backfill_finish_result by blast
      have done': "resumable c pl' num H p' (ledger s3)" "handled_count p' = remaining pl' num H p"
          "due_keys c pl' num H (bp_cursor p') = source_key c ` set (due pl' H)"
        using post Inr \<open>ledger s3 = ledger s2\<close> by simp_all
      from done'(1,3) have "\<forall>m \<in> set (due pl H). message_settled (im_messages s3) (source_key c m)"
        by (auto simp: resumable_def passed_def settled_all_def ledger_def t due_target)
      moreover from done'(1) have "up_to_date c pl' num H s3" by (rule resumable_up_to_date)
      then have "up_to_date c pl num H s3" by (simp add: up_to_date_def keys)
      moreover have "backfill svc c s = Some (Inr res, s3)" using Inr start a rounds fin by (simp add: backfill_def)
      moreover have "remaining pl' num H p = length (due pl (newer num (resume_point c s) H))"
        by (simp add: remaining_def t due_target cursor)
      ultimately show ?thesis using counts done'(2) by auto
    qed
  qed
qed

end
