(* ===== verification/Replay_Facts.thy ===== *)
theory Replay_Facts
  imports Import_Guards Backfill_Facts
begin

text \<open>
  A replay ends when the gateway serves the histories, and accounts for every failed message it
  set out to replay: as recovered, failed, ambiguous, missing or skipped, each exactly once.
\<close>

section \<open>Counting\<close>

definition total_replays :: "replay_counts \<Rightarrow> nat" where
  "total_replays n = rn_recovered n + rn_failed n + rn_ambiguous n + rn_missing n + rn_skipped n"

lemma total_replays_simps [simp]:
  "total_replays no_replays = 0" "total_replays (add_replays a b) = total_replays a + total_replays b"
  by (simp_all add: total_replays_def no_replays_def add_replays_def)

lemma total_count_replay [simp]: "total_replays (count_replay outcome n) = Suc (total_replays n)"
  by (cases outcome) (simp_all add: total_replays_def)

text \<open>The messages counted and those still to be found.\<close>

definition accounted :: "nat \<Rightarrow> replay_progress \<Rightarrow> bool" where
  "accounted n p \<longleftrightarrow> distinct (rp_remaining p) \<and> total_replays (rp_counts p) + length (rp_remaining p) = n"

lemma accounted_found:
  assumes "accounted n p" and "i \<in> set (rp_remaining p)"
  shows "accounted n (p\<lparr>rp_counts := count_replay outcome (rp_counts p), rp_remaining := removeAll i (rp_remaining p)\<rparr>)"
proof -
  have "length (removeAll i (rp_remaining p)) = length (rp_remaining p) - 1"
    using assms distinct_remove1_removeAll [of "rp_remaining p" i] length_remove1 [of i "rp_remaining p"]
    by (simp add: accounted_def)
  with assms show ?thesis by (cases "rp_remaining p") (auto simp: accounted_def distinct_removeAll)
qed

lemma yields_replay_batch:
  "accounted n p \<Longrightarrow> yields (replay_batch svc x title raws task p) (accounted n)"
proof (induction raws arbitrary: task p)
  case (Cons raw raws)
  have cached: "accounted n (p\<lparr>rp_cache := cache\<rparr>)" for cache using Cons.prems by (simp add: accounted_def)
  show ?case
    unfolding replay_batch.simps Let_def
    by (auto intro!: yield Cons.IH Cons.prems cached accounted_found [OF cached, simplified])
qed (auto intro: yield)

lemma yields_replay_round:
  assumes "accounted n p"
  shows "yields (replay_round svc x p) (\<lambda>(_, p'). accounted n p')"
proof -
  have next': "accounted n (p'\<lparr>rp_cursor := c\<rparr>)" if "accounted n p'" for p' c using that by (simp add: accounted_def)
  show ?thesis
    using assms unfolding replay_round_def
    by (auto intro!: yield yields_from [OF yields_replay_batch [OF assms]] next')
qed

lemma replay_chat_counts:
  assumes "replay_chat svc x records s = Some (Inr n, s')" and "distinct (map mm_source_message_id records)"
  shows "total_replays n = length records"
proof -
  let ?start = "replay_chat_start records"
  from assms(1) obtain p s1 where
      loop: "repeat_rounds (replay_round svc x) ?start s = Some (Inr p, s1)"
      and missing: "replay_missing svc x p s1 = (Inr n, s')"
    by (auto simp: replay_chat_def split: option.splits prod.splits sum.splits)
  have "accounted (length records) ?start"
    using assms(2) by (simp add: accounted_def replay_chat_start_def distinct_remdups_id)
  then have "accounted (length records) p"
    using repeat_rounds_meets [where I = "\<lambda>p _. accounted (length records) p" and Q = "\<lambda>p _. accounted (length records) p"
        and E = "\<lambda>_ _. True", OF loop] meets_def yields_replay_round [unfolded yields_def]
    by (force simp: meets_def split: prod.splits sum.splits)
  with missing show ?thesis
    by (auto simp: replay_missing_def bind_Inr ret_def accounted_def total_replays_def)
qed

section \<open>Groups\<close>

definition summed :: "('k, 'v list) dict \<Rightarrow> nat" where
  "summed d = sum_list (map (\<lambda>p. length (snd p)) d)"

lemma summed_dict_set:
  "summed (dict_set k v d) + (case dict_get d k of None \<Rightarrow> 0 | Some old \<Rightarrow> length old) = summed d + length v"
  by (induction d) (auto simp: summed_def)

lemma group_by_chat_snoc:
  "group_by_chat (rs @ [r]) = dict_set (mm_source_chat_id r)
     ((case dict_get (group_by_chat rs) (mm_source_chat_id r) of None \<Rightarrow> [] | Some g \<Rightarrow> g) @ [r]) (group_by_chat rs)"
  by (simp add: group_by_chat_def)

lemma group_by_chat_get:
  "dict_get (group_by_chat rs) chat = (let g = filter (\<lambda>r. mm_source_chat_id r = chat) rs in if g = [] then None else Some g)"
proof (induction rs rule: rev_induct)
  case Nil
  then show ?case by (simp add: group_by_chat_def)
next
  case (snoc r rs)
  show ?case
    using snoc by (auto simp: group_by_chat_snoc update_conv Let_def split: option.splits if_splits)
qed

lemma group_by_chat_ok: "dict_ok (group_by_chat rs)"
  by (induction rs rule: rev_induct) (auto simp: group_by_chat_snoc group_by_chat_def)

lemma summed_group_by_chat: "summed (group_by_chat rs) = length rs"
proof (induction rs rule: rev_induct)
  case Nil
  then show ?case by (simp add: group_by_chat_def summed_def)
next
  case (snoc r rs)
  then show ?case
    using summed_dict_set [of "mm_source_chat_id r" "(case dict_get (group_by_chat rs) (mm_source_chat_id r) of
        None \<Rightarrow> [] | Some g \<Rightarrow> g) @ [r]" "group_by_chat rs"]
    by (auto simp: group_by_chat_snoc split: option.splits)
qed

lemma group_by_chat_mem:
  assumes "(chat, g) \<in> set (group_by_chat rs)"
  shows "g = filter (\<lambda>r. mm_source_chat_id r = chat) rs"
  using assms group_by_chat_get [of rs chat] by (auto simp: dict_mem_iff [OF group_by_chat_ok] Let_def split: if_splits)

section \<open>The whole run\<close>

text \<open>The failed messages of a migration have different keys.\<close>

lemma distinct_sort_key: "distinct (map f (sort_key g xs)) \<longleftrightarrow> distinct (map f xs)"
  by (rule mset_eq_imp_distinct_iff) simp

lemma list_failed_distinct:
  assumes "message_inv M"
  shows "distinct (map message_key (message_list_failed mig chat n M))"
    and "r \<in> set (message_list_failed mig chat n M) \<Longrightarrow> mm_migration_id r = mig"
proof -
  let ?P = "\<lambda>p. fst (fst p) = mig \<and> mm_import_status (snd p) = MsgFailed \<and> (chat = None \<or> chat = Some (fst (snd (fst p))))"
  have keyed: "keyed_dict message_key (mr_items M)" using assms by (rule message_invD(1))
  have keys: "map message_key (map snd (filter ?P (mr_items M))) = map fst (filter ?P (mr_items M))"
    using keyed by (auto simp: keyed_dict_def)
  have "distinct (map fst (filter ?P (mr_items M)))"
    using keyed_dict_ok [OF keyed] by (simp add: distinct_map_filter)
  then have "distinct (map message_key (sort_key (\<lambda>r. (mm_source_sent_at r, mm_source_message_id r))
      (map snd (filter ?P (mr_items M)))))"
    unfolding keys [symmetric] by (simp add: distinct_sort_key)
  then show "distinct (map message_key (message_list_failed mig chat n M))"
    unfolding message_list_failed_def by (rule distinct_map_slice_to)
  show "mm_migration_id r = mig" if "r \<in> set (message_list_failed mig chat n M)"
  proof -
    from that have "r \<in> snd ` set (filter ?P (mr_items M))"
      using set_slice_to unfolding message_list_failed_def by fastforce
    then obtain k where "(k, r) \<in> set (mr_items M)" "fst k = mig" by auto
    moreover from this(1) keyed have "message_key r = k" by (auto simp: keyed_dict_def)
    ultimately show ?thesis by (auto simp: message_key_def)
  qed
qed

lemma distinct_in_chat:
  assumes "distinct (map message_key rs)" and "\<And>r. r \<in> set rs \<Longrightarrow> mm_migration_id r = mig"
  shows "distinct (map mm_source_message_id (filter (\<lambda>r. mm_source_chat_id r = chat) rs))"
  using assms
proof (induction rs)
  case (Cons r rs)
  then have rest: "distinct (map mm_source_message_id (filter (\<lambda>r. mm_source_chat_id r = chat) rs))" by simp
  have "mm_source_message_id q \<noteq> mm_source_message_id r" if "q \<in> set rs" "mm_source_chat_id q = mm_source_chat_id r" for q
    by (use Cons.prems(1) Cons.prems(2) [of q] Cons.prems(2) [of r] that in \<open>force simp: message_key_def\<close>)
  then have "mm_source_message_id r \<notin> mm_source_message_id ` set (filter (\<lambda>q. mm_source_chat_id q = chat) rs)"
    if "mm_source_chat_id r = chat" using that by fastforce
  with rest show ?case by simp
qed simp

lemma replay_chats_counts:
  assumes "replay_chats svc c groups n s = Some (Inr n', s')"
    and "\<And>chat g. (chat, g) \<in> set groups \<Longrightarrow> distinct (map mm_source_message_id g)"
  shows "total_replays n' = total_replays n + summed groups"
  using assms
proof (induction groups arbitrary: n s)
  case Nil
  then show ?case by (simp add: summed_def)
next
  case (Cons g groups)
  obtain chat records where g: "g = (chat, records)" by fastforce
  from Cons.prems(1) g obtain d m s1 s2 where
      chat: "replay_chat svc \<lparr>rx_manifest = rfc_manifest c, rx_dialog = d, rx_batch_size = rfc_batch_size c\<rparr>
        (sort_key (\<lambda>r. (mm_source_sent_at r, mm_source_message_id r)) records) s = Some (Inr m, s1)"
      and rest: "replay_chats svc c groups (add_replays n m) s2 = Some (Inr n', s')"
    by (auto split: sum.splits option.splits prod.splits)
  have "distinct (map mm_source_message_id records)" using Cons.prems(2) g by auto
  then have "distinct (map mm_source_message_id (sort_key (\<lambda>r. (mm_source_sent_at r, mm_source_message_id r)) records))"
    by (simp add: distinct_map)
  from replay_chat_counts [OF chat this] have "total_replays m = length records" by simp
  moreover have "distinct (map mm_source_message_id h)" if "(chat', h) \<in> set groups" for chat' h
    using Cons.prems(2) [of chat' h] that by simp
  note Cons.IH [OF rest this]
  ultimately show ?case using g by (simp add: summed_def)
qed

lemma replay_counts_all:
  assumes "message_inv (im_messages s)" and "replay_failed svc c s = Some (Inr res, s')"
  shows "rr_recovered res + rr_failed res + rr_ambiguous res + rr_missing res + rr_skipped res = rr_requested res"
    and "rr_requested res = length (message_list_failed (mf_migration_id (rfc_manifest c)) (rfc_source_chat_id c)
      (rfc_limit c) (im_messages s))"
proof -
  let ?mig = "mf_migration_id (rfc_manifest c)"
  let ?rs = "message_list_failed ?mig (rfc_source_chat_id c) (rfc_limit c) (im_messages s)"
  have "rr_recovered res + rr_failed res + rr_ambiguous res + rr_missing res + rr_skipped res = rr_requested res
    \<and> rr_requested res = length ?rs"
  proof (cases "?rs = []")
    case True
    with assms(2) show ?thesis
      by (auto simp: replay_failed_def Let_def replay_result_of_def no_replays_def)
  next
    case False
    with assms(2) obtain n s1 where chats: "replay_chats svc c (group_by_chat ?rs) no_replays s = Some (Inr n, s1)"
        and res: "res = replay_result_of c ?rs n"
      by (auto simp: replay_failed_def Let_def bind_Inr ret_def split: sum.splits option.splits prod.splits)
    have "total_replays n = summed (group_by_chat ?rs)"
      using replay_chats_counts [OF chats] distinct_in_chat [OF list_failed_distinct(1) list_failed_distinct(2)]
        assms(1) group_by_chat_mem by fastforce
    then show ?thesis
      unfolding summed_group_by_chat by (simp add: res replay_result_of_def total_replays_def)
  qed
  then show "rr_recovered res + rr_failed res + rr_ambiguous res + rr_missing res + rr_skipped res = rr_requested res"
    and "rr_requested res = length ?rs" by auto
qed

end
