(* ===== verification/Delta_Facts.thy ===== *)
theory Delta_Facts
  imports Import_Guards Backfill_Facts
begin

text \<open>
  What a delta synchronisation guarantees: its counts add up and stay within the limit, and a migration
  that is not active is left alone, whether it was so from the start or became so between two events.
\<close>

section \<open>Counts\<close>

definition counts_add_up :: "delta_counts \<Rightarrow> bool" where
  "counts_add_up n \<longleftrightarrow> dn_processed n = dn_imported n + dn_skipped n + dn_failed n + dn_ambiguous n"

definition within_limit :: "delta_command \<Rightarrow> delta_counts \<Rightarrow> bool" where
  "within_limit c n \<longleftrightarrow> (case dsc_max_events c of None \<Rightarrow> True | Some m \<Rightarrow> int (dn_processed n) \<le> max 0 m)"

text \<open>While a run goes on it has not reached its limit.\<close>

definition going_on :: "delta_command \<Rightarrow> delta_progress \<Rightarrow> bool" where
  "going_on c p \<longleftrightarrow> counts_add_up (dp_counts p) \<and> \<not> reached_limit c p"

definition ended_well :: "delta_command \<Rightarrow> delta_result \<Rightarrow> bool" where
  "ended_well c r \<longleftrightarrow> counts_add_up (der_counts r) \<and> within_limit c (der_counts r)"

lemma count_delta_adds_up: "counts_add_up n \<Longrightarrow> counts_add_up (count_delta outcome n)"
  by (cases outcome) (simp_all add: counts_add_up_def)

lemma count_delta_processed: "dn_processed (count_delta outcome n) \<le> Suc (dn_processed n)"
  by (cases outcome) simp_all

lemma going_on_within: "going_on c p \<Longrightarrow> within_limit c (dp_counts p)"
  by (auto simp: going_on_def within_limit_def reached_limit_def split: option.splits)

lemma note_outcome_within:
  assumes "going_on c p"
  shows "counts_add_up (dp_counts (note_outcome chat m outcome cache p))"
    and "within_limit c (dp_counts (note_outcome chat m outcome cache p))"
    and "outcome = DeltaIgnored \<Longrightarrow> going_on c (note_outcome chat m outcome cache p)"
    and "\<not> reached_limit c (note_outcome chat m outcome cache p) \<Longrightarrow> going_on c (note_outcome chat m outcome cache p)"
  using assms count_delta_adds_up [of "dp_counts p" outcome] count_delta_processed [of outcome "dp_counts p"]
  by (auto simp: going_on_def note_outcome_def within_limit_def reached_limit_def split: option.splits)

lemma yields_complete:
  "counts_add_up (dp_counts p) \<Longrightarrow> within_limit c (dp_counts p)
    \<Longrightarrow> yields (delta_complete svc c chats p status st reason) (ended_well c)"
  unfolding delta_complete_def Let_def by (auto intro!: yield simp: ended_well_def)

lemma yields_blocked:
  assumes "counts_add_up (dp_counts p)" and "within_limit c (dp_counts p)"
  shows "yields (blocked_result_if_needed svc c chats p) (\<lambda>b. \<forall>r. b = Some r \<longrightarrow> ended_well c r)"
proof -
  have "yields (delta_complete svc c chats p status st reason) (ended_well c)" for status st reason
    using assms by (rule yields_complete)
  then have ended: "yields (bind (delta_complete svc c chats p status st reason) (\<lambda>r. ret (Some r)))
      (\<lambda>b. \<forall>r. b = Some r \<longrightarrow> ended_well c r)" for status st reason
    by (rule yields_from) (auto intro: yield)
  show ?thesis
    unfolding blocked_result_if_needed_def
  proof (rule yields_bind)
    fix st
    show "yields (if ms_status st = Active then ret None
        else case blocked_status (ms_status st) of (status, reason) \<Rightarrow>
          bind (audit_import svc (dsc_migration_id c) None None ''delta_sync_blocked_by_state'' SevWarning
            [(''migration_state'', JStr (lifecycle_value (ms_status st))), (''reason'', JStr reason),
             (''source_chat_ids'', JList (map JStr chats))]) (\<lambda>_.
          bind (delta_complete svc c chats p status (Some (ms_status st)) (Some reason)) (\<lambda>r. ret (Some r))))
        (\<lambda>b. \<forall>r. b = Some r \<longrightarrow> ended_well c r)"
      by (cases "blocked_status (ms_status st)") (simp add: yields_ret yields_bind [OF ended])
  qed
qed

lemma yields_catch_up_batch:
  "going_on c p \<Longrightarrow> yields (catch_up_batch svc c chat d target title raws task p)
    (\<lambda>(limit, p'). counts_add_up (dp_counts p') \<and> within_limit c (dp_counts p') \<and> (\<not> limit \<longrightarrow> going_on c p'))"
  (is "_ \<Longrightarrow> yields _ ?Q")
proof (induction raws arbitrary: task p)
  case Nil
  then show ?case by (auto intro!: yield simp: going_on_within) (simp add: going_on_def)
next
  case (Cons raw raws)
  note noted = note_outcome_within [OF Cons.prems]
  have rest: "yields (let p = note_outcome chat (tm_message_id raw) outcome cache p
      in if outcome \<noteq> DeltaIgnored \<and> reached_limit c p
         then bind (delta_cleanup svc (dsc_manifest c) d upcoming) (\<lambda>_. ret (True, p))
         else catch_up_batch svc c chat d target title raws upcoming p) ?Q" for outcome cache upcoming
    using noted(1,2) noted(3,4) [THEN Cons.IH] unfolding Let_def
    by (cases "outcome = DeltaIgnored"; cases "reached_limit c (note_outcome chat (tm_message_id raw) outcome cache p)")
      (auto intro!: yields_bind yields_ret)
  show ?case
    unfolding catch_up_batch.simps
    by (rule yields_bind, rule yields_bind, unfold split_paired_all prod.case, rule rest)
qed

lemma yields_catch_up_round:
  assumes "going_on c p"
  shows "yields (catch_up_round svc c chat d target (cursor, b, p)) (\<lambda>(more, _, limit, p').
    (more \<longrightarrow> \<not> limit) \<and> counts_add_up (dp_counts p') \<and> within_limit c (dp_counts p') \<and> (\<not> limit \<longrightarrow> going_on c p'))"
  using assms going_on_within [OF assms] unfolding catch_up_round_def
  by (auto intro!: yield yields_from [OF yields_catch_up_batch [OF assms]] simp: going_on_def split: prod.split)

lemma catch_up_chat_counts:
  assumes "going_on c p" and "catch_up_chat svc c chat d target p s = Some (Inr (limit, p'), s')"
  shows "counts_add_up (dp_counts p') \<and> within_limit c (dp_counts p') \<and> (\<not> limit \<longrightarrow> going_on c p')"
proof -
  from assms(2) obtain cursor s1 cursor' where
      loop: "repeat_rounds (catch_up_round svc c chat d target) (Some cursor, False, p) s1 = Some (Inr (cursor', limit, p'), s')"
    by (auto simp: catch_up_chat_def split: prod.splits sum.splits option.splits)
  let ?Q = "\<lambda>q. counts_add_up (dp_counts (snd (snd q))) \<and> within_limit c (dp_counts (snd (snd q)))
      \<and> (\<not> fst (snd q) \<longrightarrow> going_on c (snd (snd q)))"
  have step: "meets (\<lambda>_. going_on c (snd (snd q))) (catch_up_round svc c chat d target q)
      (\<lambda>r s. if fst r then going_on c (snd (snd (snd r))) else ?Q (snd r)) (\<lambda>_ _. True)" for q
  proof (rule meetsI)
    fix s r s'
    assume going: "going_on c (snd (snd q))" and run: "catch_up_round svc c chat d target q s = (Inr r, s')"
    obtain cur b p0 where q: "q = (cur, b, p0)" by (cases q) auto
    from yieldsD [OF yields_catch_up_round run [unfolded q]] going q
    show "if fst r then going_on c (snd (snd (snd r))) else ?Q (snd r)" by (cases r) auto
  qed simp
  from repeat_rounds_meets [where I = "\<lambda>q _. going_on c (snd (snd q))" and Q = "\<lambda>q _. ?Q q" and E = "\<lambda>_ _. True",
      OF loop _ step] assms(1)
  show ?thesis by simp
qed

text \<open>Where a stage leaves a run.\<close>

definition stage_well :: "delta_command \<Rightarrow> delta_stage \<Rightarrow> bool" where
  "stage_well c st \<longleftrightarrow> (case st of DeltaEnded r \<Rightarrow> ended_well c r | DeltaContinues p \<Rightarrow> going_on c p)"

lemma yields_ended:
  "counts_add_up (dp_counts p) \<Longrightarrow> within_limit c (dp_counts p)
    \<Longrightarrow> yields (bind (delta_complete svc c chats p status st reason) (\<lambda>r. ret (DeltaEnded r))) (stage_well c)"
  by (rule yields_from [OF yields_complete]) (auto intro: yield simp: stage_well_def)

lemma going_on_simps: "going_on c p \<Longrightarrow> counts_add_up (dp_counts p)"
  by (simp add: going_on_def)

lemma catch_up_all_counts:
  assumes "going_on c p" and "catch_up_all svc c chats targets p s = Some (Inr st, s')"
  shows "stage_well c st"
  using assms
proof (induction targets arbitrary: p s)
  case Nil
  then show ?case by (auto simp: stage_well_def)
next
  case (Cons g targets)
  obtain chat d target where g: "g = (chat, d, target)" by (cases g) auto
  obtain b s1 where b: "blocked_result_if_needed svc c chats p s = (Inr b, s1)"
    using Cons.prems(2) g by (auto split: prod.splits sum.splits)
  note blocked = yieldsD [OF yields_blocked b, OF going_on_simps [OF Cons.prems(1)] going_on_within [OF Cons.prems(1)]]
  show ?case
  proof (cases b)
    case (Some r)
    with Cons.prems(2) g b blocked show ?thesis by (auto simp: stage_well_def)
  next
    case None
    with Cons.prems(2) g b obtain limit p' s2 where
        chat: "catch_up_chat svc c chat d target p s1 = Some (Inr (limit, p'), s2)"
      by (auto split: option.splits prod.splits sum.splits)
    note p' = catch_up_chat_counts [OF Cons.prems(1) chat]
    show ?thesis
    proof (cases limit)
      case True
      with Cons.prems(2) g b None chat have "bind (delta_complete svc c chats p' ''max_events_reached'' None None)
          (\<lambda>r. ret (DeltaEnded r)) s2 = (Inr st, s')" by simp
      from yieldsD [OF yields_ended this] p' show ?thesis by simp
    next
      case False
      with Cons.prems(2) g b None chat have "catch_up_all svc c chats targets p' s2 = Some (Inr st, s')" by simp
      from Cons.IH [OF _ this] p' False show ?thesis by simp
    qed
  qed
qed

lemma going_on_caches [simp]: "going_on c (p\<lparr>dp_caches := d\<rparr>) = going_on c p"
  by (simp add: going_on_def reached_limit_def split: option.split)

lemma yields_handle_event: "going_on c p \<Longrightarrow> yields (handle_event svc c chats ev targets p) (stage_well c)"
proof (induction targets arbitrary: p)
  case Nil
  then show ?case by (auto intro: yield simp: stage_well_def)
next
  case (Cons g targets)
  obtain chat d target where g: "g = (chat, d, target)" by (cases g) auto
  note noted = note_outcome_within [OF Cons.prems]
  have rest: "yields (if outcome = DeltaIgnored
      then handle_event svc c chats ev targets (p\<lparr>dp_caches := dict_set chat cache (dp_caches p)\<rparr>)
      else let p = note_outcome chat i outcome cache p
        in if reached_limit c p
           then bind (delta_complete svc c chats p ''max_events_reached'' None None) (\<lambda>r. ret (DeltaEnded r))
           else handle_event svc c chats ev targets p) (stage_well c)" for outcome cache i
    using Cons.IH Cons.prems noted(4) [THEN Cons.IH] yields_ended [OF noted(1,2)] unfolding Let_def by auto
  show ?case
    unfolding g handle_event.simps Let_def
    by (rule yields_bind, unfold split_paired_all prod.case, rule rest [unfolded Let_def])
qed

lemma yields_handle_events: "going_on c p \<Longrightarrow> yields (handle_events svc c chats targets evs ending p) (ended_well c)"
proof (induction evs arbitrary: p)
  case Nil
  then show ?case
    by (auto intro!: yields_throw yields_complete going_on_within dest: going_on_simps split: option.split)
next
  case (Cons g evs)
  obtain change ev where g: "g = (change, ev)" by fastforce
  have handled: "yields (bind (handle_event svc c chats ev ts p) (\<lambda>stage. case stage of
      DeltaEnded r \<Rightarrow> ret r | DeltaContinues p \<Rightarrow> handle_events svc c chats targets evs ending p)) (ended_well c)" for ts
    by (rule yields_from [OF yields_handle_event [OF Cons.prems]])
      (auto intro!: yields_ret Cons.IH simp: stage_well_def split: delta_stage.split)
  show ?case
    unfolding g handle_events.simps
    by (rule yields_bind, rule yields_from [OF yields_blocked])
      (auto intro!: yields_ret handled going_on_simps going_on_within Cons.prems split: option.split)
qed

lemma delta_counts_well:
  assumes "delta_sync dsv c s = Some (Inr r, s')"
  shows "ended_well c r"
proof -
  let ?svc = "dsv_import dsv" and ?chats = "resolve_source_chat_ids c"
  let ?p = "delta_start_progress ?chats"
  have fresh: "counts_add_up (dp_counts ?p)" "within_limit c (dp_counts ?p)"
    by (auto simp: delta_start_progress_def no_deltas_def counts_add_up_def within_limit_def split: option.split)
  have begins: "yields (delta_begin ?svc c ?chats) (\<lambda>b. case b of Inl r \<Rightarrow> ended_well c r | Inr _ \<Rightarrow> going_on c ?p)"
    unfolding delta_begin_def
  proof (rule yields_from [OF yields_blocked [OF fresh]], goal_cases)
    case (1 b)
    have begun: "yields (if case dsc_max_events c of None \<Rightarrow> False | Some n \<Rightarrow> n \<le> 0
        then bind (delta_complete ?svc c ?chats ?p ''max_events_reached'' None None) (\<lambda>r. ret (Inl r))
        else ret (Inr targets)) (\<lambda>b. case b of Inl r \<Rightarrow> ended_well c r | Inr _ \<Rightarrow> going_on c ?p)" for targets
    proof (cases "case dsc_max_events c of None \<Rightarrow> False | Some n \<Rightarrow> n \<le> 0")
      case True
      then show ?thesis
        by (simp only: if_True simp_thms) (auto intro!: yields_from [OF yields_complete [OF fresh]] yields_ret)
    next
      case False
      then have "going_on c ?p"
        by (auto simp: going_on_def reached_limit_def delta_start_progress_def no_deltas_def counts_add_up_def
          split: option.splits)
      with False show ?thesis by (simp only: if_False simp_thms) (auto intro!: yields_ret)
    qed
    show ?case
    proof (cases b)
      case None
      then show ?thesis by simp (intro yields_bind begun)
    next
      case (Some r)
      with 1 show ?thesis by (simp add: yields_ret)
    qed
  qed
  obtain b s1 where b: "delta_begin ?svc c ?chats s = (Inr b, s1)"
    using assms unfolding delta_sync_def Let_def by (auto split: prod.splits sum.splits)
  note begun = yieldsD [OF begins b]
  show ?thesis
  proof (cases b)
    case (Inl r')
    with assms b begun show ?thesis unfolding delta_sync_def Let_def by simp
  next
    case (Inr targets)
    with assms b obtain st s2 where caught: "catch_up_all ?svc c ?chats targets ?p s1 = Some (Inr st, s2)"
      unfolding delta_sync_def Let_def by (auto split: option.splits prod.splits sum.splits)
    from begun Inr have "going_on c ?p" by simp
    note well = catch_up_all_counts [OF this caught]
    show ?thesis
    proof (cases st)
      case (DeltaEnded r')
      with assms b Inr caught well show ?thesis unfolding delta_sync_def Let_def by (simp add: stage_well_def)
    next
      case (DeltaContinues p)
      with assms b Inr caught have "delta_stream dsv c ?chats targets p s2 = (Inr r, s')"
        unfolding delta_sync_def Let_def by simp
      moreover have "yields (delta_stream dsv c ?chats targets p) (ended_well c)"
        using well DeltaContinues unfolding delta_stream_def Let_def
        by (auto intro: yields_handle_events yields_throw simp: stage_well_def split: list.splits prod.splits)
      ultimately show ?thesis by (rule yieldsD [rotated])
    qed
  qed
qed

section \<open>A migration that is not active\<close>

text \<open>Only the audit trail and the outside world may differ.\<close>

definition only_audited :: "'w import_state \<Rightarrow> 'w import_state \<Rightarrow> bool" where
  "only_audited s s' \<longleftrightarrow> (\<exists>w a. s' = s\<lparr>im_delivery := (im_delivery s)\<lparr>dl_world := w, dl_audit := a\<rparr>\<rparr>)"

lemma only_audited_trans: "only_audited s s1 \<Longrightarrow> only_audited s1 s2 \<Longrightarrow> only_audited s s2"
  unfolding only_audited_def by (elim exE) (simp, blast)

lemma audit_run: "\<exists>s'. audit_import svc mig chat msg t sev payload s = (Inr (), s') \<and> only_audited s s'"
proof -
  obtain t' w where "clock svc s = (Inr t', s\<lparr>im_delivery := (im_delivery s)\<lparr>dl_world := w\<rparr>\<rparr>)"
    using clock_total [of svc s] by blast
  then show ?thesis by (simp add: audit_import_def bind_def modify_def only_audited_def) blast
qed

definition stopped_result :: "delta_command \<Rightarrow> delta_counts \<Rightarrow> lifecycle_status \<Rightarrow> delta_result \<Rightarrow> bool" where
  "stopped_result c n status r \<longleftrightarrow> der_migration_id r = dsc_migration_id c \<and> der_counts r = n
    \<and> der_status r = fst (blocked_status status) \<and> der_reason r = Some (snd (blocked_status status))
    \<and> der_migration_state r = Some status"

lemma blocked_run:
  assumes "state_get (im_states s) (dsc_migration_id c) = Some st" and "ms_status st \<noteq> Active"
  shows "\<exists>r s'. blocked_result_if_needed svc c chats p s = (Inr (Some r), s') \<and> only_audited s s'
    \<and> stopped_result c (dp_counts p) (ms_status st) r"
proof -
  let ?b = "blocked_status (ms_status st)"
  let ?r = "\<lparr>der_migration_id = dsc_migration_id c, der_source_chat_ids = chats, der_status = fst ?b,
    der_counts = dp_counts p, der_last_source_message_ids = dp_last p,
    der_last_source_message_id = (case chats of [chat] \<Rightarrow> Option.bind (dict_get (dp_last p) chat) id | _ \<Rightarrow> None),
    der_migration_state = Some (ms_status st), der_reason = Some (snd ?b)\<rparr>"
  obtain s1 where s1: "audit_import svc (dsc_migration_id c) None None ''delta_sync_blocked_by_state'' SevWarning
      [(''migration_state'', JStr (lifecycle_value (ms_status st))), (''reason'', JStr (snd ?b)),
       (''source_chat_ids'', JList (map JStr chats))] s = (Inr (), s1)" "only_audited s s1"
    using audit_run by blast
  obtain s2 where s2: "audit_import svc (dsc_migration_id c) None None ''delta_sync_completed'' SevInfo
      (delta_payload ?r) s1 = (Inr (), s2)" "only_audited s1 s2"
    using audit_run by blast
  have "blocked_result_if_needed svc c chats p s = (Inr (Some ?r), s2)"
    using assms s1(1) s2(1)
    by (simp add: blocked_result_if_needed_def load_or_initialize_state_def delta_complete_def Let_def bind_def
      get_state_def ret_def split_beta)
  with only_audited_trans [OF s1(2) s2(2)] show ?thesis by (auto simp: stopped_result_def)
qed

lemma delta_sync_blocked:
  assumes "state_get (im_states s) (dsc_migration_id c) = Some st" and "ms_status st \<noteq> Active"
  shows "\<exists>r s'. delta_sync dsv c s = Some (Inr r, s') \<and> only_audited s s' \<and> stopped_result c no_deltas (ms_status st) r"
proof -
  let ?chats = "resolve_source_chat_ids c"
  from blocked_run [OF assms] obtain r s' where run: "blocked_result_if_needed (dsv_import dsv) c ?chats
      (delta_start_progress ?chats) s = (Inr (Some r), s')"
    and r: "only_audited s s'" "stopped_result c no_deltas (ms_status st) r"
    by (auto simp: delta_start_progress_def) (metis delta_progress.select_convs(2))
  have "delta_begin (dsv_import dsv) c ?chats s = (Inr (Inl r), s')"
    unfolding delta_begin_def bind_def [of "blocked_result_if_needed _ _ _ _"] run by (simp add: ret_def)
  with r show ?thesis by (simp add: delta_sync_def Let_def)
qed

lemma handle_events_blocked:
  assumes "state_get (im_states (change s)) (dsc_migration_id c) = Some st" and "ms_status st \<noteq> Active"
  shows "\<exists>r s'. handle_events svc c chats targets ((change, ev) # evs) ending p s = (Inr r, s')
    \<and> only_audited (change s) s' \<and> stopped_result c (dp_counts p) (ms_status st) r"
  using blocked_run [where svc = svc and chats = chats and p = p, OF assms]
  by (auto simp: bind_def modify_def ret_def)

end
