(* ===== verification/Copy_Examples.thy ===== *)
theory Copy_Examples
  imports Examples Delivery_Outcomes Replay_Facts Delta_Facts
begin

text \<open>
  A small world on which the properties about copying messages are applied: a chat \<open>c\<close> with two
  messages, the first with one file, and services that always succeed. The outside state is a clock.
\<close>

section \<open>Services\<close>

definition ex_upload :: express_staged_file where
  "ex_upload = \<lparr>sf_attachment_type = ''document'', sf_file_id = ''f'', sf_file_url = ''u'',
     sf_filename = ''a.txt'', sf_size_bytes = 2, sf_mime_type = ''text/plain'', sf_file_hash = ''h'',
     sf_duration_seconds = None, sf_preview_url = None, sf_preview_height = None, sf_preview_width = None,
     sf_encryption_algo = None, sf_chunk_size = None, sf_caption = None\<rparr>"

definition ex_delivery_services :: "int delivery_services" where
  "ex_delivery_services = \<lparr>sv_renderer = \<lparr>rd_offset = (\<lambda>_. 10800), rd_mention = (\<lambda>_ _. None)\<rparr>,
     sv_retry = default_retry_policy, sv_random = (\<lambda>_. 0), sv_max_upload = 1000, sv_now = (\<lambda>w. (w, w + 1)),
     sv_download = (\<lambda>_ a w. (Inr \<lparr>da_attachment = a, da_local_path = None, da_content = Some ''ab'',
        da_size_bytes = Some 2\<rparr>, w + 1)),
     sv_upload = (\<lambda>_ _ w. (Inr ex_upload, w + 1)),
     sv_send = (\<lambda>q w. (Inr \<lparr>sm_target_chat_id = sq_target_chat_id q, sm_target_sync_id = ''s'',
        sm_deduplicated = False\<rparr>, w + 1)),
     sv_exists = (\<lambda>_ _. False), sv_file_size = (\<lambda>_ _. None), sv_unlink = (\<lambda>_ w. w), sv_path = id,
     sv_base_name = id, sv_guess_extension = (\<lambda>_. None)\<rparr>"

definition ex_directory :: "int directory_config" where
  "ex_directory = \<lparr>dc_express = \<lparr>xd_urlparse = (\<lambda>u. Inr (u, [])), xd_hostname = (\<lambda>_. Inr (None, [])),
       xd_registered = None, xd_context = None, xd_now = (\<lambda>w. (w, w + 1)),
       xd_search_huid = (\<lambda>_ _ w. (Inr None, w)), xd_search_email = (\<lambda>_ _ w. (Inr None, w)),
       xd_search_ad_login = (\<lambda>_ _ _ w. (Inr None, w)), xd_search_other_id = (\<lambda>_ _ w. (Inr None, w))\<rparr>,
     dc_resolution = False, dc_express_host = None\<rparr>"

definition ex_file :: canonical_attachment where
  "ex_file = \<lparr>att_source_file_id = Some ''7'', att_filename = Some ''a.txt'',
     att_mime_type = Some ''text/plain'', att_size_bytes = Some 2, att_media_kind = ''document'',
     att_duration_seconds = None, att_download_url = Some ''x'', att_temp_local_path = None, att_sha256 = None\<rparr>"

definition ex_source_message :: "string \<Rightarrow> datetime \<Rightarrow> canonical_attachment list \<Rightarrow> telegram_source_message" where
  "ex_source_message i t atts = \<lparr>tm_chat_id = ''c'', tm_message_id = i, tm_sent_at_utc = t,
     tm_author = \<lparr>ta_external_id = None, ta_display_name = ''Ann'', ta_username = None\<rparr>,
     tm_body = Some ''hello'', tm_chat_title = Some ''C'', tm_thread_id = None, tm_reply_to_message_id = None,
     tm_edited_at_utc = None, tm_deleted_in_source = False, tm_content_type = TextContent,
     tm_attachments = atts, tm_entities = [], tm_raw_payload = [], tm_service_payload = None,
     tm_attachment_failures = []\<rparr>"

definition ex_history :: "telegram_source_message list" where
  "ex_history = [ex_source_message ''1'' 1000000 [ex_file], ex_source_message ''2'' 2000000 []]"

text \<open>The number that a string of digits writes.\<close>

definition ex_num :: "string \<Rightarrow> int" where
  "ex_num s = foldl (\<lambda>n c. 10 * n + (of_char c - 48)) 0 s"

definition ex_chat_mapping :: chat_mapping_record where
  "ex_chat_mapping = \<lparr>cm_migration_id = ''m'', cm_source_chat_id = ''c'', cm_source_chat_type = ''group'',
     cm_source_chat_title = ''C'', cm_target_chat_id = ''t'', cm_target_chat_title = ''C'',
     cm_status = ''active'', cm_created_at = 0, cm_updated_at = 0, cm_anchor_cts_host = None,
     cm_anchor_bot_id = None\<rparr>"

text \<open>The gateway serves one message per batch.\<close>

definition ex_import_services :: "int import_services" where
  "ex_import_services = \<lparr>is_delivery = ex_delivery_services, is_directory = ex_directory,
     is_checksum = \<lparr>ck_secret = ''k'', ck_hmac = (\<lambda>_ s. s)\<rparr>,
     is_fromisoformat = (\<lambda>_. Inl (ValueError ''no date'')),
     is_fetch_history = (\<lambda>_ cur _ _ _ w.
       (Inr \<lparr>hb_messages = take 1 (newer ex_num cur ex_history), hb_next_cursor = None,
          hb_has_more = 1 < length (newer ex_num cur ex_history), hb_dialog_title = Some ''C''\<rparr>, w + 1)),
     is_provision = (\<lambda>_ _ s. (Inr ex_chat_mapping, s))\<rparr>"

definition ex_import_state :: "int import_state" where
  "ex_import_state = \<lparr>im_delivery = \<lparr>dl_world = 5000000, dl_attachments = [], dl_stages = stage_repo_init 0,
       dl_audit = []\<rparr>,
     im_messages = message_repo_init 0, im_checkpoints = [], im_chats = [], im_states = [],
     im_bindings = ([], []), im_identities = ([], [])\<rparr>"

definition ex_backfill :: backfill_command where
  "ex_backfill = \<lparr>bfc_manifest = ex_manifest, bfc_source_chat_id = ''c'', bfc_batch_size = 1\<rparr>"

lemma ex_num_simps [simp]: "ex_num ''1'' = 1" "ex_num ''2'' = 2"
  by (simp_all add: ex_num_def)

lemma ordered_ex_history: "ordered_history ex_num ex_history"
  by (simp add: ordered_history_def ex_history_def ex_source_message_def)

lemma serves_ex_history: "serves ex_import_services d n ex_num ex_history"
  unfolding serves_def
proof (intro allI impI)
  fix cur w b w'
  assume "is_fetch_history ex_import_services (physical_source_chat_id d) cur n (dlg_source_backend d)
      (dlg_source_thread_id d) w = (Inr b, w')"
  then show "\<exists>rest. newer ex_num cur ex_history = hb_messages b @ rest
      \<and> (hb_messages b = [] \<or> \<not> hb_has_more b \<longrightarrow> rest = [])"
    by (intro exI [of _ "drop 1 (newer ex_num cur ex_history)"]) (auto simp: ex_import_services_def)
qed

definition ex_plan :: backfill_plan where
  "ex_plan = \<lparr>pl_dialog = ex_dialog, pl_target = ex_chat_mapping, pl_from = None, pl_to = None\<rparr>"

lemma plan_for_ex: "plan_for ex_import_services ex_backfill ex_plan"
  by (simp add: plan_for_def ex_plan_def ex_backfill_def ex_manifest_def dialog_for_def ex_dialog_def
      parse_optional_datetime_def)

lemma up_to_date_ex: "up_to_date ex_backfill ex_plan ex_num ex_history ex_import_state"
  by (auto simp: up_to_date_def due_keys_def resume_point_def stored_cursor_def checkpoint_get_def ex_import_state_def
      min_id_def due_def ex_history_def ex_source_message_def message_inv_init)

section \<open>A delivery\<close>

definition ex_canonical :: canonical_message where
  "ex_canonical = canonical_of (hd ex_history)"

definition ex_context :: delivery_context where
  "ex_context = delivery_context_of ''m'' ex_canonical ''t''"

definition ex_delivered_state :: "(error, delivery_result) outcome \<times> int delivery_state" where
  "ex_delivered_state = deliver ex_delivery_services ex_context ''telethon_user_session'' (Some ''C'') None True
     ''inline_quote'' None None False [] (im_delivery ex_import_state)"

text \<open>Both messages are copied.\<close>

lemma ex_backfill_result:
  "map_option fst (backfill ex_import_services ex_backfill ex_import_state)
    = Some (Inr \<lparr>br_migration_id = ''m'', br_source_chat_id = ''c'', br_target_chat_id = ''t'',
        br_imported_count = 2, br_skipped_count = 0, br_failed_count = 0,
        br_last_source_message_id = Some ''2''\<rparr>)"
  by code_simp

lemma ex_delivered_returns: "isl (fst ex_delivered_state) = False"
  by code_simp

lemma ex_delivered_result:
  "ex_delivered_state = (Inr (projr (fst ex_delivered_state)), snd ex_delivered_state)"
  using ex_delivered_returns by (cases "fst ex_delivered_state") (simp_all add: prod_eq_iff)

lemma ex_delivered_clean: "has_blocking_failures (projr (fst ex_delivered_state)) = False"
  by code_simp

section \<open>One attachment\<close>

definition ex_prepared :: prepared_attachment where
  "ex_prepared = \<lparr>pr_attachment_index = 0, pr_attachment = ex_file,
     pr_file_payload = \<lparr>fp_filename = ''a.txt'', fp_content = Some ''ab'', fp_local_path = None,
       fp_mime_type = Some ''text/plain'', fp_media_kind = Some ''document'', fp_duration_seconds = None\<rparr>\<rparr>"

text \<open>The upload of the claimed stage.\<close>

definition ex_upload_step :: "(error, upload_resolution) outcome \<times> int delivery_state" where
  "ex_upload_step = upload_attachment ex_delivery_services ex_context ex_prepared False
     (snd (claim_stage ex_delivery_services ex_context 0 ex_file False (im_delivery ex_import_state)))"

lemma ex_upload_returns:
  "isl (fst ex_upload_step) = False" "ur_staged_file (projr (fst ex_upload_step)) = Some ex_upload"
  by code_simp+

lemma ex_upload_result: "ex_upload_step = (Inr (projr (fst ex_upload_step)), snd ex_upload_step)"
  using ex_upload_returns(1) by (cases "fst ex_upload_step") (simp_all add: prod_eq_iff)

lemma complete_ex_upload: "complete_upload ex_upload"
  by code_simp

text \<open>A messenger that is cancelled, and one that refuses.\<close>

definition ex_failing_services :: "error \<Rightarrow> int delivery_services" where
  "ex_failing_services e = ex_delivery_services\<lparr>sv_send := (\<lambda>_ w. (Inl e, w + 1))\<rparr>"

definition ex_cancelled_delivery :: "(error, attachment_outcome) outcome \<times> int delivery_state" where
  "ex_cancelled_delivery = deliver_attachment (ex_failing_services CancelledError) ex_context False ex_prepared
     (im_delivery ex_import_state)"

definition ex_is_cancelled :: "(error, 'a) outcome \<Rightarrow> bool" where
  "ex_is_cancelled r = (case r of Inl e \<Rightarrow> e = CancelledError | Inr _ \<Rightarrow> False)"

lemma ex_cancelled_raises: "ex_is_cancelled (fst ex_cancelled_delivery)"
  by code_simp

lemma ex_cancelled_result: "ex_cancelled_delivery = (Inl CancelledError, snd ex_cancelled_delivery)"
  using ex_cancelled_raises by (cases "fst ex_cancelled_delivery") (simp_all add: prod_eq_iff ex_is_cancelled_def)

definition ex_refusal :: error where
  "ex_refusal = FatalItemError ''no''"

text \<open>The state in which the attachment is claimed.\<close>

definition ex_attachment_claimed :: "int delivery_state" where
  "ex_attachment_claimed = snd (claim_attachment ex_context 0 ex_file False (im_delivery ex_import_state))"

lemma ex_attachment_record:
  "attachment_get (dl_attachments ex_attachment_claimed) (attachment_key_of ex_context 0)
    = Some (build_attachment_record ex_context 0 ex_file)"
  by (simp add: ex_attachment_claimed_def ex_import_state_def claim_attachment_def in_attachments_def on_part_def
      total_op_def attachment_claim_def attachment_get_def build_attachment_record_def Let_def attachment_key_def
      attachment_key_of_def split: prod.split)

section \<open>Replay and delta synchronisation\<close>

definition ex_replay :: replay_command where
  "ex_replay = \<lparr>rfc_manifest = ex_manifest, rfc_source_chat_id = None, rfc_limit = 10, rfc_batch_size = 1\<rparr>"

text \<open>A message that failed, and a gateway from which it is gone.\<close>

definition ex_failed_state :: "int import_state" where
  "ex_failed_state = ex_import_state\<lparr>im_messages := ex_failed\<rparr>"

definition ex_silent_services :: "int import_services" where
  "ex_silent_services = ex_import_services\<lparr>is_fetch_history := (\<lambda>_ _ _ _ _ w.
     (Inr \<lparr>hb_messages = [], hb_next_cursor = None, hb_has_more = False, hb_dialog_title = None\<rparr>, w + 1))\<rparr>"

definition ex_missing :: replay_result where
  "ex_missing = \<lparr>rr_migration = ''m'', rr_requested = 1, rr_recovered = 0, rr_failed = 0, rr_ambiguous = 0,
     rr_missing = 1, rr_skipped = 0, rr_source_chat_ids = [''c'']\<rparr>"

lemma ex_replay_result:
  "map_option fst (replay_failed ex_silent_services ex_replay ex_failed_state) = Some (Inr ex_missing)"
  by code_simp

text \<open>A copied chat, and a stream with two events, before the second of which the migration is paused.\<close>

definition ex_paused :: migration_state_record where
  "ex_paused = \<lparr>ms_migration_id = ''m'', ms_status = Paused, ms_updated_at = 0, ms_created_at = 0,
     ms_freeze_started_at = None, ms_finalized_at = None, ms_last_reconcile_at = None, ms_last_blockers = []\<rparr>"

definition ex_pause :: "int import_state \<Rightarrow> int import_state" where
  "ex_pause s = s\<lparr>im_states := state_save ex_paused (im_states s)\<rparr>"

definition ex_delta_services :: "int delta_services" where
  "ex_delta_services = \<lparr>dsv_import = ex_import_services, dsv_subscribe = (\<lambda>_ _.
     ([(id, \<lparr>de_source_chat_id = ''c'', de_source_message = ex_source_message ''1'' 1000000 []\<rparr>),
       (ex_pause, \<lparr>de_source_chat_id = ''c'', de_source_message = ex_source_message ''3'' 3000000 []\<rparr>)], None))\<rparr>"

definition ex_delta :: delta_command where
  "ex_delta = \<lparr>dsc_manifest = ex_manifest, dsc_source_chat_ids = None, dsc_batch_size = 1, dsc_max_events = Some 5\<rparr>"

definition ex_copied :: "int import_state" where
  "ex_copied = ex_import_state\<lparr>im_messages := ex_delivered, im_checkpoints := checkpoint_save
     \<lparr>cp_migration_id = ''m'', cp_source_chat_id = ''c'', cp_mode = ''backfill'',
      cp_cursor = source_cursor (ex_source_message ''2'' 2000000 []), cp_updated_at = 0\<rparr> []\<rparr>"

definition ex_delta_result :: delta_result where
  "ex_delta_result = \<lparr>der_migration_id = ''m'', der_source_chat_ids = [''c''], der_status = ''paused'',
     der_counts = \<lparr>dn_processed = 1, dn_imported = 0, dn_skipped = 1, dn_failed = 0, dn_ambiguous = 0\<rparr>,
     der_last_source_message_ids = [(''c'', Some ''1'')], der_last_source_message_id = Some ''1'',
     der_migration_state = Some Paused, der_reason = Some ''migration is paused''\<rparr>"

lemma ex_delta_run: "map_option fst (delta_sync ex_delta_services ex_delta ex_copied) = Some (Inr ex_delta_result)"
  by code_simp

text \<open>A replay that finds nothing to do, then the delta synchronisation.\<close>

definition ex_runs :: "int import_run list" where
  "ex_runs = [RunReplay ex_import_services ex_replay, RunDelta ex_delta_services ex_delta]"

lemma ex_copied_runs: "Option.is_none (run_imports ex_runs ex_copied) = False"
  by code_simp

lemma ex_runs_undisturbed: "list_all undisturbed_run ex_runs"
  by (simp add: ex_runs_def undisturbed_provision_def ex_import_services_def undisturbed_stream_def
      ex_delta_services_def ex_pause_def ledger_def)

end
