(* ===== verification/Copy_Properties.thy ===== *)
theory Copy_Properties
  imports Copy_Examples
begin

text \<open>
  The properties of copying: what a delivery reports, that nothing is sent or uploaded twice, and
  that a backfill copies a whole history however often it is interrupted.
\<close>

section \<open>Backfill\<close>

text \<open>
  C4: a backfill ends, and leaves nothing behind. Let a chat's history have growing message ids and
  let the gateway serve it in batches without gaps (failing whenever it likes). From a state in
  which every due message up to the stored checkpoint is settled - a fresh state is one - the
  run ends; whether it returns or raises, every due message up to the checkpoint stored then is
  settled, so that it can be repeated. If it returns, all due messages are settled, and the
  imported, skipped and failed ones it counts are exactly the due messages after the first checkpoint.
\<close>

theorem backfill_settles_history:
  assumes "plan_for svc c pl" and "ordered_history num H" and "serves svc (pl_dialog pl) (bfc_batch_size c) num H"
    and "\<forall>mig d s. ledger (snd (is_provision svc mig d s)) = ledger s" and "up_to_date c pl num H s"
  shows "\<exists>r s'. backfill svc c s = Some (r, s') \<and> up_to_date c pl num H s'
    \<and> (\<forall>res. r = Inr res \<longrightarrow> (\<forall>m \<in> set (due pl H). message_settled (im_messages s') (source_key c m))
       \<and> br_imported_count res + br_skipped_count res + br_failed_count res
          = length (due pl (newer num (resume_point c s) H)))"
  using assms by (intro backfill_runs) blast+

theorem backfill_settles_history_witness:
  "\<exists>r s'. backfill ex_import_services ex_backfill ex_import_state = Some (r, s')
    \<and> up_to_date ex_backfill ex_plan ex_num ex_history s'"
proof -
  have "\<forall>mig d s. ledger (snd (is_provision ex_import_services mig d s)) = ledger s"
    by (simp add: ex_import_services_def)
  from backfill_settles_history [OF plan_for_ex ordered_ex_history serves_ex_history this up_to_date_ex]
  show ?thesis by blast
qed

text \<open>
  C26: what came of a claimed message is what is stored. When the delivery of a message that has a
  record is settled, an imported verdict means an imported record with the id of the sent message, a
  failed verdict a failed record that is no cancellation, an ambiguous verdict an ambiguous record;
  a cancelled delivery leaves the cancellation code, which lets a later run claim the message again.
  All other messages that were settled stay settled.
\<close>

theorem settled_as_reported:
  fixes s :: "'w import_state"
  assumes "message_inv (im_messages s)" and "message_get (im_messages s) (key_of_message mig m) = Some r0"
    and "settle_message svc ev mig m delivery s = (res, s')"
  shows "\<exists>r. message_get (im_messages s') (key_of_message mig m) = Some r
    \<and> (case res of Inr v \<Rightarrow> verdict_record v r | Inl e \<Rightarrow> raised_record e r)
    \<and> (\<forall>k. k \<noteq> key_of_message mig m \<longrightarrow> message_settled (im_messages s) k \<longrightarrow> message_settled (im_messages s') k)"
proof -
  let ?k = "key_of_message mig m"
  let ?K = "{k. message_settled (im_messages s) k} - {?k}"
  have ok: "working ?k (im_checkpoints s) ?K (ledger s)"
    using assms(1,2) by (auto simp: working_def settled_all_def has_record_def ledger_def)
  note rule = follows_settle [OF refl, of mig m "im_checkpoints s" ?K svc ev delivery]
  show ?thesis
  proof (cases res)
    case (Inl e)
    from follows_error [OF rule ok assms(3) [unfolded Inl]] show ?thesis
      by (auto simp: Inl interrupted_def working_def settled_all_def ledger_def)
  next
    case (Inr v)
    from follows_result [OF rule ok assms(3) [unfolded Inr]] show ?thesis
      by (auto simp: Inr marked_def working_def settled_all_def ledger_def)
  qed
qed

theorem settled_as_reported_witness:
  "\<exists>r. message_get (im_messages (snd (settle_message ex_import_services backfill_events ''m'' ex_canonical
        (throw CancelledError) (ex_import_state\<lparr>im_messages := ex_claimed\<rparr>)))) (''m'', ''c'', ''1'') = Some r
    \<and> mm_last_error_code r = Some cancelled_code"
proof -
  let ?s = "ex_import_state\<lparr>im_messages := ex_claimed\<rparr>"
  let ?m = "settle_message ex_import_services backfill_events ''m'' ex_canonical (throw CancelledError)"
  have key: "key_of_message ''m'' ex_canonical = (''m'', ''c'', ''1'')"
    by (simp add: key_of_message_def ex_canonical_def ex_history_def ex_source_message_def canonical_of_def)
  have "ex_is_cancelled (fst (?m ?s))" by code_simp
  then have run: "?m ?s = (Inl CancelledError, snd (?m ?s))"
    by (cases "fst (?m ?s)") (simp_all add: prod_eq_iff ex_is_cancelled_def)
  have "message_inv (im_messages ?s)"
    using messages_reachable_inv [OF messages_reachable_claimed] by simp
  moreover have "message_get (im_messages ?s) (key_of_message ''m'' ex_canonical) = Some ex_message"
    by (simp add: key ex_claimed_get)
  ultimately show ?thesis
    using settled_as_reported [OF _ _ run] by (auto simp: key raised_record_def)
qed

section \<open>Sequences of runs\<close>

text \<open>
  C27: an imported message stays imported. Whatever backfills, replays of failed messages and delta
  synchronisations run one after another, with whatever gateways and messengers, and however each of
  them ends, the record of a message that was imported before is the same afterwards - provided that
  the provisioning of chats and other tasks between two events of a stream write no message records.
\<close>

theorem imported_stays_imported:
  assumes "message_inv (im_messages s)" and "message_get (im_messages s) k = Some r"
    and "mm_import_status r = MsgImported" and "list_all undisturbed_run runs" and "run_imports runs s = Some s'"
  shows "message_get (im_messages s') k = Some r"
  using imported.keeps_runs [OF assms(4) _ assms(5), of k r] assms(1-3) by (simp add: imported_as_def ledger_def)

theorem imported_stays_imported_witness:
  "message_get (im_messages (the (run_imports ex_runs ex_copied))) (''m'', ''c'', ''1'') = Some ex_imported"
proof -
  have run: "run_imports ex_runs ex_copied = Some (the (run_imports ex_runs ex_copied))"
    using ex_copied_runs by (cases "run_imports ex_runs ex_copied") simp_all
  have "message_inv ex_delivered" by (rule messages_reachable_inv [OF messages_reachable_delivered])
  then show ?thesis
    using imported_stays_imported [OF _ _ ex_message_simps(5) ex_runs_undisturbed run] ex_delivered_get
    by (simp add: ex_copied_def)
qed

section \<open>Replay and delta synchronisation\<close>

text \<open>
  C33: a replay accounts for every message it was asked for: the recovered, failed, ambiguous, missing
  and skipped ones it reports add up to the failed messages listed at its start, whatever histories
  the gateway answers with.
\<close>

theorem replay_accounts_for_all:
  assumes "message_inv (im_messages s)" and "replay_failed svc c s = Some (Inr res, s')"
  shows "rr_recovered res + rr_failed res + rr_ambiguous res + rr_missing res + rr_skipped res
    = length (message_list_failed (mf_migration_id (rfc_manifest c)) (rfc_source_chat_id c) (rfc_limit c) (im_messages s))"
  using replay_counts_all [OF assms] by simp

theorem replay_accounts_for_all_witness:
  "rr_recovered ex_missing + rr_failed ex_missing + rr_ambiguous ex_missing + rr_missing ex_missing + rr_skipped ex_missing
    = length (message_list_failed ''m'' None 10 ex_failed)"
proof -
  obtain s' where run: "replay_failed ex_silent_services ex_replay ex_failed_state = Some (Inr ex_missing, s')"
    using ex_replay_result by (cases "replay_failed ex_silent_services ex_replay ex_failed_state") auto
  have "message_inv ex_failed"
    using messages_reachable_inv [OF messages_reachable_claimed] unfolding ex_failed_def
    by (rule message_inv_write) (simp add: message_key_def ex_message_def)
  with replay_accounts_for_all [OF _ run] show ?thesis
    by (simp add: ex_failed_state_def ex_replay_def ex_manifest_def)
qed

text \<open>
  C34: a delta synchronisation stays within its limit: the messages it reports as processed are the
  imported, skipped, failed and ambiguous ones together, and never more than the requested maximum,
  none at all when that is zero or negative.
\<close>

theorem delta_within_limit:
  assumes "delta_sync dsv c s = Some (Inr r, s')" and "dsc_max_events c = Some n"
  shows "int (dn_processed (der_counts r)) \<le> max 0 n
    \<and> dn_processed (der_counts r) = dn_imported (der_counts r) + dn_skipped (der_counts r)
      + dn_failed (der_counts r) + dn_ambiguous (der_counts r)"
  using delta_counts_well [OF assms(1)] assms(2)
  by (simp_all add: ended_well_def within_limit_def counts_add_up_def)

theorem delta_within_limit_witness: "int (dn_processed (der_counts ex_delta_result)) \<le> max 0 5"
proof -
  obtain s' where run: "delta_sync ex_delta_services ex_delta ex_copied = Some (Inr ex_delta_result, s')"
    using ex_delta_run by (cases "delta_sync ex_delta_services ex_delta ex_copied") auto
  show ?thesis using delta_within_limit [OF run] by (simp add: ex_delta_def)
qed

text \<open>
  A migration that is not active is left alone: a delta synchronisation of it ends at once, reports
  the state and no processed message, and changes nothing but the audit trail and the outside world.
  The same holds between two events of the stream: a pause ends the run before the next message, with
  the counts reached so far.
\<close>

theorem inactive_migration_untouched:
  assumes "ms_status st \<noteq> Active"
  shows "(state_get (im_states s) (dsc_migration_id c) = Some st \<longrightarrow>
      (\<exists>r s'. delta_sync dsv c s = Some (Inr r, s') \<and> only_audited s s' \<and> stopped_result c no_deltas (ms_status st) r))
    \<and> (state_get (im_states (change s)) (dsc_migration_id c) = Some st \<longrightarrow>
      (\<exists>r s'. handle_events svc c chats targets ((change, ev) # evs) ending p s = (Inr r, s')
        \<and> only_audited (change s) s' \<and> stopped_result c (dp_counts p) (ms_status st) r))"
  using delta_sync_blocked [OF _ assms] handle_events_blocked [where change = change, OF _ assms]
  by (intro conjI impI)

theorem inactive_migration_untouched_witness:
  "\<exists>r s'. delta_sync ex_delta_services ex_delta (ex_pause ex_copied) = Some (Inr r, s')
    \<and> only_audited (ex_pause ex_copied) s' \<and> stopped_result ex_delta no_deltas Paused r"
  using inactive_migration_untouched [of ex_paused "ex_pause ex_copied" ex_delta ex_delta_services]
  by (simp add: ex_paused_def ex_pause_def ex_delta_def dsc_migration_id_def ex_manifest_def state_get_def state_save_def)

section \<open>Delivery\<close>

text \<open>
  C35: a delivery that returns reports every attachment of the message exactly once, in order, and
  each outcome is that of the record stored for the attachment, whatever mixture of prefetched,
  reused, skipped, failed, inline and separately sent attachments it went through.
\<close>

theorem attachments_all_reported:
  assumes "attachments_ok (dl_attachments s)"
    and "deliver sv x backend title preview media mode existing text' retry pre s = (Inr r, s')"
  shows "length (dr_outcomes r) = length (cmsg_attachments (dx_canonical x))
    \<and> (\<forall>i < length (dr_outcomes r). \<exists>a m. dr_outcomes r ! i = outcome_from_record a m
        \<and> attachment_get (dl_attachments s') (attachment_key_of x (int i)) = Some m \<and> am_attachment_index m = int i)"
  using tracks_result(2) [OF tracks_deliver assms(1) _ assms(2)] by (simp add: reports_all_def)

theorem attachments_all_reported_witness:
  "length (dr_outcomes (projr (fst ex_delivered_state))) = length (cmsg_attachments (dx_canonical ex_context))"
  using attachments_all_reported [OF _ ex_delivered_result [unfolded ex_delivered_state_def]]
  by (simp add: ex_delivered_state_def ex_import_state_def keyed_dict_def)

text \<open>
  C25: nothing is delivered twice. After a delivery without blocking failures, delivering the message
  again with its media for the message sent then - with any gateway, prefetched files, titles and
  retry setting - returns the same sent message without failures and changes nothing at all, neither
  the repositories nor the outside world. (Without its media it would mark the records of its
  attachments skipped.)
\<close>

theorem redelivery_changes_nothing:
  assumes "attachments_ok (dl_attachments s)"
    and "deliver sv x backend title preview media mode existing text' retry pre s = (Inr r, s')"
    and "\<not> has_blocking_failures r"
  shows "\<exists>r2. deliver sv2 x backend2 title2 preview2 True mode2 (Some (dr_sent_message r)) text2 retry2 pre2 s' = (Inr r2, s')
    \<and> dr_sent_message r2 = dr_sent_message r \<and> \<not> has_blocking_failures r2"
proof -
  have "reports_all x r (dl_attachments s')"
    using tracks_result(2) [OF tracks_deliver assms(1) _ assms(2)] by simp
  from deliver_settled [OF reports_all_needs_nothing [OF this assms(3)]] show ?thesis by metis
qed

theorem redelivery_changes_nothing_witness:
  "\<exists>r2. deliver (ex_failing_services CancelledError) ex_context ''x'' None None True ''none''
      (Some (dr_sent_message (projr (fst ex_delivered_state)))) None True [] (snd ex_delivered_state)
      = (Inr r2, snd ex_delivered_state)
    \<and> dr_sent_message r2 = dr_sent_message (projr (fst ex_delivered_state)) \<and> \<not> has_blocking_failures r2"
  using redelivery_changes_nothing [OF _ ex_delivered_result [unfolded ex_delivered_state_def]] ex_delivered_clean
  by (simp add: ex_delivered_state_def ex_import_state_def keyed_dict_def)

text \<open>
  A file is uploaded once. When an upload succeeded, every later delivery of that attachment gets
  the same staged file back without a call of the files API: only the clock is read.
\<close>

theorem upload_is_reused:
  assumes "upload_attachment sv x p retry s = (Inr u, s')" and "ur_staged_file u = Some f" and "complete_upload f"
  shows "ensure_uploaded_attachment sv x p retry2 s' = (Inr (no_resolution\<lparr>ur_staged_file := Some f\<rparr>),
    s'\<lparr>dl_world := ((\<lambda>w. snd (sv_now sv w)) ^^ 4) (dl_world s')\<rparr>)"
  by (rule upload_known_reused [OF upload_remembered [OF assms]])

theorem upload_is_reused_witness:
  "ensure_uploaded_attachment ex_delivery_services ex_context ex_prepared True (snd ex_upload_step)
    = (Inr (no_resolution\<lparr>ur_staged_file := Some ex_upload\<rparr>), (snd ex_upload_step)
        \<lparr>dl_world := ((\<lambda>w. snd (sv_now ex_delivery_services w)) ^^ 4) (dl_world (snd ex_upload_step))\<rparr>)"
  by (rule upload_is_reused [OF ex_upload_result [unfolded ex_upload_step_def] _ complete_ex_upload, folded ex_upload_step_def])
    (rule ex_upload_returns(2))

text \<open>
  A cancelled attachment is released. When the delivery of an attachment is cancelled, its
  record is left failed with the cancellation code and no upload of it is left in progress, so
  the next claim of it is granted.
\<close>

theorem cancelled_attachment_released:
  assumes "deliver_attachment sv x retry p s = (Inl CancelledError, s')"
    and "attachment_key r' = attachment_key_of x (pr_attachment_index p)"
  shows "fst (fst (attachment_claim False r' (dl_attachments s'))) = Claimed
    \<and> (case stage_get (dl_stages s') (stage_key_of x (pr_attachment_index p)) of
         None \<Rightarrow> True | Some st \<Rightarrow> st_status st \<noteq> StageProcessing)"
proof -
  from deliver_attachment_cancelled [OF assms(1)] obtain s1 s2 where
      cancelled: "report_cancelled sv x p s1 = (Inl CancelledError, s2)"
      and s': "s' = cleanup_file_payload sv (pr_file_payload p) s2" by blast
  from report_cancelled_error [OF cancelled] obtain r where
      "attachment_get (dl_attachments s2) (attachment_key_of x (pr_attachment_index p)) = Some r"
      "am_import_status r = AttFailed" "am_last_error_code r = Some cancelled_code"
      "\<And>st. stage_get (dl_stages s2) (stage_key_of x (pr_attachment_index p)) = Some st \<Longrightarrow> st_status st \<noteq> StageProcessing"
    by blast
  then show ?thesis
    using assms(2) s'
    by (auto simp: attachment_claim_def attachment_get_def is_cancel_code_def Let_def split: option.split)
qed

theorem cancelled_attachment_released_witness:
  "fst (fst (attachment_claim False (build_attachment_record ex_context 0 ex_file)
     (dl_attachments (snd ex_cancelled_delivery)))) = Claimed"
proof -
  have "attachment_key (build_attachment_record ex_context 0 ex_file)
      = attachment_key_of ex_context (pr_attachment_index ex_prepared)"
    by (simp add: attachment_key_def build_attachment_record_def attachment_key_of_def ex_prepared_def)
  from cancelled_attachment_released [OF ex_cancelled_result [unfolded ex_cancelled_delivery_def] this]
  show ?thesis by (simp add: ex_cancelled_delivery_def)
qed

text \<open>
  A send that fails for good is reported. The attachment's record becomes failed, or ambiguous
  when it is unknown whether the message went out, with the error's name, its text and the phase; the
  outcome is that of the record and blocks the message.
\<close>

theorem send_failure_reported:
  assumes "retried sv (sv_send sv (attachment_request sv x p u)) s = (Inl e, s1)"
    and "is_ambiguous_error e \<or> is_item_error e"
    and "attachment_get (dl_attachments s1) (attachment_key_of x (pr_attachment_index p)) = Some r"
  shows "\<exists>s' r'. send_attachment sv x p u s = (Inr (outcome_from_record (pr_attachment p) r'), s')
    \<and> attachment_get (dl_attachments s') (attachment_key_of x (pr_attachment_index p)) = Some r'
    \<and> am_import_status r' = (if is_ambiguous_error e then AttAmbiguous else AttFailed)
    \<and> am_last_error_code r' = Some (error_name e)
    \<and> am_last_error_payload r' = Some (phase_payload (error_text e) ''send'')
    \<and> ao_blocks (outcome_from_record (pr_attachment p) r')"
  by (rule send_failure [OF assms], intro exI conjI, assumption+)
    (simp_all add: outcome_from_record_def Let_def)

theorem send_failure_reported_witness:
  "\<exists>s' r'. send_attachment (ex_failing_services ex_refusal) ex_context ex_prepared no_resolution ex_attachment_claimed
      = (Inr (outcome_from_record ex_file r'), s') \<and> am_import_status r' = AttFailed
    \<and> am_last_error_code r' = Some ''FatalItemError''"
proof -
  let ?sv = "ex_failing_services ex_refusal"
  have send: "retried ?sv (sv_send ?sv (attachment_request ?sv ex_context ex_prepared no_resolution)) ex_attachment_claimed
      = (Inl ex_refusal, ex_attachment_claimed\<lparr>dl_world := dl_world ex_attachment_claimed + 1\<rparr>)"
    by (simp add: retried_def Delivery.in_world_def on_part_def ex_failing_services_def retry_run_def ex_delivery_services_def
        retry_from.simps default_retry_policy_def ex_refusal_def)
  have filed: "attachment_get (dl_attachments (ex_attachment_claimed\<lparr>dl_world := dl_world ex_attachment_claimed + 1\<rparr>))
      (attachment_key_of ex_context (pr_attachment_index ex_prepared))
      = Some (build_attachment_record ex_context 0 ex_file)"
    using ex_attachment_record by (simp add: ex_prepared_def)
  from send_failure_reported [OF send _ filed] show ?thesis
    by (auto simp: ex_refusal_def ex_prepared_def)
qed

end
