(* ===== verification/Provisioning.thy ===== *)
theory Provisioning
  imports Import_Steps
begin

text \<open>
  \<open>TargetChatProvisioningService\<close> of \<open>application/target_chat_provisioning.py\<close>: the chat of the
  messenger that a Telegram chat is copied to. A chat that has a mapping keeps it and is only brought
  up to date with the participants; otherwise the chat is bound or created, and the participants are
  added directly, server by server, or get an invitation link.

  Calls of the messenger are made under a server host (\<open>_use_cts_host\<close>), their first argument here.
  Logging is left out. The two Russian sentences of an invitation are an argument.
\<close>

section \<open>Services\<close>

record source_participant =
  sp_external_id :: "string option"
  sp_username :: "string option"
  sp_display_name :: string
  sp_is_self :: bool

record channel_access_profile =
  cap_dialog_id :: string
  cap_is_admin :: bool
  cap_can_list_participants :: bool

text \<open>
  \<open>px_causes\<close> gives class name and text of the exceptions in the \<open>__cause__\<close> chain of an error of the
  messenger. \<open>px_registered\<close>, \<open>px_primary\<close>, \<open>px_bot_huid_for\<close> and \<open>px_bot_id_for\<close> are attributes a
  gateway may lack; \<open>px_routes\<close> tells whether it has \<open>use_cts_host\<close>. \<open>px_bot_huids\<close> reads the repository
  of learned bot HUIDs, if there is one, which bot handlers write.
\<close>

record 'w provisioning_services =
  px_delivery :: "'w delivery_services"
  px_directory :: "'w directory_config"
  px_list_participants :: "string \<Rightarrow> string \<Rightarrow> ('w, source_participant list) action"
  px_channel_profile :: "string \<Rightarrow> string \<Rightarrow> ('w, channel_access_profile) action"
  px_create_chat :: "string option \<Rightarrow> string \<Rightarrow> string list option \<Rightarrow> string \<Rightarrow> ('w, string) action"
  px_members :: "string option \<Rightarrow> string \<Rightarrow> string list \<Rightarrow> ('w, string list) action"
  px_promote :: "string option \<Rightarrow> string \<Rightarrow> string list \<Rightarrow> ('w, string list) action"
  px_admins :: "string option \<Rightarrow> string \<Rightarrow> ('w, string list) action"
  px_personal_chat :: "string option \<Rightarrow> string \<Rightarrow> ('w, string) action"
  px_chat_link :: "string option \<Rightarrow> string \<Rightarrow> ('w, string option) action"
  px_send :: "string option \<Rightarrow> string \<Rightarrow> string \<Rightarrow> string \<Rightarrow> ('w, unit) action"
  px_routes :: bool
  px_context :: "string option"
  px_registered :: "string list"
  px_primary :: "string option"
  px_bot_huid_for :: "(string option \<Rightarrow> string option) option"
  px_bot_id_for :: "(string option \<Rightarrow> string option) option"
  px_bot_huids :: "('w \<Rightarrow> bot_huid_repo) option"
  px_causes :: "error \<Rightarrow> (string \<times> string) list"
  px_invite_message :: "string \<Rightarrow> string \<Rightarrow> string \<Rightarrow> string"

record participant_target =
  pt_target_huid :: string
  pt_cts_host :: "string option"

record access_failure =
  af_target_huid :: string
  af_cts_host :: "string option"
  af_reason :: string
  af_error :: "string option"

record access_result =
  ar_added :: "string list"
  ar_invited :: "string list"
  ar_failed :: "access_failure list"

definition no_access :: access_result where
  "no_access = \<lparr>ar_added = [], ar_invited = [], ar_failed = []\<rparr>"

definition access_changed :: "access_result \<Rightarrow> bool" where
  "access_changed r \<longleftrightarrow> ar_added r \<noteq> [] \<or> ar_invited r \<noteq> []"

text \<open>The chat whose members are arranged.\<close>

record access_context =
  ax_chat_kind :: string
  ax_migration_id :: string
  ax_source_chat_id :: string
  ax_source_backend :: string
  ax_target_chat_id :: string
  ax_target_chat_title :: string

definition outside :: "('w, 'a) action \<Rightarrow> ('w, 'a) import" where
  "outside m = in_delivery (Delivery.in_world m)"

definition with_retries :: "'w provisioning_services \<Rightarrow> ('w, 'a) action \<Rightarrow> ('w, 'a) import" where
  "with_retries px m = in_delivery (retried (px_delivery px) m)"

definition px_now :: "'w provisioning_services \<Rightarrow> ('w, datetime) import" where
  "px_now px = in_delivery (now_at (px_delivery px))"

definition audit_chat ::
    "'w provisioning_services \<Rightarrow> string \<Rightarrow> string \<Rightarrow> string \<Rightarrow> audit_severity \<Rightarrow> (string \<times> json) list \<Rightarrow> ('w, unit) import" where
  "audit_chat px migration chat event_type severity payload =
    bind (px_now px) (\<lambda>now. modify (\<lambda>s. s\<lparr>im_delivery := (im_delivery s)\<lparr>dl_audit := audit_add
      \<lparr>ae_migration_id = migration, ae_event_type = event_type, ae_severity = severity,
       ae_created_at = now, ae_source_chat_id = Some chat, ae_source_message_id = None,
       ae_payload_json = payload\<rparr> (dl_audit (im_delivery s))\<rparr>\<rparr>))"

definition audit_access ::
    "'w provisioning_services \<Rightarrow> access_context \<Rightarrow> string \<Rightarrow> audit_severity \<Rightarrow> (string \<times> json) list \<Rightarrow> ('w, unit) import" where
  "audit_access px x = audit_chat px (ax_migration_id x) (ax_source_chat_id x)"

text \<open>The event names differ between channels and other chats.\<close>

definition event_of :: "access_context \<Rightarrow> string \<Rightarrow> string" where
  "event_of x event = (if ax_chat_kind x = ''channel'' then ''channel_'' else ''target_chat_'') @ event"

text \<open>\<open>except FatalItemError\<close>.\<close>

definition on_fatal :: "('s, 'a) action \<Rightarrow> (string \<Rightarrow> ('s, 'a) action) \<Rightarrow> ('s, 'a) action" where
  "on_fatal m handler = catch_error m (\<lambda>e. case e of FatalItemError t \<Rightarrow> Some (handler t) | _ \<Rightarrow> None)"

definition json_strs :: "string list \<Rightarrow> json" where
  "json_strs xs = JList (map JStr xs)"

definition json_by_host :: "(string, string list) dict \<Rightarrow> json" where
  "json_by_host d = JObj (map (\<lambda>(k, v). (k, json_strs v)) d)"

definition json_targets :: "participant_target list \<Rightarrow> json" where
  "json_targets ts = JList (map (\<lambda>t. JObj [(''target_huid'', JStr (pt_target_huid t)),
     (''cts_host'', json_opt_str (pt_cts_host t))]) ts)"

text \<open>\<open>d.setdefault(k, []).extend(xs)\<close>.\<close>

definition dict_extend :: "'k \<Rightarrow> 'a list \<Rightarrow> ('k, 'a list) dict \<Rightarrow> ('k, 'a list) dict" where
  "dict_extend k xs d = dict_set k ((case dict_get d k of None \<Rightarrow> [] | Some ys \<Rightarrow> ys) @ xs) d"

text \<open>\<open>str\<close> of an optional string and of a list of strings.\<close>

definition str_opt :: "string option \<Rightarrow> string" where
  "str_opt v = (case v of None \<Rightarrow> ''None'' | Some s \<Rightarrow> s)"

definition str_list :: "string list \<Rightarrow> string" where
  "str_list xs = ''['' @ join_with '', '' (map py_repr xs) @ '']''"

section \<open>Servers\<close>

definition normalize_host :: "'w provisioning_services \<Rightarrow> string option \<Rightarrow> (error, string option) outcome" where
  "normalize_host px = normalize_express_cts_host (xd_urlparse (dc_express (px_directory px)))"

text \<open>The steps of a \<open>with self._use_cts_host(...)\<close> block get the host they run under.\<close>

definition entered_host :: "'w provisioning_services \<Rightarrow> string option \<Rightarrow> (error, string option) outcome" where
  "entered_host px host = (if px_routes px \<or> host \<noteq> None then normalize_host px host else Inr (px_context px))"

definition under_host :: "'w provisioning_services \<Rightarrow> string option \<Rightarrow> (string option \<Rightarrow> ('s, 'a) action) \<Rightarrow> ('s, 'a) action" where
  "under_host px host m = bind (lift_outcome (entered_host px host)) m"

definition resolve_anchor_cts_host :: "'w provisioning_services \<Rightarrow> string option \<Rightarrow> (error, string option) outcome" where
  "resolve_anchor_cts_host px anchor =
    (case normalize_host px anchor of
       Inl e \<Rightarrow> Inl e
     | Inr (Some host) \<Rightarrow> Inr (Some host)
     | Inr None \<Rightarrow> (case normalize_host px (px_context px) of
         Inl e \<Rightarrow> Inl e
       | Inr (Some host) \<Rightarrow> Inr (Some host)
       | Inr None \<Rightarrow> normalize_host px (px_primary px)))"

fun normalize_all :: "'w provisioning_services \<Rightarrow> string list \<Rightarrow> (error, string list) outcome" where
  "normalize_all px [] = Inr []"
| "normalize_all px (h # hs) =
    (case normalize_host px (Some h) of
       Inl e \<Rightarrow> Inl e
     | Inr n \<Rightarrow> (case normalize_all px hs of
         Inl e \<Rightarrow> Inl e
       | Inr ns \<Rightarrow> Inr (case n of None \<Rightarrow> ns | Some m \<Rightarrow> m # ns)))"

definition is_cts_host_configured :: "'w provisioning_services \<Rightarrow> string option \<Rightarrow> (error, bool) outcome" where
  "is_cts_host_configured px host =
    (case normalize_all px (px_registered px) of
       Inl e \<Rightarrow> Inl e
     | Inr [] \<Rightarrow> Inr True
     | Inr hosts \<Rightarrow> (case normalize_host px host of
         Inl e \<Rightarrow> Inl e
       | Inr None \<Rightarrow> Inr False
       | Inr (Some h) \<Rightarrow> Inr (h \<in> set hosts)))"

definition target_route_cts_host ::
    "'w provisioning_services \<Rightarrow> string option \<Rightarrow> string option \<Rightarrow> (error, string option) outcome" where
  "target_route_cts_host px participant anchor =
    (case normalize_host px participant of
       Inl e \<Rightarrow> Inl e
     | Inr (Some host) \<Rightarrow> Inr (Some host)
     | Inr None \<Rightarrow> resolve_anchor_cts_host px anchor)"

fun partition_by_host ::
    "'w provisioning_services \<Rightarrow> string option \<Rightarrow> participant_target list
      \<Rightarrow> (string option, participant_target list) dict \<Rightarrow> (error, (string option, participant_target list) dict) outcome" where
  "partition_by_host px anchor [] grouped = Inr grouped"
| "partition_by_host px anchor (t # ts) grouped =
    (case target_route_cts_host px (pt_cts_host t) anchor of
       Inl e \<Rightarrow> Inl e
     | Inr route \<Rightarrow> partition_by_host px anchor ts (dict_extend route [t] grouped))"

definition partition_targets_by_cts_host ::
    "'w provisioning_services \<Rightarrow> string option \<Rightarrow> participant_target list
      \<Rightarrow> (error, (string option, participant_target list) dict) outcome" where
  "partition_targets_by_cts_host px anchor ts = partition_by_host px anchor ts []"

text \<open>\<open>(value or "").strip() or None\<close>.\<close>

definition configured_for ::
    "'w provisioning_services \<Rightarrow> (string option \<Rightarrow> string option) option \<Rightarrow> string option \<Rightarrow> (error, string option) outcome" where
  "configured_for px getter host =
    (case getter of
       None \<Rightarrow> Inr None
     | Some get \<Rightarrow> (case normalize_host px host of Inl e \<Rightarrow> Inl e | Inr n \<Rightarrow> Inr (stripped (get n))))"

definition configured_bot_huid_for_cts_host where
  "configured_bot_huid_for_cts_host px host = configured_for px (px_bot_huid_for px) host"

definition configured_bot_id_for_cts_host where
  "configured_bot_id_for_cts_host px host = configured_for px (px_bot_id_for px) host"

definition learned_bot_huid_for_cts_host :: "'w provisioning_services \<Rightarrow> string \<Rightarrow> ('w, string option) import" where
  "learned_bot_huid_for_cts_host px host =
    (case px_bot_huids px of
       None \<Rightarrow> ret None
     | Some repo \<Rightarrow>
         bind (lift_outcome (configured_bot_id_for_cts_host px (Some host))) (\<lambda>bot_id.
         case bot_id of
           None \<Rightarrow> ret None
         | Some i \<Rightarrow>
             bind (get_state (\<lambda>s. bot_huid_get (repo (dl_world (im_delivery s))) i)) (\<lambda>record.
             case record of
               None \<Rightarrow> ret None
             | Some b \<Rightarrow>
                 bind (lift_outcome (normalize_host px (Some (bb_cts_host b)))) (\<lambda>h.
                 ret (if h \<noteq> Some host then None else stripped (Some (bb_bot_huid b)))))))"

definition resolved_helper_bot_huid_for_cts_host ::
    "'w provisioning_services \<Rightarrow> string option \<Rightarrow> ('w, string option) import" where
  "resolved_helper_bot_huid_for_cts_host px host =
    bind (lift_outcome (normalize_host px host)) (\<lambda>n.
    case n of
      None \<Rightarrow> ret None
    | Some h \<Rightarrow>
        bind (learned_bot_huid_for_cts_host px h) (\<lambda>learned.
        if truthy learned then ret learned
        else lift_outcome (configured_bot_huid_for_cts_host px (Some h))))"

section \<open>Participants\<close>

fun deduplicate_targets ::
    "'w provisioning_services \<Rightarrow> participant_target list \<Rightarrow> string list \<Rightarrow> (error, participant_target list) outcome" where
  "deduplicate_targets px [] seen = Inr []"
| "deduplicate_targets px (t # ts) seen =
    (let huid = py_strip (pt_target_huid t)
     in if huid = [] \<or> huid \<in> set seen then deduplicate_targets px ts seen
        else case normalize_host px (pt_cts_host t) of
          Inl e \<Rightarrow> Inl e
        | Inr host \<Rightarrow> (case deduplicate_targets px ts (huid # seen) of
            Inl e \<Rightarrow> Inl e
          | Inr rest \<Rightarrow> Inr (\<lparr>pt_target_huid = huid, pt_cts_host = host\<rparr> # rest)))"

definition deduplicate_participant_targets ::
    "'w provisioning_services \<Rightarrow> participant_target list \<Rightarrow> string option \<Rightarrow> string list
      \<Rightarrow> (error, participant_target list) outcome" where
  "deduplicate_participant_targets px ts initiator skip =
    deduplicate_targets px ts ((case initiator of Some (c # cs) \<Rightarrow> [c # cs] | _ \<Rightarrow> []) @ skip)"

fun seed_targets ::
    "'w provisioning_services \<Rightarrow> string option \<Rightarrow> participant_target list \<Rightarrow> string list \<Rightarrow> (error, string list) outcome" where
  "seed_targets px anchor [] seeds = Inr seeds"
| "seed_targets px anchor (t # ts) seeds =
    (if pt_target_huid t \<in> set seeds then seed_targets px anchor ts seeds
     else if anchor \<noteq> None \<and> pt_cts_host t \<noteq> None then
       (case normalize_host px (pt_cts_host t) of
          Inl e \<Rightarrow> Inl e
        | Inr host \<Rightarrow> if host \<noteq> anchor then seed_targets px anchor ts seeds
            else seed_targets px anchor ts (seeds @ [pt_target_huid t]))
     else seed_targets px anchor ts (seeds @ [pt_target_huid t]))"

text \<open>\<open>(access_strategy or "direct_add").strip().lower()\<close>.\<close>

definition normalized_strategy :: "string \<Rightarrow> string" where
  "normalized_strategy s = py_lower (py_strip (if s = [] then ''direct_add'' else s))"

definition seed_participant_huids ::
    "'w provisioning_services \<Rightarrow> participant_target list \<Rightarrow> string option \<Rightarrow> string \<Rightarrow> string option
      \<Rightarrow> (error, string list) outcome" where
  "seed_participant_huids px ts initiator strategy anchor =
    (case resolve_anchor_cts_host px anchor of
       Inl e \<Rightarrow> Inl e
     | Inr effective \<Rightarrow>
         let seeds = (case stripped initiator of None \<Rightarrow> [] | Some i \<Rightarrow> [i])
         in if normalized_strategy strategy \<noteq> ''direct_add'' then Inr seeds
            else (case seed_targets px effective ts seeds of
              Inl e \<Rightarrow> Inl e
            | Inr huids \<Rightarrow> Inr (if huids = [] \<and> ts \<noteq> [] then [pt_target_huid (hd ts)] else huids)))"

definition participant_listing_error :: "string \<Rightarrow> string \<Rightarrow> string \<Rightarrow> string" where
  "participant_listing_error chat chat_type problem =
    ''cannot enumerate Telegram participants for source_chat_id='' @ chat @ '' (type='' @ chat_type @ ''): ''
    @ problem @ ''; automatic participant migration requires access to the Telegram member list. ''
    @ ''Re-run with an account that can list participants or use /migrate '' @ chat
    @ '' target=bind target_chat_id=<express_chat_id>''"

definition lookup_participant ::
    "'w provisioning_services \<Rightarrow> source_participant \<Rightarrow> ('w, identity_lookup_result) import" where
  "lookup_participant px p = in_directory (resolve_telegram_identity (px_directory px) (sp_external_id p)
     (sp_username p) (Some (sp_display_name p)))"

definition participants_of ::
    "'w provisioning_services \<Rightarrow> string \<Rightarrow> string option \<Rightarrow> string \<Rightarrow> ('w, source_participant list) import" where
  "participants_of px chat participant_chat backend =
    outside (px_list_participants px (or_empty (py_or participant_chat (Some chat))) backend)"

fun resolve_participants ::
    "'w provisioning_services \<Rightarrow> string \<Rightarrow> string \<Rightarrow> bool \<Rightarrow> source_participant list \<Rightarrow> participant_target list
      \<Rightarrow> ('w, participant_target list) import" where
  "resolve_participants px migration chat include_self [] resolved = ret resolved"
| "resolve_participants px migration chat include_self (p # ps) resolved =
    (if sp_is_self p \<and> \<not> include_self then resolve_participants px migration chat include_self ps resolved
     else bind (lookup_participant px p) (\<lambda>found.
       case il_target_huid found of
         None \<Rightarrow>
           bind (audit_chat px migration chat ''participant_skipped_unresolved_identity'' SevWarning
             [(''participant_external_id'', json_opt_str (sp_external_id p)),
              (''participant_username'', json_opt_str (sp_username p)),
              (''participant_display_name'', JStr (sp_display_name p)), (''reason'', json_opt_str (il_reason found)),
              (''corporate_email'', json_opt_str (il_corporate_email found)), (''is_self'', JBool (sp_is_self p))])
             (\<lambda>_. resolve_participants px migration chat include_self ps resolved)
       | Some huid \<Rightarrow>
           if huid \<in> pt_target_huid ` set resolved
           then resolve_participants px migration chat include_self ps resolved
           else bind (lift_outcome (normalize_host px (il_cts_host found))) (\<lambda>host.
             resolve_participants px migration chat include_self ps
               (resolved @ [\<lparr>pt_target_huid = huid, pt_cts_host = host\<rparr>]))))"

definition resolve_participant_targets ::
    "'w provisioning_services \<Rightarrow> string \<Rightarrow> string \<Rightarrow> string option \<Rightarrow> string \<Rightarrow> string \<Rightarrow> bool \<Rightarrow> bool
      \<Rightarrow> ('w, participant_target list) import" where
  "resolve_participant_targets px migration chat participant_chat chat_type backend include_self degrade =
    bind (on_fatal (bind (participants_of px chat participant_chat backend) (\<lambda>ps. ret (Some ps)))
      (\<lambda>problem. if degrade then
         bind (audit_chat px migration chat ''participant_listing_degraded'' SevWarning
           [(''source_chat_type'', JStr chat_type), (''error'', JStr problem)]) (\<lambda>_. ret None)
       else throw (FatalItemError (participant_listing_error chat chat_type problem)))) (\<lambda>listed.
    case listed of
      None \<Rightarrow> ret []
    | Some ps \<Rightarrow>
        bind (resolve_participants px migration chat include_self ps []) (\<lambda>resolved.
        bind (audit_chat px migration chat ''target_chat_participants_resolved'' SevInfo
          [(''resolved_participants_count'', JInt (int (length resolved))),
           (''resolved_participant_huids'', json_strs (map pt_target_huid resolved)),
           (''resolved_participant_targets'', json_targets resolved)]) (\<lambda>_.
        ret resolved)))"

end
