(* ===== verification/Chat_Members.thy ===== *)
theory Chat_Members
  imports Provisioning
begin

text \<open>
  How the participants get into a target chat: adding them server by server, with a retry through the
  chat's own server, one by one when a group fails, with the helper bot of the server as a member, and
  invitation links for those who could not be added.
\<close>

section \<open>Adding members\<close>

definition ensure_chat_members_via_cts_host ::
    "'w provisioning_services \<Rightarrow> string option \<Rightarrow> string \<Rightarrow> string list \<Rightarrow> ('w, string list) import" where
  "ensure_chat_members_via_cts_host px host chat huids =
    under_host px host (\<lambda>h. with_retries px (px_members px h chat huids))"

definition is_chat_not_found_error :: "'w provisioning_services \<Rightarrow> error \<Rightarrow> bool" where
  "is_chat_not_found_error px e \<longleftrightarrow> (\<exists>(name, message) \<in> set ((error_name e, error_text e) # px_causes px e).
     name = ''ChatNotFoundError''
     \<or> contains ''chat_not_found'' (py_lower (py_strip message))
     \<or> contains ''chat with specified id not found'' (py_lower (py_strip message)))"

definition should_retry_member_sync_via_anchor ::
    "'w provisioning_services \<Rightarrow> error \<Rightarrow> string option \<Rightarrow> string option \<Rightarrow> (error, bool) outcome" where
  "should_retry_member_sync_via_anchor px e route anchor =
    (case normalize_host px route of
       Inl f \<Rightarrow> Inl f
     | Inr r \<Rightarrow> (case normalize_host px anchor of
         Inl f \<Rightarrow> Inl f
       | Inr a \<Rightarrow> Inr (r \<noteq> None \<and> a \<noteq> None \<and> r \<noteq> a \<and> is_chat_not_found_error px e)))"

text \<open>Through the participants' server, or the chat's own if the chat is unknown there.\<close>

definition ensure_members_with_cross_cts_retry ::
    "'w provisioning_services \<Rightarrow> access_context \<Rightarrow> string list \<Rightarrow> string option \<Rightarrow> string option
      \<Rightarrow> ('w, string list \<times> string option) import" where
  "ensure_members_with_cross_cts_retry px x huids route_host anchor_host =
    bind (lift_outcome (normalize_host px route_host)) (\<lambda>route.
    bind (lift_outcome (resolve_anchor_cts_host px anchor_host)) (\<lambda>anchor.
    on_fatal
      (bind (ensure_chat_members_via_cts_host px route (ax_target_chat_id x) huids) (\<lambda>added. ret (added, route)))
      (\<lambda>route_error.
       bind (lift_outcome (should_retry_member_sync_via_anchor px (FatalItemError route_error) route anchor)) (\<lambda>retry.
       if \<not> retry then throw (FatalItemError route_error)
       else
         bind (on_fatal (ensure_chat_members_via_cts_host px anchor (ax_target_chat_id x) huids)
           (\<lambda>anchor_error. throw (FatalItemError
             (''eXpress ensure_chat_members failed after cross-CTS reroute: route_cts_host='' @ str_opt route
              @ '' route_error='' @ route_error @ ''; anchor_cts_host='' @ str_opt anchor
              @ '' anchor_error='' @ anchor_error)))) (\<lambda>added.
         bind (audit_access px x (event_of x ''members_sync_rerouted'') SevInfo
           [(''target_chat_id'', JStr (ax_target_chat_id x)), (''route_cts_host'', json_opt_str route),
            (''fallback_cts_host'', json_opt_str anchor), (''participant_huids'', json_strs huids),
            (''reason'', JStr ''route_chat_not_found''), (''route_error'', JStr route_error)]) (\<lambda>_.
         ret (added, anchor)))))))"

definition failure_of :: "'w provisioning_services \<Rightarrow> string \<Rightarrow> string option \<Rightarrow> participant_target \<Rightarrow> (error, access_failure) outcome" where
  "failure_of px reason problem t =
    (case normalize_host px (pt_cts_host t) of
       Inl e \<Rightarrow> Inl e
     | Inr host \<Rightarrow> Inr \<lparr>af_target_huid = pt_target_huid t, af_cts_host = host, af_reason = reason, af_error = problem\<rparr>)"

definition participant_access_failures ::
    "'w provisioning_services \<Rightarrow> participant_target list \<Rightarrow> string \<Rightarrow> string option \<Rightarrow> ('w, access_failure list) import" where
  "participant_access_failures px ts reason problem = collect (\<lambda>t. lift_outcome (failure_of px reason problem t)) ts"

text \<open>The lists that adding the members builds up.\<close>

record access_progress =
  ap_added :: "string list"
  ap_by_host :: "(string, string list) dict"
  ap_fallback :: "participant_target list"
  ap_failed :: "access_failure list"

definition fresh_access :: access_progress where
  "fresh_access = \<lparr>ap_added = [], ap_by_host = [], ap_fallback = [], ap_failed = []\<rparr>"

definition note_added :: "string list \<Rightarrow> string \<Rightarrow> access_progress \<Rightarrow> access_progress" where
  "note_added huids host p =
    (if huids = [] then p else p\<lparr>ap_added := ap_added p @ huids, ap_by_host := dict_extend host huids (ap_by_host p)\<rparr>)"

definition note_failed :: "participant_target list \<Rightarrow> access_failure list \<Rightarrow> access_progress \<Rightarrow> access_progress" where
  "note_failed ts fs p = p\<lparr>ap_fallback := ap_fallback p @ ts, ap_failed := ap_failed p @ fs\<rparr>"

definition or_default :: "string option \<Rightarrow> string" where
  "or_default v = (if truthy v then or_empty v else ''default'')"

fun ensure_members_with_best_effort ::
    "'w provisioning_services \<Rightarrow> access_context \<Rightarrow> string option \<Rightarrow> string option \<Rightarrow> participant_target list
      \<Rightarrow> access_progress \<Rightarrow> ('w, access_progress) import" where
  "ensure_members_with_best_effort px x route anchor [] p = ret p"
| "ensure_members_with_best_effort px x route anchor (t # ts) p =
    bind (on_fatal
      (bind (ensure_members_with_cross_cts_retry px x [pt_target_huid t] route anchor) (\<lambda>added. ret (Inr added)))
      (\<lambda>problem. ret (Inl problem))) (\<lambda>result.
    case result of
      Inl problem \<Rightarrow>
        bind (participant_access_failures px [t] ''direct_add_failed'' (Some problem)) (\<lambda>failures.
        ensure_members_with_best_effort px x route anchor ts (note_failed [t] failures p))
    | Inr (added, host) \<Rightarrow>
        bind (if truthy host then ret host else lift_outcome (resolve_anchor_cts_host px anchor)) (\<lambda>h.
        ensure_members_with_best_effort px x route anchor ts (note_added added (or_default h) p)))"

section \<open>The helper bot of a server\<close>

definition is_route_admin_visibility_pending_error :: "string \<Rightarrow> bool" where
  "is_route_admin_visibility_pending_error message \<longleftrightarrow>
    (\<exists>marker \<in> {''chat_not_found'', ''chat with specified id not found'', ''no_permission_for_operation'',
       ''permission denied'', ''sender is not chat admin'', ''not chat admin''}.
     contains marker (py_lower (py_strip message)))"

definition assert_route_admin_visible :: "'w provisioning_services \<Rightarrow> string \<Rightarrow> string \<Rightarrow> string \<Rightarrow> ('w, unit) action" where
  "assert_route_admin_visible px chat route helper =
    (let pending = (\<lambda>detail. RecoverableItemError (''helper bot route admin visibility is not ready yet: route_cts_host=''
           @ route @ '' target_chat_id='' @ chat @ '' helper_bot_huid='' @ helper @ detail))
     in bind (on_fatal (under_host px (Some route) (\<lambda>h. px_admins px h chat))
          (\<lambda>problem. throw (if is_route_admin_visibility_pending_error problem then pending ('' error='' @ problem)
             else FatalItemError problem))) (\<lambda>admins.
        if helper \<in> set admins then ret ()
        else throw (pending ('' visible_admin_huids='' @ str_list admins))))"

definition ensure_helper_bot_route_admin_ready ::
    "'w provisioning_services \<Rightarrow> string \<Rightarrow> string \<Rightarrow> string \<Rightarrow> ('w, unit) import" where
  "ensure_helper_bot_route_admin_ready px chat route helper =
    with_retries px (assert_route_admin_visible px chat route helper)"

definition helper_details :: "string \<Rightarrow> string option \<Rightarrow> string \<Rightarrow> string" where
  "helper_details route anchor helper = ''helper_cts_host='' @ route @ '' anchor_cts_host='' @ str_opt anchor
     @ '' helper_bot_huid='' @ helper"

text \<open>A step of attaching the helper bot: a failure is recorded and raised with its details.\<close>

definition helper_step ::
    "'w provisioning_services \<Rightarrow> access_context \<Rightarrow> string \<Rightarrow> string option \<Rightarrow> string \<Rightarrow> (string \<times> json) list \<Rightarrow> string
      \<Rightarrow> ('w, 'a) import \<Rightarrow> ('w, 'a) import" where
  "helper_step px x route anchor helper stage message m =
    on_fatal m (\<lambda>problem.
      bind (audit_access px x (event_of x ''helper_bot_attach_degraded'') SevWarning
        ([(''target_chat_id'', JStr (ax_target_chat_id x)), (''helper_cts_host'', JStr route),
          (''helper_bot_huid'', JStr helper), (''anchor_cts_host'', json_opt_str anchor)]
         @ stage @ [(''error'', JStr problem)])) (\<lambda>_.
      throw (FatalItemError (message @ helper_details route anchor helper @ ''; error='' @ problem))))"

definition ensure_helper_bot_route_membership ::
    "'w provisioning_services \<Rightarrow> access_context \<Rightarrow> string option \<Rightarrow> string option \<Rightarrow> ('w, unit) import" where
  "ensure_helper_bot_route_membership px x route_host anchor_host =
    bind (lift_outcome (normalize_host px route_host)) (\<lambda>route.
    bind (lift_outcome (resolve_anchor_cts_host px anchor_host)) (\<lambda>anchor.
    if route = None \<or> anchor = None \<or> route = anchor then ret ()
    else let r = or_empty route; chat = ax_target_chat_id x in
      bind (resolved_helper_bot_huid_for_cts_host px route) (\<lambda>found.
      case found of
        None \<Rightarrow> audit_access px x (event_of x ''helper_bot_attach_skipped'') SevInfo
          [(''target_chat_id'', JStr chat), (''helper_cts_host'', JStr r),
           (''reason'', JStr ''helper_bot_huid_unavailable'')]
      | Some helper \<Rightarrow>
          bind (helper_step px x r anchor helper [] ''helper bot route membership attach failed: ''
            (under_host px anchor (\<lambda>h. with_retries px (px_members px h chat [helper])))) (\<lambda>attached.
          bind (helper_step px x r anchor helper [(''stage'', JStr ''promote_helper_bot_admin'')]
            ''helper bot route membership admin promotion failed: ''
            (under_host px anchor (\<lambda>h. with_retries px (px_promote px h chat [helper])))) (\<lambda>promoted.
          bind (catch_error
            (helper_step px x r anchor helper [(''stage'', JStr ''route_admin_visibility'')]
              ''helper bot route membership route-admin visibility failed: ''
              (ensure_helper_bot_route_admin_ready px chat r helper))
            (\<lambda>e. case e of
                RecoverableItemError problem \<Rightarrow> Some (throw (FatalItemError
                  (''helper bot route membership route-admin visibility did not converge: ''
                   @ helper_details r anchor helper @ ''; error='' @ problem)))
              | AmbiguousDeliveryError problem \<Rightarrow> Some (throw (FatalItemError
                  (''helper bot route membership route-admin visibility did not converge: ''
                   @ helper_details r anchor helper @ ''; error='' @ problem)))
              | _ \<Rightarrow> None)) (\<lambda>_.
          audit_access px x (event_of x ''helper_bot_attached'') SevInfo
            [(''target_chat_id'', JStr chat), (''helper_cts_host'', JStr r), (''helper_bot_huid'', JStr helper),
             (''anchor_cts_host'', json_opt_str anchor), (''attached_huids'', json_strs attached),
             (''promoted_admin_huids'', json_strs promoted),
             (''route_admin_confirmed_cts_host'', JStr r)]))))))"

section \<open>Invitations\<close>

definition emit_access_link ::
    "'w provisioning_services \<Rightarrow> access_context \<Rightarrow> string \<Rightarrow> string \<Rightarrow> string option \<Rightarrow> ('w, string option) import" where
  "emit_access_link px x strategy reason anchor =
    bind (under_host px anchor (\<lambda>h. with_retries px (px_chat_link px h (ax_target_chat_id x)))) (\<lambda>link.
    bind (audit_access px x (event_of x ''access_link_prepared'') (if truthy link then SevInfo else SevWarning)
      [(''target_chat_id'', JStr (ax_target_chat_id x)), (''target_chat_link'', json_opt_str link),
       (''access_strategy'', JStr strategy), (''reason'', JStr reason), (''anchor_cts_host'', json_opt_str anchor),
       (''error'', JNull)]) (\<lambda>_.
    ret link))"

definition invitation_key :: "access_context \<Rightarrow> string option \<Rightarrow> string \<Rightarrow> string" where
  "invitation_key x route huid = ax_chat_kind x @ ''-invite:'' @ ax_source_backend x @ '':'' @ ax_source_chat_id x
     @ '':'' @ ax_target_chat_id x @ '':'' @ or_default route @ '':'' @ huid"

text \<open>The personal message with the link.\<close>

definition send_invitation ::
    "'w provisioning_services \<Rightarrow> access_context \<Rightarrow> string \<Rightarrow> string option \<Rightarrow> string \<Rightarrow> ('w, unit) import" where
  "send_invitation px x link route huid =
    under_host px route (\<lambda>h.
      bind (with_retries px (px_personal_chat px h huid)) (\<lambda>chat.
      with_retries px (px_send px h chat (px_invite_message px (ax_chat_kind x) (ax_target_chat_title x) link)
        (invitation_key x route huid))))"

definition is_domain_error :: "error \<Rightarrow> bool" where
  "is_domain_error e \<longleftrightarrow> is_item_error e \<or> is_ambiguous_error e"

fun invite_each ::
    "'w provisioning_services \<Rightarrow> access_context \<Rightarrow> string \<Rightarrow> string option \<Rightarrow> participant_target list
      \<Rightarrow> access_progress \<Rightarrow> ('w, access_progress) import" where
  "invite_each px x link anchor [] p = ret p"
| "invite_each px x link anchor (t # ts) p =
    bind (lift_outcome (target_route_cts_host px (pt_cts_host t) anchor)) (\<lambda>route.
    bind (lift_outcome (is_cts_host_configured px route)) (\<lambda>configured.
    if \<not> configured then
      bind (audit_access px x (event_of x ''invite_route_missing'') SevWarning
        [(''target_chat_id'', JStr (ax_target_chat_id x)), (''requested_cts_host'', json_opt_str route),
         (''recipient_huid'', JStr (pt_target_huid t))]) (\<lambda>_.
      invite_each px x link anchor ts p)
    else
      bind (attempt is_domain_error (send_invitation px x link route (pt_target_huid t))) (\<lambda>sent.
      case sent of
        Inl e \<Rightarrow>
          bind (audit_access px x (event_of x ''invite_dispatch_failed'') SevWarning
            [(''target_chat_id'', JStr (ax_target_chat_id x)), (''recipient_huid'', JStr (pt_target_huid t)),
             (''recipient_cts_host'', json_opt_str (pt_cts_host t)), (''route_cts_host'', json_opt_str route),
             (''error'', JStr (error_text e))]) (\<lambda>_.
          invite_each px x link anchor ts p)
      | Inr _ \<Rightarrow> invite_each px x link anchor ts
          (note_added [pt_target_huid t] (or_default (py_or route anchor)) p))))"

definition dispatch_access_invites ::
    "'w provisioning_services \<Rightarrow> access_context \<Rightarrow> participant_target list \<Rightarrow> string \<Rightarrow> string \<Rightarrow> string option
      \<Rightarrow> ('w, access_result) import" where
  "dispatch_access_invites px x recipients strategy reason anchor =
    bind (emit_access_link px x strategy reason anchor) (\<lambda>link.
    if \<not> truthy link then ret no_access
    else bind (invite_each px x (or_empty link) anchor recipients fresh_access) (\<lambda>p.
      bind (audit_access px x (event_of x ''invite_link_dispatched'') (if ap_added p \<noteq> [] then SevInfo else SevWarning)
        [(''target_chat_id'', JStr (ax_target_chat_id x)), (''recipient_huids'', json_strs (ap_added p)),
         (''recipient_count'', JInt (int (length recipients))),
         (''delivered_count'', JInt (int (length (ap_added p)))),
         (''delivered_by_cts_host'', json_by_host (ap_by_host p)), (''reason'', JStr reason)]) (\<lambda>_.
      ret (no_access\<lparr>ar_invited := ap_added p\<rparr>))))"

section \<open>The access strategy\<close>

definition audit_degraded ::
    "'w provisioning_services \<Rightarrow> access_context \<Rightarrow> string option \<Rightarrow> string list \<Rightarrow> string \<Rightarrow> string \<Rightarrow> ('w, unit) import" where
  "audit_degraded px x route huids reason problem =
    audit_access px x (event_of x ''members_sync_degraded'') SevWarning
      [(''target_chat_id'', JStr (ax_target_chat_id x)), (''route_cts_host'', json_opt_str route),
       (''participant_huids'', json_strs huids), (''reason'', JStr reason), (''error'', JStr problem)]"

text \<open>The participants of one server.\<close>

definition add_failed ::
    "'w provisioning_services \<Rightarrow> access_context \<Rightarrow> string option \<Rightarrow> participant_target list \<Rightarrow> string \<Rightarrow> string
      \<Rightarrow> access_progress \<Rightarrow> ('w, access_progress) import" where
  "add_failed px x route ts reason problem p =
    bind (participant_access_failures px ts reason (Some problem)) (\<lambda>failures.
    bind (audit_degraded px x route (map pt_target_huid ts) reason problem) (\<lambda>_.
    ret (note_failed ts failures p)))"

definition add_group ::
    "'w provisioning_services \<Rightarrow> access_context \<Rightarrow> string option \<Rightarrow> string option \<times> participant_target list
      \<Rightarrow> access_progress \<Rightarrow> ('w, access_progress) import" where
  "add_group px x anchor g p =
    (case g of (route, ts) \<Rightarrow>
     let huids = map pt_target_huid ts in
     bind (lift_outcome (is_cts_host_configured px route)) (\<lambda>configured.
     if \<not> configured then
       bind (participant_access_failures px ts ''invite_route_missing'' None) (\<lambda>failures.
       bind (audit_access px x (event_of x ''invite_route_missing'') SevWarning
         [(''target_chat_id'', JStr (ax_target_chat_id x)), (''requested_cts_host'', json_opt_str route),
          (''recipient_huids'', json_strs huids)]) (\<lambda>_.
       ret (note_failed ts failures p)))
     else
       bind (on_fatal (bind (ensure_helper_bot_route_membership px x route anchor) (\<lambda>_. ret None))
         (\<lambda>problem. ret (Some problem))) (\<lambda>helper_problem.
       case helper_problem of
         Some problem \<Rightarrow> add_failed px x route ts ''helper_bot_route_membership_failed'' problem p
       | None \<Rightarrow>
           bind (on_fatal (bind (ensure_members_with_cross_cts_retry px x huids route anchor) (\<lambda>a. ret (Inr a)))
             (\<lambda>problem. ret (Inl problem))) (\<lambda>result.
           case result of
             Inr (added, host) \<Rightarrow> ret (note_added added (or_default (py_or host anchor)) p)
           | Inl problem \<Rightarrow>
               if 1 < length ts then
                 bind (audit_degraded px x route huids ''direct_add_batch_failed_retrying_individually'' problem) (\<lambda>_.
                 ensure_members_with_best_effort px x route anchor ts p)
               else add_failed px x route ts ''direct_add_failed'' problem p))))"

fun add_groups ::
    "'w provisioning_services \<Rightarrow> access_context \<Rightarrow> string option \<Rightarrow> (string option \<times> participant_target list) list
      \<Rightarrow> access_progress \<Rightarrow> ('w, access_progress) import" where
  "add_groups px x anchor [] p = ret p"
| "add_groups px x anchor (g # gs) p = bind (add_group px x anchor g p) (add_groups px x anchor gs)"

definition apply_member_access_strategy ::
    "'w provisioning_services \<Rightarrow> access_context \<Rightarrow> participant_target list \<Rightarrow> string option \<Rightarrow> string \<Rightarrow> string option
      \<Rightarrow> string list \<Rightarrow> ('w, access_result) import" where
  "apply_member_access_strategy px x targets initiator strategy anchor_host skip =
    (let chosen = normalized_strategy strategy in
     bind (lift_outcome (deduplicate_participant_targets px targets (stripped initiator) skip)) (\<lambda>ts.
     bind (lift_outcome (resolve_anchor_cts_host px anchor_host)) (\<lambda>anchor.
     if chosen = ''invite_link'' then dispatch_access_invites px x ts chosen ''invite_link_selected'' anchor
     else if ts = [] then dispatch_access_invites px x ts chosen ''no_resolved_participants_for_direct_add'' anchor
     else
       bind (lift_outcome (partition_targets_by_cts_host px anchor ts)) (\<lambda>groups.
       bind (add_groups px x anchor groups fresh_access) (\<lambda>p.
       bind (if ap_fallback p = [] then ret no_access
             else dispatch_access_invites px x (ap_fallback p) ''invite_link'' ''direct_add_failed'' anchor) (\<lambda>invites.
       bind (audit_access px x (event_of x ''members_synced'') (if ap_added p \<noteq> [] then SevInfo else SevWarning)
         [(''target_chat_id'', JStr (ax_target_chat_id x)),
          (''requested_participant_count'', JInt (int (length ts))), (''added_huids'', json_strs (ap_added p)),
          (''added_by_cts_host'', json_by_host (ap_by_host p)),
          (''fallback_invite_count'', JInt (int (length (ap_fallback p)))),
          (''failed_target_huids'', json_strs (map af_target_huid (ap_failed p))),
          (''failed_target_count'', JInt (int (length (ap_failed p))))]) (\<lambda>_.
       ret \<lparr>ar_added = ap_added p, ar_invited = ar_invited invites, ar_failed = ap_failed p\<rparr>)))))))"

end
