(* ===== verification/Target_Chats.thy ===== *)
theory Target_Chats
  imports Chat_Members
begin

text \<open>
  Finding, binding, creating and updating the target chat of a dialog, the checks before a migration
  and the table of participants (\<open>application/target_chat_provisioning.py\<close>).
\<close>

section \<open>The participants of a chat\<close>

text \<open>The group and the channel variant differ in the name of the event.\<close>

definition prepare_participant_targets ::
    "'w provisioning_services \<Rightarrow> string \<Rightarrow> string \<Rightarrow> string \<Rightarrow> string option \<Rightarrow> string \<Rightarrow> string \<Rightarrow> string option
      \<Rightarrow> ('w, participant_target list) import" where
  "prepare_participant_targets px event migration chat participant_chat chat_type backend initiator =
    bind (resolve_participant_targets px migration chat participant_chat chat_type backend False True) (\<lambda>targets.
    bind (audit_chat px migration chat event SevInfo
      [(''initiator_huid'', json_opt_str (stripped initiator)),
       (''participant_huids'', json_strs (map pt_target_huid targets)),
       (''participant_targets'', json_targets targets), (''resolved_count'', JInt (int (length targets)))]) (\<lambda>_.
    ret targets))"

definition prepare_group_participant_targets ::
    "'w provisioning_services \<Rightarrow> string \<Rightarrow> string \<Rightarrow> string option \<Rightarrow> string \<Rightarrow> string \<Rightarrow> string option
      \<Rightarrow> ('w, participant_target list) import" where
  "prepare_group_participant_targets px =
    prepare_participant_targets px ''group_chat_participant_set_prepared''"

definition prepare_channel_participant_targets ::
    "'w provisioning_services \<Rightarrow> string \<Rightarrow> string \<Rightarrow> string \<Rightarrow> string option \<Rightarrow> ('w, participant_target list) import" where
  "prepare_channel_participant_targets px migration chat backend initiator =
    prepare_participant_targets px ''channel_participant_set_prepared'' migration chat (Some chat) ''channel'' backend
      initiator"

definition resolve_participant_huids ::
    "'w provisioning_services \<Rightarrow> string \<Rightarrow> string \<Rightarrow> string option \<Rightarrow> string \<Rightarrow> string \<Rightarrow> bool \<Rightarrow> bool
      \<Rightarrow> ('w, string list) import" where
  "resolve_participant_huids px migration chat participant_chat chat_type backend include_self degrade =
    bind (resolve_participant_targets px migration chat participant_chat chat_type backend include_self degrade)
      (\<lambda>targets. ret (map pt_target_huid targets))"

record participant_preview =
  pp_resolved_huids :: "string list"
  pp_unresolved_usernames :: "string list"
  pp_unresolved_display_names :: "string list"
  pp_non_self_participants :: nat

fun preview_participants ::
    "'w provisioning_services \<Rightarrow> bool \<Rightarrow> source_participant list \<Rightarrow> participant_preview \<Rightarrow> ('w, participant_preview) import" where
  "preview_participants px include_self [] v = ret v"
| "preview_participants px include_self (p # ps) v =
    (if sp_is_self p \<and> \<not> include_self then preview_participants px include_self ps v
     else
       let v = v\<lparr>pp_non_self_participants := pp_non_self_participants v + 1\<rparr>
       in bind (lookup_participant px p) (\<lambda>found.
         preview_participants px include_self ps
          (case il_target_huid found of
             None \<Rightarrow>
               if truthy (sp_username p) then v\<lparr>pp_unresolved_usernames := pp_unresolved_usernames v
                  @ [or_empty (py_or (dir_normalize_username (sp_username p)) (sp_username p))]\<rparr>
               else v\<lparr>pp_unresolved_display_names := pp_unresolved_display_names v @ [sp_display_name p]\<rparr>
           | Some huid \<Rightarrow>
               if huid \<in> set (pp_resolved_huids v) then v
               else v\<lparr>pp_resolved_huids := pp_resolved_huids v @ [huid]\<rparr>)))"

definition preview_participant_resolution ::
    "'w provisioning_services \<Rightarrow> string \<Rightarrow> string option \<Rightarrow> string \<Rightarrow> string \<Rightarrow> bool \<Rightarrow> ('w, participant_preview) import" where
  "preview_participant_resolution px chat participant_chat chat_type backend include_self =
    bind (on_fatal (participants_of px chat participant_chat backend)
      (\<lambda>problem. throw (FatalItemError (participant_listing_error chat chat_type problem)))) (\<lambda>ps.
    preview_participants px include_self ps \<lparr>pp_resolved_huids = [], pp_unresolved_usernames = [],
      pp_unresolved_display_names = [], pp_non_self_participants = 0\<rparr>)"

definition private_chat_preflight_error :: "string \<Rightarrow> participant_preview \<Rightarrow> string" where
  "private_chat_preflight_error chat v =
    (let details =
        (if pp_unresolved_usernames v \<noteq> [] then [''unresolved_usernames=''
           @ join_with '', '' (map (\<lambda>u. ''@'' @ u) (take 5 (pp_unresolved_usernames v)))] else [])
      @ (if pp_unresolved_display_names v \<noteq> [] then [''participants_without_username=''
           @ join_with '', '' (take 5 (pp_unresolved_display_names v))] else [])
      @ (if pp_non_self_participants v = 0 then [''no non-self participants were discovered in Telegram''] else [])
     in ''private chat migration requires at least one resolved target participant; source_chat_id='' @ chat
        @ (if details \<noteq> [] then ''; '' @ join_with ''; '' details else []) @ ''; ''
        @ ''Inspect members via /chat_users '' @ chat @ '' and add identity mapping via ''
        @ ''/map_identity tg_id=<telegram_user_id> email=<corporate_email> or run /migrate '' @ chat
        @ '' target=bind target_chat_id=<express_chat_id>'')"

record participant_row =
  prw_telegram_user_id :: "string option"
  prw_telegram_username :: "string option"
  prw_telegram_display_name :: string
  prw_is_self :: bool
  prw_corporate_email :: "string option"
  prw_target_huid :: "string option"
  prw_resolution_source :: string
  prw_reason :: "string option"

definition participant_row_of :: "source_participant \<Rightarrow> identity_lookup_result \<Rightarrow> participant_row" where
  "participant_row_of p found =
    \<lparr>prw_telegram_user_id = py_or (il_telegram_user_id found) (sp_external_id p),
     prw_telegram_username = py_or (il_telegram_username found)
       (if truthy (sp_username p) then dir_normalize_username (sp_username p) else None),
     prw_telegram_display_name = sp_display_name p, prw_is_self = sp_is_self p,
     prw_corporate_email = il_corporate_email found, prw_target_huid = il_target_huid found,
     prw_resolution_source = il_resolution_source found, prw_reason = il_reason found\<rparr>"

text \<open>
  \<open>str.casefold\<close> on characters below 256: the sharp s does not fold like \<open>lower\<close>. (The micro sign
  folds to a letter beyond 255; it is kept.)
\<close>

definition py_casefold :: "string \<Rightarrow> string" where
  "py_casefold s = concat (map (\<lambda>c. if c = CHR 0xDF then ''ss'' else [c]) (py_lower s))"

definition list_participant_matrix ::
    "'w provisioning_services \<Rightarrow> string \<Rightarrow> string option \<Rightarrow> string \<Rightarrow> ('w, participant_row list) import" where
  "list_participant_matrix px chat participant_chat backend =
    bind (participants_of px chat participant_chat backend) (\<lambda>ps.
    bind (collect (\<lambda>p. bind (lookup_participant px p) (\<lambda>found. ret (participant_row_of p found))) ps) (\<lambda>rows.
    ret (sort_key (\<lambda>r. (prw_is_self r, py_casefold (prw_telegram_display_name r), or_empty (prw_telegram_user_id r)))
      rows)))"

section \<open>Creating chats\<close>

definition ensure_initiator_chat_admin ::
    "'w provisioning_services \<Rightarrow> access_context \<Rightarrow> string option \<Rightarrow> string option \<Rightarrow> ('w, unit) import" where
  "ensure_initiator_chat_admin px x initiator anchor_host =
    (case stripped initiator of
       None \<Rightarrow> ret ()
     | Some huid \<Rightarrow>
         bind (lift_outcome (resolve_anchor_cts_host px anchor_host)) (\<lambda>anchor.
         let details = (\<lambda>more. [(''target_chat_id'', JStr (ax_target_chat_id x)), (''initiator_huid'', JStr huid),
               (''anchor_cts_host'', json_opt_str anchor), more])
         in bind (on_fatal (under_host px anchor (\<lambda>h. with_retries px (px_promote px h (ax_target_chat_id x) [huid])))
             (\<lambda>problem. bind (audit_access px x (event_of x ''initiator_admin_degraded'') SevWarning
                (details (''error'', JStr problem))) (\<lambda>_. throw (FatalItemError problem)))) (\<lambda>promoted.
            audit_access px x (event_of x ''initiator_admin_synced'') SevInfo
              (details (''promoted_admin_huids'', json_strs promoted)))))"

definition created_context :: "string \<Rightarrow> string \<Rightarrow> manifest_dialog \<Rightarrow> string \<Rightarrow> string \<Rightarrow> access_context" where
  "created_context kind migration d chat title =
    \<lparr>ax_chat_kind = kind, ax_migration_id = migration, ax_source_chat_id = dlg_source_chat_id d,
     ax_source_backend = dlg_source_backend d, ax_target_chat_id = chat, ax_target_chat_title = title\<rparr>"

text \<open>\<open>dialog.access_strategy or "direct_add"\<close>.\<close>

definition strategy_of :: "manifest_dialog \<Rightarrow> string" where
  "strategy_of d = or_empty (py_or (dlg_access_strategy d) (Some ''direct_add''))"

definition create_chat ::
    "'w provisioning_services \<Rightarrow> string \<Rightarrow> string list option \<Rightarrow> string \<Rightarrow> ('w, string) import" where
  "create_chat px title huids chat_type = with_retries px (px_create_chat px (px_context px) title huids chat_type)"

text \<open>Making the initiator an administrator and letting the participants in.\<close>

definition open_chat ::
    "'w provisioning_services \<Rightarrow> access_context \<Rightarrow> manifest_dialog \<Rightarrow> participant_target list \<Rightarrow> string list
      \<Rightarrow> ('w, string) import" where
  "open_chat px x d targets seeds =
    bind (ensure_initiator_chat_admin px x (dlg_initiator_huid d) (dlg_anchor_cts_host d)) (\<lambda>_.
    bind (apply_member_access_strategy px x targets (dlg_initiator_huid d) (strategy_of d) (dlg_anchor_cts_host d)
      seeds) (\<lambda>_.
    ret (ax_target_chat_id x)))"

definition private_needs_initiator :: "string \<Rightarrow> error" where
  "private_needs_initiator chat = FatalItemError
     (''private chat migration requires initiator_huid from the bot request context; source_chat_id='' @ chat)"

definition provision_private_chat ::
    "'w provisioning_services \<Rightarrow> string \<Rightarrow> manifest_dialog \<Rightarrow> string \<Rightarrow> ('w, string) import" where
  "provision_private_chat px migration d title =
    (case stripped (dlg_initiator_huid d) of
       None \<Rightarrow> throw (private_needs_initiator (dlg_source_chat_id d))
     | Some initiator \<Rightarrow>
         let chat = dlg_source_chat_id d in
         bind (on_fatal
           (resolve_participant_targets px migration chat (Some chat) ''private'' (dlg_source_backend d) False False)
           (\<lambda>problem. bind (audit_chat px migration chat ''private_chat_peer_resolution_degraded'' SevWarning
              [(''error'', JStr problem)]) (\<lambda>_. ret []))) (\<lambda>targets.
         bind (lift_outcome (seed_participant_huids px targets (Some initiator) (strategy_of d)
           (dlg_anchor_cts_host d))) (\<lambda>seeds.
         bind (audit_chat px migration chat ''private_chat_participant_set_prepared'' SevInfo
           [(''mode'', JStr (if targets \<noteq> [] then ''full'' else ''partial'')),
            (''participant_huids'', json_strs seeds), (''resolved_targets'', json_targets targets)]) (\<lambda>_.
         bind (create_chat px title (Some seeds) ''GROUP_CHAT'') (\<lambda>created.
         open_chat px (created_context ''private'' migration d created title) d targets seeds)))))"

definition provision_group_chat ::
    "'w provisioning_services \<Rightarrow> string \<Rightarrow> manifest_dialog \<Rightarrow> string \<Rightarrow> ('w, string) import" where
  "provision_group_chat px migration d title =
    bind (prepare_group_participant_targets px migration (dlg_source_chat_id d) (Some (physical_source_chat_id d))
      (dlg_source_chat_type d) (dlg_source_backend d) (dlg_initiator_huid d)) (\<lambda>targets.
    bind (lift_outcome (seed_participant_huids px targets (dlg_initiator_huid d) (strategy_of d)
      (dlg_anchor_cts_host d))) (\<lambda>seeds.
    bind (create_chat px title (if seeds = [] then None else Some seeds) ''GROUP_CHAT'') (\<lambda>created.
    open_chat px (created_context ''group'' migration d created title) d targets seeds)))"

definition require_channel_initiator_huid :: "string \<Rightarrow> string option \<Rightarrow> (error, string) outcome" where
  "require_channel_initiator_huid chat initiator =
    (case stripped initiator of
       Some huid \<Rightarrow> Inr huid
     | None \<Rightarrow> Inl (FatalItemError
         (''channel migration requires initiator_huid from the bot request context; source_chat_id='' @ chat)))"

definition provision_channel_chat ::
    "'w provisioning_services \<Rightarrow> string \<Rightarrow> manifest_dialog \<Rightarrow> string \<Rightarrow> ('w, string) import" where
  "provision_channel_chat px migration d title =
    (let chat = dlg_source_chat_id d in
     bind (lift_outcome (require_channel_initiator_huid chat (dlg_initiator_huid d))) (\<lambda>initiator.
     bind (prepare_channel_participant_targets px migration chat (dlg_source_backend d) (dlg_initiator_huid d))
       (\<lambda>targets.
     bind (create_chat px title (Some [initiator]) ''CHANNEL'') (\<lambda>created.
     bind (audit_chat px migration chat ''channel_target_chat_created'' SevInfo
       [(''target_chat_id'', JStr created), (''seed_participants'', json_strs [initiator]),
        (''access_strategy'', JStr (strategy_of d))]) (\<lambda>_.
     open_chat px (created_context ''channel'' migration d created title) d targets [initiator])))))"

section \<open>The target chat of a dialog\<close>

definition find_chat :: "string \<Rightarrow> string \<Rightarrow> ('w, chat_mapping_record option) import" where
  "find_chat migration chat = get_state (\<lambda>s. chat_mapping_get (im_chats s) (migration, chat))"

definition save_chat :: "chat_mapping_record \<Rightarrow> ('w, unit) import" where
  "save_chat r = modify (\<lambda>s. s\<lparr>im_chats := chat_mapping_save r (im_chats s)\<rparr>)"

text \<open>Bringing the members of a known chat up to date; \<open>strategy\<close> as the kind of chat passes it on.\<close>

definition sync_chat ::
    "'w provisioning_services \<Rightarrow> string \<Rightarrow> string \<Rightarrow> manifest_dialog \<Rightarrow> chat_mapping_record \<Rightarrow> string
      \<Rightarrow> participant_target list \<Rightarrow> ('w, chat_mapping_record) import" where
  "sync_chat px kind migration d existing strategy targets =
    bind (apply_member_access_strategy px
      (created_context kind migration d (cm_target_chat_id existing) (cm_target_chat_title existing)) targets
      (dlg_initiator_huid d) strategy (py_or (cm_anchor_cts_host existing) (dlg_anchor_cts_host d)) []) (\<lambda>access.
    if \<not> access_changed access then ret existing
    else bind (px_now px) (\<lambda>now.
      let updated = existing\<lparr>cm_updated_at := now\<rparr>
      in bind (save_chat updated) (\<lambda>_. ret updated)))"

definition sync_group_chat_members ::
    "'w provisioning_services \<Rightarrow> string \<Rightarrow> manifest_dialog \<Rightarrow> chat_mapping_record \<Rightarrow> ('w, chat_mapping_record) import" where
  "sync_group_chat_members px migration d existing =
    bind (prepare_group_participant_targets px migration (dlg_source_chat_id d) (Some (physical_source_chat_id d))
      (dlg_source_chat_type d) (dlg_source_backend d) (dlg_initiator_huid d))
      (sync_chat px ''group'' migration d existing (strategy_of d))"

definition sync_channel_chat_access ::
    "'w provisioning_services \<Rightarrow> string \<Rightarrow> manifest_dialog \<Rightarrow> chat_mapping_record \<Rightarrow> ('w, chat_mapping_record) import" where
  "sync_channel_chat_access px migration d existing =
    bind (prepare_channel_participant_targets px migration (dlg_source_chat_id d) (dlg_source_backend d)
      (dlg_initiator_huid d))
      (sync_chat px ''channel'' migration d existing (py_lower (py_strip (strategy_of d))))"

definition chat_error :: "manifest_dialog \<Rightarrow> string \<Rightarrow> error" where
  "chat_error d problem = FatalItemError (''source_chat_id='' @ dlg_source_chat_id d @ problem)"

definition unsupported_strategy :: "manifest_dialog \<Rightarrow> error" where
  "unsupported_strategy d = FatalItemError (''unsupported target_strategy='' @ py_repr (dlg_target_strategy d)
     @ '' for source_chat_id='' @ dlg_source_chat_id d)"

text \<open>The id and the status of a new mapping.\<close>

definition choose_target_chat ::
    "'w provisioning_services \<Rightarrow> string \<Rightarrow> manifest_dialog \<Rightarrow> ('w, string \<times> string) import" where
  "choose_target_chat px migration d =
    (if dlg_target_strategy d = ''manual_review_required''
     then throw (chat_error d '' requires manual review before migration'')
     else if dlg_target_strategy d = ''bind'' then
       (if \<not> truthy (dlg_target_chat_id d) then throw (chat_error d '' requires target_chat_id for bind strategy'')
        else ret (or_empty (dlg_target_chat_id d), ''bound''))
     else if dlg_target_strategy d = ''create'' then
       let title = or_empty (py_or (dlg_target_title d) (Some (dlg_source_chat_id d)))
       in bind (if dlg_source_chat_type d = ''private'' then provision_private_chat px migration d title
                else if dlg_source_chat_type d = ''channel'' then provision_channel_chat px migration d title
                else provision_group_chat px migration d title) (\<lambda>chat.
          ret (chat, ''active''))
     else throw (unsupported_strategy d))"

definition ensure_target_chat ::
    "'w provisioning_services \<Rightarrow> string \<Rightarrow> manifest_dialog \<Rightarrow> ('w, chat_mapping_record) import" where
  "ensure_target_chat px migration d =
    bind (find_chat migration (dlg_source_chat_id d)) (\<lambda>found.
    case found of
      Some existing \<Rightarrow>
        if dlg_target_strategy d = ''create'' \<and> dlg_source_chat_type d = ''channel''
        then sync_channel_chat_access px migration d existing
        else if dlg_target_strategy d = ''create'' \<and> dlg_source_chat_type d \<in> {''group'', ''supergroup''}
        then sync_group_chat_members px migration d existing
        else ret existing
    | None \<Rightarrow>
        bind (choose_target_chat px migration d) (\<lambda>(chat, status).
        bind (px_now px) (\<lambda>created. bind (px_now px) (\<lambda>updated.
        let r = \<lparr>cm_migration_id = migration, cm_source_chat_id = dlg_source_chat_id d,
              cm_source_chat_type = dlg_source_chat_type d,
              cm_source_chat_title = or_empty (py_or (dlg_source_thread_title d)
                (py_or (dlg_target_title d) (Some (dlg_source_chat_id d)))),
              cm_target_chat_id = chat,
              cm_target_chat_title = or_empty (py_or (dlg_target_title d)
                (py_or (dlg_source_thread_title d) (Some (dlg_source_chat_id d)))),
              cm_status = status, cm_created_at = created, cm_updated_at = updated,
              cm_anchor_cts_host = dlg_anchor_cts_host d, cm_anchor_bot_id = dlg_anchor_bot_id d\<rparr>
        in bind (save_chat r) (\<lambda>_. ret r)))))"

definition get_existing_target_chat :: "string \<Rightarrow> string \<Rightarrow> ('w, chat_mapping_record option) import" where
  "get_existing_target_chat = find_chat"

definition add_resolved_members_to_existing_chat ::
    "'w provisioning_services \<Rightarrow> access_context \<Rightarrow> string \<Rightarrow> participant_target list \<Rightarrow> string option \<Rightarrow> string
      \<Rightarrow> string option \<Rightarrow> ('w, access_result) import" where
  "add_resolved_members_to_existing_chat px x chat_type targets initiator strategy anchor =
    apply_member_access_strategy px
      (x\<lparr>ax_chat_kind := (if chat_type = ''channel'' then ''channel'' else ''group'')\<rparr>) targets initiator strategy anchor []"

section \<open>Checks before a migration\<close>

definition validate_channel_preconditions ::
    "'w provisioning_services \<Rightarrow> string \<Rightarrow> manifest_dialog \<Rightarrow> ('w, unit) import" where
  "validate_channel_preconditions px migration d =
    (let chat = dlg_source_chat_id d; backend = dlg_source_backend d;
         degraded = (\<lambda>event more. audit_chat px migration chat event SevWarning
           ([(''source_chat_type'', JStr (dlg_source_chat_type d)), (''source_backend'', JStr backend)] @ more))
     in bind (lift_outcome (require_channel_initiator_huid chat (dlg_initiator_huid d))) (\<lambda>_.
        bind (outside (px_channel_profile px chat backend)) (\<lambda>profile.
        if \<not> cap_is_admin profile then
          degraded ''channel_admin_preflight_degraded''
            [(''can_list_participants'', JBool (cap_can_list_participants profile)),
             (''reason'', JStr ''connected_session_is_not_channel_admin'')]
        else if \<not> cap_can_list_participants profile then
          degraded ''channel_participant_preview_degraded''
            [(''reason'', JStr ''participant_listing_not_available'')]
        else on_fatal
          (bind (preview_participant_resolution px chat (Some (physical_source_chat_id d)) (dlg_source_chat_type d)
            backend False) (\<lambda>_. ret ()))
          (\<lambda>problem. degraded ''channel_participant_preview_degraded''
            [(''reason'', JStr ''participant_preview_failed''), (''error'', JStr problem)]))))"

definition validate_dialog_preconditions ::
    "'w provisioning_services \<Rightarrow> string \<Rightarrow> manifest_dialog \<Rightarrow> ('w, unit) import" where
  "validate_dialog_preconditions px migration d =
    bind (find_chat migration (dlg_source_chat_id d)) (\<lambda>found.
    if found \<noteq> None then ret ()
    else if dlg_target_strategy d = ''manual_review_required''
    then throw (chat_error d '' requires manual review before migration'')
    else if dlg_target_strategy d = ''bind'' then
      (if \<not> truthy (dlg_target_chat_id d) then throw (chat_error d '' requires target_chat_id for bind strategy'')
       else if dlg_source_chat_type d = ''channel'' then validate_channel_preconditions px migration d
       else ret ())
    else if dlg_target_strategy d \<noteq> ''create'' then throw (unsupported_strategy d)
    else if dlg_source_chat_type d = ''channel'' then validate_channel_preconditions px migration d
    else if dlg_source_chat_type d = ''private'' then
      (if stripped (dlg_initiator_huid d) = None then throw (private_needs_initiator (dlg_source_chat_id d))
       else ret ())
    else on_fatal
      (bind (preview_participant_resolution px (dlg_source_chat_id d) (Some (physical_source_chat_id d))
        (dlg_source_chat_type d) (dlg_source_backend d) False) (\<lambda>_. ret ()))
      (\<lambda>problem. audit_chat px migration (dlg_source_chat_id d) ''target_chat_participant_preview_degraded'' SevWarning
        [(''source_chat_type'', JStr (dlg_source_chat_type d)), (''error'', JStr problem)]))"

end
