(* ===== verification/Chat_Facts.thy ===== *)
theory Chat_Facts
  imports Target_Chats Import_Facts
begin

text \<open>
  What provisioning guarantees. The messenger is described by the contract \<open>chat_gateway\<close>: adding
  members makes them members, and no call takes a member out of the chat. Every participant is then a
  member of the target chat or reported as failed. The mapping of a dialog is written once, only after
  its chat was prepared without an error, and keeps its chat afterwards.
\<close>

section \<open>Calls under the retry policy\<close>

lemma retry_from_last: "retry_from p rnd m n s l = (r, s', l') \<Longrightarrow> \<exists>w. m w = (r, s')"
proof (induction p rnd m n s l rule: retry_from.induct)
  case (1 p rnd m n s l)
  obtain q s1 where q: "m s = (q, s1)" by fastforce
  show ?case
  proof (cases q)
    case (Inl e)
    show ?thesis
    proof (cases "\<not> rp_retries p e \<or> n \<ge> rp_max_attempts p")
      case True
      with 1(2) q Inl show ?thesis by (auto simp: retry_from.simps [of p rnd m n s l])
    next
      case False
      with 1(2) q Inl have "retry_from p rnd m (n + 1) s1 (l @ [retry_delay p rnd n]) = (r, s', l')"
        by (auto simp: retry_from.simps [of p rnd m n s l])
      with 1(1) [OF q [symmetric] Inl False] show ?thesis by simp
    qed
  next
    case (Inr a)
    with 1(2) q show ?thesis by (auto simp: retry_from.simps [of p rnd m n s l])
  qed
qed

lemma retry_from_keeps:
  assumes "\<And>w. P w \<Longrightarrow> P (snd (m w))" and "P s"
  shows "P (fst (snd (retry_from p rnd m n s l)))"
  using assms
proof (induction p rnd m n s l rule: retry_from.induct)
  case (1 p rnd m n s l)
  obtain q s1 where q: "m s = (q, s1)" by fastforce
  have s1: "P s1" using 1(2) [OF 1(3)] by (simp add: q)
  show ?case
  proof (cases q)
    case (Inl e)
    with 1(1) [OF q [symmetric] Inl _ 1(2) s1] q s1 show ?thesis by (simp add: retry_from.simps [of p rnd m n s l])
  next
    case (Inr a)
    with q s1 show ?thesis by (simp add: retry_from.simps [of p rnd m n s l])
  qed
qed

definition world_of :: "'w import_state \<Rightarrow> 'w" where
  "world_of s = dl_world (im_delivery s)"

lemma with_retries_run:
  assumes "with_retries px m s = (r, s')"
  shows "\<exists>w. m w = (r, world_of s')"
proof -
  obtain w' l where "retry_run (sv_retry (px_delivery px)) (sv_random (px_delivery px)) m (world_of s) = (r, w', l)"
    and s': "world_of s' = w'"
    using assms by (auto simp: with_retries_def in_delivery_def retried_def Delivery.in_world_def on_part_def world_of_def
        split: prod.splits)
  from retry_from_last [OF this(1) [unfolded retry_run_def]] s' show ?thesis by simp
qed

section \<open>What the outside world keeps\<close>

named_theorems steady_rule \<open>steps that keep what holds of the outside world\<close>

definition steady :: "('w \<Rightarrow> bool) \<Rightarrow> ('w, 'a) import \<Rightarrow> bool" where
  "steady P m \<longleftrightarrow> (\<forall>s. P (world_of s) \<longrightarrow> P (world_of (snd (m s))))"

lemma steadyD: "steady P m \<Longrightarrow> P (world_of s) \<Longrightarrow> m s = (r, s') \<Longrightarrow> P (world_of s')"
  unfolding steady_def by (metis snd_conv)

lemma steadyI: "(\<And>s r s'. P (world_of s) \<Longrightarrow> m s = (r, s') \<Longrightarrow> P (world_of s')) \<Longrightarrow> steady P m"
  unfolding steady_def by (metis prod.collapse)

lemma steady_basic [steady_rule]:
  "steady P (ret a)" "steady P (throw e)" "steady P (get_state f)" "steady P (lift_outcome r)"
  by (simp_all add: steady_def action_defs)

lemma steady_bind [steady_rule]: "steady P m \<Longrightarrow> (\<And>a. steady P (f a)) \<Longrightarrow> steady P (bind m f)"
  by (rule steadyI) (auto simp: bind_def dest: steadyD split: prod.splits sum.splits)

lemma steady_catch: "steady P m \<Longrightarrow> (\<And>e h. handler e = Some h \<Longrightarrow> steady P h) \<Longrightarrow> steady P (catch_error m handler)"
  by (rule steadyI) (auto simp: catch_error_def dest: steadyD split: prod.splits sum.splits option.splits)

lemma steady_on_fatal [steady_rule]: "steady P m \<Longrightarrow> (\<And>t. steady P (h t)) \<Longrightarrow> steady P (on_fatal m h)"
  unfolding on_fatal_def by (rule steady_catch) (auto split: error.splits)

lemma steady_attempt [steady_rule]: "steady P m \<Longrightarrow> steady P (attempt takes m)"
  by (rule steadyI) (auto simp: attempt_def dest: steadyD split: prod.splits sum.splits if_splits)

lemma steady_collect [steady_rule]: "(\<And>x. steady P (f x)) \<Longrightarrow> steady P (collect f xs)"
  by (induction xs) (auto intro!: steady_rule)

lemma steady_under_host [steady_rule]: "(\<And>h. steady P (m h)) \<Longrightarrow> steady P (under_host px host m)"
  unfolding under_host_def by (intro steady_rule)

lemma steady_with_retries:
  assumes "\<And>w. P w \<Longrightarrow> P (snd (m w))"
  shows "steady P (with_retries px m)"
  unfolding steady_def
proof (intro allI impI)
  fix s :: "'a import_state"
  assume "P (world_of s)"
  from retry_from_keeps [where P = P, OF assms this]
  show "P (world_of (snd (with_retries px m s)))"
    by (simp add: with_retries_def in_delivery_def retried_def Delivery.in_world_def on_part_def world_of_def
        retry_run_def split_beta)
qed

section \<open>Names\<close>

text \<open>Names without outer blanks, none of them empty.\<close>

definition clean_names :: "string list \<Rightarrow> string set" where
  "clean_names huids = {py_strip u | u. u \<in> set huids \<and> py_strip u \<noteq> []}"

definition clean_target :: "participant_target \<Rightarrow> bool" where
  "clean_target t \<longleftrightarrow> py_strip (pt_target_huid t) = pt_target_huid t \<and> pt_target_huid t \<noteq> []"

lemma clean_names_targets: "\<forall>t \<in> set ts. clean_target t \<Longrightarrow> clean_names (map pt_target_huid ts) = pt_target_huid ` set ts"
proof -
  assume "\<forall>t \<in> set ts. clean_target t"
  then have "py_strip u = u \<and> u \<noteq> []" if "u \<in> set (map pt_target_huid ts)" for u
    using that by (auto simp: clean_target_def)
  then have "clean_names (map pt_target_huid ts) = set (map pt_target_huid ts)"
    unfolding clean_names_def by (safe; metis)
  then show ?thesis by simp
qed

section \<open>What every call keeps\<close>

text \<open>What holds of the outside world and is kept by every call but the creation of a chat.\<close>

locale guarded_world =
  fixes px :: "'w provisioning_services" and P :: "'w \<Rightarrow> bool"
  assumes members_kept: "P w \<Longrightarrow> P (snd (px_members px h c huids w))"
    and promote_kept: "P w \<Longrightarrow> P (snd (px_promote px h c huids w))"
    and admins_kept: "P w \<Longrightarrow> P (snd (px_admins px h c w))"
    and personal_kept: "P w \<Longrightarrow> P (snd (px_personal_chat px h v w))"
    and link_kept: "P w \<Longrightarrow> P (snd (px_chat_link px h c w))"
    and send_kept: "P w \<Longrightarrow> P (snd (px_send px h c body key w))"
    and clock_kept: "P w \<Longrightarrow> P (snd (sv_now (px_delivery px) w))"
begin

lemma stays_calls [steady_rule]:
  "steady P (with_retries px (px_members px h c huids))"
  "steady P (with_retries px (px_promote px h c huids))"
  "steady P (with_retries px (px_personal_chat px h v))"
  "steady P (with_retries px (px_chat_link px h c))"
  "steady P (with_retries px (px_send px h c body key))"
  by (rule steady_with_retries, erule members_kept, rule steady_with_retries, erule promote_kept,
    rule steady_with_retries, erule personal_kept, rule steady_with_retries, erule link_kept,
    rule steady_with_retries, erule send_kept)

lemma stays_now [steady_rule]: "steady P (px_now px)"
  using clock_kept
  by (simp add: steady_def px_now_def in_delivery_def now_at_def Delivery.in_world_def on_part_def total_op_def world_of_def
      split: prod.split) (metis snd_conv)

lemma stays_audit [steady_rule]:
  "steady P (audit_chat px mig c event sev payload)"
  "steady P (audit_access px x event sev payload)"
proof -
  show one: "steady P (audit_chat px mig c event sev payload)" for mig c
    unfolding audit_chat_def by (intro steady_rule) (simp add: steady_def modify_def world_of_def)
  show "steady P (audit_access px x event sev payload)"
    unfolding audit_access_def by (rule one)
qed

lemma stays_visible: "P w \<Longrightarrow> P (snd (assert_route_admin_visible px c route helper w))"
proof -
  assume m: "P w"
  obtain r w1 where call: "under_host px (Some route) (\<lambda>h. px_admins px h c) w = (r, w1)" by fastforce
  then have "P w1"
    using m admins_kept [OF m] by (auto simp: under_host_def bind_def lift_outcome_def split: sum.splits) (metis snd_conv)
  then show ?thesis
    by (auto simp: assert_route_admin_visible_def Let_def bind_def on_fatal_def catch_error_def call throw_def ret_def
        split: sum.splits error.splits)
qed

lemma stays_ready [steady_rule]: "steady P (ensure_helper_bot_route_admin_ready px c route helper)"
  unfolding ensure_helper_bot_route_admin_ready_def by (rule steady_with_retries) (rule stays_visible)

lemma stays_members [steady_rule]:
  "steady P (ensure_chat_members_via_cts_host px host c huids)"
  "steady P (participant_access_failures px ts reason problem)"
  unfolding ensure_chat_members_via_cts_host_def participant_access_failures_def by (intro steady_rule)+

lemma stays_cross [steady_rule]: "steady P (ensure_members_with_cross_cts_retry px x huids route anchor)"
  unfolding ensure_members_with_cross_cts_retry_def by (auto intro!: steady_rule)

lemma stays_helper_step [steady_rule]:
  "steady P m \<Longrightarrow> steady P (helper_step px x route anchor helper stage message m)"
  unfolding helper_step_def by (intro steady_rule)

lemma stays_learned [steady_rule]: "steady P (resolved_helper_bot_huid_for_cts_host px host)"
  unfolding resolved_helper_bot_huid_for_cts_host_def learned_bot_huid_for_cts_host_def
  by (auto intro!: steady_rule split: option.split)

lemma stays_helper [steady_rule]: "steady P (ensure_helper_bot_route_membership px x route anchor)"
  unfolding ensure_helper_bot_route_membership_def Let_def
  by (auto intro!: steady_rule steady_catch split: option.split error.splits)

lemma stays_invite_each [steady_rule]: "steady P (invite_each px x link anchor ts p)"
  by (induction ts arbitrary: p) (auto intro!: steady_rule simp: send_invitation_def split: sum.split)

lemma stays_dispatch [steady_rule]: "steady P (dispatch_access_invites px x ts strategy reason anchor)"
  unfolding dispatch_access_invites_def emit_access_link_def by (auto intro!: steady_rule)

end

section \<open>The messenger's contract\<close>

locale chat_gateway =
  fixes px :: "'w provisioning_services" and chat :: string and member :: "'w \<Rightarrow> string \<Rightarrow> bool"
  assumes members_added:
      "px_members px h chat huids w = (Inr added, w') \<Longrightarrow> u \<in> set huids \<Longrightarrow> py_strip u \<noteq> [] \<Longrightarrow> member w' (py_strip u)"
    and members_stay: "guarded_world px (\<lambda>w. member w u)"

sublocale chat_gateway \<subseteq> kept: guarded_world px "\<lambda>w. member w u" for u
  by (rule members_stay)

section \<open>Who gets in\<close>

context chat_gateway
begin

text \<open>Whoever is a member stays one.\<close>

abbreviation stays :: "('w, 'a) import \<Rightarrow> bool" where
  "stays m \<equiv> (\<forall>u. steady (\<lambda>w. member w u) m)"

text \<open>When \<open>m\<close> returns, the names in \<open>U\<close> are members.\<close>

abbreviation enters :: "string set \<Rightarrow> ('w, 'a) import \<Rightarrow> bool" where
  "enters U m \<equiv> meets (\<lambda>_. True) m (\<lambda>_ s. \<forall>u \<in> U. member (world_of s) u) (\<lambda>_ _. True)"

lemma enters_then: "enters U m \<Longrightarrow> (\<And>a. stays (f a)) \<Longrightarrow> enters U (bind m f)"
  by (rule meets_bind [where R = "\<lambda>_ s. \<forall>u \<in> U. member (world_of s) u"], assumption)
    (rule meetsI, use steadyD in fast, simp)

lemma enters_after: "(\<And>a. enters U (f a)) \<Longrightarrow> enters U (bind m f)"
  by (rule meets_bind [where R = "\<lambda>_ _. True"]) (auto simp: meets_def split: prod.splits sum.splits)

lemma enters_throw: "enters U (throw e)"
  by (simp add: meets_throw)

lemma enters_fatal: "enters U m \<Longrightarrow> (\<And>t. enters U (h t)) \<Longrightarrow> enters U (on_fatal m h)"
  unfolding on_fatal_def by (rule meets_catch [where E' = "\<lambda>_ _. True"]) (auto split: error.splits)

lemma enters_members: "enters (clean_names huids) (ensure_chat_members_via_cts_host px host chat huids)"
  unfolding ensure_chat_members_via_cts_host_def under_host_def
proof (rule enters_after, rule meetsI)
  fix h s added s'
  assume "with_retries px (px_members px h chat huids) s = (Inr added, s')"
  from with_retries_run [OF this] show "\<forall>u \<in> clean_names huids. member (world_of s') u"
    by (auto simp: clean_names_def intro: members_added)
qed simp

lemma enters_cross:
  assumes "ax_target_chat_id x = chat"
  shows "enters (clean_names huids) (ensure_members_with_cross_cts_retry px x huids route anchor)"
  unfolding ensure_members_with_cross_cts_retry_def assms
proof (rule enters_after, rule enters_after, rule enters_fatal)
  fix r a problem
  show "enters (clean_names huids) (bind (ensure_chat_members_via_cts_host px r chat huids) (\<lambda>added. ret (added, r)))"
    by (rule enters_then [OF enters_members]) (auto intro: steady_rule)
  have "enters (clean_names huids) (bind (on_fatal (ensure_chat_members_via_cts_host px a chat huids)
      (\<lambda>e. throw (f e))) (\<lambda>added. bind (audit_access px x ev SevInfo payload) (\<lambda>_. ret (added, a))))" for f ev payload
    by (rule enters_then, rule enters_fatal, rule enters_members, rule enters_throw) (auto intro!: steady_rule)
  then show "enters (clean_names huids)
     (bind (lift_outcome (should_retry_member_sync_via_anchor px (FatalItemError problem) r a)) (\<lambda>retry.
        if \<not> retry then throw (FatalItemError problem)
        else bind (on_fatal (ensure_chat_members_via_cts_host px a chat huids)
          (\<lambda>anchor_error. throw (FatalItemError
             (''eXpress ensure_chat_members failed after cross-CTS reroute: route_cts_host='' @ str_opt r
              @ '' route_error='' @ problem @ ''; anchor_cts_host='' @ str_opt a
              @ '' anchor_error='' @ anchor_error)))) (\<lambda>added.
         bind (audit_access px x (event_of x ''members_sync_rerouted'') SevInfo
           [(''target_chat_id'', JStr chat), (''route_cts_host'', json_opt_str r),
            (''fallback_cts_host'', json_opt_str a), (''participant_huids'', json_strs huids),
            (''reason'', JStr ''route_chat_not_found''), (''route_error'', JStr problem)]) (\<lambda>_.
         ret (added, a)))))"
    by (intro enters_after) (simp add: enters_throw)
qed

text \<open>
  The state of adding the members: those in \<open>D\<close> are members or failed, and those that failed are the
  ones to be invited.
\<close>

definition settled_members :: "access_progress \<Rightarrow> participant_target set \<Rightarrow> 'w import_state \<Rightarrow> bool" where
  "settled_members p D s \<longleftrightarrow> map pt_target_huid (ap_fallback p) = map af_target_huid (ap_failed p)
    \<and> (\<forall>t \<in> D. member (world_of s) (pt_target_huid t) \<or> pt_target_huid t \<in> af_target_huid ` set (ap_failed p))"

lemma settled_stays: "settled_members p D s \<Longrightarrow> stays m \<Longrightarrow> m s = (r, s') \<Longrightarrow> settled_members p D s'"
  unfolding settled_members_def by (fast dest: steadyD)

lemma settled_step:
  assumes "stays m" and "yields m R"
  shows "meets (settled_members p D) m (\<lambda>a s. R a \<and> settled_members p D s) (\<lambda>_ _. True)"
  using assms by (intro meetsI) (auto dest: yieldsD settled_stays)

lemma settled_more:
  assumes "settled_members p D s"
  shows "map af_target_huid fs = map pt_target_huid ts \<Longrightarrow> settled_members (note_failed ts fs p) (D \<union> set ts) s"
    and "(\<forall>t \<in> E. member (world_of s) (pt_target_huid t)) \<Longrightarrow> settled_members (note_added hs host p) (D \<union> E) s"
proof -
  assume "map af_target_huid fs = map pt_target_huid ts"
  moreover from arg_cong [OF this, of set] have "pt_target_huid ` set ts = af_target_huid ` set fs" by simp
  ultimately show "settled_members (note_failed ts fs p) (D \<union> set ts) s"
    using assms by (auto simp: settled_members_def note_failed_def)
next
  assume "\<forall>t \<in> E. member (world_of s) (pt_target_huid t)"
  then show "settled_members (note_added hs host p) (D \<union> E) s"
    using assms by (auto simp: settled_members_def note_added_def)
qed

lemma yields_failures:
  "yields (participant_access_failures px ts reason problem) (\<lambda>fs. map af_target_huid fs = map pt_target_huid ts)"
proof (induction ts)
  case (Cons t ts)
  have one: "yields (lift_outcome (failure_of px reason problem t)) (\<lambda>f. af_target_huid f = pt_target_huid t)"
    by (rule yieldsI) (auto simp: lift_outcome_def failure_of_def split: sum.splits)
  show ?case
    using Cons unfolding participant_access_failures_def collect.simps
    by (auto intro!: yields_from [OF one] yields_ret elim!: yields_from)
qed (simp add: participant_access_failures_def yields_ret)

text \<open>An attempt to add some targets: their names are members, or it failed.\<close>

lemma settled_attempt:
  assumes "ax_target_chat_id x = chat" and "\<forall>t \<in> set ts. clean_target t"
  shows "meets (settled_members p D)
    (on_fatal (bind (ensure_members_with_cross_cts_retry px x (map pt_target_huid ts) route anchor) (\<lambda>a. ret (Inr a)))
      (\<lambda>problem. ret (Inl problem)))
    (\<lambda>r s. settled_members p D s \<and> (\<not> isl r \<longrightarrow> (\<forall>t \<in> set ts. member (world_of s) (pt_target_huid t)))) (\<lambda>_ _. True)"
    (is "meets _ ?m _ _")
proof (rule meetsI)
  fix s r s'
  assume S: "settled_members p D s" and run: "?m s = (Inr r, s')"
  have "stays ?m" by (auto intro!: steady_rule)
  note S' = settled_stays [OF S this run]
  obtain q s1 where q: "ensure_members_with_cross_cts_retry px x (map pt_target_huid ts) route anchor s = (q, s1)" by fastforce
  show "settled_members p D s' \<and> (\<not> isl r \<longrightarrow> (\<forall>t \<in> set ts. member (world_of s') (pt_target_huid t)))"
  proof (cases q)
    case (Inr a)
    with q run have "s' = s1" by (simp add: on_fatal_def catch_error_def bind_def ret_def)
    with meets_result [OF enters_cross [OF assms(1), of "map pt_target_huid ts" route anchor] _ q [unfolded Inr]] S'
    show ?thesis by (simp add: clean_names_targets [OF assms(2)])
  next
    case (Inl e)
    with q run S' show ?thesis
      by (auto simp: on_fatal_def catch_error_def bind_def ret_def split: error.splits option.splits)
  qed
qed simp

lemma settled_best_effort:
  assumes "ax_target_chat_id x = chat" and "\<forall>t \<in> set ts. clean_target t"
  shows "meets (settled_members p D) (ensure_members_with_best_effort px x route anchor ts p)
    (\<lambda>p' s. settled_members p' (D \<union> set ts) s) (\<lambda>_ _. True)"
  using assms(2)
proof (induction ts arbitrary: p D)
  case Nil
  show ?case by (simp add: meets_ret)
next
  case (Cons t ts)
  have one: "\<forall>t' \<in> set [t]. clean_target t'" using Cons.prems by simp
  have rest: "meets (settled_members q (D \<union> {t})) (ensure_members_with_best_effort px x route anchor ts q)
      (\<lambda>p' s. settled_members p' (D \<union> set (t # ts)) s) (\<lambda>_ _. True)" for q
    using Cons.IH [of q "D \<union> {t}"] Cons.prems by simp
  show ?case
    unfolding ensure_members_with_best_effort.simps
  proof (rule meets_bind [OF settled_attempt [OF assms(1) one, simplified]], goal_cases)
    case (1 r)
    show ?case
    proof (cases r)
      case (Inl problem)
      have failed: "meets (settled_members p D) (participant_access_failures px [t] ''direct_add_failed'' (Some problem))
          (\<lambda>fs s. map af_target_huid fs = map pt_target_huid [t] \<and> settled_members p D s) (\<lambda>_ _. True)"
        by (rule settled_step [OF _ yields_failures]) (auto intro: steady_rule)
      have "meets (\<lambda>s. map af_target_huid fs = map pt_target_huid [t] \<and> settled_members p D s)
          (ensure_members_with_best_effort px x route anchor ts (note_failed [t] fs p))
          (\<lambda>p' s. settled_members p' (D \<union> set (t # ts)) s) (\<lambda>_ _. True)" for fs
        by (rule meets_pre [OF rest]) (use settled_more(1) [where ts = "[t]"] in auto)
      from meets_pre [OF meets_bind [OF failed this]] Inl show ?thesis by simp
    next
      case (Inr a)
      obtain added host where a: "a = (added, host)" by (cases a) auto
      let ?host = "if truthy host then ret host else lift_outcome (resolve_anchor_cts_host px anchor)"
      have "stays ?host" by (auto intro: steady_rule)
      then have hosted: "meets (\<lambda>s. settled_members p D s \<and> member (world_of s) (pt_target_huid t)) ?host
          (\<lambda>_ s. settled_members p D s \<and> member (world_of s) (pt_target_huid t)) (\<lambda>_ _. True)"
        by (intro meetsI) (auto dest: settled_stays steadyD)
      have "meets (\<lambda>s. settled_members p D s \<and> member (world_of s) (pt_target_huid t))
          (ensure_members_with_best_effort px x route anchor ts (note_added added h p))
          (\<lambda>p' s. settled_members p' (D \<union> set (t # ts)) s) (\<lambda>_ _. True)" for h
        by (rule meets_pre [OF rest]) (use settled_more(2) [where E = "{t}"] in auto)
      from meets_pre [OF meets_bind [OF hosted this]] Inr a show ?thesis by simp
    qed
  qed
qed

lemma meets_stays: "stays m \<Longrightarrow> meets (settled_members p D) m (\<lambda>_. settled_members p D) (\<lambda>_ _. True)"
  by (intro meetsI) (auto dest: settled_stays)

lemma settled_failures:
  assumes "\<And>fs. stays (audit fs)"
  shows "meets (settled_members p D)
    (bind (participant_access_failures px ts reason problem) (\<lambda>fs. bind (audit fs) (\<lambda>_. ret (note_failed ts fs p))))
    (\<lambda>p' s. settled_members p' (D \<union> set ts) s) (\<lambda>_ _. True)"
proof (rule meets_bind [OF settled_step [OF _ yields_failures]])
  show "stays (participant_access_failures px ts reason problem)" by (auto intro: steady_rule)
  fix fs
  show "meets (\<lambda>s. map af_target_huid fs = map pt_target_huid ts \<and> settled_members p D s)
      (bind (audit fs) (\<lambda>_. ret (note_failed ts fs p))) (\<lambda>p' s. settled_members p' (D \<union> set ts) s) (\<lambda>_ _. True)"
  proof (rule meetsI)
    fix s p' s'
    assume S: "map af_target_huid fs = map pt_target_huid ts \<and> settled_members p D s"
      and "bind (audit fs) (\<lambda>_. ret (note_failed ts fs p)) s = (Inr p', s')"
    then obtain a where "audit fs s = (Inr a, s')" "p' = note_failed ts fs p" by (auto simp: bind_Inr ret_def)
    with settled_stays [OF conjunct2 [OF S] assms] S show "settled_members p' (D \<union> set ts) s'"
      by (auto intro: settled_more(1))
  qed simp
qed

lemma settled_add_failed:
  "meets (settled_members p D) (add_failed px x route ts reason problem p)
    (\<lambda>p' s. settled_members p' (D \<union> set ts) s) (\<lambda>_ _. True)"
  unfolding add_failed_def audit_degraded_def by (rule settled_failures) (auto intro: steady_rule)

lemma settled_group:
  assumes "ax_target_chat_id x = chat" and "\<forall>t \<in> set ts. clean_target t"
  shows "meets (settled_members p D) (add_group px x anchor (route, ts) p)
    (\<lambda>p' s. settled_members p' (D \<union> set ts) s) (\<lambda>_ _. True)"
proof -
  let ?result = "\<lambda>r. case r of Inr (added, host) \<Rightarrow> ret (note_added added (or_default (py_or host anchor)) p)
    | Inl problem \<Rightarrow> if 1 < length ts
        then bind (audit_degraded px x route (map pt_target_huid ts) ''direct_add_batch_failed_retrying_individually'' problem)
          (\<lambda>_. ensure_members_with_best_effort px x route anchor ts p)
        else add_failed px x route ts ''direct_add_failed'' problem p"
  have tried: "meets (\<lambda>s. settled_members p D s \<and> (\<not> isl r \<longrightarrow> (\<forall>t \<in> set ts. member (world_of s) (pt_target_huid t))))
      (?result r) (\<lambda>p' s. settled_members p' (D \<union> set ts) s) (\<lambda>_ _. True)" for r
  proof (cases r)
    case (Inr a)
    then show ?thesis by (auto intro!: meets_ret simp: split_beta dest: settled_more(2))
  next
    case (Inl problem)
    have "meets (settled_members p D) (?result r) (\<lambda>p' s. settled_members p' (D \<union> set ts) s) (\<lambda>_ _. True)"
      using Inl settled_add_failed settled_best_effort [OF assms]
      by (auto intro!: meets_bind [OF meets_stays] steady_rule simp: audit_degraded_def)
    then show ?thesis by (rule meets_pre) simp
  qed
  have trying: "meets (settled_members p D) (bind (on_fatal
        (bind (ensure_members_with_cross_cts_retry px x (map pt_target_huid ts) route anchor) (\<lambda>a. ret (Inr a)))
        (\<lambda>problem. ret (Inl problem))) ?result) (\<lambda>p' s. settled_members p' (D \<union> set ts) s) (\<lambda>_ _. True)"
    by (rule meets_bind [OF settled_attempt [OF assms]]) (rule tried)
  show ?thesis
    unfolding add_group_def Let_def prod.case
  proof (rule meets_bind [OF meets_stays])
    show "stays (lift_outcome (is_cts_host_configured px route))" by (auto intro: steady_rule)
    fix configured
    have helper: "stays (on_fatal (bind (ensure_helper_bot_route_membership px x route anchor) (\<lambda>_. ret None))
        (\<lambda>problem. ret (Some problem)))" by (auto intro!: steady_rule)
    show "meets (settled_members p D) (if \<not> configured
       then bind (participant_access_failures px ts ''invite_route_missing'' None) (\<lambda>failures.
         bind (audit_access px x (event_of x ''invite_route_missing'') SevWarning
           [(''target_chat_id'', JStr (ax_target_chat_id x)), (''requested_cts_host'', json_opt_str route),
            (''recipient_huids'', json_strs (map pt_target_huid ts))]) (\<lambda>_.
         ret (note_failed ts failures p)))
       else bind (on_fatal (bind (ensure_helper_bot_route_membership px x route anchor) (\<lambda>_. ret None))
           (\<lambda>problem. ret (Some problem))) (\<lambda>helper_problem.
         case helper_problem of
           Some problem \<Rightarrow> add_failed px x route ts ''helper_bot_route_membership_failed'' problem p
         | None \<Rightarrow> bind (on_fatal
             (bind (ensure_members_with_cross_cts_retry px x (map pt_target_huid ts) route anchor) (\<lambda>a. ret (Inr a)))
             (\<lambda>problem. ret (Inl problem))) ?result))
       (\<lambda>p' s. settled_members p' (D \<union> set ts) s) (\<lambda>_ _. True)"
    proof (cases configured)
      case True
      then show ?thesis
        using trying settled_add_failed by (auto intro!: meets_bind [OF meets_stays [OF helper]] split: option.split)
    next
      case False
      then show ?thesis by (simp only: if_True not_False_eq_True) (rule settled_failures, auto intro: steady_rule)
    qed
  qed
qed

lemma settled_groups:
  assumes "ax_target_chat_id x = chat" and "\<forall>(route, ts) \<in> set gs. \<forall>t \<in> set ts. clean_target t"
  shows "meets (settled_members p D) (add_groups px x anchor gs p)
    (\<lambda>p' s. settled_members p' (D \<union> (\<Union>g \<in> set gs. set (snd g))) s) (\<lambda>_ _. True)"
  using assms(2)
proof (induction gs arbitrary: p D)
  case Nil
  show ?case by (simp add: meets_ret)
next
  case (Cons g gs)
  obtain route ts where g: "g = (route, ts)" by fastforce
  have "\<forall>t \<in> set ts. clean_target t" using Cons.prems g by auto
  from meets_bind [OF settled_group [OF assms(1) this] Cons.IH] Cons.prems
  show ?case by (simp add: g Un_assoc)
qed

end

section \<open>Grouping and selecting\<close>

lemma set_dict_extend:
  assumes "dict_ok d"
  shows "dict_ok (dict_extend k xs d)"
    and "(\<Union>g \<in> set (dict_extend k xs d). set (snd g)) = (\<Union>g \<in> set d. set (snd g)) \<union> set xs"
proof -
  show "dict_ok (dict_extend k xs d)" using assms by (simp add: dict_extend_def AList.distinct_update)
  let ?old = "case dict_get d k of None \<Rightarrow> [] | Some ys \<Rightarrow> ys"
  have "(\<Union>g \<in> set d. set (snd g)) = (\<Union>g \<in> {g \<in> set d. fst g \<noteq> k}. set (snd g)) \<union> set ?old"
    using assms by (auto split: option.splits dest: map_of_SomeD)
  then show "(\<Union>g \<in> set (dict_extend k xs d). set (snd g)) = (\<Union>g \<in> set d. set (snd g)) \<union> set xs"
    using set_dict_set_iff [OF assms, of k "?old @ xs"] by (auto simp: dict_extend_def split_beta)
qed

lemma partition_by_host_covers:
  "dict_ok d \<Longrightarrow> partition_by_host px anchor ts d = Inr gs
    \<Longrightarrow> dict_ok gs \<and> (\<Union>g \<in> set gs. set (snd g)) = (\<Union>g \<in> set d. set (snd g)) \<union> set ts"
proof (induction ts arbitrary: d)
  case (Cons t ts)
  then obtain route where "partition_by_host px anchor ts (dict_extend route [t] d) = Inr gs"
    by (auto split: sum.splits)
  from Cons.IH [OF set_dict_extend(1) [OF Cons.prems(1)] this] set_dict_extend(2) [OF Cons.prems(1), of route "[t]"]
  show ?case by auto
qed simp

lemma deduplicate_clean:
  "deduplicate_targets px ts seen = Inr us \<Longrightarrow> (\<forall>t \<in> set us. clean_target t \<and> pt_target_huid t \<notin> set seen)
    \<and> distinct (map pt_target_huid us)
    \<and> (\<forall>t \<in> set ts. py_strip (pt_target_huid t) \<in> {[]} \<union> set seen \<union> pt_target_huid ` set us)"
proof (induction ts arbitrary: seen us)
  case (Cons t ts)
  let ?huid = "py_strip (pt_target_huid t)"
  show ?case
  proof (cases "?huid = [] \<or> ?huid \<in> set seen")
    case True
    with Cons.prems have "deduplicate_targets px ts seen = Inr us" by simp
    from Cons.IH [OF this] True show ?thesis by auto
  next
    case False
    with Cons.prems obtain host rest where rest: "deduplicate_targets px ts (?huid # seen) = Inr rest"
        and us: "us = \<lparr>pt_target_huid = ?huid, pt_cts_host = host\<rparr> # rest"
      by (auto simp: Let_def split: sum.splits)
    from Cons.IH [OF rest] False us show ?thesis by (auto simp: clean_target_def)
  qed
qed simp

section \<open>Members or failed\<close>

context chat_gateway
begin

text \<open>
  Adding the participants of a chat directly: whoever has a HUID, is not the initiator and was not put
  into the chat at its creation is a member afterwards or is among the failed ones.
\<close>

lemma all_settled:
  assumes "ax_target_chat_id x = chat" and "normalized_strategy strategy \<noteq> ''invite_link''"
    and run: "apply_member_access_strategy px x targets initiator strategy anchor_host skip s = (Inr r, s')"
    and "t \<in> set targets" and "py_strip (pt_target_huid t) \<noteq> []"
    and "Some (py_strip (pt_target_huid t)) \<noteq> stripped initiator" and "py_strip (pt_target_huid t) \<notin> set skip"
  shows "member (world_of s') (py_strip (pt_target_huid t)) \<or> py_strip (pt_target_huid t) \<in> af_target_huid ` set (ar_failed r)"
proof -
  let ?huid = "py_strip (pt_target_huid t)"
  from run obtain us where us: "deduplicate_participant_targets px targets (stripped initiator) skip = Inr us"
    by (auto simp: apply_member_access_strategy_def Let_def bind_def lift_outcome_def split: sum.splits)
  from run us obtain anchor where anchor: "resolve_anchor_cts_host px anchor_host = Inr anchor"
    by (auto simp: apply_member_access_strategy_def Let_def bind_def lift_outcome_def split: sum.splits)
  note clean = deduplicate_clean [OF us [unfolded deduplicate_participant_targets_def]]
  have "?huid \<notin> set ((case stripped initiator of Some (c # cs) \<Rightarrow> [c # cs] | _ \<Rightarrow> []) @ skip)"
    using assms(6,7) by (auto split: option.splits list.splits)
  with clean assms(4,5) have huid: "?huid \<in> pt_target_huid ` set us" by blast
  then have "us \<noteq> []" by auto
  with run us anchor assms(2) obtain gs where gs: "partition_targets_by_cts_host px anchor us = Inr gs"
    by (auto simp: apply_member_access_strategy_def Let_def bind_def lift_outcome_def split: sum.splits)
  let ?rest = "\<lambda>p. bind (if ap_fallback p = [] then ret no_access
       else dispatch_access_invites px x (ap_fallback p) ''invite_link'' ''direct_add_failed'' anchor) (\<lambda>invites.
     bind (audit_access px x (event_of x ''members_synced'') (if ap_added p \<noteq> [] then SevInfo else SevWarning)
       [(''target_chat_id'', JStr (ax_target_chat_id x)),
        (''requested_participant_count'', JInt (int (length us))), (''added_huids'', json_strs (ap_added p)),
        (''added_by_cts_host'', json_by_host (ap_by_host p)),
        (''fallback_invite_count'', JInt (int (length (ap_fallback p)))),
        (''failed_target_huids'', json_strs (map af_target_huid (ap_failed p))),
        (''failed_target_count'', JInt (int (length (ap_failed p))))]) (\<lambda>_.
     ret \<lparr>ar_added = ap_added p, ar_invited = ar_invited invites, ar_failed = ap_failed p\<rparr>))"
  from run us anchor gs assms(2) \<open>us \<noteq> []\<close> have "bind (add_groups px x anchor gs fresh_access) ?rest s = (Inr r, s')"
    by (simp add: apply_member_access_strategy_def Let_def bind_def lift_outcome_def)
  then obtain p s1 where groups: "add_groups px x anchor gs fresh_access s = (Inr p, s1)" and rest: "?rest p s1 = (Inr r, s')"
    unfolding bind_Inr [of "add_groups px x anchor gs fresh_access"] by blast
  from partition_by_host_covers [OF _ gs [unfolded partition_targets_by_cts_host_def]]
  have cover: "(\<Union>g \<in> set gs. set (snd g)) = set us" by simp
  then have "\<forall>(route, ts) \<in> set gs. \<forall>t \<in> set ts. clean_target t" using clean by fastforce
  from meets_result [OF settled_groups [OF assms(1) this, of fresh_access "{}"] _ groups] cover
  have "settled_members p (set us) s1" by (simp add: settled_members_def fresh_access_def)
  moreover have "stays (?rest p)" by (auto intro!: steady_rule)
  ultimately have "settled_members p (set us) s'" using settled_stays rest by blast
  moreover from rest have "ar_failed r = ap_failed p" by (auto simp: bind_Inr ret_def)
  ultimately show ?thesis using huid by (auto simp: settled_members_def)
qed

end

end
