(* ===== verification/Target_Facts.thy ===== *)
theory Target_Facts
  imports Chat_Facts Import_Guards
begin

text \<open>
  The mapping of a dialog to its target chat: it is written only when the chat is ready, keeps its chat
  afterwards, and provisioning writes no message records or checkpoints.
\<close>

section \<open>Provisioning leaves the message records alone\<close>

lemma quiet_on_fatal [quiet]: "is_quiet m \<Longrightarrow> (\<And>t. is_quiet (h t)) \<Longrightarrow> is_quiet (on_fatal m h)"
  unfolding on_fatal_def by (rule quiet_catch) (auto split: error.splits)

lemma quiet_calls [quiet]:
  "is_quiet (with_retries px m)" "is_quiet (outside m)" "is_quiet (px_now px)" "is_quiet (lookup_participant px p)"
  "is_quiet (participants_of px chat participant_chat backend)"
  by (simp_all add: with_retries_def outside_def px_now_def lookup_participant_def participants_of_def quiet)

lemma quiet_audit_chat [quiet]:
  "is_quiet (audit_chat px mig c event sev payload)" "is_quiet (audit_access px x event sev payload)"
  unfolding audit_access_def audit_chat_def by (intro quiet quiet_modify; simp add: ledger_def)+

lemma quiet_under_host [quiet]: "(\<And>h. is_quiet (m h)) \<Longrightarrow> is_quiet (under_host px host m)"
  unfolding under_host_def by (intro quiet)

lemma quiet_collect [quiet]: "(\<And>x. is_quiet (f x)) \<Longrightarrow> is_quiet (collect f xs)"
  by (induction xs) (auto intro!: quiet)

lemma quiet_failures [quiet]: "is_quiet (participant_access_failures px ts reason problem)"
  unfolding participant_access_failures_def by (intro quiet)

lemma quiet_cross [quiet]: "is_quiet (ensure_members_with_cross_cts_retry px x huids route anchor)"
  unfolding ensure_members_with_cross_cts_retry_def ensure_chat_members_via_cts_host_def by (auto intro!: quiet)

lemma quiet_best_effort [quiet]: "is_quiet (ensure_members_with_best_effort px x route anchor ts p)"
  by (induction ts arbitrary: p) (auto intro!: quiet split: sum.split prod.split)

lemma quiet_learned [quiet]: "is_quiet (resolved_helper_bot_huid_for_cts_host px host)"
  unfolding resolved_helper_bot_huid_for_cts_host_def learned_bot_huid_for_cts_host_def
  by (auto intro!: quiet split: option.split)

lemma quiet_helper [quiet]: "is_quiet (ensure_helper_bot_route_membership px x route anchor)"
  unfolding ensure_helper_bot_route_membership_def helper_step_def ensure_helper_bot_route_admin_ready_def Let_def
  by (auto intro!: quiet split: option.split error.splits)

lemma quiet_invites [quiet]: "is_quiet (dispatch_access_invites px x ts strategy reason anchor)"
proof -
  have "is_quiet (invite_each px x link anchor ts p)" for link p
    by (induction ts arbitrary: p) (auto intro!: quiet simp: send_invitation_def split: sum.split)
  then show ?thesis
    unfolding dispatch_access_invites_def emit_access_link_def by (auto intro!: quiet)
qed

lemma quiet_group [quiet]: "is_quiet (add_group px x anchor g p)"
  unfolding add_group_def add_failed_def audit_degraded_def Let_def
  by (auto intro!: quiet split: prod.split option.split sum.split)

lemma quiet_apply [quiet]: "is_quiet (apply_member_access_strategy px x targets initiator strategy anchor skip)"
proof -
  have "is_quiet (add_groups px x a gs p)" for a gs p
    by (induction gs arbitrary: p) (auto intro!: quiet)
  then show ?thesis
    unfolding apply_member_access_strategy_def Let_def by (auto intro!: quiet)
qed

lemma quiet_resolve [quiet]:
  "is_quiet (resolve_participant_targets px mig chat participant_chat chat_type backend include_self degrade)"
proof -
  have "is_quiet (resolve_participants px mig chat include_self ps resolved)" for ps resolved
    by (induction ps arbitrary: resolved) (auto intro!: quiet split: option.split)
  then show ?thesis
    unfolding resolve_participant_targets_def by (auto intro!: quiet split: option.split)
qed

lemma quiet_prepare [quiet]:
  "is_quiet (prepare_group_participant_targets px mig chat participant_chat chat_type backend initiator)"
  "is_quiet (prepare_channel_participant_targets px mig chat backend initiator)"
  unfolding prepare_group_participant_targets_def prepare_channel_participant_targets_def prepare_participant_targets_def
  by (intro quiet)+

lemma quiet_open [quiet]: "is_quiet (open_chat px x d targets seeds)"
  unfolding open_chat_def ensure_initiator_chat_admin_def Let_def by (auto intro!: quiet split: option.split)

lemma quiet_create [quiet]: "is_quiet (create_chat px title huids chat_type)"
  unfolding create_chat_def by (intro quiet)

lemma quiet_provision [quiet]:
  "is_quiet (provision_private_chat px mig d title)" "is_quiet (provision_group_chat px mig d title)"
  "is_quiet (provision_channel_chat px mig d title)"
  unfolding provision_private_chat_def provision_group_chat_def provision_channel_chat_def Let_def
  by (auto intro!: quiet split: option.split)

lemma quiet_choose [quiet]: "is_quiet (choose_target_chat px mig d)"
  unfolding choose_target_chat_def Let_def by (auto intro!: quiet)

lemma quiet_find [quiet]: "is_quiet (find_chat mig chat)"
  unfolding find_chat_def by (intro quiet)

section \<open>The mapping\<close>

text \<open>Updating a known chat changes at most when it was updated, once everything else is done.\<close>

lemma sync_chat_cases:
  assumes "sync_chat px kind mig d existing strategy targets s = (r, s')"
  shows "im_chats s' = im_chats s \<and> ledger s' = ledger s \<and> (\<forall>m. r = Inr m \<longrightarrow> m = existing)
    \<or> (\<exists>t. r = Inr (existing\<lparr>cm_updated_at := t\<rparr>) \<and> ledger s' = ledger s
        \<and> im_chats s' = chat_mapping_save (existing\<lparr>cm_updated_at := t\<rparr>) (im_chats s))"
proof -
  let ?apply = "apply_member_access_strategy px
      (created_context kind mig d (cm_target_chat_id existing) (cm_target_chat_title existing)) targets
      (dlg_initiator_huid d) strategy (py_or (cm_anchor_cts_host existing) (dlg_anchor_cts_host d)) []"
  obtain q s1 where q: "?apply s = (q, s1)" by fastforce
  obtain q2 s2 where now: "px_now px s1 = (q2, s2)" by fastforce
  have same: "im_chats s1 = im_chats s" "ledger s1 = ledger s" "im_chats s2 = im_chats s" "ledger s2 = ledger s"
    using is_quietD [OF quiet_apply q] is_quietD [OF quiet_calls(3) now] by auto
  show ?thesis
    using assms same
    by (auto simp: sync_chat_def bind_def q now Let_def ret_def save_chat_def modify_def ledger_def
        split: sum.splits if_splits)
qed

lemma ensure_target_chat_cases:
  assumes "ensure_target_chat px mig d s = (r, s')"
  defines "k \<equiv> (mig, dlg_source_chat_id d)"
  shows "ledger s' = ledger s" and "r = Inl e \<Longrightarrow> im_chats s' = im_chats s"
    and "r = Inr m \<Longrightarrow> chat_mapping_get (im_chats s) k = None
      \<Longrightarrow> chat_mapping_key m = k \<and> im_chats s' = chat_mapping_save m (im_chats s)"
    and "r = Inr m \<Longrightarrow> chat_mapping_get (im_chats s) k = Some m0
      \<Longrightarrow> m = m0 \<and> im_chats s' = im_chats s
        \<or> (\<exists>t. m = m0\<lparr>cm_updated_at := t\<rparr> \<and> im_chats s' = chat_mapping_save m (im_chats s))"
proof -
  have known: "ledger s' = ledger s \<and> (\<forall>e. r = Inl e \<longrightarrow> im_chats s' = im_chats s)
      \<and> (\<forall>m. r = Inr m \<longrightarrow> m = m0 \<and> im_chats s' = im_chats s
        \<or> (\<exists>t. m = m0\<lparr>cm_updated_at := t\<rparr> \<and> im_chats s' = chat_mapping_save m (im_chats s)))"
    if m0: "chat_mapping_get (im_chats s) k = Some m0" for m0
  proof -
    have synced: "ledger s' = ledger s \<and> (\<forall>e. r = Inl e \<longrightarrow> im_chats s' = im_chats s)
      \<and> (\<forall>m. r = Inr m \<longrightarrow> m = m0 \<and> im_chats s' = im_chats s
        \<or> (\<exists>t. m = m0\<lparr>cm_updated_at := t\<rparr> \<and> im_chats s' = chat_mapping_save m (im_chats s)))"
      if "is_quiet prep" and "bind prep (sync_chat px kind mig d m0 strategy) s = (r, s')" for prep kind strategy
    proof -
      obtain q s1 where q: "prep s = (q, s1)" by fastforce
      note same = is_quietD [OF that(1) q]
      show ?thesis
      proof (cases q)
        case (Inl e)
        with that(2) q same show ?thesis by (auto simp: bind_def)
      next
        case (Inr ts)
        with that(2) q have "sync_chat px kind mig d m0 strategy ts s1 = (r, s')" by (simp add: bind_def)
        from sync_chat_cases [OF this] same show ?thesis by auto
      qed
    qed
    show ?thesis
    proof (cases "dlg_target_strategy d = ''create'' \<and> dlg_source_chat_type d = ''channel''")
      case True
      with assms(1) m0 have "sync_channel_chat_access px mig d m0 s = (r, s')"
        by (simp add: ensure_target_chat_def find_chat_def bind_def get_state_def k_def)
      from synced [OF quiet_prepare(2) this [unfolded sync_channel_chat_access_def]] show ?thesis .
    next
      case no_channel: False
      show ?thesis
      proof (cases "dlg_target_strategy d = ''create'' \<and> dlg_source_chat_type d \<in> {''group'', ''supergroup''}")
        case True
        with no_channel assms(1) m0 have "sync_group_chat_members px mig d m0 s = (r, s')"
          by (simp add: ensure_target_chat_def find_chat_def bind_def get_state_def k_def)
        from synced [OF quiet_prepare(1) this [unfolded sync_group_chat_members_def]] show ?thesis .
      next
        case False
        with no_channel assms(1) m0 show ?thesis
          by (auto simp: ensure_target_chat_def find_chat_def bind_def get_state_def k_def ret_def)
      qed
    qed
  qed
  have unknown: "ledger s' = ledger s \<and> (\<forall>e. r = Inl e \<longrightarrow> im_chats s' = im_chats s)
      \<and> (\<forall>m. r = Inr m \<longrightarrow> chat_mapping_key m = k \<and> im_chats s' = chat_mapping_save m (im_chats s))"
    if "chat_mapping_get (im_chats s) k = None"
  proof -
    obtain q s1 where q: "choose_target_chat px mig d s = (q, s1)" by fastforce
    obtain t1 s2 where t1: "px_now px s1 = (t1, s2)" by fastforce
    obtain t2 s3 where t2: "px_now px s2 = (t2, s3)" by fastforce
    note same = is_quietD [OF quiet_choose q] is_quietD [OF quiet_calls(3) t1] is_quietD [OF quiet_calls(3) t2]
    show ?thesis
      using assms(1) that same
      by (auto simp: ensure_target_chat_def find_chat_def get_state_def k_def ret_def bind_def q t1 t2 Let_def
          save_chat_def modify_def ledger_def chat_mapping_key_def split: sum.splits prod.splits)
  qed
  show "ledger s' = ledger s" and "r = Inl e \<Longrightarrow> im_chats s' = im_chats s"
    using known unknown by (cases "chat_mapping_get (im_chats s) k"; blast)+
  show "r = Inr m \<Longrightarrow> chat_mapping_get (im_chats s) k = None
      \<Longrightarrow> chat_mapping_key m = k \<and> im_chats s' = chat_mapping_save m (im_chats s)"
    using unknown by blast
  show "r = Inr m \<Longrightarrow> chat_mapping_get (im_chats s) k = Some m0
      \<Longrightarrow> m = m0 \<and> im_chats s' = im_chats s
        \<or> (\<exists>t. m = m0\<lparr>cm_updated_at := t\<rparr> \<and> im_chats s' = chat_mapping_save m (im_chats s))"
    using known by blast
qed

text \<open>The services with this provisioning write no message records.\<close>

lemma provisioning_undisturbed: "undisturbed_provision (svc\<lparr>is_provision := ensure_target_chat px\<rparr>)"
  unfolding undisturbed_provision_def
  using ensure_target_chat_cases(1) [OF surjective_pairing, of px _ _ _] by fastforce

section \<open>A known chat is not created again\<close>

definition steady_directory :: "('w \<Rightarrow> bool) \<Rightarrow> ('w directory_state, 'a) action \<Rightarrow> bool" where
  "steady_directory P m \<longleftrightarrow> (\<forall>s. P (ds_world s) \<longrightarrow> P (ds_world (snd (m s))))"

named_theorems steady_dir \<open>steps of the directory that keep what holds of the outside world\<close>

lemma steady_directory_basic [steady_dir]:
  "steady_directory P (ret a)" "steady_directory P (throw e)" "steady_directory P (get_state f)"
  "steady_directory P (lift_outcome r)" "steady_directory P (in_bindings b)" "steady_directory P (in_identities i)"
  by (simp_all add: steady_directory_def action_defs in_bindings_def in_identities_def split: prod.split)

lemma steady_directory_bind [steady_dir]:
  "steady_directory P m \<Longrightarrow> (\<And>a. steady_directory P (f a)) \<Longrightarrow> steady_directory P (bind m f)"
  by (auto simp: steady_directory_def bind_def split: prod.splits sum.splits; metis snd_conv)

lemma steady_directory_world: "(\<And>w. P w \<Longrightarrow> P (snd (m w))) \<Longrightarrow> steady_directory P (Identity_Directory.in_world m)"
  by (simp add: steady_directory_def Identity_Directory.in_world_def on_part_def split_beta)

lemma steady_in_directory: "steady_directory P m \<Longrightarrow> steady P (in_directory m)"
  by (simp add: steady_directory_def steady_def in_directory_def on_part_def world_of_def split_beta)

locale guarded_directory = guarded_world px P for px :: "'w provisioning_services" and P :: "'w \<Rightarrow> bool" +
  assumes listing_kept: "P w \<Longrightarrow> P (snd (px_list_participants px c b w))"
    and directory_clock_kept: "P w \<Longrightarrow> P (snd (xd_now (dc_express (px_directory px)) w))"
    and search_kept: "P w \<Longrightarrow> P (snd (xd_search_email (dc_express (px_directory px)) h e w))"
begin

lemma steady_now_of [steady_dir]: "steady_directory P (now_of (dc_express (px_directory px)))"
  unfolding now_of_def by (rule steady_directory_world) (simp add: total_op_def split_beta directory_clock_kept)

lemma steady_save [steady_dir]: "steady_directory P (save_identity (px_directory px) r)"
  "steady_directory P (save_binding (dc_express (px_directory px)) huid email host)"
  unfolding save_identity_def save_binding_def by (intro steady_dir)+

lemma steady_probe [steady_dir]:
  "steady_directory P (probe (dc_express (px_directory px)) (\<lambda>host. xd_search_email (dc_express (px_directory px)) host m) e)"
proof -
  have "steady_directory P (probe_hosts (dc_express (px_directory px))
      (\<lambda>host. xd_search_email (dc_express (px_directory px)) host m) e hs)" for hs
    by (induction hs) (auto intro!: steady_dir steady_directory_world search_kept split: option.split)
  then show ?thesis unfolding probe_def by (intro steady_dir)
qed

lemma steady_lookup [steady_rule]: "steady P (lookup_participant px p)"
proof -
  have mapping: "steady_directory P (resolve_mapping (px_directory px) m)" for m
    unfolding resolve_mapping_def get_cached_target_huid_cts_def get_cached_by_target_huid_def resolve_email_cts_def resolve_email_def
    by (auto intro!: steady_dir steady_directory_world search_kept split: option.split)
  have found: "steady_directory P (find_mapping (px_directory px) u n)" for u n
    unfolding find_mapping_def by (auto intro!: steady_dir split: option.split)
  show ?thesis
    unfolding lookup_participant_def resolve_telegram_identity_def Let_def
    by (rule steady_in_directory) (auto intro!: steady_dir mapping found split: option.split)
qed

lemma steady_participants [steady_rule]: "steady P (participants_of px chat participant_chat backend)"
  using listing_kept
  by (simp add: steady_def participants_of_def outside_def in_delivery_def Delivery.in_world_def on_part_def world_of_def split_beta)

lemma steady_resolve [steady_rule]:
  "steady P (resolve_participant_targets px mig chat participant_chat chat_type backend include_self degrade)"
proof -
  have "steady P (resolve_participants px mig chat include_self ps resolved)" for ps resolved
    by (induction ps arbitrary: resolved) (auto intro!: steady_rule split: option.split)
  then show ?thesis
    unfolding resolve_participant_targets_def by (auto intro!: steady_rule split: option.split)
qed

lemma steady_prepare [steady_rule]:
  "steady P (prepare_group_participant_targets px mig chat participant_chat chat_type backend initiator)"
  "steady P (prepare_channel_participant_targets px mig chat backend initiator)"
  unfolding prepare_group_participant_targets_def prepare_channel_participant_targets_def prepare_participant_targets_def
  by (intro steady_rule)+

lemma steady_apply [steady_rule]: "steady P (apply_member_access_strategy px x targets initiator strategy anchor skip)"
proof -
  have effort: "steady P (ensure_members_with_best_effort px x route a ts p)" for route a ts p
    by (induction ts arbitrary: p) (auto intro!: steady_rule split: sum.split prod.split)
  have "steady P (add_group px x a g p)" for a g p
    unfolding add_group_def add_failed_def audit_degraded_def Let_def
    by (auto intro!: steady_rule effort split: prod.split option.split sum.split)
  then have "steady P (add_groups px x a gs p)" for a gs p
    by (induction gs arbitrary: p) (auto intro!: steady_rule)
  then show ?thesis
    unfolding apply_member_access_strategy_def Let_def by (auto intro!: steady_rule)
qed

lemma steady_sync [steady_rule]: "steady P (sync_chat px kind mig d existing strategy targets)"
  unfolding sync_chat_def Let_def save_chat_def
  by (auto intro!: steady_rule) (simp add: steady_def modify_def world_of_def)

text \<open>Ensuring a chat that has a mapping keeps what every call but a creation keeps.\<close>

lemma known_chat_steady:
  assumes "chat_mapping_get (im_chats s) (mig, dlg_source_chat_id d) = Some m" and "P (world_of s)"
  shows "P (world_of (snd (ensure_target_chat px mig d s)))"
proof -
  have "steady P (sync_channel_chat_access px mig d m)" "steady P (sync_group_chat_members px mig d m)" "steady P (ret m)"
    unfolding sync_channel_chat_access_def sync_group_chat_members_def by (intro steady_rule)+
  with assms show ?thesis
    by (simp add: ensure_target_chat_def find_chat_def bind_def get_state_def steady_def)
qed

end

end
