(* ===== verification/Fake_Express.thy ===== *)
theory Fake_Express
  imports Messages
begin

text \<open>
  The messenger the program brings along for dry runs
  (\<open>infrastructure/express/fake_gateway.py\<close>): chats, members and administrators, messages with
  their idempotency keys and planned failures, and a store of uploaded files. Reading a file's bytes
  is an argument. What the rest of the program expects of a messenger is proved of it here.
\<close>

section \<open>The contract of a messenger\<close>

text \<open>
  The contract between the delivery of messages and the messenger: a message with an idempotency key
  is posted at most once, and sending it again answers with the message posted before. What follows for
  any sequence of calls, repeated ones included, is proved here once.
\<close>

text \<open>A sequence of calls, with their answers.\<close>

fun perform :: "('q \<Rightarrow> ('w, 'a) action) \<Rightarrow> 'q list \<Rightarrow> 'w \<Rightarrow> (error, 'a) outcome list \<times> 'w" where
  "perform call [] w = ([], w)"
| "perform call (q # qs) w = (case call q w of (r, w') \<Rightarrow> case perform call qs w' of (rs, w'') \<Rightarrow> (r # rs, w''))"

definition original :: "sent_message_ref \<Rightarrow> sent_message_ref" where
  "original r = r\<lparr>sm_deduplicated := False\<rparr>"

locale keyed_messenger =
  fixes send :: "'q \<Rightarrow> ('w, sent_message_ref) action"
    and key :: "'q \<Rightarrow> string"
    and ok :: "'w \<Rightarrow> bool"
    and posted :: "'w \<Rightarrow> string \<Rightarrow> sent_message_ref list"
  assumes ok_send: "ok w \<Longrightarrow> ok (snd (send q w))"
    and posted_once: "ok w \<Longrightarrow> k \<noteq> [] \<Longrightarrow> length (posted w k) \<le> 1"
    and send_posted: "ok w \<Longrightarrow> send q w = (Inr r, w') \<Longrightarrow> key q \<noteq> [] \<Longrightarrow> posted w' (key q) = [original r]"
    and posted_kept: "ok w \<Longrightarrow> k \<noteq> [] \<Longrightarrow> posted w k \<noteq> [] \<Longrightarrow> posted (snd (send q w)) k = posted w k"
    and posted_other: "ok w \<Longrightarrow> k \<noteq> [] \<Longrightarrow> k \<noteq> key q \<Longrightarrow> posted (snd (send q w)) k = posted w k"
begin

lemma perform_ok: "ok w \<Longrightarrow> ok (snd (perform send qs w))"
  by (induction qs arbitrary: w) (auto split: prod.splits dest: ok_send, metis ok_send snd_conv)

lemma perform_kept:
  "ok w \<Longrightarrow> k \<noteq> [] \<Longrightarrow> posted w k \<noteq> [] \<Longrightarrow> posted (snd (perform send qs w)) k = posted w k"
proof (induction qs arbitrary: w)
  case (Cons q qs)
  obtain r w1 where q: "send q w = (r, w1)" by fastforce
  have w1: "ok w1" "posted w1 k = posted w k"
    using ok_send [OF Cons.prems(1), of q] posted_kept [OF Cons.prems, of q] by (simp_all add: q)
  with Cons.IH [OF w1(1) Cons.prems(2)] Cons.prems(3) show ?case by (simp add: q split_beta)
qed simp

lemma perform_posted:
  assumes "ok w" and "perform send qs w = (rs, w')" and "i < length qs" and "rs ! i = Inr r" and "key (qs ! i) \<noteq> []"
  shows "posted w' (key (qs ! i)) = [original r]"
  using assms
proof (induction qs arbitrary: w rs i)
  case (Cons q qs)
  obtain r0 w1 where q: "send q w = (r0, w1)" by fastforce
  obtain rs1 where rs: "rs = r0 # rs1" "perform send qs w1 = (rs1, w')"
    using Cons.prems(2) q by (auto split: prod.splits)
  have w1: "ok w1" using ok_send [OF Cons.prems(1), of q] by (simp add: q)
  show ?case
  proof (cases i)
    case 0
    with Cons.prems q rs have "posted w1 (key q) = [original r]" by (intro send_posted) auto
    with perform_kept [OF w1, of "key q" qs] Cons.prems(5) 0 rs(2) show ?thesis by simp
  next
    case (Suc j)
    with Cons.IH [OF w1 rs(2), of j] Cons.prems rs show ?thesis by simp
  qed
qed simp

lemma perform_once: "ok w \<Longrightarrow> k \<noteq> [] \<Longrightarrow> length (posted (snd (perform send qs w)) k) \<le> 1"
  by (rule posted_once [OF perform_ok])

lemma perform_unasked:
  "ok w \<Longrightarrow> k \<noteq> [] \<Longrightarrow> k \<notin> key ` set qs \<Longrightarrow> posted (snd (perform send qs w)) k = posted w k"
proof (induction qs arbitrary: w)
  case (Cons q qs)
  obtain r w1 where q: "send q w = (r, w1)" by fastforce
  have "ok w1" "posted w1 k = posted w k"
    using ok_send [OF Cons.prems(1), of q] posted_other [OF Cons.prems(1,2), of q] Cons.prems(3) by (auto simp: q)
  with Cons.IH [of w1] Cons.prems show ?case by (simp add: q split_beta)
qed simp

end

section \<open>State\<close>

record sent_envelope =
  se_target_chat_id :: string
  se_target_sync_id :: string
  se_body :: string
  se_idempotency_key :: "string option"
  se_file_filename :: "string option"
  se_file_mime_type :: "string option"
  se_file_content :: "string option"
  se_file_id :: "string option"

record created_chat =
  cc_target_chat_id :: string
  cc_title :: string
  cc_participant_huids :: "string list"
  cc_kind :: string
  cc_admin_huids :: "string list"

record fake_express =
  fe_chat_seq :: nat
  fe_message_seq :: nat
  fe_messages_by_chat :: "(string, sent_envelope list) dict"
  fe_messages_by_key :: "(string, sent_envelope) dict"
  fe_failures :: "(string, int) dict"
  fe_huid_by_email :: "(string, string) dict"
  fe_huid_by_ad_login :: "(string, string) dict"
  fe_huid_by_other_id :: "(string, string) dict"
  fe_existing_huids :: "string set"
  fe_created_chats :: "(string, created_chat) dict"

text \<open>\<open>{f(k): v for k, v in d.items()}\<close>.\<close>

definition dict_rekey :: "('k \<Rightarrow> 'k) \<Rightarrow> ('k, 'v) dict \<Rightarrow> ('k, 'v) dict" where
  "dict_rekey f d = fold (\<lambda>(k, v). dict_set (f k) v) d []"

definition fake_express_init ::
    "(string, int) dict \<Rightarrow> (string, string) dict \<Rightarrow> (string, string) dict \<Rightarrow> (string, string) dict \<Rightarrow> string list
      \<Rightarrow> fake_express" where
  "fake_express_init failures by_email by_login by_other existing =
    (let emails = dict_rekey (\<lambda>k. py_lower (py_strip k)) by_email;
         logins = dict_rekey (\<lambda>k. py_lower (py_strip k)) by_login;
         others = dict_rekey py_strip by_other
     in \<lparr>fe_chat_seq = 0, fe_message_seq = 0, fe_messages_by_chat = [], fe_messages_by_key = [],
        fe_failures = failures, fe_huid_by_email = emails, fe_huid_by_ad_login = logins,
        fe_huid_by_other_id = others,
        fe_existing_huids = set existing \<union> set (dict_values emails) \<union> set (dict_values logins)
          \<union> set (dict_values others),
        fe_created_chats = []\<rparr>)"

section \<open>Chats\<close>

text \<open>\<open>d.setdefault(k, [])\<close>.\<close>

definition dict_default :: "'k \<Rightarrow> 'v \<Rightarrow> ('k, 'v) dict \<Rightarrow> ('k, 'v) dict" where
  "dict_default k v d = (case dict_get d k of None \<Rightarrow> dict_set k v d | Some _ \<Rightarrow> d)"

definition created_id :: "nat \<Rightarrow> string" where
  "created_id n = ''express-chat-'' @ str_of_nat n"

definition personal_id :: "string \<Rightarrow> string" where
  "personal_id huid = ''personal-chat-'' @ huid"

text \<open>
  \<open>str.upper\<close> on ASCII letters; no other character below 256 has a capital that occurs in the names
  looked up.
\<close>

definition py_upper_ascii :: "string \<Rightarrow> string" where
  "py_upper_ascii = map (\<lambda>c. if CHR ''a'' \<le> c \<and> c \<le> CHR ''z'' then char_of (of_char c - 32 :: nat) else c)"

definition chat_kind_of :: "string option \<Rightarrow> string" where
  "chat_kind_of chat_type =
    (let t = py_upper_ascii (py_strip (or_empty (py_or chat_type (Some ''GROUP_CHAT''))))
     in if t = ''PERSONAL_CHAT'' then ''personal'' else if t = ''GROUP_CHAT'' then ''group''
        else if t = ''CHANNEL'' then ''channel'' else if t = ''THREAD'' then ''thread'' else ''group'')"

definition fake_create_chat :: "string \<Rightarrow> string list option \<Rightarrow> string option \<Rightarrow> (fake_express, string) action" where
  "fake_create_chat title huids chat_type s =
    (let n = fe_chat_seq s + 1; chat = created_id n; members = (case huids of None \<Rightarrow> [] | Some hs \<Rightarrow> hs)
     in (Inr chat, s\<lparr>fe_chat_seq := n, fe_messages_by_chat := dict_default chat [] (fe_messages_by_chat s),
          fe_created_chats := dict_set chat \<lparr>cc_target_chat_id = chat, cc_title = title,
            cc_participant_huids = members, cc_kind = chat_kind_of chat_type, cc_admin_huids = members\<rparr>
            (fe_created_chats s)\<rparr>))"

definition fake_ensure_personal_chat :: "string \<Rightarrow> string option \<Rightarrow> (fake_express, string) action" where
  "fake_ensure_personal_chat huid title s =
    (let chat = personal_id huid
     in (Inr chat, s\<lparr>fe_messages_by_chat := dict_default chat [] (fe_messages_by_chat s),
          fe_created_chats := dict_set chat \<lparr>cc_target_chat_id = chat,
            cc_title = or_empty (py_or title (Some chat)), cc_participant_huids = [huid], cc_kind = ''personal'',
            cc_admin_huids = [huid]\<rparr> (fe_created_chats s)\<rparr>))"

definition fake_create_chat_link :: "string \<Rightarrow> (fake_express, string option) action" where
  "fake_create_chat_link chat = get_state (\<lambda>s.
     if dict_get (fe_created_chats s) chat = None then None else Some (''https://express.example/chat/'' @ chat))"

definition fake_search_user_by_email :: "string \<Rightarrow> (fake_express, string option) action" where
  "fake_search_user_by_email email = get_state (\<lambda>s. dict_get (fe_huid_by_email s) (py_lower (py_strip email)))"

definition fake_search_user_by_huid :: "string \<Rightarrow> (fake_express, string option) action" where
  "fake_search_user_by_huid huid = get_state (\<lambda>s. if py_strip huid \<in> fe_existing_huids s then Some (py_strip huid) else None)"

definition fake_search_user_by_ad_login :: "string \<Rightarrow> string option \<Rightarrow> (fake_express, string option) action" where
  "fake_search_user_by_ad_login login domain = get_state (\<lambda>s.
     let l = py_lower (py_strip login);
         composite = l @ ''@'' @ py_lower (py_strip (or_empty domain))
     in if truthy domain \<and> dict_get (fe_huid_by_ad_login s) composite \<noteq> None
        then dict_get (fe_huid_by_ad_login s) composite
        else dict_get (fe_huid_by_ad_login s) l)"

definition fake_search_user_by_other_id :: "string \<Rightarrow> (fake_express, string option) action" where
  "fake_search_user_by_other_id i = get_state (\<lambda>s. dict_get (fe_huid_by_other_id s) (py_strip i))"

definition chat_not_found :: error where
  "chat_not_found = RecoverableItemError ''target chat was not found in fake express gateway''"

text \<open>The names that are new to the list, stripped, each once.\<close>

fun newcomers :: "string list \<Rightarrow> string list \<Rightarrow> string list" where
  "newcomers known [] = []"
| "newcomers known (h # hs) =
    (let n = py_strip h
     in if n = [] \<or> n \<in> set known then newcomers known hs else n # newcomers (known @ [n]) hs)"

definition fake_ensure_chat_members :: "string \<Rightarrow> string list \<Rightarrow> (fake_express, string list) action" where
  "fake_ensure_chat_members chat huids s =
    (case dict_get (fe_created_chats s) chat of
       None \<Rightarrow> (Inl chat_not_found, s)
     | Some c \<Rightarrow>
         let added = newcomers (cc_participant_huids c) huids
         in (Inr added, s\<lparr>fe_existing_huids := fe_existing_huids s \<union> set added,
              fe_created_chats := dict_set chat (c\<lparr>cc_participant_huids := cc_participant_huids c @ added\<rparr>)
                (fe_created_chats s)\<rparr>))"

definition fake_promote_chat_admins :: "string \<Rightarrow> string list \<Rightarrow> (fake_express, string list) action" where
  "fake_promote_chat_admins chat huids s =
    (case dict_get (fe_created_chats s) chat of
       None \<Rightarrow> (Inl chat_not_found, s)
     | Some c \<Rightarrow>
         let promoted = newcomers (cc_admin_huids c) huids
         in (Inr promoted, s\<lparr>fe_created_chats := dict_set chat
              (c\<lparr>cc_admin_huids := cc_admin_huids c @ promoted\<rparr>) (fe_created_chats s)\<rparr>))"

definition fake_list_chat_admin_huids :: "string \<Rightarrow> (fake_express, string list) action" where
  "fake_list_chat_admin_huids chat s =
    (case dict_get (fe_created_chats s) chat of
       None \<Rightarrow> (Inl chat_not_found, s)
     | Some c \<Rightarrow> (Inr (cc_admin_huids c), s))"

section \<open>Messages and files\<close>

definition file_payload_content :: "(string \<Rightarrow> string) \<Rightarrow> file_payload \<Rightarrow> string" where
  "file_payload_content read f =
    (case fp_content f of Some c \<Rightarrow> c
     | None \<Rightarrow> if truthy (fp_local_path f) then read (or_empty (fp_local_path f)) else [])"

definition envelope_of ::
    "(string \<Rightarrow> string) \<Rightarrow> nat \<Rightarrow> string \<Rightarrow> string \<Rightarrow> string option \<Rightarrow> file_payload option
      \<Rightarrow> express_staged_file option \<Rightarrow> sent_envelope" where
  "envelope_of read n chat body key payload staged =
    \<lparr>se_target_chat_id = chat, se_target_sync_id = ''sync-'' @ str_of_nat n, se_body = body,
     se_idempotency_key = key,
     se_file_filename = (case staged of Some f \<Rightarrow> Some (sf_filename f) | None \<Rightarrow> map_option fp_filename payload),
     se_file_mime_type = (case staged of Some f \<Rightarrow> Some (sf_mime_type f)
       | None \<Rightarrow> Option.bind payload fp_mime_type),
     se_file_content = map_option (file_payload_content read) payload,
     se_file_id = map_option sf_file_id staged\<rparr>"

definition fake_send_message ::
    "(string \<Rightarrow> string) \<Rightarrow> string \<Rightarrow> string \<Rightarrow> string option \<Rightarrow> file_payload option \<Rightarrow> express_staged_file option
      \<Rightarrow> (fake_express, sent_message_ref) action" where
  "fake_send_message read chat body key payload staged s =
    (let k = or_empty key in
     case (if truthy key then dict_get (fe_messages_by_key s) k else None) of
       Some e \<Rightarrow> (Inr \<lparr>sm_target_chat_id = se_target_chat_id e, sm_target_sync_id = se_target_sync_id e,
           sm_deduplicated = True\<rparr>, s)
     | None \<Rightarrow>
         let budget = or_empty (py_or key (Some body));
             remaining = (case dict_get (fe_failures s) budget of None \<Rightarrow> 0 | Some n \<Rightarrow> n)
         in if remaining > 0 then
              (Inl (RecoverableItemError ''planned temporary eXpress failure''),
               s\<lparr>fe_failures := dict_set budget (remaining - 1) (fe_failures s)\<rparr>)
            else
              let n = fe_message_seq s + 1; e = envelope_of read n chat body key payload staged;
                  old = (case dict_get (fe_messages_by_chat s) chat of None \<Rightarrow> [] | Some es \<Rightarrow> es)
              in (Inr \<lparr>sm_target_chat_id = chat, sm_target_sync_id = se_target_sync_id e, sm_deduplicated = False\<rparr>,
                  s\<lparr>fe_message_seq := n,
                    fe_messages_by_chat := dict_set chat (old @ [e]) (fe_messages_by_chat s),
                    fe_messages_by_key := (if truthy key then dict_set k e (fe_messages_by_key s)
                      else fe_messages_by_key s)\<rparr>))"

definition messages_for_chat :: "fake_express \<Rightarrow> string \<Rightarrow> sent_envelope list" where
  "messages_for_chat s chat = (case dict_get (fe_messages_by_chat s) chat of None \<Rightarrow> [] | Some es \<Rightarrow> es)"

definition attachment_type_for_media_kind :: "string option \<Rightarrow> string" where
  "attachment_type_for_media_kind kind =
    (let k = py_lower (or_empty (py_or kind (Some ''document'')))
     in if k \<in> {''photo'', ''sticker''} then ''image'' else if k = ''video'' then ''video''
        else if k = ''voice'' then ''voice'' else ''document'')"

record fake_file_store =
  fs_seq :: nat
  fs_uploads :: "(string \<times> file_payload \<times> express_staged_file) list"

definition fake_upload_file ::
    "(string \<Rightarrow> string) \<Rightarrow> string \<Rightarrow> file_payload \<Rightarrow> (fake_file_store, express_staged_file) action" where
  "fake_upload_file read chat f s =
    (let n = fs_seq s + 1;
         staged = \<lparr>sf_attachment_type = attachment_type_for_media_kind (fp_media_kind f),
           sf_file_id = ''file-'' @ str_of_nat n,
           sf_file_url = ''https://files.example/'' @ chat @ ''/'' @ str_of_nat n,
           sf_filename = fp_filename f, sf_size_bytes = int (length (file_payload_content read f)),
           sf_mime_type = or_empty (py_or (fp_mime_type f) (Some ''application/octet-stream'')),
           sf_file_hash = ''hash-'' @ str_of_nat n, sf_duration_seconds = fp_duration_seconds f,
           sf_preview_url = None, sf_preview_height = None, sf_preview_width = None, sf_encryption_algo = None,
           sf_chunk_size = None, sf_caption = None\<rparr>
     in (Inr staged, s\<lparr>fs_seq := n, fs_uploads := fs_uploads s @ [(chat, f, staged)]\<rparr>))"

section \<open>What the messenger promises\<close>

text \<open>
  Every keyed message is registered under its key, the one and only message with that key, and message
  numbers have not been used beyond the counter.
\<close>

definition all_envelopes :: "fake_express \<Rightarrow> sent_envelope list" where
  "all_envelopes s = concat (dict_values (fe_messages_by_chat s))"

definition with_key :: "string \<Rightarrow> fake_express \<Rightarrow> sent_envelope list" where
  "with_key k s = filter (\<lambda>e. se_idempotency_key e = Some k) (all_envelopes s)"

definition fake_express_ok :: "fake_express \<Rightarrow> bool" where
  "fake_express_ok s \<longleftrightarrow> dict_ok (fe_messages_by_chat s)
    \<and> (\<forall>k. k \<noteq> [] \<longrightarrow> length (with_key k s) \<le> 1
        \<and> (\<forall>e. dict_get (fe_messages_by_key s) k = Some e \<longleftrightarrow> e \<in> set (with_key k s)))"

lemma fake_express_ok_init: "fake_express_ok (fake_express_init failures by_email by_login by_other existing)"
  by (simp add: fake_express_ok_def fake_express_init_def with_key_def all_envelopes_def Let_def)

text \<open>Appending to the list of a chat.\<close>

lemma filter_concat_update:
  assumes "dict_ok d"
  shows "mset (filter P (concat (dict_values (dict_set c (old @ [e]) d))))
    = mset (filter P (concat (dict_values (dict_pop c d)))) + mset (filter P old) + mset (filter P [e])"
  using assms
proof (induction d)
  case (Cons p d)
  obtain k v where p: "p = (k, v)" by fastforce
  show ?case
  proof (cases "k = c")
    case True
    with Cons.prems p have "dict_pop c d = d" by (simp add: delete_id)
    with True p show ?thesis by simp
  next
    case False
    with Cons p show ?thesis by simp
  qed
qed simp

lemma filter_concat_pop:
  assumes "dict_ok d"
  shows "mset (filter P (concat (dict_values d))) = mset (filter P (concat (dict_values (dict_pop c d))))
    + mset (filter P (case dict_get d c of None \<Rightarrow> [] | Some es \<Rightarrow> es))"
  using assms
proof (induction d)
  case (Cons p d)
  obtain k v where p: "p = (k, v)" by fastforce
  show ?case
  proof (cases "k = c")
    case True
    with Cons.prems p have "dict_pop c d = d" by (simp add: delete_id)
    with True p show ?thesis by simp
  next
    case False
    with Cons p show ?thesis by simp
  qed
qed simp

lemma with_key_sent:
  assumes "dict_ok (fe_messages_by_chat s)"
  shows "mset (with_key k (s\<lparr>fe_message_seq := n, fe_messages_by_chat := dict_set chat
      (messages_for_chat s chat @ [e]) (fe_messages_by_chat s), fe_messages_by_key := m\<rparr>))
    = mset (with_key k s) + (if se_idempotency_key e = Some k then {#e#} else {#})"
  using filter_concat_pop [OF assms, of "\<lambda>e. se_idempotency_key e = Some k" chat]
    filter_concat_update [OF assms, of "\<lambda>e. se_idempotency_key e = Some k" chat "messages_for_chat s chat" e]
  by (simp add: with_key_def all_envelopes_def messages_for_chat_def)

lemma added_one:
  assumes "mset xs = mset ys + (if b then {#e#} else {#})"
  shows "length xs = length ys + (if b then 1 else 0)" and "set xs = set ys \<union> (if b then {e} else {})"
proof -
  have "mset xs = mset (ys @ (if b then [e] else []))" using assms by simp
  from mset_eq_length [OF this] mset_eq_setD [OF this]
  show "length xs = length ys + (if b then 1 else 0)" and "set xs = set ys \<union> (if b then {e} else {})" by simp_all
qed

text \<open>What a call of send does: answer with the message of the key, fail as planned, or add a message.\<close>

lemma fake_send_cases:
  obtains (known) e where "truthy key" and "dict_get (fe_messages_by_key s) (or_empty key) = Some e"
      and "fake_send_message read chat body key payload staged s = (Inr \<lparr>sm_target_chat_id = se_target_chat_id e,
        sm_target_sync_id = se_target_sync_id e, sm_deduplicated = True\<rparr>, s)"
    | (planned) m where "fake_send_message read chat body key payload staged s
        = (Inl (RecoverableItemError ''planned temporary eXpress failure''), s\<lparr>fe_failures := m\<rparr>)"
    | (posted) e n where "truthy key \<Longrightarrow> dict_get (fe_messages_by_key s) (or_empty key) = None"
      and "se_idempotency_key e = key" and "se_target_chat_id e = chat"
      and "fake_send_message read chat body key payload staged s = (Inr \<lparr>sm_target_chat_id = chat,
        sm_target_sync_id = se_target_sync_id e, sm_deduplicated = False\<rparr>,
        s\<lparr>fe_message_seq := n, fe_messages_by_chat := dict_set chat (messages_for_chat s chat @ [e])
            (fe_messages_by_chat s),
          fe_messages_by_key := (if truthy key then dict_set (or_empty key) e (fe_messages_by_key s)
            else fe_messages_by_key s)\<rparr>)"
proof (cases "if truthy key then dict_get (fe_messages_by_key s) (or_empty key) else None")
  case (Some e)
  then show thesis by (intro known [of e]) (auto simp: fake_send_message_def Let_def split: if_splits)
next
  case None
  then have unknown: "truthy key \<Longrightarrow> dict_get (fe_messages_by_key s) (or_empty key) = None" by simp
  let ?budget = "or_empty (py_or key (Some body))"
  show thesis
  proof (cases "(case dict_get (fe_failures s) ?budget of None \<Rightarrow> 0 | Some n \<Rightarrow> n) > 0")
    case True
    with None show thesis by (intro planned) (simp add: fake_send_message_def Let_def)
  next
    case False
    let ?e = "envelope_of read (fe_message_seq s + 1) chat body key payload staged"
    show thesis
      by (rule posted [of ?e "fe_message_seq s + 1", OF unknown])
        (use None False in \<open>simp_all add: fake_send_message_def Let_def envelope_of_def messages_for_chat_def\<close>)
  qed
qed

lemma truthy_key: "truthy key \<longleftrightarrow> (\<exists>k. key = Some k \<and> k \<noteq> [])"
  by (cases key) (auto simp: truthy_def)

lemma with_key_seq [simp]: "with_key k (s\<lparr>fe_failures := m\<rparr>) = with_key k s"
  by (simp add: with_key_def all_envelopes_def)

lemma fake_send_ok:
  assumes "fake_express_ok s"
  shows "fake_express_ok (snd (fake_send_message read chat body key payload staged s))"
proof (cases rule: fake_send_cases [where key = key and s = s and read = read and chat = chat and body = body and payload = payload and staged = staged])
  case (known e)
  with assms show ?thesis by simp
next
  case (planned m)
  with assms show ?thesis by (simp add: fake_express_ok_def)
next
  case (posted e n)
  have ok: "dict_ok (fe_messages_by_chat s)" using assms by (simp add: fake_express_ok_def)
  let ?s = "snd (fake_send_message read chat body key payload staged s)"
  have keyed: "length (with_key k ?s) \<le> 1 \<and> (\<forall>f. dict_get (fe_messages_by_key ?s) k = Some f \<longleftrightarrow> f \<in> set (with_key k ?s))"
    if "k \<noteq> []" for k
  proof -
    note sent = added_one [OF with_key_sent [OF ok, where k = k and n = n and chat = chat and e = e
        and m = "if truthy key then dict_set (or_empty key) e (fe_messages_by_key s) else fe_messages_by_key s"]]
    have old: "length (with_key k s) \<le> 1" "\<And>f. dict_get (fe_messages_by_key s) k = Some f \<longleftrightarrow> f \<in> set (with_key k s)"
      using assms that by (auto simp: fake_express_ok_def)
    show ?thesis
    proof (cases "key = Some k")
      case True
      with posted(1) that have "dict_get (fe_messages_by_key s) k = None" by (simp add: truthy_def or_empty_def)
      with old(2) have "with_key k s = []" by (cases "with_key k s") auto
      with sent posted True that show ?thesis by (auto simp: truthy_def or_empty_def)
    next
      case False
      with sent posted old that show ?thesis by (auto simp: truthy_key or_empty_def)
    qed
  qed
  have "dict_ok (fe_messages_by_chat ?s)" using ok by (simp add: posted(4) AList.distinct_update)
  with keyed show ?thesis by (simp add: fake_express_ok_def)
qed

text \<open>The messages with a key, as answered to their senders.\<close>

definition ref_of :: "sent_envelope \<Rightarrow> sent_message_ref" where
  "ref_of e = \<lparr>sm_target_chat_id = se_target_chat_id e, sm_target_sync_id = se_target_sync_id e, sm_deduplicated = False\<rparr>"

definition posted_refs :: "fake_express \<Rightarrow> string \<Rightarrow> sent_message_ref list" where
  "posted_refs s k = map ref_of (with_key k s)"

record fake_request =
  fq_chat :: string
  fq_body :: string
  fq_key :: "string option"
  fq_file :: "file_payload option"
  fq_staged :: "express_staged_file option"

definition fake_send :: "(string \<Rightarrow> string) \<Rightarrow> fake_request \<Rightarrow> (fake_express, sent_message_ref) action" where
  "fake_send read q = fake_send_message read (fq_chat q) (fq_body q) (fq_key q) (fq_file q) (fq_staged q)"

lemma singleton_with_key:
  assumes "fake_express_ok s" and "k \<noteq> []" and "e \<in> set (with_key k s)"
  shows "with_key k s = [e]"
proof -
  have "length (with_key k s) \<le> 1" using assms by (simp add: fake_express_ok_def)
  with assms(3) show ?thesis by (cases "with_key k s") auto
qed

lemma short_mset_eq: "mset xs = mset ys \<Longrightarrow> length ys \<le> 1 \<Longrightarrow> xs = ys"
  by (cases ys; cases xs) (auto dest: mset_eq_length)

lemma fake_send_with_key:
  assumes "fake_express_ok s" and "k \<noteq> []"
    and "k \<noteq> or_empty (fq_key q) \<or> with_key k s \<noteq> []"
  shows "with_key k (snd (fake_send read q s)) = with_key k s"
proof (cases rule: fake_send_cases [where key = "fq_key q" and s = s and read = read and chat = "fq_chat q"
      and body = "fq_body q" and payload = "fq_file q" and staged = "fq_staged q"])
  case (posted e n)
  have ok: "dict_ok (fe_messages_by_chat s)" using assms by (simp add: fake_express_ok_def)
  have short: "length (with_key k s) \<le> 1" using assms by (simp add: fake_express_ok_def)
  have "fq_key q \<noteq> Some k"
  proof
    assume k: "fq_key q = Some k"
    with posted(1) assms(2) have "dict_get (fe_messages_by_key s) k = None" by (simp add: truthy_def or_empty_def)
    with assms(1,2) have "with_key k s = []" by (cases "with_key k s") (auto simp: fake_express_ok_def)
    with assms(3) k show False by (simp add: or_empty_def)
  qed
  with with_key_sent [OF ok, where k = k and n = n and chat = "fq_chat q" and e = e] posted(2)
  have "mset (with_key k (snd (fake_send read q s))) = mset (with_key k s)"
    by (simp only: fake_send_def posted(4) snd_conv) simp
  from short_mset_eq [OF this short] show ?thesis .
qed (simp_all add: fake_send_def)

lemma fake_send_posts:
  assumes "fake_express_ok s" and "fake_send read q s = (Inr r, s')" and "or_empty (fq_key q) \<noteq> []"
  shows "posted_refs s' (or_empty (fq_key q)) = [original r]"
proof -
  obtain k where k: "fq_key q = Some k" "k \<noteq> []" using assms(3) by (cases "fq_key q") (auto simp: or_empty_def)
  show ?thesis
  proof (cases rule: fake_send_cases [where key = "fq_key q" and s = s and read = read and chat = "fq_chat q"
      and body = "fq_body q" and payload = "fq_file q" and staged = "fq_staged q"])
    case (known e)
    with assms(1) k have "e \<in> set (with_key k s)" by (simp add: fake_express_ok_def or_empty_def)
    from singleton_with_key [OF assms(1) k(2) this] known assms(2) k show ?thesis
      by (auto simp: fake_send_def posted_refs_def ref_of_def original_def or_empty_def)
  next
    case (planned m)
    with assms(2) show ?thesis by (simp add: fake_send_def)
  next
    case (posted e n)
    have ok: "dict_ok (fe_messages_by_chat s)" using assms by (simp add: fake_express_ok_def)
    from posted(1) k have "dict_get (fe_messages_by_key s) k = None" by (simp add: truthy_def or_empty_def)
    with assms(1) k(2) have none: "with_key k s = []" by (cases "with_key k s") (auto simp: fake_express_ok_def)
    from assms(2) posted(4) obtain m where s': "s' = s\<lparr>fe_message_seq := n, fe_messages_by_chat :=
        dict_set (fq_chat q) (messages_for_chat s (fq_chat q) @ [e]) (fe_messages_by_chat s), fe_messages_by_key := m\<rparr>"
      and r: "original r = ref_of e"
      by (auto simp: fake_send_def original_def ref_of_def posted(3))
    from with_key_sent [OF ok, where k = k and n = n and chat = "fq_chat q" and e = e] posted(2) k none
    have "with_key k s' = [e]" unfolding s' by simp
    with k r show ?thesis by (simp add: posted_refs_def or_empty_def)
  qed
qed

text \<open>The messenger keeps the contract: every keyed message is posted once.\<close>

interpretation fake_sender: keyed_messenger "fake_send read" "\<lambda>q. or_empty (fq_key q)" fake_express_ok posted_refs for read
proof
  show "fake_express_ok (snd (fake_send read q w))" if "fake_express_ok w" for w q
    unfolding fake_send_def by (rule fake_send_ok [OF that])
  show "length (posted_refs w k) \<le> 1" if "fake_express_ok w" "k \<noteq> []" for w k
    using that by (simp add: fake_express_ok_def posted_refs_def)
  show "posted_refs w' (or_empty (fq_key q)) = [original r]"
    if "fake_express_ok w" "fake_send read q w = (Inr r, w')" "or_empty (fq_key q) \<noteq> []" for w q r w'
    by (rule fake_send_posts [OF that])
qed (simp_all add: fake_send_with_key posted_refs_def)

end
