(* ===== verification/Fake_Telegram.thy ===== *)
theory Fake_Telegram
  imports Delta_Sync Provisioning
begin

text \<open>
  The Telegram account the program brings along for dry runs
  (\<open>extg_telethon_service/infrastructure/telegram/fake_gateway.py\<close>): dialogs, histories read batch by
  batch, attachments, participants and planned delta events. SHA-256 is an argument.
\<close>

section \<open>State\<close>

record source_topic =
  so_topic_id :: string
  so_title :: string
  so_top_message_id :: "string option"

record planned_event =
  pe_event :: delta_event
  pe_occurred_at :: datetime

record fake_telegram =
  ft_dialogs :: "(string, source_dialog) dict"
  ft_messages :: "(string, telegram_source_message list) dict"
  ft_events :: "(string, planned_event list) dict"
  ft_participants :: "(string, source_participant list) dict"
  ft_topics :: "(string, source_topic list) dict"
  ft_profiles :: "(string, channel_access_profile) dict"
  ft_contents :: "(string, string) dict"
  ft_failures :: "(string, error) dict"
  ft_fetch_calls :: nat
  ft_download_calls :: nat
  ft_subscribe_calls :: nat

definition fake_telegram_init ::
    "source_dialog list \<Rightarrow> (string, telegram_source_message list) dict \<Rightarrow> (string, planned_event list) dict
      \<Rightarrow> (string, source_participant list) dict \<Rightarrow> (string, source_topic list) dict
      \<Rightarrow> (string, channel_access_profile) dict \<Rightarrow> (string, string) dict \<Rightarrow> (string, error) dict \<Rightarrow> fake_telegram" where
  "fake_telegram_init dialogs messages events participants topics profiles contents failures =
    \<lparr>ft_dialogs = fold (\<lambda>d. dict_set (sd_dialog_id d) d) dialogs [],
     ft_messages = map (\<lambda>(k, ms). (k, sort_key (\<lambda>m. (tm_sent_at_utc m, tm_message_id m)) ms)) messages,
     ft_events = map (\<lambda>(k, es). (k, sort_key (\<lambda>e. (pe_occurred_at e,
       tm_sent_at_utc (de_source_message (pe_event e)), tm_message_id (de_source_message (pe_event e)))) es)) events,
     ft_participants = participants, ft_topics = topics, ft_profiles = profiles, ft_contents = contents,
     ft_failures = failures, ft_fetch_calls = 0, ft_download_calls = 0, ft_subscribe_calls = 0\<rparr>"

definition listed :: "(string, 'a list) dict \<Rightarrow> string \<Rightarrow> 'a list" where
  "listed d k = (case dict_get d k of None \<Rightarrow> [] | Some xs \<Rightarrow> xs)"

section \<open>Dialogs\<close>

text \<open>\<open>str.casefold\<close> below 256: the sharp s does not fold like \<open>lower\<close>; the micro sign is kept.\<close>

definition fold_case :: "string \<Rightarrow> string" where
  "fold_case s = concat (map (\<lambda>c. if c = CHR 0xDF then ''ss'' else [c]) (py_lower s))"

definition normalize_dialog_query :: "string option \<Rightarrow> string option" where
  "normalize_dialog_query q = (case q of None \<Rightarrow> None
     | Some s \<Rightarrow> if py_strip s = [] then None else Some (fold_case (py_strip s)))"

definition matches_dialog_query :: "source_dialog \<Rightarrow> string option \<Rightarrow> bool" where
  "matches_dialog_query d q = (case q of None \<Rightarrow> True | Some s \<Rightarrow> contains s (fold_case (sd_title d)))"

definition fake_list_available_dialogs :: "int \<Rightarrow> string option \<Rightarrow> fake_telegram \<Rightarrow> source_dialog list" where
  "fake_list_available_dialogs limit q s =
    (if limit \<le> 0 then []
     else take (nat limit) (filter (\<lambda>d. matches_dialog_query d (normalize_dialog_query q)) (dict_values (ft_dialogs s))))"

definition fake_get_source_dialog :: "string \<Rightarrow> fake_telegram \<Rightarrow> source_dialog option" where
  "fake_get_source_dialog i s = dict_get (ft_dialogs s) i"

text \<open>UTF-8 of characters below 256.\<close>

definition utf8 :: "string \<Rightarrow> string" where
  "utf8 s = concat (map (\<lambda>c. if of_char c < (128 :: nat) then [c]
     else [char_of (192 + of_char c div 64 :: nat), char_of (128 + of_char c mod 64 :: nat)]) s)"

fun fake_list_dialogs_for :: "fake_telegram \<Rightarrow> manifest_dialog list \<Rightarrow> source_dialog list" where
  "fake_list_dialogs_for s [] = []"
| "fake_list_dialogs_for s (md # mds) =
    (case dict_get (ft_dialogs s) (physical_source_chat_id md) of
       None \<Rightarrow> fake_list_dialogs_for s mds
     | Some d \<Rightarrow>
         (if dlg_source_thread_id md = None then d\<lparr>sd_dialog_id := dlg_source_chat_id md\<rparr>
          else let ms = filter (\<lambda>m. matches_source_message md (tm_message_id m) (tm_thread_id m))
                 (listed (ft_messages s) (physical_source_chat_id md))
            in d\<lparr>sd_dialog_id := dlg_source_chat_id md,
                 sd_title := or_empty (py_or (dlg_source_thread_title md) (Some (sd_title d))),
                 sd_message_count := int (length ms),
                 sd_media_count := int (length (filter (\<lambda>m. tm_attachments m \<noteq> []) ms)),
                 sd_approximate_bytes := sum_list (map (\<lambda>m. int (length (utf8 (or_empty (tm_body m))))) ms)\<rparr>)
         # fake_list_dialogs_for s mds)"

definition fake_list_dialogs :: "migration_manifest \<Rightarrow> fake_telegram \<Rightarrow> source_dialog list" where
  "fake_list_dialogs mf s = fake_list_dialogs_for s (mf_dialogs mf)"

section \<open>Histories\<close>

text \<open>Where to go on: after the first message with the cursor's id, or at the start.\<close>

definition start_index :: "telegram_source_message list \<Rightarrow> history_cursor option \<Rightarrow> nat" where
  "start_index ms cursor =
    (case Option.bind cursor hc_last_source_message_id of
       None \<Rightarrow> 0
     | Some i \<Rightarrow> if i = [] \<or> i \<notin> set (map tm_message_id ms) then 0
         else Suc (length (takeWhile (\<lambda>m. tm_message_id m \<noteq> i) ms)))"

definition fake_fetch_history :: "string \<Rightarrow> history_cursor option \<Rightarrow> int \<Rightarrow> (fake_telegram, history_batch) action" where
  "fake_fetch_history dialog cursor limit s =
    (let ms = listed (ft_messages s) dialog;
         start = start_index ms cursor;
         selected = drop start (slice_to (int start + limit) ms)
     in (Inr \<lparr>hb_messages = selected,
          hb_next_cursor = (if selected = [] then None
            else Some \<lparr>hc_last_source_message_id = Some (tm_message_id (last selected)),
              hc_last_source_sent_at = Some (tm_sent_at_utc (last selected))\<rparr>),
          hb_has_more = int start + limit < int (length ms),
          hb_dialog_title = map_option sd_title (dict_get (ft_dialogs s) dialog)\<rparr>,
         s\<lparr>ft_fetch_calls := ft_fetch_calls s + 1\<rparr>))"

definition fake_download_attachment ::
    "(string \<Rightarrow> string) \<Rightarrow> canonical_attachment \<Rightarrow> (fake_telegram, downloaded_attachment) action" where
  "fake_download_attachment sha256 a s =
    (let s' = s\<lparr>ft_download_calls := ft_download_calls s + 1\<rparr>; url = or_empty (att_download_url a) in
     if \<not> truthy (att_download_url a) then (Inl (FatalItemError ''attachment download_url is required''), s')
     else case dict_get (ft_failures s) url of
       Some e \<Rightarrow> (Inl e, s')
     | None \<Rightarrow>
         let payload = (case dict_get (ft_contents s) url of Some p \<Rightarrow> p
               | None \<Rightarrow> utf8 (or_empty (py_or (att_filename a) (py_or (att_source_file_id a) (Some url)))));
             n = int (length payload)
         in (Inr \<lparr>da_attachment = a\<lparr>att_size_bytes := Some n, att_sha256 := Some (sha256 payload)\<rparr>,
               da_local_path = None, da_content = Some payload, da_size_bytes = Some n\<rparr>, s'))"

section \<open>Participants and events\<close>

definition fake_list_participants :: "string \<Rightarrow> (fake_telegram, source_participant list) action" where
  "fake_list_participants dialog = get_state (\<lambda>s. listed (ft_participants s) dialog)"

definition fake_list_topics :: "string \<Rightarrow> (fake_telegram, source_topic list) action" where
  "fake_list_topics dialog = get_state (\<lambda>s. listed (ft_topics s) dialog)"

definition fake_get_channel_access_profile :: "string \<Rightarrow> (fake_telegram, channel_access_profile) action" where
  "fake_get_channel_access_profile dialog = get_state (\<lambda>s.
     case dict_get (ft_profiles s) dialog of Some p \<Rightarrow> p
     | None \<Rightarrow> \<lparr>cap_dialog_id = dialog, cap_is_admin = True, cap_can_list_participants = True\<rparr>)"

definition fake_subscribe_delta :: "string list \<Rightarrow> (fake_telegram, planned_event list) action" where
  "fake_subscribe_delta dialogs s =
    (Inr (concat (map (listed (ft_events s)) dialogs)), s\<lparr>ft_subscribe_calls := ft_subscribe_calls s + 1\<rparr>)"

section \<open>Reading a history to its end\<close>

text \<open>The messages of a dialog in batches of n, each cursor the one given with the batch before.\<close>

fun read_history :: "nat \<Rightarrow> string \<Rightarrow> int \<Rightarrow> history_cursor option \<Rightarrow> fake_telegram \<Rightarrow> telegram_source_message list" where
  "read_history 0 dialog n cursor s = []"
| "read_history (Suc rounds) dialog n cursor s =
    (case fake_fetch_history dialog cursor n s of
       (Inr b, s') \<Rightarrow> hb_messages b
         @ (if hb_has_more b then read_history rounds dialog n (hb_next_cursor b) s' else [])
     | (Inl _, _) \<Rightarrow> [])"

lemma start_index_after:
  assumes "distinct (map tm_message_id ms)" and "i < length ms" and "tm_message_id (ms ! i) \<noteq> []"
  shows "start_index ms (Some \<lparr>hc_last_source_message_id = Some (tm_message_id (ms ! i)), hc_last_source_sent_at = t\<rparr>)
    = Suc i"
proof -
  have "takeWhile (\<lambda>m. tm_message_id m \<noteq> tm_message_id (ms ! i)) ms = take i ms"
  proof (rule takeWhile_eq_take_P_nth)
    show "tm_message_id (ms ! j) \<noteq> tm_message_id (ms ! i)" if "j < i" "j < length ms" for j
      using that assms(2) nth_eq_iff_index_eq [OF assms(1), of j i] by simp
  qed (simp add: assms(2))
  moreover have "tm_message_id (ms ! i) \<in> set (map tm_message_id ms)" using assms(2) by simp
  ultimately show ?thesis using assms(2,3) by (simp add: start_index_def)
qed

lemma read_history_from:
  assumes "distinct (map tm_message_id ms)" and "\<forall>m \<in> set ms. tm_message_id m \<noteq> []" and "0 < n"
    and "listed (ft_messages s) dialog = ms" and "start_index ms cursor = k" and "k \<le> length ms"
    and "length ms - k < rounds"
  shows "read_history rounds dialog (int n) cursor s = drop k ms"
  using assms(4-)
proof (induction rounds arbitrary: k cursor s)
  case (Suc rounds)
  let ?sel = "drop k (take (k + n) ms)"
  have b: "fake_fetch_history dialog cursor (int n) s = (Inr \<lparr>hb_messages = ?sel,
      hb_next_cursor = (if ?sel = [] then None else Some \<lparr>hc_last_source_message_id = Some (tm_message_id (last ?sel)),
        hc_last_source_sent_at = Some (tm_sent_at_utc (last ?sel))\<rparr>),
      hb_has_more = k + n < length ms, hb_dialog_title = map_option sd_title (dict_get (ft_dialogs s) dialog)\<rparr>,
      s\<lparr>ft_fetch_calls := ft_fetch_calls s + 1\<rparr>)"
    using Suc.prems(1,2) by (simp add: fake_fetch_history_def Let_def slice_to_def nat_add_distrib) arith
  show ?case
  proof (cases "k + n < length ms")
    case True
    then have sel: "?sel \<noteq> []" "last ?sel = ms ! (k + n - 1)"
      using assms(3) by (simp_all add: last_conv_nth min_def)
    let ?s = "s\<lparr>ft_fetch_calls := ft_fetch_calls s + 1\<rparr>"
    let ?cur = "Some \<lparr>hc_last_source_message_id = Some (tm_message_id (ms ! (k + n - 1))),
      hc_last_source_sent_at = Some (tm_sent_at_utc (ms ! (k + n - 1)))\<rparr>"
    have "start_index ms ?cur = Suc (k + n - 1)"
      by (rule start_index_after [OF assms(1)]) (use True assms(2,3) in auto)
    then have "start_index ms ?cur = k + n" using assms(3) by simp
    from Suc.IH [OF _ this] Suc.prems True assms(3) have "read_history rounds dialog (int n) ?cur ?s = drop (k + n) ms" by simp
    moreover have "?sel @ drop (k + n) ms = drop k ms"
      by (metis append_take_drop_id drop_drop drop_take add.commute add_diff_cancel_left')
    ultimately show ?thesis using True sel by (simp add: b)
  next
    case False
    then show ?thesis by (simp add: b)
  qed
qed simp

text \<open>Every message is read once, in order.\<close>

lemma read_history_all:
  assumes "distinct (map tm_message_id (listed (ft_messages s) dialog))"
    and "\<forall>m \<in> set (listed (ft_messages s) dialog). tm_message_id m \<noteq> []" and "0 < n"
    and "length (listed (ft_messages s) dialog) < rounds"
  shows "read_history rounds dialog (int n) None s = listed (ft_messages s) dialog"
  using read_history_from [OF assms(1-3) refl, of None 0] assms(4) by (simp add: start_index_def)

end
