(* ===== verification/Fake_World.thy ===== *)
theory Fake_World
  imports Target_Facts Fake_Express Fake_Telegram
begin

text \<open>
  The gateways the program brings along, put together: services for delivery, directory and
  provisioning over one world of fake messenger, file store, Telegram account and clock. They keep
  the contracts the properties about delivery and provisioning rest on.
\<close>

section \<open>The world\<close>

record fake_world =
  fw_express :: fake_express
  fw_files :: fake_file_store
  fw_telegram :: fake_telegram
  fw_clock :: datetime

definition on_express :: "(fake_express, 'a) action \<Rightarrow> (fake_world, 'a) action" where
  "on_express = on_part fw_express (\<lambda>x w. w\<lparr>fw_express := x\<rparr>)"

definition on_files :: "(fake_file_store, 'a) action \<Rightarrow> (fake_world, 'a) action" where
  "on_files = on_part fw_files (\<lambda>x w. w\<lparr>fw_files := x\<rparr>)"

definition on_telegram :: "(fake_telegram, 'a) action \<Rightarrow> (fake_world, 'a) action" where
  "on_telegram = on_part fw_telegram (\<lambda>x w. w\<lparr>fw_telegram := x\<rparr>)"

text \<open>The time moves on by \<open>tick\<close> with every reading.\<close>

definition fake_now :: "(datetime \<Rightarrow> datetime) \<Rightarrow> fake_world \<Rightarrow> datetime \<times> fake_world" where
  "fake_now tick w = (fw_clock w, w\<lparr>fw_clock := tick (fw_clock w)\<rparr>)"

text \<open>How files are read and hashed, and how time passes.\<close>

record fake_environment =
  en_read :: "string \<Rightarrow> string"
  en_sha256 :: "string \<Rightarrow> string"
  en_tick :: "datetime \<Rightarrow> datetime"

definition fake_delivery :: "fake_environment \<Rightarrow> fake_world delivery_services \<Rightarrow> fake_world delivery_services" where
  "fake_delivery en base = base\<lparr>sv_now := fake_now (en_tick en),
     sv_download := (\<lambda>_ a. on_telegram (fake_download_attachment (en_sha256 en) a)),
     sv_upload := (\<lambda>chat f. on_files (fake_upload_file (en_read en) chat f)),
     sv_send := (\<lambda>q. on_express (fake_send_message (en_read en) (sq_target_chat_id q) (sq_body q)
       (Some (sq_idempotency_key q)) (sq_file q) (sq_staged_file q)))\<rparr>"

text \<open>Without \<open>registered_cts_hosts\<close> the directory probes under the host of the context.\<close>

definition fake_directory :: "fake_environment \<Rightarrow> fake_world directory_config \<Rightarrow> fake_world directory_config" where
  "fake_directory en base = base\<lparr>dc_express := (dc_express base)\<lparr>xd_registered := None,
     xd_now := fake_now (en_tick en),
     xd_search_huid := (\<lambda>_ huid. on_express (fake_search_user_by_huid huid)),
     xd_search_email := (\<lambda>_ email. on_express (fake_search_user_by_email email)),
     xd_search_ad_login := (\<lambda>_ login domain. on_express (fake_search_user_by_ad_login login domain)),
     xd_search_other_id := (\<lambda>_ i. on_express (fake_search_user_by_other_id i))\<rparr>\<rparr>"

definition fake_provisioning ::
    "fake_environment \<Rightarrow> fake_world provisioning_services \<Rightarrow> fake_world provisioning_services" where
  "fake_provisioning en base = base\<lparr>px_delivery := fake_delivery en (px_delivery base),
     px_directory := fake_directory en (px_directory base),
     px_list_participants := (\<lambda>chat _. on_telegram (fake_list_participants chat)),
     px_channel_profile := (\<lambda>chat _. on_telegram (fake_get_channel_access_profile chat)),
     px_create_chat := (\<lambda>_ title huids chat_type. on_express (fake_create_chat title huids (Some chat_type))),
     px_members := (\<lambda>_ chat huids. on_express (fake_ensure_chat_members chat huids)),
     px_promote := (\<lambda>_ chat huids. on_express (fake_promote_chat_admins chat huids)),
     px_admins := (\<lambda>_ chat. on_express (fake_list_chat_admin_huids chat)),
     px_personal_chat := (\<lambda>_ huid. on_express (fake_ensure_personal_chat huid None)),
     px_chat_link := (\<lambda>_ chat. on_express (fake_create_chat_link chat)),
     px_send := (\<lambda>_ chat body key. bind (on_express (fake_send_message (en_read en) chat body (Some key) None None))
       (\<lambda>_. ret ())),
     px_routes := False, px_registered := [], px_primary := None, px_bot_huid_for := None, px_bot_id_for := None\<rparr>"

section \<open>The contracts\<close>

lemma on_express_keeps: "P (fw_express w) \<Longrightarrow> (\<And>x. P x \<Longrightarrow> P (snd (m x))) \<Longrightarrow> P (fw_express (snd (on_express m w)))"
  by (simp add: on_express_def on_part_def split_beta)

lemma on_telegram_express [simp]: "fw_express (snd (on_telegram m w)) = fw_express w"
  by (simp add: on_telegram_def on_part_def split_beta)

lemma fake_now_express [simp]: "fw_express (snd (fake_now tick w)) = fw_express w"
  by (simp add: fake_now_def)

lemma fake_calls:
  "px_members (fake_provisioning en base) h chat huids = on_express (fake_ensure_chat_members chat huids)"
  "px_promote (fake_provisioning en base) h chat huids = on_express (fake_promote_chat_admins chat huids)"
  "px_admins (fake_provisioning en base) h chat = on_express (fake_list_chat_admin_huids chat)"
  "px_personal_chat (fake_provisioning en base) h huid = on_express (fake_ensure_personal_chat huid None)"
  "px_chat_link (fake_provisioning en base) h chat = on_express (fake_create_chat_link chat)"
  "px_send (fake_provisioning en base) h chat body key
    = bind (on_express (fake_send_message (en_read en) chat body (Some key) None None)) (\<lambda>_. ret ())"
  "sv_now (px_delivery (fake_provisioning en base)) = fake_now (en_tick en)"
  "px_list_participants (fake_provisioning en base) chat backend = on_telegram (fake_list_participants chat)"
  "xd_now (dc_express (px_directory (fake_provisioning en base))) = fake_now (en_tick en)"
  "xd_search_email (dc_express (px_directory (fake_provisioning en base))) h email
    = on_express (fake_search_user_by_email email)"
  by (simp_all add: fake_provisioning_def fake_delivery_def fake_directory_def)

lemma fake_reads:
  "snd (fake_list_chat_admin_huids chat x) = x" "snd (fake_create_chat_link chat x) = x"
  "snd (fake_search_user_by_email email x) = x"
  by (simp_all add: fake_list_chat_admin_huids_def fake_create_chat_link_def fake_search_user_by_email_def get_state_def
      split: option.split)

text \<open>What is kept by the messenger's calls but the creation of a chat is kept by the services.\<close>

lemma fake_guarded:
  assumes "\<And>c hs x. P x \<Longrightarrow> P (snd (fake_ensure_chat_members c hs x))"
    and "\<And>c hs x. P x \<Longrightarrow> P (snd (fake_promote_chat_admins c hs x))"
    and "\<And>u x. P x \<Longrightarrow> P (snd (fake_ensure_personal_chat u None x))"
    and "\<And>read c b k x. P x \<Longrightarrow> P (snd (fake_send_message read c b k None None x))"
  shows "guarded_directory (fake_provisioning en base) (\<lambda>w. P (fw_express w))"
proof -
  have send: "P (fw_express (snd (bind (on_express (fake_send_message read c b k None None)) (\<lambda>_. ret ()) w)))"
    if "P (fw_express w)" for read c b k w
    using on_express_keeps [where P = P and m = "fake_send_message read c b k None None", OF that assms(4)]
    by (simp add: bind_def ret_def split_beta split: sum.split)
  note kept = on_express_keeps [where P = P]
  show ?thesis
    by (unfold_locales; unfold fake_calls fake_now_express on_telegram_express;
      (erule send | assumption | (erule kept; simp only: fake_reads assms)))
qed

definition fake_member :: "string \<Rightarrow> string \<Rightarrow> fake_express \<Rightarrow> bool" where
  "fake_member chat u x \<longleftrightarrow> (\<exists>c. dict_get (fe_created_chats x) chat = Some c \<and> u \<in> set (cc_participant_huids c))"

lemma newcomers_all: "u \<in> set hs \<Longrightarrow> py_strip u \<noteq> [] \<Longrightarrow> py_strip u \<in> set known \<union> set (newcomers known hs)"
proof (induction hs arbitrary: known)
  case (Cons h hs)
  then show ?case
    using Cons.IH [of "known @ [py_strip h]"] Cons.IH [of known] by (auto simp: Let_def)
qed simp

lemma created_not_personal: "created_id n \<noteq> personal_id u"
  by (simp add: created_id_def personal_id_def)

lemma fake_member_kept:
  assumes "fake_member (created_id n) u x"
  shows "fake_member (created_id n) u (snd (fake_ensure_chat_members c hs x))"
    and "fake_member (created_id n) u (snd (fake_promote_chat_admins c hs x))"
    and "fake_member (created_id n) u (snd (fake_ensure_personal_chat v t x))"
    and "fake_member (created_id n) u (snd (fake_send_message read c b k payload staged x))"
proof -
  show "fake_member (created_id n) u (snd (fake_ensure_chat_members c hs x))"
    "fake_member (created_id n) u (snd (fake_promote_chat_admins c hs x))"
    "fake_member (created_id n) u (snd (fake_ensure_personal_chat v t x))"
    using assms created_not_personal [of n v]
    by (auto simp: fake_member_def fake_ensure_chat_members_def fake_promote_chat_admins_def
        fake_ensure_personal_chat_def Let_def split: option.splits)
  show "fake_member (created_id n) u (snd (fake_send_message read c b k payload staged x))"
    using assms
    by (cases rule: fake_send_cases [where key = k and s = x and read = read and chat = c and body = b
        and payload = payload and staged = staged]) (simp_all add: fake_member_def)
qed

text \<open>The members of a created chat.\<close>

interpretation fake_chat: chat_gateway "fake_provisioning en base" "created_id n"
    "\<lambda>w u. fake_member (created_id n) u (fw_express w)" for en base n
proof (rule chat_gateway.intro)
  fix u
  have "guarded_directory (fake_provisioning en base) (\<lambda>w. fake_member (created_id n) u (fw_express w))"
    by (rule fake_guarded) (simp_all add: fake_member_kept)
  then show "guarded_world (fake_provisioning en base) (\<lambda>w. fake_member (created_id n) u (fw_express w))"
    by (simp add: guarded_directory_def)
next
  fix h huids w added w' u
  assume "px_members (fake_provisioning en base) h (created_id n) huids w = (Inr added, w')"
    and "u \<in> set huids" and "py_strip u \<noteq> []"
  then show "fake_member (created_id n) (py_strip u) (fw_express w')"
    using newcomers_all [of u huids]
    by (auto simp: fake_provisioning_def on_express_def on_part_def fake_ensure_chat_members_def Let_def
        fake_member_def split: option.splits prod.splits)
qed

text \<open>The number of chats created.\<close>

interpretation fake_counter: guarded_directory "fake_provisioning en base" "\<lambda>w. fe_chat_seq (fw_express w) = n"
  for en base n
proof (rule fake_guarded)
  show "fe_chat_seq (snd (fake_send_message read c b k None None x)) = n" if "fe_chat_seq x = n" for read c b k x
    using that by (cases rule: fake_send_cases [where key = k and s = x and read = read and chat = c and body = b
        and payload = None and staged = None]) simp_all
qed (simp_all add: fake_ensure_chat_members_def fake_promote_chat_admins_def fake_ensure_personal_chat_def Let_def
    split: option.split)

text \<open>Sending a message of a delivery.\<close>

definition request_of :: "send_request \<Rightarrow> fake_request" where
  "request_of q = \<lparr>fq_chat = sq_target_chat_id q, fq_body = sq_body q, fq_key = Some (sq_idempotency_key q),
     fq_file = sq_file q, fq_staged = sq_staged_file q\<rparr>"

lemma sv_send_fake: "sv_send (fake_delivery en base) q = on_express (fake_send (en_read en) (request_of q))"
  by (simp add: fake_delivery_def fake_send_def request_of_def)

interpretation fake_delivery: keyed_messenger "sv_send (fake_delivery en base)" sq_idempotency_key
    "\<lambda>w. fake_express_ok (fw_express w)" "\<lambda>w. posted_refs (fw_express w)" for en base
proof
  fix w :: fake_world and q
  assume ok: "fake_express_ok (fw_express w)"
  note laws = fake_sender.ok_send [OF ok, of "en_read en" "request_of q"] fake_sender.posted_kept [OF ok]
    fake_sender.posted_other [OF ok] fake_sender.posted_once [OF ok]
  show "fake_express_ok (fw_express (snd (sv_send (fake_delivery en base) q w)))"
    using laws(1) by (simp add: sv_send_fake on_express_def on_part_def split_beta)
  show "length (posted_refs (fw_express w) k) \<le> 1" if "k \<noteq> []" for k using laws(4) that .
  show "posted_refs (fw_express (snd (sv_send (fake_delivery en base) q w))) k = posted_refs (fw_express w) k"
    if "k \<noteq> []" "posted_refs (fw_express w) k \<noteq> []" for k
    using laws(2) [OF that] by (simp add: sv_send_fake on_express_def on_part_def split_beta)
  show "posted_refs (fw_express (snd (sv_send (fake_delivery en base) q w))) k = posted_refs (fw_express w) k"
    if "k \<noteq> []" "k \<noteq> sq_idempotency_key q" for k
    using laws(3) [of k "request_of q"] that
    by (simp add: sv_send_fake on_express_def on_part_def split_beta request_of_def or_empty_def)
  show "posted_refs (fw_express w') (sq_idempotency_key q) = [original r]"
    if "sv_send (fake_delivery en base) q w = (Inr r, w')" "sq_idempotency_key q \<noteq> []" for r w'
    using fake_sender.send_posted [OF ok, of "en_read en" "request_of q" r "fw_express w'"] that
    by (auto simp: sv_send_fake on_express_def on_part_def request_of_def or_empty_def split: prod.splits)
qed

end
