(* ===== verification/Chat_Properties.thy ===== *)
theory Chat_Properties
  imports Fake_World Examples
begin

text \<open>
  The properties of target chats, applied to the gateways the program brings along.
\<close>

section \<open>Examples\<close>

definition ex_idle_delivery :: "'w delivery_services" where
  "ex_idle_delivery = \<lparr>sv_renderer = \<lparr>rd_offset = (\<lambda>_. 0), rd_mention = (\<lambda>_ _. None)\<rparr>,
     sv_retry = default_retry_policy, sv_random = (\<lambda>_. 0), sv_max_upload = 1000, sv_now = (\<lambda>w. (0, w)),
     sv_download = (\<lambda>_ _. throw CancelledError), sv_upload = (\<lambda>_ _. throw CancelledError),
     sv_send = (\<lambda>_. throw CancelledError), sv_exists = (\<lambda>_ _. False), sv_file_size = (\<lambda>_ _. None),
     sv_unlink = (\<lambda>_ w. w), sv_path = id, sv_base_name = id, sv_guess_extension = (\<lambda>_. None)\<rparr>"

definition ex_idle_directory :: "'w directory_config" where
  "ex_idle_directory = \<lparr>dc_express = \<lparr>xd_urlparse = (\<lambda>u. Inr (u, [])), xd_hostname = (\<lambda>_. Inr (None, [])),
       xd_registered = None, xd_context = None, xd_now = (\<lambda>w. (0, w)),
       xd_search_huid = (\<lambda>_ _. ret None), xd_search_email = (\<lambda>_ _. ret None),
       xd_search_ad_login = (\<lambda>_ _ _. ret None), xd_search_other_id = (\<lambda>_ _. ret None)\<rparr>,
     dc_resolution = False, dc_express_host = None\<rparr>"

definition ex_idle_provisioning :: "'w provisioning_services" where
  "ex_idle_provisioning = \<lparr>px_delivery = ex_idle_delivery, px_directory = ex_idle_directory,
     px_list_participants = (\<lambda>_ _. ret []), px_channel_profile = (\<lambda>_ _. throw CancelledError),
     px_create_chat = (\<lambda>_ _ _ _. throw CancelledError), px_members = (\<lambda>_ _ _. ret []),
     px_promote = (\<lambda>_ _ _. ret []), px_admins = (\<lambda>_ _. ret []), px_personal_chat = (\<lambda>_ _. throw CancelledError),
     px_chat_link = (\<lambda>_ _. ret None), px_send = (\<lambda>_ _ _ _. ret ()), px_routes = False, px_context = None,
     px_registered = [], px_primary = None, px_bot_huid_for = None, px_bot_id_for = None, px_bot_huids = None,
     px_causes = (\<lambda>_. []), px_invite_message = (\<lambda>_ title link. title @ '': '' @ link)\<rparr>"

definition ex_environment :: fake_environment where
  "ex_environment = \<lparr>en_read = (\<lambda>_. []), en_sha256 = (\<lambda>_. ''h''), en_tick = (\<lambda>t. t + 1)\<rparr>"

definition ex_fakes :: "fake_world provisioning_services" where
  "ex_fakes = fake_provisioning ex_environment ex_idle_provisioning"

text \<open>A group with Ann, who is known to the messenger, and Bob, who is not.\<close>

definition ex_participants :: "source_participant list" where
  "ex_participants =
    [\<lparr>sp_external_id = Some ''7'', sp_username = None, sp_display_name = ''Ann'', sp_is_self = False\<rparr>,
     \<lparr>sp_external_id = Some ''8'', sp_username = None, sp_display_name = ''Bob'', sp_is_self = False\<rparr>]"

definition ex_ann :: identity_mapping_record where
  "ex_ann = \<lparr>im_telegram_user_id = Some ''7'', im_telegram_username = None, im_telegram_display_name = Some ''Ann'',
     im_corporate_email = None, im_target_huid = Some ''a'', im_express_host = None, im_created_at = None,
     im_updated_at = None, im_last_resolved_at = None\<rparr>"

definition ex_fake_world :: fake_world where
  "ex_fake_world = \<lparr>fw_express = fake_express_init [] [] [] [] [], fw_files = \<lparr>fs_seq = 0, fs_uploads = []\<rparr>,
     fw_telegram = fake_telegram_init [] [] [] [(''g'', ex_participants)] [] [] [] [], fw_clock = 0\<rparr>"

definition ex_fresh_state :: "fake_world import_state" where
  "ex_fresh_state = \<lparr>im_delivery = \<lparr>dl_world = ex_fake_world, dl_attachments = [], dl_stages = stage_repo_init 0,
       dl_audit = []\<rparr>,
     im_messages = message_repo_init 0, im_checkpoints = [], im_chats = [], im_states = [],
     im_bindings = ([], []), im_identities = ([((None, ''7''), ex_ann)], [])\<rparr>"

definition ex_group_dialog :: manifest_dialog where
  "ex_group_dialog = ex_dialog\<lparr>dlg_source_chat_id := ''g'', dlg_source_chat_type := ''group'',
     dlg_target_strategy := ''create'', dlg_target_title := Some ''G'', dlg_initiator_huid := Some ''i''\<rparr>"

definition ex_ensured :: "(error, chat_mapping_record) outcome \<times> fake_world import_state" where
  "ex_ensured = ensure_target_chat ex_fakes ''m'' ex_group_dialog ex_fresh_state"

lemma ex_ensured_mapping:
  "map_option cm_target_chat_id (case fst ex_ensured of Inl _ \<Rightarrow> None | Inr r \<Rightarrow> Some r) = Some (created_id 1)"
  by code_simp

lemma ex_ensured_result: "ex_ensured = (Inr (projr (fst ex_ensured)), snd ex_ensured)"
  using ex_ensured_mapping by (cases "fst ex_ensured") (simp_all add: prod_eq_iff)

lemma ex_created_one: "fe_chat_seq (fw_express (world_of (snd ex_ensured))) = 1"
  by code_simp

text \<open>Letting one more participant into a chat that was created for the initiator.\<close>

definition ex_chat_state :: "fake_world import_state" where
  "ex_chat_state = ex_fresh_state\<lparr>im_delivery := (im_delivery ex_fresh_state)\<lparr>dl_world :=
     ex_fake_world\<lparr>fw_express := snd (fake_create_chat ''G'' (Some [''i'']) None (fw_express ex_fake_world))\<rparr>\<rparr>\<rparr>"

definition ex_access :: access_context where
  "ex_access = \<lparr>ax_chat_kind = ''group'', ax_migration_id = ''m'', ax_source_chat_id = ''g'',
     ax_source_backend = ''telethon'', ax_target_chat_id = created_id 1, ax_target_chat_title = ''G''\<rparr>"

definition ex_newcomers :: "participant_target list" where
  "ex_newcomers = [\<lparr>pt_target_huid = '' b'', pt_cts_host = None\<rparr>]"

definition ex_joined :: "(error, access_result) outcome \<times> fake_world import_state" where
  "ex_joined = apply_member_access_strategy ex_fakes ex_access ex_newcomers (Some ''i'') ''direct_add'' None []
     ex_chat_state"

lemma ex_joined_failures: "map_option ar_failed (case fst ex_joined of Inl _ \<Rightarrow> None | Inr r \<Rightarrow> Some r) = Some []"
  by code_simp

section \<open>Members\<close>

text \<open>
  C24: no participant is lost on the way into a target chat. When the members of a chat are arranged
  by adding them directly, then whatever servers, retries, helper bots and failures were involved,
  every participant with a HUID - except the initiator and those put into the chat when it was created -
  is a member of the chat afterwards or is reported among the failed ones. The messenger only has to
  make members of those it accepts to add, and to keep them.
\<close>

theorem participants_join_or_fail:
  assumes "chat_gateway px (ax_target_chat_id x) member" and "normalized_strategy strategy \<noteq> ''invite_link''"
    and "apply_member_access_strategy px x targets initiator strategy anchor_host skip s = (Inr r, s')"
    and "t \<in> set targets" and "py_strip (pt_target_huid t) \<noteq> []"
    and "Some (py_strip (pt_target_huid t)) \<noteq> stripped initiator" and "py_strip (pt_target_huid t) \<notin> set skip"
  shows "member (world_of s') (py_strip (pt_target_huid t))
    \<or> py_strip (pt_target_huid t) \<in> af_target_huid ` set (ar_failed r)"
  by (rule chat_gateway.all_settled [OF assms(1) refl assms(2-7)])

theorem participants_join_or_fail_witness:
  "fake_member (created_id 1) ''b'' (fw_express (world_of (snd ex_joined)))"
proof -
  obtain r where r: "fst ex_joined = Inr r" "ar_failed r = []"
    using ex_joined_failures by (cases "fst ex_joined") simp_all
  then have run: "ex_joined = (Inr r, snd ex_joined)" by (simp add: prod_eq_iff)
  have gateway: "chat_gateway ex_fakes (ax_target_chat_id ex_access) (\<lambda>w u. fake_member (created_id 1) u (fw_express w))"
    unfolding ex_fakes_def ex_access_def by simp (rule fake_chat.chat_gateway_axioms)
  have b: "py_strip '' b'' = ''b''" "stripped (Some ''i'') = Some ''i''" by code_simp+
  have direct: "normalized_strategy ''direct_add'' \<noteq> ''invite_link''" by code_simp
  from participants_join_or_fail [OF gateway direct run [unfolded ex_joined_def], of "hd ex_newcomers"] r(2)
  show ?thesis by (simp add: ex_newcomers_def b ex_joined_def)
qed

section \<open>Mappings\<close>

text \<open>
  C36: the mapping of a dialog to its chat is written at the end. Ensuring a target chat changes no
  mapping but the dialog's; when it raises, it changes none - also when the chat was created already;
  when it returns, the returned mapping is the stored one, and a mapping that was there before differs
  from it at most in the time of its update.
\<close>

theorem mapping_written_last:
  assumes "keyed_dict chat_mapping_key (im_chats s)" and "ensure_target_chat px mig d s = (res, s')"
  shows "keyed_dict chat_mapping_key (im_chats s')
    \<and> (\<forall>k. k \<noteq> (mig, dlg_source_chat_id d) \<longrightarrow> chat_mapping_get (im_chats s') k = chat_mapping_get (im_chats s) k)
    \<and> (case res of Inl _ \<Rightarrow> im_chats s' = im_chats s
       | Inr r \<Rightarrow> chat_mapping_get (im_chats s') (mig, dlg_source_chat_id d) = Some r
           \<and> (\<forall>r0. chat_mapping_get (im_chats s) (mig, dlg_source_chat_id d) = Some r0
                \<longrightarrow> r = r0\<lparr>cm_updated_at := cm_updated_at r\<rparr>))"
proof (cases res)
  case (Inl e)
  with ensure_target_chat_cases(2) [OF assms(2) Inl] assms(1) show ?thesis by simp
next
  case (Inr r)
  let ?k = "(mig, dlg_source_chat_id d)"
  show ?thesis
  proof (cases "chat_mapping_get (im_chats s) ?k")
    case None
    from ensure_target_chat_cases(3) [OF assms(2) Inr None] assms(1) None Inr
    show ?thesis by (auto simp: chat_mapping_save_def chat_mapping_get_def)
  next
    case (Some r0)
    have key: "chat_mapping_key r0 = ?k"
      using keyed_dict_key [OF assms(1)] Some by (simp add: chat_mapping_get_def)
    have "chat_mapping_key (r0\<lparr>cm_updated_at := t\<rparr>) = ?k" for t using key by (simp add: chat_mapping_key_def)
    with ensure_target_chat_cases(4) [OF assms(2) Inr Some] assms(1) Some Inr
    show ?thesis by (auto simp: chat_mapping_save_def chat_mapping_get_def intro!: keyed_dict_set)
  qed
qed

theorem mapping_written_last_witness:
  "chat_mapping_get (im_chats (snd ex_ensured)) (''m'', ''g'') = Some (projr (fst ex_ensured))"
  using mapping_written_last [OF _ ex_ensured_result [unfolded ex_ensured_def]]
  by (simp add: ex_ensured_def ex_fresh_state_def ex_group_dialog_def)

text \<open>
  C23: a chat is created once. After a target chat was ensured for a dialog, ensuring it again -
  with any services, for any manifest entry of that source chat - keeps the target chat, and keeps
  whatever every call of the messenger but the creation of a chat keeps, such as the number of chats
  created.
\<close>

theorem chat_created_once:
  assumes "keyed_dict chat_mapping_key (im_chats s)" and "ensure_target_chat px mig d s = (Inr r, s1)"
    and "dlg_source_chat_id d2 = dlg_source_chat_id d" and "guarded_directory px2 P" and "P (world_of s1)"
    and "ensure_target_chat px2 mig d2 s1 = (res, s2)"
  shows "P (world_of s2) \<and> (case res of Inl _ \<Rightarrow> im_chats s2 = im_chats s1
    | Inr r2 \<Rightarrow> cm_target_chat_id r2 = cm_target_chat_id r)"
proof -
  let ?k = "(mig, dlg_source_chat_id d)"
  have stored: "chat_mapping_get (im_chats s1) ?k = Some r"
  proof (cases "chat_mapping_get (im_chats s) ?k")
    case None
    from ensure_target_chat_cases(3) [OF assms(2) refl None] show ?thesis
      by (auto simp: chat_mapping_save_def chat_mapping_get_def)
  next
    case (Some r0)
    have "chat_mapping_key r0 = ?k" using keyed_dict_key [OF assms(1)] Some by (simp add: chat_mapping_get_def)
    with ensure_target_chat_cases(4) [OF assms(2) refl Some] Some show ?thesis
      by (auto simp: chat_mapping_save_def chat_mapping_get_def chat_mapping_key_def)
  qed
  then have known: "chat_mapping_get (im_chats s1) (mig, dlg_source_chat_id d2) = Some r" by (simp add: assms(3))
  show ?thesis
  proof (cases res)
    case (Inl e)
    with guarded_directory.known_chat_steady [OF assms(4) known assms(5)] ensure_target_chat_cases(2) [OF assms(6) Inl] assms(6)
    show ?thesis by simp
  next
    case (Inr r2)
    with guarded_directory.known_chat_steady [OF assms(4) known assms(5)]
      ensure_target_chat_cases(4) [OF assms(6) Inr known] assms(6)
    show ?thesis by auto
  qed
qed

theorem chat_created_once_witness:
  "fe_chat_seq (fw_express (world_of (snd (ensure_target_chat ex_fakes ''m'' ex_group_dialog (snd ex_ensured))))) = 1"
proof -
  have gateway: "guarded_directory ex_fakes (\<lambda>w. fe_chat_seq (fw_express w) = 1)"
    unfolding ex_fakes_def by (rule fake_counter.guarded_directory_axioms)
  have "keyed_dict chat_mapping_key (im_chats ex_fresh_state)" by (simp add: ex_fresh_state_def)
  from chat_created_once [OF this ex_ensured_result [unfolded ex_ensured_def] refl gateway _ surjective_pairing] ex_created_one
  show ?thesis by (simp add: ex_ensured_def)
qed

section \<open>The gateways of the program\<close>

text \<open>
  The messenger posts a message with an idempotency key once. However often and with whatever other
  messages in between requests are sent to it, with failures planned or not, there is at most one
  message with a given key, and every successful answer to a request with that key names this message.
\<close>

theorem keyed_message_posted_once:
  assumes "fake_express_ok (fw_express w)" and "perform (sv_send (fake_delivery en base)) qs w = (rs, w')"
    and "k \<noteq> []"
  shows "length (with_key k (fw_express w')) \<le> 1
    \<and> (\<forall>i < length qs. \<forall>r. sq_idempotency_key (qs ! i) = k \<longrightarrow> rs ! i = Inr r
        \<longrightarrow> posted_refs (fw_express w') k = [original r])"
  using fake_delivery.perform_once [of w k en base qs] fake_delivery.perform_posted [OF assms(1,2)] assms
  by (auto simp: posted_refs_def)

definition ex_request :: send_request where
  "ex_request = \<lparr>sq_target_chat_id = ''t'', sq_body = ''b'', sq_idempotency_key = ''k'', sq_file = None,
     sq_staged_file = None, sq_fallback_file = None\<rparr>"

theorem keyed_message_posted_once_witness:
  "length (with_key ''k'' (fw_express (snd (perform (sv_send (fake_delivery ex_environment ex_idle_delivery))
     [ex_request, ex_request] ex_fake_world)))) \<le> 1"
  using keyed_message_posted_once [OF _ surjective_pairing, of ex_fake_world "''k''" ex_environment ex_idle_delivery
      "[ex_request, ex_request]"] fake_express_ok_init
  by (simp add: ex_fake_world_def)

end
