(* ===== verification/Bot_Service.thy ===== *)
theory Bot_Service
  imports Target_Chats Job_Admission Telegram_Login Backfill Replay Delta_Sync Fake_Telegram
begin

text \<open>
  What the commands of \<open>MigrationBotControlService\<close> (\<open>extg_bot_ui/application/bot_control.py\<close>) share:
  the state they work on, the services they call, authorization, the ownership of a chat's
  configuration, the source backends, and the Telegram session of the operator.

  The two context variables of the program - the Telegram session in use
  (\<open>TelegramSessionContext.use\<close>) and the messenger host (\<open>use_express_cts_host\<close>) - are a value that is
  passed down; what runs inside a \<open>with\<close> block gets the changed value.
\<close>

section \<open>State, context and services\<close>

record 'w bot_state =
  bt_import :: "'w import_state"
  bt_jobs :: job_repo
  bt_outbox :: "outbox_repo option"
  bt_configs :: chat_config_repo
  bt_snapshots :: export_snapshot_repo
  bt_inventory :: inventory_repo
  bt_login :: service_state

type_synonym ('w, 'a) bot = "('w bot_state, 'a) action"

record bot_context =
  bx_session :: "(string \<times> string) option"
  bx_cts_host :: "string option"

text \<open>
  \<open>bv_starts\<close> draws the clock readings and identifiers of a command that starts jobs;
  \<open>bv_starts w\<close> gives those of the first job, of the second and so on. \<open>bv_chat_link\<close> is
  \<open>create_chat_link\<close> of the messenger.
\<close>

record 'w bot_services =
  bv_control :: bot_control_config
  bv_migration_id :: string
  bv_now :: "'w \<Rightarrow> datetime \<times> 'w"
  bv_starts :: "'w \<Rightarrow> (nat \<Rightarrow> bot_control_env) \<times> 'w"
  bv_fromisoformat :: "string \<Rightarrow> (error, datetime \<times> int option) outcome"
  bv_login :: service_config
  bv_login_env :: "'w \<Rightarrow> service_env \<times> 'w"
  bv_retry :: retry_policy
  bv_random :: "nat \<Rightarrow> rat"
  bv_provisioning :: "bot_context \<Rightarrow> 'w provisioning_services"
  bv_import :: "bot_context \<Rightarrow> 'w import_services"
  bv_delta :: "bot_context \<Rightarrow> 'w delta_services"
  bv_available_dialogs :: "bot_context \<Rightarrow> int \<Rightarrow> string option \<Rightarrow> string \<Rightarrow> ('w, source_dialog list) action"
  bv_source_dialog :: "bot_context \<Rightarrow> string \<Rightarrow> string \<Rightarrow> ('w, source_dialog option) action"
  bv_topics :: "bot_context \<Rightarrow> string \<Rightarrow> string \<Rightarrow> ('w, source_topic list) action"
  bv_manifest_dialogs :: "bot_context \<Rightarrow> migration_manifest \<Rightarrow> ('w, source_dialog list) action"
  bv_chat_link :: "bot_context \<Rightarrow> string \<Rightarrow> ('w, string option) action"

definition in_import :: "('w, 'a) import \<Rightarrow> ('w, 'a) bot" where
  "in_import = on_part bt_import (\<lambda>i s. s\<lparr>bt_import := i\<rparr>)"

definition outside_bot :: "('w, 'a) action \<Rightarrow> ('w, 'a) bot" where
  "outside_bot m = in_import (outside m)"

definition bot_now :: "'w bot_services \<Rightarrow> ('w, datetime) bot" where
  "bot_now bv = outside_bot (total_op (bv_now bv))"

text \<open>The part of the state that admitting jobs works on.\<close>

definition control_of :: "'w bot_state \<Rightarrow> bot_control_state" where
  "control_of s = \<lparr>bs_jobs = bt_jobs s, bs_outbox = bt_outbox s, bs_messages = im_messages (bt_import s),
     bs_checkpoints = im_checkpoints (bt_import s), bs_audit = dl_audit (im_delivery (bt_import s))\<rparr>"

definition put_control :: "bot_control_state \<Rightarrow> 'w bot_state \<Rightarrow> 'w bot_state" where
  "put_control c s = s\<lparr>bt_jobs := bs_jobs c, bt_outbox := bs_outbox c,
     bt_import := (bt_import s)\<lparr>im_messages := bs_messages c, im_checkpoints := bs_checkpoints c,
       im_delivery := (im_delivery (bt_import s))\<lparr>dl_audit := bs_audit c\<rparr>\<rparr>\<rparr>"

definition in_control :: "(bot_control_state, 'a) action \<Rightarrow> ('w, 'a) bot" where
  "in_control = on_part control_of put_control"

definition bot_audit_log :: "'w bot_state \<Rightarrow> audit_log" where
  "bot_audit_log s = dl_audit (im_delivery (bt_import s))"

definition put_audit_log :: "audit_log \<Rightarrow> 'w bot_state \<Rightarrow> 'w bot_state" where
  "put_audit_log evs s = s\<lparr>bt_import := (bt_import s)\<lparr>im_delivery := (im_delivery (bt_import s))\<lparr>dl_audit := evs\<rparr>\<rparr>\<rparr>"

definition bot_audit ::
    "'w bot_services \<Rightarrow> string \<Rightarrow> string option \<Rightarrow> string \<Rightarrow> audit_severity \<Rightarrow> (string \<times> json) list \<Rightarrow> ('w, unit) bot" where
  "bot_audit bv migration chat event_type severity payload =
    bind (bot_now bv) (\<lambda>now. modify (\<lambda>s. put_audit_log (audit_add
      \<lparr>ae_migration_id = migration, ae_event_type = event_type, ae_severity = severity, ae_created_at = now,
       ae_source_chat_id = chat, ae_source_message_id = None, ae_payload_json = payload\<rparr> (bot_audit_log s)) s))"

definition audit_operator ::
    "'w bot_services \<Rightarrow> string \<Rightarrow> bot_operator_context \<Rightarrow> string \<Rightarrow> (string \<times> json) list \<Rightarrow> ('w, unit) bot" where
  "audit_operator bv migration operator event_type payload =
    bind (bot_now bv) (\<lambda>now. modify (\<lambda>s.
      put_audit_log (audit_operator_event migration operator event_type payload now (bot_audit_log s)) s))"

definition normalized_host :: "'w bot_services \<Rightarrow> string option \<Rightarrow> (error, string option) outcome" where
  "normalized_host bv = normalize_express_cts_host (bc_urlparse (bv_control bv))"

text \<open>\<open>with use_express_cts_host(host)\<close>\<close>

definition cts_host_context :: "'w bot_services \<Rightarrow> bot_context \<Rightarrow> string option \<Rightarrow> (error, bot_context) outcome" where
  "cts_host_context bv x host =
    (case normalized_host bv host of Inl e \<Rightarrow> Inl e | Inr h \<Rightarrow> Inr (x\<lparr>bx_cts_host := h\<rparr>))"

definition under_cts_host ::
    "'w bot_services \<Rightarrow> bot_context \<Rightarrow> string option \<Rightarrow> (bot_context \<Rightarrow> ('w, 'a) bot) \<Rightarrow> ('w, 'a) bot" where
  "under_cts_host bv x host run = bind (lift_outcome (cts_host_context bv x host)) run"

section \<open>Who may do what\<close>

definition authorize :: "'w bot_services \<Rightarrow> bot_operator_context \<Rightarrow> ('w, unit) bot" where
  "authorize bv operator =
    (case bot_authorize (bv_control bv) operator of None \<Rightarrow> ret () | Some e \<Rightarrow> throw e)"

definition require_migration_id :: "'w bot_services \<Rightarrow> (error, string) outcome" where
  "require_migration_id bv =
    (if bv_migration_id bv \<noteq> [] then Inr (bv_migration_id bv)
     else Inl (ConfigurationError ''EXTG_BOT__MIGRATION_ID is required for bot-managed runtime''))"

definition ensure_owner :: "chat_config_record \<Rightarrow> string option \<Rightarrow> (error, unit) outcome" where
  "ensure_owner r huid =
    (if huid = None \<or> Some (cc_updated_by_huid r) = huid then Inr ()
     else Inl (ConfigurationError (''source_chat_id='' @ py_repr (cc_source_chat_id r)
       @ '' is already managed by another operator'')))"

definition ensure_owner_of_some :: "chat_config_record option \<Rightarrow> string option \<Rightarrow> (error, unit) outcome" where
  "ensure_owner_of_some found huid = (case found of None \<Rightarrow> Inr () | Some r \<Rightarrow> ensure_owner r huid)"

definition find_config :: "string \<Rightarrow> string \<Rightarrow> ('w, chat_config_record option) bot" where
  "find_config migration chat = get_state (\<lambda>s. chat_config_get (bt_configs s) (migration, chat))"

definition list_configs :: "string \<Rightarrow> ('w, chat_config_record list) bot" where
  "list_configs migration = get_state (\<lambda>s. chat_config_list migration (bt_configs s))"

section \<open>Source backends\<close>

definition supported_source_backend :: string where
  "supported_source_backend = ''telethon_user_session''"

definition supported_source_backends :: "string list" where
  "supported_source_backends = [''telethon_user_session'', ''telegram_export_archive'']"

definition source_backend_requires_operator_session :: "string option \<Rightarrow> bool" where
  "source_backend_requires_operator_session backend \<longleftrightarrow>
    py_strip (or_empty (py_or backend (Some supported_source_backend))) \<noteq> ''telegram_export_archive''"

definition ensure_supported_source_backend :: "string option \<Rightarrow> (error, string) outcome" where
  "ensure_supported_source_backend backend =
    (let normalized = py_strip (or_empty (py_or backend (Some supported_source_backend))) in
     if normalized \<notin> set supported_source_backends
     then Inl (ConfigurationError (''Unsupported source backend for bot-managed runtime. ''
       @ ''Supported values: telethon_user_session, telegram_export_archive.''))
     else Inr normalized)"

definition source_backend_for_chat :: "'w bot_services \<Rightarrow> string \<Rightarrow> string option \<Rightarrow> ('w, string) bot" where
  "source_backend_for_chat bv chat requested =
    (if requested \<noteq> None then lift_outcome (ensure_supported_source_backend requested)
     else
       bind (lift_outcome (require_migration_id bv)) (\<lambda>migration.
       bind (find_config migration chat) (\<lambda>found.
       case found of
         Some r \<Rightarrow> lift_outcome (ensure_supported_source_backend (Some (cc_source_backend r)))
       | None \<Rightarrow> ret supported_source_backend)))"

text \<open>The context a runner gets: with the operator's own session, where a backend needs one.\<close>

definition operator_session_context ::
    "'w bot_services \<Rightarrow> bot_context \<Rightarrow> bot_operator_context \<Rightarrow> ('w, bot_context) bot" where
  "operator_session_context bv x operator =
    bind (outside_bot (total_op (bv_login_env bv))) (\<lambda>env.
    bind (on_part bt_login (\<lambda>l s. s\<lparr>bt_login := l\<rparr>)
      (resolve_session_string (bv_login bv) (op_huid operator) True env)) (\<lambda>session.
    ret (x\<lparr>bx_session := Some (session, op_huid operator)\<rparr>)))"

definition execute_with_operator_session ::
    "'w bot_services \<Rightarrow> bot_context \<Rightarrow> bot_operator_context \<Rightarrow> (bot_context \<Rightarrow> ('w, 'a) bot) \<Rightarrow> ('w, 'a) bot" where
  "execute_with_operator_session bv x operator run = bind (operator_session_context bv x operator) run"

definition source_backends_context ::
    "'w bot_services \<Rightarrow> bot_context \<Rightarrow> bot_operator_context \<Rightarrow> string list \<Rightarrow> ('w, bot_context) bot" where
  "source_backends_context bv x operator backends =
    bind (lift_outcome (all_ok (map (\<lambda>b. ensure_supported_source_backend (Some b)) backends))) (\<lambda>_.
    if list_ex (\<lambda>b. source_backend_requires_operator_session (Some b)) backends
    then operator_session_context bv x operator
    else ret x)"

definition execute_for_source_backends ::
    "'w bot_services \<Rightarrow> bot_context \<Rightarrow> bot_operator_context \<Rightarrow> string list
      \<Rightarrow> (bot_context \<Rightarrow> ('w, 'a) bot) \<Rightarrow> ('w, 'a) bot" where
  "execute_for_source_backends bv x operator backends run = bind (source_backends_context bv x operator backends) run"

end
