(* ===== verification/Chat_Configs.thy ===== *)
theory Chat_Configs
  imports Bot_Service
begin

text \<open>
  The configurations of the chats to migrate, from \<open>extg_bot_ui/application/bot_control.py\<close>: how one is
  saved for its operator, how a forum is split into a configuration per topic, and how the
  configurations of an operator become the manifest a command works on.
\<close>

section \<open>Times\<close>

text \<open>\<open>value.replace("+00:00", "Z")\<close>\<close>

fun zulu :: "string \<Rightarrow> string" where
  "zulu [] = []"
| "zulu (c # cs) = (if take 6 (c # cs) = ''+00:00'' then CHR ''Z'' # zulu (drop 5 cs) else c # zulu cs)"

definition format_datetime :: "datetime option \<Rightarrow> string option" where
  "format_datetime = map_option (\<lambda>t. zulu (isoformat t))"

definition parse_datetime_or_none ::
    "'w bot_services \<Rightarrow> string option \<Rightarrow> datetime option \<Rightarrow> (error, datetime option) outcome" where
  "parse_datetime_or_none bv raw old =
    (case raw of
       None \<Rightarrow> Inr old
     | Some v \<Rightarrow>
         let candidate = py_strip v in
         if candidate = [] then Inr None
         else case bv_fromisoformat bv (replace_zulu candidate) of
           Inl (ValueError _) \<Rightarrow> Inl (ConfigurationError (''invalid datetime value: '' @ py_repr v))
         | Inl e \<Rightarrow> Inl e
         | Inr (t, None) \<Rightarrow> Inr (Some t)
         | Inr (t, Some offset) \<Rightarrow> Inr (Some (t - offset * one_second)))"

section \<open>Manifest entries\<close>

text \<open>A field that is given wins over the one that was there.\<close>

definition override :: "'a option \<Rightarrow> 'a option \<Rightarrow> 'a option" where
  "override given old = (case given of None \<Rightarrow> old | Some _ \<Rightarrow> given)"

definition override_with :: "'a option \<Rightarrow> 'a \<Rightarrow> 'a" where
  "override_with given old = (case given of None \<Rightarrow> old | Some v \<Rightarrow> v)"

text \<open>
  Constructing a \<open>ManifestDialog\<close>: the two literal types, then \<open>validate_target\<close>. The library's text of
  a type error is abbreviated to the field.
\<close>

definition construct_dialog :: "manifest_dialog \<Rightarrow> (error, manifest_dialog) outcome" where
  "construct_dialog d =
    (if dlg_source_chat_type d \<notin> {''private'', ''group'', ''supergroup'', ''channel''}
     then Inl (ValueError ''source_chat_type'')
     else if dlg_source_backend d \<notin> {''telethon_user_session'', ''telegram_bot_api_live'', ''telegram_export_archive''}
     then Inl (ValueError ''source_backend'')
     else validate_target d)"

definition default_manifest_defaults :: manifest_defaults where
  "default_manifest_defaults = \<lparr>md_migrate_media = True, md_propagate_edits = False, md_propagate_deletes = False,
     md_reply_mode = ''inline_quote'', md_identity_policy = ''display_only'', md_access_strategy = ''direct_add''\<rparr>"

definition construct_manifest ::
    "string \<Rightarrow> manifest_dialog list \<Rightarrow> (error, migration_manifest) outcome" where
  "construct_manifest migration ds = ensure_unique_dialogs
    \<lparr>mf_migration_id = migration, mf_mode = ''backfill_delta_cutover'',
     mf_defaults = default_manifest_defaults, mf_dialogs = ds\<rparr>"

text \<open>Older configurations keep the top message of a topic as its thread; the topic id is preferred.\<close>

definition manifest_dialog_from_config :: "chat_config_record \<Rightarrow> (error, manifest_dialog) outcome" where
  "manifest_dialog_from_config r = construct_dialog
    \<lparr>dlg_source_chat_id = cc_source_chat_id r, dlg_source_chat_type = cc_source_chat_type r,
     dlg_source_backend = cc_source_backend r, dlg_target_strategy = cc_target_strategy r,
     dlg_target_title = cc_target_title r, dlg_target_chat_id = cc_target_chat_id r,
     dlg_initiator_huid = Some (cc_updated_by_huid r), dlg_anchor_cts_host = cc_anchor_cts_host r,
     dlg_anchor_bot_id = cc_anchor_bot_id r, dlg_include_from = format_datetime (cc_include_from r),
     dlg_include_to = format_datetime (cc_include_to r), dlg_migrate_media = Some (cc_migrate_media r),
     dlg_reply_mode = Some (cc_reply_mode r), dlg_identity_policy = Some (cc_identity_policy r),
     dlg_access_strategy = Some (cc_access_strategy r), dlg_topic_strategy = cc_topic_strategy r,
     dlg_skip_in_all = cc_skip_in_all r, dlg_telegram_chat_id = cc_telegram_chat_id r,
     dlg_source_topic_id = cc_source_topic_id r,
     dlg_source_thread_id = (if cc_topic_strategy r = ''split_by_topic'' \<and> truthy (cc_source_topic_id r)
       then cc_source_topic_id r else cc_source_thread_id r),
     dlg_source_thread_title = cc_source_thread_title r\<rparr>"

definition is_split_root_config :: "chat_config_record \<Rightarrow> bool" where
  "is_split_root_config r \<longleftrightarrow> cc_topic_strategy r = ''split_by_topic'' \<and> cc_source_thread_id r = None"

definition topic_title_key :: "chat_config_record \<Rightarrow> string" where
  "topic_title_key r = or_empty (py_or (cc_source_thread_title r) (Some (cc_source_chat_id r)))"

definition topic_child_configs_for_records :: "chat_config_record list \<Rightarrow> chat_config_record list" where
  "topic_child_configs_for_records rs = sort_key topic_title_key (filter (\<lambda>r. cc_source_thread_id r \<noteq> None) rs)"

definition split_topic_configs_for_root :: "string \<Rightarrow> string \<Rightarrow> chat_config_repo \<Rightarrow> chat_config_record list" where
  "split_topic_configs_for_root migration chat repo =
    sort_key topic_title_key (filter (\<lambda>r. cc_telegram_chat_id r = Some chat \<and> cc_source_thread_id r \<noteq> None)
      (chat_config_list migration repo))"

definition topic_source_chat_id :: "string \<Rightarrow> string \<Rightarrow> string" where
  "topic_source_chat_id chat topic = chat @ ''#topic:'' @ topic"

section \<open>The manifest of an operator\<close>

text \<open>The records of a Telegram chat, under the chat itself or as its topics.\<close>

definition records_of_telegram_chat :: "chat_config_record list \<Rightarrow> string \<Rightarrow> chat_config_record list" where
  "records_of_telegram_chat rs chat =
    filter (\<lambda>r. or_empty (py_or (cc_telegram_chat_id r) (Some (cc_source_chat_id r))) = chat) rs"

text \<open>
  The configurations of the requested chats and the requested chats that have none. The records of a
  migration have different chats, so looking one up by chat is finding it in the list.
\<close>

fun select_configs ::
    "string option \<Rightarrow> chat_config_record list \<Rightarrow> chat_config_record list \<Rightarrow> string list
      \<Rightarrow> (error, chat_config_record list \<times> string list) outcome" where
  "select_configs huid configs owned [] = Inr ([], [])"
| "select_configs huid configs owned (chat # chats) =
    (let topics = topic_child_configs_for_records (records_of_telegram_chat owned chat);
         foreign_topics = topic_child_configs_for_records (records_of_telegram_chat configs chat);
         found = (case List.find (\<lambda>r. cc_source_chat_id r = chat) owned of
             Some r \<Rightarrow>
               if is_split_root_config r then (if topics \<noteq> [] then Inr (topics, []) else Inr ([], [chat]))
               else Inr ([r], [])
           | None \<Rightarrow>
               (case ensure_owner_of_some (List.find (\<lambda>r. cc_source_chat_id r = chat) configs) huid of
                  Inl e \<Rightarrow> Inl e
                | Inr _ \<Rightarrow>
                    if topics \<noteq> [] then Inr (topics, [])
                    else case ensure_owner_of_some (case foreign_topics of [] \<Rightarrow> None | r # _ \<Rightarrow> Some r) huid of
                      Inl e \<Rightarrow> Inl e
                    | Inr _ \<Rightarrow> Inr ([], [chat])))
     in case found of
       Inl e \<Rightarrow> Inl e
     | Inr (rs, missing) \<Rightarrow> (case select_configs huid configs owned chats of
         Inl e \<Rightarrow> Inl e
       | Inr (rs', missing') \<Rightarrow> Inr (rs @ rs', missing @ missing')))"

definition manifest_of_configs ::
    "string \<Rightarrow> chat_config_record list \<Rightarrow> string option \<Rightarrow> string list option \<Rightarrow> bool \<Rightarrow> bool
      \<Rightarrow> (error, migration_manifest) outcome" where
  "manifest_of_configs migration configs huid chats require_configured include_skipped =
    (let owned = filter (\<lambda>r. huid = None \<or> Some (cc_updated_by_huid r) = huid) configs;
         chosen = (case chats of
             None \<Rightarrow> Inr (filter (\<lambda>r. \<not> is_split_root_config r \<and> (include_skipped \<or> \<not> cc_skip_in_all r)) owned)
           | Some ids \<Rightarrow> (case select_configs huid configs owned ids of
               Inl e \<Rightarrow> Inl e
             | Inr (rs, missing) \<Rightarrow>
                 if missing \<noteq> [] \<and> require_configured
                 then Inl (ConfigurationError (''source_chat_id='' @ join_comma missing
                   @ '' is not configured; use /configure first''))
                 else Inr rs))
     in case chosen of
       Inl e \<Rightarrow> Inl e
     | Inr rs \<Rightarrow>
         if rs = [] then
           Inl (ConfigurationError (if huid \<noteq> None \<and> configs \<noteq> [] \<and> owned = []
             then ''no configured chats found for this operator; existing chats are managed by another operator''
             else ''no configured chats found for bot-managed migration; use /configure or /migrate first''))
         else case all_ok (map (\<lambda>r. ensure_supported_source_backend (Some (cc_source_backend r))) rs) of
           Inl e \<Rightarrow> Inl e
         | Inr _ \<Rightarrow> (case all_ok (map manifest_dialog_from_config rs) of
             Inl e \<Rightarrow> Inl e
           | Inr ds \<Rightarrow> construct_manifest migration ds))"

definition load_config_manifest ::
    "'w bot_services \<Rightarrow> string option \<Rightarrow> string list option \<Rightarrow> bool \<Rightarrow> bool \<Rightarrow> ('w, migration_manifest) bot" where
  "load_config_manifest bv huid chats require_configured include_skipped =
    bind (lift_outcome (require_migration_id bv)) (\<lambda>migration.
    bind (list_configs migration) (\<lambda>configs.
    lift_outcome (manifest_of_configs migration configs huid chats require_configured include_skipped)))"

definition load_runtime_manifest ::
    "'w bot_services \<Rightarrow> string option \<Rightarrow> string option \<Rightarrow> bool \<Rightarrow> bool \<Rightarrow> ('w, migration_manifest) bot" where
  "load_runtime_manifest bv huid chat require_configured include_skipped =
    load_config_manifest bv huid (map_option (\<lambda>c. [c]) chat) require_configured include_skipped"

definition override_dialog :: "migration_run_options \<Rightarrow> manifest_dialog \<Rightarrow> manifest_dialog" where
  "override_dialog opts d = d\<lparr>
     dlg_include_from := override (ro_include_from opts) (dlg_include_from d),
     dlg_include_to := override (ro_include_to opts) (dlg_include_to d),
     dlg_migrate_media := override (ro_migrate_media opts) (dlg_migrate_media d),
     dlg_reply_mode := override (ro_reply_mode opts) (dlg_reply_mode d),
     dlg_target_strategy := override_with (ro_target_strategy opts) (dlg_target_strategy d),
     dlg_target_title := override (ro_target_title opts) (dlg_target_title d),
     dlg_target_chat_id := override (ro_target_chat_id opts) (dlg_target_chat_id d),
     dlg_source_backend := override_with (ro_source_backend opts) (dlg_source_backend d),
     dlg_identity_policy := override (ro_identity_policy opts) (dlg_identity_policy d),
     dlg_access_strategy := override (ro_access_strategy opts) (dlg_access_strategy d),
     dlg_topic_strategy := override_with (ro_topic_strategy opts) (dlg_topic_strategy d)\<rparr>"

definition override_defaults :: "migration_run_options \<Rightarrow> manifest_defaults \<Rightarrow> manifest_defaults" where
  "override_defaults opts d = d\<lparr>
     md_migrate_media := override_with (ro_migrate_media opts) (md_migrate_media d),
     md_reply_mode := override_with (ro_reply_mode opts) (md_reply_mode d),
     md_identity_policy := override_with (ro_identity_policy opts) (md_identity_policy d),
     md_access_strategy := override_with (ro_access_strategy opts) (md_access_strategy d)\<rparr>"

definition apply_run_overrides :: "migration_manifest \<Rightarrow> string list \<Rightarrow> migration_run_options \<Rightarrow> migration_manifest" where
  "apply_run_overrides m chats opts = m\<lparr>
     mf_defaults := override_defaults opts (mf_defaults m),
     mf_dialogs := map (override_dialog opts) (filter (\<lambda>d. dlg_source_chat_id d \<in> set chats) (mf_dialogs m))\<rparr>"

definition manifest_chats :: "migration_manifest \<Rightarrow> string list" where
  "manifest_chats m = map dlg_source_chat_id (mf_dialogs m)"

section \<open>Anchors of an operator\<close>

definition resolve_operator_anchor_cts_host ::
    "'w bot_services \<Rightarrow> bot_context \<Rightarrow> bot_operator_context \<Rightarrow> chat_config_record option \<Rightarrow> (error, string option) outcome" where
  "resolve_operator_anchor_cts_host bv x operator existing =
    (case existing of
       Some r \<Rightarrow>
         if truthy (cc_anchor_cts_host r) then normalized_host bv (cc_anchor_cts_host r)
         else default_anchor_cts_host (bv_control bv) operator (bx_cts_host x)
     | None \<Rightarrow> default_anchor_cts_host (bv_control bv) operator (bx_cts_host x))"

definition operator_bot_id :: "bot_operator_context \<Rightarrow> string option" where
  "operator_bot_id operator = stripped (op_current_bot_id operator)"

definition resolve_operator_anchor_bot_id ::
    "'w bot_services \<Rightarrow> bot_context \<Rightarrow> bot_operator_context \<Rightarrow> chat_config_record option \<Rightarrow> (error, string option) outcome" where
  "resolve_operator_anchor_bot_id bv x operator existing =
    (let bot_id_for = Job_Admission.configured_bot_id_for_cts_host (bv_control bv);
         by_default = (case default_anchor_cts_host (bv_control bv) operator (bx_cts_host x) of
             Inl e \<Rightarrow> Inl e
           | Inr host \<Rightarrow> (case bot_id_for host of
               Inl e \<Rightarrow> Inl e
             | Inr (Some b) \<Rightarrow> Inr (Some b)
             | Inr None \<Rightarrow> Inr (operator_bot_id operator)))
     in case existing of
       None \<Rightarrow> by_default
     | Some r \<Rightarrow>
         if truthy (cc_anchor_bot_id r) then Inr (cc_anchor_bot_id r)
         else if truthy (cc_anchor_cts_host r) then
           (case bot_id_for (cc_anchor_cts_host r) of
              Inl e \<Rightarrow> Inl e
            | Inr (Some b) \<Rightarrow> Inr (Some b)
            | Inr None \<Rightarrow> by_default)
         else by_default)"

section \<open>Saving configurations\<close>

definition save_config :: "chat_config_record \<Rightarrow> bot_operator_context \<Rightarrow> ('w, chat_config_record) bot" where
  "save_config r operator =
    bind (lift_outcome (make_chat_config r)) (\<lambda>r.
    bind (on_part bt_configs (\<lambda>c s. s\<lparr>bt_configs := c\<rparr>) (total_op (chat_config_save r))) (\<lambda>saved.
    bind (lift_outcome (ensure_owner saved (Some (op_huid operator)))) (\<lambda>_. ret saved)))"

definition created_or_now :: "'w bot_services \<Rightarrow> chat_config_record option \<Rightarrow> ('w, datetime) bot" where
  "created_or_now bv existing = (case existing of None \<Rightarrow> bot_now bv | Some r \<Rightarrow> ret (cc_created_at r))"

text \<open>A field of the new configuration: as given, else as it was, else the default.\<close>

definition chosen :: "'a option \<Rightarrow> (chat_config_record \<Rightarrow> 'a) \<Rightarrow> chat_config_record option \<Rightarrow> 'a \<Rightarrow> 'a" where
  "chosen given field existing standard =
    (case given of Some v \<Rightarrow> v | None \<Rightarrow> (case existing of Some r \<Rightarrow> field r | None \<Rightarrow> standard))"

definition kept :: "(chat_config_record \<Rightarrow> 'a option) \<Rightarrow> chat_config_record option \<Rightarrow> 'a option" where
  "kept field existing = (case existing of Some r \<Rightarrow> field r | None \<Rightarrow> None)"

text \<open>\<open>options.field or (existing.field or default)\<close>: an empty value counts as not given.\<close>

definition chosen_text :: "string option \<Rightarrow> (chat_config_record \<Rightarrow> string) \<Rightarrow> chat_config_record option \<Rightarrow> string \<Rightarrow> string" where
  "chosen_text given field existing standard =
    chosen (if truthy given then given else None) field existing standard"

definition chosen_target_title ::
    "migration_run_options \<Rightarrow> chat_config_record option \<Rightarrow> string \<Rightarrow> source_dialog \<Rightarrow> string option" where
  "chosen_target_title opts existing strategy d =
    (let title = (case ro_target_title opts of
         Some t \<Rightarrow> Some t
       | None \<Rightarrow> (case existing of
           Some r \<Rightarrow> cc_target_title r
         | None \<Rightarrow> if strategy = ''create'' then Some (sd_title d) else None))
     in if strategy = ''create'' \<and> \<not> truthy title then py_or (Some (sd_title d)) (Some (sd_dialog_id d)) else title)"

definition save_chat_config ::
    "'w bot_services \<Rightarrow> bot_context \<Rightarrow> bot_operator_context \<Rightarrow> source_dialog \<Rightarrow> migration_run_options
      \<Rightarrow> chat_config_record option \<Rightarrow> ('w, chat_config_record) bot" where
  "save_chat_config bv x operator d opts existing =
    bind (lift_outcome (require_migration_id bv)) (\<lambda>migration.
    bind (lift_outcome (ensure_owner_of_some existing (Some (op_huid operator)))) (\<lambda>_.
    let strategy = chosen_text (ro_target_strategy opts) cc_target_strategy existing ''create'' in
    bind (lift_outcome (ensure_supported_source_backend
      (Some (chosen_text (ro_source_backend opts) cc_source_backend existing supported_source_backend)))) (\<lambda>backend.
    let target_chat = (case ro_target_chat_id opts of Some c \<Rightarrow> Some c | None \<Rightarrow> kept cc_target_chat_id existing) in
    if strategy = ''bind'' \<and> \<not> truthy target_chat
    then throw (ConfigurationError ''target_chat_id is required when target=bind'')
    else
      bind (lift_outcome (resolve_operator_anchor_cts_host bv x operator existing)) (\<lambda>host.
      bind (lift_outcome (resolve_operator_anchor_bot_id bv x operator existing)) (\<lambda>bot_id.
      bind (lift_outcome (parse_datetime_or_none bv (ro_include_from opts) (kept cc_include_from existing))) (\<lambda>include_from.
      bind (lift_outcome (parse_datetime_or_none bv (ro_include_to opts) (kept cc_include_to existing))) (\<lambda>include_to.
      bind (created_or_now bv existing) (\<lambda>created.
      bind (bot_now bv) (\<lambda>updated.
      save_config
        \<lparr>cc_migration_id = migration, cc_source_chat_id = sd_dialog_id d, cc_source_chat_type = sd_chat_type d,
         cc_source_chat_title = sd_title d, cc_target_strategy = strategy,
         cc_target_title = chosen_target_title opts existing strategy d, cc_target_chat_id = target_chat,
         cc_include_from = include_from, cc_include_to = include_to,
         cc_migrate_media = chosen (ro_migrate_media opts) cc_migrate_media existing
           (md_migrate_media default_manifest_defaults),
         cc_reply_mode = chosen (ro_reply_mode opts) cc_reply_mode existing (md_reply_mode default_manifest_defaults),
         cc_identity_policy = chosen (ro_identity_policy opts) cc_identity_policy existing
           (md_identity_policy default_manifest_defaults),
         cc_updated_by_huid = op_huid operator, cc_created_at = created, cc_updated_at = updated,
         cc_anchor_cts_host = host, cc_anchor_bot_id = bot_id,
         cc_topic_strategy = chosen (ro_topic_strategy opts) cc_topic_strategy existing ''single_chat'',
         cc_source_backend = backend,
         cc_access_strategy = chosen_text (ro_access_strategy opts) cc_access_strategy existing ''direct_add'',
         cc_telegram_chat_id = kept cc_telegram_chat_id existing,
         cc_source_topic_id = kept cc_source_topic_id existing,
         cc_source_thread_id = kept cc_source_thread_id existing,
         cc_source_thread_title = kept cc_source_thread_title existing,
         cc_skip_in_all = chosen (ro_skip_in_all opts) cc_skip_in_all existing False\<rparr> operator)))))))))"

definition discover_dialog :: "'w bot_services \<Rightarrow> bot_context \<Rightarrow> string \<Rightarrow> string \<Rightarrow> ('w, source_dialog) bot" where
  "discover_dialog bv x chat requested =
    bind (lift_outcome (ensure_supported_source_backend (Some requested))) (\<lambda>backend.
    if backend = ''telegram_export_archive'' then
      bind (get_state (\<lambda>s. export_snapshot_get (bt_snapshots s) chat)) (\<lambda>snapshot.
      case snapshot of
        Some e \<Rightarrow> ret \<lparr>sd_dialog_id = ex_source_chat_id e, sd_chat_type = ex_source_chat_type e,
          sd_title = ex_source_chat_title e, sd_message_count = ex_message_count e,
          sd_media_count = ex_media_count e, sd_approximate_bytes = ex_approximate_bytes e, sd_has_topics = False\<rparr>
      | None \<Rightarrow>
          bind (lift_outcome (require_migration_id bv)) (\<lambda>migration.
          bind (find_config migration chat) (\<lambda>existing.
          case existing of
            Some r \<Rightarrow> ret \<lparr>sd_dialog_id = cc_source_chat_id r, sd_chat_type = cc_source_chat_type r,
              sd_title = cc_source_chat_title r, sd_message_count = 0, sd_media_count = 0,
              sd_approximate_bytes = 0, sd_has_topics = False\<rparr>
          | None \<Rightarrow> throw (ConfigurationError (''source_chat_id='' @ py_repr chat
              @ '' was not found in staged Telegram export archives'')))))
    else
      bind (outside_bot (bv_source_dialog bv x chat backend)) (\<lambda>found.
      case found of
        Some d \<Rightarrow> ret d
      | None \<Rightarrow> throw (ConfigurationError (''source_chat_id='' @ py_repr chat
          @ '' was not found in Telegram dialogs''))))"

definition upsert_chat_config ::
    "'w bot_services \<Rightarrow> bot_context \<Rightarrow> bot_operator_context \<Rightarrow> string \<Rightarrow> migration_run_options
      \<Rightarrow> ('w, chat_config_record) bot" where
  "upsert_chat_config bv x operator chat opts =
    bind (lift_outcome (require_migration_id bv)) (\<lambda>migration.
    bind (find_config migration chat) (\<lambda>existing.
    bind (discover_dialog bv x chat
      (chosen_text (ro_source_backend opts) cc_source_backend existing supported_source_backend)) (\<lambda>d.
    save_chat_config bv x operator d opts existing)))"

section \<open>Forums split by topic\<close>

definition save_topic_config ::
    "'w bot_services \<Rightarrow> string \<Rightarrow> bot_operator_context \<Rightarrow> source_dialog \<Rightarrow> migration_run_options
      \<Rightarrow> chat_config_record \<Rightarrow> string \<Rightarrow> chat_config_record list \<Rightarrow> source_topic \<Rightarrow> ('w, unit) bot" where
  "save_topic_config bv migration operator d opts parent base_title records topic =
    (if so_topic_id topic = []
     then throw (ConfigurationError (''topic in source_chat_id='' @ sd_dialog_id d @ '' has no topic_id''))
     else
       let chat = topic_source_chat_id (sd_dialog_id d) (so_topic_id topic);
           existing = List.find (\<lambda>r. cc_source_chat_id r = chat) records;
           title = base_title @ '' / '' @ so_title topic
       in bind (lift_outcome (ensure_owner_of_some existing (Some (op_huid operator)))) (\<lambda>_.
          bind (lift_outcome (case ro_source_backend opts of
              Some b \<Rightarrow> ensure_supported_source_backend (Some b)
            | None \<Rightarrow> (case existing of
                Some r \<Rightarrow> ensure_supported_source_backend (Some (cc_source_backend r))
              | None \<Rightarrow> Inr supported_source_backend))) (\<lambda>backend.
          bind (lift_outcome (parse_datetime_or_none bv (ro_include_from opts) (kept cc_include_from existing))) (\<lambda>include_from.
          bind (lift_outcome (parse_datetime_or_none bv (ro_include_to opts) (kept cc_include_to existing))) (\<lambda>include_to.
          bind (created_or_now bv existing) (\<lambda>created.
          bind (bot_now bv) (\<lambda>updated.
          bind (save_config
            \<lparr>cc_migration_id = migration, cc_source_chat_id = chat, cc_source_chat_type = sd_chat_type d,
             cc_source_chat_title = title, cc_target_strategy = ''create'', cc_target_title = Some title,
             cc_target_chat_id = None, cc_include_from = include_from, cc_include_to = include_to,
             cc_migrate_media = chosen (ro_migrate_media opts) cc_migrate_media existing
               (md_migrate_media default_manifest_defaults),
             cc_reply_mode = chosen (ro_reply_mode opts) cc_reply_mode existing (md_reply_mode default_manifest_defaults),
             cc_identity_policy = chosen (ro_identity_policy opts) cc_identity_policy existing
               (md_identity_policy default_manifest_defaults),
             cc_updated_by_huid = op_huid operator, cc_created_at = created, cc_updated_at = updated,
             cc_anchor_cts_host = (case existing of Some r \<Rightarrow> cc_anchor_cts_host r | None \<Rightarrow> cc_anchor_cts_host parent),
             cc_anchor_bot_id = (case existing of Some r \<Rightarrow> cc_anchor_bot_id r | None \<Rightarrow> cc_anchor_bot_id parent),
             cc_topic_strategy = ''split_by_topic'', cc_source_backend = backend,
             cc_access_strategy = chosen (ro_access_strategy opts) cc_access_strategy existing ''direct_add'',
             cc_telegram_chat_id = Some (sd_dialog_id d), cc_source_topic_id = Some (so_topic_id topic),
             cc_source_thread_id = Some (so_topic_id topic), cc_source_thread_title = Some (so_title topic),
             cc_skip_in_all = chosen (ro_skip_in_all opts) cc_skip_in_all existing False\<rparr> operator) (\<lambda>_. ret ()))))))))"

definition root_options :: "migration_run_options \<Rightarrow> migration_run_options" where
  "root_options opts = opts\<lparr>ro_target_strategy := Some ''create'', ro_target_chat_id := None,
     ro_topic_strategy := Some ''split_by_topic''\<rparr>"

definition save_split_topic_chat_configs ::
    "'w bot_services \<Rightarrow> bot_context \<Rightarrow> bot_operator_context \<Rightarrow> source_dialog \<Rightarrow> migration_run_options
      \<Rightarrow> chat_config_record option \<Rightarrow> ('w, unit) bot" where
  "save_split_topic_chat_configs bv x operator d opts existing =
    (if chosen_text (ro_target_strategy opts) cc_target_strategy existing ''create'' \<noteq> ''create''
     then throw (ConfigurationError ''split_by_topic supports only target=create; per-topic bind is not implemented'')
     else
       bind (outside_bot (bv_topics bv x (sd_dialog_id d)
         (chosen_text (ro_source_backend opts) cc_source_backend existing supported_source_backend))) (\<lambda>topics.
       if topics = []
       then throw (ConfigurationError (''forum topics were not found for source_chat_id='' @ sd_dialog_id d))
       else
         bind (save_chat_config bv x operator d (root_options opts) existing) (\<lambda>parent.
         bind (lift_outcome (require_migration_id bv)) (\<lambda>migration.
         let base_title = py_strip (or_empty (py_or (ro_target_title opts)
               (py_or (Some (sd_title d)) (Some (sd_dialog_id d))))) in
         bind (list_configs migration) (\<lambda>records.
         for_each (save_topic_config bv migration operator d opts parent base_title records) topics)))))"

section \<open>Configuring every chat\<close>

text \<open>
  Every chat Telegram lists gets a configuration, unless it has one. One that another operator saves
  at the same time is left to him.
\<close>

definition bootstrap_chat ::
    "'w bot_services \<Rightarrow> bot_context \<Rightarrow> string \<Rightarrow> bot_operator_context \<Rightarrow> migration_run_options \<Rightarrow> source_dialog
      \<Rightarrow> ('w, unit) bot" where
  "bootstrap_chat bv x migration operator opts d =
    catch_error (bind (save_chat_config bv x operator d opts None) (\<lambda>_. ret ()))
      (\<lambda>e. case e of
         ConfigurationError t \<Rightarrow> Some (bind (find_config migration (sd_dialog_id d)) (\<lambda>existing.
           case existing of
             None \<Rightarrow> throw e
           | Some r \<Rightarrow> if cc_updated_by_huid r = op_huid operator then throw e else ret ()))
       | _ \<Rightarrow> None)"

fun bootstrap_chats ::
    "'w bot_services \<Rightarrow> bot_context \<Rightarrow> string \<Rightarrow> bot_operator_context \<Rightarrow> migration_run_options \<Rightarrow> string list
      \<Rightarrow> source_dialog list \<Rightarrow> ('w, unit) bot" where
  "bootstrap_chats bv x migration operator opts known [] = ret ()"
| "bootstrap_chats bv x migration operator opts known (d # ds) =
    (if sd_dialog_id d \<in> set known then bootstrap_chats bv x migration operator opts known ds
     else bind (bootstrap_chat bv x migration operator opts d) (\<lambda>_.
       bootstrap_chats bv x migration operator opts (sd_dialog_id d # known) ds))"

definition bootstrap_options :: "migration_run_options \<Rightarrow> migration_run_options" where
  "bootstrap_options opts = opts\<lparr>ro_access_strategy := py_or (ro_access_strategy opts) (Some ''invite_link''),
     ro_source_backend := Some supported_source_backend\<rparr>"

definition load_or_bootstrap_config_manifest ::
    "'w bot_services \<Rightarrow> bot_context \<Rightarrow> bot_operator_context \<Rightarrow> migration_run_options \<Rightarrow> ('w, migration_manifest) bot" where
  "load_or_bootstrap_config_manifest bv x operator opts =
    bind (lift_outcome (require_migration_id bv)) (\<lambda>migration.
    bind (list_configs migration) (\<lambda>configs.
    bind (outside_bot (bv_available_dialogs bv x 1000 None supported_source_backend)) (\<lambda>discovered.
    bind (bootstrap_chats bv x migration operator (bootstrap_options opts) (map cc_source_chat_id configs) discovered) (\<lambda>_.
    bind (load_config_manifest bv (Some (op_huid operator)) None True False) (\<lambda>m.
    ret (apply_run_overrides m (manifest_chats m) opts))))))"

end
