(* ===== verification/Bot_Commands.thy ===== *)
theory Bot_Commands
  imports Chat_Configs Inventory Lifecycle
begin

text \<open>
  The commands of \<open>MigrationBotControlService\<close> that configure chats, start jobs and report on a
  migration. Each takes the context it is called in and the operator who calls it.
\<close>

section \<open>Listing and configuring chats\<close>

record bot_available_chat =
  av_source_chat_id :: string
  av_source_chat_type :: string
  av_source_chat_title :: string
  av_message_count :: int
  av_media_count :: int
  av_approximate_bytes :: int
  av_configured :: bool
  av_has_progress :: bool
  av_imported_count :: nat
  av_mapped_total :: nat
  av_last_source_message_id :: "string option"

definition progress_hints_for :: "string \<Rightarrow> string list \<Rightarrow> ('w, bot_progress_hint list) bot" where
  "progress_hints_for migration chats =
    get_state (\<lambda>s. progress_hints migration chats (im_messages (bt_import s)) (im_checkpoints (bt_import s)))"

definition configured_chat_ids :: "'w bot_services \<Rightarrow> string option \<Rightarrow> chat_config_repo \<Rightarrow> string list" where
  "configured_chat_ids bv huid repo =
    (let rs = filter (\<lambda>r. huid = None \<or> Some (cc_updated_by_huid r) = huid) (chat_config_list (bv_migration_id bv) repo)
     in map cc_source_chat_id rs @ List.map_filter cc_telegram_chat_id rs)"

definition available_chat_of :: "string list \<Rightarrow> bot_progress_hint list \<Rightarrow> source_dialog \<Rightarrow> bot_available_chat" where
  "available_chat_of configured hints d =
    (let hint = dict_get (index_by ph_source_chat_id hints) (sd_dialog_id d)
     in \<lparr>av_source_chat_id = sd_dialog_id d, av_source_chat_type = sd_chat_type d, av_source_chat_title = sd_title d,
         av_message_count = sd_message_count d, av_media_count = sd_media_count d,
         av_approximate_bytes = sd_approximate_bytes d, av_configured = (sd_dialog_id d \<in> set configured),
         av_has_progress = (hint \<noteq> None),
         av_imported_count = (case hint of None \<Rightarrow> 0 | Some h \<Rightarrow> ph_imported_count h),
         av_mapped_total = (case hint of None \<Rightarrow> 0 | Some h \<Rightarrow> ph_mapped_total h),
         av_last_source_message_id = (case hint of None \<Rightarrow> None | Some h \<Rightarrow> ph_last_source_message_id h)\<rparr>)"

definition list_available_chats ::
    "'w bot_services \<Rightarrow> bot_context \<Rightarrow> bot_operator_context \<Rightarrow> int \<Rightarrow> string option \<Rightarrow> string
      \<Rightarrow> ('w, bot_available_chat list) bot" where
  "list_available_chats bv x operator limit query backend =
    bind (authorize bv operator) (\<lambda>_.
    execute_for_source_backends bv x operator [backend] (\<lambda>x.
      bind (lift_outcome (require_migration_id bv)) (\<lambda>migration.
      bind (get_state (\<lambda>s. configured_chat_ids bv (Some (op_huid operator)) (bt_configs s))) (\<lambda>configured.
      bind (progress_hints_for migration (sort (remdups configured))) (\<lambda>hints.
      bind (outside_bot (bv_available_dialogs bv x limit query backend)) (\<lambda>ds.
      ret (map (available_chat_of configured hints) ds)))))))"

record bot_chat_configuration_result =
  ccr_record :: chat_config_record
  ccr_include_from :: "string option"
  ccr_include_to :: "string option"
  ccr_configured_via :: string
  ccr_progress_hint :: "bot_progress_hint option"

text \<open>The result repeats the fields of the record, the times as text.\<close>

definition chat_configuration_result :: "chat_config_record \<Rightarrow> ('w, bot_chat_configuration_result) bot" where
  "chat_configuration_result r =
    bind (progress_hints_for (cc_migration_id r) [cc_source_chat_id r]) (\<lambda>hints.
    ret \<lparr>ccr_record = r, ccr_include_from = format_datetime (cc_include_from r),
      ccr_include_to = format_datetime (cc_include_to r), ccr_configured_via = ''db'',
      ccr_progress_hint = (case hints of [] \<Rightarrow> None | h # _ \<Rightarrow> Some h)\<rparr>)"

definition configure_chat ::
    "'w bot_services \<Rightarrow> bot_context \<Rightarrow> bot_operator_context \<Rightarrow> string \<Rightarrow> migration_run_options
      \<Rightarrow> ('w, bot_chat_configuration_result) bot" where
  "configure_chat bv x operator chat opts =
    bind (authorize bv operator) (\<lambda>_.
    bind (source_backend_for_chat bv chat (ro_source_backend opts)) (\<lambda>backend.
    bind (execute_for_source_backends bv x operator [backend] (\<lambda>x. upsert_chat_config bv x operator chat opts))
      chat_configuration_result))"

definition show_chat ::
    "'w bot_services \<Rightarrow> bot_operator_context \<Rightarrow> string \<Rightarrow> ('w, bot_chat_configuration_result) bot" where
  "show_chat bv operator chat =
    bind (authorize bv operator) (\<lambda>_.
    bind (lift_outcome (require_migration_id bv)) (\<lambda>migration.
    bind (find_config migration chat) (\<lambda>found.
    case found of
      None \<Rightarrow> throw (ConfigurationError (''source_chat_id='' @ py_repr chat @ '' is not configured; use /configure first''))
    | Some r \<Rightarrow>
        bind (lift_outcome (ensure_owner r (Some (op_huid operator)))) (\<lambda>_. chat_configuration_result r))))"

definition show_or_configure_chat ::
    "'w bot_services \<Rightarrow> bot_context \<Rightarrow> bot_operator_context \<Rightarrow> string \<Rightarrow> ('w, bot_chat_configuration_result) bot" where
  "show_or_configure_chat bv x operator chat =
    bind (authorize bv operator) (\<lambda>_.
    bind (lift_outcome (require_migration_id bv)) (\<lambda>migration.
    bind (find_config migration chat) (\<lambda>found.
    case found of
      Some r \<Rightarrow> bind (lift_outcome (ensure_owner r (Some (op_huid operator)))) (\<lambda>_. chat_configuration_result r)
    | None \<Rightarrow> configure_chat bv x operator chat default_run_options)))"

section \<open>The participants of a chat\<close>

text \<open>The note of a listing; the first kind quotes the error of Telegram.\<close>

datatype listing_note = ListingRefused string | ListingBestEffort

record bot_chat_user_matrix =
  um_source_chat_id :: string
  um_source_chat_type :: string
  um_source_chat_title :: string
  um_entries :: "participant_row list"
  um_note :: "listing_note option"

definition list_chat_users ::
    "'w bot_services \<Rightarrow> bot_context \<Rightarrow> bot_operator_context \<Rightarrow> string \<Rightarrow> ('w, bot_chat_user_matrix) bot" where
  "list_chat_users bv x operator chat =
    bind (authorize bv operator) (\<lambda>_.
    bind (source_backend_for_chat bv chat None) (\<lambda>backend.
    bind (lift_outcome (require_migration_id bv)) (\<lambda>migration.
    bind (find_config migration chat) (\<lambda>found.
    bind (lift_outcome (ensure_owner_of_some found (Some (op_huid operator)))) (\<lambda>_.
    execute_for_source_backends bv x operator [backend] (\<lambda>x.
      bind (discover_dialog bv x chat backend) (\<lambda>d.
      bind (catch_error
          (bind (in_import (list_participant_matrix (bv_provisioning bv x) chat
             (case found of None \<Rightarrow> None | Some r \<Rightarrow> cc_telegram_chat_id r) backend)) (\<lambda>rows. ret (rows, None)))
          (\<lambda>e. case e of
             FatalItemError t \<Rightarrow>
               Some (if sd_chat_type d \<noteq> ''channel'' then throw e else ret ([], Some (ListingRefused t)))
           | _ \<Rightarrow> None)) (\<lambda>(rows, note).
      ret \<lparr>um_source_chat_id = sd_dialog_id d, um_source_chat_type = sd_chat_type d,
        um_source_chat_title = sd_title d, um_entries = rows,
        um_note = (if note \<noteq> None then note
          else if sd_chat_type d = ''channel'' then Some ListingBestEffort else None)\<rparr>))))))))"

section \<open>Chats that are migrated already\<close>

definition linked_chat :: "'w bot_services \<Rightarrow> bot_context \<Rightarrow> chat_mapping_record \<Rightarrow> ('w, string option) bot" where
  "linked_chat bv x mapping =
    under_cts_host bv x (cm_anchor_cts_host mapping) (\<lambda>x. outside_bot (bv_chat_link bv x (cm_target_chat_id mapping)))"

definition find_chat_mapping :: "string \<Rightarrow> string \<Rightarrow> ('w, chat_mapping_record option) bot" where
  "find_chat_mapping migration chat = get_state (\<lambda>s. chat_mapping_get (im_chats (bt_import s)) (migration, chat))"

text \<open>
  None unless every topic is migrated. The code reads an attribute that a configuration does not
  have when a topic has no title.
\<close>

fun topic_targets ::
    "'w bot_services \<Rightarrow> bot_context \<Rightarrow> string \<Rightarrow> chat_config_record list \<Rightarrow> ('w, bot_topic_target list option) bot" where
  "topic_targets bv x migration [] = ret (Some [])"
| "topic_targets bv x migration (r # rs) =
    bind (find_chat_mapping migration (cc_source_chat_id r)) (\<lambda>found.
    case found of
      None \<Rightarrow> ret None
    | Some mapping \<Rightarrow>
        if cm_status mapping \<noteq> ''completed'' then ret None
        else
          bind (linked_chat bv x mapping) (\<lambda>link.
          if \<not> truthy (cc_source_thread_title r)
          then throw (OtherError ''AttributeError''
            ''ChatMigrationConfigRecord object has no attribute target_chat_title'')
          else
            bind (topic_targets bv x migration rs) (\<lambda>rest.
            ret (case rest of
              None \<Rightarrow> None
            | Some ts \<Rightarrow> Some (\<lparr>tt_source_chat_id = cc_source_chat_id r, tt_topic_id = cc_source_topic_id r,
                tt_topic_title = or_empty (cc_source_thread_title r), tt_target_chat_id = cm_target_chat_id mapping,
                tt_target_chat_title = cm_target_chat_title mapping, tt_target_chat_link = link\<rparr> # ts)))))"

definition completed_chat_already_migrated_result ::
    "'w bot_services \<Rightarrow> bot_context \<Rightarrow> string \<Rightarrow> source_dialog \<Rightarrow> string option
      \<Rightarrow> ('w, bot_operation_accepted_result option) bot" where
  "completed_chat_already_migrated_result bv x migration d huid =
    bind (find_config migration (sd_dialog_id d)) (\<lambda>config.
    bind (lift_outcome (ensure_owner_of_some config huid)) (\<lambda>_.
    bind (find_chat_mapping migration (sd_dialog_id d)) (\<lambda>mapping.
    let found = make_result ''already_migrated'' ''migrate_chat'' migration [sd_dialog_id d] in
    if mapping \<noteq> None \<and> cm_status (the mapping) = ''completed'' then
      bind (progress_hints_for migration [sd_dialog_id d]) (\<lambda>hints.
      bind (linked_chat bv x (the mapping)) (\<lambda>link.
      ret (Some (found\<lparr>
        ar_reason := Some (sd_chat_type d @ '' chat has already been migrated; returning the existing target chat''),
        ar_progress_hints := hints, ar_target_chat_id := Some (cm_target_chat_id (the mapping)),
        ar_target_chat_title := Some (cm_target_chat_title (the mapping)), ar_target_chat_link := link\<rparr>))))
    else
      bind (get_state (\<lambda>s. split_topic_configs_for_root migration (sd_dialog_id d) (bt_configs s))) (\<lambda>topics.
      if topics = [] then ret None
      else
        bind (topic_targets bv x migration topics) (\<lambda>targets.
        case targets of
          None \<Rightarrow> ret None
        | Some ts \<Rightarrow>
            bind (progress_hints_for migration (map cc_source_chat_id topics)) (\<lambda>hints.
            ret (Some (found\<lparr>
              ar_reason := Some (''forum supergroup has already been migrated by topic; ''
                @ ''returning the existing target chats''),
              ar_progress_hints := hints, ar_topic_targets := ts\<rparr>))))))))"

section \<open>Effective settings\<close>

definition normalized_setting :: "string \<Rightarrow> string option" where
  "normalized_setting v = (let n = py_lower (py_strip v) in if n = [] then None else Some n)"

definition effective_setting ::
    "(chat_config_record \<Rightarrow> string) \<Rightarrow> string \<Rightarrow> string \<Rightarrow> string option \<Rightarrow> ('w, string option) bot" where
  "effective_setting field migration chat requested =
    (case requested of
       Some v \<Rightarrow> ret (normalized_setting v)
     | None \<Rightarrow> bind (find_config migration chat) (\<lambda>found.
         ret (case found of None \<Rightarrow> None | Some r \<Rightarrow> normalized_setting (field r))))"

definition effective_identity_policy :: "string \<Rightarrow> string \<Rightarrow> string option \<Rightarrow> ('w, string option) bot" where
  "effective_identity_policy = effective_setting cc_identity_policy"

definition effective_access_strategy :: "string \<Rightarrow> string \<Rightarrow> string option \<Rightarrow> ('w, string option) bot" where
  "effective_access_strategy = effective_setting cc_access_strategy"

definition effective_topic_strategy :: "string \<Rightarrow> string \<Rightarrow> string option \<Rightarrow> ('w, string option) bot" where
  "effective_topic_strategy migration chat requested =
    (case requested of
       Some v \<Rightarrow> ret (normalized_setting v)
     | None \<Rightarrow> bind (find_config migration chat) (\<lambda>found.
         case (case found of None \<Rightarrow> None | Some r \<Rightarrow> normalized_setting (cc_topic_strategy r)) of
           Some v \<Rightarrow> ret (Some v)
         | None \<Rightarrow> bind (get_state (\<lambda>s. split_topic_configs_for_root migration chat (bt_configs s))) (\<lambda>topics.
             ret (if topics \<noteq> [] then Some ''split_by_topic'' else None))))"

section \<open>Starting jobs\<close>

definition validate_manifest_preconditions ::
    "'w bot_services \<Rightarrow> bot_context \<Rightarrow> migration_manifest \<Rightarrow> ('w, unit) bot" where
  "validate_manifest_preconditions bv x m =
    for_each (\<lambda>d.
      if dlg_source_backend d = ''telegram_bot_api_live'' \<and> dlg_source_chat_type d \<notin> {''group'', ''supergroup''}
      then throw (ConfigurationError (''source_backend=telegram_bot_api_live currently supports only ''
        @ ''group/supergroup chats with observed capture''))
      else in_import (validate_dialog_preconditions (bv_provisioning bv x) (mf_migration_id m) d)) (mf_dialogs m)"

text \<open>The readings and identifiers of the next starts, judged in the host of the context.\<close>

definition start_environments :: "'w bot_services \<Rightarrow> bot_context \<Rightarrow> ('w, nat \<Rightarrow> bot_control_env) bot" where
  "start_environments bv x =
    bind (outside_bot (total_op (bv_starts bv))) (\<lambda>envs. ret (\<lambda>n. (envs n)\<lparr>be_context_host := bx_cts_host x\<rparr>))"

definition start_job ::
    "'w bot_services \<Rightarrow> bot_context \<Rightarrow> bot_operator_context \<Rightarrow> string \<Rightarrow> migration_manifest \<Rightarrow> string list
      \<Rightarrow> migration_run_options \<Rightarrow> ('w, bot_operation_accepted_result) bot" where
  "start_job bv x operator operation m chats opts =
    bind (start_environments bv x) (\<lambda>envs.
    in_control (start_background_operation (bv_control bv) (envs 0) operator operation m chats opts))"

definition start_jobs ::
    "'w bot_services \<Rightarrow> bot_context \<Rightarrow> bot_operator_context \<Rightarrow> string \<Rightarrow> string \<Rightarrow> migration_manifest
      \<Rightarrow> string list \<Rightarrow> migration_run_options \<Rightarrow> ('w, bot_operation_accepted_result) bot" where
  "start_jobs bv x operator aggregate operation m chats opts =
    bind (start_environments bv x) (\<lambda>envs.
    in_control (start_fan_out (bv_control bv) envs operator aggregate operation m chats opts))"

definition run_inventory :: "'w bot_services \<Rightarrow> bot_context \<Rightarrow> migration_manifest \<Rightarrow> ('w, inventory_result) bot" where
  "run_inventory bv x m =
    bind (bot_now bv) (\<lambda>now s.
    case inventory_execute (bv_retry bv) (bv_random bv) (bv_manifest_dialogs bv x m) m now
        (dl_world (im_delivery (bt_import s))) (bt_inventory s, bot_audit_log s) of
      (r, w, snapshots, evs) \<Rightarrow> (r, put_audit_log evs (s\<lparr>bt_inventory := snapshots,
        bt_import := (bt_import s)\<lparr>im_delivery := (im_delivery (bt_import s))\<lparr>dl_world := w\<rparr>\<rparr>\<rparr>)))"

definition start_migrate_all ::
    "'w bot_services \<Rightarrow> bot_context \<Rightarrow> bot_operator_context \<Rightarrow> migration_run_options
      \<Rightarrow> ('w, bot_operation_accepted_result) bot" where
  "start_migrate_all bv x operator opts =
    bind (authorize bv operator) (\<lambda>_.
    execute_for_source_backends bv x operator [supported_source_backend] (\<lambda>x.
      bind (load_or_bootstrap_config_manifest bv x operator opts) (\<lambda>m.
      bind (validate_manifest_preconditions bv x m) (\<lambda>_.
      let chats = manifest_chats m in
      if chats = [] then
        ret ((make_result ''blocked'' ''migrate_all'' (mf_migration_id m) [])\<lparr>
          ar_reason := Some ''no Telegram chats are configured or available for migration''\<rparr>)
      else
        bind (run_inventory bv x m) (\<lambda>_.
        start_jobs bv x operator ''migrate_all'' ''migrate_chat'' m chats opts)))))"

definition batch_size_or_default :: "'w bot_services \<Rightarrow> int option \<Rightarrow> int" where
  "batch_size_or_default bv n = (case n of None \<Rightarrow> bc_batch_size (bv_control bv)
     | Some k \<Rightarrow> if k = 0 then bc_batch_size (bv_control bv) else k)"

definition start_delta_sync ::
    "'w bot_services \<Rightarrow> bot_context \<Rightarrow> bot_operator_context \<Rightarrow> string option \<Rightarrow> int option
      \<Rightarrow> ('w, bot_operation_accepted_result) bot" where
  "start_delta_sync bv x operator chat batch_size =
    bind (authorize bv operator) (\<lambda>_.
    bind (load_runtime_manifest bv (Some (op_huid operator)) chat (chat \<noteq> None) False) (\<lambda>m.
    execute_for_source_backends bv x operator (map dlg_source_backend (mf_dialogs m)) (\<lambda>x.
      bind (validate_manifest_preconditions bv x m) (\<lambda>_.
      let chats = manifest_chats m in
      if chats = [] then
        ret ((make_result ''blocked'' ''delta_sync'' (mf_migration_id m) [])\<lparr>
          ar_reason := Some ''no Telegram chats are configured or available for delta sync''\<rparr>)
      else start_jobs bv x operator ''delta_sync'' ''delta_sync'' m chats
        (default_run_options\<lparr>ro_batch_size := Some (batch_size_or_default bv batch_size)\<rparr>)))))"

definition splits_by_topic :: "source_dialog \<Rightarrow> string option \<Rightarrow> bool" where
  "splits_by_topic d strategy \<longleftrightarrow> sd_has_topics d \<and> strategy = Some ''split_by_topic''"

text \<open>Configuring the chat once more and starting its job, or the jobs of its topics.\<close>

definition configure_and_start ::
    "'w bot_services \<Rightarrow> bot_context \<Rightarrow> bot_operator_context \<Rightarrow> string \<Rightarrow> migration_run_options \<Rightarrow> string
      \<Rightarrow> chat_config_record option \<Rightarrow> source_dialog \<Rightarrow> ('w, bot_operation_accepted_result) bot" where
  "configure_and_start bv x operator chat opts migration existing d =
    bind (effective_topic_strategy migration chat (ro_topic_strategy opts)) (\<lambda>strategy.
    bind (if splits_by_topic d strategy then save_split_topic_chat_configs bv x operator d opts existing
          else bind (save_chat_config bv x operator d opts existing) (\<lambda>_. ret ())) (\<lambda>_.
    bind (load_config_manifest bv (Some (op_huid operator)) (Some [chat]) True False) (\<lambda>loaded.
    let m = apply_run_overrides loaded (manifest_chats loaded) opts in
    bind (validate_manifest_preconditions bv x m) (\<lambda>_.
    let chats = manifest_chats m in
    if splits_by_topic d strategy \<and> 1 < length chats
    then start_jobs bv x operator ''migrate_chat'' ''migrate_chat'' m chats opts
    else start_job bv x operator ''migrate_chat'' m chats opts))))"

definition start_or_return_chat ::
    "'w bot_services \<Rightarrow> bot_context \<Rightarrow> bot_operator_context \<Rightarrow> string \<Rightarrow> migration_run_options \<Rightarrow> bool \<Rightarrow> bool
      \<Rightarrow> ('w, bot_operation_accepted_result) bot" where
  "start_or_return_chat bv x operator chat opts return_existing require_existing =
    bind (authorize bv operator) (\<lambda>_.
    bind (source_backend_for_chat bv chat (ro_source_backend opts)) (\<lambda>backend.
    execute_for_source_backends bv x operator [backend] (\<lambda>x.
      bind (lift_outcome (require_migration_id bv)) (\<lambda>migration.
      bind (find_config migration chat) (\<lambda>existing.
      bind (lift_outcome (ensure_owner_of_some existing (Some (op_huid operator)))) (\<lambda>_.
      bind (discover_dialog bv x chat backend) (\<lambda>d.
      bind (completed_chat_already_migrated_result bv x migration d (Some (op_huid operator))) (\<lambda>migrated.
      if migrated \<noteq> None \<and> return_existing then
        bind (audit_operator bv migration operator ''bot_existing_chat_migration_returned''
          [(''source_chat_id'', JStr chat), (''target_chat_id'', json_opt_str (ar_target_chat_id (the migrated))),
           (''target_chat_link'', json_opt_str (ar_target_chat_link (the migrated))),
           (''source_chat_type'', JStr (sd_chat_type d))]) (\<lambda>_. ret (the migrated))
      else if migrated = None \<and> require_existing
      then throw (ConfigurationError (''source_chat_id='' @ py_repr chat
        @ '' has not been migrated yet; use /migrate first''))
      else configure_and_start bv x operator chat opts migration existing d))))))))"

definition start_migrate_chat ::
    "'w bot_services \<Rightarrow> bot_context \<Rightarrow> bot_operator_context \<Rightarrow> string \<Rightarrow> migration_run_options
      \<Rightarrow> ('w, bot_operation_accepted_result) bot" where
  "start_migrate_chat bv x operator chat opts = start_or_return_chat bv x operator chat opts True False"

definition remigrate_chat ::
    "'w bot_services \<Rightarrow> bot_context \<Rightarrow> bot_operator_context \<Rightarrow> string \<Rightarrow> migration_run_options
      \<Rightarrow> ('w, bot_operation_accepted_result) bot" where
  "remigrate_chat bv x operator chat opts = start_or_return_chat bv x operator chat opts False True"

section \<open>Reports\<close>

definition reconcile_repos_of :: "'w bot_state \<Rightarrow> reconcile_repos" where
  "reconcile_repos_of s = \<lparr>rs_inventory = bt_inventory s, rs_messages = im_messages (bt_import s),
     rs_attachments = dl_attachments (im_delivery (bt_import s))\<rparr>"

definition run_reconcile :: "'w bot_services \<Rightarrow> migration_manifest \<Rightarrow> string option \<Rightarrow> ('w, reconcile_result) bot" where
  "run_reconcile bv m chat =
    bind (bot_now bv) (\<lambda>now s. case reconcile_execute m chat now (reconcile_repos_of s) (bot_audit_log s) of
      (r, evs) \<Rightarrow> (Inr r, put_audit_log evs s))"

definition reconcile ::
    "'w bot_services \<Rightarrow> bot_operator_context \<Rightarrow> string option \<Rightarrow> ('w, reconcile_result) bot" where
  "reconcile bv operator chat =
    bind (authorize bv operator) (\<lambda>_.
    bind (load_runtime_manifest bv (Some (op_huid operator)) chat (chat \<noteq> None) False) (\<lambda>m.
    run_reconcile bv m chat))"

record bot_checkpoint_status =
  cs_source_chat_id :: string
  cs_backfill_last :: "string option"
  cs_delta_last :: "string option"

record bot_status_result =
  st_migration_id :: string
  st_migration_state :: "lifecycle_status option"
  st_active_jobs :: "bot_active_job list"
  st_reconcile :: reconcile_result
  st_chat_checkpoints :: "bot_checkpoint_status list"

definition checkpoint_status_of :: "checkpoint_repo \<Rightarrow> string \<Rightarrow> string \<Rightarrow> bot_checkpoint_status" where
  "checkpoint_status_of repo migration chat =
    (let last = \<lambda>mode. case checkpoint_get repo (migration, chat, mode) of
           None \<Rightarrow> None | Some cp \<Rightarrow> hc_last_source_message_id (cp_cursor cp)
     in \<lparr>cs_source_chat_id = chat, cs_backfill_last = last ''backfill'', cs_delta_last = last ''delta''\<rparr>)"

definition relevant_chats :: "migration_manifest \<Rightarrow> string option \<Rightarrow> string list" where
  "relevant_chats m chat = map dlg_source_chat_id (filter (\<lambda>d. chat = None \<or> Some (dlg_source_chat_id d) = chat
     \<or> dlg_telegram_chat_id d = chat) (mf_dialogs m))"

definition status ::
    "'w bot_services \<Rightarrow> bot_context \<Rightarrow> bot_operator_context \<Rightarrow> string option \<Rightarrow> ('w, bot_status_result) bot" where
  "status bv x operator chat =
    bind (authorize bv operator) (\<lambda>_.
    bind (load_runtime_manifest bv (Some (op_huid operator)) chat (chat \<noteq> None) (chat = None)) (\<lambda>m.
    bind (run_reconcile bv m chat) (\<lambda>reconciled.
    bind (get_state (\<lambda>s. map_option ms_status (state_get (im_states (bt_import s)) (mf_migration_id m)))) (\<lambda>state.
    bind (get_state (\<lambda>s. map (checkpoint_status_of (im_checkpoints (bt_import s)) (mf_migration_id m))
      (relevant_chats m chat))) (\<lambda>checkpoints.
    bind (start_environments bv x) (\<lambda>envs.
    bind (get_state (\<lambda>s. list_active_jobs (be_active (envs 0)) (mf_migration_id m) (Some (op_huid operator)) (bt_jobs s))) (\<lambda>jobs.
    ret \<lparr>st_migration_id = mf_migration_id m, st_migration_state = state, st_active_jobs = jobs,
      st_reconcile = reconciled, st_chat_checkpoints = checkpoints\<rparr>)))))))"

record bot_stats_result =
  bst_migration_id :: string
  bst_configured_chats :: nat
  bst_foreign_managed_chats :: nat
  bst_skipped_in_all_chats :: nat
  bst_active_jobs :: nat
  bst_chats_with_progress :: nat
  bst_attention_chats :: nat
  bst_imported_messages :: nat
  bst_failed_messages :: nat
  bst_ambiguous_messages :: nat
  bst_imported_attachments :: nat
  bst_failed_attachments :: nat

definition has_progress :: "reconcile_chat_result \<Rightarrow> bool" where
  "has_progress c \<longleftrightarrow> rc_imported_count c \<noteq> 0 \<or> rc_failed_count c \<noteq> 0 \<or> rc_ambiguous_count c \<noteq> 0
    \<or> rc_processing_count c \<noteq> 0 \<or> rc_attachment_imported_count c \<noteq> 0 \<or> rc_attachment_failed_count c \<noteq> 0
    \<or> rc_attachment_ambiguous_count c \<noteq> 0 \<or> rc_attachment_processing_count c \<noteq> 0"

definition stats ::
    "'w bot_services \<Rightarrow> bot_context \<Rightarrow> bot_operator_context \<Rightarrow> ('w, bot_stats_result) bot" where
  "stats bv x operator =
    bind (authorize bv operator) (\<lambda>_.
    bind (lift_outcome (require_migration_id bv)) (\<lambda>migration.
    bind (list_configs migration) (\<lambda>records.
    let configs = filter (\<lambda>r. cc_updated_by_huid r = op_huid operator) records;
        included = filter (\<lambda>r. \<not> cc_skip_in_all r \<and> \<not> is_split_root_config r) configs;
        counted = \<lparr>bst_migration_id = migration, bst_configured_chats = length configs,
          bst_foreign_managed_chats = length (filter (\<lambda>r. cc_updated_by_huid r \<noteq> op_huid operator) records),
          bst_skipped_in_all_chats = length (filter cc_skip_in_all configs), bst_active_jobs = 0,
          bst_chats_with_progress = 0, bst_attention_chats = 0, bst_imported_messages = 0,
          bst_failed_messages = 0, bst_ambiguous_messages = 0, bst_imported_attachments = 0,
          bst_failed_attachments = 0\<rparr>
    in if included = [] then ret counted
       else
         bind (status bv x operator None) (\<lambda>st.
         ret (counted\<lparr>bst_migration_id := st_migration_id st, bst_active_jobs := length (st_active_jobs st),
           bst_chats_with_progress := length (filter has_progress (rr_chats (st_reconcile st))),
           bst_attention_chats := rr_attention_chats (st_reconcile st),
           bst_imported_messages := rr_imported_count (st_reconcile st),
           bst_failed_messages := rr_failed_count (st_reconcile st),
           bst_ambiguous_messages := rr_ambiguous_count (st_reconcile st),
           bst_imported_attachments := rr_attachment_imported_count (st_reconcile st),
           bst_failed_attachments := rr_attachment_failed_count (st_reconcile st)\<rparr>)))))"

section \<open>Pausing, resuming, cancelling\<close>

definition control_migration ::
    "(migration_manifest \<Rightarrow> datetime \<Rightarrow> state_repo \<times> audit_log
        \<Rightarrow> (error, state_control_result \<times> state_repo \<times> audit_log) outcome)
      \<Rightarrow> 'w bot_services \<Rightarrow> bot_operator_context \<Rightarrow> ('w, state_control_result) bot" where
  "control_migration command bv operator =
    bind (authorize bv operator) (\<lambda>_.
    bind (lift_outcome (require_migration_id bv)) (\<lambda>migration.
    bind (lift_outcome (construct_manifest migration [])) (\<lambda>m.
    bind (bot_now bv) (\<lambda>now s.
    case command m now (im_states (bt_import s), bot_audit_log s) of
      Inl e \<Rightarrow> (Inl e, s)
    | Inr (r, states, evs) \<Rightarrow>
        (Inr r, put_audit_log evs (s\<lparr>bt_import := (bt_import s)\<lparr>im_states := states\<rparr>\<rparr>))))))"

definition bot_pause_delta :: "'w bot_services \<Rightarrow> bot_operator_context \<Rightarrow> ('w, state_control_result) bot" where
  "bot_pause_delta = control_migration pause_delta"

definition bot_resume_delta :: "'w bot_services \<Rightarrow> bot_operator_context \<Rightarrow> ('w, state_control_result) bot" where
  "bot_resume_delta = control_migration resume_delta"

end
