(* ===== verification/Bot_Jobs.thy ===== *)
theory Bot_Jobs
  imports Bot_Commands
begin

text \<open>
  What a job of the bot does when the worker runs it, and the replay command, from
  \<open>extg_bot_ui/application/bot_control.py\<close>. Copying a history may not end, so these are runs: None
  stands for a run that goes on for ever.
\<close>

section \<open>Runs\<close>

type_synonym ('s, 'a) run = "'s \<Rightarrow> ((error, 'a) outcome \<times> 's) option"

definition ends :: "('s, 'a) action \<Rightarrow> ('s, 'a) run" where
  "ends m s = Some (m s)"

definition and_then :: "('s, 'a) run \<Rightarrow> ('a \<Rightarrow> ('s, 'b) run) \<Rightarrow> ('s, 'b) run" where
  "and_then m f s =
    (case m s of
       None \<Rightarrow> None
     | Some (Inl e, s') \<Rightarrow> Some (Inl e, s')
     | Some (Inr a, s') \<Rightarrow> f a s')"

text \<open>An \<open>except\<close> clause, as \<open>catch_error\<close>.\<close>

definition rescue :: "('s, 'a) run \<Rightarrow> (error \<Rightarrow> ('s, 'a) action option) \<Rightarrow> ('s, 'a) run" where
  "rescue m handler s =
    (case m s of
       None \<Rightarrow> None
     | Some (Inr a, s') \<Rightarrow> Some (Inr a, s')
     | Some (Inl e, s') \<Rightarrow> (case handler e of None \<Rightarrow> Some (Inl e, s') | Some h \<Rightarrow> Some (h s')))"

definition importing :: "('w import_state, 'a) run \<Rightarrow> ('w bot_state, 'a) run" where
  "importing m s = (case m (bt_import s) of None \<Rightarrow> None | Some (r, i) \<Rightarrow> Some (r, s\<lparr>bt_import := i\<rparr>))"

section \<open>Migrating chats\<close>

text \<open>
  The chats one after another; a failure of one is recorded and the next one is tried. Only a
  cancellation ends the job. \<open>operation\<close> names the events: \<open>bot_<operation>_failed\<close> for a chat.
\<close>

fun migrate_dialogs ::
    "'w bot_services \<Rightarrow> bot_context \<Rightarrow> migration_manifest \<Rightarrow> int \<Rightarrow> string \<Rightarrow> manifest_dialog list
      \<Rightarrow> (string, string) dict \<Rightarrow> ('w bot_state, (string, string) dict) run" where
  "migrate_dialogs bv x m batch_size event [] failures = ends (ret failures)"
| "migrate_dialogs bv x m batch_size event (d # ds) failures =
    and_then
      (rescue
        (and_then (importing (backfill (bv_import bv x)
            \<lparr>bfc_manifest = m, bfc_source_chat_id = dlg_source_chat_id d, bfc_batch_size = batch_size\<rparr>))
          (\<lambda>_. ends (ret failures)))
        (\<lambda>e. if e = CancelledError then None
           else Some (bind (bot_audit bv (mf_migration_id m) (Some (dlg_source_chat_id d)) event SevError
             [(''error'', JStr (error_text e))])
             (\<lambda>_. ret (dict_set (dlg_source_chat_id d) (error_text e) failures)))))
      (migrate_dialogs bv x m batch_size event ds)"

definition report_failures ::
    "'w bot_services \<Rightarrow> string \<Rightarrow> string \<Rightarrow> (string, string) dict \<Rightarrow> ('w, unit) bot" where
  "report_failures bv migration event failures =
    (if failures = [] then ret ()
     else bot_audit bv migration None event SevWarning
       [(''failed_chats'', JObj (map (\<lambda>(c, e). (c, JStr e)) failures))])"

definition run_migrate_all_job ::
    "'w bot_services \<Rightarrow> bot_context \<Rightarrow> migration_manifest \<Rightarrow> int \<Rightarrow> ('w bot_state, unit) run" where
  "run_migrate_all_job bv x m batch_size =
    and_then (ends (run_inventory bv x m)) (\<lambda>_.
    and_then (migrate_dialogs bv x m batch_size ''bot_migrate_all_chat_failed'' (mf_dialogs m) []) (\<lambda>failures.
    ends (report_failures bv (mf_migration_id m) ''bot_migrate_all_completed_with_failures'' failures)))"

definition run_migrate_chat_job ::
    "'w bot_services \<Rightarrow> bot_context \<Rightarrow> migration_manifest \<Rightarrow> string list \<Rightarrow> int \<Rightarrow> ('w bot_state, unit) run" where
  "run_migrate_chat_job bv x m chats batch_size =
    and_then (migrate_dialogs bv x m batch_size ''bot_migrate_chat_dialog_failed''
      (filter (\<lambda>d. dlg_source_chat_id d \<in> set chats) (mf_dialogs m)) []) (\<lambda>failures.
    ends (report_failures bv (mf_migration_id m) ''bot_migrate_chat_completed_with_failures'' failures))"

definition run_delta_sync_job ::
    "'w bot_services \<Rightarrow> bot_context \<Rightarrow> migration_manifest \<Rightarrow> string list \<Rightarrow> int \<Rightarrow> ('w bot_state, unit) run" where
  "run_delta_sync_job bv x m chats batch_size =
    and_then (importing (delta_sync (bv_delta bv x)
      \<lparr>dsc_manifest = m, dsc_source_chat_ids = (if chats \<noteq> [] then Some chats else None),
       dsc_batch_size = batch_size, dsc_max_events = None\<rparr>)) (\<lambda>_. ends (ret ()))"

section \<open>Running a job\<close>

definition worker_operator :: "migration_job_record \<Rightarrow> bot_operator_context" where
  "worker_operator j = \<lparr>op_huid = job_operator_huid j, op_chat_id = ''migration-worker'', op_username = None,
     op_ad_login = None, op_ad_domain = None, op_display_name = Some ''migration-worker'',
     op_current_cts_host = job_anchor_cts_host j, op_current_bot_id = job_anchor_bot_id j\<rparr>"

definition run_operation ::
    "'w bot_services \<Rightarrow> bot_context \<Rightarrow> migration_job_record \<Rightarrow> migration_manifest \<Rightarrow> ('w bot_state, unit) run" where
  "run_operation bv x j m =
    (if job_operation j = ''migrate_all'' then run_migrate_all_job bv x m (job_batch_size j)
     else if job_operation j \<in> {''migrate_chat'', ''import_archive_chat''}
     then run_migrate_chat_job bv x m (job_source_chat_ids j) (job_batch_size j)
     else if job_operation j = ''delta_sync''
     then run_delta_sync_job bv x m (job_source_chat_ids j) (job_batch_size j)
     else ends (throw (ConfigurationError
       (''unsupported migration job operation='' @ py_repr (job_operation j)))))"

definition job_anchor_host :: "'w bot_services \<Rightarrow> migration_job_record \<Rightarrow> migration_manifest \<Rightarrow> (error, string option) outcome" where
  "job_anchor_host bv j m =
    (if truthy (job_anchor_cts_host j) then Inr (job_anchor_cts_host j)
     else resolve_manifest_anchor_cts_host (bv_control bv) m (job_source_chat_ids j))"

text \<open>The manifest of the job and the context it runs in, with the session of its operator.\<close>

definition prepare_job ::
    "'w bot_services \<Rightarrow> bot_context \<Rightarrow> migration_job_record \<Rightarrow> ('w, migration_manifest \<times> bot_context) bot" where
  "prepare_job bv x j =
    bind (load_config_manifest bv (Some (job_operator_huid j))
      (if job_source_chat_ids j \<noteq> [] then Some (job_source_chat_ids j) else None) True False) (\<lambda>m.
    bind (lift_outcome (job_anchor_host bv j m)) (\<lambda>host.
    bind (lift_outcome (cts_host_context bv x host)) (\<lambda>x.
    bind (source_backends_context bv x (worker_operator j) (map dlg_source_backend (mf_dialogs m))) (\<lambda>x.
    ret (m, x)))))"

definition execute_migration_job ::
    "'w bot_services \<Rightarrow> bot_context \<Rightarrow> migration_job_record \<Rightarrow> ('w bot_state, unit) run" where
  "execute_migration_job bv x j =
    and_then (ends (prepare_job bv x j)) (\<lambda>(m, x).
    and_then (ends (validate_manifest_preconditions bv x m)) (\<lambda>_.
    run_operation bv x j m))"

section \<open>Replaying failed messages\<close>

definition empty_replay_result :: "string \<Rightarrow> replay_result" where
  "empty_replay_result migration = \<lparr>rr_migration = migration, rr_requested = 0, rr_recovered = 0, rr_failed = 0,
     rr_ambiguous = 0, rr_missing = 0, rr_skipped = 0, rr_source_chat_ids = []\<rparr>"

definition merge_replay_results :: "replay_result \<Rightarrow> replay_result \<Rightarrow> replay_result" where
  "merge_replay_results a p = \<lparr>rr_migration = rr_migration p, rr_requested = rr_requested a + rr_requested p,
     rr_recovered = rr_recovered a + rr_recovered p, rr_failed = rr_failed a + rr_failed p,
     rr_ambiguous = rr_ambiguous a + rr_ambiguous p, rr_missing = rr_missing a + rr_missing p,
     rr_skipped = rr_skipped a + rr_skipped p,
     rr_source_chat_ids = sort (remdups (rr_source_chat_ids a @ rr_source_chat_ids p))\<rparr>"

fun group_dialogs_by_anchor ::
    "'w bot_services \<Rightarrow> manifest_dialog list \<Rightarrow> (string option, manifest_dialog list) dict
      \<Rightarrow> (error, (string option, manifest_dialog list) dict) outcome" where
  "group_dialogs_by_anchor bv [] groups = Inr groups"
| "group_dialogs_by_anchor bv (d # ds) groups =
    (case normalized_host bv (dlg_anchor_cts_host d) of
       Inl e \<Rightarrow> Inl e
     | Inr host \<Rightarrow> group_dialogs_by_anchor bv ds (dict_extend host [d] groups))"

definition group_manifest_dialogs_by_anchor ::
    "'w bot_services \<Rightarrow> migration_manifest \<Rightarrow> (error, (string option \<times> manifest_dialog list) list) outcome" where
  "group_manifest_dialogs_by_anchor bv m = group_dialogs_by_anchor bv (mf_dialogs m) []"

text \<open>
  The replays, one for each host, or for each topic when the requested chat is a forum: each with its
  host, the dialogs of its manifest and the chat it is restricted to.
\<close>

definition replay_parts ::
    "string option \<Rightarrow> (string option \<times> manifest_dialog list) list
      \<Rightarrow> (string option \<times> manifest_dialog list \<times> string option) list" where
  "replay_parts chat groups =
    (if chat \<noteq> None \<and> (\<forall>(host, ds) \<in> set groups. \<forall>d \<in> set ds. Some (dlg_source_chat_id d) \<noteq> chat)
     then concat (map (\<lambda>(host, ds). map (\<lambda>d. (host, [d], Some (dlg_source_chat_id d))) ds) groups)
     else map (\<lambda>(host, ds). (host, ds, chat)) groups)"

fun replay_each ::
    "'w bot_services \<Rightarrow> bot_context \<Rightarrow> migration_manifest \<Rightarrow> int \<Rightarrow> int
      \<Rightarrow> (string option \<times> manifest_dialog list \<times> string option) list \<Rightarrow> replay_result
      \<Rightarrow> ('w bot_state, replay_result) run" where
  "replay_each bv x m limit batch_size [] acc = ends (ret acc)"
| "replay_each bv x m limit batch_size ((host, ds, chat) # parts) acc =
    and_then (ends (lift_outcome (cts_host_context bv x host))) (\<lambda>inner.
    and_then (importing (replay_failed (bv_import bv inner)
      \<lparr>rfc_manifest = m\<lparr>mf_dialogs := ds\<rparr>, rfc_source_chat_id = chat, rfc_limit = limit,
       rfc_batch_size = batch_size\<rparr>)) (\<lambda>partial.
    replay_each bv x m limit batch_size parts (merge_replay_results acc partial)))"

definition bot_replay_failed ::
    "'w bot_services \<Rightarrow> bot_context \<Rightarrow> bot_operator_context \<Rightarrow> string option \<Rightarrow> int \<Rightarrow> int option
      \<Rightarrow> ('w bot_state, replay_result) run" where
  "bot_replay_failed bv x operator chat limit batch_size =
    and_then (ends (bind (authorize bv operator) (\<lambda>_.
      bind (load_runtime_manifest bv (Some (op_huid operator)) chat (chat \<noteq> None) False) (\<lambda>m.
      bind (source_backends_context bv x operator (map dlg_source_backend (mf_dialogs m))) (\<lambda>x.
      bind (audit_operator bv (mf_migration_id m) operator ''bot_replay_failed_requested''
        [(''source_chat_id'', json_opt_str chat), (''limit'', JInt limit),
         (''batch_size'', JInt (batch_size_or_default bv batch_size))]) (\<lambda>_.
      bind (lift_outcome (group_manifest_dialogs_by_anchor bv m)) (\<lambda>groups.
      ret (m, x, groups)))))))) (\<lambda>(m, x, groups).
    replay_each bv x m limit (batch_size_or_default bv batch_size) (replay_parts chat groups)
      (empty_replay_result (mf_migration_id m)))"

end
