(* ===== verification/Identity_Workbook.thy ===== *)
theory Identity_Workbook
  imports Rendering Identity_Directory
begin

text \<open>
  The workbook in which an operator fills in who a Telegram user is
  (\<open>extg_bot_ui/application/identity_matrix_workbook.py\<close>). Writing and reading the file is the library's:
  \<open>wl_save\<close> makes a file with one named sheet, \<open>wl_load\<close> gives the sheets of a file, None if it is not a
  workbook. Bytes are characters.
\<close>

section \<open>Sheets\<close>

text \<open>A cell is empty, a text, or another value, given by its \<open>str\<close>.\<close>

datatype cell = NoCell | TextCell string | ValueCell string

record workbook_library =
  wl_save :: "string \<Rightarrow> cell list list \<Rightarrow> string"
  wl_load :: "string \<Rightarrow> (string \<times> cell list list) list option"

record workbook_row =
  wr_telegram_user_id :: "string option"
  wr_telegram_username :: "string option"
  wr_telegram_display_name :: string
  wr_corporate_email :: "string option"
  wr_target_huid :: "string option"
  wr_ad_login :: "string option"
  wr_other_id :: "string option"
  wr_is_self :: bool
  wr_resolution_source :: string
  wr_reason :: "string option"

definition sheet_name :: string where
  "sheet_name = ''identity_mapping''"

definition legacy_header :: "string list" where
  "legacy_header = [''telegram_user_id'', ''telegram_username'', ''telegram_display_name'', ''corporate_email'',
     ''target_huid'', ''is_self'', ''resolution_source'', ''reason'']"

definition workbook_header :: "string list" where
  "workbook_header = [''telegram_user_id'', ''telegram_username'', ''telegram_display_name'', ''corporate_email'',
     ''target_huid'', ''ad_login'', ''other_id'', ''is_self'', ''resolution_source'', ''reason'']"

definition cell_of :: "string option \<Rightarrow> cell" where
  "cell_of v = (case v of None \<Rightarrow> NoCell | Some s \<Rightarrow> TextCell s)"

definition row_cells :: "workbook_row \<Rightarrow> cell list" where
  "row_cells r = [cell_of (wr_telegram_user_id r), cell_of (wr_telegram_username r),
     TextCell (wr_telegram_display_name r), cell_of (wr_corporate_email r), cell_of (wr_target_huid r),
     cell_of (wr_ad_login r), cell_of (wr_other_id r), TextCell (if wr_is_self r then ''yes'' else ''no''),
     TextCell (wr_resolution_source r), cell_of (wr_reason r)]"

definition template_cells :: "cell list" where
  "template_cells = [NoCell, NoCell, TextCell [], NoCell, NoCell, NoCell, NoCell, TextCell ''no'',
     TextCell ''manual_add_template'',
     TextCell ''You can fill several selectors; priority: target_huid, corporate_email, ad_login, other_id'']"

definition workbook_sheet :: "workbook_row list \<Rightarrow> int \<Rightarrow> cell list list" where
  "workbook_sheet rows manual =
    map TextCell workbook_header # map row_cells rows @ replicate (nat manual) template_cells"

definition build_workbook :: "workbook_library \<Rightarrow> workbook_row list \<Rightarrow> int \<Rightarrow> string" where
  "build_workbook lib rows manual = wl_save lib sheet_name (workbook_sheet rows manual)"

section \<open>Reading\<close>

fun cell_text :: "cell \<Rightarrow> string option" where
  "cell_text NoCell = None"
| "cell_text (TextCell s) = Some s"
| "cell_text (ValueCell s) = Some s"

definition cell_at :: "cell list \<Rightarrow> nat \<Rightarrow> cell" where
  "cell_at cells i = (if i < length cells then cells ! i else NoCell)"

definition optional_str :: "cell \<Rightarrow> string option" where
  "optional_str c = stripped (cell_text c)"

definition parse_yes_no :: "cell \<Rightarrow> bool" where
  "parse_yes_no c = (case cell_text c of None \<Rightarrow> False
     | Some s \<Rightarrow> py_lower (py_strip s) \<in> {''yes'', ''true'', ''1''})"

definition header_of :: "cell list \<Rightarrow> string list" where
  "header_of cells = map (\<lambda>c. case cell_text c of None \<Rightarrow> [] | Some s \<Rightarrow> py_strip s) cells"

definition parse_row :: "bool \<Rightarrow> cell list \<Rightarrow> workbook_row" where
  "parse_row extended cells =
    (let text_at = \<lambda>i. optional_str (cell_at cells i); offset = (if extended then 2 else 0)
     in \<lparr>wr_telegram_user_id = text_at 0, wr_telegram_username = text_at 1,
         wr_telegram_display_name = or_empty (text_at 2), wr_corporate_email = text_at 3,
         wr_target_huid = text_at 4, wr_ad_login = (if extended then text_at 5 else None),
         wr_other_id = (if extended then text_at 6 else None), wr_is_self = parse_yes_no (cell_at cells (5 + offset)),
         wr_resolution_source = or_empty (py_or (text_at (6 + offset)) (Some ''display_only'')),
         wr_reason = text_at (7 + offset)\<rparr>)"

definition blank_row :: "workbook_row \<Rightarrow> bool" where
  "blank_row r \<longleftrightarrow> wr_telegram_user_id r = None \<and> wr_telegram_username r = None \<and> wr_telegram_display_name r = []
    \<and> wr_corporate_email r = None \<and> wr_target_huid r = None \<and> wr_ad_login r = None \<and> wr_other_id r = None"

definition parse_sheet :: "cell list list \<Rightarrow> (error, workbook_row list) outcome" where
  "parse_sheet sheet =
    (let header = (case sheet of [] \<Rightarrow> [] | first # _ \<Rightarrow> header_of first);
         rows = \<lambda>extended. filter (\<lambda>r. \<not> blank_row r) (map (parse_row extended) (tl sheet))
     in if take (length workbook_header) header = workbook_header then Inr (rows True)
        else if take (length legacy_header) header = legacy_header then Inr (rows False)
        else Inl (ConfigurationError
          ''uploaded workbook has unexpected header; download a fresh matrix and fill it''))"

definition parse_workbook :: "workbook_library \<Rightarrow> string \<Rightarrow> (error, workbook_row list) outcome" where
  "parse_workbook lib payload =
    (case wl_load lib payload of
       None \<Rightarrow> Inl (ConfigurationError ''uploaded file is not a valid Excel workbook'')
     | Some sheets \<Rightarrow> (case map_of sheets sheet_name of
         None \<Rightarrow> Inl (ConfigurationError (''uploaded workbook must contain sheet '' @ py_repr sheet_name))
       | Some sheet \<Rightarrow> parse_sheet sheet))"

section \<open>Choosing a selector\<close>

datatype selector_kind = ByHuid string | ByEmail string | ByAdLogin string | ByOtherId string

definition filled :: "string option \<Rightarrow> bool" where
  "filled v \<longleftrightarrow> stripped v \<noteq> None"

definition row_selector_count :: "workbook_row \<Rightarrow> nat" where
  "row_selector_count r =
    length (filter filled [wr_corporate_email r, wr_target_huid r, wr_ad_login r, wr_other_id r])"

definition preferred_row_selector :: "workbook_row \<Rightarrow> (error, selector_kind) outcome" where
  "preferred_row_selector r =
    (if filled (wr_target_huid r) then Inr (ByHuid (or_empty (wr_target_huid r)))
     else if filled (wr_corporate_email r) then Inr (ByEmail (or_empty (wr_corporate_email r)))
     else if filled (wr_ad_login r) then Inr (ByAdLogin (or_empty (wr_ad_login r)))
     else if filled (wr_other_id r) then Inr (ByOtherId (or_empty (wr_other_id r)))
     else Inl (ConfigurationError ''workbook row does not contain a supported corporate selector''))"

definition workbook_row_label :: "workbook_row \<Rightarrow> string \<Rightarrow> string" where
  "workbook_row_label r fallback =
    (let shown = \<lambda>prefix v. prefix @ py_strip (or_empty v)
     in if filled (wr_target_huid r) then shown ''huid='' (wr_target_huid r)
        else if filled (wr_corporate_email r) then ''email='' @ py_lower (py_strip (or_empty (wr_corporate_email r)))
        else if filled (wr_ad_login r) then shown ''ad_login='' (wr_ad_login r)
        else if filled (wr_other_id r) then shown ''other_id='' (wr_other_id r)
        else if filled (wr_telegram_username r) then shown ''telegram_username='' (wr_telegram_username r)
        else if filled (wr_telegram_user_id r) then shown ''telegram_user_id='' (wr_telegram_user_id r)
        else if py_strip (wr_telegram_display_name r) \<noteq> []
          then ''display_name='' @ py_strip (wr_telegram_display_name r)
        else ''huid='' @ fallback)"

text \<open>A row with a filled selector has a preferred one.\<close>

lemma preferred_row_selector_Inr: "row_selector_count r \<noteq> 0 \<Longrightarrow> \<exists>k. preferred_row_selector r = Inr k"
  by (auto simp: row_selector_count_def preferred_row_selector_def split: if_splits)

section \<open>A workbook that was not changed\<close>

text \<open>
  What the library promises: a sheet of a legal title whose rows have as many cells as the header, no
  row without a text, is read back with its legal texts, an empty text perhaps as an empty cell. Texts
  that start with an equal sign are formulas, control characters are refused, a carriage return is
  lost, longer texts are cut, the names of errors are values, and \<open>x005F_\<close> is the library's own mark.
\<close>

definition same_cell :: "cell \<Rightarrow> cell \<Rightarrow> bool" where
  "same_cell c c' \<longleftrightarrow> c' = c \<or> c = TextCell [] \<and> c' = NoCell"

definition legal_char :: "char \<Rightarrow> bool" where
  "legal_char c \<longleftrightarrow> (let n = (of_char c :: nat) in n = 9 \<or> n = 10 \<or> 32 \<le> n)"

definition legal_text :: "string \<Rightarrow> bool" where
  "legal_text s \<longleftrightarrow> list_all legal_char s \<and> int (length s) \<le> 32767 \<and> take 1 s \<noteq> ''='' \<and> \<not> contains ''x005F_'' s
     \<and> s \<notin> {''#NULL!'', ''#DIV/0!'', ''#VALUE!'', ''#REF!'', ''#NAME?'', ''#NUM!'', ''#N/A''}"

definition legal_cell :: "cell \<Rightarrow> bool" where
  "legal_cell c \<longleftrightarrow> (case c of NoCell \<Rightarrow> True | TextCell s \<Rightarrow> legal_text s | ValueCell _ \<Rightarrow> False)"

definition shown_cell :: "cell \<Rightarrow> bool" where
  "shown_cell c \<longleftrightarrow> (case c of TextCell (_ # _) \<Rightarrow> True | _ \<Rightarrow> False)"

definition legal_title :: "string \<Rightarrow> bool" where
  "legal_title s \<longleftrightarrow> s \<noteq> [] \<and> int (length s) \<le> 31
     \<and> list_all (\<lambda>c. is_digit c \<or> CHR ''a'' \<le> c \<and> c \<le> CHR ''z'' \<or> c = CHR ''_'') s"

definition max_sheet_rows :: nat where
  "max_sheet_rows = 1048576"

definition legal_sheet :: "cell list list \<Rightarrow> bool" where
  "legal_sheet sheet \<longleftrightarrow> (case sheet of [] \<Rightarrow> False | header # rows \<Rightarrow>
     list_all shown_cell header \<and> list_all legal_cell header \<and> length sheet \<le> max_sheet_rows
     \<and> list_all (\<lambda>cells. length cells = length header \<and> list_ex shown_cell cells \<and> list_all legal_cell cells) rows)"

definition library_lawful :: "workbook_library \<Rightarrow> bool" where
  "library_lawful lib \<longleftrightarrow> (\<forall>name sheet. legal_title name \<longrightarrow> legal_sheet sheet \<longrightarrow>
     (\<exists>sheet'. wl_load lib (wl_save lib name sheet) = Some [(name, sheet')]
        \<and> list_all2 (list_all2 same_cell) sheet sheet'))"

text \<open>A row of texts that a workbook can hold.\<close>

definition legal_row :: "workbook_row \<Rightarrow> bool" where
  "legal_row r \<longleftrightarrow> legal_text (wr_telegram_display_name r) \<and> legal_text (wr_resolution_source r)
     \<and> list_all (\<lambda>v. case v of None \<Rightarrow> True | Some s \<Rightarrow> legal_text s) [wr_telegram_user_id r, wr_telegram_username r,
        wr_corporate_email r, wr_target_huid r, wr_ad_login r, wr_other_id r, wr_reason r]"

definition normal_row :: "workbook_row \<Rightarrow> workbook_row" where
  "normal_row r = r\<lparr>wr_telegram_user_id := stripped (wr_telegram_user_id r),
     wr_telegram_username := stripped (wr_telegram_username r),
     wr_telegram_display_name := py_strip (wr_telegram_display_name r),
     wr_corporate_email := stripped (wr_corporate_email r), wr_target_huid := stripped (wr_target_huid r),
     wr_ad_login := stripped (wr_ad_login r), wr_other_id := stripped (wr_other_id r),
     wr_resolution_source := or_empty (py_or (stripped (Some (wr_resolution_source r))) (Some ''display_only'')),
     wr_reason := stripped (wr_reason r)\<rparr>"

lemma optional_str_same: "same_cell c c' \<Longrightarrow> optional_str c' = optional_str c"
proof -
  have "py_strip [] = []" by code_simp
  then show "same_cell c c' \<Longrightarrow> optional_str c' = optional_str c"
    by (auto simp: same_cell_def optional_str_def stripped_def)
qed

lemma optional_str_cell_of [simp]: "optional_str (cell_of v) = stripped v"
  by (cases v) (simp_all add: optional_str_def cell_of_def stripped_def)

lemma optional_str_text [simp]: "optional_str (TextCell s) = stripped (Some s)"
  by (simp add: optional_str_def)

lemma or_empty_stripped [simp]: "or_empty (stripped (Some s)) = py_strip s"
  by (simp add: stripped_def or_empty_def)

lemma yes_no_cells: "parse_yes_no (TextCell ''yes'')" "\<not> parse_yes_no (TextCell ''no'')"
  by code_simp+

lemma parse_row_cells:
  assumes "list_all2 same_cell (row_cells r) cells"
  shows "parse_row True cells = normal_row r"
proof -
  have len: "length cells = 10" using assms by (simp add: row_cells_def list_all2_conv_all_nth)
  have at: "same_cell (row_cells r ! i) (cell_at cells i)" if "i < 10" for i
    using assms that len by (simp add: cell_at_def list_all2_conv_all_nth row_cells_def)
  have texts: "optional_str (cell_at cells i) = optional_str (row_cells r ! i)" if "i < 10" for i
    by (rule optional_str_same [OF at [OF that]])
  have "cell_at cells 7 = row_cells r ! 7" using at [of 7] by (auto simp: same_cell_def row_cells_def)
  then have self: "parse_yes_no (cell_at cells 7) = wr_is_self r" by (simp add: row_cells_def yes_no_cells)
  show ?thesis
    using self by (simp add: parse_row_def Let_def texts) (simp add: row_cells_def normal_row_def)
qed

definition template_row :: workbook_row where
  "template_row = \<lparr>wr_telegram_user_id = None, wr_telegram_username = None, wr_telegram_display_name = [],
     wr_corporate_email = None, wr_target_huid = None, wr_ad_login = None, wr_other_id = None, wr_is_self = False,
     wr_resolution_source = ''manual_add_template'',
     wr_reason = Some ''You can fill several selectors; priority: target_huid, corporate_email, ad_login, other_id''\<rparr>"

lemma template_cells_row: "template_cells = row_cells template_row"
  by (simp add: template_cells_def row_cells_def template_row_def cell_of_def)

lemma template_blank: "blank_row (normal_row template_row)"
proof -
  have "py_strip [] = []" by code_simp
  then show ?thesis by (simp add: blank_row_def normal_row_def template_row_def stripped_def)
qed

lemma header_same: "list_all2 same_cell (map TextCell workbook_header) cells \<Longrightarrow> cells = map TextCell workbook_header"
  by (auto simp: workbook_header_def same_cell_def list_all2_Cons1)

lemma legal_sheet_name: "legal_title sheet_name"
  by code_simp

lemma legal_header: "list_all shown_cell (map TextCell workbook_header) \<and> list_all legal_cell (map TextCell workbook_header)"
  by code_simp

lemma legal_row_cells:
  assumes "legal_row r"
  shows "length (row_cells r) = length (map TextCell workbook_header) \<and> list_ex shown_cell (row_cells r)
    \<and> list_all legal_cell (row_cells r)"
proof -
  have "legal_text ''yes''" "legal_text ''no''" by code_simp+
  moreover have "shown_cell (TextCell (if wr_is_self r then ''yes'' else ''no''))" by (simp add: shown_cell_def)
  moreover have "legal_cell (cell_of v) \<longleftrightarrow> (case v of None \<Rightarrow> True | Some s \<Rightarrow> legal_text s)"
    "legal_cell (TextCell s) \<longleftrightarrow> legal_text s" for v s
    by (simp_all add: legal_cell_def cell_of_def split: option.split)
  ultimately show ?thesis using assms by (simp add: row_cells_def workbook_header_def legal_row_def)
qed

lemma legal_template: "legal_row template_row"
  by code_simp

lemma legal_workbook_sheet:
  assumes "list_all legal_row rows" and "length rows + nat manual < max_sheet_rows"
  shows "legal_sheet (workbook_sheet rows manual)"
proof -
  define good where "good = (\<lambda>cells. length cells = length workbook_header \<and> list_ex shown_cell cells
    \<and> list_all legal_cell cells)"
  have "good (row_cells r)" if "legal_row r" for r using legal_row_cells [OF that] by (simp add: good_def)
  with assms(1) legal_template
  have "list_all good (map row_cells rows @ replicate (nat manual) template_cells)"
    by (auto simp: list_all_iff template_cells_row)
  with assms(2) legal_header show ?thesis
    by (simp add: legal_sheet_def workbook_sheet_def flip: good_def)
qed

lemma header_of_header: "header_of (map TextCell workbook_header) = workbook_header"
  by code_simp

lemma parse_rows_same:
  assumes "list_all2 (list_all2 same_cell) (map row_cells rows) sheet"
  shows "map (parse_row True) sheet = map normal_row rows"
  using assms by (induction rows arbitrary: sheet) (auto simp: list_all2_Cons1 parse_row_cells)

lemma parse_workbook_sheet:
  assumes "list_all2 (list_all2 same_cell) (workbook_sheet rows manual) sheet"
  shows "parse_sheet sheet = Inr (filter (\<lambda>r. \<not> blank_row r) (map normal_row rows))"
proof -
  let ?all = "rows @ replicate (nat manual) template_row"
  have "workbook_sheet rows manual = map TextCell workbook_header # map row_cells ?all"
    by (simp add: workbook_sheet_def template_cells_row)
  with assms obtain rest where sheet: "sheet = map TextCell workbook_header # rest"
    and rest: "list_all2 (list_all2 same_cell) (map row_cells ?all) rest"
    by (auto simp: list_all2_Cons1 dest: header_same)
  have parsed: "map (parse_row True) rest = map normal_row ?all" by (rule parse_rows_same [OF rest])
  show ?thesis
    by (simp add: sheet parse_sheet_def Let_def header_of_header parsed template_blank)
qed

end
