(* ===== verification/Bot_Identities.thy ===== *)
theory Bot_Identities
  imports Bot_Commands Identity_Workbook
begin

text \<open>
  The commands of \<open>MigrationBotControlService\<close> about identities and members: what has to be settled
  before a chat can be migrated, the workbooks that settle it, members added to a migrated chat, and
  the import of an export archive.
\<close>

section \<open>Services\<close>

record parsed_snapshot =
  ps_source_chat_id :: string
  ps_source_chat_title :: string
  ps_source_chat_type :: string
  ps_original_filename :: "string option"
  ps_export_chat_id :: "string option"
  ps_payload_sha256 :: string
  ps_message_count :: int
  ps_media_count :: int
  ps_approximate_bytes :: int

text \<open>Besides the bot's services: the workbook library, the parser and the store of export archives.\<close>

record 'w desk_services =
  dk_bot :: "'w bot_services"
  dk_workbook :: workbook_library
  dk_parse_upload :: "string option \<Rightarrow> string \<Rightarrow> ('w, parsed_snapshot) action"
  dk_stage_upload :: "string option \<Rightarrow> string \<Rightarrow> ('w, string) action"

definition directory_of :: "'w bot_services \<Rightarrow> bot_context \<Rightarrow> 'w directory_config" where
  "directory_of bv x = px_directory (bv_provisioning bv x)"

definition in_identities :: "('w directory_state, 'a) action \<Rightarrow> ('w, 'a) bot" where
  "in_identities m = in_import (in_directory m)"

section \<open>Migrated chats\<close>

type_synonym migrated_binding = "chat_config_record \<times> chat_mapping_record"

definition migrated_chat_bindings :: "string \<Rightarrow> string \<Rightarrow> 'w bot_state \<Rightarrow> migrated_binding list" where
  "migrated_chat_bindings migration huid s =
    sort_key (\<lambda>(r, _). (py_casefold (cc_source_chat_title r), cc_source_chat_id r))
      (List.map_filter (\<lambda>r. map_option (Pair r) (chat_mapping_get (im_chats (bt_import s)) (migration, cc_source_chat_id r)))
        (filter (\<lambda>r. cc_updated_by_huid r = huid \<and> cc_source_chat_type r \<noteq> ''private'')
          (chat_config_list migration (bt_configs s))))"

record bot_migrated_chat =
  mgc_source_chat_id :: string
  mgc_source_chat_type :: string
  mgc_source_chat_title :: string
  mgc_target_chat_id :: string
  mgc_target_chat_title :: string
  mgc_anchor_cts_host :: "string option"

definition migrated_chat_of :: "migrated_binding \<Rightarrow> bot_migrated_chat" where
  "migrated_chat_of b = (case b of (r, m) \<Rightarrow>
    \<lparr>mgc_source_chat_id = cc_source_chat_id r, mgc_source_chat_type = cc_source_chat_type r,
     mgc_source_chat_title = cc_source_chat_title r, mgc_target_chat_id = cm_target_chat_id m,
     mgc_target_chat_title = cm_target_chat_title m,
     mgc_anchor_cts_host = py_or (cm_anchor_cts_host m) (cc_anchor_cts_host r)\<rparr>)"

definition list_migrated_chats_for_user_addition ::
    "'w bot_services \<Rightarrow> bot_operator_context \<Rightarrow> ('w, bot_migrated_chat list) bot" where
  "list_migrated_chats_for_user_addition bv operator =
    bind (authorize bv operator) (\<lambda>_.
    bind (lift_outcome (require_migration_id bv)) (\<lambda>migration.
    get_state (\<lambda>s. map migrated_chat_of (migrated_chat_bindings migration (op_huid operator) s))))"

definition resolve_migrated_chat_binding :: "string \<Rightarrow> string \<Rightarrow> string \<Rightarrow> ('w, migrated_binding) bot" where
  "resolve_migrated_chat_binding migration huid selector =
    (let wanted = py_strip selector in
     if wanted = [] then throw (ConfigurationError ''chat selection is required'')
     else
       bind (get_state (migrated_chat_bindings migration huid)) (\<lambda>bindings.
       case List.find (\<lambda>(r, m). wanted \<in> {cc_source_chat_id r, cm_target_chat_id m}) bindings of
         Some b \<Rightarrow> ret b
       | None \<Rightarrow> throw (ConfigurationError (''selected chat is not in the migrated chat list; ''
           @ ''send source_chat_id or mention the target chat''))))"

definition binding_access_strategy :: "migrated_binding \<Rightarrow> string" where
  "binding_access_strategy b = or_empty (py_or (Some (cc_access_strategy (fst b))) (Some ''direct_add''))"

section \<open>Workbooks\<close>

definition workbook_row_of :: "participant_row \<Rightarrow> workbook_row" where
  "workbook_row_of p = \<lparr>wr_telegram_user_id = prw_telegram_user_id p, wr_telegram_username = prw_telegram_username p,
     wr_telegram_display_name = prw_telegram_display_name p, wr_corporate_email = prw_corporate_email p,
     wr_target_huid = prw_target_huid p, wr_ad_login = None, wr_other_id = None, wr_is_self = prw_is_self p,
     wr_resolution_source = prw_resolution_source p, wr_reason = prw_reason p\<rparr>"

definition participants_workbook :: "'w desk_services \<Rightarrow> participant_row list \<Rightarrow> int \<Rightarrow> string" where
  "participants_workbook dk ps manual = build_workbook (dk_workbook dk) (map workbook_row_of ps) manual"

definition safe_chat_id :: "string \<Rightarrow> string" where
  "safe_chat_id = map (\<lambda>c. if c = CHR ''/'' then CHR ''_'' else c)"

definition mapped_others :: "participant_row list \<Rightarrow> participant_row list" where
  "mapped_others = filter (\<lambda>p. \<not> prw_is_self p \<and> prw_target_huid p \<noteq> None)"

definition unresolved_others :: "participant_row list \<Rightarrow> participant_row list" where
  "unresolved_others = filter (\<lambda>p. \<not> prw_is_self p \<and> prw_target_huid p = None)"

record members_workbook_request =
  mwr_source_chat_id :: string
  mwr_source_chat_type :: string
  mwr_source_chat_title :: string
  mwr_target_chat_id :: string
  mwr_target_chat_title :: string
  mwr_access_strategy :: string
  mwr_workbook_content :: string
  mwr_workbook_filename :: string
  mwr_mapped_rows :: nat
  mwr_unresolved_rows :: nat
  mwr_note :: "listing_note option"

definition prepare_chat_members_workbook ::
    "'w desk_services \<Rightarrow> bot_context \<Rightarrow> bot_operator_context \<Rightarrow> string \<Rightarrow> ('w, members_workbook_request) bot" where
  "prepare_chat_members_workbook dk x operator selector =
    (let bv = dk_bot dk in
     bind (authorize bv operator) (\<lambda>_.
     bind (lift_outcome (require_migration_id bv)) (\<lambda>migration.
     bind (resolve_migrated_chat_binding migration (op_huid operator) selector) (\<lambda>b.
     let r = fst b; m = snd b in
     bind (lift_outcome (ensure_supported_source_backend (Some (cc_source_backend r)))) (\<lambda>backend.
     execute_for_source_backends bv x operator [backend] (\<lambda>x.
       bind (catch_error
           (bind (in_import (list_participant_matrix (bv_provisioning bv x) (cc_source_chat_id r) (cc_telegram_chat_id r) backend))
             (\<lambda>ps. ret (ps, None)))
           (\<lambda>e. case e of
              FatalItemError t \<Rightarrow>
                Some (if cc_source_chat_type r \<noteq> ''channel'' then throw e else ret ([], Some (ListingRefused t)))
            | _ \<Rightarrow> None)) (\<lambda>(ps, note).
       let mapped = length (mapped_others ps); unresolved = length (unresolved_others ps) in
       bind (audit_operator bv migration operator ''bot_chat_members_workbook_prepared''
         [(''source_chat_id'', JStr (cc_source_chat_id r)), (''target_chat_id'', JStr (cm_target_chat_id m)),
          (''mapped_rows'', JInt (int mapped)), (''unresolved_rows'', JInt (int unresolved)),
          (''manual_template_rows'', JInt 10)]) (\<lambda>_.
       ret \<lparr>mwr_source_chat_id = cc_source_chat_id r, mwr_source_chat_type = cc_source_chat_type r,
         mwr_source_chat_title = cc_source_chat_title r, mwr_target_chat_id = cm_target_chat_id m,
         mwr_target_chat_title = cm_target_chat_title m, mwr_access_strategy = binding_access_strategy b,
         mwr_workbook_content = participants_workbook dk ps 10,
         mwr_workbook_filename = ''chat_members_'' @ safe_chat_id (cc_source_chat_id r) @ ''.xlsx'',
         mwr_mapped_rows = mapped, mwr_unresolved_rows = unresolved, mwr_note = note\<rparr>))))))))"

section \<open>Rows and people\<close>

definition resolve_selector ::
    "'w directory_config \<Rightarrow> selector_kind \<Rightarrow> string option \<Rightarrow> ('w, identity_lookup_result) bot" where
  "resolve_selector dc selector domain = in_identities
    (case selector of
       ByEmail v \<Rightarrow> resolve_corporate_selector dc (Some v) None None None domain
     | ByHuid v \<Rightarrow> resolve_corporate_selector dc None (Some v) None None domain
     | ByAdLogin v \<Rightarrow> resolve_corporate_selector dc None None (Some v) None domain
     | ByOtherId v \<Rightarrow> resolve_corporate_selector dc None None None (Some v) domain)"

definition reason_or_unknown :: "identity_lookup_result \<Rightarrow> string" where
  "reason_or_unknown found = or_empty (py_or (il_reason found) (Some ''identity_not_found''))"

record member_rows =
  mr_targets :: "participant_target list"
  mr_labels :: "(string, string) dict"
  mr_processed :: nat
  mr_imported :: nat
  mr_unmapped :: nat
  mr_skipped :: nat

definition no_member_rows :: member_rows where
  "no_member_rows = \<lparr>mr_targets = [], mr_labels = [], mr_processed = 0, mr_imported = 0, mr_unmapped = 0, mr_skipped = 0\<rparr>"

definition dict_setdefault :: "'k \<Rightarrow> 'v \<Rightarrow> ('k, 'v) dict \<Rightarrow> ('k, 'v) dict" where
  "dict_setdefault k v d = (if dict_get d k = None then dict_set k v d else d)"

text \<open>Filing a row's Telegram user under the person found; rows without a user are only added.\<close>

definition file_member_row ::
    "'w directory_config \<Rightarrow> workbook_row \<Rightarrow> selector_kind \<Rightarrow> string \<Rightarrow> ('w, bool) bot" where
  "file_member_row dc r selector huid =
    (let display = (if wr_telegram_display_name r = [] then None else Some (wr_telegram_display_name r)) in
     if wr_telegram_user_id r = None \<and> wr_telegram_username r = None then ret False
     else bind (in_identities (case selector of
         ByEmail email \<Rightarrow> upsert_mapping dc (wr_telegram_user_id r) (wr_telegram_username r) display email
       | _ \<Rightarrow> upsert_direct_mapping dc (wr_telegram_user_id r) (wr_telegram_username r) display huid (wr_corporate_email r)))
       (\<lambda>_. ret True))"

definition member_row ::
    "'w bot_services \<Rightarrow> 'w directory_config \<Rightarrow> string option \<Rightarrow> nat \<Rightarrow> workbook_row \<Rightarrow> member_rows \<Rightarrow> ('w, member_rows) bot" where
  "member_row bv dc domain index r acc =
    (if wr_is_self r \<or> row_selector_count r = 0 then ret (acc\<lparr>mr_skipped := mr_skipped acc + 1\<rparr>)
     else
       bind (lift_outcome (preferred_row_selector r)) (\<lambda>selector.
       bind (resolve_selector dc selector domain) (\<lambda>found.
       case il_target_huid found of
         None \<Rightarrow> throw (ConfigurationError (''workbook row '' @ str_of_nat index
           @ '' could not be resolved in eXpress; reason='' @ reason_or_unknown found))
       | Some huid \<Rightarrow>
           bind (file_member_row dc r selector huid) (\<lambda>filed.
           bind (lift_outcome (normalized_host bv (il_cts_host found))) (\<lambda>host.
           ret (acc\<lparr>mr_targets := mr_targets acc @ [\<lparr>pt_target_huid = huid, pt_cts_host = host\<rparr>],
             mr_labels := dict_setdefault huid (workbook_row_label r huid) (mr_labels acc),
             mr_processed := mr_processed acc + 1,
             mr_imported := mr_imported acc + (if filed then 1 else 0),
             mr_unmapped := mr_unmapped acc + (if filed then 0 else 1)\<rparr>))))))"

fun member_rows_of ::
    "'w bot_services \<Rightarrow> 'w directory_config \<Rightarrow> string option \<Rightarrow> nat \<Rightarrow> workbook_row list \<Rightarrow> member_rows
      \<Rightarrow> ('w, member_rows) bot" where
  "member_rows_of bv dc domain index [] acc = ret acc"
| "member_rows_of bv dc domain index (r # rs) acc =
    bind (member_row bv dc domain index r acc) (member_rows_of bv dc domain (index + 1) rs)"

definition member_add_effective_result :: "string \<Rightarrow> nat \<Rightarrow> nat \<Rightarrow> nat \<Rightarrow> string" where
  "member_add_effective_result requested added invited failed =
    (if added > 0 \<and> invited > 0 then ''mixed''
     else if added > 0 \<and> failed > 0 then ''partial_direct_add''
     else if added > 0 then ''direct_add''
     else if invited > 0 then
       (if py_lower (py_strip (or_empty (py_or (Some requested) (Some ''direct_add'')))) = ''direct_add''
        then ''invite_link_fallback'' else ''invite_link'')
     else if failed > 0 then ''failed'' else ''no_change'')"

record members_add_result =
  mar_source_chat_id :: string
  mar_target_chat_id :: string
  mar_target_chat_title :: string
  mar_access_strategy :: string
  mar_effective_result :: string
  mar_invite_fallback_used :: bool
  mar_processed_rows :: nat
  mar_imported_identity_mappings :: nat
  mar_mapping_skipped_rows :: nat
  mar_resolved_targets :: nat
  mar_direct_added :: nat
  mar_invited :: nat
  mar_skipped_rows :: nat
  mar_failed_targets :: "string list"

definition members_result_of :: "migrated_binding \<Rightarrow> member_rows \<Rightarrow> access_result \<Rightarrow> members_add_result" where
  "members_result_of b rows access =
    (let requested = binding_access_strategy b; added = length (ar_added access); invited = length (ar_invited access)
     in \<lparr>mar_source_chat_id = cc_source_chat_id (fst b), mar_target_chat_id = cm_target_chat_id (snd b),
         mar_target_chat_title = cm_target_chat_title (snd b), mar_access_strategy = requested,
         mar_effective_result = member_add_effective_result requested added invited (length (ar_failed access)),
         mar_invite_fallback_used = (requested = ''direct_add'' \<and> invited > 0),
         mar_processed_rows = mr_processed rows, mar_imported_identity_mappings = mr_imported rows,
         mar_mapping_skipped_rows = mr_unmapped rows, mar_resolved_targets = length (mr_targets rows),
         mar_direct_added = added, mar_invited = invited, mar_skipped_rows = mr_skipped rows,
         mar_failed_targets = map (\<lambda>f. case dict_get (mr_labels rows) (af_target_huid f) of
             None \<Rightarrow> af_target_huid f | Some l \<Rightarrow> l) (ar_failed access)\<rparr>)"

definition add_chat_members_from_workbook ::
    "'w desk_services \<Rightarrow> bot_context \<Rightarrow> bot_operator_context \<Rightarrow> string \<Rightarrow> string \<Rightarrow> ('w, members_add_result) bot" where
  "add_chat_members_from_workbook dk x operator selector content =
    (let bv = dk_bot dk in
     bind (authorize bv operator) (\<lambda>_.
     bind (lift_outcome (require_migration_id bv)) (\<lambda>migration.
     bind (resolve_migrated_chat_binding migration (op_huid operator) selector) (\<lambda>b.
     let r = fst b; m = snd b in
     bind (lift_outcome (ensure_supported_source_backend (Some (cc_source_backend r)))) (\<lambda>backend.
     execute_for_source_backends bv x operator [backend] (\<lambda>x.
       bind (lift_outcome (parse_workbook (dk_workbook dk) content)) (\<lambda>parsed.
       bind (member_rows_of bv (directory_of bv x) (op_ad_domain operator) 2 parsed no_member_rows) (\<lambda>rows.
       if mr_targets rows = []
       then throw (ConfigurationError ''workbook does not contain any resolvable users to add'')
       else
         bind (in_import (add_resolved_members_to_existing_chat (bv_provisioning bv x)
           \<lparr>ax_chat_kind = ''group'', ax_migration_id = migration, ax_source_chat_id = cc_source_chat_id r,
            ax_source_backend = backend, ax_target_chat_id = cm_target_chat_id m,
            ax_target_chat_title = cm_target_chat_title m\<rparr> (cc_source_chat_type r) (mr_targets rows)
           (Some (op_huid operator)) (binding_access_strategy b)
           (py_or (cm_anchor_cts_host m) (cc_anchor_cts_host r)))) (\<lambda>access.
         bind (audit_operator bv migration operator ''bot_chat_members_added_from_workbook''
           [(''source_chat_id'', JStr (cc_source_chat_id r)), (''target_chat_id'', JStr (cm_target_chat_id m)),
            (''processed_rows'', JInt (int (mr_processed rows))),
            (''imported_identity_mappings'', JInt (int (mr_imported rows))),
            (''mapping_skipped_rows'', JInt (int (mr_unmapped rows))),
            (''direct_added'', JInt (int (length (ar_added access)))),
            (''invited'', JInt (int (length (ar_invited access)))),
            (''failed_target_huids'', json_ids (map af_target_huid (ar_failed access)))]) (\<lambda>_.
         ret (members_result_of b rows access)))))))))))"

section \<open>Identity mappings\<close>

record identity_mapping_result =
  imr_telegram_user_id :: "string option"
  imr_telegram_username :: "string option"
  imr_telegram_display_name :: "string option"
  imr_corporate_email :: "string option"
  imr_target_huid :: "string option"
  imr_resolution_source :: string
  imr_reason :: "string option"

definition mapping_result_of :: "identity_lookup_result \<Rightarrow> string option \<Rightarrow> identity_mapping_result" where
  "mapping_result_of l email = \<lparr>imr_telegram_user_id = il_telegram_user_id l,
     imr_telegram_username = il_telegram_username l, imr_telegram_display_name = il_telegram_display_name l,
     imr_corporate_email = email, imr_target_huid = il_target_huid l,
     imr_resolution_source = il_resolution_source l, imr_reason = il_reason l\<rparr>"

definition lookup_payload :: "identity_lookup_result \<Rightarrow> (string \<times> json) list" where
  "lookup_payload l = [(''telegram_user_id'', json_opt_str (il_telegram_user_id l)),
     (''telegram_username'', json_opt_str (il_telegram_username l)),
     (''telegram_display_name'', json_opt_str (il_telegram_display_name l)),
     (''corporate_email'', json_opt_str (il_corporate_email l)), (''target_huid'', json_opt_str (il_target_huid l)),
     (''resolution_source'', JStr (il_resolution_source l)), (''reason'', json_opt_str (il_reason l))]"

definition map_identity ::
    "'w bot_services \<Rightarrow> bot_context \<Rightarrow> bot_operator_context \<Rightarrow> string option \<Rightarrow> string option \<Rightarrow> string option
      \<Rightarrow> string \<Rightarrow> ('w, identity_mapping_result) bot" where
  "map_identity bv x operator user_id username display email =
    bind (authorize bv operator) (\<lambda>_.
    bind (in_identities (upsert_mapping (directory_of bv x) user_id username display email)) (\<lambda>l.
    bind (lift_outcome (require_migration_id bv)) (\<lambda>migration.
    bind (audit_operator bv migration operator ''bot_identity_mapping_upserted'' (lookup_payload l)) (\<lambda>_.
    ret (mapping_result_of l (py_or (il_corporate_email l) (Some (py_lower (py_strip email)))))))))"

text \<open>How many rows were imported and how many were skipped.\<close>

definition identity_row :: "'w directory_config \<Rightarrow> string option \<Rightarrow> workbook_row \<Rightarrow> nat \<times> nat \<Rightarrow> ('w, nat \<times> nat) bot" where
  "identity_row dc domain r acc =
    (case acc of (imported, skipped) \<Rightarrow>
     if wr_is_self r \<or> row_selector_count r = 0 \<or> wr_telegram_user_id r = None \<and> wr_telegram_username r = None
     then ret (imported, skipped + 1)
     else
       bind (lift_outcome (preferred_row_selector r)) (\<lambda>selector.
       bind (case selector of
           ByEmail email \<Rightarrow> bind (in_identities (upsert_mapping dc (wr_telegram_user_id r) (wr_telegram_username r)
             (Some (wr_telegram_display_name r)) email)) (\<lambda>_. ret ())
         | _ \<Rightarrow>
             bind (resolve_selector dc selector domain) (\<lambda>found.
             case il_target_huid found of
               None \<Rightarrow> throw (ConfigurationError (''workbook row for ''
                 @ or_empty (py_or (Some (wr_telegram_display_name r)) (py_or (wr_telegram_username r)
                     (py_or (wr_telegram_user_id r) (Some ''-''))))
                 @ '' could not be resolved in eXpress; reason='' @ reason_or_unknown found))
             | Some huid \<Rightarrow> bind (in_identities (upsert_direct_mapping dc (wr_telegram_user_id r)
                 (wr_telegram_username r) (Some (wr_telegram_display_name r)) huid (wr_corporate_email r))) (\<lambda>_. ret ()))) (\<lambda>_.
       ret (imported + 1, skipped))))"

fun identity_rows ::
    "'w directory_config \<Rightarrow> string option \<Rightarrow> workbook_row list \<Rightarrow> nat \<times> nat \<Rightarrow> ('w, nat \<times> nat) bot" where
  "identity_rows dc domain [] acc = ret acc"
| "identity_rows dc domain (r # rs) acc = bind (identity_row dc domain r acc) (identity_rows dc domain rs)"

definition apply_identity_matrix_workbook ::
    "'w desk_services \<Rightarrow> bot_context \<Rightarrow> string \<Rightarrow> string option \<Rightarrow> ('w, nat \<times> nat) bot" where
  "apply_identity_matrix_workbook dk x content domain =
    bind (lift_outcome (parse_workbook (dk_workbook dk) content)) (\<lambda>rows.
    identity_rows (directory_of (dk_bot dk) x) domain rows (0, 0))"

record identity_import_result =
  iir_source_chat_id :: string
  iir_imported_count :: nat
  iir_skipped_count :: nat

definition apply_identity_matrix ::
    "string \<Rightarrow> 'w desk_services \<Rightarrow> bot_context \<Rightarrow> bot_operator_context \<Rightarrow> string \<Rightarrow> string
      \<Rightarrow> ('w, identity_import_result) bot" where
  "apply_identity_matrix event dk x operator chat content =
    (let bv = dk_bot dk in
     bind (authorize bv operator) (\<lambda>_.
     execute_with_operator_session bv x operator (\<lambda>x.
       bind (apply_identity_matrix_workbook dk x content (op_ad_domain operator)) (\<lambda>(imported, skipped).
       bind (lift_outcome (require_migration_id bv)) (\<lambda>migration.
       bind (audit_operator bv migration operator event [(''source_chat_id'', JStr chat),
         (''imported_count'', JInt (int imported)), (''skipped_count'', JInt (int skipped))]) (\<lambda>_.
       ret \<lparr>iir_source_chat_id = chat, iir_imported_count = imported, iir_skipped_count = skipped\<rparr>))))))"

definition apply_group_identity_matrix ::
    "'w desk_services \<Rightarrow> bot_context \<Rightarrow> bot_operator_context \<Rightarrow> string \<Rightarrow> string \<Rightarrow> ('w, identity_import_result) bot" where
  "apply_group_identity_matrix = apply_identity_matrix ''bot_group_identity_matrix_imported''"

definition apply_channel_identity_matrix ::
    "'w desk_services \<Rightarrow> bot_context \<Rightarrow> bot_operator_context \<Rightarrow> string \<Rightarrow> string \<Rightarrow> ('w, identity_import_result) bot" where
  "apply_channel_identity_matrix = apply_identity_matrix ''bot_channel_identity_matrix_imported''"

section \<open>What has to be settled before a migration\<close>

definition private_chat_peer_entry :: "'w bot_services \<Rightarrow> bot_context \<Rightarrow> string \<Rightarrow> ('w, participant_row option) bot" where
  "private_chat_peer_entry bv x chat =
    bind (in_import (list_participant_matrix (bv_provisioning bv x) chat None supported_source_backend)) (\<lambda>rows.
    ret (List.find (\<lambda>p. \<not> prw_is_self p) rows))"

definition map_private_chat_peer_identity ::
    "'w bot_services \<Rightarrow> bot_context \<Rightarrow> bot_operator_context \<Rightarrow> string \<Rightarrow> string option \<Rightarrow> string option
      \<Rightarrow> ('w, identity_mapping_result) bot" where
  "map_private_chat_peer_identity bv x operator chat email huid =
    bind (authorize bv operator) (\<lambda>_.
    execute_with_operator_session bv x operator (\<lambda>x.
      bind (discover_dialog bv x chat supported_source_backend) (\<lambda>d.
      if sd_chat_type d \<noteq> ''private''
      then throw (ConfigurationError (''source_chat_id='' @ py_repr chat @ '' is not a personal Telegram chat''))
      else
        bind (private_chat_peer_entry bv x chat) (\<lambda>peer.
        case peer of
          None \<Rightarrow> throw (ConfigurationError (''second participant was not discovered for source_chat_id='' @ chat))
        | Some p \<Rightarrow>
            if truthy email = truthy huid
            then throw (ConfigurationError ''exactly one of corporate_email or target_huid is required'')
            else
              bind (in_identities (case email of
                  Some e \<Rightarrow> upsert_mapping (directory_of bv x) (prw_telegram_user_id p) (prw_telegram_username p)
                    (Some (prw_telegram_display_name p)) e
                | None \<Rightarrow> upsert_direct_mapping (directory_of bv x) (prw_telegram_user_id p) (prw_telegram_username p)
                    (Some (prw_telegram_display_name p)) (or_empty huid) None)) (\<lambda>l.
              bind (lift_outcome (require_migration_id bv)) (\<lambda>migration.
              bind (audit_operator bv migration operator ''bot_private_chat_peer_identity_upserted''
                ((''source_chat_id'', JStr chat) # lookup_payload l)) (\<lambda>_.
              ret (mapping_result_of l (il_corporate_email l)))))))))"

record private_chat_request =
  pcr_source_chat_id :: string
  pcr_source_chat_title :: string
  pcr_peer_telegram_user_id :: "string option"
  pcr_peer_telegram_username :: "string option"
  pcr_peer_display_name :: string
  pcr_corporate_email :: "string option"
  pcr_target_huid :: "string option"

definition creates_target :: "migration_run_options \<Rightarrow> bool" where
  "creates_target opts \<longleftrightarrow> ro_target_strategy opts \<in> {None, Some ''create''}"

text \<open>The discovered dialog, once it is known to be the operator's, and whether it is migrated already.\<close>

definition open_dialog ::
    "'w bot_services \<Rightarrow> bot_context \<Rightarrow> bot_operator_context \<Rightarrow> string \<Rightarrow> string \<Rightarrow> string set
      \<Rightarrow> ('w, (string \<times> source_dialog) option) bot" where
  "open_dialog bv x operator chat backend types =
    bind (lift_outcome (require_migration_id bv)) (\<lambda>migration.
    bind (discover_dialog bv x chat backend) (\<lambda>d.
    bind (find_config migration chat) (\<lambda>existing.
    bind (lift_outcome (ensure_owner_of_some existing (Some (op_huid operator)))) (\<lambda>_.
    if sd_chat_type d \<notin> types then ret None
    else
      bind (completed_chat_already_migrated_result bv x migration d (Some (op_huid operator))) (\<lambda>migrated.
      ret (if migrated \<noteq> None then None else Some (migration, d)))))))"

definition prepare_private_chat_resolution ::
    "'w bot_services \<Rightarrow> bot_context \<Rightarrow> bot_operator_context \<Rightarrow> string \<Rightarrow> migration_run_options
      \<Rightarrow> ('w, private_chat_request option) bot" where
  "prepare_private_chat_resolution bv x operator chat opts =
    bind (authorize bv operator) (\<lambda>_.
    execute_with_operator_session bv x operator (\<lambda>x.
      if \<not> creates_target opts then ret None
      else
        bind (open_dialog bv x operator chat supported_source_backend {''private''}) (\<lambda>opened.
        case opened of
          None \<Rightarrow> ret None
        | Some (migration, d) \<Rightarrow>
            bind (private_chat_peer_entry bv x chat) (\<lambda>peer.
            ret (case peer of
              None \<Rightarrow> None
            | Some p \<Rightarrow> if prw_target_huid p \<noteq> None then None
                else Some \<lparr>pcr_source_chat_id = sd_dialog_id d, pcr_source_chat_title = sd_title d,
                  pcr_peer_telegram_user_id = prw_telegram_user_id p,
                  pcr_peer_telegram_username = prw_telegram_username p,
                  pcr_peer_display_name = prw_telegram_display_name p,
                  pcr_corporate_email = prw_corporate_email p, pcr_target_huid = prw_target_huid p\<rparr>)))))"

record chat_resolution_request =
  crr_source_chat_id :: string
  crr_source_chat_title :: string
  crr_action :: string
  crr_unresolved_count :: nat
  crr_resolved_count :: nat
  crr_workbook_content :: "string option"
  crr_workbook_filename :: "string option"
  crr_topic_titles :: "string list"
  crr_can_list_participants :: bool

definition resolution_request :: "source_dialog \<Rightarrow> string \<Rightarrow> chat_resolution_request" where
  "resolution_request d action = \<lparr>crr_source_chat_id = sd_dialog_id d, crr_source_chat_title = sd_title d,
     crr_action = action, crr_unresolved_count = 0, crr_resolved_count = 0, crr_workbook_content = None,
     crr_workbook_filename = None, crr_topic_titles = [], crr_can_list_participants = False\<rparr>"

definition matrix_request ::
    "'w desk_services \<Rightarrow> source_dialog \<Rightarrow> string \<Rightarrow> string \<Rightarrow> participant_row list \<Rightarrow> chat_resolution_request" where
  "matrix_request dk d prefix chat ps = (resolution_request d ''upload_identity_matrix'')\<lparr>
     crr_unresolved_count := length (unresolved_others ps), crr_resolved_count := length (mapped_others ps),
     crr_workbook_content := Some (participants_workbook dk ps 0),
     crr_workbook_filename := Some (prefix @ safe_chat_id chat @ ''.xlsx'')\<rparr>"

definition policy_settled :: "string option \<Rightarrow> bool" where
  "policy_settled policy \<longleftrightarrow> policy \<in> {Some ''skip_unresolved'', Some ''matrix_uploaded''}"

text \<open>A listing that Telegram refuses is None.\<close>

definition listed_participants ::
    "'w bot_services \<Rightarrow> bot_context \<Rightarrow> string \<Rightarrow> string \<Rightarrow> ('w, participant_row list option) bot" where
  "listed_participants bv x chat backend =
    on_fatal (bind (in_import (list_participant_matrix (bv_provisioning bv x) chat None backend)) (\<lambda>ps. ret (Some ps)))
      (\<lambda>_. ret None)"

definition settle_group ::
    "'w desk_services \<Rightarrow> bot_context \<Rightarrow> string \<Rightarrow> string \<Rightarrow> migration_run_options \<Rightarrow> string \<Rightarrow> source_dialog
      \<Rightarrow> ('w, chat_resolution_request option) bot" where
  "settle_group dk x chat backend opts migration d =
    (let bv = dk_bot dk in
     bind (effective_identity_policy migration chat (ro_identity_policy opts)) (\<lambda>policy.
     if policy_settled policy then ret None
     else
       bind (listed_participants bv x chat backend) (\<lambda>listed.
       ret (case listed of
         None \<Rightarrow> None
       | Some ps \<Rightarrow> if unresolved_others ps = [] then None
           else Some (matrix_request dk d ''identity_matrix_'' chat ps)))))"

definition prepare_group_chat_resolution ::
    "'w desk_services \<Rightarrow> bot_context \<Rightarrow> bot_operator_context \<Rightarrow> string \<Rightarrow> migration_run_options
      \<Rightarrow> ('w, chat_resolution_request option) bot" where
  "prepare_group_chat_resolution dk x operator chat opts =
    (let bv = dk_bot dk in
     bind (authorize bv operator) (\<lambda>_.
     bind (source_backend_for_chat bv chat (ro_source_backend opts)) (\<lambda>backend.
     execute_for_source_backends bv x operator [backend] (\<lambda>x.
       bind (open_dialog bv x operator chat backend {''group'', ''supergroup''}) (\<lambda>opened.
       case opened of
         None \<Rightarrow> ret None
       | Some (migration, d) \<Rightarrow>
           if \<not> creates_target opts then ret None
           else
             bind (effective_topic_strategy migration chat (ro_topic_strategy opts)) (\<lambda>strategy.
             if sd_has_topics d \<and> strategy = None then
               bind (outside_bot (bv_topics bv x chat backend)) (\<lambda>topics.
               ret (Some ((resolution_request d ''choose_topic_strategy'')\<lparr>crr_topic_titles := map so_title topics\<rparr>)))
             else settle_group dk x chat backend opts migration d))))))"

definition settle_channel ::
    "'w desk_services \<Rightarrow> bot_context \<Rightarrow> string \<Rightarrow> string \<Rightarrow> migration_run_options \<Rightarrow> string \<Rightarrow> source_dialog \<Rightarrow> bool
      \<Rightarrow> ('w, chat_resolution_request option) bot" where
  "settle_channel dk x chat backend opts migration d can_list =
    (let bv = dk_bot dk in
     bind (effective_identity_policy migration chat (ro_identity_policy opts)) (\<lambda>policy.
     bind (if policy_settled policy then ret []
           else bind (listed_participants bv x chat backend) (\<lambda>listed.
             ret (case listed of None \<Rightarrow> [] | Some ps \<Rightarrow> ps))) (\<lambda>ps.
     if unresolved_others ps \<noteq> [] then
       ret (Some ((matrix_request dk d ''channel_identity_matrix_'' chat ps)\<lparr>crr_can_list_participants := can_list\<rparr>))
     else
       bind (effective_access_strategy migration chat (ro_access_strategy opts)) (\<lambda>strategy.
       ret (if strategy = None
         then Some ((resolution_request d ''choose_access_strategy'')\<lparr>crr_can_list_participants := can_list\<rparr>)
         else None)))))"

definition prepare_channel_chat_resolution ::
    "'w desk_services \<Rightarrow> bot_context \<Rightarrow> bot_operator_context \<Rightarrow> string \<Rightarrow> migration_run_options
      \<Rightarrow> ('w, chat_resolution_request option) bot" where
  "prepare_channel_chat_resolution dk x operator chat opts =
    (let bv = dk_bot dk in
     bind (authorize bv operator) (\<lambda>_.
     bind (source_backend_for_chat bv chat (ro_source_backend opts)) (\<lambda>backend.
     execute_for_source_backends bv x operator [backend] (\<lambda>x.
       bind (open_dialog bv x operator chat backend {''channel''}) (\<lambda>opened.
       case opened of
         None \<Rightarrow> ret None
       | Some (migration, d) \<Rightarrow>
           if \<not> creates_target opts then ret None
           else
             bind (outside_bot (px_channel_profile (bv_provisioning bv x) chat backend)) (\<lambda>profile.
             settle_channel dk x chat backend opts migration d (cap_can_list_participants profile)))))))"

section \<open>Importing an export archive\<close>

definition snapshot_dialog :: "parsed_snapshot \<Rightarrow> source_dialog" where
  "snapshot_dialog p = \<lparr>sd_dialog_id = ps_source_chat_id p, sd_chat_type = ps_source_chat_type p,
     sd_title = ps_source_chat_title p, sd_message_count = ps_message_count p, sd_media_count = ps_media_count p,
     sd_approximate_bytes = ps_approximate_bytes p, sd_has_topics = False\<rparr>"

definition snapshot_record_of :: "parsed_snapshot \<Rightarrow> string \<Rightarrow> string \<Rightarrow> datetime \<Rightarrow> export_snapshot_record" where
  "snapshot_record_of p locator huid now = \<lparr>ex_source_chat_id = ps_source_chat_id p,
     ex_source_chat_title = ps_source_chat_title p, ex_source_chat_type = ps_source_chat_type p,
     ex_original_filename = ps_original_filename p, ex_export_chat_id = ps_export_chat_id p,
     ex_archive_locator = locator, ex_payload_sha256 = ps_payload_sha256 p, ex_message_count = ps_message_count p,
     ex_media_count = ps_media_count p, ex_approximate_bytes = ps_approximate_bytes p,
     ex_uploaded_by_huid = huid, ex_created_at = now, ex_updated_at = now\<rparr>"

definition archive_options :: "parsed_snapshot \<Rightarrow> migration_run_options" where
  "archive_options p = default_run_options\<lparr>ro_source_backend := Some ''telegram_export_archive'',
     ro_target_strategy := Some ''create'', ro_target_title := Some (ps_source_chat_title p),
     ro_migrate_media := Some False, ro_reply_mode := Some (md_reply_mode default_manifest_defaults),
     ro_identity_policy := Some ''display_only'', ro_access_strategy := Some ''direct_add'',
     ro_skip_in_all := Some True\<rparr>"

definition stage_archive ::
    "'w desk_services \<Rightarrow> bot_context \<Rightarrow> bot_operator_context \<Rightarrow> string option \<Rightarrow> string \<Rightarrow> string \<Rightarrow> parsed_snapshot
      \<Rightarrow> chat_config_record option \<Rightarrow> ('w, chat_config_record) bot" where
  "stage_archive dk x operator filename content migration p existing =
    (let bv = dk_bot dk in
     bind (outside_bot (dk_stage_upload dk filename content)) (\<lambda>locator.
     bind (save_chat_config bv x operator (snapshot_dialog p) (archive_options p) existing) (\<lambda>saved.
     bind (bot_now bv) (\<lambda>now.
     bind (modify (\<lambda>s. s\<lparr>bt_snapshots := export_snapshot_save
       (snapshot_record_of p locator (op_huid operator) now) (bt_snapshots s)\<rparr>)) (\<lambda>_.
     bind (audit_operator bv migration operator ''telegram_export_archive_staged''
       [(''source_chat_id'', JStr (cc_source_chat_id saved)), (''source_chat_type'', JStr (cc_source_chat_type saved)),
        (''source_chat_title'', JStr (cc_source_chat_title saved)), (''archive_filename'', json_opt_str filename),
        (''message_count'', JInt (ps_message_count p)), (''media_count'', JInt (ps_media_count p)),
        (''approximate_bytes'', JInt (ps_approximate_bytes p)),
        (''export_chat_id'', json_opt_str (ps_export_chat_id p))]) (\<lambda>_.
     ret saved))))))"

definition start_archive_import ::
    "'w desk_services \<Rightarrow> bot_context \<Rightarrow> bot_operator_context \<Rightarrow> string \<Rightarrow> string option
      \<Rightarrow> ('w, bot_operation_accepted_result) bot" where
  "start_archive_import dk x operator content filename =
    (let bv = dk_bot dk in
     bind (authorize bv operator) (\<lambda>_.
     execute_for_source_backends bv x operator [''telegram_export_archive''] (\<lambda>x.
       bind (outside_bot (dk_parse_upload dk filename content)) (\<lambda>p.
       bind (lift_outcome (require_migration_id bv)) (\<lambda>migration.
       bind (find_config migration (ps_source_chat_id p)) (\<lambda>existing.
       bind (lift_outcome (ensure_owner_of_some existing (Some (op_huid operator)))) (\<lambda>_.
       bind (completed_chat_already_migrated_result bv x migration (snapshot_dialog p) (Some (op_huid operator))) (\<lambda>migrated.
       case migrated of
         Some r \<Rightarrow> ret (r\<lparr>ar_operation := ''import_archive_chat''\<rparr>)
       | None \<Rightarrow>
           bind (stage_archive dk x operator filename content migration p existing) (\<lambda>saved.
           bind (load_config_manifest bv (Some (op_huid operator)) (Some [cc_source_chat_id saved]) True False) (\<lambda>m.
           bind (validate_manifest_preconditions bv x m) (\<lambda>_.
           start_job bv x operator ''import_archive_chat'' m [cc_source_chat_id saved] (archive_options p))))))))))))"

end
