(* ===== verification/Bot_Facts.thy ===== *)
theory Bot_Facts
  imports Bot_Jobs Bot_Identities
begin

text \<open>
  The commands of the bot as one interface, and what they do to the configurations: a configuration
  belongs to the operator who made it, and a manifest holds chats of its operator only.
\<close>

section \<open>The commands\<close>

datatype bot_command =
    ListChats int "string option" string
  | Configure string migration_run_options
  | ShowChat string
  | ShowOrConfigure string
  | ListUsers string
  | MigrateAll migration_run_options
  | Migrate string migration_run_options
  | Remigrate string migration_run_options
  | StartDelta "string option" "int option"
  | ReplayFailed "string option" int "int option"
  | Reconcile "string option"
  | ShowStatus "string option"
  | ShowStats
  | PauseDelta
  | ResumeDelta
  | ListMigrated
  | MembersWorkbook string
  | AddMembers string string
  | ImportArchive string "string option"
  | MapIdentity "string option" "string option" "string option" string
  | PreparePrivate string migration_run_options
  | PrepareGroup string migration_run_options
  | PrepareChannel string migration_run_options
  | ApplyGroupMatrix string string
  | ApplyChannelMatrix string string
  | MapPeer string "string option" "string option"

text \<open>A command, without its answer.\<close>

definition unanswered :: "('s, 'a) action \<Rightarrow> ('s, unit) run" where
  "unanswered m = ends (bind m (\<lambda>_. ret ()))"

fun run_command ::
    "'w desk_services \<Rightarrow> bot_context \<Rightarrow> bot_operator_context \<Rightarrow> bot_command \<Rightarrow> ('w bot_state, unit) run" where
  "run_command dk x op (ListChats limit query backend) = unanswered (list_available_chats (dk_bot dk) x op limit query backend)"
| "run_command dk x op (Configure chat opts) = unanswered (configure_chat (dk_bot dk) x op chat opts)"
| "run_command dk x op (ShowChat chat) = unanswered (show_chat (dk_bot dk) op chat)"
| "run_command dk x op (ShowOrConfigure chat) = unanswered (show_or_configure_chat (dk_bot dk) x op chat)"
| "run_command dk x op (ListUsers chat) = unanswered (list_chat_users (dk_bot dk) x op chat)"
| "run_command dk x op (MigrateAll opts) = unanswered (start_migrate_all (dk_bot dk) x op opts)"
| "run_command dk x op (Migrate chat opts) = unanswered (start_migrate_chat (dk_bot dk) x op chat opts)"
| "run_command dk x op (Remigrate chat opts) = unanswered (remigrate_chat (dk_bot dk) x op chat opts)"
| "run_command dk x op (StartDelta chat n) = unanswered (start_delta_sync (dk_bot dk) x op chat n)"
| "run_command dk x op (ReplayFailed chat limit n) =
    and_then (bot_replay_failed (dk_bot dk) x op chat limit n) (\<lambda>_. ends (ret ()))"
| "run_command dk x op (Reconcile chat) = unanswered (reconcile (dk_bot dk) op chat)"
| "run_command dk x op (ShowStatus chat) = unanswered (status (dk_bot dk) x op chat)"
| "run_command dk x op ShowStats = unanswered (stats (dk_bot dk) x op)"
| "run_command dk x op PauseDelta = unanswered (bot_pause_delta (dk_bot dk) op)"
| "run_command dk x op ResumeDelta = unanswered (bot_resume_delta (dk_bot dk) op)"
| "run_command dk x op ListMigrated = unanswered (list_migrated_chats_for_user_addition (dk_bot dk) op)"
| "run_command dk x op (MembersWorkbook sel) = unanswered (prepare_chat_members_workbook dk x op sel)"
| "run_command dk x op (AddMembers sel content) = unanswered (add_chat_members_from_workbook dk x op sel content)"
| "run_command dk x op (ImportArchive content name) = unanswered (start_archive_import dk x op content name)"
| "run_command dk x op (MapIdentity user name display email) =
    unanswered (map_identity (dk_bot dk) x op user name display email)"
| "run_command dk x op (PreparePrivate chat opts) = unanswered (prepare_private_chat_resolution (dk_bot dk) x op chat opts)"
| "run_command dk x op (PrepareGroup chat opts) = unanswered (prepare_group_chat_resolution dk x op chat opts)"
| "run_command dk x op (PrepareChannel chat opts) = unanswered (prepare_channel_chat_resolution dk x op chat opts)"
| "run_command dk x op (ApplyGroupMatrix chat content) = unanswered (apply_group_identity_matrix dk x op chat content)"
| "run_command dk x op (ApplyChannelMatrix chat content) = unanswered (apply_channel_identity_matrix dk x op chat content)"
| "run_command dk x op (MapPeer chat email huid) =
    unanswered (map_private_chat_peer_identity (dk_bot dk) x op chat email huid)"

text \<open>Commands of several operators, one after another, whatever each of them answers or raises.\<close>

fun run_commands ::
    "'w desk_services \<Rightarrow> (bot_context \<times> bot_operator_context \<times> bot_command) list \<Rightarrow> 'w bot_state \<Rightarrow> 'w bot_state option" where
  "run_commands dk [] s = Some s"
| "run_commands dk ((x, op, c) # cs) s = Option.bind (run_command dk x op c s) (\<lambda>(_, s'). run_commands dk cs s')"

section \<open>Refused operators\<close>

lemma bind_refused [simp]: "bot_authorize (bv_control bv) op = Some e \<Longrightarrow> bind (authorize bv op) f s = (Inl e, s)"
  by (simp add: authorize_def throw_def bind_def)

lemma refused_command:
  assumes "bot_authorize (bv_control (dk_bot dk)) op = Some e"
  shows "run_command dk x op c s = Some (Inl e, s)"
proof -
  have un: "unanswered (bind (authorize (dk_bot dk) op) f) s = Some (Inl e, s)" for f :: "unit \<Rightarrow> ('a bot_state, 'b) action"
    using assms by (simp add: unanswered_def ends_def bind_assoc)
  show ?thesis
    by (cases c)
      (use assms in \<open>simp_all add: un list_available_chats_def configure_chat_def show_chat_def
        show_or_configure_chat_def list_chat_users_def start_migrate_all_def start_migrate_chat_def remigrate_chat_def
        start_or_return_chat_def start_delta_sync_def bot_replay_failed_def and_then_def ends_def reconcile_def
        status_def stats_def bot_pause_delta_def bot_resume_delta_def control_migration_def
        list_migrated_chats_for_user_addition_def prepare_chat_members_workbook_def
        add_chat_members_from_workbook_def start_archive_import_def map_identity_def
        prepare_private_chat_resolution_def prepare_group_chat_resolution_def prepare_channel_chat_resolution_def
        apply_group_identity_matrix_def apply_channel_identity_matrix_def apply_identity_matrix_def
        map_private_chat_peer_identity_def Let_def\<close>)
qed

section \<open>What steps do to the configurations\<close>

named_theorems mind \<open>steps that keep what holds of the configurations\<close>

definition minds :: "(chat_config_repo \<Rightarrow> bool) \<Rightarrow> ('w, 'a) bot \<Rightarrow> bool" where
  "minds P m \<longleftrightarrow> (\<forall>s. P (bt_configs s) \<longrightarrow> P (bt_configs (snd (m s))))"

lemma mindsD: "minds P m \<Longrightarrow> P (bt_configs s) \<Longrightarrow> m s = (r, s') \<Longrightarrow> P (bt_configs s')"
  unfolding minds_def by (metis snd_conv)

lemma mindsI: "(\<And>s r s'. P (bt_configs s) \<Longrightarrow> m s = (r, s') \<Longrightarrow> P (bt_configs s')) \<Longrightarrow> minds P m"
  unfolding minds_def by (metis prod.collapse)

lemma minds_basic [mind]:
  "minds P (ret a)" "minds P (throw e)" "minds P (get_state f)" "minds P (lift_outcome r)"
  by (simp_all add: minds_def action_defs)

lemma minds_bind [mind]: "minds P m \<Longrightarrow> (\<And>a. minds P (f a)) \<Longrightarrow> minds P (bind m f)"
  by (rule mindsI) (auto simp: bind_def dest: mindsD split: prod.splits sum.splits)

lemma minds_catch: "minds P m \<Longrightarrow> (\<And>e h. handler e = Some h \<Longrightarrow> minds P h) \<Longrightarrow> minds P (catch_error m handler)"
  by (rule mindsI) (auto simp: catch_error_def dest: mindsD split: prod.splits sum.splits option.splits)

lemma minds_for_each [mind]: "(\<And>x. minds P (f x)) \<Longrightarrow> minds P (for_each f xs)"
  by (induction xs) (auto intro!: mind)

lemma minds_parts [mind]:
  "minds P (in_import m)" "minds P (outside_bot act)" "minds P (in_control ctl)" "minds P (bot_now bv)"
  "minds P (in_identities ids)" "minds P (on_part bt_login (\<lambda>l s. s\<lparr>bt_login := l\<rparr>) login)"
  by (simp_all add: minds_def in_import_def outside_bot_def in_control_def put_control_def bot_now_def
      in_identities_def on_part_def split_beta)

lemma minds_audit [mind]:
  "minds P (bot_audit bv migration chat event severity payload)" "minds P (audit_operator bv migration op event payload)"
  unfolding bot_audit_def audit_operator_def
  by (intro mind; simp add: minds_def modify_def put_audit_log_def)+

lemma minds_authorize [mind]: "minds P (authorize bv op)"
  unfolding authorize_def by (auto intro!: mind split: option.split)

lemma minds_under_host [mind]: "(\<And>x. minds P (f x)) \<Longrightarrow> minds P (under_cts_host bv x host f)"
  unfolding under_cts_host_def by (intro mind)

lemma minds_backend [mind]: "minds P (source_backend_for_chat bv chat requested)"
  unfolding source_backend_for_chat_def find_config_def by (auto intro!: mind split: option.split)

lemma minds_session [mind]: "minds P (operator_session_context bv x op)"
  unfolding operator_session_context_def by (intro mind)

lemma minds_backends [mind]: "minds P (source_backends_context bv x op backends)"
  unfolding source_backends_context_def by (auto intro!: mind)

lemma minds_execute [mind]:
  "(\<And>x. minds P (f x)) \<Longrightarrow> minds P (execute_with_operator_session bv x op f)"
  "(\<And>x. minds P (f x)) \<Longrightarrow> minds P (execute_for_source_backends bv x op backends f)"
  unfolding execute_with_operator_session_def execute_for_source_backends_def by (auto intro!: mind)

lemma minds_reads [mind]:
  "minds P (find_config migration chat)" "minds P (list_configs migration)" "minds P (find_chat_mapping migration chat)"
  "minds P (progress_hints_for migration chats)" "minds P (chat_configuration_result r)"
  "minds P (resolve_migrated_chat_binding migration huid sel)"
  by (auto simp: find_config_def list_configs_def find_chat_mapping_def progress_hints_for_def
      chat_configuration_result_def resolve_migrated_chat_binding_def Let_def intro!: mind split: option.split)

lemma minds_discover [mind]: "minds P (discover_dialog bv x chat backend)"
  unfolding discover_dialog_def by (auto intro!: mind split: option.split)

lemma minds_manifest [mind]:
  "minds P (load_config_manifest bv huid chats required skipped)"
  "minds P (load_runtime_manifest bv huid chat required skipped)"
  "minds P (validate_manifest_preconditions bv x m)"
  unfolding load_runtime_manifest_def load_config_manifest_def validate_manifest_preconditions_def
  by (auto intro!: mind)

lemma minds_topics [mind]: "minds P (topic_targets bv x migration rs)"
  by (induction rs) (auto intro!: mind simp: linked_chat_def split: option.split)

lemma minds_completed [mind]: "minds P (completed_chat_already_migrated_result bv x migration d huid)"
  unfolding completed_chat_already_migrated_result_def linked_chat_def Let_def
  by (auto intro!: mind split: option.split)

lemma minds_effective [mind]:
  "minds P (effective_identity_policy migration chat requested)" "minds P (effective_access_strategy migration chat requested)"
  "minds P (effective_topic_strategy migration chat requested)"
  by (auto simp: effective_identity_policy_def effective_access_strategy_def effective_setting_def
      effective_topic_strategy_def intro!: mind split: option.split)

lemma minds_starts [mind]:
  "minds P (start_environments bv x)" "minds P (start_job bv x op operation m chats opts)"
  "minds P (start_jobs bv x op aggregate operation m chats opts)"
  unfolding start_job_def start_jobs_def start_environments_def by (auto intro!: mind)

lemma minds_inventory [mind]: "minds P (run_inventory bv x m)"
proof -
  have "minds P (\<lambda>s. case inventory_execute (bv_retry bv) (bv_random bv) (bv_manifest_dialogs bv x m) m now
      (dl_world (im_delivery (bt_import s))) (bt_inventory s, bot_audit_log s) of
    (r, w, snapshots, evs) \<Rightarrow> (r, put_audit_log evs (s\<lparr>bt_inventory := snapshots,
      bt_import := (bt_import s)\<lparr>im_delivery := (im_delivery (bt_import s))\<lparr>dl_world := w\<rparr>\<rparr>\<rparr>)))" for now
    by (simp add: minds_def put_audit_log_def split_beta)
  then show ?thesis unfolding run_inventory_def by (intro mind)
qed

lemma minds_reconcile [mind]: "minds P (run_reconcile bv m chat)"
proof -
  have "minds P (\<lambda>s. case reconcile_execute m chat now (reconcile_repos_of s) (bot_audit_log s) of
      (r, evs) \<Rightarrow> (Inr r, put_audit_log evs s))" for now
    by (simp add: minds_def put_audit_log_def split_beta)
  then show ?thesis unfolding run_reconcile_def by (intro mind)
qed

lemma minds_control [mind]: "minds P (control_migration command bv op)"
proof -
  have "minds P (\<lambda>s. case command m now (im_states (bt_import s), bot_audit_log s) of
      Inl e \<Rightarrow> (Inl e, s)
    | Inr (r, states, evs) \<Rightarrow> (Inr r, put_audit_log evs (s\<lparr>bt_import := (bt_import s)\<lparr>im_states := states\<rparr>\<rparr>)))" for m now
    by (auto simp: minds_def put_audit_log_def split: sum.split prod.split)
  then show ?thesis unfolding control_migration_def by (intro mind)
qed

section \<open>Reports and identities write no configurations\<close>

lemma minds_status [mind]: "minds P (status bv x op chat)"
  unfolding status_def by (intro mind)

lemma minds_rows [mind]: "minds P (member_rows_of bv dc domain index rows acc)"
  by (induction rows arbitrary: index acc)
    (auto intro!: mind simp: member_row_def file_member_row_def resolve_selector_def Let_def split: option.split)

lemma minds_identity_rows [mind]: "minds P (identity_rows dc domain rows acc)"
  by (induction rows arbitrary: acc)
    (auto intro!: mind simp: identity_row_def resolve_selector_def split: option.split selector_kind.split prod.split)

lemma minds_matrix [mind]: "minds P (apply_identity_matrix event dk x op chat content)"
  unfolding apply_identity_matrix_def apply_identity_matrix_workbook_def Let_def by (auto intro!: mind split: prod.split)

lemma minds_open [mind]: "minds P (open_dialog bv x op chat backend types)"
  unfolding open_dialog_def by (auto intro!: mind)

lemma minds_peer [mind]: "minds P (private_chat_peer_entry bv x chat)"
  unfolding private_chat_peer_entry_def by (intro mind)

lemma minds_listed [mind]: "minds P (listed_participants bv x chat backend)"
  unfolding listed_participants_def on_fatal_def
  by (rule minds_catch) (auto intro!: mind split: error.splits)

lemma minds_settle [mind]:
  "minds P (settle_group dk x chat backend opts migration d)"
  "minds P (settle_channel dk x chat backend opts migration d can_list)"
  unfolding settle_group_def settle_channel_def Let_def by (auto intro!: mind)

lemma minds_listing: "minds P (catch_error (bind (in_import m) (\<lambda>a. ret (a, None))) (\<lambda>e. case e of
    FatalItemError t \<Rightarrow> Some (if c then throw e else ret (b, Some (f t))) | _ \<Rightarrow> None))"
  by (rule minds_catch) (auto intro!: mind split: error.splits)

section \<open>Saving a configuration\<close>

lemma minds_save_config:
  assumes "\<And>c. P c \<Longrightarrow> P (snd (chat_config_save r c))"
  shows "minds P (save_config r op)"
proof -
  have "minds P (on_part bt_configs (\<lambda>c s. s\<lparr>bt_configs := c\<rparr>) (total_op (chat_config_save r')))"
    if "make_chat_config r = Inr r'" for r'
    using that assms by (auto simp: minds_def on_part_def total_op_def split_beta make_chat_config_def
        split: option.splits if_splits)
  then show ?thesis
    by (intro mindsI) (auto simp: save_config_def bind_def lift_outcome_def ret_def dest!: mindsD
        split: sum.splits prod.splits)
qed

lemma minds_created_or_now [mind]: "minds P (created_or_now bv existing)"
  unfolding created_or_now_def by (auto intro!: mind split: option.split)

text \<open>What an operator may write: what is kept by every save under his name.\<close>

definition writable :: "string \<Rightarrow> (chat_config_repo \<Rightarrow> bool) \<Rightarrow> bool" where
  "writable huid P \<longleftrightarrow> (\<forall>r c. cc_updated_by_huid r = huid \<longrightarrow> P c \<longrightarrow> P (snd (chat_config_save r c)))"

lemma minds_save [mind]:
  assumes "writable (op_huid op) P"
  shows "minds P (save_chat_config bv x op d opts existing)"
  unfolding save_chat_config_def Let_def
  using assms by (auto simp: writable_def intro!: mind minds_save_config)

lemma minds_topic_config:
  assumes "writable (op_huid op) P"
  shows "minds P (save_topic_config bv migration op d opts parent title records topic)"
  unfolding save_topic_config_def Let_def
  using assms by (auto simp: writable_def intro!: mind minds_save_config)

lemma minds_split [mind]:
  assumes "writable (op_huid op) P"
  shows "minds P (save_split_topic_chat_configs bv x op d opts existing)"
  unfolding save_split_topic_chat_configs_def Let_def
  using assms by (auto intro!: mind minds_topic_config)

lemma minds_bootstrap:
  assumes "writable (op_huid op) P"
  shows "minds P (bootstrap_chats bv x migration op opts known ds)"
proof -
  have "minds P (bootstrap_chat bv x migration op opts d)" for d
    unfolding bootstrap_chat_def
    by (rule minds_catch) (use assms in \<open>auto intro!: mind split: error.splits option.split\<close>)
  then show ?thesis
    by (induction ds arbitrary: known) (auto intro!: mind)
qed

lemma minds_load_or_bootstrap [mind]:
  assumes "writable (op_huid op) P"
  shows "minds P (load_or_bootstrap_config_manifest bv x op opts)"
  unfolding load_or_bootstrap_config_manifest_def
  by (intro mind minds_bootstrap assms)

lemma minds_upsert [mind]:
  assumes "writable (op_huid op) P"
  shows "minds P (upsert_chat_config bv x op chat opts)"
  unfolding upsert_chat_config_def by (intro mind assms)

lemma minds_configure [mind]:
  assumes "writable (op_huid op) P"
  shows "minds P (configure_chat bv x op chat opts)"
  unfolding configure_chat_def by (intro mind assms)

lemma minds_start [mind]:
  assumes "writable (op_huid op) P"
  shows "minds P (start_or_return_chat bv x op chat opts existing required)"
  unfolding start_or_return_chat_def configure_and_start_def Let_def
  using assms by (auto intro!: mind)

lemma minds_archive [mind]:
  assumes "writable (op_huid op) P"
  shows "minds P (start_archive_import dk x op content name)"
proof -
  have "minds P (modify (\<lambda>s :: 'a bot_state. s\<lparr>bt_snapshots := f s\<rparr>))" for f
    by (simp add: minds_def modify_def)
  then show ?thesis
    unfolding start_archive_import_def stage_archive_def Let_def
    using assms by (auto intro!: mind split: option.split)
qed

lemma minds_unanswered: "minds P m \<Longrightarrow> P (bt_configs s) \<Longrightarrow> unanswered m s = Some (r, s') \<Longrightarrow> P (bt_configs s')"
  by (auto simp: unanswered_def ends_def dest: mindsD [OF minds_bind [OF _ minds_basic(1)]])

section \<open>Runs\<close>

definition run_minds :: "(chat_config_repo \<Rightarrow> bool) \<Rightarrow> ('w bot_state, 'a) run \<Rightarrow> bool" where
  "run_minds P m \<longleftrightarrow> (\<forall>s r s'. P (bt_configs s) \<longrightarrow> m s = Some (r, s') \<longrightarrow> P (bt_configs s'))"

lemma run_mindsD: "run_minds P m \<Longrightarrow> P (bt_configs s) \<Longrightarrow> m s = Some (r, s') \<Longrightarrow> P (bt_configs s')"
  by (auto simp: run_minds_def)

lemma run_minds_ends [mind]: "minds P m \<Longrightarrow> run_minds P (ends m)"
  by (auto simp: run_minds_def ends_def dest: mindsD)

lemma run_minds_and_then [mind]:
  assumes m: "run_minds P m" and f: "\<And>a. run_minds P (f a)"
  shows "run_minds P (and_then m f)"
  unfolding run_minds_def [of P "and_then m f"]
proof (intro allI impI)
  fix s r s'
  assume "P (bt_configs s)" "and_then m f s = Some (r, s')"
  then obtain q s1 where q: "m s = Some (q, s1)" by (auto simp: and_then_def split: option.splits)
  have s1: "P (bt_configs s1)" by (rule run_mindsD [OF m \<open>P (bt_configs s)\<close> q])
  show "P (bt_configs s')"
  proof (cases q)
    case (Inl e)
    with q s1 \<open>and_then m f s = Some (r, s')\<close> show ?thesis by (simp add: and_then_def)
  next
    case (Inr a)
    with q \<open>and_then m f s = Some (r, s')\<close> have "f a s1 = Some (r, s')" by (simp add: and_then_def)
    then show ?thesis by (rule run_mindsD [OF f s1])
  qed
qed

lemma run_minds_importing [mind]: "run_minds P (importing m)"
  by (auto simp: run_minds_def importing_def split: option.splits)

lemma run_minds_replay [mind]: "run_minds P (bot_replay_failed bv x op chat limit n)"
proof -
  have each: "run_minds P (replay_each bv x' m limit n' parts acc)" for x' m n' parts acc
    by (induction parts arbitrary: acc) (auto intro!: mind)
  show ?thesis
    unfolding bot_replay_failed_def by (auto intro!: mind each split: prod.split)
qed

lemma run_minds_unanswered [mind]: "minds P m \<Longrightarrow> run_minds P (unanswered m)"
  unfolding unanswered_def by (intro mind)

lemma run_command_minds:
  assumes "writable (op_huid op) P"
  shows "run_minds P (run_command dk x op c)"
  using assms
  by (cases c)
    (auto intro!: mind minds_listing split: prod.split option.split simp: list_available_chats_def show_chat_def show_or_configure_chat_def
      list_chat_users_def start_migrate_all_def start_migrate_chat_def remigrate_chat_def start_delta_sync_def
      reconcile_def stats_def bot_pause_delta_def bot_resume_delta_def list_migrated_chats_for_user_addition_def
      prepare_chat_members_workbook_def add_chat_members_from_workbook_def map_identity_def
      prepare_private_chat_resolution_def prepare_group_chat_resolution_def prepare_channel_chat_resolution_def
      apply_group_identity_matrix_def apply_channel_identity_matrix_def map_private_chat_peer_identity_def Let_def)

lemma run_commands_minds:
  assumes "run_commands dk cs s = Some s'" and "P (bt_configs s)" and "\<forall>(x, op, c) \<in> set cs. writable (op_huid op) P"
  shows "P (bt_configs s')"
  using assms
proof (induction cs arbitrary: s)
  case (Cons a cs)
  obtain x op c where a: "a = (x, op, c)" by (cases a)
  from Cons.prems(1) a obtain r s1 where run: "run_command dk x op c s = Some (r, s1)" and rest: "run_commands dk cs s1 = Some s'"
    by (auto simp: bind_eq_Some_conv)
  have "P (bt_configs s1)"
    using run_mindsD [where P = P, OF run_command_minds [where P = P] Cons.prems(2) run] Cons.prems(3) a by auto
  with Cons.IH [OF rest] Cons.prems(3) show ?case by auto
qed simp

lemma foreign_writable:
  assumes "cc_updated_by_huid r \<noteq> huid"
  shows "writable huid (\<lambda>c. chat_config_get c k = Some r)"
  unfolding writable_def
proof (intro allI impI)
  fix r' :: chat_config_record and c assume "cc_updated_by_huid r' = huid" "chat_config_get c k = Some r"
  with chat_config_save_owner [of c k r r'] assms show "chat_config_get (snd (chat_config_save r' c)) k = Some r" by auto
qed

lemma owner_writable:
  "writable huid (\<lambda>c. \<exists>r'. chat_config_get c k = Some r' \<and> cc_updated_by_huid r' = owner \<and> cc_created_at r' = t)"
  unfolding writable_def using chat_config_save_owner by metis

section \<open>Manifests\<close>

lemma all_ok_map_Inr: "all_ok (map Inr ys) = Inr ys"
  by (induction ys) simp_all

lemma all_ok_Inr: "all_ok xs = Inr ys \<longleftrightarrow> xs = map Inr ys"
proof
  show "all_ok xs = Inr ys \<Longrightarrow> xs = map Inr ys"
    by (induction xs arbitrary: ys rule: all_ok.induct) (auto split: sum.splits)
qed (simp add: all_ok_map_Inr)

lemma map_Inr_conv: "map f xs = map Inr ys \<longleftrightarrow> list_all2 (\<lambda>x y. f x = Inr y) xs ys"
  by (induction xs arbitrary: ys) (auto simp: list_all2_Cons1 Cons_eq_map_conv)

lemma construct_dialog_Inr: "construct_dialog d = Inr d' \<Longrightarrow> d' = d"
  by (auto simp: construct_dialog_def validate_target_def split: if_splits)

text \<open>What becomes of the configurations that were chosen for a manifest.\<close>

definition chosen_configs ::
    "chat_config_record list \<Rightarrow> string option \<Rightarrow> string list option \<Rightarrow> bool \<Rightarrow> chat_config_record list \<Rightarrow> bool" where
  "chosen_configs configs huid chats skipped rs \<longleftrightarrow>
    (\<forall>r \<in> set rs. r \<in> set configs \<and> (huid = None \<or> huid = Some (cc_updated_by_huid r))
       \<and> (case chats of None \<Rightarrow> \<not> is_split_root_config r \<and> (skipped \<or> \<not> cc_skip_in_all r)
          | Some ids \<Rightarrow> cc_source_chat_id r \<in> set ids
              \<or> or_empty (py_or (cc_telegram_chat_id r) (Some (cc_source_chat_id r))) \<in> set ids))"

lemma topic_records_mem:
  "r \<in> set (topic_child_configs_for_records (records_of_telegram_chat rs chat)) \<Longrightarrow>
    r \<in> set rs \<and> or_empty (py_or (cc_telegram_chat_id r) (Some (cc_source_chat_id r))) = chat"
  by (auto simp: topic_child_configs_for_records_def records_of_telegram_chat_def)

lemma select_configs_mem:
  assumes "select_configs huid configs owned ids = Inr (rs, missing)" and "r \<in> set rs"
  shows "r \<in> set owned \<and> (cc_source_chat_id r \<in> set ids
    \<or> or_empty (py_or (cc_telegram_chat_id r) (Some (cc_source_chat_id r))) \<in> set ids)"
  using assms
proof (induction ids arbitrary: rs missing)
  case (Cons c cs)
  then show ?case
    by (auto simp: Let_def find_Some_iff split: sum.splits option.splits if_splits dest!: topic_records_mem)
qed simp

text \<open>Every requested chat is missing or is there, as itself or as its topics.\<close>

lemma select_configs_complete:
  assumes "select_configs huid configs owned ids = Inr (rs, missing)" and "c \<in> set ids" and "c \<notin> set missing"
  shows "\<exists>r \<in> set rs. cc_source_chat_id r = c \<or> or_empty (py_or (cc_telegram_chat_id r) (Some (cc_source_chat_id r))) = c"
  using assms
proof (induction ids arbitrary: rs missing)
  case (Cons c' cs)
  have topic: "\<exists>r \<in> set ts. or_empty (py_or (cc_telegram_chat_id r) (Some (cc_source_chat_id r))) = c'"
    if "ts = topic_child_configs_for_records (records_of_telegram_chat owned c')" "ts \<noteq> []" for ts
    using that topic_records_mem [of "hd ts" owned c'] hd_in_set [OF that(2)] by auto
  obtain rs1 m1 rs2 m2 where rs: "rs = rs1 @ rs2" "missing = m1 @ m2"
    and tail: "select_configs huid configs owned cs = Inr (rs2, m2)"
    and head: "c' \<notin> set m1 \<longrightarrow> (\<exists>r \<in> set rs1. cc_source_chat_id r = c'
      \<or> or_empty (py_or (cc_telegram_chat_id r) (Some (cc_source_chat_id r))) = c')"
    using Cons.prems(1) topic [OF refl]
    by (auto simp: Let_def find_Some_iff split: sum.splits option.splits if_splits; blast)
  show ?case
  proof (cases "c = c'")
    case True
    with head Cons.prems(3) rs show ?thesis by auto
  next
    case False
    with Cons.IH [OF tail] Cons.prems(2,3) rs show ?thesis by auto
  qed
qed simp

end
