(* ===== verification/Bot_Runs.thy ===== *)
theory Bot_Runs
  imports Bot_Facts Import_Guards Backfill_Facts
begin

text \<open>
  A migration job over all its chats: the backfill of one chat leaves what was settled before and the
  progress of the other chats alone, so that a job whose chats are served without gaps ends with
  every due message settled, except those of the chats it reports as failed.
\<close>

section \<open>The backfill of another chat\<close>

definition untouched ::
    "message_key set \<Rightarrow> string \<times> string \<times> string \<Rightarrow> history_cursor option \<Rightarrow> ledger \<Rightarrow> bool" where
  "untouched keys x cur l \<longleftrightarrow> message_inv (fst l) \<and> (\<forall>k \<in> keys. message_settled (fst l) k)
     \<and> stored_cursor x (snd l) = cur"

interpretation untouched: backfill_guard "untouched keys x cur" "\<lambda>k. k \<notin> keys" "\<lambda>k. k \<noteq> x" for keys x cur
proof
  fix l r now stamp
  assume "untouched keys x cur l" and "fst (fst (message_claim r now stamp (fst l))) = Claimed"
  then show "message_key r \<notin> keys"
    using settled_not_claimed [of "fst l" r now stamp] by (auto simp: untouched_def)
qed (auto simp: untouched_def stored_cursor_def message_settled_def intro: message_inv_write)

lemma backfill_other:
  assumes "undisturbed_provision svc" and "backfill svc c s = Some (r, s')"
    and "backfill_checkpoint c \<noteq> backfill_checkpoint c'" and "up_to_date c' pl num H s"
  shows "up_to_date c' pl num H s'"
proof -
  let ?keys = "{k. message_settled (im_messages s) k}"
  have "untouched ?keys (backfill_checkpoint c') (resume_point c' s) (ledger s)"
    using assms(4) by (auto simp: untouched_def ledger_def resume_point_def up_to_date_def)
  from untouched.keeps_backfill [OF _ keeps_provision [OF assms(1)] this assms(2)] assms(3)
  have "untouched ?keys (backfill_checkpoint c') (resume_point c' s) (ledger s')"
    by (simp add: backfill_checkpoint_def)
  with assms(4) show ?thesis by (auto simp: untouched_def ledger_def up_to_date_def resume_point_def)
qed

text \<open>What was settled stays settled.\<close>

lemma backfill_settled:
  assumes "undisturbed_provision svc" and "backfill svc c s = Some (r, s')" and "message_inv (im_messages s)"
    and "message_settled (im_messages s) k"
  shows "message_settled (im_messages s') k"
proof -
  let ?x = "(bfc_migration_id c, bfc_source_chat_id c, [])"
  let ?keys = "{k. message_settled (im_messages s) k}"
  have "untouched ?keys ?x (stored_cursor ?x (im_checkpoints s)) (ledger s)"
    using assms(3) by (auto simp: untouched_def ledger_def)
  from untouched.keeps_backfill [OF _ keeps_provision [OF assms(1)] this assms(2)]
  have "untouched ?keys ?x (stored_cursor ?x (im_checkpoints s)) (ledger s')" by simp
  with assms(4) show ?thesis by (simp add: untouched_def ledger_def del: split_paired_All)
qed

section \<open>The chats of a job\<close>

definition chat_backfill :: "migration_manifest \<Rightarrow> int \<Rightarrow> string \<Rightarrow> backfill_command" where
  "chat_backfill m n chat = \<lparr>bfc_manifest = m, bfc_source_chat_id = chat, bfc_batch_size = n\<rparr>"

text \<open>
  The source of a chat: how it is copied and its history. It is served without gaps, and what is due
  up to the stored checkpoint is settled.
\<close>

record chat_source =
  cs_plan :: backfill_plan
  cs_num :: "string \<Rightarrow> int"
  cs_history :: "telegram_source_message list"

definition served :: "'w import_services \<Rightarrow> migration_manifest \<Rightarrow> int \<Rightarrow> string \<Rightarrow> chat_source \<Rightarrow> bool" where
  "served svc m n chat h \<longleftrightarrow> plan_for svc (chat_backfill m n chat) (cs_plan h)
     \<and> ordered_history (cs_num h) (cs_history h)
     \<and> serves svc (pl_dialog (cs_plan h)) n (cs_num h) (cs_history h)"

definition in_step :: "migration_manifest \<Rightarrow> int \<Rightarrow> string \<Rightarrow> chat_source \<Rightarrow> 'w import_state \<Rightarrow> bool" where
  "in_step m n chat h = up_to_date (chat_backfill m n chat) (cs_plan h) (cs_num h) (cs_history h)"

definition all_settled :: "migration_manifest \<Rightarrow> int \<Rightarrow> string \<Rightarrow> chat_source \<Rightarrow> 'w import_state \<Rightarrow> bool" where
  "all_settled m n chat h s \<longleftrightarrow> (\<forall>msg \<in> set (due (cs_plan h) (cs_history h)).
     message_settled (im_messages s) (source_key (chat_backfill m n chat) msg))"

lemma backfill_chat:
  assumes "undisturbed_provision svc" and "served svc m n chat (src chat)"
    and "\<forall>c \<in> C. in_step m n c (src c) s" and "chat \<in> C"
  shows "\<exists>r s'. backfill svc (chat_backfill m n chat) s = Some (r, s') \<and> (\<forall>c \<in> C. in_step m n c (src c) s')
    \<and> (\<forall>c. all_settled m n c (src c) s \<longrightarrow> all_settled m n c (src c) s')
    \<and> (\<forall>res. r = Inr res \<longrightarrow> all_settled m n chat (src chat) s')"
proof -
  let ?c = "chat_backfill m n chat"
  have own: "up_to_date ?c (cs_plan (src chat)) (cs_num (src chat)) (cs_history (src chat)) s"
    using assms(3,4) by (simp add: in_step_def)
  have "plan_for svc ?c (cs_plan (src chat))" "ordered_history (cs_num (src chat)) (cs_history (src chat))"
    "serves svc (pl_dialog (cs_plan (src chat))) (bfc_batch_size ?c) (cs_num (src chat)) (cs_history (src chat))"
    using assms(2) by (simp_all add: served_def chat_backfill_def)
  from backfill_runs [OF this _ own] assms(1) obtain r s' where run: "backfill svc ?c s = Some (r, s')"
      and here: "in_step m n chat (src chat) s'"
      and settled: "\<forall>res. r = Inr res \<longrightarrow> all_settled m n chat (src chat) s'"
    unfolding undisturbed_provision_def in_step_def all_settled_def by blast
  have "in_step m n c (src c) s'" if "c \<in> C" for c
  proof (cases "c = chat")
    case False
    then have "backfill_checkpoint ?c \<noteq> backfill_checkpoint (chat_backfill m n c)"
      by (simp add: backfill_checkpoint_def chat_backfill_def)
    from backfill_other [OF assms(1) run this] assms(3) that show ?thesis by (simp add: in_step_def)
  qed (use here in simp)
  moreover have "all_settled m n c h s'" if "all_settled m n c h s" for c h
    using that own backfill_settled [OF assms(1) run] by (auto simp: all_settled_def up_to_date_def)
  ultimately show ?thesis using run settled by blast
qed

section \<open>The job\<close>

lemma bot_audit_result:
  "\<exists>e s'. bot_audit bv mig chat event sev payload s = (Inr (), s') \<and> ledger (bt_import s') = ledger (bt_import s)
    \<and> bot_audit_log s' = bot_audit_log s @ [e] \<and> ae_event_type e = event \<and> ae_payload_json e = payload"
  by (auto simp: bot_audit_def bot_now_def outside_bot_def in_import_def outside_def in_delivery_def
      Delivery.in_world_def on_part_def total_op_def bind_def modify_def put_audit_log_def bot_audit_log_def
      audit_add_def ledger_def split: prod.split)

lemma in_step_ledger: "ledger s' = ledger s \<Longrightarrow> in_step m n c h s' = in_step m n c h s"
  by (auto simp: in_step_def up_to_date_def resume_point_def ledger_def)

lemma all_settled_ledger: "ledger s' = ledger s \<Longrightarrow> all_settled m n c h s' = all_settled m n c h s"
  by (auto simp: all_settled_def ledger_def)

text \<open>The state of a job after some of its chats.\<close>

definition job_progress ::
    "migration_manifest \<Rightarrow> int \<Rightarrow> string set \<Rightarrow> (string \<Rightarrow> chat_source) \<Rightarrow> string set
      \<Rightarrow> (string, string) dict \<Rightarrow> 'w bot_state \<Rightarrow> bool" where
  "job_progress m n C src finished failures s \<longleftrightarrow> (\<forall>c \<in> C. in_step m n c (src c) (bt_import s))
     \<and> (\<forall>c \<in> finished. dict_get failures c \<noteq> None \<or> all_settled m n c (src c) (bt_import s))"

lemma migrate_one:
  assumes "undisturbed_provision (bv_import bv x)" and "served (bv_import bv x) m n chat (src chat)"
    and "job_progress m n C src finished failures s" and "chat \<in> C"
  shows "\<exists>r s'. rescue (and_then (importing (backfill (bv_import bv x) (chat_backfill m n chat)))
          (\<lambda>_. ends (ret failures)))
        (\<lambda>e. if e = CancelledError then None
           else Some (bind (bot_audit bv mig (Some chat) event SevError [(''error'', JStr (error_text e))])
             (\<lambda>_. ret (dict_set chat (error_text e) failures)))) s = Some (r, s')
    \<and> (case r of Inl e \<Rightarrow> e = CancelledError \<and> job_progress m n C src finished failures s'
       | Inr failures' \<Rightarrow> job_progress m n C src (insert chat finished) failures' s')"
proof -
  have "\<forall>c \<in> C. in_step m n c (src c) (bt_import s)" using assms(3) by (simp add: job_progress_def)
  from backfill_chat [OF assms(1,2) this assms(4)] obtain r i where
      run: "backfill (bv_import bv x) (chat_backfill m n chat) (bt_import s) = Some (r, i)"
      and step: "\<forall>c \<in> C. in_step m n c (src c) i"
      and kept: "\<forall>c. all_settled m n c (src c) (bt_import s) \<longrightarrow> all_settled m n c (src c) i"
      and settled: "\<forall>res. r = Inr res \<longrightarrow> all_settled m n chat (src chat) i" by blast
  let ?s = "s\<lparr>bt_import := i\<rparr>"
  have after: "job_progress m n C src finished failures ?s"
    using assms(3) step kept by (auto simp: job_progress_def)
  show ?thesis
  proof (cases r)
    case (Inr res)
    with run settled after show ?thesis
      by (auto simp: rescue_def and_then_def importing_def ends_def ret_def job_progress_def)
  next
    case (Inl e)
    show ?thesis
    proof (cases "e = CancelledError")
      case True
      with run Inl after show ?thesis by (auto simp: rescue_def and_then_def importing_def)
    next
      case False
      obtain a s2 where audited: "bot_audit bv mig (Some chat) event SevError [(''error'', JStr (error_text e))] ?s = (Inr (), s2)"
          and same: "ledger (bt_import s2) = ledger i"
        using bot_audit_result [of bv mig "Some chat" event SevError _ ?s] by auto
      have "job_progress m n C src (insert chat finished) (dict_set chat (error_text e) failures) s2"
        using after by (auto simp: job_progress_def in_step_ledger [OF same] all_settled_ledger [OF same])
      with run Inl False audited show ?thesis
        by (auto simp: rescue_def and_then_def importing_def bind_def ret_def)
    qed
  qed
qed

lemma migrate_dialogs_settle:
  assumes "undisturbed_provision (bv_import bv x)"
    and "\<forall>c \<in> C. served (bv_import bv x) m n c (src c)" and "dlg_source_chat_id ` set ds \<subseteq> C"
    and "job_progress m n C src finished failures s"
  shows "\<exists>r s'. migrate_dialogs bv x m n event ds failures s = Some (r, s')
    \<and> (case r of Inl e \<Rightarrow> e = CancelledError \<and> (\<forall>c \<in> C. in_step m n c (src c) (bt_import s'))
       | Inr failures' \<Rightarrow> job_progress m n C src (finished \<union> dlg_source_chat_id ` set ds) failures' s')"
  using assms(3,4)
proof (induction ds arbitrary: finished failures s)
  case Nil
  then show ?case by (simp add: ends_def ret_def)
next
  case (Cons d ds)
  let ?chat = "dlg_source_chat_id d"
  have chat: "?chat \<in> C" using Cons.prems by simp
  with assms(2) have "served (bv_import bv x) m n ?chat (src ?chat)" by blast
  note one = migrate_one [OF assms(1) this Cons.prems(2) chat, of "mf_migration_id m" event]
  then obtain r s1 where run: "rescue (and_then (importing (backfill (bv_import bv x) (chat_backfill m n ?chat)))
          (\<lambda>_. ends (ret failures)))
        (\<lambda>e. if e = CancelledError then None
           else Some (bind (bot_audit bv (mf_migration_id m) (Some ?chat) event SevError [(''error'', JStr (error_text e))])
             (\<lambda>_. ret (dict_set ?chat (error_text e) failures)))) s = Some (r, s1)"
      and post: "case r of Inl e \<Rightarrow> e = CancelledError \<and> job_progress m n C src finished failures s1
       | Inr failures' \<Rightarrow> job_progress m n C src (insert ?chat finished) failures' s1" by blast
  show ?case
  proof (cases r)
    case (Inl e)
    with run post show ?thesis by (simp add: and_then_def chat_backfill_def job_progress_def)
  next
    case (Inr failures')
    with post have "job_progress m n C src (insert ?chat finished) failures' s1" by simp
    moreover have "insert ?chat finished \<union> dlg_source_chat_id ` set ds = finished \<union> dlg_source_chat_id ` set (d # ds)"
      by auto
    moreover have "migrate_dialogs bv x m n event (d # ds) failures s = migrate_dialogs bv x m n event ds failures' s1"
      using run Inr by (simp add: and_then_def chat_backfill_def)
    moreover have "dlg_source_chat_id ` set ds \<subseteq> C" using Cons.prems(1) by simp
    ultimately show ?thesis using Cons.IH [of "insert ?chat finished" failures' s1] by (simp only:)
  qed
qed

text \<open>A chat the job reports: the last event it leaves lists it.\<close>

definition reported_failed :: "string \<Rightarrow> string \<Rightarrow> 'w bot_state \<Rightarrow> bool" where
  "reported_failed event chat s \<longleftrightarrow> (\<exists>e failures. bot_audit_log s \<noteq> [] \<and> e = last (bot_audit_log s)
     \<and> ae_event_type e = event \<and> ae_payload_json e = [(''failed_chats'', JObj failures)] \<and> chat \<in> fst ` set failures)"

lemma migrate_chat_job_settles:
  assumes "undisturbed_provision (bv_import bv x)"
    and "\<forall>c \<in> set chats. c \<in> set (manifest_chats m) \<longrightarrow> served (bv_import bv x) m n c (src c)
      \<and> in_step m n c (src c) (bt_import s)"
  shows "\<exists>r s'. run_migrate_chat_job bv x m chats n s = Some (r, s') \<and> r \<in> {Inr (), Inl CancelledError}
    \<and> (\<forall>c \<in> set chats. c \<in> set (manifest_chats m) \<longrightarrow> in_step m n c (src c) (bt_import s')
       \<and> (r = Inr () \<longrightarrow> reported_failed ''bot_migrate_chat_completed_with_failures'' c s'
         \<or> all_settled m n c (src c) (bt_import s')))"
proof -
  let ?C = "set chats \<inter> set (manifest_chats m)"
  let ?ds = "filter (\<lambda>d. dlg_source_chat_id d \<in> set chats) (mf_dialogs m)"
  let ?event = "''bot_migrate_chat_completed_with_failures''"
  have ds: "dlg_source_chat_id ` set ?ds = ?C" by (auto simp: manifest_chats_def)
  have start: "job_progress m n ?C src {} [] s" using assms(2) by (auto simp: job_progress_def)
  have "\<forall>c \<in> ?C. served (bv_import bv x) m n c (src c)" using assms(2) by blast
  from migrate_dialogs_settle [OF assms(1) this equalityD1 [OF ds] start, of "''bot_migrate_chat_dialog_failed''",
      unfolded ds Un_empty_left]
  obtain r s1 where run: "migrate_dialogs bv x m n ''bot_migrate_chat_dialog_failed'' ?ds [] s = Some (r, s1)"
      and post: "case r of Inl e \<Rightarrow> e = CancelledError \<and> (\<forall>c \<in> ?C. in_step m n c (src c) (bt_import s1))
       | Inr failures \<Rightarrow> job_progress m n ?C src ?C failures s1"
    by blast
  show ?thesis
  proof (cases r)
    case (Inl e)
    with run post show ?thesis by (auto simp: run_migrate_chat_job_def and_then_def)
  next
    case (Inr failures)
    with post have progress: "job_progress m n ?C src ?C failures s1" by simp
    show ?thesis
    proof (cases "failures = []")
      case True
      with run Inr progress show ?thesis
        by (auto simp: run_migrate_chat_job_def and_then_def report_failures_def ends_def ret_def job_progress_def)
    next
      case False
      let ?payload = "[(''failed_chats'', JObj (map (\<lambda>(c, e). (c, JStr e)) failures))]"
      obtain e s2 where audited: "bot_audit bv (mf_migration_id m) None ?event SevWarning ?payload s1 = (Inr (), s2)"
          and same: "ledger (bt_import s2) = ledger (bt_import s1)" and log: "bot_audit_log s2 = bot_audit_log s1 @ [e]"
          and e: "ae_event_type e = ?event" "ae_payload_json e = ?payload"
        using bot_audit_result [of bv "mf_migration_id m" None ?event SevWarning ?payload s1] by blast
      have "reported_failed ?event c s2" if "dict_get failures c = Some t" for c t
        using that log e by (force simp: reported_failed_def dest: map_of_SomeD)
      then have "in_step m n c (src c) (bt_import s2) \<and> (reported_failed ?event c s2 \<or> all_settled m n c (src c) (bt_import s2))"
        if "c \<in> ?C" for c
        using progress that by (fastforce simp: job_progress_def in_step_ledger [OF same] all_settled_ledger [OF same])
      with run Inr False audited show ?thesis
        by (simp add: run_migrate_chat_job_def and_then_def report_failures_def ends_def)
    qed
  qed
qed

end
