(* ===== verification/Bot_Properties.thy ===== *)
theory Bot_Properties
  imports Bot_Runs Copy_Examples Chat_Properties
begin

text \<open>
  The properties of the commands and jobs of the bot, applied to concrete values.
\<close>

section \<open>Examples\<close>

definition ex_stamp :: "int \<Rightarrow> datetime \<times> int" where
  "ex_stamp w = (w, w + 1)"

definition ex_bot :: "int bot_services" where
  "ex_bot = \<lparr>bv_control = ex_bot_config, bv_migration_id = ''m'', bv_now = ex_stamp,
     bv_starts = (\<lambda>w. (\<lambda>_. ex_bot_env, w + 1)), bv_fromisoformat = (\<lambda>_. Inl (ValueError ''no date'')),
     bv_login = ex_service, bv_login_env = (\<lambda>w. (ex_env, w + 1)), bv_retry = default_retry_policy,
     bv_random = (\<lambda>_. 0), bv_provisioning = (\<lambda>_. ex_idle_provisioning), bv_import = (\<lambda>_. ex_import_services),
     bv_delta = (\<lambda>_. ex_delta_services), bv_available_dialogs = (\<lambda>_ _ _ _. ret []),
     bv_source_dialog = (\<lambda>_ _ _. ret (Some ex_source_dialog)), bv_topics = (\<lambda>_ _ _. ret []),
     bv_manifest_dialogs = (\<lambda>_ _. ret []), bv_chat_link = (\<lambda>_ _. ret None)\<rparr>"

text \<open>A workbook file that is its own content.\<close>

definition ex_library :: workbook_library where
  "ex_library = \<lparr>wl_save = (\<lambda>name sheet. []), wl_load = (\<lambda>_. None)\<rparr>"

definition ex_desk :: "int desk_services" where
  "ex_desk = \<lparr>dk_bot = ex_bot, dk_workbook = ex_library, dk_parse_upload = (\<lambda>_ _. throw CancelledError),
     dk_stage_upload = (\<lambda>_ _. throw CancelledError)\<rparr>"

definition ex_place :: bot_context where
  "ex_place = \<lparr>bx_session = None, bx_cts_host = None\<rparr>"

definition ex_archive_config :: chat_config_record where
  "ex_archive_config = ex_config\<lparr>cc_source_backend := ''telegram_export_archive'', cc_target_title := Some ''C''\<rparr>"

definition ex_bot_start :: "int bot_state" where
  "ex_bot_start = \<lparr>bt_import = ex_import_state, bt_jobs = [], bt_outbox = Some [],
     bt_configs = [((''m'', ''c''), ex_archive_config)], bt_snapshots = [], bt_inventory = [],
     bt_login = ex_service_state\<rparr>"

definition ex_stranger :: bot_operator_context where
  "ex_stranger = ex_operator\<lparr>op_huid := ''other''\<rparr>"

definition ex_commands :: "(bot_context \<times> bot_operator_context \<times> bot_command) list" where
  "ex_commands = [(ex_place, ex_stranger, Configure ''c'' default_run_options), (ex_place, ex_stranger, ShowStats),
     (ex_place, ex_stranger, PauseDelta)]"

section \<open>Who may command\<close>

text \<open>
  A command of an operator who is not on the list of operators changes nothing, whatever the command,
  and ends with the refusal.
\<close>

theorem refused_operator_changes_nothing:
  assumes "bot_authorize (bv_control (dk_bot dk)) op = Some e"
  shows "run_command dk x op c s = Some (Inl e, s)"
  by (rule refused_command [OF assms])

theorem refused_operator_changes_nothing_witness:
  "run_command ex_desk ex_place ex_stranger (Remigrate ''c'' default_run_options) ex_bot_start
    = Some (Inl (FatalItemError ''user huid=other is not allowed to manage migrations''), ex_bot_start)"
  by (rule refused_operator_changes_nothing)
    (simp add: bot_authorize_def ex_desk_def ex_bot_def ex_bot_config_def ex_stranger_def)

text \<open>
  C8: A chat's configuration belongs to the operator who made it: under every sequence of commands of any
  operators, whatever they answer or raise, it keeps its owner and its time of creation, and it is
  unchanged when its owner gave none of the commands.
\<close>

theorem configs_keep_their_owner:
  assumes "run_commands dk cs s = Some s'" and "chat_config_get (bt_configs s) k = Some r"
  shows "\<exists>r'. chat_config_get (bt_configs s') k = Some r' \<and> cc_updated_by_huid r' = cc_updated_by_huid r
    \<and> cc_created_at r' = cc_created_at r
    \<and> (cc_updated_by_huid r \<notin> (\<lambda>(x, op, c). op_huid op) ` set cs \<longrightarrow> r' = r)"
proof (cases "cc_updated_by_huid r \<in> (\<lambda>(x, op, c). op_huid op) ` set cs")
  case True
  have "\<exists>r'. chat_config_get (bt_configs s') k = Some r' \<and> cc_updated_by_huid r' = cc_updated_by_huid r
      \<and> cc_created_at r' = cc_created_at r"
    by (rule run_commands_minds [OF assms(1)]) (use assms(2) owner_writable in auto)
  with True show ?thesis by blast
next
  case False
  have "chat_config_get (bt_configs s') k = Some r"
    by (rule run_commands_minds [OF assms(1)]) (use assms(2) False in \<open>force intro!: foreign_writable\<close>)+
  then show ?thesis by blast
qed

definition ex_open_desk :: "int desk_services" where
  "ex_open_desk = ex_desk\<lparr>dk_bot := ex_bot\<lparr>bv_control := ex_bot_config\<lparr>bc_operator_huids := []\<rparr>\<rparr>\<rparr>"

lemma ex_commands_end: "\<not> Option.is_none (run_commands ex_open_desk ex_commands ex_bot_start)"
  by code_simp

theorem configs_keep_their_owner_witness:
  "case run_commands ex_open_desk ex_commands ex_bot_start of None \<Rightarrow> False
   | Some s \<Rightarrow> chat_config_get (bt_configs s) (''m'', ''c'') = Some ex_archive_config"
proof -
  obtain s where s: "run_commands ex_open_desk ex_commands ex_bot_start = Some s"
    using ex_commands_end by (auto simp: Option.is_none_def)
  have here: "chat_config_get (bt_configs ex_bot_start) (''m'', ''c'') = Some ex_archive_config"
    by (simp add: ex_bot_start_def chat_config_get_def)
  have "cc_updated_by_huid ex_archive_config \<notin> (\<lambda>(x, op, c). op_huid op) ` set ex_commands"
    by (simp add: ex_archive_config_def ex_config_def ex_commands_def ex_stranger_def)
  with configs_keep_their_owner [OF s here] s show ?thesis by auto
qed

section \<open>The manifest of a job\<close>

lemma construct_manifest_Inr:
  "construct_manifest migration ds = Inr m \<longleftrightarrow> distinct (map dlg_source_chat_id ds)
    \<and> m = \<lparr>mf_migration_id = migration, mf_mode = ''backfill_delta_cutover'', mf_defaults = default_manifest_defaults,
       mf_dialogs = ds\<rparr>"
  by (auto simp: construct_manifest_def ensure_unique_dialogs_Inr)

lemma outcome_caseE:
  assumes "(case r of Inl e \<Rightarrow> Inl e | Inr a \<Rightarrow> f a) = Inr b" and "\<And>a. r = Inr a \<Longrightarrow> f a = Inr b \<Longrightarrow> R"
  shows R
  using assms by (cases r) auto

lemma if_InrE:
  assumes "(if b then Inl e else r) = Inr a" and "\<not> b \<Longrightarrow> r = Inr a \<Longrightarrow> R"
  shows R
  using assms by (auto split: if_splits)

text \<open>
  What a chat that is named stands for: its own configuration, or, when that is the root of a forum split
  by topic or there is none, the configurations of its topics. A job that names no chat is about all
  configurations but such roots and those left out of migrations of everything.
\<close>

definition configs_of_chat :: "chat_config_record list \<Rightarrow> string \<Rightarrow> chat_config_record set" where
  "configs_of_chat owned chat =
    (case List.find (\<lambda>r. cc_source_chat_id r = chat) owned of
       Some r \<Rightarrow> if is_split_root_config r then {r \<in> set owned. cc_source_thread_id r \<noteq> None
           \<and> or_empty (py_or (cc_telegram_chat_id r) (Some (cc_source_chat_id r))) = chat} else {r}
     | None \<Rightarrow> {r \<in> set owned. cc_source_thread_id r \<noteq> None
           \<and> or_empty (py_or (cc_telegram_chat_id r) (Some (cc_source_chat_id r))) = chat})"

definition job_configs :: "chat_config_record list \<Rightarrow> string list \<Rightarrow> chat_config_record set" where
  "job_configs owned chats = (if chats = [] then {r \<in> set owned. \<not> is_split_root_config r \<and> \<not> cc_skip_in_all r}
     else \<Union>c \<in> set chats. configs_of_chat owned c)"

definition operator_configs :: "'w bot_services \<Rightarrow> string \<Rightarrow> 'w bot_state \<Rightarrow> chat_config_record list" where
  "operator_configs bv huid s =
    filter (\<lambda>r. cc_updated_by_huid r = huid) (chat_config_list (bv_migration_id bv) (bt_configs s))"

lemma configs_of_chat_mem:
  assumes "r \<in> configs_of_chat owned c"
  shows "r \<in> set owned \<and> (cc_source_chat_id r = c
    \<or> or_empty (py_or (cc_telegram_chat_id r) (Some (cc_source_chat_id r))) = c)"
proof (cases "List.find (\<lambda>r. cc_source_chat_id r = c) owned")
  case None
  with assms show ?thesis by (simp add: configs_of_chat_def)
next
  case (Some x)
  then have "x \<in> set owned" "cc_source_chat_id x = c" by (auto simp: find_Some_iff)
  with assms Some show ?thesis by (auto simp: configs_of_chat_def split: if_splits)
qed

lemma job_configs_mem:
  assumes "r \<in> job_configs owned chats"
  shows "r \<in> set owned \<and> (chats \<noteq> [] \<longrightarrow> cc_source_chat_id r \<in> set chats
    \<or> or_empty (py_or (cc_telegram_chat_id r) (Some (cc_source_chat_id r))) \<in> set chats)"
  using assms by (auto simp: job_configs_def split: if_splits dest!: configs_of_chat_mem)

lemma select_configs_set:
  assumes "select_configs huid configs owned ids = Inr (rs, missing)"
  shows "set rs = (\<Union>c \<in> set ids. configs_of_chat owned c)"
  using assms
proof (induction ids arbitrary: rs missing)
  case (Cons c cs)
  define ts where "ts = topic_child_configs_for_records (records_of_telegram_chat owned c)"
  have topics: "set ts = {r \<in> set owned. cc_source_thread_id r \<noteq> None
      \<and> or_empty (py_or (cc_telegram_chat_id r) (Some (cc_source_chat_id r))) = c}"
    by (auto simp: ts_def topic_child_configs_for_records_def records_of_telegram_chat_def)
  obtain rs1 m1 rs2 m2 where rs: "rs = rs1 @ rs2" and tail: "select_configs huid configs owned cs = Inr (rs2, m2)"
    and head: "set rs1 = configs_of_chat owned c"
    using Cons.prems topics
    by (auto simp: Let_def configs_of_chat_def ts_def [symmetric] split: sum.splits option.splits if_splits)
  with Cons.IH [OF tail] show ?case by simp
qed simp

lemma manifest_of_configs_Inr:
  assumes "manifest_of_configs migration configs huid chats required skipped = Inr m"
  shows "\<exists>rs. list_all2 (\<lambda>r d. manifest_dialog_from_config r = Inr d) rs (mf_dialogs m) \<and> distinct (manifest_chats m)
    \<and> set rs = (let owned = filter (\<lambda>r. huid = None \<or> Some (cc_updated_by_huid r) = huid) configs in
         case chats of None \<Rightarrow> {r \<in> set owned. \<not> is_split_root_config r \<and> (skipped \<or> \<not> cc_skip_in_all r)}
         | Some ids \<Rightarrow> \<Union>c \<in> set ids. configs_of_chat owned c)
    \<and> (\<forall>r \<in> set rs. r \<in> set configs \<and> (huid = None \<or> Some (cc_updated_by_huid r) = huid))
    \<and> (\<forall>ids. chats = Some ids \<longrightarrow> required \<longrightarrow> (\<forall>c \<in> set ids. \<exists>r \<in> set rs. cc_source_chat_id r = c
         \<or> or_empty (py_or (cc_telegram_chat_id r) (Some (cc_source_chat_id r))) = c))"
proof -
  let ?owned = "filter (\<lambda>r. huid = None \<or> Some (cc_updated_by_huid r) = huid) configs"
  define picked where "picked = (case chats of
      None \<Rightarrow> Inr (filter (\<lambda>r. \<not> is_split_root_config r \<and> (skipped \<or> \<not> cc_skip_in_all r)) ?owned)
    | Some ids \<Rightarrow> (case select_configs huid configs ?owned ids of
        Inl e \<Rightarrow> Inl e
      | Inr (rs, missing) \<Rightarrow>
          if missing \<noteq> [] \<and> required
          then Inl (ConfigurationError (''source_chat_id='' @ join_comma missing
            @ '' is not configured; use /configure first''))
          else Inr rs))"
  from assms obtain rs where rs: "picked = Inr rs"
      and dialogs: "all_ok (map manifest_dialog_from_config rs) = Inr (mf_dialogs m)"
      and distinct: "distinct (manifest_chats m)"
    unfolding manifest_of_configs_def Let_def picked_def [symmetric]
    by (elim outcome_caseE if_InrE) (auto simp: construct_manifest_Inr manifest_chats_def)
  have owned: "set rs \<subseteq> set ?owned"
  proof (cases chats)
    case None
    with rs show ?thesis by (auto simp: picked_def)
  next
    case (Some ids)
    with rs obtain missing where "select_configs huid configs ?owned ids = Inr (rs, missing)"
      unfolding picked_def by (auto split: sum.splits if_splits)
    from select_configs_mem [OF this] show ?thesis by blast
  qed
  have complete: "\<exists>r \<in> set rs. cc_source_chat_id r = c
      \<or> or_empty (py_or (cc_telegram_chat_id r) (Some (cc_source_chat_id r))) = c"
    if "chats = Some ids" "required" "c \<in> set ids" for ids c
  proof -
    from rs that(1,2) have "select_configs huid configs ?owned ids = Inr (rs, [])"
      unfolding picked_def by (auto split: sum.splits if_splits)
    from select_configs_complete [OF this that(3)] show ?thesis by simp
  qed
  have exact: "set rs = (case chats of None \<Rightarrow> {r \<in> set ?owned. \<not> is_split_root_config r \<and> (skipped \<or> \<not> cc_skip_in_all r)}
      | Some ids \<Rightarrow> \<Union>c \<in> set ids. configs_of_chat ?owned c)"
    using rs by (auto simp: picked_def dest!: select_configs_set split: option.splits sum.splits if_splits)
  have "list_all2 (\<lambda>r d. manifest_dialog_from_config r = Inr d) rs (mf_dialogs m)"
    using dialogs by (simp add: all_ok_Inr map_Inr_conv)
  with distinct exact owned complete show ?thesis unfolding Let_def by (intro exI [of _ rs] conjI) auto
qed

lemma manifest_dialog_fields:
  assumes "manifest_dialog_from_config r = Inr d"
  shows "dlg_source_chat_id d = cc_source_chat_id r" "dlg_telegram_chat_id d = cc_telegram_chat_id r"
    "dlg_initiator_huid d = Some (cc_updated_by_huid r)" "dlg_source_backend d = cc_source_backend r"
    "dlg_include_from d = format_datetime (cc_include_from r)" "dlg_include_to d = format_datetime (cc_include_to r)"
  using construct_dialog_Inr [OF assms [unfolded manifest_dialog_from_config_def]] by simp_all

lemma physical_chat: "physical_source_chat_id d = or_empty (py_or (dlg_telegram_chat_id d) (Some (dlg_source_chat_id d)))"
  by (auto simp: physical_source_chat_id_def or_empty_def py_or_truthy split: option.splits if_splits)

lemma bind_ends_Inr: "bind m f s = (Inr b, s') \<longleftrightarrow> (\<exists>a s1. m s = (Inr a, s1) \<and> f a s1 = (Inr b, s'))"
  by (auto simp: bind_def split: prod.splits sum.splits)

lemma load_config_manifest_Inr:
  "load_config_manifest bv huid chats required skipped s = (Inr m, s') \<longleftrightarrow> s' = s
    \<and> bv_migration_id bv \<noteq> []
    \<and> manifest_of_configs (bv_migration_id bv) (chat_config_list (bv_migration_id bv) (bt_configs s)) huid chats required
       skipped = Inr m"
  by (auto simp: load_config_manifest_def bind_ends_Inr require_migration_id_def lift_outcome_def list_configs_def
      get_state_def split: if_splits sum.splits)

text \<open>The session text stored for an operator.\<close>

definition stored_session :: "'w bot_services \<Rightarrow> string \<Rightarrow> 'w bot_state \<Rightarrow> string option" where
  "stored_session bv huid s =
    Option.bind (session_get (ss_sessions (bt_login s)) huid) (decrypt_session (sv_cipher (bv_login bv)))"

lemma operator_session_context_Inr:
  assumes "operator_session_context bv x op s = (Inr x', s')"
  shows "\<exists>session. stored_session bv (op_huid op) s = Some session \<and> bx_session x' = Some (session, op_huid op)"
  using assms
  by (auto simp: operator_session_context_def bind_ends_Inr ret_def on_part_def outside_bot_def in_import_def outside_def
      in_delivery_def Delivery.in_world_def total_op_def resolve_session_string_def stored_session_def
      split: prod.splits option.splits if_splits)

lemma source_backends_context_session:
  assumes "source_backends_context bv x op backends s = (Inr x', s')"
  shows "if list_ex (\<lambda>b. source_backend_requires_operator_session (Some b)) backends
    then \<exists>session. stored_session bv (op_huid op) s = Some session \<and> bx_session x' = Some (session, op_huid op)
    else x' = x \<and> s' = s"
  using assms operator_session_context_Inr [of bv x op _ x']
  by (auto simp: source_backends_context_def bind_ends_Inr lift_outcome_def ret_def split: if_splits)

text \<open>A job of an operator who has connected Telegram.\<close>

definition ex_connected :: "int bot_state" where
  "ex_connected = ex_bot_start\<lparr>bt_login := snd (complete_code ex_service ex_login ''op'' ''u'' ''12345'' ex_env ex_service_state),
     bt_configs := [((''m'', ''c''), ex_archive_config\<lparr>cc_source_backend := ''telethon_user_session''\<rparr>)]\<rparr>"

definition ex_ready :: "(error, migration_manifest \<times> bot_context) outcome \<times> int bot_state" where
  "ex_ready = prepare_job ex_bot ex_place ex_job ex_connected"

lemma ex_ready_result: "case fst ex_ready of Inl _ \<Rightarrow> False
  | Inr (m, x) \<Rightarrow> map dlg_source_backend (mf_dialogs m) = [''telethon_user_session'']"
  by code_simp

lemma ex_ready_prepared: "\<exists>m x s. prepare_job ex_bot ex_place ex_job ex_connected = (Inr (m, x), s)
    \<and> ex_ready = (Inr (m, x), s) \<and> map dlg_source_backend (mf_dialogs m) = [''telethon_user_session'']"
  using ex_ready_result unfolding ex_ready_def by (auto split: sum.splits prod.splits simp: prod_eq_iff)

text \<open>
  C6: A job copies exactly the chats of its operator that it names: the entries of its manifest are those
  made from the configurations of the operator that the named chats stand for (\<open>job_configs\<close>), and no
  others; no chat has two entries, every chat the job names has one, itself or through its topics, and
  every entry is of a chat the job names, or a topic of one.
\<close>

theorem job_covers_its_chats:
  assumes "prepare_job bv x j s = (Inr (m, x'), s')"
  shows "distinct (manifest_chats m)
    \<and> (\<forall>d. d \<in> set (mf_dialogs m) \<longleftrightarrow> (\<exists>r \<in> job_configs (operator_configs bv (job_operator_huid j) s)
        (job_source_chat_ids j). manifest_dialog_from_config r = Inr d))
    \<and> (\<forall>d \<in> set (mf_dialogs m). dlg_initiator_huid d = Some (job_operator_huid j)
        \<and> (job_source_chat_ids j \<noteq> [] \<longrightarrow> dlg_source_chat_id d \<in> set (job_source_chat_ids j)
            \<or> physical_source_chat_id d \<in> set (job_source_chat_ids j)))
    \<and> (\<forall>c \<in> set (job_source_chat_ids j). \<exists>d \<in> set (mf_dialogs m). dlg_source_chat_id d = c \<or> physical_source_chat_id d = c)"
proof -
  let ?ids = "if job_source_chat_ids j \<noteq> [] then Some (job_source_chat_ids j) else None"
  from assms have "manifest_of_configs (bv_migration_id bv) (chat_config_list (bv_migration_id bv) (bt_configs s))
      (Some (job_operator_huid j)) ?ids True False = Inr m"
    by (auto simp: prepare_job_def bind_ends_Inr load_config_manifest_Inr ret_def)
  from manifest_of_configs_Inr [OF this] obtain rs where
      pair: "list_all2 (\<lambda>r d. manifest_dialog_from_config r = Inr d) rs (mf_dialogs m)"
      and distinct: "distinct (manifest_chats m)"
      and picked: "set rs = (let owned = filter (\<lambda>r. Some (job_operator_huid j) = None
            \<or> Some (cc_updated_by_huid r) = Some (job_operator_huid j)) (chat_config_list (bv_migration_id bv) (bt_configs s))
        in case ?ids of None \<Rightarrow> {r \<in> set owned. \<not> is_split_root_config r \<and> (False \<or> \<not> cc_skip_in_all r)}
           | Some ids \<Rightarrow> \<Union>c \<in> set ids. configs_of_chat owned c)"
      and found: "\<forall>ids. ?ids = Some ids \<longrightarrow> True \<longrightarrow> (\<forall>c \<in> set ids. \<exists>r \<in> set rs. cc_source_chat_id r = c
        \<or> or_empty (py_or (cc_telegram_chat_id r) (Some (cc_source_chat_id r))) = c)"
    by blast
  have exact: "set rs = job_configs (operator_configs bv (job_operator_huid j) s) (job_source_chat_ids j)"
    using picked by (cases "job_source_chat_ids j = []") (simp_all add: job_configs_def operator_configs_def Let_def)
  have complete: "\<forall>c \<in> set (job_source_chat_ids j). \<exists>r \<in> set rs. cc_source_chat_id r = c
      \<or> or_empty (py_or (cc_telegram_chat_id r) (Some (cc_source_chat_id r))) = c"
    using found by (cases "job_source_chat_ids j = []") simp_all
  have entry: "d \<in> set (mf_dialogs m) \<longleftrightarrow> (\<exists>r \<in> set rs. manifest_dialog_from_config r = Inr d)" for d
    using list_all2_nthD [OF pair] list_all2_nthD2 [OF pair] list_all2_lengthD [OF pair]
    by (metis in_set_conv_nth sum.inject(2))
  have named: "cc_updated_by_huid r = job_operator_huid j \<and> (job_source_chat_ids j \<noteq> [] \<longrightarrow>
      cc_source_chat_id r \<in> set (job_source_chat_ids j)
      \<or> or_empty (py_or (cc_telegram_chat_id r) (Some (cc_source_chat_id r))) \<in> set (job_source_chat_ids j))"
    if "r \<in> set rs" for r
    using job_configs_mem [OF that [unfolded exact]] by (simp add: operator_configs_def)
  show ?thesis
  proof (intro conjI ballI allI)
    fix d assume "d \<in> set (mf_dialogs m)"
    then obtain r where r: "r \<in> set rs" "manifest_dialog_from_config r = Inr d" using entry by blast
    from named [OF r(1)] manifest_dialog_fields [OF r(2)]
    show "dlg_initiator_huid d = Some (job_operator_huid j)"
      and "job_source_chat_ids j \<noteq> [] \<longrightarrow> dlg_source_chat_id d \<in> set (job_source_chat_ids j)
        \<or> physical_source_chat_id d \<in> set (job_source_chat_ids j)"
      by (simp_all add: physical_chat)
  next
    fix c assume "c \<in> set (job_source_chat_ids j)"
    with complete obtain r where r: "r \<in> set rs" "cc_source_chat_id r = c
        \<or> or_empty (py_or (cc_telegram_chat_id r) (Some (cc_source_chat_id r))) = c" by blast
    from r(1) obtain i where "i < length rs" "rs ! i = r" by (auto simp: in_set_conv_nth)
    with list_all2_nthD [OF pair] have d: "manifest_dialog_from_config r = Inr (mf_dialogs m ! i)" by blast
    with entry r(1) have "mf_dialogs m ! i \<in> set (mf_dialogs m)" by blast
    with r(2) manifest_dialog_fields [OF d]
    show "\<exists>d \<in> set (mf_dialogs m). dlg_source_chat_id d = c \<or> physical_source_chat_id d = c"
      by (intro bexI [of _ "mf_dialogs m ! i"]) (auto simp: physical_chat)
  qed (simp_all add: distinct entry exact)
qed

theorem job_covers_its_chats_witness:
  "case fst ex_ready of Inl _ \<Rightarrow> False | Inr (m, x) \<Rightarrow> distinct (manifest_chats m)
    \<and> (\<exists>d \<in> set (mf_dialogs m). dlg_source_chat_id d = ''c'' \<or> physical_source_chat_id d = ''c'')"
proof -
  obtain m x s where ready: "prepare_job ex_bot ex_place ex_job ex_connected = (Inr (m, x), s)" "ex_ready = (Inr (m, x), s)"
    using ex_ready_prepared by (elim exE conjE) (rule that)
  have "''c'' \<in> set (job_source_chat_ids ex_job)" by (simp add: ex_job_def)
  with job_covers_its_chats [OF ready(1)] show ?thesis unfolding ready(2) fst_conv sum.case prod.case by blast
qed

text \<open>
  C7: A job whose manifest has a chat that is not an archive runs with the Telegram session stored for its
  own operator; one with archives only takes no session.
\<close>

theorem job_session_is_its_operators:
  assumes "prepare_job bv x j s = (Inr (m, x'), s')"
  shows "if \<exists>d \<in> set (mf_dialogs m). source_backend_requires_operator_session (Some (dlg_source_backend d))
    then \<exists>session. stored_session bv (job_operator_huid j) s = Some session
      \<and> bx_session x' = Some (session, job_operator_huid j)
    else bx_session x' = bx_session x \<and> s' = s"
proof -
  from assms obtain host x1 where host: "cts_host_context bv x host = Inr x1"
    and run: "source_backends_context bv x1 (worker_operator j) (map dlg_source_backend (mf_dialogs m)) s = (Inr x', s')"
    by (auto simp: prepare_job_def bind_ends_Inr load_config_manifest_Inr ret_def lift_outcome_def)
  have same: "bx_session x1 = bx_session x" using host by (auto simp: cts_host_context_def split: sum.splits)
  have "op_huid (worker_operator j) = job_operator_huid j" by (simp add: worker_operator_def)
  with source_backends_context_session [OF run] same show ?thesis
    by (auto simp: list_ex_iff split: if_splits)
qed

theorem job_session_is_its_operators_witness:
  "case fst ex_ready of Inl _ \<Rightarrow> False | Inr (m, x) \<Rightarrow>
    \<exists>session. stored_session ex_bot ''op'' ex_connected = Some session \<and> bx_session x = Some (session, ''op'')"
proof -
  obtain m x s where ready: "prepare_job ex_bot ex_place ex_job ex_connected = (Inr (m, x), s)" "ex_ready = (Inr (m, x), s)"
      and backends: "map dlg_source_backend (mf_dialogs m) = [''telethon_user_session'']"
    using ex_ready_prepared by (elim exE conjE) (rule that)
  then obtain d where "mf_dialogs m = [d]" "dlg_source_backend d = ''telethon_user_session''" by auto
  moreover have "source_backend_requires_operator_session (Some ''telethon_user_session'')" by code_simp
  moreover have "job_operator_huid ex_job = ''op''" by (simp add: ex_job_def)
  ultimately show ?thesis using job_session_is_its_operators [OF ready(1)]
    unfolding ready(2) fst_conv sum.case prod.case by simp
qed

section \<open>Values that travel as text\<close>

lemma replace_zulu_zulu: "CHR ''Z'' \<notin> set s \<Longrightarrow> replace_zulu (zulu s) = s"
proof (induction s rule: zulu.induct)
  case (2 c cs)
  show ?case
  proof (cases "take 6 (c # cs) = ''+00:00''")
    case True
    then have "take 5 cs = ''00:00''" "c = CHR ''+''" by simp_all
    moreover have "cs = take 5 cs @ drop 5 cs" by simp
    ultimately have "c # cs = ''+00:00'' @ drop 5 cs" by simp
    moreover have "CHR ''Z'' \<notin> set (drop 5 cs)" using 2(3) by (auto dest: in_set_dropD)
    then have "replace_zulu (zulu (drop 5 cs)) = drop 5 cs" using 2(1) True by simp
    ultimately show ?thesis using True by (simp add: replace_zulu_def)
  next
    case False
    then have "zulu (c # cs) = c # zulu cs" by (simp only: zulu.simps if_False)
    moreover have "c \<noteq> CHR ''Z''" "replace_zulu (zulu cs) = cs" using 2(2,3) False by auto
    ultimately show ?thesis by (simp add: replace_zulu_def)
  qed
qed (simp add: replace_zulu_def)

lemma zero_padded_digits: "c \<in> set (zero_padded w n) \<Longrightarrow> is_digit c"
  using str_of_nat_digits [of n] by (auto simp: zero_padded_def Let_def is_digit_def)

lemma isoformat_plain: "CHR ''Z'' \<notin> set (isoformat t)"
proof -
  have "CHR ''Z'' \<notin> set (padded_int w i)" for w i
    using zero_padded_digits [of "CHR ''Z''" w "nat i"] by (auto simp: padded_int_def is_digit_def)
  then show ?thesis by (simp add: isoformat_def Let_def split: prod.split)
qed

lemma parse_format_datetime:
  assumes "\<And>x. t = Some x \<Longrightarrow> is_fromisoformat svc (isoformat x) = Inr (x, Some 0)"
  shows "parse_optional_datetime svc (format_datetime t) = Inr t"
  using assms
  by (cases t) (simp_all add: parse_optional_datetime_def format_datetime_def replace_zulu_zulu [OF isoformat_plain])

text \<open>
  The window in which a chat is copied is the one configured for it: the manifest writes the two times
  as text, and the plan of the backfill reads the same times back. (The library reads what
  \<open>isoformat\<close> wrote for them.)
\<close>

theorem configured_window_is_copied:
  assumes "manifest_dialog_from_config r = Inr (pl_dialog pl)" and "plan_for svc c pl"
    and "\<forall>t. cc_include_from r = Some t \<or> cc_include_to r = Some t
      \<longrightarrow> is_fromisoformat svc (isoformat t) = Inr (t, Some 0)"
  shows "pl_from pl = cc_include_from r \<and> pl_to pl = cc_include_to r"
proof -
  from manifest_dialog_fields(5,6) [OF assms(1)] assms(2,3) parse_format_datetime [of _ svc] show ?thesis by (simp add: plan_for_def)
qed

definition ex_day :: datetime where
  "ex_day = 86400000000"

definition ex_window_config :: chat_config_record where
  "ex_window_config = ex_archive_config\<lparr>cc_include_from := Some ex_day\<rparr>"

definition ex_window_dialog :: manifest_dialog where
  "ex_window_dialog = (case manifest_dialog_from_config ex_window_config of Inl _ \<Rightarrow> ex_dialog | Inr d \<Rightarrow> d)"

definition ex_window_services :: "int import_services" where
  "ex_window_services = ex_import_services\<lparr>is_fromisoformat := (\<lambda>s. if s = isoformat ex_day then Inr (ex_day, Some 0)
     else Inl (ValueError ''no date''))\<rparr>"

definition ex_window_command :: backfill_command where
  "ex_window_command = ex_backfill\<lparr>bfc_manifest := ex_manifest\<lparr>mf_dialogs := [ex_window_dialog]\<rparr>\<rparr>"

lemma ex_window_made: "manifest_dialog_from_config ex_window_config = Inr ex_window_dialog"
proof -
  have "case manifest_dialog_from_config ex_window_config of Inl _ \<Rightarrow> False | Inr _ \<Rightarrow> True" by code_simp
  then show ?thesis by (auto simp: ex_window_dialog_def split: sum.splits)
qed

lemma ex_window_reads: "cc_include_from ex_window_config = Some t \<or> cc_include_to ex_window_config = Some t
    \<Longrightarrow> is_fromisoformat ex_window_services (isoformat t) = Inr (t, Some 0)"
  by (auto simp: ex_window_config_def ex_archive_config_def ex_config_def ex_window_services_def)

lemma ex_window_plan: "plan_for ex_window_services ex_window_command
  \<lparr>pl_dialog = ex_window_dialog, pl_target = ex_chat_mapping, pl_from = Some ex_day, pl_to = None\<rparr>"
proof -
  have fields: "cc_include_from ex_window_config = Some ex_day" "cc_include_to ex_window_config = None"
      "cc_source_chat_id ex_window_config = ''c''"
    by (simp_all add: ex_window_config_def ex_archive_config_def ex_config_def)
  have "dlg_include_from ex_window_dialog = format_datetime (Some ex_day)"
    "dlg_include_to ex_window_dialog = format_datetime None"
    using manifest_dialog_fields(5,6) [OF ex_window_made] fields by simp_all
  moreover have "parse_optional_datetime ex_window_services (format_datetime (Some ex_day)) = Inr (Some ex_day)"
    "parse_optional_datetime ex_window_services (format_datetime None) = Inr None"
    by (rule parse_format_datetime; use ex_window_reads fields in auto)+
  ultimately show ?thesis using fields(3) manifest_dialog_fields(1) [OF ex_window_made]
    by (simp add: plan_for_def ex_window_command_def ex_backfill_def dialog_for_def)
qed

theorem configured_window_is_copied_witness:
  "\<exists>pl. plan_for ex_window_services ex_window_command pl \<and> pl_from pl = Some ex_day \<and> pl_to pl = None"
proof -
  let ?pl = "\<lparr>pl_dialog = ex_window_dialog, pl_target = ex_chat_mapping, pl_from = Some ex_day, pl_to = None\<rparr>"
  have made: "manifest_dialog_from_config ex_window_config = Inr (pl_dialog ?pl)"
    using ex_window_made by simp
  have reads: "\<forall>t. cc_include_from ex_window_config = Some t \<or> cc_include_to ex_window_config = Some t
      \<longrightarrow> is_fromisoformat ex_window_services (isoformat t) = Inr (t, Some 0)"
    using ex_window_reads by blast
  from configured_window_is_copied [OF made ex_window_plan reads] ex_window_plan show ?thesis
    by (intro exI [of _ ?pl]) simp
qed

text \<open>A library that writes a sheet as pairs of a mark and a character.\<close>

definition spell :: "string \<Rightarrow> string" where
  "spell s = concat (map (\<lambda>c. [CHR ''c'', c]) s)"

fun write_cell :: "cell \<Rightarrow> string" where
  "write_cell NoCell = ''N ''"
| "write_cell (TextCell s) = ''T '' @ spell s"
| "write_cell (ValueCell s) = ''V '' @ spell s"

definition write_row :: "cell list \<Rightarrow> string" where
  "write_row cells = ''R '' @ concat (map write_cell cells)"

fun read_marks :: "string \<Rightarrow> string \<times> cell list \<times> cell list list" where
  "read_marks (mark # c # s) = (case read_marks s of (chars, cells, rows) \<Rightarrow>
     if mark = CHR ''c'' then (c # chars, cells, rows)
     else if mark = CHR ''T'' then ([], TextCell chars # cells, rows)
     else if mark = CHR ''V'' then ([], ValueCell chars # cells, rows)
     else if mark = CHR ''N'' then (chars, NoCell # cells, rows)
     else (chars, [], cells # rows))"
| "read_marks _ = ([], [], [])"

lemma read_spell: "read_marks (spell t @ s) = (case read_marks s of (chars, rest) \<Rightarrow> (t @ chars, rest))"
  by (induction t) (auto simp: spell_def split: prod.splits)

lemma read_cells: "fst (read_marks s) = [] \<Longrightarrow>
  read_marks (concat (map write_cell cells) @ s) = (case read_marks s of (chars, cs, rows) \<Rightarrow> ([], cells @ cs, rows))"
proof (induction cells)
  case (Cons c cells)
  then show ?case by (cases c) (auto simp: read_spell split: prod.splits)
qed (auto split: prod.splits)

lemma read_rows: "read_marks (concat (map write_row sheet)) = ([], [], sheet)"
  by (induction sheet) (simp_all add: write_row_def read_cells)

definition ex_mark_library :: workbook_library where
  "ex_mark_library = \<lparr>wl_save = (\<lambda>name sheet. spell name @ concat (map write_row sheet)),
     wl_load = (\<lambda>s. case read_marks s of (name, _, sheet) \<Rightarrow> Some [(name, sheet)])\<rparr>"

lemma same_cells_refl: "list_all2 (list_all2 same_cell) sheet sheet"
  by (intro list_all2_refl) (simp add: same_cell_def)

lemma ex_mark_library_lawful: "library_lawful ex_mark_library"
  by (auto simp: library_lawful_def ex_mark_library_def read_spell read_rows intro!: same_cells_refl)

text \<open>
  C37: A workbook that an operator uploads as it was downloaded gives the rows it was made of back: every
  text without outer blanks, an absent resolution as display only; the template rows and the rows that
  name nobody are left out. This is so when the rows fit into a sheet and no text of them is a formula,
  the name of an error or otherwise nothing that a workbook can hold (\<open>legal_text\<close>).
\<close>

theorem workbook_round_trip:
  assumes "library_lawful lib" and "list_all legal_row rows" and "length rows + nat manual < max_sheet_rows"
  shows "parse_workbook lib (build_workbook lib rows manual) = Inr (filter (\<lambda>r. \<not> blank_row r) (map normal_row rows))"
proof -
  from assms obtain sheet where "wl_load lib (build_workbook lib rows manual) = Some [(sheet_name, sheet)]"
    and "list_all2 (list_all2 same_cell) (workbook_sheet rows manual) sheet"
    using legal_workbook_sheet [OF assms(2,3)] legal_sheet_name by (auto simp: library_lawful_def build_workbook_def)
  with parse_workbook_sheet [of rows manual sheet] show ?thesis by (simp add: parse_workbook_def)
qed

definition ex_workbook_row :: workbook_row where
  "ex_workbook_row = template_row\<lparr>wr_telegram_user_id := Some ''17'', wr_target_huid := Some ''h ''\<rparr>"

theorem workbook_round_trip_witness:
  "parse_workbook ex_mark_library (build_workbook ex_mark_library [template_row, ex_workbook_row] 1)
    = Inr [normal_row ex_workbook_row]"
proof -
  have "legal_row template_row" "legal_row ex_workbook_row" by code_simp+
  then have legal: "list_all legal_row [template_row, ex_workbook_row]" by simp
  have "filter (\<lambda>r. \<not> blank_row r) (map normal_row [template_row, ex_workbook_row]) = [normal_row ex_workbook_row]"
    using template_blank by (simp add: blank_row_def normal_row_def ex_workbook_row_def stripped_def) code_simp
  with workbook_round_trip [OF ex_mark_library_lawful legal, of 1] show ?thesis by (simp add: max_sheet_rows_def)
qed

section \<open>A job over its chats\<close>

text \<open>
  C5: A migration job ends, whatever fails. Let the histories of its chats be served without gaps and
  every due message up to a stored checkpoint be settled. When the job returns, every chat it was given
  has all its due messages settled or is listed in the failures the job reports last; only a
  cancellation ends it otherwise. Either way it can be repeated: what is due up to the checkpoints
  stored then is settled.
\<close>

theorem job_settles_or_reports:
  assumes "undisturbed_provision (bv_import bv x)"
    and "\<forall>c \<in> set chats. c \<in> set (manifest_chats m) \<longrightarrow> served (bv_import bv x) m n c (src c)
      \<and> in_step m n c (src c) (bt_import s)"
  shows "\<exists>r s'. run_migrate_chat_job bv x m chats n s = Some (r, s') \<and> r \<in> {Inr (), Inl CancelledError}
    \<and> (\<forall>c \<in> set chats. c \<in> set (manifest_chats m) \<longrightarrow> in_step m n c (src c) (bt_import s')
       \<and> (r = Inr () \<longrightarrow> reported_failed ''bot_migrate_chat_completed_with_failures'' c s'
         \<or> all_settled m n c (src c) (bt_import s')))"
  by (rule migrate_chat_job_settles [OF assms])

definition ex_sources :: "string \<Rightarrow> chat_source" where
  "ex_sources = (\<lambda>_. \<lparr>cs_plan = ex_plan, cs_num = ex_num, cs_history = ex_history\<rparr>)"

lemma ex_chat_backfill: "chat_backfill ex_manifest 1 ''c'' = ex_backfill"
  by (simp add: chat_backfill_def ex_backfill_def)

theorem job_settles_or_reports_witness:
  "\<exists>r s'. run_migrate_chat_job ex_bot ex_place ex_manifest [''c''] 1 ex_bot_start = Some (r, s')
    \<and> in_step ex_manifest 1 ''c'' (ex_sources ''c'') (bt_import s')"
proof -
  have svc: "bv_import ex_bot ex_place = ex_import_services" and start: "bt_import ex_bot_start = ex_import_state"
    by (simp_all add: ex_bot_def ex_bot_start_def)
  have provision: "undisturbed_provision (bv_import ex_bot ex_place)"
    by (simp add: svc undisturbed_provision_def ex_import_services_def)
  have "\<forall>c \<in> set [''c'']. c \<in> set (manifest_chats ex_manifest) \<longrightarrow>
      served (bv_import ex_bot ex_place) ex_manifest 1 c (ex_sources c)
      \<and> in_step ex_manifest 1 c (ex_sources c) (bt_import ex_bot_start)"
    using plan_for_ex ordered_ex_history serves_ex_history up_to_date_ex
    by (simp add: served_def in_step_def ex_sources_def svc start ex_chat_backfill)
  from job_settles_or_reports [OF provision this]
  show ?thesis by (auto simp: manifest_chats_def ex_manifest_def ex_dialog_def)
qed

end
