(* ===== verification/Dialogue.thy ===== *)
theory Dialogue
  imports Bot_Jobs Bot_Identities Command_Parser
begin

text \<open>
  What the dialogues of the bot share (\<open>extg_bot_ui/presentation/bot\<close>): the incoming message, the flow
  a user is in, with the values it has collected, and the replies.

  The flow is kept by the library \<open>pybotx_fsm\<close>: \<open>change_state\<close> stores a state with its values and a
  time to live, \<open>drop_state\<close> removes it; a handler gets the values stored when its message arrived.
  Which handler a message goes to is the library's choice. The Russian sentences of the replies are
  given in English (\<open>Says\<close>); a reply is a list of lines, joined with newlines.
\<close>

section \<open>Messages\<close>

text \<open>\<open>in_context\<close> has the messenger host the request came from.\<close>

record incoming_message =
  in_context :: bot_context
  in_body :: "string option"
  in_argument :: string
  in_huid :: string
  in_chat_id :: string
  in_username :: "string option"
  in_ad_login :: "string option"
  in_ad_domain :: "string option"
  in_bot_host :: "string option"
  in_bot_id :: "string option"
  in_mentioned_users :: "string list"
  in_mentioned_chats :: "string list"
  in_mentioned_channels :: "string list"
  in_file :: "(string \<times> string option) option"

definition operator_from_message :: "incoming_message \<Rightarrow> bot_operator_context" where
  "operator_from_message m = \<lparr>op_huid = in_huid m, op_chat_id = in_chat_id m, op_username = in_username m,
     op_ad_login = in_ad_login m, op_ad_domain = in_ad_domain m,
     op_display_name = py_or (in_ad_login m) (py_or (in_username m) (Some (in_huid m))),
     op_current_cts_host = in_bot_host m, op_current_bot_id = in_bot_id m\<rparr>"

definition message_text :: "incoming_message \<Rightarrow> string" where
  "message_text m = py_strip (or_empty (in_body m))"

definition normalized_choice :: "string \<Rightarrow> string" where
  "normalized_choice s = py_lower (py_strip s)"

definition message_choice :: "incoming_message \<Rightarrow> string" where
  "message_choice m = normalized_choice (message_text m)"

definition is_cancel :: "string \<Rightarrow> bool" where
  "is_cancel s \<longleftrightarrow> s \<in> {''cancel'', ''/cancel''}"

definition is_skip :: "string \<Rightarrow> bool" where
  "is_skip s \<longleftrightarrow> s \<in> {''skip'', ''/skip''}"

definition parse_on_off :: "string \<Rightarrow> bool option" where
  "parse_on_off s = (if s \<in> {''on'', ''true'', ''1'', ''yes''} then Some True
     else if s \<in> {''off'', ''false'', ''0'', ''no''} then Some False else None)"

section \<open>Flows\<close>

text \<open>\<open>MigrationWizardState\<close> and \<open>TelegramSessionWizardState\<close>.\<close>

datatype flow_state = SelectChat | SelectMembersChat | InputChatMembersWorkbook | InputArchiveImport
  | InputPrivatePeer | InputGroupTopicStrategy | InputGroupIdentityMatrix | InputChannelIdentityMatrix
  | InputChannelAccessStrategy | InputFrom | InputTo | InputMedia | InputReply | Confirm
  | InputPhone | InputCode | InputPassword

text \<open>
  The values of a flow. A value that was not stored is None; where the code tells a missing
  attribute from one that is None, the type has both.
\<close>

record flow_storage =
  fl_source_chat_id :: "string option"
  fl_flow_mode :: "string option"
  fl_include_from :: "string option"
  fl_include_to :: "string option"
  fl_migrate_media :: "bool option option"
  fl_reply_mode :: "string option option"
  fl_source_backend :: "string option"
  fl_target_strategy :: "string option"
  fl_target_title :: "string option"
  fl_target_chat_id :: "string option"
  fl_identity_policy :: "string option"
  fl_access_strategy :: "string option"
  fl_topic_strategy :: "string option"
  fl_progress_policy :: "string option"
  fl_batch_size :: "int option"
  fl_challenge_id :: "string option"

definition no_values :: flow_storage where
  "no_values = \<lparr>fl_source_chat_id = None, fl_flow_mode = None, fl_include_from = None, fl_include_to = None,
     fl_migrate_media = None, fl_reply_mode = None, fl_source_backend = None, fl_target_strategy = None,
     fl_target_title = None, fl_target_chat_id = None, fl_identity_policy = None, fl_access_strategy = None,
     fl_topic_strategy = None, fl_progress_policy = None, fl_batch_size = None, fl_challenge_id = None\<rparr>"

record flow =
  fw_state :: flow_state
  fw_ttl_seconds :: int
  fw_storage :: flow_storage

definition wizard_ttl_seconds :: int where
  "wizard_ttl_seconds = 3600"

definition session_wizard_ttl_seconds :: int where
  "session_wizard_ttl_seconds = 900"

text \<open>\<open>getattr(storage, name, default)\<close>\<close>

definition attribute_or :: "'a option \<Rightarrow> 'a \<Rightarrow> 'a" where
  "attribute_or v dflt = (case v of None \<Rightarrow> dflt | Some x \<Rightarrow> x)"

definition flow_mode :: "flow_storage \<Rightarrow> string" where
  "flow_mode v = attribute_or (fl_flow_mode v) ''wizard''"

definition wizard_state_payload :: "flow_storage \<Rightarrow> flow_storage" where
  "wizard_state_payload v = \<lparr>fl_source_chat_id = None, fl_flow_mode = Some (flow_mode v), fl_include_from = None,
     fl_include_to = None, fl_migrate_media = None, fl_reply_mode = None, fl_source_backend = fl_source_backend v,
     fl_target_strategy = fl_target_strategy v, fl_target_title = fl_target_title v,
     fl_target_chat_id = fl_target_chat_id v, fl_identity_policy = fl_identity_policy v,
     fl_access_strategy = fl_access_strategy v, fl_topic_strategy = fl_topic_strategy v,
     fl_progress_policy = Some (attribute_or (fl_progress_policy v) ''ask''), fl_batch_size = fl_batch_size v,
     fl_challenge_id = None\<rparr>"

text \<open>The values with which a command enters a flow: those of its options.\<close>

definition command_payload :: "string \<Rightarrow> migration_run_options option \<Rightarrow> flow_storage" where
  "command_payload chat opts =
    (case opts of
       None \<Rightarrow> no_values\<lparr>fl_source_chat_id := Some chat, fl_flow_mode := Some ''wizard''\<rparr>
     | Some r \<Rightarrow> no_values\<lparr>fl_source_chat_id := Some chat, fl_flow_mode := Some ''command'',
         fl_include_from := ro_include_from r, fl_include_to := ro_include_to r,
         fl_migrate_media := Some (ro_migrate_media r), fl_reply_mode := Some (ro_reply_mode r),
         fl_source_backend := ro_source_backend r, fl_target_strategy := ro_target_strategy r,
         fl_target_title := ro_target_title r, fl_target_chat_id := ro_target_chat_id r,
         fl_identity_policy := ro_identity_policy r, fl_progress_policy := Some (ro_progress_policy r),
         fl_batch_size := ro_batch_size r\<rparr>)"

section \<open>Replies\<close>

text \<open>A line as in the code, or the English translation of a Russian sentence.\<close>

datatype line = Line string | Says string

text \<open>A button: its label, the command it sends and whether it opens a row.\<close>

type_synonym keyboard = "(line \<times> string \<times> bool) list"

record reply =
  rp_lines :: "line list"
  rp_file :: "(string \<times> string) option"
  rp_keyboard :: keyboard

section \<open>The state of a dialogue\<close>

record 'w dialogue =
  dg_bot :: "'w bot_state"
  dg_flow :: "flow option"
  dg_said :: "reply list"

type_synonym ('w, 'a) talk = "('w dialogue, 'a) action"

text \<open>
  \<open>tk_request\<close>, \<open>tk_login_code\<close> and \<open>tk_login_password\<close> are the login calls of Telegram;
  \<open>tk_cancel_readings\<close> draws the clock readings of a cancellation.
\<close>

record 'w talk_services =
  tk_desk :: "'w desk_services"
  tk_default_batch_size :: int
  tk_request :: "'w \<Rightarrow> (string \<Rightarrow> bool \<Rightarrow> request_failure + code_request_result) \<times> 'w"
  tk_login_code :: "'w \<Rightarrow> (login_challenge \<Rightarrow> string \<Rightarrow> (error, bootstrap_result) outcome) \<times> 'w"
  tk_login_password :: "'w \<Rightarrow> (login_challenge \<Rightarrow> string \<Rightarrow> (error, bootstrap_result) outcome) \<times> 'w"
  tk_cancel_readings :: "'w \<Rightarrow> ((string \<Rightarrow> datetime) \<times> (string \<Rightarrow> datetime) \<times> datetime) \<times> 'w"

abbreviation tk_bot :: "'w talk_services \<Rightarrow> 'w bot_services" where
  "tk_bot tk \<equiv> dk_bot (tk_desk tk)"

definition in_bot :: "('w, 'a) bot \<Rightarrow> ('w, 'a) talk" where
  "in_bot = on_part dg_bot (\<lambda>b d. d\<lparr>dg_bot := b\<rparr>)"

definition say_with :: "line list \<Rightarrow> (string \<times> string) option \<Rightarrow> keyboard \<Rightarrow> ('w, unit) talk" where
  "say_with ls attached keys =
    modify (\<lambda>d. d\<lparr>dg_said := dg_said d @ [\<lparr>rp_lines = ls, rp_file = attached, rp_keyboard = keys\<rparr>]\<rparr>)"

definition say :: "line list \<Rightarrow> ('w, unit) talk" where
  "say ls = say_with ls None []"

definition change_state :: "flow_state \<Rightarrow> int \<Rightarrow> flow_storage \<Rightarrow> ('w, unit) talk" where
  "change_state st ttl v = modify (\<lambda>d. d\<lparr>dg_flow := Some \<lparr>fw_state = st, fw_ttl_seconds = ttl, fw_storage = v\<rparr>\<rparr>)"

definition drop_state :: "('w, unit) talk" where
  "drop_state = modify (\<lambda>d. d\<lparr>dg_flow := None\<rparr>)"

text \<open>Reading a value that has to be there.\<close>

definition required :: "string \<Rightarrow> 'a option \<Rightarrow> ('s, 'a) action" where
  "required name v = (case v of
     None \<Rightarrow> throw (OtherError ''AttributeError'' (''types.SimpleNamespace object has no attribute '' @ name))
   | Some x \<Rightarrow> ret x)"

definition stored_chat :: "flow_storage \<Rightarrow> ('s, string) action" where
  "stored_chat v = required ''source_chat_id'' (fl_source_chat_id v)"

text \<open>The errors whose text the user sees; a command also shows those of its arguments.\<close>

definition user_visible :: "error \<Rightarrow> bool" where
  "user_visible e \<longleftrightarrow> (case e of ConfigurationError _ \<Rightarrow> True | FatalItemError _ \<Rightarrow> True
     | RecoverableItemError _ \<Rightarrow> True | AmbiguousDeliveryError _ \<Rightarrow> True | _ \<Rightarrow> False)"

definition argument_error :: "error \<Rightarrow> bool" where
  "argument_error e \<longleftrightarrow> (case e of OtherError name _ \<Rightarrow> name = ''CommandArgumentError'' | _ \<Rightarrow> False)"

definition parsed_or_raise :: "'a parsed \<Rightarrow> ('s, 'a) action" where
  "parsed_or_raise r = (case r of Inl t \<Rightarrow> throw (OtherError ''CommandArgumentError'' t) | Inr a \<Rightarrow> ret a)"

text \<open>\<open>try: ... except shown as error: answer, return\<close>, and what follows when nothing was raised.\<close>

definition try_showing ::
    "(error \<Rightarrow> bool) \<Rightarrow> (string \<Rightarrow> line list) \<Rightarrow> ('w, 'a) talk \<Rightarrow> ('a \<Rightarrow> ('w, unit) talk) \<Rightarrow> ('w, unit) talk" where
  "try_showing shown answer act rest =
    bind (catch_error (bind act (\<lambda>a. ret (Some a)))
      (\<lambda>e. if shown e then Some (bind (say (answer (error_text e))) (\<lambda>_. ret None)) else None))
      (\<lambda>r. case r of None \<Rightarrow> ret () | Some a \<Rightarrow> rest a)"

definition error_lines :: "string \<Rightarrow> line list" where
  "error_lines t = [Says (''Error: '' @ t)]"

definition try_service :: "('w, 'a) bot \<Rightarrow> ('a \<Rightarrow> ('w, unit) talk) \<Rightarrow> ('w, unit) talk" where
  "try_service m = try_showing user_visible error_lines (in_bot m)"

definition try_command :: "('w, 'a) talk \<Rightarrow> ('a \<Rightarrow> ('w, unit) talk) \<Rightarrow> ('w, unit) talk" where
  "try_command = try_showing (\<lambda>e. user_visible e \<or> argument_error e) error_lines"

end
