(* ===== verification/Dialogue_Text.thy ===== *)
theory Dialogue_Text
  imports Dialogue
begin

text \<open>
  The texts of the replies: the \<open>_format_...\<close> and \<open>_build_...\<close> functions of
  \<open>extg_bot_ui/presentation/bot/handlers.py\<close> and \<open>wizard.py\<close>, as lists of lines.
\<close>

section \<open>Values in a text\<close>

definition key_value :: "string \<Rightarrow> string \<Rightarrow> line" where
  "key_value k v = Line (k @ ''='' @ v)"

text \<open>\<open>{value or '-'}\<close>, and \<open>{value}\<close> of a value that may be None\<close>

definition dashed :: "string option \<Rightarrow> string" where
  "dashed v = or_empty (py_or v (Some ''-''))"

definition shown_or_none :: "string option \<Rightarrow> string" where
  "shown_or_none v = (case v of None \<Rightarrow> ''None'' | Some s \<Rightarrow> s)"

definition count_value :: "string \<Rightarrow> nat \<Rightarrow> line" where
  "count_value k n = key_value k (str_of_nat n)"

definition yes_no :: "bool \<Rightarrow> string" where
  "yes_no b = (if b then ''yes'' else ''no'')"

definition on_off :: "bool \<Rightarrow> string" where
  "on_off b = (if b then ''on'' else ''off'')"

definition blank_line :: line where
  "blank_line = Line []"

text \<open>The first \<open>n\<close> entries and how many more there are.\<close>

definition shortened :: "nat \<Rightarrow> string \<Rightarrow> ('a \<Rightarrow> line list) \<Rightarrow> 'a list \<Rightarrow> line list" where
  "shortened n what shown xs = concat (map shown (take n xs))
     @ (if n < length xs then [Line (''... +'' @ str_of_nat (length xs - n) @ '' '' @ what)] else [])"

text \<open>\<open>str(datetime)\<close> of a time in UTC, and its \<open>strftime\<close>\<close>

definition datetime_text :: "datetime \<Rightarrow> string" where
  "datetime_text t = map (\<lambda>c. if c = CHR ''T'' then CHR '' '' else c) (isoformat t)"

definition utc_seconds_text :: "datetime \<Rightarrow> string" where
  "utc_seconds_text t = take 19 (datetime_text t) @ '' UTC''"

definition job_keys_of :: "bot_operation_accepted_result \<Rightarrow> string list" where
  "job_keys_of r = (if ar_job_keys r \<noteq> [] then ar_job_keys r
     else if truthy (ar_job_key r) then [or_empty (ar_job_key r)] else [])"

section \<open>Progress, jobs, checkpoints\<close>

definition format_progress_hint :: "bot_progress_hint \<Rightarrow> line" where
  "format_progress_hint h = Line (''- '' @ ph_source_chat_id h @ '': mapped='' @ str_of_nat (ph_mapped_total h)
     @ '' imported='' @ str_of_nat (ph_imported_count h) @ '' last_source_message_id=''
     @ dashed (ph_last_source_message_id h))"

definition format_progress_hints :: "bot_progress_hint list \<Rightarrow> line list" where
  "format_progress_hints hints = Says ''Progress found:'' # map format_progress_hint hints"

definition format_active_jobs :: "bot_active_job list \<Rightarrow> line list" where
  "format_active_jobs jobs = Says ''Active jobs:'' # map (\<lambda>j. Line (''- '' @ aj_job_key j @ '' | operation=''
     @ aj_operation j @ '' | started_at='' @ utc_seconds_text (aj_started_at j) @ '' | chats=''
     @ join_comma (aj_source_chat_ids j))) jobs"

definition format_chat_checkpoints :: "bot_checkpoint_status list \<Rightarrow> line list" where
  "format_chat_checkpoints cs = Line ''Checkpoints:'' # map (\<lambda>c. Line (''- '' @ cs_source_chat_id c @ '': backfill=''
     @ dashed (cs_backfill_last c) @ '' delta='' @ dashed (cs_delta_last c))) cs"

definition format_blocked_result :: "bot_operation_accepted_result \<Rightarrow> line list" where
  "format_blocked_result r = [Says ''Existing progress found. The wizard did not go on by itself.'', blank_line,
     Says ''Progress found:''] @ map format_progress_hint (ar_progress_hints r)
     @ [blank_line, Says ''Send `resume` to go on, or `cancel`.'']"

section \<open>The start of a migration\<close>

definition topic_target_line :: "bool \<Rightarrow> bot_topic_target \<Rightarrow> line" where
  "topic_target_line titled t = Line (''- topic='' @ tt_topic_title t @ '' | target_chat_id='' @ tt_target_chat_id t
     @ (if titled then '' | target_chat_title='' @ tt_target_chat_title t else [])
     @ '' | target_chat_link='' @ dashed (tt_target_chat_link t))"

definition format_start_result :: "bot_operation_accepted_result \<Rightarrow> line list" where
  "format_start_result r =
    (if ar_status r = ''already_migrated'' then
       [Says ''The chat was migrated already. The wizard started no job.'', key_value ''migration_id'' (ar_migration_id r),
        key_value ''source_chat_id'' (join_comma (ar_source_chat_ids r))]
       @ (if ar_topic_targets r \<noteq> []
          then Line ''target_chats_by_topic:'' # map (topic_target_line False) (ar_topic_targets r)
          else key_value ''target_chat_id'' (dashed (ar_target_chat_id r))
            # (if truthy (ar_target_chat_link r) then [key_value ''target_chat_link'' (or_empty (ar_target_chat_link r))] else []))
     else if ar_status r = ''accepted'' then
       [Says ''The wizard started the migration.'', key_value ''migration_id'' (ar_migration_id r),
        key_value ''job_key'' (shown_or_none (ar_job_key r)),
        key_value ''source_chat_id'' (join_comma (ar_source_chat_ids r))]
     else if ar_status r = ''already_running'' then [Says ''No job started: there is an active one.'']
     else if truthy (ar_reason r) then [Line (or_empty (ar_reason r))] else [Says ''The operation is blocked.''])"

text \<open>The result of a start in a flow: blocked by earlier progress, or not.\<close>

definition format_outcome :: "bot_operation_accepted_result \<Rightarrow> line list" where
  "format_outcome r = (if ar_status r = ''blocked'' then format_blocked_result r else format_start_result r)"

definition format_background_operation_for_wizard :: "bot_operation_accepted_result \<Rightarrow> line list" where
  "format_background_operation_for_wizard r =
    [Says (if ar_status r = ''accepted'' then ''Job accepted.'' else ''No job started.''),
     key_value ''operation'' (ar_operation r), key_value ''migration_id'' (ar_migration_id r)]
    @ (case job_keys_of r of
         [] \<Rightarrow> []
       | [k] \<Rightarrow> [key_value ''job_key'' k]
       | ks \<Rightarrow> [count_value ''accepted_jobs'' (length ks), Line ''job_keys:'']
           @ shortened 10 ''jobs'' (\<lambda>k. [Line (''- '' @ k)]) ks)
    @ (if ar_source_chat_ids r \<noteq> [] then [key_value ''source_chat_ids'' (join_comma (ar_source_chat_ids r))] else [])
    @ (if truthy (ar_reason r) then [blank_line, key_value ''reason'' (or_empty (ar_reason r))] else [])
    @ [blank_line, Says ''Check the progress: /status'']"

fun join_comma_blank :: "string list \<Rightarrow> string" where
  "join_comma_blank [] = []"
| "join_comma_blank [s] = s"
| "join_comma_blank (s # ss) = s @ '', '' @ join_comma_blank ss"

definition format_accepted_jobs :: "bot_operation_accepted_result \<Rightarrow> string \<Rightarrow> line list" where
  "format_accepted_jobs r hint =
    (let keys = job_keys_of r;
         accepted = (if ar_accepted_source_chat_ids r \<noteq> [] then ar_accepted_source_chat_ids r else ar_source_chat_ids r)
     in if length keys \<le> 1 \<and> ar_blocked_source_chat_ids r = [] \<and> ar_already_running_source_chat_ids r = [] then
       [Says ''Job accepted.'', key_value ''operation'' (ar_operation r), key_value ''migration_id'' (ar_migration_id r),
        key_value ''job_key'' (shown_or_none (ar_job_key r)),
        key_value ''source_chat_ids'' (if ar_source_chat_ids r \<noteq> [] then join_comma_blank (ar_source_chat_ids r) else ''all''),
        blank_line, Says ''Check the progress: /status'']
     else
       [Says ''Jobs accepted.'', key_value ''operation'' (ar_operation r), key_value ''migration_id'' (ar_migration_id r),
        count_value ''accepted_jobs'' (length keys),
        key_value ''accepted_source_chat_ids'' (dashed (Some (join_comma accepted)))]
       @ (if ar_blocked_source_chat_ids r \<noteq> []
          then [key_value ''blocked_source_chat_ids'' (join_comma (ar_blocked_source_chat_ids r))] else [])
       @ (if ar_already_running_source_chat_ids r \<noteq> []
          then [key_value ''already_running_source_chat_ids'' (join_comma (ar_already_running_source_chat_ids r))] else [])
       @ (case keys of
            [] \<Rightarrow> []
          | [k] \<Rightarrow> [key_value ''job_key'' k]
          | ks \<Rightarrow> Line ''job_keys:'' # shortened 10 ''jobs'' (\<lambda>k. [Line (''- '' @ k)]) ks)
       @ (if ar_progress_hints r \<noteq> []
          then blank_line # format_progress_hints (ar_progress_hints r)
            @ [Says (''To go on with the blocked chats: '' @ hint)] else [])
       @ [blank_line, Says ''Check the progress: /status''])"

definition format_background_operation :: "bot_operation_accepted_result \<Rightarrow> string \<Rightarrow> line list" where
  "format_background_operation r hint =
    (if ar_status r = ''already_migrated'' then
       [Says ''The chat was migrated already. No new start.'', key_value ''migration_id'' (ar_migration_id r),
        key_value ''source_chat_id'' (join_comma (ar_source_chat_ids r))]
       @ (if ar_topic_targets r \<noteq> []
          then Line ''target_chats_by_topic:'' # map (topic_target_line True) (ar_topic_targets r)
          else key_value ''target_chat_id'' (dashed (ar_target_chat_id r))
            # (if truthy (ar_target_chat_title r) then [key_value ''target_chat_title'' (or_empty (ar_target_chat_title r))] else [])
            @ (if truthy (ar_target_chat_link r) then [key_value ''target_chat_link'' (or_empty (ar_target_chat_link r))] else []))
     else if ar_status r = ''accepted'' then format_accepted_jobs r hint
     else if ar_status r = ''already_running'' then
       Says ''No job started: there is an active one.''
       # (if ar_already_running_source_chat_ids r \<noteq> []
          then [key_value ''already_running_source_chat_ids'' (join_comma (ar_already_running_source_chat_ids r))] else [])
       @ (if ar_active_jobs r \<noteq> [] then blank_line # format_active_jobs (ar_active_jobs r) else [])
       @ (if ar_blocked_source_chat_ids r \<noteq> []
          then [blank_line, Says (''Blocked chats: '' @ join_comma (ar_blocked_source_chat_ids r))] else [])
     else if ar_progress_hints r \<noteq> [] then
       [Says ''Existing progress found. No start until it is confirmed.'', blank_line]
       @ format_progress_hints (ar_progress_hints r) @ [blank_line, Says (''To go on: '' @ hint)]
     else [Says (''The operation is blocked: '' @ or_empty (py_or (ar_reason r) (Some ''unknown'')))])"

section \<open>Chats\<close>

definition available_chat_line :: "bot_available_chat \<Rightarrow> string" where
  "available_chat_line c = ''- '' @ av_source_chat_id c @ '' | '' @ av_source_chat_title c"

definition build_wizard_intro :: "bot_available_chat list \<Rightarrow> line list" where
  "build_wizard_intro chats =
    (if chats = [] then [Says ''No Telegram chats found.'']
     else [Says ''Wizard of a migration.'', Says ''Step 1/5. Choose a source_chat_id and send it.'',
        Says ''`list` shows the list again, or `cancel`.'', blank_line, Says ''Available chats:'']
       @ shortened 10 ''chats'' (\<lambda>c. [Line (available_chat_line c @ '' | configured='' @ yes_no (av_configured c)
           @ '' | progress='' @ yes_no (av_has_progress c))]) chats)"

definition format_configure_chat_selector :: "bot_available_chat list \<Rightarrow> line list" where
  "format_configure_chat_selector chats =
    (if chats = [] then [Says ''No Telegram chats found. Check /connect and try /chats.'']
     else [Says ''Name a source_chat_id: `/configure <source_chat_id>`.'', Says ''The first available chats:'']
       @ shortened 10 ''chats'' (\<lambda>c. [Line (available_chat_line c @ '' | configured='' @ yes_no (av_configured c))]) chats
       @ [blank_line, Says ''Hints:'',
          Says ''- `/configure <source_chat_id>` without options shows the configuration or creates one with defaults.'',
          Says ''- `/configure <source_chat_id> access=invite format=source_id media=off` saves these settings.'',
          Says ''- `/chats` is the full list.''])"

definition format_available_chats :: "bot_available_chat list \<Rightarrow> int \<Rightarrow> line list" where
  "format_available_chats chats limit =
    (if chats = [] then [Says ''No Telegram chats found.'']
     else Says ''Available chats:'' # shortened (nat (max 1 limit)) ''chats'' (\<lambda>c. [Line (''- '' @ av_source_chat_id c @ '' | ''
       @ av_source_chat_type c @ '' | '' @ av_source_chat_title c @ '' | configured='' @ yes_no (av_configured c)
       @ '' | progress='' @ yes_no (av_has_progress c) @ '' | imported='' @ str_of_nat (av_imported_count c) @ ''/''
       @ str_of_nat (av_mapped_total c))]) chats)"

definition migrated_chat_line :: "bot_migrated_chat \<Rightarrow> line" where
  "migrated_chat_line c = Line (''- '' @ mgc_source_chat_id c @ '' | '' @ mgc_source_chat_type c @ '' | ''
     @ mgc_source_chat_title c @ '' | target_chat_id='' @ mgc_target_chat_id c @ '' | target_chat_title=''
     @ mgc_target_chat_title c)"

definition build_members_wizard_intro :: "bot_migrated_chat list \<Rightarrow> line list" where
  "build_members_wizard_intro chats =
    (if chats = [] then [Says ''You have no migrated chats to add members to.'']
     else [Says ''Adding users to an eXpress chat that exists.'',
        Says ''Step 1/2. Send a source_chat_id of the list or mention the eXpress chat.'',
        Says ''`list` shows the list again, or `cancel`.'', blank_line, Says ''Available chats:'']
       @ shortened 10 ''chats'' (\<lambda>c. [migrated_chat_line c]) chats)"

definition format_migrated_chats :: "bot_migrated_chat list \<Rightarrow> line list" where
  "format_migrated_chats chats =
    (if chats = [] then [Says ''No migrated chats to add users to.'']
     else Says ''Migrated chats:'' # shortened 20 ''chats'' (\<lambda>c. [migrated_chat_line c]) chats)"

definition format_chat_configuration :: "bot_chat_configuration_result \<Rightarrow> line list" where
  "format_chat_configuration result =
    (let r = ccr_record result in
     [key_value ''migration_id'' (cc_migration_id r), key_value ''source_chat_id'' (cc_source_chat_id r),
      key_value ''source_chat_type'' (cc_source_chat_type r), key_value ''source_chat_title'' (cc_source_chat_title r),
      key_value ''target_strategy'' (cc_target_strategy r), key_value ''access'' (cc_access_strategy r),
      key_value ''format'' (cc_reply_mode r), key_value ''media'' (on_off (cc_migrate_media r)),
      key_value ''skip_in_all'' (yes_no (cc_skip_in_all r)), key_value ''target_title'' (dashed (cc_target_title r)),
      key_value ''target_chat_id'' (dashed (chat_config_record.cc_target_chat_id r)),
      key_value ''include_from'' (dashed (ccr_include_from result)), key_value ''include_to'' (dashed (ccr_include_to result))]
     @ (if cc_topic_strategy r \<noteq> ''single_chat'' then [key_value ''topic_strategy'' (cc_topic_strategy r)] else [])
     @ (if truthy (cc_telegram_chat_id r) then [key_value ''telegram_chat_id'' (or_empty (cc_telegram_chat_id r))] else [])
     @ (if truthy (cc_source_thread_id r) then [key_value ''source_thread_id'' (or_empty (cc_source_thread_id r))] else [])
     @ (if truthy (cc_source_thread_title r) then [key_value ''source_thread_title'' (or_empty (cc_source_thread_title r))] else [])
     @ (case ccr_progress_hint result of
          None \<Rightarrow> []
        | Some h \<Rightarrow> [blank_line, Says ''Existing progress found:'', Line (''mapped='' @ str_of_nat (ph_mapped_total h)
            @ '' imported='' @ str_of_nat (ph_imported_count h) @ '' last_source_message_id=''
            @ dashed (ph_last_source_message_id h))]))"

section \<open>Members and identities\<close>

definition at_name :: "string option \<Rightarrow> string" where
  "at_name u = (if truthy u then ''@'' @ or_empty u else ''-'')"

definition format_identity_mapping_result :: "identity_mapping_result \<Rightarrow> line list" where
  "format_identity_mapping_result r =
    [key_value ''telegram_user_id'' (dashed (imr_telegram_user_id r)),
     key_value ''telegram_username'' (at_name (imr_telegram_username r)),
     key_value ''telegram_display_name'' (dashed (imr_telegram_display_name r)),
     key_value ''corporate_email'' (dashed (imr_corporate_email r)), key_value ''target_huid'' (dashed (imr_target_huid r)),
     key_value ''resolution_source'' (imr_resolution_source r), key_value ''reason'' (dashed (imr_reason r))]"

definition listing_note_text :: "listing_note \<Rightarrow> line" where
  "listing_note_text n = Says (case n of
     ListingRefused t \<Rightarrow> ''Telegram refused the list of members: '' @ t
   | ListingBestEffort \<Rightarrow> ''The list of the subscribers may be incomplete.'')"

definition note_lines :: "listing_note option \<Rightarrow> line list" where
  "note_lines n = (case n of None \<Rightarrow> [] | Some x \<Rightarrow> [blank_line, listing_note_text x])"

definition matrix_entry_lines :: "participant_row \<Rightarrow> line list" where
  "matrix_entry_lines p =
    Line (''- tg_id='' @ dashed (prw_telegram_user_id p) @ '' | username='' @ at_name (prw_telegram_username p)
      @ '' | name='' @ prw_telegram_display_name p @ '' | email='' @ dashed (prw_corporate_email p)
      @ '' | huid='' @ dashed (prw_target_huid p) @ '' | mapped='' @ yes_no (truthy (prw_target_huid p)))
    # (if prw_target_huid p = None
       then [Line (''  map: /map_identity tg_id='' @ or_empty (py_or (prw_telegram_user_id p) (Some ''<telegram_user_id>'')) @ '' ''
         @ (if truthy (prw_telegram_username p) then ''username='' @ or_empty (prw_telegram_username p) @ '' '' else [])
         @ ''email=<corporate_email>'')] else [])"

definition format_chat_user_matrix :: "bot_chat_user_matrix \<Rightarrow> line list" where
  "format_chat_user_matrix m =
    [key_value ''source_chat_id'' (um_source_chat_id m), key_value ''source_chat_type'' (um_source_chat_type m),
     key_value ''source_chat_title'' (um_source_chat_title m), count_value ''users'' (length (um_entries m))]
    @ note_lines (um_note m) @ (if um_entries m \<noteq> [] then [blank_line] else [])
    @ shortened 50 ''users'' matrix_entry_lines (um_entries m)"

definition format_chat_members_add_result :: "members_add_result \<Rightarrow> line list" where
  "format_chat_members_add_result r =
    [Says ''Users processed.'', key_value ''source_chat_id'' (mar_source_chat_id r),
     key_value ''target_chat_id'' (mar_target_chat_id r), key_value ''target_chat_title'' (mar_target_chat_title r),
     key_value ''requested_access_strategy'' (mar_access_strategy r), key_value ''effective_result'' (mar_effective_result r)]
    @ (if mar_invite_fallback_used r
       then [Line ''note=direct_add could not add all users; invite_link fallback was used''] else [])
    @ [count_value ''processed_rows'' (mar_processed_rows r),
       count_value ''imported_identity_mappings'' (mar_imported_identity_mappings r),
       count_value ''mapping_skipped_rows'' (mar_mapping_skipped_rows r),
       count_value ''resolved_targets'' (mar_resolved_targets r), count_value ''direct_added'' (mar_direct_added r),
       count_value ''invited'' (mar_invited r), count_value ''skipped_rows'' (mar_skipped_rows r)]
    @ (if mar_failed_targets r \<noteq> []
       then count_value ''failed_to_add'' (length (mar_failed_targets r))
         # map (key_value ''failed_user'') (mar_failed_targets r) else [])"

section \<open>Reports\<close>

definition format_status_result :: "bot_status_result \<Rightarrow> line list" where
  "format_status_result r =
    (let c = st_reconcile r in
     [key_value ''migration_id'' (st_migration_id r),
      key_value ''migration_state'' (case st_migration_state r of None \<Rightarrow> ''active'' | Some st \<Rightarrow> lifecycle_value st),
      count_value ''active_jobs'' (length (st_active_jobs r)),
      key_value ''attention_chats'' (str_of_nat (rr_attention_chats c) @ ''/'' @ str_of_nat (rr_chats_total c)),
      Line (''messages imported='' @ str_of_nat (rr_imported_count c) @ '' failed='' @ str_of_nat (rr_failed_count c)
        @ '' ambiguous='' @ str_of_nat (rr_ambiguous_count c) @ '' processing='' @ str_of_nat (rr_processing_count c)),
      Line (''attachments imported='' @ str_of_nat (rr_attachment_imported_count c) @ '' failed=''
        @ str_of_nat (rr_attachment_failed_count c) @ '' ambiguous='' @ str_of_nat (rr_attachment_ambiguous_count c))]
     @ (if st_active_jobs r \<noteq> [] then blank_line # format_active_jobs (st_active_jobs r) else [])
     @ (if st_chat_checkpoints r \<noteq> [] then blank_line # format_chat_checkpoints (st_chat_checkpoints r) else []))"

definition format_stats_result :: "bot_stats_result \<Rightarrow> line list" where
  "format_stats_result r =
    [key_value ''migration_id'' (bst_migration_id r), count_value ''configured_chats'' (bst_configured_chats r),
     count_value ''foreign_managed_chats'' (bst_foreign_managed_chats r),
     count_value ''skipped_in_all'' (bst_skipped_in_all_chats r), count_value ''chats_with_progress'' (bst_chats_with_progress r),
     count_value ''active_jobs'' (bst_active_jobs r), count_value ''attention_chats'' (bst_attention_chats r),
     Line (''messages imported='' @ str_of_nat (bst_imported_messages r) @ '' failed='' @ str_of_nat (bst_failed_messages r)
       @ '' ambiguous='' @ str_of_nat (bst_ambiguous_messages r)),
     Line (''attachments imported='' @ str_of_nat (bst_imported_attachments r) @ '' failed=''
       @ str_of_nat (bst_failed_attachments r))]
    @ (if bst_foreign_managed_chats r \<noteq> 0
       then [Line ''note=some source chats are already configured by other operators and are excluded from your stats'']
       else [])"

definition cancelled_job_line :: "bot_active_job \<Rightarrow> line" where
  "cancelled_job_line j = Line (''- '' @ aj_job_key j @ '' | chats='' @ join_comma (aj_source_chat_ids j))"

definition format_cancel_result :: "bot_cancel_result \<Rightarrow> line list" where
  "format_cancel_result r =
    Says ''Wizard stopped.''
    # (if cr_cancelled_queued_jobs r = [] \<and> cr_cancellation_requested_jobs r = []
       then [Says (''No active jobs of the user''
         @ (if truthy (cr_source_chat_id r) then '' for source_chat_id='' @ or_empty (cr_source_chat_id r) else [])
         @ '' found.'')]
       else
         (if truthy (cr_source_chat_id r)
          then [Says (''Only of: source_chat_id='' @ or_empty (cr_source_chat_id r))] else [])
         @ (if cr_cancelled_queued_jobs r \<noteq> []
            then blank_line # Says ''Taken from the queue:'' # map cancelled_job_line (cr_cancelled_queued_jobs r) else [])
         @ (if cr_cancellation_requested_jobs r \<noteq> []
            then blank_line # Says ''Running jobs asked to stop:''
              # map cancelled_job_line (cr_cancellation_requested_jobs r)
              @ [Says ''Wait a few seconds and check /status.''] else []))"

definition format_replay_failed_result :: "replay_result \<Rightarrow> line list" where
  "format_replay_failed_result r =
    [key_value ''migration_id'' (rr_migration r), count_value ''requested'' (rr_requested r),
     count_value ''recovered'' (rr_recovered r), count_value ''failed'' (rr_failed r),
     count_value ''ambiguous'' (rr_ambiguous r), count_value ''missing'' (rr_missing r),
     count_value ''skipped'' (rr_skipped r)]"

section \<open>The Telegram session\<close>

definition format_telegram_status_result :: "session_status \<Rightarrow> line list" where
  "format_telegram_status_result r =
    [key_value ''connected'' (yes_no (su_connected r)), key_value ''source'' (su_source r),
     key_value ''phone_number'' (dashed (su_phone_number r)),
     key_value ''telegram_user_id'' (dashed (su_telegram_user_id r)),
     key_value ''telegram_username'' (dashed (su_telegram_username r)),
     key_value ''telegram_display_name'' (dashed (su_telegram_display_name r)),
     key_value ''session_bound'' (yes_no (su_session_bound r)),
     key_value ''updated_at'' (dashed (map_option datetime_text (su_updated_at r))),
     key_value ''last_used_at'' (dashed (map_option datetime_text (su_last_used_at r)))]"

definition format_telegram_disconnect_result :: "bool \<Rightarrow> line list" where
  "format_telegram_disconnect_result disconnected =
    (if disconnected then [Line ''Telegram session disconnected.''] else [Says ''No bound Telegram session found.''])"

definition format_connected_status :: "session_status \<Rightarrow> line list" where
  "format_connected_status r =
    [Line ''Telegram session connected.'', key_value ''source'' (su_source r),
     key_value ''phone_number'' (dashed (su_phone_number r)),
     key_value ''telegram_user_id'' (dashed (su_telegram_user_id r)),
     key_value ''telegram_username'' (dashed (su_telegram_username r)),
     key_value ''telegram_display_name'' (dashed (su_telegram_display_name r))]"

section \<open>The wizard and the help\<close>

definition build_confirmation_prompt ::
    "string \<Rightarrow> string option \<Rightarrow> string option \<Rightarrow> bool \<Rightarrow> string \<Rightarrow> string option \<Rightarrow> line list" where
  "build_confirmation_prompt chat include_from include_to media reply_mode access =
    [Says ''Check the parameters:'', key_value ''source_chat_id'' chat, key_value ''include_from'' (dashed include_from),
     key_value ''include_to'' (dashed include_to), key_value ''migrate_media'' (on_off media),
     key_value ''reply_mode'' reply_mode]
    @ (if truthy access then [key_value ''access_strategy'' (or_empty access)] else [])
    @ [blank_line, Says (''Send `start` to start with a check for existing progress, ''
         @ ''`resume` to go on with a migration that was begun, or `cancel`.'')]"

definition help_text :: "line list" where
  "help_text =
    [Says ''Commands:'', Line ''/connect [PHONE]'', Line ''/account'', Line ''/disconnect'',
     Line ''/chats [query=TEXT] [limit=N]'', Line ''/chat_users <source_chat_id>'', Line ''/add_users [source_chat_id]'',
     Line ''/import_archive'',
     Line (''/configure [source_chat_id] [access=invite|link] [format=quote|source_id|none] [media=on|off] ''
       @ ''[skip=on|off] [from=ISO] [to=ISO]''),
     Line ''/migrate <source_chat_id>'', Line ''/remigrate <source_chat_id>'', Line ''/migrate_all'',
     Line ''/status [source_chat_id]'', Line ''/stats'', Line ''/retry_failed [source_chat_id] [limit=N] [batch=N]'',
     Line ''/cancel [source_chat_id]'', blank_line, Says ''By default:'',
     Says ''- /migrate_all creates the missing configurations with access=link and the standard format.'',
     Says ''- /configure without arguments shows the available source_chat_id.'',
     Says ''- /configure <source_chat_id> without options shows the configuration, or creates one with defaults.'',
     Says ''- /add_users opens the flow that adds users to a migrated chat through an Excel matrix.'',
     Says (''- /import_archive opens a flow: upload a Telegram export (.json/.zip/.rar), the bot creates a chat, makes ''
       @ ''the initiator an administrator and copies the texts only, without members and attachments.''),
     Says ''- /migrate and /remigrate go on from the current safe position.'',
     Says (''- /cancel without arguments stops the wizard and asks all your active jobs to stop; ''
       @ ''/cancel <source_chat_id> only those of one chat.''),
     Says ''- If a chat needs further steps for its members or the access to it, the bot asks for them in a dialogue.'']"

definition private_peer_keyboard :: keyboard where
  "private_peer_keyboard = [(Says ''Skip the second member'', ''/skip'', True), (Says ''Cancel the wizard'', ''/cancel'', False)]"

definition group_topic_keyboard :: keyboard where
  "group_topic_keyboard = [(Says ''One chat'', ''single_chat'', True), (Says ''By topics'', ''split_by_topic'', False),
     (Says ''Cancel'', ''/cancel'', True)]"

definition group_identity_keyboard :: keyboard where
  "group_identity_keyboard = [(Says ''Skip and go on'', ''/skip'', True), (Says ''Cancel'', ''/cancel'', False)]"

definition channel_access_keyboard :: keyboard where
  "channel_access_keyboard = [(Says ''Add directly'', ''direct_add'', True), (Says ''By a link'', ''invite_link'', False),
     (Says ''Cancel'', ''/cancel'', True)]"

end
