(* ===== verification/Wizard.thy ===== *)
theory Wizard
  imports Dialogue_Text
begin

text \<open>
  The migration wizard (\<open>extg_bot_ui/presentation/bot/wizard.py\<close>): one operation per state of the flow,
  with the message and the values stored when it arrived. A raised error that the user does not see is
  the error of the operation.
\<close>

section \<open>Reading a UUID\<close>

text \<open>\<open>str(UUID(text))\<close>, None for a text it refuses; \<open>int(text, 16)\<close> allows a prefix and underscores.\<close>

definition hex_value :: "char \<Rightarrow> nat option" where
  "hex_value c = (let n = (of_char c :: nat) in
     if 48 \<le> n \<and> n \<le> 57 then Some (n - 48) else if 97 \<le> n \<and> n \<le> 102 then Some (n - 87)
     else if 65 \<le> n \<and> n \<le> 70 then Some (n - 55) else None)"

fun hex_groups :: "bool \<Rightarrow> nat \<Rightarrow> string \<Rightarrow> nat option" where
  "hex_groups after_digit acc [] = (if after_digit then Some acc else None)"
| "hex_groups after_digit acc (c # cs) =
    (if c = CHR ''_'' then (if after_digit then hex_groups False acc cs else None)
     else case hex_value c of None \<Rightarrow> None | Some d \<Rightarrow> hex_groups True (16 * acc + d) cs)"

definition hex_int :: "string \<Rightarrow> nat option" where
  "hex_int text =
    (let s = py_strip text;
         unsigned = (if take 1 s = ''+'' then drop 1 s else s);
         digits = (if take 2 unsigned \<in> {''0x'', ''0X''}
           then (if take 1 (drop 2 unsigned) = ''_'' then drop 3 unsigned else drop 2 unsigned) else unsigned)
     in hex_groups False 0 digits)"

fun remove_all_parts :: "string \<Rightarrow> string \<Rightarrow> string" where
  "remove_all_parts part [] = []"
| "remove_all_parts part (c # cs) = (if take (length part) (c # cs) = part
     then remove_all_parts part (drop (length part - 1) cs) else c # remove_all_parts part cs)"

fun hex_text :: "nat \<Rightarrow> nat \<Rightarrow> string" where
  "hex_text 0 n = []"
| "hex_text (Suc w) n = hex_text w (n div 16) @ [''0123456789abcdef'' ! (n mod 16)]"

definition uuid_text :: "string \<Rightarrow> string option" where
  "uuid_text text =
    (let bare = remove_all_parts ''uuid:'' (remove_all_parts ''urn:'' text);
         brace = (\<lambda>c. c = CHR ''{'' \<or> c = CHR ''}'');
         hex = filter (\<lambda>c. c \<noteq> CHR ''-'') (rev (dropWhile brace (rev (dropWhile brace bare))))
     in if length hex \<noteq> 32 then None
        else map_option (\<lambda>n. let h = hex_text 32 n in take 8 h @ ''-'' @ take 4 (drop 8 h) @ ''-''
          @ take 4 (drop 12 h) @ ''-'' @ take 4 (drop 16 h) @ ''-'' @ drop 20 h) (hex_int hex))"

section \<open>Reading the user's choices\<close>

definition looks_like_email :: "string \<Rightarrow> bool" where
  "looks_like_email value \<longleftrightarrow> CHR ''@'' \<in> set (py_strip value) \<and> CHR '' '' \<notin> set (py_strip value)"

record peer_input =
  pi_corporate_email :: "string option"
  pi_target_huid :: "string option"

definition parse_peer_selector :: "string option \<Rightarrow> string option \<Rightarrow> (error, peer_input) outcome" where
  "parse_peer_selector email huid =
    (if truthy email \<and> truthy huid then Inl (ConfigurationError ''give either an email or a huid or mention'')
     else if truthy email then Inr \<lparr>pi_corporate_email = Some (py_strip (or_empty email)), pi_target_huid = None\<rparr>
     else if truthy huid then
       (case uuid_text (py_strip (or_empty huid)) of
          None \<Rightarrow> Inl (ConfigurationError ''huid must be a valid UUID'')
        | Some h \<Rightarrow> Inr \<lparr>pi_corporate_email = None, pi_target_huid = Some h\<rparr>)
     else Inl (ConfigurationError ''a mention of a user in eXpress, corporate email or huid is expected''))"

definition parse_private_peer_input :: "incoming_message \<Rightarrow> (error, peer_input) outcome" where
  "parse_private_peer_input m =
    (case in_mentioned_users m of
       u # _ \<Rightarrow> Inr \<lparr>pi_corporate_email = None, pi_target_huid = Some u\<rparr>
     | [] \<Rightarrow>
         if message_text m = []
         then Inl (ConfigurationError ''a mention, corporate email, huid, /skip or /cancel is needed'')
         else (case parse_arguments (message_text m) of
             Inl t \<Rightarrow> Inl (OtherError ''CommandArgumentError'' t)
           | Inr p \<Rightarrow>
               let email = dict_get (pa_options p) ''email'';
                   huid = py_or (dict_get (pa_options p) ''huid'') (dict_get (pa_options p) ''user_huid'')
               in case pa_positionals p of
                 tok # _ \<Rightarrow>
                   if email = None \<and> huid = None
                   then (if looks_like_email tok then parse_peer_selector (Some tok) None
                         else parse_peer_selector None (Some tok))
                   else parse_peer_selector email huid
               | [] \<Rightarrow> parse_peer_selector email huid))"

definition parse_chat_selection_message :: "incoming_message \<Rightarrow> (error, string) outcome" where
  "parse_chat_selection_message m =
    (case in_mentioned_chats m @ in_mentioned_channels m of
       c # _ \<Rightarrow> Inr c
     | [] \<Rightarrow> if message_text m = []
         then Inl (ConfigurationError ''a source_chat_id or a mention of the eXpress chat is needed'')
         else Inr (message_text m))"

section \<open>Options from the values of a flow\<close>

definition options_from_flow_state :: "int \<Rightarrow> flow_storage \<Rightarrow> migration_run_options" where
  "options_from_flow_state dflt v = default_run_options\<lparr>ro_include_from := fl_include_from v,
     ro_include_to := fl_include_to v, ro_migrate_media := attribute_or (fl_migrate_media v) None,
     ro_reply_mode := attribute_or (fl_reply_mode v) None, ro_source_backend := fl_source_backend v,
     ro_target_strategy := fl_target_strategy v, ro_target_title := fl_target_title v,
     ro_target_chat_id := fl_target_chat_id v, ro_identity_policy := fl_identity_policy v,
     ro_access_strategy := fl_access_strategy v, ro_topic_strategy := fl_topic_strategy v,
     ro_progress_policy := attribute_or (fl_progress_policy v) ''resume'',
     ro_batch_size := Some (case fl_batch_size v of None \<Rightarrow> dflt | Some n \<Rightarrow> if n = 0 then dflt else n)\<rparr>"

definition confirmed_options :: "int \<Rightarrow> flow_storage \<Rightarrow> string \<Rightarrow> migration_run_options" where
  "confirmed_options dflt v choice = default_run_options\<lparr>ro_include_from := fl_include_from v,
     ro_include_to := fl_include_to v, ro_migrate_media := attribute_or (fl_migrate_media v) (Some True),
     ro_reply_mode := attribute_or (fl_reply_mode v) (Some ''inline_quote''), ro_source_backend := fl_source_backend v,
     ro_topic_strategy := fl_topic_strategy v, ro_identity_policy := fl_identity_policy v,
     ro_access_strategy := fl_access_strategy v,
     ro_progress_policy := (if choice = ''resume'' then ''resume'' else ''ask''), ro_batch_size := Some dflt\<rparr>"

section \<open>Entering a flow\<close>

definition wizard_cancel :: "('w, unit) talk" where
  "wizard_cancel = bind drop_state (\<lambda>_. say [Says ''Wizard stopped.''])"

definition enter :: "flow_state \<Rightarrow> flow_storage \<Rightarrow> ('w, unit) talk" where
  "enter st v = change_state st wizard_ttl_seconds v"

definition begin_chat_members_selection :: "flow_storage \<Rightarrow> bot_migrated_chat list \<Rightarrow> ('w, unit) talk" where
  "begin_chat_members_selection v chats =
    (if chats = [] then say (build_members_wizard_intro chats)
     else bind (enter SelectMembersChat (wizard_state_payload v)) (\<lambda>_. say (build_members_wizard_intro chats)))"

definition begin_archive_import :: "flow_storage \<Rightarrow> ('w, unit) talk" where
  "begin_archive_import v = bind (enter InputArchiveImport (wizard_state_payload v)) (\<lambda>_.
     say [Says ''Upload a Telegram export archive or `result.json`.'', Says ''`.json`, `.zip` and `.rar` are supported.'',
       Says ''Only the messages of the archive are copied: without members and attachments.'',
       Says ''The initiator of the migration becomes an administrator of the new chat.'',
       Says ''`/cancel` stops the flow.''])"

definition begin_chat_members_workbook :: "flow_storage \<Rightarrow> members_workbook_request \<Rightarrow> ('w, unit) talk" where
  "begin_chat_members_workbook v r =
    bind (enter InputChatMembersWorkbook ((wizard_state_payload v)\<lparr>fl_source_chat_id := Some (mwr_source_chat_id r)\<rparr>)) (\<lambda>_.
    say_with ([Says ''Fill in the matrix of the users and upload it.'', key_value ''source_chat_id'' (mwr_source_chat_id r),
        key_value ''source_chat_title'' (mwr_source_chat_title r), key_value ''target_chat_id'' (mwr_target_chat_id r),
        key_value ''target_chat_title'' (mwr_target_chat_title r), key_value ''access_strategy'' (mwr_access_strategy r),
        count_value ''mapped_rows'' (mwr_mapped_rows r), count_value ''unresolved_rows'' (mwr_unresolved_rows r), blank_line,
        Says ''Fill in one or more of the columns: `corporate_email`, `target_huid`, `ad_login`, `other_id`.'',
        Says ''If several are filled in: `target_huid`, then `corporate_email`, then `ad_login`, then `other_id`.'',
        Says ''New users can be added: leave the Telegram columns empty and fill in a corporate identifier only.'',
        Says ''`/cancel` stops the flow.''] @ note_lines (mwr_note r))
      (Some (mwr_workbook_content r, mwr_workbook_filename r)) [])"

definition begin_private_chat_resolution ::
    "private_chat_request \<Rightarrow> migration_run_options option \<Rightarrow> ('w, unit) talk" where
  "begin_private_chat_resolution r opts =
    bind (enter InputPrivatePeer (command_payload (pcr_source_chat_id r) opts)) (\<lambda>_.
    say_with [Says ''The second member of the private chat is not mapped yet.'',
        key_value ''source_chat_id'' (pcr_source_chat_id r), key_value ''peer_name'' (pcr_peer_display_name r),
        key_value ''peer_username'' (at_name (pcr_peer_telegram_username r)),
        key_value ''peer_tg_id'' (dashed (pcr_peer_telegram_user_id r)), blank_line,
        Says (''Send a mention of the user in eXpress, a corporate email or a huid. `/skip` goes on without the ''
          @ ''second member, `/cancel` stops the wizard.'')]
      None private_peer_keyboard)"

text \<open>The workbook of a request, under the given name if it has none.\<close>

definition request_file :: "chat_resolution_request \<Rightarrow> string \<Rightarrow> (string \<times> string) option" where
  "request_file r name = map_option (\<lambda>content. (content, or_empty (py_or (crr_workbook_filename r) (Some name))))
     (crr_workbook_content r)"

definition group_payload :: "string \<Rightarrow> migration_run_options option \<Rightarrow> flow_storage" where
  "group_payload chat opts = (command_payload chat opts)
     \<lparr>fl_topic_strategy := (case opts of None \<Rightarrow> None | Some r \<Rightarrow> ro_topic_strategy r)\<rparr>"

definition begin_group_chat_resolution ::
    "chat_resolution_request \<Rightarrow> migration_run_options option \<Rightarrow> ('w, unit) talk" where
  "begin_group_chat_resolution r opts =
    (let v = group_payload (crr_source_chat_id r) opts in
     if crr_action r = ''choose_topic_strategy'' then
       bind (enter InputGroupTopicStrategy v) (\<lambda>_.
       say_with ([Says ''Telegram topics were found in the supergroup.'', key_value ''source_chat_id'' (crr_source_chat_id r),
           key_value ''source_chat_title'' (crr_source_chat_title r), blank_line,
           Says ''Choose a strategy: `single_chat` or `split_by_topic`.'']
          @ (if crr_topic_titles r \<noteq> [] then [blank_line, Says ''Topics:''] @ map (\<lambda>t. Line (''- '' @ t)) (crr_topic_titles r)
             else []))
         None group_topic_keyboard)
     else
       bind (enter InputGroupIdentityMatrix v) (\<lambda>_.
       say_with [Says ''Some members of the Telegram chat could not be mapped to eXpress.'',
           key_value ''source_chat_id'' (crr_source_chat_id r), count_value ''resolved'' (crr_resolved_count r),
           count_value ''unresolved'' (crr_unresolved_count r), blank_line,
           Says ''Fill in the Excel file and upload it, or `/skip` for a partial migration. `/cancel` stops the flow.'']
         (request_file r ''identity_matrix.xlsx'') group_identity_keyboard))"

definition channel_payload :: "string \<Rightarrow> migration_run_options option \<Rightarrow> flow_storage" where
  "channel_payload chat opts = (group_payload chat opts)
     \<lparr>fl_access_strategy := (case opts of None \<Rightarrow> None | Some r \<Rightarrow> ro_access_strategy r)\<rparr>"

definition begin_channel_chat_resolution ::
    "chat_resolution_request \<Rightarrow> migration_run_options option \<Rightarrow> ('w, unit) talk" where
  "begin_channel_chat_resolution r opts =
    (let v = channel_payload (crr_source_chat_id r) opts in
     if crr_action r = ''choose_access_strategy'' then
       bind (enter InputChannelAccessStrategy v) (\<lambda>_.
       say_with ([Says ''Choose how access to the Telegram channel is given.'', key_value ''source_chat_id'' (crr_source_chat_id r),
           key_value ''source_chat_title'' (crr_source_chat_title r), blank_line,
           Says ''`direct_add` tries to add the mapped users directly.'',
           Says ''`invite_link` creates the channel and prepares an invitation link as a fallback.'']
          @ (if crr_can_list_participants r then []
             else [blank_line, Says ''Telegram does not guarantee the full list of the subscribers; access is best effort.'']))
         None channel_access_keyboard)
     else
       bind (enter InputChannelIdentityMatrix v) (\<lambda>_.
       say_with ([Says ''Some users of the Telegram channel could not be mapped to eXpress.'',
           key_value ''source_chat_id'' (crr_source_chat_id r), count_value ''resolved'' (crr_resolved_count r),
           count_value ''unresolved'' (crr_unresolved_count r), blank_line,
           Says ''Fill in the Excel file and upload it, or `/skip` for a partial migration.'', Says ''`/cancel` stops the flow.'']
          @ (if crr_can_list_participants r then []
             else [blank_line, Says ''The list of the subscribers may be incomplete: Telegram gives it in best-effort mode only.'']))
         (request_file r ''channel_identity_matrix.xlsx'') group_identity_keyboard))"

end
