(* ===== verification/Session_Dialogue.thy ===== *)
theory Session_Dialogue
  imports Dialogue_Text
begin

text \<open>
  Connecting a Telegram account in a dialogue
  (\<open>extg_bot_ui/presentation/bot/telegram_session_wizard.py\<close>): the telephone number, the code Telegram
  sends and, if the account has one, its password.
\<close>

section \<open>Telephone numbers\<close>

text \<open>\<open>str.isdigit\<close> on code points below 256 also takes the superscripts two, three and one.\<close>

definition py_isdigit :: "char \<Rightarrow> bool" where
  "py_isdigit c \<longleftrightarrow> is_digit c \<or> c \<in> {CHR 0xB2, CHR 0xB3, CHR 0xB9}"

definition plus_sign :: char where
  "plus_sign = CHR ''+''"

definition normalize_phone_number :: "string option \<Rightarrow> string" where
  "normalize_phone_number value =
    (let raw = py_strip (or_empty value);
         joined = filter (\<lambda>c. c \<notin> {CHR '' '', CHR ''-'', CHR ''('', CHR '')''}) raw;
         compact = (if take 2 joined = ''00'' then plus_sign # drop 2 joined else joined)
     in if raw = [] then []
        else if 1 < length (filter (\<lambda>c. c = plus_sign) compact) \<or> plus_sign \<in> set (drop 1 compact) then []
        else let digits = (if take 1 compact = [plus_sign] then drop 1 compact else compact)
             in if digits = [] \<or> \<not> list_all py_isdigit digits then [] else compact)"

section \<open>The steps\<close>

text \<open>A call of the session service, with its readings and what Telegram answers.\<close>

definition with_login_env :: "'w talk_services \<Rightarrow> (service_env \<Rightarrow> ('w, 'a) bot) \<Rightarrow> ('w, 'a) bot" where
  "with_login_env tk run = bind (outside_bot (total_op (bv_login_env (tk_bot tk)))) run"

definition in_login :: "(service_state, 'a) action \<Rightarrow> ('w, 'a) bot" where
  "in_login = on_part bt_login (\<lambda>l s. s\<lparr>bt_login := l\<rparr>)"

definition service_start_connection :: "'w talk_services \<Rightarrow> string \<Rightarrow> string \<Rightarrow> ('w, login_answer) bot" where
  "service_start_connection tk huid phone =
    with_login_env tk (\<lambda>env.
    bind (outside_bot (total_op (tk_request tk))) (\<lambda>request.
    in_login (start_connection (bv_login (tk_bot tk)) request huid phone False env)))"

definition service_complete_code :: "'w talk_services \<Rightarrow> string \<Rightarrow> string \<Rightarrow> string \<Rightarrow> ('w, login_answer) bot" where
  "service_complete_code tk huid k code =
    with_login_env tk (\<lambda>env.
    bind (outside_bot (total_op (tk_login_code tk))) (\<lambda>login.
    in_login (complete_code (bv_login (tk_bot tk)) login huid k code env)))"

definition service_complete_password :: "'w talk_services \<Rightarrow> string \<Rightarrow> string \<Rightarrow> string \<Rightarrow> ('w, login_answer) bot" where
  "service_complete_password tk huid k password =
    with_login_env tk (\<lambda>env.
    bind (outside_bot (total_op (tk_login_password tk))) (\<lambda>login.
    in_login (complete_password (bv_login (tk_bot tk)) login huid k password env)))"

definition cancel_connection :: "('w, unit) talk" where
  "cancel_connection = bind drop_state (\<lambda>_. say [Says ''The Telegram connection flow is stopped.''])"

text \<open>The end of a connection; only a status has the attributes that are shown.\<close>

definition finish_connection :: "login_answer \<Rightarrow> ('w, unit) talk" where
  "finish_connection a = bind drop_state (\<lambda>_. case a of
     Status r \<Rightarrow> say (format_connected_status r)
   | _ \<Rightarrow> throw (OtherError ''AttributeError'' ''the result has no attribute source''))"

definition begin_telegram_connection :: "'w talk_services \<Rightarrow> incoming_message \<Rightarrow> string option \<Rightarrow> ('w, unit) talk" where
  "begin_telegram_connection tk m phone =
    (let number = normalize_phone_number phone in
     if number = [] then
       bind (change_state InputPhone session_wizard_ttl_seconds no_values) (\<lambda>_.
       say [Says ''Send the telephone number in the format of Telegram, as `+79990001122`, or `cancel`.''])
     else try_service (service_start_connection tk (in_huid m) number) (\<lambda>a. case a of
         CodeChallenge _ _ k \<Rightarrow>
           bind (change_state InputCode session_wizard_ttl_seconds (no_values\<lparr>fl_challenge_id := Some k\<rparr>)) (\<lambda>_.
           say [Says ''The code was sent to Telegram. Send it in the next message, or `cancel`.''])
       | _ \<Rightarrow> finish_connection a))"

definition input_phone :: "'w talk_services \<Rightarrow> incoming_message \<Rightarrow> ('w, unit) talk" where
  "input_phone tk m =
    (if is_cancel (py_lower (message_text m)) then cancel_connection
     else begin_telegram_connection tk m (Some (message_text m)))"

definition input_code :: "'w talk_services \<Rightarrow> incoming_message \<Rightarrow> flow_storage \<Rightarrow> ('w, unit) talk" where
  "input_code tk m v =
    (let choice = py_lower (message_text m) in
     if is_cancel choice then cancel_connection
     else if choice = [] then say [Says ''Enter the code of Telegram, or `cancel`.'']
     else try_showing user_visible error_lines
       (bind (required ''challenge_id'' (fl_challenge_id v)) (\<lambda>k. in_bot (service_complete_code tk (in_huid m) k choice)))
       (\<lambda>a. case a of
         PasswordChallenge _ _ k \<Rightarrow>
           bind (change_state InputPassword session_wizard_ttl_seconds (no_values\<lparr>fl_challenge_id := Some k\<rparr>)) (\<lambda>_.
           say [Says ''The account has Telegram 2FA. Send the password in the next message, or `cancel`.''])
       | _ \<Rightarrow> finish_connection a))"

definition input_password :: "'w talk_services \<Rightarrow> incoming_message \<Rightarrow> flow_storage \<Rightarrow> ('w, unit) talk" where
  "input_password tk m v =
    (let body = message_text m in
     if is_cancel (py_lower body) then cancel_connection
     else if body = [] then say [Says ''Enter the password of Telegram 2FA, or `cancel`.'']
     else try_showing user_visible error_lines
       (bind (required ''challenge_id'' (fl_challenge_id v)) (\<lambda>k. in_bot (service_complete_password tk (in_huid m) k body)))
       finish_connection)"

section \<open>What a telephone number looks like\<close>

text \<open>A normalised number is digits after at most one plus sign, and normalises to itself.\<close>

lemma normalize_phone_number_shape:
  assumes "normalize_phone_number v = n" and "n \<noteq> []"
  shows "\<exists>ds. ds \<noteq> [] \<and> list_all py_isdigit ds \<and> (n = ds \<or> n = plus_sign # ds)"
proof -
  define joined where "joined = filter (\<lambda>c. c \<notin> {CHR '' '', CHR ''-'', CHR ''('', CHR '')''}) (py_strip (or_empty v))"
  define compact where "compact = (if take 2 joined = ''00'' then plus_sign # drop 2 joined else joined)"
  define ds where "ds = (if take 1 compact = [plus_sign] then drop 1 compact else compact)"
  have "n = compact \<and> ds \<noteq> [] \<and> list_all py_isdigit ds"
    using assms unfolding normalize_phone_number_def Let_def joined_def [symmetric] compact_def [symmetric] ds_def [symmetric]
    by (simp split: if_splits)
  moreover have "compact = ds \<or> compact = plus_sign # ds"
    by (cases compact) (auto simp: ds_def)
  ultimately show ?thesis by auto
qed

end
