(* ===== verification/Wizard_Steps.thy ===== *)
theory Wizard_Steps
  imports Wizard Session_Dialogue
begin

text \<open>
  The steps of the migration wizard (\<open>build_wizard_collector\<close> in
  \<open>extg_bot_ui/presentation/bot/wizard.py\<close>), one per state, and the message handlers of all flows as
  one operation (\<open>flow_step\<close>).
\<close>

section \<open>Starting the migration a flow was about\<close>

text \<open>The start with the values of the flow; what is said before its result is given by \<open>intro\<close>.\<close>

definition start_from_flow ::
    "'w talk_services \<Rightarrow> incoming_message \<Rightarrow> flow_storage \<Rightarrow> line list \<Rightarrow> migration_run_options \<Rightarrow> ('w, unit) talk" where
  "start_from_flow tk m v intro opts =
    try_showing user_visible error_lines
      (bind (stored_chat v) (\<lambda>chat.
        in_bot (start_migrate_chat (tk_bot tk) (in_context m) (operator_from_message m) chat opts)))
      (\<lambda>r. bind drop_state (\<lambda>_. say (intro @ format_outcome r)))"

abbreviation flow_options :: "'w talk_services \<Rightarrow> flow_storage \<Rightarrow> migration_run_options" where
  "flow_options tk v \<equiv> options_from_flow_state (tk_default_batch_size tk) v"

definition continue_private_chat_command_without_peer ::
    "'w talk_services \<Rightarrow> incoming_message \<Rightarrow> flow_storage \<Rightarrow> ('w, unit) talk" where
  "continue_private_chat_command_without_peer tk m v = start_from_flow tk m v [] (flow_options tk v)"

definition continue_private_chat_command_after_mapping ::
    "'w talk_services \<Rightarrow> incoming_message \<Rightarrow> flow_storage \<Rightarrow> identity_mapping_result \<Rightarrow> ('w, unit) talk" where
  "continue_private_chat_command_after_mapping tk m v r =
    start_from_flow tk m v [Says ''The mapping of the second member was saved.'',
      key_value ''target_huid'' (dashed (imr_target_huid r)), key_value ''corporate_email'' (dashed (imr_corporate_email r)),
      blank_line] (flow_options tk v)"

definition matrix_imported :: "identity_import_result \<Rightarrow> line list" where
  "matrix_imported r = [Says ''The identity matrix was imported.'', count_value ''imported'' (iir_imported_count r),
     count_value ''skipped'' (iir_skipped_count r)]"

definition continue_group_command_after_matrix ::
    "'w talk_services \<Rightarrow> incoming_message \<Rightarrow> flow_storage \<Rightarrow> identity_import_result \<Rightarrow> ('w, unit) talk" where
  "continue_group_command_after_matrix tk m v r =
    start_from_flow tk m v (matrix_imported r @ [blank_line])
      ((flow_options tk v)\<lparr>ro_identity_policy := Some ''matrix_uploaded''\<rparr>)"

definition start_command_migration_from_state ::
    "'w talk_services \<Rightarrow> incoming_message \<Rightarrow> flow_storage \<Rightarrow> (migration_run_options \<Rightarrow> migration_run_options)
      \<Rightarrow> ('w, unit) talk" where
  "start_command_migration_from_state tk m v overrides = start_from_flow tk m v [] (overrides (flow_options tk v))"

section \<open>Going on in the wizard\<close>

definition step_from_text :: line where
  "step_from_text = Says ''Step 2/5. Enter `from` in ISO format or `skip`.''"

definition continue_wizard_after_private_resolution :: "flow_storage \<Rightarrow> string \<Rightarrow> ('w, unit) talk" where
  "continue_wizard_after_private_resolution v chat =
    bind (enter InputFrom ((wizard_state_payload v)\<lparr>fl_source_chat_id := Some chat\<rparr>)) (\<lambda>_. say [step_from_text])"

definition continue_wizard_after_group_resolution ::
    "flow_storage \<Rightarrow> string \<Rightarrow> string option \<Rightarrow> string option \<Rightarrow> ('w, unit) talk" where
  "continue_wizard_after_group_resolution v chat policy topics =
    bind (enter InputFrom ((wizard_state_payload v)\<lparr>fl_source_chat_id := Some chat,
      fl_identity_policy := py_or policy (fl_identity_policy v), fl_topic_strategy := py_or topics (fl_topic_strategy v)\<rparr>))
    (\<lambda>_. say [step_from_text])"

definition prompt_channel_access_strategy :: "flow_storage \<Rightarrow> string option \<Rightarrow> ('w, unit) talk" where
  "prompt_channel_access_strategy v policy =
    bind (enter InputChannelAccessStrategy ((wizard_state_payload v)\<lparr>
      fl_identity_policy := py_or policy (fl_identity_policy v)\<rparr>)) (\<lambda>_.
    say_with [Says ''Choose how access to the channel is given.'',
        Says ''`direct_add` tries to add the mapped users directly.'',
        Says ''`invite_link` prepares an invitation link and goes on with a best-effort migration.'']
      None channel_access_keyboard)"

definition continue_wizard_after_channel_resolution :: "flow_storage \<Rightarrow> string \<Rightarrow> string \<Rightarrow> ('w, unit) talk" where
  "continue_wizard_after_channel_resolution v chat access =
    bind (enter InputFrom ((wizard_state_payload v)\<lparr>fl_source_chat_id := Some chat, fl_access_strategy := Some access\<rparr>))
    (\<lambda>_. say [step_from_text])"

section \<open>Choosing a chat\<close>

abbreviation asking :: migration_run_options where
  "asking \<equiv> default_run_options\<lparr>ro_progress_policy := ''ask''\<rparr>"

text \<open>What a chosen chat still needs: its peer, its topics or members, its access, or nothing.\<close>

definition resolve_selected_chat :: "'w talk_services \<Rightarrow> incoming_message \<Rightarrow> flow_storage \<Rightarrow> string \<Rightarrow> ('w, unit) talk" where
  "resolve_selected_chat tk m v chat =
    (let dk = tk_desk tk; x = in_context m; op = operator_from_message m in
     bind (in_bot (prepare_private_chat_resolution (dk_bot dk) x op chat asking)) (\<lambda>private. case private of
       Some r \<Rightarrow> begin_private_chat_resolution r None
     | None \<Rightarrow>
     bind (in_bot (prepare_group_chat_resolution dk x op chat asking)) (\<lambda>group. case group of
       Some r \<Rightarrow> begin_group_chat_resolution r None
     | None \<Rightarrow>
     bind (in_bot (prepare_channel_chat_resolution dk x op chat asking)) (\<lambda>channel. case channel of
       Some r \<Rightarrow> begin_channel_chat_resolution r None
     | None \<Rightarrow> continue_wizard_after_private_resolution v chat))))"

definition select_chat :: "'w talk_services \<Rightarrow> incoming_message \<Rightarrow> flow_storage \<Rightarrow> ('w, unit) talk" where
  "select_chat tk m v =
    (let body = message_text m; choice = normalized_choice body;
         listing = \<lambda>limit. list_available_chats (tk_bot tk) (in_context m) (operator_from_message m) limit None
           supported_source_backend
     in if is_cancel choice then wizard_cancel
        else if choice = ''list'' then bind (in_bot (listing 10)) (\<lambda>chats. say (build_wizard_intro chats))
        else if body = [] then say [Says ''A source_chat_id is needed. Send the id of a chat, `list` or `cancel`.'']
        else try_service (listing 1000) (\<lambda>chats.
          if body \<notin> av_source_chat_id ` set chats
          then say [Says ''There is no such source_chat_id. Send a valid id, `list` or `cancel`.'']
          else resolve_selected_chat tk m v body))"

definition select_members_chat :: "'w talk_services \<Rightarrow> incoming_message \<Rightarrow> flow_storage \<Rightarrow> ('w, unit) talk" where
  "select_members_chat tk m v =
    (let choice = message_choice m; op = operator_from_message m in
     if is_cancel choice then wizard_cancel
     else if choice = ''list'' then
       bind (in_bot (list_migrated_chats_for_user_addition (tk_bot tk) op)) (\<lambda>chats. say (build_members_wizard_intro chats))
     else try_showing user_visible error_lines
       (bind (lift_outcome (parse_chat_selection_message m)) (\<lambda>chat.
         in_bot (prepare_chat_members_workbook (tk_desk tk) (in_context m) op chat)))
       (begin_chat_members_workbook v))"

section \<open>Uploads\<close>

definition input_chat_members_workbook :: "'w talk_services \<Rightarrow> incoming_message \<Rightarrow> flow_storage \<Rightarrow> ('w, unit) talk" where
  "input_chat_members_workbook tk m v =
    (if is_cancel (message_choice m) then wizard_cancel
     else case in_file m of
       None \<Rightarrow> say [Says ''Upload the filled Excel file or send `/cancel`.'']
     | Some (content, _) \<Rightarrow>
         try_showing user_visible error_lines
           (bind (stored_chat v) (\<lambda>chat.
             in_bot (add_chat_members_from_workbook (tk_desk tk) (in_context m) (operator_from_message m) chat content)))
           (\<lambda>r. bind drop_state (\<lambda>_. say (format_chat_members_add_result r))))"

definition input_archive_import :: "'w talk_services \<Rightarrow> incoming_message \<Rightarrow> ('w, unit) talk" where
  "input_archive_import tk m =
    (if is_cancel (message_choice m) then wizard_cancel
     else case in_file m of
       None \<Rightarrow> say [Says ''Upload a Telegram export `.json`, `.zip` or `.rar`, or send `/cancel`.'']
     | Some (content, name) \<Rightarrow>
         try_service (start_archive_import (tk_desk tk) (in_context m) (operator_from_message m) content name)
           (\<lambda>r. bind drop_state (\<lambda>_. say ([Says ''The archive was accepted.'',
              Says ''Members and attachments of the archive are not copied.'', blank_line]
              @ format_background_operation_for_wizard r))))"

section \<open>Members\<close>

definition input_private_peer :: "'w talk_services \<Rightarrow> incoming_message \<Rightarrow> flow_storage \<Rightarrow> ('w, unit) talk" where
  "input_private_peer tk m v =
    (let choice = message_choice m; command = flow_mode v = ''command'' in
     if is_skip choice then
       (if command then continue_private_chat_command_without_peer tk m v
        else bind (stored_chat v) (continue_wizard_after_private_resolution v))
     else if is_cancel choice then wizard_cancel
     else try_showing user_visible error_lines
       (bind (lift_outcome (parse_private_peer_input m)) (\<lambda>p.
         bind (stored_chat v) (\<lambda>chat.
         in_bot (map_private_chat_peer_identity (tk_bot tk) (in_context m) (operator_from_message m) chat
           (pi_corporate_email p) (pi_target_huid p)))))
       (\<lambda>r. if command then continue_private_chat_command_after_mapping tk m v r
         else bind (say [Says ''The mapping was saved.'', key_value ''target_huid'' (dashed (imr_target_huid r)),
             key_value ''corporate_email'' (dashed (imr_corporate_email r)), blank_line, step_from_text]) (\<lambda>_.
           bind (stored_chat v) (\<lambda>chat.
           enter InputFrom ((wizard_state_payload v)\<lparr>fl_source_chat_id := Some chat\<rparr>)))))"

definition input_group_topic_strategy :: "'w talk_services \<Rightarrow> incoming_message \<Rightarrow> flow_storage \<Rightarrow> ('w, unit) talk" where
  "input_group_topic_strategy tk m v =
    (let choice = message_choice m; command = flow_mode v = ''command'' in
     if is_cancel choice then wizard_cancel
     else if choice \<notin> {''single'', ''single_chat'', ''one'', ''one_chat'', ''split'', ''split_by_topic''}
     then say [Says ''`single_chat` or `split_by_topic` is expected. Or `cancel`.'']
     else
       let topics = (if choice \<in> {''split'', ''split_by_topic''} then ''split_by_topic'' else ''single_chat'');
           opts = (flow_options tk v)\<lparr>ro_topic_strategy := Some topics\<rparr>
       in bind (stored_chat v) (\<lambda>chat.
          bind (in_bot (prepare_group_chat_resolution (tk_desk tk) (in_context m) (operator_from_message m) chat opts))
          (\<lambda>group. case group of
            Some r \<Rightarrow> begin_group_chat_resolution r (if command then Some opts else None)
          | None \<Rightarrow>
              if command
              then start_command_migration_from_state tk m v (\<lambda>o'. o'\<lparr>ro_topic_strategy := Some topics\<rparr>)
              else continue_wizard_after_group_resolution v chat None (Some topics))))"

definition matrix_expected :: line where
  "matrix_expected = Says ''Upload the Excel file of the matrix, `/skip` for a partial migration, or `/cancel`.''"

definition input_group_identity_matrix :: "'w talk_services \<Rightarrow> incoming_message \<Rightarrow> flow_storage \<Rightarrow> ('w, unit) talk" where
  "input_group_identity_matrix tk m v =
    (let choice = message_choice m; command = flow_mode v = ''command'' in
     if is_skip choice then
       (if command
        then start_command_migration_from_state tk m v (\<lambda>o'. o'\<lparr>ro_identity_policy := Some ''skip_unresolved''\<rparr>)
        else bind (stored_chat v) (\<lambda>chat. continue_wizard_after_group_resolution v chat (Some ''skip_unresolved'') None))
     else if is_cancel choice then wizard_cancel
     else case in_file m of
       None \<Rightarrow> say [matrix_expected]
     | Some (content, _) \<Rightarrow>
         try_showing user_visible error_lines
           (bind (stored_chat v) (\<lambda>chat.
             in_bot (apply_group_identity_matrix (tk_desk tk) (in_context m) (operator_from_message m) chat content)))
           (\<lambda>r. if command then continue_group_command_after_matrix tk m v r
             else bind (say (matrix_imported r @ [blank_line, step_from_text])) (\<lambda>_.
               bind (stored_chat v) (\<lambda>chat.
               enter InputFrom ((wizard_state_payload v)\<lparr>fl_source_chat_id := Some chat,
                 fl_identity_policy := Some ''matrix_uploaded''\<rparr>)))))"

definition input_channel_identity_matrix :: "'w talk_services \<Rightarrow> incoming_message \<Rightarrow> flow_storage \<Rightarrow> ('w, unit) talk" where
  "input_channel_identity_matrix tk m v =
    (let choice = message_choice m; starts = (flow_mode v = ''command'' \<and> truthy (fl_access_strategy v)) in
     if is_skip choice then
       (if starts
        then start_command_migration_from_state tk m v (\<lambda>o'. o'\<lparr>ro_identity_policy := Some ''skip_unresolved''\<rparr>)
        else prompt_channel_access_strategy v (Some ''skip_unresolved''))
     else if is_cancel choice then wizard_cancel
     else case in_file m of
       None \<Rightarrow> say [matrix_expected]
     | Some (content, _) \<Rightarrow>
         try_showing user_visible error_lines
           (bind (stored_chat v) (\<lambda>chat.
             in_bot (apply_channel_identity_matrix (tk_desk tk) (in_context m) (operator_from_message m) chat content)))
           (\<lambda>r. if starts
             then start_command_migration_from_state tk m v (\<lambda>o'. o'\<lparr>ro_identity_policy := Some ''matrix_uploaded''\<rparr>)
             else bind (say (matrix_imported r)) (\<lambda>_. prompt_channel_access_strategy v (Some ''matrix_uploaded''))))"

definition input_channel_access_strategy :: "'w talk_services \<Rightarrow> incoming_message \<Rightarrow> flow_storage \<Rightarrow> ('w, unit) talk" where
  "input_channel_access_strategy tk m v =
    (let choice = message_choice m in
     if is_cancel choice then wizard_cancel
     else if choice \<notin> {''direct_add'', ''direct'', ''invite_link'', ''invite'', ''link''}
     then say [Says ''`direct_add` or `invite_link` is expected. Or `cancel`.'']
     else
       let access = (if choice \<in> {''invite_link'', ''invite'', ''link''} then ''invite_link'' else ''direct_add'') in
       if flow_mode v = ''command''
       then start_command_migration_from_state tk m v (\<lambda>o'. o'\<lparr>ro_access_strategy := Some access\<rparr>)
       else bind (stored_chat v) (\<lambda>chat. continue_wizard_after_channel_resolution v chat access))"

section \<open>The window, the media, the replies\<close>

text \<open>A text as it was sent, or nothing when the step is skipped.\<close>

definition text_or_skip :: "incoming_message \<Rightarrow> string option" where
  "text_or_skip m = (if message_choice m \<in> {[], ''skip''} then None else Some (message_text m))"

definition input_from :: "incoming_message \<Rightarrow> flow_storage \<Rightarrow> ('w, unit) talk" where
  "input_from m v =
    (if is_cancel (message_choice m) then wizard_cancel
     else bind (stored_chat v) (\<lambda>chat.
       bind (enter InputTo ((wizard_state_payload v)\<lparr>fl_source_chat_id := Some chat,
         fl_include_from := text_or_skip m\<rparr>)) (\<lambda>_.
       say [Says ''Step 3/5. Enter `to` in ISO format or `skip`.''])))"

definition input_to :: "incoming_message \<Rightarrow> flow_storage \<Rightarrow> ('w, unit) talk" where
  "input_to m v =
    (if is_cancel (message_choice m) then wizard_cancel
     else bind (stored_chat v) (\<lambda>chat.
       bind (enter InputMedia ((wizard_state_payload v)\<lparr>fl_source_chat_id := Some chat,
         fl_include_from := fl_include_from v, fl_include_to := text_or_skip m\<rparr>)) (\<lambda>_.
       say [Says ''Step 4/5. Copy the attachments? Answer `on` or `off`.''])))"

definition input_media :: "incoming_message \<Rightarrow> flow_storage \<Rightarrow> ('w, unit) talk" where
  "input_media m v =
    (if is_cancel (message_choice m) then wizard_cancel
     else case parse_on_off (message_choice m) of
       None \<Rightarrow> say [Says ''`on` or `off` is expected. Or `cancel`.'']
     | Some media \<Rightarrow> bind (stored_chat v) (\<lambda>chat.
         bind (enter InputReply ((wizard_state_payload v)\<lparr>fl_source_chat_id := Some chat,
           fl_include_from := fl_include_from v, fl_include_to := fl_include_to v,
           fl_migrate_media := Some (Some media)\<rparr>)) (\<lambda>_.
         say [Says ''Step 5/5. The mode of replies: `inline_quote`, `source_id` or `none`.''])))"

definition input_reply :: "incoming_message \<Rightarrow> flow_storage \<Rightarrow> ('w, unit) talk" where
  "input_reply m v =
    (let choice = message_choice m; media = attribute_or (fl_migrate_media v) (Some True) in
     if is_cancel choice then wizard_cancel
     else if choice \<notin> {''inline_quote'', ''source_id'', ''none''}
     then say [Says ''`inline_quote`, `source_id` or `none` is expected. Or `cancel`.'']
     else bind (stored_chat v) (\<lambda>chat.
       bind (enter Confirm ((wizard_state_payload v)\<lparr>fl_source_chat_id := Some chat,
         fl_include_from := fl_include_from v, fl_include_to := fl_include_to v, fl_migrate_media := Some media,
         fl_reply_mode := Some (Some choice)\<rparr>)) (\<lambda>_.
       say (build_confirmation_prompt chat (fl_include_from v) (fl_include_to v) (media = Some True) choice
         (fl_access_strategy v)))))"

definition confirm :: "'w talk_services \<Rightarrow> incoming_message \<Rightarrow> flow_storage \<Rightarrow> ('w, unit) talk" where
  "confirm tk m v =
    (let choice = message_choice m in
     if is_cancel choice then wizard_cancel
     else if choice \<notin> {''start'', ''resume''}
     then say [Says (''Send `start` to save the configuration and start, `resume` to go on with the progress found, ''
       @ ''or `cancel`.'')]
     else
       let opts = confirmed_options (tk_default_batch_size tk) v choice; op = operator_from_message m in
       bind (stored_chat v) (\<lambda>chat.
       try_service
         (bind (configure_chat (tk_bot tk) (in_context m) op chat opts) (\<lambda>_.
           start_migrate_chat (tk_bot tk) (in_context m) op chat opts))
         (\<lambda>r. if ar_status r = ''blocked'' then say (format_blocked_result r)
           else bind drop_state (\<lambda>_. say (format_start_result r)))))"

section \<open>Every flow\<close>

fun flow_step :: "'w talk_services \<Rightarrow> incoming_message \<Rightarrow> flow_state \<Rightarrow> flow_storage \<Rightarrow> ('w, unit) talk" where
  "flow_step tk m SelectChat v = select_chat tk m v"
| "flow_step tk m SelectMembersChat v = select_members_chat tk m v"
| "flow_step tk m InputChatMembersWorkbook v = input_chat_members_workbook tk m v"
| "flow_step tk m InputArchiveImport v = input_archive_import tk m"
| "flow_step tk m InputPrivatePeer v = input_private_peer tk m v"
| "flow_step tk m InputGroupTopicStrategy v = input_group_topic_strategy tk m v"
| "flow_step tk m InputGroupIdentityMatrix v = input_group_identity_matrix tk m v"
| "flow_step tk m InputChannelIdentityMatrix v = input_channel_identity_matrix tk m v"
| "flow_step tk m InputChannelAccessStrategy v = input_channel_access_strategy tk m v"
| "flow_step tk m InputFrom v = input_from m v"
| "flow_step tk m InputTo v = input_to m v"
| "flow_step tk m InputMedia v = input_media m v"
| "flow_step tk m InputReply v = input_reply m v"
| "flow_step tk m Confirm v = confirm tk m v"
| "flow_step tk m InputPhone v = input_phone tk m"
| "flow_step tk m InputCode v = input_code tk m v"
| "flow_step tk m InputPassword v = input_password tk m v"

end
