(* ===== verification/Handlers.thy ===== *)
theory Handlers
  imports Wizard_Steps
begin

text \<open>
  The commands of the bot (\<open>build_handler_collector\<close> in \<open>extg_bot_ui/presentation/bot/handlers.py\<close>): each
  reads its arguments, calls the service and answers. \<open>dialogue_step\<close> is a message of the user: a
  command, or the next message of the flow he is in.
\<close>

section \<open>Telegram session\<close>

definition connect_command :: "'w talk_services \<Rightarrow> incoming_message \<Rightarrow> ('w, unit) talk" where
  "connect_command tk m =
    begin_telegram_connection tk m (py_or (Some (py_strip (in_argument m))) None)"

definition account_command :: "'w talk_services \<Rightarrow> incoming_message \<Rightarrow> ('w, unit) talk" where
  "account_command tk m =
    try_service (bind (get_state (\<lambda>s. service_status (bv_login (tk_bot tk)) (in_huid m) (bt_login s))) lift_outcome)
      (\<lambda>r. say (format_telegram_status_result r))"

definition disconnect_command :: "'w talk_services \<Rightarrow> incoming_message \<Rightarrow> ('w, unit) talk" where
  "disconnect_command tk m =
    try_service (with_login_env tk (\<lambda>env. in_login (disconnect_session (bv_login (tk_bot tk)) (in_huid m) env)))
      (\<lambda>r. bind drop_state (\<lambda>_. say (format_telegram_disconnect_result r)))"

section \<open>Cancelling and reporting\<close>

definition bot_cancel_jobs ::
    "'w talk_services \<Rightarrow> bot_operator_context \<Rightarrow> string option \<Rightarrow> ('w, bot_cancel_result) bot" where
  "bot_cancel_jobs tk op chat =
    bind (authorize (tk_bot tk) op) (\<lambda>_.
    bind (lift_outcome (require_migration_id (tk_bot tk))) (\<lambda>migration.
    bind (outside_bot (total_op (tk_cancel_readings tk))) (\<lambda>(readings, stamps, now).
    in_control (cancel_active_jobs (bv_control (tk_bot tk)) op migration chat readings stamps now))))"

definition cancel_command :: "'w talk_services \<Rightarrow> incoming_message \<Rightarrow> ('w, unit) talk" where
  "cancel_command tk m =
    bind drop_state (\<lambda>_.
    try_showing (\<lambda>e. user_visible e \<or> argument_error e) (\<lambda>t. Says ''Wizard stopped.'' # error_lines t)
      (bind (parsed_or_raise (parse_optional_source_chat_id (in_argument m))) (\<lambda>chat.
        in_bot (bot_cancel_jobs tk (operator_from_message m) chat)))
      (\<lambda>r. say (format_cancel_result r)))"

definition status_command :: "'w talk_services \<Rightarrow> incoming_message \<Rightarrow> ('w, unit) talk" where
  "status_command tk m =
    try_command (bind (parsed_or_raise (parse_optional_source_chat_id (in_argument m))) (\<lambda>chat.
        in_bot (status (tk_bot tk) (in_context m) (operator_from_message m) chat)))
      (\<lambda>r. say (format_status_result r))"

definition stats_command :: "'w talk_services \<Rightarrow> incoming_message \<Rightarrow> ('w, unit) talk" where
  "stats_command tk m =
    try_service (stats (tk_bot tk) (in_context m) (operator_from_message m)) (\<lambda>r. say (format_stats_result r))"

section \<open>Chats\<close>

definition chats_command :: "'w talk_services \<Rightarrow> incoming_message \<Rightarrow> ('w, unit) talk" where
  "chats_command tk m =
    try_command (bind (parsed_or_raise (parse_list_chats_options (in_argument m))) (\<lambda>(limit, query).
        bind (in_bot (list_available_chats (tk_bot tk) (in_context m) (operator_from_message m) limit query
          supported_source_backend)) (\<lambda>chats. ret (chats, limit))))
      (\<lambda>(chats, limit). say (format_available_chats chats limit))"

definition is_show_configuration_request :: "migration_run_options \<Rightarrow> bool" where
  "is_show_configuration_request opts \<longleftrightarrow> opts = default_run_options"

definition configure_command :: "'w talk_services \<Rightarrow> incoming_message \<Rightarrow> ('w, unit) talk" where
  "configure_command tk m =
    (let bv = tk_bot tk; x = in_context m; op = operator_from_message m in
     try_command (bind (parsed_or_raise (parse_optional_migrate_chat_options (in_argument m))) (\<lambda>(chat, opts).
         case chat of
           None \<Rightarrow> bind (in_bot (list_available_chats bv x op 10 None supported_source_backend)) (\<lambda>chats.
             bind (say (format_configure_chat_selector chats)) (\<lambda>_. ret None))
         | Some c \<Rightarrow> bind (in_bot (if is_show_configuration_request opts then show_or_configure_chat bv x op c
             else configure_chat bv x op c opts)) (\<lambda>r. ret (Some r))))
       (\<lambda>found. case found of None \<Rightarrow> ret () | Some r \<Rightarrow> say (format_chat_configuration r)))"

definition chat_users_command :: "'w talk_services \<Rightarrow> incoming_message \<Rightarrow> ('w, unit) talk" where
  "chat_users_command tk m =
    try_command (bind (parsed_or_raise (parse_list_chat_users_options (in_argument m))) (\<lambda>chat.
        in_bot (list_chat_users (tk_bot tk) (in_context m) (operator_from_message m) chat)))
      (\<lambda>r. say (format_chat_user_matrix r))"

definition add_users_command :: "'w talk_services \<Rightarrow> incoming_message \<Rightarrow> ('w, unit) talk" where
  "add_users_command tk m =
    (let op = operator_from_message m in
     try_command (bind (parsed_or_raise (parse_optional_source_chat_id (in_argument m))) (\<lambda>selector.
         case selector of
           None \<Rightarrow> bind (in_bot (list_migrated_chats_for_user_addition (tk_bot tk) op)) (\<lambda>chats.
             bind (begin_chat_members_selection no_values chats) (\<lambda>_. ret None))
         | Some c \<Rightarrow> bind (in_bot (prepare_chat_members_workbook (tk_desk tk) (in_context m) op c)) (\<lambda>r. ret (Some r))))
       (\<lambda>found. case found of None \<Rightarrow> ret () | Some r \<Rightarrow> begin_chat_members_workbook no_values r))"

definition import_archive_command :: "('w, unit) talk" where
  "import_archive_command = begin_archive_import no_values"

definition map_identity_command :: "'w talk_services \<Rightarrow> incoming_message \<Rightarrow> ('w, unit) talk" where
  "map_identity_command tk m =
    try_command (bind (parsed_or_raise (parse_map_identity_arguments (in_argument m))) (\<lambda>a.
        in_bot (map_identity (tk_bot tk) (in_context m) (operator_from_message m) (ia_telegram_user_id a)
          (ia_telegram_username a) (ia_telegram_display_name a) (ia_corporate_email a))))
      (\<lambda>r. say (format_identity_mapping_result r))"

section \<open>Migrating\<close>

definition migrate_all_command :: "'w talk_services \<Rightarrow> incoming_message \<Rightarrow> ('w, unit) talk" where
  "migrate_all_command tk m =
    try_command (bind (parsed_or_raise (parse_migrate_all_options (in_argument m))) (\<lambda>opts.
        in_bot (start_migrate_all (tk_bot tk) (in_context m) (operator_from_message m) opts)))
      (\<lambda>r. say (format_background_operation r ''/migrate_all progress=resume''))"

text \<open>A chat whose peer, topics, members or access are open is asked about first; then no job is started.\<close>

definition resolve_or_start ::
    "'w talk_services \<Rightarrow> incoming_message \<Rightarrow> string \<Rightarrow> migration_run_options
      \<Rightarrow> ('w, bot_operation_accepted_result option) talk" where
  "resolve_or_start tk m chat opts =
    (let dk = tk_desk tk; x = in_context m; op = operator_from_message m in
     bind (in_bot (prepare_private_chat_resolution (dk_bot dk) x op chat opts)) (\<lambda>private. case private of
       Some r \<Rightarrow> bind (begin_private_chat_resolution r (Some opts)) (\<lambda>_. ret None)
     | None \<Rightarrow>
     bind (in_bot (prepare_group_chat_resolution dk x op chat opts)) (\<lambda>group. case group of
       Some r \<Rightarrow> bind (begin_group_chat_resolution r (Some opts)) (\<lambda>_. ret None)
     | None \<Rightarrow>
     bind (in_bot (prepare_channel_chat_resolution dk x op chat opts)) (\<lambda>channel. case channel of
       Some r \<Rightarrow> bind (begin_channel_chat_resolution r (Some opts)) (\<lambda>_. ret None)
     | None \<Rightarrow> bind (in_bot (start_migrate_chat (dk_bot dk) x op chat opts)) (\<lambda>r. ret (Some r))))))"

definition migrate_command :: "'w talk_services \<Rightarrow> incoming_message \<Rightarrow> ('w, unit) talk" where
  "migrate_command tk m =
    try_command (bind (parsed_or_raise (parse_migrate_chat_options (in_argument m))) (\<lambda>(chat, opts).
        bind (resolve_or_start tk m chat opts) (\<lambda>started. ret (chat, started))))
      (\<lambda>(chat, started). case started of None \<Rightarrow> ret ()
        | Some r \<Rightarrow> say (format_background_operation r (''/migrate '' @ chat)))"

definition remigrate_command :: "'w talk_services \<Rightarrow> incoming_message \<Rightarrow> ('w, unit) talk" where
  "remigrate_command tk m =
    try_command (bind (parsed_or_raise (parse_migrate_chat_options (in_argument m))) (\<lambda>(chat, opts).
        bind (in_bot (remigrate_chat (tk_bot tk) (in_context m) (operator_from_message m) chat
          (opts\<lparr>ro_progress_policy := ''resume''\<rparr>))) (\<lambda>r. ret (chat, r))))
      (\<lambda>(chat, r). say (format_background_operation r (''/remigrate '' @ chat)))"

definition run_in_bot :: "('w bot_state, 'a) run \<Rightarrow> ('w dialogue, 'a) run" where
  "run_in_bot f d = map_option (\<lambda>(r, b). (r, d\<lparr>dg_bot := b\<rparr>)) (f (dg_bot d))"

definition replay_failed_command :: "'w talk_services \<Rightarrow> incoming_message \<Rightarrow> ('w dialogue, unit) run" where
  "replay_failed_command tk m =
    and_then
      (rescue
        (and_then (ends (parsed_or_raise (parse_replay_failed_options (in_argument m) 100 (tk_default_batch_size tk))))
          (\<lambda>(chat, limit, n).
          and_then (run_in_bot (bot_replay_failed (tk_bot tk) (in_context m) (operator_from_message m) chat limit (Some n)))
          (\<lambda>r. ends (ret (Some r)))))
        (\<lambda>e. if user_visible e \<or> argument_error e
          then Some (bind (say (error_lines (error_text e))) (\<lambda>_. ret None)) else None))
      (\<lambda>found. ends (case found of None \<Rightarrow> ret () | Some r \<Rightarrow> say (format_replay_failed_result r)))"

definition default_message :: "('w, unit) talk" where
  "default_message = say ([Says ''Unknown command.'', blank_line] @ help_text)"

section \<open>Messages of a user\<close>

datatype chat_command = HelpCommand | ConnectCommand | AccountCommand | DisconnectCommand | CancelCommand | StatusCommand
  | StatsCommand | ChatsCommand | ConfigureCommand | ChatUsersCommand | AddUsersCommand | ImportArchiveCommand
  | MapIdentityCommand | MigrateAllCommand | MigrateCommand | RemigrateCommand | RetryFailedCommand | UnknownCommand

fun handle_command :: "'w talk_services \<Rightarrow> incoming_message \<Rightarrow> chat_command \<Rightarrow> ('w dialogue, unit) run" where
  "handle_command tk m HelpCommand = ends (say help_text)"
| "handle_command tk m ConnectCommand = ends (connect_command tk m)"
| "handle_command tk m AccountCommand = ends (account_command tk m)"
| "handle_command tk m DisconnectCommand = ends (disconnect_command tk m)"
| "handle_command tk m CancelCommand = ends (cancel_command tk m)"
| "handle_command tk m StatusCommand = ends (status_command tk m)"
| "handle_command tk m StatsCommand = ends (stats_command tk m)"
| "handle_command tk m ChatsCommand = ends (chats_command tk m)"
| "handle_command tk m ConfigureCommand = ends (configure_command tk m)"
| "handle_command tk m ChatUsersCommand = ends (chat_users_command tk m)"
| "handle_command tk m AddUsersCommand = ends (add_users_command tk m)"
| "handle_command tk m ImportArchiveCommand = ends import_archive_command"
| "handle_command tk m MapIdentityCommand = ends (map_identity_command tk m)"
| "handle_command tk m MigrateAllCommand = ends (migrate_all_command tk m)"
| "handle_command tk m MigrateCommand = ends (migrate_command tk m)"
| "handle_command tk m RemigrateCommand = ends (remigrate_command tk m)"
| "handle_command tk m RetryFailedCommand = replay_failed_command tk m"
| "handle_command tk m UnknownCommand = ends default_message"

text \<open>A message that goes to a command, or to the flow.\<close>

definition dialogue_step ::
    "'w talk_services \<Rightarrow> incoming_message \<Rightarrow> chat_command option \<Rightarrow> ('w dialogue, unit) run" where
  "dialogue_step tk m c d =
    (case c of
       Some cmd \<Rightarrow> handle_command tk m cmd d
     | None \<Rightarrow> (case dg_flow d of
         None \<Rightarrow> handle_command tk m UnknownCommand d
       | Some f \<Rightarrow> ends (flow_step tk m (fw_state f) (fw_storage f)) d))"

text \<open>The messages of a user, one after another, whatever each of them raises.\<close>

fun dialogue_steps ::
    "'w talk_services \<Rightarrow> (incoming_message \<times> chat_command option) list \<Rightarrow> 'w dialogue \<Rightarrow> 'w dialogue option" where
  "dialogue_steps tk [] d = Some d"
| "dialogue_steps tk ((m, c) # ms) d = Option.bind (dialogue_step tk m c d) (\<lambda>(_, d'). dialogue_steps tk ms d')"

end
