(* ===== verification/Dialogue_Facts.thy ===== *)
theory Dialogue_Facts
  imports Handlers Bot_Facts
begin

text \<open>
  What holds of every dialogue: which values a flow has in each state, and that an operator who is
  refused leaves the bot's state as it is.
\<close>

section \<open>Steps that keep a property of the dialogue\<close>

named_theorems keep \<open>steps that keep what holds of the flow\<close>

text \<open>\<open>P\<close> is a property of the flow and the state of the bot.\<close>

definition holds_of :: "(flow option \<Rightarrow> 'w bot_state \<Rightarrow> bool) \<Rightarrow> 'w dialogue \<Rightarrow> bool" where
  "holds_of P d \<longleftrightarrow> P (dg_flow d) (dg_bot d)"

definition talk_keeps :: "(flow option \<Rightarrow> 'w bot_state \<Rightarrow> bool) \<Rightarrow> ('w, 'a) talk \<Rightarrow> bool" where
  "talk_keeps P m \<longleftrightarrow> (\<forall>d. holds_of P d \<longrightarrow> holds_of P (snd (m d)))"

lemma talk_keepsD: "talk_keeps P m \<Longrightarrow> holds_of P d \<Longrightarrow> m d = (r, d') \<Longrightarrow> holds_of P d'"
  unfolding talk_keeps_def by (metis snd_conv)

lemma talk_keepsI: "(\<And>d r d'. holds_of P d \<Longrightarrow> m d = (r, d') \<Longrightarrow> holds_of P d') \<Longrightarrow> talk_keeps P m"
  unfolding talk_keeps_def by (metis prod.collapse)

lemma talk_keeps_basic [keep]:
  "talk_keeps P (ret a)" "talk_keeps P (throw e)" "talk_keeps P (lift_outcome r)" "talk_keeps P (required name v)" "talk_keeps P (stored_chat w)"
  "talk_keeps P (parsed_or_raise p)"
  by (simp_all add: talk_keeps_def action_defs required_def stored_chat_def parsed_or_raise_def split: option.split sum.split)

lemma talk_keeps_bind [keep]: "talk_keeps P m \<Longrightarrow> (\<And>a. talk_keeps P (f a)) \<Longrightarrow> talk_keeps P (bind m f)"
  by (rule talk_keepsI) (auto simp: bind_def dest: talk_keepsD split: prod.splits sum.splits)

lemma keeps_catch: "talk_keeps P m \<Longrightarrow> (\<And>e h. handler e = Some h \<Longrightarrow> talk_keeps P h) \<Longrightarrow> talk_keeps P (catch_error m handler)"
  by (rule talk_keepsI) (auto simp: catch_error_def dest: talk_keepsD split: prod.splits sum.splits option.splits)

lemma keeps_say [keep]: "talk_keeps P (say_with ls attached keys)" "talk_keeps P (say ls)"
  by (simp_all add: talk_keeps_def holds_of_def say_def say_with_def modify_def)

lemma keeps_try_showing [keep]:
  assumes "talk_keeps P m" and "\<And>a. talk_keeps P (f a)"
  shows "talk_keeps P (try_showing shown answer m f)"
  unfolding try_showing_def
  by (intro talk_keeps_bind keeps_catch) (auto intro!: keep assms split: if_splits option.split)

lemma keeps_try [keep]:
  "talk_keeps P (in_bot b) \<Longrightarrow> (\<And>a. talk_keeps P (f a)) \<Longrightarrow> talk_keeps P (try_service b f)"
  "talk_keeps P m \<Longrightarrow> (\<And>a. talk_keeps P (f a)) \<Longrightarrow> talk_keeps P (try_command m f)"
  unfolding try_service_def try_command_def by (intro keep; assumption)+

lemma keeps_split_pair: "(\<And>a b. talk_keeps P (f a b)) \<Longrightarrow> talk_keeps P (case p of (a, b) \<Rightarrow> f a b)"
  by (cases p) simp

lemma keeps_split_option: "talk_keeps P f \<Longrightarrow> (\<And>a. talk_keeps P (g a)) \<Longrightarrow> talk_keeps P (case x of None \<Rightarrow> f | Some a \<Rightarrow> g a)"
  by (cases x) simp_all

text \<open>The same for runs, which may not end.\<close>

definition run_keeps :: "(flow option \<Rightarrow> 'w bot_state \<Rightarrow> bool) \<Rightarrow> ('w dialogue, 'a) run \<Rightarrow> bool" where
  "run_keeps P f \<longleftrightarrow> (\<forall>d r d'. holds_of P d \<longrightarrow> f d = Some (r, d') \<longrightarrow> holds_of P d')"

lemma run_keepsD: "run_keeps P f \<Longrightarrow> holds_of P d \<Longrightarrow> f d = Some (r, d') \<Longrightarrow> holds_of P d'"
  unfolding run_keeps_def by blast

lemma run_keeps_ends [keep]: "talk_keeps P m \<Longrightarrow> run_keeps P (ends m)"
  by (auto simp: run_keeps_def ends_def dest: talk_keepsD)

lemma run_keeps_and_then [keep]:
  assumes "run_keeps P f" and "\<And>a. run_keeps P (g a)"
  shows "run_keeps P (and_then f g)"
  unfolding run_keeps_def
proof (intro allI impI)
  fix d r d'
  assume P: "holds_of P d" and run: "and_then f g d = Some (r, d')"
  then obtain q d1 where q: "f d = Some (q, d1)" by (auto simp: and_then_def split: option.splits)
  with run_keepsD [OF assms(1) P] have P1: "holds_of P d1" by blast
  show "holds_of P d'"
  proof (cases q)
    case (Inl e)
    with q run P1 show ?thesis by (simp add: and_then_def)
  next
    case (Inr a)
    with q run have "g a d1 = Some (r, d')" by (simp add: and_then_def)
    from run_keepsD [OF assms(2) P1 this] show ?thesis .
  qed
qed

lemma run_keeps_rescue:
  assumes "run_keeps P f" and "\<And>e h. handler e = Some h \<Longrightarrow> talk_keeps P h"
  shows "run_keeps P (rescue f handler)"
  unfolding run_keeps_def
proof (intro allI impI)
  fix d r d'
  assume P: "holds_of P d" and run: "rescue f handler d = Some (r, d')"
  then obtain q d1 where q: "f d = Some (q, d1)" by (auto simp: rescue_def split: option.splits)
  with run_keepsD [OF assms(1) P] have P1: "holds_of P d1" by blast
  consider "d' = d1" | e h where "handler e = Some h" "h d1 = (r, d')"
    using q run by (auto simp: rescue_def split: sum.splits option.splits)
  then show "holds_of P d'"
    by cases (use P1 talk_keepsD [OF assms(2)] in blast)+
qed

section \<open>The values of a flow\<close>

text \<open>
  The states whose step reads the chat of the flow, and those whose step reads the challenge of the
  login. The state that asks for the access to a channel is not among them.
\<close>

definition chat_states :: "flow_state set" where
  "chat_states = {InputChatMembersWorkbook, InputPrivatePeer, InputGroupTopicStrategy, InputGroupIdentityMatrix,
     InputChannelIdentityMatrix, InputFrom, InputTo, InputMedia, InputReply, Confirm}"

definition challenge_states :: "flow_state set" where
  "challenge_states = {InputCode, InputPassword}"

definition values_complete :: "flow_state \<Rightarrow> flow_storage \<Rightarrow> bool" where
  "values_complete st v \<longleftrightarrow> (st \<in> chat_states \<longrightarrow> fl_source_chat_id v \<noteq> None)
     \<and> (st \<in> challenge_states \<longrightarrow> fl_challenge_id v \<noteq> None)"

definition flow_complete :: "flow option \<Rightarrow> bool" where
  "flow_complete f \<longleftrightarrow> (case f of None \<Rightarrow> True | Some x \<Rightarrow> values_complete (fw_state x) (fw_storage x))"

abbreviation completes :: "('w, 'a) talk \<Rightarrow> bool" where
  "completes \<equiv> talk_keeps (\<lambda>f b. flow_complete f)"

lemma flow_complete_simps [simp]:
  "flow_complete None" "flow_complete (Some \<lparr>fw_state = st, fw_ttl_seconds = t, fw_storage = v\<rparr>) \<longleftrightarrow> values_complete st v"
  by (simp_all add: flow_complete_def)

lemma complete_change [keep]: "values_complete st v \<Longrightarrow> completes (change_state st ttl v)"
  by (simp add: talk_keeps_def holds_of_def change_state_def modify_def)

lemma complete_enter [keep]: "values_complete st v \<Longrightarrow> completes (enter st v)"
  unfolding enter_def by (rule complete_change)

lemma complete_in_bot [keep]: "completes (in_bot b)"
  by (simp add: talk_keeps_def holds_of_def in_bot_def on_part_def split: prod.split)

lemma complete_drop [keep]: "completes drop_state"
  by (simp add: talk_keeps_def holds_of_def drop_state_def modify_def)

text \<open>Values a flow is entered with are complete.\<close>

lemma values_complete_chat [keep]: "st \<notin> challenge_states \<Longrightarrow> fl_source_chat_id v = Some c \<Longrightarrow> values_complete st v"
  by (simp add: values_complete_def)

lemma values_complete_other [keep]: "st \<notin> challenge_states \<Longrightarrow> st \<notin> chat_states \<Longrightarrow> values_complete st v"
  by (simp add: values_complete_def)

lemma values_complete_challenge [keep]: "st \<notin> chat_states \<Longrightarrow> fl_challenge_id v = Some c \<Longrightarrow> values_complete st v"
  by (simp add: values_complete_def)

lemmas state_sets = chat_states_def challenge_states_def

lemma command_payload_chat [simp]: "fl_source_chat_id (command_payload chat opts) = Some chat"
  by (simp add: command_payload_def split: option.split)

lemma values_complete_payload [keep]:
  assumes "st \<notin> challenge_states"
  shows "values_complete st (command_payload chat opts)" "values_complete st (group_payload chat opts)"
    "values_complete st (channel_payload chat opts)"
  using assms by (simp_all add: values_complete_def group_payload_def channel_payload_def)

lemma complete_cancels [keep]: "completes wizard_cancel" "completes cancel_connection"
  unfolding wizard_cancel_def cancel_connection_def by (intro keep)+

lemma complete_begin [keep]:
  "completes (begin_private_chat_resolution p opts)"
  "completes (begin_group_chat_resolution r opts)" "completes (begin_channel_chat_resolution r opts)"
  "completes (begin_chat_members_workbook v w)" "completes (begin_chat_members_selection v chats)"
  "completes (begin_archive_import v)"
  unfolding begin_private_chat_resolution_def begin_group_chat_resolution_def begin_channel_chat_resolution_def
    begin_chat_members_workbook_def begin_chat_members_selection_def begin_archive_import_def Let_def
  by (auto intro!: talk_keeps_bind complete_enter keeps_say values_complete_payload simp: values_complete_def state_sets)

lemma complete_continue [keep]:
  "completes (start_from_flow tk m v intro opts)"
  "completes (continue_wizard_after_private_resolution v chat)"
  "completes (continue_wizard_after_group_resolution v chat policy topics)"
  "completes (continue_wizard_after_channel_resolution v chat access)"
  "completes (prompt_channel_access_strategy v policy)"
  "completes (begin_telegram_connection tk m phone)" "completes (finish_connection a)"
  unfolding start_from_flow_def continue_wizard_after_private_resolution_def continue_wizard_after_group_resolution_def
    continue_wizard_after_channel_resolution_def prompt_channel_access_strategy_def begin_telegram_connection_def
    finish_connection_def Let_def
  by (auto intro!: talk_keeps_basic talk_keeps_bind keeps_try keeps_try_showing complete_in_bot complete_enter complete_change
      complete_drop keeps_say simp: values_complete_def state_sets split: login_answer.split)

lemma complete_select [keep]: "completes (resolve_selected_chat tk m v chat)"
  unfolding resolve_selected_chat_def Let_def
  by (auto intro!: talk_keeps_bind complete_in_bot complete_begin complete_continue split: option.split)

lemma complete_flow_step: "completes (flow_step tk m st v)"
  by (cases st)
    (auto intro!: talk_keeps_basic talk_keeps_bind keeps_try keeps_try_showing complete_in_bot complete_enter complete_change
      complete_drop keeps_say complete_cancels complete_begin complete_continue complete_select
      simp: select_chat_def select_members_chat_def input_chat_members_workbook_def input_archive_import_def
        input_private_peer_def input_group_topic_strategy_def input_group_identity_matrix_def
        input_channel_identity_matrix_def input_channel_access_strategy_def input_from_def input_to_def input_media_def
        input_reply_def confirm_def input_phone_def input_code_def input_password_def Let_def
        continue_private_chat_command_without_peer_def continue_private_chat_command_after_mapping_def
        continue_group_command_after_matrix_def start_command_migration_from_state_def values_complete_def state_sets
      split: option.split login_answer.split)

section \<open>Commands and whole dialogues\<close>

lemma run_complete_in_bot [keep]: "run_keeps (\<lambda>f b. flow_complete f) (run_in_bot r)"
  by (auto simp: run_keeps_def holds_of_def run_in_bot_def)

lemma complete_replay: "run_keeps (\<lambda>f b. flow_complete f) (replay_failed_command tk m)"
  unfolding replay_failed_command_def
  by (auto intro!: run_keeps_and_then run_keeps_rescue run_keeps_ends run_complete_in_bot talk_keeps_basic talk_keeps_bind keeps_say
      split: if_splits option.split)

lemma complete_resolve [keep]: "completes (resolve_or_start tk m chat opts)"
  unfolding resolve_or_start_def Let_def
  by (auto intro!: talk_keeps_basic talk_keeps_bind complete_in_bot complete_begin split: option.split)

lemma complete_session_commands [keep]:
  "completes (connect_command tk m)" "completes (account_command tk m)"
  "completes (disconnect_command tk m)"
  unfolding connect_command_def account_command_def disconnect_command_def by (intro keep)+

lemma complete_reports [keep]:
  "completes (cancel_command tk m)" "completes (status_command tk m)"
  "completes (stats_command tk m)" "completes (chat_users_command tk m)"
  "completes (map_identity_command tk m)" "completes (migrate_all_command tk m)"
  "completes import_archive_command" "completes default_message"
  unfolding cancel_command_def status_command_def stats_command_def chat_users_command_def map_identity_command_def
    migrate_all_command_def import_archive_command_def default_message_def
  by (intro keep)+

lemma complete_listing [keep]:
  "completes (chats_command tk m)" "completes (configure_command tk m)"
  "completes (add_users_command tk m)" "completes (migrate_command tk m)"
  "completes (remigrate_command tk m)"
  unfolding chats_command_def configure_command_def add_users_command_def migrate_command_def remigrate_command_def Let_def
  by (intro keep keeps_split_pair keeps_split_option)+

lemma complete_command: "run_keeps (\<lambda>f b. flow_complete f) (handle_command tk m c)"
  by (cases c) (simp_all only: handle_command.simps complete_replay run_keeps_ends complete_session_commands
    complete_reports complete_listing keeps_say)

lemma run_keeps_dialogue_step:
  assumes commands: "\<And>cmd. run_keeps P (handle_command tk m cmd)" and flows: "\<And>st v. talk_keeps P (flow_step tk m st v)"
  shows "run_keeps P (dialogue_step tk m c)"
  unfolding run_keeps_def
proof (intro allI impI)
  fix d r d'
  assume P: "holds_of P d" and run: "dialogue_step tk m c d = Some (r, d')"
  consider (command) cmd where "handle_command tk m cmd d = Some (r, d')"
    | (flow) st v where "ends (flow_step tk m st v) d = Some (r, d')"
    using run by (auto simp: dialogue_step_def simp del: handle_command.simps split: option.splits)
  then show "holds_of P d'"
    by cases (use run_keepsD [OF commands P] run_keepsD [OF run_keeps_ends [OF flows] P] in blast)+
qed

text \<open>Every dialogue: it starts without a flow, and a flow may expire between two messages.\<close>

inductive dialogue_reachable :: "'w talk_services \<Rightarrow> 'w dialogue \<Rightarrow> bool" for tk where
  fresh: "dg_flow d = None \<Longrightarrow> dialogue_reachable tk d"
| message: "dialogue_reachable tk d \<Longrightarrow> dialogue_step tk m c d = Some (r, d') \<Longrightarrow> dialogue_reachable tk d'"
| expiry: "dialogue_reachable tk d \<Longrightarrow> dialogue_reachable tk (d\<lparr>dg_flow := None\<rparr>)"

lemma dialogue_reachable_complete: "dialogue_reachable tk d \<Longrightarrow> flow_complete (dg_flow d)"
proof (induction rule: dialogue_reachable.induct)
  case (message d m c r d')
  have "run_keeps (\<lambda>f b. flow_complete f) (dialogue_step tk m c)"
    by (rule run_keeps_dialogue_step [OF complete_command complete_flow_step])
  from run_keepsD [OF this] message show ?case by (simp add: holds_of_def)
qed simp_all

section \<open>Refused operators\<close>

text \<open>Operators are told from a message by its sender; every service refuses one who is not on the list.\<close>

abbreviation idles :: "'w bot_state \<Rightarrow> ('w, 'a) talk \<Rightarrow> bool" where
  "idles b \<equiv> talk_keeps (\<lambda>f s. s = b)"

lemma idle_bot: "(\<And>s. snd (m s) = s) \<Longrightarrow> idles b (in_bot m)"
  by (simp add: talk_keeps_def holds_of_def in_bot_def on_part_def split_beta)

lemma idle_flow [keep]: "idles b (change_state st ttl v)" "idles b (enter st v)" "idles b drop_state"
  by (simp_all add: talk_keeps_def holds_of_def enter_def change_state_def drop_state_def modify_def)

lemma refused_unanswered: "unanswered m s = Some (Inl e, s') \<Longrightarrow> m s = (Inl e, s')"
  by (auto simp: unanswered_def ends_def bind_def ret_def split: prod.splits sum.splits)

lemma refused_service:
  assumes "bot_authorize (bv_control (dk_bot dk)) op = Some e" and "run_command dk x op c = unanswered m"
  shows "snd (m s) = s"
  using refused_unanswered [of m s e s] refused_command [OF assms(1), of x c s] assms(2) by simp

text \<open>The services, one by one.\<close>

lemma refused_services:
  assumes "bot_authorize (bv_control (dk_bot dk)) op = Some e"
  shows "idles b (in_bot (list_available_chats (dk_bot dk) x op limit query backend))"
    "idles b (in_bot (configure_chat (dk_bot dk) x op chat opts))"
    "idles b (in_bot (show_or_configure_chat (dk_bot dk) x op chat))"
    "idles b (in_bot (list_chat_users (dk_bot dk) x op chat))"
    "idles b (in_bot (start_migrate_all (dk_bot dk) x op opts))"
    "idles b (in_bot (start_migrate_chat (dk_bot dk) x op chat opts))"
    "idles b (in_bot (remigrate_chat (dk_bot dk) x op chat opts))"
    "idles b (in_bot (status (dk_bot dk) x op target))"
    "idles b (in_bot (stats (dk_bot dk) x op))"
    "idles b (in_bot (list_migrated_chats_for_user_addition (dk_bot dk) op))"
    "idles b (in_bot (prepare_chat_members_workbook dk x op chat))"
    "idles b (in_bot (add_chat_members_from_workbook dk x op chat content))"
    "idles b (in_bot (start_archive_import dk x op content name))"
    "idles b (in_bot (map_identity (dk_bot dk) x op user username display email))"
    "idles b (in_bot (prepare_private_chat_resolution (dk_bot dk) x op chat opts))"
    "idles b (in_bot (prepare_group_chat_resolution dk x op chat opts))"
    "idles b (in_bot (prepare_channel_chat_resolution dk x op chat opts))"
    "idles b (in_bot (apply_group_identity_matrix dk x op chat content))"
    "idles b (in_bot (apply_channel_identity_matrix dk x op chat content))"
    "idles b (in_bot (map_private_chat_peer_identity (dk_bot dk) x op chat peer huid))"
  by - (rule idle_bot, rule refused_service [OF assms], rule run_command.simps)+

lemma refused_configure_and_start:
  assumes "bot_authorize (bv_control bv) op = Some e"
  shows "idles b (in_bot (bind (configure_chat bv x op chat opts) f))"
  by (rule idle_bot) (simp add: configure_chat_def bind_assoc assms)

lemma refused_cancel:
  assumes "bot_authorize (bv_control (tk_bot tk)) op = Some e"
  shows "idles b (in_bot (bot_cancel_jobs tk op chat))"
  by (rule idle_bot) (simp add: bot_cancel_jobs_def assms)

lemma refused_replay:
  assumes "bot_authorize (bv_control bv) op = Some e"
  shows "run_keeps (\<lambda>f s. s = b) (run_in_bot (bot_replay_failed bv x op chat limit n))"
  using assms
  by (auto simp: run_keeps_def holds_of_def run_in_bot_def bot_replay_failed_def and_then_def ends_def)

lemma idle_begin [keep]:
  "idles b (begin_private_chat_resolution p opts)" "idles b (begin_group_chat_resolution r opts)"
  "idles b (begin_channel_chat_resolution r opts)" "idles b (begin_chat_members_workbook v w)"
  "idles b (begin_chat_members_selection v chats)" "idles b (begin_archive_import v)" "idles b wizard_cancel"
  "idles b (continue_wizard_after_private_resolution v chat)"
  "idles b (continue_wizard_after_group_resolution v chat policy topics)"
  "idles b (continue_wizard_after_channel_resolution v chat access)" "idles b (prompt_channel_access_strategy v policy)"
  unfolding begin_private_chat_resolution_def begin_group_chat_resolution_def begin_channel_chat_resolution_def
    begin_chat_members_workbook_def begin_chat_members_selection_def begin_archive_import_def wizard_cancel_def
    continue_wizard_after_private_resolution_def continue_wizard_after_group_resolution_def
    continue_wizard_after_channel_resolution_def prompt_channel_access_strategy_def Let_def
  by (auto intro!: talk_keeps_bind idle_flow keeps_say)

text \<open>The flows and commands that connect or disconnect a Telegram session ask the session service instead.\<close>

definition session_states :: "flow_state set" where
  "session_states = {InputPhone, InputCode, InputPassword}"

definition session_commands :: "chat_command set" where
  "session_commands = {ConnectCommand, DisconnectCommand}"

lemma idle_if: "idles b (in_bot m) \<Longrightarrow> idles b (in_bot n) \<Longrightarrow> idles b (in_bot (if c then m else n))"
  by simp

lemma idle_start:
  assumes refused: "bot_authorize (bv_control (tk_bot tk)) (operator_from_message m) = Some e"
  shows "idles b (start_from_flow tk m v intro opts)"
  unfolding start_from_flow_def
  by (auto intro!: talk_keeps_basic talk_keeps_bind keeps_try_showing idle_flow keeps_say refused_services [OF refused])

lemma idle_select:
  assumes refused: "bot_authorize (bv_control (tk_bot tk)) (operator_from_message m) = Some e"
  shows "idles b (resolve_selected_chat tk m v chat)"
  unfolding resolve_selected_chat_def Let_def
  by (auto intro!: talk_keeps_bind idle_begin refused_services [OF refused] split: option.split)

lemma idle_flow_step:
  assumes refused: "bot_authorize (bv_control (tk_bot tk)) (operator_from_message m) = Some e"
  and "st \<notin> session_states"
  shows "idles b (flow_step tk m st v)"
  using assms(2)
  by (cases st)
    (auto intro!: talk_keeps_basic talk_keeps_bind keeps_try keeps_try_showing idle_flow keeps_say idle_begin idle_start [OF refused] idle_select [OF refused]
        refused_services [OF refused] refused_configure_and_start [OF refused]
      simp: select_chat_def select_members_chat_def input_chat_members_workbook_def input_archive_import_def
        input_private_peer_def input_group_topic_strategy_def input_group_identity_matrix_def
        input_channel_identity_matrix_def input_channel_access_strategy_def input_from_def input_to_def input_media_def
        input_reply_def confirm_def Let_def session_states_def
        continue_private_chat_command_without_peer_def continue_private_chat_command_after_mapping_def
        continue_group_command_after_matrix_def start_command_migration_from_state_def
      split: option.split)

lemma idle_reading: "idles b (in_bot (bind (get_state f) lift_outcome))"
  by (rule idle_bot) (simp add: bind_def get_state_def lift_outcome_def)

lemma idle_account: "idles b (account_command tk m)"
  unfolding account_command_def by (intro keep idle_reading)

lemma idle_resolve:
  assumes refused: "bot_authorize (bv_control (tk_bot tk)) (operator_from_message m) = Some e"
  shows "idles b (resolve_or_start tk m chat opts)"
  unfolding resolve_or_start_def Let_def
  by (auto intro!: talk_keeps_basic talk_keeps_bind idle_begin refused_services [OF refused] split: option.split)

lemma idle_listing:
  assumes refused: "bot_authorize (bv_control (tk_bot tk)) (operator_from_message m) = Some e"
  shows "idles b (chats_command tk m)" "idles b (configure_command tk m)" "idles b (add_users_command tk m)"
  "idles b (migrate_command tk m)" "idles b (remigrate_command tk m)"
  unfolding chats_command_def configure_command_def add_users_command_def migrate_command_def remigrate_command_def Let_def
  by (intro keep keeps_split_pair keeps_split_option idle_if idle_resolve [OF refused] refused_services [OF refused])+

lemma idle_reports:
  assumes refused: "bot_authorize (bv_control (tk_bot tk)) (operator_from_message m) = Some e"
  shows "idles b (cancel_command tk m)" "idles b (status_command tk m)" "idles b (stats_command tk m)"
  "idles b (chat_users_command tk m)" "idles b (map_identity_command tk m)" "idles b (migrate_all_command tk m)"
  "idles b import_archive_command" "idles b default_message"
  unfolding cancel_command_def status_command_def stats_command_def chat_users_command_def map_identity_command_def
    migrate_all_command_def import_archive_command_def default_message_def
  by (intro keep refused_services [OF refused] refused_cancel [OF refused])+

lemma idle_replay:
  assumes refused: "bot_authorize (bv_control (tk_bot tk)) (operator_from_message m) = Some e"
  shows "run_keeps (\<lambda>f s. s = b) (replay_failed_command tk m)"
  unfolding replay_failed_command_def
  by (auto intro!: run_keeps_and_then run_keeps_rescue run_keeps_ends talk_keeps_basic talk_keeps_bind keeps_say
      refused_replay [OF refused] split: if_splits option.split)

lemma idle_command:
  assumes refused: "bot_authorize (bv_control (tk_bot tk)) (operator_from_message m) = Some e"
  and "c \<notin> session_commands"
  shows "run_keeps (\<lambda>f s. s = b) (handle_command tk m c)"
  using assms(2)
  by (cases c) (simp_all add: session_commands_def idle_replay [OF refused] run_keeps_ends idle_account idle_reports [OF refused] idle_listing [OF refused] keeps_say)

lemma refused_step:
  assumes "bot_authorize (bv_control (tk_bot tk)) (operator_from_message m) = Some e"
    and "dialogue_step tk m c d = Some (r, d')" and "\<forall>cmd. c = Some cmd \<longrightarrow> cmd \<notin> session_commands"
    and "\<forall>f. dg_flow d = Some f \<longrightarrow> fw_state f \<notin> session_states"
  shows "dg_bot d' = dg_bot d"
proof -
  let ?P = "\<lambda>f s. s = dg_bot d"
  have P: "holds_of ?P d" by (simp add: holds_of_def)
  consider (command) cmd where "handle_command tk m cmd d = Some (r, d')" "cmd \<notin> session_commands"
    | (flow) st v where "ends (flow_step tk m st v) d = Some (r, d')" "st \<notin> session_states"
    using assms(2-4) by (auto simp: dialogue_step_def session_commands_def simp del: handle_command.simps split: option.splits)
  then have "holds_of ?P d'"
    by cases (use run_keepsD [OF idle_command [OF assms(1)] P] run_keepsD [OF run_keeps_ends [OF idle_flow_step [OF assms(1)]] P] in blast)+
  then show ?thesis by (simp add: holds_of_def)
qed

end
