(* ===== verification/Fsm_Store.thy ===== *)
theory Fsm_Store
  imports Effects
begin

text \<open>
  Where the bot keeps the dialogue of a user between two messages: the store in memory
  (\<open>extg_bot_ui/infrastructure/persistence/in_memory_fsm_state.py\<close>) and the one in the database
  (\<open>fsm_state_repository.py\<close>), which falls back to memory when its table is missing. The locale
  \<open>expiring_store\<close> is the contract of both; a sequence of operations gets the same answers from both.
\<close>

section \<open>The store in memory\<close>

type_synonym 'v fsm_items = "(string, 'v \<times> datetime option) dict"

definition expires_at :: "int option \<Rightarrow> datetime \<Rightarrow> datetime option" where
  "expires_at expire now = map_option (\<lambda>s. now + s * one_second) expire"

definition expired :: "datetime \<Rightarrow> datetime option \<Rightarrow> bool" where
  "expired now deadline \<longleftrightarrow> (case deadline of None \<Rightarrow> False | Some d \<Rightarrow> d \<le> now)"

definition memory_fsm_get :: "datetime \<Rightarrow> string \<Rightarrow> 'v fsm_items \<Rightarrow> 'v option \<times> 'v fsm_items" where
  "memory_fsm_get now k items =
    (case dict_get items k of
       None \<Rightarrow> (None, items)
     | Some (v, deadline) \<Rightarrow> if expired now deadline then (None, dict_pop k items) else (Some v, items))"

definition memory_fsm_set :: "datetime \<Rightarrow> string \<Rightarrow> 'v \<Rightarrow> int option \<Rightarrow> 'v fsm_items \<Rightarrow> 'v fsm_items" where
  "memory_fsm_set now k v expire items = dict_set k (v, expires_at expire now) items"

definition memory_fsm_delete :: "string \<Rightarrow> 'v fsm_items \<Rightarrow> 'v fsm_items" where
  "memory_fsm_delete k items = dict_pop k items"

section \<open>The store in the database\<close>

text \<open>
  A state is stored as the module, class and name of its enumeration member. \<open>fc_resolve\<close> imports the
  module and looks the member up, None when that raises.
\<close>

type_synonym state_name = "string \<times> string \<times> string"

record ('st, 'p) fsm_data =
  fd_state :: 'st
  fd_storage :: 'p

record 'st state_codec =
  fc_name :: "'st \<Rightarrow> state_name"
  fc_resolve :: "state_name \<Rightarrow> 'st option"

record 'p fsm_row =
  fr_state :: state_name
  fr_storage_payload :: 'p
  fr_expires_at :: "datetime option"
  fr_created_at :: datetime
  fr_updated_at :: datetime

record ('st, 'p) postgres_fsm =
  pf_rows :: "(string, 'p fsm_row) dict"
  pf_fallback :: "('st, 'p) fsm_data fsm_items"
  pf_schema_unavailable :: bool

text \<open>An exception of the database: its text, and the text and class of the driver's exception in it.\<close>

record database_error =
  de_text :: string
  de_orig :: "(string \<times> string) option"

definition contains :: "string \<Rightarrow> string \<Rightarrow> bool" where
  "contains part s \<longleftrightarrow> list_ex (\<lambda>i. take (length part) (drop i s) = part) [0..<Suc (length s)]"

definition should_fallback_to_memory :: "database_error \<Rightarrow> bool" where
  "should_fallback_to_memory e =
    (let orig = (case de_orig e of None \<Rightarrow> [] | Some (t, c) \<Rightarrow> '' '' @ t @ '' '' @ c);
         combined = py_lower (de_text e @ orig)
     in contains ''bot_fsm_state'' combined
        \<and> (contains ''does not exist'' combined \<or> contains ''undefinedtable'' combined
          \<or> contains ''no such table'' combined))"

text \<open>
  \<open>db i\<close> is what the \<open>i\<close>th statement of an operation raises, None when it works; a transaction that
  raises is rolled back. An operation that raises another exception of the database gives \<open>Inl\<close> with it.
\<close>

type_synonym database = "nat \<Rightarrow> database_error option"

definition postgres_fsm_get ::
    "'st state_codec \<Rightarrow> database \<Rightarrow> datetime \<Rightarrow> string \<Rightarrow> ('st, 'p) postgres_fsm
      \<Rightarrow> (database_error + ('st, 'p) fsm_data option) \<times> ('st, 'p) postgres_fsm" where
  "postgres_fsm_get codec db now k s =
    (let memory = \<lambda>s. case memory_fsm_get now k (pf_fallback s) of
           (found, items) \<Rightarrow> (Inr found, s\<lparr>pf_fallback := items\<rparr>);
         failed = \<lambda>e. if should_fallback_to_memory e then memory (s\<lparr>pf_schema_unavailable := True\<rparr>) else (Inl e, s);
         dropped = (case db 1 of Some e \<Rightarrow> failed e | None \<Rightarrow> (Inr None, s\<lparr>pf_rows := dict_pop k (pf_rows s)\<rparr>))
     in if pf_schema_unavailable s then memory s
        else case db 0 of
          Some e \<Rightarrow> failed e
        | None \<Rightarrow> (case dict_get (pf_rows s) k of
            None \<Rightarrow> (Inr None, s)
          | Some r \<Rightarrow>
              if expired now (fr_expires_at r) then dropped
              else case fc_resolve codec (fr_state r) of
                None \<Rightarrow> dropped
              | Some st \<Rightarrow> (Inr (Some \<lparr>fd_state = st, fd_storage = fr_storage_payload r\<rparr>), s)))"

text \<open>Its readings of the clock are those for the deadline, for a new row and for an update.\<close>

definition postgres_fsm_set ::
    "'st state_codec \<Rightarrow> database \<Rightarrow> datetime \<times> datetime \<times> datetime \<Rightarrow> string \<Rightarrow> ('st, 'p) fsm_data \<Rightarrow> int option
      \<Rightarrow> ('st, 'p) postgres_fsm \<Rightarrow> (database_error + unit) \<times> ('st, 'p) postgres_fsm" where
  "postgres_fsm_set codec db readings k v expire s =
    (case readings of (now, created, updated) \<Rightarrow>
     let memory = \<lambda>s. (Inr (), s\<lparr>pf_fallback := memory_fsm_set now k v expire (pf_fallback s)\<rparr>)
     in if pf_schema_unavailable s then memory s
        else case db 0 of
          Some e \<Rightarrow> if should_fallback_to_memory e then memory (s\<lparr>pf_schema_unavailable := True\<rparr>) else (Inl e, s)
        | None \<Rightarrow> (Inr (), s\<lparr>pf_rows := dict_set k \<lparr>fr_state = fc_name codec (fd_state v),
            fr_storage_payload = fd_storage v, fr_expires_at = expires_at expire now,
            fr_created_at = (case dict_get (pf_rows s) k of None \<Rightarrow> created | Some r \<Rightarrow> fr_created_at r),
            fr_updated_at = updated\<rparr> (pf_rows s)\<rparr>))"

definition postgres_fsm_delete ::
    "database \<Rightarrow> string \<Rightarrow> ('st, 'p) postgres_fsm \<Rightarrow> (database_error + unit) \<times> ('st, 'p) postgres_fsm" where
  "postgres_fsm_delete db k s =
    (let memory = \<lambda>s. (Inr (), s\<lparr>pf_fallback := memory_fsm_delete k (pf_fallback s)\<rparr>)
     in if pf_schema_unavailable s then memory s
        else case db 0 of
          Some e \<Rightarrow> if should_fallback_to_memory e then memory (s\<lparr>pf_schema_unavailable := True\<rparr>) else (Inl e, s)
        | None \<Rightarrow> (Inr (), s\<lparr>pf_rows := dict_pop k (pf_rows s)\<rparr>))"

section \<open>What a store promises\<close>

text \<open>\<open>view s k\<close> is what the store holds for a key, with its deadline.\<close>

locale expiring_store =
  fixes view :: "'s \<Rightarrow> string \<Rightarrow> ('v \<times> datetime option) option"
    and get_op :: "datetime \<Rightarrow> string \<Rightarrow> 's \<Rightarrow> 'v option \<times> 's"
    and set_op :: "datetime \<Rightarrow> string \<Rightarrow> 'v \<Rightarrow> int option \<Rightarrow> 's \<Rightarrow> 's"
    and delete_op :: "string \<Rightarrow> 's \<Rightarrow> 's"
    and ok :: "'s \<Rightarrow> bool"
  assumes get_answer: "ok s \<Longrightarrow> fst (get_op now k s) = (case view s k of None \<Rightarrow> None
      | Some (v, d) \<Rightarrow> if expired now d then None else Some v)"
    and get_view: "ok s \<Longrightarrow> view (snd (get_op now k s)) k' = (if k' = k then (case view s k of None \<Rightarrow> None
      | Some (v, d) \<Rightarrow> if expired now d then None else Some (v, d)) else view s k')"
    and set_view: "ok s \<Longrightarrow> view (set_op now k v expire s) k' =
      (if k' = k then Some (v, expires_at expire now) else view s k')"
    and delete_view: "ok s \<Longrightarrow> view (delete_op k s) k' = (if k' = k then None else view s k')"
    and ok_get: "ok s \<Longrightarrow> ok (snd (get_op now k s))"
    and ok_set: "ok s \<Longrightarrow> ok (set_op now k v expire s)"
    and ok_delete: "ok s \<Longrightarrow> ok (delete_op k s)"
begin

lemma get_after_set: "ok s \<Longrightarrow> \<not> expired now' (expires_at expire now) \<Longrightarrow>
  fst (get_op now' k (set_op now k v expire s)) = Some v"
  by (simp add: get_answer ok_set set_view)

lemma get_after_deadline: "ok s \<Longrightarrow> expired now' (expires_at expire now) \<Longrightarrow>
  fst (get_op now' k (set_op now k v expire s)) = None"
  by (simp add: get_answer ok_set set_view)

lemma get_after_delete: "ok s \<Longrightarrow> fst (get_op now k (delete_op k s)) = None"
  by (simp add: get_answer ok_delete delete_view)

end

text \<open>A sequence of operations, with the answers to its gets.\<close>

datatype 'v store_op = StoreGet datetime string | StoreSet datetime string 'v "int option" | StoreDelete string

fun store_answers ::
    "(datetime \<Rightarrow> string \<Rightarrow> 's \<Rightarrow> 'v option \<times> 's) \<Rightarrow> (datetime \<Rightarrow> string \<Rightarrow> 'v \<Rightarrow> int option \<Rightarrow> 's \<Rightarrow> 's)
      \<Rightarrow> (string \<Rightarrow> 's \<Rightarrow> 's) \<Rightarrow> 'v store_op list \<Rightarrow> 's \<Rightarrow> 'v option list" where
  "store_answers get_op set_op delete_op [] s = []"
| "store_answers get_op set_op delete_op (StoreGet now k # ops) s =
    fst (get_op now k s) # store_answers get_op set_op delete_op ops (snd (get_op now k s))"
| "store_answers get_op set_op delete_op (StoreSet now k v expire # ops) s =
    store_answers get_op set_op delete_op ops (set_op now k v expire s)"
| "store_answers get_op set_op delete_op (StoreDelete k # ops) s =
    store_answers get_op set_op delete_op ops (delete_op k s)"

text \<open>Two stores that hold the same answer every sequence alike.\<close>

locale two_stores = one: expiring_store view1 get1 set1 delete1 ok1 + other: expiring_store view2 get2 set2 delete2 ok2
  for view1 :: "'s \<Rightarrow> string \<Rightarrow> ('v \<times> datetime option) option" and get1 set1 delete1 ok1
    and view2 :: "'t \<Rightarrow> string \<Rightarrow> ('v \<times> datetime option) option" and get2 set2 delete2 ok2
begin

lemma same_answers:
  assumes "ok1 s" and "ok2 t" and "view1 s = view2 t"
  shows "store_answers get1 set1 delete1 ops s = store_answers get2 set2 delete2 ops t"
  using assms
proof (induction ops arbitrary: s t)
  case (Cons op ops)
  show ?case
  proof (cases op)
    case (StoreGet now k)
    have "view1 (snd (get1 now k s)) = view2 (snd (get2 now k t))"
      using Cons.prems by (intro ext) (simp add: one.get_view other.get_view)
    with Cons StoreGet show ?thesis
      by (simp add: one.get_answer other.get_answer one.ok_get other.ok_get)
  next
    case (StoreSet now k v expire)
    have "view1 (set1 now k v expire s) = view2 (set2 now k v expire t)"
      using Cons.prems by (intro ext) (simp add: one.set_view other.set_view)
    with Cons StoreSet show ?thesis by (simp add: one.ok_set other.ok_set)
  next
    case (StoreDelete k)
    have "view1 (delete1 k s) = view2 (delete2 k t)"
      using Cons.prems by (intro ext) (simp add: one.delete_view other.delete_view)
    with Cons StoreDelete show ?thesis by (simp add: one.ok_delete other.ok_delete)
  qed
qed simp

end

section \<open>Both stores keep the promise\<close>

interpretation memory_fsm: expiring_store dict_get memory_fsm_get memory_fsm_set memory_fsm_delete dict_ok
  by unfold_locales
    (auto simp: memory_fsm_get_def memory_fsm_set_def memory_fsm_delete_def split: option.splits)

text \<open>
  The database store, when either every statement works or the table is missing from the start. Names
  resolve to the states they were made of.
\<close>

definition codec_lawful :: "'st state_codec \<Rightarrow> bool" where
  "codec_lawful codec \<longleftrightarrow> (\<forall>st. fc_resolve codec (fc_name codec st) = Some st)"

definition row_view :: "'st state_codec \<Rightarrow> 'p fsm_row \<Rightarrow> (('st, 'p) fsm_data \<times> datetime option) option" where
  "row_view codec r = map_option (\<lambda>st. (\<lparr>fd_state = st, fd_storage = fr_storage_payload r\<rparr>, fr_expires_at r))
    (fc_resolve codec (fr_state r))"

definition postgres_view ::
    "'st state_codec \<Rightarrow> ('st, 'p) postgres_fsm \<Rightarrow> string \<Rightarrow> (('st, 'p) fsm_data \<times> datetime option) option" where
  "postgres_view codec s k = (if pf_schema_unavailable s then dict_get (pf_fallback s) k
    else Option.bind (dict_get (pf_rows s) k) (row_view codec))"

definition postgres_init :: "('st, 'p) postgres_fsm" where
  "postgres_init = \<lparr>pf_rows = [], pf_fallback = [], pf_schema_unavailable = False\<rparr>"

text \<open>A database is working, or lacks the table: then all statements raise an error that says so.\<close>

definition steady_database :: "database \<Rightarrow> ('st, 'p) postgres_fsm \<Rightarrow> bool" where
  "steady_database db s \<longleftrightarrow> dict_ok (pf_rows s) \<and> dict_ok (pf_fallback s)
    \<and> (if db 0 = None then db 1 = None \<and> \<not> pf_schema_unavailable s
       else (\<exists>e. db 0 = Some e \<and> should_fallback_to_memory e)
         \<and> (pf_schema_unavailable s \<or> pf_rows s = [] \<and> pf_fallback s = []))"

text \<open>The operations without the errors, which a steady database does not raise.\<close>

definition steady_get ::
    "'st state_codec \<Rightarrow> database \<Rightarrow> datetime \<Rightarrow> string \<Rightarrow> ('st, 'p) postgres_fsm
      \<Rightarrow> ('st, 'p) fsm_data option \<times> ('st, 'p) postgres_fsm" where
  "steady_get codec db now k s =
    (case postgres_fsm_get codec db now k s of (r, s') \<Rightarrow> (case r of Inl _ \<Rightarrow> None | Inr v \<Rightarrow> v, s'))"

definition steady_set ::
    "'st state_codec \<Rightarrow> database \<Rightarrow> datetime \<Rightarrow> string \<Rightarrow> ('st, 'p) fsm_data \<Rightarrow> int option
      \<Rightarrow> ('st, 'p) postgres_fsm \<Rightarrow> ('st, 'p) postgres_fsm" where
  "steady_set codec db now k v expire s = snd (postgres_fsm_set codec db (now, now, now) k v expire s)"

definition steady_delete :: "database \<Rightarrow> string \<Rightarrow> ('st, 'p) postgres_fsm \<Rightarrow> ('st, 'p) postgres_fsm" where
  "steady_delete db k s = snd (postgres_fsm_delete db k s)"

lemmas postgres_defs = steady_get_def steady_set_def steady_delete_def postgres_fsm_get_def postgres_fsm_set_def
  postgres_fsm_delete_def memory_fsm_get_def memory_fsm_set_def memory_fsm_delete_def

lemma row_view_made:
  assumes "codec_lawful codec"
  shows "row_view codec \<lparr>fr_state = fc_name codec (fd_state v), fr_storage_payload = fd_storage v,
    fr_expires_at = d, fr_created_at = c, fr_updated_at = u\<rparr> = Some (v, d)"
  using assms by (simp add: row_view_def codec_lawful_def)

text \<open>The database as it is when an operation begins.\<close>

lemma steady_cases:
  assumes "steady_database db s"
  obtains (works) "dict_ok (pf_rows s)" "db 0 = None" "db 1 = None" "\<not> pf_schema_unavailable s"
  | (missing) e where "dict_ok (pf_rows s)" "dict_ok (pf_fallback s)" "db 0 = Some e" "should_fallback_to_memory e"
      "pf_schema_unavailable s \<or> pf_rows s = [] \<and> pf_fallback s = []"
  using assms by (auto simp: steady_database_def split: if_splits)

interpretation postgres_fsm: expiring_store "postgres_view codec" "steady_get codec db" "steady_set codec db"
    "steady_delete db" "\<lambda>s. codec_lawful codec \<and> steady_database db s"
  for codec :: "'st state_codec" and db
proof unfold_locales
  fix s :: "('st, 'p) postgres_fsm" and now k k'
  assume ok: "codec_lawful codec \<and> steady_database db s"
  show "fst (steady_get codec db now k s) = (case postgres_view codec s k of None \<Rightarrow> None
      | Some (v, d) \<Rightarrow> if expired now d then None else Some v)"
    using conjunct2 [OF ok]
    by (cases rule: steady_cases)
      (auto simp: postgres_defs postgres_view_def row_view_def Let_def split: option.splits)
  show "postgres_view codec (snd (steady_get codec db now k s)) k' = (if k' = k then (case postgres_view codec s k of
      None \<Rightarrow> None | Some (v, d) \<Rightarrow> if expired now d then None else Some (v, d)) else postgres_view codec s k')"
    using conjunct2 [OF ok]
    by (cases rule: steady_cases)
      (auto simp: postgres_defs postgres_view_def row_view_def Let_def split: option.splits)
  show "postgres_view codec (steady_delete db k s) k' = (if k' = k then None else postgres_view codec s k')"
    using conjunct2 [OF ok]
    by (cases rule: steady_cases) (auto simp: postgres_defs postgres_view_def Let_def)
  show "codec_lawful codec \<and> steady_database db (snd (steady_get codec db now k s))"
    using ok by (auto simp: postgres_defs steady_database_def Let_def split: option.splits if_splits)
  show "codec_lawful codec \<and> steady_database db (steady_delete db k s)"
    using ok by (auto simp: postgres_defs steady_database_def Let_def split: option.splits if_splits)
next
  fix s :: "('st, 'p) postgres_fsm" and now k v expire k'
  assume ok: "codec_lawful codec \<and> steady_database db s"
  show "postgres_view codec (steady_set codec db now k v expire s) k' =
      (if k' = k then Some (v, expires_at expire now) else postgres_view codec s k')"
    using conjunct2 [OF ok]
    by (cases rule: steady_cases)
      (use row_view_made [OF conjunct1 [OF ok]] in \<open>auto simp: postgres_defs postgres_view_def Let_def\<close>)
  show "codec_lawful codec \<and> steady_database db (steady_set codec db now k v expire s)"
    using ok by (auto simp: postgres_defs steady_database_def Let_def split: option.splits if_splits)
qed

interpretation fsm_stores: two_stores dict_get memory_fsm_get memory_fsm_set memory_fsm_delete dict_ok
    "postgres_view codec" "steady_get codec db" "steady_set codec db" "steady_delete db"
    "\<lambda>s. codec_lawful codec \<and> steady_database db s"
  for codec :: "'st state_codec" and db ..

lemma postgres_view_init: "postgres_view codec postgres_init = dict_get []"
  by (intro ext) (simp add: postgres_view_def postgres_init_def)

lemma steady_init: "db 0 = None \<and> db 1 = None \<or> (\<exists>e. db 0 = Some e \<and> should_fallback_to_memory e)
    \<Longrightarrow> steady_database db postgres_init"
  by (auto simp: steady_database_def postgres_init_def)

end
