(* ===== verification/Dialogue_Properties.thy ===== *)
theory Dialogue_Properties
  imports Bot_Properties Dialogue_Facts Fsm_Store
begin

text \<open>
  The properties of the bot's dialogues and of the stores that keep them, applied to concrete values.
\<close>

section \<open>Examples\<close>

definition ex_talk :: "int talk_services" where
  "ex_talk = \<lparr>tk_desk = ex_desk, tk_default_batch_size = 50,
     tk_request = (\<lambda>w. (\<lambda>_ _. Inl (RequestRaised (RecoverableItemError ''no network'')), w)),
     tk_login_code = (\<lambda>w. (ex_login, w)), tk_login_password = (\<lambda>w. (ex_login, w)),
     tk_cancel_readings = (\<lambda>w. ((\<lambda>_. 0, \<lambda>_. 0, 0), w))\<rparr>"

definition ex_incoming :: "string \<Rightarrow> string \<Rightarrow> incoming_message" where
  "ex_incoming huid body = \<lparr>in_context = ex_place, in_body = Some body, in_argument = [], in_huid = huid,
     in_chat_id = ''d'', in_username = None, in_ad_login = None, in_ad_domain = None, in_bot_host = None,
     in_bot_id = None, in_mentioned_users = [], in_mentioned_chats = [], in_mentioned_channels = [], in_file = None\<rparr>"

definition ex_dialogue :: "flow_state \<Rightarrow> flow_storage \<Rightarrow> int dialogue" where
  "ex_dialogue st v = \<lparr>dg_bot = ex_bot_start,
     dg_flow = Some \<lparr>fw_state = st, fw_ttl_seconds = wizard_ttl_seconds, fw_storage = v\<rparr>, dg_said = []\<rparr>"

lemma ex_choices: "message_choice (ex_incoming h '' /CANCEL '') = ''/cancel''" "message_choice (ex_incoming h ''skip'') = ''skip''"
    "message_choice (ex_incoming h ''link'') = ''link''" "message_choice (ex_incoming h ''off'') = ''off''"
    "message_choice (ex_incoming h ''none'') = ''none''" "message_choice (ex_incoming h ''start'') = ''start''"
proof -
  have "normalized_choice (py_strip '' /CANCEL '') = ''/cancel''" "normalized_choice (py_strip ''skip'') = ''skip''"
    "normalized_choice (py_strip ''link'') = ''link''" "normalized_choice (py_strip ''off'') = ''off''"
    "normalized_choice (py_strip ''none'') = ''none''" "normalized_choice (py_strip ''start'') = ''start''"
    by code_simp+
  then show "message_choice (ex_incoming h '' /CANCEL '') = ''/cancel''" "message_choice (ex_incoming h ''skip'') = ''skip''"
    "message_choice (ex_incoming h ''link'') = ''link''" "message_choice (ex_incoming h ''off'') = ''off''"
    "message_choice (ex_incoming h ''none'') = ''none''" "message_choice (ex_incoming h ''start'') = ''start''"
    by (simp_all add: message_choice_def message_text_def ex_incoming_def or_empty_def)
qed

section \<open>Leaving a flow\<close>

lemma lower_text_choice: "py_lower (message_text m) = message_choice m"
  by (simp add: message_choice_def normalized_choice_def message_text_def)

lemma normalized_text_choice: "normalized_choice (message_text m) = message_choice m"
  by (simp add: message_choice_def)

lemmas wizard_steps = select_chat_def select_members_chat_def input_chat_members_workbook_def input_archive_import_def
  input_private_peer_def input_group_topic_strategy_def input_group_identity_matrix_def
  input_channel_identity_matrix_def input_channel_access_strategy_def input_from_def input_to_def input_media_def
  input_reply_def confirm_def input_phone_def input_code_def input_password_def

text \<open>
  A user can leave every flow: whatever its state and its values, \<open>cancel\<close> or \<open>/cancel\<close> in any case
  removes the flow, says so in one reply and changes nothing else.
\<close>

theorem cancel_leaves_flow:
  assumes "is_cancel (message_choice m)"
  shows "\<exists>line. flow_step tk m st v d = (Inr (), d\<lparr>dg_flow := None,
    dg_said := dg_said d @ [\<lparr>rp_lines = [line], rp_file = None, rp_keyboard = []\<rparr>]\<rparr>)"
proof -
  have "\<not> is_skip (message_choice m)" using assms by (auto simp: is_cancel_def is_skip_def)
  moreover have "flow_step tk m st v = (if st \<in> session_states then cancel_connection else wizard_cancel)"
    using assms calculation
    by (cases st) (simp_all add: wizard_steps lower_text_choice normalized_text_choice session_states_def Let_def)
  ultimately show ?thesis
    by (auto simp: cancel_connection_def wizard_cancel_def bind_def drop_state_def say_def say_with_def modify_def)
qed

theorem cancel_leaves_flow_witness:
  "\<exists>line. flow_step ex_talk (ex_incoming ''op'' '' /CANCEL '') InputMedia no_values (ex_dialogue InputMedia no_values)
    = (Inr (), (ex_dialogue InputMedia no_values)\<lparr>dg_flow := None,
       dg_said := [\<lparr>rp_lines = [line], rp_file = None, rp_keyboard = []\<rparr>]\<rparr>)"
proof -
  have "is_cancel (message_choice (ex_incoming ''op'' '' /CANCEL ''))" by (simp add: ex_choices is_cancel_def)
  from cancel_leaves_flow [OF this, of ex_talk InputMedia no_values "ex_dialogue InputMedia no_values"]
  show ?thesis by (simp add: ex_dialogue_def)
qed

section \<open>The values of a flow\<close>

text \<open>
  C10: In every dialogue - commands and answers in any order, flows that expire, errors at any point - a
  flow that waits for a peer, topics, the matrix of a group or a channel, a workbook of members, the
  window, the media, the replies or the confirmation knows its chat, and one that waits for a code or a
  password knows its challenge. The one other state whose step reads the chat of the flow is that of the
  access to a channel; it can lack the chat, as the next property shows.
\<close>

theorem reachable_flow_complete:
  assumes "dialogue_reachable tk d" and "dg_flow d = Some f"
  shows "(fw_state f \<in> chat_states \<longrightarrow> fl_source_chat_id (fw_storage f) \<noteq> None)
    \<and> (fw_state f \<in> challenge_states \<longrightarrow> fl_challenge_id (fw_storage f) \<noteq> None)"
  using dialogue_reachable_complete [OF assms(1)] assms(2) by (simp add: flow_complete_def values_complete_def)

text \<open>An operator asks for the migration of a forum whose topics are not decided on yet.\<close>

definition ex_forum_talk :: "int talk_services" where
  "ex_forum_talk = ex_talk\<lparr>tk_desk := ex_desk\<lparr>dk_bot := ex_bot\<lparr>
     bv_source_dialog := (\<lambda>_ _ _. ret (Some (ex_source_dialog\<lparr>sd_has_topics := True\<rparr>)))\<rparr>\<rparr>\<rparr>"

definition ex_forum_start :: "int dialogue" where
  "ex_forum_start = \<lparr>dg_bot = ex_connected\<lparr>bt_configs := []\<rparr>, dg_flow = None, dg_said = []\<rparr>"

definition ex_forum_request :: incoming_message where
  "ex_forum_request = (ex_incoming ''op'' [])\<lparr>in_argument := ''c''\<rparr>"

definition ex_forum_asked :: "(error, unit) outcome \<times> int dialogue" where
  "ex_forum_asked = (case dialogue_step ex_forum_talk ex_forum_request (Some MigrateCommand) ex_forum_start of
     Some q \<Rightarrow> q | None \<Rightarrow> (Inr (), ex_forum_start))"

lemma ex_forum_flow: "(case dg_flow (snd ex_forum_asked) of None \<Rightarrow> False | Some f \<Rightarrow> fw_state f = InputGroupTopicStrategy)"
  by code_simp

lemma ex_forum_reachable: "dialogue_reachable ex_forum_talk (snd ex_forum_asked)"
proof -
  have "dialogue_reachable ex_forum_talk ex_forum_start"
    by (rule dialogue_reachable.fresh) (simp add: ex_forum_start_def)
  then show ?thesis
    by (auto simp: ex_forum_asked_def split: option.split intro: dialogue_reachable.message)
qed

theorem reachable_flow_complete_witness:
  "case dg_flow (snd ex_forum_asked) of None \<Rightarrow> False
   | Some f \<Rightarrow> fw_state f = InputGroupTopicStrategy \<and> fl_source_chat_id (fw_storage f) \<noteq> None"
proof -
  obtain f where f: "dg_flow (snd ex_forum_asked) = Some f" "fw_state f = InputGroupTopicStrategy"
    using ex_forum_flow by (auto split: option.splits)
  moreover have "InputGroupTopicStrategy \<in> chat_states" by (simp add: chat_states_def)
  ultimately show ?thesis using reachable_flow_complete [OF ex_forum_reachable f(1)] by simp
qed

text \<open>
  C11: the step that asks for the access to a channel is the exception: when it follows the matrix of a
  channel's members, the chat is forgotten, and every valid answer raises an attribute error and
  starts nothing. The flow stays where it is, so the migration of such a channel never begins.
\<close>

theorem channel_access_never_starts:
  assumes "dg_flow d = Some f" and "fw_state f = InputChannelIdentityMatrix"
    and "\<not> truthy (fl_access_strategy (fw_storage f))" and "is_skip (message_choice m)"
    and "message_choice n \<in> {''direct_add'', ''direct'', ''invite_link'', ''invite'', ''link''}"
  shows "\<exists>d' t. dialogue_step tk m None d = Some (Inr (), d') \<and> dg_bot d' = dg_bot d
    \<and> dialogue_step tk n None d' = Some (Inl (OtherError ''AttributeError'' t), d')"
proof -
  let ?v = "(wizard_state_payload (fw_storage f))\<lparr>fl_identity_policy := Some ''skip_unresolved''\<rparr>"
  define d' where "d' = snd (prompt_channel_access_strategy (fw_storage f) (Some ''skip_unresolved'') d)"
  have first: "dialogue_step tk m None d = Some (Inr (), d')"
    using assms(1-4)
    by (simp add: dialogue_step_def ends_def input_channel_identity_matrix_def d'_def prompt_channel_access_strategy_def
        enter_def change_state_def bind_def modify_def say_with_def)
  have after: "dg_bot d' = dg_bot d"
    "dg_flow d' = Some \<lparr>fw_state = InputChannelAccessStrategy, fw_ttl_seconds = wizard_ttl_seconds, fw_storage = ?v\<rparr>"
    by (simp_all add: d'_def prompt_channel_access_strategy_def enter_def change_state_def bind_def modify_def say_with_def)
  have lost: "bind (stored_chat ?v) go s
      = (Inl (OtherError ''AttributeError'' ''types.SimpleNamespace object has no attribute source_chat_id''), s)" for go s
    by (simp add: stored_chat_def required_def wizard_state_payload_def throw_def)
  have "\<not> is_cancel (message_choice n)" using assms(5) by (auto simp: is_cancel_def)
  then have "\<exists>t. flow_step tk n InputChannelAccessStrategy ?v d' = (Inl (OtherError ''AttributeError'' t), d')"
    using assms(5)
    by (auto simp: input_channel_access_strategy_def Let_def start_command_migration_from_state_def start_from_flow_def
        lost try_showing_def bind_assoc catch_error_def user_visible_def bind_def [of "catch_error m h" for m h])
  with first after show ?thesis by (auto simp: dialogue_step_def ends_def)
qed

theorem channel_access_never_starts_witness:
  "\<exists>d' t. dialogue_step ex_talk (ex_incoming ''op'' ''skip'') None
      (ex_dialogue InputChannelIdentityMatrix (channel_payload ''c'' (Some default_run_options))) = Some (Inr (), d')
    \<and> dialogue_step ex_talk (ex_incoming ''op'' ''link'') None d' = Some (Inl (OtherError ''AttributeError'' t), d')"
proof -
  let ?v = "channel_payload ''c'' (Some default_run_options)"
  let ?f = "\<lparr>fw_state = InputChannelIdentityMatrix, fw_ttl_seconds = wizard_ttl_seconds, fw_storage = ?v\<rparr>"
  have flow: "dg_flow (ex_dialogue InputChannelIdentityMatrix ?v) = Some ?f" by (simp add: ex_dialogue_def)
  have open_access: "\<not> truthy (fl_access_strategy (fw_storage ?f))"
    by (simp add: channel_payload_def default_run_options_def truthy_def)
  have state: "fw_state ?f = InputChannelIdentityMatrix" by simp
  have skip: "is_skip (message_choice (ex_incoming ''op'' ''skip''))" by (simp add: ex_choices is_skip_def)
  have link: "message_choice (ex_incoming ''op'' ''link'') \<in> {''direct_add'', ''direct'', ''invite_link'', ''invite'', ''link''}"
    by (simp add: ex_choices)
  show ?thesis using channel_access_never_starts [OF flow state open_access skip link, of ex_talk] by blast
qed

section \<open>From the answers to the migration\<close>

lemma try_service_bot:
  assumes "\<And>a b. idles b (go a)"
  shows "dg_bot (snd (try_service m go d)) = snd (m (dg_bot d))"
proof (cases "m (dg_bot d)")
  case (Pair r s)
  show ?thesis
  proof (cases r)
    case (Inl e)
    with Pair show ?thesis
      by (simp add: try_service_def try_showing_def catch_error_def bind_def in_bot_def on_part_def ret_def say_def
          say_with_def modify_def)
  next
    case (Inr a)
    have "dg_bot (snd (go a (d\<lparr>dg_bot := s\<rparr>))) = s"
      using assms [of s a] by (auto simp: talk_keeps_def holds_of_def)
    with Pair Inr show ?thesis
      by (simp add: try_service_def try_showing_def catch_error_def bind_def in_bot_def on_part_def ret_def)
  qed
qed

text \<open>The options that the five answers of the wizard, and what the flow knew before, amount to.\<close>

definition answered_options ::
    "int \<Rightarrow> flow_storage \<Rightarrow> string option \<Rightarrow> string option \<Rightarrow> bool \<Rightarrow> string \<Rightarrow> string \<Rightarrow> migration_run_options" where
  "answered_options n v from_text to_text media reply_mode policy =
    \<lparr>ro_include_from = from_text, ro_include_to = to_text, ro_migrate_media = Some media, ro_reply_mode = Some reply_mode,
     ro_source_backend = fl_source_backend v, ro_target_strategy = None, ro_target_title = None, ro_target_chat_id = None,
     ro_identity_policy = fl_identity_policy v, ro_access_strategy = fl_access_strategy v,
     ro_topic_strategy = fl_topic_strategy v, ro_skip_in_all = None, ro_progress_policy = policy, ro_batch_size = Some n\<rparr>"

lemma dialogue_flow_step:
  assumes "dg_flow d = Some f" and "flow_step tk m (fw_state f) (fw_storage f) d = (r, d')"
  shows "dialogue_steps tk ((m, None) # ms) d = dialogue_steps tk ms d'"
  using assms by (simp add: dialogue_step_def ends_def)

lemma parse_on_off_choice: "parse_on_off s = Some b \<Longrightarrow> \<not> is_cancel s"
  by (auto simp: parse_on_off_def is_cancel_def split: if_splits)

lemma answers_give_options:
  assumes "dg_flow d = Some f" and "fw_state f = InputFrom" and "fl_source_chat_id (fw_storage f) = Some chat"
    and "\<not> is_cancel (message_choice m1)" and "\<not> is_cancel (message_choice m2)"
    and "parse_on_off (message_choice m3) = Some media" and "message_choice m4 \<in> {''inline_quote'', ''source_id'', ''none''}"
  shows "\<exists>d' w. dialogue_steps tk ((m1, None) # (m2, None) # (m3, None) # (m4, None) # ms) d = dialogue_steps tk ms d'
    \<and> dg_bot d' = dg_bot d
    \<and> dg_flow d' = Some \<lparr>fw_state = Confirm, fw_ttl_seconds = wizard_ttl_seconds, fw_storage = w\<rparr>
    \<and> fl_source_chat_id w = Some chat
    \<and> (\<forall>n c. confirmed_options n w c = answered_options n (fw_storage f) (text_or_skip m1) (text_or_skip m2) media
         (message_choice m4) (if c = ''resume'' then ''resume'' else ''ask''))"
proof -
  note step_defs = bind_def stored_chat_def required_def ret_def enter_def change_state_def modify_def say_def say_with_def
    wizard_state_payload_def
  have c3: "\<not> is_cancel (message_choice m3)" using assms(6) by (rule parse_on_off_choice)
  have c4: "\<not> is_cancel (message_choice m4)" using assms(7) by (auto simp: is_cancel_def)
  define d1 where "d1 = snd (input_from m1 (fw_storage f) d)"
  define v1 where "v1 = (wizard_state_payload (fw_storage f))\<lparr>fl_source_chat_id := Some chat, fl_include_from := text_or_skip m1\<rparr>"
  define d2 where "d2 = snd (input_to m2 v1 d1)"
  define v2 where "v2 = (wizard_state_payload v1)\<lparr>fl_source_chat_id := Some chat, fl_include_from := text_or_skip m1,
    fl_include_to := text_or_skip m2\<rparr>"
  define d3 where "d3 = snd (input_media m3 v2 d2)"
  define v3 where "v3 = (wizard_state_payload v2)\<lparr>fl_source_chat_id := Some chat, fl_include_from := text_or_skip m1,
    fl_include_to := text_or_skip m2, fl_migrate_media := Some (Some media)\<rparr>"
  define d4 where "d4 = snd (input_reply m4 v3 d3)"
  define v4 where "v4 = (wizard_state_payload v3)\<lparr>fl_source_chat_id := Some chat, fl_include_from := text_or_skip m1,
    fl_include_to := text_or_skip m2, fl_migrate_media := Some (Some media), fl_reply_mode := Some (Some (message_choice m4))\<rparr>"
  have s1: "flow_step tk m1 InputFrom (fw_storage f) d = (Inr (), d1)" "dg_bot d1 = dg_bot d"
      "dg_flow d1 = Some \<lparr>fw_state = InputTo, fw_ttl_seconds = wizard_ttl_seconds, fw_storage = v1\<rparr>"
    using assms(3,4) by (simp_all add: d1_def v1_def input_from_def step_defs)
  have s2: "flow_step tk m2 InputTo v1 d1 = (Inr (), d2)" "dg_bot d2 = dg_bot d1"
      "dg_flow d2 = Some \<lparr>fw_state = InputMedia, fw_ttl_seconds = wizard_ttl_seconds, fw_storage = v2\<rparr>"
    using assms(5) by (simp_all add: d2_def v2_def v1_def input_to_def step_defs)
  have s3: "flow_step tk m3 InputMedia v2 d2 = (Inr (), d3)" "dg_bot d3 = dg_bot d2"
      "dg_flow d3 = Some \<lparr>fw_state = InputReply, fw_ttl_seconds = wizard_ttl_seconds, fw_storage = v3\<rparr>"
    using assms(6) c3 by (simp_all add: d3_def v3_def v2_def input_media_def step_defs)
  have s4: "flow_step tk m4 InputReply v3 d3 = (Inr (), d4)" "dg_bot d4 = dg_bot d3"
      "dg_flow d4 = Some \<lparr>fw_state = Confirm, fw_ttl_seconds = wizard_ttl_seconds, fw_storage = v4\<rparr>"
    using assms(7) c4 by (simp_all add: d4_def v4_def v3_def input_reply_def step_defs attribute_or_def Let_def)
  have "dialogue_steps tk ((m1, None) # (m2, None) # (m3, None) # (m4, None) # ms) d = dialogue_steps tk ms d4"
    using s1 s2 s3 s4 assms(1,2) by (simp add: dialogue_flow_step del: dialogue_steps.simps)
  moreover have "confirmed_options n v4 c = answered_options n (fw_storage f) (text_or_skip m1) (text_or_skip m2) media
      (message_choice m4) (if c = ''resume'' then ''resume'' else ''ask'')" for n c
    by (simp add: confirmed_options_def answered_options_def v4_def v3_def v2_def v1_def wizard_state_payload_def
        attribute_or_def default_run_options_def)
  moreover have "fl_source_chat_id v4 = Some chat" by (simp add: v4_def)
  ultimately show ?thesis using s1(2) s2(2) s3(2) s4(2,3) by metis
qed

text \<open>
  C9: the wizard does what it was told: after the answers to its last five questions the bot has done
  exactly this: configured the chat the flow was about, and started its migration, with the window, the
  media and the reply mode that were answered and what the flow knew before, for the operator who
  confirmed.
\<close>

theorem wizard_answers_are_used:
  assumes "dg_flow d = Some f" and "fw_state f = InputFrom" and "fl_source_chat_id (fw_storage f) = Some chat"
    and "\<not> is_cancel (message_choice m1)" and "\<not> is_cancel (message_choice m2)"
    and "parse_on_off (message_choice m3) = Some media" and "message_choice m4 \<in> {''inline_quote'', ''source_id'', ''none''}"
    and "message_choice m5 \<in> {''start'', ''resume''}"
    and "opts = answered_options (tk_default_batch_size tk) (fw_storage f) (text_or_skip m1) (text_or_skip m2) media
      (message_choice m4) (if message_choice m5 = ''resume'' then ''resume'' else ''ask'')"
  shows "\<exists>d'. dialogue_steps tk [(m1, None), (m2, None), (m3, None), (m4, None), (m5, None)] d = Some d'
    \<and> dg_bot d' = snd (bind (configure_chat (tk_bot tk) (in_context m5) (operator_from_message m5) chat opts)
        (\<lambda>_. start_migrate_chat (tk_bot tk) (in_context m5) (operator_from_message m5) chat opts) (dg_bot d))"
proof -
  obtain d4 w where steps: "dialogue_steps tk [(m1, None), (m2, None), (m3, None), (m4, None), (m5, None)] d
        = dialogue_steps tk [(m5, None)] d4"
      and bot: "dg_bot d4 = dg_bot d"
      and flow: "dg_flow d4 = Some \<lparr>fw_state = Confirm, fw_ttl_seconds = wizard_ttl_seconds, fw_storage = w\<rparr>"
      and w: "fl_source_chat_id w = Some chat" "confirmed_options (tk_default_batch_size tk) w (message_choice m5) = opts"
    using answers_give_options [OF assms(1-7), of tk "[(m5, None)]"] assms(9) by blast
  have "\<not> is_cancel (message_choice m5)" using assms(8) by (auto simp: is_cancel_def)
  let ?go = "\<lambda>r. if ar_status r = ''blocked'' then say (format_blocked_result r)
    else bind drop_state (\<lambda>_. say (format_start_result r))"
  have "flow_step tk m5 Confirm w d4 = try_service (bind (configure_chat (tk_bot tk) (in_context m5) (operator_from_message m5) chat opts)
      (\<lambda>_. start_migrate_chat (tk_bot tk) (in_context m5) (operator_from_message m5) chat opts)) ?go d4"
    using w assms(8) \<open>\<not> is_cancel (message_choice m5)\<close>
    by (auto simp: confirm_def Let_def stored_chat_def required_def)
  moreover have idle: "idles b (?go r)" for r b by (auto intro!: talk_keeps_bind keeps_say idle_flow)
  ultimately have "dg_bot (snd (flow_step tk m5 Confirm w d4))
      = snd (bind (configure_chat (tk_bot tk) (in_context m5) (operator_from_message m5) chat opts)
        (\<lambda>_. start_migrate_chat (tk_bot tk) (in_context m5) (operator_from_message m5) chat opts) (dg_bot d))"
    using try_service_bot [where go = ?go and d = d4, OF idle] bot by (simp only:)
  moreover have "dialogue_steps tk [(m5, None)] d4 = Some (snd (flow_step tk m5 Confirm w d4))"
    using flow by (simp add: dialogue_step_def ends_def split_beta)
  ultimately show ?thesis using steps by auto
qed

lemma ex_answers: "\<not> is_cancel (message_choice (ex_incoming h ''skip''))"
    "parse_on_off (message_choice (ex_incoming h ''off'')) = Some False"
    "message_choice (ex_incoming h ''none'') \<in> {''inline_quote'', ''source_id'', ''none''}"
    "message_choice (ex_incoming h ''start'') \<in> {''start'', ''resume''}"
  by (simp_all add: ex_choices is_cancel_def parse_on_off_def)

theorem wizard_answers_are_used_witness:
  "\<exists>d'. dialogue_steps ex_talk [(ex_incoming ''op'' ''skip'', None), (ex_incoming ''op'' ''skip'', None),
      (ex_incoming ''op'' ''off'', None), (ex_incoming ''op'' ''none'', None), (ex_incoming ''op'' ''start'', None)]
      (ex_dialogue InputFrom (no_values\<lparr>fl_source_chat_id := Some ''c''\<rparr>)) = Some d'
    \<and> dg_bot d' = snd (bind (configure_chat (tk_bot ex_talk) (in_context (ex_incoming ''op'' ''start''))
          (operator_from_message (ex_incoming ''op'' ''start'')) ''c''
          (answered_options 50 (no_values\<lparr>fl_source_chat_id := Some ''c''\<rparr>) None None False ''none'' ''ask''))
        (\<lambda>_. start_migrate_chat (tk_bot ex_talk) (in_context (ex_incoming ''op'' ''start''))
          (operator_from_message (ex_incoming ''op'' ''start'')) ''c''
          (answered_options 50 (no_values\<lparr>fl_source_chat_id := Some ''c''\<rparr>) None None False ''none'' ''ask'')) ex_bot_start)"
proof -
  let ?v = "no_values\<lparr>fl_source_chat_id := Some ''c''\<rparr>"
  let ?f = "\<lparr>fw_state = InputFrom, fw_ttl_seconds = wizard_ttl_seconds, fw_storage = ?v\<rparr>"
  have flow: "dg_flow (ex_dialogue InputFrom ?v) = Some ?f" and bot: "dg_bot (ex_dialogue InputFrom ?v) = ex_bot_start"
    by (simp_all add: ex_dialogue_def)
  have state: "fw_state ?f = InputFrom" and chat: "fl_source_chat_id (fw_storage ?f) = Some ''c''" by simp_all
  have opts: "answered_options 50 ?v None None False ''none'' ''ask''
    = answered_options (tk_default_batch_size ex_talk) (fw_storage ?f) (text_or_skip (ex_incoming ''op'' ''skip''))
        (text_or_skip (ex_incoming ''op'' ''skip'')) False (message_choice (ex_incoming ''op'' ''none''))
        (if message_choice (ex_incoming ''op'' ''start'') = ''resume'' then ''resume'' else ''ask'')"
    by (simp add: text_or_skip_def ex_choices ex_talk_def)
  show ?thesis
    using wizard_answers_are_used [OF flow state chat ex_answers(1,1,2,3,4) opts] unfolding bot .
qed

section \<open>Refused operators\<close>

text \<open>
  C12: A user who is not on the list of operators changes nothing of the bot by talking to it: whatever
  command or answer he sends, whatever flow he is in, the manifest, the jobs, the outbox, the chat
  configurations and the identities stay as they are. Only connecting and disconnecting a Telegram
  session is left to the session service.
\<close>

theorem refused_operator_dialogue:
  assumes "bot_authorize (bv_control (tk_bot tk)) (operator_from_message m) = Some e"
    and "dialogue_step tk m c d = Some (r, d')" and "\<And>cmd. c = Some cmd \<Longrightarrow> cmd \<notin> session_commands"
    and "\<And>f. dg_flow d = Some f \<Longrightarrow> fw_state f \<notin> session_states"
  shows "dg_bot d' = dg_bot d"
  by (rule refused_step [OF assms(1,2)]) (use assms(3,4) in blast)+

theorem refused_operator_dialogue_witness:
  "case dialogue_step ex_talk (ex_incoming ''other'' ''start'') None
      (ex_dialogue Confirm (no_values\<lparr>fl_source_chat_id := Some ''c''\<rparr>)) of
    None \<Rightarrow> False | Some (r, d') \<Rightarrow> dg_bot d' = ex_bot_start"
proof -
  let ?d = "ex_dialogue Confirm (no_values\<lparr>fl_source_chat_id := Some ''c''\<rparr>)" and ?m = "ex_incoming ''other'' ''start''"
  obtain r d' where step: "dialogue_step ex_talk ?m None ?d = Some (r, d')"
    by (cases "flow_step ex_talk ?m Confirm (no_values\<lparr>fl_source_chat_id := Some ''c''\<rparr>) ?d")
      (simp add: dialogue_step_def ex_dialogue_def ends_def del: flow_step.simps)
  obtain e where "bot_authorize (bv_control (tk_bot ex_talk)) (operator_from_message ?m) = Some e"
    by (simp add: bot_authorize_def ex_talk_def ex_desk_def ex_bot_def ex_bot_config_def operator_from_message_def
        ex_incoming_def)
  from refused_operator_dialogue [OF this step] step show ?thesis
    by (simp add: ex_dialogue_def session_states_def)
qed

section \<open>Where flows are kept\<close>

text \<open>
  C13: where the flows are kept cannot be told from outside: the store in the database and the store in
  memory answer every sequence of reads, writes and deletions alike, deadlines included - both when the
  database works and when its table has not been created yet and the database store falls back.
\<close>

theorem stores_answer_alike:
  assumes "codec_lawful codec"
    and "db 0 = None \<and> db 1 = None \<or> (\<exists>e. db 0 = Some e \<and> should_fallback_to_memory e)"
  shows "store_answers memory_fsm_get memory_fsm_set memory_fsm_delete ops []
    = store_answers (steady_get codec db) (steady_set codec db) (steady_delete db) ops postgres_init"
  by (rule fsm_stores.same_answers) (simp_all add: assms(1) steady_init [OF assms(2)] postgres_view_init)

definition ex_codec :: "nat state_codec" where
  "ex_codec = \<lparr>fc_name = (\<lambda>n. (''wizard'', ''State'', replicate n CHR ''x'')), fc_resolve = (\<lambda>(_, _, s). Some (length s))\<rparr>"

definition ex_lost_table :: database where
  "ex_lost_table = (\<lambda>_. Some \<lparr>de_text = ''relation \"bot_fsm_state\" does not exist'', de_orig = None\<rparr>)"

theorem stores_answer_alike_witness:
  "store_answers (steady_get ex_codec ex_lost_table) (steady_set ex_codec ex_lost_table) (steady_delete ex_lost_table)
     [StoreSet 0 ''k'' \<lparr>fd_state = 2, fd_storage = True\<rparr> (Some 60), StoreGet 0 ''k'', StoreGet (60 * one_second) ''k'',
      StoreGet 0 ''k''] postgres_init
    = [Some \<lparr>fd_state = 2, fd_storage = True\<rparr>, None, None]"
proof -
  have codec: "codec_lawful ex_codec" by (simp add: codec_lawful_def ex_codec_def)
  have "should_fallback_to_memory \<lparr>de_text = ''relation \"bot_fsm_state\" does not exist'', de_orig = None\<rparr>"
    by code_simp
  then have "ex_lost_table 0 = None \<and> ex_lost_table 1 = None
      \<or> (\<exists>e. ex_lost_table 0 = Some e \<and> should_fallback_to_memory e)"
    by (simp add: ex_lost_table_def)
  note alike = stores_answer_alike [OF codec this]
  show ?thesis
    unfolding alike [symmetric]
    by (simp add: memory_fsm_get_def memory_fsm_set_def expires_at_def expired_def one_second_def)
qed

end
