(* ===== verification/Sql_Tables.thy ===== *)
theory Sql_Tables
  imports Record_Stores
begin

text \<open>
  Tables as the SQL repositories use them: a list of rows, in the order in which they were inserted.
  A statement is atomic and the transactions of the repositories have one statement that writes, or
  several that take effect together; rows that an \<open>ORDER BY\<close> leaves tied come in the order of the
  table. Column types and lengths and the check constraints are not modelled; text is ordered by
  code points.
\<close>

section \<open>Stored payloads\<close>

text \<open>
  What the SQL repositories (\<open>infrastructure/persistence/repositories.py\<close> of
  \<open>extg_migration_runtime\<close> and of \<open>extg_telethon_service\<close>) store of a JSON payload: all of it, a
  redacted copy, or nothing. Both files have the same \<open>_sanitize_payload\<close>.
\<close>

subsection \<open>Sanitizing\<close>

datatype payload_mode = FullPayload | RedactedPayload | NoPayload

definition redacted_value :: string where
  "redacted_value = ''[redacted]''"

definition truncated_value :: string where
  "truncated_value = ''[truncated]''"

definition safe_string_keys :: "string list" where
  "safe_string_keys = [''migration_id'', ''source_chat_id'', ''source_message_id'', ''target_chat_id'', ''operation'',
     ''job_key'', ''phase'', ''status'', ''mode'', ''source'', ''event_type'', ''severity'', ''media_kind'',
     ''resolution_source'', ''reply_mode'', ''identity_policy'', ''cursor_type'', ''cursor_value'',
     ''source_chat_type'', ''target_strategy'']"

definition safe_string_suffixes :: "string list" where
  "safe_string_suffixes = [''_id'', ''_ids'', ''_type'', ''_mode'', ''_status'', ''_policy'']"

definition sensitive_string_keys :: "string list" where
  "sensitive_string_keys = [''body'', ''rendered_body'', ''message'', ''error'', ''reason'', ''excerpt'', ''content'',
     ''phone_number'', ''corporate_email'', ''source_chat_title'', ''target_chat_title'', ''filename'',
     ''download_url'', ''session_path'', ''phone_code_hash'', ''password'']"

definition sensitive_key_suffixes :: "string list" where
  "sensitive_key_suffixes = [''_username'', ''_display_name'', ''_email'', ''_phone_number'', ''_title'', ''_filename'',
     ''_download_url'', ''_session_path'', ''_huid'', ''_huids'']"

definition ends_with :: "string \<Rightarrow> string \<Rightarrow> bool" where
  "ends_with s suffix \<longleftrightarrow> drop (length s - length suffix) s = suffix"

definition is_sensitive_key :: "string \<Rightarrow> bool" where
  "is_sensitive_key k = (let n = py_lower (py_strip k)
     in n \<in> set sensitive_string_keys \<or> list_ex (ends_with n) sensitive_key_suffixes)"

definition is_safe_string_key :: "string option \<Rightarrow> bool" where
  "is_safe_string_key key = (case key of None \<Rightarrow> False
     | Some k \<Rightarrow> let n = py_lower (py_strip k)
         in \<not> is_sensitive_key n \<and> (n \<in> set safe_string_keys \<or> list_ex (ends_with n) safe_string_suffixes))"

function sanitize_value :: "string option \<Rightarrow> nat \<Rightarrow> json \<Rightarrow> json" where
  "sanitize_value key depth v =
    (if 6 \<le> depth then JStr truncated_value
     else if (case key of None \<Rightarrow> False | Some k \<Rightarrow> is_sensitive_key k) then JStr redacted_value
     else case v of
       JStr s \<Rightarrow> JStr (if is_safe_string_key key then s else redacted_value)
     | JObj members \<Rightarrow> JObj (map (\<lambda>(k, x). (k, sanitize_value (Some k) (depth + 1) x)) members)
     | JList items \<Rightarrow> JList (map (sanitize_value key (depth + 1)) (take 50 items))
     | _ \<Rightarrow> v)"
  by pat_completeness auto
termination
  by (relation "measure (\<lambda>(key, depth, v). 6 - depth)") auto

declare sanitize_value.simps [simp del]

abbreviation hidden_key :: "string option \<Rightarrow> bool" where
  "hidden_key key \<equiv> (case key of None \<Rightarrow> False | Some k \<Rightarrow> is_sensitive_key k)"

lemma sanitize_hidden:
  "6 \<le> depth \<or> hidden_key key \<Longrightarrow> sanitize_value key depth v \<in> {JStr truncated_value, JStr redacted_value}"
  by (auto simp: sanitize_value.simps [of key depth v])

lemma sanitize_shown:
  assumes "depth < 6" and "\<not> hidden_key key"
  shows "sanitize_value key depth (JStr s) = JStr (if is_safe_string_key key then s else redacted_value)"
    "sanitize_value key depth (JObj members) =
      JObj (map (\<lambda>(k, x). (k, sanitize_value (Some k) (depth + 1) x)) members)"
    "sanitize_value key depth (JList items) = JList (map (sanitize_value key (depth + 1)) (take 50 items))"
    "sanitize_value key depth JNull = JNull" "sanitize_value key depth (JBool b) = JBool b"
    "sanitize_value key depth (JInt n) = JInt n"
  using assms by (simp_all add: sanitize_value.simps)

definition sanitize_payload :: "payload_mode \<Rightarrow> json option \<Rightarrow> json" where
  "sanitize_payload mode payload =
    (let given = (case payload of None \<Rightarrow> JObj [] | Some p \<Rightarrow> p) in
     case mode of
       FullPayload \<Rightarrow> given
     | NoPayload \<Rightarrow> JObj []
     | RedactedPayload \<Rightarrow> (case sanitize_value None 0 given of JObj members \<Rightarrow> JObj members | _ \<Rightarrow> JObj []))"

subsection \<open>What is left\<close>

text \<open>The strings in a value, each with the key it stands under.\<close>

fun string_leaves :: "string option \<Rightarrow> json \<Rightarrow> (string option \<times> string) list" where
  "string_leaves key (JStr s) = [(key, s)]"
| "string_leaves key (JObj members) = concat (map (\<lambda>(k, x). string_leaves (Some k) x) members)"
| "string_leaves key (JList items) = concat (map (string_leaves key) items)"
| "string_leaves key v = []"

fun json_depth :: "json \<Rightarrow> nat" where
  "json_depth (JObj members) = Suc (fold max (map (\<lambda>(k, x). json_depth x) members) 0)"
| "json_depth (JList items) = Suc (fold max (map json_depth items) 0)"
| "json_depth v = 0"

text \<open>A string may be stored under its key.\<close>

definition may_be_stored :: "string option \<times> string \<Rightarrow> bool" where
  "may_be_stored leaf \<longleftrightarrow> (case leaf of (key, s) \<Rightarrow>
     s = redacted_value \<or> s = truncated_value \<or> is_safe_string_key key)"

lemma sanitized_leaves: "leaf \<in> set (string_leaves key (sanitize_value key depth v)) \<Longrightarrow> may_be_stored leaf"
proof (induction key depth v rule: sanitize_value.induct)
  case (1 key depth v)
  show ?case
  proof (cases "6 \<le> depth \<or> hidden_key key")
    case True
    from sanitize_hidden [OF this, of v] 1(3) show ?thesis by (auto simp: may_be_stored_def)
  next
    case False
    then have deep: "\<not> 6 \<le> depth" and open_key: "\<not> hidden_key key" by simp_all
    note shown = sanitize_shown [of depth key]
    show ?thesis
    proof (cases v)
      case (JObj members)
      from 1(3) obtain k x where "(k, x) \<in> set members"
          "leaf \<in> set (string_leaves (Some k) (sanitize_value (Some k) (depth + 1) x))"
        using deep open_key by (auto simp: JObj shown)
      with 1(2) [OF deep open_key JObj] show ?thesis by blast
    next
      case (JList items)
      from 1(3) obtain x where "x \<in> set (take 50 items)"
          "leaf \<in> set (string_leaves key (sanitize_value key (depth + 1) x))"
        using deep open_key by (auto simp: JList shown)
      with 1(1) [OF deep open_key JList] show ?thesis by blast
    qed (use 1(3) deep open_key in \<open>auto simp: shown may_be_stored_def split: if_splits\<close>)
  qed
qed

lemma fold_max_bound: "(\<And>x. x \<in> set xs \<Longrightarrow> x \<le> n) \<Longrightarrow> a \<le> n \<Longrightarrow> fold max xs a \<le> (n :: nat)"
  by (induction xs arbitrary: a) auto

lemma sanitized_depth: "json_depth (sanitize_value key depth v) \<le> 6 - depth"
proof (induction key depth v rule: sanitize_value.induct)
  case (1 key depth v)
  show ?case
  proof (cases "6 \<le> depth \<or> hidden_key key")
    case True
    from sanitize_hidden [OF this, of v] show ?thesis by auto
  next
    case False
    then have deep: "\<not> 6 \<le> depth" and open_key: "\<not> hidden_key key" by simp_all
    note shown = sanitize_shown [of depth key]
    show ?thesis
    proof (cases v)
      case (JObj members)
      have "json_depth (sanitize_value (Some k) (depth + 1) x) \<le> 6 - (depth + 1)" if "(k, x) \<in> set members" for k x
        using 1(2) [OF deep open_key JObj that] by simp
      then have "fold max (map (\<lambda>(k, x). json_depth x)
          (map (\<lambda>(k, x). (k, sanitize_value (Some k) (depth + 1) x)) members)) 0 \<le> 6 - (depth + 1)"
        by (intro fold_max_bound) auto
      with deep open_key show ?thesis by (simp add: JObj shown)
    next
      case (JList items)
      have "json_depth (sanitize_value key (depth + 1) x) \<le> 6 - (depth + 1)" if "x \<in> set (take 50 items)" for x
        using 1(1) [OF deep open_key JList that] by simp
      then have "fold max (map json_depth (map (sanitize_value key (depth + 1)) (take 50 items))) 0 \<le> 6 - (depth + 1)"
        by (intro fold_max_bound) auto
      with deep open_key show ?thesis by (simp add: JList shown)
    qed (use deep open_key in \<open>simp_all add: shown\<close>)
  qed
qed

lemma sanitize_payload_object: "p = JObj members \<Longrightarrow> \<exists>stored. sanitize_payload mode (Some p) = JObj stored"
  by (cases mode) (simp_all add: sanitize_payload_def sanitize_value.simps [of None 0] Let_def)

section \<open>Statements\<close>

type_synonym 'r table = "'r list"

text \<open>\<open>scalar_one_or_none\<close> of a query that a unique constraint limits to one row.\<close>

definition row_where :: "('r \<Rightarrow> bool) \<Rightarrow> 'r table \<Rightarrow> 'r option" where
  "row_where P t = List.find P t"

text \<open>\<open>INSERT ... ON CONFLICT DO NOTHING\<close>, with the inserted row\<close>

definition insert_or_nothing :: "('r \<Rightarrow> 'k) \<Rightarrow> 'r \<Rightarrow> 'r table \<Rightarrow> 'r option \<times> 'r table" where
  "insert_or_nothing key r t = (if list_ex (\<lambda>old. key old = key r) t then (None, t) else (Some r, t @ [r]))"

text \<open>\<open>INSERT ... ON CONFLICT DO UPDATE SET change WHERE P\<close>, with the row written, if any\<close>

definition insert_or_update ::
    "('r \<Rightarrow> 'k) \<Rightarrow> ('r \<Rightarrow> bool) \<Rightarrow> ('r \<Rightarrow> 'r) \<Rightarrow> 'r \<Rightarrow> 'r table \<Rightarrow> 'r option \<times> 'r table" where
  "insert_or_update key P change r t =
    (if list_ex (\<lambda>old. key old = key r) t
     then (map_option change (row_where (\<lambda>old. key old = key r \<and> P old) t),
       map (\<lambda>old. if key old = key r \<and> P old then change old else old) t)
     else (Some r, t @ [r]))"

text \<open>\<open>UPDATE ... WHERE P\<close> and \<open>DELETE ... WHERE P\<close>, with the rows changed and removed\<close>

definition update_where :: "('r \<Rightarrow> bool) \<Rightarrow> ('r \<Rightarrow> 'r) \<Rightarrow> 'r table \<Rightarrow> 'r list \<times> 'r table" where
  "update_where P change t = (map change (filter P t), map (\<lambda>r. if P r then change r else r) t)"

definition delete_where :: "('r \<Rightarrow> bool) \<Rightarrow> 'r table \<Rightarrow> 'r list \<times> 'r table" where
  "delete_where P t = (filter P t, filter (\<lambda>r. \<not> P r) t)"

text \<open>\<open>scalar_one_or_none\<close> and \<open>scalar_one\<close> of what a statement returned\<close>

definition one_or_none :: "'r list \<Rightarrow> 'r option" where
  "one_or_none rows = (case rows of [] \<Rightarrow> None | r # _ \<Rightarrow> Some r)"

definition exactly_one :: "'r list \<Rightarrow> (error, 'r) outcome" where
  "exactly_one rows = (case rows of
     [] \<Rightarrow> Inl (OtherError ''NoResultFound'' ''No row was found when one was required'') | r # _ \<Rightarrow> Inr r)"

definition integrity_error :: error where
  "integrity_error = OtherError ''IntegrityError'' ''duplicate key value violates unique constraint''"

section \<open>Tables with a unique key\<close>

abbreviation unique_rows :: "('r \<Rightarrow> 'k) \<Rightarrow> 'r table \<Rightarrow> bool" where
  "unique_rows key t \<equiv> distinct (map key t)"

definition row_get :: "('r \<Rightarrow> 'k) \<Rightarrow> 'r table \<Rightarrow> 'k \<Rightarrow> 'r option" where
  "row_get key t k = row_where (\<lambda>r. key r = k) t"

lemma row_get_Nil [simp]: "row_get key [] k = None"
  by (simp add: row_get_def row_where_def)

lemma row_get_Cons [simp]: "row_get key (r # t) k = (if key r = k then Some r else row_get key t k)"
  by (simp add: row_get_def row_where_def)

lemma row_get_append: "row_get key (t @ t') k = (case row_get key t k of None \<Rightarrow> row_get key t' k | Some r \<Rightarrow> Some r)"
  by (induction t) simp_all

lemma row_get_None: "row_get key t k = None \<longleftrightarrow> k \<notin> key ` set t"
  by (induction t) auto

lemma row_get_key: "row_get key t k = Some r \<Longrightarrow> key r = k \<and> r \<in> set t"
  by (induction t) (auto split: if_splits)

lemma row_get_mem: "unique_rows key t \<Longrightarrow> r \<in> set t \<Longrightarrow> row_get key t (key r) = Some r"
  by (induction t) (auto simp: image_iff)

lemma row_get_map: "(\<And>r. key (f r) = key r) \<Longrightarrow> row_get key (map f t) k = map_option f (row_get key t k)"
  by (induction t) simp_all

lemma row_get_filter: "(\<And>r. key r = k \<Longrightarrow> P r) \<Longrightarrow> row_get key (filter P t) k = row_get key t k"
  by (induction t) auto

lemma row_get_filter_none: "(\<And>r. key r = k \<Longrightarrow> \<not> P r) \<Longrightarrow> row_get key (filter P t) k = None"
  by (induction t) auto

lemma some_row: "list_ex (\<lambda>old. key old = k) t \<longleftrightarrow> row_get key t k \<noteq> None"
  by (induction t) auto

lemma insert_or_nothing_get:
  "row_get key (snd (insert_or_nothing key r t)) k =
    (if k = key r \<and> row_get key t k = None then Some r else row_get key t k)"
  "fst (insert_or_nothing key r t) = (if row_get key t (key r) = None then Some r else None)"
  by (auto simp: insert_or_nothing_def some_row row_get_append split: option.split)

lemma insert_or_nothing_unique: "unique_rows key t \<Longrightarrow> unique_rows key (snd (insert_or_nothing key r t))"
  by (auto simp: insert_or_nothing_def some_row row_get_None)

lemma update_where_get:
  assumes "\<And>r. key (change r) = key r"
  shows "row_get key (snd (update_where P change t)) k =
    map_option (\<lambda>r. if P r then change r else r) (row_get key t k)"
  unfolding update_where_def snd_conv by (rule row_get_map) (simp add: assms)

lemma update_where_other:
  assumes "\<And>r. key (change r) = key r" and "\<And>r. key r = k \<Longrightarrow> \<not> P r"
  shows "row_get key (snd (update_where P change t)) k = row_get key t k"
  using assms by (cases "row_get key t k") (auto simp: update_where_get dest: row_get_key)

lemma update_where_unique:
  assumes "\<And>r. key (change r) = key r"
  shows "unique_rows key (snd (update_where P change t)) = unique_rows key t"
proof -
  have "map key (snd (update_where P change t)) = map key t" using assms by (simp add: update_where_def)
  then show ?thesis by simp
qed

lemma update_row:
  assumes "unique_rows key t"
  shows "filter (\<lambda>r. key r = k \<and> Q r) t = (case row_get key t k of None \<Rightarrow> [] | Some r \<Rightarrow> if Q r then [r] else [])"
  using assms
proof (induction t)
  case (Cons r t)
  show ?case
  proof (cases "key r = k")
    case True
    with Cons.prems have "key r' \<noteq> k" if "r' \<in> set t" for r' using that by (metis distinct.simps(2) imageI list.set_map list.simps(9))
    then have "filter (\<lambda>r. key r = k \<and> Q r) t = []" by (auto simp: filter_empty_conv)
    with True show ?thesis by simp
  next
    case False
    with Cons show ?thesis by simp
  qed
qed simp

lemma row_get_where:
  assumes "unique_rows key t" and "row_get key t k = Some old"
  shows "List.find (\<lambda>r. key r = k \<and> Q r) t = (if Q old then Some old else None)"
proof -
  have "List.find P t = (case filter P t of [] \<Rightarrow> None | r # _ \<Rightarrow> Some r)" for P by (induction t) simp_all
  then show ?thesis using update_row [OF assms(1), of k Q] assms(2) by simp
qed

lemma update_where_row:
  assumes "unique_rows key t"
  shows "fst (update_where (\<lambda>r. key r = k \<and> Q r) change t) =
    (case row_get key t k of None \<Rightarrow> [] | Some r \<Rightarrow> if Q r then [change r] else [])"
  using update_row [OF assms, of k Q] by (auto simp: update_where_def split: option.split)

lemma update_where_nothing: "(\<And>r. r \<in> set t \<Longrightarrow> \<not> P r) \<Longrightarrow> update_where P change t = ([], t)"
  by (auto simp: update_where_def filter_empty_conv intro: map_idI)

lemma insert_or_update_get:
  assumes "\<And>old. key old = key r \<Longrightarrow> key (change old) = key r"
  shows "row_get key (snd (insert_or_update key P change r t)) k =
    (if k = key r then (case row_get key t k of None \<Rightarrow> Some r | Some old \<Rightarrow> Some (if P old then change old else old))
     else row_get key t k)"
proof (cases "list_ex (\<lambda>old. key old = key r) t")
  case True
  have "row_get key (map (\<lambda>old. if key old = key r \<and> P old then change old else old) t) k
      = map_option (\<lambda>old. if key old = key r \<and> P old then change old else old) (row_get key t k)"
    by (rule row_get_map) (use assms in auto)
  with True show ?thesis
    by (cases "row_get key t k") (auto simp: insert_or_update_def some_row dest: row_get_key)
next
  case False
  then show ?thesis
    by (auto simp: insert_or_update_def some_row row_get_append split: option.split)
qed

lemma upsert_get:
  assumes "\<And>old. key old = key r \<Longrightarrow> key (change old) = key r"
  shows "row_get key (snd (insert_or_update key (\<lambda>_. True) change r t)) =
    (row_get key t)(key r \<mapsto> case row_get key t (key r) of None \<Rightarrow> r | Some old \<Rightarrow> change old)"
  by (rule ext, subst insert_or_update_get) (auto simp: assms split: option.split)

lemma insert_or_update_unique:
  assumes "\<And>old. key old = key r \<Longrightarrow> key (change old) = key r" and "unique_rows key t"
  shows "unique_rows key (snd (insert_or_update key P change r t))"
proof (cases "list_ex (\<lambda>old. key old = key r) t")
  case True
  have "map key (map (\<lambda>old. if key old = key r \<and> P old then change old else old) t) = map key t"
    using assms(1) by (auto simp: o_def)
  with True assms(2) show ?thesis by (simp add: insert_or_update_def del: map_map)
next
  case False
  with assms(2) show ?thesis by (auto simp: insert_or_update_def some_row row_get_None)
qed

section \<open>A table as a dictionary\<close>

text \<open>The dictionary of the in-memory repository that holds what the table holds.\<close>

definition rows_dict :: "('r \<Rightarrow> 'k) \<Rightarrow> ('r \<Rightarrow> 'v) \<Rightarrow> 'r table \<Rightarrow> ('k, 'v) dict" where
  "rows_dict key domain t = map (\<lambda>r. (key r, domain r)) t"

lemma rows_dict_get [simp]: "dict_get (rows_dict key domain t) k = map_option domain (row_get key t k)"
  by (induction t) (simp_all add: rows_dict_def)

lemma dict_set_new: "k \<notin> fst ` set d \<Longrightarrow> dict_set k v d = d @ [(k, v)]"
  by (induction d) auto

lemma rows_dict_insert:
  "k \<notin> key ` set t \<Longrightarrow> key r = k \<Longrightarrow> rows_dict key domain (t @ [r]) = dict_set k (domain r) (rows_dict key domain t)"
  by (subst dict_set_new) (auto simp: rows_dict_def)

lemma rows_dict_change:
  assumes "unique_rows key t" and "row_get key t k = Some old" and "key (change old) = k"
  shows "rows_dict key domain (map (\<lambda>r. if key r = k then change r else r) t)
    = dict_set k (domain (change old)) (rows_dict key domain t)"
  using assms
proof (induction t)
  case (Cons r t)
  show ?case
  proof (cases "key r = k")
    case True
    with Cons.prems have "key r' \<noteq> k" if "r' \<in> set t" for r' using that by (metis distinct.simps(2) imageI list.set_map list.simps(9))
    then have "map (\<lambda>r. if key r = k then change r else r) t = t" by (intro map_idI) auto
    with True Cons.prems show ?thesis by (simp add: rows_dict_def)
  next
    case False
    with Cons show ?thesis by (simp add: rows_dict_def)
  qed
qed simp

lemma rows_dict_delete:
  "rows_dict key domain (filter (\<lambda>r. key r \<noteq> k) t) = dict_pop k (rows_dict key domain t)"
  by (induction t) (simp_all add: rows_dict_def)

text \<open>An upsert that stores \<open>new\<close>, or what it makes of an old row, is the dictionary's assignment.\<close>

lemma rows_dict_upsert:
  assumes "unique_rows key t" and "\<And>old. key old = key r \<Longrightarrow> key (change old) = key r"
  shows "rows_dict key domain (snd (insert_or_update key (\<lambda>_. True) change r t))
    = dict_set (key r) (domain (case row_get key t (key r) of None \<Rightarrow> r | Some old \<Rightarrow> change old))
        (rows_dict key domain t)"
proof (cases "row_get key t (key r)")
  case None
  then have "key r \<notin> key ` set t" by (rule row_get_None [THEN iffD1])
  from this refl have "rows_dict key domain (t @ [r]) = dict_set (key r) (domain r) (rows_dict key domain t)"
    by (rule rows_dict_insert)
  moreover have "\<not> list_ex (\<lambda>old. key old = key r) t" by (simp add: some_row None)
  ultimately show ?thesis by (simp add: insert_or_update_def None)
next
  case (Some old)
  then have "key (change old) = key r" using row_get_key [OF Some] assms(2) by blast
  with Some assms(1) show ?thesis
    by (simp add: insert_or_update_def some_row rows_dict_change)
qed

text \<open>An update of the row with a key, if it is in the right state\<close>

lemma update_one:
  assumes "unique_rows key t"
  shows "one_or_none (fst (update_where (\<lambda>r. key r = k \<and> Q r) change t)) =
    (case row_get key t k of None \<Rightarrow> None | Some r \<Rightarrow> if Q r then Some (change r) else None)"
  by (simp add: update_where_row [OF assms] one_or_none_def split: option.split)

lemma update_none:
  assumes "unique_rows key t" and "\<And>r. row_get key t k = Some r \<Longrightarrow> \<not> Q r"
  shows "update_where (\<lambda>r. key r = k \<and> Q r) change t = ([], t)"
  by (intro update_where_nothing) (use assms row_get_mem in fastforce)

lemma update_one_dict:
  assumes "unique_rows key t" and "\<And>r. key (change r) = key r"
  shows "rows_dict key domain (snd (update_where (\<lambda>r. key r = k \<and> Q r) change t)) =
    (case row_get key t k of
       None \<Rightarrow> rows_dict key domain t
     | Some r \<Rightarrow> if Q r then dict_set k (domain (change r)) (rows_dict key domain t) else rows_dict key domain t)"
proof (cases "\<exists>r. row_get key t k = Some r \<and> Q r")
  case False
  then show ?thesis by (subst update_none [OF assms(1)]) (auto split: option.split)
next
  case True
  then obtain r where r: "row_get key t k = Some r" "Q r" by blast
  have "snd (update_where (\<lambda>r. key r = k \<and> Q r) change t) = map (\<lambda>r. if key r = k then change r else r) t"
    unfolding update_where_def snd_conv by (intro map_cong refl) (use r row_get_mem [OF assms(1)] in fastforce)
  with r rows_dict_change [OF assms(1) r(1), of change domain] row_get_key [OF r(1)] assms(2) show ?thesis by simp
qed

end
