(* ===== verification/Sql_Stores.thy ===== *)
theory Sql_Stores
  imports Sql_Tables Telegram_Login
begin

text \<open>
  The SQL repositories that keep one record per key: chat mappings, chat configurations, checkpoints,
  inventory snapshots, export snapshots, migration states, the consumer inbox and the watermarks. An
  upsert leaves the columns it does not set, so most of them keep the creation time of a row: the
  contract is \<open>merging_store\<close>, of which \<open>record_store\<close> is the case that keeps nothing.
\<close>

section \<open>Interface\<close>

locale merging_store =
  fixes get :: "'s \<Rightarrow> 'k \<Rightarrow> 'v option"
    and save :: "'v \<Rightarrow> 's \<Rightarrow> 's"
    and key :: "'v \<Rightarrow> 'k"
    and merge :: "'v option \<Rightarrow> 'v \<Rightarrow> 'v"
  assumes get_save: "get (save v s) = (get s)(key v \<mapsto> merge (get s (key v)) v)"
begin

lemma get_save_same: "get (save v s) (key v) = Some (merge (get s (key v)) v)"
  by (simp add: get_save)

lemma get_save_other: "k \<noteq> key v \<Longrightarrow> get (save v s) k = get s k"
  by (simp add: get_save)

lemma get_saves_other: "\<forall>v \<in> set vs. key v \<noteq> k \<Longrightarrow> get (fold save vs s) k = get s k"
  by (induction vs arbitrary: s) (auto simp: get_save)

end

sublocale record_store \<subseteq> merging: merging_store get save key "\<lambda>_ v. v"
  by unfold_locales (simp add: get_save)

section \<open>Chat mappings\<close>

definition sql_chat_mapping_get ::
    "chat_mapping_record table \<Rightarrow> string \<times> string \<Rightarrow> chat_mapping_record option" where
  "sql_chat_mapping_get t k = row_where (\<lambda>r. (cm_migration_id r, cm_source_chat_id r) = k) t"

definition sql_chat_mapping_save ::
    "chat_mapping_record \<Rightarrow> chat_mapping_record table \<Rightarrow> chat_mapping_record table" where
  "sql_chat_mapping_save r t = snd (insert_or_update (\<lambda>r. (cm_migration_id r, cm_source_chat_id r)) (\<lambda>_. True)
     (\<lambda>old. old\<lparr>cm_source_chat_type := cm_source_chat_type r, cm_source_chat_title := cm_source_chat_title r,
        cm_anchor_cts_host := cm_anchor_cts_host r, cm_anchor_bot_id := cm_anchor_bot_id r,
        cm_target_chat_id := cm_target_chat_id r, cm_target_chat_title := cm_target_chat_title r,
        cm_status := cm_status r, cm_updated_at := cm_updated_at r\<rparr>) r t)"

definition keep_mapping_creation :: "chat_mapping_record option \<Rightarrow> chat_mapping_record \<Rightarrow> chat_mapping_record" where
  "keep_mapping_creation old r = (case old of None \<Rightarrow> r | Some o' \<Rightarrow> r\<lparr>cm_created_at := cm_created_at o'\<rparr>)"

lemma sql_chat_mapping_row: "sql_chat_mapping_get t k = row_get chat_mapping_key t k"
  by (simp add: sql_chat_mapping_get_def row_get_def chat_mapping_key_def)

lemma sql_chat_mapping_save_row: "sql_chat_mapping_save r t = snd (insert_or_update chat_mapping_key (\<lambda>_. True)
    (\<lambda>old. old\<lparr>cm_source_chat_type := cm_source_chat_type r, cm_source_chat_title := cm_source_chat_title r,
      cm_anchor_cts_host := cm_anchor_cts_host r, cm_anchor_bot_id := cm_anchor_bot_id r,
      cm_target_chat_id := cm_target_chat_id r, cm_target_chat_title := cm_target_chat_title r,
      cm_status := cm_status r, cm_updated_at := cm_updated_at r\<rparr>) r t)"
  by (simp add: sql_chat_mapping_save_def chat_mapping_key_def [abs_def])

interpretation sql_chat_mappings: merging_store sql_chat_mapping_get sql_chat_mapping_save chat_mapping_key
  keep_mapping_creation
proof unfold_locales
  fix r t
  have merged: "(case row_get chat_mapping_key t (chat_mapping_key r) of None \<Rightarrow> r
      | Some old \<Rightarrow> old\<lparr>cm_source_chat_type := cm_source_chat_type r, cm_source_chat_title := cm_source_chat_title r,
          cm_anchor_cts_host := cm_anchor_cts_host r, cm_anchor_bot_id := cm_anchor_bot_id r,
          cm_target_chat_id := cm_target_chat_id r, cm_target_chat_title := cm_target_chat_title r,
          cm_status := cm_status r, cm_updated_at := cm_updated_at r\<rparr>)
      = keep_mapping_creation (row_get chat_mapping_key t (chat_mapping_key r)) r"
    by (auto simp: keep_mapping_creation_def chat_mapping_key_def split: option.split dest!: row_get_key)
  show "sql_chat_mapping_get (sql_chat_mapping_save r t)
      = (sql_chat_mapping_get t)(chat_mapping_key r \<mapsto> keep_mapping_creation (sql_chat_mapping_get t (chat_mapping_key r)) r)"
    unfolding sql_chat_mapping_row [abs_def] sql_chat_mapping_save_row
    by (subst upsert_get) (simp_all only: merged, simp add: chat_mapping_key_def)
qed

section \<open>Chat configurations\<close>

definition sql_chat_config_get :: "chat_config_record table \<Rightarrow> string \<times> string \<Rightarrow> chat_config_record option" where
  "sql_chat_config_get t k = row_where (\<lambda>r. (cc_migration_id r, cc_source_chat_id r) = k) t"

definition sql_chat_config_list :: "string \<Rightarrow> chat_config_record table \<Rightarrow> chat_config_record list" where
  "sql_chat_config_list migration t = sort_key cc_source_chat_id (filter (\<lambda>r. cc_migration_id r = migration) t)"

text \<open>A row of another operator is not updated; then the row is read again.\<close>

definition sql_chat_config_save ::
    "chat_config_record \<Rightarrow> chat_config_record table \<Rightarrow> chat_config_record \<times> chat_config_record table" where
  "sql_chat_config_save r t =
    (let (stored, t') = insert_or_update (\<lambda>r. (cc_migration_id r, cc_source_chat_id r))
           (\<lambda>old. cc_updated_by_huid old = cc_updated_by_huid r)
           (\<lambda>old. r\<lparr>cc_migration_id := cc_migration_id old, cc_source_chat_id := cc_source_chat_id old,
              cc_created_at := cc_created_at old\<rparr>) r t
     in (case stored of Some row \<Rightarrow> row
         | None \<Rightarrow> (case sql_chat_config_get t' (cc_migration_id r, cc_source_chat_id r) of None \<Rightarrow> r | Some row \<Rightarrow> row), t'))"

definition sql_chat_config_delete :: "string \<times> string \<Rightarrow> chat_config_record table \<Rightarrow> bool \<times> chat_config_record table" where
  "sql_chat_config_delete k t =
    (let (gone, t') = delete_where (\<lambda>r. (cc_migration_id r, cc_source_chat_id r) = k) t in (one_or_none gone \<noteq> None, t'))"

abbreviation config_rows :: "chat_config_record table \<Rightarrow> chat_config_repo" where
  "config_rows \<equiv> rows_dict chat_config_key (\<lambda>r. r)"

lemma sql_chat_config_row: "sql_chat_config_get t k = row_get chat_config_key t k"
  by (simp add: sql_chat_config_get_def row_get_def chat_config_key_def)

lemma chat_config_key_sql: "chat_config_key = (\<lambda>r. (cc_migration_id r, cc_source_chat_id r))"
  by (simp add: chat_config_key_def fun_eq_iff)

text \<open>The table does exactly what the dictionary does, on every call.\<close>

lemma sql_chat_config_save_refines:
  assumes "unique_rows chat_config_key t"
  shows "chat_config_save r (config_rows t) = (fst (sql_chat_config_save r t), config_rows (snd (sql_chat_config_save r t)))"
proof (cases "row_get chat_config_key t (chat_config_key r)")
  case None
  from row_get_None [THEN iffD1, OF None] this refl
  have "config_rows (t @ [r]) = dict_set (chat_config_key r) r (config_rows t)" by (intro rows_dict_insert)
  with None show ?thesis
    by (simp add: sql_chat_config_save_def chat_config_key_sql [symmetric] insert_or_update_def some_row
        chat_config_save_def Let_def)
next
  case (Some old)
  have key: "chat_config_key old = chat_config_key r" using row_get_key [OF Some] by simp
  let ?change = "\<lambda>old. r\<lparr>cc_migration_id := cc_migration_id old, cc_source_chat_id := cc_source_chat_id old,
      cc_created_at := cc_created_at old\<rparr>"
  have row: "row_where (\<lambda>old. chat_config_key old = chat_config_key r \<and> cc_updated_by_huid old = cc_updated_by_huid r) t
      = (if cc_updated_by_huid old = cc_updated_by_huid r then Some old else None)"
    unfolding row_where_def using row_get_where [OF assms Some] .
  have changed: "map (\<lambda>old. if chat_config_key old = chat_config_key r \<and> cc_updated_by_huid old = cc_updated_by_huid r
      then ?change old else old) t
    = (if cc_updated_by_huid old = cc_updated_by_huid r
       then map (\<lambda>old. if chat_config_key old = chat_config_key r then ?change old else old) t else t)"
  proof -
    have "o' = old" if "o' \<in> set t" "chat_config_key o' = chat_config_key r" for o'
      using row_get_mem [OF assms that(1)] Some that(2) by simp
    then show ?thesis by (auto intro!: map_cong map_idI)
  qed
  have new: "?change old = r\<lparr>cc_created_at := cc_created_at old\<rparr>"
    using key by (simp add: chat_config_key_def)
  have "config_rows (map (\<lambda>old. if chat_config_key old = chat_config_key r then ?change old else old) t)
      = dict_set (chat_config_key r) (?change old) (config_rows t)"
    using assms Some by (rule rows_dict_change) (use key in \<open>simp add: chat_config_key_def\<close>)
  with Some row changed new show ?thesis
    by (simp add: sql_chat_config_save_def chat_config_key_sql [symmetric] insert_or_update_def some_row
        chat_config_save_def sql_chat_config_row Let_def) (simp add: chat_config_key_def)
qed

section \<open>Checkpoints\<close>

record checkpoint_row = migration_checkpoint +
  ck_cursor_type :: string
  ck_cursor_value :: "string option"

abbreviation checkpoint_row_key :: "checkpoint_row \<Rightarrow> string \<times> string \<times> string" where
  "checkpoint_row_key r \<equiv> (cp_migration_id r, cp_source_chat_id r, cp_mode r)"

definition sql_checkpoint_get :: "checkpoint_row table \<Rightarrow> string \<times> string \<times> string \<Rightarrow> migration_checkpoint option" where
  "sql_checkpoint_get t k = map_option migration_checkpoint.truncate (row_where (\<lambda>r. checkpoint_row_key r = k) t)"

definition checkpoint_row_of :: "migration_checkpoint \<Rightarrow> checkpoint_row" where
  "checkpoint_row_of c = migration_checkpoint.extend c
     (checkpoint_row.fields ''source_message_id'' (hc_last_source_message_id (cp_cursor c)))"

definition sql_checkpoint_save :: "migration_checkpoint \<Rightarrow> checkpoint_row table \<Rightarrow> checkpoint_row table" where
  "sql_checkpoint_save c t = snd (insert_or_update checkpoint_row_key (\<lambda>_. True)
     (\<lambda>old. old\<lparr>ck_cursor_type := ''source_message_id'', ck_cursor_value := hc_last_source_message_id (cp_cursor c),
        cp_cursor := cp_cursor c, cp_updated_at := cp_updated_at c\<rparr>) (checkpoint_row_of c) t)"

lemma checkpoint_row_of_simps [simp]:
  "cp_migration_id (checkpoint_row_of c) = cp_migration_id c" "cp_source_chat_id (checkpoint_row_of c) = cp_source_chat_id c"
  "cp_mode (checkpoint_row_of c) = cp_mode c" "migration_checkpoint.truncate (checkpoint_row_of c) = c"
  by (cases c; simp add: checkpoint_row_of_def migration_checkpoint.defs checkpoint_row.defs)+

interpretation sql_checkpoints: record_store sql_checkpoint_get sql_checkpoint_save checkpoint_key
proof unfold_locales
  fix c t
  show "sql_checkpoint_get (sql_checkpoint_save c t) = (sql_checkpoint_get t)(checkpoint_key c \<mapsto> c)"
  proof
    fix k
    have "migration_checkpoint.truncate (old\<lparr>ck_cursor_type := a, ck_cursor_value := b, cp_cursor := cp_cursor c,
        cp_updated_at := cp_updated_at c\<rparr>) = c"
      if "checkpoint_row_key old = checkpoint_key c" for old :: checkpoint_row and a b
      using that by (cases c) (simp add: checkpoint_key_def migration_checkpoint.defs)
    then show "sql_checkpoint_get (sql_checkpoint_save c t) k = ((sql_checkpoint_get t)(checkpoint_key c \<mapsto> c)) k"
      unfolding sql_checkpoint_get_def sql_checkpoint_save_def row_get_def [symmetric]
      by (subst insert_or_update_get) (auto simp: checkpoint_key_def split: option.split dest!: row_get_key)
  qed
qed

section \<open>Inventory snapshots\<close>

text \<open>The time of capture is the column \<open>updated_at\<close>; the column \<open>created_at\<close> is kept by an upsert.\<close>

record inventory_row = inventory_snapshot_record +
  iv_created_at :: datetime

abbreviation inventory_row_key :: "inventory_row \<Rightarrow> string \<times> string" where
  "inventory_row_key r \<equiv> (inv_migration_id r, inv_source_chat_id r)"

definition inventory_row_of :: "inventory_snapshot_record \<Rightarrow> inventory_row" where
  "inventory_row_of s = inventory_snapshot_record.extend s (inventory_row.fields (inv_captured_at s))"

definition sql_inventory_get :: "inventory_row table \<Rightarrow> string \<times> string \<Rightarrow> inventory_snapshot_record option" where
  "sql_inventory_get t k = map_option inventory_snapshot_record.truncate (row_where (\<lambda>r. inventory_row_key r = k) t)"

definition sql_inventory_list :: "string \<Rightarrow> inventory_row table \<Rightarrow> inventory_snapshot_record list" where
  "sql_inventory_list migration t = map inventory_snapshot_record.truncate
     (sort_key inv_source_chat_id (filter (\<lambda>r. inv_migration_id r = migration) t))"

definition sql_inventory_save :: "inventory_snapshot_record \<Rightarrow> inventory_row table \<Rightarrow> inventory_row table" where
  "sql_inventory_save s t = snd (insert_or_update inventory_row_key (\<lambda>_. True)
     (\<lambda>old. old\<lparr>inv_source_chat_type := inv_source_chat_type s, inv_source_chat_title := inv_source_chat_title s,
        inv_message_count := inv_message_count s, inv_media_count := inv_media_count s,
        inv_approximate_bytes := inv_approximate_bytes s, inv_captured_at := inv_captured_at s\<rparr>)
     (inventory_row_of s) t)"

text \<open>One transaction: a chat that occurs twice violates the unique constraint and undoes the deletion.\<close>

fun insert_snapshots :: "inventory_snapshot_record list \<Rightarrow> inventory_row table \<Rightarrow> (error, inventory_row table) outcome" where
  "insert_snapshots [] t = Inr t"
| "insert_snapshots (s # ss) t =
    (case insert_or_nothing inventory_row_key (inventory_row_of s) t of
       (None, _) \<Rightarrow> Inl integrity_error
     | (Some _, t') \<Rightarrow> insert_snapshots ss t')"

definition sql_inventory_replace ::
    "string \<Rightarrow> inventory_snapshot_record list \<Rightarrow> inventory_row table \<Rightarrow> (error, unit) outcome \<times> inventory_row table" where
  "sql_inventory_replace migration snapshots t =
    (case insert_snapshots snapshots (snd (delete_where (\<lambda>r. inv_migration_id r = migration) t)) of
       Inl e \<Rightarrow> (Inl e, t)
     | Inr t' \<Rightarrow> (Inr (), t'))"

lemma inventory_row_of_simps [simp]:
  "inv_migration_id (inventory_row_of s) = inv_migration_id s" "inv_source_chat_id (inventory_row_of s) = inv_source_chat_id s"
  "inventory_snapshot_record.truncate (inventory_row_of s) = s"
  by (cases s; simp add: inventory_row_of_def inventory_snapshot_record.defs inventory_row.defs)+

interpretation sql_inventory: record_store sql_inventory_get sql_inventory_save inventory_key
proof unfold_locales
  fix s t
  show "sql_inventory_get (sql_inventory_save s t) = (sql_inventory_get t)(inventory_key s \<mapsto> s)"
  proof
    fix k
    have "inventory_snapshot_record.truncate (old\<lparr>inv_source_chat_type := inv_source_chat_type s,
        inv_source_chat_title := inv_source_chat_title s, inv_message_count := inv_message_count s,
        inv_media_count := inv_media_count s, inv_approximate_bytes := inv_approximate_bytes s,
        inv_captured_at := inv_captured_at s\<rparr>) = s"
      if "inventory_row_key old = inventory_key s" for old :: inventory_row
      using that by (cases s) (simp add: inventory_key_def inventory_snapshot_record.defs)
    then show "sql_inventory_get (sql_inventory_save s t) k = ((sql_inventory_get t)(inventory_key s \<mapsto> s)) k"
      unfolding sql_inventory_get_def sql_inventory_save_def row_get_def [symmetric]
      by (subst insert_or_update_get) (auto simp: inventory_key_def split: option.split dest!: row_get_key)
  qed
qed

abbreviation inventory_rows :: "inventory_row table \<Rightarrow> inventory_repo" where
  "inventory_rows \<equiv> rows_dict inventory_row_key inventory_snapshot_record.truncate"

lemma insert_snapshots_dict:
  "insert_snapshots ss t = Inr t' \<Longrightarrow> inventory_rows t' = fold inventory_save ss (inventory_rows t)"
proof (induction ss arbitrary: t)
  case (Cons s ss)
  from Cons.prems have new: "row_get inventory_row_key t (inventory_key s) = None"
    and rest: "insert_snapshots ss (t @ [inventory_row_of s]) = Inr t'"
    using some_row [of inventory_row_key "inventory_key s" t]
    by (auto simp: insert_or_nothing_def inventory_key_def split: if_splits)
  have "inventory_rows (t @ [inventory_row_of s]) = inventory_save s (inventory_rows t)"
    using rows_dict_insert [OF row_get_None [THEN iffD1, OF new], of "inventory_row_of s" inventory_snapshot_record.truncate]
    by (simp add: inventory_key_def inventory_save_def)
  with Cons.IH [OF rest] show ?case by simp
qed simp

lemma sql_inventory_replace_refines:
  assumes "sql_inventory_replace m ss t = (Inr (), t')"
  shows "inventory_rows t' = inventory_replace_for_migration m ss (inventory_rows t)"
proof -
  have "insert_snapshots ss (filter (\<lambda>r. inv_migration_id r \<noteq> m) t) = Inr t'"
    using assms by (auto simp: sql_inventory_replace_def delete_where_def split: sum.splits)
  from insert_snapshots_dict [OF this] show ?thesis
    by (simp add: inventory_replace_fold rows_dict_def filter_map o_def)
qed

section \<open>Export snapshots\<close>

definition sql_export_snapshot_get :: "export_snapshot_record table \<Rightarrow> string \<Rightarrow> export_snapshot_record option" where
  "sql_export_snapshot_get t chat = row_where (\<lambda>r. ex_source_chat_id r = chat) t"

definition sql_export_snapshot_save ::
    "export_snapshot_record \<Rightarrow> export_snapshot_record table \<Rightarrow> export_snapshot_record table" where
  "sql_export_snapshot_save r t = snd (insert_or_update ex_source_chat_id (\<lambda>_. True)
     (\<lambda>old. r\<lparr>ex_source_chat_id := ex_source_chat_id old, ex_created_at := ex_created_at old\<rparr>) r t)"

definition sql_export_snapshot_delete :: "string \<Rightarrow> export_snapshot_record table \<Rightarrow> bool \<times> export_snapshot_record table" where
  "sql_export_snapshot_delete chat t =
    (let (gone, t') = delete_where (\<lambda>r. ex_source_chat_id r = chat) t in (one_or_none gone \<noteq> None, t'))"

definition keep_snapshot_creation :: "export_snapshot_record option \<Rightarrow> export_snapshot_record \<Rightarrow> export_snapshot_record" where
  "keep_snapshot_creation old r = (case old of None \<Rightarrow> r | Some o' \<Rightarrow> r\<lparr>ex_created_at := ex_created_at o'\<rparr>)"

interpretation sql_export_snapshots: merging_store sql_export_snapshot_get sql_export_snapshot_save ex_source_chat_id
  keep_snapshot_creation
proof unfold_locales
  fix r t
  have "(case row_get ex_source_chat_id t (ex_source_chat_id r) of None \<Rightarrow> r
      | Some old \<Rightarrow> r\<lparr>ex_source_chat_id := ex_source_chat_id old, ex_created_at := ex_created_at old\<rparr>)
    = keep_snapshot_creation (row_get ex_source_chat_id t (ex_source_chat_id r)) r"
    by (auto simp: keep_snapshot_creation_def split: option.split dest!: row_get_key)
  then show "sql_export_snapshot_get (sql_export_snapshot_save r t) = (sql_export_snapshot_get t)
      (ex_source_chat_id r \<mapsto> keep_snapshot_creation (sql_export_snapshot_get t (ex_source_chat_id r)) r)"
    unfolding sql_export_snapshot_get_def sql_export_snapshot_save_def row_get_def [symmetric]
    by (subst upsert_get) simp_all
qed

section \<open>Migration states\<close>

record migration_state_row =
  sr_migration_id :: string
  sr_status :: lifecycle_status
  sr_freeze_started_at :: "datetime option"
  sr_finalized_at :: "datetime option"
  sr_last_reconcile_at :: "datetime option"
  sr_last_blockers_json :: json
  sr_created_at :: datetime
  sr_updated_at :: datetime

definition blockers_json :: "string list \<Rightarrow> json" where
  "blockers_json blockers = JObj [(''items'', JList (map JStr blockers))]"

text \<open>Only strings are ever written to the list, so \<open>str\<close> of an item is the item.\<close>

definition json_text :: "json \<Rightarrow> string" where
  "json_text j = (case j of JStr s \<Rightarrow> s | _ \<Rightarrow> [])"

definition blockers_of_json :: "json \<Rightarrow> string list" where
  "blockers_of_json j = (case j of
     JObj members \<Rightarrow> (case dict_get members ''items'' of Some (JList items) \<Rightarrow> map json_text items | _ \<Rightarrow> [])
   | _ \<Rightarrow> [])"

definition migration_state_to_domain :: "migration_state_row \<Rightarrow> migration_state_record" where
  "migration_state_to_domain r = \<lparr>ms_migration_id = sr_migration_id r, ms_status = sr_status r,
     ms_updated_at = sr_updated_at r, ms_created_at = sr_created_at r, ms_freeze_started_at = sr_freeze_started_at r,
     ms_finalized_at = sr_finalized_at r, ms_last_reconcile_at = sr_last_reconcile_at r,
     ms_last_blockers = blockers_of_json (sr_last_blockers_json r)\<rparr>"

definition sql_state_get :: "migration_state_row table \<Rightarrow> string \<Rightarrow> migration_state_record option" where
  "sql_state_get t m = map_option migration_state_to_domain (row_where (\<lambda>r. sr_migration_id r = m) t)"

definition sql_state_save :: "migration_state_record \<Rightarrow> migration_state_row table \<Rightarrow> migration_state_row table" where
  "sql_state_save r t = snd (insert_or_update sr_migration_id (\<lambda>_. True)
     (\<lambda>old. old\<lparr>sr_status := ms_status r, sr_freeze_started_at := ms_freeze_started_at r,
        sr_finalized_at := ms_finalized_at r, sr_last_reconcile_at := ms_last_reconcile_at r,
        sr_last_blockers_json := blockers_json (ms_last_blockers r), sr_updated_at := ms_updated_at r\<rparr>)
     \<lparr>sr_migration_id = ms_migration_id r, sr_status = ms_status r, sr_freeze_started_at = ms_freeze_started_at r,
      sr_finalized_at = ms_finalized_at r, sr_last_reconcile_at = ms_last_reconcile_at r,
      sr_last_blockers_json = blockers_json (ms_last_blockers r), sr_created_at = ms_created_at r,
      sr_updated_at = ms_updated_at r\<rparr> t)"

definition keep_state_creation :: "migration_state_record option \<Rightarrow> migration_state_record \<Rightarrow> migration_state_record" where
  "keep_state_creation old r = (case old of None \<Rightarrow> r | Some o' \<Rightarrow> r\<lparr>ms_created_at := ms_created_at o'\<rparr>)"

lemma blockers_round_trip [simp]: "blockers_of_json (blockers_json bs) = bs"
  by (simp add: blockers_of_json_def blockers_json_def json_text_def o_def)

interpretation sql_states: merging_store sql_state_get sql_state_save ms_migration_id keep_state_creation
proof unfold_locales
  fix r t
  show "sql_state_get (sql_state_save r t) =
      (sql_state_get t)(ms_migration_id r \<mapsto> keep_state_creation (sql_state_get t (ms_migration_id r)) r)"
  proof
    fix k
    show "sql_state_get (sql_state_save r t) k =
        ((sql_state_get t)(ms_migration_id r \<mapsto> keep_state_creation (sql_state_get t (ms_migration_id r)) r)) k"
      unfolding sql_state_get_def sql_state_save_def row_get_def [symmetric]
      by (subst insert_or_update_get)
        (auto simp: keep_state_creation_def migration_state_to_domain_def split: option.split dest!: row_get_key)
  qed
qed

section \<open>The consumer inbox\<close>

definition inbox_row_of :: "payload_mode \<Rightarrow> consumer_inbox_record \<Rightarrow> consumer_inbox_record" where
  "inbox_row_of mode r = r\<lparr>ib_result_payload :=
     (case sanitize_payload mode (Some (JObj (ib_result_payload r))) of JObj members \<Rightarrow> members | _ \<Rightarrow> [])\<rparr>"

definition sql_inbox_is_processed :: "string \<times> string \<Rightarrow> consumer_inbox_record table \<Rightarrow> bool" where
  "sql_inbox_is_processed k t \<longleftrightarrow> row_where (\<lambda>r. (ib_consumer_name r, ib_message_id r) = k) t \<noteq> None"

definition sql_inbox_mark_processed ::
    "payload_mode \<Rightarrow> consumer_inbox_record \<Rightarrow> consumer_inbox_record table \<Rightarrow> bool \<times> consumer_inbox_record table" where
  "sql_inbox_mark_processed mode r t =
    (let (inserted, t') = insert_or_nothing (\<lambda>r. (ib_consumer_name r, ib_message_id r)) (inbox_row_of mode r) t
     in (inserted \<noteq> None, t'))"

lemma inbox_key_sql: "(\<lambda>r. (ib_consumer_name r, ib_message_id r)) = inbox_key"
  by (simp add: inbox_key_def fun_eq_iff)

lemma inbox_row_of_key [simp]: "inbox_key (inbox_row_of mode r) = inbox_key r"
  by (simp add: inbox_key_def inbox_row_of_def)

interpretation sql_inbox: once_store sql_inbox_is_processed "sql_inbox_mark_processed mode" inbox_key for mode
proof unfold_locales
  fix r k t
  have has: "sql_inbox_is_processed k t \<longleftrightarrow> row_get inbox_key t k \<noteq> None" for k t
    by (simp add: sql_inbox_is_processed_def row_get_def inbox_key_def)
  have put: "sql_inbox_mark_processed mode r t = (fst (insert_or_nothing inbox_key (inbox_row_of mode r) t) \<noteq> None,
      snd (insert_or_nothing inbox_key (inbox_row_of mode r) t))"
    by (simp add: sql_inbox_mark_processed_def inbox_key_sql split_beta)
  show "fst (sql_inbox_mark_processed mode r t) \<longleftrightarrow> \<not> sql_inbox_is_processed (inbox_key r) t"
    by (simp add: put has insert_or_nothing_get)
  show "snd (sql_inbox_mark_processed mode r t) = t" if "sql_inbox_is_processed (inbox_key r) t"
    using that some_row [of inbox_key "inbox_key r" t] by (simp add: put has insert_or_nothing_def)
  show "sql_inbox_is_processed k (snd (sql_inbox_mark_processed mode r t))
      \<longleftrightarrow> k = inbox_key r \<or> sql_inbox_is_processed k t"
    by (auto simp: put has insert_or_nothing_get)
qed

section \<open>Watermarks\<close>

definition sql_watermark_get :: "service_watermark_record table \<Rightarrow> string \<times> string \<Rightarrow> service_watermark_record option" where
  "sql_watermark_get t k = row_where (\<lambda>r. (wm_consumer_name r, wm_logical_stream_key r) = k) t"

definition sql_watermark_upsert ::
    "service_watermark_record \<Rightarrow> service_watermark_record table \<Rightarrow> service_watermark_record table" where
  "sql_watermark_upsert r t = snd (insert_or_update (\<lambda>r. (wm_consumer_name r, wm_logical_stream_key r)) (\<lambda>_. True)
     (\<lambda>old. old\<lparr>wm_watermark_value := wm_watermark_value r, wm_updated_at := wm_updated_at r\<rparr>) r t)"

definition sql_watermark_list_all :: "service_watermark_record table \<Rightarrow> service_watermark_record list" where
  "sql_watermark_list_all t = sort_key (\<lambda>r. (wm_consumer_name r, wm_logical_stream_key r)) t"

lemma watermark_key_sql: "(\<lambda>r. (wm_consumer_name r, wm_logical_stream_key r)) = watermark_key"
  by (simp add: watermark_key_def fun_eq_iff)

interpretation sql_watermarks: record_store sql_watermark_get sql_watermark_upsert watermark_key
proof unfold_locales
  fix r t
  have "(case row_get watermark_key t (watermark_key r) of None \<Rightarrow> r
      | Some old \<Rightarrow> old\<lparr>wm_watermark_value := wm_watermark_value r, wm_updated_at := wm_updated_at r\<rparr>) = r"
    by (auto simp: watermark_key_def split: option.split dest!: row_get_key)
  moreover have "sql_watermark_get t = row_get watermark_key t" for t
    by (simp add: fun_eq_iff sql_watermark_get_def row_get_def watermark_key_def)
  ultimately show "sql_watermark_get (sql_watermark_upsert r t) = (sql_watermark_get t)(watermark_key r \<mapsto> r)"
    by (simp add: sql_watermark_upsert_def watermark_key_sql, subst upsert_get) (simp_all add: watermark_key_def)
qed

section \<open>Operator sessions and the audit log\<close>

definition sql_session_get :: "operator_session_record table \<Rightarrow> string \<Rightarrow> operator_session_record option" where
  "sql_session_get t huid = row_where (\<lambda>r. os_operator_huid r = huid) t"

definition sql_session_save ::
    "operator_session_record \<Rightarrow> operator_session_record table \<Rightarrow> operator_session_record option \<times> operator_session_record table" where
  "sql_session_save r t = insert_or_update os_operator_huid (\<lambda>_. True)
     (\<lambda>old. r\<lparr>os_operator_huid := os_operator_huid old, os_created_at := os_created_at old\<rparr>) r t"

definition sql_session_delete :: "string \<Rightarrow> operator_session_record table \<Rightarrow> bool \<times> operator_session_record table" where
  "sql_session_delete huid t =
    (let (gone, t') = delete_where (\<lambda>r. os_operator_huid r = huid) t in (one_or_none gone \<noteq> None, t'))"

text \<open>The sessions of the table are those of the dictionary.\<close>

lemma sql_session_save_refines:
  assumes "unique_rows os_operator_huid t"
  shows "rows_dict os_operator_huid (\<lambda>r. r) (snd (sql_session_save r t))
    = snd (session_save r (rows_dict os_operator_huid (\<lambda>r. r) t))"
  using rows_dict_upsert [OF assms, of r "\<lambda>old. r\<lparr>os_operator_huid := os_operator_huid old,
      os_created_at := os_created_at old\<rparr>" "\<lambda>r. r"]
  by (auto simp: sql_session_save_def session_save_def Let_def split: option.splits dest!: row_get_key)

definition sql_audit_add :: "payload_mode \<Rightarrow> audit_event \<Rightarrow> audit_event table \<Rightarrow> audit_event table" where
  "sql_audit_add mode e t = t @ [e\<lparr>ae_payload_json :=
     (case sanitize_payload mode (Some (JObj (ae_payload_json e))) of JObj members \<Rightarrow> members | _ \<Rightarrow> [])\<rparr>]"

end
