(* ===== verification/Sql_Claims.thy ===== *)
theory Sql_Claims
  imports Sql_Tables Claims
begin

text \<open>
  The shape of a claim in the SQL repositories of messages, attachments and uploads. It has two
  statements that other workers can come between: the first inserts the row or reads the one that is
  there, the second - if the row read may be taken over - updates it. A stale row is taken over only if
  it still is as it was read (\<open>Swap\<close>); a failed one whatever it has become (\<open>Retake\<close>). An answer that is
  no grant carries the row as it was read; what the object-relational mapper may have written into its
  copy of a row whose update it lost is not modelled.
\<close>

section \<open>The two statements\<close>

datatype 'w claim_turn = Decided claim_state 'w | Swap 'w | Retake 'w

definition claim_first :: "('w \<Rightarrow> 'k) \<Rightarrow> 'w \<Rightarrow> ('w \<Rightarrow> 'w claim_turn) \<Rightarrow> 'w table \<Rightarrow> 'w claim_turn \<times> 'w table" where
  "claim_first key new decide t =
    (case insert_or_nothing key new t of
       (Some w, t') \<Rightarrow> (Decided Claimed w, t')
     | (None, t') \<Rightarrow> (case row_where (\<lambda>w. key w = key new) t' of
           None \<Rightarrow> Decided ClaimAmbiguous new | Some w \<Rightarrow> decide w, t'))"

definition claim_second ::
    "('w \<Rightarrow> 'k) \<Rightarrow> ('w \<Rightarrow> 'w \<Rightarrow> bool) \<Rightarrow> ('w \<Rightarrow> 'w) \<Rightarrow> ('w \<Rightarrow> 'w) \<Rightarrow> 'w claim_turn \<Rightarrow> 'w table
      \<Rightarrow> (error, claim_state \<times> 'w) outcome \<times> 'w table" where
  "claim_second key same swapped retaken turn t =
    (case turn of
       Decided st w \<Rightarrow> (Inr (st, w), t)
     | Swap w \<Rightarrow> (case update_where (\<lambda>x. key x = key w \<and> same w x) swapped t of
           (rows, t') \<Rightarrow> (case one_or_none rows of
               Some x \<Rightarrow> (Inr (Claimed, x), t') | None \<Rightarrow> (Inr (ClaimAmbiguous, w), t')))
     | Retake w \<Rightarrow> (case update_where (\<lambda>x. key x = key w) retaken t of
           (rows, t') \<Rightarrow> (case exactly_one rows of
               Inl e \<Rightarrow> (Inl e, t') | Inr x \<Rightarrow> (Inr (Claimed, x), t'))))"

text \<open>Both statements without anyone in between, with the answer as the repository gives it.\<close>

definition whole_claim ::
    "('w \<Rightarrow> 'k) \<Rightarrow> ('w \<Rightarrow> 'r) \<Rightarrow> 'w \<Rightarrow> ('w \<Rightarrow> 'w claim_turn) \<Rightarrow> ('w \<Rightarrow> 'w \<Rightarrow> bool) \<Rightarrow> ('w \<Rightarrow> 'w) \<Rightarrow> ('w \<Rightarrow> 'w)
      \<Rightarrow> 'w table \<Rightarrow> (error, claim_state \<times> 'r) outcome \<times> 'w table" where
  "whole_claim key domain new decide same swapped retaken t =
    (case claim_first key new decide t of (turn, t1) \<Rightarrow>
     case claim_second key same swapped retaken turn t1 of (res, t2) \<Rightarrow> (map_sum id (map_prod id domain) res, t2))"

text \<open>A marking statement: the row it updates has to be there.\<close>

definition mark_row ::
    "('w \<Rightarrow> 'k) \<Rightarrow> ('w \<Rightarrow> 'r) \<Rightarrow> 'k \<Rightarrow> ('w \<Rightarrow> 'w) \<Rightarrow> 'w table \<Rightarrow> (error, 'r) outcome \<times> 'w table" where
  "mark_row key domain k change t =
    (case update_where (\<lambda>w. key w = k) change t of
       (rows, t') \<Rightarrow> (case exactly_one rows of Inl e \<Rightarrow> Inl e | Inr w \<Rightarrow> Inr (domain w), t'))"

lemma mark_row_get:
  assumes "unique_rows key t" and "\<And>w. key (change w) = key w"
  shows "mark_row key domain k change t =
    (case row_get key t k of
       None \<Rightarrow> (Inl (OtherError ''NoResultFound'' ''No row was found when one was required''), t)
     | Some w \<Rightarrow> (Inr (domain (change w)), snd (update_where (\<lambda>w. key w = k) change t)))"
proof (cases "row_get key t k")
  case None
  then have "update_where (\<lambda>w. key w = k) change t = ([], t)"
    by (intro update_where_nothing) (auto simp: row_get_None image_iff)
  with None show ?thesis by (simp add: mark_row_def exactly_one_def)
next
  case (Some w)
  with update_where_row [OF assms(1), of k "\<lambda>_. True" change] show ?thesis
    by (simp add: mark_row_def exactly_one_def split_beta)
qed

section \<open>The contract\<close>

text \<open>
  What a repository has to say about its rows: which turn a row read leads to, when its worker still
  holds it, and when it is delivered. Then its claims follow the protocol of all claims.
\<close>

locale table_claims =
  fixes row_key :: "'w \<Rightarrow> 'k"
    and domain :: "'w \<Rightarrow> 'r"
    and key :: "'r \<Rightarrow> 'k"
    and new :: "'r \<Rightarrow> datetime \<Rightarrow> 'w"
    and decide :: "'a \<Rightarrow> datetime \<Rightarrow> 'w \<Rightarrow> 'w claim_turn"
    and same :: "'w \<Rightarrow> 'w \<Rightarrow> bool"
    and swapped :: "'r \<Rightarrow> datetime \<Rightarrow> 'w \<Rightarrow> 'w"
    and retaken :: "'r \<Rightarrow> datetime \<Rightarrow> 'w \<Rightarrow> 'w"
    and valid :: "'r \<Rightarrow> bool"
    and delivered :: "'r \<Rightarrow> bool"
    and row_held :: "datetime \<Rightarrow> 'w \<Rightarrow> bool"
    and fresh :: "datetime \<Rightarrow> datetime \<Rightarrow> bool"
    and sql_claim :: "'a \<Rightarrow> 'r \<Rightarrow> datetime \<Rightarrow> datetime \<Rightarrow> 'w table \<Rightarrow> (error, claim_state \<times> 'r) outcome \<times> 'w table"
  assumes claim_steps: "sql_claim a r t c tab =
      whole_claim row_key domain (new r c) (decide a t) same (swapped r c) (retaken r c) tab"
    and new_key: "row_key (new r c) = key r"
    and swapped_key: "row_key (swapped r c w) = row_key w"
    and retaken_key: "row_key (retaken r c w) = row_key w"
    and decided: "decide a t w = Decided st x \<Longrightarrow> st \<noteq> Claimed \<and> x = w"
    and swap_read: "decide a t w = Swap x \<Longrightarrow> x = w"
    and retake_read: "decide a t w = Retake x \<Longrightarrow> x = w"
    and same_row: "same w w"
    and granted_held: "valid r \<Longrightarrow> fresh c t \<Longrightarrow>
      row_held t (new r c) \<and> row_held t (swapped r c w) \<and> row_held t (retaken r c w)"
    and held_refused: "row_held t w \<Longrightarrow> decide a t w = Decided ClaimAmbiguous w"
    and delivered_refused: "delivered (domain w) \<Longrightarrow> decide a t w = Decided ClaimImported w"
begin

definition row_claims_get :: "'w table \<Rightarrow> 'k \<Rightarrow> 'r option" where
  "row_claims_get tab k = map_option domain (row_get row_key tab k)"

definition rows_held :: "datetime \<Rightarrow> 'w table \<Rightarrow> 'k \<Rightarrow> bool" where
  "rows_held t tab k \<longleftrightarrow> (\<exists>w. row_get row_key tab k = Some w \<and> row_held t w)"

text \<open>The answer, which never is an error\<close>

definition claim :: "'a \<Rightarrow> 'r \<Rightarrow> datetime \<Rightarrow> datetime \<Rightarrow> 'w table \<Rightarrow> (claim_state \<times> 'r) \<times> 'w table" where
  "claim a r t c tab = (projr (fst (sql_claim a r t c tab)), snd (sql_claim a r t c tab))"

lemma claim_answers: "sql_claim a r t c tab = (Inr (fst (claim a r t c tab)), snd (claim a r t c tab))"
proof -
  have "\<exists>x. fst (sql_claim a r t c tab) = Inr x"
  proof (cases "row_get row_key tab (key r)")
    case None
    then show ?thesis
      by (simp add: claim_steps whole_claim_def claim_first_def claim_second_def insert_or_nothing_def some_row new_key)
  next
    case (Some w)
    then have read: "claim_first row_key (new r c) (decide a t) tab = (decide a t w, tab)"
      by (simp add: claim_first_def insert_or_nothing_def some_row new_key row_get_def)
    have "\<exists>y. exactly_one (fst (update_where (\<lambda>x. row_key x = key r) f tab)) = Inr y" for f
      using row_get_key [OF Some]
      by (auto simp: update_where_def exactly_one_def filter_empty_conv split: list.split)
    then obtain y where "exactly_one (fst (update_where (\<lambda>x. row_key x = key r) (retaken r c) tab)) = Inr y" by blast
    with read row_get_key [OF Some] show ?thesis
      by (cases "decide a t w") (auto simp: claim_steps whole_claim_def claim_second_def split_beta
          dest!: retake_read split: option.split)
  qed
  then show ?thesis by (auto simp: claim_def prod_eq_iff)
qed

text \<open>Every claim inserts a row, replaces the row of its key, or changes nothing.\<close>

lemma claim_effect:
  obtains (ambiguous_keys) "\<not> unique_rows row_key tab"
  | (insert) "row_get row_key tab (key r) = None"
      "claim a r t c tab = ((Claimed, domain (new r c)), tab @ [new r c])"
  | (replace) w where "row_get row_key tab (key r) = Some w" "decide a t w \<in> {Swap w, Retake w}"
      "claim a r t c tab = ((Claimed, domain (if decide a t w = Swap w then swapped r c w else retaken r c w)),
        map (\<lambda>x. if row_key x = key r then if decide a t w = Swap w then swapped r c x else retaken r c x else x) tab)"
  | (refuse) w st where "row_get row_key tab (key r) = Some w" "decide a t w = Decided st w" "st \<noteq> Claimed"
      "claim a r t c tab = ((st, domain w), tab)"
proof (cases "unique_rows row_key tab")
  case unique: True
  show ?thesis
  proof (cases "row_get row_key tab (key r)")
    case None
    then have "insert_or_nothing row_key (new r c) tab = (Some (new r c), tab @ [new r c])"
      by (simp add: insert_or_nothing_def some_row new_key)
    with None show ?thesis
      by (intro insert) (simp_all add: claim_def claim_steps whole_claim_def claim_first_def claim_second_def)
  next
    case (Some w)
    have key: "row_key w = key r" using row_get_key [OF Some] by simp
    have read: "claim_first row_key (new r c) (decide a t) tab = (decide a t w, tab)"
      using Some by (simp add: claim_first_def insert_or_nothing_def some_row new_key row_get_def)
    show ?thesis
    proof (cases "decide a t w")
      case (Decided st x)
      with decided [OF Decided] Some read show ?thesis
        by (intro refuse) (simp_all add: claim_def claim_steps whole_claim_def claim_second_def)
    next
      case (Swap x)
      have x: "x = w" using Swap by (rule swap_read)
      have others: "x' = w" if "x' \<in> set tab" "row_key x' = key r" for x'
        using row_get_mem [OF unique that(1)] Some that(2) by simp
      have rows: "fst (update_where (\<lambda>x. row_key x = row_key w \<and> same w x) (swapped r c) tab) = [swapped r c w]"
        using update_where_row [OF unique, of "row_key w" "same w" "swapped r c"] Some key same_row by simp
      have tab': "snd (update_where (\<lambda>x. row_key x = row_key w \<and> same w x) (swapped r c) tab)
          = map (\<lambda>x. if row_key x = key r then swapped r c x else x) tab"
        unfolding update_where_def snd_conv key by (intro map_cong refl) (use others same_row in auto)
      show ?thesis
        by (rule replace [OF Some])
          (simp_all add: Swap x claim_def claim_steps whole_claim_def read claim_second_def split_beta rows tab' one_or_none_def exactly_one_def)
    next
      case (Retake x)
      have x: "x = w" using Retake by (rule retake_read)
      have rows: "fst (update_where (\<lambda>x. row_key x = row_key w) (retaken r c) tab) = [retaken r c w]"
        using update_where_row [OF unique, of "row_key w" "\<lambda>_. True" "retaken r c"] Some key by simp
      have tab': "snd (update_where (\<lambda>x. row_key x = row_key w) (retaken r c) tab)
          = map (\<lambda>x. if row_key x = key r then retaken r c x else x) tab"
        by (simp add: update_where_def key)
      show ?thesis
        by (rule replace [OF Some])
          (simp_all add: Retake x claim_def claim_steps whole_claim_def read claim_second_def split_beta rows tab' one_or_none_def exactly_one_def)
    qed
  qed
qed (rule ambiguous_keys)

lemma replaced_get:
  "row_get row_key (map (\<lambda>x. if row_key x = key r then if b then swapped r c x else retaken r c x else x) tab) k
    = (case row_get row_key tab k of None \<Rightarrow> None
       | Some x \<Rightarrow> Some (if row_key x = key r then if b then swapped r c x else retaken r c x else x))"
  by (subst row_get_map) (auto simp: swapped_key retaken_key split: option.split)

lemma claim_unique:
  assumes "unique_rows row_key tab"
  shows "unique_rows row_key (snd (claim a r t c tab))"
proof (cases rule: claim_effect [where tab = tab and r = r and a = a and t = t and c = c])
  case (replace w)
  have "map row_key (map (\<lambda>x. if row_key x = key r then if b then swapped r c x else retaken r c x else x) tab)
      = map row_key tab" for b
    by (simp add: swapped_key retaken_key)
  with replace assms show ?thesis by (simp del: map_map)
qed (use assms in \<open>auto simp: row_get_None new_key\<close>)

text \<open>Whatever the table, a claim that is not granted changes nothing, and no claim touches other rows.\<close>

lemma claim_shape:
  obtains (insert) "row_get row_key tab (key r) = None" "fst (fst (claim a r t c tab)) = Claimed"
      "snd (claim a r t c tab) = tab @ [new r c]"
  | (update) w P f where "row_get row_key tab (key r) = Some w" "fst (fst (claim a r t c tab)) = Claimed"
      "snd (claim a r t c tab) = snd (update_where (\<lambda>x. row_key x = key r \<and> P x) f tab)" "\<And>x. row_key (f x) = row_key x"
  | (refuse) w st where "row_get row_key tab (key r) = Some w" "st \<noteq> Claimed" "claim a r t c tab = ((st, domain w), tab)"
proof (cases "row_get row_key tab (key r)")
  case None
  then have "insert_or_nothing row_key (new r c) tab = (Some (new r c), tab @ [new r c])"
    by (simp add: insert_or_nothing_def some_row new_key)
  with None show ?thesis
    by (intro insert) (simp_all add: claim_def claim_steps whole_claim_def claim_first_def claim_second_def)
next
  case (Some w)
  have key: "row_key w = key r" and mem: "w \<in> set tab" using row_get_key [OF Some] by simp_all
  have read: "claim_first row_key (new r c) (decide a t) tab = (decide a t w, tab)"
    using Some by (simp add: claim_first_def insert_or_nothing_def some_row new_key row_get_def)
  have granted: "\<exists>y. one_or_none (fst (update_where (\<lambda>x. row_key x = key r \<and> P x) f tab)) = Some y
      \<and> exactly_one (fst (update_where (\<lambda>x. row_key x = key r \<and> P x) f tab)) = Inr y" if "P w" for P f
    using mem key that by (auto simp: update_where_def one_or_none_def exactly_one_def filter_empty_conv split: list.split)
  show ?thesis
  proof (cases "decide a t w")
    case (Decided st x)
    with decided [OF Decided] Some read show ?thesis
      by (intro refuse) (simp_all add: claim_def claim_steps whole_claim_def claim_second_def)
  next
    case (Swap x)
    have "x = w" using Swap by (rule swap_read)
    with granted [of "same w" "swapped r c"] same_row obtain y where
      "one_or_none (fst (update_where (\<lambda>x. row_key x = key r \<and> same w x) (swapped r c) tab)) = Some y" by blast
    with \<open>x = w\<close> show ?thesis
      by (intro update [OF Some, of "same w" "swapped r c"])
        (simp_all add: Swap claim_def claim_steps whole_claim_def read claim_second_def split_beta key swapped_key)
  next
    case (Retake x)
    have "x = w" using Retake by (rule retake_read)
    from granted [of "\<lambda>_. True" "retaken r c"] obtain y where
      "exactly_one (fst (update_where (\<lambda>x. row_key x = key r) (retaken r c) tab)) = Inr y" by auto
    with \<open>x = w\<close> show ?thesis
      by (intro update [OF Some, of "\<lambda>_. True" "retaken r c"])
        (simp_all add: Retake claim_def claim_steps whole_claim_def read claim_second_def split_beta key retaken_key)
  qed
qed

lemma claim_other_row:
  assumes "k \<noteq> key r"
  shows "row_get row_key (snd (claim a r t c tab)) k = row_get row_key tab k"
proof (cases rule: claim_shape [of tab r a t c])
  case insert
  with assms show ?thesis by (simp add: row_get_append new_key split: option.split)
next
  case (update w P f)
  with assms show ?thesis
    by (cases "row_get row_key tab k") (auto simp: update_where_get dest: row_get_key)
qed simp

lemma claim_own_row:
  assumes "unique_rows row_key tab" and "valid r" and "fst (fst (claim a r t c tab)) = Claimed"
  shows "\<exists>w. row_get row_key (snd (claim a r t c tab)) (key r) = Some w \<and> snd (fst (claim a r t c tab)) = domain w
    \<and> (\<forall>t'. fresh c t' \<longrightarrow> row_held t' w)"
proof (cases rule: claim_effect [where tab = tab and r = r and a = a and t = t and c = c])
  case insert
  then show ?thesis using granted_held [OF assms(2)] by (simp add: row_get_append new_key)
next
  case (replace w)
  then show ?thesis
    using granted_held [OF assms(2)] row_get_key [OF replace(1)] by (simp add: replaced_get)
qed (use assms in simp_all)

end

sublocale table_claims \<subseteq> protocol: claim_protocol row_claims_get key "unique_rows row_key" valid delivered rows_held
  "\<lambda>_. fresh" claim
proof unfold_locales
  fix a r t c tab
  show "unique_rows row_key (snd (claim a r t c tab))" if "unique_rows row_key tab"
    using that by (rule claim_unique)
  show "row_claims_get (snd (claim a r t c tab)) (key r) = Some (snd (fst (claim a r t c tab)))
      \<and> (\<forall>t'. fresh c t' \<longrightarrow> rows_held t' (snd (claim a r t c tab)) (key r))"
    if "unique_rows row_key tab" "valid r" "fst (fst (claim a r t c tab)) = Claimed"
    using claim_own_row [OF that] by (auto simp: row_claims_get_def rows_held_def)
  show "snd (claim a r t c tab) = tab \<and> row_claims_get tab (key r) = Some (snd (fst (claim a r t c tab)))"
    if "fst (fst (claim a r t c tab)) \<noteq> Claimed"
    by (cases rule: claim_shape [of tab r a t c]) (use that in \<open>simp_all add: row_claims_get_def\<close>)
  show "fst (fst (claim a r t c tab)) = ClaimAmbiguous" if "unique_rows row_key tab" "rows_held t tab (key r)"
    using that held_refused
    by (cases rule: claim_effect [where tab = tab and r = r and a = a and t = t and c = c]) (auto simp: rows_held_def)
  show "fst (fst (claim a r t c tab)) = ClaimImported"
    if "unique_rows row_key tab" "row_claims_get tab (key r) = Some e" "delivered e" for e
    using that delivered_refused
    by (cases rule: claim_effect [where tab = tab and r = r and a = a and t = t and c = c]) (auto simp: row_claims_get_def)
  show "row_claims_get (snd (claim a r t c tab)) k = row_claims_get tab k
      \<and> rows_held t' (snd (claim a r t c tab)) k = rows_held t' tab k" if "k \<noteq> key r" for k t'
    using claim_other_row [OF that] by (simp add: row_claims_get_def rows_held_def)
qed simp

section \<open>Two workers between the statements\<close>

text \<open>
  Of two workers that read the same stale row, the second one to update it gets nothing, if what the
  first one wrote differs from what was read.
\<close>

lemma swapped_once:
  assumes "unique_rows key t" and "row_get key t (key w) = Some w" and change: "\<And>x. key (f x) = key x"
    and "\<not> same w (f w)" and t': "t' = snd (claim_second key same f f' (Swap w) t)"
  shows "claim_second key same g g' (Swap w) t' = (Inr (ClaimAmbiguous, w), t')"
proof -
  have t'_eq: "t' = snd (update_where (\<lambda>x. key x = key w \<and> same w x) f t)"
    by (simp add: t' claim_second_def split_beta split: option.split)
  have unique: "unique_rows key t'" unfolding t'_eq using assms(1) by (subst update_where_unique) (simp_all add: change)
  have row: "row_get key t' (key w) = Some (if same w w then f w else w)"
    unfolding t'_eq by (simp add: update_where_get change assms(2))
  have "\<not> (key x = key w \<and> same w x)" if "x \<in> set t'" for x
  proof
    assume x: "key x = key w \<and> same w x"
    with row_get_mem [OF unique that] row have "x = (if same w w then f w else w)" by simp
    with x assms(4) show False by (cases "same w w") simp_all
  qed
  then have "update_where (\<lambda>x. key x = key w \<and> same w x) g t' = ([], t')" by (rule update_where_nothing)
  then show ?thesis by (simp add: claim_second_def one_or_none_def)
qed

text \<open>A row that is retaken is granted whatever has become of it.\<close>

lemma retaken_always:
  assumes "unique_rows key t" and "row_get key t (key w) = Some x" and "\<And>x. key (h x) = key x"
  shows "claim_second key same g h (Retake w) t = (Inr (Claimed, h x), snd (update_where (\<lambda>x. key x = key w) h t))"
    and "row_get key (snd (update_where (\<lambda>x. key x = key w) h t)) (key w) = Some (h x)"
proof -
  have "fst (update_where (\<lambda>x. key x = key w) h t) = [h x]"
    using update_where_row [OF assms(1), of "key w" "\<lambda>_. True" h] assms(2) by simp
  then show "claim_second key same g h (Retake w) t = (Inr (Claimed, h x), snd (update_where (\<lambda>x. key x = key w) h t))"
    by (simp add: claim_second_def split_beta exactly_one_def)
  show "row_get key (snd (update_where (\<lambda>x. key x = key w) h t)) (key w) = Some (h x)"
    using row_get_key [OF assms(2)] update_where_get [of key h "\<lambda>x. key x = key w" t "key w"] assms(3)
    by (simp add: assms(2))
qed

end
