(* ===== verification/Sql_Messages.thy ===== *)
theory Sql_Messages
  imports Sql_Claims Message_Repo
begin

text \<open>
  \<open>PostgresMessageMappingRepository\<close>: the rows of \<open>migration_message_map\<close> are the records with the time of
  their last update, which is what a claim judges a row by. Bodies are stored only when configured,
  error payloads sanitized. (The column \<open>created_at\<close>, which the server sets, is never read.)
\<close>

section \<open>Rows\<close>

record message_row = message_mapping_record +
  mq_updated_at :: datetime

record sql_message_config =
  sm_persist_bodies :: bool
  sm_payload_mode :: payload_mode
  sm_stale_after :: timedelta

text \<open>The constructor takes the window in seconds and clamps it to at least one.\<close>

definition sql_message_config :: "bool \<Rightarrow> payload_mode \<Rightarrow> timedelta \<Rightarrow> sql_message_config" where
  "sql_message_config bodies mode stale_after = \<lparr>sm_persist_bodies = bodies, sm_payload_mode = mode,
     sm_stale_after = max stale_after one_second\<rparr>"

definition message_row_key :: "message_row \<Rightarrow> message_key" where
  "message_row_key w = (mm_migration_id w, mm_source_chat_id w, mm_source_message_id w)"

definition message_to_domain :: "message_row \<Rightarrow> message_mapping_record" where
  "message_to_domain w = message_mapping_record.truncate w"

definition sanitize_rendered_body :: "sql_message_config \<Rightarrow> string option \<Rightarrow> string option" where
  "sanitize_rendered_body cfg body = (if sm_persist_bodies cfg then body else None)"

definition message_row_of :: "sql_message_config \<Rightarrow> message_mapping_record \<Rightarrow> datetime \<Rightarrow> message_row" where
  "message_row_of cfg r now = message_mapping_record.extend
     (r\<lparr>mm_rendered_body := sanitize_rendered_body cfg (mm_rendered_body r),
        mm_last_error_payload := Some (sanitize_payload (sm_payload_mode cfg) (mm_last_error_payload r))\<rparr>)
     (message_row.fields now)"

section \<open>Claiming\<close>

text \<open>What a claim does with the row it reads; \<open>now\<close> is the time it is judged at.\<close>

definition message_row_stale :: "sql_message_config \<Rightarrow> datetime \<Rightarrow> message_row \<Rightarrow> bool" where
  "message_row_stale cfg now w \<longleftrightarrow> mq_updated_at w \<le> now - sm_stale_after cfg"

definition decide_message :: "sql_message_config \<Rightarrow> datetime \<Rightarrow> message_row \<Rightarrow> message_row claim_turn" where
  "decide_message cfg now w =
    (if mm_import_status w = MsgProcessing \<and> (is_cancel_code (mm_last_error_code w) \<or> message_row_stale cfg now w)
       \<or> mm_import_status w = MsgAmbiguous \<and> mm_last_error_code w = Some ''AmbiguousDeliveryError''
         \<and> mm_target_sync_id w = None \<and> message_row_stale cfg now w
     then Swap w
     else if mm_import_status w = MsgFailed \<and> is_cancel_code (mm_last_error_code w) then Retake w
     else Decided (case mm_import_status w of MsgImported \<Rightarrow> ClaimImported | MsgFailed \<Rightarrow> ClaimFailed | _ \<Rightarrow> ClaimAmbiguous) w)"

definition same_message_row :: "message_row \<Rightarrow> message_row \<Rightarrow> bool" where
  "same_message_row w x \<longleftrightarrow> mm_import_status x = mm_import_status w \<and> mq_updated_at x = mq_updated_at w"

definition reclaimed_message_row ::
    "sql_message_config \<Rightarrow> message_mapping_record \<Rightarrow> datetime \<Rightarrow> message_row \<Rightarrow> message_row" where
  "reclaimed_message_row cfg r now w = w\<lparr>mm_source_sent_at := mm_source_sent_at r,
     mm_target_chat_id := mm_target_chat_id r, mm_checksum := mm_checksum r, mm_import_status := MsgProcessing,
     mm_imported_at := None, mm_target_sync_id := None,
     mm_rendered_body := sanitize_rendered_body cfg (mm_rendered_body r), mm_last_error_code := None,
     mm_last_error_payload := None, mq_updated_at := now\<rparr>"

text \<open>
  Of the readings of the clock a claim makes to stamp the row, the insertion's or the update's, one
  takes effect; it is \<open>stamp\<close>.
\<close>

definition sql_message_claim_first ::
    "sql_message_config \<Rightarrow> message_mapping_record \<Rightarrow> datetime \<Rightarrow> datetime \<Rightarrow> message_row table
      \<Rightarrow> message_row claim_turn \<times> message_row table" where
  "sql_message_claim_first cfg r now stamp t =
    claim_first message_row_key (message_row_of cfg r stamp) (decide_message cfg now) t"

definition sql_message_claim_second ::
    "sql_message_config \<Rightarrow> message_mapping_record \<Rightarrow> datetime \<Rightarrow> message_row claim_turn \<Rightarrow> message_row table
      \<Rightarrow> (error, claim_state \<times> message_row) outcome \<times> message_row table" where
  "sql_message_claim_second cfg r stamp turn t =
    claim_second message_row_key same_message_row (reclaimed_message_row cfg r stamp) (reclaimed_message_row cfg r stamp) turn t"

definition sql_message_claim ::
    "sql_message_config \<Rightarrow> message_mapping_record \<Rightarrow> datetime \<Rightarrow> datetime \<Rightarrow> message_row table
      \<Rightarrow> (error, claim_state \<times> message_mapping_record) outcome \<times> message_row table" where
  "sql_message_claim cfg r now stamp t =
    (case sql_message_claim_first cfg r now stamp t of (turn, t1) \<Rightarrow>
     case sql_message_claim_second cfg r stamp turn t1 of
       (res, t2) \<Rightarrow> (map_sum id (map_prod id message_to_domain) res, t2))"

definition sql_message_get :: "message_row table \<Rightarrow> message_key \<Rightarrow> message_mapping_record option" where
  "sql_message_get t k = map_option message_to_domain (row_where (\<lambda>w. message_row_key w = k) t)"

section \<open>Outcomes\<close>

definition sql_message_mark_imported ::
    "sql_message_config \<Rightarrow> message_key \<Rightarrow> string \<Rightarrow> string \<Rightarrow> datetime \<Rightarrow> datetime \<Rightarrow> message_row table
      \<Rightarrow> (error, message_mapping_record) outcome \<times> message_row table" where
  "sql_message_mark_imported cfg k target_sync_id rendered_body imported updated =
    mark_row message_row_key message_to_domain k (\<lambda>w. w\<lparr>mm_import_status := MsgImported,
      mm_target_sync_id := Some target_sync_id, mm_rendered_body := sanitize_rendered_body cfg (Some rendered_body),
      mm_imported_at := Some imported, mm_last_error_code := None, mm_last_error_payload := None, mq_updated_at := updated\<rparr>)"

definition sql_message_mark_ambiguous ::
    "sql_message_config \<Rightarrow> message_key \<Rightarrow> string \<Rightarrow> json \<Rightarrow> datetime \<Rightarrow> message_row table
      \<Rightarrow> (error, message_mapping_record) outcome \<times> message_row table" where
  "sql_message_mark_ambiguous cfg k error_code error_payload now =
    mark_row message_row_key message_to_domain k (\<lambda>w. w\<lparr>mm_import_status := MsgAmbiguous, mm_imported_at := None,
      mm_last_error_code := Some error_code,
      mm_last_error_payload := Some (sanitize_payload (sm_payload_mode cfg) (Some error_payload)), mq_updated_at := now\<rparr>)"

definition sql_message_mark_failed ::
    "sql_message_config \<Rightarrow> message_key \<Rightarrow> string \<Rightarrow> json \<Rightarrow> datetime \<Rightarrow> message_row table
      \<Rightarrow> (error, message_mapping_record) outcome \<times> message_row table" where
  "sql_message_mark_failed cfg k error_code error_payload now =
    mark_row message_row_key message_to_domain k (\<lambda>w. w\<lparr>mm_import_status := MsgFailed,
      mm_last_error_code := Some error_code,
      mm_last_error_payload := Some (sanitize_payload (sm_payload_mode cfg) (Some error_payload)), mq_updated_at := now\<rparr>)"

definition sql_message_list_failed ::
    "string \<Rightarrow> string option \<Rightarrow> nat \<Rightarrow> message_row table \<Rightarrow> message_mapping_record list" where
  "sql_message_list_failed migration chat limit t =
    map message_to_domain (take limit (sort_key (\<lambda>w. (mm_source_sent_at w, mm_source_message_id w))
      (filter (\<lambda>w. mm_migration_id w = migration \<and> mm_import_status w = MsgFailed
         \<and> (truthy chat \<longrightarrow> chat = Some (mm_source_chat_id w))) t)))"

text \<open>
  The failed messages are listed in one transaction and updated in another one; \<open>between\<close> is the table
  as it is then. The rows come back in the order of the table.
\<close>

definition sql_message_requeue_failed ::
    "string \<Rightarrow> string option \<Rightarrow> nat \<Rightarrow> datetime \<Rightarrow> message_row table \<Rightarrow> message_row table
      \<Rightarrow> message_mapping_record list \<times> message_row table" where
  "sql_message_requeue_failed migration chat limit now t between =
    (let keys = map (\<lambda>r. (mm_source_chat_id r, mm_source_message_id r)) (sql_message_list_failed migration chat limit t)
     in if keys = [] then ([], between)
        else case update_where (\<lambda>w. mm_migration_id w = migration \<and> mm_import_status w = MsgFailed
               \<and> (mm_source_chat_id w, mm_source_message_id w) \<in> set keys)
             (\<lambda>w. w\<lparr>mm_import_status := MsgProcessing, mm_imported_at := None, mm_last_error_code := None,
                mm_last_error_payload := None, mq_updated_at := now\<rparr>) between of
           (rows, t') \<Rightarrow> (map message_to_domain rows, t'))"

definition sql_message_summarize :: "string \<Rightarrow> message_row table \<Rightarrow> message_status_summary list" where
  "sql_message_summarize migration t =
    (let counts = count_keys (map (\<lambda>w. (mm_source_chat_id w, mm_import_status w))
           (filter (\<lambda>w. mm_migration_id w = migration) t))
     in sort_key (\<lambda>s. (mss_source_chat_id s, mss_import_status s))
          (map (\<lambda>((chat, status), n). \<lparr>mss_migration_id = migration, mss_source_chat_id = chat,
             mss_import_status = status, mss_count = n\<rparr>) counts))"

section \<open>The claim contract\<close>

definition message_row_held :: "sql_message_config \<Rightarrow> datetime \<Rightarrow> message_row \<Rightarrow> bool" where
  "message_row_held cfg now w \<longleftrightarrow> mm_import_status w = MsgProcessing \<and> \<not> is_cancel_code (mm_last_error_code w)
     \<and> \<not> message_row_stale cfg now w"

lemma message_row_of_simps [simp]:
  "message_row_key (message_row_of cfg r c) = message_key r" "mm_import_status (message_row_of cfg r c) = mm_import_status r"
  "mm_last_error_code (message_row_of cfg r c) = mm_last_error_code r" "mq_updated_at (message_row_of cfg r c) = c"
  by (cases r; simp add: message_row_of_def message_row_key_def message_key_def message_mapping_record.defs
      message_row.defs)+

lemma reclaimed_row_simps [simp]:
  "message_row_key (reclaimed_message_row cfg r c w) = message_row_key w"
  "mm_import_status (reclaimed_message_row cfg r c w) = MsgProcessing"
  "mm_last_error_code (reclaimed_message_row cfg r c w) = None" "mq_updated_at (reclaimed_message_row cfg r c w) = c"
  by (simp_all add: reclaimed_message_row_def message_row_key_def)

lemma sql_message_claim_whole:
  "sql_message_claim cfg r now stamp t = whole_claim message_row_key message_to_domain (message_row_of cfg r stamp)
     (decide_message cfg now) same_message_row (reclaimed_message_row cfg r stamp) (reclaimed_message_row cfg r stamp) t"
  by (simp add: sql_message_claim_def sql_message_claim_first_def sql_message_claim_second_def whole_claim_def)

lemma message_to_domain_simps [simp]:
  "mm_import_status (message_to_domain w) = mm_import_status w"
  "mm_last_error_code (message_to_domain w) = mm_last_error_code w"
  "mm_target_sync_id (message_to_domain w) = mm_target_sync_id w"
  "message_key (message_to_domain w) = message_row_key w"
  by (simp_all add: message_to_domain_def message_mapping_record.defs message_key_def message_row_key_def)

interpretation sql_messages: table_claims message_row_key message_to_domain message_key "message_row_of cfg"
  "\<lambda>_ :: unit. decide_message cfg" same_message_row "reclaimed_message_row cfg" "reclaimed_message_row cfg"
  message_submission "\<lambda>e. mm_import_status e = MsgImported" "message_row_held cfg"
  "\<lambda>c t. t < c + sm_stale_after cfg" "\<lambda>_ :: unit. sql_message_claim cfg"
  for cfg
proof unfold_locales
  fix t w st x
  show "st \<noteq> Claimed \<and> x = w" if "decide_message cfg t w = Decided st x"
    using that by (auto simp: decide_message_def split: if_splits message_import_status.splits)
  show "x = w" if "decide_message cfg t w = Swap x" using that by (auto simp: decide_message_def split: if_splits)
  show "x = w" if "decide_message cfg t w = Retake x" using that by (auto simp: decide_message_def split: if_splits)
qed (auto simp: sql_message_claim_whole same_message_row_def message_submission_def message_row_held_def
    message_row_stale_def decide_message_def)

lemma sql_message_get_claims: "sql_messages.row_claims_get t k = sql_message_get t k"
  by (simp add: sql_messages.row_claims_get_def sql_message_get_def row_get_def)

end
