(* ===== verification/Sql_Attachments.thy ===== *)
theory Sql_Attachments
  imports Sql_Claims Attachment_Repo Stage_Repo
begin

text \<open>
  \<open>PostgresAttachmentMappingRepository\<close> and \<open>PostgresAttachmentStageRepository\<close>. The rows of
  \<open>migration_attachment_map\<close> are the records (their own times are never read); the rows of
  \<open>attachment_stage\<close> are the records with the times of their insertion and last update, never NULL.
  Error payloads, and the uploaded file itself, are stored sanitized.
\<close>

section \<open>Attachments\<close>

definition attachment_row_of :: "payload_mode \<Rightarrow> attachment_mapping_record \<Rightarrow> attachment_mapping_record" where
  "attachment_row_of mode r =
    r\<lparr>am_last_error_payload := Some (sanitize_payload mode (am_last_error_payload r))\<rparr>"

text \<open>
  The row read is judged after its transaction is rolled back; a failed one is then updated by its key,
  and the update raises if the row is gone.
\<close>

definition decide_attachment :: "bool \<Rightarrow> attachment_mapping_record \<Rightarrow> attachment_mapping_record claim_turn" where
  "decide_attachment retry_failed w =
    (if am_import_status w = AttFailed \<and> (retry_failed \<or> is_cancel_code (am_last_error_code w)) then Retake w
     else Decided (case am_import_status w of
         AttImported \<Rightarrow> ClaimImported | AttFailed \<Rightarrow> ClaimFailed | _ \<Rightarrow> ClaimAmbiguous) w)"

definition retaken_attachment_row :: "attachment_mapping_record \<Rightarrow> attachment_mapping_record" where
  "retaken_attachment_row w = w\<lparr>am_import_status := AttProcessing, am_imported_at := None,
     am_last_error_code := None, am_last_error_payload := None\<rparr>"

definition sql_attachment_claim_first ::
    "payload_mode \<Rightarrow> bool \<Rightarrow> attachment_mapping_record \<Rightarrow> attachment_mapping_record table
      \<Rightarrow> attachment_mapping_record claim_turn \<times> attachment_mapping_record table" where
  "sql_attachment_claim_first mode retry_failed r t =
    claim_first attachment_key (attachment_row_of mode r) (decide_attachment retry_failed) t"

definition sql_attachment_claim_second ::
    "attachment_mapping_record claim_turn \<Rightarrow> attachment_mapping_record table
      \<Rightarrow> (error, claim_state \<times> attachment_mapping_record) outcome \<times> attachment_mapping_record table" where
  "sql_attachment_claim_second turn t =
    claim_second attachment_key (=) retaken_attachment_row retaken_attachment_row turn t"

definition sql_attachment_claim ::
    "payload_mode \<Rightarrow> bool \<Rightarrow> attachment_mapping_record \<Rightarrow> attachment_mapping_record table
      \<Rightarrow> (error, claim_state \<times> attachment_mapping_record) outcome \<times> attachment_mapping_record table" where
  "sql_attachment_claim mode retry_failed r t =
    (case sql_attachment_claim_first mode retry_failed r t of (turn, t1) \<Rightarrow> sql_attachment_claim_second turn t1)"

definition sql_attachment_get ::
    "attachment_mapping_record table \<Rightarrow> attachment_key \<Rightarrow> attachment_mapping_record option" where
  "sql_attachment_get t k = row_where (\<lambda>w. attachment_key w = k) t"

definition sql_attachment_list_by_message ::
    "string \<Rightarrow> string \<Rightarrow> string \<Rightarrow> attachment_mapping_record table \<Rightarrow> attachment_mapping_record list" where
  "sql_attachment_list_by_message migration chat message t =
    sort_key am_attachment_index (filter (\<lambda>w. am_migration_id w = migration \<and> am_source_chat_id w = chat
      \<and> am_source_message_id w = message) t)"

definition sql_attachment_mark_imported ::
    "attachment_key \<Rightarrow> canonical_attachment \<Rightarrow> string \<Rightarrow> datetime \<Rightarrow> attachment_mapping_record table
      \<Rightarrow> (error, attachment_mapping_record) outcome \<times> attachment_mapping_record table" where
  "sql_attachment_mark_imported k a target_sync_id now =
    mark_row attachment_key id k (\<lambda>w. (attachment_describe (Some a) w)\<lparr>am_import_status := AttImported,
      am_imported_at := Some now, am_target_sync_id := Some target_sync_id,
      am_last_error_code := None, am_last_error_payload := None\<rparr>)"

definition sql_attachment_mark_failed ::
    "payload_mode \<Rightarrow> attachment_key \<Rightarrow> canonical_attachment option \<Rightarrow> string \<Rightarrow> json \<Rightarrow> attachment_mapping_record table
      \<Rightarrow> (error, attachment_mapping_record) outcome \<times> attachment_mapping_record table" where
  "sql_attachment_mark_failed mode k att error_code error_payload =
    mark_row attachment_key id k (\<lambda>w. (attachment_describe att w)\<lparr>am_import_status := AttFailed,
      am_imported_at := None, am_last_error_code := Some error_code,
      am_last_error_payload := Some (sanitize_payload mode (Some error_payload))\<rparr>)"

definition sql_attachment_mark_ambiguous ::
    "payload_mode \<Rightarrow> attachment_key \<Rightarrow> canonical_attachment option \<Rightarrow> string \<Rightarrow> json \<Rightarrow> attachment_mapping_record table
      \<Rightarrow> (error, attachment_mapping_record) outcome \<times> attachment_mapping_record table" where
  "sql_attachment_mark_ambiguous mode k att error_code error_payload =
    mark_row attachment_key id k (\<lambda>w. (attachment_describe att w)\<lparr>am_import_status := AttAmbiguous,
      am_imported_at := None, am_last_error_code := Some error_code,
      am_last_error_payload := Some (sanitize_payload mode (Some error_payload))\<rparr>)"

definition sql_attachment_mark_skipped ::
    "payload_mode \<Rightarrow> attachment_key \<Rightarrow> canonical_attachment \<Rightarrow> string \<Rightarrow> attachment_mapping_record table
      \<Rightarrow> (error, attachment_mapping_record) outcome \<times> attachment_mapping_record table" where
  "sql_attachment_mark_skipped mode k a reason =
    mark_row attachment_key id k (\<lambda>w. (attachment_describe (Some a) w)\<lparr>am_import_status := AttSkipped,
      am_imported_at := None, am_last_error_code := Some ''skipped'',
      am_last_error_payload := Some (sanitize_payload mode (Some (JObj [(''reason'', JStr reason)])))\<rparr>)"

definition sql_attachment_summarize ::
    "string \<Rightarrow> attachment_mapping_record table \<Rightarrow> attachment_status_summary list" where
  "sql_attachment_summarize migration t =
    (let counts = count_keys (map (\<lambda>w. (am_source_chat_id w, am_import_status w))
           (filter (\<lambda>w. am_migration_id w = migration) t))
     in sort_key (\<lambda>s. (ass_source_chat_id s, ass_import_status s))
          (map (\<lambda>((chat, status), n). \<lparr>ass_migration_id = migration, ass_source_chat_id = chat,
             ass_import_status = status, ass_count = n\<rparr>) counts))"

section \<open>Uploads\<close>

record sql_stage_config =
  ss_payload_mode :: payload_mode
  ss_stale_after :: timedelta

definition sql_stage_config :: "payload_mode \<Rightarrow> timedelta \<Rightarrow> sql_stage_config" where
  "sql_stage_config mode stale_after = \<lparr>ss_payload_mode = mode, ss_stale_after = max stale_after one_second\<rparr>"

definition stage_row_of :: "sql_stage_config \<Rightarrow> attachment_stage_record \<Rightarrow> datetime \<Rightarrow> attachment_stage_record" where
  "stage_row_of cfg r now = r\<lparr>
     st_express_file_payload := Some (sanitize_payload (ss_payload_mode cfg) (st_express_file_payload r)),
     st_last_error_payload := Some (sanitize_payload (ss_payload_mode cfg) (st_last_error_payload r)),
     st_created_at := Some now, st_updated_at := Some now\<rparr>"

definition stage_row_stale :: "sql_stage_config \<Rightarrow> datetime \<Rightarrow> attachment_stage_record \<Rightarrow> bool" where
  "stage_row_stale cfg now w \<longleftrightarrow>
    (case st_updated_at w of None \<Rightarrow> False | Some updated \<Rightarrow> updated \<le> now - ss_stale_after cfg)"

definition decide_stage ::
    "sql_stage_config \<Rightarrow> bool \<Rightarrow> datetime \<Rightarrow> attachment_stage_record \<Rightarrow> attachment_stage_record claim_turn" where
  "decide_stage cfg retry_failed now w =
    (if st_status w = StageProcessing \<and> (is_cancel_code (st_last_error_code w) \<or> stage_row_stale cfg now w) then Swap w
     else if st_status w = StageFailed \<and> (retry_failed \<or> is_cancel_code (st_last_error_code w)) then Retake w
     else Decided (case st_status w of
         StageUploaded \<Rightarrow> ClaimImported | StageAttached \<Rightarrow> ClaimImported | StageFailed \<Rightarrow> ClaimFailed
       | _ \<Rightarrow> ClaimAmbiguous) w)"

text \<open>A running upload is taken over only if it still runs and was not touched since it was read.\<close>

definition same_stage_row :: "attachment_stage_record \<Rightarrow> attachment_stage_record \<Rightarrow> bool" where
  "same_stage_row w x \<longleftrightarrow> st_status x = st_status w \<and> st_updated_at x = st_updated_at w"

definition reclaimed_stage_row ::
    "attachment_stage_record \<Rightarrow> datetime \<Rightarrow> attachment_stage_record \<Rightarrow> attachment_stage_record" where
  "reclaimed_stage_row r now w = w\<lparr>st_source_locator := st_source_locator r, st_media_kind := st_media_kind r,
     st_checksum := st_checksum r, st_size_bytes := st_size_bytes r, st_status := StageProcessing,
     st_express_file_id := None, st_express_file_payload := None, st_target_sync_id := None,
     st_last_error_code := None, st_last_error_payload := None, st_updated_at := Some now\<rparr>"

definition retaken_stage_row :: "datetime \<Rightarrow> attachment_stage_record \<Rightarrow> attachment_stage_record" where
  "retaken_stage_row now w = w\<lparr>st_status := StageProcessing, st_last_error_code := None,
     st_last_error_payload := None, st_updated_at := Some now\<rparr>"

definition sql_stage_claim_first ::
    "sql_stage_config \<Rightarrow> bool \<Rightarrow> attachment_stage_record \<Rightarrow> datetime \<Rightarrow> datetime \<Rightarrow> attachment_stage_record table
      \<Rightarrow> attachment_stage_record claim_turn \<times> attachment_stage_record table" where
  "sql_stage_claim_first cfg retry_failed r now stamp t =
    claim_first stage_key (stage_row_of cfg r stamp) (decide_stage cfg retry_failed now) t"

definition sql_stage_claim_second ::
    "attachment_stage_record \<Rightarrow> datetime \<Rightarrow> attachment_stage_record claim_turn \<Rightarrow> attachment_stage_record table
      \<Rightarrow> (error, claim_state \<times> attachment_stage_record) outcome \<times> attachment_stage_record table" where
  "sql_stage_claim_second r stamp turn t =
    claim_second stage_key same_stage_row (reclaimed_stage_row r stamp) (retaken_stage_row stamp) turn t"

definition sql_stage_claim ::
    "sql_stage_config \<Rightarrow> bool \<Rightarrow> attachment_stage_record \<Rightarrow> datetime \<Rightarrow> datetime \<Rightarrow> attachment_stage_record table
      \<Rightarrow> (error, claim_state \<times> attachment_stage_record) outcome \<times> attachment_stage_record table" where
  "sql_stage_claim cfg retry_failed r now stamp t =
    (case sql_stage_claim_first cfg retry_failed r now stamp t of (turn, t1) \<Rightarrow>
       sql_stage_claim_second r stamp turn t1)"

definition sql_stage_get :: "attachment_stage_record table \<Rightarrow> stage_key \<Rightarrow> attachment_stage_record option" where
  "sql_stage_get t k = row_where (\<lambda>w. stage_key w = k) t"

definition sql_stage_mark_uploaded ::
    "sql_stage_config \<Rightarrow> stage_key \<Rightarrow> express_staged_file \<Rightarrow> datetime \<Rightarrow> attachment_stage_record table
      \<Rightarrow> (error, attachment_stage_record) outcome \<times> attachment_stage_record table" where
  "sql_stage_mark_uploaded cfg k staged_file now =
    mark_row stage_key id k (\<lambda>w. w\<lparr>st_status := StageUploaded, st_express_file_id := Some (sf_file_id staged_file),
      st_express_file_payload := Some (sanitize_payload (ss_payload_mode cfg)
        (Some (express_staged_file_to_payload staged_file))),
      st_last_error_code := None, st_last_error_payload := None, st_updated_at := Some now\<rparr>)"

definition sql_stage_mark_attached ::
    "stage_key \<Rightarrow> string \<Rightarrow> datetime \<Rightarrow> attachment_stage_record table
      \<Rightarrow> (error, attachment_stage_record) outcome \<times> attachment_stage_record table" where
  "sql_stage_mark_attached k target_sync_id now =
    mark_row stage_key id k (\<lambda>w. w\<lparr>st_status := StageAttached, st_target_sync_id := Some target_sync_id,
      st_last_error_code := None, st_last_error_payload := None, st_updated_at := Some now\<rparr>)"

definition sql_stage_mark_failed ::
    "sql_stage_config \<Rightarrow> stage_key \<Rightarrow> string \<Rightarrow> json \<Rightarrow> datetime \<Rightarrow> attachment_stage_record table
      \<Rightarrow> (error, attachment_stage_record) outcome \<times> attachment_stage_record table" where
  "sql_stage_mark_failed cfg k error_code error_payload now =
    mark_row stage_key id k (\<lambda>w. w\<lparr>st_status := StageFailed, st_last_error_code := Some error_code,
      st_last_error_payload := Some (sanitize_payload (ss_payload_mode cfg) (Some error_payload)),
      st_updated_at := Some now\<rparr>)"

section \<open>The claim contracts\<close>

lemma attachment_row_simps [simp]:
  "attachment_key (attachment_row_of mode r) = attachment_key r"
  "am_import_status (attachment_row_of mode r) = am_import_status r"
  "attachment_key (retaken_attachment_row w) = attachment_key w"
  "am_import_status (retaken_attachment_row w) = AttProcessing"
  by (simp_all add: attachment_row_of_def retaken_attachment_row_def attachment_key_def)

lemma stage_row_simps [simp]:
  "stage_key (stage_row_of cfg r c) = stage_key r" "st_status (stage_row_of cfg r c) = st_status r"
  "st_last_error_code (stage_row_of cfg r c) = st_last_error_code r" "st_updated_at (stage_row_of cfg r c) = Some c"
  "stage_key (reclaimed_stage_row r c w) = stage_key w" "st_status (reclaimed_stage_row r c w) = StageProcessing"
  "st_last_error_code (reclaimed_stage_row r c w) = None" "st_updated_at (reclaimed_stage_row r c w) = Some c"
  "stage_key (retaken_stage_row c w) = stage_key w" "st_status (retaken_stage_row c w) = StageProcessing"
  "st_last_error_code (retaken_stage_row c w) = None" "st_updated_at (retaken_stage_row c w) = Some c"
  by (simp_all add: stage_row_of_def reclaimed_stage_row_def retaken_stage_row_def stage_key_def)

lemma map_answer_id [simp]: "map_sum id (map_prod id id) x = x"
  by (cases x) (auto simp: map_prod_def)

text \<open>An attachment is held from its claim until its worker reports back, however long that takes.\<close>

interpretation sql_attachments: table_claims attachment_key id attachment_key "\<lambda>r _. attachment_row_of mode r"
  "\<lambda>retry _. decide_attachment retry" "(=)" "\<lambda>_ _. retaken_attachment_row" "\<lambda>_ _. retaken_attachment_row"
  attachment_submission "\<lambda>e. am_import_status e = AttImported"
  "\<lambda>_ w. am_import_status w \<in> {AttProcessing, AttAmbiguous, AttSkipped}" "\<lambda>_ _. True"
  "\<lambda>retry r _ _. sql_attachment_claim mode retry r"
  for mode
proof unfold_locales
  fix a and t :: datetime and w st x
  show "st \<noteq> Claimed \<and> x = w" if "decide_attachment a w = Decided st x"
    using that by (auto simp: decide_attachment_def split: if_splits attachment_import_status.splits)
  show "x = w" if "decide_attachment a w = Swap x" using that by (auto simp: decide_attachment_def split: if_splits)
  show "x = w" if "decide_attachment a w = Retake x" using that by (auto simp: decide_attachment_def split: if_splits)
qed (auto simp: sql_attachment_claim_def sql_attachment_claim_first_def sql_attachment_claim_second_def whole_claim_def
    split_beta attachment_submission_def decide_attachment_def)

definition stage_row_held :: "sql_stage_config \<Rightarrow> datetime \<Rightarrow> attachment_stage_record \<Rightarrow> bool" where
  "stage_row_held cfg now w \<longleftrightarrow> st_status w = StageProcessing \<and> \<not> is_cancel_code (st_last_error_code w)
     \<and> \<not> stage_row_stale cfg now w"

interpretation sql_stages: table_claims stage_key id stage_key "stage_row_of cfg" "decide_stage cfg" same_stage_row
  reclaimed_stage_row "\<lambda>_. retaken_stage_row" stage_submission
  "\<lambda>e. st_status e = StageUploaded \<or> st_status e = StageAttached" "stage_row_held cfg"
  "\<lambda>c t. t < c + ss_stale_after cfg" "sql_stage_claim cfg"
  for cfg
proof unfold_locales
  fix a t w st x
  show "st \<noteq> Claimed \<and> x = w" if "decide_stage cfg a t w = Decided st x"
    using that by (auto simp: decide_stage_def split: if_splits attachment_stage_status.splits)
  show "x = w" if "decide_stage cfg a t w = Swap x" using that by (auto simp: decide_stage_def split: if_splits)
  show "x = w" if "decide_stage cfg a t w = Retake x" using that by (auto simp: decide_stage_def split: if_splits)
qed (auto simp: sql_stage_claim_def sql_stage_claim_first_def sql_stage_claim_second_def whole_claim_def split_beta
    same_stage_row_def stage_submission_def stage_row_held_def stage_row_stale_def decide_stage_def)

end
