(* ===== verification/Sql_Queues.thy ===== *)
theory Sql_Queues
  imports Sql_Tables Job_Repo
begin

text \<open>
  \<open>PostgresMigrationJobRepository\<close> and \<open>PostgresOutboxRepository\<close>. The rows are the records; their
  columns \<open>updated_at\<close> are written and never read. A row that another transaction has locked is
  skipped by the queries \<open>FOR UPDATE SKIP LOCKED\<close>: \<open>locked\<close> are the keys of those rows. Lease
  deadlines keep their microseconds.
\<close>

section \<open>The outbox\<close>

definition lease_until :: "datetime \<Rightarrow> timedelta \<Rightarrow> datetime" where
  "lease_until now lease = now + lease"

text \<open>\<open>INSERT\<close> of several rows without a conflict clause: all of them or an error\<close>

definition insert_all :: "('r \<Rightarrow> 'k) \<Rightarrow> 'r list \<Rightarrow> 'r table \<Rightarrow> (error, 'r table) outcome" where
  "insert_all key rows t = (if distinct (map key (t @ rows)) then Inr (t @ rows) else Inl integrity_error)"

definition outbox_insert_values :: "payload_mode \<Rightarrow> outbox_event_record \<Rightarrow> outbox_event_record" where
  "outbox_insert_values mode e = e\<lparr>ob_payload_json := sanitize_payload mode (Some (ob_payload_json e)),
     ob_headers_json := sanitize_payload mode (Some (ob_headers_json e)),
     ob_last_error_payload := Some (sanitize_payload mode (ob_last_error_payload e))\<rparr>"

definition sql_outbox_append_many ::
    "payload_mode \<Rightarrow> outbox_event_record list \<Rightarrow> outbox_event_record table \<Rightarrow> (error, unit) outcome \<times> outbox_event_record table" where
  "sql_outbox_append_many mode events t =
    (if events = [] then (Inr (), t)
     else case insert_all ob_event_id (map (outbox_insert_values mode) events) t of
       Inl e \<Rightarrow> (Inl e, t) | Inr t' \<Rightarrow> (Inr (), t'))"

definition sql_outbox_get :: "outbox_event_record table \<Rightarrow> string \<Rightarrow> outbox_event_record option" where
  "sql_outbox_get t k = row_where (\<lambda>e. ob_event_id e = k) t"

definition sql_outbox_lease ::
    "string \<Rightarrow> timedelta \<Rightarrow> datetime \<Rightarrow> outbox_event_record \<Rightarrow> outbox_event_record" where
  "sql_outbox_lease publisher lease now e = e\<lparr>ob_status := OutLeased, ob_leased_by := Some publisher,
     ob_leased_at := Some now, ob_lease_expires_at := Some (lease_until now lease), ob_attempts := ob_attempts e + 1\<rparr>"

text \<open>The rows the query returns; each is then written by its key.\<close>

definition sql_outbox_candidates ::
    "nat \<Rightarrow> datetime \<Rightarrow> string set \<Rightarrow> outbox_event_record table \<Rightarrow> outbox_event_record list" where
  "sql_outbox_candidates limit now locked t =
    take limit (sort_key ob_created_at (filter (\<lambda>e. outbox_leasable now e \<and> ob_event_id e \<notin> locked) t))"

definition sql_outbox_lease_batch ::
    "nat \<Rightarrow> string set \<Rightarrow> string \<Rightarrow> timedelta \<Rightarrow> datetime \<Rightarrow> outbox_event_record table
      \<Rightarrow> outbox_event_record list \<times> outbox_event_record table" where
  "sql_outbox_lease_batch limit locked publisher lease now t =
    (let rows = sql_outbox_candidates limit now locked t in
     (map (sql_outbox_lease publisher lease now) rows,
      snd (update_where (\<lambda>e. ob_event_id e \<in> set (map ob_event_id rows)) (sql_outbox_lease publisher lease now) t)))"

abbreviation sql_outbox_owned :: "string \<Rightarrow> string \<Rightarrow> outbox_event_record \<Rightarrow> bool" where
  "sql_outbox_owned publisher k e \<equiv> ob_event_id e = k \<and> ob_leased_by e = Some publisher \<and> ob_status e = OutLeased"

definition sql_outbox_mark_published ::
    "published_event \<Rightarrow> string \<Rightarrow> string \<Rightarrow> outbox_event_record table
      \<Rightarrow> outbox_event_record option \<times> outbox_event_record table" where
  "sql_outbox_mark_published result publisher k t =
    (case update_where (sql_outbox_owned publisher k)
       (\<lambda>e. e\<lparr>ob_status := OutPublished, ob_published_at := Some (pe_published_at result),
          ob_broker_topic := Some (pe_broker_topic result), ob_broker_partition := pe_broker_partition result,
          ob_broker_offset := pe_broker_offset result, ob_leased_by := None, ob_leased_at := None,
          ob_lease_expires_at := None\<rparr>) t of
       (rows, t') \<Rightarrow> (one_or_none rows, t'))"

definition sql_outbox_mark_failed ::
    "payload_mode \<Rightarrow> string \<Rightarrow> json \<Rightarrow> string \<Rightarrow> string \<Rightarrow> outbox_event_record table
      \<Rightarrow> outbox_event_record option \<times> outbox_event_record table" where
  "sql_outbox_mark_failed mode code payload publisher k t =
    (case update_where (sql_outbox_owned publisher k)
       (\<lambda>e. e\<lparr>ob_status := OutFailed, ob_leased_by := None, ob_leased_at := None, ob_lease_expires_at := None,
          ob_last_error_code := Some code,
          ob_last_error_payload := Some (sanitize_payload mode (Some payload))\<rparr>) t of
       (rows, t') \<Rightarrow> (one_or_none rows, t'))"

definition sql_outbox_count_by_status :: "outbox_event_record table \<Rightarrow> (outbox_status, nat) dict" where
  "sql_outbox_count_by_status t = count_keys (map ob_status t)"

section \<open>Jobs\<close>

definition job_row_of :: "payload_mode \<Rightarrow> migration_job_record \<Rightarrow> migration_job_record" where
  "job_row_of mode r = r\<lparr>job_last_error_payload := Some (sanitize_payload mode (job_last_error_payload r))\<rparr>"

text \<open>The job and its events are inserted in one transaction.\<close>

definition sql_job_enqueue ::
    "payload_mode \<Rightarrow> migration_job_record \<Rightarrow> outbox_event_record list \<Rightarrow> migration_job_record table
      \<Rightarrow> outbox_event_record table
      \<Rightarrow> (error, bool) outcome \<times> migration_job_record table \<times> outbox_event_record table" where
  "sql_job_enqueue mode r events jobs outbox =
    (case insert_or_nothing job_key (job_row_of mode r) jobs of
       (None, jobs') \<Rightarrow> (Inr False, jobs', outbox)
     | (Some _, jobs') \<Rightarrow>
         if events = [] then (Inr True, jobs', outbox)
         else case insert_all ob_event_id (map (outbox_insert_values mode) events) outbox of
           Inl e \<Rightarrow> (Inl e, jobs, outbox)
         | Inr outbox' \<Rightarrow> (Inr True, jobs', outbox'))"

definition sql_job_get :: "migration_job_record table \<Rightarrow> string \<Rightarrow> migration_job_record option" where
  "sql_job_get t k = row_where (\<lambda>r. job_key r = k) t"

definition sql_job_list_active :: "string \<Rightarrow> migration_job_record table \<Rightarrow> migration_job_record list" where
  "sql_job_list_active migration t = sort_key job_requested_at
     (filter (\<lambda>r. job_migration_id r = migration \<and> job_status r \<in> {JobQueued, JobRunning}) t)"

definition sql_job_start :: "string \<Rightarrow> timedelta \<Rightarrow> datetime \<Rightarrow> migration_job_record \<Rightarrow> migration_job_record" where
  "sql_job_start worker lease now r = r\<lparr>job_status := JobRunning, job_worker_id := Some worker,
     job_started_at := Some (case job_started_at r of Some t \<Rightarrow> t | None \<Rightarrow> now),
     job_heartbeat_at := Some now, job_lease_expires_at := Some (lease_until now lease), job_finished_at := None,
     job_attempts := job_attempts r + 1, job_last_error_code := None, job_last_error_payload := None\<rparr>"

definition start_row ::
    "string \<Rightarrow> timedelta \<Rightarrow> datetime \<Rightarrow> migration_job_record option \<Rightarrow> migration_job_record table
      \<Rightarrow> migration_job_record option \<times> migration_job_record table" where
  "start_row worker lease now row t =
    (case row of
       None \<Rightarrow> (None, t)
     | Some r \<Rightarrow> (Some (sql_job_start worker lease now r),
         snd (update_where (\<lambda>x. job_key x = job_key r) (sql_job_start worker lease now) t)))"

definition sql_job_claim ::
    "string \<Rightarrow> string set \<Rightarrow> string \<Rightarrow> timedelta \<Rightarrow> datetime \<Rightarrow> migration_job_record table
      \<Rightarrow> migration_job_record option \<times> migration_job_record table" where
  "sql_job_claim k locked worker lease now t = start_row worker lease now
     (one_or_none (take 1 (filter (\<lambda>r. job_key r = k \<and> job_claimable now r \<and> job_key r \<notin> locked) t))) t"

definition sql_job_acquire_next ::
    "string set \<Rightarrow> string \<Rightarrow> timedelta \<Rightarrow> datetime \<Rightarrow> migration_job_record table
      \<Rightarrow> migration_job_record option \<times> migration_job_record table" where
  "sql_job_acquire_next locked worker lease now t = start_row worker lease now
     (one_or_none (take 1 (sort_key job_requested_at
        (filter (\<lambda>r. job_claimable now r \<and> job_key r \<notin> locked) t)))) t"

abbreviation sql_job_owned :: "string \<Rightarrow> string \<Rightarrow> migration_job_record \<Rightarrow> bool" where
  "sql_job_owned worker k r \<equiv> job_key r = k \<and> job_worker_id r = Some worker \<and> job_status r = JobRunning"

definition sql_job_heartbeat ::
    "timedelta \<Rightarrow> datetime \<Rightarrow> string \<Rightarrow> string \<Rightarrow> migration_job_record table \<Rightarrow> bool \<times> migration_job_record table" where
  "sql_job_heartbeat lease now worker k t =
    (case update_where (sql_job_owned worker k)
       (\<lambda>r. r\<lparr>job_heartbeat_at := Some now, job_lease_expires_at := Some (lease_until now lease)\<rparr>) t of
       (rows, t') \<Rightarrow> (one_or_none rows \<noteq> None, t'))"

definition sql_job_mark_completed ::
    "datetime \<Rightarrow> string \<Rightarrow> string \<Rightarrow> migration_job_record table
      \<Rightarrow> migration_job_record option \<times> migration_job_record table" where
  "sql_job_mark_completed now worker k t =
    (case update_where (sql_job_owned worker k)
       (\<lambda>r. r\<lparr>job_status := JobCompleted, job_finished_at := Some now, job_heartbeat_at := Some now,
          job_lease_expires_at := None\<rparr>) t of
       (rows, t') \<Rightarrow> (one_or_none rows, t'))"

definition sql_job_mark_failed ::
    "payload_mode \<Rightarrow> string \<Rightarrow> json \<Rightarrow> datetime \<Rightarrow> string \<Rightarrow> string \<Rightarrow> migration_job_record table
      \<Rightarrow> migration_job_record option \<times> migration_job_record table" where
  "sql_job_mark_failed mode code payload now worker k t =
    (case update_where (sql_job_owned worker k)
       (\<lambda>r. r\<lparr>job_status := JobFailed, job_finished_at := Some now, job_heartbeat_at := Some now,
          job_lease_expires_at := None, job_last_error_code := Some code,
          job_last_error_payload := Some (sanitize_payload mode (Some payload))\<rparr>) t of
       (rows, t') \<Rightarrow> (one_or_none rows, t'))"

text \<open>Two updates in one transaction: a queued job is failed at once, a running one is marked.\<close>

definition sql_job_request_cancel ::
    "payload_mode \<Rightarrow> datetime \<Rightarrow> string \<Rightarrow> string \<Rightarrow> migration_job_record table
      \<Rightarrow> migration_job_record option \<times> migration_job_record table" where
  "sql_job_request_cancel mode now operator k t =
    (let payload = sanitize_payload mode (Some (JObj [(''requested_by'', JStr operator)])) in
     case update_where (\<lambda>r. job_key r = k \<and> job_operator_huid r = operator \<and> job_status r = JobQueued)
       (\<lambda>r. r\<lparr>job_status := JobFailed, job_finished_at := Some now, job_heartbeat_at := Some now,
          job_lease_expires_at := None, job_last_error_code := Some cancelled_code,
          job_last_error_payload := Some payload\<rparr>) t of
       (queued, t1) \<Rightarrow>
         (case one_or_none queued of
            Some r \<Rightarrow> (Some r, t1)
          | None \<Rightarrow>
              (case update_where (\<lambda>r. job_key r = k \<and> job_operator_huid r = operator \<and> job_status r = JobRunning)
                 (\<lambda>r. r\<lparr>job_last_error_code := Some cancel_requested_code, job_last_error_payload := Some payload\<rparr>) t1 of
                 (running, t2) \<Rightarrow> (one_or_none running, t2))))"

definition sql_job_count_by_status :: "migration_job_record table \<Rightarrow> (job_status, nat) dict" where
  "sql_job_count_by_status t = count_keys (map job_status t)"

section \<open>The lease contracts\<close>

lemma sql_job_get_row: "sql_job_get t k = row_get job_key t k"
  by (simp add: sql_job_get_def row_get_def)

lemma sql_outbox_get_row: "sql_outbox_get t k = row_get ob_event_id t k"
  by (simp add: sql_outbox_get_def row_get_def)

lemma sql_job_start_simps [simp]:
  "job_key (sql_job_start w l t r) = job_key r" "job_status (sql_job_start w l t r) = JobRunning"
  "job_worker_id (sql_job_start w l t r) = Some w"
  "job_lease_expires_at (sql_job_start w l t r) = Some (lease_until t l)"
  by (simp_all add: sql_job_start_def)

lemma sql_outbox_lease_simps [simp]:
  "ob_event_id (sql_outbox_lease w l t e) = ob_event_id e" "ob_status (sql_outbox_lease w l t e) = OutLeased"
  "ob_leased_by (sql_outbox_lease w l t e) = Some w"
  "ob_lease_expires_at (sql_outbox_lease w l t e) = Some (lease_until t l)"
  by (simp_all add: sql_outbox_lease_def)

text \<open>A request names a job or asks for the next one; beside it, what others have locked.\<close>

fun sql_job_take :: "job_request \<times> string set \<Rightarrow> string \<Rightarrow> timedelta \<Rightarrow> datetime \<Rightarrow> migration_job_record table
    \<Rightarrow> migration_job_record list \<times> migration_job_record table" where
  "sql_job_take (ByKey k, locked) w l now t =
    (case sql_job_claim k locked w l now t of (None, t') \<Rightarrow> ([], t') | (Some r, t') \<Rightarrow> ([r], t'))"
| "sql_job_take (NextJob, locked) w l now t =
    (case sql_job_acquire_next locked w l now t of (None, t') \<Rightarrow> ([], t') | (Some r, t') \<Rightarrow> ([r], t'))"

text \<open>Either way one free row is started, or none.\<close>

definition free_job :: "datetime \<Rightarrow> string set \<Rightarrow> migration_job_record \<Rightarrow> bool" where
  "free_job now locked r \<longleftrightarrow> job_claimable now r \<and> job_key r \<notin> locked"

lemma start_row_cases:
  assumes "\<And>r. r \<in> set rows \<Longrightarrow> r \<in> set t \<and> free_job now locked r"
  obtains (none) "start_row w l now (one_or_none (take 1 rows)) t = (None, t)"
  | (some) r where "r \<in> set t" "free_job now locked r"
      "start_row w l now (one_or_none (take 1 rows)) t =
        (Some (sql_job_start w l now r), snd (update_where (\<lambda>x. job_key x = job_key r) (sql_job_start w l now) t))"
proof (cases rows)
  case Nil
  then show ?thesis by (intro none) (simp add: start_row_def one_or_none_def)
next
  case (Cons r rs)
  then show ?thesis using assms [of r] by (intro some [of r]) (simp_all add: start_row_def one_or_none_def)
qed

lemma sql_job_take_cases:
  obtains (none) "sql_job_take q w l now t = ([], t)"
  | (some) r where "r \<in> set t" "free_job now (snd q) r"
      "sql_job_take q w l now t =
        ([sql_job_start w l now r], snd (update_where (\<lambda>x. job_key x = job_key r) (sql_job_start w l now) t))"
proof (cases q)
  case (Pair req locked)
  show ?thesis
  proof (cases req)
    case (ByKey k)
    have rows: "r \<in> set t \<and> free_job now locked r"
      if "r \<in> set (filter (\<lambda>r. job_key r = k \<and> job_claimable now r \<and> job_key r \<notin> locked) t)" for r
      using that by (auto simp: free_job_def)
    show ?thesis
      by (rule start_row_cases [OF rows, of _ w l])
        (assumption, simp add: none Pair ByKey sql_job_claim_def, rule some, auto simp: Pair ByKey sql_job_claim_def)
  next
    case NextJob
    have rows: "r \<in> set t \<and> free_job now locked r"
      if "r \<in> set (sort_key job_requested_at (filter (\<lambda>r. job_claimable now r \<and> job_key r \<notin> locked) t))" for r
      using that by (auto simp: free_job_def)
    show ?thesis
      by (rule start_row_cases [OF rows, of _ w l])
        (assumption, simp add: none Pair NextJob sql_job_acquire_next_def, rule some,
          auto simp: Pair NextJob sql_job_acquire_next_def)
  qed
qed

interpretation sql_jobs: lease_store sql_job_get job_key "unique_rows job_key"
  "\<lambda>r. job_status r = JobRunning" job_worker_id job_lease_expires_at sql_job_take lease_until
proof unfold_locales
  fix t :: "migration_job_record table" and q w l now
  assume ok: "unique_rows job_key t"
  show "unique_rows job_key (snd (sql_job_take q w l now t))"
    using ok by (cases rule: sql_job_take_cases [of q w l now t]) (simp_all add: update_where_unique)
  show "sql_job_get (snd (sql_job_take q w l now t)) k = sql_job_get t k"
    if "k \<notin> job_key ` set (fst (sql_job_take q w l now t))" for k
    using that by (cases rule: sql_job_take_cases [of q w l now t])
      (auto simp: sql_job_get_row intro!: update_where_other)
  fix r
  assume r: "r \<in> set (fst (sql_job_take q w l now t))"
  then obtain r0 where r0: "r0 \<in> set t" "free_job now (snd q) r0" "r = sql_job_start w l now r0"
    "snd (sql_job_take q w l now t) = snd (update_where (\<lambda>x. job_key x = job_key r0) (sql_job_start w l now) t)"
    by (cases rule: sql_job_take_cases [of q w l now t]) auto
  have get: "row_get job_key t (job_key r0) = Some r0" using ok r0(1) by (rule row_get_mem)
  with r0 show "sql_job_get (snd (sql_job_take q w l now t)) (job_key r) = Some r \<and> job_status r = JobRunning
      \<and> job_worker_id r = Some w \<and> job_lease_expires_at r = Some (lease_until now l)"
    by (simp add: sql_job_get_row update_where_get)
  show "d < now" if "sql_job_get t (job_key r) = Some r1" "job_status r1 = JobRunning"
    "job_lease_expires_at r1 = Some d" for r1 d
    using that get r0 by (simp add: sql_job_get_row free_job_def job_claimable_def)
qed

fun sql_job_owner_update :: "payload_mode \<Rightarrow> job_update \<Rightarrow> string \<Rightarrow> string \<Rightarrow> migration_job_record table
    \<Rightarrow> bool \<times> migration_job_record table" where
  "sql_job_owner_update mode (Heartbeat l now) w k t = sql_job_heartbeat l now w k t"
| "sql_job_owner_update mode (Complete now) w k t =
    (let (r, t') = sql_job_mark_completed now w k t in (r \<noteq> None, t'))"
| "sql_job_owner_update mode (FailJob c p now) w k t =
    (let (r, t') = sql_job_mark_failed mode c p now w k t in (r \<noteq> None, t'))"

interpretation sql_jobs: fenced_lease_store sql_job_get job_key "unique_rows job_key"
  "\<lambda>r. job_status r = JobRunning" job_worker_id job_lease_expires_at sql_job_take lease_until "sql_job_owner_update mode"
  for mode
proof unfold_locales
  fix t :: "migration_job_record table" and k r w u
  assume "unique_rows job_key t" "sql_job_get t k = Some r" "job_worker_id r \<noteq> Some w \<or> job_status r \<noteq> JobRunning"
  then have "update_where (sql_job_owned w k) change t = ([], t)" for change
    by (intro update_none) (auto simp: sql_job_get_row)
  then show "sql_job_owner_update mode u w k t = (False, t)"
    by (cases u) (simp_all add: sql_job_heartbeat_def sql_job_mark_completed_def sql_job_mark_failed_def one_or_none_def)
qed

interpretation sql_outbox: lease_store sql_outbox_get ob_event_id "unique_rows ob_event_id"
  "\<lambda>e. ob_status e = OutLeased" ob_leased_by ob_lease_expires_at "\<lambda>(limit, locked). sql_outbox_lease_batch limit locked"
  lease_until
proof unfold_locales
  fix t :: "outbox_event_record table" and q :: "nat \<times> string set" and w l now
  assume ok: "unique_rows ob_event_id t"
  obtain limit locked where q: "q = (limit, locked)" by fastforce
  let ?rows = "sql_outbox_candidates limit now locked t"
  have rows: "e \<in> set t \<and> outbox_leasable now e" if "e \<in> set ?rows" for e
    using that by (auto simp: sql_outbox_candidates_def dest: in_set_takeD)
  have get: "sql_outbox_get (snd (sql_outbox_lease_batch limit locked w l now t)) k =
      map_option (\<lambda>e. if k \<in> ob_event_id ` set ?rows then sql_outbox_lease w l now e else e) (sql_outbox_get t k)" for k
    by (cases "row_get ob_event_id t k")
      (auto simp: sql_outbox_get_row sql_outbox_lease_batch_def Let_def update_where_get dest: row_get_key)
  show "unique_rows ob_event_id (snd ((case q of (limit, locked) \<Rightarrow> sql_outbox_lease_batch limit locked) w l now t))"
    using ok by (simp add: q sql_outbox_lease_batch_def Let_def update_where_unique)
  show "sql_outbox_get (snd ((case q of (limit, locked) \<Rightarrow> sql_outbox_lease_batch limit locked) w l now t)) k = sql_outbox_get t k"
    if "k \<notin> ob_event_id ` set (fst ((case q of (limit, locked) \<Rightarrow> sql_outbox_lease_batch limit locked) w l now t))" for k
    using that by (auto simp: q sql_outbox_get_row sql_outbox_lease_batch_def Let_def image_image intro!: update_where_other)
  fix e
  assume "e \<in> set (fst ((case q of (limit, locked) \<Rightarrow> sql_outbox_lease_batch limit locked) w l now t))"
  then obtain e0 where e: "e0 \<in> set ?rows" "e = sql_outbox_lease w l now e0"
    by (auto simp: q sql_outbox_lease_batch_def Let_def)
  have e0: "sql_outbox_get t (ob_event_id e0) = Some e0"
    using rows [OF e(1)] row_get_mem [OF ok] by (simp add: sql_outbox_get_row)
  with e show "sql_outbox_get (snd ((case q of (limit, locked) \<Rightarrow> sql_outbox_lease_batch limit locked) w l now t)) (ob_event_id e)
      = Some e \<and> ob_status e = OutLeased \<and> ob_leased_by e = Some w \<and> ob_lease_expires_at e = Some (lease_until now l)"
    by (auto simp: q get)
  show "d < now" if "sql_outbox_get t (ob_event_id e) = Some r" "ob_status r = OutLeased" "ob_lease_expires_at r = Some d" for r d
    using that e e0 rows [OF e(1)] by (simp add: outbox_leasable_def)
qed

section \<open>The table and the dictionary\<close>

text \<open>
  What finishes or cancels a job does the same to the table and to the dictionary of the in-memory
  repository, but for the payload of an error, which the table keeps as the storage mode says.
\<close>

abbreviation job_rows :: "migration_job_record table \<Rightarrow> job_repo" where
  "job_rows \<equiv> rows_dict job_key (\<lambda>r. r)"

lemma full_payload [simp]: "sanitize_payload FullPayload (Some p) = p"
  by (simp add: sanitize_payload_def)

lemma sql_job_update_refines:
  assumes "unique_rows job_key t" and "\<And>r. job_key (change r) = job_key r"
  shows "(one_or_none (fst (update_where (\<lambda>r. job_key r = k \<and> Q r) change t)),
      job_rows (snd (update_where (\<lambda>r. job_key r = k \<and> Q r) change t))) =
    (case dict_get (job_rows t) k of
       None \<Rightarrow> (None, job_rows t)
     | Some r \<Rightarrow> if Q r then (Some (change r), dict_set k (change r) (job_rows t)) else (None, job_rows t))"
  using update_one [OF assms(1), of k Q change] update_one_dict [OF assms, of "\<lambda>r. r" k Q]
  by (simp split: option.split)

lemma sql_job_mark_completed_refines:
  assumes "unique_rows job_key t"
  shows "(fst (sql_job_mark_completed now w k t), job_rows (snd (sql_job_mark_completed now w k t)))
    = job_mark_completed now w k (job_rows t)"
  unfolding sql_job_mark_completed_def split_beta fst_conv snd_conv
  by (subst sql_job_update_refines [OF assms]) (auto simp: job_mark_completed_def job_owned_def Let_def split: option.split)

text \<open>A result of the dictionary, with the payload of the error as the storage mode keeps it.\<close>

definition kept_error :: "payload_mode \<Rightarrow> migration_job_record \<Rightarrow> migration_job_record" where
  "kept_error mode r = r\<lparr>job_last_error_payload :=
     map_option (\<lambda>p. sanitize_payload mode (Some p)) (job_last_error_payload r)\<rparr>"

definition with_kept_error ::
    "payload_mode \<Rightarrow> string \<Rightarrow> migration_job_record option \<times> job_repo \<Rightarrow> migration_job_record option \<times> job_repo" where
  "with_kept_error mode k q = (case q of
     (None, repo) \<Rightarrow> (None, repo)
   | (Some r, repo) \<Rightarrow> (Some (kept_error mode r), dict_set k (kept_error mode r) repo))"

lemma kept_error_full [simp]: "kept_error FullPayload r = r"
  by (simp add: kept_error_def sanitize_payload_def option.map_ident)

lemma sql_job_mark_failed_refines:
  assumes "unique_rows job_key t"
  shows "(fst (sql_job_mark_failed mode c p now w k t), job_rows (snd (sql_job_mark_failed mode c p now w k t)))
    = with_kept_error mode k (job_mark_failed c p now w k (job_rows t))"
  unfolding sql_job_mark_failed_def split_beta fst_conv snd_conv
  by (subst sql_job_update_refines [OF assms])
    (auto simp: job_mark_failed_def job_owned_def Let_def with_kept_error_def kept_error_def AList.update_last split: option.split)

lemma sql_job_request_cancel_refines:
  assumes "unique_rows job_key t"
  shows "(fst (sql_job_request_cancel mode now operator k t), job_rows (snd (sql_job_request_cancel mode now operator k t)))
    = with_kept_error mode k (job_request_cancel now operator k (job_rows t))"
proof (cases "\<exists>r. row_get job_key t k = Some r \<and> job_operator_huid r = operator \<and> job_status r = JobQueued")
  case True
  then obtain r where r: "row_get job_key t k = Some r" "job_operator_huid r = operator" "job_status r = JobQueued" by blast
  with update_one [OF assms, of k "\<lambda>r. job_operator_huid r = operator \<and> job_status r = JobQueued"]
    update_one_dict [OF assms, where k = k and Q = "\<lambda>r. job_operator_huid r = operator \<and> job_status r = JobQueued"
      and domain = "\<lambda>r. r"]
  show ?thesis
    by (simp add: sql_job_request_cancel_def job_request_cancel_def Let_def split_beta with_kept_error_def kept_error_def
        AList.update_last)
next
  case False
  then have "update_where (\<lambda>r. job_key r = k \<and> job_operator_huid r = operator \<and> job_status r = JobQueued) change t
      = ([], t)" for change
    by (intro update_none [OF assms]) blast
  with False update_one [OF assms, of k "\<lambda>r. job_operator_huid r = operator \<and> job_status r = JobRunning"]
    update_one_dict [OF assms, where k = k and Q = "\<lambda>r. job_operator_huid r = operator \<and> job_status r = JobRunning"
      and domain = "\<lambda>r. r"]
  show ?thesis
    by (auto simp: sql_job_request_cancel_def job_request_cancel_def Let_def split_beta one_or_none_def [of "[]"]
        with_kept_error_def kept_error_def AList.update_last split: option.split job_status.split)
qed

text \<open>What another worker has locked is not handed out.\<close>

lemma sql_job_skip_locked:
  assumes "fst (sql_job_acquire_next locked w l now t) = Some r"
  shows "job_key r \<notin> locked" and "\<exists>r0 \<in> set t. r = sql_job_start w l now r0 \<and> free_job now locked r0
    \<and> (\<forall>x \<in> set t. free_job now locked x \<longrightarrow> job_requested_at r0 \<le> job_requested_at x)"
proof -
  let ?rows = "sort_key job_requested_at (filter (\<lambda>r. job_claimable now r \<and> job_key r \<notin> locked) t)"
  from assms obtain r0 rs where rows: "?rows = r0 # rs" "r = sql_job_start w l now r0"
    by (cases ?rows) (auto simp: sql_job_acquire_next_def start_row_def one_or_none_def)
  then have mem: "r0 \<in> set t" "free_job now locked r0"
    using hd_sort_key_mem [OF rows(1)] by (auto simp: free_job_def)
  have "sorted (map job_requested_at ?rows)" by simp
  then have "job_requested_at r0 \<le> job_requested_at x" if "x \<in> set ?rows" for x using that rows(1) by auto
  then have "job_requested_at r0 \<le> job_requested_at x" if "x \<in> set t" "free_job now locked x" for x
    using that by (simp add: free_job_def)
  with mem rows(2) show "\<exists>r0 \<in> set t. r = sql_job_start w l now r0 \<and> free_job now locked r0
    \<and> (\<forall>x \<in> set t. free_job now locked x \<longrightarrow> job_requested_at r0 \<le> job_requested_at x)" by blast
  from mem(2) rows(2) show "job_key r \<notin> locked" by (simp add: free_job_def)
qed

end
