(* ===== verification/Sql_Identities.thy ===== *)
theory Sql_Identities
  imports Sql_Tables Identity_Repo
begin

text \<open>
  \<open>PostgresIdentityMappingRepository\<close>, \<open>PostgresExpressUserCtsBindingRepository\<close> and
  \<open>PostgresExpressBotHuidBindingRepository\<close>. \<open>save\<close> takes the record and the reading of the clock for
  the times it lacks.
\<close>

section \<open>Tables with two unique keys\<close>

text \<open>
  Tables whose rows are found under two keys and have an \<open>id\<close> from a sequence, as the SQL
  repositories of identity mappings and CTS bindings read and write them: two queries, then the unit of
  work, which sends updates before deletes. A unique constraint is checked by every statement.
\<close>

subsection \<open>Statements\<close>

text \<open>The rows with their ids, and the next value of the sequence\<close>

type_synonym 'r id_table = "(nat \<times> 'r) list \<times> nat"

abbreviation rows_of :: "'r id_table \<Rightarrow> (nat \<times> 'r) list" where
  "rows_of \<equiv> fst"

text \<open>\<open>scalar_one_or_none\<close> of a query\<close>

definition query_one :: "('r \<Rightarrow> bool) \<Rightarrow> 'r id_table \<Rightarrow> (error, (nat \<times> 'r) option) outcome" where
  "query_one P t = (case filter (\<lambda>(i, r). P r) (rows_of t) of
     [] \<Rightarrow> Inr None | [x] \<Rightarrow> Inr (Some x)
   | _ \<Rightarrow> Inl (OtherError ''MultipleResultsFound'' ''Multiple rows were found when one or none was required''))"

definition flush_insert :: "('r \<Rightarrow> 'r \<Rightarrow> bool) \<Rightarrow> 'r \<Rightarrow> 'r id_table \<Rightarrow> (error, 'r id_table) outcome" where
  "flush_insert clash r t = (if list_ex (\<lambda>(i, x). clash x r) (rows_of t) then Inl integrity_error
     else Inr (rows_of t @ [(snd t, r)], Suc (snd t)))"

definition flush_update :: "('r \<Rightarrow> 'r \<Rightarrow> bool) \<Rightarrow> nat \<Rightarrow> 'r \<Rightarrow> 'r id_table \<Rightarrow> (error, 'r id_table) outcome" where
  "flush_update clash k r t = (if list_ex (\<lambda>(i, x). i \<noteq> k \<and> clash x r) (rows_of t) then Inl integrity_error
     else Inr (map (\<lambda>(i, x). (i, if i = k then r else x)) (rows_of t), snd t))"

definition flush_delete :: "nat \<Rightarrow> 'r id_table \<Rightarrow> 'r id_table" where
  "flush_delete k t = (filter (\<lambda>(i, x). i \<noteq> k) (rows_of t), snd t)"

text \<open>
  The end of both \<open>save\<close> methods, given the rows found under the two keys: a new row, an updated one, or
  the row found first with what the second one adds, and the second one deleted.
\<close>

definition save_pair ::
    "('r \<Rightarrow> 'r \<Rightarrow> bool) \<Rightarrow> (nat \<times> 'r) option \<Rightarrow> (nat \<times> 'r) option \<Rightarrow> 'r \<Rightarrow> ('r \<Rightarrow> 'r) \<Rightarrow> ('r \<Rightarrow> 'r \<Rightarrow> 'r)
      \<Rightarrow> 'r id_table \<Rightarrow> (error, 'r \<times> 'r id_table) outcome" where
  "save_pair clash by_a by_b new change merge t =
    (case (by_a, by_b) of
       (Some (i, p), Some (j, q)) \<Rightarrow>
         if i \<noteq> j
         then map_sum id (\<lambda>t'. (merge p q, flush_delete j t')) (flush_update clash i (merge p q) t)
         else map_sum id (\<lambda>t'. (change p, t')) (flush_update clash i (change p) t)
     | (Some (i, p), None) \<Rightarrow> map_sum id (\<lambda>t'. (change p, t')) (flush_update clash i (change p) t)
     | (None, Some (j, q)) \<Rightarrow> map_sum id (\<lambda>t'. (change q, t')) (flush_update clash j (change q) t)
     | (None, None) \<Rightarrow> map_sum id (\<lambda>t'. (new, t')) (flush_insert clash new t))"

subsection \<open>One row per key\<close>

definition same_keys :: "('r \<Rightarrow> 'a option) \<Rightarrow> ('r \<Rightarrow> 'b option) \<Rightarrow> 'r \<Rightarrow> 'r \<Rightarrow> bool" where
  "same_keys kA kB x y \<longleftrightarrow> (kA x \<noteq> None \<and> kA x = kA y) \<or> (kB x \<noteq> None \<and> kB x = kB y)"

definition pairs_ok :: "('r \<Rightarrow> 'a option) \<Rightarrow> ('r \<Rightarrow> 'b option) \<Rightarrow> 'r id_table \<Rightarrow> bool" where
  "pairs_ok kA kB t \<longleftrightarrow> distinct (map fst (rows_of t)) \<and> (\<forall>(i, x) \<in> set (rows_of t). i < snd t)
     \<and> (\<forall>(i, x) \<in> set (rows_of t). \<forall>(j, y) \<in> set (rows_of t). i \<noteq> j \<longrightarrow> \<not> same_keys kA kB x y)"

lemma pairs_okD:
  assumes "pairs_ok kA kB t"
  shows "distinct (map fst (rows_of t))" and "(i, x) \<in> set (rows_of t) \<Longrightarrow> i < snd t"
    and "(i, x) \<in> set (rows_of t) \<Longrightarrow> (j, y) \<in> set (rows_of t) \<Longrightarrow> i \<noteq> j \<Longrightarrow> \<not> same_keys kA kB x y"
  using assms unfolding pairs_ok_def by blast+

lemma pairs_row:
  assumes "pairs_ok kA kB t" and "(i, x) \<in> set (rows_of t)" and "(i, y) \<in> set (rows_of t)"
  shows "x = y"
  using eq_key_imp_eq_value [OF pairs_okD(1) [OF assms(1)] assms(2,3)] .

text \<open>A query by a key finds the row with that key.\<close>

lemma query_one_found:
  assumes "query_one P t = Inr (Some (i, x))"
  shows "(i, x) \<in> set (rows_of t)" and "P x"
proof -
  from assms have "filter (\<lambda>(i, r). P r) (rows_of t) = [(i, x)]" by (auto simp: query_one_def split: list.splits)
  then have "(i, x) \<in> set (filter (\<lambda>(i, r). P r) (rows_of t))" by simp
  then show "(i, x) \<in> set (rows_of t)" and "P x" by auto
qed

lemma query_one_none:
  "query_one P t = Inr None \<Longrightarrow> (i, x) \<in> set (rows_of t) \<Longrightarrow> \<not> P x"
  by (auto simp: query_one_def filter_empty_conv split: list.splits)

lemma query_one_row:
  assumes "pairs_ok kA kB t" and "(i, x) \<in> set (rows_of t)" and "P x"
    and same: "\<And>y. P y \<Longrightarrow> same_keys kA kB x y"
  shows "query_one P t = Inr (Some (i, x))"
proof -
  have "z = (i, x)" if "z \<in> set (rows_of t)" "P (snd z)" for z
    using pairs_okD(3) [OF assms(1,2), of "fst z" "snd z"] pairs_row [OF assms(1,2), of "snd z"] that same
    by (cases z) auto
  then have all: "z \<in> set (filter (\<lambda>(i, r). P r) (rows_of t)) \<Longrightarrow> z = (i, x)" for z by auto
  have "distinct (filter (\<lambda>(i, r). P r) (rows_of t))"
    using pairs_okD(1) [OF assms(1)] by (simp add: distinct_map)
  moreover have "(i, x) \<in> set (filter (\<lambda>(i, r). P r) (rows_of t))" using assms(2,3) by simp
  ultimately have "filter (\<lambda>(i, r). P r) (rows_of t) = [(i, x)]"
    using all by (cases "filter (\<lambda>(i, r). P r) (rows_of t)" rule: remdups_adj.cases) (simp, simp, metis distinct_length_2_or_more list.set_intros)
  then show ?thesis by (simp add: query_one_def)
qed

lemma query_one_total:
  assumes "pairs_ok kA kB t" and same: "\<And>x y. P x \<Longrightarrow> P y \<Longrightarrow> same_keys kA kB x y"
  obtains res where "query_one P t = Inr res"
proof (cases "\<exists>i x. (i, x) \<in> set (rows_of t) \<and> P x")
  case True
  then obtain i x where "(i, x) \<in> set (rows_of t)" "P x" by blast
  with assms have "query_one P t = Inr (Some (i, x))" by (intro query_one_row)
  then show ?thesis by (rule that)
next
  case False
  then have "filter (\<lambda>(i, r). P r) (rows_of t) = []" by (auto simp: filter_empty_conv)
  then show ?thesis by (intro that [of None]) (simp add: query_one_def)
qed

subsection \<open>Saving\<close>

lemma save_pair_ok:
  assumes ok: "pairs_ok kA kB t" and save: "save_pair clash by_a by_b new change merge t = Inr (r, t')"
    and found: "\<And>i x. by_a = Some (i, x) \<or> by_b = Some (i, x) \<Longrightarrow> (i, x) \<in> set (rows_of t)"
    and new: "\<And>i x. by_a = None \<Longrightarrow> by_b = None \<Longrightarrow> (i, x) \<in> set (rows_of t) \<Longrightarrow> \<not> same_keys kA kB x new"
    and change: "\<And>i x j y. by_a = Some (i, x) \<and> (by_b = None \<or> by_b = by_a) \<or> by_a = None \<and> by_b = Some (i, x) \<Longrightarrow>
      (j, y) \<in> set (rows_of t) \<Longrightarrow> j \<noteq> i \<Longrightarrow> \<not> same_keys kA kB y (change x)"
    and merge: "\<And>i x j y l z. by_a = Some (i, x) \<Longrightarrow> by_b = Some (j, y) \<Longrightarrow> i \<noteq> j \<Longrightarrow>
      (l, z) \<in> set (rows_of t) \<Longrightarrow> l \<noteq> i \<Longrightarrow> l \<noteq> j \<Longrightarrow> \<not> same_keys kA kB z (merge x y)"
  shows "pairs_ok kA kB t'" and "\<exists>i. (i, r) \<in> set (rows_of t')"
proof -
  note distinct = pairs_okD(1) [OF ok] and less = pairs_okD(2) [OF ok] and keys = pairs_okD(3) [OF ok]
  have sym: "same_keys kA kB x y = same_keys kA kB y x" for x y unfolding same_keys_def by metis
  have put: "pairs_ok kA kB (map (\<lambda>(i, x). (i, if i = k then r else x)) (filter (\<lambda>(i, x). i \<noteq> gone) (rows_of t)), snd t)"
    if "\<And>l z. (l, z) \<in> set (rows_of t) \<Longrightarrow> l \<noteq> k \<Longrightarrow> l \<noteq> gone \<Longrightarrow> \<not> same_keys kA kB z r" for k gone r
  proof -
    have "map fst (map (\<lambda>(i, x). (i, if i = k then r else x)) (filter (\<lambda>(i, x). i \<noteq> gone) (rows_of t)))
        = filter (\<lambda>i. i \<noteq> gone) (map fst (rows_of t))"
      by (induction "rows_of t") (auto simp: filter_map o_def split_beta)
    with distinct that less keys show ?thesis unfolding pairs_ok_def fst_conv snd_conv
      by (auto simp del: map_map simp: sym [of r])
  qed
  have put_all: "pairs_ok kA kB (map (\<lambda>(i, x). (i, if i = k then r else x)) (rows_of t), snd t)"
    if "\<And>l z. (l, z) \<in> set (rows_of t) \<Longrightarrow> l \<noteq> k \<Longrightarrow> \<not> same_keys kA kB z r" for k r
  proof -
    have "filter (\<lambda>(i, x). i \<noteq> snd t) (rows_of t) = rows_of t" using less by (auto simp: filter_id_conv)
    with put [of k "snd t" r] that show ?thesis by simp
  qed
  have one: "pairs_ok kA kB t' \<and> (\<exists>i. (i, r) \<in> set (rows_of t'))"
    if row: "by_a = Some (i, x) \<and> (by_b = None \<or> by_b = by_a) \<or> by_a = None \<and> by_b = Some (i, x)" for i x
  proof -
    have mem: "(i, x) \<in> set (rows_of t)" using found row by blast
    from save row have "r = change x" "t' = (map (\<lambda>(j, y). (j, if j = i then change x else y)) (rows_of t), snd t)"
      by (auto simp: save_pair_def flush_update_def split: if_splits)
    moreover from this mem have "(i, r) \<in> set (rows_of t')" by force
    ultimately show ?thesis using put_all change [OF row] by blast
  qed
  have "pairs_ok kA kB t' \<and> (\<exists>i. (i, r) \<in> set (rows_of t'))"
  proof (cases by_a)
    case None
    show ?thesis
    proof (cases by_b)
      case (Some jq)
      with None one [of "fst jq" "snd jq"] show ?thesis by simp
    next
      case b: None
      with None save have t': "r = new" "t' = (rows_of t @ [(snd t, new)], Suc (snd t))"
        by (auto simp: save_pair_def flush_insert_def split: if_splits)
      have fresh: "(snd t, x) \<notin> set (rows_of t)" for x using less by blast
      have "pairs_ok kA kB t'"
        using distinct new [OF None b] keys less fresh unfolding pairs_ok_def t'(2) fst_conv snd_conv
        by (auto simp: sym [of new] image_iff less_SucI)
      with t' show ?thesis by auto
    qed
  next
    case (Some ip)
    then obtain i p where a: "by_a = Some (i, p)" by (cases ip) auto
    show ?thesis
    proof (cases by_b)
      case None
      with a one [of i p] show ?thesis by simp
    next
      case (Some jq)
      then obtain j q where b: "by_b = Some (j, q)" by (cases jq) auto
      have mem: "(i, p) \<in> set (rows_of t)" "(j, q) \<in> set (rows_of t)" using found a b by blast+
      show ?thesis
      proof (cases "i = j")
        case True
        with mem pairs_row [OF ok] have "p = q" by blast
        with True a b one [of i p] show ?thesis by simp
      next
        case False
        with a b save have t': "r = merge p q"
          "t' = flush_delete j (map (\<lambda>(l, z). (l, if l = i then merge p q else z)) (rows_of t), snd t)"
          by (auto simp: save_pair_def flush_update_def split: if_splits)
        then have "rows_of t' = map (\<lambda>(l, z). (l, if l = i then r else z)) (filter (\<lambda>(l, z). l \<noteq> j) (rows_of t))"
          by (simp add: flush_delete_def filter_map o_def case_prod_beta')
        moreover have "snd t' = snd t" by (simp add: t' flush_delete_def)
        ultimately have "t' = (map (\<lambda>(l, z). (l, if l = i then r else z)) (filter (\<lambda>(l, z). l \<noteq> j) (rows_of t)), snd t)"
          by (simp add: prod_eq_iff)
        moreover from this mem(1) False have "(i, r) \<in> set (rows_of t')" by force
        ultimately show ?thesis using put [of i j r] merge [OF a b False] t'(1) by blast
      qed
    qed
  qed
  then show "pairs_ok kA kB t'" and "\<exists>i. (i, r) \<in> set (rows_of t')" by blast+
qed

text \<open>
  Two rows cannot be merged when the merged row has a key of the second one under the constraint: the
  update comes before the delete.
\<close>

lemma merge_clashes:
  assumes "(j, q) \<in> set (rows_of t)" and "i \<noteq> j" and "clash q (merge p q)"
  shows "save_pair clash (Some (i, p)) (Some (j, q)) new change merge t = Inl integrity_error"
proof -
  have "list_ex (\<lambda>(l, x). l \<noteq> i \<and> clash x (merge p q)) (rows_of t)"
    using assms by (auto simp: list_ex_iff)
  with assms(2) show ?thesis by (simp add: save_pair_def flush_update_def)
qed

subsection \<open>Both keys of a save\<close>

text \<open>The row with a key, by the first or the second key.\<close>

definition pair_get :: "('r \<Rightarrow> 'k option) \<Rightarrow> 'r id_table \<Rightarrow> 'k \<Rightarrow> 'r option" where
  "pair_get key t k = (case query_one (\<lambda>x. key x = Some k) t of Inr (Some (i, x)) \<Rightarrow> Some x | _ \<Rightarrow> None)"

lemma pair_get_A:
  assumes "pairs_ok kA kB t"
  shows "pair_get kA t a = Some r \<longleftrightarrow> kA r = Some a \<and> (\<exists>i. (i, r) \<in> set (rows_of t))"
proof
  assume "pair_get kA t a = Some r"
  then obtain i where "query_one (\<lambda>x. kA x = Some a) t = Inr (Some (i, r))"
    by (auto simp: pair_get_def split: sum.splits option.splits)
  from query_one_found [OF this] show "kA r = Some a \<and> (\<exists>i. (i, r) \<in> set (rows_of t))" by blast
next
  assume r: "kA r = Some a \<and> (\<exists>i. (i, r) \<in> set (rows_of t))"
  then obtain i where "(i, r) \<in> set (rows_of t)" by blast
  with assms r have "query_one (\<lambda>x. kA x = Some a) t = Inr (Some (i, r))"
    by (intro query_one_row) (auto simp: same_keys_def)
  then show "pair_get kA t a = Some r" by (simp add: pair_get_def)
qed

lemma pairs_ok_swap: "pairs_ok kA kB t = pairs_ok kB kA t"
proof -
  have "same_keys kA kB = same_keys kB kA" by (intro ext) (auto simp: same_keys_def)
  then show ?thesis by (simp add: pairs_ok_def)
qed

lemma pair_get_B:
  "pairs_ok kA kB t \<Longrightarrow> pair_get kB t b = Some r \<longleftrightarrow> kB r = Some b \<and> (\<exists>i. (i, r) \<in> set (rows_of t))"
  by (rule pair_get_A [of kB kA]) (rule pairs_ok_swap [THEN iffD1])

text \<open>What the two queries of a save say, for keys that may be missing.\<close>

definition found_by :: "('r \<Rightarrow> 'k option) \<Rightarrow> 'k option \<Rightarrow> 'r id_table \<Rightarrow> (error, (nat \<times> 'r) option) outcome" where
  "found_by key k t = (case k of None \<Rightarrow> Inr None | Some a \<Rightarrow> query_one (\<lambda>x. key x = Some a) t)"

lemma found_by_Some:
  assumes "found_by key k t = Inr (Some (i, x))"
  shows "(i, x) \<in> set (rows_of t)" and "key x = k" and "k \<noteq> None"
  using assms query_one_found [of _ t i x] by (auto simp: found_by_def split: option.splits)

lemma found_by_None:
  "found_by key k t = Inr None \<Longrightarrow> (i, x) \<in> set (rows_of t) \<Longrightarrow> k = None \<or> key x \<noteq> k"
  using query_one_none [of _ t i x] by (auto simp: found_by_def split: option.splits)

text \<open>
  A save keeps one row per key if each key of the row it writes is the one asked for or comes from a row
  found.
\<close>

lemma save_by_keys:
  assumes ok: "pairs_ok kA kB t" and a: "found_by kA ka t = Inr by_a" and b: "found_by kB kb t = Inr by_b"
    and save: "save_pair clash by_a by_b new change merge t = Inr (r, t')"
    and new: "kA new \<in> {ka, None}" "kB new \<in> {kb, None}"
    and change: "\<And>x. ka \<noteq> None \<and> kA x = ka \<or> kb \<noteq> None \<and> kB x = kb \<Longrightarrow>
      kA (change x) \<in> {ka, kA x} \<and> kB (change x) \<in> {kb, kB x}"
    and merge: "\<And>x y. kA x = ka \<Longrightarrow> kB y = kb \<Longrightarrow> ka \<noteq> None \<Longrightarrow> kb \<noteq> None \<Longrightarrow>
      kA (merge x y) \<in> {ka, kA x, kA y} \<and> kB (merge x y) \<in> {kb, kB x, kB y}"
  shows "pairs_ok kA kB t'" and "\<exists>i. (i, r) \<in> set (rows_of t')"
proof -
  have keys: "kA x = None \<or> kA x \<noteq> kA y" "kB x = None \<or> kB x \<noteq> kB y"
    if "(i, x) \<in> set (rows_of t)" "(j, y) \<in> set (rows_of t)" "i \<noteq> j" for i x j y
    using pairs_okD(3) [OF ok that] by (auto simp: same_keys_def)
  have found: "(i, x) \<in> set (rows_of t)" if "by_a = Some (i, x) \<or> by_b = Some (i, x)" for i x
    using that found_by_Some(1) [of kA ka t i x] found_by_Some(1) [of kB kb t i x] a b by auto
  have fa: "kA x = ka \<and> ka \<noteq> None" if "by_a = Some (i, x)" for i x
    using found_by_Some(2,3) [of kA ka t i x] a that by simp
  have fb: "kB x = kb \<and> kb \<noteq> None" if "by_b = Some (i, x)" for i x
    using found_by_Some(2,3) [of kB kb t i x] b that by simp
  have na: "ka = None \<or> kA x \<noteq> ka" if "by_a = None" "(i, x) \<in> set (rows_of t)" for i x
    using found_by_None [of kA ka t] a that by simp
  have nb: "kb = None \<or> kB x \<noteq> kb" if "by_b = None" "(i, x) \<in> set (rows_of t)" for i x
    using found_by_None [of kB kb t] b that by simp
  have new': "\<not> same_keys kA kB x new" if "by_a = None" "by_b = None" "(i, x) \<in> set (rows_of t)" for i x
    using that na nb new unfolding same_keys_def by (metis empty_iff insert_iff)
  have change': "\<not> same_keys kA kB y (change x)"
    if row: "by_a = Some (i, x) \<and> (by_b = None \<or> by_b = by_a) \<or> by_a = None \<and> by_b = Some (i, x)"
      and y: "(j, y) \<in> set (rows_of t)" "j \<noteq> i" for i x j y
  proof -
    have x: "(i, x) \<in> set (rows_of t)" using row found by blast
    have c: "kA (change x) \<in> {ka, kA x} \<and> kB (change x) \<in> {kb, kB x}" using row fa fb by (intro change) blast
    then have "kA y = None \<or> kA y \<noteq> kA (change x)"
      using keys(1) [OF y(1) x y(2)] row na [OF _ y(1)] fa by fastforce
    moreover have "kB y = None \<or> kB y \<noteq> kB (change x)"
      using c keys(2) [OF y(1) x y(2)] row nb [OF _ y(1)] fb by fastforce
    ultimately show ?thesis by (simp add: same_keys_def)
  qed
  have merge': "\<not> same_keys kA kB z (merge x y)"
    if rows: "by_a = Some (i, x)" "by_b = Some (j, y)" and "i \<noteq> j"
      and z: "(l, z) \<in> set (rows_of t)" "l \<noteq> i" "l \<noteq> j" for i x j y l z
  proof -
    have mem: "(i, x) \<in> set (rows_of t)" "(j, y) \<in> set (rows_of t)" using rows found by blast+
    have m: "kA (merge x y) \<in> {ka, kA x, kA y} \<and> kB (merge x y) \<in> {kb, kB x, kB y}"
      using fa [OF rows(1)] fb [OF rows(2)] by (intro merge) auto
    then have "kA z = None \<or> kA z \<noteq> kA (merge x y)"
      using keys(1) [OF z(1) mem(1) z(2)] keys(1) [OF z(1) mem(2) z(3)] fa [OF rows(1)] by auto
    moreover have "kB z = None \<or> kB z \<noteq> kB (merge x y)"
      using m keys(2) [OF z(1) mem(1) z(2)] keys(2) [OF z(1) mem(2) z(3)] fb [OF rows(2)] by auto
    ultimately show ?thesis by (simp add: same_keys_def)
  qed
  show "pairs_ok kA kB t'" by (rule save_pair_ok(1) [OF ok save found new' change' merge'])
  show "\<exists>i. (i, r) \<in> set (rows_of t')" by (rule save_pair_ok(2) [OF ok save found new' change' merge'])
qed

section \<open>Times of creation\<close>

definition first_time :: "datetime option list \<Rightarrow> datetime option" where
  "first_time ts = (case filter (\<lambda>t. t \<noteq> None) ts of [] \<Rightarrow> None | t # _ \<Rightarrow> t)"

section \<open>CTS bindings of eXpress users\<close>

text \<open>Each of the two columns is unique, and NULL equals nothing.\<close>

definition cts_clash :: "user_cts_binding_record \<Rightarrow> user_cts_binding_record \<Rightarrow> bool" where
  "cts_clash = same_keys ub_target_huid ub_corporate_email"

definition sql_cts_get_by_target_huid ::
    "user_cts_binding_record id_table \<Rightarrow> string \<Rightarrow> (error, user_cts_binding_record option) outcome" where
  "sql_cts_get_by_target_huid t huid =
    (if py_strip huid = [] then Inr None
     else map_sum id (map_option snd) (query_one (\<lambda>x. ub_target_huid x = Some (py_strip huid)) t))"

definition sql_cts_get_by_email ::
    "user_cts_binding_record id_table \<Rightarrow> string \<Rightarrow> (error, user_cts_binding_record option) outcome" where
  "sql_cts_get_by_email t email =
    (let e = py_lower (py_strip email) in
     if e = [] then Inr None else map_sum id (map_option snd) (query_one (\<lambda>x. ub_corporate_email x = Some e) t))"

definition sql_cts_new ::
    "user_cts_binding_record \<Rightarrow> datetime \<Rightarrow> string option \<Rightarrow> string option \<Rightarrow> user_cts_binding_record" where
  "sql_cts_new r now huid email = \<lparr>ub_cts_host = py_lower (py_strip (ub_cts_host r)), ub_target_huid = huid,
     ub_corporate_email = email, ub_created_at = first_time [ub_created_at r, Some now],
     ub_updated_at = first_time [ub_updated_at r, Some now], ub_last_verified_at = ub_last_verified_at r\<rparr>"

definition sql_cts_change ::
    "user_cts_binding_record \<Rightarrow> datetime \<Rightarrow> string option \<Rightarrow> string option \<Rightarrow> user_cts_binding_record
      \<Rightarrow> user_cts_binding_record" where
  "sql_cts_change r now huid email x = x\<lparr>ub_target_huid := py_or huid (ub_target_huid x),
     ub_corporate_email := py_or email (ub_corporate_email x), ub_cts_host := py_lower (py_strip (ub_cts_host r)),
     ub_last_verified_at := ub_last_verified_at r, ub_updated_at := first_time [ub_updated_at r, Some now]\<rparr>"

definition sql_cts_merge ::
    "user_cts_binding_record \<Rightarrow> datetime \<Rightarrow> string option \<Rightarrow> string option \<Rightarrow> user_cts_binding_record
      \<Rightarrow> user_cts_binding_record \<Rightarrow> user_cts_binding_record" where
  "sql_cts_merge r now huid email p q = p\<lparr>ub_target_huid := py_or huid (py_or (ub_target_huid p) (ub_target_huid q)),
     ub_corporate_email := py_or email (py_or (ub_corporate_email p) (ub_corporate_email q)),
     ub_cts_host := py_lower (py_strip (ub_cts_host r)), ub_last_verified_at := ub_last_verified_at r,
     ub_created_at := first_time [ub_created_at p, ub_created_at q, ub_created_at r, Some now],
     ub_updated_at := first_time [ub_updated_at r, Some now]\<rparr>"

definition sql_cts_save ::
    "user_cts_binding_record \<times> datetime \<Rightarrow> user_cts_binding_record id_table
      \<Rightarrow> (error, user_cts_binding_record \<times> user_cts_binding_record id_table) outcome" where
  "sql_cts_save q t =
    (let r = fst q; now = snd q;
         huid = normalized py_strip (ub_target_huid r);
         email = normalized (\<lambda>s. py_lower (py_strip s)) (ub_corporate_email r)
     in if py_lower (py_strip (ub_cts_host r)) = [] then Inl (ValueError ''cts_host is required'')
        else if huid = None \<and> email = None
        then Inl (ValueError ''target_huid or corporate_email is required'')
        else case found_by ub_target_huid huid t of
          Inl e \<Rightarrow> Inl e
        | Inr by_huid \<Rightarrow>
            (case found_by ub_corporate_email email t of
               Inl e \<Rightarrow> Inl e
             | Inr by_email \<Rightarrow> save_pair cts_clash by_huid by_email (sql_cts_new r now huid email)
                 (sql_cts_change r now huid email) (sql_cts_merge r now huid email) t))"

abbreviation sql_cts_ok :: "user_cts_binding_record id_table \<Rightarrow> bool" where
  "sql_cts_ok \<equiv> pairs_ok ub_target_huid ub_corporate_email"

lemma sql_cts_save_ok:
  assumes "sql_cts_ok t" and "sql_cts_save q t = Inr (r, t')"
  shows "sql_cts_ok t'" and "\<exists>i. (i, r) \<in> set (rows_of t')"
proof -
  let ?r = "fst q" and ?now = "snd q"
  let ?huid = "normalized py_strip (ub_target_huid ?r)"
    and ?email = "normalized (\<lambda>s. py_lower (py_strip s)) (ub_corporate_email ?r)"
  obtain a b where ab: "found_by ub_target_huid ?huid t = Inr a" "found_by ub_corporate_email ?email t = Inr b"
    and save: "save_pair cts_clash a b (sql_cts_new ?r ?now ?huid ?email) (sql_cts_change ?r ?now ?huid ?email)
      (sql_cts_merge ?r ?now ?huid ?email) t = Inr (r, t')"
    using assms(2) by (auto simp: sql_cts_save_def Let_def split: if_splits sum.splits)
  show "sql_cts_ok t'" and "\<exists>i. (i, r) \<in> set (rows_of t')"
    by (rule save_by_keys [OF assms(1) ab save];
        simp add: sql_cts_new_def sql_cts_change_def sql_cts_merge_def py_or_truthy)+
qed

interpretation sql_cts: paired_store "pair_get ub_target_huid" "pair_get ub_corporate_email"
  ub_target_huid ub_corporate_email sql_cts_ok "\<lambda>_. True" sql_cts_save
  by unfold_locales (use sql_cts_save_ok in \<open>fastforce simp: pair_get_A pair_get_B\<close>)+

section \<open>Identity mappings\<close>

text \<open>A name is unique on its host, but a row for all hosts has a NULL host, which equals nothing.\<close>

definition identity_clash :: "identity_mapping_record \<Rightarrow> identity_mapping_record \<Rightarrow> bool" where
  "identity_clash x y \<longleftrightarrow> im_express_host x \<noteq> None \<and> same_keys identity_user_key identity_name_key x y"

definition sql_identity_get_by_user_id ::
    "identity_mapping_record id_table \<Rightarrow> string \<Rightarrow> string option \<Rightarrow> (error, identity_mapping_record option) outcome" where
  "sql_identity_get_by_user_id t user host = map_sum id (map_option snd)
     (query_one (\<lambda>x. identity_user_key x = Some (host, user)) t)"

definition sql_identity_get_by_username ::
    "identity_mapping_record id_table \<Rightarrow> string \<Rightarrow> string option \<Rightarrow> (error, identity_mapping_record option) outcome" where
  "sql_identity_get_by_username t name host = map_sum id (map_option snd)
     (query_one (\<lambda>x. identity_name_key x = Some (host, name)) t)"

definition sql_identity_new ::
    "identity_mapping_record \<Rightarrow> datetime \<Rightarrow> string option \<Rightarrow> string option \<Rightarrow> string option \<Rightarrow> identity_mapping_record" where
  "sql_identity_new r now host user name = \<lparr>im_telegram_user_id = user, im_telegram_username = name,
     im_telegram_display_name = im_telegram_display_name r, im_corporate_email = im_corporate_email r,
     im_target_huid = im_target_huid r, im_express_host = host,
     im_created_at = first_time [im_created_at r, Some now], im_updated_at = first_time [im_updated_at r, Some now],
     im_last_resolved_at = im_last_resolved_at r\<rparr>"

definition sql_identity_change ::
    "identity_mapping_record \<Rightarrow> datetime \<Rightarrow> string option \<Rightarrow> string option \<Rightarrow> string option
      \<Rightarrow> identity_mapping_record \<Rightarrow> identity_mapping_record" where
  "sql_identity_change r now host user name x = x\<lparr>im_express_host := py_or host (im_express_host x),
     im_telegram_user_id := py_or user (im_telegram_user_id x),
     im_telegram_username := py_or name (im_telegram_username x),
     im_telegram_display_name := py_or (im_telegram_display_name r) (im_telegram_display_name x),
     im_corporate_email := im_corporate_email r, im_target_huid := im_target_huid r,
     im_last_resolved_at := im_last_resolved_at r, im_updated_at := first_time [im_updated_at r, Some now]\<rparr>"

definition sql_identity_merge ::
    "identity_mapping_record \<Rightarrow> datetime \<Rightarrow> string option \<Rightarrow> string option \<Rightarrow> string option
      \<Rightarrow> identity_mapping_record \<Rightarrow> identity_mapping_record \<Rightarrow> identity_mapping_record" where
  "sql_identity_merge r now host user name p q = p\<lparr>
     im_express_host := py_or host (py_or (im_express_host p) (im_express_host q)),
     im_telegram_user_id := py_or user (im_telegram_user_id p),
     im_telegram_username := py_or name (im_telegram_username p),
     im_telegram_display_name := py_or (im_telegram_display_name r)
       (py_or (im_telegram_display_name p) (im_telegram_display_name q)),
     im_corporate_email := im_corporate_email r, im_target_huid := im_target_huid r,
     im_last_resolved_at := im_last_resolved_at r,
     im_created_at := first_time [im_created_at p, im_created_at q, im_created_at r, Some now],
     im_updated_at := first_time [im_updated_at r, Some now]\<rparr>"

definition sql_identity_save ::
    "identity_mapping_record \<times> datetime \<Rightarrow> identity_mapping_record id_table
      \<Rightarrow> (error, identity_mapping_record \<times> identity_mapping_record id_table) outcome" where
  "sql_identity_save q t =
    (let r = fst q; now = snd q;
         host = normalized (\<lambda>s. py_lower (py_strip s)) (im_express_host r);
         user = normalized py_strip (im_telegram_user_id r);
         name = normalized normalize_username (im_telegram_username r)
     in case found_by identity_user_key (host_key host user) t of
          Inl e \<Rightarrow> Inl e
        | Inr by_user \<Rightarrow>
            (case found_by identity_name_key (host_key host name) t of
               Inl e \<Rightarrow> Inl e
             | Inr by_name \<Rightarrow> save_pair identity_clash by_user by_name (sql_identity_new r now host user name)
                 (sql_identity_change r now host user name) (sql_identity_merge r now host user name) t))"

abbreviation sql_identities_ok :: "identity_mapping_record id_table \<Rightarrow> bool" where
  "sql_identities_ok \<equiv> pairs_ok identity_user_key identity_name_key"

lemma host_key_None [simp]: "host_key h n = None \<longleftrightarrow> n = None"
  by (simp add: host_key_def)

lemma host_key_inject [simp]: "host_key h n = host_key h' n' \<longleftrightarrow> n = n' \<and> (n = None \<or> h = h')"
  by (cases n; cases n') (auto simp: host_key_def)

lemma py_or_same [simp]: "py_or a a = a"
  by (simp add: py_or_truthy)

lemma sql_identity_save_ok:
  assumes "sql_identities_ok t" and "sql_identity_save q t = Inr (r, t')"
  shows "sql_identities_ok t'" and "\<exists>i. (i, r) \<in> set (rows_of t')"
proof -
  let ?r = "fst q" and ?now = "snd q"
  let ?host = "normalized (\<lambda>s. py_lower (py_strip s)) (im_express_host ?r)"
    and ?user = "normalized py_strip (im_telegram_user_id ?r)"
    and ?name = "normalized normalize_username (im_telegram_username ?r)"
  obtain a b where ab: "found_by identity_user_key (host_key ?host ?user) t = Inr a"
      "found_by identity_name_key (host_key ?host ?name) t = Inr b"
    and save: "save_pair identity_clash a b (sql_identity_new ?r ?now ?host ?user ?name)
      (sql_identity_change ?r ?now ?host ?user ?name) (sql_identity_merge ?r ?now ?host ?user ?name) t = Inr (r, t')"
    using assms(2) by (auto simp: sql_identity_save_def Let_def split: if_splits sum.splits)
  show "sql_identities_ok t'" and "\<exists>i. (i, r) \<in> set (rows_of t')"
    by (rule save_by_keys [OF assms(1) ab save];
        auto simp: sql_identity_new_def sql_identity_change_def sql_identity_merge_def identity_user_key_def
          identity_name_key_def py_or_truthy)+
qed

interpretation sql_identities: paired_store "pair_get identity_user_key" "pair_get identity_name_key"
  identity_user_key identity_name_key sql_identities_ok "\<lambda>_. True" sql_identity_save
  by unfold_locales (use sql_identity_save_ok in \<open>fastforce simp: pair_get_A pair_get_B\<close>)+

section \<open>HUID bindings of bots\<close>

definition sql_bot_huid_get :: "bot_huid_binding_record table \<Rightarrow> string \<Rightarrow> bot_huid_binding_record option" where
  "sql_bot_huid_get t bot_id =
    (if py_strip bot_id = [] then None else row_where (\<lambda>b. bb_bot_id b = py_strip bot_id) t)"

definition sql_bot_huid_save ::
    "bot_huid_binding_record \<Rightarrow> datetime \<Rightarrow> bot_huid_binding_record table
      \<Rightarrow> (error, bot_huid_binding_record \<times> bot_huid_binding_record table) outcome" where
  "sql_bot_huid_save r now t =
    (let bot_id = py_strip (bb_bot_id r);
         host = py_lower (py_strip (bb_cts_host r));
         huid = py_strip (bb_bot_huid r);
         learned = first_time [bb_last_learned_at r, Some now];
         updated = first_time [bb_updated_at r, Some now]
     in if bot_id = [] then Inl (ValueError ''bot_id is required'')
        else if host = [] then Inl (ValueError ''cts_host is required'')
        else if huid = [] then Inl (ValueError ''bot_huid is required'')
        else case row_where (\<lambda>b. bb_bot_id b = bot_id) t of
          None \<Rightarrow>
            let new = \<lparr>bb_bot_id = bot_id, bb_cts_host = host, bb_bot_huid = huid,
                  bb_created_at = first_time [bb_created_at r, Some now], bb_updated_at = updated,
                  bb_last_learned_at = learned\<rparr>
            in Inr (new, t @ [new])
        | Some b \<Rightarrow>
            let change = (\<lambda>b. b\<lparr>bb_cts_host := host, bb_bot_huid := huid, bb_last_learned_at := learned,
                  bb_updated_at := updated\<rparr>)
            in Inr (change b, map (\<lambda>b. if bb_bot_id b = bot_id then change b else b) t))"

abbreviation bot_rows :: "bot_huid_binding_record table \<Rightarrow> bot_huid_repo" where
  "bot_rows \<equiv> rows_dict bb_bot_id (\<lambda>b. b)"

text \<open>The table keeps the bindings of the dictionary, on every path.\<close>

lemma sql_bot_huid_save_refines:
  assumes "unique_rows bb_bot_id t"
  shows "map_sum id (map_prod id bot_rows) (sql_bot_huid_save r now t) = bot_huid_save r now (bot_rows t)"
proof (cases "row_get bb_bot_id t (py_strip (bb_bot_id r))")
  case None
  from row_get_None [THEN iffD1, OF None] have "bot_rows (t @ [b]) = dict_set (bb_bot_id b) b (bot_rows t)"
    if "bb_bot_id b = py_strip (bb_bot_id r)" for b
    using that rows_dict_insert by metis
  with None show ?thesis
    by (auto simp: sql_bot_huid_save_def bot_huid_save_def Let_def row_get_def first_time_def stamped_def split: option.split)
next
  case (Some b)
  with row_get_key [OF Some] rows_dict_change [OF assms Some, where domain = "\<lambda>b. b"] show ?thesis
    by (cases b) (auto simp: sql_bot_huid_save_def bot_huid_save_def Let_def row_get_def first_time_def stamped_def
        split: option.split)
qed

end
