(* ===== verification/Kafka_Bus.thy ===== *)
theory Kafka_Bus
  imports Job_Worker Outbox_Publisher
begin

text \<open>
  The envelopes of integration events (\<open>contracts/events.py\<close>), the topics the two publishers choose
  (\<open>infrastructure/events/\<close>) and the loop of \<open>ConfluentKafkaMigrationCommandConsumer\<close> over one partition.
  The text of a JSON value and back is the standard library's; what is left of it here is the order of
  the keys.
\<close>

section \<open>Envelopes\<close>

definition members :: "json \<Rightarrow> (string \<times> json) list" where
  "members v = (case v of JObj m \<Rightarrow> m | _ \<Rightarrow> [])"

definition string_or_none :: "json option \<Rightarrow> string option" where
  "string_or_none v = (case v of Some (JStr s) \<Rightarrow> if s = [] then None else Some s | _ \<Rightarrow> None)"

definition envelope_schema_version :: "(string \<times> json) list \<Rightarrow> int" where
  "envelope_schema_version headers = (case dict_get headers ''schema_version'' of
     Some (JInt n) \<Rightarrow> n | Some (JBool b) \<Rightarrow> of_bool b | _ \<Rightarrow> 1)"

definition nonempty_strings :: "json list \<Rightarrow> string list" where
  "nonempty_strings items = concat (map (\<lambda>v. case v of JStr s \<Rightarrow> if s = [] then [] else [s] | _ \<Rightarrow> []) items)"

definition logical_chat_key :: "outbox_event_record \<Rightarrow> string option" where
  "logical_chat_key e =
    (case string_or_none (dict_get (members (ob_headers_json e)) ''logical_chat_key'') of
       Some explicit \<Rightarrow> Some explicit
     | None \<Rightarrow> (case dict_get (members (ob_payload_json e)) ''source_chat_ids'' of
           Some (JList items) \<Rightarrow> (case nonempty_strings items of
               [] \<Rightarrow> None | [chat] \<Rightarrow> Some chat | _ \<Rightarrow> Some ''__all__'')
         | _ \<Rightarrow> None))"

definition integration_envelope_from_outbox_event :: "outbox_event_record \<Rightarrow> integration_envelope" where
  "integration_envelope_from_outbox_event e =
    \<lparr>en_message_id = ob_event_id e, en_message_type = ob_event_type e,
     en_schema_version = envelope_schema_version (members (ob_headers_json e)), en_occurred_at = ob_created_at e,
     en_aggregate_type = ob_aggregate_type e, en_aggregate_id = ob_aggregate_id e,
     en_payload_json = members (ob_payload_json e), en_headers_json = members (ob_headers_json e),
     en_migration_id = string_or_none (dict_get (members (ob_payload_json e)) ''migration_id''),
     en_logical_chat_key = logical_chat_key e\<rparr>"

definition integration_partition_key_for_outbox_event :: "outbox_event_record \<Rightarrow> string option" where
  "integration_partition_key_for_outbox_event e =
    (case (string_or_none (dict_get (members (ob_payload_json e)) ''migration_id''), logical_chat_key e) of
       (Some migration, Some chat) \<Rightarrow> Some (migration @ '':'' @ chat) | _ \<Rightarrow> None)"

text \<open>\<open>json.dumps(..., sort_keys=True)\<close>\<close>

fun sort_keys :: "json \<Rightarrow> json" where
  "sort_keys (JObj m) = JObj (sort_key fst (map (\<lambda>(k, v). (k, sort_keys v)) m))"
| "sort_keys (JList vs) = JList (map sort_keys vs)"
| "sort_keys v = v"

definition integration_envelope_to_json :: "integration_envelope \<Rightarrow> json" where
  "integration_envelope_to_json e = sort_keys (JObj
     [(''message_id'', JStr (en_message_id e)), (''message_type'', JStr (en_message_type e)),
      (''schema_version'', JInt (en_schema_version e)), (''occurred_at'', JStr (isoformat (en_occurred_at e))),
      (''aggregate_type'', JStr (en_aggregate_type e)), (''aggregate_id'', JStr (en_aggregate_id e)),
      (''migration_id'', json_opt_str (en_migration_id e)),
      (''logical_chat_key'', json_opt_str (en_logical_chat_key e)),
      (''payload'', JObj (en_payload_json e)), (''headers'', JObj (en_headers_json e))])"

text \<open>\<open>value or {}\<close>, which must then be an object\<close>

definition object_or_empty :: "string \<Rightarrow> json option \<Rightarrow> (error, (string \<times> json) list) outcome" where
  "object_or_empty what v = (case v of
     None \<Rightarrow> Inr [] | Some (JObj m) \<Rightarrow> Inr m
   | Some w \<Rightarrow> if w \<in> {JNull, JBool False, JInt 0, JStr [], JList []} then Inr []
       else Inl (ValueError (''integration envelope '' @ what @ '' must be object'')))"

definition required_string :: "(string \<times> json) list \<Rightarrow> string \<Rightarrow> (error, string) outcome" where
  "required_string p k = (case string_or_none (dict_get p k) of
     Some s \<Rightarrow> Inr s | None \<Rightarrow> Inl (ValueError (''integration envelope '' @ k @ '' must be non-empty string'')))"

definition occurred_time ::
    "(string \<Rightarrow> (error, datetime \<times> int option) outcome) \<Rightarrow> json option \<Rightarrow> (error, datetime) outcome" where
  "occurred_time fromisoformat v = (case v of
     Some (JStr s) \<Rightarrow> (case fromisoformat s of
         Inl e \<Rightarrow> Inl e | Inr (t, None) \<Rightarrow> Inr t | Inr (t, Some offset) \<Rightarrow> Inr (t - offset * one_second))
   | _ \<Rightarrow> Inl (ValueError ''integration envelope occurred_at must be ISO datetime string''))"

definition required_int :: "json option \<Rightarrow> (error, int) outcome" where
  "required_int v = (case v of Some (JInt n) \<Rightarrow> Inr n | Some (JBool b) \<Rightarrow> Inr (of_bool b)
     | _ \<Rightarrow> Inl (ValueError ''integration envelope schema_version must be int''))"

text \<open>The checks in their order; the first that fails raises.\<close>

definition integration_envelope_from_json ::
    "(string \<Rightarrow> (error, datetime \<times> int option) outcome) \<Rightarrow> json \<Rightarrow> (error, integration_envelope) outcome" where
  "integration_envelope_from_json fromisoformat v =
    (case v of
       JObj p \<Rightarrow>
         (case occurred_time fromisoformat (dict_get p ''occurred_at'') of Inl e \<Rightarrow> Inl e | Inr occurred \<Rightarrow>
          case required_string p ''message_id'' of Inl e \<Rightarrow> Inl e | Inr message_id \<Rightarrow>
          case required_string p ''message_type'' of Inl e \<Rightarrow> Inl e | Inr message_type \<Rightarrow>
          case required_string p ''aggregate_type'' of Inl e \<Rightarrow> Inl e | Inr aggregate_type \<Rightarrow>
          case required_string p ''aggregate_id'' of Inl e \<Rightarrow> Inl e | Inr aggregate_id \<Rightarrow>
          case required_int (dict_get p ''schema_version'') of Inl e \<Rightarrow> Inl e | Inr version \<Rightarrow>
          case object_or_empty ''headers'' (dict_get p ''headers'') of Inl e \<Rightarrow> Inl e | Inr headers \<Rightarrow>
          case object_or_empty ''payload'' (dict_get p ''payload'') of Inl e \<Rightarrow> Inl e | Inr body \<Rightarrow>
            Inr \<lparr>en_message_id = message_id, en_message_type = message_type, en_schema_version = version,
              en_occurred_at = occurred, en_aggregate_type = aggregate_type, en_aggregate_id = aggregate_id,
              en_payload_json = body, en_headers_json = headers,
              en_migration_id = string_or_none (dict_get p ''migration_id''),
              en_logical_chat_key = string_or_none (dict_get p ''logical_chat_key'')\<rparr>)
     | _ \<Rightarrow> Inl (ValueError ''integration envelope payload must be a JSON object''))"

section \<open>Topics\<close>

definition logging_topic_prefix :: "string \<Rightarrow> string" where
  "logging_topic_prefix pre = or_empty (py_or (Some (py_strip pre)) (Some ''shadow''))"

definition logging_publish :: "string \<Rightarrow> datetime \<Rightarrow> outbox_event_record \<Rightarrow> published_event" where
  "logging_publish pre now e =
    \<lparr>pe_broker_topic = (case dict_get (members (ob_headers_json e)) ''shadow_topic'' of
         Some (JStr topic) \<Rightarrow> if py_strip topic = [] then logging_topic_prefix pre @ ''.'' @ ob_event_type e else topic
       | _ \<Rightarrow> logging_topic_prefix pre @ ''.'' @ ob_event_type e),
     pe_published_at = now, pe_broker_partition = Some 0, pe_broker_offset = None\<rparr>"

definition resolve_topic :: "string \<Rightarrow> outbox_event_record \<Rightarrow> string" where
  "resolve_topic command_topic e = (case dict_get (members (ob_headers_json e)) ''kafka_topic'' of
     Some (JStr topic) \<Rightarrow> if py_strip topic = [] then command_topic else py_strip topic
   | _ \<Rightarrow> command_topic)"

section \<open>The consumer\<close>

text \<open>
  The log of the partition holds what decoding a message gave, an error or a value. \<open>cn_position\<close> is
  the message \<open>poll\<close> returns next, \<open>cn_committed\<close> the one a restarted consumer begins with.
\<close>

type_synonym message_log = "(error, json) outcome list"

record 's consumer_state =
  cn_position :: nat
  cn_committed :: nat
  cn_watermarks :: "watermark_repo option"
  cn_handler :: 's

record consumer_config =
  kc_topic :: string
  kc_partition :: int
  kc_consumer_name :: string
  kc_fromisoformat :: "string \<Rightarrow> (error, datetime \<times> int option) outcome"

definition consumer_watermark :: "consumer_config \<Rightarrow> nat \<Rightarrow> datetime \<Rightarrow> watermark_repo option \<Rightarrow> watermark_repo option" where
  "consumer_watermark cfg n now = map_option (watermark_upsert
     \<lparr>wm_consumer_name = kc_consumer_name cfg,
      wm_logical_stream_key = kc_topic cfg @ '':'' @ str_of_int (kc_partition cfg),
      wm_watermark_value = str_of_int (int n), wm_updated_at = now\<rparr>)"

definition parse_message :: "consumer_config \<Rightarrow> (error, json) outcome \<Rightarrow> (error, integration_envelope) outcome" where
  "parse_message cfg raw = (case raw of
     Inl e \<Rightarrow> Inl e | Inr v \<Rightarrow> integration_envelope_from_json (kc_fromisoformat cfg) v)"

text \<open>
  One turn of the loop. A message that is no envelope is committed and forgotten; one whose handling
  raised is sought again; else it is committed and the watermark updated.
\<close>

definition consumer_poll ::
    "consumer_config \<Rightarrow> (integration_envelope \<Rightarrow> 's \<Rightarrow> (error, string) outcome \<times> 's) \<Rightarrow> datetime \<Rightarrow> message_log
      \<Rightarrow> 's consumer_state \<Rightarrow> 's consumer_state" where
  "consumer_poll cfg handler now log s =
    (let n = cn_position s in
     if length log \<le> n then s
     else case parse_message cfg (log ! n) of
       Inl _ \<Rightarrow> s\<lparr>cn_position := Suc n, cn_committed := Suc n\<rparr>
     | Inr envelope \<Rightarrow>
         (case handler envelope (cn_handler s) of
            (Inl _, h) \<Rightarrow> s\<lparr>cn_handler := h, cn_position := n\<rparr>
          | (Inr code, h) \<Rightarrow> s\<lparr>cn_handler := h, cn_position := Suc n, cn_committed := Suc n,
              cn_watermarks := consumer_watermark cfg n now (cn_watermarks s)\<rparr>))"

section \<open>Round trips\<close>

lemma dict_get_sort_keys:
  "dict_get (members (sort_keys (JObj m))) k = map_option sort_keys (dict_get m k)"
proof -
  have first: "dict_get xs k = (case filter (\<lambda>p. fst p = k) xs of [] \<Rightarrow> None | p # _ \<Rightarrow> Some (snd p))"
    for xs :: "(string \<times> json) list" by (induction xs) auto
  have "dict_get (members (sort_keys (JObj m))) k = dict_get (map (\<lambda>(k, v). (k, sort_keys v)) m) k"
    unfolding first by (simp add: members_def sort_key_stable)
  also have "\<dots> = map_option sort_keys (dict_get m k)" by (induction m) auto
  finally show ?thesis .
qed

lemma string_or_none_nonempty [simp]: "string_or_none v \<noteq> Some []"
  by (auto simp: string_or_none_def split: option.split json.split)

lemma logical_chat_key_nonempty [simp]: "logical_chat_key e \<noteq> Some []"
proof -
  have "[] \<notin> set (nonempty_strings items)" for items
    by (auto simp: nonempty_strings_def split: json.splits if_splits)
  then have "nonempty_strings items \<noteq> [[]]" for items by (metis list.set_intros(1))
  then show ?thesis by (auto simp: logical_chat_key_def split: option.split json.split list.split)
qed

text \<open>An envelope is read as it was written, up to the order of keys.\<close>

definition sorted_envelope :: "integration_envelope \<Rightarrow> integration_envelope" where
  "sorted_envelope e = e\<lparr>en_payload_json := members (sort_keys (JObj (en_payload_json e))),
     en_headers_json := members (sort_keys (JObj (en_headers_json e)))\<rparr>"

definition complete_envelope :: "integration_envelope \<Rightarrow> bool" where
  "complete_envelope e \<longleftrightarrow> en_message_id e \<noteq> [] \<and> en_message_type e \<noteq> [] \<and> en_aggregate_type e \<noteq> []
     \<and> en_aggregate_id e \<noteq> [] \<and> en_migration_id e \<noteq> Some [] \<and> en_logical_chat_key e \<noteq> Some []"

lemma string_or_none_opt: "x \<noteq> Some [] \<Longrightarrow> string_or_none (Some (json_opt_str x)) = x"
  by (cases x) (auto simp: string_or_none_def json_opt_str_def)

lemma required_string_found: "dict_get p k = Some (JStr s) \<Longrightarrow> s \<noteq> [] \<Longrightarrow> required_string p k = Inr s"
  by (simp add: required_string_def string_or_none_def)

lemma sort_keys_opt_str [simp]: "sort_keys (json_opt_str x) = json_opt_str x"
  by (simp add: json_opt_str_def split: option.split)

lemma envelope_round_trip:
  assumes "complete_envelope e" and "fromiso (isoformat (en_occurred_at e)) = Inr (en_occurred_at e, Some 0)"
  shows "integration_envelope_from_json fromiso (integration_envelope_to_json e) = Inr (sorted_envelope e)"
proof -
  obtain p where p: "integration_envelope_to_json e = JObj p" by (simp add: integration_envelope_to_json_def)
  have get: "dict_get p k = dict_get (members (integration_envelope_to_json e)) k" for k by (simp add: p members_def)
  have fields: "dict_get p ''occurred_at'' = Some (JStr (isoformat (en_occurred_at e)))"
    "dict_get p ''message_id'' = Some (JStr (en_message_id e))" "dict_get p ''message_type'' = Some (JStr (en_message_type e))"
    "dict_get p ''aggregate_type'' = Some (JStr (en_aggregate_type e))"
    "dict_get p ''aggregate_id'' = Some (JStr (en_aggregate_id e))"
    "dict_get p ''schema_version'' = Some (JInt (en_schema_version e))"
    "dict_get p ''headers'' = Some (sort_keys (JObj (en_headers_json e)))"
    "dict_get p ''payload'' = Some (sort_keys (JObj (en_payload_json e)))"
    "dict_get p ''migration_id'' = Some (json_opt_str (en_migration_id e))"
    "dict_get p ''logical_chat_key'' = Some (json_opt_str (en_logical_chat_key e))"
    unfolding get integration_envelope_to_json_def dict_get_sort_keys by simp_all
  note strings = fields(2-5) [THEN required_string_found]
  from assms fields show ?thesis
    by (simp add: p integration_envelope_from_json_def complete_envelope_def occurred_time_def strings
        required_int_def object_or_empty_def string_or_none_opt sorted_envelope_def members_def)
qed

lemma payload_job_key_sorted [simp]: "payload_job_key (sorted_envelope e) = payload_job_key e"
proof -
  have "dict_get (en_payload_json (sorted_envelope e)) k = map_option sort_keys (dict_get (en_payload_json e) k)" for k
    by (simp add: sorted_envelope_def dict_get_sort_keys del: sort_keys.simps)
  then show ?thesis by (simp add: payload_job_key_def split: option.split json.split) 
qed

section \<open>No command is lost\<close>

text \<open>What an answer of the handler means, and what a run of the consumer is made of.\<close>

definition as_consumed :: "string option \<times> 's \<Rightarrow> (error, string) outcome \<times> 's" where
  "as_consumed r = (case r of (None, h) \<Rightarrow> (Inl CancelledError, h) | (Some code, h) \<Rightarrow> (Inr code, h))"

definition keeps_processed :: "handler_state \<Rightarrow> handler_state \<Rightarrow> bool" where
  "keeps_processed s s' \<longleftrightarrow> (\<forall>k. inbox_is_processed k (hs_inbox s) \<longrightarrow> inbox_is_processed k (hs_inbox s'))"

text \<open>
  The consumer of a log polls, with the handler answering or raising (it or a repository under it), is
  restarted, and shares the inbox and the jobs with others. A cancelled handler ends the loop.
\<close>

inductive consumer_run :: "consumer_config \<Rightarrow> handler_config \<Rightarrow> message_log \<Rightarrow> handler_state consumer_state \<Rightarrow> bool"
  for cfg hcfg log where
  start: "consumer_run cfg hcfg log \<lparr>cn_position = 0, cn_committed = 0, cn_watermarks = w, cn_handler = h\<rparr>"
| answer: "consumer_run cfg hcfg log s \<Longrightarrow>
    consumer_run cfg hcfg log (consumer_poll cfg (\<lambda>e h. as_consumed (handle hcfg wcfg worker sch e h)) now log s)"
| broken: "consumer_run cfg hcfg log s \<Longrightarrow> keeps_processed (cn_handler s) h \<Longrightarrow>
    consumer_run cfg hcfg log (consumer_poll cfg (\<lambda>_ _. (Inl e, h)) now log s)"
| restart: "consumer_run cfg hcfg log s \<Longrightarrow> consumer_run cfg hcfg log (s\<lparr>cn_position := cn_committed s\<rparr>)"
| others: "consumer_run cfg hcfg log s \<Longrightarrow> keeps_processed (cn_handler s) h \<Longrightarrow>
    consumer_run cfg hcfg log (s\<lparr>cn_handler := h\<rparr>)"

lemma handle_keeps_processed:
  "keeps_processed s (snd (handle cfg wcfg worker sch e s))"
  by (auto simp: keeps_processed_def handle_def Let_def split: option.split prod.split)

definition consumed :: "consumer_config \<Rightarrow> handler_config \<Rightarrow> message_log \<Rightarrow> handler_state consumer_state \<Rightarrow> bool" where
  "consumed cfg hcfg log s \<longleftrightarrow> cn_position s = cn_committed s \<and> cn_committed s \<le> length log
     \<and> (\<forall>i < cn_committed s. \<forall>e. parse_message cfg (log ! i) = Inr e \<longrightarrow>
           inbox_is_processed (hc_consumer_name hcfg, en_message_id e) (hs_inbox (cn_handler s)))"

text \<open>A poll commits a message only when the handler answered it, or it is no envelope.\<close>

lemma consumed_poll:
  assumes "consumed cfg hcfg log s"
    and keeps: "\<And>e. keeps_processed (cn_handler s) (snd (handler e (cn_handler s)))"
    and answers: "\<And>e code h. handler e (cn_handler s) = (Inr code, h) \<Longrightarrow>
      inbox_is_processed (hc_consumer_name hcfg, en_message_id e) (hs_inbox h)"
  shows "consumed cfg hcfg log (consumer_poll cfg handler now log s)"
proof (cases "length log \<le> cn_position s")
  case True
  with assms(1) show ?thesis by (simp add: consumer_poll_def)
next
  case False
  show ?thesis
  proof (cases "parse_message cfg (log ! cn_position s)")
    case (Inl e)
    with False assms(1) show ?thesis by (auto simp: consumer_poll_def consumed_def Let_def less_Suc_eq)
  next
    case (Inr e)
    obtain res h where h: "handler e (cn_handler s) = (res, h)" by fastforce
    with keeps [of e] assms(1) have kept: "consumed cfg hcfg log (s\<lparr>cn_handler := h\<rparr>)"
      by (auto simp: consumed_def keeps_processed_def)
    show ?thesis
    proof (cases res)
      case (Inl err)
      with kept Inr h False show ?thesis by (simp add: consumer_poll_def consumed_def Let_def)
    next
      case (Inr code)
      with answers h have "inbox_is_processed (hc_consumer_name hcfg, en_message_id e) (hs_inbox h)" by simp
      with kept Inr h False \<open>parse_message cfg (log ! cn_position s) = Inr e\<close> show ?thesis
        by (auto simp: consumer_poll_def consumed_def Let_def less_Suc_eq)
    qed
  qed
qed

lemma consumer_run_consumed: "consumer_run cfg hcfg log s \<Longrightarrow> consumed cfg hcfg log s"
proof (induction rule: consumer_run.induct)
  case (start w h)
  then show ?case by (simp add: consumed_def)
next
  case (answer s wcfg worker sch now)
  have same: "snd (as_consumed r) = snd r" for r :: "string option \<times> handler_state"
    by (simp add: as_consumed_def split: prod.split option.split)
  from answer.IH show ?case
  proof (rule consumed_poll)
    show "keeps_processed (cn_handler s) (snd (as_consumed (handle hcfg wcfg worker sch e (cn_handler s))))" for e
      unfolding same by (rule handle_keeps_processed)
    show "inbox_is_processed (hc_consumer_name hcfg, en_message_id e) (hs_inbox h)"
      if "as_consumed (handle hcfg wcfg worker sch e (cn_handler s)) = (Inr code, h)" for e code h
      using that handle_processed(1) by (fastforce simp: as_consumed_def split: prod.splits option.splits)
  qed
next
  case (broken s h e now)
  then show ?case by (intro consumed_poll) simp_all
next
  case (restart s)
  then show ?case by (simp add: consumed_def)
next
  case (others s h)
  then show ?case by (auto simp: consumed_def keeps_processed_def)
qed

end
