(* ===== verification/Sql_Properties.thy ===== *)
theory Sql_Properties
  imports Sql_Stores Sql_Messages Sql_Attachments Sql_Queues Sql_Identities Kafka_Bus Delivery_Outcomes
    Copy_Examples
begin

text \<open>
  The properties of the repositories on tables - what two workers can do to each other between two
  statements, what redaction leaves of a payload, how the tables agree with the dictionaries - and of
  the consumer of commands.
\<close>

section \<open>Payloads\<close>

text \<open>
  C14: whatever JSON value is to be stored redacted, every string in what is stored is a mark of redaction
  or stands under a key known to be harmless, and nothing is nested deeper than six levels.
\<close>

theorem stored_payload_redacted:
  "list_all may_be_stored (string_leaves None (sanitize_payload RedactedPayload p))
    \<and> json_depth (sanitize_payload RedactedPayload p) \<le> 6"
proof -
  let ?given = "case p of None \<Rightarrow> JObj [] | Some q \<Rightarrow> q"
  have "sanitize_payload RedactedPayload p \<in> {sanitize_value None 0 ?given, JObj []}"
    by (auto simp: sanitize_payload_def Let_def split: json.split)
  then show ?thesis
    using sanitized_leaves [where key = None and depth = 0 and v = ?given] sanitized_depth [of None 0 ?given]
    by (auto simp: list_all_iff)
qed

text \<open>A sensitive key is never one of the harmless ones.\<close>

lemma sensitive_never_safe: "is_sensitive_key (py_lower (py_strip k)) \<Longrightarrow> \<not> is_safe_string_key (Some k)"
  by (simp add: is_safe_string_key_def Let_def)

text \<open>An upload as it is read back from a redacted payload.\<close>

definition redacted_file :: "express_staged_file \<Rightarrow> express_staged_file" where
  "redacted_file f = f\<lparr>sf_file_url := redacted_value, sf_filename := redacted_value, sf_file_hash := redacted_value,
     sf_preview_url := map_option (\<lambda>_. redacted_value) (sf_preview_url f),
     sf_encryption_algo := map_option (\<lambda>_. redacted_value) (sf_encryption_algo f),
     sf_caption := map_option (\<lambda>_. redacted_value) (sf_caption f)\<rparr>"

lemma staged_file_keys:
  "is_safe_string_key (Some ''attachment_type'')" "is_safe_string_key (Some ''file_id'')"
  "is_safe_string_key (Some ''mime_type'')" "\<not> is_safe_string_key (Some ''file_url'')"
  "\<not> is_safe_string_key (Some ''file_hash'')" "\<not> is_safe_string_key (Some ''preview_url'')"
  "\<not> is_safe_string_key (Some ''encryption_algo'')" "\<not> is_safe_string_key (Some ''caption'')"
  "is_sensitive_key ''filename''" "\<not> is_sensitive_key ''attachment_type''" "\<not> is_sensitive_key ''file_id''"
  "\<not> is_sensitive_key ''mime_type''" "\<not> is_sensitive_key ''file_url''" "\<not> is_sensitive_key ''file_hash''"
  "\<not> is_sensitive_key ''preview_url''" "\<not> is_sensitive_key ''encryption_algo''" "\<not> is_sensitive_key ''caption''"
  "\<not> is_sensitive_key ''size_bytes''" "\<not> is_sensitive_key ''duration_seconds''"
  "\<not> is_sensitive_key ''preview_height''" "\<not> is_sensitive_key ''preview_width''" "\<not> is_sensitive_key ''chunk_size''"
  by code_simp+

lemma sanitize_opt_str:
  "\<not> is_sensitive_key k \<Longrightarrow> \<not> is_safe_string_key (Some k) \<Longrightarrow>
    sanitize_value (Some k) (Suc 0) (json_opt_str v) = json_opt_str (map_option (\<lambda>_. redacted_value) v)"
  "\<not> is_sensitive_key k \<Longrightarrow> sanitize_value (Some k) (Suc 0) (json_opt_int n) = json_opt_int n"
  by (simp_all add: json_opt_str_def json_opt_int_def sanitize_shown split: option.split)

lemma redacted_upload:
  "sanitize_payload RedactedPayload (Some (express_staged_file_to_payload f))
    = express_staged_file_to_payload (redacted_file f)"
  by (simp add: sanitize_payload_def express_staged_file_to_payload_def sanitize_shown staged_file_keys
      sanitize_opt_str redacted_file_def sanitize_value.simps [of "Some ''filename''"])

text \<open>
  C20: an uploaded file is read back as it was uploaded when payloads are kept in full, and not at all when
  they are not kept; redacted it is read back as a file whose address, name and hash are the mark of
  redaction.
\<close>

theorem stored_upload:
  assumes "unique_rows stage_key t" and "complete_upload f"
    and "sql_stage_mark_uploaded cfg k f now t = (Inr w, t')"
  shows "sql_stage_get t' k = Some w \<and> staged_file_from_payload (st_express_file_payload w) =
    (case ss_payload_mode cfg of
       FullPayload \<Rightarrow> Some f | RedactedPayload \<Rightarrow> Some (redacted_file f) | NoPayload \<Rightarrow> None)"
proof -
  let ?change = "\<lambda>w. w\<lparr>st_status := StageUploaded, st_express_file_id := Some (sf_file_id f),
      st_express_file_payload := Some (sanitize_payload (ss_payload_mode cfg) (Some (express_staged_file_to_payload f))),
      st_last_error_code := None, st_last_error_payload := None, st_updated_at := Some now\<rparr>"
  have key: "stage_key (?change w) = stage_key w" for w by (simp add: stage_key_def)
  from assms(3) obtain w0 where w0: "row_get stage_key t k = Some w0" "w = ?change w0"
    and t': "t' = snd (update_where (\<lambda>w. stage_key w = k) ?change t)"
    unfolding sql_stage_mark_uploaded_def
    by (subst (asm) mark_row_get [OF assms(1)]) (auto simp: stage_key_def split: option.splits)
  have "row_get stage_key t' k = Some w"
    using row_get_key [OF w0(1)] update_where_get [where key = stage_key and change = ?change, OF key] by (simp add: t' w0)
  then have "sql_stage_get t' k = Some w" by (simp add: sql_stage_get_def row_get_def)
  moreover have "staged_file_from_payload (Some (sanitize_payload (ss_payload_mode cfg)
      (Some (express_staged_file_to_payload f)))) = (case ss_payload_mode cfg of
       FullPayload \<Rightarrow> Some f | RedactedPayload \<Rightarrow> Some (redacted_file f) | NoPayload \<Rightarrow> None)"
  proof (cases "ss_payload_mode cfg")
    case FullPayload
    with assms(2) show ?thesis by (simp add: staged_file_round_trip)
  next
    case RedactedPayload
    from assms(2) have "complete_upload (redacted_file f)"
      by (simp add: complete_upload_def redacted_file_def redacted_value_def)
    with RedactedPayload show ?thesis by (simp add: redacted_upload staged_file_round_trip)
  next
    case NoPayload
    then show ?thesis by (simp add: sanitize_payload_def staged_file_from_payload_def str_field_def truthy_def)
  qed
  ultimately show ?thesis by (simp add: w0)
qed

definition ex_stage_config :: "payload_mode \<Rightarrow> sql_stage_config" where
  "ex_stage_config mode = sql_stage_config mode 30000000"

definition ex_uploaded_row :: "payload_mode \<Rightarrow> attachment_stage_record" where
  "ex_uploaded_row mode = ex_stage\<lparr>st_status := StageUploaded, st_express_file_id := Some ''f'',
     st_express_file_payload := Some (sanitize_payload mode (Some (express_staged_file_to_payload ex_upload))),
     st_updated_at := Some 5\<rparr>"

theorem stored_upload_witness:
  "staged_file_from_payload (st_express_file_payload (ex_uploaded_row RedactedPayload)) = Some (redacted_file ex_upload)
    \<and> sf_file_url (redacted_file ex_upload) = ''[redacted]''"
proof -
  have "sql_stage_mark_uploaded (ex_stage_config RedactedPayload) (stage_key ex_stage) ex_upload 5 [ex_stage]
      = (Inr (ex_uploaded_row RedactedPayload), [ex_uploaded_row RedactedPayload])"
    by (simp add: sql_stage_mark_uploaded_def mark_row_def update_where_def exactly_one_def ex_uploaded_row_def
        ex_stage_config_def sql_stage_config_def ex_stage_def ex_upload_def)
  from stored_upload [OF _ _ this] show ?thesis
    by (simp add: complete_upload_def ex_upload_def ex_stage_config_def sql_stage_config_def redacted_file_def
        redacted_value_def)
qed

section \<open>Claims\<close>

lemma claim_first_read:
  assumes "claim_first key new decide t = (turn, t1)" and "turn = Swap w \<or> turn = Retake w"
    and "\<And>v x. decide v = Swap x \<or> decide v = Retake x \<Longrightarrow> x = v"
  shows "row_get key t (key new) = Some w" and "decide w = turn"
proof -
  from assms(1,2) have "row_get key t (key new) \<noteq> None"
    by (auto simp: claim_first_def insert_or_nothing_def some_row split: if_splits)
  then obtain v where v: "row_get key t (key new) = Some v" by blast
  with assms(1) have turn: "decide v = turn"
    by (auto simp: claim_first_def insert_or_nothing_def some_row row_get_def)
  with assms(2,3) have "w = v" by metis
  with v turn show "row_get key t (key new) = Some w" "decide w = turn" by simp_all
qed

lemma message_first_read:
  assumes "sql_message_claim_first cfg r now stamp t = (turn, t1)" and "turn = Swap w \<or> turn = Retake w"
  shows "row_get message_row_key t (message_key r) = Some w" and "message_row_key w = message_key r"
proof -
  have "x = v" if "decide_message cfg now v = Swap x \<or> decide_message cfg now v = Retake x" for v x
    using that sql_messages.swap_read sql_messages.retake_read by blast
  from claim_first_read(1) [OF assms(1) [unfolded sql_message_claim_first_def] assms(2) this]
  show "row_get message_row_key t (message_key r) = Some w" by simp
  then show "message_row_key w = message_key r" by (auto dest: row_get_key)
qed

text \<open>
  C15: two workers that both read the same stale message row, whatever each of them then wrote or was told,
  do not both get it: the second to update it is refused and changes nothing.
\<close>

theorem stale_message_taken_over_once:
  assumes "unique_rows message_row_key t" and "message_key r' = message_key r"
    and "sql_message_claim_first cfg r now stamp t = (Swap w, t1)"
    and "sql_message_claim_first cfg r' now' stamp' t = (Swap w', t1')"
    and "mq_updated_at w < stamp"
    and "sql_message_claim_second cfg r stamp (Swap w) t = (res, t2)"
  shows "(\<exists>x. res = Inr (Claimed, x) \<and> row_get message_row_key t2 (message_key r) = Some x)
    \<and> sql_message_claim_second cfg r' stamp' (Swap w') t2 = (Inr (ClaimAmbiguous, w'), t2)"
proof -
  note w = message_first_read [OF assms(3), of w] message_first_read [OF assms(4), of w']
  let ?f = "reclaimed_message_row cfg r stamp"
  have key: "message_row_key (?f x) = message_row_key x" for x by simp
  have "w' = w" using w assms(2) by simp
  have row: "row_get message_row_key t (message_row_key w) = Some w" using w by simp
  have fresh: "\<not> same_message_row w (?f w)" using assms(5) by (simp add: same_message_row_def)
  have "fst (update_where (\<lambda>x. message_row_key x = message_row_key w \<and> same_message_row w x) ?f t) = [?f w]"
    using update_where_row [OF assms(1), of "message_row_key w" "same_message_row w" ?f] row
    by (simp add: same_message_row_def)
  with assms(6) have res: "res = Inr (Claimed, ?f w)"
    "t2 = snd (update_where (\<lambda>x. message_row_key x = message_row_key w \<and> same_message_row w x) ?f t)"
    by (auto simp: sql_message_claim_second_def claim_second_def one_or_none_def split_beta)
  have "row_get message_row_key t2 (message_key r) = Some (?f w)"
    unfolding res(2) using row w(2) by (subst update_where_get) (simp_all add: same_message_row_def)
  moreover have "sql_message_claim_second cfg r' stamp' (Swap w) t2 = (Inr (ClaimAmbiguous, w), t2)"
    unfolding sql_message_claim_second_def
    by (rule swapped_once [where f = ?f and f' = ?f and key = message_row_key and same = same_message_row, OF assms(1) row key fresh])
      (use assms(6) in \<open>simp add: sql_message_claim_second_def\<close>)
  ultimately show ?thesis using res(1) \<open>w' = w\<close> by simp
qed

definition ex_sql_config :: sql_message_config where
  "ex_sql_config = sql_message_config True FullPayload 30000000"

definition ex_message_row :: message_row where
  "ex_message_row = message_row_of ex_sql_config ex_message 0"

definition ex_cancelled_row :: message_row where
  "ex_cancelled_row = ex_message_row\<lparr>mm_import_status := MsgFailed, mm_last_error_code := Some cancelled_code\<rparr>"

lemma ex_row_reads:
  "sql_message_claim_first ex_sql_config ex_message 90000000 stamp [ex_message_row] = (Swap ex_message_row, [ex_message_row])"
  "sql_message_claim_first ex_sql_config ex_message 90000000 stamp [ex_cancelled_row] = (Retake ex_cancelled_row, [ex_cancelled_row])"
  by (simp_all add: sql_message_claim_first_def claim_first_def insert_or_nothing_def row_where_def ex_message_row_def
      ex_cancelled_row_def message_row_key_def message_row_of_def message_mapping_record.defs message_row.defs ex_message_def
      decide_message_def message_row_stale_def ex_sql_config_def sql_message_config_def is_cancel_code_def one_second_def)

theorem stale_message_taken_over_once_witness:
  "fst (sql_message_claim_second ex_sql_config ex_message 90000002 (Swap ex_message_row)
     (snd (sql_message_claim_second ex_sql_config ex_message 90000001 (Swap ex_message_row) [ex_message_row])))
   = Inr (ClaimAmbiguous, ex_message_row)"
  using stale_message_taken_over_once [of "[ex_message_row]" ex_message ex_message, OF _ refl ex_row_reads(1) ex_row_reads(1) _
      surjective_pairing, of 90000001 90000002]
  by (simp add: ex_message_row_def)

text \<open>
  C21: two workers that both read a message that failed with a cancellation both get it, even when the first
  one has delivered it in between: the record of the delivery is then erased, and the message is in
  processing again.
\<close>

theorem cancelled_message_taken_twice:
  assumes "unique_rows message_row_key t" and "message_key r' = message_key r"
    and "sql_message_claim_first cfg r now stamp t = (Retake w, t1)"
    and "sql_message_claim_first cfg r' now' stamp' t = (Retake w', t1')"
    and "sql_message_claim_second cfg r stamp (Retake w) t = (res, t2)"
    and "sql_message_mark_imported cfg (message_key r) sync_id body imported updated t2 = (done, t3)"
    and "sql_message_claim_second cfg r' stamp' (Retake w') t3 = (res', t4)"
  shows "(\<exists>x. res = Inr (Claimed, x)) \<and> (\<exists>m. done = Inr m \<and> mm_import_status m = MsgImported)
    \<and> (\<exists>x. res' = Inr (Claimed, x) \<and> row_get message_row_key t4 (message_key r) = Some x
         \<and> mm_import_status x = MsgProcessing \<and> mm_target_sync_id x = None)"
proof -
  note w = message_first_read [OF assms(3), of w] message_first_read [OF assms(4), of w']
  let ?f = "reclaimed_message_row cfg r stamp" and ?g = "reclaimed_message_row cfg r' stamp'"
  have key: "message_row_key (?f x) = message_row_key x" "message_row_key (?g x) = message_row_key x" for x by simp_all
  have row: "row_get message_row_key t (message_row_key w) = Some w" using w by simp
  note first = retaken_always [OF assms(1) row, where h = ?f, OF key(1)]
  from assms(5) first(1) have res: "res = Inr (Claimed, ?f w)"
    and t2: "t2 = snd (update_where (\<lambda>x. message_row_key x = message_row_key w) ?f t)"
    unfolding sql_message_claim_second_def by simp_all
  have unique2: "unique_rows message_row_key t2" unfolding t2 using assms(1)
    by (subst update_where_unique [where key = message_row_key and change = ?f, OF key(1)])
  have row2: "row_get message_row_key t2 (message_key r) = Some (?f w)" using first(2) w(2) by (simp add: t2)
  let ?mark = "\<lambda>w. w\<lparr>mm_import_status := MsgImported, mm_target_sync_id := Some sync_id,
    mm_rendered_body := sanitize_rendered_body cfg (Some body), mm_imported_at := Some imported,
    mm_last_error_code := None, mm_last_error_payload := None, mq_updated_at := updated\<rparr>"
  have mark_key: "message_row_key (?mark w) = message_row_key w" for w by (simp add: message_row_key_def)
  from assms(6) have marked: "done = Inr (message_to_domain (?mark (?f w)))"
    and t3: "t3 = snd (update_where (\<lambda>w. message_row_key w = message_key r) ?mark t2)"
    unfolding sql_message_mark_imported_def mark_row_get [OF unique2, where change = ?mark, OF mark_key] by (simp_all add: row2)
  have unique3: "unique_rows message_row_key t3" unfolding t3 using unique2
    by (subst update_where_unique [where key = message_row_key and change = ?mark, OF mark_key])
  have row3: "row_get message_row_key t3 (message_row_key w') = Some (?mark (?f w))"
    using row_get_key [OF row2] row2 assms(2) w(4)
    by (simp add: t3 update_where_get [where key = message_row_key and change = ?mark, OF mark_key])
  note second = retaken_always [OF unique3 row3, where h = ?g, OF key(2)]
  from assms(7) second(1) have "res' = Inr (Claimed, ?g (?mark (?f w)))"
    and "t4 = snd (update_where (\<lambda>x. message_row_key x = message_row_key w') ?g t3)"
    unfolding sql_message_claim_second_def by simp_all
  moreover have "mm_target_sync_id (?g v) = None" for v by (simp add: reclaimed_message_row_def)
  ultimately show ?thesis using res marked second(2) w(4) assms(2) by simp
qed

theorem cancelled_message_taken_twice_witness:
  "case sql_message_claim_second ex_sql_config ex_message 90000003 (Retake ex_cancelled_row)
      (snd (sql_message_mark_imported ex_sql_config (''m'', ''c'', ''1'') ''sync'' ''body'' 90000002 90000002
        (snd (sql_message_claim_second ex_sql_config ex_message 90000001 (Retake ex_cancelled_row) [ex_cancelled_row])))) of
     (Inr (Claimed, x), _) \<Rightarrow> mm_target_sync_id x = None | _ \<Rightarrow> False"
  using cancelled_message_taken_twice [of "[ex_cancelled_row]" ex_message ex_message, OF _ refl ex_row_reads(2) ex_row_reads(2)
      surjective_pairing surjective_pairing surjective_pairing, of 90000001 "''sync''" "''body''" 90000002 90000002 90000003]
  by (auto simp: ex_message_simps split: prod.split)

section \<open>Jobs\<close>

text \<open>
  C16: A job taken from the queue is not taken by a worker that queries while the row is locked, is not
  handed out again by any requests until its lease ends, and refuses every update of another worker.
\<close>

theorem queued_job_handed_out_once:
  assumes "unique_rows job_key t" and "sql_job_acquire_next locked w l now t = (Some r, t1)"
    and "sql_job_acquire_next (insert (job_key r) locked') w' l' now' t = (found, t2)"
    and "\<forall>(q, v, k, when) \<in> set requests. when \<le> now + l" and "v \<noteq> w"
  shows "job_key r \<notin> job_key ` set_option found
    \<and> sql_job_get (fold (\<lambda>(q, v, k, when) t. snd (sql_job_take q v k when t)) requests t1) (job_key r) = Some r
    \<and> sql_job_owner_update mode u v (job_key r) t1 = (False, t1)"
proof (intro conjI)
  have taken: "r \<in> set (fst (sql_job_take (NextJob, locked) w l now t))" "t1 = snd (sql_job_take (NextJob, locked) w l now t)"
    using assms(2) by simp_all
  show "job_key r \<notin> job_key ` set_option found"
    using sql_job_skip_locked(1) [of "insert (job_key r) locked'" w' l' now' t] assms(3) by (cases found) auto
  show "sql_job_get (fold (\<lambda>(q, v, k, when) t. snd (sql_job_take q v k when t)) requests t1) (job_key r) = Some r"
    using sql_jobs.take_taken [OF assms(1) taken(1)] assms(4) unfolding taken(2) lease_until_def
    by (intro sql_jobs.takes_exclusive [where r = r and d = "now + l", OF sql_jobs.inv_take [OF assms(1)]]) simp_all
  show "sql_job_owner_update mode u v (job_key r) t1 = (False, t1)"
    unfolding taken(2) using assms(1) taken(1) assms(5) by (rule sql_jobs.stale_owner_fenced)
qed

theorem queued_job_handed_out_once_witness:
  "fst (sql_job_acquire_next {''j2''} ''w2'' 30000000 1 [ex_job, ex_job2]) = Some (sql_job_start ''w2'' 30000000 1 ex_job)
    \<and> sql_job_get (snd (sql_job_acquire_next {} ''w'' 30000000 0 [ex_job, ex_job2])) ''j2''
        = Some (sql_job_start ''w'' 30000000 0 ex_job2)"
proof -
  let ?t = "[ex_job, ex_job2]"
  have first: "sql_job_acquire_next {} ''w'' 30000000 0 ?t
      = (Some (sql_job_start ''w'' 30000000 0 ex_job2), [ex_job, sql_job_start ''w'' 30000000 0 ex_job2])"
    and second: "sql_job_acquire_next {''j2''} ''w2'' 30000000 1 ?t
      = (Some (sql_job_start ''w2'' 30000000 1 ex_job), [sql_job_start ''w2'' 30000000 1 ex_job, ex_job2])"
    by (simp_all add: sql_job_acquire_next_def start_row_def one_or_none_def update_where_def job_claimable_def
        ex_job_def ex_job2_def)
  have keys: "job_key ex_job = ''j1''" "job_key ex_job2 = ''j2''" by (simp_all add: ex_job_def ex_job2_def)
  then have key: "job_key (sql_job_start ''w'' 30000000 0 ex_job2) = ''j2''" by simp
  from queued_job_handed_out_once [of ?t "{}" "''w''" 30000000 0 _ _ "{}" "''w2''" 30000000 1 _ _ "[]" "''w2''" FullPayload "Complete 3",
      OF _ first second [folded key]]
  show ?thesis by (simp add: first second keys)
qed

text \<open>
  C17: what finishes or cancels a job answers the same and does the same to the table and to the dictionary
  of the in-memory repository, on every path and in every storage mode, but for the payload of an
  error: it is answered and stored as the mode keeps it.
\<close>

theorem job_outcomes_refine:
  assumes "unique_rows job_key t"
  shows "map_prod id job_rows (sql_job_mark_completed now w k t) = job_mark_completed now w k (job_rows t)
    \<and> map_prod id job_rows (sql_job_mark_failed mode code payload now w k t)
        = with_kept_error mode k (job_mark_failed code payload now w k (job_rows t))
    \<and> map_prod id job_rows (sql_job_request_cancel mode now operator k t)
        = with_kept_error mode k (job_request_cancel now operator k (job_rows t))"
  using sql_job_mark_completed_refines [OF assms, of now w k] sql_job_mark_failed_refines [OF assms, of mode code payload now w k]
    sql_job_request_cancel_refines [OF assms, of mode now operator k] by (simp add: map_prod_def split_beta)

theorem job_outcomes_refine_witness:
  "job_rows (snd (sql_job_request_cancel RedactedPayload 9 ''op'' ''j1'' [ex_job, ex_job2]))
    = snd (with_kept_error RedactedPayload ''j1''
        (job_request_cancel 9 ''op'' ''j1'' [(''j1'', ex_job), (''j2'', ex_job2)]))"
proof -
  have "unique_rows job_key [ex_job, ex_job2]" by (simp add: ex_job_def ex_job2_def)
  moreover have "job_rows [ex_job, ex_job2] = [(''j1'', ex_job), (''j2'', ex_job2)]"
    by (simp add: rows_dict_def ex_job_def ex_job2_def)
  ultimately show ?thesis
    using job_outcomes_refine [of "[ex_job, ex_job2]" 9 "''w''" "''j1''" RedactedPayload "''X''" JNull "''op''"]
    by (metis snd_map_prod)
qed

section \<open>Identities\<close>

text \<open>
  C22: saving an identity that brings together a row found by its user id and another one found by its user
  name, on a host, always violates the constraint. The in-memory repository, if it has the same two
  records, merges them: both keys then lead to the one saved record, neither of the two is left under
  any key, and its indexes still agree.
\<close>

theorem identity_merge_refused:
  assumes host: "normalized (\<lambda>s. py_lower (py_strip s)) (im_express_host r) = Some host"
    and user: "normalized py_strip (im_telegram_user_id r) = Some user"
    and name: "normalized normalize_username (im_telegram_username r) = Some name" "name \<noteq> []"
    and "query_one (\<lambda>x. identity_user_key x = Some (Some host, user)) t = Inr (Some (i, p))"
    and "query_one (\<lambda>x. identity_name_key x = Some (Some host, name)) t = Inr (Some (j, q))" and "i \<noteq> j"
    and memory: "identity_inv s" "dict_get (fst s) (Some host, user) = Some p"
      "dict_get (snd s) (Some host, name) = Some q" "p \<noteq> q" and "host \<noteq> []"
  shows "sql_identity_save (r, now) t = Inl integrity_error
    \<and> (\<exists>x s'. identity_save (r, now) s = Inr (x, s') \<and> identity_inv s'
        \<and> dict_get (fst s') (Some host, user) = Some x \<and> dict_get (snd s') (Some host, name) = Some x
        \<and> (\<forall>k. dict_get (fst s') k \<notin> {Some p, Some q}) \<and> (\<forall>k. dict_get (snd s') k \<notin> {Some p, Some q}))"
proof -
  note p = query_one_found [OF assms(5)] and q = query_one_found [OF assms(6)]
  have keys: "im_express_host p = Some host" "im_express_host q = Some host" "im_telegram_username q = Some name"
    using p(2) q(2) by (auto simp: identity_user_key_def identity_name_key_def host_key_Some)
  then have "identity_clash q (sql_identity_merge r now (Some host) (Some user) (Some name) p q)"
    using name(2) by (simp add: identity_clash_def same_keys_def sql_identity_merge_def identity_name_key_def py_or_truthy)
  note clash = merge_clashes [where clash = identity_clash and p = p
      and merge = "sql_identity_merge r now (Some host) (Some user) (Some name)", OF q(1) assms(7) this]
  have "sql_identity_save (r, now) t = Inl integrity_error"
    using assms(5,6) clash by (simp add: sql_identity_save_def Let_def host user name(1) found_by_def host_key_def)
  moreover obtain x s' where save: "identity_save (r, now) s = Inr (x, s')"
    unfolding identity_save_def Let_def by blast
  have valid: "identity_valid (r, now)" using host assms(12) by (simp add: identity_valid_def)
  have "user \<noteq> []"
    using paired_okA(1,2) [OF memory(1,2)] by (auto simp: identity_good_def identity_user_key_def host_key_Some)
  note stored = identity_saved_keys [OF save host assms(12) user this name]
  ultimately show ?thesis
    using identity_save_merges [OF memory(1) valid save memory(2-4) stored] save by (intro conjI exI [of _ x] exI [of _ s']) simp_all
qed

definition ex_hosted :: "string option \<Rightarrow> string option \<Rightarrow> identity_mapping_record" where
  "ex_hosted user name = ex_identity\<lparr>im_express_host := Some ''h'', im_telegram_user_id := user,
     im_telegram_username := name\<rparr>"

definition ex_two_hosted :: identity_repo where
  "ex_two_hosted = ([((Some ''h'', ''7''), ex_hosted (Some ''7'') None)], [((Some ''h'', ''bob''), ex_hosted None (Some ''bob''))])"

theorem identity_merge_refused_witness:
  "sql_identity_save (ex_hosted (Some ''7'') (Some ''bob''), 5)
     ([(0, ex_hosted (Some ''7'') None), (1, ex_hosted None (Some ''bob''))], 2) = Inl integrity_error
    \<and> (\<exists>x s'. identity_save (ex_hosted (Some ''7'') (Some ''bob''), 5) ex_two_hosted = Inr (x, s')
        \<and> dict_get (fst s') (Some ''h'', ''7'') = Some x \<and> dict_get (snd s') (Some ''h'', ''bob'') = Some x)"
proof -
  let ?r = "ex_hosted (Some ''7'') (Some ''bob'')"
  let ?t = "([(0, ex_hosted (Some ''7'') None), (1, ex_hosted None (Some ''bob''))], 2 :: nat)"
  have given: "normalized (\<lambda>s. py_lower (py_strip s)) (im_express_host ?r) = Some ''h''"
    "normalized py_strip (im_telegram_user_id ?r) = Some ''7''"
    "normalized normalize_username (im_telegram_username ?r) = Some ''bob''"
    by code_simp+
  have found: "query_one (\<lambda>x. identity_user_key x = Some (Some ''h'', ''7'')) ?t = Inr (Some (0, ex_hosted (Some ''7'') None))"
    "query_one (\<lambda>x. identity_name_key x = Some (Some ''h'', ''bob'')) ?t = Inr (Some (1, ex_hosted None (Some ''bob'')))"
    by (simp_all add: query_one_def ex_hosted_def identity_user_key_def identity_name_key_def host_key_def)
  have memory: "identity_inv ex_two_hosted" "dict_get (fst ex_two_hosted) (Some ''h'', ''7'') = Some (ex_hosted (Some ''7'') None)"
    "dict_get (snd ex_two_hosted) (Some ''h'', ''bob'') = Some (ex_hosted None (Some ''bob''))"
    by (simp_all add: ex_two_hosted_def paired_ok_def identity_good_def ex_hosted_def identity_user_key_def
        identity_name_key_def host_key_def)
  have other: "ex_hosted (Some ''7'') None \<noteq> ex_hosted None (Some ''bob'')" by (simp add: ex_hosted_def ex_identity_def)
  have ids: "(0 :: nat) \<noteq> 1" "''h'' \<noteq> []" "''bob'' \<noteq> []" by simp_all
  from identity_merge_refused [where now = 5, OF given ids(3) found ids(1) memory other ids(2)] show ?thesis by blast
qed

section \<open>Commands\<close>

text \<open>
  C18: however polls, failing handlers, restarts and others that work on the same inbox follow each other,
  every command below the committed position of the consumer has been answered and is in its inbox.
\<close>

theorem committed_commands_processed:
  assumes "consumer_run cfg hcfg messages s" and "i < cn_committed s" and "parse_message cfg (messages ! i) = Inr e"
  shows "inbox_is_processed (hc_consumer_name hcfg, en_message_id e) (hs_inbox (cn_handler s))"
  using consumer_run_consumed [OF assms(1)] assms(2,3) by (simp add: consumed_def)

definition ex_consumer_config :: consumer_config where
  "ex_consumer_config = \<lparr>kc_topic = ''migration.commands'', kc_partition = 0,
     kc_consumer_name = ''migration-command-consumer'', kc_fromisoformat = (\<lambda>_. Inr (0, Some 0))\<rparr>"

definition ex_command_log :: message_log where
  "ex_command_log = [Inr (integration_envelope_to_json ex_envelope)]"

definition ex_consumed :: "handler_state consumer_state" where
  "ex_consumed = consumer_poll ex_consumer_config
     (\<lambda>e h. as_consumed (handle ex_handler_config ex_worker_config ''self'' ex_schedule e h)) 15000003 ex_command_log
     \<lparr>cn_position = 0, cn_committed = 0, cn_watermarks = None, cn_handler = ex_handler_state\<rparr>"

theorem committed_commands_processed_witness:
  "inbox_is_processed (''migration-command-consumer'', ''msg1'') (hs_inbox (cn_handler ex_consumed))"
proof -
  have "consumer_run ex_consumer_config ex_handler_config ex_command_log ex_consumed"
    unfolding ex_consumed_def by (intro consumer_run.answer consumer_run.start)
  moreover have "cn_committed ex_consumed = 1" by code_simp
  moreover have "parse_message ex_consumer_config (ex_command_log ! 0) = Inr (sorted_envelope ex_envelope)"
    by code_simp
  ultimately show ?thesis
    using committed_commands_processed [of ex_consumer_config ex_handler_config ex_command_log ex_consumed 0]
    by (simp add: ex_handler_config_def sorted_envelope_def ex_envelope_def)
qed

lemma redacted_member:
  "dict_get (members (sanitize_payload RedactedPayload (Some (JObj m)))) k
    = map_option (sanitize_value (Some k) (Suc 0)) (dict_get m k)"
proof -
  have "dict_get (map (\<lambda>(k, v). (k, sanitize_value (Some k) (Suc 0) v)) m) k
      = map_option (sanitize_value (Some k) (Suc 0)) (dict_get m k)" by (induction m) auto
  then show ?thesis by (simp add: sanitize_payload_def sanitize_shown members_def)
qed

lemma job_event_keys:
  "is_safe_string_key (Some ''job_key'')" "\<not> is_sensitive_key ''job_key''"
  "\<not> is_safe_string_key (Some ''shadow_topic'')" "\<not> is_sensitive_key ''shadow_topic''"
  by code_simp+

text \<open>
  C19: the event that asks for a job, stored in the outbox and sent to the broker, is read by the consumer as
  a command for that job with the same identifier, also when its payload was redacted - the topic in its
  headers then is the mark of redaction. When payloads are not kept it is a command without a job.
\<close>

theorem stored_command_reaches_consumer:
  assumes "kc_fromisoformat cfg (isoformat now) = Inr (now, Some 0)" and "uuid \<noteq> []" and "aj_job_key j \<noteq> []"
    and "kept = outbox_insert_values mode (job_requested_event j operator options cts_host bot_id uuid now)"
  shows "(\<exists>e. parse_message cfg (Inr (integration_envelope_to_json (integration_envelope_from_outbox_event kept))) = Inr e
      \<and> en_message_id e = uuid \<and> en_message_type e = ''migration.job.requested''
      \<and> payload_job_key e = (if mode = NoPayload then None else Some (aj_job_key j)))
    \<and> pe_broker_topic (logging_publish pre sent kept) =
      (case mode of FullPayload \<Rightarrow> ''migration.commands'' | RedactedPayload \<Rightarrow> ''[redacted]''
       | NoPayload \<Rightarrow> logging_topic_prefix pre @ ''.migration.job.requested'')"
proof -
  let ?e = "integration_envelope_from_outbox_event kept"
  have fields: "ob_event_id kept = uuid" "ob_event_type kept = ''migration.job.requested''"
    "ob_aggregate_type kept = ''migration_job''" "ob_aggregate_id kept = aj_job_key j" "ob_created_at kept = now"
    by (simp_all add: assms(4) outbox_insert_values_def job_requested_event_def)
  have "complete_envelope ?e"
    using assms(2,3) by (simp add: complete_envelope_def integration_envelope_from_outbox_event_def fields)
  then have parsed: "parse_message cfg (Inr (integration_envelope_to_json ?e)) = Inr (sorted_envelope ?e)"
    using assms(1) by (simp add: parse_message_def envelope_round_trip integration_envelope_from_outbox_event_def fields)
  have key: "dict_get (members (ob_payload_json kept)) ''job_key''
      = (if mode = NoPayload then None else Some (JStr (aj_job_key j)))"
    by (cases mode) (simp_all add: assms(4) outbox_insert_values_def job_requested_event_def redacted_member
        sanitize_shown job_event_keys, simp_all add: sanitize_payload_def members_def)
  have topic: "dict_get (members (ob_headers_json kept)) ''shadow_topic'' = (case mode of
      FullPayload \<Rightarrow> Some (JStr ''migration.commands'') | RedactedPayload \<Rightarrow> Some (JStr redacted_value) | NoPayload \<Rightarrow> None)"
    by (cases mode) (simp_all add: assms(4) outbox_insert_values_def job_requested_event_def redacted_member
        sanitize_shown job_event_keys, simp_all add: sanitize_payload_def members_def)
  have "payload_job_key ?e = (if mode = NoPayload then None else Some (aj_job_key j))"
    using assms(3) key by (simp add: payload_job_key_def integration_envelope_from_outbox_event_def)
  then have "payload_job_key (sorted_envelope ?e) = (if mode = NoPayload then None else Some (aj_job_key j))" by simp
  moreover have "en_message_id (sorted_envelope ?e) = uuid" "en_message_type (sorted_envelope ?e) = ''migration.job.requested''"
    by (simp_all add: sorted_envelope_def integration_envelope_from_outbox_event_def fields)
  moreover have "py_strip ''migration.commands'' \<noteq> []" "py_strip ''[redacted]'' \<noteq> []" by code_simp+
  with topic have "pe_broker_topic (logging_publish pre sent kept) =
      (case mode of FullPayload \<Rightarrow> ''migration.commands'' | RedactedPayload \<Rightarrow> ''[redacted]''
       | NoPayload \<Rightarrow> logging_topic_prefix pre @ ''.migration.job.requested'')"
    by (cases mode) (simp_all add: logging_publish_def fields redacted_value_def)
  ultimately show ?thesis using parsed by blast
qed

definition ex_bot_job :: bot_active_job where
  "ex_bot_job = \<lparr>aj_job_key = ''j1'', aj_operation = ''migrate_chat'', aj_migration_id = ''m'',
     aj_source_chat_ids = [''c''], aj_started_at = 5\<rparr>"

theorem stored_command_reaches_consumer_witness:
  "pe_broker_topic (logging_publish ''shadow'' 7 (outbox_insert_values RedactedPayload
     (job_requested_event ex_bot_job ex_operator default_run_options None None ''e9'' 0))) = ''[redacted]''"
  using stored_command_reaches_consumer [of ex_consumer_config 0 "''e9''" ex_bot_job _ RedactedPayload, OF _ _ _ refl]
  by (simp add: ex_consumer_config_def ex_bot_job_def)

end
