(* ===== verification/Spec2Isabelle.thy ===== *)
theory Spec2Isabelle
  imports Copy_Properties Chat_Properties Dialogue_Properties Sql_Properties
begin

text \<open>
  A verification library for the Telegram to eXpress migration bot: the durable state of a
  migration and the components that change it.

  The program. A bot (\<open>extg_bot_ui\<close>) turns chat commands into migration jobs. A job record and an
  outbox event are stored together (\<open>MigrationJobRepository\<close>, \<open>OutboxRepository\<close>); a publisher
  leases the events and sends them to a broker; a worker takes the jobs, either polling
  (\<open>MigrationJobWorker\<close>) or on a message of the broker (\<open>MigrationCommandHandler\<close>), keeps its
  lease alive with heartbeats and writes the end of the job. A job copies messages and their
  attachments: every message, attachment and upload is first claimed in a mapping repository, so
  that an interrupted run can be repeated without delivering twice. At the end an operator freezes
  the migration, reconciles the counts and finalizes the cutover. Telegram accounts are connected
  by \<open>extg_telethon_service\<close>, which stores their sessions encrypted.

  Sources are named relative to \<open>src/src\<close>. Where the code has an in-memory repository and one over
  SQLAlchemy for the same port of \<open>extg_shared/contracts/ports.py\<close>, the use cases run over the
  in-memory one (\<open>extg_migration_runtime/infrastructure/persistence/in_memory.py\<close>); the one over
  SQLAlchemy (\<open>repositories.py\<close> and \<open>models.py\<close> beside it) is modelled on its tables, statement by
  statement, in the theories named \<open>Sql_\<close>, which provide the same contracts.

  Theories, in the order of the components:
    \<^item> Prelude: Python's dictionaries (association lists in insertion order), optional strings and
      their truthiness, \<open>strip\<close>, \<open>lower\<close> and \<open>repr\<close>, time in microseconds, JSON values, counting.
    \<^item> Models: the enumerations, dataclasses and errors of \<open>extg_shared/contracts/models.py\<close>,
      \<open>errors.py\<close> and \<open>manifest.py\<close>, with the validators that can refuse a value.
    \<^item> Record_Stores: the plain repositories (chat mappings, chat configurations, export snapshots,
      inbox, watermarks, checkpoints, migration states, inventory, audit) and the contracts
      \<open>record_store\<close>, \<open>deletable_store\<close> and \<open>once_store\<close> they provide.
    \<^item> Leases, Outbox_Repo, Job_Repo: the contracts of leased records (\<open>lease_store\<close>: what is leased
      is held until its deadline, which each repository computes in its own way; \<open>fenced_lease_store\<close>:
      only its owner updates it), interpreted on the outbox and on the job queue, and the jobs'
      reachable repositories.
    \<^item> Claims, Message_Repo, Attachment_Repo, Stage_Repo: the contract of claims
      (\<open>claim_protocol\<close>: a granted claim is held, what is delivered is never claimed again),
      interpreted on the three mapping repositories, with their status updates, replays and counts.
    \<^item> Identity_Repo: two-index repositories (\<open>paired_store\<close>: the indexes agree), interpreted on the
      CTS bindings and on the identity mappings; the bot bindings.
    \<^item> Rendering, Retry: decimal numerals and ISO timestamps; \<open>extg_shared/utils/retry.py\<close>.
    \<^item> Lifecycle, Inventory, Reconcile, Cutover: the use cases \<open>manage_migration_state.py\<close>,
      \<open>migration_state_control.py\<close>, \<open>inventory.py\<close>, \<open>reconcile_migration.py\<close> and
      \<open>finalize_cutover.py\<close> of \<open>extg_migration_runtime/application/use_cases\<close>; the cutover is
      specified by \<open>cutover_ready\<close>, which does not mention the checklist.
    \<^item> Job_Worker: \<open>migration_job_worker.py\<close> (acquisition, heartbeat loop, end of a job) and
      \<open>migration_command_handler.py\<close>.
    \<^item> Outbox_Publisher: \<open>integration_outbox_publisher.py\<close> and the snapshot of
      \<open>worker_runtime_metrics.py\<close>.
    \<^item> Telegram_Login: the session cipher, the challenge store, the session repository and
      \<open>telegram_session_service.py\<close> of \<open>extg_telethon_service\<close>.
    \<^item> Command_Parser: \<open>extg_bot_ui/presentation/bot/command_parser.py\<close>, with \<open>shlex.split\<close>.
    \<^item> Job_Admission: from \<open>extg_bot_ui/application/bot_control.py\<close>, how a command becomes jobs:
      conflicts with active jobs, backpressure, progress hints, anchors, the queued job with its
      event, the fan-out to one job per chat, and cancellation.
    \<^item> Effects: actions that change state and raise (\<open>bind\<close>, \<open>catch_error\<close>, \<open>ensure\<close>), their postcondition
      rules, and loops that may not end (\<open>repeat_rounds\<close>, a \<open>partial_function\<close>).
    \<^item> Messages: the dataclasses of messages, \<open>normalizer.py\<close>, \<open>renderer.py\<close> and
      \<open>message_checksum.py\<close> of \<open>extg_migration_runtime/application\<close>.
    \<^item> Express_Routing, Identity_Directory: \<open>extg_shared/utils/express_routing.py\<close>,
      \<open>cts_resolution.py\<close> and \<open>identity.py\<close>: which messenger account a Telegram user has.
    \<^item> Delivery, Message_Delivery: \<open>message_delivery.py\<close>, from the records of one attachment to the
      delivery of a message with all its attachments. Delivery_Facts and Delivery_Outcomes follow the
      attachment records through every step (\<open>tracks\<close>) and prove what is reported and what is reused.
    \<^item> Import_Steps, Backfill, Replay, Delta_Sync: what the importing use cases share, and
      \<open>backfill_chat.py\<close>, \<open>replay_failed.py\<close> and \<open>delta_sync.py\<close> of \<open>use_cases\<close>. Import_Facts
      follows the message records and checkpoints through them (\<open>follows\<close>); Backfill_Facts
      specifies the gateway (\<open>serves\<close>) and the run (\<open>up_to_date\<close>, \<open>due\<close>).
    \<^item> Import_Guards: what every importing use case keeps (the locale \<open>import_guard\<close>), and sequences of
      runs. Replay_Facts and Delta_Facts account for the messages of a replay and of a delta
      synchronisation, by the rules on returned values in Effects.
    \<^item> Provisioning, Chat_Members, Target_Chats: \<open>target_chat_provisioning.py\<close>: resolving the
      participants of a Telegram chat, letting them into the target chat server by server, and binding
      or creating that chat. Chat_Facts and Target_Facts state what the messenger has to keep (the
      locales \<open>guarded_world\<close>, \<open>chat_gateway\<close> and \<open>guarded_directory\<close>) and what then holds.
    \<^item> Fake_Express, Fake_Telegram, Fake_World: the gateways of a dry run,
      \<open>infrastructure/express/fake_gateway.py\<close> and \<open>infrastructure/telegram/fake_gateway.py\<close>; they provide
      the contracts \<open>keyed_messenger\<close> (a message with a key is posted once), \<open>chat_gateway\<close> and
      \<open>guarded_directory\<close>.
    \<^item> Bot_Service, Chat_Configs, Bot_Commands, Bot_Jobs, Bot_Identities: the rest of \<open>bot_control.py\<close>. The
      state of the bot (\<open>bot_state\<close>) holds the repositories of the import, the jobs, the outbox, the
      configurations, snapshots and logins; a command is one action on it; the Telegram session and the
      CTS host that the code keeps in context variables are passed as \<open>bot_context\<close>. Bot_Service:
      authorization, contexts, listings, audit; Chat_Configs: configurations and the manifest made of
      them; Bot_Commands: archive imports, starting jobs, lifecycle commands, statistics; Bot_Jobs: the
      job as the worker runs it; Bot_Identities: participant matrices and their workbooks.
      Identity_Workbook: \<open>identity_matrix_workbook.py\<close>.
    \<^item> Bot_Facts: what a sequence of commands (\<open>run_commands\<close>) leaves unchanged. Bot_Runs: a job over its
      chats, from what one backfill guarantees (the locale \<open>backfill_guard\<close>).
    \<^item> Dialogue, Dialogue_Text, Session_Dialogue, Wizard, Wizard_Steps, Handlers: what a user sees of it,
      \<open>extg_bot_ui/presentation/bot\<close>: messages, flows with the values they collect, replies; the texts;
      connecting a Telegram account (\<open>telegram_session_wizard.py\<close>); the steps of the migration wizard
      (\<open>wizard.py\<close>), one operation per state; the commands (\<open>handlers.py\<close>). A \<open>dialogue\<close> is the state of
      the bot, the flow the user is in and the replies; \<open>dialogue_step\<close> is one message.
      Dialogue_Facts: which values a flow has in each state (the relation \<open>dialogue_reachable\<close>), and that
      a refused operator changes nothing.
    \<^item> Fsm_Store: where flows are kept, \<open>in_memory_fsm_state.py\<close> and \<open>fsm_state_repository.py\<close>, with the
      contract of both (\<open>expiring_store\<close>) and their equivalence (\<open>two_stores\<close>).
    \<^item> Sql_Tables: what the three storage modes keep of a payload; rows, the statements
      \<open>SELECT\<close>, \<open>UPDATE\<close>, \<open>DELETE\<close>, insert-or-nothing and upsert on them, and how a table with a unique
      key is a dictionary (\<open>rows_dict\<close>). Sql_Stores: the plain repositories on tables, the sessions of
      operators of \<open>extg_telethon_service\<close> and the audit log, with the contracts of Record_Stores.
    \<^item> Sql_Claims: claims of two statements, a read and a guarded update (the locale \<open>table_claims\<close>: of
      those that read the same row one gets it), interpreted in Sql_Messages and Sql_Attachments on the
      messages, attachments and uploads. Sql_Queues: the outbox and the jobs, whose rows are locked and
      skipped by others, with the contracts of Leases and the refinement of Job_Repo.
    \<^item> Sql_Identities: tables with two unique keys and a unit of work that sends updates
      before deletions, with the contract \<open>paired_store\<close> as far as it holds.
    \<^item> Kafka_Bus: \<open>extg_shared/contracts/events.py\<close> (envelopes and their JSON) and the adapters of
      \<open>infrastructure/events\<close>: topics, headers and the loop of the command consumer.
    \<^item> Examples, Copy_Examples: concrete values on which the properties are applied.
    \<^item> Copy_Properties: the properties about delivering and importing messages; Chat_Properties: those
      about target chats and the gateways of a dry run; Bot_Properties: those about the commands and the
      jobs of the bot; Dialogue_Properties: those about the dialogues and the stores of their flows;
      Sql_Properties: those about the tables, the redaction of payloads and the consumer of commands.

  Conventions. An operation takes the clock readings the code makes, in the code's order, and the
  state, and returns its result and the new state; a raised exception is \<open>Inl\<close>. A repository
  operation runs under its lock in the code, so it is one step here; operations of different tasks
  interleave between steps, which the reachability relations \<open>job_step\<close>, \<open>outbox_step\<close>,
  \<open>message_step\<close>, \<open>stage_step\<close> and \<open>lifecycle_step\<close> and the event lists of Job_Worker express. No
  order is assumed between the clock readings of different steps unless a property says so.
  Services outside the repository are arguments: the broker of the publisher, the dialogs a
  gateway lists, the outcome of a job's execution, the Telegram login calls, AES-GCM with base64.
  \<open>cipher_lawful\<close> states what the cryptography library promises; it is used by \<open>cipher_round_trip\<close> and
  \<open>login_resolves\<close>.
  A string's characters are code points below 256. Almost everything is total: loops are
  recursions on the data (the records of a batch, the words of a command line, the remaining
  attempts of a retry). The loop of the backfill ends only if the gateway runs out of messages;
  \<open>backfill\<close> is None when it does not, and \<open>backfill_settles_history\<close> proves that it ends.
  Prefetching tasks run beside the main task in the code; their steps are taken together at the
  point where their result is awaited.

  The properties. The root theory has those about jobs, their execution and the command handler, the
  claims, the outbox, the lifecycle with cutover and reconciliation, identities, Telegram logins,
  commands, retries and the admission of jobs; Copy_Properties those about copying messages,
  Chat_Properties those about target chats, Bot_Properties those about commands, configurations and the
  manifest, session and end of a job, Dialogue_Properties those about the dialogues, Sql_Properties
  those about the tables and the broker.
  Theorems without a number are further facts of the same kind.

  In the bot's listings the notes for the user are constructors (\<open>ListingRefused\<close>,
  \<open>ListingBestEffort\<close>), and the texts of validation errors are abbreviated. The Russian sentences of
  the replies are given in English (\<open>Says\<close>), the lines that report values as they are (\<open>Line\<close>). The
  library \<open>pybotx_fsm\<close> keeps the flow of a user, lets it expire and chooses the handler of a message; a
  flow may therefore vanish between any two messages.

  A statement on a table is one step; what a query sees while another transaction holds a row is the
  set of locked keys it is given. An update that has to hit a row and does not raises as the ORM does.

  Not modelled: the types, lengths and check constraints of the columns, and how the ORM brings its
  objects up to date after an update that another transaction overtook; the construction of the bot and
  its web routes; the parsing of export archives; the gateways to Telegram and eXpress that call a
  network service, the calls of the Kafka client with its assignment of partitions, an error of the
  database while the consumer stores its watermark, the HTTP service and its client; configuration, containers and entry points; the
  supervising loops and task cancellation around one iteration of the worker and the publisher; the
  class \<open>InMemoryBotJobRegistry\<close>, which nothing uses.
\<close>

section \<open>Jobs: leases, fencing, cancellation\<close>

text \<open>
  C1: a job handed to a worker on a lease is handed to nobody else while the lease runs. Whatever
  claims are made before the lease's duration less one second has passed (the code drops the
  microseconds of the clock, so a lease can be up to a second short), by key or for the next job,
  by any worker, the job keeps its owner and its record.
\<close>

theorem job_lease_exclusive:
  assumes "jobs_reachable repo" and "j \<in> set (fst (job_take q w l t repo))"
    and "\<forall>(q', w', l', t') \<in> set ops. t' \<le> t + l - one_second"
  shows "job_get (fold (\<lambda>(q, w, l, t) s. snd (job_take q w l t s)) ops (snd (job_take q w l t repo)))
    (job_key j) = Some j \<and> job_worker_id j = Some w"
proof -
  have ok: "jobs_ok repo" using assms(1) by (rule jobs_reachable_ok)
  note taken = jobs.take_taken [OF ok assms(2)]
  have "\<forall>(q', w', l', t') \<in> set ops. t' \<le> lease_deadline t l"
    using assms(3) lease_deadline_bounds(2) [of t l] by fastforce
  then show ?thesis
    using jobs.takes_exclusive [OF jobs.inv_take [OF ok]] taken by blast
qed

theorem job_lease_exclusive_witness:
  "job_get (fold (\<lambda>(q, w, l, t) s. snd (job_take q w l t s)) [(NextJob, ''x'', 30000000, 20000000)] ex_running)
    ''j1'' = Some ex_running_job \<and> job_worker_id ex_running_job = Some ''w''"
  using job_lease_exclusive [OF jobs_reachable_ex_jobs, of ex_running_job "ByKey ''j1''" "''w''" 30000000 0
      "[(NextJob, ''x'', 30000000, 20000000)]"]
  by (simp only: ex_take ex_running_job_simps) (simp add: one_second_def)

text \<open>
  C2: a message is never worked on twice at once: after a granted claim stamped at \<open>c\<close>, every
  sequence of claims of any messages judged before the processing window has passed leaves that
  message's record as the claim left it, and a further claim of it is refused as ambiguous.
\<close>

theorem message_claim_exclusive:
  assumes "messages_reachable w repo" and "message_submission r"
    and "fst (fst (message_claim r t c repo)) = Claimed"
    and "\<forall>(a, r', t', c') \<in> set ops. message_submission r' \<and> t' < c + mr_stale_after repo"
    and "message_key r' = message_key r" and "t' < c + mr_stale_after repo"
  shows "message_get (run_claims (\<lambda>_ :: unit. message_claim) ops (snd (message_claim r t c repo)))
        (message_key r) = Some (snd (fst (message_claim r t c repo)))
    \<and> fst (fst (message_claim r' t' c' (snd (message_claim r t c repo)))) = ClaimAmbiguous"
proof
  have inv: "message_inv repo" using assms(1) by (rule messages_reachable_inv)
  note granted = messages.claim_granted [OF inv assms(2,3)]
  show "message_get (run_claims (\<lambda>_ :: unit. message_claim) ops (snd (message_claim r t c repo)))
      (message_key r) = Some (snd (fst (message_claim r t c repo)))"
    using granted assms(4)
    by (intro messages.held_claims_keep [OF messages.inv_claim [OF inv assms(2)]])
      (auto simp: message_fresh_def)
  show "fst (fst (message_claim r' t' c' (snd (message_claim r t c repo)))) = ClaimAmbiguous"
    using messages.claim_exclusive(1) [OF inv assms(2,3,5)] assms(6) by (simp add: message_fresh_def)
qed

theorem message_claim_exclusive_witness:
  "message_get (run_claims (\<lambda>_ :: unit. message_claim) [((), ex_message, 7, 7)] ex_claimed)
        (''m'', ''c'', ''1'') = Some ex_message
    \<and> fst (fst (message_claim ex_message 29999999 8 ex_claimed)) = ClaimAmbiguous"
  using message_claim_exclusive [OF messages_reachable_init ex_message_simps(3), of 0 0 "[((), ex_message, 7, 7)]"
      ex_message 29999999 8]
  by (simp only: ex_messages_claim ex_message_simps)
    (simp add: ex_messages_def message_repo_init_def one_second_def ex_message_simps)

text \<open>
  An imported message is never imported again: no sequence of claims and replays of failed
  messages, however late, changes its record, and a claim of it is answered as imported.
\<close>

theorem imported_never_claimed:
  assumes "messages_reachable w repo" and "message_get repo k = Some e"
    and "mm_import_status e = MsgImported" and "message_key r = k"
  shows "fst (message_claim r t c repo) = (ClaimImported, e)
    \<and> message_get (snd (message_claim r' t' c' repo)) k = Some e
    \<and> message_get (snd (message_requeue_failed m chat n stamps repo)) k = Some e"
proof (intro conjI)
  have inv: "message_inv repo" using assms(1) by (rule messages_reachable_inv)
  have claim: "fst (fst (message_claim r t c repo)) = ClaimImported"
    if "message_key r = k" for r t c using messages.claim_delivered [OF inv] assms(2,3) that by blast
  show "fst (message_claim r t c repo) = (ClaimImported, e)"
    using claim [OF assms(4), of t c] message_claim_refused [of r t c repo] assms(2,4)
    by (cases "fst (message_claim r t c repo)") simp
  show "message_get (snd (message_claim r' t' c' repo)) k = Some e"
  proof (cases "message_key r' = k")
    case True
    with claim [OF True] message_claim_refused [of r' t' c' repo] assms(2) show ?thesis by simp
  next
    case False
    with assms(2) show ?thesis by (simp add: message_claim_other)
  qed
  have "(k, e') \<notin> set (message_failed_entries m chat n repo)" for e'
    using message_failed_entries_mem [OF inv, of k e'] assms(2,3) by auto
  then have "map_of (message_failed_entries m chat n repo) k = None"
    by (auto simp: map_of_eq_None_iff)
  then show "message_get (snd (message_requeue_failed m chat n stamps repo)) k = Some e"
    by (simp add: message_requeue_get [OF inv] assms(2))
qed

theorem imported_never_claimed_witness:
  "fst (message_claim ex_message 900000000 900000001 ex_delivered) = (ClaimImported, ex_imported)"
  using imported_never_claimed [OF messages_reachable_delivered ex_delivered_get ex_message_simps(5,1)]
  by blast

text \<open>
  C3: a cutover that reports \<open>completed\<close> was acknowledged, found the migration paused with its freeze
  started, and stored it as completed with nothing left to do: every chat the manifest, the
  inventory or a record knows has an inventory snapshot, whose message count is the number of its
  imported messages; none of its messages is failed, ambiguous or in progress, and none of its
  attachments is other than imported or skipped.
\<close>

theorem completed_cutover_is_complete:
  assumes "keyed_dict inventory_key (rs_inventory repos)"
    and "finalize_cutover manifest ack now reconciled repos s = (res, repo', evs')"
    and "fr_status res = ''completed''" and "c \<in> known_chats manifest None repos"
  shows "ack \<and> (\<exists>st st'. state_get (fst s) (mf_migration_id manifest) = Some st \<and> ms_status st = Paused
        \<and> ms_freeze_started_at st \<noteq> None \<and> state_get repo' (mf_migration_id manifest) = Some st'
        \<and> ms_status st' = Completed \<and> ms_finalized_at st' = Some now)
    \<and> (\<exists>snap. chat_snapshot manifest repos c = Some snap \<and> inv_message_count snap =
        int (length (messages_with (rs_messages repos) (mf_migration_id manifest) c MsgImported)))
    \<and> (\<forall>st. st \<noteq> MsgImported \<longrightarrow> messages_with (rs_messages repos) (mf_migration_id manifest) c st = [])
    \<and> (\<forall>st. st \<noteq> AttImported \<and> st \<noteq> AttSkipped \<longrightarrow>
        attachments_with (rs_attachments repos) (mf_migration_id manifest) c st = [])"
proof -
  from assms(1,2) have ready: "cutover_ready manifest ack repos (state_get (fst s) (mf_migration_id manifest))"
    and saved: "\<exists>st'. state_get repo' (mf_migration_id manifest) = Some st' \<and> ms_status st' = Completed
      \<and> ms_finalized_at st' = Some now"
    by (cases rule: finalize_cutover_cases; use assms(3) in \<open>auto simp: states.get_save cutover_state_def\<close>)+
  from cutover_ready_chats [OF assms(1) ready assms(4)] ready saved show ?thesis
    unfolding cutover_ready_def by blast
qed

lemma ex_finalize:
  "fr_status (fst (finalize_cutover ex_manifest True 9 8 ex_repos (ex_states, []))) = ''completed''"
  by code_simp

theorem completed_cutover_is_complete_witness:
  "(\<exists>st. state_get ex_states (mf_migration_id ex_manifest) = Some st \<and> ms_status st = Paused)
    \<and> (\<exists>snap. chat_snapshot ex_manifest ex_repos ''c'' = Some snap \<and> inv_message_count snap =
      int (length (messages_with (rs_messages ex_repos) (mf_migration_id ex_manifest) ''c'' MsgImported)))"
proof -
  have known: "''c'' \<in> known_chats ex_manifest None ex_repos"
    by (simp add: known_chats_def selected_def ex_manifest_def ex_dialog_def)
  obtain res repo' evs' where run: "finalize_cutover ex_manifest True 9 8 ex_repos (ex_states, []) = (res, repo', evs')"
    by (rule prod_cases3)
  with ex_finalize have "fr_status res = ''completed''" by simp
  from completed_cutover_is_complete [OF keyed_ex_repos run this known] show ?thesis unfolding fst_conv by blast
qed

text \<open>
  C28: in every repository the program can reach, a job's fields agree with its status: a queued
  job was never started; a running one has an owner, a lease and at least one attempt, and its
  only possible error code is a requested cancellation; a finished one has its finishing time and
  no lease, and a failed one says why, without an owner only when it was cancelled in the queue.
\<close>

theorem reachable_jobs_wellformed:
  assumes "jobs_reachable repo" and "job_get repo k = Some r"
  shows "job_key r = k \<and> job_wf r"
  using assms jobs_reachable_wf [OF assms] keyed_dict_key [OF jobs_reachable_ok [OF assms(1)]]
  by (simp add: job_get_def)

theorem reachable_jobs_wellformed_witness: "job_key ex_running_job = ''j1'' \<and> job_wf ex_running_job"
  by (rule reachable_jobs_wellformed [OF jobs_reachable_ex_running ex_running_get])

text \<open>
  A finished job is finished for good: no interleaving of enqueues, claims, heartbeats,
  completions, failures and cancellation requests, by whoever, changes the record of a completed
  or failed job.
\<close>

theorem finished_jobs_stay:
  assumes "jobs_reachable repo" and "job_step\<^sup>*\<^sup>* repo repo'" and "job_get repo k = Some r"
    and "job_status r \<in> {JobCompleted, JobFailed}"
  shows "job_get repo' k = Some r"
  using job_steps_terminal [OF assms(2) jobs_reachable_ok [OF assms(1)] assms(3)] assms(4)
  by (auto simp: job_terminal_def)

lemma ex_done_get: "job_get ex_done ''j1'' = Some (ex_running_job\<lparr>job_status := JobCompleted,
    job_finished_at := Some 9, job_heartbeat_at := Some 9, job_lease_expires_at := None\<rparr>)"
  by (simp add: ex_done_def job_mark_completed_def job_owned_def ex_running_def ex_running_job_simps
      job_get_def Let_def)

theorem finished_jobs_stay_witness:
  "job_get (snd (job_take NextJob ''x'' 30000000 99000000 ex_done)) ''j1'' =
    Some (ex_running_job\<lparr>job_status := JobCompleted, job_finished_at := Some 9,
      job_heartbeat_at := Some 9, job_lease_expires_at := None\<rparr>)"
proof (rule finished_jobs_stay [OF _ _ ex_done_get])
  show "jobs_reachable ex_done"
    unfolding ex_done_def using jobs_reachable_ex_running job_step.update by (rule jobs_reachable.step)
  show "job_step\<^sup>*\<^sup>* ex_done (snd (job_take NextJob ''x'' 30000000 99000000 ex_done))"
    by (intro r_into_rtranclp job_step.take)
qed simp

text \<open>
  A worker that lost its job cannot touch it: once \<open>w\<close> holds the job, a heartbeat, a
  completion or a failure reported in another worker's name is refused and changes nothing.
\<close>

theorem stale_worker_fenced:
  assumes "jobs_reachable repo" and "j \<in> set (fst (job_take q w l t repo))" and "w' \<noteq> w"
  shows "job_owner_update u w' (job_key j) (snd (job_take q w l t repo)) =
    (False, snd (job_take q w l t repo))"
  by (rule jobs.stale_owner_fenced [OF jobs_reachable_ok [OF assms(1)] assms(2,3)])

theorem stale_worker_fenced_witness:
  "job_owner_update (Complete 5) ''old'' ''j1'' ex_running = (False, ex_running)"
  using stale_worker_fenced [OF jobs_reachable_ex_jobs, of ex_running_job "ByKey ''j1''" "''w''" 30000000 0
      "''old''" "Complete 5"]
  by (simp only: ex_take ex_running_job_simps) simp

text \<open>
  How an execution ends is recorded exactly when its worker still owns the job: after any
  course of ticks, foreign claims and updates and cancellation requests, either the job is the
  owner's and becomes completed, failed, or failed as cancelled, following the service's outcome,
  or it is not and the repository stays as the others left it. Only a cancellation nobody
  requested is raised again, with nothing written.
\<close>

theorem execution_end:
  assumes "execute_claimed_job cfg self job events outc now stamp (repo, evs) = (raised, repo', evs')"
    and "fold (exec_event_step (wk_lease_duration cfg) (lease_owner self job) (job_key job)) events
      (\<lparr>es_cancel_requested = False, es_heartbeat_alive = True\<rparr>, repo) = (st, before)"
  shows "(raised \<longleftrightarrow> outc = ServiceCancelled \<and> \<not> es_cancel_requested st)
    \<and> (raised \<longrightarrow> repo' = before \<and> evs' = evs)
    \<and> (job_owned (lease_owner self job) (job_key job) before = None \<longrightarrow> repo' = before)
    \<and> (\<not> raised \<longrightarrow> job_owned (lease_owner self job) (job_key job) before \<noteq> None \<longrightarrow>
        (\<exists>r'. job_get repo' (job_key job) = Some r' \<and> job_finished_at r' = Some now
          \<and> job_status r' = (if outc = ServiceReturned then JobCompleted else JobFailed)
          \<and> (outc = ServiceCancelled \<longrightarrow> job_last_error_code r' = Some cancelled_code)))"
proof -
  have run: "finish_claimed_job job (lease_owner self job) outc (es_cancel_requested st) now stamp (before, evs)
      = (raised, repo', evs')"
    using assms by (simp add: execute_claimed_job_def)
  show ?thesis
  proof (cases "job_owned (lease_owner self job) (job_key job) before")
    case None
    from finish_fenced [OF None, of outc "es_cancel_requested st" now stamp evs] run
    have "repo' = before" by simp
    moreover have "raised \<longleftrightarrow> outc = ServiceCancelled \<and> \<not> es_cancel_requested st" "raised \<Longrightarrow> evs' = evs"
      using run by (auto simp: finish_claimed_job_def Let_def split: service_outcome.splits prod.splits if_splits)
    ultimately show ?thesis using None by blast
  next
    case (Some r)
    then have r: "job_get before (job_key job) = Some r" "job_worker_id r = Some (lease_owner self job)"
      "job_status r = JobRunning" by (simp_all add: job_owned_Some)
    note fin = finish_owned [OF r run]
    show ?thesis
    proof (intro conjI impI)
      show "raised \<longleftrightarrow> outc = ServiceCancelled \<and> \<not> es_cancel_requested st" by (rule fin(1))
      show "repo' = before" "evs' = evs" if raised using fin(2) [OF that] by blast+
      show "repo' = before" if "job_owned (lease_owner self job) (job_key job) before = None"
        using that Some by simp
    qed (rule fin(3))
  qed
qed

lemma ex_execution: "execute_claimed_job ex_worker_config ''self'' ex_running_job
    [CancelRequest 1 ''op'' ''j1'', Tick 10000000] ServiceCancelled 15 16 (ex_running, []) =
  (False, [(''j1'', ex_running_job\<lparr>job_status := JobFailed, job_finished_at := Some 15,
     job_heartbeat_at := Some 15, job_lease_expires_at := None,
     job_last_error_code := Some cancelled_code,
     job_last_error_payload := Some (JObj [(''requested_by'', JStr ''op'')])\<rparr>)],
   [job_event ex_running_job ''bot_migration_job_cancelled'' SevWarning
     [(''requested_by'', JStr ''op'')] 16])"
  by code_simp

lemma ex_execution_before:
  "fold (exec_event_step (wk_lease_duration ex_worker_config) (lease_owner ''self'' ex_running_job)
      (job_key ex_running_job)) [CancelRequest 1 ''op'' ''j1'', Tick 10000000]
    (\<lparr>es_cancel_requested = False, es_heartbeat_alive = True\<rparr>, ex_running) =
   (\<lparr>es_cancel_requested = True, es_heartbeat_alive = False\<rparr>,
    [(''j1'', ex_running_job\<lparr>job_last_error_code := Some cancel_requested_code,
       job_last_error_payload := Some (JObj [(''requested_by'', JStr ''op'')])\<rparr>)])"
  by code_simp

theorem execution_end_witness:
  "\<exists>r'. job_get (fst (snd (execute_claimed_job ex_worker_config ''self'' ex_running_job
      [CancelRequest 1 ''op'' ''j1'', Tick 10000000] ServiceCancelled 15 16 (ex_running, [])))) ''j1'' = Some r'
    \<and> job_status r' = JobFailed \<and> job_last_error_code r' = Some cancelled_code"
proof -
  have "job_owned (lease_owner ''self'' ex_running_job) (job_key ex_running_job)
    [(''j1'', ex_running_job\<lparr>job_last_error_code := Some cancel_requested_code,
       job_last_error_payload := Some (JObj [(''requested_by'', JStr ''op'')])\<rparr>)] \<noteq> None"
    by code_simp
  with execution_end [OF ex_execution ex_execution_before] show ?thesis
    by (auto simp: ex_execution ex_running_job_simps)
qed

text \<open>
  C29: a command message takes effect once: when a first delivery was answered with a code, every
  redelivery, under whatever schedule, is a \<open>duplicate\<close> and changes neither inbox, jobs nor audit
  log.
\<close>

theorem command_handled_once:
  assumes "handle cfg wcfg worker sch e s = (Some code, s')" and "en_message_id e' = en_message_id e"
  shows "handle cfg wcfg' worker' sch' e' s' = (Some ''duplicate'', s')"
  using handle_duplicate handle_processed(1) [OF assms(1)] assms(2) by simp

lemma ex_handle: "handle ex_handler_config ex_worker_config ''self'' ex_schedule ex_envelope ex_handler_state =
  (Some ''job_completed'', snd (handle ex_handler_config ex_worker_config ''self'' ex_schedule ex_envelope ex_handler_state))"
proof -
  have "fst (handle ex_handler_config ex_worker_config ''self'' ex_schedule ex_envelope ex_handler_state) =
    Some ''job_completed''" by code_simp
  then show ?thesis by (metis prod.collapse)
qed

theorem command_handled_once_witness:
  "fst (handle ex_handler_config ex_worker_config ''other'' ex_schedule ex_envelope
    (snd (handle ex_handler_config ex_worker_config ''self'' ex_schedule ex_envelope ex_handler_state))) =
    Some ''duplicate''"
  using command_handled_once [OF ex_handle refl, of ex_worker_config "''other''" ex_schedule] by simp

text \<open>
  The code a command is answered with tells the truth about its job: \<open>job_completed\<close> and
  \<open>job_failed\<close> only when the job of its payload is so in the repository, \<open>not_claimed\<close> only when the
  job was not claimable, and then the jobs are untouched.
\<close>

theorem command_code_truthful:
  assumes "jobs_reachable (hs_jobs s)" and "handle cfg wcfg worker sch e s = (Some code, s')"
  shows "(code = ''job_completed'' \<longrightarrow> (\<exists>k r. payload_job_key e = Some k
        \<and> job_get (hs_jobs s') k = Some r \<and> job_status r = JobCompleted))
    \<and> (code = ''job_failed'' \<longrightarrow> (\<exists>k r. payload_job_key e = Some k
        \<and> job_get (hs_jobs s') k = Some r \<and> job_status r = JobFailed))
    \<and> (code = ''not_claimed'' \<longrightarrow> hs_jobs s' = hs_jobs s \<and> (\<exists>k. payload_job_key e = Some k
        \<and> (\<forall>r. job_get (hs_jobs s) k = Some r \<longrightarrow> \<not> job_claimable (sch_claimed sch) r)))"
proof (cases "payload_job_key e")
  case None
  with assms(2) show ?thesis by (auto simp: handle_def Let_def split: if_splits)
next
  case (Some k)
  obtain x jobs where c: "job_claim k (hc_worker_id cfg) (hc_lease_duration cfg) (sch_claimed sch) (hs_jobs s)
      = (x, jobs)" by fastforce
  show ?thesis
  proof (cases x)
    case None
    then have "jobs = hs_jobs s" "\<forall>r. job_get (hs_jobs s) k = Some r \<longrightarrow> \<not> job_claimable (sch_claimed sch) r"
      using c by (auto simp: job_claim_def job_get_def Let_def split: option.splits if_splits)
    with None assms(2) c Some show ?thesis by (auto simp: handle_def Let_def split: if_splits)
  next
    case (Some job)
    have "job_key job = k"
      using c Some keyed_dict_key [OF jobs_reachable_ok [OF assms(1)], of k]
      by (auto simp: job_claim_def Let_def split: option.splits if_splits)
    with Some assms(2) c \<open>payload_job_key e = Some k\<close> show ?thesis
      by (auto simp: handle_def Let_def split: if_splits prod.splits option.splits)
  qed
qed

theorem command_code_truthful_witness:
  "\<exists>r. job_get (hs_jobs (snd (handle ex_handler_config ex_worker_config ''self'' ex_schedule ex_envelope
      ex_handler_state))) ''j1'' = Some r \<and> job_status r = JobCompleted"
proof -
  have "jobs_reachable (hs_jobs ex_handler_state)"
    by (simp add: ex_handler_state_def jobs_reachable_ex_jobs)
  from command_code_truthful [OF this ex_handle] show ?thesis
    by (auto simp: payload_job_key_def ex_envelope_def)
qed

text \<open>
  C30: cancelling a running job keeps it from being handed out again: the request marks it, and
  from then on no claim takes it, even after its lease has run out.
\<close>

theorem cancelled_job_not_reclaimed:
  assumes "jobs_reachable repo" and "job_get repo k = Some r" and "job_status r = JobRunning"
    and "job_operator_huid r = operator"
  shows "\<exists>r'. fst (job_request_cancel t operator k repo) = Some r'
    \<and> job_get (fold (\<lambda>(q, w, l, t) s. snd (job_take q w l t s)) ops
        (snd (job_request_cancel t operator k repo))) k = Some r'
    \<and> job_last_error_code r' = Some cancel_requested_code"
proof -
  from job_request_cancel_running [OF assms(2-4)] obtain r' where
    r': "job_request_cancel t operator k repo = (Some r', dict_set k r' repo)" "job_cancelling r'" by blast
  have ok: "jobs_ok (dict_set k r' repo)"
    using job_step_ok [OF job_step.cancel jobs_reachable_ok [OF assms(1)]] r'(1) by (metis snd_conv)
  have "jobs_ok s \<Longrightarrow> job_get s k = Some r' \<Longrightarrow>
      job_get (fold (\<lambda>(q, w, l, t) s. snd (job_take q w l t s)) ops s) k = Some r'" for s
  proof (induction ops arbitrary: s)
    case Nil
    then show ?case by simp
  next
    case (Cons op ops)
    obtain q w l t where op: "op = (q, w, l, t)" by (metis surj_pair)
    from Cons job_take_cancelling [OF Cons.prems r'(2)] jobs.inv_take [OF Cons.prems(1)] op
    show ?case by simp
  qed
  from this [OF ok] r' show ?thesis by (simp add: job_get_def job_cancelling_def)
qed

theorem cancelled_job_not_reclaimed_witness:
  "\<exists>r'. job_get (snd (job_take NextJob ''x'' 30000000 999000000
      (snd (job_request_cancel 1 ''op'' ''j1'' ex_running)))) ''j1'' = Some r'
    \<and> job_last_error_code r' = Some cancel_requested_code"
  using cancelled_job_not_reclaimed [OF jobs_reachable_ex_running ex_running_get ex_running_job_simps(1,4),
      of 1 "[(NextJob, ''x'', 30000000, 999000000)]"] by auto

text \<open>
  The queue is served in order and to the end: an acquisition takes a claimable job that was
  requested no later than any other claimable one, and comes back empty exactly when there is none.
\<close>

theorem acquisition_order:
  assumes "jobs_reachable repo"
  shows "(fst (job_acquire_next w l t repo) = None \<longleftrightarrow>
      (\<forall>k r. job_get repo k = Some r \<longrightarrow> \<not> job_claimable t r))
    \<and> (\<forall>j k r. fst (job_acquire_next w l t repo) = Some j \<longrightarrow> job_get repo k = Some r \<longrightarrow>
        job_claimable t r \<longrightarrow> job_requested_at j \<le> job_requested_at r)"
  using job_acquire_next_None [OF jobs_reachable_ok [OF assms], of w l t]
    job_acquire_next_oldest [OF jobs_reachable_ok [OF assms], of w l t]
  by (metis prod.collapse)

theorem acquisition_order_witness:
  "\<exists>j. fst (job_acquire_next ''w'' 30000000 0 ex_jobs) = Some j \<and> job_requested_at j \<le> 5"
proof -
  have "job_claimable 0 ex_job" "job_get ex_jobs ''j1'' = Some ex_job" "job_requested_at ex_job = 5"
    by (simp_all add: job_claimable_def ex_job_def job_get_def ex_jobs_def)
  with acquisition_order [OF jobs_reachable_ex_jobs, of "''w''" 30000000 0] show ?thesis
    by (metis option.exhaust)
qed


section \<open>Messages, attachments and uploads\<close>

text \<open>
  No message is stuck: when a claim's worker never reported back, the message can be claimed
  again once the window has passed, whatever its record says; and so can one whose delivery
  failed ambiguously before a target id was known.
\<close>

theorem stuck_message_reclaimable:
  assumes "messages_reachable w repo" and "message_get repo (message_key r) = Some e"
    and "mm_import_status e = MsgProcessing \<or> mm_import_status e = MsgAmbiguous
      \<and> mm_last_error_code e = Some ''AmbiguousDeliveryError'' \<and> mm_target_sync_id e = None"
  shows "\<exists>c0. mr_started repo (message_key r) = Some c0 \<and>
    (\<forall>now stamp. c0 + mr_stale_after repo \<le> now \<longrightarrow> fst (fst (message_claim r now stamp repo)) = Claimed)"
proof -
  have inv: "message_inv repo" using assms(1) by (rule messages_reachable_inv)
  have "mr_started repo (message_key r) \<noteq> None"
    using message_invD(3) [OF inv, of "message_key r"] assms(2,3) by auto
  then show ?thesis using message_stale_reclaimed [OF inv assms(2) _ _ assms(3)] by auto
qed

theorem stuck_message_reclaimable_witness:
  "fst (fst (message_claim ex_message 30000000 30000001 ex_claimed)) = Claimed"
  using stuck_message_reclaimable [OF messages_reachable_claimed, of ex_message ex_message]
  by (simp add: ex_message_simps ex_claimed_get ex_claimed_started)

text \<open>
  The whole decision of a message claim, from the status of its record: granted for a new
  message, for a failed or running one that was cancelled, for a running one whose window has
  passed, and for an ambiguous one that is retryable and whose window has passed; answered
  imported for an imported one and failed for any other failed one.
\<close>

theorem message_claim_decision:
  assumes "messages_reachable w repo" and "message_get repo (message_key r) = Some e"
  shows "fst (fst (message_claim r now c repo)) =
    (case mm_import_status e of
       MsgImported \<Rightarrow> ClaimImported
     | MsgFailed \<Rightarrow> if is_cancel_code (mm_last_error_code e) then Claimed else ClaimFailed
     | MsgProcessing \<Rightarrow>
         if is_cancel_code (mm_last_error_code e) \<or> message_stale now repo (message_key r)
         then Claimed else ClaimAmbiguous
     | MsgAmbiguous \<Rightarrow>
         if mm_last_error_code e = Some ''AmbiguousDeliveryError'' \<and> mm_target_sync_id e = None
           \<and> message_stale now repo (message_key r) then Claimed else ClaimAmbiguous)"
proof -
  have "message_key r \<in> mr_ambiguous repo \<longleftrightarrow> mm_import_status e = MsgAmbiguous"
    using message_invD(2) [OF messages_reachable_inv [OF assms(1)], of "message_key r"] assms(2) by simp
  with assms(2) show ?thesis
    by (cases "mm_import_status e") (simp_all add: message_claim_def message_get_def Let_def)
qed

theorem message_claim_decision_witness:
  "fst (fst (message_claim ex_message 29999999 29999999 ex_claimed)) = ClaimAmbiguous"
  using message_claim_decision [OF messages_reachable_claimed, of ex_message ex_message 29999999 29999999]
  by (simp add: ex_message_simps ex_claimed_get message_stale_def ex_claimed_started)
    (simp add: ex_message_def)

text \<open>
  The message repository never loses track: in every reachable state the ambiguous set is
  the set of keys of ambiguous records, a start time is kept for exactly the running and the
  ambiguous ones, and every record is stored under its own key.
\<close>

theorem message_repository_consistent:
  assumes "messages_reachable w repo"
  shows "keyed_dict message_key (mr_items repo)
    \<and> mr_ambiguous repo = {k. \<exists>r. message_get repo k = Some r \<and> mm_import_status r = MsgAmbiguous}
    \<and> dom (mr_started repo) =
        {k. \<exists>r. message_get repo k = Some r \<and> mm_import_status r \<in> {MsgProcessing, MsgAmbiguous}}"
  using message_invD(1-3) [OF messages_reachable_inv [OF assms]] by (auto simp: dom_def)

theorem message_repository_consistent_witness: "dom (mr_started ex_delivered) =
    {k. \<exists>r. message_get ex_delivered k = Some r \<and> mm_import_status r \<in> {MsgProcessing, MsgAmbiguous}}"
  using message_repository_consistent [OF messages_reachable_delivered] by blast

text \<open>
  Replaying failed messages requeues failed messages and nothing else: at most \<open>limit\<close> of
  them, each now running with its error cleared and returned as stored, every other record
  unchanged.
\<close>

theorem requeue_failed_effect:
  assumes "messages_reachable w repo"
    and "message_requeue_failed m chat n stamp repo = (rs, repo')"
  shows "(\<forall>r \<in> set rs. message_get repo' (message_key r) = Some r \<and> mm_import_status r = MsgProcessing
        \<and> mm_last_error_code r = None \<and> mm_migration_id r = m
        \<and> (\<exists>e. message_get repo (message_key r) = Some e \<and> mm_import_status e = MsgFailed))
    \<and> (\<forall>k. k \<notin> message_key ` set rs \<longrightarrow> message_get repo' k = message_get repo k)
    \<and> (0 \<le> n \<longrightarrow> int (length rs) \<le> n) \<and> distinct (map message_key rs)"
proof -
  have inv: "message_inv repo" using assms(1) by (rule messages_reachable_inv)
  let ?es = "message_failed_entries m chat n repo"
  have rs: "rs = map (\<lambda>p. message_requeued (snd p)) ?es"
    and repo': "repo' = snd (message_requeue_failed m chat n stamp repo)"
    using assms(2) by (auto simp: message_requeue_failed_alt)
  note mem = message_failed_entries_mem [OF inv] and get = message_requeue_get [OF inv]
  have keys: "map message_key rs = map fst ?es"
    unfolding rs map_map by (rule map_cong) (use mem(2) in \<open>auto simp: o_def\<close>)
  show ?thesis
  proof (intro conjI ballI allI impI)
    fix r
    assume "r \<in> set rs"
    then obtain k e where e: "(k, e) \<in> set ?es" "r = message_requeued e" by (auto simp: rs)
    note k = mem [OF e(1)]
    have "map_of ?es k = Some e" using e(1) distinct_message_failed_entries [OF inv] by simp
    then show "message_get repo' (message_key r) = Some r"
      by (simp add: repo' get e(2) k(2))
    show "mm_import_status r = MsgProcessing" "mm_last_error_code r = None"
      by (simp_all add: e(2) message_requeued_def)
    show "mm_migration_id r = m" using k(2,4) by (auto simp: e(2) message_requeued_def message_key_def)
    show "\<exists>e. message_get repo (message_key r) = Some e \<and> mm_import_status e = MsgFailed"
      using k by (simp add: e(2))
  next
    fix k
    assume "k \<notin> message_key ` set rs"
    then have "k \<notin> fst ` set ?es" by (metis keys list.set_map)
    then have "map_of ?es k = None" by (simp add: map_of_eq_None_iff)
    then show "message_get repo' k = message_get repo k" by (simp add: repo' get)
  next
    assume "0 \<le> n"
    then show "int (length rs) \<le> n" by (simp add: rs message_failed_entries_def slice_to_def)
  next
    show "distinct (map message_key rs)"
      unfolding keys by (rule distinct_message_failed_entries [OF inv])
  qed
qed

lemma ex_failed_mark: "message_mark_failed (''m'', ''c'', ''1'') ''X'' JNull ex_claimed =
    Inr (ex_message\<lparr>mm_import_status := MsgFailed, mm_last_error_code := Some ''X'',
      mm_last_error_payload := Some JNull\<rparr>, ex_failed)"
  by (simp add: message_mark_failed_def ex_failed_def ex_claimed_def ex_messages_def
      message_repo_init_def message_write_def ex_message_def Let_def)

lemma messages_reachable_failed: "messages_reachable 30000000 ex_failed"
  using messages_reachable.step [OF messages_reachable_claimed message_step.failed [OF ex_failed_mark]] .

lemma ex_requeue: "fst (message_requeue_failed ''m'' None 100 (\<lambda>_. 5) ex_failed) = [ex_message]"
  by code_simp

theorem requeue_failed_effect_witness:
  "message_get (snd (message_requeue_failed ''m'' None 100 (\<lambda>_. 5) ex_failed)) (message_key ex_message) =
    Some ex_message"
  using requeue_failed_effect [OF messages_reachable_failed surjective_pairing, of "''m''" None 100 "\<lambda>_. 5"]
  by (simp add: ex_requeue)

text \<open>
  An attachment is uploaded by one worker at a time, for as long as that worker takes: after
  a granted claim, no sequence of claims, with or without retrying failures, grants it again.
\<close>

theorem attachment_claim_exclusive:
  assumes "attachments_ok repo" and "attachment_submission r"
    and "fst (fst (attachment_claim retry r repo)) = Claimed"
    and "\<forall>(a, r', t, c) \<in> set ops. attachment_submission r'"
    and "attachment_key r' = attachment_key r"
  shows "attachment_get (run_claims (\<lambda>a r (_ :: datetime) (_ :: datetime). attachment_claim a r) ops
        (snd (attachment_claim retry r repo))) (attachment_key r) =
      Some (snd (fst (attachment_claim retry r repo)))
    \<and> fst (fst (attachment_claim retry' r' (snd (attachment_claim retry r repo)))) = ClaimAmbiguous"
proof
  note granted = attachments.claim_granted [OF assms(1-3)]
  show "attachment_get (run_claims (\<lambda>a r (_ :: datetime) (_ :: datetime). attachment_claim a r) ops
      (snd (attachment_claim retry r repo))) (attachment_key r) =
    Some (snd (fst (attachment_claim retry r repo)))"
    using granted assms(4)
    by (intro attachments.held_claims_keep [OF attachments.inv_claim [OF assms(1,2)]]) auto
  show "fst (fst (attachment_claim retry' r' (snd (attachment_claim retry r repo)))) = ClaimAmbiguous"
    by (rule attachments.claim_exclusive(1) [OF assms(1-3,5) TrueI])
qed

theorem attachment_claim_exclusive_witness:
  "fst (fst (attachment_claim True ex_attachment (snd (attachment_claim False ex_attachment [])))) = ClaimAmbiguous"
proof -
  have "attachment_submission ex_attachment" by (simp add: attachment_submission_def ex_attachment_def)
  moreover have "fst (fst (attachment_claim False ex_attachment [])) = Claimed"
    by (simp add: attachment_claim_def Let_def)
  ultimately show ?thesis
    using attachment_claim_exclusive [of "[]" ex_attachment False "[]" ex_attachment True] by simp
qed

text \<open>
  An upload to a target chat is done by one worker within its window, and never again once
  it is uploaded or attached: the claim answers \<open>imported\<close> and changes nothing.
\<close>

theorem stage_claim_exclusive:
  assumes "stages_reachable w repo" and "stage_submission r"
  shows "(fst (fst (stage_claim a r t c repo)) = Claimed \<longrightarrow> stage_key r' = stage_key r \<longrightarrow>
        t' < c + sr_stale_after repo \<longrightarrow>
        fst (fst (stage_claim a' r' t' c' (snd (stage_claim a r t c repo)))) = ClaimAmbiguous)
    \<and> (\<forall>e. stage_get repo (stage_key r) = Some e \<longrightarrow> st_status e \<in> {StageUploaded, StageAttached} \<longrightarrow>
        stage_claim a r t c repo = ((ClaimImported, e), repo))"
proof (intro conjI impI allI)
  have inv: "stage_inv repo" using assms(1) by (rule stages_reachable_inv)
  show "fst (fst (stage_claim a' r' t' c' (snd (stage_claim a r t c repo)))) = ClaimAmbiguous"
    if "fst (fst (stage_claim a r t c repo)) = Claimed" "stage_key r' = stage_key r"
      "t' < c + sr_stale_after repo"
    using stages.claim_exclusive(1) [OF inv assms(2) that(1,2)] that(3) by (simp add: stage_fresh_def)
  show "stage_claim a r t c repo = ((ClaimImported, e), repo)"
    if "stage_get repo (stage_key r) = Some e" "st_status e \<in> {StageUploaded, StageAttached}" for e
  proof -
    have "fst (fst (stage_claim a r t c repo)) = ClaimImported"
      using stages.claim_delivered [OF inv that(1)] that(2) by blast
    with stage_claim_refused [of a r t c repo] that(1) show ?thesis
      by (cases "stage_claim a r t c repo"; cases "fst (stage_claim a r t c repo)") simp
  qed
qed

theorem stage_claim_exclusive_witness:
  "fst (fst (stage_claim ex_stage_args ex_stage 29999999 1
    (snd (stage_claim ex_stage_args ex_stage 0 0 (stage_repo_init 30000000))))) = ClaimAmbiguous"
proof -
  have "stage_submission ex_stage" by (simp add: stage_submission_def ex_stage_def)
  moreover have "fst (fst (stage_claim ex_stage_args ex_stage 0 0 (stage_repo_init 30000000))) = Claimed"
    by (simp add: stage_claim_def stage_repo_init_def Let_def)
  moreover have "sr_stale_after (stage_repo_init 30000000) = 30000000"
    by (simp add: stage_repo_init_def one_second_def)
  ultimately show ?thesis
    using stage_claim_exclusive [OF stages_reachable.init [of 30000000], where r = ex_stage and a = ex_stage_args
        and t = 0 and c = 0 and r' = ex_stage and t' = 29999999]
    by auto
qed


section \<open>The outbox\<close>

text \<open>
  A batch takes the oldest events that may be leased and as many as the limit allows: its
  events are distinct, each was pending or its lease had run out, none left out is older than one
  taken, and when one is left out the batch is full.
\<close>

theorem outbox_batch_oldest:
  assumes "outbox_ok repo" and "outbox_lease_batch limit w l t repo = (batch, repo')"
  shows "distinct (map ob_event_id batch) \<and> length batch \<le> limit
    \<and> (\<forall>e \<in> set batch. \<exists>e0. outbox_get repo (ob_event_id e) = Some e0 \<and> outbox_leasable t e0
          \<and> e = outbox_lease w l t e0)
    \<and> (\<forall>k e. outbox_get repo k = Some e \<longrightarrow> outbox_leasable t e \<longrightarrow> k \<notin> ob_event_id ` set batch \<longrightarrow>
          length batch = limit \<and> (\<forall>b \<in> set batch. ob_created_at b \<le> ob_created_at e))"
proof -
  let ?c = "filter (outbox_leasable t) (dict_values repo)"
  let ?s = "sort_key ob_created_at ?c"
  have batch: "batch = map (outbox_lease w l t) (take limit ?s)"
    and fst: "batch = fst (outbox_lease_batch limit w l t repo)"
    using assms(2) by (auto simp: outbox_lease_batch_def Let_def)
  have created: "ob_created_at (outbox_lease w l t e) = ob_created_at e" for e
    by (simp add: outbox_lease_def)
  show ?thesis
  proof (intro conjI ballI allI impI)
    show "distinct (map ob_event_id batch)" unfolding fst by (rule outbox_batch_distinct [OF assms(1)])
    show "length batch \<le> limit" by (simp add: batch)
    fix e
    assume "e \<in> set batch"
    then obtain e0 where "e = outbox_lease w l t e0" "e0 \<in> set (dict_values repo)" "outbox_leasable t e0"
      unfolding fst by (rule outbox_batch_candidates)
    then show "\<exists>e0. outbox_get repo (ob_event_id e) = Some e0 \<and> outbox_leasable t e0
          \<and> e = outbox_lease w l t e0"
      using keyed_dict_values [OF assms(1), of e0] by (auto simp: outbox_get_def simp del: set_map)
  next
    fix k e
    assume e: "outbox_get repo k = Some e" "outbox_leasable t e" "k \<notin> ob_event_id ` set batch"
    have k: "ob_event_id e = k" using e(1) keyed_dict_key [OF assms(1)] by (simp add: outbox_get_def)
    have mem: "e \<in> set ?c"
      using e(1,2) keyed_dict_values [OF assms(1), of e] k by (simp add: outbox_get_def del: set_map)
    have out: "e \<notin> set (take limit ?s)"
    proof
      assume "e \<in> set (take limit ?s)"
      then have "outbox_lease w l t e \<in> set batch" by (simp add: batch)
      with e(3) k show False by (metis image_eqI outbox_lease_simps(1))
    qed
    show "length batch = limit"
    proof (rule ccontr)
      assume "length batch \<noteq> limit"
      then have "length ?s \<le> limit" by (auto simp: batch min_def split: if_splits)
      with mem out show False by simp
    qed
    fix b
    assume "b \<in> set batch"
    then obtain b0 where "b = outbox_lease w l t b0" "b0 \<in> set (take limit ?s)" by (auto simp: batch)
    with take_sort_key_le [OF _ mem out] show "ob_created_at b \<le> ob_created_at e" by (simp add: created)
  qed
qed

lemma outbox_ok_ex: "outbox_ok ex_outbox"
  by (simp add: keyed_dict_def ex_outbox_def ex_event_def)

theorem outbox_batch_oldest_witness:
  "distinct (map ob_event_id (fst (outbox_lease_batch 50 ''p'' 30000000 0 ex_outbox)))"
  using outbox_batch_oldest [OF outbox_ok_ex surjective_pairing] by blast

text \<open>
  C31: a published or failed event is never leased, sent or changed again, whatever is appended,
  leased or reported later; a failed publication is not retried.
\<close>

theorem outbox_final:
  assumes "outbox_ok repo" and "outbox_step\<^sup>*\<^sup>* repo repo'" and "outbox_get repo k = Some e"
    and "ob_status e = OutPublished \<or> ob_status e = OutFailed"
  shows "outbox_get repo' k = Some e \<and> k \<notin> ob_event_id ` set (fst (outbox_lease_batch n w l t repo'))"
proof -
  from outbox_run_terminal [OF assms(2,1,3)] assms(4)
  have keep: "outbox_get repo' k = Some e" and ok: "outbox_ok repo'" by (auto simp: outbox_terminal_def)
  have "k \<notin> ob_event_id ` set (fst (outbox_lease_batch n w l t repo'))"
  proof
    assume "k \<in> ob_event_id ` set (fst (outbox_lease_batch n w l t repo'))"
    then obtain e0 where "k = ob_event_id e0" "e0 \<in> set (dict_values repo')" "outbox_leasable t e0"
      by (metis image_iff outbox_batch_candidates outbox_lease_simps(1))
    with keyed_dict_values [OF ok, of e0] keep have "outbox_leasable t e"
      by (simp add: outbox_get_def del: set_map)
    with assms(4) show False by (auto simp: outbox_leasable_def)
  qed
  with keep show ?thesis by blast
qed

theorem outbox_final_witness:
  "outbox_get (snd (outbox_lease_batch 5 ''p'' 30000000 9 [(''e1'', ex_event\<lparr>ob_status := OutFailed\<rparr>)])) ''e1'' =
    Some (ex_event\<lparr>ob_status := OutFailed\<rparr>)"
proof -
  have "outbox_ok [(''e1'', ex_event\<lparr>ob_status := OutFailed\<rparr>)]"
    by (simp add: keyed_dict_def ex_event_def)
  moreover have "outbox_step [(''e1'', ex_event\<lparr>ob_status := OutFailed\<rparr>)]
      (snd (outbox_lease_batch 5 ''p'' 30000000 9 [(''e1'', ex_event\<lparr>ob_status := OutFailed\<rparr>)]))"
    by (rule outbox_step.lease)
  ultimately show ?thesis
    using outbox_final [OF _ r_into_rtranclp [of outbox_step], where k = "''e1''"
        and e = "ex_event\<lparr>ob_status := OutFailed\<rparr>"]
    by (simp add: outbox_get_def)
qed

text \<open>
  A publisher's round finishes what it leased: every event of the batch it got to is published
  or failed, the rest of a batch it was stopped in stays leased, and no other event changes.
\<close>

theorem publisher_round_finishes:
  assumes "outbox_ok (ps_outbox s)"
    and "publisher_round broker name w bsize lease now stopped s = (events, s')"
  shows "(\<forall>e \<in> set (take stopped events). \<exists>e'. outbox_get (ps_outbox s') (ob_event_id e) = Some e'
        \<and> outbox_terminal e')
    \<and> (\<forall>e \<in> set (drop stopped events). outbox_get (ps_outbox s') (ob_event_id e) = Some e)
    \<and> (\<forall>k. k \<notin> ob_event_id ` set events \<longrightarrow> outbox_get (ps_outbox s') k = outbox_get (ps_outbox s) k)"
  using publisher_round_events [OF assms] by blast

lemma ex_round: "fst (publisher_round ex_broker ''pub'' ''p'' 50 30000000 0 9 ex_publisher_state) =
    [outbox_lease ''p'' 30000000 0 ex_event]"
  by code_simp

theorem publisher_round_finishes_witness:
  "\<exists>e'. outbox_get (ps_outbox (snd (publisher_round ex_broker ''pub'' ''p'' 50 30000000 0 9 ex_publisher_state)))
      ''e1'' = Some e' \<and> outbox_terminal e'"
proof -
  have "outbox_ok (ps_outbox ex_publisher_state)" by (simp add: ex_publisher_state_def outbox_ok_ex)
  from publisher_round_finishes [OF this surjective_pairing, where broker = ex_broker and name = "''pub''"
      and w = "''p''" and bsize = 50 and lease = 30000000 and now = 0 and stopped = 9]
  show ?thesis by (simp add: ex_round) (simp add: outbox_lease_def ex_event_def)
qed

section \<open>Life cycle, reconciliation and cutover\<close>

text \<open>
  C32: whatever commands and finalisations are run, a stored state is consistent: it has a
  finalisation time exactly when it is completed, and then it was frozen and has no blockers; it
  was not updated before it was created, nor after the last step.
\<close>

theorem lifecycle_consistent:
  assumes "lifecycle_run t repo" and "state_get repo m = Some r"
  shows "ms_migration_id r = m \<and> (ms_finalized_at r \<noteq> None \<longleftrightarrow> ms_status r = Completed)
    \<and> (ms_status r = Completed \<longrightarrow> ms_last_blockers r = [] \<and> ms_freeze_started_at r \<noteq> None)
    \<and> ms_created_at r \<le> ms_updated_at r \<and> ms_updated_at r \<le> t"
proof -
  from lifecycle_run_inv [OF assms(1)] have inv: "states_inv repo" "ms_updated_at r \<le> t"
    using assms(2) by blast+
  from states_inv_wf [OF inv(1) assms(2)] inv(2) show ?thesis by (simp add: state_wf_def)
qed

lemma ex_pause: "manage_migration_state ex_manifest ''pause_delta'' 4 ([], []) =
  Inr (fst (projr (manage_migration_state ex_manifest ''pause_delta'' 4 ([], []))),
    [(''m'', (new_migration_state ''m'' 4)\<lparr>ms_status := Paused\<rparr>)],
    snd (snd (projr (manage_migration_state ex_manifest ''pause_delta'' 4 ([], [])))))"
  by (simp add: manage_migration_state_def lifecycle_actions_def state_get_def state_save_def
      new_migration_state_def transition_def ex_manifest_def Let_def)

theorem lifecycle_consistent_witness:
  "ms_finalized_at ((new_migration_state ''m'' 4)\<lparr>ms_status := Paused\<rparr>) \<noteq> None \<longleftrightarrow>
    ms_status ((new_migration_state ''m'' 4)\<lparr>ms_status := Paused\<rparr>) = Completed"
proof -
  have "lifecycle_run 4 [(''m'', (new_migration_state ''m'' 4)\<lparr>ms_status := Paused\<rparr>)]"
    by (rule lifecycle_run.step [OF lifecycle_run.init [of 0] _ lifecycle_step.manage [OF ex_pause]]) simp
  from lifecycle_consistent [OF this, of "''m''" "(new_migration_state ''m'' 4)\<lparr>ms_status := Paused\<rparr>"]
  show ?thesis by (simp add: state_get_def)
qed

text \<open>
  Only a finalisation completes a migration, and only one that was paused and frozen: no
  command sets \<open>completed\<close>.
\<close>

theorem completed_only_by_finalize:
  assumes "lifecycle_step now repo repo'" and "state_get repo' m = Some r" and "ms_status r = Completed"
    and "state_get repo m \<noteq> Some r"
  shows "\<exists>f. state_get repo m = Some f \<and> ms_status f = Paused \<and> ms_freeze_started_at f \<noteq> None
    \<and> ms_finalized_at r = Some now"
  by (rule lifecycle_completed_by_finalize [OF assms])

lemma ex_finalized: "finalize_cutover ex_manifest True 9 8 ex_repos (ex_states, []) =
  (fst (finalize_cutover ex_manifest True 9 8 ex_repos (ex_states, [])), [(''m'', ex_completed)],
   snd (snd (finalize_cutover ex_manifest True 9 8 ex_repos (ex_states, []))))"
proof -
  have "fst (snd (finalize_cutover ex_manifest True 9 8 ex_repos (ex_states, []))) = [(''m'', ex_completed)]"
    by code_simp
  then show ?thesis by (metis prod.collapse)
qed

theorem completed_only_by_finalize_witness:
  "\<exists>f. state_get ex_states ''m'' = Some f \<and> ms_status f = Paused \<and> ms_freeze_started_at f \<noteq> None
    \<and> ms_finalized_at ex_completed = Some 9"
  by (rule completed_only_by_finalize [OF lifecycle_step.finalize [OF keyed_ex_repos ex_finalized]])
    (simp_all add: state_get_def ex_completed_def cutover_state_def ex_states_def ex_frozen_def)

text \<open>
  A finalisation completes the migration exactly when no chat of its report needs attention,
  the delivery policy was acknowledged, and the migration is paused and frozen; otherwise it is
  sent to manual reconciliation with at least one blocker, and its finalisation time is cleared.
\<close>

theorem finalize_decision:
  assumes "keyed_dict inventory_key (rs_inventory repos)"
    and "finalize_cutover manifest ack now reconciled repos s = (res, repo', evs')"
  shows "(fr_status res = ''completed'' \<longleftrightarrow>
      rr_attention_chats (reconcile_totals (mf_migration_id manifest) (reconcile_chats manifest None repos)) = 0
      \<and> ack \<and> (\<exists>f. state_get (fst s) (mf_migration_id manifest) = Some f
        \<and> ms_freeze_started_at f \<noteq> None \<and> ms_status f = Paused))
    \<and> (fr_status res \<noteq> ''completed'' \<longrightarrow> fr_status res = ''blocked'' \<and> fr_blockers res \<noteq> []
        \<and> (\<exists>r. state_get repo' (mf_migration_id manifest) = Some r
            \<and> ms_status r = NeedsManualReconcile \<and> ms_finalized_at r = None
            \<and> ms_last_blockers r = fr_blockers res))"
  using assms
proof (cases rule: finalize_cutover_cases)
  case completed
  then show ?thesis by (simp add: cutover_ready_def cutover_report_def)
next
  case blocked
  then show ?thesis
    by (auto simp: cutover_ready_def cutover_report_def states.get_save cutover_state_def)
qed

theorem finalize_decision_witness:
  "fr_status (fst (finalize_cutover ex_manifest False 9 8 ex_repos (ex_states, []))) = ''blocked''"
proof -
  have "fr_status (fst (finalize_cutover ex_manifest False 9 8 ex_repos (ex_states, []))) \<noteq> ''completed''"
    by code_simp
  with finalize_decision [OF keyed_ex_repos, of ex_manifest False 9 8 "(ex_states, [])"] show ?thesis
    by (metis prod.collapse)
qed

text \<open>
  Every line of a report counts what is in the repositories: each status count is the number
  of the chat's records with that status, the snapshot's count is shown when there is one, and the
  gap is the distance between it and the imported messages. The lines are the known chats, in
  order, each once.
\<close>

theorem reconcile_counts:
  assumes "keyed_dict inventory_key (rs_inventory repos)"
  shows "map rc_source_chat_id (reconcile_chats manifest only repos) =
      sorted_list_of_set (known_chats manifest only repos)
    \<and> (\<forall>x \<in> set (reconcile_chats manifest only repos).
        let c = rc_source_chat_id x; m = mf_migration_id manifest;
            n = (\<lambda>st. length (messages_with (rs_messages repos) m c st));
            a = (\<lambda>st. length (attachments_with (rs_attachments repos) m c st)) in
        rc_imported_count x = n MsgImported \<and> rc_failed_count x = n MsgFailed
        \<and> rc_ambiguous_count x = n MsgAmbiguous \<and> rc_processing_count x = n MsgProcessing
        \<and> rc_attachment_imported_count x = a AttImported \<and> rc_attachment_failed_count x = a AttFailed
        \<and> rc_attachment_ambiguous_count x = a AttAmbiguous
        \<and> rc_attachment_processing_count x = a AttProcessing \<and> rc_attachment_skipped_count x = a AttSkipped
        \<and> rc_source_message_count x = map_option inv_message_count (chat_snapshot manifest repos c)
        \<and> rc_gap_count x = map_option (\<lambda>s. \<bar>inv_message_count s - int (n MsgImported)\<bar>)
            (chat_snapshot manifest repos c))"
  unfolding Let_def
  by (intro conjI ballI) (rule reconcile_chats_ids | erule reconcile_chat_line [OF assms])+

theorem reconcile_counts_witness:
  "map rc_source_chat_id (reconcile_chats ex_manifest None ex_repos) =
    sorted_list_of_set (known_chats ex_manifest None ex_repos)"
  using reconcile_counts [OF keyed_ex_repos] by blast

text \<open>
  The totals of a report add up: the mapped messages and attachments are partitioned by
  status, and no chat needs attention exactly when every guarded total is zero.
\<close>

theorem reconcile_totals_consistent:
  assumes "keyed_dict inventory_key (rs_inventory repos)"
    and "reconcile_execute manifest only now repos evs = (r, evs')"
  shows "rr_mapped_total r = rr_imported_count r + rr_failed_count r + rr_ambiguous_count r
      + rr_processing_count r
    \<and> rr_attachment_mapped_total r = rr_attachment_imported_count r + rr_attachment_failed_count r
      + rr_attachment_ambiguous_count r + rr_attachment_processing_count r + rr_attachment_skipped_count r
    \<and> (rr_attention_chats r = 0 \<longleftrightarrow> rr_inventory_missing_chats r = 0 \<and> rr_failed_count r = 0
      \<and> rr_ambiguous_count r = 0 \<and> rr_processing_count r = 0 \<and> rr_attachment_failed_count r = 0
      \<and> rr_attachment_ambiguous_count r = 0 \<and> rr_attachment_processing_count r = 0
      \<and> rr_gap_total_known r = 0)"
proof -
  let ?cs = "reconcile_chats manifest only repos"
  have r: "r = reconcile_totals (mf_migration_id manifest) ?cs"
    using assms(2) by (auto simp: reconcile_execute_def Let_def)
  have "sum_list (map rc_mapped_total ?cs) = sum_list (map (\<lambda>x. rc_imported_count x + rc_failed_count x
      + rc_ambiguous_count x + rc_processing_count x) ?cs)"
    using rc_mapped_total_split(1) [of _ manifest only repos] by (metis (no_types, lifting) map_cong)
  moreover have "sum_list (map rc_attachment_mapped_total ?cs) = sum_list (map (\<lambda>x.
      rc_attachment_imported_count x + rc_attachment_failed_count x + rc_attachment_ambiguous_count x
      + rc_attachment_processing_count x + rc_attachment_skipped_count x) ?cs)"
    using rc_mapped_total_split(2) [of _ manifest only repos] by (metis (no_types, lifting) map_cong)
  ultimately show ?thesis
    using reconcile_attention_zero [OF assms(1) r] by (simp add: r reconcile_totals_def sum_list_addf)
qed

theorem reconcile_totals_consistent_witness:
  "rr_mapped_total (fst (reconcile_execute ex_manifest None 8 ex_repos [])) =
    rr_imported_count (fst (reconcile_execute ex_manifest None 8 ex_repos []))
    + rr_failed_count (fst (reconcile_execute ex_manifest None 8 ex_repos []))
    + rr_ambiguous_count (fst (reconcile_execute ex_manifest None 8 ex_repos []))
    + rr_processing_count (fst (reconcile_execute ex_manifest None 8 ex_repos []))"
  using reconcile_totals_consistent [OF keyed_ex_repos surjective_pairing] by blast

text \<open>
  Taking an inventory replaces the migration's snapshots: afterwards it has one for each
  listed dialog and no other, with the dialog's counts and the time of the capture; the
  inventories of other migrations stay; a listing that keeps failing changes nothing.
\<close>

theorem inventory_replaces:
  assumes "inventory_execute policy rnd list_dialogs manifest captured g (repo, evs) = (res, g', repo', evs')"
  shows "(\<forall>e. res = Inl e \<longrightarrow> repo' = repo \<and> evs' = evs)
    \<and> (\<forall>r. res = Inr r \<longrightarrow> (\<exists>dialogs slept. retry_run policy rnd list_dialogs g = (Inr dialogs, g', slept)
        \<and> ir_messages_total r = sum_list (map sd_message_count dialogs)
        \<and> (\<forall>k. inventory_get repo' k =
            (if fst k \<noteq> mf_migration_id manifest then inventory_get repo k
             else map_option (\<lambda>d. snapshot_of (mf_migration_id manifest) captured (from_source_dialog d))
               (List.find (\<lambda>d. sd_dialog_id d = snd k) (rev dialogs))))))"
proof -
  obtain x g1 slept where run: "retry_run policy rnd list_dialogs g = (x, g1, slept)" by (metis surj_pair)
  show ?thesis
  proof (cases x)
    case (Inl e)
    with run assms show ?thesis by (auto simp: inventory_execute_def)
  next
    case (Inr dialogs)
    obtain r repo1 evs1 where p: "inventory_persist (mf_migration_id manifest) dialogs captured (repo, evs)
        = (r, repo1, evs1)" by (metis surj_pair)
    with Inr run assms have eq: "res = Inr r" "g' = g1" "repo' = repo1"
      by (auto simp: inventory_execute_def)
    have "ir_messages_total r = sum_list (map sd_message_count dialogs)"
      using p by (auto simp: inventory_persist_def inventory_result_of_def from_source_dialog_def
          Let_def o_def)
    with inventory_persist_get [OF p] run Inr eq show ?thesis by auto
  qed
qed

lemma ex_inventory: "inventory_execute default_retry_policy (\<lambda>_. 0) ex_list_dialogs ex_manifest 5 0 ([], []) =
  (Inr (inventory_result_of ''m'' [from_source_dialog ex_source_dialog]), 1,
   [((''m'', ''c''), snapshot_of ''m'' 5 (from_source_dialog ex_source_dialog))],
   snd (snd (inventory_persist ''m'' [ex_source_dialog] 5 ([], []))))"
  by (simp add: inventory_execute_def retry_run_def retry_from.simps ex_list_dialogs_def
      inventory_persist_def inventory_replace_for_migration_def inventory_key_def snapshot_of_def
      from_source_dialog_def ex_source_dialog_def ex_manifest_def Let_def)

theorem inventory_replaces_witness:
  "\<exists>dialogs slept. retry_run default_retry_policy (\<lambda>_. 0) ex_list_dialogs 0 = (Inr dialogs, 1, slept)
    \<and> ir_messages_total (inventory_result_of ''m'' [from_source_dialog ex_source_dialog]) =
      sum_list (map sd_message_count dialogs)"
  using mp [OF spec [OF conjunct2 [OF inventory_replaces [OF ex_inventory]],
        of "inventory_result_of ''m'' [from_source_dialog ex_source_dialog]"] refl]
  by blast


section \<open>Identities, bindings and configurations\<close>

text \<open>
  The two indexes of the CTS bindings always agree: after any sequence of saves, refused
  ones included, a binding found by HUID is filed under its own HUID and found by its email, and
  conversely, so no HUID and no email leads to an outdated record.
\<close>

theorem cts_indexes_agree:
  "(dict_get (fst (run_saves cts_save qs ([], []))) h = Some r \<longrightarrow> ub_target_huid r = Some h
      \<and> (\<forall>e. ub_corporate_email r = Some e \<longrightarrow> dict_get (snd (run_saves cts_save qs ([], []))) e = Some r))
    \<and> (dict_get (snd (run_saves cts_save qs ([], []))) m = Some r' \<longrightarrow> ub_corporate_email r' = Some m
      \<and> (\<forall>h. ub_target_huid r' = Some h \<longrightarrow> dict_get (fst (run_saves cts_save qs ([], []))) h = Some r'))"
proof -
  have "cts_inv (run_saves cts_save qs ([], []))"
    by (rule cts_bindings.inv_run_saves [OF cts_inv_init]) simp
  from cts_bindings.linked_A [OF this] cts_bindings.linked_B [OF this] show ?thesis by blast
qed

lemma ex_bindings: "run_saves cts_save [(ex_binding, 5)] ([], []) =
  (let r = \<lparr>ub_cts_host = ''cts.example'', ub_target_huid = Some ''h'', ub_corporate_email = Some ''a@b.c'',
     ub_created_at = Some 5, ub_updated_at = Some 5, ub_last_verified_at = None\<rparr>
   in ([(''h'', r)], [(''a@b.c'', r)]))"
  by code_simp

theorem cts_indexes_agree_witness:
  "dict_get (snd (run_saves cts_save [(ex_binding, 5)] ([], []))) ''a@b.c'' =
    dict_get (fst (run_saves cts_save [(ex_binding, 5)] ([], []))) ''h''"
proof -
  obtain r where r: "dict_get (fst (run_saves cts_save [(ex_binding, 5)] ([], []))) ''h'' = Some r"
    "ub_corporate_email r = Some ''a@b.c''" by (simp add: ex_bindings Let_def del: run_saves.simps)
  with cts_indexes_agree [of "[(ex_binding, 5)]" "''h''" r] show ?thesis by simp
qed

text \<open>
  A person is not confused with another: after any sequence of saves whose express hosts are
  absent or not blank, two Telegram user ids never lead to records of the same username on one
  host, and a record found by user id is the one found by its username.
\<close>

theorem identities_unambiguous:
  assumes "\<forall>q \<in> set qs. identity_valid q"
    and "dict_get (fst (run_saves identity_save qs ([], []))) a = Some r"
    and "identity_name_key r = Some b"
  shows "identity_user_key r = Some a
    \<and> dict_get (snd (run_saves identity_save qs ([], []))) b = Some r
    \<and> (\<forall>a' r'. dict_get (fst (run_saves identity_save qs ([], []))) a' = Some r' \<longrightarrow>
        identity_name_key r' = Some b \<longrightarrow> a' = a \<and> r' = r)"
proof -
  have inv: "identity_inv (run_saves identity_save qs ([], []))"
    by (rule identities.inv_run_saves [OF identity_inv_init assms(1)])
  show ?thesis
    using identities.linked_A [OF inv assms(2)] identities.indexes_agree [OF inv assms(2,3)]
      identities.one_A_per_B [OF inv _ assms(2) _ assms(3)] by blast
qed

lemma ex_identities: "run_saves identity_save [(ex_identity, 5)] ([], []) =
  (let r = ex_identity\<lparr>im_telegram_username := Some ''bob'', im_created_at := Some 5, im_updated_at := Some 5\<rparr>
   in ([((None, ''7''), r)], [((None, ''bob''), r)]))"
  by code_simp

theorem identities_unambiguous_witness:
  "dict_get (snd (run_saves identity_save [(ex_identity, 5)] ([], []))) (None, ''bob'') =
    dict_get (fst (run_saves identity_save [(ex_identity, 5)] ([], []))) (None, ''7'')"
proof -
  let ?r = "ex_identity\<lparr>im_telegram_username := Some ''bob'', im_created_at := Some 5, im_updated_at := Some 5\<rparr>"
  have r: "dict_get (fst (run_saves identity_save [(ex_identity, 5)] ([], []))) (None, ''7'') = Some ?r"
    "identity_name_key ?r = Some (None, ''bob'')"
    by (simp_all add: ex_identities Let_def del: run_saves.simps)
      (simp add: identity_name_key_def host_key_def ex_identity_def)
  have "\<forall>q \<in> set [(ex_identity, 5)]. identity_valid q"
    by (simp add: identity_valid_def ex_identity_def normalized_def)
  from identities_unambiguous [OF this r] r(1) show ?thesis by simp
qed

text \<open>
  A chat's configuration belongs to the operator who made it: no sequence of saves changes
  its owner or its creation time, and saves by others change nothing at all.
\<close>

theorem config_owner_kept:
  assumes "chat_config_get repo k = Some old"
  shows "\<exists>new. chat_config_get (fold (\<lambda>r s. snd (chat_config_save r s)) rs repo) k = Some new
    \<and> cc_updated_by_huid new = cc_updated_by_huid old \<and> cc_created_at new = cc_created_at old
    \<and> ((\<forall>r \<in> set rs. cc_updated_by_huid r \<noteq> cc_updated_by_huid old) \<longrightarrow> new = old)"
  using assms
proof (induction rs arbitrary: repo old)
  case Nil
  then show ?case by simp
next
  case (Cons r rs)
  from chat_config_save_owner [OF Cons.prems, of r] obtain mid where
    mid: "chat_config_get (snd (chat_config_save r repo)) k = Some mid"
      "cc_updated_by_huid mid = cc_updated_by_huid old" "cc_created_at mid = cc_created_at old"
      "cc_updated_by_huid r \<noteq> cc_updated_by_huid old \<longrightarrow> mid = old" by blast
  from Cons.IH [OF mid(1)] mid(2-4) show ?case by auto
qed

theorem config_owner_kept_witness:
  "\<exists>new. chat_config_get (snd (chat_config_save (ex_config\<lparr>cc_updated_by_huid := ''other'',
      cc_reply_mode := ''none''\<rparr>) [((''m'', ''c''), ex_config)])) (''m'', ''c'') = Some new \<and> new = ex_config"
  using config_owner_kept [of "[((''m'', ''c''), ex_config)]" "(''m'', ''c'')" ex_config
      "[ex_config\<lparr>cc_updated_by_huid := ''other'', cc_reply_mode := ''none''\<rparr>]"]
  by (simp add: chat_config_get_def ex_config_def)

section \<open>Telegram logins\<close>

text \<open>
  A stored Telegram session can be read back: whatever the cipher's constructor accepted and
  \<open>encrypt\<close> produced, \<open>decrypt\<close> returns the session without its outer blanks, provided the key
  version has no colon.
\<close>

theorem cipher_round_trip:
  assumes "make_session_cipher master version seal opn = Inr c" and "cipher_lawful c"
    and "CHR '':'' \<notin> set version" and "cipher_encrypt c nonce session = Inr x"
  shows "cipher_decrypt c x = Inr (py_strip session)"
proof -
  have v: "cy_key_version c = py_strip version" "py_strip version \<noteq> []"
    using assms(1) by (auto simp: make_session_cipher_def split: if_splits)
  have "set (py_strip version) \<subseteq> set version"
    unfolding py_strip_def py_lstrip_def py_rstrip_def
    by (metis set_dropWhileD set_rev subsetI)
  with v assms(3) have "CHR '':'' \<notin> set (cy_key_version c)" by auto
  from cipher_round_trip_aux [OF assms(2) v this assms(4)] show ?thesis by blast
qed

theorem cipher_round_trip_witness: "cipher_decrypt ex_cipher ''v1:[abc]'' = Inr ''abc''"
proof -
  have "make_session_cipher ''k'' ''v1'' (\<lambda>m. cy_seal ex_cipher) (\<lambda>m. cy_open ex_cipher) = Inr ex_cipher"
  proof -
    have "py_strip ''k'' = ''k''" "py_strip ''v1'' = ''v1''" by code_simp+
    then show ?thesis by (simp add: make_session_cipher_def ex_cipher_def)
  qed
  moreover have "cipher_encrypt ex_cipher ''n'' '' abc '' = Inr ''v1:[abc]''" "py_strip '' abc '' = ''abc''"
    by code_simp+
  ultimately show ?thesis using cipher_round_trip [OF _ cipher_lawful_ex] by fastforce
qed

text \<open>
  A login that reports a connection has one: when the code of a challenge is accepted, the
  operator's session resolves to the session string Telegram gave, at any later time, and the
  reported status is bound and shows only the masked phone number.
\<close>

theorem login_resolves:
  assumes "dict_ok (ss_challenges s)" and "cipher_lawful (sv_cipher cfg)"
    and "cy_key_version (sv_cipher cfg) = py_strip version" and "py_strip version \<noteq> []"
    and "CHR '':'' \<notin> set (cy_key_version (sv_cipher cfg))"
    and "complete_code cfg login operator k code env s = (Inr (Status st), s')"
  shows "\<exists>c b. dict_get (ss_challenges s) k = Some c \<and> login c code = Inr b
    \<and> fst (resolve_session_string cfg operator mark env' s') = Inr (py_strip (bo_session_string b))
    \<and> su_session_bound st \<and> su_phone_number st = Some (mask_phone_number (bo_phone_number b))"
proof -
  have auth: "service_authorize cfg operator = None"
    using assms(6) by (cases "service_authorize cfg operator") (simp_all add: complete_code_def)
  from assms(6) obtain c s1 b where ch: "service_challenge operator k env s = (Inr c, s1)"
    and b: "login c code = Inr b" "connect_session cfg operator ''code_confirmation'' b env
      (s1\<lparr>ss_challenges := dict_pop k (ss_challenges s1)\<rparr>) = (Inr (Status st), s')"
    by (rule complete_code_connected)
  from service_challenge_Inr [OF assms(1) ch]
  have get: "dict_get (ss_challenges s) k = Some c" by blast
  from connect_session_Inr [OF b(2)] obtain r where r: "session_get (ss_sessions s') operator = Some r"
    "cipher_encrypt (sv_cipher cfg) (ev_nonce env) (bo_session_string b) = Inr (os_session_path r)"
    "os_phone_number r = mask_phone_number (bo_phone_number b)"
    "st = status_from_record (sv_cipher cfg) r" by auto
  from cipher_round_trip_aux [OF assms(2-5) r(2)]
  have dec: "cipher_decrypt (sv_cipher cfg) (os_session_path r) = Inr (py_strip (bo_session_string b))"
    and bound: "has_bound_session r" by (auto simp: has_bound_session_def)
  have d: "decrypt_session (sv_cipher cfg) r = Some (py_strip (bo_session_string b))"
    by (simp add: decrypt_session_def bound dec)
  show ?thesis
    using get b(1) auth r bound d
    by (intro exI [of _ c] exI [of _ b]) (simp add: resolve_session_string_def status_from_record_def)
qed

lemma ex_complete: "complete_code ex_service ex_login ''op'' ''u'' ''12345'' ex_env ex_service_state =
  (Inr (Status \<lparr>su_operator_huid = ''op'', su_connected = True, su_source = ''operator_binding'',
     su_phone_number = Some ''+7***22'', su_telegram_user_id = Some ''7'',
     su_telegram_username = Some ''bob'', su_telegram_display_name = Some ''Bob'',
     su_session_bound = True, su_updated_at = Some 13, su_last_used_at = Some 13\<rparr>),
   snd (complete_code ex_service ex_login ''op'' ''u'' ''12345'' ex_env ex_service_state))"
proof -
  have "fst (complete_code ex_service ex_login ''op'' ''u'' ''12345'' ex_env ex_service_state) =
    Inr (Status \<lparr>su_operator_huid = ''op'', su_connected = True, su_source = ''operator_binding'',
     su_phone_number = Some ''+7***22'', su_telegram_user_id = Some ''7'',
     su_telegram_username = Some ''bob'', su_telegram_display_name = Some ''Bob'',
     su_session_bound = True, su_updated_at = Some 13, su_last_used_at = Some 13\<rparr>)"
    by code_simp
  then show ?thesis by (metis prod.collapse)
qed

lemma ex_service_facts:
  "dict_ok (ss_challenges ex_service_state)" "cipher_lawful (sv_cipher ex_service)"
  "cy_key_version (sv_cipher ex_service) = py_strip ''v1''" "py_strip ''v1'' \<noteq> []"
  "CHR '':'' \<notin> set (cy_key_version (sv_cipher ex_service))"
proof -
  show "cipher_lawful (sv_cipher ex_service)" by (simp add: ex_service_def cipher_lawful_ex)
  have v: "py_strip ''v1'' = ''v1''" by code_simp
  then show "py_strip ''v1'' \<noteq> []" "cy_key_version (sv_cipher ex_service) = py_strip ''v1''"
    "CHR '':'' \<notin> set (cy_key_version (sv_cipher ex_service))"
    by (simp_all add: ex_service_def ex_cipher_def)
  show "dict_ok (ss_challenges ex_service_state)" by (simp add: ex_service_state_def)
qed

theorem login_resolves_witness:
  "fst (resolve_session_string ex_service ''op'' True ex_env
    (snd (complete_code ex_service ex_login ''op'' ''u'' ''12345'' ex_env ex_service_state))) =
   Inr (py_strip ''sess'')"
  using login_resolves [OF ex_service_facts ex_complete, of True ex_env]
  by (auto simp: ex_login_def ex_bootstrap_def)

text \<open>
  C38: a login challenge serves its operator, in time, and once: a code is only accepted against a
  pending challenge of the same operator that has not expired, and after it connected a session
  no code or password of anybody is accepted against that challenge again.
\<close>

theorem challenge_single_use:
  assumes "dict_ok (ss_challenges s)" and "complete_code cfg login operator k code env s = (Inr a, s')"
  shows "(\<exists>c. dict_get (ss_challenges s) k = Some c \<and> ch_operator_huid c = operator
        \<and> ev_check env < ch_expires_at c)
    \<and> (\<forall>st op2 code2 env2 login2. a = Status st \<longrightarrow>
        isl (fst (complete_code cfg login2 op2 k code2 env2 s'))
        \<and> isl (fst (complete_password cfg login2 op2 k code2 env2 s')))"
proof -
  from assms(2) obtain c s1 where ch: "service_challenge operator k env s = (Inr c, s1)"
    by (rule complete_code_Inr) blast+
  from service_challenge_Inr [OF assms(1) ch]
  have get: "dict_get (ss_challenges s) k = Some c" "ch_operator_huid c = operator"
    "ev_check env < ch_expires_at c" by blast+
  have gone: "isl (fst (service_challenge op2 k env2 s'))" if st: "a = Status st" for op2 env2 st
  proof -
    from assms(2) [unfolded st] obtain c2 s2 b where ch2: "service_challenge operator k env s = (Inr c2, s2)"
      and b: "connect_session cfg operator ''code_confirmation'' b env
         (s2\<lparr>ss_challenges := dict_pop k (ss_challenges s2)\<rparr>) = (Inr (Status st), s')"
      by (rule complete_code_connected)
    from service_challenge_Inr [OF assms(1) ch2] connect_session_challenges [OF b]
    have store: "ss_challenges s' = dict_pop k (challenge_cleanup (ev_check env) (ss_challenges s))" by simp
    have "dict_ok (ss_challenges s')" unfolding store using assms(1) by (intro dict_ok_pop dict_ok_cleanup)
    then have "dict_get (challenge_cleanup (ev_check env2) (ss_challenges s')) k = None"
      by (simp add: challenge_cleanup_get) (simp add: store)
    then show ?thesis by (simp add: service_challenge_def challenge_get_def Let_def)
  qed
  have refused: "isl (fst (complete_code cfg login2 op2 k code2 env2 s'))
      \<and> isl (fst (complete_password cfg login2 op2 k code2 env2 s'))"
    if "a = Status st" for st op2 code2 env2 login2
    using gone [OF that, of op2 env2]
    by (cases "service_challenge op2 k env2 s'"; cases "fst (service_challenge op2 k env2 s')";
        cases "service_authorize cfg op2")
      (simp_all add: complete_code_def complete_password_def)
  show ?thesis using get refused by blast
qed

theorem challenge_single_use_witness:
  "isl (fst (complete_password ex_service ex_login ''op'' ''u'' ''pw'' ex_env
    (snd (complete_code ex_service ex_login ''op'' ''u'' ''12345'' ex_env ex_service_state))))"
  using challenge_single_use [OF ex_service_facts(1) ex_complete] by blast

lemma password_needs_flag:
  assumes ok: "dict_ok (ss_challenges s)"
    and run: "complete_password cfg login operator k password env s = (Inr a, s')"
  shows "\<exists>c. dict_get (ss_challenges s) k = Some c \<and> ch_requires_password c \<and> ch_operator_huid c = operator"
proof -
  from run have auth: "service_authorize cfg operator = None"
    by (cases "service_authorize cfg operator") (simp_all add: complete_password_def)
  obtain x s1 where ch: "service_challenge operator k env s = (x, s1)" by fastforce
  with run auth obtain c where c: "x = Inr c" by (cases x) (simp_all add: complete_password_def)
  from service_challenge_Inr [OF ok ch [unfolded c]]
  have "dict_get (ss_challenges s) k = Some c" "ch_operator_huid c = operator" by blast+
  moreover have "ch_requires_password c"
    using run auth ch c by (auto simp: complete_password_def split: if_splits)
  ultimately show ?thesis by blast
qed

lemma flag_needs_two_factor:
  assumes ok: "dict_ok (ss_challenges s)"
    and run: "complete_code cfg login operator k code env s = (a, s')"
    and c': "dict_get (ss_challenges s') k = Some c'" "ch_requires_password c'"
  shows "\<exists>c. dict_get (ss_challenges s) k = Some c \<and>
    (ch_requires_password c \<or> (\<exists>m. login c code = Inl (TwoFactorPasswordRequiredError m)))"
proof -
  have old: "\<exists>c. dict_get (ss_challenges s) k = Some c \<and> c = c'"
    if "dict_get (challenge_cleanup t (ss_challenges s)) k = Some c'" for t
    using that by (auto simp: challenge_cleanup_get [OF ok] split: option.splits if_splits)
  show ?thesis
  proof (cases "service_authorize cfg operator")
    case (Some e)
    with run c' show ?thesis by (auto simp: complete_code_def)
  next
    case None
    obtain x s1 where ch: "service_challenge operator k env s = (x, s1)" by fastforce
    have s1: "ss_challenges s1 = challenge_cleanup (ev_check env) (ss_challenges s)"
      using ch by (auto simp: service_challenge_def challenge_get_def Let_def split: option.splits if_splits)
    show ?thesis
    proof (cases x)
      case (Inl e)
      with run None ch c' s1 old show ?thesis by (auto simp: complete_code_def)
    next
      case (Inr c)
      from service_challenge_Inr [OF ok ch [unfolded Inr]]
      have get: "dict_get (ss_challenges s) k = Some c" by blast
      show ?thesis
      proof (cases "login c code")
        case (Inr b)
        with run None ch \<open>x = Inr c\<close> have b: "connect_session cfg operator ''code_confirmation'' b env
            (s1\<lparr>ss_challenges := dict_pop k (ss_challenges s1)\<rparr>) = (a, s')"
          by (simp add: complete_code_def challenge_delete_def)
        from connect_session_challenges [OF b] c'(1) show ?thesis by simp
      next
        case (Inl e)
        show ?thesis
        proof (cases "\<exists>m. e = TwoFactorPasswordRequiredError m")
          case True
          with get Inl show ?thesis by auto
        next
          case False
          with run None ch \<open>x = Inr c\<close> Inl have "s' = s1"
            by (cases e) (simp_all add: complete_code_def)
          with c' s1 old show ?thesis by auto
        qed
      qed
    qed
  qed
qed

text \<open>
  The password step exists only after Telegram asked for it: a password is only accepted
  against a challenge that is flagged, and a code only flags a challenge when the login call
  raised that a two-factor password is required.
\<close>

theorem password_after_two_factor:
  assumes "dict_ok (ss_challenges s)"
  shows "(\<forall>a s'. complete_password cfg login operator k password env s = (Inr a, s') \<longrightarrow>
        (\<exists>c. dict_get (ss_challenges s) k = Some c \<and> ch_requires_password c \<and> ch_operator_huid c = operator))
    \<and> (\<forall>a s' c'. complete_code cfg login operator k code env s = (a, s') \<longrightarrow>
        dict_get (ss_challenges s') k = Some c' \<longrightarrow> ch_requires_password c' \<longrightarrow>
        (\<exists>c. dict_get (ss_challenges s) k = Some c \<and>
          (ch_requires_password c \<or> (\<exists>m. login c code = Inl (TwoFactorPasswordRequiredError m)))))"
  using password_needs_flag [OF assms] flag_needs_two_factor [OF assms] by blast

theorem password_after_two_factor_witness:
  "\<not> (\<exists>a s'. complete_password ex_service ex_login ''op'' ''u'' ''pw'' ex_env ex_service_state = (Inr a, s'))"
proof -
  have "dict_get (ss_challenges ex_service_state) ''u'' = Some ex_challenge" "\<not> ch_requires_password ex_challenge"
    by (simp_all add: ex_service_state_def ex_challenge_def)
  with password_after_two_factor [OF ex_service_facts(1), where cfg = ex_service and login = ex_login
      and operator = "''op''" and k = "''u''" and password = "''pw''" and env = ex_env]
  show ?thesis by auto
qed

section \<open>Commands and retries\<close>

text \<open>
  Any arguments can be passed to a command: single-quoted and joined with blanks, words
  without a single quote come back as they were, blanks and backslashes included; those without an
  equal sign as positionals, \<open>key=value\<close> words as options under the normalised key, the last one
  of a key winning.
\<close>

theorem arguments_round_trip:
  assumes "\<forall>w \<in> set ps. squote \<notin> set w \<and> CHR ''='' \<notin> set w"
    and "\<forall>kv \<in> set kvs. squote \<notin> set (fst kv) \<and> squote \<notin> set (snd kv)
      \<and> CHR ''='' \<notin> set (fst kv) \<and> option_key (fst kv) \<noteq> []"
  shows "parse_arguments (join_words (ps @ map option_word kvs)) = Inr \<lparr>pa_positionals = ps,
    pa_options = fold (\<lambda>kv. dict_set (option_key (fst kv)) (py_strip (snd kv))) kvs []\<rparr>"
proof -
  have "squote \<noteq> CHR ''=''" by (simp add: squote_def)
  with assms have "shlex_split (join_words (ps @ map option_word kvs)) = Inr (ps @ map option_word kvs)"
    unfolding shlex_split_def by (intro shlex_join_words) (auto simp: option_word_def)
  with assms show ?thesis
    by (simp add: parse_arguments_def parse_tokens_positionals parse_tokens_options)
qed

theorem arguments_round_trip_witness:
  "parse_arguments (join_words [''a b'', '''', ''Batch-Size=1'']) =
    Inr \<lparr>pa_positionals = [''a b'', ''''], pa_options = [(''batch_size'', ''1'')]\<rparr>"
proof -
  have "option_key ''Batch-Size'' = ''batch_size''" "py_strip ''1'' = ''1''" by code_simp+
  then show ?thesis
    using arguments_round_trip [of "[''a b'', '''']" "[(''Batch-Size'', ''1'')]"]
    by (simp add: squote_def option_word_def)
qed

text \<open>
  A migration command is either understood completely or refused: when \<open>/migrate_all\<close>
  arguments are accepted there were no positional words, every option given is one the command
  knows, the progress policy is one of the two, and a batch size is positive.
\<close>

theorem migrate_all_understood:
  assumes "parse_migrate_all_options argument = Inr r"
  shows "\<exists>p. parse_arguments argument = Inr p \<and> pa_positionals p = []
    \<and> (\<forall>k. dict_get (pa_options p) k \<noteq> None \<longrightarrow> k \<in> set run_option_keys)
    \<and> ro_progress_policy r \<in> {''resume'', ''ask''} \<and> (\<forall>n. ro_batch_size r = Some n \<longrightarrow> 0 < n)"
proof -
  obtain p where p: "parse_arguments argument = Inr p" "to_run_options p = Inr r"
    using assms by (auto simp: parse_migrate_all_options_def split: sum.splits if_splits)
  with to_run_options_Inr [OF p(2)] show ?thesis by blast
qed

lemma ex_migrate_all: "parse_migrate_all_options ''media=on batch=50 access=link'' =
  Inr (default_run_options\<lparr>ro_migrate_media := Some True, ro_access_strategy := Some ''invite_link'',
    ro_batch_size := Some 50\<rparr>)"
  by code_simp

theorem migrate_all_understood_witness:
  "\<exists>p. parse_arguments ''media=on batch=50 access=link'' = Inr p \<and> pa_positionals p = []"
  using migrate_all_understood [OF ex_migrate_all] by blast

text \<open>
  A retried operation is bounded and honest: it is called at least once and at most
  \<open>max_attempts\<close> times (once when that is not positive), sleeping once between calls; the result
  is that of the last call, and all calls before it failed with a retryable error; a retryable
  failure is only returned when the attempts are used up.
\<close>

theorem retry_bounded:
  assumes "retry_run p rnd operation s = (x, s', slept)"
  shows "\<exists>n. x = nth_result operation n s \<and> s' = after_calls operation (Suc n) s
    \<and> length slept = n \<and> (n = 0 \<or> 1 + int n \<le> rp_max_attempts p)
    \<and> (\<forall>i < n. retryable p (nth_result operation i s))
    \<and> (retryable p x \<longrightarrow> rp_max_attempts p \<le> 1 + int n)"
proof -
  from retry_from_spec [OF assms [unfolded retry_run_def]] show ?thesis
    by (metis (no_types, lifting) append_Nil length_map length_upt diff_zero)
qed

theorem retry_bounded_witness:
  "length (snd (snd (retry_run default_retry_policy (\<lambda>_. 0) ex_list_dialogs 0))) < 3"
proof -
  obtain x s' slept where "retry_run default_retry_policy (\<lambda>_. 0) ex_list_dialogs 0 = (x, s', slept)"
    by (metis surj_pair)
  from retry_bounded [OF this] this show ?thesis by (auto simp: default_retry_policy_def)
qed

section \<open>Bot commands: admitting and cancelling jobs\<close>

text \<open>
  C39: a job is accepted only when none of the migration's queued or leased jobs overlaps the
  requested chats and both backpressure thresholds leave room; acceptance stores exactly one new
  job, queued for the operator and the chats under the reported key, and, when an outbox is
  configured, its pending event.
\<close>

theorem accepted_start_sound:
  assumes "start_background_operation cfg env operator operation manifest ids options s = (Inr r, s')"
    and "ar_status r = ''accepted''"
  shows "\<exists>j. ar_job_key r = Some (job_key j) \<and> job_fresh j \<and> job_source_chat_ids j = ids
    \<and> job_operator_huid j = op_huid operator
    \<and> job_get (bs_jobs s) (job_key j) = None \<and> bs_jobs s' = dict_set (job_key j) j (bs_jobs s)
    \<and> (\<forall>a \<in> set (dict_values (bs_jobs s)). job_migration_id a = mf_migration_id manifest
        \<and> is_effectively_active_job (be_active env (job_key a)) a
        \<longrightarrow> \<not> jobs_conflict (job_source_chat_ids a) ids)
    \<and> below_threshold (bc_max_queued_jobs cfg) JobQueued (bs_jobs s)
    \<and> below_threshold (bc_max_running_jobs cfg) JobRunning (bs_jobs s)
    \<and> (\<forall>out. bs_outbox s = Some out \<longrightarrow> (\<exists>out' ev. bs_outbox s' = Some out'
        \<and> outbox_get out' (be_event_uuid env) = Some ev \<and> ob_status ev = OutPending
        \<and> ob_aggregate_id ev = job_key j))"
  using assms(1)
proof (cases rule: start_background_operation_cases)
  case (accepted r' j ev)
  note check = admission_check_None [OF accepted(5)] and room = backpressure_None [OF admission_check_None(2) [OF accepted(5)]]
  have "\<exists>out' ev. bs_outbox s' = Some out' \<and> outbox_get out' (be_event_uuid env) = Some ev
      \<and> ob_status ev = OutPending \<and> ob_aggregate_id ev = job_key j" if "bs_outbox s = Some out" for out
    using accepted that by (intro exI [of _ "outbox_append_many [ev] out"] exI [of _ ev])
      (simp add: outbox_append_many_def outbox_get_def)
  with accepted check(1) room show ?thesis
    by (intro exI [of _ j]) simp
qed (use assms(2) in auto)

theorem accepted_start_sound_witness:
  "\<exists>j. job_get (bs_jobs (snd ex_start)) ''migrate_chat:m:c:0123456789ab'' = Some j \<and> job_fresh j
    \<and> job_source_chat_ids j = [''c'']"
proof -
  have status: "(case fst ex_start of Inl _ \<Rightarrow> False | Inr r \<Rightarrow> ar_status r = ''accepted''
      \<and> ar_job_key r = Some ''migrate_chat:m:c:0123456789ab'')" by code_simp
  then obtain r where r: "fst ex_start = Inr r" "ar_status r = ''accepted''"
    "ar_job_key r = Some ''migrate_chat:m:c:0123456789ab''" by (auto split: sum.splits)
  then have start: "start_background_operation ex_bot_config ex_bot_env ex_operator ''migrate_chat''
      ex_manifest [''c''] default_run_options ex_bot_state = (Inr r, snd ex_start)"
    by (simp add: ex_start_def prod_eq_iff)
  from accepted_start_sound [OF start r(2)] r(3) show ?thesis by (auto simp: job_get_def)
qed

text \<open>
  A start that overlaps a queued job of the migration, or a running one whose lease has not
  run out, is refused as already running: it names that job and changes nothing at all.
\<close>

theorem overlapping_start_refused:
  assumes "a \<in> set (dict_values (bs_jobs s))" and "job_migration_id a = mf_migration_id manifest"
    and "is_effectively_active_job (be_active env (job_key a)) a"
    and "jobs_conflict (job_source_chat_ids a) ids"
  shows "\<exists>r. start_background_operation cfg env operator operation manifest ids options s = (Inr r, s)
    \<and> ar_status r = ''already_running'' \<and> bot_active_job_from_record a \<in> set (ar_active_jobs r)
    \<and> ar_already_running_source_chat_ids r = ids"
proof -
  let ?active = "filter (\<lambda>j. jobs_conflict (aj_source_chat_ids j) ids)
    (list_active_jobs (be_active env) (mf_migration_id manifest) None (bs_jobs s))"
  have mem: "bot_active_job_from_record a \<in> set ?active"
    using assms list_active_jobs_mem [of "bot_active_job_from_record a"]
    by (auto simp: bot_active_job_from_record_def)
  then have "?active \<noteq> []" by (metis empty_iff list.set(1))
  with mem show ?thesis
    by (simp add: start_background_operation_def admission_check_def Let_def)
qed

theorem overlapping_start_refused_witness:
  "\<exists>r. start_background_operation ex_bot_config ex_bot_env ex_operator ''migrate_chat'' ex_manifest
      [''c''] default_run_options ex_busy_state = (Inr r, ex_busy_state)
    \<and> ar_status r = ''already_running''"
proof -
  have "\<exists>r. start_background_operation ex_bot_config ex_bot_env ex_operator ''migrate_chat'' ex_manifest
      [''c''] default_run_options ex_busy_state = (Inr r, ex_busy_state)
    \<and> ar_status r = ''already_running'' \<and> bot_active_job_from_record ex_job \<in> set (ar_active_jobs r)
    \<and> ar_already_running_source_chat_ids r = [''c'']"
    by (rule overlapping_start_refused) (simp_all add: ex_busy_state_def ex_bot_state_def ex_jobs_def ex_job_def
        ex_manifest_def is_effectively_active_job_def jobs_conflict_def)
  then show ?thesis by blast
qed

text \<open>
  C40: a command for many chats reports each requested chat exactly once, as accepted, blocked or
  already running; every accepted chat has its own queued job under the key reported beside it.
\<close>

theorem fan_out_partitions:
  assumes "start_fan_out cfg envs operator aggregate operation manifest ids options s = (Inr r, s')"
  shows "mset (ar_accepted_source_chat_ids r) + mset (ar_blocked_source_chat_ids r)
      + mset (ar_already_running_source_chat_ids r) = mset ids
    \<and> list_all2 (\<lambda>k c. \<exists>j. job_get (bs_jobs s') k = Some j \<and> job_status j = JobQueued
        \<and> job_source_chat_ids j = [c]) (ar_job_keys r) (ar_accepted_source_chat_ids r)"
  using assms
proof (rule start_fan_out_ok)
  fix f
  assume ok: "fan_out_ok ids f (bs_jobs s')"
    and r: "r = fan_out_result aggregate (mf_migration_id manifest) ids f"
  show ?thesis
    using ok by (simp only: r fan_out_result_lists [OF ok]) (simp add: fan_out_ok_def)
qed

theorem fan_out_partitions_witness:
  "\<exists>r. fst ex_fan_out = Inr r \<and> ar_accepted_source_chat_ids r = [''d'']
    \<and> {#''d''#} + mset (ar_blocked_source_chat_ids r) + mset (ar_already_running_source_chat_ids r)
      = {#''c'', ''d''#}"
proof -
  have "(case fst ex_fan_out of Inl _ \<Rightarrow> False | Inr r \<Rightarrow> ar_accepted_source_chat_ids r = [''d''])"
    by code_simp
  then obtain r where r: "fst ex_fan_out = Inr r" "ar_accepted_source_chat_ids r = [''d'']"
    by (auto split: sum.splits)
  then have run: "start_fan_out ex_bot_config (\<lambda>_. ex_bot_env) ex_operator ''migrate_all'' ''migrate_chat''
     ex_manifest [''c'', ''d''] default_run_options ex_busy_state = (Inr r, snd ex_fan_out)"
    by (simp add: ex_fan_out_def prod_eq_iff)
  from fan_out_partitions [OF run] r show ?thesis by (auto simp: add.commute)
qed

end
